(* ===== verification/Prelude.thy ===== *)
theory Prelude
  imports Main "HOL-Library.Sublist"
begin

text \<open>
  Shared vocabulary of the development.

  Strings are UTF-8 byte lists (\<open>str\<close>, an Isabelle \<open>char\<close> is one byte), because the Rust
  code indexes \<open>&str\<close> by byte. Every scanner of the code compares against ASCII delimiters
  only, and no byte of a multi-byte UTF-8 sequence is ASCII, so walking by byte and walking by
  \<open>char\<close> give the same result.

  The collections below carry the component proofs: \<open>model_simps\<close> (unfolding equations of the
  small wrappers), \<open>wf_intros\<close> (well-formedness is kept), \<open>frame_simps\<close> (fields an operation
  leaves alone).
\<close>

named_theorems model_simps \<open>unfolding equations of small definitions\<close>
named_theorems wf_intros \<open>operations keep well-formedness\<close>
named_theorems frame_simps \<open>fields left alone by an operation\<close>

type_synonym str = string

section \<open>Lists\<close>

text \<open>\<open>Vec::contains\<close> then \<open>push\<close>: append only what is not there yet.\<close>

definition push_new :: "'a \<Rightarrow> 'a list \<Rightarrow> 'a list" where
  "push_new x xs = (if x \<in> set xs then xs else xs @ [x])"

lemma set_push_new [simp]: "set (push_new x xs) = insert x (set xs)"
  by (auto simp: push_new_def)

lemma distinct_push_new [simp]: "distinct (push_new x xs) = distinct xs"
  by (auto simp: push_new_def)

lemma push_new_idem [simp]: "push_new x (push_new x xs) = push_new x xs"
  by (simp add: push_new_def)

text \<open>\<open>Iterator::find\<close> is \<open>List.find\<close>; what it returns and when it returns nothing.\<close>

lemma find_SomeD: "find P xs = Some x \<Longrightarrow> x \<in> set xs \<and> P x"
  by (induction xs) (auto split: if_splits)

lemma find_None_iff: "find P xs = None \<longleftrightarrow> (\<forall>x \<in> set xs. \<not> P x)"
  by (induction xs) auto

lemma find_Some_ex: "find P xs \<noteq> None \<longleftrightarrow> (\<exists>x \<in> set xs. P x)"
  using find_None_iff [of P xs] by auto

lemma find_append_None: "find P xs = None \<Longrightarrow> find P (xs @ ys) = find P ys"
  by (induction xs) (auto split: if_splits)

text \<open>\<open>retain\<close> that keeps everything.\<close>

lemma length_filter_same: "length (filter P xs) = length xs \<longleftrightarrow> filter P xs = xs"
proof
  assume "length (filter P xs) = length xs"
  then have "\<forall>x \<in> set xs. P x" using length_filter_less [of _ xs P] by fastforce
  then show "filter P xs = xs" by simp
qed simp

text \<open>Keeping the first occurrence of every element (\<open>retain\<close> with a seen-set).\<close>

fun dedup_on :: "('a \<Rightarrow> 'b) \<Rightarrow> 'b list \<Rightarrow> 'a list \<Rightarrow> 'a list" where
  "dedup_on f seen [] = []"
| "dedup_on f seen (x # xs) =
     (if f x \<in> set seen then dedup_on f seen xs else x # dedup_on f (f x # seen) xs)"

lemma set_dedup_on_image:
  "f ` set (dedup_on f seen xs) = f ` set xs - set seen"
  by (induction xs arbitrary: seen) auto

lemma set_dedup_on_subset: "set (dedup_on f seen xs) \<subseteq> set xs"
  by (induction xs arbitrary: seen) (auto split: if_splits)

lemma distinct_dedup_on: "distinct (map f (dedup_on f seen xs))"
proof (induction xs arbitrary: seen)
  case (Cons x xs)
  have "f x \<notin> f ` set (dedup_on f (f x # seen) xs)"
    by (simp add: set_dedup_on_image)
  with Cons.IH show ?case by simp
qed simp

lemma dedup_on_id:
  "distinct (map f xs) \<Longrightarrow> f ` set xs \<inter> set seen = {} \<Longrightarrow> dedup_on f seen xs = xs"
  by (induction xs arbitrary: seen) auto

section \<open>Partial results\<close>

text \<open>\<open>Option<Result>\<close> style sequencing: \<open>None\<close> is \<open>does not return\<close>.\<close>

definition le_opt :: "'a option \<Rightarrow> 'a option \<Rightarrow> bool" where
  "le_opt a b \<longleftrightarrow> (\<forall>x. a = Some x \<longrightarrow> b = Some x)"

lemma le_opt_refl [simp, intro]: "le_opt a a"
  by (simp add: le_opt_def)

lemma le_opt_None [simp, intro]: "le_opt None b"
  by (simp add: le_opt_def)

lemma le_opt_SomeD: "le_opt a b \<Longrightarrow> a = Some x \<Longrightarrow> b = Some x"
  by (simp add: le_opt_def)

lemma le_opt_bind:
  "le_opt a b \<Longrightarrow> (\<And>x. a = Some x \<Longrightarrow> le_opt (f x) (g x)) \<Longrightarrow>
    le_opt (Option.bind a f) (Option.bind b g)"
  by (cases a) (auto simp: le_opt_def)

lemma le_opt_trans: "le_opt a b \<Longrightarrow> le_opt b c \<Longrightarrow> le_opt a c"
  by (simp add: le_opt_def)

section \<open>Association lists as hash maps\<close>

text \<open>
  A \<open>HashMap\<close> whose entries the code iterates over is an association list without duplicate
  keys; \<open>assoc_put\<close> is \<open>insert\<close>, \<open>assoc_del\<close> is \<open>remove\<close>.
\<close>

definition assoc_del :: "'k \<Rightarrow> ('k \<times> 'v) list \<Rightarrow> ('k \<times> 'v) list" where
  "assoc_del k m = filter (\<lambda>e. fst e \<noteq> k) m"

definition assoc_put :: "'k \<Rightarrow> 'v \<Rightarrow> ('k \<times> 'v) list \<Rightarrow> ('k \<times> 'v) list" where
  "assoc_put k v m = assoc_del k m @ [(k, v)]"

lemma map_of_assoc_del: "map_of (assoc_del k m) = (map_of m)(k := None)"
  by (induction m) (auto simp: assoc_del_def)

lemma map_of_assoc_put: "map_of (assoc_put k v m) = (map_of m)(k \<mapsto> v)"
  by (rule ext) (auto simp: assoc_put_def map_of_assoc_del map_add_def split: option.split)

lemma dom_assoc_del: "fst ` set (assoc_del k m) = fst ` set m - {k}"
  by (auto simp: assoc_del_def)

lemma dom_assoc_put: "fst ` set (assoc_put k v m) = insert k (fst ` set m)"
  by (auto simp: assoc_put_def dom_assoc_del)

lemma distinct_assoc_del: "distinct (map fst m) \<Longrightarrow> distinct (map fst (assoc_del k m))"
  by (simp add: assoc_del_def distinct_map_filter)

lemma distinct_assoc_put: "distinct (map fst m) \<Longrightarrow> distinct (map fst (assoc_put k v m))"
  using distinct_assoc_del [of m k] by (auto simp: assoc_put_def assoc_del_def)

lemma set_assoc_del: "set (assoc_del k m) = {e \<in> set m. fst e \<noteq> k}"
  by (auto simp: assoc_del_def)

end
