(* ===== verification/Rust_Str.thy ===== *)
theory Rust_Str
  imports Prelude
begin

text \<open>
  The \<open>&str\<close> operations of Rust's standard library that the modelled code calls, on byte
  strings: prefix and suffix tests, \<open>find\<close>, \<open>trim\<close> with Unicode white space (recognised by
  its UTF-8 bytes), \<open>split_ascii_whitespace\<close>, ASCII classes and case.
\<close>

abbreviation sq :: char where "sq \<equiv> CHR 0x27"
abbreviation dq :: char where "dq \<equiv> CHR 0x22"
abbreviation bs :: char where "bs \<equiv> CHR 0x5C"
abbreviation btick :: char where "btick \<equiv> CHR 0x60"
abbreviation tab :: char where "tab \<equiv> CHR 0x09"
abbreviation nl :: char where "nl \<equiv> CHR 0x0A"
abbreviation cr :: char where "cr \<equiv> CHR 0x0D"
abbreviation sp :: char where "sp \<equiv> CHR 0x20"

section \<open>Prefixes, suffixes, searching\<close>

abbreviation starts_with :: "str \<Rightarrow> str \<Rightarrow> bool" where
  "starts_with s p \<equiv> prefix p s"

abbreviation ends_with :: "str \<Rightarrow> str \<Rightarrow> bool" where
  "ends_with s p \<equiv> prefix (rev p) (rev s)"

definition str_strip_prefix :: "str \<Rightarrow> str \<Rightarrow> str option" where
  "str_strip_prefix s p = (if starts_with s p then Some (drop (length p) s) else None)"

definition str_strip_suffix :: "str \<Rightarrow> str \<Rightarrow> str option" where
  "str_strip_suffix s p =
     (if ends_with s p then Some (take (length s - length p) s) else None)"

lemma str_strip_prefix_append [simp]: "str_strip_prefix (p @ r) p = Some r"
  by (simp add: str_strip_prefix_def)

lemma str_strip_prefix_Some_iff: "str_strip_prefix s p = Some r \<longleftrightarrow> s = p @ r"
  by (auto simp: str_strip_prefix_def prefix_def)

lemma str_strip_prefix_None_iff: "str_strip_prefix s p = None \<longleftrightarrow> \<not> starts_with s p"
  by (simp add: str_strip_prefix_def)

text \<open>\<open>str::find(char)\<close> as the text before and after the first occurrence.\<close>

fun split_at_char :: "char \<Rightarrow> str \<Rightarrow> (str \<times> str) option" where
  "split_at_char c [] = None"
| "split_at_char c (x # xs) =
     (if x = c then Some ([], xs)
      else map_option (\<lambda>(a, b). (x # a, b)) (split_at_char c xs))"

lemma split_at_char_Some:
  "split_at_char c s = Some (a, b) \<longleftrightarrow> s = a @ c # b \<and> c \<notin> set a"
proof (induction s arbitrary: a)
  case (Cons x s)
  then show ?case by (cases a) auto
qed simp

lemma split_at_char_None: "split_at_char c s = None \<longleftrightarrow> c \<notin> set s"
  by (induction s) auto

lemma split_at_char_append [simp]:
  "c \<notin> set a \<Longrightarrow> split_at_char c (a @ c # b) = Some (a, b)"
  by (simp add: split_at_char_Some)

fun contains_str :: "str \<Rightarrow> str \<Rightarrow> bool" where
  "contains_str [] p = (p = [])"
| "contains_str (x # xs) p = (prefix p (x # xs) \<or> contains_str xs p)"

lemma contains_str_iff: "contains_str s p \<longleftrightarrow> (\<exists>a b. s = a @ p @ b)"
proof (induction s)
  case (Cons x s)
  show ?case
  proof
    assume "contains_str (x # s) p"
    then consider "prefix p (x # s)" | "contains_str s p" by auto
    then show "\<exists>a b. x # s = a @ p @ b"
    proof cases
      case 1
      then show ?thesis by (metis append_Nil prefixE)
    next
      case 2
      with Cons.IH show ?thesis by (metis append_Cons)
    qed
  next
    assume "\<exists>a b. x # s = a @ p @ b"
    then obtain a b where ab: "x # s = a @ p @ b" by blast
    then show "contains_str (x # s) p"
    proof (cases a)
      case Nil
      with ab show ?thesis by (metis append_Nil contains_str.simps(2) prefixI)
    next
      case (Cons y ys)
      with ab have "s = ys @ p @ b" by simp
      with Cons.IH show ?thesis by auto
    qed
  qed
qed auto

text \<open>\<open>str::find(&str)\<close>: the text after the first occurrence.\<close>

fun after_first :: "str \<Rightarrow> str \<Rightarrow> str option" where
  "after_first p [] = (if p = [] then Some [] else None)"
| "after_first p (x # xs) =
     (if prefix p (x # xs) then Some (drop (length p) (x # xs)) else after_first p xs)"

section \<open>White space\<close>

text \<open>
  \<open>white_len s\<close> is the byte length of the Unicode \<open>White_Space\<close> character \<open>s\<close> starts with,
  0 when it starts with none: U+0009..U+000D, U+0020, U+0085, U+00A0, U+1680, U+2000..U+200A,
  U+2028, U+2029, U+202F, U+205F, U+3000.
\<close>

definition ascii_white :: "char \<Rightarrow> bool" where
  "ascii_white c \<longleftrightarrow> c = sp \<or> (9 \<le> (of_char c :: nat) \<and> (of_char c :: nat) \<le> 13)"

fun white3 :: "char \<Rightarrow> char \<Rightarrow> char \<Rightarrow> bool" where
  "white3 a b c =
     ((a = CHR 0xE1 \<and> b = CHR 0x9A \<and> c = CHR 0x80) \<or>
      (a = CHR 0xE2 \<and> b = CHR 0x80 \<and>
        ((0x80 \<le> (of_char c :: nat) \<and> (of_char c :: nat) \<le> 0x8A) \<or>
         c = CHR 0xA8 \<or> c = CHR 0xA9 \<or> c = CHR 0xAF)) \<or>
      (a = CHR 0xE2 \<and> b = CHR 0x81 \<and> c = CHR 0x9F) \<or>
      (a = CHR 0xE3 \<and> b = CHR 0x80 \<and> c = CHR 0x80))"

definition white2 :: "char \<Rightarrow> char \<Rightarrow> bool" where
  "white2 a b \<longleftrightarrow> a = CHR 0xC2 \<and> (b = CHR 0x85 \<or> b = CHR 0xA0)"

fun white_len :: "str \<Rightarrow> nat" where
  "white_len [] = 0"
| "white_len (a # s) =
     (if ascii_white a then 1
      else case s of
        [] \<Rightarrow> 0
      | b # t \<Rightarrow>
          if white2 a b then 2
          else case t of [] \<Rightarrow> 0 | c # _ \<Rightarrow> (if white3 a b c then 3 else 0))"

text \<open>The same for the end of a string, given reversed.\<close>

fun white_len_rev :: "str \<Rightarrow> nat" where
  "white_len_rev [] = 0"
| "white_len_rev (c # s) =
     (if ascii_white c then 1
      else case s of
        [] \<Rightarrow> 0
      | b # t \<Rightarrow>
          if white2 b c then 2
          else case t of [] \<Rightarrow> 0 | a # _ \<Rightarrow> (if white3 a b c then 3 else 0))"

function trim_start :: "str \<Rightarrow> str" where
  "trim_start s =
     (if white_len s = 0 then s else trim_start (drop (white_len s) s))"
  by pat_completeness auto
termination
proof (relation "measure length")
  fix s :: str
  assume "white_len s \<noteq> 0"
  moreover from this have "s \<noteq> []" by auto
  ultimately show "(drop (white_len s) s, s) \<in> measure length" by simp
qed simp

function trim_rev :: "str \<Rightarrow> str" where
  "trim_rev s =
     (if white_len_rev s = 0 then s else trim_rev (drop (white_len_rev s) s))"
  by pat_completeness auto
termination
proof (relation "measure length")
  fix s :: str
  assume "white_len_rev s \<noteq> 0"
  moreover from this have "s \<noteq> []" by auto
  ultimately show "(drop (white_len_rev s) s, s) \<in> measure length" by simp
qed simp

declare trim_start.simps [simp del] trim_rev.simps [simp del]

definition trim_end :: "str \<Rightarrow> str" where
  "trim_end s = rev (trim_rev (rev s))"

definition trim :: "str \<Rightarrow> str" where
  "trim s = trim_end (trim_start s)"

text \<open>A string that \<open>trim\<close> leaves alone.\<close>

definition trimmed :: "str \<Rightarrow> bool" where
  "trimmed s \<longleftrightarrow> white_len s = 0 \<and> white_len_rev (rev s) = 0"

lemma trim_trimmed [simp]: "trimmed s \<Longrightarrow> trim s = s"
  by (simp add: trimmed_def trim_def trim_end_def trim_start.simps [of s]
      trim_rev.simps [of "rev s"])

lemma trim_Nil [simp]: "trim [] = []"
  by (simp add: trim_def trim_end_def trim_start.simps trim_rev.simps)

lemma trim_start_suffix: "\<exists>a. s = a @ trim_start s"
proof (induction s rule: trim_start.induct)
  case (1 s)
  show ?case
  proof (cases "white_len s = 0")
    case True
    then show ?thesis by (simp add: trim_start.simps [of s])
  next
    case False
    with 1 obtain a where a: "drop (white_len s) s = a @ trim_start (drop (white_len s) s)"
      by blast
    have "s = take (white_len s) s @ drop (white_len s) s" by simp
    also have "\<dots> = (take (white_len s) s @ a) @ trim_start s"
      using a False by (simp add: trim_start.simps [of s])
    finally show ?thesis by blast
  qed
qed

lemma trim_rev_suffix: "\<exists>a. s = a @ trim_rev s"
proof (induction s rule: trim_rev.induct)
  case (1 s)
  show ?case
  proof (cases "white_len_rev s = 0")
    case True
    then show ?thesis by (simp add: trim_rev.simps [of s])
  next
    case False
    with 1 obtain a
      where a: "drop (white_len_rev s) s = a @ trim_rev (drop (white_len_rev s) s)"
      by blast
    have "s = take (white_len_rev s) s @ drop (white_len_rev s) s" by simp
    also have "\<dots> = (take (white_len_rev s) s @ a) @ trim_rev s"
      using a False by (simp add: trim_rev.simps [of s])
    finally show ?thesis by blast
  qed
qed

lemma trim_start_white: "white_len (trim_start s) = 0"
proof (induction s rule: trim_start.induct)
  case (1 s)
  then show ?case
    by (cases "white_len s = 0") (simp_all add: trim_start.simps [of s])
qed

lemma trim_rev_white: "white_len_rev (trim_rev s) = 0"
proof (induction s rule: trim_rev.induct)
  case (1 s)
  then show ?case
    by (cases "white_len_rev s = 0") (simp_all add: trim_rev.simps [of s])
qed

lemma trim_end_prefix: "\<exists>b. s = trim_end s @ b"
  using trim_rev_suffix [of "rev s"] by (metis rev_append rev_swap trim_end_def)

text \<open>\<open>trim\<close> returns an infix of its argument; it never grows.\<close>

lemma trim_infix: "\<exists>a b. s = a @ trim s @ b"
proof -
  obtain a where "s = a @ trim_start s" using trim_start_suffix by blast
  moreover obtain b where "trim_start s = trim s @ b"
    using trim_end_prefix unfolding trim_def by blast
  ultimately show ?thesis by metis
qed

lemma length_trim: "length (trim s) \<le> length s"
  using trim_infix [of s] by (metis length_append le_add1 le_add2 le_trans)

lemma white_len_prefix0:
  assumes "white_len (t @ b) = 0" shows "white_len t = 0"
proof (cases t)
  case (Cons a s)
  show ?thesis
  proof (cases s)
    case Nil
    with assms Cons show ?thesis by (auto split: if_splits)
  next
    case (Cons b' t')
    with assms \<open>t = a # s\<close> show ?thesis by (cases t') (auto split: if_splits)
  qed
qed simp

lemma trimmed_trim: "trimmed (trim s)"
proof -
  obtain b where "trim_start s = trim s @ b"
    using trim_end_prefix unfolding trim_def by blast
  then have "white_len (trim s) = 0"
    using trim_start_white [of s] by (metis white_len_prefix0)
  moreover have "white_len_rev (rev (trim s)) = 0"
    by (simp add: trim_def trim_end_def trim_rev_white)
  ultimately show ?thesis by (simp add: trimmed_def)
qed

lemma trim_idem [simp]: "trim (trim s) = trim s"
  by (simp add: trimmed_trim)

text \<open>A string whose first and last bytes are printable ASCII is trimmed.\<close>

definition ascii_graph :: "char \<Rightarrow> bool" where
  "ascii_graph c \<longleftrightarrow> 33 \<le> (of_char c :: nat) \<and> (of_char c :: nat) \<le> 126"

lemma white_len_graph:
  assumes "ascii_graph a" shows "white_len (a # s) = 0"
proof -
  have n: "33 \<le> (of_char a :: nat)" "(of_char a :: nat) \<le> 126"
    using assms by (simp_all add: ascii_graph_def)
  have "\<not> ascii_white a"
    using n by (auto simp: ascii_white_def)
  moreover have "a \<noteq> CHR 0xC2" "a \<noteq> CHR 0xE1" "a \<noteq> CHR 0xE2" "a \<noteq> CHR 0xE3"
    using n by auto
  ultimately show ?thesis
    by (auto simp: white2_def split: list.split)
qed

lemma white_len_rev_graph:
  assumes "ascii_graph c" shows "white_len_rev (c # s) = 0"
proof -
  have n: "33 \<le> (of_char c :: nat)" "(of_char c :: nat) \<le> 126"
    using assms by (simp_all add: ascii_graph_def)
  have "\<not> ascii_white c"
    using n by (auto simp: ascii_white_def)
  moreover have "c \<noteq> CHR 0x85" "c \<noteq> CHR 0xA0" "c \<noteq> CHR 0x80" "c \<noteq> CHR 0xA8"
    "c \<noteq> CHR 0xA9" "c \<noteq> CHR 0xAF" "c \<noteq> CHR 0x9F"
    using n by auto
  moreover have "\<not> 128 \<le> (of_char c :: nat)" using n by simp
  ultimately show ?thesis
    by (auto simp: white2_def split: list.split)
qed

declare white_len.simps(2) [simp del] white_len_rev.simps(2) [simp del]

lemma trimmed_graph:
  assumes "s \<noteq> []" "ascii_graph (hd s)" "ascii_graph (last s)" shows "trimmed s"
proof -
  have "white_len s = 0"
    using white_len_graph [OF assms(2), of "tl s"] assms(1) by simp
  moreover have "white_len_rev (rev s) = 0"
    using white_len_rev_graph [OF assms(3), of "tl (rev s)"] assms(1)
    by (metis hd_rev list.exhaust_sel rev_is_Nil_conv)
  ultimately show ?thesis by (simp add: trimmed_def)
qed

text \<open>\<open>trim_end_matches\<close> with one or more characters.\<close>

definition trim_end_matches :: "char set \<Rightarrow> str \<Rightarrow> str" where
  "trim_end_matches cs s = rev (dropWhile (\<lambda>c. c \<in> cs) (rev s))"

section \<open>ASCII classes\<close>

definition ascii_digit :: "char \<Rightarrow> bool" where
  "ascii_digit c \<longleftrightarrow> 48 \<le> (of_char c :: nat) \<and> (of_char c :: nat) \<le> 57"

definition ascii_alpha :: "char \<Rightarrow> bool" where
  "ascii_alpha c \<longleftrightarrow>
     (97 \<le> (of_char c :: nat) \<and> (of_char c :: nat) \<le> 122) \<or>
     (65 \<le> (of_char c :: nat) \<and> (of_char c :: nat) \<le> 90)"

definition ascii_lower :: "char \<Rightarrow> char" where
  "ascii_lower c =
     (if 65 \<le> (of_char c :: nat) \<and> (of_char c :: nat) \<le> 90
      then char_of ((of_char c :: nat) + 32) else c)"

lemma ascii_lower_idem [simp]: "ascii_lower (ascii_lower c) = ascii_lower c"
  by (simp add: ascii_lower_def of_char_of take_bit_nat_def)

abbreviation to_ascii_lowercase :: "str \<Rightarrow> str" where
  "to_ascii_lowercase \<equiv> map ascii_lower"

section \<open>Splitting and joining\<close>

text \<open>\<open>[String]::join\<close>.\<close>

fun join :: "str \<Rightarrow> str list \<Rightarrow> str" where
  "join sep [] = []"
| "join sep [x] = x"
| "join sep (x # y # ys) = x @ sep @ join sep (y # ys)"

text \<open>\<open>split_ascii_whitespace\<close>: runs of bytes that are not ASCII white space (space, tab,
  line feed, form feed, carriage return).\<close>

definition split_white :: "char \<Rightarrow> bool" where
  "split_white c \<longleftrightarrow> c = sp \<or> c = tab \<or> c = nl \<or> c = CHR 0x0C \<or> c = cr"

fun words_acc :: "str \<Rightarrow> str \<Rightarrow> str list" where
  "words_acc buf [] = (if buf = [] then [] else [buf])"
| "words_acc buf (c # s) =
     (if split_white c then (if buf = [] then words_acc [] s else buf # words_acc [] s)
      else words_acc (buf @ [c]) s)"

definition split_ascii_whitespace :: "str \<Rightarrow> str list" where
  "split_ascii_whitespace s = words_acc [] s"

text \<open>\<open>split_inclusive('\n')\<close>: every line keeps its line feed.\<close>

fun lines_acc :: "str \<Rightarrow> str \<Rightarrow> str list" where
  "lines_acc buf [] = (if buf = [] then [] else [buf])"
| "lines_acc buf (c # s) =
     (if c = nl then (buf @ [c]) # lines_acc [] s else lines_acc (buf @ [c]) s)"

definition split_inclusive_nl :: "str \<Rightarrow> str list" where
  "split_inclusive_nl s = lines_acc [] s"

lemma concat_lines_acc: "concat (lines_acc buf s) = buf @ s"
  by (induction buf s rule: lines_acc.induct) auto

end
