(* ===== verification/Shell_Command.thy ===== *)
theory Shell_Command
  imports Rust_Str
begin

text \<open>
  One plain command of a shell line and everything that is read off its argument vector:
  \<open>ParsedCommand\<close>, \<open>strip_prefix\<close> (scheduling modifiers and inline environment assignments),
  \<open>fingerprint\<close>, the sensitive environment names, the write targets that only the argument
  vector shows, and the path predicates of the dangerous patterns
  (\<open>crates/agent-core/src/tools/shell_parse.rs\<close>).
  Index loops over \<open>argv\<close> become recursion on the remaining suffix of the list.
\<close>

section \<open>Data\<close>

record parsed_command =
  pc_root :: str
  pc_argv :: "str list"
  pc_env_prefix :: "str list"
  pc_write_targets :: "str list"
  pc_has_heredoc :: bool

datatype dangerous_kind =
    CdGitCompound
  | WriteGitMeta str
  | RmRfRoot str
  | SensitiveEnvPrefix "str list"
  | AstTooComplex

fun kind_label :: "dangerous_kind \<Rightarrow> str" where
  "kind_label CdGitCompound = ''cd-git-compound''"
| "kind_label (WriteGitMeta _) = ''write-git-meta''"
| "kind_label (RmRfRoot _) = ''rm-rf-root''"
| "kind_label (SensitiveEnvPrefix _) = ''sensitive-env-prefix''"
| "kind_label AstTooComplex = ''ast-too-complex''"

definition SENSITIVE_ENV_VARS :: "str list" where
  "SENSITIVE_ENV_VARS =
     [''LD_PRELOAD'', ''LD_LIBRARY_PATH'', ''DYLD_INSERT_LIBRARIES'', ''DYLD_LIBRARY_PATH'',
      ''PYTHONPATH'', ''PYTHONHOME'', ''PYTHONSTARTUP'', ''PERL5LIB'', ''PERL5OPT'',
      ''RUBYLIB'', ''RUBYOPT'', ''NODE_OPTIONS'', ''NODE_PATH'', ''IFS'']"

definition is_sensitive_env :: "str \<Rightarrow> bool" where
  "is_sensitive_env assignment =
     (case split_at_char CHR ''='' assignment of
        None \<Rightarrow> False
      | Some (name, _) \<Rightarrow>
          trim_end_matches {CHR ''+''} name \<in> set SENSITIVE_ENV_VARS)"

section \<open>Stripping modifiers and environment assignments\<close>

definition SCHED_MODIFIERS :: "str list" where
  "SCHED_MODIFIERS =
     [''timeout'', ''time'', ''nice'', ''stdbuf'', ''nohup'', ''command'', ''builtin'',
      ''noglob'', ''ionice'']"

definition ident_start :: "char \<Rightarrow> bool" where
  "ident_start c \<longleftrightarrow> ascii_alpha c \<or> c = CHR ''_''"

definition ident_rest :: "char \<Rightarrow> bool" where
  "ident_rest c \<longleftrightarrow> ascii_alpha c \<or> ascii_digit c \<or> c = CHR ''_''"

definition is_env_assignment :: "str \<Rightarrow> bool" where
  "is_env_assignment tok =
     (case split_at_char CHR ''='' tok of
        None \<Rightarrow> False
      | Some (name, _) \<Rightarrow>
          (case name of
             [] \<Rightarrow> False
           | c # cs \<Rightarrow> ident_start c \<and> list_all ident_rest cs))"

definition is_duration_or_num :: "str \<Rightarrow> bool" where
  "is_duration_or_num tok =
     (if tok = [] then False
      else let digits = (if last tok \<in> set ''dhms'' then butlast tok else tok)
           in digits \<noteq> [] \<and> list_all (\<lambda>c. ascii_digit c \<or> c = CHR ''.'') digits)"

text \<open>\<open>-k DURATION\<close>, \<open>-s SIG\<close> and \<open>--\<close> after \<open>timeout\<close>.\<close>

fun skip_timeout_flags :: "str list \<Rightarrow> str list" where
  "skip_timeout_flags [] = []"
| "skip_timeout_flags [a] = (if a = ''--'' \<or> a = ''-k'' \<or> a = ''-s'' then [] else [a])"
| "skip_timeout_flags (a # b # r) =
     (if a = ''--'' then skip_timeout_flags (b # r)
      else if a = ''-k'' \<or> a = ''-s'' then skip_timeout_flags r
      else a # b # r)"

fun skip_stdbuf_flags :: "str list \<Rightarrow> str list" where
  "skip_stdbuf_flags [] = []"
| "skip_stdbuf_flags (a # r) =
     (case a of
        c1 # c2 # _ \<Rightarrow>
          if c1 = CHR ''-'' \<and> (c2 = CHR ''i'' \<or> c2 = CHR ''o'' \<or> c2 = CHR ''e'')
          then skip_stdbuf_flags r else a # r
      | _ \<Rightarrow> a # r)"

text \<open>The arguments a modifier eats, by modifier (the arms of the \<open>match tok\<close>).\<close>

definition modifier_args :: "str \<Rightarrow> str list \<Rightarrow> str list" where
  "modifier_args tok r =
     (if tok = ''timeout'' then
        (let r2 = skip_timeout_flags (dropWhile (\<lambda>a. starts_with a ''--'') r)
         in case r2 of [] \<Rightarrow> [] | d # r3 \<Rightarrow> if is_duration_or_num d then r3 else d # r3)
      else if tok = ''nice'' then
        (case r of
           [] \<Rightarrow> []
         | a # r' \<Rightarrow>
             if a = ''-n'' then drop 1 r'
             else if starts_with a ''-''
                  \<and> list_all (\<lambda>c. ascii_digit c \<or> c = CHR ''-'') (drop 1 a) then r'
             else r)
      else if tok = ''stdbuf'' then skip_stdbuf_flags r
      else if tok = ''ionice'' then dropWhile (\<lambda>a. starts_with a ''-'') r
      else if tok \<in> {''nohup'', ''command'', ''builtin'', ''noglob'', ''time''} then
        (case r of [] \<Rightarrow> [] | a # r' \<Rightarrow> if a = ''--'' then r' else r)
      else r)"

fun strip_modifier :: "str list \<Rightarrow> str list" where
  "strip_modifier [] = []"
| "strip_modifier (t # r) = (if t \<in> set SCHED_MODIFIERS then modifier_args t r else t # r)"

lemma length_skip_timeout_flags: "length (skip_timeout_flags r) \<le> length r"
  by (induction r rule: skip_timeout_flags.induct) auto

lemma length_skip_stdbuf_flags: "length (skip_stdbuf_flags r) \<le> length r"
  by (induction r) (auto split: list.splits)

lemma length_modifier_args: "length (modifier_args t r) \<le> length r"
proof -
  let ?r2 = "skip_timeout_flags (dropWhile (\<lambda>a. starts_with a ''--'') r)"
  have "length ?r2 \<le> length r"
    by (rule le_trans [OF length_skip_timeout_flags length_dropWhile_le])
  then have "length (case ?r2 of [] \<Rightarrow> [] | d # r3 \<Rightarrow> if is_duration_or_num d then r3 else d # r3)
      \<le> length r"
    by (cases ?r2) simp_all
  moreover have "length (case r of [] \<Rightarrow> [] | a # r' \<Rightarrow> if a = ''-n'' then drop 1 r'
      else if p a then r' else r) \<le> length r" for p :: "str \<Rightarrow> bool"
    by (cases r) auto
  moreover have "length (case r of [] \<Rightarrow> [] | a # r' \<Rightarrow> if a = ''--'' then r' else r) \<le> length r"
    by (cases r) simp_all
  ultimately show ?thesis
    using length_skip_stdbuf_flags [of r] length_dropWhile_le [of "\<lambda>a. starts_with a ''-''" r]
    unfolding modifier_args_def Let_def by presburger
qed

lemma length_strip_modifier: "length (strip_modifier a) \<le> length a"
  by (cases a) (auto intro: le_SucI length_modifier_args)

text \<open>The outer loop: one modifier and the environment run, until neither eats anything.\<close>

function strip_loop :: "str list \<Rightarrow> str list \<Rightarrow> str list \<times> str list" where
  "strip_loop env argv =
     (let a1 = strip_modifier argv;
          es = takeWhile is_env_assignment a1;
          a2 = dropWhile is_env_assignment a1
      in if length a2 = length argv then (env, argv) else strip_loop (env @ es) a2)"
  by pat_completeness auto
termination
proof (relation "measure (\<lambda>(_, argv). length argv)")
  fix env argv a1 es a2 :: "str list"
  assume "a1 = strip_modifier argv" "a2 = dropWhile is_env_assignment a1"
    "length a2 \<noteq> length argv"
  moreover from this have "length a2 \<le> length argv"
    by (metis length_dropWhile_le length_strip_modifier le_trans)
  ultimately show "((env @ es, a2), env, argv) \<in> measure (\<lambda>(_, argv). length argv)"
    by simp
qed simp

declare strip_loop.simps [simp del]

definition strip_prefix :: "str list \<Rightarrow> str list \<times> str list" where
  "strip_prefix argv = strip_loop [] argv"

section \<open>Views of one command\<close>

definition positional :: "parsed_command \<Rightarrow> str list" where
  "positional cmd = filter (\<lambda>a. \<not> starts_with a ''-'') (drop 1 (pc_argv cmd))"

definition fingerprint_of :: "parsed_command \<Rightarrow> str" where
  "fingerprint_of cmd =
     (case snd (strip_prefix (pc_argv cmd)) of
        [] \<Rightarrow> pc_root cmd
      | base # args \<Rightarrow>
          (case find (\<lambda>a. \<not> starts_with a ''-'') args of
             Some s \<Rightarrow> base @ '' '' @ s
           | None \<Rightarrow> base))"

definition cd_targets :: "parsed_command list \<Rightarrow> str list" where
  "cd_targets cmds =
     List.map_filter
       (\<lambda>c. if pc_root c = ''cd'' then (case positional c of [] \<Rightarrow> None | p # _ \<Rightarrow> Some p)
            else None) cmds"

definition delete_targets :: "parsed_command \<Rightarrow> str list" where
  "delete_targets cmd =
     (case snd (strip_prefix (pc_argv cmd)) of
        [] \<Rightarrow> []
      | root # args \<Rightarrow>
          if root \<noteq> ''rm'' \<and> root \<noteq> ''rmdir'' then []
          else filter (\<lambda>t. \<not> starts_with t ''-'') args)"

text \<open>\<open>open('FILE', 'w')\<close> inside the argument of \<open>python -c\<close>.\<close>

definition quoted_head :: "str \<Rightarrow> (str \<times> str) option" where
  "quoted_head s =
     (case s of
        [] \<Rightarrow> None
      | q # r \<Rightarrow> if q = sq \<or> q = dq then split_at_char q r else None)"

definition python_open_target :: "str \<Rightarrow> str option" where
  "python_open_target body =
     (case after_first ''open('' body of
        None \<Rightarrow> None
      | Some after \<Rightarrow>
          (case quoted_head after of
             None \<Rightarrow> None
           | Some (path, rest) \<Rightarrow>
               (case trim_start rest of
                  [] \<Rightarrow> None
                | c # r \<Rightarrow>
                    if c \<noteq> CHR '','' then None
                    else (case quoted_head (trim_start r) of
                            None \<Rightarrow> None
                          | Some (mode, _) \<Rightarrow>
                              if CHR ''w'' \<in> set mode \<or> CHR ''a'' \<in> set mode
                                 \<or> CHR ''x'' \<in> set mode \<or> CHR ''+'' \<in> set mode
                              then Some path else None))))"

fun python_c_targets :: "str list \<Rightarrow> str list" where
  "python_c_targets (a # b # r) =
     (if a = ''-c'' then (case python_open_target b of Some t \<Rightarrow> [t] | None \<Rightarrow> []) else [])
     @ python_c_targets (b # r)"
| "python_c_targets _ = []"

text \<open>The positional arguments of \<open>mkdir\<close>/\<open>touch\<close>/\<open>mkfifo\<close>, flags with an argument skipped.\<close>

fun create_targets :: "bool \<Rightarrow> str list \<Rightarrow> str list" where
  "create_targets skip [] = []"
| "create_targets skip (tok # r) =
     (if skip then create_targets False r
      else if tok \<in> {''-m'', ''-r'', ''-d'', ''-t''} then create_targets True r
      else if starts_with tok ''-'' then create_targets False r
      else tok # create_targets False r)"

definition collect_argv_write_targets :: "parsed_command \<Rightarrow> str list" where
  "collect_argv_write_targets cmd =
     (case snd (strip_prefix (pc_argv cmd)) of
        [] \<Rightarrow> []
      | root # args \<Rightarrow>
          if root = ''tee'' then
            filter (\<lambda>t. \<not> (t = ''-a'' \<or> t = ''--append'' \<or> t = ''--'' \<or> starts_with t ''-'')) args
          else if root = ''sed'' then
            (let in_place = list_ex (\<lambda>t. t = ''-i'' \<or> starts_with t ''-i'' \<or> t = ''--in-place''
                                       \<or> starts_with t ''--in-place'') (root # args);
                 positionals = filter (\<lambda>t. \<not> starts_with t ''-'') args
             in if in_place \<and> 2 \<le> length positionals then [last positionals] else [])
          else if root \<in> {''python'', ''python3'', ''python2''} then python_c_targets args
          else if root \<in> {''mkdir'', ''touch'', ''mkfifo''} then create_targets False args
          else [])"

text \<open>\<open>trim_start_matches("./")\<close>.\<close>

fun trim_dot_slash :: "str \<Rightarrow> str" where
  "trim_dot_slash (a # b # r) =
     (if a = CHR ''.'' \<and> b = CHR ''/'' then trim_dot_slash r else a # b # r)"
| "trim_dot_slash s = s"

definition is_git_meta_path :: "str \<Rightarrow> bool" where
  "is_git_meta_path p =
     (let trimmed = trim_dot_slash p
      in contains_str trimmed ''.git/hooks'' \<or> contains_str trimmed ''.git/config''
         \<or> ends_with trimmed ''.git/HEAD'' \<or> trimmed = ''.git/HEAD''
         \<or> contains_str trimmed ''.git/objects'' \<or> contains_str trimmed ''.git/refs'')"

definition is_root_level_path :: "str \<Rightarrow> bool" where
  "is_root_level_path p \<longleftrightarrow>
     p \<in> {''/'', ''~'', ''$HOME'', ''..'', ''../'', ''/*'', ''~/'', ''~/.*''}
     \<or> starts_with p ''/*'' \<or> starts_with p ''~/*''"

end
