(* ===== verification/Safe_Commands.thy ===== *)
theory Safe_Commands
  imports Shell_Command
begin

text \<open>
  The command tables of \<open>crates/agent-core/src/tools/safe_commands.rs\<close> and the five
  classifications read off them: read-only (\<open>is_safe\<close>), read-only producer inside a command
  substitution, never remembered, safe write, egress. Then the git/cd part of the dangerous
  patterns that needs \<open>is_safe\<close> (\<open>detect_dangerous_patterns\<close> of \<open>shell_parse.rs\<close>).
\<close>

section \<open>Tables\<close>

definition SAFE_ROOTS :: "str list" where
  "SAFE_ROOTS =
     [''ls'', ''pwd'', ''cat'', ''head'', ''tail'', ''wc'', ''file'', ''stat'', ''tree'',
      ''du'', ''df'', ''dirname'', ''basename'', ''realpath'', ''readlink'', ''lsblk'',
      ''echo'', ''printf'', ''true'', ''false'', ''yes'', ''seq'', ''sort'', ''uniq'',
      ''cut'', ''tr'', ''nl'', ''rev'', ''tac'', ''column'', ''fold'', ''expand'',
      ''unexpand'', ''fmt'', ''comm'', ''diff'', ''cmp'', ''jq'', ''tee'', ''grep'',
      ''egrep'', ''fgrep'', ''rg'', ''ack'', ''ag'', ''which'', ''whereis'', ''type'',
      ''command'', ''alias'', ''whoami'', ''id'', ''uname'', ''hostname'', ''uptime'',
      ''date'', ''cal'', ''env'', ''printenv'', ''groups'', ''users'', ''locale'', ''tty'',
      ''arch'', ''nproc'', ''getconf'', ''lscpu'', ''free'', ''vmstat'', ''dig'', ''host'',
      ''nslookup'', ''lsof'', ''netstat'', ''ss'', ''ps'', ''pgrep'', ''jobs'',
      ''journalctl'', ''dmesg'', ''man'', ''help'', ''info'', ''tldr'', ''node'',
      ''python'', ''python3'', ''ruby'', ''perl'', ''go'', ''rustc'', ''java'', ''javac'',
      ''md5'', ''md5sum'', ''shasum'', ''sha256sum'', ''sha1sum'', ''cksum'', ''base64'',
      ''xxd'', ''od'']"

definition SAFE_SUBCOMMANDS :: "(str \<times> str) list" where
  "SAFE_SUBCOMMANDS =
     [(''git'', ''status''), (''git'', ''diff''), (''git'', ''log''), (''git'', ''show''),
      (''git'', ''branch''), (''git'', ''tag''), (''git'', ''remote''),
      (''git'', ''config''), (''git'', ''rev-parse''), (''git'', ''describe''),
      (''git'', ''blame''), (''git'', ''reflog''), (''git'', ''stash''),
      (''git'', ''ls-files''), (''git'', ''ls-tree''), (''git'', ''shortlog''),
      (''git'', ''cat-file''), (''git'', ''show-ref''), (''git'', ''rev-list''),
      (''git'', ''for-each-ref''), (''git'', ''symbolic-ref''), (''git'', ''merge-base''),
      (''git'', ''name-rev''), (''git'', ''whatchanged''), (''git'', ''count-objects''),
      (''git'', ''verify-commit''), (''cargo'', ''tree''), (''cargo'', ''metadata''),
      (''cargo'', ''search''), (''cargo'', ''version''), (''cargo'', ''--version''),
      (''cargo'', ''help''), (''npm'', ''ls''), (''npm'', ''list''), (''npm'', ''view''),
      (''npm'', ''outdated''), (''npm'', ''config''), (''pnpm'', ''ls''),
      (''pnpm'', ''list''), (''pnpm'', ''why''), (''yarn'', ''list''), (''yarn'', ''why''),
      (''docker'', ''ps''), (''docker'', ''images''), (''docker'', ''logs''),
      (''docker'', ''inspect''), (''docker'', ''version''), (''docker'', ''info''),
      (''docker'', ''stats''), (''docker'', ''top''), (''docker'', ''port''),
      (''docker'', ''history''), (''docker'', ''diff''), (''kubectl'', ''get''),
      (''kubectl'', ''describe''), (''kubectl'', ''logs''), (''kubectl'', ''config''),
      (''kubectl'', ''version''), (''kubectl'', ''top''), (''kubectl'', ''explain''),
      (''kubectl'', ''api-resources''), (''kubectl'', ''api-versions''),
      (''kubectl'', ''cluster-info''), (''go'', ''version''), (''go'', ''env''),
      (''go'', ''list''), (''go'', ''doc''), (''rustup'', ''show''),
      (''rustup'', ''which''), (''brew'', ''list''), (''brew'', ''info''),
      (''brew'', ''search''), (''brew'', ''config''), (''brew'', ''doctor''),
      (''pip'', ''list''), (''pip'', ''show''), (''pip'', ''freeze''),
      (''pip'', ''config''), (''pip3'', ''list''), (''pip3'', ''show''),
      (''pip3'', ''freeze''), (''helm'', ''list''), (''helm'', ''status''),
      (''helm'', ''get''), (''helm'', ''show''), (''helm'', ''history''),
      (''helm'', ''version''), (''helm'', ''env''), (''systemctl'', ''status''),
      (''systemctl'', ''list-units''), (''systemctl'', ''list-unit-files''),
      (''systemctl'', ''is-active''), (''systemctl'', ''is-enabled''),
      (''systemctl'', ''show''), (''systemctl'', ''cat''), (''terraform'', ''plan''),
      (''terraform'', ''show''), (''terraform'', ''validate''), (''terraform'', ''output''),
      (''terraform'', ''version''), (''terraform'', ''providers'')]"

definition NEVER_REMEMBER_ROOTS :: "str list" where
  "NEVER_REMEMBER_ROOTS =
     [''rm'', ''rmdir'', ''dd'', ''shred'', ''truncate'', ''fdisk'', ''gdisk'', ''parted'',
      ''wipefs'']"

definition SAFE_WRITE_ROOTS :: "str list" where
  "SAFE_WRITE_ROOTS =
     [''mkdir'', ''touch'', ''mkfifo'']"

definition EGRESS_ROOTS :: "str list" where
  "EGRESS_ROOTS =
     [''curl'', ''wget'', ''scp'', ''sftp'', ''rsync'', ''nc'', ''ncat'', ''telnet'',
      ''ftp'']"

definition EGRESS_SUBCOMMANDS :: "(str \<times> str) list" where
  "EGRESS_SUBCOMMANDS =
     [(''git'', ''push''), (''git'', ''pull''), (''git'', ''fetch''), (''git'', ''clone''),
      (''git'', ''remote''), (''npm'', ''install''), (''npm'', ''i''), (''npm'', ''ci''),
      (''npm'', ''publish''), (''npm'', ''update''), (''pnpm'', ''install''),
      (''pnpm'', ''i''), (''pnpm'', ''add''), (''pnpm'', ''update''),
      (''pnpm'', ''publish''), (''yarn'', ''install''), (''yarn'', ''add''),
      (''yarn'', ''up''), (''pip'', ''install''), (''pip3'', ''install''),
      (''cargo'', ''install''), (''cargo'', ''publish''), (''gem'', ''install''),
      (''go'', ''install''), (''go'', ''get''), (''brew'', ''install''),
      (''brew'', ''upgrade''), (''apt'', ''install''), (''apt-get'', ''install'')]"

section \<open>Classifications\<close>

definition is_never_remember :: "parsed_command \<Rightarrow> bool" where
  "is_never_remember cmd \<longleftrightarrow>
     pc_root cmd \<in> set NEVER_REMEMBER_ROOTS \<or> starts_with (pc_root cmd) ''mkfs''"

definition is_safe_write :: "parsed_command \<Rightarrow> bool" where
  "is_safe_write cmd \<longleftrightarrow> pc_root cmd \<in> set SAFE_WRITE_ROOTS \<and> \<not> pc_has_heredoc cmd"

definition first_positional_in :: "(str \<times> str) list \<Rightarrow> parsed_command \<Rightarrow> bool" where
  "first_positional_in tbl cmd =
     (case positional cmd of [] \<Rightarrow> False | p # _ \<Rightarrow> (pc_root cmd, p) \<in> set tbl)"

definition is_egress :: "parsed_command \<Rightarrow> bool" where
  "is_egress cmd \<longleftrightarrow>
     pc_root cmd \<in> set EGRESS_ROOTS \<or> first_positional_in EGRESS_SUBCOMMANDS cmd"

definition dangerous_find_flags :: "str list" where
  "dangerous_find_flags =
     [''-delete'', ''-exec'', ''-execdir'', ''-ok'', ''-okdir'', ''-fprint'', ''-fprintf'',
      ''-fls'']"

definition is_safe :: "parsed_command \<Rightarrow> bool" where
  "is_safe cmd =
     (if pc_write_targets cmd \<noteq> [] \<or> pc_has_heredoc cmd then False
      else if pc_root cmd \<in> set SAFE_ROOTS then True
      else if first_positional_in SAFE_SUBCOMMANDS cmd then True
      else if pc_root cmd = ''find'' then
        \<not> list_ex (\<lambda>a. a \<in> set dangerous_find_flags) (pc_argv cmd)
      else False)"

definition is_readonly_data_command :: "parsed_command \<Rightarrow> bool" where
  "is_readonly_data_command cmd =
     (if pc_has_heredoc cmd then is_safe (cmd\<lparr>pc_has_heredoc := False\<rparr>) else is_safe cmd)"

section \<open>Dangerous patterns of a whole line\<close>

text \<open>The first \<open>git\<close> that is not read-only after a \<open>cd\<close>.\<close>

fun cd_git_compound :: "bool \<Rightarrow> parsed_command list \<Rightarrow> bool" where
  "cd_git_compound seen [] = False"
| "cd_git_compound seen (c # cs) =
     (if pc_root c = ''cd'' then cd_git_compound True cs
      else if seen \<and> pc_root c = ''git'' \<and> \<not> is_safe c then True
      else cd_git_compound seen cs)"

definition rm_recursive_flag :: "str \<Rightarrow> bool" where
  "rm_recursive_flag a \<longleftrightarrow>
     a = ''-r'' \<or> a = ''-R'' \<or> a = ''--recursive''
     \<or> (starts_with a ''-'' \<and> \<not> starts_with a ''--''
        \<and> (CHR ''r'' \<in> set a \<or> CHR ''R'' \<in> set a))"

definition rm_root_targets :: "parsed_command \<Rightarrow> str list" where
  "rm_root_targets cmd =
     (if pc_root cmd \<noteq> ''rm'' then []
      else if \<not> list_ex rm_recursive_flag (pc_argv cmd) then []
      else filter (\<lambda>t. \<not> starts_with t ''-'' \<and> is_root_level_path t) (drop 1 (pc_argv cmd)))"

definition detect_dangerous_patterns :: "parsed_command list \<Rightarrow> dangerous_kind list" where
  "detect_dangerous_patterns commands =
     (if cd_git_compound False commands then [CdGitCompound] else [])
     @ concat (map (\<lambda>c. map WriteGitMeta (filter is_git_meta_path (pc_write_targets c))) commands)
     @ concat (map (\<lambda>c. map RmRfRoot (rm_root_targets c)) commands)"

section \<open>What the classifications imply\<close>

lemma is_safe_no_write: "is_safe cmd \<Longrightarrow> pc_write_targets cmd = [] \<and> \<not> pc_has_heredoc cmd"
  by (auto simp: is_safe_def split: if_splits)

lemma is_safe_cases:
  assumes "is_safe cmd"
  obtains (root) "pc_root cmd \<in> set SAFE_ROOTS"
    | (sub) "first_positional_in SAFE_SUBCOMMANDS cmd"
    | (find) "pc_root cmd = ''find''" "\<not> list_ex (\<lambda>a. a \<in> set dangerous_find_flags) (pc_argv cmd)"
  using assms by (auto simp: is_safe_def split: if_splits)

text \<open>The roots of each table, as sets: disjointness questions are then evaluations.\<close>

lemma first_positional_in_root:
  "first_positional_in tbl cmd \<Longrightarrow> pc_root cmd \<in> fst ` set tbl"
  by (force simp: first_positional_in_def split: list.splits)

end
