(* ===== verification/Shell_Lex.thy ===== *)
theory Shell_Lex
  imports Shell_Command
begin

text \<open>
  The character scanners behind the fallback parser of \<open>tools/shell_parse.rs\<close>: splitting a line
  at its top-level separators, dropping heredoc bodies, extracting redirections, sniffing
  structure the parser does not understand. The code walks with a byte index and two quote
  flags; here a scanner is recursion on the remaining text with a \<open>quote\<close> state.
\<close>

datatype quote = QNone | QSingle | QDouble

datatype parse_error = Empty | Tokenize str | Unbalanced

section \<open>Splitting at separators\<close>

definition push_segment :: "str list \<Rightarrow> str \<Rightarrow> str list" where
  "push_segment out buf = (let t = trim buf in if t = [] then out else out @ [t])"

fun split_go :: "quote \<Rightarrow> str list \<Rightarrow> str \<Rightarrow> str \<Rightarrow> parse_error + str list" where
  "split_go q out buf [] =
     (if q = QNone then Inr (push_segment out buf) else Inl Unbalanced)"
| "split_go QSingle out buf (c # s) =
     split_go (if c = sq then QNone else QSingle) out (buf @ [c]) s"
| "split_go QDouble out buf (c # s) =
     (if c = bs \<and> s \<noteq> [] then split_go QDouble out (buf @ c # take 1 s) (drop 1 s)
      else split_go (if c = dq then QNone else QDouble) out (buf @ [c]) s)"
| "split_go QNone out buf (c # s) =
     (if c = sq then split_go QSingle out (buf @ [c]) s
      else if c = dq then split_go QDouble out (buf @ [c]) s
      else if c = bs \<and> s \<noteq> [] then split_go QNone out (buf @ c # take 1 s) (drop 1 s)
      else if c = CHR ''&'' \<and> starts_with s ''&'' then
        split_go QNone (push_segment out buf) [] (drop 1 s)
      else if c = CHR ''|'' \<and> starts_with s ''|'' then
        split_go QNone (push_segment out buf) [] (drop 1 s)
      else if c = CHR '';'' \<or> c = CHR ''|'' then split_go QNone (push_segment out buf) [] s
      else split_go QNone out (buf @ [c]) s)"

definition split_top_level :: "str \<Rightarrow> parse_error + str list" where
  "split_top_level line = split_go QNone [] [] line"

section \<open>Tokens and descriptors\<close>

definition skip_ascii_ws :: "str \<Rightarrow> str" where
  "skip_ascii_ws s = dropWhile (\<lambda>c. c = sp \<or> c = tab) s"

definition token_stop :: "char \<Rightarrow> bool" where
  "token_stop c \<longleftrightarrow> c = sp \<or> c = tab \<or> c = CHR ''|'' \<or> c = CHR ''&'' \<or> c = CHR '';''
     \<or> c = CHR ''>'' \<or> c = CHR ''<''"

fun token_go :: "quote \<Rightarrow> str \<Rightarrow> str \<Rightarrow> str \<times> str" where
  "token_go q buf [] = (buf, [])"
| "token_go QSingle buf (c # s) =
     (if c = sq then token_go QNone buf s else token_go QSingle (buf @ [c]) s)"
| "token_go QDouble buf (c # s) =
     (if c = dq then token_go QNone buf s
      else if c = bs \<and> s \<noteq> [] then token_go QDouble (buf @ take 1 s) (drop 1 s)
      else token_go QDouble (buf @ [c]) s)"
| "token_go QNone buf (c # s) =
     (if c = sq then token_go QSingle buf s
      else if c = dq then token_go QDouble buf s
      else if token_stop c then (buf, c # s)
      else token_go QNone (buf @ [c]) s)"

definition scan_token :: "str \<Rightarrow> (str \<times> str) option" where
  "scan_token s =
     (case s of
        [] \<Rightarrow> None
      | c # _ \<Rightarrow>
          if c = sp \<or> c = tab \<or> c = CHR ''|'' \<or> c = CHR ''&'' \<or> c = CHR '';'' then None
          else (case token_go QNone [] s of (buf, r) \<Rightarrow> if buf = [] then None else Some (buf, r)))"

definition scan_fd_dup :: "str \<Rightarrow> str option" where
  "scan_fd_dup s =
     (case s of
        a # d # r \<Rightarrow>
          if a \<noteq> CHR ''&'' then None
          else if d = CHR ''-'' then Some r
          else if \<not> ascii_digit d then None
          else Some (dropWhile ascii_digit (d # r))
      | _ \<Rightarrow> None)"

definition scan_heredoc_delimiter :: "str \<Rightarrow> (str \<times> str) option" where
  "scan_heredoc_delimiter s =
     scan_token (skip_ascii_ws (if starts_with s ''-'' then drop 1 s else s))"

lemma length_token_go: "length (snd (token_go q buf s)) \<le> length s"
  by (induction q buf s rule: token_go.induct) auto

lemma length_scan_token: "scan_token s = Some (t, r) \<Longrightarrow> length r \<le> length s"
  using length_token_go [of QNone "[]" s]
  by (auto simp: scan_token_def split: list.splits if_splits prod.splits)

lemma length_skip_ascii_ws: "length (skip_ascii_ws s) \<le> length s"
  by (simp add: skip_ascii_ws_def length_dropWhile_le)

lemma length_scan_fd_dup: "scan_fd_dup s = Some r \<Longrightarrow> length r \<le> length s"
  using length_dropWhile_le [of ascii_digit "tl (tl s)"]
  by (auto simp: scan_fd_dup_def split: list.splits if_splits intro: le_SucI)

lemma length_scan_heredoc_delimiter:
  "scan_heredoc_delimiter s = Some (t, r) \<Longrightarrow> length r \<le> length s"
  unfolding scan_heredoc_delimiter_def
  using length_scan_token [of "skip_ascii_ws (if starts_with s ''-'' then drop 1 s else s)" t r]
    length_skip_ascii_ws [of "if starts_with s ''-'' then drop 1 s else s"]
  by (auto split: if_splits)

section \<open>Heredocs\<close>

function heredoc_go :: "quote \<Rightarrow> str list \<Rightarrow> str \<Rightarrow> str list" where
  "heredoc_go q acc [] = acc"
| "heredoc_go QSingle acc (c # s) = heredoc_go (if c = sq then QNone else QSingle) acc s"
| "heredoc_go QDouble acc (c # s) =
     (if c = bs \<and> s \<noteq> [] then heredoc_go QDouble acc (drop 1 s)
      else heredoc_go (if c = dq then QNone else QDouble) acc s)"
| "heredoc_go QNone acc (c # s) =
     (if c = sq then heredoc_go QSingle acc s
      else if c = dq then heredoc_go QDouble acc s
      else if c = CHR ''<'' \<and> starts_with s ''<'' then
        (case scan_heredoc_delimiter (drop 1 s) of
           Some (d, r) \<Rightarrow> heredoc_go QNone (acc @ [d]) r
         | None \<Rightarrow> heredoc_go QNone acc (drop 1 s))
      else heredoc_go QNone acc s)"
  by pat_completeness auto
termination
  by (relation "measure (\<lambda>(_, _, s). length s)")
     (auto dest!: length_scan_heredoc_delimiter)

definition collect_heredoc_delimiters :: "str \<Rightarrow> str list" where
  "collect_heredoc_delimiters segment = heredoc_go QNone [] segment"

abbreviation trim_line_end :: "str \<Rightarrow> str" where
  "trim_line_end \<equiv> trim_end_matches {cr, nl}"

text \<open>
  A line is kept while no delimiter is pending; then its own delimiters become pending and the
  lines up to each of them are dropped.
\<close>

fun strip_bodies :: "str list \<Rightarrow> str list \<Rightarrow> str list" where
  "strip_bodies pending [] = []"
| "strip_bodies [] (l # ls) =
     l # strip_bodies (collect_heredoc_delimiters (trim_line_end l)) ls"
| "strip_bodies (d # ds) (l # ls) =
     (if trim_line_end l = d then strip_bodies ds ls else strip_bodies (d # ds) ls)"

definition strip_heredoc_bodies :: "str \<Rightarrow> str" where
  "strip_heredoc_bodies line = concat (strip_bodies [] (split_inclusive_nl line))"

section \<open>Redirections\<close>

text \<open>The length of the write-redirection operator the text starts with.\<close>

definition redirect_op :: "str \<Rightarrow> nat option" where
  "redirect_op s =
     (if starts_with s ''1>>'' \<or> starts_with s ''2>>'' then Some 3
      else if starts_with s ''>>'' \<or> starts_with s ''&>'' \<or> starts_with s ''1>''
              \<or> starts_with s ''2>'' then Some 2
      else if starts_with s ''>'' then Some 1
      else None)"

text \<open>What follows the operator: a descriptor copy, a target, or nothing usable.\<close>

definition redirect_tail :: "str \<Rightarrow> str option \<times> str" where
  "redirect_tail s =
     (let after = skip_ascii_ws s in
      case scan_fd_dup after of
        Some r \<Rightarrow> (None, r)
      | None \<Rightarrow>
          (case scan_token after of
             Some (t, r) \<Rightarrow> (if starts_with t ''&'' then None else Some t, r)
           | None \<Rightarrow> (None, s)))"

definition redirect_read_tail :: "str \<Rightarrow> str" where
  "redirect_read_tail s =
     (case scan_token (skip_ascii_ws s) of Some (_, r) \<Rightarrow> r | None \<Rightarrow> s)"

lemma length_redirect_tail: "length (snd (redirect_tail s)) \<le> length s"
  using length_skip_ascii_ws [of s] length_scan_fd_dup [of "skip_ascii_ws s"]
    length_scan_token [of "skip_ascii_ws s"]
  by (fastforce simp: redirect_tail_def Let_def split: option.splits)

lemma length_redirect_read_tail: "length (redirect_read_tail s) \<le> length s"
  using length_skip_ascii_ws [of s] length_scan_token [of "skip_ascii_ws s"]
  by (fastforce simp: redirect_read_tail_def split: option.splits)

lemma redirect_op_pos: "redirect_op s = Some n \<Longrightarrow> 0 < n \<and> s \<noteq> []"
  by (auto simp: redirect_op_def split: if_splits)

lemma redirect_tail_shorter:
  assumes "redirect_op (c # s) = Some n" "redirect_tail (drop n (c # s)) = (t, r)"
  shows "length r \<le> length s"
proof -
  have "length r \<le> length (drop n (c # s))"
    using length_redirect_tail [of "drop n (c # s)"] assms(2) by simp
  then show ?thesis using redirect_op_pos [OF assms(1)] by simp
qed

definition opt_snoc :: "'a list \<Rightarrow> 'a option \<Rightarrow> 'a list" where
  "opt_snoc xs o' = (case o' of None \<Rightarrow> xs | Some x \<Rightarrow> xs @ [x])"

function redir_go :: "quote \<Rightarrow> str \<Rightarrow> str list \<Rightarrow> bool \<Rightarrow> str \<Rightarrow> str \<times> str list \<times> bool" where
  "redir_go q cleaned targets hdoc [] = (cleaned, targets, hdoc)"
| "redir_go QSingle cleaned targets hdoc (c # s) =
     redir_go (if c = sq then QNone else QSingle) (cleaned @ [c]) targets hdoc s"
| "redir_go QDouble cleaned targets hdoc (c # s) =
     (if c = bs \<and> s \<noteq> [] then redir_go QDouble (cleaned @ c # take 1 s) targets hdoc (drop 1 s)
      else redir_go (if c = dq then QNone else QDouble) (cleaned @ [c]) targets hdoc s)"
| "redir_go QNone cleaned targets hdoc (c # s) =
     (if c = sq then redir_go QSingle (cleaned @ [c]) targets hdoc s
      else if c = dq then redir_go QDouble (cleaned @ [c]) targets hdoc s
      else case redirect_op (c # s) of
        Some n \<Rightarrow>
          (case redirect_tail (drop n (c # s)) of
             (t, r) \<Rightarrow> redir_go QNone cleaned (opt_snoc targets t) hdoc r)
      | None \<Rightarrow>
          if starts_with (c # s) ''<<'' then
            (case scan_heredoc_delimiter (drop 1 s) of
               Some (_, r) \<Rightarrow> redir_go QNone cleaned targets True r
             | None \<Rightarrow> redir_go QNone cleaned targets True (drop 1 s))
          else if c = CHR ''<'' then redir_go QNone cleaned targets hdoc (redirect_read_tail s)
          else redir_go QNone (cleaned @ [c]) targets hdoc s)"
  by pat_completeness auto
termination
  by (relation "measure (\<lambda>(_, _, _, _, s). length s)")
     (auto simp: less_Suc_eq_le length_redirect_read_tail
       dest!: length_scan_heredoc_delimiter dest: redirect_tail_shorter [OF _ sym])

definition extract_redirections :: "str \<Rightarrow> str \<times> str list \<times> bool" where
  "extract_redirections seg = redir_go QNone [] [] False seg"

section \<open>Structure the parser does not understand\<close>

text \<open>The finding at an unquoted character, given the previous byte and what follows.\<close>

definition complex_at :: "char option \<Rightarrow> char \<Rightarrow> str \<Rightarrow> str option" where
  "complex_at prev c s =
     (if c = btick then Some ''backtick command substitution''
      else if c = CHR ''$'' \<and> starts_with s ''('' then Some ''$(...) command substitution''
      else if c = CHR ''<'' \<and> starts_with s ''('' then Some ''<(...) process substitution''
      else if c = CHR ''>'' \<and> starts_with s ''('' then Some ''>(...) process substitution''
      else if c \<in> set ''(){}'' then Some ''subshell or group''
      else if c = CHR ''&'' then Some ''background execution''
      else if c = CHR ''#'' \<and> (prev = None \<or> prev = Some sp \<or> prev = Some tab)
        then Some ''comment injection''
      else None)"

fun sniff_go :: "quote \<Rightarrow> char option \<Rightarrow> str \<Rightarrow> str option" where
  "sniff_go q prev [] = None"
| "sniff_go QSingle prev (c # s) = sniff_go (if c = sq then QNone else QSingle) (Some c) s"
| "sniff_go QDouble prev (c # s) =
     (if c = bs \<and> s \<noteq> [] then sniff_go QDouble (Some (hd s)) (drop 1 s)
      else sniff_go (if c = dq then QNone else QDouble) (Some c) s)"
| "sniff_go QNone prev (c # s) =
     (if c = sq then sniff_go QSingle (Some c) s
      else if c = dq then sniff_go QDouble (Some c) s
      else if c = bs \<and> s \<noteq> [] then sniff_go QNone (Some (hd s)) (drop 1 s)
      else (case complex_at prev c s of
              Some why \<Rightarrow> Some why
            | None \<Rightarrow> sniff_go QNone (Some c) s))"

definition sniff_complex_structure :: "str \<Rightarrow> str option" where
  "sniff_complex_structure seg = sniff_go QNone None seg"

end
