(* ===== verification/Shell_Parse.thy ===== *)
theory Shell_Parse
  imports Safe_Commands Shell_Lex
begin

text \<open>
  The parser of \<open>tools/shell_parse.rs\<close>: the tree-sitter walk, its fallback on the scanners of
  \<open>Shell_Lex\<close>, and \<open>parse\<close>, which tries the first and falls back to the second.

  The tree-sitter bash grammar and the \<open>shlex\<close> crate are not part of the repository. They are
  the fields \<open>ts_parse\<close> and \<open>shlex_split\<close> of \<open>externals\<close>: a parse tree or nothing (no tree, or a
  tree with an error node), and the words or nothing (unclosed quote). A tree node carries its
  kind, whether it is named, the field its parent holds it under, its byte range and its
  children, which is all of the tree-sitter API that the walk reads.

  A command substitution is judged by parsing its inner text with the same parser, so \<open>parse\<close>
  recurses through the tree. \<open>parse_fuel\<close> bounds that nesting; \<open>None\<close> is running out of it.
\<close>

section \<open>The parser's surroundings\<close>

datatype ts_node =
  TsNode (tn_kind: str) (tn_named: bool) (tn_field: "str option")
         (tn_start: nat) (tn_end: nat) (tn_children: "ts_node list")

record externals =
  ts_parse :: "str \<Rightarrow> ts_node option"
  shlex_split :: "str \<Rightarrow> str list option"
  url_host :: "str \<Rightarrow> str option"

record parsed_shell =
  ps_commands :: "parsed_command list"
  ps_dangerous :: bool
  ps_danger_reason :: "str option"
  ps_dangerous_kinds :: "dangerous_kind list"

type_synonym parse_result = "parse_error + parsed_shell"

text \<open>The commands, kinds and reason collected so far.\<close>

record collected =
  co_commands :: "parsed_command list"
  co_kinds :: "dangerous_kind list"
  co_reason :: "str option"

definition or_reason :: "str option \<Rightarrow> str \<Rightarrow> str option" where
  "or_reason r why = (case r of None \<Rightarrow> Some why | Some x \<Rightarrow> Some x)"

definition flag_complex :: "str \<Rightarrow> collected \<Rightarrow> collected" where
  "flag_complex why st =
     st\<lparr>co_kinds := push_new AstTooComplex (co_kinds st),
        co_reason := or_reason (co_reason st) why\<rparr>"

definition sensitive_of :: "parsed_command \<Rightarrow> str list" where
  "sensitive_of cmd = filter is_sensitive_env (pc_env_prefix cmd)"

definition add_argv_targets :: "parsed_command \<Rightarrow> parsed_command" where
  "add_argv_targets cmd =
     cmd\<lparr>pc_write_targets := pc_write_targets cmd @ collect_argv_write_targets cmd\<rparr>"

definition labels_of :: "dangerous_kind list \<Rightarrow> str" where
  "labels_of ks = join '','' (map kind_label ks)"

section \<open>The fallback parser\<close>

definition fallback_command :: "str list \<Rightarrow> str list \<Rightarrow> bool \<Rightarrow> parsed_command" where
  "fallback_command argv targets heredoc =
     \<lparr>pc_root = hd argv, pc_argv = argv, pc_env_prefix = fst (strip_prefix argv),
      pc_write_targets = targets, pc_has_heredoc = heredoc\<rparr>"

definition add_sensitive_by_label :: "parsed_command \<Rightarrow> dangerous_kind list \<Rightarrow> dangerous_kind list" where
  "add_sensitive_by_label cmd ks =
     (let kind = SensitiveEnvPrefix (sensitive_of cmd)
      in if sensitive_of cmd = [] then ks
         else if list_ex (\<lambda>k. kind_label k = kind_label kind) ks then ks else ks @ [kind])"

text \<open>One segment: redirections, structure sniffing, \<open>shlex\<close>, the command.\<close>

definition fallback_segment :: "externals \<Rightarrow> str \<Rightarrow> collected \<times> bool \<Rightarrow> collected \<times> bool" where
  "fallback_segment ext seg st =
     (if trim seg = [] then st
      else case extract_redirections seg of
        (cleaned, targets, heredoc) \<Rightarrow>
          (case sniff_complex_structure cleaned of
             Some why \<Rightarrow> (flag_complex why (fst st), True)
           | None \<Rightarrow>
               (case shlex_split ext cleaned of
                  None \<Rightarrow>
                    ((fst st)\<lparr>co_kinds := co_kinds (fst st) @ [AstTooComplex],
                              co_reason := or_reason (co_reason (fst st))
                                             (''tokenize failed: '' @ cleaned)\<rparr>, True)
                | Some argv \<Rightarrow>
                    if argv = [] then st
                    else let cmd = fallback_command argv targets heredoc
                         in ((fst st)\<lparr>co_kinds := add_sensitive_by_label cmd (co_kinds (fst st)),
                                      co_commands := co_commands (fst st) @ [cmd]\<rparr>, snd st))))"

definition add_patterns :: "parsed_command list \<Rightarrow> dangerous_kind list \<Rightarrow> dangerous_kind list" where
  "add_patterns commands ks = fold push_new (detect_dangerous_patterns commands) ks"

definition parse_fallback :: "externals \<Rightarrow> str \<Rightarrow> parse_result" where
  "parse_fallback ext line =
     (case split_top_level (strip_heredoc_bodies line) of
        Inl e \<Rightarrow> Inl e
      | Inr segments \<Rightarrow>
          (case fold (fallback_segment ext) segments
                  (\<lparr>co_commands = [], co_kinds = [], co_reason = None\<rparr>, False) of
             (st, dangerous) \<Rightarrow>
               let commands = map add_argv_targets (co_commands st);
                   kinds = add_patterns commands (co_kinds st)
               in Inr \<lparr>ps_commands = commands,
                       ps_dangerous = (dangerous \<or> kinds \<noteq> []),
                       ps_danger_reason =
                         (if kinds \<noteq> [] \<and> \<not> dangerous
                          then or_reason (co_reason st) (labels_of kinds) else co_reason st),
                       ps_dangerous_kinds = kinds\<rparr>))"

section \<open>Reading the tree\<close>

definition node_text :: "str \<Rightarrow> ts_node \<Rightarrow> str option" where
  "node_text source node =
     (if tn_start node \<le> tn_end node \<and> tn_end node \<le> length source
      then Some (take (tn_end node - tn_start node) (drop (tn_start node) source)) else None)"

definition child_by_field :: "str \<Rightarrow> ts_node \<Rightarrow> ts_node option" where
  "child_by_field f node = find (\<lambda>c. tn_field c = Some f) (tn_children node)"

definition strip_shell_quotes :: "str \<Rightarrow> str" where
  "strip_shell_quotes raw =
     (if 2 \<le> length raw \<and> ((hd raw = sq \<and> last raw = sq) \<or> (hd raw = dq \<and> last raw = dq))
      then butlast (tl raw) else raw)"

definition shell_word_text :: "str \<Rightarrow> ts_node \<Rightarrow> str option" where
  "shell_word_text source node = map_option strip_shell_quotes (node_text source node)"

text \<open>
  The \<open>while chars.next().is_some_and(digit)\<close> loop also consumes the first character that is
  not a digit; only what comes after it is compared with \<open>>\<close>.
\<close>

definition fd_redirect_is_write :: "str \<Rightarrow> bool" where
  "fd_redirect_is_write s =
     (let saw_digit = (s \<noteq> [] \<and> ascii_digit (hd s));
          rest = drop 1 (dropWhile ascii_digit s)
      in saw_digit \<and> starts_with rest ''>'')"

definition redirect_is_write :: "str \<Rightarrow> ts_node \<Rightarrow> bool" where
  "redirect_is_write source node =
     (case node_text source node of
        None \<Rightarrow> False
      | Some text \<Rightarrow>
          (let t = trim_start text
           in starts_with t ''>'' \<or> starts_with t ''&>'' \<or> fd_redirect_is_write t))"

definition redirect_destination :: "str \<Rightarrow> ts_node \<Rightarrow> str option" where
  "redirect_destination source node =
     Option.bind (child_by_field ''destination'' node) (shell_word_text source)"

definition redirect_targets :: "str \<Rightarrow> ts_node \<Rightarrow> str list" where
  "redirect_targets source node =
     (if redirect_is_write source node
      then (case redirect_destination source node of None \<Rightarrow> [] | Some t \<Rightarrow> [t]) else [])"

definition is_redirect_child :: "ts_node \<Rightarrow> bool" where
  "is_redirect_child c \<longleftrightarrow> tn_field c = Some ''redirect'' \<or> tn_field c = None"

definition is_heredoc_kind :: "ts_node \<Rightarrow> bool" where
  "is_heredoc_kind c \<longleftrightarrow> tn_kind c = ''heredoc_redirect'' \<or> tn_kind c = ''herestring_redirect''"

text \<open>One child of a \<open>command\<close> node (the arms of the \<open>match\<close>, in their order).\<close>

definition command_child :: "str \<Rightarrow> str \<Rightarrow> ts_node \<Rightarrow> parsed_command \<Rightarrow> parsed_command" where
  "command_child source name c cmd =
     (if tn_field c = Some ''name'' then cmd\<lparr>pc_argv := pc_argv cmd @ [name]\<rparr>
      else if tn_field c = Some ''argument'' then
        (case shell_word_text source c of
           Some t \<Rightarrow> cmd\<lparr>pc_argv := pc_argv cmd @ [t]\<rparr> | None \<Rightarrow> cmd)
      else if tn_kind c = ''variable_assignment'' then
        (case node_text source c of
           Some t \<Rightarrow> cmd\<lparr>pc_argv := pc_argv cmd @ [t],
                         pc_env_prefix := pc_env_prefix cmd @ [t]\<rparr>
         | None \<Rightarrow> cmd)
      else if is_redirect_child c \<and> tn_kind c = ''file_redirect'' then
        cmd\<lparr>pc_write_targets := pc_write_targets cmd @ redirect_targets source c\<rparr>
      else if is_redirect_child c \<and> is_heredoc_kind c then cmd\<lparr>pc_has_heredoc := True\<rparr>
      else if tn_kind c \<in> {''command_substitution'', ''process_substitution'', ''subshell''}
        then cmd
      else if tn_field c = None \<and> tn_kind c = ''-'' then cmd\<lparr>pc_argv := pc_argv cmd @ [''-'']\<rparr>
      else cmd)"

definition command_from_ast :: "str \<Rightarrow> ts_node \<Rightarrow> parsed_command option" where
  "command_from_ast source node =
     (case Option.bind (child_by_field ''name'' node) (node_text source) of
        None \<Rightarrow> None
      | Some name \<Rightarrow>
          let cmd = fold (command_child source name) (tn_children node)
                      \<lparr>pc_root = [], pc_argv = [], pc_env_prefix = [],
                       pc_write_targets = [], pc_has_heredoc = False\<rparr>;
              argv = (if pc_argv cmd = [] then [name] else pc_argv cmd)
          in Some (cmd\<lparr>pc_root := hd argv, pc_argv := argv,
                       pc_env_prefix :=
                         fold push_new (fst (strip_prefix argv)) (pc_env_prefix cmd)\<rparr>))"

definition apply_redirect_child :: "str \<Rightarrow> ts_node \<Rightarrow> parsed_command \<Rightarrow> parsed_command" where
  "apply_redirect_child source c cmd =
     (if is_redirect_child c \<and> tn_kind c = ''file_redirect'' then
        cmd\<lparr>pc_write_targets := pc_write_targets cmd @ redirect_targets source c\<rparr>
      else if is_redirect_child c \<and> is_heredoc_kind c then cmd\<lparr>pc_has_heredoc := True\<rparr>
      else cmd)"

definition apply_redirects_from_ast :: "str \<Rightarrow> ts_node \<Rightarrow> parsed_command \<Rightarrow> parsed_command" where
  "apply_redirects_from_ast source node cmd =
     fold (apply_redirect_child source) (tn_children node) cmd"

definition comment_text_is_injection :: "str \<Rightarrow> ts_node \<Rightarrow> bool" where
  "comment_text_is_injection source node =
     (case node_text source node of
        None \<Rightarrow> False
      | Some s \<Rightarrow> btick \<in> set s \<or> contains_str s ''$('' \<or> CHR '';'' \<in> set s)"

text \<open>\<open>commands.last_mut()\<close>.\<close>

definition update_last :: "('a \<Rightarrow> 'a) \<Rightarrow> 'a list \<Rightarrow> 'a list" where
  "update_last f xs = (if xs = [] then [] else butlast xs @ [f (last xs)])"

text \<open>Words between the body and its first redirect that are no node of their own.\<close>

definition gap_words :: "str \<Rightarrow> ts_node \<Rightarrow> ts_node \<Rightarrow> str list" where
  "gap_words source node body =
     (case find (\<lambda>c. (tn_kind c = ''file_redirect'' \<or> is_heredoc_kind c)
                      \<and> tn_field c = Some ''redirect'') (tn_children node) of
        None \<Rightarrow> []
      | Some r \<Rightarrow>
          if tn_end body < tn_start r \<and> tn_start r \<le> length source
          then split_ascii_whitespace
                 (take (tn_start r - tn_end body) (drop (tn_end body) source))
          else [])"

definition after_body :: "str \<Rightarrow> ts_node \<Rightarrow> ts_node \<Rightarrow> collected \<Rightarrow> collected" where
  "after_body source node body st =
     st\<lparr>co_commands :=
          update_last
            (\<lambda>c. apply_redirects_from_ast source node
                   (c\<lparr>pc_argv := pc_argv c @ gap_words source node body\<rparr>))
            (co_commands st)\<rparr>"

definition heredoc_pipelines :: "ts_node \<Rightarrow> ts_node list" where
  "heredoc_pipelines node =
     concat (map (\<lambda>c. if tn_kind c = ''heredoc_redirect''
                      then filter (\<lambda>i. tn_kind i = ''pipeline'') (tn_children c) else [])
                 (tn_children node))"

section \<open>Command substitutions\<close>

definition strip_substitution_delimiters :: "str \<Rightarrow> str" where
  "strip_substitution_delimiters s =
     (case find (\<lambda>p. starts_with s p) [''$('', ''<('', ''>(''] of
        Some p \<Rightarrow>
          (let rest = drop (length p) s
           in case str_strip_suffix rest '')'' of Some r \<Rightarrow> r | None \<Rightarrow> rest)
      | None \<Rightarrow>
          if 2 \<le> length s \<and> hd s = btick \<and> last s = btick then butlast (tl s) else s)"

definition substitution_inner :: "str \<Rightarrow> ts_node \<Rightarrow> str option" where
  "substitution_inner source node =
     map_option (\<lambda>raw. trim (strip_substitution_delimiters (trim raw))) (node_text source node)"

definition readonly_result :: "parse_result \<Rightarrow> bool" where
  "readonly_result r =
     (case r of
        Inl _ \<Rightarrow> False
      | Inr p \<Rightarrow> ps_dangerous_kinds p = [] \<and> ps_commands p \<noteq> []
                 \<and> list_all is_readonly_data_command (ps_commands p))"

definition substitution_is_readonly ::
    "(str \<Rightarrow> parse_result option) \<Rightarrow> str \<Rightarrow> ts_node \<Rightarrow> bool option" where
  "substitution_is_readonly parse source node =
     (case substitution_inner source node of
        None \<Rightarrow> Some False
      | Some inner \<Rightarrow>
          if inner = [] then Some False else map_option readonly_result (parse inner))"

section \<open>The walk\<close>

fun any_opt :: "('a \<Rightarrow> bool option) \<Rightarrow> 'a list \<Rightarrow> bool option" where
  "any_opt f [] = Some False"
| "any_opt f (x # xs) = Option.bind (f x) (\<lambda>b. if b then Some True else any_opt f xs)"

fun fold_opt :: "('a \<Rightarrow> 's \<Rightarrow> 's option) \<Rightarrow> 'a list \<Rightarrow> 's \<Rightarrow> 's option" where
  "fold_opt f [] s = Some s"
| "fold_opt f (x # xs) s = Option.bind (f x s) (fold_opt f xs)"

lemma any_opt_cong [fundef_cong]:
  assumes "xs = ys" "\<And>x. x \<in> set ys \<Longrightarrow> f x = g x"
  shows "any_opt f xs = any_opt g ys"
  unfolding assms(1) using assms(2)
proof (induction ys)
  case (Cons y ys)
  then have "any_opt f ys = any_opt g ys" by simp
  with Cons.prems show ?case by (simp cong: if_cong)
qed simp

lemma fold_opt_cong [fundef_cong]:
  assumes "xs = ys" "s = t" "\<And>x s. x \<in> set ys \<Longrightarrow> f x s = g x s"
  shows "fold_opt f xs s = fold_opt g ys t"
  unfolding assms(1,2) using assms(3)
proof (induction ys arbitrary: t)
  case (Cons y ys)
  then have "fold_opt f ys = fold_opt g ys" by (intro ext) simp
  with Cons.prems show ?case by simp
qed simp

fun node_complex :: "(str \<Rightarrow> parse_result option) \<Rightarrow> str \<Rightarrow> ts_node \<Rightarrow> bool option" where
  "node_complex parse source (TsNode kind named field st en cs) =
     (if kind = ''command_substitution'' \<or> kind = ''process_substitution'' then
        map_option Not
          (substitution_is_readonly parse source (TsNode kind named field st en cs))
      else if kind = ''subshell'' \<or> kind = ''compound_statement'' then Some True
      else if kind = ''comment'' then
        Some (comment_text_is_injection source (TsNode kind named field st en cs))
      else any_opt (node_complex parse source) cs)"

lemma child_by_field_size: "child_by_field f node = Some c \<Longrightarrow> size c < size node"
  by (cases node)
     (auto simp: child_by_field_def less_Suc_eq_le dest!: find_SomeD intro: size_list_estimation')

lemma child_size: "c \<in> set (tn_children node) \<Longrightarrow> size c < size node"
  by (cases node) (auto simp: less_Suc_eq_le intro: size_list_estimation')

lemma heredoc_pipelines_size: "c \<in> set (heredoc_pipelines node) \<Longrightarrow> size c < size node"
proof -
  assume "c \<in> set (heredoc_pipelines node)"
  then obtain d where "d \<in> set (tn_children node)" "c \<in> set (tn_children d)"
    by (auto simp: heredoc_pipelines_def split: if_splits)
  then show ?thesis using child_size less_trans by blast
qed

text \<open>Entering a node: what it flags, before its children are walked.\<close>

definition enter_node ::
    "(str \<Rightarrow> parse_result option) \<Rightarrow> str \<Rightarrow> ts_node \<Rightarrow> collected \<Rightarrow> collected option" where
  "enter_node parse source node st =
     (let kind = tn_kind node in
      if kind = ''command_substitution'' \<or> kind = ''process_substitution'' then
        map_option
          (\<lambda>ro. if ro then st else flag_complex (kind @ '' requires approval'') st)
          (substitution_is_readonly parse source node)
      else if kind = ''subshell'' \<or> kind = ''compound_statement'' then
        Some (flag_complex (kind @ '' requires approval'') st)
      else Some st)"

text \<open>A \<open>command\<close> node that has a name: the command, flagged when it holds complex structure.\<close>

definition add_command ::
    "(str \<Rightarrow> parse_result option) \<Rightarrow> str \<Rightarrow> ts_node \<Rightarrow> parsed_command \<Rightarrow> collected \<Rightarrow> collected option" where
  "add_command parse source node cmd st =
     map_option
       (\<lambda>complex. let st' = (if complex then flag_complex ''command injection'' st else st)
                  in st'\<lparr>co_commands := co_commands st' @ [cmd]\<rparr>)
       (node_complex parse source node)"

function collect_ast_commands ::
    "(str \<Rightarrow> parse_result option) \<Rightarrow> str \<Rightarrow> ts_node \<Rightarrow> collected \<Rightarrow> collected option" where
  "collect_ast_commands parse source node st =
     (if tn_kind node = ''redirected_statement'' then
        (case child_by_field ''body'' node of
           None \<Rightarrow> Some st
         | Some body \<Rightarrow>
             Option.bind (collect_ast_commands parse source body st)
               (\<lambda>st'. fold_opt (collect_ast_commands parse source) (heredoc_pipelines node)
                        (after_body source node body st')))
      else case (if tn_kind node = ''command'' then command_from_ast source node else None) of
        Some cmd \<Rightarrow> add_command parse source node cmd st
      | None \<Rightarrow>
          if tn_kind node = ''comment'' then
            Some (if comment_text_is_injection source node
                  then flag_complex ''comment injection'' st else st)
          else Option.bind (enter_node parse source node st)
                 (fold_opt
                    (\<lambda>c st. if tn_named c then collect_ast_commands parse source c st
                            else Some (if tn_kind c = ''&''
                                       then flag_complex ''background execution'' st else st))
                    (tn_children node)))"
  by pat_completeness auto
termination
  by (relation "measure (\<lambda>(_, _, node, _). size node)")
     (auto intro: child_size child_by_field_size heredoc_pipelines_size)

declare collect_ast_commands.simps [simp del]

definition add_sensitive :: "parsed_command list \<Rightarrow> dangerous_kind list \<Rightarrow> dangerous_kind list" where
  "add_sensitive commands ks =
     fold (\<lambda>c ks. if sensitive_of c = [] then ks
                  else push_new (SensitiveEnvPrefix (sensitive_of c)) ks) commands ks"

text \<open>What the tree walk makes of a line; \<open>Some None\<close> sends the line to the fallback.\<close>

definition finish_collected :: "collected \<Rightarrow> parsed_shell option" where
  "finish_collected st =
     (if co_commands st = [] then None
      else let commands = map add_argv_targets (co_commands st);
               kinds = add_patterns commands (add_sensitive commands (co_kinds st))
           in Some \<lparr>ps_commands = commands, ps_dangerous = (kinds \<noteq> []),
                    ps_danger_reason =
                      (if kinds \<noteq> [] then or_reason (co_reason st) (labels_of kinds)
                       else co_reason st),
                    ps_dangerous_kinds = kinds\<rparr>)"

definition parse_with_tree_sitter ::
    "externals \<Rightarrow> (str \<Rightarrow> parse_result option) \<Rightarrow> str \<Rightarrow> parsed_shell option option" where
  "parse_with_tree_sitter ext parse line =
     (case ts_parse ext line of
        None \<Rightarrow> Some None
      | Some root \<Rightarrow>
          map_option finish_collected
            (collect_ast_commands parse line root
               \<lparr>co_commands = [], co_kinds = [], co_reason = None\<rparr>))"

definition parse_step ::
    "externals \<Rightarrow> (str \<Rightarrow> parse_result option) \<Rightarrow> str \<Rightarrow> parse_result option" where
  "parse_step ext parse line0 =
     (let line = trim line0 in
      if line = [] then Some (Inl Empty)
      else map_option
             (\<lambda>r. case r of Some p \<Rightarrow> Inr p | None \<Rightarrow> parse_fallback ext line)
             (parse_with_tree_sitter ext parse line))"

fun parse_fuel :: "externals \<Rightarrow> nat \<Rightarrow> str \<Rightarrow> parse_result option" where
  "parse_fuel ext 0 line = None"
| "parse_fuel ext (Suc n) line = parse_step ext (parse_fuel ext n) line"

text \<open>
  \<open>parse\<close> with as much nesting as the line is long; \<open>parse_fuel_parse\<close> shows that more
  never changes the result, so \<open>None\<close> is a parser that recurses forever.
\<close>

definition parse :: "externals \<Rightarrow> str \<Rightarrow> parse_result option" where
  "parse ext line = parse_fuel ext (Suc (length line)) line"

end
