(* ===== verification/Rust_Path.thy ===== *)
theory Rust_Path
  imports Rust_Str
begin

text \<open>
  \<open>std::path\<close> on Unix, where a path is its bytes: the components (repeated separators and \<open>.\<close>
  vanish, a leading \<open>.\<close> stays), equality and \<open>starts_with\<close> by component, \<open>join\<close>, \<open>parent\<close> and
  \<open>file_name\<close>. \<open>PathBuf\<close> equality and hashing go by components, so \<open>path_eq\<close> is what
  \<open>Vec::contains\<close> and \<open>HashSet\<close> see.
\<close>

type_synonym path = str

datatype component = RootDir | CurDir | ParentDir | Normal str

fun split_slash :: "str \<Rightarrow> str \<Rightarrow> str list" where
  "split_slash buf [] = [buf]"
| "split_slash buf (c # s) =
     (if c = CHR ''/'' then buf # split_slash [] s else split_slash (buf @ [c]) s)"

definition inner_component :: "str \<Rightarrow> component option" where
  "inner_component p =
     (if p = [] \<or> p = ''.'' then None
      else if p = ''..'' then Some ParentDir else Some (Normal p))"

definition components :: "path \<Rightarrow> component list" where
  "components p =
     (let ps = split_slash [] p in
      if starts_with p ''/'' then RootDir # List.map_filter inner_component ps
      else case ps of
        q # qs \<Rightarrow> (if q = ''.'' then CurDir # List.map_filter inner_component qs
                  else List.map_filter inner_component ps)
      | [] \<Rightarrow> [])"

definition path_eq :: "path \<Rightarrow> path \<Rightarrow> bool" where
  "path_eq p q \<longleftrightarrow> components p = components q"

definition comp_starts_with :: "path \<Rightarrow> path \<Rightarrow> bool" where
  "comp_starts_with p q \<longleftrightarrow> prefix (components q) (components p)"

abbreviation is_absolute :: "path \<Rightarrow> bool" where "is_absolute p \<equiv> starts_with p ''/''"
abbreviation is_relative :: "path \<Rightarrow> bool" where "is_relative p \<equiv> \<not> is_absolute p"

definition path_join :: "path \<Rightarrow> path \<Rightarrow> path" where
  "path_join p q =
     (if is_absolute q then q
      else if p = [] \<or> last p = CHR ''/'' then p @ q
      else p @ ''/'' @ q)"

fun render_component :: "component \<Rightarrow> str" where
  "render_component RootDir = ''/''"
| "render_component CurDir = ''.''"
| "render_component ParentDir = ''..''"
| "render_component (Normal s) = s"

text \<open>A component list as path text, by pushing one component after the other.\<close>

definition render :: "component list \<Rightarrow> path" where
  "render cs = fold (\<lambda>c p. path_join p (render_component c)) cs []"

text \<open>\<open>Path::parent\<close>: all but the last component, unless that is the root or there is none.\<close>

definition path_parent :: "path \<Rightarrow> path option" where
  "path_parent p =
     (let cs = components p in
      if cs = [] \<or> last cs = RootDir then None else Some (render (butlast cs)))"

definition path_file_name :: "path \<Rightarrow> str option" where
  "path_file_name p =
     (let cs = components p in
      if cs = [] then None
      else case last cs of Normal s \<Rightarrow> Some s | _ \<Rightarrow> None)"

definition path_contains :: "path list \<Rightarrow> path \<Rightarrow> bool" where
  "path_contains ps p \<longleftrightarrow> list_ex (path_eq p) ps"

definition push_path :: "path \<Rightarrow> path list \<Rightarrow> path list" where
  "push_path p ps = (if path_contains ps p then ps else ps @ [p])"

lemma path_eq_refl [simp]: "path_eq p p"
  by (simp add: path_eq_def)

lemma path_eq_sym: "path_eq p q \<Longrightarrow> path_eq q p"
  by (simp add: path_eq_def)

lemma path_contains_iff: "path_contains ps p \<longleftrightarrow> components p \<in> components ` set ps"
  by (auto simp: path_contains_def path_eq_def list_ex_iff)

lemma push_path_components:
  "components ` set (push_path p ps) = insert (components p) (components ` set ps)"
  by (auto simp: push_path_def path_contains_iff)

lemma distinct_push_path:
  "distinct (map components ps) \<Longrightarrow> distinct (map components (push_path p ps))"
  by (auto simp: push_path_def path_contains_iff)

lemma push_path_idem: "push_path p (push_path p ps) = push_path p ps"
  by (simp add: push_path_def path_contains_def)

lemma comp_starts_with_refl [simp]: "comp_starts_with p p"
  by (simp add: comp_starts_with_def)

lemma comp_starts_with_trans:
  "comp_starts_with p q \<Longrightarrow> comp_starts_with q r \<Longrightarrow> comp_starts_with p r"
  unfolding comp_starts_with_def by (rule prefix_order.trans)

end
