(* ===== verification/Effects.thy ===== *)
theory Effects
  imports Shell_Parse Rust_Path
begin

text \<open>
  \<open>crates/agent-core/src/effects.rs\<close>: what one tool call does, read off its name and its JSON
  input. Tools that run shell commands are analysed segment by segment; the result is \<open>None\<close>
  only where the shell parser recurses forever (\<open>Shell_Parse.parse\<close>).
\<close>

section \<open>Data\<close>

text \<open>\<open>serde_json::Value\<close> as the code reads it: \<open>get\<close> and \<open>as_str\<close>.\<close>

datatype json =
  JNull | JBool bool | JNum int | JStr str | JArr "json list" | JObj "(str \<times> json) list"

definition json_get_str :: "json \<Rightarrow> str \<Rightarrow> str option" where
  "json_get_str v k =
     (case v of
        JObj kvs \<Rightarrow> (case map_of kvs k of Some (JStr s) \<Rightarrow> Some s | _ \<Rightarrow> None)
      | _ \<Rightarrow> None)"

datatype effect_class = ReadOnly | Mutating | Destructive | Network | NeedsHumanInput

datatype risk_level = Low | Medium | High | Critical

record segment_effect =
  seg_fingerprint :: str
  seg_env_prefix :: "str list"
  seg_write_targets :: "str list"
  seg_is_readonly :: bool
  seg_unmemorable :: bool
  seg_safe_write :: bool
  seg_egress :: bool

record effects =
  ef_paths :: "path list"
  ef_command_fingerprint :: "str option"
  ef_network :: bool
  ef_domain :: "str option"
  ef_risk :: risk_level
  ef_class :: effect_class
  ef_is_concurrent_safe :: bool
  ef_segments :: "segment_effect list"
  ef_dangerous_kinds :: "str list"

definition effects_read_only :: effects where
  "effects_read_only =
     \<lparr>ef_paths = [], ef_command_fingerprint = None, ef_network = False, ef_domain = None,
      ef_risk = Low, ef_class = ReadOnly, ef_is_concurrent_safe = True,
      ef_segments = [], ef_dangerous_kinds = []\<rparr>"

definition effects_needs_human_input :: effects where
  "effects_needs_human_input =
     effects_read_only\<lparr>ef_class := NeedsHumanInput, ef_is_concurrent_safe := False\<rparr>"

definition effects_network :: "str option \<Rightarrow> effects" where
  "effects_network domain =
     \<lparr>ef_paths = [], ef_command_fingerprint = None, ef_network = True, ef_domain = domain,
      ef_risk = Medium, ef_class = Network, ef_is_concurrent_safe = False,
      ef_segments = [], ef_dangerous_kinds = []\<rparr>"

definition effects_mutating :: "path list \<Rightarrow> effects" where
  "effects_mutating paths =
     \<lparr>ef_paths = paths, ef_command_fingerprint = None, ef_network = False, ef_domain = None,
      ef_risk = Medium, ef_class = Mutating, ef_is_concurrent_safe = False,
      ef_segments = [], ef_dangerous_kinds = []\<rparr>"

definition effects_destructive_no_paths :: effects where
  "effects_destructive_no_paths =
     \<lparr>ef_paths = [], ef_command_fingerprint = None, ef_network = False, ef_domain = None,
      ef_risk = High, ef_class = Destructive, ef_is_concurrent_safe = False,
      ef_segments = [], ef_dangerous_kinds = []\<rparr>"

definition has_dangerous_pattern :: "effects \<Rightarrow> bool" where
  "has_dangerous_pattern e \<longleftrightarrow> ef_dangerous_kinds e \<noteq> []"

section \<open>Shell tools\<close>

definition nonempty_str :: "str option \<Rightarrow> str option" where
  "nonempty_str s = (case s of Some (c # r) \<Rightarrow> Some (c # r) | _ \<Rightarrow> None)"

definition file_path_paths :: "json \<Rightarrow> str \<Rightarrow> path list" where
  "file_path_paths input field =
     (case nonempty_str (json_get_str input field) of None \<Rightarrow> [] | Some s \<Rightarrow> [s])"

definition is_device_path :: "path \<Rightarrow> bool" where
  "is_device_path p = comp_starts_with p ''/dev/''"

definition dedup_preserve_order :: "path list \<Rightarrow> path list" where
  "dedup_preserve_order paths = dedup_on components [] paths"

definition segment_of :: "parsed_command \<Rightarrow> segment_effect" where
  "segment_of cmd =
     \<lparr>seg_fingerprint = fingerprint_of cmd, seg_env_prefix = pc_env_prefix cmd,
      seg_write_targets = pc_write_targets cmd, seg_is_readonly = is_safe cmd,
      seg_unmemorable = is_never_remember cmd, seg_safe_write = is_safe_write cmd,
      seg_egress = is_egress cmd\<rparr>"

definition command_paths :: "parsed_command \<Rightarrow> path list" where
  "command_paths cmd = pc_write_targets cmd @ delete_targets cmd"

definition classify_readonly :: "parsed_shell \<Rightarrow> bool" where
  "classify_readonly p \<longleftrightarrow>
     \<not> ps_dangerous p \<and> ps_dangerous_kinds p = [] \<and> ps_commands p \<noteq> []
     \<and> list_all is_safe (ps_commands p)"

text \<open>The effects of a non-empty command line whose parse is known.\<close>

definition shell_effects :: "path list \<Rightarrow> str \<Rightarrow> parse_result \<Rightarrow> effects" where
  "shell_effects cwd raw parsed =
     (let cmds = (case parsed of Inl _ \<Rightarrow> [] | Inr p \<Rightarrow> ps_commands p);
          kinds = (case parsed of
                     Inl _ \<Rightarrow> [''ast-too-complex'']
                   | Inr p \<Rightarrow> map kind_label (ps_dangerous_kinds p));
          readonly = (case parsed of Inl _ \<Rightarrow> False | Inr p \<Rightarrow> classify_readonly p);
          fingerprint = (case cmds of [] \<Rightarrow> raw | c # _ \<Rightarrow> fingerprint_of c);
          paths = dedup_preserve_order
                    (filter (\<lambda>p. \<not> is_device_path p) (cwd @ concat (map command_paths cmds)))
      in \<lparr>ef_paths = paths, ef_command_fingerprint = Some fingerprint,
          ef_network = False, ef_domain = None,
          ef_risk = (if readonly then Low else High),
          ef_class = (if readonly then ReadOnly else Destructive),
          ef_is_concurrent_safe = readonly,
          ef_segments = map segment_of cmds, ef_dangerous_kinds = kinds\<rparr>)"

definition analyze_shell :: "externals \<Rightarrow> json \<Rightarrow> effects option" where
  "analyze_shell ext input =
     (let cwd = file_path_paths input ''cwd'' in
      case nonempty_str (map_option trim (json_get_str input ''command'')) of
        None \<Rightarrow> Some (effects_destructive_no_paths\<lparr>ef_paths := cwd\<rparr>)
      | Some raw \<Rightarrow> map_option (shell_effects cwd raw) (parse ext raw))"

section \<open>All tools\<close>

definition READ_ONLY_TOOLS :: "str list" where
  "READ_ONLY_TOOLS =
     [''Skill'', ''TodoWrite'', ''PlanMode'', ''BashOutput'', ''KillShell'', ''PreviewStyle'',
      ''ReadMemory'', ''WriteMemory'']"

definition analyze_effects :: "externals \<Rightarrow> str \<Rightarrow> json \<Rightarrow> effects option" where
  "analyze_effects ext tool_name input =
     (if tool_name = ''Ask'' \<or> tool_name = ''ask'' then Some effects_needs_human_input
      else if tool_name \<in> {''Bash'', ''PowerShell'', ''InteractiveBash''} then
        analyze_shell ext input
      else if tool_name = ''Read'' then
        Some (effects_read_only\<lparr>ef_paths := file_path_paths input ''file_path''\<rparr>)
      else if tool_name = ''Edit'' then
        Some (effects_mutating (file_path_paths input ''file_path''))
      else if tool_name = ''Glob'' \<or> tool_name = ''Grep'' then
        Some (effects_read_only\<lparr>ef_paths := file_path_paths input ''path''\<rparr>)
      else if tool_name = ''WebSearch'' then Some (effects_network None)
      else if tool_name = ''Fetch'' then
        Some (effects_network (Option.bind (json_get_str input ''url'') (url_host ext)))
      else if tool_name \<in> set READ_ONLY_TOOLS then Some effects_read_only
      else if tool_name = ''BashInput'' then
        Some (effects_destructive_no_paths\<lparr>ef_command_fingerprint := Some ''bash-input''\<rparr>)
      else if starts_with tool_name ''Mcp__'' then
        (if json_get_str input ''_server_transport'' \<in> {Some ''streamable_http'', Some ''sse''}
         then Some (effects_network None) else Some (effects_mutating []))
      else Some (effects_mutating []))"

section \<open>What the analysis guarantees\<close>

lemma shell_effects_class:
  "ef_class (shell_effects cwd raw r) = ReadOnly \<longleftrightarrow> (\<exists>p. r = Inr p \<and> classify_readonly p)"
  by (auto simp: shell_effects_def Let_def split: sum.splits)

lemma shell_effects_class_cases:
  "ef_class (shell_effects cwd raw r) = ReadOnly \<or> ef_class (shell_effects cwd raw r) = Destructive"
  by (auto simp: shell_effects_def Let_def)

lemma shell_effects_segments:
  "ef_segments (shell_effects cwd raw (Inr p)) = map segment_of (ps_commands p)"
  "ef_segments (shell_effects cwd raw (Inl e)) = []"
  by (simp_all add: shell_effects_def Let_def)

lemma shell_effects_kinds:
  "ef_dangerous_kinds (shell_effects cwd raw (Inr p)) = map kind_label (ps_dangerous_kinds p)"
  "ef_dangerous_kinds (shell_effects cwd raw (Inl e)) = [''ast-too-complex'']"
  by (simp_all add: shell_effects_def Let_def)

lemma analyze_shell_cases:
  assumes "analyze_shell ext input = Some e"
  obtains (empty) cwd where "e = effects_destructive_no_paths\<lparr>ef_paths := cwd\<rparr>"
    | (parsed) cwd raw r where "parse ext raw = Some r" "e = shell_effects cwd raw r"
  using assms by (auto simp: analyze_shell_def Let_def split: option.splits)

end
