(* ===== verification/Parse_Laws.thy ===== *)
theory Parse_Laws
  imports Shell_Parse
begin

text \<open>
  \<open>parse\<close> recurses through the command substitutions of a line. Here: more fuel never changes
  the result (the walk is monotone in the parser it is given, and only looks at inner texts no
  longer than the line), so running out of the fuel of \<open>parse\<close> is a recursion that never ends;
  that this happens only where a substitution spans its whole line; and a line where it does.
\<close>

section \<open>Substitutions are parts of the line\<close>

lemma sublist_same_length: "sublist a b \<Longrightarrow> length b \<le> length a \<Longrightarrow> a = b"
  by (auto simp: sublist_def)

lemma sublist_trim: "sublist (trim s) s"
  using trim_infix [of s] by (auto simp: sublist_def)

lemma sublist_butlast_tl: "sublist (butlast (tl s)) s"
  by (rule sublist_order.order_trans [OF sublist_butlast sublist_tl])

lemma sublist_strip: "sublist (strip_substitution_delimiters s) s"
proof (cases "find (\<lambda>p. starts_with s p) [''$('', ''<('', ''>('']")
  case None
  then show ?thesis
    by (simp add: strip_substitution_delimiters_def sublist_butlast_tl del: find.simps)
next
  case (Some p)
  have "sublist (drop (length p) s) s" by (rule sublist_drop)
  moreover have "sublist (take k (drop (length p) s)) (drop (length p) s)" for k
    by (rule sublist_take)
  ultimately show ?thesis
    using Some
    by (auto simp: strip_substitution_delimiters_def str_strip_suffix_def Let_def simp del: find.simps
        intro: sublist_order.order_trans)
qed

lemma substitution_inner_sublist: "substitution_inner source node = Some i \<Longrightarrow> sublist i source"
proof -
  assume "substitution_inner source node = Some i"
  then obtain raw where raw: "node_text source node = Some raw"
    and i: "i = trim (strip_substitution_delimiters (trim raw))"
    by (auto simp: substitution_inner_def)
  have "sublist raw source"
    using raw by (auto simp: node_text_def split: if_splits
        intro: sublist_order.order_trans [OF sublist_take sublist_drop])
  then show ?thesis
    unfolding i by (meson sublist_order.order_trans sublist_strip sublist_trim)
qed

section \<open>The walk is monotone in the parser\<close>

text \<open>\<open>Q\<close> returns what \<open>P\<close> returns, on every part of the source.\<close>

definition below_within ::
    "str \<Rightarrow> (str \<Rightarrow> parse_result option) \<Rightarrow> (str \<Rightarrow> parse_result option) \<Rightarrow> bool" where
  "below_within source P Q \<longleftrightarrow> (\<forall>s. sublist s source \<longrightarrow> le_opt (P s) (Q s))"

lemma le_opt_map: "le_opt a b \<Longrightarrow> le_opt (map_option f a) (map_option f b)"
  by (cases a) (auto simp: le_opt_def)

lemma any_opt_mono:
  "(\<And>x. x \<in> set xs \<Longrightarrow> le_opt (f x) (g x)) \<Longrightarrow> le_opt (any_opt f xs) (any_opt g xs)"
  by (induction xs) (auto intro!: le_opt_bind)

lemma fold_opt_mono:
  "(\<And>x s. x \<in> set xs \<Longrightarrow> le_opt (f x s) (g x s)) \<Longrightarrow> le_opt (fold_opt f xs s) (fold_opt g xs s)"
  by (induction xs arbitrary: s) (auto intro!: le_opt_bind)

lemma substitution_mono:
  "below_within source P Q \<Longrightarrow>
    le_opt (substitution_is_readonly P source node) (substitution_is_readonly Q source node)"
  by (auto simp: substitution_is_readonly_def below_within_def split: option.split
      intro: le_opt_map dest: substitution_inner_sublist)

lemma node_complex_mono:
  "below_within source P Q \<Longrightarrow> le_opt (node_complex P source node) (node_complex Q source node)"
proof (induction P source node rule: node_complex.induct)
  case (1 P source kind named field st en cs)
  then show ?case
    using any_opt_mono [of cs "node_complex P source" "node_complex Q source"]
    by (simp add: le_opt_map substitution_mono)
qed

lemma enter_node_mono:
  "below_within source P Q \<Longrightarrow> le_opt (enter_node P source node st) (enter_node Q source node st)"
  by (auto simp: enter_node_def Let_def intro: le_opt_map substitution_mono)

lemma add_command_mono:
  "below_within source P Q \<Longrightarrow>
    le_opt (add_command P source node cmd st) (add_command Q source node cmd st)"
  by (simp add: add_command_def le_opt_map node_complex_mono)

lemma collect_mono:
  "below_within source P Q \<Longrightarrow>
    le_opt (collect_ast_commands P source node st) (collect_ast_commands Q source node st)"
proof (induction P source node st rule: collect_ast_commands.induct)
  case (1 P source node st)
  note add = add_command_mono [OF 1(4)] and enter = enter_node_mono [OF 1(4)]
  show ?case
    unfolding collect_ast_commands.simps [of P source node st]
      collect_ast_commands.simps [of Q source node st]
    using 1 add enter
    by (auto split: option.split intro!: le_opt_bind fold_opt_mono)
qed

lemma parse_step_mono:
  "below_within (trim line) P Q \<Longrightarrow> le_opt (parse_step ext P line) (parse_step ext Q line)"
  by (auto simp: parse_step_def parse_with_tree_sitter_def Let_def split: option.split
      intro!: le_opt_map collect_mono)

lemma parse_fuel_mono_Suc: "below_within s (parse_fuel ext n) (parse_fuel ext (Suc n))"
proof (induction n arbitrary: s)
  case (Suc n)
  then show ?case by (auto simp: below_within_def intro: parse_step_mono)
qed (simp add: below_within_def)

lemma parse_fuel_mono:
  "parse_fuel ext n line = Some r \<Longrightarrow> n \<le> m \<Longrightarrow> parse_fuel ext m line = Some r"
proof (induction m)
  case (Suc m)
  show ?case
  proof (cases "n = Suc m")
    case False
    with Suc have "parse_fuel ext m line = Some r" by simp
    then show ?thesis
      using parse_fuel_mono_Suc [of line ext m] by (auto simp: below_within_def le_opt_def)
  qed (use Suc.prems in simp)
qed simp
lemma parse_step_agree:
  assumes "\<And>s. sublist s (trim line) \<Longrightarrow> P s = Q s"
  shows "parse_step ext P line = parse_step ext Q line"
proof -
  have "below_within (trim line) P Q" "below_within (trim line) Q P"
    using assms by (simp_all add: below_within_def)
  then have "le_opt (parse_step ext P line) (parse_step ext Q line)"
    "le_opt (parse_step ext Q line) (parse_step ext P line)"
    by (simp_all add: parse_step_mono)
  then show ?thesis by (cases "parse_step ext P line") (auto simp: le_opt_def)
qed

section \<open>Enough fuel\<close>

lemma parse_fuel_stable:
  "length line < n \<Longrightarrow> parse_fuel ext (Suc n) line = parse_fuel ext n line"
proof (induction "length line" arbitrary: line n rule: less_induct)
  case less
  then obtain k where n: "n = Suc k" "length line \<le> k" by (cases n) auto
  show ?case
  proof (cases "parse_fuel ext n line")
    case (Some r)
    then show ?thesis using parse_fuel_mono [of ext n line r "Suc n"] by simp
  next
    case None
    have "parse_fuel ext k s = parse_fuel ext (Suc k) s" if s: "sublist s (trim line)" for s
    proof (cases "length s < length line")
      case True
      with less.hyps [of s k] n(2) show ?thesis by simp
    next
      case False
      have "sublist s line" using s sublist_trim sublist_order.order_trans by blast
      with False have "s = line" using sublist_same_length by fastforce
      moreover have "parse_fuel ext k line = None"
        using None parse_fuel_mono [of ext k line _ n] n(1) by (cases "parse_fuel ext k line") auto
      ultimately show ?thesis using None n(1) by simp
    qed
    from parse_step_agree [of line "parse_fuel ext k" "parse_fuel ext (Suc k)" ext, OF this]
    show ?thesis by (simp add: n(1))
  qed
qed

text \<open>On a line of \<open>n\<close> bytes any fuel above \<open>n\<close> gives the result of \<open>parse\<close>: the parser that never runs out
  returns this result too, and \<open>None\<close> is a recursion that does not end.\<close>

lemma parse_fuel_parse: "length line < n \<Longrightarrow> parse_fuel ext n line = parse ext line"
proof (induction n)
  case (Suc n)
  then show ?case
    using parse_fuel_stable [of line n ext] by (cases "length line = n") (simp_all add: parse_def)
qed simp

section \<open>When the parser returns\<close>

fun subtrees :: "ts_node \<Rightarrow> ts_node list" where
  "subtrees (TsNode kind named field st en cs) =
     TsNode kind named field st en cs # concat (map subtrees cs)"

lemma subtrees_self [simp]: "node \<in> set (subtrees node)"
  by (cases node) simp

lemma subtrees_child:
  "c \<in> set (tn_children node) \<Longrightarrow> x \<in> set (subtrees c) \<Longrightarrow> x \<in> set (subtrees node)"
  by (cases node) auto

definition is_substitution :: "ts_node \<Rightarrow> bool" where
  "is_substitution node \<longleftrightarrow>
     tn_kind node = ''command_substitution'' \<or> tn_kind node = ''process_substitution''"

text \<open>Somewhere in the tree a substitution is met whose inner text \<open>P\<close> does not return on.\<close>

definition blocked :: "(str \<Rightarrow> parse_result option) \<Rightarrow> str \<Rightarrow> ts_node \<Rightarrow> bool" where
  "blocked P source node \<longleftrightarrow>
     (\<exists>x \<in> set (subtrees node). is_substitution x
        \<and> (\<exists>i. substitution_inner source x = Some i \<and> P i = None))"

lemma blocked_child: "c \<in> set (tn_children node) \<Longrightarrow> blocked P source c \<Longrightarrow> blocked P source node"
  unfolding blocked_def using subtrees_child by blast

lemma blocked_self:
  "is_substitution node \<Longrightarrow> substitution_is_readonly P source node = None \<Longrightarrow> blocked P source node"
  unfolding blocked_def
  by (auto simp: substitution_is_readonly_def split: option.splits if_splits
      intro!: bexI [of _ node])

lemma any_opt_None: "any_opt f xs = None \<Longrightarrow> \<exists>x \<in> set xs. f x = None"
  by (induction xs) (auto split: if_splits simp: bind_eq_None_conv)

lemma fold_opt_None: "fold_opt f xs s = None \<Longrightarrow> \<exists>x \<in> set xs. \<exists>s. f x s = None"
  by (induction xs arbitrary: s) (auto simp: bind_eq_None_conv)

lemma node_complex_None: "node_complex P source node = None \<Longrightarrow> blocked P source node"
proof (induction P source node rule: node_complex.induct)
  case (1 P source kind named field st en cs)
  let ?n = "TsNode kind named field st en cs"
  show ?case
  proof (cases "is_substitution ?n")
    case True
    with 1 show ?thesis
      by (auto simp: is_substitution_def intro!: blocked_self split: if_splits)
  next
    case False
    then have k: "kind \<noteq> ''command_substitution''" "kind \<noteq> ''process_substitution''"
      by (auto simp: is_substitution_def)
    with 1(2) obtain c where "c \<in> set cs" "node_complex P source c = None"
      and "kind \<noteq> ''subshell''" "kind \<noteq> ''compound_statement''" "kind \<noteq> ''comment''"
      by (auto dest!: any_opt_None split: if_splits)
    with 1(1) k have "blocked P source c" by auto
    then show ?thesis using blocked_child [of c ?n] \<open>c \<in> set cs\<close> by simp
  qed
qed

lemma blocked_pipelines:
  assumes "c \<in> set (heredoc_pipelines node)" and "blocked P source c"
  shows "blocked P source node"
proof -
  obtain d where "d \<in> set (tn_children node)" "c \<in> set (tn_children d)"
    using assms(1) by (auto simp: heredoc_pipelines_def split: if_splits)
  then show ?thesis using assms(2) blocked_child by blast
qed

lemma child_by_field_child: "child_by_field f node = Some c \<Longrightarrow> c \<in> set (tn_children node)"
  by (auto simp: child_by_field_def dest: find_SomeD)

lemma enter_node_None: "enter_node P source node st = None \<Longrightarrow> blocked P source node"
  by (auto simp: enter_node_def Let_def is_substitution_def intro!: blocked_self split: if_splits)

lemma collect_None: "collect_ast_commands P source node st = None \<Longrightarrow> blocked P source node"
proof (induction P source node st rule: collect_ast_commands.induct)
  case (1 P source node st)
  show ?case
    using 1 unfolding collect_ast_commands.simps [of P source node st]
    by (auto simp: add_command_def
        dest!: fold_opt_None
        dest: node_complex_None enter_node_None child_by_field_child
        intro: blocked_child blocked_pipelines
        split: Option.bind_split_asm option.splits if_splits)
qed

lemma parse_step_None:
  assumes "parse_step ext P line = None"
  obtains root where "ts_parse ext (trim line) = Some root" "blocked P (trim line) root"
  using assms
  by (auto simp: parse_step_def parse_with_tree_sitter_def Let_def
      split: if_splits option.splits dest: collect_None)

text \<open>The only line the parser does not return on is one with a part that its own tree shows as a
  single command substitution with nothing taken off: where every substitution is longer than what
  is between its delimiters, the parser returns.\<close>

theorem parse_diverges_only_on_whole_substitutions:
  assumes "parse ext line = None"
  shows "\<exists>s root node. sublist s line \<and> ts_parse ext s = Some root \<and> node \<in> set (subtrees root)
    \<and> is_substitution node \<and> substitution_inner s node = Some s"
  using assms
proof (induction "length line" arbitrary: line rule: less_induct)
  case less
  let ?l = "trim line"
  have "parse_step ext (parse_fuel ext (length line)) line = None"
    using less.prems by (simp add: parse_def)
  then obtain root where root: "ts_parse ext ?l = Some root"
    and "blocked (parse_fuel ext (length line)) ?l root"
    by (rule parse_step_None)
  then obtain node i where node: "node \<in> set (subtrees root)" "is_substitution node"
    and i: "substitution_inner ?l node = Some i" "parse_fuel ext (length line) i = None"
    by (auto simp: blocked_def)
  have sub: "sublist i ?l" by (rule substitution_inner_sublist [OF i(1)])
  show ?case
  proof (cases "length i < length line")
    case True
    then have "parse ext i = None" using parse_fuel_parse i(2) by metis
    with less.hyps [OF True] obtain s root' node' where
      "sublist s i" "ts_parse ext s = Some root'" "node' \<in> set (subtrees root')"
      "is_substitution node'" "substitution_inner s node' = Some s" by blast
    then show ?thesis using sub sublist_trim sublist_order.order_trans by metis
  next
    case False
    then have "i = ?l" using sublist_same_length [OF sub] length_trim [of line] by simp
    with root node i sublist_trim show ?thesis by blast
  qed
qed

section \<open>A line the parser does not return on\<close>

text \<open>\<open>$`...`\<close> is a command substitution of the bash grammar whose leading delimiter
  \<open>strip_substitution_delimiters\<close> does not know, so its inner text is the substitution itself:
  on a line that is nothing else the parser calls itself with the same line for ever.\<close>

theorem dollar_backtick_never_returns:
  assumes "trim line = ''$`'' @ cmd @ ''`''"
    and "ts_parse ext (trim line) =
      Some (TsNode ''program'' True None 0 (length (trim line))
        [TsNode ''command'' True None 0 (length (trim line))
          [TsNode ''command_name'' True (Some ''name'') 0 (length (trim line))
            [TsNode ''command_substitution'' True None 0 (length (trim line)) body]]])"
  shows "parse_fuel ext n line = None"
proof -
  let ?l = "trim line" let ?k = "length ?l"
  let ?sub = "TsNode ''command_substitution'' True None 0 ?k body"
  let ?name = "TsNode ''command_name'' True (Some ''name'') 0 ?k [?sub]"
  let ?command = "TsNode ''command'' True None 0 ?k [?name]"
  have strip: "strip_substitution_delimiters ?l = ?l"
    unfolding assms(1) by (simp add: strip_substitution_delimiters_def)
  have inner: "substitution_inner ?l ?sub = Some ?l"
    by (simp add: substitution_inner_def node_text_def strip)
  have ne: "?l \<noteq> []" unfolding assms(1) by simp
  have cmd: "\<exists>c. command_from_ast ?l ?command = Some c"
    by (simp add: command_from_ast_def child_by_field_def node_text_def Let_def)
  have "parse_fuel ext n s = None" if "trim s = ?l" for s
    using that
  proof (induction n arbitrary: s)
    case (Suc n)
    have rec: "parse_fuel ext n ?l = None" by (rule Suc.IH) simp
    have "substitution_is_readonly (parse_fuel ext n) ?l ?sub = None"
      using ne rec by (simp add: substitution_is_readonly_def inner)
    then have "node_complex (parse_fuel ext n) ?l ?command = None" by simp
    moreover obtain c where "command_from_ast ?l ?command = Some c" using cmd by blast
    ultimately have "collect_ast_commands (parse_fuel ext n) ?l ?command st = None" for st
      by (simp add: collect_ast_commands.simps [of _ _ ?command] add_command_def)
    then show ?case
      using ne assms(2) Suc.prems
      by (simp add: parse_step_def parse_with_tree_sitter_def Let_def
          collect_ast_commands.simps [of _ _ "TsNode ''program'' _ _ _ _ _"] enter_node_def)
  qed simp
  then show ?thesis by simp
qed

section \<open>The properties on concrete lines\<close>

text \<open>A grammar that only knows \<open>$`a`\<close>.\<close>

definition ex_tree :: ts_node where
  "ex_tree =
     TsNode ''program'' True None 0 4
       [TsNode ''command'' True None 0 4
         [TsNode ''command_name'' True (Some ''name'') 0 4
           [TsNode ''command_substitution'' True None 0 4 []]]]"

definition ex_grammar :: externals where
  "ex_grammar =
     \<lparr>ts_parse = (\<lambda>s. if s = ''$`a`'' then Some ex_tree else None),
      shlex_split = (\<lambda>s. Some (split_ascii_whitespace s)), url_host = (\<lambda>_. None)\<rparr>"

lemma dollar_backtick_never_returns_witness: "parse_fuel ex_grammar 1000 ''$`a`'' = None"
proof -
  have t: "trim ''$`a`'' = ''$`a`''" by code_simp
  show ?thesis
    by (rule dollar_backtick_never_returns [where cmd = "''a''" and body = "[]"], unfold t)
      (simp_all add: ex_grammar_def ex_tree_def)
qed

lemma parse_diverges_only_on_whole_substitutions_witness:
  "\<exists>s root node. sublist s ''$`a`'' \<and> ts_parse ex_grammar s = Some root
     \<and> node \<in> set (subtrees root) \<and> substitution_inner s node = Some s"
proof -
  have "parse ex_grammar ''$`a`'' = None" by code_simp
  from parse_diverges_only_on_whole_substitutions [OF this] show ?thesis by blast
qed

end
