(* ===== verification/Shell_Laws.thy ===== *)
theory Shell_Laws
  imports Parse_Laws
begin

text \<open>
  What the scanners and the argument-vector analysis guarantee: the shape of the segments a line
  is split into, that the fallback parser accounts for every segment, what \<open>strip_prefix\<close> takes
  off a command, and where the analysis looks at the wrong word.
\<close>

section \<open>Segments\<close>

text \<open>The quote state after a text, \<open>None\<close> where it holds an unquoted separator.\<close>

fun run :: "quote \<Rightarrow> str \<Rightarrow> quote option" where
  "run q [] = Some q"
| "run QSingle (c # s) = run (if c = sq then QNone else QSingle) s"
| "run QDouble (c # s) =
     (if c = bs \<and> s \<noteq> [] then run QDouble (drop 1 s)
      else run (if c = dq then QNone else QDouble) s)"
| "run QNone (c # s) =
     (if c = sq then run QSingle s
      else if c = dq then run QDouble s
      else if c = bs \<and> s \<noteq> [] then run QNone (drop 1 s)
      else if c = CHR ''&'' \<and> starts_with s ''&'' \<or> c = CHR '';'' \<or> c = CHR ''|'' then None
      else run QNone s)"

lemma run_split: "run q s = Some QNone \<Longrightarrow> split_go q out buf s = Inr (push_segment out (buf @ s))"
proof (induction q s arbitrary: buf rule: run.induct)
  case (3 c s)
  show ?case
  proof (cases "c = bs \<and> s \<noteq> []")
    case True
    then have "take 1 s @ drop 1 s = s" by simp
    with True 3 show ?thesis by (cases s) auto
  qed (use 3 in \<open>auto split: if_splits\<close>)
next
  case (4 c s)
  show ?case
  proof (cases "c = bs \<and> s \<noteq> []")
    case True
    with 4 show ?thesis by (cases s) auto
  qed (use 4 in \<open>auto split: if_splits\<close>)
qed auto

definition plain_byte :: "char \<Rightarrow> bool" where
  "plain_byte c \<longleftrightarrow> c \<notin> {sq, dq, bs, CHR ''&'', CHR ''|'', CHR '';''}"

lemma run_plain: "plain_byte c \<Longrightarrow> run QNone (c # s) = run QNone s"
  by (auto simp: plain_byte_def)

lemma run_snoc_plain: "plain_byte w \<Longrightarrow> run q (x @ [w]) = Some QNone \<Longrightarrow> run q x = Some QNone"
proof (induction q x rule: run.induct)
  case (1 q)
  then show ?case by (cases q) (auto simp: plain_byte_def split: if_splits)
next
  case (3 c s)
  then show ?case by (cases s) (auto simp: plain_byte_def split: if_splits)
next
  case (4 c s)
  then show ?case by (cases s) (auto simp: plain_byte_def split: if_splits)
qed (auto split: if_splits)

lemma run_append_plain:
  "list_all plain_byte w \<Longrightarrow> run q (x @ w) = Some QNone \<Longrightarrow> run q x = Some QNone"
proof (induction w rule: rev_induct)
  case (snoc c w)
  from snoc.prems have "plain_byte c" "run q ((x @ w) @ [c]) = Some QNone" by simp_all
  then have "run q (x @ w) = Some QNone" by (rule run_snoc_plain)
  with snoc show ?case by simp
qed simp

lemma run_plain_append: "list_all plain_byte w \<Longrightarrow> run QNone (w @ x) = run QNone x"
  by (induction w) (simp_all only: append_Cons append_Nil list.pred_inject run_plain)

lemma high_byte_plain: "33 > (of_char c :: nat) \<or> 127 < (of_char c :: nat) \<Longrightarrow> plain_byte c"
  by (auto simp: plain_byte_def)

lemma ascii_white_plain: "ascii_white c \<Longrightarrow> plain_byte c"
  by (rule high_byte_plain) (auto simp: ascii_white_def)

lemma white2_plain: "white2 a b \<Longrightarrow> plain_byte a \<and> plain_byte b"
  by (auto simp: white2_def plain_byte_def)

lemma white3_plain: "white3 a b c \<Longrightarrow> plain_byte a \<and> plain_byte b \<and> plain_byte c"
proof -
  assume w: "white3 a b c"
  then have "plain_byte a" "plain_byte b" by (auto simp: plain_byte_def)
  moreover have "128 \<le> (of_char c :: nat)" using w by auto
  ultimately show ?thesis using high_byte_plain [of c] by simp
qed

lemma white_len_plain: "list_all plain_byte (take (white_len s) s)"
proof (cases s)
  case (Cons a t)
  consider "ascii_white a" | "\<not> ascii_white a" "t = []" | b u where "\<not> ascii_white a" "t = b # u"
    by (cases t) auto
  then show ?thesis
  proof cases
    case 3
    show ?thesis
    proof (cases "white2 a b")
      case True
      with 3 Cons white2_plain show ?thesis by (simp add: white_len.simps numeral_2_eq_2)
    next
      case False
      then show ?thesis
        using 3 Cons white3_plain [of a b "hd u"]
        by (cases u) (simp_all add: white_len.simps numeral_3_eq_3 del: white3.simps)
    qed
  qed (use Cons ascii_white_plain in \<open>simp_all add: white_len.simps\<close>)
qed simp

lemma white_len_rev_plain: "list_all plain_byte (take (white_len_rev s) s)"
proof (cases s)
  case (Cons a t)
  consider "ascii_white a" | "\<not> ascii_white a" "t = []" | b u where "\<not> ascii_white a" "t = b # u"
    by (cases t) auto
  then show ?thesis
  proof cases
    case 3
    show ?thesis
    proof (cases "white2 b a")
      case True
      with 3 Cons white2_plain [of b a] show ?thesis by (simp add: white_len_rev.simps numeral_2_eq_2)
    next
      case False
      then show ?thesis
        using 3 Cons white3_plain [of "hd u" b a]
        by (cases u) (simp_all add: white_len_rev.simps numeral_3_eq_3 del: white3.simps)
    qed
  qed (use Cons ascii_white_plain in \<open>simp_all add: white_len_rev.simps\<close>)
qed simp

lemma run_trim_start: "run QNone (trim_start s) = run QNone s"
proof (induction s rule: trim_start.induct)
  case (1 s)
  show ?case
  proof (cases "white_len s = 0")
    case True
    then show ?thesis by (simp add: trim_start.simps [of s])
  next
    case False
    have "run QNone s = run QNone (take (white_len s) s @ drop (white_len s) s)" by simp
    also have "\<dots> = run QNone (drop (white_len s) s)"
      by (rule run_plain_append) (rule white_len_plain)
    finally show ?thesis using 1 False by (simp add: trim_start.simps [of s])
  qed
qed

lemma run_trim_rev: "run QNone (rev s) = Some QNone \<Longrightarrow> run QNone (rev (trim_rev s)) = Some QNone"
proof (induction s rule: trim_rev.induct)
  case (1 s)
  let ?k = "white_len_rev s"
  show ?case
  proof (cases "?k = 0")
    case True
    with 1 show ?thesis by (simp add: trim_rev.simps [of s])
  next
    case False
    have "rev s = rev (drop ?k s) @ rev (take ?k s)"
      by (metis append_take_drop_id rev_append)
    moreover have "list_all plain_byte (rev (take ?k s))"
      using white_len_rev_plain [of s] by (simp add: list_all_iff)
    ultimately have "run QNone (rev (drop ?k s)) = Some QNone"
      using 1(2) run_append_plain by metis
    with 1 False show ?thesis by (simp add: trim_rev.simps [of s])
  qed
qed

lemma run_trim: "run QNone s = Some QNone \<Longrightarrow> run QNone (trim s) = Some QNone"
  using run_trim_rev [of "rev (trim_start s)"] by (simp add: trim_def trim_end_def run_trim_start)

text \<open>A good segment: not blank, with nothing to trim, and with nothing to split.\<close>

definition good_segment :: "str \<Rightarrow> bool" where
  "good_segment s \<longleftrightarrow> s \<noteq> [] \<and> trim s = s \<and> run QNone s = Some QNone"

lemma push_segment_good:
  "list_all good_segment out \<Longrightarrow> run QNone buf = Some QNone \<Longrightarrow>
    list_all good_segment (push_segment out buf)"
  by (simp add: push_segment_def Let_def good_segment_def run_trim)

lemma good_segment_split: "good_segment s \<Longrightarrow> split_top_level s = Inr [s]"
  using run_split [of QNone s "[]" "[]"]
  by (simp add: good_segment_def split_top_level_def push_segment_def)

text \<open>The scanner's buffer has no separator: on it and any part \<open>t\<close> of what is left, the quote
  state is that of \<open>t\<close> from the current state.\<close>

definition in_step :: "quote \<Rightarrow> str \<Rightarrow> str \<Rightarrow> bool" where
  "in_step q buf s \<longleftrightarrow> (\<forall>t. prefix t s \<longrightarrow> run QNone (buf @ t) = run q t)"

lemma in_step_start: "in_step QNone [] s"
  by (simp add: in_step_def)

lemma in_step_run: "in_step q buf s \<Longrightarrow> run QNone buf = Some q"
  unfolding in_step_def by (drule spec [of _ "[]"]) simp

lemma in_step_next:
  assumes "in_step q buf (c # s)" and "\<And>t. prefix t s \<Longrightarrow> run q (c # t) = run q' t"
  shows "in_step q' (buf @ [c]) s"
  using assms by (auto simp: in_step_def)

lemma in_step_escape:
  assumes "in_step q buf (c # s)" and "s \<noteq> []" and "\<And>t. run q (c # hd s # t) = run q t"
  shows "in_step q (buf @ c # take 1 s) (drop 1 s)"
proof -
  obtain d r where s: "s = d # r" using assms(2) by (cases s) auto
  have "run QNone (buf @ c # d # t) = run q t" if "prefix t r" for t
    using assms that by (auto simp: in_step_def s)
  then show ?thesis by (simp add: s in_step_def)
qed

text \<open>The separators of a line, in the order the scanner looks for them.\<close>

definition separators :: "str list" where
  "separators = [''&&'', ''||'', '';'', ''|'']"

text \<open>A view of quoting that knows nothing of separators: the bytes of a text that stand outside quotes and
  behind no backslash, each other place as \<open>None\<close>, and the quote a text leaves open.\<close>

fun bare_bytes :: "quote \<Rightarrow> str \<Rightarrow> char option list" where
  "bare_bytes q [] = []"
| "bare_bytes QSingle (c # s) = None # bare_bytes (if c = sq then QNone else QSingle) s"
| "bare_bytes QDouble (c # s) =
     (if c = bs \<and> s \<noteq> [] then None # None # bare_bytes QDouble (drop 1 s)
      else None # bare_bytes (if c = dq then QNone else QDouble) s)"
| "bare_bytes QNone (c # s) =
     (if c = sq then None # bare_bytes QSingle s
      else if c = dq then None # bare_bytes QDouble s
      else if c = bs \<and> s \<noteq> [] then None # None # bare_bytes QNone (drop 1 s)
      else Some c # bare_bytes QNone s)"

fun open_quote :: "quote \<Rightarrow> str \<Rightarrow> quote" where
  "open_quote q [] = q"
| "open_quote QSingle (c # s) = open_quote (if c = sq then QNone else QSingle) s"
| "open_quote QDouble (c # s) =
     (if c = bs \<and> s \<noteq> [] then open_quote QDouble (drop 1 s)
      else open_quote (if c = dq then QNone else QDouble) s)"
| "open_quote QNone (c # s) =
     (if c = sq then open_quote QSingle s
      else if c = dq then open_quote QDouble s
      else if c = bs \<and> s \<noteq> [] then open_quote QNone (drop 1 s)
      else open_quote QNone s)"

definition without_separator :: "char option list \<Rightarrow> bool" where
  "without_separator xs \<longleftrightarrow> (\<forall>sep \<in> set separators. \<not> sublist (map Some sep) xs)"

definition one_command :: "str \<Rightarrow> bool" where
  "one_command s \<longleftrightarrow> without_separator (bare_bytes QNone s) \<and> open_quote QNone s = QNone"

lemma without_separator_simps [simp]:
  "without_separator []"
  "without_separator (None # xs) \<longleftrightarrow> without_separator xs"
  "without_separator (Some c # xs) \<longleftrightarrow>
     c \<noteq> CHR '';'' \<and> c \<noteq> CHR ''|'' \<and> \<not> (c = CHR ''&'' \<and> prefix [Some (CHR ''&'')] xs) \<and> without_separator xs"
  by (auto simp: without_separator_def separators_def sublist_Cons_right prefix_Cons)

lemma bare_ampersand: "prefix [Some (CHR ''&'')] (bare_bytes QNone s) \<longleftrightarrow> starts_with s ''&''"
  by (cases s) auto

lemma run_bare: "run q s = Some q' \<longleftrightarrow> without_separator (bare_bytes q s) \<and> open_quote q s = q'"
  by (induction q s rule: run.induct) (auto simp: bare_ampersand)

text \<open>Scanned and unscanned part of a piece are quoted as the whole is.\<close>

definition in_view :: "quote \<Rightarrow> str \<Rightarrow> str \<Rightarrow> bool" where
  "in_view q buf s \<longleftrightarrow> (\<forall>t. prefix t s \<longrightarrow> bare_bytes QNone (buf @ t) = bare_bytes QNone buf @ bare_bytes q t)"

text \<open>The steps of the scanner: a byte taken, an escaped pair taken, or a segment finished.\<close>

lemma split_go_steps:
  assumes "split_go q out buf (c # s) = Inr segs" and "in_step q buf (c # s)"
  obtains (take) q' where "in_step q' (buf @ [c]) s" "split_go q' out (buf @ [c]) s = Inr segs"
        "\<forall>t. prefix t s \<longrightarrow> bare_bytes q (c # t) = bare_bytes q [c] @ bare_bytes q' t"
    | (escape) "s \<noteq> []" "in_step q (buf @ c # take 1 s) (drop 1 s)"
        "\<forall>d t. bare_bytes q (c # d # t) = [None, None] @ bare_bytes q t"
        "split_go q out (buf @ c # take 1 s) (drop 1 s) = Inr segs"
    | (finish) sep t where "q = QNone" "c # s = sep @ t" "sep \<in> set separators"
        "split_go QNone (push_segment out buf) [] t = Inr segs"
proof (cases q)
  case QSingle
  show thesis
    by (rule take [of "if c = sq then QNone else QSingle"])
      (use assms QSingle in \<open>auto intro: in_step_next\<close>)
next
  case QDouble
  show thesis
  proof (cases "c = bs \<and> s \<noteq> []")
    case True
    show thesis by (rule escape) (use True assms QDouble in_step_escape [OF assms(2)] in simp_all)
  next
    case False
    let ?q = "if c = dq then QNone else QDouble"
    have "run q (c # t) = run ?q t" if "prefix t s" for t
      using False QDouble that by auto
    then have "in_step ?q (buf @ [c]) s" by (rule in_step_next [OF assms(2)])
    moreover have "split_go ?q out (buf @ [c]) s = Inr segs"
      using assms(1) QDouble False by (simp only: split_go.simps if_False)
    moreover have "\<forall>t. prefix t s \<longrightarrow> bare_bytes q (c # t) = bare_bytes q [c] @ bare_bytes ?q t"
      using False QDouble by auto
    ultimately show thesis by (rule take)
  qed
next
  case QNone
  note eq = assms(1) [unfolded QNone split_go.simps]
  show thesis
  proof (cases "c = sq")
    case True
    then have "in_step QSingle (buf @ [c]) s" "split_go QSingle out (buf @ [c]) s = Inr segs"
      using in_step_next [OF assms(2), of QSingle] eq QNone by auto
    then show thesis by (rule take) (use True QNone in simp)
  next
    case nsq: False
    show thesis
    proof (cases "c = dq")
      case True
      then have "in_step QDouble (buf @ [c]) s" "split_go QDouble out (buf @ [c]) s = Inr segs"
        using in_step_next [OF assms(2), of QDouble] eq QNone by auto
      then show thesis by (rule take) (use True QNone in simp)
    next
      case ndq: False
      note eq = eq [unfolded if_not_P [OF nsq] if_not_P [OF ndq]]
      show thesis
      proof (cases "c = bs \<and> s \<noteq> []")
        case True
        show thesis
          by (rule escape) (use True eq QNone in_step_escape [OF assms(2)] in simp_all)
      next
        case nbs: False
        note eq = eq [unfolded if_not_P [OF nbs]]
        show thesis
        proof (cases "c = CHR ''&'' \<and> starts_with s ''&'' \<or> c = CHR ''|'' \<or> c = CHR '';''")
          case True
          then consider (amp) t where "c = CHR ''&''" "s = CHR ''&'' # t"
            | (bars) t where "c = CHR ''|''" "s = CHR ''|'' # t"
            | (bar) "c = CHR ''|''" "\<not> starts_with s ''|''" | (semi) "c = CHR '';''"
            by (cases s) auto
          then show thesis
          proof cases
            case amp
            then have "split_go QNone (push_segment out buf) [] t = Inr segs" using eq by simp
            then show thesis using finish [of "''&&''" t] QNone amp by (simp add: separators_def)
          next
            case bars
            then have "split_go QNone (push_segment out buf) [] t = Inr segs" using eq by simp
            then show thesis using finish [of "''||''" t] QNone bars by (simp add: separators_def)
          next
            case bar
            then have "split_go QNone (push_segment out buf) [] s = Inr segs" using eq by simp
            then show thesis using finish [of "''|''" s] QNone bar by (simp add: separators_def)
          next
            case semi
            then have "split_go QNone (push_segment out buf) [] s = Inr segs" using eq by simp
            then show thesis using finish [of "'';''" s] QNone semi by (simp add: separators_def)
          qed
        next
          case False
          have "run q (c # t) = run QNone t" if "prefix t s" for t
            using nsq ndq nbs False QNone that by (auto simp: prefix_def)
          then have step: "in_step QNone (buf @ [c]) s" by (rule in_step_next [OF assms(2)])
          have split: "split_go QNone out (buf @ [c]) s = Inr segs"
            using eq False by (auto split: if_splits)
          have "\<forall>t. prefix t s \<longrightarrow> bare_bytes q (c # t) = bare_bytes q [c] @ bare_bytes QNone t"
            using nsq ndq nbs QNone by auto
          with step split show thesis by (rule take)
        qed
      qed
    qed
  qed
qed

lemma split_go_good:
  "split_go q out buf s = Inr segs \<Longrightarrow> in_step q buf s \<Longrightarrow> list_all good_segment out \<Longrightarrow>
    list_all good_segment segs"
proof (induction "length s" arbitrary: q out buf s rule: less_induct)
  case less
  show ?case
  proof (cases s)
    case Nil
    with less.prems in_step_run [of q buf s] show ?thesis
      by (auto intro: push_segment_good split: if_splits)
  next
    case (Cons c r)
    from less.prems(1,2) [unfolded Cons] show ?thesis
    proof (cases rule: split_go_steps)
      case (take q')
      with less.hyps [of r] less.prems(3) Cons show ?thesis by simp
    next
      case escape
      with less.hyps [of "drop 1 r"] less.prems(3) Cons show ?thesis by simp
    next
      case (finish sep t)
      have "list_all good_segment (push_segment out buf)"
        using less.prems(2,3) finish(1) in_step_run push_segment_good by blast
      moreover have "length t < length s"
        using arg_cong [OF finish(2), of length] finish(3) Cons by (auto simp: separators_def)
      ultimately show ?thesis using less.hyps [of t] finish(4) in_step_start by simp
    qed
  qed
qed

lemma segments_are_good: "split_top_level line = Inr segs \<Longrightarrow> list_all good_segment segs"
  using split_go_good [of QNone "[]" "[]" line segs] in_step_start
  by (simp add: split_top_level_def)

lemma in_view_next:
  assumes "in_view q buf (c # s)"
    and "\<forall>t. prefix t s \<longrightarrow> bare_bytes q (c # t) = bare_bytes q [c] @ bare_bytes q' t"
  shows "in_view q' (buf @ [c]) s"
proof -
  note view = assms(1) [unfolded in_view_def, rule_format]
  have one: "bare_bytes QNone (buf @ [c]) = bare_bytes QNone buf @ bare_bytes q [c]"
    by (rule view) simp
  have "bare_bytes QNone (buf @ c # t) = bare_bytes QNone (buf @ [c]) @ bare_bytes q' t" if "prefix t s" for t
    unfolding one append_assoc assms(2) [rule_format, OF that, symmetric] by (rule view) (use that in simp)
  then show ?thesis unfolding in_view_def append_assoc append_Cons append_Nil by blast
qed

lemma in_view_escape:
  assumes "in_view q buf (c # s)" and "s \<noteq> []"
    and "\<forall>d t. bare_bytes q (c # d # t) = [None, None] @ bare_bytes q t"
  shows "in_view q (buf @ c # take 1 s) (drop 1 s)"
proof -
  obtain d r where s: "s = d # r" using assms(2) by (cases s) auto
  have *: "bare_bytes QNone (buf @ c # d # t) = bare_bytes QNone buf @ [None, None] @ bare_bytes q t"
    if "prefix t r" for t
  proof -
    have "bare_bytes QNone (buf @ c # d # t) = bare_bytes QNone buf @ bare_bytes q (c # d # t)"
      by (rule assms(1) [unfolded in_view_def s, rule_format]) (use that in simp)
    then show ?thesis unfolding assms(3) [rule_format] .
  qed
  have "bare_bytes QNone (buf @ [c, d]) = bare_bytes QNone buf @ [None, None]" using * [of "[]"] by simp
  then show ?thesis using * by (simp add: in_view_def s)
qed

lemma bare_separator: "sep \<in> set separators \<Longrightarrow> bare_bytes QNone (sep @ t) = map Some sep @ bare_bytes QNone t"
  by (auto simp: separators_def)

text \<open>A line cut into pieces, each but the last with the separator behind it.\<close>

definition cut_into :: "str \<Rightarrow> (str \<times> str) list \<Rightarrow> str \<Rightarrow> bool" where
  "cut_into line ps p \<longleftrightarrow>
     line = concat (map (\<lambda>(q, sep). q @ sep) ps) @ p \<and>
     bare_bytes QNone line =
       concat (map (\<lambda>(q, sep). bare_bytes QNone q @ map Some sep) ps) @ bare_bytes QNone p \<and>
     snd ` set ps \<subseteq> set separators"

lemma split_go_cuts:
  "split_go q out buf s = Inr segs \<Longrightarrow> in_step q buf s \<Longrightarrow> in_view q buf s \<Longrightarrow>
    \<exists>ps p. cut_into (buf @ s) ps p \<and> list_all one_command (map fst ps @ [p]) \<and>
      segs = out @ filter (\<lambda>x. x \<noteq> []) (map trim (map fst ps @ [p]))"
proof (induction "length s" arbitrary: q out buf s rule: less_induct)
  case less
  have one: "one_command buf" if "q = QNone"
    using in_step_run [OF less.prems(2)] that by (simp add: run_bare one_command_def)
  show ?case
  proof (cases s)
    case Nil
    then have "q = QNone" "segs = push_segment out buf"
      using less.prems(1) by (simp_all split: if_splits)
    then show ?thesis
      using one Nil
      by (intro exI [of _ "[]"] exI [of _ buf]) (simp add: cut_into_def push_segment_def Let_def)
  next
    case (Cons c r)
    from less.prems(1,2) [unfolded Cons] show ?thesis
    proof (cases rule: split_go_steps)
      case (take q')
      have "in_view q' (buf @ [c]) r"
        by (rule in_view_next [OF less.prems(3) [unfolded Cons] take(3)])
      from less.hyps [OF _ take(2,1) this] show ?thesis unfolding Cons by simp
    next
      case escape
      have eq: "buf @ s = (buf @ c # take 1 r) @ drop 1 r" by (simp add: Cons)
      have "in_view q (buf @ c # take 1 r) (drop 1 r)"
        by (rule in_view_escape [OF less.prems(3) [unfolded Cons] escape(1,3)])
      from less.hyps [OF _ escape(4,2) this] show ?thesis unfolding eq by (simp add: Cons)
    next
      case (finish sep t)
      have len: "length t < length s"
        using arg_cong [OF finish(2), of length] finish(3) Cons by (auto simp: separators_def)
      have "in_view QNone [] t" by (simp add: in_view_def)
      then obtain ps p where p: "cut_into t ps p" "list_all one_command (map fst ps @ [p])"
        "segs = push_segment out buf @ filter (\<lambda>x. x \<noteq> []) (map trim (map fst ps @ [p]))"
        using less.hyps [OF len finish(4) in_step_start] by auto
      have "bare_bytes QNone (buf @ s) = bare_bytes QNone buf @ map Some sep @ bare_bytes QNone t"
        using less.prems(3) finish(1-3) Cons bare_separator by (simp add: in_view_def)
      note bare = this
      note c = p(1) [unfolded cut_into_def]
      note t = c [THEN conjunct2, THEN conjunct1] c [THEN conjunct2, THEN conjunct2]
      have "buf @ s = buf @ sep @ t" using finish(2) Cons by simp
      also have "\<dots> = concat (map (\<lambda>(q, sep). q @ sep) ((buf, sep) # ps)) @ p"
        using c [THEN conjunct1] by simp
      finally have whole: "buf @ s = concat (map (\<lambda>(q, sep). q @ sep) ((buf, sep) # ps)) @ p" .
      have "cut_into (buf @ s) ((buf, sep) # ps) p"
        unfolding cut_into_def bare t(1) using t(2) whole finish(3) by simp
      moreover have "segs = out @ filter (\<lambda>x. x \<noteq> []) (map trim (map fst ((buf, sep) # ps) @ [p]))"
        by (simp add: p(3) push_segment_def Let_def)
      ultimately show ?thesis
        using p(2) one [OF finish(1)] by (intro exI [of _ "(buf, sep) # ps"] exI [of _ p]) simp
    qed
  qed
qed

text \<open>C22. A line is cut exactly at separators that stand outside quotes and behind no backslash: it is the
  pieces with \<open>&&\<close>, \<open>||\<close>, \<open>;\<close> or \<open>|\<close> between them, each of these bare in the line, every quote of a
  piece is closed in it, and the segments are the trimmed pieces that are not blank. No segment
  has blanks around it or a bare separator left in it.\<close>

theorem segments_are_cut_at_bare_separators:
  assumes "split_top_level line = Inr segs"
  shows "(\<exists>ps p. cut_into line ps p \<and> list_all one_command (map fst ps @ [p]) \<and>
      segs = filter (\<lambda>s. s \<noteq> []) (map trim (map fst ps @ [p]))) \<and>
    list_all (\<lambda>s. s \<noteq> [] \<and> trim s = s \<and> one_command s) segs"
proof -
  have "list_all (\<lambda>s. s \<noteq> [] \<and> trim s = s \<and> one_command s) segs"
    using segments_are_good [OF assms] by (simp add: good_segment_def run_bare one_command_def list_all_iff)
  moreover have "in_view QNone [] line" by (simp add: in_view_def)
  ultimately show ?thesis
    using split_go_cuts [of QNone "[]" "[]" line segs] assms in_step_start by (simp add: split_top_level_def)
qed

section \<open>The fallback parser accounts for every segment\<close>

text \<open>How the fallback parser understood a segment: as no words, or as one of the commands.\<close>

definition understood :: "externals \<Rightarrow> parsed_command list \<Rightarrow> str \<Rightarrow> bool" where
  "understood ext cmds seg \<longleftrightarrow>
     (case extract_redirections seg of (cleaned, targets, heredoc) \<Rightarrow>
        sniff_complex_structure cleaned = None
        \<and> (\<exists>argv. shlex_split ext cleaned = Some argv
             \<and> (argv = [] \<or> (\<exists>c \<in> set cmds. pc_argv c = argv \<and> pc_has_heredoc c = heredoc
                  \<and> set targets \<subseteq> set (pc_write_targets c)))))"

lemma flag_complex_frame [simp]:
  "co_commands (flag_complex why st) = co_commands st"
  "AstTooComplex \<in> set (co_kinds (flag_complex why st))"
  by (simp_all add: flag_complex_def)

lemma add_sensitive_by_label_set: "set ks \<subseteq> set (add_sensitive_by_label cmd ks)"
  by (auto simp: add_sensitive_by_label_def Let_def)

lemma fallback_segment_grows:
  "set (co_commands (fst st)) \<subseteq> set (co_commands (fst (fallback_segment ext seg st)))
   \<and> set (co_kinds (fst st)) \<subseteq> set (co_kinds (fst (fallback_segment ext seg st)))"
  using add_sensitive_by_label_set
  by (auto simp: fallback_segment_def Let_def flag_complex_def split: prod.split option.split)

lemma fallback_segments_grow:
  "set (co_commands (fst st)) \<subseteq> set (co_commands (fst (fold (fallback_segment ext) segs st)))
   \<and> set (co_kinds (fst st)) \<subseteq> set (co_kinds (fst (fold (fallback_segment ext) segs st)))"
proof (induction segs arbitrary: st)
  case (Cons seg segs)
  from Cons.IH [of "fallback_segment ext seg st"] fallback_segment_grows [of st ext seg]
  show ?case by auto
qed simp

lemma understood_mono: "understood ext cmds seg \<Longrightarrow> set cmds \<subseteq> set cmds' \<Longrightarrow> understood ext cmds' seg"
  by (auto simp: understood_def split: prod.splits)

lemma fallback_segment_understood:
  assumes "AstTooComplex \<notin> set (co_kinds (fst (fallback_segment ext seg st)))" and "trim seg \<noteq> []"
  shows "understood ext (co_commands (fst (fallback_segment ext seg st))) seg"
proof -
  obtain cleaned targets heredoc where e: "extract_redirections seg = (cleaned, targets, heredoc)"
    by (metis prod_cases3)
  have "sniff_complex_structure cleaned = None"
    using assms e by (auto simp: fallback_segment_def split: option.splits)
  moreover from this obtain argv where "shlex_split ext cleaned = Some argv"
    using assms e by (auto simp: fallback_segment_def split: option.splits)
  ultimately show ?thesis
    using assms(2) e
    by (auto simp: understood_def fallback_segment_def Let_def fallback_command_def)
qed

lemma fallback_all_understood:
  "AstTooComplex \<notin> set (co_kinds (fst (fold (fallback_segment ext) segs st))) \<Longrightarrow>
    seg \<in> set segs \<Longrightarrow> trim seg \<noteq> [] \<Longrightarrow>
    understood ext (co_commands (fst (fold (fallback_segment ext) segs st))) seg"
proof (induction segs arbitrary: st)
  case (Cons x segs)
  let ?st = "fallback_segment ext x st"
  show ?case
  proof (cases "seg = x")
    case True
    have "AstTooComplex \<notin> set (co_kinds (fst ?st))"
      using Cons.prems(1) fallback_segments_grow [of ?st ext segs] by auto
    with True Cons.prems(3) have "understood ext (co_commands (fst ?st)) seg"
      by (simp add: fallback_segment_understood)
    then show ?thesis
      using fallback_segments_grow [of ?st ext segs] by (auto intro: understood_mono)
  next
    case False
    with Cons show ?thesis by simp
  qed
qed simp

lemma add_patterns_keeps: "set ks \<subseteq> set (add_patterns cmds ks)"
proof -
  have "set ks \<subseteq> set (fold push_new xs ks)" for xs :: "dangerous_kind list"
    by (induction xs arbitrary: ks) (auto simp: subset_iff)
  then show ?thesis by (simp add: add_patterns_def)
qed

lemma understood_targets:
  "understood ext cmds seg \<Longrightarrow> understood ext (map add_argv_targets cmds) seg"
  by (fastforce simp: understood_def add_argv_targets_def split: prod.splits)

text \<open>The fallback parser is fail-safe: unless it flags the line as too complex, which is asked
  for every time, each segment of the line was free of substitutions, groups, background jobs and
  comments, was split into words, and, when it has any, is one of the commands that are judged,
  with every word, its heredoc and all the targets of its redirections.\<close>

theorem fallback_hides_nothing:
  assumes "parse_fallback ext line = Inr p" and "AstTooComplex \<notin> set (ps_dangerous_kinds p)"
    and "split_top_level (strip_heredoc_bodies line) = Inr segs" and "seg \<in> set segs"
  shows "understood ext (ps_commands p) seg"
proof -
  let ?st0 = "(\<lparr>co_commands = [], co_kinds = [], co_reason = None\<rparr>, False)"
  obtain st d where st: "fold (fallback_segment ext) segs ?st0 = (st, d)" by fastforce
  then have p: "ps_commands p = map add_argv_targets (co_commands st)"
    "ps_dangerous_kinds p = add_patterns (map add_argv_targets (co_commands st)) (co_kinds st)"
    using assms(1,3) by (auto simp: parse_fallback_def Let_def)
  then have "AstTooComplex \<notin> set (co_kinds st)"
    using assms(2) add_patterns_keeps by fastforce
  moreover have "trim seg \<noteq> []"
    using segments_are_good [OF assms(3)] assms(4) by (auto simp: list_all_iff good_segment_def)
  ultimately have "understood ext (co_commands st) seg"
    using fallback_all_understood [of ext segs ?st0 seg] st assms(4) by simp
  then show ?thesis unfolding p by (rule understood_targets)
qed

section \<open>What is taken off a command\<close>

lemma suffix_skip_timeout: "suffix (skip_timeout_flags r) r"
  by (induction r rule: skip_timeout_flags.induct) (simp_all add: suffix_ConsI)

lemma suffix_skip_stdbuf: "suffix (skip_stdbuf_flags r) r"
proof (induction r)
  case (Cons a r)
  then show ?case by (auto intro: suffix_ConsI split: list.splits)
qed simp

lemma suffix_modifier_args: "suffix (modifier_args t r) r"
proof -
  let ?r2 = "skip_timeout_flags (dropWhile (\<lambda>a. starts_with a ''--'') r)"
  have r2: "suffix ?r2 r"
    using suffix_skip_timeout suffix_dropWhile suffix_order.order_trans by blast
  have "suffix (case ?r2 of [] \<Rightarrow> [] | d # r3 \<Rightarrow> if is_duration_or_num d then r3 else d # r3) r"
    using r2 by (cases ?r2) (auto dest: suffix_ConsD)
  moreover have "suffix (case r of [] \<Rightarrow> [] | a # r' \<Rightarrow> if a = ''-n'' then drop 1 r'
      else if p a then r' else r) r" for p :: "str \<Rightarrow> bool"
    by (cases r) (auto simp: suffix_drop intro: suffix_ConsI)
  moreover have "suffix (case r of [] \<Rightarrow> [] | a # r' \<Rightarrow> if a = ''--'' then r' else r) r"
    by (cases r) (auto intro: suffix_ConsI)
  ultimately show ?thesis
    using suffix_skip_stdbuf [of r] suffix_dropWhile [of "\<lambda>a. starts_with a ''-''" r]
    unfolding modifier_args_def Let_def by (simp only: simp_thms suffix_order.order_refl split: if_split)
qed

lemma suffix_strip_modifier: "suffix (strip_modifier a) a"
  by (cases a) (auto intro: suffix_ConsI suffix_modifier_args)

text \<open>A command that starts with no modifier and no assignment.\<close>

definition bare :: "str list \<Rightarrow> bool" where
  "bare a \<longleftrightarrow> a = [] \<or> hd a \<notin> set SCHED_MODIFIERS \<and> \<not> is_env_assignment (hd a)"

lemma strip_stable:
  assumes "length (dropWhile is_env_assignment (strip_modifier a)) = length a"
  shows "bare a"
proof (cases a)
  case (Cons t r)
  have l: "length (strip_modifier a) = length a"
    using assms length_dropWhile_le [of is_env_assignment "strip_modifier a"]
      length_strip_modifier [of a] by simp
  have "t \<notin> set SCHED_MODIFIERS"
    using l length_modifier_args [of t r] Cons by auto
  moreover from this have "strip_modifier a = a" using Cons by simp
  with assms have "\<not> is_env_assignment t"
    using Cons length_dropWhile_le [of is_env_assignment r] by (auto split: if_splits)
  ultimately show ?thesis by (simp add: bare_def Cons)
qed (simp add: bare_def)

lemma strip_bare: "bare a \<Longrightarrow> strip_loop env a = (env, a)"
  by (cases a) (auto simp: strip_loop.simps bare_def)

lemma strip_loop_result:
  "strip_loop env a = (env', rest) \<Longrightarrow>
    suffix rest a \<and> bare rest
    \<and> (\<exists>new. env' = env @ new \<and> set new \<subseteq> {x \<in> set a. is_env_assignment x})"
proof (induction env a rule: strip_loop.induct)
  case (1 env a)
  let ?a1 = "strip_modifier a"
  let ?es = "takeWhile is_env_assignment ?a1" and ?a2 = "dropWhile is_env_assignment ?a1"
  have sub: "set ?a1 \<subseteq> set a"
    using suffix_strip_modifier [of a] by (auto dest: set_mono_suffix)
  show ?case
  proof (cases "length ?a2 = length a")
    case True
    then have "env' = env" "rest = a" "bare a"
      using 1(2) strip_stable by (simp_all add: strip_loop.simps [of env a] Let_def)
    then show ?thesis by simp
  next
    case False
    then have "strip_loop (env @ ?es) ?a2 = (env', rest)"
      using 1(2) by (simp add: strip_loop.simps [of env a] Let_def)
    with 1(1) False obtain new where r: "suffix rest ?a2" "bare rest"
      and env': "env' = (env @ ?es) @ new" "set new \<subseteq> {x \<in> set ?a2. is_env_assignment x}" by blast
    have "suffix rest a"
      using r(1) suffix_dropWhile suffix_strip_modifier suffix_order.order_trans by blast
    moreover have "set (?es @ new) \<subseteq> {x \<in> set a. is_env_assignment x}"
      using env'(2) sub by (auto dest!: set_takeWhileD set_dropWhileD)
    ultimately show ?thesis using r(2) env'(1) by (intro conjI exI [of _ "?es @ new"]) auto
  qed
qed

text \<open>\<open>strip_prefix\<close> ends at the command itself: what is left is the end of the argument vector,
  starts neither with a scheduling modifier nor with an assignment, and is left alone by another
  pass; what it reports as the environment are assignments that stand in the argument vector.\<close>

theorem prefixes_are_stripped:
  assumes "strip_prefix argv = (env, rest)"
  shows "suffix rest argv \<and> strip_prefix rest = ([], rest)
    \<and> (rest = [] \<or> hd rest \<notin> set SCHED_MODIFIERS \<and> \<not> is_env_assignment (hd rest))
    \<and> set env \<subseteq> {x \<in> set argv. is_env_assignment x}"
  using strip_loop_result [OF assms [unfolded strip_prefix_def]] strip_bare [of rest "[]"]
  by (auto simp: strip_prefix_def bare_def)

section \<open>Where the analysis looks at the wrong word\<close>

text \<open>A digit before \<open>>\<close> hides the redirection: the loop over the digits also takes the character
  after them, so \<open>1>\<close> and \<open>2>\<close> are no writes; only the doubled \<open>1>>\<close> is one.\<close>

theorem digit_redirect_seen_only_when_doubled:
  assumes "ds \<noteq> []" and "list_all ascii_digit ds"
  shows "fd_redirect_is_write (ds @ ''>'' @ rest) \<longleftrightarrow> starts_with rest ''>''"
proof -
  have "\<not> ascii_digit CHR ''>''" by (simp add: ascii_digit_def)
  then have "dropWhile ascii_digit (ds @ ''>'' @ rest) = ''>'' @ rest"
    using assms(2) by (simp add: list_all_iff)
  moreover have "ascii_digit (hd (ds @ ''>'' @ rest))" using assms by (cases ds) auto
  ultimately show ?thesis using assms(1) by (simp add: fd_redirect_is_write_def)
qed

text \<open>A modifier in front of \<open>rm\<close> hides it from the tables: the fingerprint and the deleted paths
  are those of \<open>rm\<close>, but the command is not one that is asked for every time, and deleting from the
  root is no dangerous pattern.\<close>

theorem modifier_hides_recursive_delete:
  assumes "m \<in> {''nohup'', ''command'', ''builtin'', ''noglob'', ''time''}"
    and "pc_argv c = m # ''rm'' # args" and "pc_root c = m"
  shows "fingerprint_of c = fingerprint_of (c\<lparr>pc_argv := ''rm'' # args, pc_root := ''rm''\<rparr>)
    \<and> delete_targets c = filter (\<lambda>t. \<not> starts_with t ''-'') args
    \<and> \<not> is_never_remember c \<and> (\<forall>t. RmRfRoot t \<notin> set (detect_dangerous_patterns [c]))"
proof -
  have rm: "bare (''rm'' # args)"
    by (simp add: bare_def SCHED_MODIFIERS_def is_env_assignment_def)
  have m: "m \<in> set SCHED_MODIFIERS" "modifier_args m (''rm'' # args) = ''rm'' # args"
    using assms(1) by (auto simp: SCHED_MODIFIERS_def modifier_args_def)
  then have "strip_modifier (pc_argv c) = ''rm'' # args" by (simp add: assms(2))
  moreover have "\<not> is_env_assignment ''rm''" by (simp add: is_env_assignment_def)
  ultimately have "strip_prefix (pc_argv c) = ([], ''rm'' # args)"
    using strip_bare [OF rm, of "[]"]
    by (simp add: strip_prefix_def strip_loop.simps [of "[]" "m # ''rm'' # args"] assms(2) Let_def)
  moreover have "strip_prefix (''rm'' # args) = ([], ''rm'' # args)"
    using strip_bare [OF rm] by (simp add: strip_prefix_def)
  moreover have "m \<noteq> ''rm''" "m \<notin> set NEVER_REMEMBER_ROOTS" "\<not> starts_with m ''mkfs''"
    using assms(1) by (auto simp: NEVER_REMEMBER_ROOTS_def)
  ultimately show ?thesis
    using assms(3)
    by (auto simp: fingerprint_of_def delete_targets_def is_never_remember_def
        detect_dangerous_patterns_def rm_root_targets_def split: list.split option.split)
qed

section \<open>The properties on concrete lines\<close>

lemma segments_are_cut_at_bare_separators_witness:
  "\<exists>ps p. cut_into ''cat \"a;b\" && wc'' ps p \<and> list_all one_command (map fst ps @ [p]) \<and>
    [''cat \"a;b\"'', ''wc''] = filter (\<lambda>s. s \<noteq> []) (map trim (map fst ps @ [p]))"
proof -
  have "split_top_level ''cat \"a;b\" && wc'' = Inr [''cat \"a;b\"'', ''wc'']" by code_simp
  from segments_are_cut_at_bare_separators [OF this] show ?thesis by blast
qed

lemma fallback_hides_nothing_witness:
  "\<exists>p. parse_fallback ex_grammar ''ls; echo a > b'' = Inr p \<and> understood ex_grammar (ps_commands p) ''echo a > b''"
proof -
  have "case parse_fallback ex_grammar ''ls; echo a > b'' of Inl _ \<Rightarrow> False
      | Inr p \<Rightarrow> AstTooComplex \<notin> set (ps_dangerous_kinds p)"
    by code_simp
  then obtain p where p: "parse_fallback ex_grammar ''ls; echo a > b'' = Inr p"
    "AstTooComplex \<notin> set (ps_dangerous_kinds p)"
    by (auto split: sum.splits)
  have "split_top_level (strip_heredoc_bodies ''ls; echo a > b'') = Inr [''ls'', ''echo a > b'']"
    by code_simp
  from fallback_hides_nothing [OF p this, of "''echo a > b''"] p(1) show ?thesis by simp
qed

lemma prefixes_are_stripped_witness:
  "strip_prefix [''A=1'', ''timeout'', ''5'', ''git'', ''push''] = ([''A=1''], [''git'', ''push''])
   \<and> strip_prefix [''git'', ''push''] = ([], [''git'', ''push''])"
proof -
  have s: "strip_prefix [''A=1'', ''timeout'', ''5'', ''git'', ''push''] = ([''A=1''], [''git'', ''push''])"
    by code_simp
  from s prefixes_are_stripped [OF s] show ?thesis by blast
qed

lemma digit_redirect_seen_only_when_doubled_witness: "\<not> fd_redirect_is_write ''2> f''"
  using digit_redirect_seen_only_when_doubled [of "''2''" "'' f''"]
  by (simp add: ascii_digit_def)

lemma modifier_hides_recursive_delete_witness:
  "RmRfRoot ''/'' \<notin> set (detect_dangerous_patterns
     [\<lparr>pc_root = ''nohup'', pc_argv = [''nohup'', ''rm'', ''-rf'', ''/''], pc_env_prefix = [],
       pc_write_targets = [], pc_has_heredoc = False\<rparr>])"
  using modifier_hides_recursive_delete [of "''nohup''"
      "\<lparr>pc_root = ''nohup'', pc_argv = [''nohup'', ''rm'', ''-rf'', ''/''], pc_env_prefix = [],
       pc_write_targets = [], pc_has_heredoc = False\<rparr>" "[''-rf'', ''/'']"]
  by simp

end
