(* ===== verification/Effects_Laws.thy ===== *)
theory Effects_Laws
  imports Effects Shell_Laws
begin

text \<open>
  What the effects of a shell call guarantee to the gates behind them: a read-only call writes
  nothing the analysis can see, and every write target it sees is among the paths the path gate
  checks. And what a read-only call may be all the same.
\<close>

section \<open>The command tables\<close>

lemma safe_root_not_never: "r \<in> set SAFE_ROOTS \<Longrightarrow> r \<notin> set NEVER_REMEMBER_ROOTS \<and> r \<notin> set SAFE_WRITE_ROOTS
    \<and> r \<notin> set EGRESS_ROOTS \<and> \<not> starts_with r ''mkfs''"
proof -
  have "list_all (\<lambda>r. r \<notin> set NEVER_REMEMBER_ROOTS \<and> r \<notin> set SAFE_WRITE_ROOTS
      \<and> r \<notin> set EGRESS_ROOTS \<and> \<not> starts_with r ''mkfs'') SAFE_ROOTS"
    by code_simp
  then show "r \<in> set SAFE_ROOTS \<Longrightarrow> ?thesis" by (simp add: list_all_iff)
qed

lemma safe_sub_not_never:
  "r \<in> fst ` set SAFE_SUBCOMMANDS \<Longrightarrow> r \<notin> set NEVER_REMEMBER_ROOTS \<and> r \<notin> set SAFE_WRITE_ROOTS
    \<and> r \<notin> set EGRESS_ROOTS \<and> \<not> starts_with r ''mkfs''"
proof -
  have "list_all (\<lambda>(r, _). r \<notin> set NEVER_REMEMBER_ROOTS \<and> r \<notin> set SAFE_WRITE_ROOTS
      \<and> r \<notin> set EGRESS_ROOTS \<and> \<not> starts_with r ''mkfs'') SAFE_SUBCOMMANDS"
    by code_simp
  then show "r \<in> fst ` set SAFE_SUBCOMMANDS \<Longrightarrow> ?thesis" by (auto simp: list_all_iff)
qed

text \<open>The entries of both the read-only and the egress tables.\<close>

definition BOTH_TABLES :: "(str \<times> str) list" where
  "BOTH_TABLES = [(''git'', ''remote''), (''go'', ''install''), (''go'', ''get'')]"

lemma egress_subcommands_safe:
  "(r, s) \<in> set EGRESS_SUBCOMMANDS \<Longrightarrow>
    r \<in> set SAFE_ROOTS \<or> (r, s) \<in> set SAFE_SUBCOMMANDS \<or> r = ''find'' \<Longrightarrow> (r, s) \<in> set BOTH_TABLES"
proof -
  have "list_all (\<lambda>(r, s). (r \<in> set SAFE_ROOTS \<or> (r, s) \<in> set SAFE_SUBCOMMANDS \<or> r = ''find'')
      \<longrightarrow> (r, s) \<in> set BOTH_TABLES) EGRESS_SUBCOMMANDS"
    by code_simp
  then show "(r, s) \<in> set EGRESS_SUBCOMMANDS \<Longrightarrow>
    r \<in> set SAFE_ROOTS \<or> (r, s) \<in> set SAFE_SUBCOMMANDS \<or> r = ''find'' \<Longrightarrow> ?thesis"
    by (force simp: list_all_iff)
qed

lemma is_safe_tables:
  assumes "is_safe c"
  shows "\<not> is_never_remember c" and "\<not> is_safe_write c"
    and "is_egress c \<Longrightarrow> \<exists>s r. positional c = s # r \<and> (pc_root c, s) \<in> set BOTH_TABLES"
proof -
  have "pc_root c \<notin> set NEVER_REMEMBER_ROOTS \<and> pc_root c \<notin> set SAFE_WRITE_ROOTS
      \<and> pc_root c \<notin> set EGRESS_ROOTS \<and> \<not> starts_with (pc_root c) ''mkfs''"
    using assms
  proof (cases rule: is_safe_cases)
    case find
    then show ?thesis
      by (simp add: NEVER_REMEMBER_ROOTS_def SAFE_WRITE_ROOTS_def EGRESS_ROOTS_def)
  qed (use safe_root_not_never safe_sub_not_never first_positional_in_root in blast)+
  then show "\<not> is_never_remember c" "\<not> is_safe_write c"
    and "is_egress c \<Longrightarrow> \<exists>s r. positional c = s # r \<and> (pc_root c, s) \<in> set BOTH_TABLES"
    using assms egress_subcommands_safe
    by (auto simp: is_never_remember_def is_safe_write_def is_egress_def first_positional_in_def
        elim!: is_safe_cases split: list.splits)
qed

section \<open>Read-only calls\<close>

text \<open>What the short cut for read-only calls lets through, by what the parser found: at least one command, every one of
  them read-only with no redirection to a file and no heredoc, none of them one that must be
  asked for every time or that creates files, none dangerous; and the only ones that reach the
  network are those in both tables (\<open>git remote\<close>, \<open>go install\<close>, \<open>go get\<close>).\<close>

theorem read_only_classification:
  assumes "analyze_shell ext input = Some e" and "ef_class e = ReadOnly"
  shows "ef_dangerous_kinds e = [] \<and> ef_segments e \<noteq> []
    \<and> (\<exists>cmds. ef_segments e = map segment_of cmds
        \<and> (\<forall>c \<in> set cmds. is_safe c \<and> pc_write_targets c = [] \<and> \<not> pc_has_heredoc c
             \<and> \<not> is_never_remember c \<and> \<not> is_safe_write c
             \<and> (is_egress c \<longrightarrow> (\<exists>s r. positional c = s # r \<and> (pc_root c, s) \<in> set BOTH_TABLES))))"
  using assms(1)
proof (cases rule: analyze_shell_cases)
  case (empty cwd)
  with assms(2) show ?thesis by (simp add: effects_destructive_no_paths_def)
next
  case (parsed cwd raw r)
  then obtain p where p: "r = Inr p" "classify_readonly p"
    using assms(2) shell_effects_class by blast
  then have "\<forall>c \<in> set (ps_commands p). is_safe c" "ps_commands p \<noteq> []" "ps_dangerous_kinds p = []"
    by (simp_all add: classify_readonly_def list_all_iff)
  then show ?thesis
    using is_safe_tables is_safe_no_write parsed(2) p(1)
    by (auto simp: shell_effects_segments shell_effects_kinds)
qed

section \<open>Write targets and paths\<close>

lemma path_contains_dedup:
  "path_contains (dedup_preserve_order ps) p = path_contains ps p"
  using set_dedup_on_image [of components "[]" ps]
  by (simp add: path_contains_iff dedup_preserve_order_def)

text \<open>Everything a parsed command line is seen to write or delete is checked by the path gate:
  the paths of the call hold every write target of every segment, and every path \<open>rm\<close> would delete,
  that is not a device, each path once and no device.\<close>

theorem write_targets_are_paths:
  assumes "analyze_shell ext input = Some e" and "ef_segments e \<noteq> []"
  shows "distinct (map components (ef_paths e)) \<and> (\<forall>p \<in> set (ef_paths e). \<not> is_device_path p)
    \<and> (\<exists>cmds. ef_segments e = map segment_of cmds
        \<and> (\<forall>c \<in> set cmds. \<forall>t \<in> set (pc_write_targets c) \<union> set (delete_targets c).
             is_device_path t \<or> path_contains (ef_paths e) t))"
  using assms(1)
proof (cases rule: analyze_shell_cases)
  case (empty cwd)
  with assms(2) show ?thesis by (simp add: effects_destructive_no_paths_def)
next
  case (parsed cwd raw r)
  from assms(2) parsed(2) obtain p where p: "r = Inr p"
    by (cases r) (simp_all add: shell_effects_segments)
  let ?all = "cwd @ concat (map command_paths (ps_commands p))"
  have paths: "ef_paths e = dedup_preserve_order (filter (\<lambda>p. \<not> is_device_path p) ?all)"
    by (simp add: parsed(2) p shell_effects_def Let_def)
  have "distinct (map components (ef_paths e))"
    unfolding paths dedup_preserve_order_def by (rule distinct_dedup_on)
  moreover have "\<forall>p \<in> set (ef_paths e). \<not> is_device_path p"
    unfolding paths dedup_preserve_order_def using set_dedup_on_subset by fastforce
  moreover have "is_device_path t \<or> path_contains (ef_paths e) t"
    if "c \<in> set (ps_commands p)" "t \<in> set (pc_write_targets c) \<union> set (delete_targets c)" for c t
  proof -
    have "t \<in> set ?all" using that by (auto simp: command_paths_def)
    then show ?thesis unfolding paths path_contains_dedup by (auto simp: path_contains_iff)
  qed
  ultimately show ?thesis
    using parsed(2) p by (auto simp: shell_effects_segments)
qed

section \<open>The properties on concrete calls\<close>

definition ex_command :: "str \<Rightarrow> json" where
  "ex_command c = JObj [(''command'', JStr c)]"

lemma read_only_classification_witness:
  "\<exists>e. analyze_shell ex_grammar (ex_command ''git status; ls'') = Some e
     \<and> ef_class e = ReadOnly \<and> ef_dangerous_kinds e = []"
proof -
  have "map_option ef_class (analyze_shell ex_grammar (ex_command ''git status; ls'')) = Some ReadOnly"
    by code_simp
  then obtain e where e: "analyze_shell ex_grammar (ex_command ''git status; ls'') = Some e"
    "ef_class e = ReadOnly" by blast
  from read_only_classification [OF e] e show ?thesis by blast
qed

lemma write_targets_are_paths_witness:
  "\<exists>e. analyze_shell ex_grammar (ex_command ''rm a; echo b > c'') = Some e
     \<and> ef_paths e = [''a'', ''c''] \<and> distinct (map components (ef_paths e))"
proof -
  have "map_option (\<lambda>e. (ef_paths e, ef_segments e \<noteq> []))
      (analyze_shell ex_grammar (ex_command ''rm a; echo b > c'')) = Some ([''a'', ''c''], True)"
    by code_simp
  then obtain e where e: "analyze_shell ex_grammar (ex_command ''rm a; echo b > c'') = Some e"
    "ef_segments e \<noteq> []" and "ef_paths e = [''a'', ''c'']" by auto
  with write_targets_are_paths [OF e] show ?thesis by blast
qed

end
