(* ===== verification/Permission_Pattern.thy ===== *)
theory Permission_Pattern
  imports Rust_Path
begin

text \<open>
  Permission patterns of \<open>crates/agent-core/src/permissions/mod.rs\<close>: the syntax
  \<open>Tool\<close>, \<open>Tool(arg)\<close>, \<open>Bash(cmd:path)\<close>, its parser, and the match of one tool call.
  \<open>build_pattern\<close> and \<open>fingerprint_matches\<close> of \<open>tools/hitl.rs\<close>, which write such patterns and
  match the in-memory ones, are here too.
\<close>

section \<open>Data\<close>

datatype rule_effect = Allow | Deny

datatype permission_scope = Once | Session | Project | Global

record permission_match =
  mt_effect :: rule_effect
  mt_scope :: permission_scope
  mt_pattern :: str

datatype arg =
    ArgAny
  | ArgBash str "str option"
  | ArgPath str
  | ArgDomain str

record permission =
  pm_raw :: str
  pm_tool :: str
  pm_arg :: arg

datatype perm_error =
    EmptyPattern
  | MissingParen str
  | MissingTool str
  | NeedsSessionId
  | NeedsWorkdir
  | PathScopeUnsupported
  | IoError

section \<open>Parsing\<close>

definition parse_arg :: "str \<Rightarrow> str \<Rightarrow> arg" where
  "parse_arg tool inner =
     (let a = trim inner in
      if a = [] then ArgAny
      else if tool \<in> {''Bash'', ''PowerShell''} then
        (case split_at_char CHR '':'' a of
           Some (cmd, path) \<Rightarrow>
             ArgBash (trim cmd) (if trim path = [] then None else Some (trim path))
         | None \<Rightarrow> ArgBash a None)
      else if tool \<in> {''WebFetch'', ''WebSearch'', ''Fetch''} then ArgDomain a
      else ArgPath a)"

definition parse_permission :: "str \<Rightarrow> perm_error + permission" where
  "parse_permission raw =
     (let s = trim raw in
      if s = [] then Inl EmptyPattern
      else case split_at_char CHR ''('' s of
        Some (pre, post) \<Rightarrow>
          if \<not> ends_with s '')'' then Inl (MissingParen raw)
          else let tool = trim pre in
            if tool = [] then Inl (MissingTool raw)
            else Inr \<lparr>pm_raw = raw, pm_tool = tool, pm_arg = parse_arg tool (butlast post)\<rparr>
      | None \<Rightarrow> Inr \<lparr>pm_raw = raw, pm_tool = s, pm_arg = ArgAny\<rparr>)"

text \<open>Illegal patterns of a file are skipped (and logged).\<close>

definition parse_list :: "str list \<Rightarrow> permission list" where
  "parse_list raws =
     List.map_filter (\<lambda>raw. case parse_permission raw of Inr p \<Rightarrow> Some p | Inl _ \<Rightarrow> None) raws"

section \<open>Matching\<close>

text \<open>Equal, or a prefix that ends at a blank.\<close>

definition prefix_with_token_boundary :: "str \<Rightarrow> str \<Rightarrow> bool" where
  "prefix_with_token_boundary haystack p =
     (if haystack = p then True
      else case str_strip_prefix haystack p of
        Some rest \<Rightarrow> starts_with rest '' '' \<or> starts_with rest [tab]
      | None \<Rightarrow> False)"

definition fingerprint_matches :: "str \<Rightarrow> str \<Rightarrow> bool" where
  "fingerprint_matches fingerprint p =
     (if fingerprint = p then True
      else case str_strip_prefix fingerprint p of
        Some rest \<Rightarrow> starts_with rest '' '' \<or> starts_with rest [tab]
      | None \<Rightarrow> False)"

definition opt_prefix :: "str option \<Rightarrow> str \<Rightarrow> bool" where
  "opt_prefix path p = (case path of Some q \<Rightarrow> starts_with q p | None \<Rightarrow> False)"

definition perm_matches :: "permission \<Rightarrow> str \<Rightarrow> str option \<Rightarrow> str option \<Rightarrow> bool" where
  "perm_matches p tool_name fingerprint path =
     (if pm_tool p \<noteq> ''*'' \<and> pm_tool p \<noteq> tool_name then False
      else case pm_arg p of
        ArgAny \<Rightarrow> True
      | ArgBash cmd pp \<Rightarrow>
          (case fingerprint of Some fp \<Rightarrow> prefix_with_token_boundary fp cmd | None \<Rightarrow> False)
          \<and> (case pp of None \<Rightarrow> True | Some q \<Rightarrow> opt_prefix path q)
      | ArgPath q \<Rightarrow> opt_prefix path q
      | ArgDomain q \<Rightarrow> (case path of Some d \<Rightarrow> ends_with d q | None \<Rightarrow> False))"

definition matches_path :: "permission \<Rightarrow> str \<Rightarrow> bool" where
  "matches_path p path = (case pm_arg p of ArgPath q \<Rightarrow> starts_with path q | _ \<Rightarrow> False)"

definition segment_hits :: "permission \<Rightarrow> str \<Rightarrow> str \<Rightarrow> str list \<Rightarrow> bool" where
  "segment_hits p tool_name fingerprint write_targets =
     (if perm_matches p tool_name (Some fingerprint) None then True
      else list_ex (\<lambda>t. perm_matches p tool_name (Some fingerprint) (Some t)) write_targets)"

text \<open>A whitelisted path covers itself and what is textually below it.\<close>

definition path_starts_with :: "str \<Rightarrow> path \<Rightarrow> bool" where
  "path_starts_with target p =
     (if target = p then True
      else case str_strip_prefix target (trim_end_matches {bs} (trim_end_matches {CHR ''/''} p)) of
        Some rest \<Rightarrow> rest = [] \<or> starts_with rest ''/'' \<or> starts_with rest [bs]
      | None \<Rightarrow> False)"

section \<open>Writing patterns\<close>

definition build_pattern :: "str \<Rightarrow> str option \<Rightarrow> str option" where
  "build_pattern tool_name pattern =
     (case pattern of
        None \<Rightarrow> Some tool_name
      | Some p \<Rightarrow>
          let q = trim p in
          if q = [] then None else Some (tool_name @ ''('' @ q @ '')''))"

section \<open>Facts\<close>

lemma fingerprint_matches_boundary:
  "fingerprint_matches fp p = prefix_with_token_boundary fp p"
  by (simp add: fingerprint_matches_def prefix_with_token_boundary_def)

lemma token_boundary_iff:
  "prefix_with_token_boundary fp p \<longleftrightarrow>
     fp = p \<or> (\<exists>rest. fp = p @ sp # rest) \<or> (\<exists>rest. fp = p @ tab # rest)"
  by (auto simp: prefix_with_token_boundary_def str_strip_prefix_Some_iff prefix_def
      split: option.splits)

lemma token_boundary_refl [simp]: "prefix_with_token_boundary p p"
  by (simp add: prefix_with_token_boundary_def)

lemma parse_permission_raw: "parse_permission raw = Inr p \<Longrightarrow> pm_raw p = raw"
  by (auto simp: parse_permission_def Let_def split: if_splits option.splits)

lemma parse_list_member:
  "p \<in> set (parse_list raws) \<longleftrightarrow> (\<exists>raw \<in> set raws. parse_permission raw = Inr p)"
  by (induction raws) (auto simp: parse_list_def map_filter_simps split: sum.splits)

lemma parse_list_append [simp]: "parse_list (xs @ ys) = parse_list xs @ parse_list ys"
  by (induction xs) (auto simp: parse_list_def map_filter_simps split: option.splits)

text \<open>Rules of a view come from the parser: writing their raw text and reading it back is
  the identity.\<close>

definition perm_wf :: "permission \<Rightarrow> bool" where
  "perm_wf p \<longleftrightarrow> parse_permission (pm_raw p) = Inr p"

lemma parse_list_raw: "list_all perm_wf ps \<Longrightarrow> parse_list (map pm_raw ps) = ps"
  by (induction ps) (auto simp: parse_list_def map_filter_simps perm_wf_def)

lemma parse_permission_wf [wf_intros]: "parse_permission raw = Inr p \<Longrightarrow> perm_wf p"
  using parse_permission_raw by (auto simp: perm_wf_def)

lemma parse_list_wf [wf_intros]: "list_all perm_wf (parse_list raws)"
  by (auto simp: list_all_iff parse_list_member intro: parse_permission_wf)

section \<open>Patterns that are written for the user\<close>

lemma build_pattern_text:
  assumes "build_pattern tool (Some p) = Some raw" and "tool \<in> {''Bash'', ''PowerShell''}"
  shows "parse_permission raw = Inr \<lparr>pm_raw = raw, pm_tool = tool, pm_arg = parse_arg tool (trim p)\<rparr>"
    and "trim p \<noteq> []"
proof -
  have raw: "raw = tool @ ''('' @ trim p @ '')''" and ne: "trim p \<noteq> []"
    using assms(1) by (auto simp: build_pattern_def Let_def split: if_splits)
  have tool: "tool \<noteq> []" "trimmed tool" "CHR ''('' \<notin> set tool" "ascii_graph (hd tool)"
    using assms(2) by (auto simp: ascii_graph_def intro!: trimmed_graph)
  have "trimmed raw"
    by (rule trimmed_graph) (use tool in \<open>auto simp: raw ascii_graph_def\<close>)
  then have "trim raw = raw" by simp
  moreover have "split_at_char CHR ''('' raw = Some (tool, trim p @ '')'')"
    using tool(3) by (simp add: raw)
  ultimately show "parse_permission raw
      = Inr \<lparr>pm_raw = raw, pm_tool = tool, pm_arg = parse_arg tool (trim p)\<rparr>"
    using tool(1,2) by (simp add: parse_permission_def raw Let_def)
  show "trim p \<noteq> []" by (rule ne)
qed

text \<open>What the user lets the gate remember is what the rule files recognise: a command prefix
  written as a rule reads back as a rule of that tool alone that matches exactly the commands the
  session memory matches, the prefix itself and what continues it after a blank. The prefix must
  have no colon.\<close>

theorem built_pattern_matches_prefix:
  assumes "build_pattern tool (Some p) = Some raw" and "tool \<in> {''Bash'', ''PowerShell''}"
    and "CHR '':'' \<notin> set (trim p)"
  shows "\<exists>r. parse_permission raw = Inr r
    \<and> (\<forall>t fp. perm_matches r t (Some fp) None \<longleftrightarrow> t = tool \<and> fingerprint_matches fp (trim p))"
proof -
  have "parse_arg tool (trim p) = ArgBash (trim p) None"
    using assms(2,3) build_pattern_text(2) [OF assms(1,2)] split_at_char_None [of "CHR '':''" "trim p"]
    by (auto simp: parse_arg_def Let_def)
  then show ?thesis
    using build_pattern_text(1) [OF assms(1,2)] assms(2)
    by (auto simp: perm_matches_def fingerprint_matches_boundary)
qed

text \<open>A prefix with a colon, such as \<open>curl http://host\<close>, is read back as a command and a path, so
  that the rule written for it never matches the command it was written for, unless it writes to
  such a path.\<close>

theorem remembered_url_is_not_recognised:
  assumes "build_pattern tool (Some p) = Some raw" and "tool \<in> {''Bash'', ''PowerShell''}"
    and "trim p = a @ '':'' @ b" and "CHR '':'' \<notin> set a" and "trim b \<noteq> []"
  shows "\<exists>r. parse_permission raw = Inr r \<and> (\<forall>t fp. \<not> segment_hits r t fp [])"
proof -
  have "split_at_char CHR '':'' (trim p) = Some (a, b)"
    using assms(3,4) by simp
  then have "parse_arg tool (trim p) = ArgBash (trim a) (Some (trim b))"
    using assms(2,5) build_pattern_text(2) [OF assms(1,2)] by (auto simp: parse_arg_def Let_def)
  then show ?thesis
    using build_pattern_text(1) [OF assms(1,2)]
    by (auto simp: segment_hits_def perm_matches_def opt_prefix_def)
qed

lemma built_pattern_matches_prefix_witness:
  "\<exists>r. parse_permission ''Bash(git push)'' = Inr r \<and> perm_matches r ''Bash'' (Some ''git push'') None
     \<and> \<not> perm_matches r ''Edit'' (Some ''git push'') None"
proof -
  have b: "build_pattern ''Bash'' (Some '' git push'') = Some ''Bash(git push)''" by code_simp
  have c: "CHR '':'' \<notin> set (trim '' git push'')" and t: "trim '' git push'' = ''git push''"
    by code_simp+
  from built_pattern_matches_prefix [OF b _ c] t show ?thesis
    by (auto simp: fingerprint_matches_def)
qed

lemma remembered_url_is_not_recognised_witness:
  "\<exists>r. parse_permission ''Bash(curl http://a)'' = Inr r
     \<and> \<not> segment_hits r ''Bash'' ''curl http://a'' []"
proof -
  have b: "build_pattern ''Bash'' (Some ''curl http://a'') = Some ''Bash(curl http://a)''" by code_simp
  have c: "trim ''curl http://a'' = ''curl http'' @ '':'' @ ''//a''" "trim ''//a'' \<noteq> []"
    by code_simp+
  from remembered_url_is_not_recognised [OF b _ c(1) _ c(2)] show ?thesis by auto
qed

end
