(* ===== verification/Rules_File.thy ===== *)
theory Rules_File
  imports Prelude Rust_Path
begin

text \<open>
  The rules files and where they live: \<open>encode_workdir\<close> and \<open>normalize_lexical\<close> of
  \<open>storage/projects.rs\<close>, and \<open>storage/permissions.rs\<close>. A disk keeps one file per slot (global,
  or one per encoded working directory) with its modification time; a file whose bytes do not
  decode is \<open>fe_content = None\<close> and reads as the empty rules file. What the code relies on is
  stated as the locale \<open>rules_storage\<close> and discharged for the disk.
\<close>

section \<open>Project directory names\<close>

text \<open>\<open>normalize_lexical\<close>: one component at a time; the second component of the state is the
  list of names kept so far (\<open>..\<close> stays where it cannot be resolved).\<close>

fun norm_step :: "component \<Rightarrow> bool \<times> str list \<Rightarrow> bool \<times> str list" where
  "norm_step RootDir (rooted, parts) = (True, [])"
| "norm_step CurDir (rooted, parts) = (rooted, parts)"
| "norm_step ParentDir (rooted, parts) =
     (if parts \<noteq> [] \<and> last parts \<noteq> ''..'' then (rooted, butlast parts)
      else if \<not> rooted then (rooted, parts @ [''..''])
      else (rooted, parts))"
| "norm_step (Normal s) (rooted, parts) = (rooted, parts @ [s])"

definition normalize_lexical :: "path \<Rightarrow> path" where
  "normalize_lexical p =
     (let (rooted, parts) = fold norm_step (components p) (False, []) in
      fold (\<lambda>s out. path_join out s) parts (if rooted then path_join [] ''/'' else []))"

definition dash :: "char \<Rightarrow> char" where
  "dash c = (if c = CHR ''/'' \<or> c = bs then CHR ''-'' else c)"

fun enc_step :: "component \<Rightarrow> str \<times> bool \<Rightarrow> str \<times> bool" where
  "enc_step RootDir (out, first) = (if ends_with out ''-'' then out else out @ ''-'', False)"
| "enc_step (Normal part) (out, first) =
     ((if \<not> first \<and> \<not> ends_with out ''-'' then out @ ''-'' else out) @ map dash part, False)"
| "enc_step CurDir (out, first) = (out, first)"
| "enc_step ParentDir (out, first) = (out, first)"

definition encode_workdir :: "path \<Rightarrow> str" where
  "encode_workdir workdir =
     (let (out, first) = fold enc_step (components (normalize_lexical workdir)) ([], True) in
      if out = [] then ''project'' else out)"

section \<open>Rules files\<close>

record permissions_file =
  pf_allow :: "str list"
  pf_deny :: "str list"
  pf_paths :: "path list"

definition default_file :: permissions_file where
  "default_file = \<lparr>pf_allow = [], pf_deny = [], pf_paths = []\<rparr>"

datatype slot = GlobalFile | ProjectFile str

record file_entry =
  fe_content :: "permissions_file option"
  fe_mtime :: nat

record disk =
  dk_files :: "slot \<Rightarrow> file_entry option"
  dk_now :: nat
  dk_read_ok :: bool
  dk_write_ok :: bool

datatype io_error = ReadFailed | WriteFailed

definition project_path :: "path \<Rightarrow> slot" where
  "project_path workdir = ProjectFile (encode_workdir workdir)"

definition file_mtime :: "disk \<Rightarrow> slot \<Rightarrow> nat option" where
  "file_mtime dk k = map_option fe_mtime (dk_files dk k)"

definition load_at :: "disk \<Rightarrow> slot \<Rightarrow> io_error + permissions_file" where
  "load_at dk k =
     (case dk_files dk k of
        None \<Rightarrow> Inr default_file
      | Some e \<Rightarrow>
          if \<not> dk_read_ok dk then Inl ReadFailed
          else Inr (case fe_content e of None \<Rightarrow> default_file | Some f \<Rightarrow> f))"

definition save_at :: "disk \<Rightarrow> slot \<Rightarrow> permissions_file \<Rightarrow> (io_error + unit) \<times> disk" where
  "save_at dk k f =
     (if \<not> dk_write_ok dk then (Inl WriteFailed, dk)
      else (Inr (),
            dk\<lparr>dk_files := (dk_files dk)(k \<mapsto> \<lparr>fe_content = Some f, fe_mtime = dk_now dk\<rparr>)\<rparr>))"

definition global_mtime :: "disk \<Rightarrow> nat option" where
  "global_mtime dk = file_mtime dk GlobalFile"

definition project_mtime :: "disk \<Rightarrow> path option \<Rightarrow> nat option" where
  "project_mtime dk workdir =
     (case workdir of None \<Rightarrow> None | Some wd \<Rightarrow> file_mtime dk (project_path wd))"

definition load_global :: "disk \<Rightarrow> io_error + permissions_file" where
  "load_global dk = load_at dk GlobalFile"

definition load_project :: "disk \<Rightarrow> path \<Rightarrow> io_error + permissions_file" where
  "load_project dk workdir = load_at dk (project_path workdir)"

definition save_global :: "disk \<Rightarrow> permissions_file \<Rightarrow> (io_error + unit) \<times> disk" where
  "save_global dk f = save_at dk GlobalFile f"

definition save_project :: "disk \<Rightarrow> path \<Rightarrow> permissions_file \<Rightarrow> (io_error + unit) \<times> disk" where
  "save_project dk workdir f = save_at dk (project_path workdir) f"

text \<open>Another process writing a file, and the clock.\<close>

definition external_write :: "slot \<Rightarrow> permissions_file option \<Rightarrow> disk \<Rightarrow> disk" where
  "external_write k c dk =
     dk\<lparr>dk_files := (dk_files dk)(k \<mapsto> \<lparr>fe_content = c, fe_mtime = dk_now dk\<rparr>)\<rparr>"

section \<open>What the store relies on\<close>

locale rules_storage =
  fixes load :: "'d \<Rightarrow> 'k \<Rightarrow> 'e + 'f"
    and save :: "'d \<Rightarrow> 'k \<Rightarrow> 'f \<Rightarrow> ('e + unit) \<times> 'd"
    and mtime :: "'d \<Rightarrow> 'k \<Rightarrow> nat option"
    and readable :: "'d \<Rightarrow> bool"
    and dflt :: 'f
  assumes load_saved: "save d k f = (Inr u, d') \<Longrightarrow> readable d' \<Longrightarrow> load d' k = Inr f"
    and mtime_saved: "save d k f = (Inr u, d') \<Longrightarrow> mtime d' k \<noteq> None"
    and save_other: "save d k f = (r, d') \<Longrightarrow> k' \<noteq> k \<Longrightarrow>
      load d' k' = load d k' \<and> mtime d' k' = mtime d k'"
    and save_failed: "save d k f = (Inl e, d') \<Longrightarrow> d' = d"
    and load_absent: "mtime d k = None \<Longrightarrow> load d k = Inr dflt"
    and save_readable: "save d k f = (r, d') \<Longrightarrow> readable d' = readable d"
begin

text \<open>A cached copy agrees with the disk as soon as the time it carries is that of the file.\<close>

definition coherent :: "'d \<Rightarrow> 'k \<Rightarrow> 'f \<Rightarrow> nat option \<Rightarrow> bool" where
  "coherent d k f m \<longleftrightarrow> m = mtime d k \<and> load d k = Inr f"

lemma coherent_saved:
  assumes "save d k f = (Inr u, d')" and "readable d"
  shows "coherent d' k f (mtime d' k)"
  using assms load_saved save_readable by (simp add: coherent_def)

lemma coherent_other:
  assumes "save d k f = (r, d')" and "k' \<noteq> k"
  shows "coherent d' k' g m = coherent d k' g m"
  using save_other [OF assms] by (simp add: coherent_def)

lemma coherent_absent: "mtime d k = None \<Longrightarrow> coherent d k dflt None"
  by (simp add: coherent_def load_absent)

lemma coherent_failed: "save d k f = (Inl e, d') \<Longrightarrow> coherent d' k' g m = coherent d k' g m"
  using save_failed by blast

text \<open>The last of several writes to one slot is what a reader gets.\<close>

lemma save_twice:
  assumes "save d k f = (Inr u, d1)" and "save d1 k g = (Inr u', d2)" and "readable d"
  shows "load d2 k = Inr g"
  using assms load_saved save_readable by metis

end

interpretation disk_rules: rules_storage load_at save_at file_mtime dk_read_ok default_file
  by unfold_locales
    (auto simp: load_at_def save_at_def file_mtime_def split: if_splits option.splits)

lemma save_at_cases:
  obtains (failed) "save_at dk k f = (Inl WriteFailed, dk)" "\<not> dk_write_ok dk"
    | (saved) dk' where "save_at dk k f = (Inr (), dk')" "dk_write_ok dk"
        "file_mtime dk' k = Some (dk_now dk)" "dk_read_ok dk' = dk_read_ok dk"
        "dk_files dk' = (dk_files dk)(k \<mapsto> \<lparr>fe_content = Some f, fe_mtime = dk_now dk\<rparr>)"
  by (cases "dk_write_ok dk") (auto simp: save_at_def file_mtime_def)

lemma external_write_mtime [simp]: "file_mtime (external_write k c dk) k = Some (dk_now dk)"
  by (simp add: external_write_def file_mtime_def)

section \<open>Facts on directory names\<close>

lemma encode_workdir_nonempty: "encode_workdir p \<noteq> []"
  by (simp add: encode_workdir_def split: prod.split)

end
