(* ===== verification/Permission_Store.thy ===== *)
theory Permission_Store
  imports Permission_Pattern Rules_File Effects
begin

text \<open>
  \<open>PermissionStore\<close> of \<open>crates/agent-core/src/permissions/mod.rs\<close>: the global view, one view per
  project and one pair of rule lists per session, cached in memory and refreshed from the disk
  (\<open>Rules_File\<close>) when the file's time is newer. The disk is passed along: reading operations
  return the refreshed store, writing ones the store and the disk. The mutexes are held inside
  one operation only, so an operation is one step.
\<close>

section \<open>State\<close>

record view =
  vw_allow :: "permission list"
  vw_deny :: "permission list"
  vw_paths :: "path list"
  vw_mtime :: "nat option"

definition default_view :: view where
  "default_view = \<lparr>vw_allow = [], vw_deny = [], vw_paths = [], vw_mtime = None\<rparr>"

definition from_file :: "permissions_file \<Rightarrow> nat option \<Rightarrow> view" where
  "from_file f mtime =
     \<lparr>vw_allow = parse_list (pf_allow f), vw_deny = parse_list (pf_deny f),
      vw_paths = pf_paths f, vw_mtime = mtime\<rparr>"

definition to_file :: "view \<Rightarrow> permissions_file" where
  "to_file v =
     \<lparr>pf_allow = map pm_raw (vw_allow v), pf_deny = map pm_raw (vw_deny v),
      pf_paths = vw_paths v\<rparr>"

type_synonym session_rules = "permission list \<times> permission list"

record store =
  st_global :: view
  st_projects :: "(str \<times> view) list"
  st_sessions :: "(str \<times> session_rules) list"

definition open_store :: "disk \<Rightarrow> io_error + store" where
  "open_store dk =
     (case load_global dk of
        Inl e \<Rightarrow> Inl e
      | Inr f \<Rightarrow> Inr \<lparr>st_global = from_file f (global_mtime dk), st_projects = [], st_sessions = []\<rparr>)"

section \<open>Refreshing\<close>

definition refresh_global :: "disk \<Rightarrow> store \<Rightarrow> store" where
  "refresh_global dk st =
     (let current = global_mtime dk; g = st_global st;
          reload = (case load_global dk of
                      Inr f \<Rightarrow> st\<lparr>st_global := from_file f current\<rparr> | Inl _ \<Rightarrow> st)
      in case (current, vw_mtime g) of
           (Some cur, Some prev) \<Rightarrow> if prev < cur then reload else st
         | (Some _, None) \<Rightarrow> reload
         | (None, Some _) \<Rightarrow> st\<lparr>st_global := default_view\<rparr>
         | (None, None) \<Rightarrow> st)"

definition project_entry :: "store \<Rightarrow> str \<Rightarrow> view" where
  "project_entry st enc =
     (case map_of (st_projects st) enc of None \<Rightarrow> default_view | Some v \<Rightarrow> v)"

definition put_project :: "str \<Rightarrow> view \<Rightarrow> store \<Rightarrow> store" where
  "put_project enc v st = st\<lparr>st_projects := assoc_put enc v (st_projects st)\<rparr>"

definition refreshed_project :: "disk \<Rightarrow> path \<Rightarrow> view \<Rightarrow> view" where
  "refreshed_project dk wd v =
     (let current = project_mtime dk (Some wd);
          reload = (case load_project dk wd of Inr f \<Rightarrow> from_file f current | Inl _ \<Rightarrow> v)
      in case (current, vw_mtime v) of
           (Some cur, Some prev) \<Rightarrow> if prev < cur then reload else v
         | (Some _, None) \<Rightarrow> reload
         | (None, Some _) \<Rightarrow> default_view
         | (None, None) \<Rightarrow>
             if vw_mtime v = None \<and> vw_allow v = [] \<and> vw_deny v = [] \<and> vw_paths v = []
             then reload else v)"

definition refresh_project :: "disk \<Rightarrow> path \<Rightarrow> store \<Rightarrow> store" where
  "refresh_project dk wd st =
     (let enc = encode_workdir wd in
      put_project enc (refreshed_project dk wd (project_entry st enc)) st)"

section \<open>Sessions\<close>

definition load_session_view :: "str \<Rightarrow> str list \<Rightarrow> str list \<Rightarrow> store \<Rightarrow> store" where
  "load_session_view sid allow deny st =
     st\<lparr>st_sessions := assoc_put sid (parse_list allow, parse_list deny) (st_sessions st)\<rparr>"

definition ensure_session_view :: "str \<Rightarrow> store \<Rightarrow> store" where
  "ensure_session_view sid st =
     (if map_of (st_sessions st) sid = None
      then st\<lparr>st_sessions := assoc_put sid ([], []) (st_sessions st)\<rparr> else st)"

section \<open>Looking rules up\<close>

definition match_rules ::
  "permission_scope \<Rightarrow> permission list \<Rightarrow> permission list \<Rightarrow> str \<Rightarrow> str option \<Rightarrow> str option
    \<Rightarrow> permission_match option" where
  "match_rules scope allow deny tool_name fingerprint path =
     (case find (\<lambda>p. perm_matches p tool_name fingerprint path) deny of
        Some p \<Rightarrow> Some \<lparr>mt_effect = Deny, mt_scope = scope, mt_pattern = pm_raw p\<rparr>
      | None \<Rightarrow>
          (case find (\<lambda>p. perm_matches p tool_name fingerprint path) allow of
             Some p \<Rightarrow> Some \<lparr>mt_effect = Allow, mt_scope = scope, mt_pattern = pm_raw p\<rparr>
           | None \<Rightarrow> None))"

definition match_view ::
  "view \<Rightarrow> permission_scope \<Rightarrow> str \<Rightarrow> str option \<Rightarrow> str option \<Rightarrow> permission_match option" where
  "match_view v scope tool_name fingerprint path =
     match_rules scope (vw_allow v) (vw_deny v) tool_name fingerprint path"

definition find_in_session ::
  "store \<Rightarrow> str option \<Rightarrow> str \<Rightarrow> str option \<Rightarrow> str option \<Rightarrow> permission_match option" where
  "find_in_session st session_id tool_name fingerprint path =
     (case Option.bind session_id (map_of (st_sessions st)) of
        None \<Rightarrow> None
      | Some (allow, deny) \<Rightarrow> match_rules Session allow deny tool_name fingerprint path)"

definition find_diagnostic ::
  "disk \<Rightarrow> str option \<Rightarrow> path option \<Rightarrow> str \<Rightarrow> str option \<Rightarrow> str option \<Rightarrow> store
    \<Rightarrow> permission_match option \<times> store" where
  "find_diagnostic dk session_id workdir tool_name fingerprint path st =
     (case find_in_session st session_id tool_name fingerprint path of
        Some d \<Rightarrow> (Some d, st)
      | None \<Rightarrow>
          let st1 = (case workdir of None \<Rightarrow> st | Some wd \<Rightarrow> refresh_project dk wd st);
              hit = Option.bind workdir (\<lambda>wd.
                      Option.bind (map_of (st_projects st1) (encode_workdir wd)) (\<lambda>v.
                        match_view v Project tool_name fingerprint path))
          in case hit of
               Some d \<Rightarrow> (Some d, st1)
             | None \<Rightarrow>
                 let st2 = refresh_global dk st1 in
                 (match_view (st_global st2) Global tool_name fingerprint path, st2))"

definition find_rule ::
  "disk \<Rightarrow> str option \<Rightarrow> path option \<Rightarrow> str \<Rightarrow> str option \<Rightarrow> str option \<Rightarrow> store
    \<Rightarrow> rule_effect option \<times> store" where
  "find_rule dk session_id workdir tool_name fingerprint path st =
     map_prod (map_option mt_effect) id
       (find_diagnostic dk session_id workdir tool_name fingerprint path st)"

text \<open>The two loops over the paths of one call, for any lookup that threads its state.\<close>

fun first_deny ::
  "('q \<Rightarrow> 's \<Rightarrow> permission_match option \<times> 's) \<Rightarrow> 'q list \<Rightarrow> 's \<Rightarrow> permission_match option \<times> 's" where
  "first_deny look [] st = (None, st)"
| "first_deny look (q # qs) st =
     (case look q st of
        (Some hit, st') \<Rightarrow> if mt_effect hit = Deny then (Some hit, st') else first_deny look qs st'
      | (None, st') \<Rightarrow> first_deny look qs st')"

fun all_allowed ::
  "('q \<Rightarrow> 's \<Rightarrow> permission_match option \<times> 's) \<Rightarrow> permission_match option \<Rightarrow> 'q list \<Rightarrow> 's
    \<Rightarrow> permission_match option \<times> 's" where
  "all_allowed look first [] st = (first, st)"
| "all_allowed look first (q # qs) st =
     (case look q st of
        (Some hit, st') \<Rightarrow>
          if mt_effect hit = Allow
          then all_allowed look (case first of None \<Rightarrow> Some hit | Some f \<Rightarrow> Some f) qs st'
          else (None, st')
      | (None, st') \<Rightarrow> (None, st'))"

definition find_for_paths_diagnostic ::
  "disk \<Rightarrow> str option \<Rightarrow> path option \<Rightarrow> str \<Rightarrow> str option \<Rightarrow> str list \<Rightarrow> store
    \<Rightarrow> permission_match option \<times> store" where
  "find_for_paths_diagnostic dk session_id workdir tool_name fingerprint paths st =
     (let look = (\<lambda>q. find_diagnostic dk session_id workdir tool_name fingerprint (Some q)) in
      if paths = [] then find_diagnostic dk session_id workdir tool_name fingerprint None st
      else case first_deny look paths st of
        (Some hit, st') \<Rightarrow> (Some hit, st')
      | (None, st') \<Rightarrow> all_allowed look None paths st')"

text \<open>All the rules that apply to a call, nearest layer first, each with its scope.\<close>

type_synonym scoped_rules = "(permission_scope \<times> permission) list"

definition session_layer :: "store \<Rightarrow> str option \<Rightarrow> session_rules" where
  "session_layer st session_id =
     (case Option.bind session_id (map_of (st_sessions st)) of None \<Rightarrow> ([], []) | Some r \<Rightarrow> r)"

definition project_layer :: "store \<Rightarrow> path option \<Rightarrow> session_rules" where
  "project_layer st workdir =
     (case Option.bind workdir (\<lambda>wd. map_of (st_projects st) (encode_workdir wd)) of
        None \<Rightarrow> ([], []) | Some v \<Rightarrow> (vw_allow v, vw_deny v))"

definition layers :: "store \<Rightarrow> str option \<Rightarrow> path option \<Rightarrow> scoped_rules \<times> scoped_rules" where
  "layers st session_id workdir =
     (let s = session_layer st session_id; p = project_layer st workdir; g = st_global st in
      (map (Pair Session) (fst s) @ map (Pair Project) (fst p) @ map (Pair Global) (vw_allow g),
       map (Pair Session) (snd s) @ map (Pair Project) (snd p) @ map (Pair Global) (vw_deny g)))"

definition deny_hits :: "str \<Rightarrow> segment_effect \<Rightarrow> permission_scope \<times> permission \<Rightarrow> bool" where
  "deny_hits tool_name seg r \<longleftrightarrow>
     segment_hits (snd r) tool_name (seg_fingerprint seg) (seg_write_targets seg)
     \<or> list_ex (matches_path (snd r)) (seg_write_targets seg)"

definition allow_hit :: "str \<Rightarrow> scoped_rules \<Rightarrow> segment_effect \<Rightarrow> (permission_scope \<times> permission) option"
  where
  "allow_hit tool_name allow seg =
     find (\<lambda>r. segment_hits (snd r) tool_name (seg_fingerprint seg) (seg_write_targets seg)) allow"

definition matched_as :: "rule_effect \<Rightarrow> permission_scope \<times> permission \<Rightarrow> permission_match" where
  "matched_as e r = \<lparr>mt_effect = e, mt_scope = fst r, mt_pattern = pm_raw (snd r)\<rparr>"

fun segment_deny :: "str \<Rightarrow> scoped_rules \<Rightarrow> segment_effect list \<Rightarrow> permission_match option" where
  "segment_deny tool_name deny [] = None"
| "segment_deny tool_name deny (seg # segs) =
     (case find (deny_hits tool_name seg) deny of
        Some r \<Rightarrow> Some (matched_as Deny r)
      | None \<Rightarrow> segment_deny tool_name deny segs)"

text \<open>\<open>None\<close>: a writing segment no rule allows. \<open>Some first\<close>: the first rule that allowed one.\<close>

fun segment_allow ::
  "str \<Rightarrow> scoped_rules \<Rightarrow> permission_match option \<Rightarrow> segment_effect list
    \<Rightarrow> permission_match option option" where
  "segment_allow tool_name allow first [] = Some first"
| "segment_allow tool_name allow first (seg # segs) =
     (case allow_hit tool_name allow seg of
        None \<Rightarrow> None
      | Some r \<Rightarrow>
          segment_allow tool_name allow
            (case first of None \<Rightarrow> Some (matched_as Allow r) | Some f \<Rightarrow> Some f) segs)"

definition find_for_segments_diagnostic ::
  "disk \<Rightarrow> str option \<Rightarrow> path option \<Rightarrow> str \<Rightarrow> segment_effect list \<Rightarrow> store
    \<Rightarrow> permission_match option \<times> store" where
  "find_for_segments_diagnostic dk session_id workdir tool_name segments st =
     (if segments = [] then (None, st)
      else
        let st1 = (case workdir of None \<Rightarrow> st | Some wd \<Rightarrow> refresh_project dk wd st);
            st2 = refresh_global dk st1;
            (allow, deny) = layers st2 session_id workdir
        in case segment_deny tool_name deny segments of
             Some m \<Rightarrow> (Some m, st2)
           | None \<Rightarrow>
               (case segment_allow tool_name allow None
                       (filter (\<lambda>s. \<not> seg_is_readonly s) segments) of
                  None \<Rightarrow> (None, st2)
                | Some first \<Rightarrow> (first, st2)))"

text \<open>Paths that every tool may touch.\<close>

definition first_path_rule ::
  "permission_scope \<Rightarrow> permission list \<Rightarrow> path list \<Rightarrow> str \<Rightarrow> permission_match option" where
  "first_path_rule scope allow paths p =
     (case find (\<lambda>r. matches_path r p) allow of
        Some r \<Rightarrow> Some \<lparr>mt_effect = Allow, mt_scope = scope, mt_pattern = pm_raw r\<rparr>
      | None \<Rightarrow>
          (case find (path_starts_with p) paths of
             Some q \<Rightarrow> Some \<lparr>mt_effect = Allow, mt_scope = scope, mt_pattern = q\<rparr>
           | None \<Rightarrow> None))"

definition allows_path_diagnostic ::
  "disk \<Rightarrow> str option \<Rightarrow> path option \<Rightarrow> str \<Rightarrow> store \<Rightarrow> permission_match option \<times> store" where
  "allows_path_diagnostic dk session_id workdir p st =
     (case Option.bind session_id (\<lambda>sid. Option.bind (map_of (st_sessions st) sid)
             (\<lambda>(allow, deny). first_path_rule Session allow [] p)) of
        Some m \<Rightarrow> (Some m, st)
      | None \<Rightarrow>
          let st1 = (case workdir of None \<Rightarrow> st | Some wd \<Rightarrow> refresh_project dk wd st) in
          (case Option.bind workdir (\<lambda>wd. Option.bind (map_of (st_projects st1) (encode_workdir wd))
                  (\<lambda>v. first_path_rule Project (vw_allow v) (vw_paths v) p)) of
             Some m \<Rightarrow> (Some m, st1)
           | None \<Rightarrow>
               let st2 = refresh_global dk st1; g = st_global st2 in
               (first_path_rule Global (vw_allow g) (vw_paths g) p, st2)))"

definition allows_path :: "disk \<Rightarrow> str option \<Rightarrow> path option \<Rightarrow> str \<Rightarrow> store \<Rightarrow> bool \<times> store" where
  "allows_path dk session_id workdir p st =
     map_prod (\<lambda>m. m \<noteq> None) id (allows_path_diagnostic dk session_id workdir p st)"

definition effective_paths :: "disk \<Rightarrow> path option \<Rightarrow> store \<Rightarrow> path list \<times> store" where
  "effective_paths dk workdir st =
     (let st1 = refresh_global dk st; out = vw_paths (st_global st1) in
      case workdir of
        None \<Rightarrow> (out, st1)
      | Some wd \<Rightarrow>
          let st2 = refresh_project dk wd st1 in
          (case map_of (st_projects st2) (encode_workdir wd) of
             None \<Rightarrow> (out, st2)
           | Some v \<Rightarrow> (fold push_path (vw_paths v) out, st2)))"

end
