(* ===== verification/Store_Ops.thy ===== *)
theory Store_Ops
  imports Permission_Store
begin

text \<open>
  The operations of \<open>PermissionStore\<close> that change rules (\<open>add\<close>, \<open>remove\<close>, \<open>add_path\<close>,
  \<open>remove_path\<close>, \<open>clear\<close>) and those that list them. Each returns its result, the disk and the
  store. A change is made in memory first and then written; when the write fails the operation
  returns the error and the memory keeps the change.
\<close>

section \<open>Helpers\<close>

definition select_list :: "view \<Rightarrow> rule_effect \<Rightarrow> permission list" where
  "select_list v decision = (case decision of Allow \<Rightarrow> vw_allow v | Deny \<Rightarrow> vw_deny v)"

definition update_list ::
  "(permission list \<Rightarrow> permission list) \<Rightarrow> rule_effect \<Rightarrow> view \<Rightarrow> view" where
  "update_list f decision v =
     (case decision of
        Allow \<Rightarrow> v\<lparr>vw_allow := f (vw_allow v)\<rparr>
      | Deny \<Rightarrow> v\<lparr>vw_deny := f (vw_deny v)\<rparr>)"

definition insert_rule :: "permission \<Rightarrow> permission list \<Rightarrow> permission list" where
  "insert_rule p ps = (if list_ex (\<lambda>q. pm_raw q = pm_raw p) ps then ps else ps @ [p])"

definition drop_rule :: "str \<Rightarrow> permission list \<Rightarrow> permission list" where
  "drop_rule pattern ps = filter (\<lambda>p. pm_raw p \<noteq> pattern) ps"

definition push_unique :: "rule_effect \<Rightarrow> permission \<Rightarrow> view \<Rightarrow> view" where
  "push_unique decision p = update_list (insert_rule p) decision"

definition remove_unique :: "rule_effect \<Rightarrow> str \<Rightarrow> view \<Rightarrow> bool \<times> view" where
  "remove_unique decision pattern v =
     (let v' = update_list (drop_rule pattern) decision v in
      (length (select_list v' decision) \<noteq> length (select_list v decision), v'))"

definition update_session ::
  "(permission list \<Rightarrow> permission list) \<Rightarrow> rule_effect \<Rightarrow> session_rules \<Rightarrow> session_rules" where
  "update_session f decision r =
     (case decision of Allow \<Rightarrow> (f (fst r), snd r) | Deny \<Rightarrow> (fst r, f (snd r)))"

definition select_session :: "session_rules \<Rightarrow> rule_effect \<Rightarrow> permission list" where
  "select_session r decision = (case decision of Allow \<Rightarrow> fst r | Deny \<Rightarrow> snd r)"

type_synonym 'a store_result = "(perm_error + 'a) \<times> disk \<times> store"

text \<open>Write a view that was just changed in memory, and take over the file's new time.\<close>

definition persist_project :: "path \<Rightarrow> view \<Rightarrow> 'a \<Rightarrow> disk \<Rightarrow> store \<Rightarrow> 'a store_result" where
  "persist_project wd v res dk st =
     (let enc = encode_workdir wd; st1 = put_project enc v st in
      case save_project dk wd (to_file v) of
        (Inl _, dk') \<Rightarrow> (Inl IoError, dk', st1)
      | (Inr _, dk') \<Rightarrow>
          (Inr res, dk', put_project enc (v\<lparr>vw_mtime := project_mtime dk' (Some wd)\<rparr>) st1))"

definition persist_global :: "view \<Rightarrow> 'a \<Rightarrow> disk \<Rightarrow> store \<Rightarrow> 'a store_result" where
  "persist_global v res dk st =
     (let st1 = st\<lparr>st_global := v\<rparr> in
      case save_global dk (to_file v) of
        (Inl _, dk') \<Rightarrow> (Inl IoError, dk', st1)
      | (Inr _, dk') \<Rightarrow> (Inr res, dk', st1\<lparr>st_global := v\<lparr>vw_mtime := global_mtime dk'\<rparr>\<rparr>))"

section \<open>Adding and removing rules\<close>

definition store_add ::
  "permission_scope \<Rightarrow> str option \<Rightarrow> path option \<Rightarrow> rule_effect \<Rightarrow> str \<Rightarrow> disk \<Rightarrow> store
    \<Rightarrow> unit store_result" where
  "store_add scope session_id workdir decision pattern dk st =
     (case parse_permission pattern of
        Inl e \<Rightarrow> (Inl e, dk, st)
      | Inr parsed \<Rightarrow>
          (case scope of
             Once \<Rightarrow> (Inr (), dk, st)
           | Session \<Rightarrow>
               (case session_id of
                  None \<Rightarrow> (Inl NeedsSessionId, dk, st)
                | Some sid \<Rightarrow>
                    let r = (case map_of (st_sessions st) sid of None \<Rightarrow> ([], []) | Some r \<Rightarrow> r) in
                    (Inr (), dk,
                     st\<lparr>st_sessions :=
                          assoc_put sid (update_session (insert_rule parsed) decision r)
                            (st_sessions st)\<rparr>))
           | Project \<Rightarrow>
               (case workdir of
                  None \<Rightarrow> (Inl NeedsWorkdir, dk, st)
                | Some wd \<Rightarrow>
                    let st1 = refresh_project dk wd st;
                        v = project_entry st1 (encode_workdir wd)
                    in persist_project wd (push_unique decision parsed v) () dk st1)
           | Global \<Rightarrow>
               let st1 = refresh_global dk st in
               persist_global (push_unique decision parsed (st_global st1)) () dk st1))"

definition store_remove ::
  "permission_scope \<Rightarrow> str option \<Rightarrow> path option \<Rightarrow> rule_effect \<Rightarrow> str \<Rightarrow> disk \<Rightarrow> store
    \<Rightarrow> bool store_result" where
  "store_remove scope session_id workdir decision pattern dk st =
     (case scope of
        Once \<Rightarrow> (Inr False, dk, st)
      | Session \<Rightarrow>
          (case session_id of
             None \<Rightarrow> (Inr False, dk, st)
           | Some sid \<Rightarrow>
               (case map_of (st_sessions st) sid of
                  None \<Rightarrow> (Inr False, dk, st)
                | Some r \<Rightarrow>
                    let r' = update_session (drop_rule pattern) decision r in
                    (Inr (length (select_session r' decision) \<noteq> length (select_session r decision)),
                     dk, st\<lparr>st_sessions := assoc_put sid r' (st_sessions st)\<rparr>)))
      | Project \<Rightarrow>
          (case workdir of
             None \<Rightarrow> (Inl NeedsWorkdir, dk, st)
           | Some wd \<Rightarrow>
               let st1 = refresh_project dk wd st; enc = encode_workdir wd in
               (case map_of (st_projects st1) enc of
                  None \<Rightarrow> (Inr False, dk, st1)
                | Some v \<Rightarrow>
                    let (removed, v') = remove_unique decision pattern v in
                    if removed then persist_project wd v' True dk st1
                    else (Inr False, dk, put_project enc v' st1)))
      | Global \<Rightarrow>
          let st1 = refresh_global dk st;
              (removed, v') = remove_unique decision pattern (st_global st1)
          in if removed then persist_global v' True dk st1
             else (Inr False, dk, st1\<lparr>st_global := v'\<rparr>))"

definition store_clear ::
  "permission_scope \<Rightarrow> str option \<Rightarrow> path option \<Rightarrow> disk \<Rightarrow> store \<Rightarrow> unit store_result" where
  "store_clear scope session_id workdir dk st =
     (case scope of
        Once \<Rightarrow> (Inr (), dk, st)
      | Session \<Rightarrow>
          (case session_id of
             None \<Rightarrow> (Inr (), dk, st)
           | Some sid \<Rightarrow> (Inr (), dk, st\<lparr>st_sessions := assoc_del sid (st_sessions st)\<rparr>))
      | Project \<Rightarrow>
          (case workdir of
             None \<Rightarrow> (Inl NeedsWorkdir, dk, st)
           | Some wd \<Rightarrow>
               let st1 = refresh_project dk wd st in
               (case map_of (st_projects st1) (encode_workdir wd) of
                  None \<Rightarrow> (Inr (), dk, st1)
                | Some v \<Rightarrow> persist_project wd default_view () dk st1))
      | Global \<Rightarrow> persist_global default_view () dk (refresh_global dk st))"

section \<open>Listing\<close>

definition store_list ::
  "permission_scope \<Rightarrow> str option \<Rightarrow> path option \<Rightarrow> rule_effect \<Rightarrow> disk \<Rightarrow> store
    \<Rightarrow> str list \<times> store" where
  "store_list scope session_id workdir decision dk st =
     (case scope of
        Once \<Rightarrow> ([], st)
      | Session \<Rightarrow>
          (case Option.bind session_id (map_of (st_sessions st)) of
             None \<Rightarrow> ([], st)
           | Some r \<Rightarrow> (map pm_raw (select_session r decision), st))
      | Project \<Rightarrow>
          (case workdir of
             Some wd \<Rightarrow>
               let st1 = refresh_project dk wd st in
               (case map_of (st_projects st1) (encode_workdir wd) of
                  None \<Rightarrow> ([], st1)
                | Some v \<Rightarrow> (map pm_raw (select_list v decision), st1))
           | None \<Rightarrow>
               (concat (map (\<lambda>e. map pm_raw (select_list (snd e) decision)) (st_projects st)), st))
      | Global \<Rightarrow>
          let st1 = refresh_global dk st in
          (map pm_raw (select_list (st_global st1) decision), st1))"

definition store_list_paths ::
  "permission_scope \<Rightarrow> path option \<Rightarrow> disk \<Rightarrow> store \<Rightarrow> path list \<times> store" where
  "store_list_paths scope workdir dk st =
     (case scope of
        Project \<Rightarrow>
          (case workdir of
             None \<Rightarrow> ([], st)
           | Some wd \<Rightarrow>
               let st1 = refresh_project dk wd st in
               (case map_of (st_projects st1) (encode_workdir wd) of
                  None \<Rightarrow> ([], st1) | Some v \<Rightarrow> (vw_paths v, st1)))
      | Global \<Rightarrow> let st1 = refresh_global dk st in (vw_paths (st_global st1), st1)
      | _ \<Rightarrow> ([], st))"

section \<open>Path whitelists\<close>

definition add_path ::
  "permission_scope \<Rightarrow> path option \<Rightarrow> path \<Rightarrow> disk \<Rightarrow> store \<Rightarrow> unit store_result" where
  "add_path scope workdir p dk st =
     (case scope of
        Project \<Rightarrow>
          (case workdir of
             None \<Rightarrow> (Inl NeedsWorkdir, dk, st)
           | Some wd \<Rightarrow>
               let st1 = refresh_project dk wd st;
                   v = project_entry st1 (encode_workdir wd)
               in persist_project wd (v\<lparr>vw_paths := push_path p (vw_paths v)\<rparr>) () dk st1)
      | Global \<Rightarrow>
          let st1 = refresh_global dk st; g = st_global st1 in
          persist_global (g\<lparr>vw_paths := push_path p (vw_paths g)\<rparr>) () dk st1
      | _ \<Rightarrow> (Inl PathScopeUnsupported, dk, st))"

definition drop_path :: "path \<Rightarrow> view \<Rightarrow> bool \<times> view" where
  "drop_path p v =
     (let ps = filter (\<lambda>q. \<not> path_eq q p) (vw_paths v) in
      (length ps \<noteq> length (vw_paths v), v\<lparr>vw_paths := ps\<rparr>))"

definition remove_path ::
  "permission_scope \<Rightarrow> path option \<Rightarrow> path \<Rightarrow> disk \<Rightarrow> store \<Rightarrow> bool store_result" where
  "remove_path scope workdir p dk st =
     (case scope of
        Project \<Rightarrow>
          (case workdir of
             None \<Rightarrow> (Inl NeedsWorkdir, dk, st)
           | Some wd \<Rightarrow>
               let st1 = refresh_project dk wd st; enc = encode_workdir wd in
               (case map_of (st_projects st1) enc of
                  None \<Rightarrow> (Inr False, dk, st1)
                | Some v \<Rightarrow>
                    let (removed, v') = drop_path p v in
                    if removed then persist_project wd v' True dk st1
                    else (Inr False, dk, put_project enc v' st1)))
      | Global \<Rightarrow>
          let st1 = refresh_global dk st; (removed, v') = drop_path p (st_global st1) in
          if removed then persist_global v' True dk st1
          else (Inr False, dk, st1\<lparr>st_global := v'\<rparr>)
      | _ \<Rightarrow> (Inr False, dk, st))"

end
