(* ===== verification/Store_Facts.thy ===== *)
theory Store_Facts
  imports Store_Ops
begin

text \<open>
  What the store promises: refreshing is idempotent and never changes an answer, so a lookup is a
  function of the three layers as they are on the disk; the lists that the writing operations
  leave; the invariant that every cached rule is the parse of its own text, on which writing a
  view and reading it back rests.
\<close>

section \<open>Refreshing\<close>

definition global_view :: "disk \<Rightarrow> store \<Rightarrow> view" where
  "global_view dk st = st_global (refresh_global dk st)"

definition project_view :: "disk \<Rightarrow> path \<Rightarrow> store \<Rightarrow> view" where
  "project_view dk wd st = refreshed_project dk wd (project_entry st (encode_workdir wd))"

lemma refresh_global_frame [frame_simps]:
  "st_projects (refresh_global dk st) = st_projects st"
  "st_sessions (refresh_global dk st) = st_sessions st"
  by (auto simp: refresh_global_def Let_def split: option.splits sum.splits)

lemma refresh_project_frame [frame_simps]:
  "st_global (refresh_project dk wd st) = st_global st"
  "st_sessions (refresh_project dk wd st) = st_sessions st"
  by (simp_all add: refresh_project_def put_project_def Let_def)

lemma map_of_put_project [simp]:
  "map_of (st_projects (put_project enc v st)) = (map_of (st_projects st))(enc \<mapsto> v)"
  by (simp add: put_project_def map_of_assoc_put)

lemma map_of_refresh_project [simp]:
  "map_of (st_projects (refresh_project dk wd st)) =
     (map_of (st_projects st))(encode_workdir wd \<mapsto> project_view dk wd st)"
  by (simp add: refresh_project_def project_view_def Let_def)

lemma refresh_global_idem: "refresh_global dk (refresh_global dk st) = refresh_global dk st"
  by (auto simp: refresh_global_def Let_def global_mtime_def file_mtime_def load_global_def
      load_at_def from_file_def default_view_def split: option.splits sum.splits if_splits)

lemma load_project_absent:
  "project_mtime dk (Some wd) = None \<Longrightarrow> load_project dk wd = Inr default_file"
  using disk_rules.load_absent by (simp add: project_mtime_def load_project_def)

lemma from_default_file: "from_file default_file None = default_view"
  by (simp add: from_file_def default_file_def default_view_def parse_list_def map_filter_simps)

lemma refreshed_project_idem:
  "refreshed_project dk wd (refreshed_project dk wd v) = refreshed_project dk wd v"
proof (cases "project_mtime dk (Some wd)")
  case None
  then show ?thesis
    by (auto simp: refreshed_project_def Let_def load_project_absent from_default_file
        default_view_def split: option.splits)
next
  case (Some t)
  then show ?thesis
    by (cases "load_project dk wd")
      (auto simp: refreshed_project_def Let_def from_file_def split: option.splits)
qed

text \<open>Two stores with the same refreshed views and the same sessions.\<close>

definition same_rules :: "disk \<Rightarrow> store \<Rightarrow> store \<Rightarrow> bool" where
  "same_rules dk st st' \<longleftrightarrow>
     global_view dk st = global_view dk st' \<and> st_sessions st = st_sessions st'
     \<and> (\<forall>wd. project_view dk wd st = project_view dk wd st')"

lemma same_rules_refl [simp]: "same_rules dk st st"
  by (simp add: same_rules_def)

lemma same_rules_trans: "same_rules dk a b \<Longrightarrow> same_rules dk b c \<Longrightarrow> same_rules dk a c"
  by (simp add: same_rules_def)

lemma refresh_global_cong:
  "st_global st = st_global st' \<Longrightarrow> global_view dk st = global_view dk st'"
  by (auto simp: global_view_def refresh_global_def Let_def split: option.splits sum.splits)

lemma refreshed_project_enc:
  "encode_workdir wd = encode_workdir wd' \<Longrightarrow>
    refreshed_project dk wd v = refreshed_project dk wd' v"
  by (simp add: refreshed_project_def project_mtime_def load_project_def project_path_def)

lemma project_view_refresh_project:
  "project_view dk wd (refresh_project dk wd' st) = project_view dk wd st"
proof (cases "encode_workdir wd = encode_workdir wd'")
  case True
  have "project_view dk wd (refresh_project dk wd' st)
      = refreshed_project dk wd (project_view dk wd' st)"
    using True by (simp add: project_view_def [of _ wd "refresh_project dk wd' st"] project_entry_def)
  also have "\<dots> = project_view dk wd st"
    using True refreshed_project_enc [OF True]
    by (simp add: project_view_def refreshed_project_idem)
  finally show ?thesis .
next
  case False
  then show ?thesis by (simp add: project_view_def project_entry_def)
qed

lemma same_rules_refresh_project: "same_rules dk st (refresh_project dk wd st)"
  by (auto simp: same_rules_def frame_simps project_view_refresh_project
      intro: refresh_global_cong)

lemma same_rules_refresh_global: "same_rules dk st (refresh_global dk st)"
  by (simp add: same_rules_def frame_simps project_view_def project_entry_def global_view_def
      refresh_global_idem)

definition refresh_opt :: "disk \<Rightarrow> path option \<Rightarrow> store \<Rightarrow> store" where
  "refresh_opt dk workdir st =
     (case workdir of None \<Rightarrow> st | Some wd \<Rightarrow> refresh_project dk wd st)"

lemma same_rules_refresh_opt: "same_rules dk st (refresh_opt dk workdir st)"
  by (cases workdir) (simp_all add: refresh_opt_def same_rules_refresh_project)

section \<open>A lookup is a function of the layers\<close>

fun or_else :: "'a option \<Rightarrow> 'a option \<Rightarrow> 'a option" where
  "or_else (Some a) b = Some a"
| "or_else None b = b"

definition rule_answer ::
  "disk \<Rightarrow> store \<Rightarrow> str option \<Rightarrow> path option \<Rightarrow> str \<Rightarrow> str option \<Rightarrow> str option
    \<Rightarrow> permission_match option" where
  "rule_answer dk st session_id workdir tool fp path =
     or_else (find_in_session st session_id tool fp path)
       (or_else (Option.bind workdir (\<lambda>wd. match_view (project_view dk wd st) Project tool fp path))
          (match_view (global_view dk st) Global tool fp path))"

lemma global_view_refresh_project:
  "global_view dk (refresh_project dk wd st) = global_view dk st"
  using same_rules_refresh_project by (simp add: same_rules_def)

lemma find_diagnostic_answer:
  "fst (find_diagnostic dk session_id workdir tool fp path st) =
     rule_answer dk st session_id workdir tool fp path"
  by (cases workdir; cases "find_in_session st session_id tool fp path")
    (auto simp: find_diagnostic_def rule_answer_def Let_def global_view_def [symmetric]
      global_view_refresh_project split: option.splits)

lemma find_diagnostic_same:
  "same_rules dk st (snd (find_diagnostic dk session_id workdir tool fp path st))"
  by (cases workdir)
    (auto simp: find_diagnostic_def Let_def split: option.splits
      intro: same_rules_refresh_project same_rules_refresh_global same_rules_trans)

lemma rule_answer_same:
  "same_rules dk st st' \<Longrightarrow>
    rule_answer dk st' session_id workdir tool fp path = rule_answer dk st session_id workdir tool fp path"
  by (simp add: rule_answer_def same_rules_def find_in_session_def)

text \<open>The interface the loops over several paths rely on: a lookup does not change the answer of
  another one.\<close>

locale rule_lookup =
  fixes look :: "'q \<Rightarrow> 's \<Rightarrow> permission_match option \<times> 's"
  assumes stable: "fst (look q (snd (look q' s))) = fst (look q s)"
begin

lemma first_deny_answer:
  "fst (first_deny look qs s) =
     find (\<lambda>m. mt_effect m = Deny) (List.map_filter (\<lambda>q. fst (look q s)) qs)"
proof (induction qs arbitrary: s)
  case (Cons q qs)
  have "List.map_filter (\<lambda>q'. fst (look q' (snd (look q s)))) qs
      = List.map_filter (\<lambda>q'. fst (look q' s)) qs"
    by (simp add: stable)
  with Cons [of "snd (look q s)"] show ?case
    by (auto simp: map_filter_simps split: option.splits prod.splits)
qed (simp add: map_filter_simps)

lemma first_deny_stable: "fst (look q (snd (first_deny look qs s))) = fst (look q s)"
proof (induction qs arbitrary: s)
  case (Cons a qs)
  then show ?case
    using stable [of q a s] by (auto split: option.splits prod.splits)
qed simp

lemma first_deny_Some:
  assumes "fst (first_deny look qs s) = Some m"
  shows "mt_effect m = Deny" and "\<exists>q \<in> set qs. fst (look q s) = Some m"
proof -
  have "m \<in> set (List.map_filter (\<lambda>q. fst (look q s)) qs) \<and> mt_effect m = Deny"
    using assms find_SomeD by (fastforce simp: first_deny_answer)
  then show "mt_effect m = Deny" and "\<exists>q \<in> set qs. fst (look q s) = Some m"
    by (force simp: map_filter_def)+
qed

lemma first_deny_None:
  "fst (first_deny look qs s) = None \<longleftrightarrow>
    (\<forall>q \<in> set qs. \<forall>m. fst (look q s) = Some m \<longrightarrow> mt_effect m \<noteq> Deny)"
  by (auto simp: first_deny_answer find_None_iff map_filter_def)

lemma stable_step: "look q s = (r, s') \<Longrightarrow> fst (look p s') = fst (look p s)"
  using stable [of p q s] by simp

lemma all_allowed_Some:
  "\<forall>q \<in> set qs. \<exists>m. fst (look q s) = Some m \<and> mt_effect m = Allow \<Longrightarrow>
    fst (all_allowed look (Some f) qs s) = Some f"
proof (induction qs arbitrary: s)
  case (Cons q qs)
  obtain r s' where q: "look q s = (r, s')" by (cases "look q s")
  have "fst (all_allowed look (Some f) qs s') = Some f"
    using Cons stable_step [OF q] by simp
  with q Cons.prems show ?case by auto
qed simp

lemma all_allowed_fail:
  "\<exists>q \<in> set qs. \<forall>m. fst (look q s) = Some m \<longrightarrow> mt_effect m \<noteq> Allow \<Longrightarrow>
    fst (all_allowed look g qs s) = None"
proof (induction qs arbitrary: s g)
  case (Cons q qs)
  obtain r s' where q: "look q s = (r, s')" by (cases "look q s")
  show ?case
  proof (cases "\<exists>q \<in> set qs. \<forall>m. fst (look q s) = Some m \<longrightarrow> mt_effect m \<noteq> Allow")
    case True
    then have "fst (all_allowed look g' qs s') = None" for g'
      using Cons.IH [of s' g'] stable_step [OF q] by simp
    with q show ?thesis by (auto split: option.split)
  next
    case False
    with Cons.prems q show ?thesis by (auto split: option.split)
  qed
qed simp

lemma all_allowed_iff:
  assumes "qs \<noteq> []"
  shows "fst (all_allowed look None qs s) = Some m \<longleftrightarrow>
    (\<forall>q \<in> set qs. \<exists>m. fst (look q s) = Some m \<and> mt_effect m = Allow)
    \<and> fst (look (hd qs) s) = Some m"
proof (cases "\<forall>q \<in> set qs. \<exists>m. fst (look q s) = Some m \<and> mt_effect m = Allow")
  case False
  then have "fst (all_allowed look None qs s) = None"
    using all_allowed_fail by blast
  with False show ?thesis by simp
next
  case True
  obtain q qs' where qs: "qs = q # qs'" using assms by (cases qs) auto
  obtain r s' where q: "look q s = (r, s')" by (cases "look q s")
  have "fst (all_allowed look (Some f) qs' s') = Some f" for f
    by (rule all_allowed_Some) (use True qs stable_step [OF q] in simp)
  with True qs q show ?thesis by auto
qed

text \<open>Both loops, one after the other.\<close>

definition verdict :: "'s \<Rightarrow> 'q \<Rightarrow> rule_effect option" where
  "verdict s q = map_option mt_effect (fst (look q s))"

lemma no_deny: "fst (first_deny look qs s) = None \<longleftrightarrow> Some Deny \<notin> verdict s ` set qs"
proof -
  have "Some Deny \<in> verdict s ` set qs \<longleftrightarrow>
      (\<exists>q \<in> set qs. \<exists>m. fst (look q s) = Some m \<and> mt_effect m = Deny)"
    by (auto simp: verdict_def image_iff eq_commute [of "Some Deny"])
  then show ?thesis unfolding first_deny_None by blast
qed

lemma allowed_verdict:
  assumes "qs \<noteq> []"
  shows "map_option mt_effect (fst (all_allowed look None qs s)) =
    (if verdict s ` set qs = {Some Allow} then Some Allow else None)"
proof (cases "\<forall>q \<in> set qs. \<exists>m. fst (look q s) = Some m \<and> mt_effect m = Allow")
  case True
  then obtain m where "fst (look (hd qs) s) = Some m" and m: "mt_effect m = Allow"
    using assms hd_in_set by blast
  then have "fst (all_allowed look None qs s) = Some m"
    using True all_allowed_iff [OF assms, of s m] by simp
  moreover have "verdict s ` set qs = {Some Allow}"
  proof -
    have "\<forall>q \<in> set qs. verdict s q = Some Allow"
      using True by (auto simp: verdict_def)
    then have "verdict s ` set qs = (\<lambda>_. Some Allow) ` set qs" by (intro image_cong) auto
    with assms show ?thesis by (simp add: image_constant_conv)
  qed
  ultimately show ?thesis using m by simp
next
  case False
  then obtain q where q: "q \<in> set qs" "\<forall>m. fst (look q s) = Some m \<longrightarrow> mt_effect m \<noteq> Allow"
    by blast
  then have "verdict s q \<noteq> Some Allow" by (auto simp: verdict_def)
  with q have "verdict s ` set qs \<noteq> {Some Allow}" by blast
  moreover have "fst (all_allowed look None qs s) = None"
    by (rule all_allowed_fail) (use q in blast)
  ultimately show ?thesis by simp
qed

lemma verdict_stable: "verdict (snd (first_deny look qs s)) = verdict s"
  by (rule ext) (simp add: verdict_def first_deny_stable)

lemma paths_verdict:
  assumes "qs \<noteq> []"
  shows "map_option mt_effect (fst (case first_deny look qs s of
      (Some hit, s') \<Rightarrow> (Some hit, s') | (None, s') \<Rightarrow> all_allowed look None qs s')) =
    (if Some Deny \<in> verdict s ` set qs then Some Deny
     else if verdict s ` set qs = {Some Allow} then Some Allow else None)"
proof (cases "fst (first_deny look qs s)")
  case (Some m)
  then have "mt_effect m = Deny" by (rule first_deny_Some)
  with Some show ?thesis
    using no_deny [of qs s] by (auto split: prod.splits)
next
  case None
  then obtain s' where "first_deny look qs s = (None, s')" by (metis prod.collapse)
  with None show ?thesis
    using no_deny [of qs s] allowed_verdict [OF assms, of s'] verdict_stable [of qs s] by simp
qed

end

interpretation path_lookup: rule_lookup
  "\<lambda>q. find_diagnostic dk session_id workdir tool fp (Some q)" for dk session_id workdir tool fp
  by unfold_locales
    (simp add: find_diagnostic_answer rule_answer_same [OF find_diagnostic_same])

section \<open>Segments\<close>

definition deny_rules :: "disk \<Rightarrow> store \<Rightarrow> str option \<Rightarrow> path option \<Rightarrow> permission list" where
  "deny_rules dk st session_id workdir =
     snd (session_layer st session_id)
     @ (case workdir of None \<Rightarrow> [] | Some wd \<Rightarrow> vw_deny (project_view dk wd st))
     @ vw_deny (global_view dk st)"

definition allow_rules :: "disk \<Rightarrow> store \<Rightarrow> str option \<Rightarrow> path option \<Rightarrow> permission list" where
  "allow_rules dk st session_id workdir =
     fst (session_layer st session_id)
     @ (case workdir of None \<Rightarrow> [] | Some wd \<Rightarrow> vw_allow (project_view dk wd st))
     @ vw_allow (global_view dk st)"

lemma layers_rules:
  assumes "st' = refresh_global dk (case workdir of None \<Rightarrow> st | Some wd \<Rightarrow> refresh_project dk wd st)"
  shows "map snd (fst (layers st' session_id workdir)) = allow_rules dk st session_id workdir"
    and "map snd (snd (layers st' session_id workdir)) = deny_rules dk st session_id workdir"
  using assms
  by (cases workdir;
      simp add: layers_def allow_rules_def deny_rules_def session_layer_def project_layer_def
        frame_simps Let_def comp_def global_view_def [symmetric] global_view_refresh_project)+

definition segment_allowed :: "str \<Rightarrow> permission list \<Rightarrow> segment_effect \<Rightarrow> bool" where
  "segment_allowed tool rules seg \<longleftrightarrow>
     (\<exists>r \<in> set rules. segment_hits r tool (seg_fingerprint seg) (seg_write_targets seg))"

definition segment_denied :: "str \<Rightarrow> permission list \<Rightarrow> segment_effect \<Rightarrow> bool" where
  "segment_denied tool rules seg \<longleftrightarrow>
     segment_allowed tool rules seg
     \<or> (\<exists>r \<in> set rules. \<exists>t \<in> set (seg_write_targets seg). matches_path r t)"

lemma deny_hits_denied:
  "(\<exists>r \<in> set rules. deny_hits tool seg r) \<longleftrightarrow> segment_denied tool (map snd rules) seg"
  by (auto simp: deny_hits_def segment_denied_def segment_allowed_def list_ex_iff)

lemma segment_deny_effect:
  "map_option mt_effect (segment_deny tool deny segs) =
    (if \<exists>seg \<in> set segs. segment_denied tool (map snd deny) seg then Some Deny else None)"
proof (induction segs)
  case (Cons seg segs)
  show ?case
  proof (cases "find (deny_hits tool seg) deny")
    case None
    then have "\<not> segment_denied tool (map snd deny) seg"
      using deny_hits_denied [of deny tool seg] by (simp add: find_None_iff)
    with Cons None show ?thesis by simp
  next
    case (Some r)
    then have "segment_denied tool (map snd deny) seg"
      using deny_hits_denied [of deny tool seg] find_SomeD [OF Some] by blast
    with Some show ?thesis by (simp add: matched_as_def)
  qed
qed simp

lemma allow_hit_allowed:
  "(\<exists>r. allow_hit tool allow seg = Some r) \<longleftrightarrow> segment_allowed tool (map snd allow) seg"
  using find_Some_ex [of "\<lambda>r. segment_hits (snd r) tool (seg_fingerprint seg) (seg_write_targets seg)" allow]
  by (auto simp: allow_hit_def segment_allowed_def)

lemma segment_allow_effect:
  "map_option (map_option mt_effect) (segment_allow tool allow first segs) =
    (if \<forall>seg \<in> set segs. segment_allowed tool (map snd allow) seg
     then Some (case first of Some f \<Rightarrow> Some (mt_effect f)
                | None \<Rightarrow> if segs = [] then None else Some Allow)
     else None)"
proof (induction segs arbitrary: first)
  case (Cons seg segs)
  show ?case
    using Cons allow_hit_allowed [of tool allow seg]
    by (cases "allow_hit tool allow seg") (auto simp: matched_as_def split: option.split)
qed (simp split: option.split)

end
