(* ===== verification/Store_Cache.thy ===== *)
theory Store_Cache
  imports Store_Facts
begin

text \<open>
  The cache of the store is transparent: an abstract store has no cache and reads every layer off
  the disk (\<open>disk_view\<close>); \<open>cache_inv\<close> relates the two, every operation and every write of
  another process keeps it, and under it a refreshed view is the one on the disk. Two things the
  code relies on are part of the step relation: a write succeeds, and a write of another process
  carries a later time than what was cached before it.
\<close>

section \<open>Well-formed views\<close>

definition view_wf :: "view \<Rightarrow> bool" where
  "view_wf v \<longleftrightarrow> list_all perm_wf (vw_allow v) \<and> list_all perm_wf (vw_deny v)"

lemma from_file_wf [simp]: "view_wf (from_file f m)"
  by (simp add: view_wf_def from_file_def parse_list_wf)

lemma default_view_wf [simp]: "view_wf default_view"
  by (simp add: view_wf_def default_view_def)

lemma vw_mtime_from_file [simp]: "vw_mtime (from_file f m) = m"
  by (simp add: from_file_def)

lemma vw_mtime_default [simp]: "vw_mtime default_view = None"
  by (simp add: default_view_def)

lemma from_to_file: "view_wf v \<Longrightarrow> from_file (to_file v) m = v\<lparr>vw_mtime := m\<rparr>"
  by (simp add: from_file_def to_file_def view_wf_def parse_list_raw)

lemma insert_rule_wf:
  "perm_wf p \<Longrightarrow> list_all perm_wf ps \<Longrightarrow> list_all perm_wf (insert_rule p ps)"
  by (simp add: insert_rule_def)

lemma drop_rule_wf: "list_all perm_wf ps \<Longrightarrow> list_all perm_wf (drop_rule s ps)"
  by (simp add: drop_rule_def list_all_iff)

lemma push_unique_wf: "perm_wf p \<Longrightarrow> view_wf v \<Longrightarrow> view_wf (push_unique e p v)"
  by (cases e) (simp_all add: push_unique_def update_list_def view_wf_def insert_rule_wf)

lemma remove_unique_wf: "view_wf v \<Longrightarrow> view_wf (snd (remove_unique e s v))"
  by (cases e) (simp_all add: remove_unique_def update_list_def view_wf_def drop_rule_wf Let_def)

lemma vw_paths_wf [simp]: "view_wf (v\<lparr>vw_paths := ps\<rparr>) = view_wf v"
  by (simp add: view_wf_def)

lemma vw_mtime_wf [simp]: "view_wf (v\<lparr>vw_mtime := m\<rparr>) = view_wf v"
  by (simp add: view_wf_def)

section \<open>One slot\<close>

definition entry_file :: "file_entry \<Rightarrow> permissions_file" where
  "entry_file e = (case fe_content e of None \<Rightarrow> default_file | Some f \<Rightarrow> f)"

definition disk_view :: "disk \<Rightarrow> slot \<Rightarrow> view" where
  "disk_view dk k =
     (case dk_files dk k of
        None \<Rightarrow> default_view
      | Some e \<Rightarrow> from_file (entry_file e) (Some (fe_mtime e)))"

definition slot_view :: "disk \<Rightarrow> slot \<Rightarrow> view \<Rightarrow> view" where
  "slot_view dk k v =
     (case dk_files dk k of
        None \<Rightarrow> if vw_mtime v \<noteq> None then default_view else v
      | Some e \<Rightarrow>
          (case vw_mtime v of
             Some t \<Rightarrow> if t < fe_mtime e \<and> dk_read_ok dk then disk_view dk k else v
           | None \<Rightarrow> if dk_read_ok dk then disk_view dk k else v))"

definition slot_inv :: "disk \<Rightarrow> slot \<Rightarrow> view \<Rightarrow> bool" where
  "slot_inv dk k v \<longleftrightarrow>
     view_wf v \<and>
     (case vw_mtime v of
        None \<Rightarrow> v = default_view
      | Some t \<Rightarrow> t \<le> dk_now dk \<and>
          (case dk_files dk k of
             None \<Rightarrow> True
           | Some e \<Rightarrow> t \<le> fe_mtime e \<and> (t = fe_mtime e \<longrightarrow> v = disk_view dk k)))"

definition disk_inv :: "disk \<Rightarrow> bool" where
  "disk_inv dk \<longleftrightarrow> dk_write_ok dk \<and> (\<forall>k e. dk_files dk k = Some e \<longrightarrow> fe_mtime e \<le> dk_now dk)"

lemma disk_view_wf [simp]: "view_wf (disk_view dk k)"
  by (simp add: disk_view_def split: option.split)

lemma disk_view_mtime [simp]: "vw_mtime (disk_view dk k) = file_mtime dk k"
  by (simp add: disk_view_def file_mtime_def from_file_def default_view_def split: option.split)

lemma load_at_some:
  "dk_files dk k = Some e \<Longrightarrow>
    load_at dk k = (if dk_read_ok dk then Inr (entry_file e) else Inl ReadFailed)"
  by (simp add: load_at_def entry_file_def)

lemma refreshed_project_slot:
  assumes "slot_inv dk (project_path wd) v"
  shows "refreshed_project dk wd v = slot_view dk (project_path wd) v"
proof (cases "dk_files dk (project_path wd)")
  case None
  then show ?thesis
    using assms load_project_absent [of dk wd]
    by (auto simp: refreshed_project_def slot_view_def project_mtime_def file_mtime_def slot_inv_def
        Let_def from_default_file split: option.splits)
next
  case (Some e)
  then show ?thesis
    by (auto simp: refreshed_project_def slot_view_def project_mtime_def file_mtime_def
        load_project_def load_at_some disk_view_def Let_def split: option.splits)
qed

lemma refresh_global_slot:
  "slot_inv dk GlobalFile (st_global st) \<Longrightarrow>
    refresh_global dk st = st\<lparr>st_global := slot_view dk GlobalFile (st_global st)\<rparr>"
  by (cases "dk_files dk GlobalFile")
    (auto simp: refresh_global_def slot_view_def global_mtime_def file_mtime_def load_global_def
      load_at_some disk_view_def Let_def split: option.splits)

text \<open>Under the invariant a refreshed view is the file.\<close>

lemma slot_view_disk:
  "slot_inv dk k v \<Longrightarrow> dk_read_ok dk \<Longrightarrow> slot_view dk k v = disk_view dk k"
  by (auto simp: slot_view_def slot_inv_def disk_view_def split: option.splits)

lemma slot_inv_disk: "disk_inv dk \<Longrightarrow> slot_inv dk k (disk_view dk k)"
  by (cases "dk_files dk k")
    (auto simp: slot_inv_def disk_inv_def file_mtime_def disk_view_def)

lemma slot_inv_default [simp]: "slot_inv dk k default_view"
  by (simp add: slot_inv_def default_view_def view_wf_def)

lemma slot_view_inv: "disk_inv dk \<Longrightarrow> slot_inv dk k v \<Longrightarrow> slot_inv dk k (slot_view dk k v)"
  by (auto simp: slot_view_def slot_inv_disk split: option.split)

section \<open>Writes\<close>

lemma slot_inv_saved:
  assumes "disk_inv dk" and "view_wf v" and "save_at dk k (to_file v) = (r, dk')"
  shows "slot_inv dk' k (v\<lparr>vw_mtime := file_mtime dk' k\<rparr>)"
  using assms
  by (auto simp: save_at_def disk_inv_def slot_inv_def file_mtime_def disk_view_def entry_file_def
      from_to_file)

lemma slot_inv_other:
  assumes "slot_inv dk k' v" and "save_at dk k f = (r, dk')" and "k' \<noteq> k"
  shows "slot_inv dk' k' v"
  using assms
  by (auto simp: save_at_def slot_inv_def disk_view_def split: if_splits option.splits)

lemma disk_inv_saved: "disk_inv dk \<Longrightarrow> save_at dk k f = (r, dk') \<Longrightarrow> disk_inv dk'"
  by (auto simp: save_at_def disk_inv_def file_mtime_def split: if_splits)

definition tick :: "disk \<Rightarrow> disk" where
  "tick dk = dk\<lparr>dk_now := Suc (dk_now dk)\<rparr>"

definition external_delete :: "slot \<Rightarrow> disk \<Rightarrow> disk" where
  "external_delete k dk = dk\<lparr>dk_files := (dk_files dk)(k := None)\<rparr>"

lemma disk_inv_external:
  "disk_inv dk \<Longrightarrow> disk_inv (external_write k c (tick dk))"
  "disk_inv dk \<Longrightarrow> disk_inv (external_delete k dk)"
  "disk_inv dk \<Longrightarrow> disk_inv (dk\<lparr>dk_read_ok := b\<rparr>)"
  by (auto simp: disk_inv_def external_write_def external_delete_def tick_def file_mtime_def
      le_Suc_eq)

lemma slot_inv_external:
  "slot_inv dk k' v \<Longrightarrow> slot_inv (external_write k c (tick dk)) k' v"
  "slot_inv dk k' v \<Longrightarrow> slot_inv (external_delete k dk) k' v"
  "slot_inv dk k' v \<Longrightarrow> slot_inv (dk\<lparr>dk_read_ok := b\<rparr>) k' v"
  by (auto simp: slot_inv_def external_write_def external_delete_def tick_def disk_view_def
      split: option.splits)

section \<open>The whole store\<close>

definition cache_inv :: "disk \<Rightarrow> store \<Rightarrow> bool" where
  "cache_inv dk st \<longleftrightarrow>
     disk_inv dk \<and> slot_inv dk GlobalFile (st_global st)
     \<and> (\<forall>enc v. map_of (st_projects st) enc = Some v \<longrightarrow> slot_inv dk (ProjectFile enc) v)"

lemma cache_inv_entry:
  "cache_inv dk st \<Longrightarrow> slot_inv dk (ProjectFile enc) (project_entry st enc)"
  by (auto simp: cache_inv_def project_entry_def split: option.split)

lemma cache_inv_project_view:
  "cache_inv dk st \<Longrightarrow> project_view dk wd st
    = slot_view dk (project_path wd) (project_entry st (encode_workdir wd))"
  using cache_inv_entry [of dk st "encode_workdir wd"] refreshed_project_slot
  by (simp add: project_view_def project_path_def)

lemma cache_inv_project_slot:
  assumes "cache_inv dk st"
  shows "slot_inv dk (project_path wd) (project_view dk wd st)"
  using assms cache_inv_entry [OF assms, of "encode_workdir wd"]
  by (simp add: cache_inv_project_view cache_inv_def slot_view_inv project_path_def)

lemma cache_inv_refresh_project [wf_intros]:
  assumes "cache_inv dk st" shows "cache_inv dk (refresh_project dk wd st)"
  using assms cache_inv_project_slot [OF assms, of wd]
  by (auto simp: cache_inv_def frame_simps project_path_def split: if_splits)

lemma cache_inv_refresh_global [wf_intros]:
  "cache_inv dk st \<Longrightarrow> cache_inv dk (refresh_global dk st)"
  by (auto simp: cache_inv_def refresh_global_slot slot_view_inv)

lemma cache_inv_put_sessions [simp]: "cache_inv dk (st\<lparr>st_sessions := s\<rparr>) = cache_inv dk st"
  by (simp add: cache_inv_def)

lemma cache_inv_put_project:
  "cache_inv dk st \<Longrightarrow> slot_inv dk (ProjectFile enc) v \<Longrightarrow> cache_inv dk (put_project enc v st)"
  by (auto simp: cache_inv_def put_project_def map_of_assoc_put)

lemma cache_inv_persist_project:
  assumes "cache_inv dk st" and "view_wf v" and "persist_project wd v res dk st = (r, dk', st')"
  shows "cache_inv dk' st'"
proof -
  have ok: "dk_write_ok dk" using assms by (simp add: cache_inv_def disk_inv_def)
  obtain r0 where sv: "save_at dk (project_path wd) (to_file v) = (r0, dk')"
    using assms(3) ok
    by (auto simp: persist_project_def save_project_def Let_def split: prod.splits sum.splits)
  have st': "st' = put_project (encode_workdir wd) (v\<lparr>vw_mtime := project_mtime dk' (Some wd)\<rparr>)
      (put_project (encode_workdir wd) v st)"
    using assms(3) ok
    by (auto simp: persist_project_def save_project_def save_at_def Let_def)
  have "slot_inv dk' (project_path wd) (v\<lparr>vw_mtime := file_mtime dk' (project_path wd)\<rparr>)"
    using slot_inv_saved [OF _ assms(2) sv] assms(1) by (simp add: cache_inv_def)
  then show ?thesis
    using assms(1) sv disk_inv_saved [OF _ sv]
    by (auto simp: st' cache_inv_def put_project_def map_of_assoc_put project_mtime_def
        project_path_def dest: slot_inv_other [OF _ sv [unfolded project_path_def]] split: if_splits)
qed

lemma cache_inv_persist_global:
  assumes "cache_inv dk st" and "view_wf v" and "persist_global v res dk st = (r, dk', st')"
  shows "cache_inv dk' st'"
proof -
  have ok: "dk_write_ok dk" using assms by (simp add: cache_inv_def disk_inv_def)
  obtain r0 where sv: "save_at dk GlobalFile (to_file v) = (r0, dk')"
    using assms(3) ok
    by (auto simp: persist_global_def save_global_def Let_def split: prod.splits sum.splits)
  have st': "st' = st\<lparr>st_global := v\<lparr>vw_mtime := file_mtime dk' GlobalFile\<rparr>\<rparr>"
    using assms(3) ok
    by (auto simp: persist_global_def save_global_def save_at_def global_mtime_def Let_def)
  show ?thesis
    using assms(1,2) sv disk_inv_saved [OF _ sv] slot_inv_saved [OF _ assms(2) sv]
    by (auto simp: st' cache_inv_def dest: slot_inv_other [OF _ sv])
qed

section \<open>Reading operations only refresh\<close>

inductive refreshes :: "disk \<Rightarrow> store \<Rightarrow> store \<Rightarrow> bool" for dk where
  none: "refreshes dk st st"
| global: "refreshes dk st st' \<Longrightarrow> refreshes dk st (refresh_global dk st')"
| project: "refreshes dk st st' \<Longrightarrow> refreshes dk st (refresh_project dk wd st')"

declare refreshes.intros [intro]

lemma refreshes_trans: "refreshes dk b c \<Longrightarrow> refreshes dk a b \<Longrightarrow> refreshes dk a c"
  by (induction rule: refreshes.induct) auto

lemma refreshes_inv: "refreshes dk st st' \<Longrightarrow> cache_inv dk st \<Longrightarrow> cache_inv dk st'"
  by (induction rule: refreshes.induct) (auto intro: wf_intros)

lemma refreshes_same: "refreshes dk st st' \<Longrightarrow> same_rules dk st st'"
  by (induction rule: refreshes.induct)
    (auto intro: same_rules_trans same_rules_refresh_global same_rules_refresh_project)

lemma refreshes_find: "refreshes dk st (snd (find_diagnostic dk sid wd tool fp p st))"
  by (auto simp: find_diagnostic_def Let_def split: option.splits)

lemma refreshes_first_deny:
  "(\<And>q s. refreshes dk s (snd (look q s))) \<Longrightarrow> refreshes dk st (snd (first_deny look qs st))"
proof (induction qs arbitrary: st)
  case (Cons q qs)
  obtain r s where q: "look q st = (r, s)" by (cases "look q st")
  have st: "refreshes dk st s" using Cons.prems [of st q] q by simp
  have "refreshes dk st (snd (first_deny look qs s))"
    using Cons.IH [OF Cons.prems] st by (rule refreshes_trans)
  with q st show ?case by (auto split: option.splits)
qed auto

lemma refreshes_all_allowed:
  "(\<And>q s. refreshes dk s (snd (look q s))) \<Longrightarrow> refreshes dk st (snd (all_allowed look f qs st))"
proof (induction qs arbitrary: st f)
  case (Cons q qs)
  obtain r s where q: "look q st = (r, s)" by (cases "look q st")
  have st: "refreshes dk st s" using Cons.prems [of st q] q by simp
  have "refreshes dk st (snd (all_allowed look g qs s))" for g
    using Cons.IH [OF Cons.prems] st by (rule refreshes_trans)
  with q st show ?case by (auto split: option.splits)
qed auto

lemma refreshes_paths: "refreshes dk st (snd (find_for_paths_diagnostic dk sid wd tool fp ps st))"
proof -
  let ?look = "\<lambda>q. find_diagnostic dk sid wd tool fp (Some q)"
  have d: "refreshes dk st (snd (first_deny ?look ps st))"
    by (rule refreshes_first_deny) (rule refreshes_find)
  have a: "refreshes dk s (snd (all_allowed ?look None ps s))" for s
    by (rule refreshes_all_allowed) (rule refreshes_find)
  obtain r s where rs: "first_deny ?look ps st = (r, s)" by (cases "first_deny ?look ps st")
  have st: "refreshes dk st s" using d rs by simp
  have "refreshes dk st (snd (all_allowed ?look None ps s))"
    using a st by (rule refreshes_trans)
  with st show ?thesis
    by (auto simp: find_for_paths_diagnostic_def rs refreshes_find Let_def split: option.split)
qed

lemma refreshes_segments:
  "refreshes dk st (snd (find_for_segments_diagnostic dk sid wd tool segs st))"
  by (auto simp: find_for_segments_diagnostic_def Let_def split: option.splits prod.splits)

lemma refreshes_allows: "refreshes dk st (snd (allows_path_diagnostic dk sid wd p st))"
  by (auto simp: allows_path_diagnostic_def Let_def split: option.splits prod.splits)

lemma refreshes_lists:
  "refreshes dk st (snd (effective_paths dk wd st))"
  "refreshes dk st (snd (store_list scope sid wd e dk st))"
  "refreshes dk st (snd (store_list_paths scope wd dk st))"
  by (auto simp: effective_paths_def store_list_def store_list_paths_def Let_def
      split: option.splits permission_scope.splits)

end
