(* ===== verification/Store_Laws.thy ===== *)
theory Store_Laws
  imports Store_Cache
begin

text \<open>
  Laws of the store's operations and the theorems about it: reachable states and the transparency
  of the cache, the verdict on several paths and on several segments, what \<open>add\<close> and \<open>remove\<close>
  leave in the lists and on the disk, and where a rule outlives the error that reported it unsaved.
\<close>

section \<open>Every operation keeps the cache invariant\<close>

lemmas persist_inv = cache_inv_persist_project [rotated 2] cache_inv_persist_global [rotated 2]

lemma cache_inv_add:
  assumes "cache_inv dk st" and "store_add scope sid wd e pat dk st = (r, dk', st')"
  shows "cache_inv dk' st'"
proof (cases "parse_permission pat")
  case (Inr p)
  have wf: "perm_wf p" using Inr by (rule parse_permission_wf)
  show ?thesis
  proof (cases scope)
    case Project
    show ?thesis
    proof (cases wd)
      case (Some w)
      have inv: "cache_inv dk (refresh_project dk w st)"
        using assms(1) by (rule cache_inv_refresh_project)
      have "view_wf (push_unique e p (project_entry (refresh_project dk w st) (encode_workdir w)))"
        using cache_inv_entry [OF inv] wf by (simp add: push_unique_wf slot_inv_def)
      with inv show ?thesis
        using assms(2) Inr Project Some by (auto simp: store_add_def Let_def intro: persist_inv)
    qed (use assms Inr Project in \<open>simp add: store_add_def\<close>)
  next
    case Global
    have inv: "cache_inv dk (refresh_global dk st)"
      using assms(1) by (rule cache_inv_refresh_global)
    then have "view_wf (push_unique e p (st_global (refresh_global dk st)))"
      using wf by (simp add: push_unique_wf slot_inv_def cache_inv_def)
    with inv show ?thesis
      using assms(2) Inr Global by (auto simp: store_add_def Let_def intro: persist_inv)
  qed (use assms Inr in \<open>auto simp: store_add_def Let_def split: option.splits\<close>)
qed (use assms in \<open>simp add: store_add_def\<close>)

lemma remove_unique_False: "remove_unique e s v = (False, v') \<Longrightarrow> v' = v"
  by (cases e)
    (auto simp: remove_unique_def update_list_def select_list_def drop_rule_def Let_def
      length_filter_same)

lemma drop_path_False: "drop_path p v = (False, v') \<Longrightarrow> v' = v"
  by (auto simp: drop_path_def length_filter_same Let_def)

lemma drop_path_wf: "view_wf v \<Longrightarrow> view_wf (snd (drop_path p v))"
  by (simp add: drop_path_def Let_def)

lemma project_entry_refreshed:
  "map_of (st_projects (refresh_project dk w st)) (encode_workdir w) = Some (project_view dk w st)"
  by simp

lemma put_project_same:
  assumes "cache_inv dk st" and "map_of (st_projects st) enc = Some v"
  shows "cache_inv dk (put_project enc v st)"
  using assms cache_inv_put_project by (simp add: cache_inv_def)

lemma cache_inv_wf:
  assumes "cache_inv dk st"
  shows "view_wf (st_global (refresh_global dk st))" and "view_wf (project_view dk w st)"
  using assms cache_inv_refresh_global [OF assms] cache_inv_project_slot [OF assms, of w]
  by (simp_all add: cache_inv_def slot_inv_def)

lemma cache_inv_remove:
  assumes inv: "cache_inv dk st" and r: "store_remove scope sid wd e pat dk st = (r, dk', st')"
  shows "cache_inv dk' st'"
proof (cases scope)
  case Project
  show ?thesis
  proof (cases wd)
    case (Some w)
    have inv1: "cache_inv dk (refresh_project dk w st)"
      using inv by (rule cache_inv_refresh_project)
    obtain b v' where b: "remove_unique e pat (project_view dk w st) = (b, v')" by fastforce
    have "view_wf v'"
      using remove_unique_wf [OF cache_inv_wf(2) [OF inv, of w], of e pat] by (simp add: b)
    with inv1 b show ?thesis
      using r Project Some put_project_same [OF inv1 project_entry_refreshed]
      by (cases b)
        (auto simp: store_remove_def Let_def dest: remove_unique_False
          intro: persist_inv)
  qed (use r inv Project in \<open>simp add: store_remove_def\<close>)
next
  case Global
  have inv1: "cache_inv dk (refresh_global dk st)"
    using inv by (rule cache_inv_refresh_global)
  obtain b v' where b: "remove_unique e pat (st_global (refresh_global dk st)) = (b, v')"
    by fastforce
  have "view_wf v'"
    using remove_unique_wf [OF cache_inv_wf(1) [OF inv], of e pat] by (simp add: b)
  with inv1 b show ?thesis
    using r Global
    by (cases b)
      (auto simp: store_remove_def Let_def dest: remove_unique_False intro: persist_inv)
qed (use inv r in \<open>auto simp: store_remove_def Let_def split: option.splits\<close>)

lemma cache_inv_clear:
  assumes inv: "cache_inv dk st" and r: "store_clear scope sid wd dk st = (r, dk', st')"
  shows "cache_inv dk' st'"
proof -
  have "cache_inv dk (refresh_global dk st)" and "\<And>w. cache_inv dk (refresh_project dk w st)"
    using inv by (rule cache_inv_refresh_global, rule cache_inv_refresh_project)
  then show ?thesis
    using r inv
    by (cases scope; cases wd; cases sid)
      (auto simp: store_clear_def Let_def
        intro: persist_inv)
qed

lemma cache_inv_add_path:
  assumes inv: "cache_inv dk st" and r: "add_path scope wd p dk st = (r, dk', st')"
  shows "cache_inv dk' st'"
proof -
  have i: "cache_inv dk (refresh_global dk st)" "\<And>w. cache_inv dk (refresh_project dk w st)"
    using inv by (rule cache_inv_refresh_global, rule cache_inv_refresh_project)
  have "view_wf (project_entry (refresh_project dk w st) (encode_workdir w))" for w
    using cache_inv_wf(2) [OF inv] by (simp add: project_entry_def)
  with i show ?thesis
    using r inv cache_inv_wf(1) [OF inv]
    by (cases scope; cases wd)
      (auto simp: add_path_def Let_def intro: persist_inv)
qed

lemma cache_inv_remove_path:
  assumes inv: "cache_inv dk st" and r: "remove_path scope wd p dk st = (r, dk', st')"
  shows "cache_inv dk' st'"
proof (cases scope)
  case Project
  show ?thesis
  proof (cases wd)
    case (Some w)
    have inv1: "cache_inv dk (refresh_project dk w st)"
      using inv by (rule cache_inv_refresh_project)
    obtain b v' where b: "drop_path p (project_view dk w st) = (b, v')" by fastforce
    have "view_wf v'"
      using drop_path_wf [OF cache_inv_wf(2) [OF inv, of w], of p] by (simp add: b)
    with inv1 b show ?thesis
      using r Project Some put_project_same [OF inv1 project_entry_refreshed]
      by (cases b)
        (auto simp: remove_path_def Let_def dest: drop_path_False intro: persist_inv)
  qed (use r inv Project in \<open>simp add: remove_path_def\<close>)
next
  case Global
  have inv1: "cache_inv dk (refresh_global dk st)"
    using inv by (rule cache_inv_refresh_global)
  obtain b v' where b: "drop_path p (st_global (refresh_global dk st)) = (b, v')" by fastforce
  have "view_wf v'"
    using drop_path_wf [OF cache_inv_wf(1) [OF inv], of p] by (simp add: b)
  with inv1 b show ?thesis
    using r Global
    by (cases b)
      (auto simp: remove_path_def Let_def dest: drop_path_False intro: persist_inv)
qed (use inv r in \<open>auto simp: remove_path_def\<close>)

lemma cache_inv_open:
  assumes "disk_inv dk" and "open_store dk = Inr st" shows "cache_inv dk st"
proof -
  have "st_global st = disk_view dk GlobalFile"
    using assms(2)
    by (cases "dk_files dk GlobalFile")
      (auto simp: open_store_def load_global_def load_at_def disk_view_def global_mtime_def
        file_mtime_def from_default_file entry_file_def split: if_splits)
  moreover have "st_projects st = []"
    using assms(2) by (auto simp: open_store_def split: sum.splits)
  ultimately show ?thesis using assms(1) slot_inv_disk by (simp add: cache_inv_def)
qed

lemma cache_inv_external:
  "cache_inv dk st \<Longrightarrow> cache_inv (external_write k c (tick dk)) st"
  "cache_inv dk st \<Longrightarrow> cache_inv (external_delete k dk) st"
  "cache_inv dk st \<Longrightarrow> cache_inv (dk\<lparr>dk_read_ok := b\<rparr>) st"
  by (auto simp: cache_inv_def disk_inv_external slot_inv_external)

section \<open>Reachable states\<close>

text \<open>What one process does with its store, between writes and deletions of other processes,
  with reads failing at any time.\<close>

inductive store_run :: "disk \<Rightarrow> store \<Rightarrow> bool" where
  open_ok: "disk_inv dk \<Longrightarrow> open_store dk = Inr st \<Longrightarrow> store_run dk st"
| run_add: "store_run dk st \<Longrightarrow> store_add scope sid wd e pat dk st = (r, dk', st') \<Longrightarrow>
    store_run dk' st'"
| run_remove: "store_run dk st \<Longrightarrow> store_remove scope sid wd e pat dk st = (b, dk', st') \<Longrightarrow>
    store_run dk' st'"
| run_clear: "store_run dk st \<Longrightarrow> store_clear scope sid wd dk st = (r, dk', st') \<Longrightarrow>
    store_run dk' st'"
| run_add_path: "store_run dk st \<Longrightarrow> add_path scope wd p dk st = (r, dk', st') \<Longrightarrow>
    store_run dk' st'"
| run_remove_path: "store_run dk st \<Longrightarrow> remove_path scope wd p dk st = (b, dk', st') \<Longrightarrow>
    store_run dk' st'"
| run_read: "store_run dk st \<Longrightarrow> refreshes dk st st' \<Longrightarrow> store_run dk st'"
| run_load_session: "store_run dk st \<Longrightarrow> store_run dk (load_session_view sid' allow deny st)"
| run_ensure_session: "store_run dk st \<Longrightarrow> store_run dk (ensure_session_view sid' st)"
| run_external: "store_run dk st \<Longrightarrow> store_run (external_write k c (tick dk)) st"
| run_delete: "store_run dk st \<Longrightarrow> store_run (external_delete k dk) st"
| run_readable: "store_run dk st \<Longrightarrow> store_run (dk\<lparr>dk_read_ok := ok\<rparr>) st"

lemma store_run_inv: "store_run dk st \<Longrightarrow> cache_inv dk st"
proof (induction rule: store_run.induct)
  case (open_ok dk st) then show ?case by (rule cache_inv_open)
next
  case run_add then show ?case by (blast intro: cache_inv_add)
next
  case run_remove then show ?case by (blast intro: cache_inv_remove)
next
  case run_clear then show ?case by (blast intro: cache_inv_clear)
next
  case run_add_path then show ?case by (blast intro: cache_inv_add_path)
next
  case run_remove_path then show ?case by (blast intro: cache_inv_remove_path)
next
  case run_read then show ?case by (blast intro: refreshes_inv)
qed (simp_all add: load_session_view_def ensure_session_view_def cache_inv_external)

lemma store_run_views:
  assumes "store_run dk st" and "dk_read_ok dk"
  shows "global_view dk st = disk_view dk GlobalFile"
    and "project_view dk wd st = disk_view dk (project_path wd)"
  using store_run_inv [OF assms(1)] assms(2)
    cache_inv_entry [OF store_run_inv [OF assms(1)], of "encode_workdir wd"]
  by (simp_all add: global_view_def refresh_global_slot slot_view_disk cache_inv_project_view
      cache_inv_def project_path_def)

text \<open>C8. The cache is transparent while the disk works. In every state one process can reach by steps
  whose own writes of rules files succeeded, whatever other processes wrote or deleted meanwhile,
  as long as every write of a file gives it a new time and the files can be read: a lookup answers
  as if the store had no cache: the session's own rules first, then the project's file, then the
  global file, each read off the disk, and inside one layer a deny rule before an allow rule.\<close>

theorem lookup_reads_the_disk:
  assumes "store_run dk st" and "dk_read_ok dk"
  shows "fst (find_diagnostic dk session_id workdir tool fp path st) =
    or_else (find_in_session st session_id tool fp path)
      (or_else (Option.bind workdir (\<lambda>wd.
                  match_view (disk_view dk (project_path wd)) Project tool fp path))
        (match_view (disk_view dk GlobalFile) Global tool fp path))"
  using store_run_views [OF assms] by (simp add: find_diagnostic_answer rule_answer_def)

section \<open>Several paths, several segments\<close>

text \<open>The verdict on a call with several paths, in terms of the lookup of each path alone: Deny
  as soon as one of them is denied; Allow exactly when every one of them is allowed; nothing
  otherwise.\<close>

theorem find_for_paths_verdict:
  assumes "paths \<noteq> []"
  shows "map_option mt_effect
      (fst (find_for_paths_diagnostic dk session_id workdir tool fp paths st)) =
    (let verdicts = map (\<lambda>p. fst (find_rule dk session_id workdir tool fp (Some p) st)) paths in
     if Some Deny \<in> set verdicts then Some Deny
     else if set verdicts = {Some Allow} then Some Allow else None)"
  using path_lookup.paths_verdict [OF assms, of dk session_id workdir tool fp st] assms
  by (simp add: find_for_paths_diagnostic_def find_rule_def path_lookup.verdict_def Let_def)

lemma find_for_segments_verdict_lemma:
  "map_option mt_effect
      (fst (find_for_segments_diagnostic dk session_id workdir tool segments st)) =
    (if \<exists>seg \<in> set segments. segment_denied tool (deny_rules dk st session_id workdir) seg
     then Some Deny
     else if (\<exists>seg \<in> set segments. \<not> seg_is_readonly seg)
       \<and> (\<forall>seg \<in> set segments. seg_is_readonly seg
             \<or> segment_allowed tool (allow_rules dk st session_id workdir) seg)
     then Some Allow else None)"
proof (cases "segments = []")
  case False
  define st' where "st' = refresh_global dk
    (case workdir of None \<Rightarrow> st | Some wd \<Rightarrow> refresh_project dk wd st)"
  obtain allow deny where l: "layers st' session_id workdir = (allow, deny)" by fastforce
  have rules: "map snd allow = allow_rules dk st session_id workdir"
    "map snd deny = deny_rules dk st session_id workdir"
    using layers_rules [OF st'_def, of session_id] by (simp_all add: l)
  let ?w = "filter (\<lambda>s. \<not> seg_is_readonly s) segments"
  have "fst (find_for_segments_diagnostic dk session_id workdir tool segments st) =
      (case segment_deny tool deny segments of
         Some m \<Rightarrow> Some m
       | None \<Rightarrow> (case segment_allow tool allow None ?w of None \<Rightarrow> None | Some first \<Rightarrow> first))"
    using False l
    by (auto simp: find_for_segments_diagnostic_def Let_def st'_def [symmetric] split: option.split)
  moreover note segment_deny_effect [of tool deny segments]
    segment_allow_effect [of tool allow None ?w]
  ultimately show ?thesis
    by (cases "segment_deny tool deny segments"; cases "segment_allow tool allow None ?w")
      (auto simp: rules filter_empty_conv split: if_splits)
qed (simp add: find_for_segments_diagnostic_def)

text \<open>C23. The verdict on a shell command by segments, with the rules of all layers together: Deny
  exactly when some segment, a read-only one too, is hit by a deny rule or writes to a path a deny
  rule covers; otherwise Allow exactly when there is a writing segment and every writing segment
  is hit by an allow rule; otherwise nothing, so that a command of read-only segments is left to
  the read-only short cut.\<close>

theorem find_for_segments_verdict:
  "map_option mt_effect
      (fst (find_for_segments_diagnostic dk session_id workdir tool segments st)) =
    (if \<exists>seg \<in> set segments. segment_denied tool (deny_rules dk st session_id workdir) seg
     then Some Deny
     else if (\<exists>seg \<in> set segments. \<not> seg_is_readonly seg)
       \<and> (\<forall>seg \<in> set segments. seg_is_readonly seg
             \<or> segment_allowed tool (allow_rules dk st session_id workdir) seg)
     then Some Allow else None)"
  by (rule find_for_segments_verdict_lemma)

section \<open>What writing operations leave\<close>

text \<open>The view a scope is kept in, as it is on the disk.\<close>

fun scope_slot :: "permission_scope \<Rightarrow> path option \<Rightarrow> slot option" where
  "scope_slot Project (Some wd) = Some (project_path wd)"
| "scope_slot Global wd = Some GlobalFile"
| "scope_slot _ _ = None"

lemma store_list_slot:
  assumes "store_run dk st" and "dk_read_ok dk" and "scope_slot scope wd = Some k"
  shows "fst (store_list scope sid wd e dk st) = map pm_raw (select_list (disk_view dk k) e)"
  using assms store_run_views [OF assms(1,2)]
  by (cases "(scope, wd)" rule: scope_slot.cases)
    (auto simp: store_list_def Let_def global_view_def)

lemma persisted_view:
  assumes "dk_write_ok dk" and "view_wf v" and "save_at dk k (to_file v) = (r, dk')"
  shows "disk_view dk' k = v\<lparr>vw_mtime := Some (dk_now dk)\<rparr>" and "dk_read_ok dk' = dk_read_ok dk"
  using assms by (auto simp: save_at_def disk_view_def entry_file_def from_to_file)

lemma map_raw_insert:
  "map pm_raw (insert_rule p ps) = push_new (pm_raw p) (map pm_raw ps)"
  by (auto simp: insert_rule_def push_new_def list_ex_iff image_iff eq_commute [of "pm_raw p"])

lemma map_raw_drop: "map pm_raw (drop_rule s ps) = filter (\<lambda>r. r \<noteq> s) (map pm_raw ps)"
  by (simp add: drop_rule_def filter_map comp_def)

lemma open_readable: "dk_read_ok dk \<Longrightarrow> \<exists>st. open_store dk = Inr st"
  by (cases "dk_files dk GlobalFile")
    (simp_all add: open_store_def load_global_def load_at_def)

lemma store_add_disk:
  assumes run: "store_run dk st" and rd: "dk_read_ok dk"
    and k: "scope_slot scope wd = Some k" and p: "parse_permission pat = Inr p"
    and r: "store_add scope sid wd e pat dk st = (res, dk', st')"
  shows "res = Inr ()" and "dk_read_ok dk'"
    and "disk_view dk' k = (push_unique e p (disk_view dk k))\<lparr>vw_mtime := Some (dk_now dk)\<rparr>"
proof -
  have ok: "dk_write_ok dk" using store_run_inv [OF run] by (simp add: cache_inv_def disk_inv_def)
  have wf: "view_wf (push_unique e p (disk_view dk k))"
    using parse_permission_wf [OF p] by (simp add: push_unique_wf)
  have sv: "save_at dk k (to_file (push_unique e p (disk_view dk k))) = (Inr (), dk')
      \<and> res = Inr ()"
    using r k p ok store_run_views [OF run rd]
    by (cases "(scope, wd)" rule: scope_slot.cases)
      (auto simp: store_add_def persist_project_def persist_global_def save_project_def
        save_global_def save_at_def project_entry_def Let_def global_view_def)
  with persisted_view [OF ok wf] rd show "res = Inr ()" and "dk_read_ok dk'"
    and "disk_view dk' k = (push_unique e p (disk_view dk k))\<lparr>vw_mtime := Some (dk_now dk)\<rparr>"
    by auto
qed

lemma select_push_unique:
  "map pm_raw (select_list ((push_unique e p v)\<lparr>vw_mtime := m\<rparr>) e') =
    (if e' = e then push_new (pm_raw p) (map pm_raw (select_list v e'))
     else map pm_raw (select_list v e'))"
  by (cases e; cases e')
    (simp_all add: push_unique_def update_list_def select_list_def map_raw_insert)

text \<open>Adding a rule in project or global scope appends its text to that list of that scope,
  unless it is there already, and leaves the other list alone; and it is on the disk: a process
  that opens the store afterwards lists exactly the same rules.\<close>

theorem added_rule_persists:
  assumes "store_run dk st" and "dk_read_ok dk" and "scope_slot scope wd = Some k"
    and "store_add scope sid wd e pat dk st = (Inr (), dk', st')"
  shows "fst (store_list scope sid wd e' dk' st') =
      (let old = fst (store_list scope sid wd e' dk st) in
       if e' = e then push_new pat old else old)
    \<and> (\<exists>fresh. open_store dk' = Inr fresh
        \<and> fst (store_list scope sid wd e' dk' fresh) = fst (store_list scope sid wd e' dk' st'))"
proof -
  obtain p where p: "parse_permission pat = Inr p"
    using assms(4) by (cases "parse_permission pat") (auto simp: store_add_def)
  note d = store_add_disk [OF assms(1-3) p assms(4)]
  have run': "store_run dk' st'" using run_add [OF assms(1,4)] .
  have raw: "pm_raw p = pat" using p by (rule parse_permission_raw)
  have dinv: "disk_inv dk'" using store_run_inv [OF run'] by (simp add: cache_inv_def)
  obtain fresh where fresh: "open_store dk' = Inr fresh"
    using open_readable [OF d(2)] by blast
  have "store_run dk' fresh" using dinv fresh by (rule open_ok)
  with run' fresh d show ?thesis
    using assms raw by (auto simp: store_list_slot select_push_unique Let_def)
qed

lemma store_remove_disk:
  assumes run: "store_run dk st" and rd: "dk_read_ok dk" and k: "scope_slot scope wd = Some k"
    and r: "store_remove scope sid wd e pat dk st = (res, dk', st')"
  shows "\<exists>m. (res, disk_view dk' k) = (case remove_unique e pat (disk_view dk k) of
      (b, v) \<Rightarrow> (Inr b, v\<lparr>vw_mtime := m\<rparr>))" and "dk_read_ok dk'"
proof -
  have ok: "dk_write_ok dk" using store_run_inv [OF run] by (simp add: cache_inv_def disk_inv_def)
  obtain b v where b: "remove_unique e pat (disk_view dk k) = (b, v)" by fastforce
  have wf: "view_wf v" using remove_unique_wf [of "disk_view dk k" e pat] b by simp
  have sv: "res = Inr b \<and>
      (if b then save_at dk k (to_file v) = (Inr (), dk') else dk' = dk)"
    using r k ok b store_run_views [OF run rd]
    by (cases "(scope, wd)" rule: scope_slot.cases)
      (auto simp: store_remove_def persist_project_def persist_global_def save_project_def
        save_global_def save_at_def project_entry_def Let_def global_view_def split: if_splits)
  then show "\<exists>m. (res, disk_view dk' k) = (case remove_unique e pat (disk_view dk k) of
      (b, v) \<Rightarrow> (Inr b, v\<lparr>vw_mtime := m\<rparr>))"
  proof (cases b)
    case True
    with sv b show ?thesis using persisted_view(1) [OF ok wf] by (metis old.prod.case)
  next
    case False
    with sv b show ?thesis
      using remove_unique_False [of e pat "disk_view dk k" v]
      by (auto intro!: exI [of _ "vw_mtime v"])
  qed
  from sv show "dk_read_ok dk'"
    using rd persisted_view(2) [OF ok wf] by (cases b) auto
qed

lemma select_remove_unique:
  assumes "remove_unique e pat v = (b, v')"
  shows "b \<longleftrightarrow> pat \<in> set (map pm_raw (select_list v e))"
    and "map pm_raw (select_list (v'\<lparr>vw_mtime := m\<rparr>) e') =
      (if e' = e then filter (\<lambda>s. s \<noteq> pat) (map pm_raw (select_list v e'))
       else map pm_raw (select_list v e'))"
  using assms
proof -
  have drop: "length (drop_rule pat ps) \<noteq> length ps \<longleftrightarrow> pat \<in> pm_raw ` set ps" for ps
    by (auto simp: drop_rule_def length_filter_same filter_id_conv)
  show "b \<longleftrightarrow> pat \<in> set (map pm_raw (select_list v e))"
    using assms drop
    by (cases e) (auto simp: remove_unique_def update_list_def select_list_def Let_def)
  show "map pm_raw (select_list (v'\<lparr>vw_mtime := m\<rparr>) e') =
      (if e' = e then filter (\<lambda>s. s \<noteq> pat) (map pm_raw (select_list v e'))
       else map pm_raw (select_list v e'))"
    using assms
    by (cases e; cases e')
      (auto simp: remove_unique_def update_list_def select_list_def map_raw_drop Let_def)
qed

text \<open>Removing a rule takes every copy of it out of that list of that scope and reports
  whether there was one; afterwards it is not there, and the other list is as it was.\<close>

theorem removed_rule_is_gone:
  assumes "store_run dk st" and "dk_read_ok dk" and "scope_slot scope wd = Some k"
    and "store_remove scope sid wd e pat dk st = (res, dk', st')"
  shows "res = Inr (pat \<in> set (fst (store_list scope sid wd e dk st)))
    \<and> fst (store_list scope sid wd e' dk' st') =
        (let old = fst (store_list scope sid wd e' dk st) in
         if e' = e then filter (\<lambda>s. s \<noteq> pat) old else old)"
proof -
  obtain b v where b: "remove_unique e pat (disk_view dk k) = (b, v)" by fastforce
  obtain m where m: "res = Inr b" "disk_view dk' k = v\<lparr>vw_mtime := m\<rparr>"
    using store_remove_disk(1) [OF assms] b by auto
  have "store_run dk' st'" using run_remove [OF assms(1,4)] .
  then show ?thesis
    using assms m store_remove_disk(2) [OF assms] select_remove_unique [OF b]
    by (simp add: store_list_slot Let_def)
qed

text \<open>When the file cannot be written, \<open>add\<close> returns the error and leaves the disk as it was,
  but the rule is in force in this process all the same: the list shows it, and lookups use it
  until the file's time changes.\<close>

theorem unsaved_rule_stays_in_force:
  assumes "\<not> dk_write_ok dk" and "parse_permission pat = Inr p"
    and "store_add Project sid (Some wd) e pat dk st = (res, dk', st')"
    and "vw_mtime (project_view dk wd st) = project_mtime dk (Some wd)"
  shows "res = Inl IoError \<and> dk' = dk \<and> pat \<in> set (fst (store_list Project sid (Some wd) e dk' st'))"
proof -
  let ?v = "push_unique e p (project_view dk wd st)"
  have st': "res = Inl IoError" "dk' = dk" "project_entry st' (encode_workdir wd) = ?v"
    using assms(1-3)
    by (auto simp: store_add_def persist_project_def save_project_def save_at_def Let_def
        project_entry_def)
  have "vw_mtime ?v = project_mtime dk (Some wd)"
    using assms(4) by (cases e) (simp_all add: push_unique_def update_list_def)
  moreover have ne: "vw_allow ?v \<noteq> [] \<or> vw_deny ?v \<noteq> []"
    by (cases e) (auto simp: push_unique_def update_list_def insert_rule_def)
  ultimately have "project_view dk wd st' = ?v"
    using st' by (auto simp: project_view_def refreshed_project_def Let_def split: option.splits)
  moreover have "pat \<in> set (map pm_raw (select_list ?v e))"
    using select_push_unique [where m = "vw_mtime ?v" and e = e and e' = e and p = p
        and v = "project_view dk wd st"] parse_permission_raw [OF assms(2)] by simp
  ultimately show ?thesis using st' by (simp add: store_list_def Let_def)
qed

section \<open>Projects that share a rules file\<close>

lemma refresh_project_same_name:
  "encode_workdir wd = encode_workdir wd' \<Longrightarrow> refresh_project dk wd st = refresh_project dk wd' st"
  by (simp add: refresh_project_def refreshed_project_enc [of wd wd'])

lemma persist_project_same_name:
  assumes "encode_workdir wd = encode_workdir wd'"
  shows "persist_project wd = persist_project wd'"
proof -
  have "project_mtime d (Some wd) = project_mtime d (Some wd')"
    "save_project d wd f = save_project d wd' f" for d f
    using assms by (simp_all add: project_mtime_def save_project_def project_path_def)
  then show ?thesis unfolding persist_project_def assms by presburger
qed

text \<open>Two working directories whose names encode to the same text, such as \<open>/a-b\<close> and \<open>/a/b\<close>, are
  one project to the store: a rule added for one is added for the other, and every lookup
  answers the same in both.\<close>

theorem directories_with_one_name_share_rules:
  assumes "encode_workdir wd = encode_workdir wd'"
  shows "store_add Project sid (Some wd) e pat dk st = store_add Project sid (Some wd') e pat dk st
    \<and> find_diagnostic dk sid (Some wd) tool fp p st = find_diagnostic dk sid (Some wd') tool fp p st
    \<and> find_for_segments_diagnostic dk sid (Some wd) tool segs st
        = find_for_segments_diagnostic dk sid (Some wd') tool segs st"
  using assms
  by (simp add: refresh_project_same_name [OF assms] persist_project_same_name [OF assms]
      store_add_def find_diagnostic_def find_for_segments_diagnostic_def layers_def
      project_layer_def Let_def split: option.split sum.split)

section \<open>The properties on a concrete store\<close>

text \<open>A global file that allows \<open>ls\<close> and denies edits below \<open>/etc\<close>, opened by this process.\<close>

definition ex_file :: permissions_file where
  "ex_file = \<lparr>pf_allow = [''Bash(ls)''], pf_deny = [''Edit(/etc)''], pf_paths = []\<rparr>"

definition ex_disk :: disk where
  "ex_disk =
     \<lparr>dk_files = [GlobalFile \<mapsto> \<lparr>fe_content = Some ex_file, fe_mtime = 3\<rparr>],
      dk_now = 5, dk_read_ok = True, dk_write_ok = True\<rparr>"

definition ex_store :: store where
  "ex_store = \<lparr>st_global = from_file ex_file (Some 3), st_projects = [], st_sessions = []\<rparr>"

definition ex_segment :: "str \<Rightarrow> segment_effect" where
  "ex_segment fp =
     \<lparr>seg_fingerprint = fp, seg_env_prefix = [], seg_write_targets = [], seg_is_readonly = False,
      seg_unmemorable = False, seg_safe_write = False, seg_egress = False\<rparr>"

lemma ex_run: "store_run ex_disk ex_store"
  by (rule open_ok)
    (simp_all add: disk_inv_def ex_disk_def open_store_def load_global_def load_at_def
      global_mtime_def file_mtime_def ex_store_def)

lemma ex_readable: "dk_read_ok ex_disk"
  by (simp add: ex_disk_def)

lemma lookup_reads_the_disk_witness:
  "fst (find_diagnostic ex_disk None (Some ''/w'') ''Bash'' (Some ''ls -l'') None ex_store) =
     Some \<lparr>mt_effect = Allow, mt_scope = Global, mt_pattern = ''Bash(ls)''\<rparr>"
  by (subst lookup_reads_the_disk [OF ex_run ex_readable]) code_simp

lemma find_for_paths_verdict_witness:
  "map_option mt_effect
     (fst (find_for_paths_diagnostic ex_disk None None ''Edit'' None [''/w/a'', ''/etc/hosts''] ex_store))
   = Some Deny"
  by (subst find_for_paths_verdict, simp) code_simp

lemma find_for_segments_verdict_witness:
  "map_option mt_effect
     (fst (find_for_segments_diagnostic ex_disk None None ''Bash'' [ex_segment ''ls -l'', ex_segment ''ls''] ex_store))
   = Some Allow"
  by (subst find_for_segments_verdict) code_simp

lemma added_rule_persists_witness:
  "\<exists>dk' st'. store_add Global None None Allow ''Bash(git status)'' ex_disk ex_store = (Inr (), dk', st')
     \<and> fst (store_list Global None None Allow dk' st') = [''Bash(ls)'', ''Bash(git status)'']"
proof -
  obtain r dk' st' where
    s: "store_add Global None None Allow ''Bash(git status)'' ex_disk ex_store = (r, dk', st')"
    by (metis prod_cases3)
  have "fst (store_add Global None None Allow ''Bash(git status)'' ex_disk ex_store) = Inr ()"
    by code_simp
  with s have r: "r = Inr ()" by simp
  have "let old = fst (store_list Global None None Allow ex_disk ex_store) in
      push_new ''Bash(git status)'' old = [''Bash(ls)'', ''Bash(git status)'']"
    by code_simp
  with added_rule_persists [OF ex_run ex_readable _ s [unfolded r], of GlobalFile Allow]
  have "fst (store_list Global None None Allow dk' st') = [''Bash(ls)'', ''Bash(git status)'']"
    by (simp add: Let_def)
  with s r show ?thesis by blast
qed

lemma removed_rule_is_gone_witness:
  "\<exists>dk' st'. store_remove Global None None Deny ''Edit(/etc)'' ex_disk ex_store = (Inr True, dk', st')
     \<and> fst (store_list Global None None Deny dk' st') = []"
proof -
  obtain r dk' st' where
    s: "store_remove Global None None Deny ''Edit(/etc)'' ex_disk ex_store = (r, dk', st')"
    by (metis prod_cases3)
  have "fst (store_list Global None None Deny ex_disk ex_store) = [''Edit(/etc)'']"
    by code_simp
  with removed_rule_is_gone [OF ex_run ex_readable _ s, of GlobalFile Deny]
  have "r = Inr True" "fst (store_list Global None None Deny dk' st') = []"
    by simp_all
  with s show ?thesis by blast
qed

lemma unsaved_rule_stays_in_force_witness:
  "\<exists>dk' st'. store_add Project None (Some ''/w'') Allow ''Bash(make)''
        (ex_disk\<lparr>dk_write_ok := False\<rparr>) ex_store = (Inl IoError, dk', st')
     \<and> ''Bash(make)'' \<in> set (fst (store_list Project None (Some ''/w'') Allow dk' st'))"
proof -
  let ?dk = "ex_disk\<lparr>dk_write_ok := False\<rparr>"
  obtain r dk' st' where
    s: "store_add Project None (Some ''/w'') Allow ''Bash(make)'' ?dk ex_store = (r, dk', st')"
    by (metis prod_cases3)
  have p: "parse_permission ''Bash(make)'' = Inr \<lparr>pm_raw = ''Bash(make)'', pm_tool = ''Bash'', pm_arg = ArgBash ''make'' None\<rparr>"
    by code_simp
  have m: "vw_mtime (project_view ?dk ''/w'' ex_store) = project_mtime ?dk (Some ''/w'')"
    by code_simp
  show ?thesis
    using unsaved_rule_stays_in_force [OF _ p s m] s by (auto simp: ex_disk_def)
qed


lemma directories_with_one_name_share_rules_witness:
  "store_add Project None (Some ''/a-b'') Allow ''Bash(make)'' ex_disk ex_store
     = store_add Project None (Some ''/a/b'') Allow ''Bash(make)'' ex_disk ex_store"
proof -
  have "encode_workdir ''/a-b'' = encode_workdir ''/a/b''" by code_simp
  from directories_with_one_name_share_rules [OF this] show ?thesis by blast
qed

end
