(* ===== verification/Hitl.thy ===== *)
theory Hitl
  imports Store_Laws
begin

text \<open>
  \<open>HitlGate\<close> of \<open>crates/agent-core/src/tools/hitl.rs\<close>: the pending table of approvals and
  questions, the rules learned in this session, the decision on one tool call and what a reply
  does. The state carries the optional \<open>PermissionStore\<close> with its disk. Request ids are
  arguments (the code draws a fresh UUID); a oneshot channel is its request id, and \<open>gt_outbox\<close>
  lists what its receiver gets: a reply, or \<open>Closed\<close> where the sender is dropped.

  The pending table is one mutex. \<open>resolve\<close> holds it while it re-checks the other pending
  approvals; a re-check that opens an approval locks it again and never returns, which is the
  result \<open>None\<close> here.
\<close>

section \<open>Data\<close>

datatype default_permission = DefaultAuto | DefaultAsk | DefaultDeny

record permission_policy =
  pp_auto_approve :: "str list"
  pp_always_ask :: "str list"
  pp_default_action :: default_permission

definition default_policy :: permission_policy where
  "default_policy =
     \<lparr>pp_auto_approve = [''WebSearch'', ''Fetch'', ''Read'', ''Grep'', ''Skill''],
      pp_always_ask = [''Bash'', ''Edit''], pp_default_action = DefaultAuto\<rparr>"

datatype approval_decision =
    AllowOnce
  | AllowAndRemember permission_scope "str option" "str list"
  | DenyOnce
  | DenyWithFeedback str

datatype user_answer =
    Selected str
  | SelectedMulti "str list"
  | Custom str
  | Cancelled
  | Multi "(str \<times> user_answer) list"

datatype deny_reason =
    DeniedForever | DeniedByRule | DeniedByPolicy
  | DeniedOutOfBounds | DeniedGitMeta | DeniedDangerous "str list"

datatype permission_decision =
    Approved
  | Denied deny_reason
  | NeedsApproval str

record approval_entry =
  ap_tool_name :: "str option"
  ap_fingerprint :: "str option"
  ap_effects :: "effects option"
  ap_refuse_remember :: bool

datatype pending = PendingApproval approval_entry | PendingQuestion

datatype reply = Decided approval_decision | Answered user_answer | Closed

record learned_rules =
  lr_auto_approved_tools :: "str list"
  lr_auto_approved_patterns :: "(str \<times> str) list"
  lr_auto_denied_tools :: "str list"

definition no_rules :: learned_rules where
  "no_rules = \<lparr>lr_auto_approved_tools = [], lr_auto_approved_patterns = [], lr_auto_denied_tools = []\<rparr>"

record gate =
  gt_policy :: permission_policy
  gt_pending :: "(str \<times> pending) list"
  gt_learned :: learned_rules
  gt_store :: "store option"
  gt_disk :: disk
  gt_session_id :: "str option"
  gt_workdir :: "path option"
  gt_outbox :: "(str \<times> reply) list"

definition new_gate :: "permission_policy \<Rightarrow> disk \<Rightarrow> gate" where
  "new_gate policy dk =
     \<lparr>gt_policy = policy, gt_pending = [], gt_learned = no_rules, gt_store = None, gt_disk = dk,
      gt_session_id = None, gt_workdir = None, gt_outbox = []\<rparr>"

definition with_store :: "store \<Rightarrow> str \<Rightarrow> path option \<Rightarrow> gate \<Rightarrow> gate" where
  "with_store st sid wd g =
     g\<lparr>gt_store := Some st, gt_session_id := Some sid, gt_workdir := wd\<rparr>"

definition NO_TOOL_LEVEL_MEMORY :: "str list" where
  "NO_TOOL_LEVEL_MEMORY = [''Bash'']"

section \<open>Opening\<close>

definition open_approval_inner ::
  "str \<Rightarrow> str option \<Rightarrow> str option \<Rightarrow> effects option \<Rightarrow> bool \<Rightarrow> gate \<Rightarrow> gate" where
  "open_approval_inner rid tool_name fingerprint eff refuse_remember g =
     g\<lparr>gt_pending := assoc_put rid
         (PendingApproval \<lparr>ap_tool_name = tool_name, ap_fingerprint = fingerprint,
            ap_effects = eff, ap_refuse_remember = refuse_remember\<rparr>) (gt_pending g)\<rparr>"

definition open_approval :: "str \<Rightarrow> str option \<Rightarrow> str option \<Rightarrow> gate \<Rightarrow> gate" where
  "open_approval rid tool_name fingerprint = open_approval_inner rid tool_name fingerprint None False"

definition open_approval_no_remember :: "str \<Rightarrow> str option \<Rightarrow> str option \<Rightarrow> gate \<Rightarrow> gate" where
  "open_approval_no_remember rid tool_name fingerprint =
     open_approval_inner rid tool_name fingerprint None True"

definition open_tool_approval ::
  "str \<Rightarrow> str \<Rightarrow> str option \<Rightarrow> effects \<Rightarrow> bool \<Rightarrow> gate \<Rightarrow> permission_decision \<times> gate" where
  "open_tool_approval rid tool_name fingerprint eff refuse_remember g =
     (NeedsApproval rid,
      open_approval_inner rid (Some tool_name) fingerprint (Some eff) refuse_remember g)"

definition open_question :: "str \<Rightarrow> gate \<Rightarrow> gate" where
  "open_question rid g = g\<lparr>gt_pending := assoc_put rid PendingQuestion (gt_pending g)\<rparr>"

definition is_pending :: "str \<Rightarrow> gate \<Rightarrow> bool" where
  "is_pending rid g \<longleftrightarrow> map_of (gt_pending g) rid \<noteq> None"

section \<open>Deciding one call\<close>

definition learned_pattern :: "learned_rules \<Rightarrow> str \<Rightarrow> str \<Rightarrow> bool" where
  "learned_pattern lr tool_name fp \<longleftrightarrow>
     list_ex (\<lambda>(t, p). t = tool_name \<and> fingerprint_matches fp p) (lr_auto_approved_patterns lr)"

definition learned_allows :: "learned_rules \<Rightarrow> str \<Rightarrow> effects \<Rightarrow> bool" where
  "learned_allows lr tool_name eff \<longleftrightarrow>
     (if ef_segments eff \<noteq> [] then
        list_all (\<lambda>seg. seg_is_readonly seg \<or> learned_pattern lr tool_name (seg_fingerprint seg))
          (ef_segments eff)
      else case ef_command_fingerprint eff of
        Some fp \<Rightarrow> learned_pattern lr tool_name fp
      | None \<Rightarrow> False)
     \<or> tool_name \<in> set (lr_auto_approved_tools lr)"

definition store_rule ::
  "gate \<Rightarrow> str \<Rightarrow> effects \<Rightarrow> store \<Rightarrow> permission_match option \<times> store" where
  "store_rule g tool_name eff st =
     (let dk = gt_disk g; sid = gt_session_id g; wd = gt_workdir g;
          fingerprint = ef_command_fingerprint eff in
      if ef_segments eff \<noteq> [] then
        find_for_segments_diagnostic dk sid wd tool_name (ef_segments eff) st
      else if ef_paths eff \<noteq> [] then
        find_for_paths_diagnostic dk sid wd tool_name fingerprint (ef_paths eff) st
      else find_diagnostic dk sid wd tool_name fingerprint None st)"

text \<open>What \<open>check_without_policy\<close> does with a call, the opening of an approval left to its
  caller: steps 1 to 5b of the code in their order.\<close>

datatype outcome = Settled permission_decision | MustAsk bool

definition rule_outcome :: "gate \<Rightarrow> str \<Rightarrow> effects \<Rightarrow> outcome option \<times> store option" where
  "rule_outcome g tool_name eff =
     (let st = gt_store g; lr = gt_learned g in
      if ef_class eff = NeedsHumanInput then (Some (Settled Approved), st)
      else if tool_name \<in> set (lr_auto_denied_tools lr) then (Some (Settled (Denied DeniedForever)), st)
      else if has_dangerous_pattern eff then (Some (MustAsk True), st)
      else if ef_class eff = ReadOnly then (Some (Settled Approved), st)
      else if list_ex seg_unmemorable (ef_segments eff) then (Some (MustAsk False), st)
      else if learned_allows lr tool_name eff then (Some (Settled Approved), st)
      else case st of
        None \<Rightarrow> (None, None)
      | Some s \<Rightarrow>
          let (hit, s') = store_rule g tool_name eff s in
          (map_option (\<lambda>h. Settled (case mt_effect h of Allow \<Rightarrow> Approved | Deny \<Rightarrow> Denied DeniedByRule))
             hit, Some s'))"

definition check_without_policy ::
  "str \<Rightarrow> str \<Rightarrow> effects \<Rightarrow> gate \<Rightarrow> permission_decision option \<times> gate" where
  "check_without_policy rid tool_name eff g =
     (let (out, st) = rule_outcome g tool_name eff; g1 = g\<lparr>gt_store := st\<rparr> in
      case out of
        None \<Rightarrow> (None, g1)
      | Some (Settled d) \<Rightarrow> (Some d, g1)
      | Some (MustAsk refuse) \<Rightarrow>
          map_prod Some id
            (open_tool_approval rid tool_name (ef_command_fingerprint eff) eff refuse g1))"

text \<open>\<open>None\<close> is the \<open>unreachable!\<close> of the last match.\<close>

definition check :: "str \<Rightarrow> str \<Rightarrow> effects \<Rightarrow> gate \<Rightarrow> permission_decision option \<times> gate" where
  "check rid tool_name eff g =
     (let (out, g1) = check_without_policy rid tool_name eff g;
          ask = map_prod Some id
                  (open_tool_approval rid tool_name (ef_command_fingerprint eff) eff False g1) in
      case out of
        Some d \<Rightarrow> (Some d, g1)
      | None \<Rightarrow>
          if tool_name \<in> set (pp_auto_approve (gt_policy g1)) then (Some Approved, g1)
          else if tool_name \<in> set (pp_always_ask (gt_policy g1)) then ask
          else if ef_class eff \<in> {Network, Mutating, Destructive} then
            (case pp_default_action (gt_policy g1) of
               DefaultAuto \<Rightarrow> (Some Approved, g1)
             | DefaultAsk \<Rightarrow> ask
             | DefaultDeny \<Rightarrow> (Some (Denied DeniedByPolicy), g1))
          else (None, g1))"

section \<open>Remembering\<close>

definition add_to_store ::
  "permission_scope \<Rightarrow> str option \<Rightarrow> path option \<Rightarrow> str \<Rightarrow> str option \<Rightarrow> gate \<Rightarrow> gate" where
  "add_to_store scope sid wd tool_name pattern g =
     (case (gt_store g, build_pattern tool_name pattern) of
        (Some st, Some pat) \<Rightarrow>
          (let (_, dk', st') = store_add scope sid wd Allow pat (gt_disk g) st in
           g\<lparr>gt_disk := dk', gt_store := Some st'\<rparr>)
      | _ \<Rightarrow> g)"

definition learn :: "str \<Rightarrow> str option \<Rightarrow> learned_rules \<Rightarrow> learned_rules" where
  "learn tool_name pattern lr =
     (case pattern of
        Some p \<Rightarrow>
          if trim p = [] then lr
          else lr\<lparr>lr_auto_approved_patterns :=
                    push_new (tool_name, trim p) (lr_auto_approved_patterns lr)\<rparr>
      | None \<Rightarrow>
          if tool_name \<in> set NO_TOOL_LEVEL_MEMORY then lr
          else lr\<lparr>lr_auto_approved_tools := push_new tool_name (lr_auto_approved_tools lr)\<rparr>)"

definition remember :: "permission_scope \<Rightarrow> str \<Rightarrow> str option \<Rightarrow> gate \<Rightarrow> gate" where
  "remember scope tool_name pattern g =
     (case scope of
        Once \<Rightarrow> g
      | Session \<Rightarrow>
          let g1 = g\<lparr>gt_learned := learn tool_name pattern (gt_learned g)\<rparr> in
          (case gt_session_id g1 of
             None \<Rightarrow> g1
           | Some sid \<Rightarrow> add_to_store Session (Some sid) None tool_name pattern g1)
      | Project \<Rightarrow>
          (case gt_workdir g of
             None \<Rightarrow> g
           | Some wd \<Rightarrow> add_to_store Project None (Some wd) tool_name pattern g)
      | Global \<Rightarrow> add_to_store Global None None tool_name pattern g)"

section \<open>Replies\<close>

definition deliver :: "str \<Rightarrow> reply \<Rightarrow> gate \<Rightarrow> gate" where
  "deliver rid r g = g\<lparr>gt_outbox := gt_outbox g @ [(rid, r)]\<rparr>"

definition drop_pending :: "str \<Rightarrow> gate \<Rightarrow> gate" where
  "drop_pending rid g = g\<lparr>gt_pending := assoc_del rid (gt_pending g)\<rparr>"

text \<open>The entries that are checked again: approvals of a tool call that may be remembered.\<close>

definition recheck :: "pending \<Rightarrow> (str \<times> effects) option" where
  "recheck entry =
     (case entry of
        PendingQuestion \<Rightarrow> None
      | PendingApproval e \<Rightarrow>
          if ap_refuse_remember e then None
          else Option.bind (ap_tool_name e) (\<lambda>t. map_option (Pair t) (ap_effects e)))"

text \<open>The other pending approvals that the rules now approve, with the table locked: \<open>None\<close> when
  one of them would have to be asked for, since that locks the table again.\<close>

fun matching_ids ::
  "str \<Rightarrow> (str \<times> pending) list \<Rightarrow> gate \<Rightarrow> (str list \<times> gate) option" where
  "matching_ids current [] g = Some ([], g)"
| "matching_ids current ((rid, entry) # rest) g =
     (case recheck entry of
        None \<Rightarrow> matching_ids current rest g
      | Some (tool_name, eff) \<Rightarrow>
          if rid = current then matching_ids current rest g
          else
            let (out, st) = rule_outcome g tool_name eff; g1 = g\<lparr>gt_store := st\<rparr> in
            (case out of
               Some (MustAsk _) \<Rightarrow> None
             | _ \<Rightarrow>
                 map_option (\<lambda>(ids, g2). (if out = Some (Settled Approved) then rid # ids else ids, g2))
                   (matching_ids current rest g1)))"

definition resolve_matching_pending :: "str \<Rightarrow> gate \<Rightarrow> gate option" where
  "resolve_matching_pending current g =
     map_option (\<lambda>(ids, g1).
         fold (\<lambda>rid g. deliver rid (Decided AllowOnce) g) ids (fold drop_pending ids g1))
       (matching_ids current (gt_pending g) g)"

definition remember_all :: "permission_scope \<Rightarrow> str \<Rightarrow> str option \<Rightarrow> str list \<Rightarrow> gate \<Rightarrow> gate" where
  "remember_all scope tool_name pattern extras g =
     fold (\<lambda>x. remember scope tool_name (Some x)) extras (remember scope tool_name pattern g)"

definition resolve :: "str \<Rightarrow> approval_decision \<Rightarrow> gate \<Rightarrow> gate option" where
  "resolve rid decision g =
     (let g1 = drop_pending rid g in
      case map_of (gt_pending g) rid of
        None \<Rightarrow> Some g1
      | Some PendingQuestion \<Rightarrow> Some (deliver rid Closed g1)
      | Some (PendingApproval e) \<Rightarrow>
          map_option (deliver rid (Decided decision))
            (case decision of
               AllowAndRemember scope pattern extras \<Rightarrow>
                 if ap_refuse_remember e then Some g1
                 else
                   (case ap_tool_name e of
                      None \<Rightarrow> Some g1
                    | Some name \<Rightarrow>
                        resolve_matching_pending rid (remember_all scope name pattern extras g1))
             | _ \<Rightarrow> Some g1))"

definition answer :: "str \<Rightarrow> user_answer \<Rightarrow> gate \<Rightarrow> gate" where
  "answer rid a g =
     (let g1 = drop_pending rid g in
      case map_of (gt_pending g) rid of
        None \<Rightarrow> g1
      | Some PendingQuestion \<Rightarrow> deliver rid (Answered a) g1
      | Some (PendingApproval _) \<Rightarrow> deliver rid Closed g1)"

definition cancel_reply :: "pending \<Rightarrow> reply" where
  "cancel_reply p =
     (case p of PendingApproval _ \<Rightarrow> Decided DenyOnce | PendingQuestion \<Rightarrow> Answered Cancelled)"

definition cancel_all_pending :: "gate \<Rightarrow> gate" where
  "cancel_all_pending g =
     g\<lparr>gt_pending := [],
       gt_outbox := gt_outbox g @ map (\<lambda>(rid, p). (rid, cancel_reply p)) (gt_pending g)\<rparr>"

section \<open>Segments of a call\<close>

definition learned_covers :: "learned_rules \<Rightarrow> str \<Rightarrow> segment_effect \<Rightarrow> bool" where
  "learned_covers lr tool_name seg \<longleftrightarrow>
     tool_name \<in> set (lr_auto_approved_tools lr)
     \<or> learned_pattern lr tool_name (seg_fingerprint seg)"

definition segment_covered ::
  "gate \<Rightarrow> str \<Rightarrow> segment_effect \<Rightarrow> store option \<Rightarrow> bool \<times> store option" where
  "segment_covered g tool_name seg st =
     (case st of
        None \<Rightarrow> (learned_covers (gt_learned g) tool_name seg, None)
      | Some s \<Rightarrow>
          let (hit, s') = find_for_segments_diagnostic (gt_disk g) (gt_session_id g) (gt_workdir g)
                            tool_name [seg] s
          in (learned_covers (gt_learned g) tool_name seg \<or> map_option mt_effect hit = Some Allow,
              Some s'))"

fun unapproved_loop ::
  "gate \<Rightarrow> str \<Rightarrow> segment_effect list \<Rightarrow> str list \<Rightarrow> store option \<Rightarrow> str list \<times> store option" where
  "unapproved_loop g tool_name [] out st = (out, st)"
| "unapproved_loop g tool_name (seg # segs) out st =
     (if seg_is_readonly seg \<or> seg_unmemorable seg then unapproved_loop g tool_name segs out st
      else
        let (hit, st') = segment_covered g tool_name seg st in
        unapproved_loop g tool_name segs
          (if hit then out else push_new (seg_fingerprint seg) out) st')"

definition unapproved_memorable_writable_segments ::
  "str \<Rightarrow> effects \<Rightarrow> gate \<Rightarrow> str list \<times> gate" where
  "unapproved_memorable_writable_segments tool_name eff g =
     (let (out, st) = unapproved_loop g tool_name (ef_segments eff) [] (gt_store g) in
      (out, g\<lparr>gt_store := st\<rparr>))"

definition segments_to_auto_persist :: "str \<Rightarrow> effects \<Rightarrow> gate \<Rightarrow> str list \<times> gate" where
  "segments_to_auto_persist tool_name eff g =
     (let egress_fps = map seg_fingerprint (filter seg_egress (ef_segments eff));
          (fps, g1) = unapproved_memorable_writable_segments tool_name eff g in
      (filter (\<lambda>fp. fp \<notin> set egress_fps) fps, g1))"

definition persist_judge_allowed_segments :: "str \<Rightarrow> effects \<Rightarrow> gate \<Rightarrow> gate" where
  "persist_judge_allowed_segments tool_name eff g =
     (if tool_name \<noteq> ''Bash'' \<and> tool_name \<noteq> ''PowerShell'' then g
      else
        let (fps, g1) = segments_to_auto_persist tool_name eff g in
        fold (\<lambda>fp. remember Session tool_name (Some fp)) fps g1)"

datatype segment_status = Readonly | Whitelisted | Unmemorable | NeedsDecision

fun approval_loop ::
  "gate \<Rightarrow> str \<Rightarrow> segment_effect list \<Rightarrow> store option
    \<Rightarrow> (str \<times> segment_status) list \<times> store option" where
  "approval_loop g tool_name [] st = ([], st)"
| "approval_loop g tool_name (seg # segs) st =
     (let (status, st1) =
            (if seg_is_readonly seg then (Readonly, st)
             else if seg_unmemorable seg then (Unmemorable, st)
             else
               let (hit, st') = segment_covered g tool_name seg st in
               (if hit then Whitelisted else NeedsDecision, st'));
          (rest, st2) = approval_loop g tool_name segs st1
      in ((seg_fingerprint seg, status) # rest, st2))"

definition approval_segments :: "str \<Rightarrow> effects \<Rightarrow> gate \<Rightarrow> (str \<times> segment_status) list \<times> gate" where
  "approval_segments tool_name eff g =
     (let (out, st) = approval_loop g tool_name (ef_segments eff) (gt_store g) in
      (out, g\<lparr>gt_store := st\<rparr>))"

end
