(* ===== verification/Hitl_Facts.thy ===== *)
theory Hitl_Facts
  imports Hitl
begin

text \<open>
  Facts on the gate: what each operation leaves alone, that looking rules up never changes what
  another look-up answers (so the loops over segments and over pending approvals are functions of
  the state they start in), and the bookkeeping of the pending table.
\<close>

section \<open>Frames\<close>

lemma add_to_store_frame [frame_simps]:
  "gt_pending (add_to_store scope sid wd t p g) = gt_pending g"
  "gt_outbox (add_to_store scope sid wd t p g) = gt_outbox g"
  "gt_policy (add_to_store scope sid wd t p g) = gt_policy g"
  "gt_learned (add_to_store scope sid wd t p g) = gt_learned g"
  "gt_session_id (add_to_store scope sid wd t p g) = gt_session_id g"
  "gt_workdir (add_to_store scope sid wd t p g) = gt_workdir g"
  by (auto simp: add_to_store_def split: option.splits prod.splits)

lemma remember_frame [frame_simps]:
  "gt_pending (remember scope t p g) = gt_pending g"
  "gt_outbox (remember scope t p g) = gt_outbox g"
  "gt_policy (remember scope t p g) = gt_policy g"
  "gt_session_id (remember scope t p g) = gt_session_id g"
  "gt_workdir (remember scope t p g) = gt_workdir g"
  by (auto simp: remember_def frame_simps Let_def split: permission_scope.splits option.splits)

lemma remember_learned:
  "gt_learned (remember scope t p g) =
    (if scope = Session then learn t p (gt_learned g) else gt_learned g)"
  by (auto simp: remember_def frame_simps Let_def split: permission_scope.splits option.splits)

lemma fold_remember_frame [frame_simps]:
  "gt_pending (fold (\<lambda>x. remember scope t (Some x)) xs g) = gt_pending g"
  "gt_outbox (fold (\<lambda>x. remember scope t (Some x)) xs g) = gt_outbox g"
  "gt_policy (fold (\<lambda>x. remember scope t (Some x)) xs g) = gt_policy g"
  "gt_session_id (fold (\<lambda>x. remember scope t (Some x)) xs g) = gt_session_id g"
  "gt_workdir (fold (\<lambda>x. remember scope t (Some x)) xs g) = gt_workdir g"
  by (induction xs arbitrary: g) (simp_all add: frame_simps)

lemma remember_all_frame [frame_simps]:
  "gt_pending (remember_all scope t p xs g) = gt_pending g"
  "gt_outbox (remember_all scope t p xs g) = gt_outbox g"
  "gt_policy (remember_all scope t p xs g) = gt_policy g"
  by (simp_all add: remember_all_def frame_simps)

lemma check_without_policy_frame [frame_simps]:
  "gt_outbox (snd (check_without_policy rid t e g)) = gt_outbox g"
  "gt_learned (snd (check_without_policy rid t e g)) = gt_learned g"
  "gt_policy (snd (check_without_policy rid t e g)) = gt_policy g"
  by (auto simp: check_without_policy_def open_tool_approval_def open_approval_inner_def Let_def
      split: option.splits outcome.splits prod.splits)

lemma deliver_frame [simp]:
  "gt_pending (deliver rid r g) = gt_pending g"
  "gt_outbox (deliver rid r g) = gt_outbox g @ [(rid, r)]"
  "gt_learned (deliver rid r g) = gt_learned g"
  "gt_store (deliver rid r g) = gt_store g"
  "gt_disk (deliver rid r g) = gt_disk g"
  by (simp_all add: deliver_def)

lemma drop_pending_frame [simp]:
  "gt_pending (drop_pending rid g) = assoc_del rid (gt_pending g)"
  "gt_outbox (drop_pending rid g) = gt_outbox g"
  "gt_learned (drop_pending rid g) = gt_learned g"
  "gt_store (drop_pending rid g) = gt_store g"
  "gt_disk (drop_pending rid g) = gt_disk g"
  by (simp_all add: drop_pending_def)

section \<open>Looking rules up\<close>

lemma layers_views:
  "layers (refresh_global dk (case workdir of None \<Rightarrow> st | Some wd \<Rightarrow> refresh_project dk wd st))
      session_id workdir =
    (let s = session_layer st session_id;
         p = (case workdir of None \<Rightarrow> ([], [])
              | Some wd \<Rightarrow> (vw_allow (project_view dk wd st), vw_deny (project_view dk wd st)));
         g = global_view dk st in
      (map (Pair Session) (fst s) @ map (Pair Project) (fst p) @ map (Pair Global) (vw_allow g),
       map (Pair Session) (snd s) @ map (Pair Project) (snd p) @ map (Pair Global) (vw_deny g)))"
  by (cases workdir)
    (simp_all add: layers_def session_layer_def project_layer_def frame_simps Let_def
      global_view_def [symmetric] global_view_refresh_project)

lemma find_for_segments_same:
  assumes "same_rules dk st st'"
  shows "fst (find_for_segments_diagnostic dk session_id workdir tool segs st') =
    fst (find_for_segments_diagnostic dk session_id workdir tool segs st)"
proof -
  have "layers (refresh_global dk (case workdir of None \<Rightarrow> st' | Some wd \<Rightarrow> refresh_project dk wd st'))
      session_id workdir
    = layers (refresh_global dk (case workdir of None \<Rightarrow> st | Some wd \<Rightarrow> refresh_project dk wd st))
      session_id workdir"
    using assms unfolding layers_views
    by (cases workdir) (simp_all add: same_rules_def session_layer_def)
  then show ?thesis
    by (auto simp: find_for_segments_diagnostic_def Let_def split: option.splits prod.splits)
qed

lemma find_for_paths_same:
  assumes "same_rules dk st st'"
  shows "map_option mt_effect (fst (find_for_paths_diagnostic dk session_id workdir tool fp ps st')) =
    map_option mt_effect (fst (find_for_paths_diagnostic dk session_id workdir tool fp ps st))"
proof (cases "ps = []")
  case True
  then show ?thesis
    by (simp add: find_for_paths_diagnostic_def find_diagnostic_answer rule_answer_same [OF assms])
next
  case False
  then show ?thesis
    using path_lookup.paths_verdict [OF False, of dk session_id workdir tool fp]
      rule_answer_same [OF assms]
    by (simp add: find_for_paths_diagnostic_def path_lookup.verdict_def Let_def
        find_diagnostic_answer)
qed

interpretation segment_lookup: rule_lookup
  "\<lambda>seg. find_for_segments_diagnostic dk session_id workdir tool [seg]"
  for dk session_id workdir tool
  by unfold_locales (rule find_for_segments_same, rule refreshes_same, rule refreshes_segments)

lemma store_rule_refreshes: "refreshes (gt_disk g) st (snd (store_rule g t e st))"
  by (auto simp: store_rule_def Let_def refreshes_segments refreshes_paths refreshes_find)

lemma store_rule_same:
  assumes "same_rules (gt_disk g) st st'"
  shows "map_option mt_effect (fst (store_rule g t e st')) = map_option mt_effect (fst (store_rule g t e st))"
  by (simp add: store_rule_def Let_def find_for_segments_same [OF assms] find_for_paths_same [OF assms]
      find_diagnostic_answer rule_answer_same [OF assms])

text \<open>Stores of a gate that answer alike.\<close>

definition alike :: "gate \<Rightarrow> store option \<Rightarrow> store option \<Rightarrow> bool" where
  "alike g a b \<longleftrightarrow>
     (case (a, b) of
        (None, None) \<Rightarrow> True
      | (Some s, Some s') \<Rightarrow> same_rules (gt_disk g) s s'
      | _ \<Rightarrow> False)"

lemma alike_refl [simp]: "alike g a a"
  by (simp add: alike_def split: option.split)

lemma alike_trans: "alike g a b \<Longrightarrow> alike g b c \<Longrightarrow> alike g a c"
  by (auto simp: alike_def intro: same_rules_trans split: option.splits)

lemma alike_disk: "gt_disk g = gt_disk g' \<Longrightarrow> alike g = alike g'"
  by (intro ext) (simp add: alike_def split: option.split)

lemma rule_outcome_alike: "alike g (gt_store g) (snd (rule_outcome g t e))"
  by (cases "gt_store g")
    (auto simp: rule_outcome_def Let_def alike_def split_beta
      intro: refreshes_same store_rule_refreshes)

lemma store_rule_cong: "store_rule (g\<lparr>gt_store := st\<rparr>) = store_rule g"
  by (intro ext) (simp add: store_rule_def)

definition settle :: "rule_effect \<Rightarrow> outcome" where
  "settle e = Settled (case e of Allow \<Rightarrow> Approved | Deny \<Rightarrow> Denied DeniedByRule)"

lemma rule_outcome_store:
  "fst (rule_outcome g t e) =
    (if ef_class e = NeedsHumanInput then Some (Settled Approved)
     else if t \<in> set (lr_auto_denied_tools (gt_learned g)) then Some (Settled (Denied DeniedForever))
     else if has_dangerous_pattern e then Some (MustAsk True)
     else if ef_class e = ReadOnly then Some (Settled Approved)
     else if list_ex seg_unmemorable (ef_segments e) then Some (MustAsk False)
     else if learned_allows (gt_learned g) t e then Some (Settled Approved)
     else Option.bind (gt_store g)
       (\<lambda>s. map_option settle (map_option mt_effect (fst (store_rule g t e s)))))"
  by (cases "gt_store g")
    (simp_all add: rule_outcome_def Let_def split_beta option.map_comp settle_def comp_def)

lemma rule_outcome_stable:
  assumes "alike g (gt_store g) st"
  shows "fst (rule_outcome (g\<lparr>gt_store := st\<rparr>) t e) = fst (rule_outcome g t e)"
  using assms store_rule_same
  by (cases st; cases "gt_store g")
    (simp_all add: rule_outcome_store store_rule_cong alike_def del: option.map_comp)

section \<open>Re-checking the other pending approvals\<close>

text \<open>What the rules say now of a pending entry that may be re-checked.\<close>

definition rechecked :: "gate \<Rightarrow> str \<Rightarrow> str \<times> pending \<Rightarrow> outcome option" where
  "rechecked g current x =
     (if fst x = current then None
      else Option.bind (recheck (snd x)) (\<lambda>(t, e). fst (rule_outcome g t e)))"

lemma rechecked_stable:
  "alike g (gt_store g) st \<Longrightarrow> rechecked (g\<lparr>gt_store := st\<rparr>) current x = rechecked g current x"
  by (cases "recheck (snd x)") (auto simp: rechecked_def rule_outcome_stable)

lemma matching_step:
  assumes "matching_ids current ((rid, entry) # rest) g = r"
    and "recheck entry = Some (t, e)" and "rid \<noteq> current"
  obtains st where "alike g (gt_store g) st" and "rule_outcome g t e = (rechecked g current (rid, entry), st)"
    and "r = (case rechecked g current (rid, entry) of
        Some (MustAsk _) \<Rightarrow> None
      | out \<Rightarrow> map_option (\<lambda>(ids, g2). (if out = Some (Settled Approved) then rid # ids else ids, g2))
                (matching_ids current rest (g\<lparr>gt_store := st\<rparr>)))"
proof -
  obtain out st where o: "rule_outcome g t e = (out, st)" by fastforce
  have "alike g (gt_store g) st" using rule_outcome_alike [of g t e] o by simp
  moreover have out: "out = rechecked g current (rid, entry)"
    using assms(2,3) o by (simp add: rechecked_def)
  moreover have "r = (case out of
        Some (MustAsk _) \<Rightarrow> None
      | out \<Rightarrow> map_option (\<lambda>(ids, g2). (if out = Some (Settled Approved) then rid # ids else ids, g2))
                (matching_ids current rest (g\<lparr>gt_store := st\<rparr>)))"
    using assms o by (auto split: option.split outcome.split)
  ultimately show thesis using that o by simp
qed

lemma matching_skip:
  "recheck entry = None \<or> rid = current \<Longrightarrow>
    matching_ids current ((rid, entry) # rest) g = matching_ids current rest g
    \<and> rechecked g current (rid, entry) = None"
  by (auto simp: rechecked_def split: option.split)

lemma matching_ids_Some:
  "matching_ids current p g = Some (ids, g') \<Longrightarrow>
    ids = map fst (filter (\<lambda>x. rechecked g current x = Some (Settled Approved)) p)
    \<and> (\<exists>st. g' = g\<lparr>gt_store := st\<rparr>)"
proof (induction p arbitrary: g ids)
  case Nil
  then show ?case by (auto intro: exI [of _ "gt_store g"])
next
  case (Cons x rest)
  obtain rid entry where x: "x = (rid, entry)" by (cases x)
  show ?case
  proof (cases "recheck entry = None \<or> rid = current")
    case True
    then show ?thesis using Cons matching_skip [OF True] by (auto simp: x)
  next
    case False
    then obtain t e where te: "recheck entry = Some (t, e)" "rid \<noteq> current" by auto
    from Cons.prems [unfolded x] te obtain st where st: "alike g (gt_store g) st"
      and r: "Some (ids, g') = (case rechecked g current (rid, entry) of
        Some (MustAsk _) \<Rightarrow> None
      | out \<Rightarrow> map_option (\<lambda>(ids, g2). (if out = Some (Settled Approved) then rid # ids else ids, g2))
                (matching_ids current rest (g\<lparr>gt_store := st\<rparr>)))"
      by (rule matching_step)
    then obtain ids' where m: "matching_ids current rest (g\<lparr>gt_store := st\<rparr>) = Some (ids', g')"
      and ids: "ids = (if rechecked g current (rid, entry) = Some (Settled Approved) then rid # ids' else ids')"
      by (cases "matching_ids current rest (g\<lparr>gt_store := st\<rparr>)")
        (auto split: option.splits outcome.splits if_splits)
    from Cons.IH [OF m] ids show ?thesis
      by (auto simp: x rechecked_stable [OF st])
  qed
qed

lemma matching_ids_None:
  "matching_ids current p g = None \<longleftrightarrow>
    (\<exists>x \<in> set p. \<exists>b. rechecked g current x = Some (MustAsk b))"
proof (induction p arbitrary: g)
  case (Cons x rest)
  obtain rid entry where x: "x = (rid, entry)" by (cases x)
  show ?case
  proof (cases "recheck entry = None \<or> rid = current")
    case True
    then show ?thesis using Cons matching_skip [OF True] by (auto simp: x)
  next
    case False
    then obtain t e where te: "recheck entry = Some (t, e)" "rid \<noteq> current" by auto
    from refl te obtain st where st: "alike g (gt_store g) st"
      and r: "matching_ids current ((rid, entry) # rest) g = (case rechecked g current (rid, entry) of
        Some (MustAsk _) \<Rightarrow> None
      | out \<Rightarrow> map_option (\<lambda>(ids, g2). (if out = Some (Settled Approved) then rid # ids else ids, g2))
                (matching_ids current rest (g\<lparr>gt_store := st\<rparr>)))"
      by (rule matching_step)
    then show ?thesis
      using Cons.IH [of "g\<lparr>gt_store := st\<rparr>"] rechecked_stable [OF st]
      by (auto simp: x simp del: matching_ids.simps split: option.splits outcome.splits)
  qed
qed simp

lemma learn_fields [simp]:
  "lr_auto_denied_tools (learn t p lr) = lr_auto_denied_tools lr"
  by (simp add: learn_def split: option.split)

lemma fold_drop_frame:
  "gt_pending (fold drop_pending ids g) = filter (\<lambda>x. fst x \<notin> set ids) (gt_pending g)"
  "gt_outbox (fold drop_pending ids g) = gt_outbox g"
  "gt_learned (fold drop_pending ids g) = gt_learned g"
  by (induction ids arbitrary: g) (auto simp: assoc_del_def conj_commute)

lemma fold_deliver_frame:
  "gt_pending (fold (\<lambda>rid. deliver rid r) ids g) = gt_pending g"
  "gt_outbox (fold (\<lambda>rid. deliver rid r) ids g) = gt_outbox g @ map (\<lambda>rid. (rid, r)) ids"
  "gt_learned (fold (\<lambda>rid. deliver rid r) ids g) = gt_learned g"
  by (induction ids arbitrary: g) simp_all

lemma resolve_matching_Some:
  assumes "resolve_matching_pending current g = Some g'"
  defines "ids \<equiv> map fst (filter (\<lambda>x. rechecked g current x = Some (Settled Approved)) (gt_pending g))"
  shows "gt_pending g' = filter (\<lambda>x. fst x \<notin> set ids) (gt_pending g)"
    and "gt_outbox g' = gt_outbox g @ map (\<lambda>rid. (rid, Decided AllowOnce)) ids"
    and "gt_learned g' = gt_learned g"
  using assms(1) matching_ids_Some [of current "gt_pending g" g]
  by (auto simp: resolve_matching_pending_def ids_def fold_drop_frame fold_deliver_frame)

end
