(* ===== verification/Hitl_Laws.thy ===== *)
theory Hitl_Laws
  imports Hitl_Facts
begin

text \<open>
  The theorems about the approval gate: when a call is approved without asking, what is always
  asked, what replies do to the rules, that every request is answered at most once, and two places
  where the code does not do what it says (a pending approval that blocks the gate, and a rule for
  a whole shell tool).
\<close>

section \<open>Deciding one call\<close>

definition store_verdict :: "gate \<Rightarrow> str \<Rightarrow> effects \<Rightarrow> rule_effect option" where
  "store_verdict g tool_name eff =
     Option.bind (gt_store g) (\<lambda>s. map_option mt_effect (fst (store_rule g tool_name eff s)))"

lemma check_cases:
  "fst (check rid t e g) =
    (case fst (rule_outcome g t e) of
       Some (Settled d) \<Rightarrow> Some d
     | Some (MustAsk _) \<Rightarrow> Some (NeedsApproval rid)
     | None \<Rightarrow>
         if t \<in> set (pp_auto_approve (gt_policy g)) then Some Approved
         else if t \<in> set (pp_always_ask (gt_policy g)) then Some (NeedsApproval rid)
         else if ef_class e \<in> {Network, Mutating, Destructive} then
           (case pp_default_action (gt_policy g) of
              DefaultAuto \<Rightarrow> Some Approved
            | DefaultAsk \<Rightarrow> Some (NeedsApproval rid)
            | DefaultDeny \<Rightarrow> Some (Denied DeniedByPolicy))
         else None)"
  by (auto simp: check_def check_without_policy_def open_tool_approval_def Let_def split_beta
      split: option.splits outcome.splits default_permission.splits)

lemma rule_outcome_verdict:
  "fst (rule_outcome g t e) =
    (if ef_class e = NeedsHumanInput then Some (Settled Approved)
     else if t \<in> set (lr_auto_denied_tools (gt_learned g)) then Some (Settled (Denied DeniedForever))
     else if has_dangerous_pattern e then Some (MustAsk True)
     else if ef_class e = ReadOnly then Some (Settled Approved)
     else if list_ex seg_unmemorable (ef_segments e) then Some (MustAsk False)
     else if learned_allows (gt_learned g) t e then Some (Settled Approved)
     else map_option settle (store_verdict g t e))"
  unfolding rule_outcome_store store_verdict_def by (cases "gt_store g") (simp_all del: option.map_comp)

lemma rule_effect_cases: "x = None \<or> x = Some Allow \<or> x = Some Deny"
  by (cases x) (auto, case_tac a, auto)

text \<open>The last match of \<open>check\<close> never reaches its \<open>unreachable!\<close>: whatever the effects, the
  rules and the policy, the gate decides.\<close>

theorem check_never_panics: "fst (check rid tool_name eff g) \<noteq> None"
proof (cases "ef_class eff")
  case ReadOnly
  then show ?thesis by (simp add: check_cases rule_outcome_verdict)
next
  case NeedsHumanInput
  then show ?thesis by (simp add: check_cases rule_outcome_verdict)
qed (auto simp: check_cases split: option.split outcome.split default_permission.split)

lemma check_approves_spec:
  "fst (check rid tool_name eff g) = Some Approved \<longleftrightarrow>
    ef_class eff = NeedsHumanInput
    \<or> tool_name \<notin> set (lr_auto_denied_tools (gt_learned g)) \<and> ef_dangerous_kinds eff = []
      \<and> (ef_class eff = ReadOnly
         \<or> (\<forall>seg \<in> set (ef_segments eff). \<not> seg_unmemorable seg)
           \<and> (learned_allows (gt_learned g) tool_name eff
              \<or> store_verdict g tool_name eff = Some Allow
              \<or> store_verdict g tool_name eff = None
                \<and> (tool_name \<in> set (pp_auto_approve (gt_policy g))
                   \<or> tool_name \<notin> set (pp_always_ask (gt_policy g))
                     \<and> pp_default_action (gt_policy g) = DefaultAuto)))"
proof -
  have um: "list_ex seg_unmemorable (ef_segments eff) \<longleftrightarrow>
      \<not> (\<forall>seg \<in> set (ef_segments eff). \<not> seg_unmemorable seg)"
    by (auto simp: list_ex_iff)
  show ?thesis
    using rule_effect_cases [of "store_verdict g tool_name eff"]
    by (cases "ef_class eff"; cases "pp_default_action (gt_policy g)")
      (auto simp: check_cases rule_outcome_verdict um has_dangerous_pattern_def settle_def)
qed

text \<open>C4. When a call runs without anybody being asked: exactly for a question to the user, or a
  tool that is not refused for good whose call has no dangerous pattern and is either read-only, or
  has no unmemorable segment and is covered by a rule of this session, by an allow rule of the
  store, or, where the store says nothing, by the policy.\<close>

theorem check_approves_iff:
  "fst (check rid tool_name eff g) = Some Approved \<longleftrightarrow>
    ef_class eff = NeedsHumanInput
    \<or> tool_name \<notin> set (lr_auto_denied_tools (gt_learned g)) \<and> ef_dangerous_kinds eff = []
      \<and> (ef_class eff = ReadOnly
         \<or> (\<forall>seg \<in> set (ef_segments eff). \<not> seg_unmemorable seg)
           \<and> (learned_allows (gt_learned g) tool_name eff
              \<or> store_verdict g tool_name eff = Some Allow
              \<or> store_verdict g tool_name eff = None
                \<and> (tool_name \<in> set (pp_auto_approve (gt_policy g))
                   \<or> tool_name \<notin> set (pp_always_ask (gt_policy g))
                     \<and> pp_default_action (gt_policy g) = DefaultAuto)))"
  by (rule check_approves_spec)

section \<open>What is always asked\<close>

lemma check_pending:
  assumes "fst (rule_outcome g t e) = Some (MustAsk refuse)"
  shows "fst (check rid t e g) = Some (NeedsApproval rid)"
    and "map_of (gt_pending (snd (check rid t e g))) rid =
      Some (PendingApproval \<lparr>ap_tool_name = Some t, ap_fingerprint = ef_command_fingerprint e,
        ap_effects = Some e, ap_refuse_remember = refuse\<rparr>)"
  using assms
  by (auto simp: check_def check_without_policy_def open_tool_approval_def open_approval_inner_def
      map_of_assoc_put Let_def split_beta)

lemma resolve_frozen:
  assumes "map_of (gt_pending g) rid = Some (PendingApproval p)" and "ap_refuse_remember p"
  shows "resolve rid decision g = Some (deliver rid (Decided decision) (drop_pending rid g))"
  using assms by (auto simp: resolve_def Let_def split: approval_decision.split)

text \<open>A call with a dangerous pattern is asked for every time, over any learned rule, rule file
  and policy (unless the tool is refused for good); and no reply to that request, not even \<open>allow and
  remember\<close>, leaves a rule behind: neither the session memory, nor the store, nor the disk changes.\<close>

theorem dangerous_is_asked_and_never_remembered:
  assumes "ef_dangerous_kinds eff \<noteq> []" and "ef_class eff \<noteq> NeedsHumanInput"
    and "tool_name \<notin> set (lr_auto_denied_tools (gt_learned g))"
    and "check rid tool_name eff g = (d, g1)"
  shows "d = Some (NeedsApproval rid)
    \<and> (\<exists>g2. resolve rid decision g1 = Some g2 \<and> gt_learned g2 = gt_learned g
          \<and> gt_store g2 = gt_store g \<and> gt_disk g2 = gt_disk g
          \<and> (rid, Decided decision) \<in> set (gt_outbox g2))"
proof -
  have o: "rule_outcome g tool_name eff = (Some (MustAsk True), gt_store g)"
    using assms(1-3) by (simp add: rule_outcome_def Let_def has_dangerous_pattern_def)
  have g1: "g1 = open_approval_inner rid (Some tool_name) (ef_command_fingerprint eff) (Some eff) True
      (g\<lparr>gt_store := gt_store g\<rparr>)"
    using assms(4) o
    by (simp add: check_def check_without_policy_def open_tool_approval_def Let_def)
  have p: "map_of (gt_pending g1) rid = Some (PendingApproval \<lparr>ap_tool_name = Some tool_name,
      ap_fingerprint = ef_command_fingerprint eff, ap_effects = Some eff, ap_refuse_remember = True\<rparr>)"
    and d: "d = Some (NeedsApproval rid)"
    using check_pending [of g tool_name eff True rid] o assms(4) by simp_all
  from resolve_frozen [OF p] d show ?thesis
    by (simp add: g1 open_approval_inner_def)
qed

text \<open>A command with an unmemorable segment (\<open>rm\<close>, \<open>dd\<close>, ...) that is not read-only is asked
  for every time, whatever was learned, is written in the rule files, or is set by the policy.\<close>

theorem unmemorable_is_asked:
  assumes "ef_class eff \<notin> {ReadOnly, NeedsHumanInput}"
    and "tool_name \<notin> set (lr_auto_denied_tools (gt_learned g))"
    and "seg \<in> set (ef_segments eff)" and "seg_unmemorable seg"
  shows "fst (check rid tool_name eff g) = Some (NeedsApproval rid)"
  using assms by (auto simp: check_cases rule_outcome_verdict list_ex_iff)

section \<open>Every request is answered once\<close>

text \<open>The operations of the gate on a run, and the request ids handed out so far. A fresh id has
  not been handed out before.\<close>

inductive gate_reach :: "str set \<Rightarrow> gate \<Rightarrow> bool" where
  start: "gt_pending g = [] \<Longrightarrow> gt_outbox g = [] \<Longrightarrow> gate_reach {} g"
| reach_check: "gate_reach ids g \<Longrightarrow> rid \<notin> ids \<Longrightarrow> check rid t e g = (d, g') \<Longrightarrow>
    gate_reach (if d = Some (NeedsApproval rid) then insert rid ids else ids) g'"
| reach_open: "gate_reach ids g \<Longrightarrow> rid \<notin> ids \<Longrightarrow>
    gate_reach (insert rid ids) (open_approval rid t fp g)"
| reach_open_frozen: "gate_reach ids g \<Longrightarrow> rid \<notin> ids \<Longrightarrow>
    gate_reach (insert rid ids) (open_approval_no_remember rid t fp g)"
| reach_question: "gate_reach ids g \<Longrightarrow> rid \<notin> ids \<Longrightarrow>
    gate_reach (insert rid ids) (open_question rid g)"
| reach_resolve: "gate_reach ids g \<Longrightarrow> resolve rid d g = Some g' \<Longrightarrow> gate_reach ids g'"
| reach_answer: "gate_reach ids g \<Longrightarrow> gate_reach ids (answer rid a g)"
| reach_cancel: "gate_reach ids g \<Longrightarrow> gate_reach ids (cancel_all_pending g)"
| reach_persist: "gate_reach ids g \<Longrightarrow> gate_reach ids (persist_judge_allowed_segments t e g)"
| reach_list: "gate_reach ids g \<Longrightarrow>
    gate_reach ids (snd (unapproved_memorable_writable_segments t e g))"
| reach_segments: "gate_reach ids g \<Longrightarrow> gate_reach ids (snd (approval_segments t e g))"

definition booked :: "str set \<Rightarrow> (str \<times> pending) list \<Rightarrow> (str \<times> reply) list \<Rightarrow> bool" where
  "booked ids p out \<longleftrightarrow>
     distinct (map fst p) \<and> distinct (map fst out)
     \<and> fst ` set p \<inter> fst ` set out = {} \<and> ids = fst ` set p \<union> fst ` set out"

lemma booked_open:
  "booked ids p out \<Longrightarrow> rid \<notin> ids \<Longrightarrow> booked (insert rid ids) (assoc_put rid x p) out"
  by (auto simp: booked_def distinct_assoc_put dom_assoc_put)

lemma booked_deliver:
  "booked ids p out \<Longrightarrow> rid \<in> fst ` set p \<Longrightarrow> booked ids (assoc_del rid p) (out @ [(rid, r)])"
  by (auto simp: booked_def distinct_assoc_del dom_assoc_del)

lemma booked_absent: "rid \<notin> fst ` set p \<Longrightarrow> assoc_del rid p = p"
  by (auto simp: assoc_del_def filter_id_conv)

lemma booked_deliver_all:
  assumes "booked ids p out" and "distinct xs" and "set xs \<subseteq> fst ` set p"
  shows "booked ids (filter (\<lambda>x. fst x \<notin> set xs) p) (out @ map (\<lambda>rid. (rid, r)) xs)"
proof -
  let ?p = "filter (\<lambda>x. fst x \<notin> set xs) p"
  have keys: "fst ` set ?p = fst ` set p - set xs" by auto
  have out: "fst ` set (out @ map (\<lambda>rid. (rid, r)) xs) = fst ` set out \<union> set xs"
    by (simp add: image_Un image_image)
  have "distinct (map fst ?p)" using assms(1) by (simp add: booked_def distinct_map_filter)
  moreover have "map fst (out @ map (\<lambda>rid. (rid, r)) xs) = map fst out @ xs"
    by (simp add: comp_def)
  ultimately show ?thesis
    using assms unfolding booked_def keys out by auto
qed

lemma pending_key: "map_of p rid = Some x \<Longrightarrow> rid \<in> fst ` set p"
  by (metis domI dom_map_of_conv_image_fst)

lemma booked_resolve:
  assumes b: "booked ids (gt_pending g) (gt_outbox g)" and r: "resolve rid d g = Some g'"
  shows "booked ids (gt_pending g') (gt_outbox g')"
proof (cases "map_of (gt_pending g) rid")
  case None
  then have "rid \<notin> fst ` set (gt_pending g)" by (simp add: map_of_eq_None_iff)
  then show ?thesis using b r None by (auto simp: resolve_def Let_def booked_absent)
next
  case (Some x)
  then have key: "rid \<in> fst ` set (gt_pending g)" by (rule pending_key)
  note del = booked_deliver [OF b key]
  show ?thesis
  proof (cases "\<exists>p name scope pat extras. x = PendingApproval p \<and> \<not> ap_refuse_remember p
      \<and> ap_tool_name p = Some name \<and> d = AllowAndRemember scope pat extras")
    case False
    then have "g' = deliver rid (case x of PendingQuestion \<Rightarrow> Closed | _ \<Rightarrow> Decided d) (drop_pending rid g)"
      using r Some
      by (auto simp: resolve_def Let_def split: pending.splits approval_decision.splits
          option.splits if_splits)
    then show ?thesis using del by simp
  next
    case True
    then obtain p name scope pat extras where x: "x = PendingApproval p" "\<not> ap_refuse_remember p"
      "ap_tool_name p = Some name" "d = AllowAndRemember scope pat extras" by blast
    let ?g1 = "remember_all scope name pat extras (drop_pending rid g)"
    obtain g2 where g2: "resolve_matching_pending rid ?g1 = Some g2"
      and g': "g' = deliver rid (Decided d) g2"
      using r Some x by (auto simp: resolve_def Let_def)
    let ?xs = "map fst (filter (\<lambda>y. rechecked ?g1 rid y = Some (Settled Approved))
      (assoc_del rid (gt_pending g)))"
    have keys: "distinct (map fst (assoc_del rid (gt_pending g)))"
      using b by (simp add: booked_def distinct_assoc_del)
    have "booked ids (filter (\<lambda>y. fst y \<notin> set ?xs) (assoc_del rid (gt_pending g)))
      ((gt_outbox g @ [(rid, Decided d)]) @ map (\<lambda>rid. (rid, Decided AllowOnce)) ?xs)"
      by (rule booked_deliver_all [OF del]) (use keys in \<open>auto simp: distinct_map_filter\<close>)
    then show ?thesis
      using resolve_matching_Some [OF g2]
      by (auto simp: g' frame_simps booked_def image_Un)
  qed
qed

lemma not_Allow: "e \<noteq> Allow \<longleftrightarrow> e = Deny"
  by (cases e) simp_all

lemma rule_outcome_no_open: "fst (rule_outcome g t e) \<noteq> Some (Settled (NeedsApproval r))"
  by (auto simp: rule_outcome_verdict settle_def split: rule_effect.splits)

lemma check_table:
  assumes "check rid t e g = (d, g')"
  shows "gt_outbox g' = gt_outbox g
    \<and> (if d = Some (NeedsApproval rid)
       then \<exists>x. gt_pending g' = assoc_put rid x (gt_pending g)
       else gt_pending g' = gt_pending g)"
proof -
  obtain out st where o: "rule_outcome g t e = (out, st)" by fastforce
  have no: "out \<noteq> Some (Settled (NeedsApproval r))" for r
    using rule_outcome_no_open [of g t e r] o by simp
  show ?thesis
    using assms o no
    by (cases out)
      (auto simp: check_def check_without_policy_def open_tool_approval_def open_approval_inner_def
        Let_def split: outcome.splits default_permission.splits if_splits)
qed

lemma segment_loops_frame [frame_simps]:
  "gt_pending (snd (unapproved_memorable_writable_segments t e g)) = gt_pending g"
  "gt_outbox (snd (unapproved_memorable_writable_segments t e g)) = gt_outbox g"
  "gt_learned (snd (unapproved_memorable_writable_segments t e g)) = gt_learned g"
  "gt_disk (snd (unapproved_memorable_writable_segments t e g)) = gt_disk g"
  "gt_pending (snd (approval_segments t e g)) = gt_pending g"
  "gt_outbox (snd (approval_segments t e g)) = gt_outbox g"
  by (simp_all add: unapproved_memorable_writable_segments_def approval_segments_def split_beta)

lemma persist_frame [frame_simps]:
  "gt_pending (persist_judge_allowed_segments t e g) = gt_pending g"
  "gt_outbox (persist_judge_allowed_segments t e g) = gt_outbox g"
  by (simp_all add: persist_judge_allowed_segments_def segments_to_auto_persist_def split_beta
      frame_simps)

lemma gate_reach_booked: "gate_reach ids g \<Longrightarrow> booked ids (gt_pending g) (gt_outbox g)"
proof (induction rule: gate_reach.induct)
  case (reach_check ids g rid t e d g')
  then show ?case using check_table [OF reach_check.hyps(3)]
    by (auto simp: booked_open split: if_splits)
next
  case (reach_resolve ids g rid d g')
  then show ?case by (simp add: booked_resolve)
next
  case (reach_answer ids g rid a)
  show ?case
  proof (cases "map_of (gt_pending g) rid")
    case None
    then have "rid \<notin> fst ` set (gt_pending g)" by (simp add: map_of_eq_None_iff)
    then show ?thesis using reach_answer None by (simp add: answer_def Let_def booked_absent)
  next
    case (Some x)
    then show ?thesis
      using reach_answer booked_deliver [OF _ pending_key [OF Some]]
      by (simp add: answer_def Let_def split: pending.split)
  qed
next
  case (reach_cancel ids g)
  then show ?case
    by (auto simp: cancel_all_pending_def booked_def image_Un image_image split_beta comp_def)
next
  case (start g)
  then show ?case by (simp add: booked_def)
qed (simp_all add: open_approval_def open_approval_no_remember_def
    open_approval_inner_def open_question_def frame_simps booked_open)

text \<open>C25. After any sequence of calls of the gate that return, whatever the surface sends, and however runs
  are interrupted: a request id that was handed out is either still pending or its waiter has been
  woken, never both, and no waiter is woken twice. A reply that locks the gate against itself does
  not return (\<open>pending_unmemorable_blocks_remember\<close>), and after it the gate answers nothing more.\<close>

theorem every_request_is_answered_once:
  assumes "gate_reach ids g"
  shows "distinct (map fst (gt_outbox g))
    \<and> (\<forall>rid \<in> ids. is_pending rid g \<noteq> (\<exists>r. (rid, r) \<in> set (gt_outbox g)))"
proof -
  have b: "booked ids (gt_pending g) (gt_outbox g)" using assms by (rule gate_reach_booked)
  have "is_pending rid g \<longleftrightarrow> rid \<in> fst ` set (gt_pending g)" for rid
    by (simp add: is_pending_def map_of_eq_None_iff)
  moreover have "(\<exists>r. (rid, r) \<in> set (gt_outbox g)) \<longleftrightarrow> rid \<in> fst ` set (gt_outbox g)" for rid
    by force
  ultimately show ?thesis using b by (auto simp: booked_def)
qed

text \<open>Interrupting a run wakes every waiter: approvals with a refusal, questions with
  \<open>Cancelled\<close>; nothing stays pending.\<close>

theorem cancel_answers_all:
  "gt_pending (cancel_all_pending g) = []
   \<and> (\<forall>rid p. (rid, p) \<in> set (gt_pending g) \<longrightarrow>
        (rid, case p of PendingApproval _ \<Rightarrow> Decided DenyOnce | PendingQuestion \<Rightarrow> Answered Cancelled)
        \<in> set (gt_outbox (cancel_all_pending g)))"
  by (force simp: cancel_all_pending_def cancel_reply_def image_iff)

section \<open>What a reply changes\<close>

lemma resolve_remember:
  assumes "map_of (gt_pending g) rid = Some (PendingApproval p)" and "\<not> ap_refuse_remember p"
    and "ap_tool_name p = Some name"
  shows "resolve rid (AllowAndRemember scope pat extras) g =
    map_option (deliver rid (Decided (AllowAndRemember scope pat extras)))
      (resolve_matching_pending rid (remember_all scope name pat extras (drop_pending rid g)))"
  using assms by (simp add: resolve_def Let_def)

lemma resolve_None:
  "resolve_matching_pending cur g = None \<longleftrightarrow>
    (\<exists>x \<in> set (gt_pending g). \<exists>b. rechecked g cur x = Some (MustAsk b))"
  by (simp add: resolve_matching_pending_def matching_ids_None)

lemma fold_remember_learned:
  "gt_learned (fold (\<lambda>x. remember scope t (Some x)) xs g) =
    (if scope = Session then fold (\<lambda>x. learn t (Some x)) xs (gt_learned g) else gt_learned g)"
  by (induction xs arbitrary: g) (simp_all add: remember_learned)

lemma remember_all_learned:
  "gt_learned (remember_all scope t pat xs g) =
    (if scope = Session then fold (\<lambda>x. learn t (Some x)) xs (learn t pat (gt_learned g))
     else gt_learned g)"
  by (simp add: remember_all_def fold_remember_learned remember_learned)

lemma fold_learn_denied [simp]:
  "lr_auto_denied_tools (fold (\<lambda>x. learn t (Some x)) xs lr) = lr_auto_denied_tools lr"
  by (induction xs arbitrary: lr) simp_all

lemma remember_all_denied [simp]:
  "lr_auto_denied_tools (gt_learned (remember_all scope t pat xs g)) = lr_auto_denied_tools (gt_learned g)"
  by (simp add: remember_all_learned)

lemma learn_patterns:
  "set (lr_auto_approved_patterns (learn t (Some p) lr)) =
    set (lr_auto_approved_patterns lr) \<union> (if trim p = [] then {} else {(t, trim p)})"
  by (simp add: learn_def)

lemma fold_learn_patterns:
  "set (lr_auto_approved_patterns (fold (\<lambda>x. learn t (Some x)) xs lr)) =
    set (lr_auto_approved_patterns lr) \<union> {(t, trim x) | x. x \<in> set xs \<and> trim x \<noteq> []}"
  by (induction xs arbitrary: lr) (auto simp: learn_patterns)

lemma learned_pattern_iff:
  "learned_pattern lr t fp \<longleftrightarrow>
    (\<exists>p. (t, p) \<in> set (lr_auto_approved_patterns lr) \<and> fingerprint_matches fp p)"
  by (auto simp: learned_pattern_def list_ex_iff)

text \<open>C30. \<open>Allow and remember\<close> in the scope of this session works for the whole compound command. When the
  request was not frozen against remembering, the reply returned, and the tool is not one this
  session was told to refuse: a call of the same tool without a dangerous pattern, each of whose
  segments is memorable and either only reads or matches one of the prefixes that were remembered,
  blank ones left out, runs without asking.\<close>

theorem remembered_segments_are_approved:
  assumes "map_of (gt_pending g) rid = Some (PendingApproval p)" and "\<not> ap_refuse_remember p"
    and "ap_tool_name p = Some tool_name"
    and "resolve rid (AllowAndRemember Session (Some pat) extras) g = Some g'"
    and "tool_name \<notin> set (lr_auto_denied_tools (gt_learned g))"
    and "ef_dangerous_kinds eff = []" and "ef_segments eff \<noteq> []"
    and "\<forall>seg \<in> set (ef_segments eff). \<not> seg_unmemorable seg \<and>
      (seg_is_readonly seg
       \<or> (\<exists>x \<in> set (pat # extras). trim x \<noteq> [] \<and> fingerprint_matches (seg_fingerprint seg) (trim x)))"
  shows "fst (check rid' tool_name eff g') = Some Approved"
proof -
  let ?g1 = "remember_all Session tool_name (Some pat) extras (drop_pending rid g)"
  obtain g2 where g2: "resolve_matching_pending rid ?g1 = Some g2"
    and g': "gt_learned g' = gt_learned g2"
    using assms(4) by (auto simp: resolve_remember [OF assms(1-3)])
  have lr: "gt_learned g' = fold (\<lambda>x. learn tool_name (Some x)) (pat # extras) (gt_learned g)"
    using resolve_matching_Some(3) [OF g2] by (simp add: g' remember_all_learned)
  have "learned_pattern (gt_learned g') tool_name fp"
    if "x \<in> set (pat # extras)" "trim x \<noteq> []" "fingerprint_matches fp (trim x)" for x fp
  proof -
    have "(tool_name, trim x) \<in> set (lr_auto_approved_patterns (gt_learned g'))"
      unfolding lr fold_learn_patterns using that(1,2) by blast
    then show ?thesis using that(3) by (auto simp: learned_pattern_iff)
  qed
  then have "learned_allows (gt_learned g') tool_name eff"
    using assms(7,8) unfolding learned_allows_def list_all_iff by (metis (no_types, lifting))
  moreover have "tool_name \<notin> set (lr_auto_denied_tools (gt_learned g'))"
    using assms(5) by (simp add: lr del: fold_simps)
  ultimately show ?thesis using assms(6-8) by (auto simp: check_approves_spec)
qed

section \<open>The properties on a concrete gate\<close>

text \<open>A gate with the store of \<open>ex_store\<close>, shell calls of given fingerprints, and the gate after
  a first call was asked for.\<close>

definition ex_gate :: gate where
  "ex_gate = with_store ex_store ''s'' (Some ''/w'') (new_gate default_policy ex_disk)"

definition ex_call :: "str list \<Rightarrow> effects" where
  "ex_call fps = effects_destructive_no_paths\<lparr>ef_segments := map ex_segment fps\<rparr>"

definition ex_dangerous :: effects where
  "ex_dangerous = (ex_call [''rm -rf''])\<lparr>ef_dangerous_kinds := [''rm-rf-root'']\<rparr>"

definition ex_unmemorable :: effects where
  "ex_unmemorable = (ex_call [])\<lparr>ef_segments := [(ex_segment ''rm a'')\<lparr>seg_unmemorable := True\<rparr>]\<rparr>"

definition ex_asked :: gate where
  "ex_asked = snd (check ''r1'' ''Bash'' (ex_call [''git push'']) ex_gate)"

definition ex_entry :: approval_entry where
  "ex_entry =
     \<lparr>ap_tool_name = Some ''Bash'', ap_fingerprint = None,
      ap_effects = Some (ex_call [''git push'']), ap_refuse_remember = False\<rparr>"

lemma ex_asked_pending: "map_of (gt_pending ex_asked) ''r1'' = Some (PendingApproval ex_entry)"
  by code_simp

lemma check_approves_iff_witness:
  "fst (check ''r'' ''Bash'' (ex_call [''ls'']) ex_gate) = Some Approved"
  by (subst check_approves_iff) code_simp

lemma dangerous_is_asked_and_never_remembered_witness:
  "\<exists>g1 g2. check ''r'' ''Bash'' ex_dangerous ex_gate = (Some (NeedsApproval ''r''), g1)
     \<and> resolve ''r'' (AllowAndRemember Global (Some ''rm'') []) g1 = Some g2
     \<and> gt_disk g2 = gt_disk ex_gate"
proof -
  obtain d g1 where c: "check ''r'' ''Bash'' ex_dangerous ex_gate = (d, g1)"
    by fastforce
  have "ef_dangerous_kinds ex_dangerous \<noteq> []" "ef_class ex_dangerous \<noteq> NeedsHumanInput"
    "''Bash'' \<notin> set (lr_auto_denied_tools (gt_learned ex_gate))"
    by code_simp+
  from dangerous_is_asked_and_never_remembered [OF this c] c show ?thesis by blast
qed

lemma unmemorable_is_asked_witness:
  "fst (check ''r'' ''Bash'' ex_unmemorable ex_gate) = Some (NeedsApproval ''r'')"
proof (rule unmemorable_is_asked)
  show "hd (ef_segments ex_unmemorable) \<in> set (ef_segments ex_unmemorable)"
    "seg_unmemorable (hd (ef_segments ex_unmemorable))"
    "ef_class ex_unmemorable \<notin> {ReadOnly, NeedsHumanInput}"
    "''Bash'' \<notin> set (lr_auto_denied_tools (gt_learned ex_gate))"
    by code_simp+
qed

lemma every_request_is_answered_once_witness:
  "distinct (map fst (gt_outbox ex_asked))
   \<and> (is_pending ''r1'' ex_asked \<noteq> (\<exists>r. (''r1'', r) \<in> set (gt_outbox ex_asked)))"
proof -
  have "gate_reach {} ex_gate" by (rule start) code_simp+
  moreover have "fst (check ''r1'' ''Bash'' (ex_call [''git push'']) ex_gate)
      = Some (NeedsApproval ''r1'')" by code_simp
  ultimately have "gate_reach {''r1''} ex_asked"
    using reach_check [of "{}" ex_gate "''r1''" "''Bash''" "ex_call [''git push'']"]
    by (simp add: ex_asked_def prod_eq_iff)
  from every_request_is_answered_once [OF this] show ?thesis by blast
qed

lemma cancel_answers_all_witness:
  "(''q'', Answered Cancelled) \<in> set (gt_outbox (cancel_all_pending (open_question ''q'' ex_gate)))"
proof -
  have "(''q'', PendingQuestion) \<in> set (gt_pending (open_question ''q'' ex_gate))"
    by (simp add: open_question_def assoc_put_def)
  with cancel_answers_all [of "open_question ''q'' ex_gate"] show ?thesis by fastforce
qed

lemma remembered_segments_are_approved_witness:
  "\<exists>g'. resolve ''r1'' (AllowAndRemember Session (Some ''git push'') [''npm test'']) ex_asked = Some g'
     \<and> fst (check ''r2'' ''Bash'' (ex_call [''git push origin'', ''npm test'']) g') = Some Approved"
proof -
  let ?d = "AllowAndRemember Session (Some ''git push'') [''npm test'']"
  let ?e = "ex_call [''git push origin'', ''npm test'']"
  have "resolve ''r1'' ?d ex_asked \<noteq> None" by code_simp
  then obtain g' where g': "resolve ''r1'' ?d ex_asked = Some g'" by blast
  have p: "\<not> ap_refuse_remember ex_entry" "ap_tool_name ex_entry = Some ''Bash''"
    by (simp_all add: ex_entry_def)
  have e: "''Bash'' \<notin> set (lr_auto_denied_tools (gt_learned ex_asked))"
    "ef_dangerous_kinds ?e = []" "ef_segments ?e \<noteq> []"
    "\<forall>seg \<in> set (ef_segments ?e). \<not> seg_unmemorable seg \<and>
      (seg_is_readonly seg
       \<or> (\<exists>x \<in> set (''git push'' # [''npm test'']). trim x \<noteq> []
            \<and> fingerprint_matches (seg_fingerprint seg) (trim x)))"
    by code_simp+
  from remembered_segments_are_approved [OF ex_asked_pending p g' e] g' show ?thesis by blast
qed

end
