(* ===== verification/Hitl_Memory.thy ===== *)
theory Hitl_Memory
  imports Hitl_Laws
begin

text \<open>
  What the gate remembers and whom a reply lets through: the approvals that are settled together
  with another one, the pending approval that blocks the gate, the segments shown and remembered.
\<close>

section \<open>Other approvals\<close>

lemma rechecked_approved:
  assumes "rechecked g cur x = Some (Settled Approved)"
  obtains q t e where "snd x = PendingApproval q" "\<not> ap_refuse_remember q"
    "ap_tool_name q = Some t" "ap_effects q = Some e" "fst x \<noteq> cur"
    "fst (rule_outcome g t e) = Some (Settled Approved)"
  using assms
  by (cases "snd x")
    (auto simp: rechecked_def recheck_def bind_eq_Some_conv split: if_splits)

text \<open>A reply to one request wakes another one only when the rules it just added let that call
  through: the other request was an approval of a tool call that may be remembered, its waiter
  gets \<open>allow once\<close>, and a new check of the same call would be approved without asking. Questions,
  path approvals and dangerous calls are left pending.\<close>

theorem settled_together_means_approved:
  assumes "map_of (gt_pending g) rid = Some (PendingApproval p)" and "\<not> ap_refuse_remember p"
    and "ap_tool_name p = Some name" and "distinct (map fst (gt_pending g))"
    and "resolve rid (AllowAndRemember scope pat extras) g = Some g'"
    and "(other, r) \<in> set (gt_outbox g')" and "(other, r) \<notin> set (gt_outbox g)" and "other \<noteq> rid"
  shows "r = Decided AllowOnce
    \<and> (\<exists>q t e. map_of (gt_pending g) other = Some (PendingApproval q) \<and> \<not> ap_refuse_remember q
        \<and> ap_tool_name q = Some t \<and> ap_effects q = Some e
        \<and> fst (check rid' t e (remember_all scope name pat extras (drop_pending rid g)))
            = Some Approved)"
proof -
  let ?g1 = "remember_all scope name pat extras (drop_pending rid g)"
  obtain g2 where g2: "resolve_matching_pending rid ?g1 = Some g2"
    and g': "gt_outbox g' = gt_outbox g2 @ [(rid, Decided (AllowAndRemember scope pat extras))]"
    using assms(5) by (auto simp: resolve_remember [OF assms(1-3)])
  have out: "(other, r) \<in> set (map (\<lambda>rid. (rid, Decided AllowOnce)) (map fst (filter
      (\<lambda>x. rechecked ?g1 rid x = Some (Settled Approved)) (assoc_del rid (gt_pending g)))))"
    using assms(6-8) resolve_matching_Some(2) [OF g2] by (auto simp: g' frame_simps)
  then obtain x where x: "x \<in> set (gt_pending g)" "fst x = other" "r = Decided AllowOnce"
    and rc: "rechecked ?g1 rid x = Some (Settled Approved)"
    by (auto simp: set_assoc_del)
  from rc obtain q t e where q: "snd x = PendingApproval q" "\<not> ap_refuse_remember q"
    "ap_tool_name q = Some t" "ap_effects q = Some e"
    and o: "fst (rule_outcome ?g1 t e) = Some (Settled Approved)"
    by (rule rechecked_approved)
  have "map_of (gt_pending g) other = Some (PendingApproval q)"
    using assms(4) x q(1) by (cases x) auto
  moreover have "fst (check rid' t e ?g1) = Some Approved"
    using o by (simp add: check_cases)
  ultimately show ?thesis using x(3) q by blast
qed

text \<open>An approval of a command with an unmemorable segment that is pending while another one is
  answered with \<open>allow and remember\<close> blocks the gate for good: re-checking it opens a new approval
  under the lock of the pending table, so \<open>resolve\<close> does not return and neither waiter is woken.\<close>

theorem pending_unmemorable_blocks_remember:
  assumes "map_of (gt_pending g) rid = Some (PendingApproval p)" and "\<not> ap_refuse_remember p"
    and "ap_tool_name p = Some name"
    and "(other, PendingApproval q) \<in> set (gt_pending g)" and "other \<noteq> rid"
    and "\<not> ap_refuse_remember q" and "ap_tool_name q = Some t" and "ap_effects q = Some e"
    and "ef_class e \<notin> {ReadOnly, NeedsHumanInput}" and "ef_dangerous_kinds e = []"
    and "seg \<in> set (ef_segments e)" and "seg_unmemorable seg"
    and "t \<notin> set (lr_auto_denied_tools (gt_learned g))"
  shows "resolve rid (AllowAndRemember scope pat extras) g = None"
proof -
  let ?g1 = "remember_all scope name pat extras (drop_pending rid g)"
  have "list_ex seg_unmemorable (ef_segments e)"
    using assms(11,12) by (auto simp: list_ex_iff)
  then have "fst (rule_outcome ?g1 t e) = Some (MustAsk False)"
    using assms(9,10,13) by (simp add: rule_outcome_verdict has_dangerous_pattern_def)
  then have "rechecked ?g1 rid (other, PendingApproval q) = Some (MustAsk False)"
    using assms(5-8) by (simp add: rechecked_def recheck_def)
  moreover have "(other, PendingApproval q) \<in> set (gt_pending ?g1)"
    using assms(4,5) by (simp add: frame_simps set_assoc_del)
  ultimately have "resolve_matching_pending rid ?g1 = None"
    unfolding resolve_None by blast
  then show ?thesis by (simp add: resolve_remember [OF assms(1-3)])
qed

section \<open>Segments shown and segments remembered\<close>

definition covered_now :: "gate \<Rightarrow> str \<Rightarrow> segment_effect \<Rightarrow> bool" where
  "covered_now g t seg = fst (segment_covered g t seg (gt_store g))"

lemma segment_covered_alike:
  assumes "alike g (gt_store g) st"
  shows "fst (segment_covered g t seg st) = covered_now g t seg"
    and "alike g (gt_store g) (snd (segment_covered g t seg st))"
proof -
  show "fst (segment_covered g t seg st) = covered_now g t seg"
    using assms find_for_segments_same
    by (cases st; cases "gt_store g")
      (auto simp: segment_covered_def covered_now_def alike_def split_beta)
  have "alike g st (snd (segment_covered g t seg st))"
    by (cases st)
      (simp_all add: segment_covered_def alike_def split_beta refreshes_same refreshes_segments)
  with assms show "alike g (gt_store g) (snd (segment_covered g t seg st))" by (rule alike_trans)
qed

lemma unapproved_loop_set:
  "alike g (gt_store g) st \<Longrightarrow>
    set (fst (unapproved_loop g t segs out st)) = set out \<union> {seg_fingerprint seg | seg.
      seg \<in> set segs \<and> \<not> seg_is_readonly seg \<and> \<not> seg_unmemorable seg \<and> \<not> covered_now g t seg}
    \<and> (distinct out \<longrightarrow> distinct (fst (unapproved_loop g t segs out st)))"
proof (induction segs arbitrary: out st)
  case (Cons seg segs)
  note c = segment_covered_alike [OF Cons.prems, of t seg]
  show ?case
  proof (cases "seg_is_readonly seg \<or> seg_unmemorable seg")
    case True
    then show ?thesis using Cons.IH [OF Cons.prems, of out] by auto
  next
    case False
    then show ?thesis
      using Cons.IH [OF c(2), of "if covered_now g t seg then out else push_new (seg_fingerprint seg) out"] c(1)
      by (auto simp: split_beta split: if_splits)
  qed
qed simp

lemma approval_loop_map:
  "alike g (gt_store g) st \<Longrightarrow>
    fst (approval_loop g t segs st) = map (\<lambda>seg. (seg_fingerprint seg,
      if seg_is_readonly seg then Readonly else if seg_unmemorable seg then Unmemorable
      else if covered_now g t seg then Whitelisted else NeedsDecision)) segs"
proof (induction segs arbitrary: st)
  case (Cons seg segs)
  note c = segment_covered_alike [OF Cons.prems, of t seg]
  show ?case
    using Cons.IH [OF Cons.prems] Cons.IH [OF c(2)] c(1) by (simp add: split_beta)
qed simp

lemma unapproved_set:
  "set (fst (unapproved_memorable_writable_segments t e g)) = {seg_fingerprint seg | seg.
      seg \<in> set (ef_segments e) \<and> \<not> seg_is_readonly seg \<and> \<not> seg_unmemorable seg
      \<and> \<not> covered_now g t seg}"
  "distinct (fst (unapproved_memorable_writable_segments t e g))"
  using unapproved_loop_set [OF alike_refl, of g t "ef_segments e" "[]"]
  by (simp_all add: unapproved_memorable_writable_segments_def split_beta)

text \<open>The approval dialog is consistent: the prefixes it offers to remember are exactly those of
  the segments it shows as needing a decision, each once.\<close>

theorem offered_segments_are_those_shown:
  "set (fst (unapproved_memorable_writable_segments tool_name eff g)) =
      {fp. (fp, NeedsDecision) \<in> set (fst (approval_segments tool_name eff g))}
   \<and> distinct (fst (unapproved_memorable_writable_segments tool_name eff g))
   \<and> map fst (fst (approval_segments tool_name eff g)) = map seg_fingerprint (ef_segments eff)"
  using approval_loop_map [OF alike_refl, of g tool_name "ef_segments eff"]
    unapproved_set(1) [of tool_name eff g] unapproved_set(2) [of tool_name eff g]
  by (auto simp: approval_segments_def split_beta comp_def split: if_splits)

lemma auto_persist_set:
  "fp \<in> set (fst (segments_to_auto_persist t e g)) \<Longrightarrow>
    \<exists>seg \<in> set (ef_segments e). seg_fingerprint seg = fp \<and> \<not> seg_is_readonly seg
      \<and> \<not> seg_unmemorable seg \<and> \<not> seg_egress seg"
  by (auto simp: segments_to_auto_persist_def split_beta unapproved_set)

lemma add_session_disk [simp]: "gt_disk (remember Session t (Some p) g) = gt_disk g"
  by (auto simp: remember_def add_to_store_def store_add_def Let_def split: option.splits sum.splits)

lemma fold_session_disk [simp]: "gt_disk (fold (\<lambda>x. remember Session t (Some x)) xs g) = gt_disk g"
  by (induction xs arbitrary: g) simp_all

text \<open>What the judge's approvals leave behind is harmless: only prefixes of segments that are
  writing, memorable and do not send data out, only for the shell tool itself, only for this
  session, and nothing on the disk.\<close>

theorem judge_remembers_only_contained_segments:
  assumes "(t, pfx) \<in> set (lr_auto_approved_patterns
      (gt_learned (persist_judge_allowed_segments tool_name eff g)))"
    and "(t, pfx) \<notin> set (lr_auto_approved_patterns (gt_learned g))"
  shows "t = tool_name \<and> tool_name \<in> {''Bash'', ''PowerShell''}
    \<and> (\<exists>seg \<in> set (ef_segments eff). pfx = trim (seg_fingerprint seg) \<and> \<not> seg_is_readonly seg
        \<and> \<not> seg_unmemorable seg \<and> \<not> seg_egress seg)
    \<and> gt_disk (persist_judge_allowed_segments tool_name eff g) = gt_disk g"
proof -
  obtain fps g1 where s: "segments_to_auto_persist tool_name eff g = (fps, g1)" by fastforce
  have g1: "gt_learned g1 = gt_learned g" "gt_disk g1 = gt_disk g"
    using s frame_simps by (auto simp: segments_to_auto_persist_def split_beta)
  have shell: "tool_name \<in> {''Bash'', ''PowerShell''}"
    using assms by (auto simp: persist_judge_allowed_segments_def split: if_splits)
  then have p: "persist_judge_allowed_segments tool_name eff g
      = fold (\<lambda>fp. remember Session tool_name (Some fp)) fps g1"
    by (auto simp: persist_judge_allowed_segments_def s)
  have "t = tool_name \<and> (\<exists>fp \<in> set fps. pfx = trim fp)"
    using assms unfolding p fold_remember_learned by (auto simp: fold_learn_patterns g1)
  moreover have "\<exists>seg \<in> set (ef_segments eff). seg_fingerprint seg = fp \<and> \<not> seg_is_readonly seg
      \<and> \<not> seg_unmemorable seg \<and> \<not> seg_egress seg" if "fp \<in> set fps" for fp
    using auto_persist_set [of fp tool_name eff g] s that by simp
  ultimately show ?thesis using shell g1 by (auto simp: p)
qed

section \<open>A rule for the whole tool\<close>

lemma remember_session_store:
  assumes "gt_store g = Some st" and "gt_session_id g = Some sid"
    and "build_pattern t pat = Some s" and "parse_permission s = Inr p"
  shows "gt_store (remember Session t pat g) = Some (st\<lparr>st_sessions := assoc_put sid
      (update_session (insert_rule p) Allow
        (case map_of (st_sessions st) sid of None \<Rightarrow> ([], []) | Some r \<Rightarrow> r)) (st_sessions st)\<rparr>)"
    and "gt_disk (remember Session t pat g) = gt_disk g"
  using assms by (auto simp: remember_def add_to_store_def store_add_def Let_def)

lemma views_put_sessions [simp]:
  "global_view dk (st\<lparr>st_sessions := s\<rparr>) = global_view dk st"
  "project_view dk wd (st\<lparr>st_sessions := s\<rparr>) = project_view dk wd st"
  by (auto simp: project_view_def project_entry_def intro: refresh_global_cong)

lemma insert_rule_member: "\<exists>q \<in> set (insert_rule p ps). pm_raw q = pm_raw p"
  by (auto simp: insert_rule_def list_ex_iff)

lemma bash_rule: "parse_permission ''Bash'' = Inr \<lparr>pm_raw = ''Bash'', pm_tool = ''Bash'', pm_arg = ArgAny\<rparr>"
proof -
  have "trim ''Bash'' = ''Bash''" by code_simp
  then show ?thesis by (simp add: parse_permission_def Let_def)
qed

text \<open>\<open>Allow and remember for this session\<close> without a pattern does not count as \<open>allow once\<close> for
  \<open>Bash\<close>: the session memory stays as it was, as promised, but with a store attached the session
  gets the rule \<open>Bash\<close>, and from then on every command that is not dangerous or unmemorable runs
  without asking.\<close>

theorem remember_without_pattern_allows_every_command:
  assumes "gt_store g = Some st" and "gt_session_id g = Some sid"
    and "map_of (st_sessions st) sid = None"
    and "deny_rules (gt_disk g) st (Some sid) (gt_workdir g) = []"
    and "ef_dangerous_kinds eff = []" and "''Bash'' \<notin> set (lr_auto_denied_tools (gt_learned g))"
    and "\<forall>seg \<in> set (ef_segments eff). \<not> seg_unmemorable seg"
    and "\<exists>seg \<in> set (ef_segments eff). \<not> seg_is_readonly seg"
  shows "gt_learned (remember Session ''Bash'' None g) = gt_learned g
    \<and> fst (check rid ''Bash'' eff (remember Session ''Bash'' None g)) = Some Approved"
proof -
  let ?g = "remember Session ''Bash'' None g"
  let ?p = "\<lparr>pm_raw = ''Bash'', pm_tool = ''Bash'', pm_arg = ArgAny\<rparr>"
  let ?st = "st\<lparr>st_sessions := assoc_put sid ([?p], []) (st_sessions st)\<rparr>"
  have lr: "gt_learned ?g = gt_learned g"
    by (simp add: remember_learned learn_def NO_TOOL_LEVEL_MEMORY_def)
  have b: "build_pattern ''Bash'' None = Some ''Bash''" by (simp add: build_pattern_def)
  have st: "gt_store ?g = Some ?st" "gt_disk ?g = gt_disk g"
    using remember_session_store [OF assms(1,2) b bash_rule] assms(3)
    by (simp_all add: update_session_def insert_rule_def)
  have deny: "deny_rules (gt_disk g) ?st (Some sid) (gt_workdir g) = []"
    using assms(3,4)
    by (simp add: deny_rules_def session_layer_def map_of_assoc_put split: option.splits)
  have allow: "?p \<in> set (allow_rules (gt_disk g) ?st (Some sid) (gt_workdir g))"
    by (simp add: allow_rules_def session_layer_def map_of_assoc_put)
  have hit: "segment_allowed ''Bash'' (allow_rules (gt_disk g) ?st (Some sid) (gt_workdir g)) seg" for seg
    unfolding segment_allowed_def
    by (rule bexI [OF _ allow]) (simp add: segment_hits_def perm_matches_def)
  have "store_verdict ?g ''Bash'' eff = Some Allow"
    using assms(2,8) st hit find_for_segments_verdict_lemma [of "gt_disk g" "Some sid" "gt_workdir g" "''Bash''" "ef_segments eff" ?st]
    by (auto simp: store_verdict_def store_rule_def Let_def frame_simps deny segment_denied_def
        segment_allowed_def)
  then show ?thesis
    using assms(5-7) lr by (auto simp: check_approves_spec)
qed

section \<open>The properties on a concrete gate\<close>

text \<open>Two calls of the same kind are pending; or a second one with an unmemorable segment.\<close>

definition ex_both :: gate where
  "ex_both = snd (check ''r2'' ''Bash'' (ex_call [''git push'']) ex_asked)"

definition ex_stuck :: gate where
  "ex_stuck = snd (check ''r2'' ''Bash'' ex_unmemorable ex_asked)"

lemma settled_together_means_approved_witness:
  "\<exists>g'. resolve ''r1'' (AllowAndRemember Session (Some ''git push'') []) ex_both = Some g'
     \<and> (''r2'', Decided AllowOnce) \<in> set (gt_outbox g')"
proof -
  let ?d = "AllowAndRemember Session (Some ''git push'') []"
  have s: "map_option (\<lambda>g. map_of (gt_outbox g) ''r2'' \<noteq> None) (resolve ''r1'' ?d ex_both) = Some True"
    by code_simp
  then obtain g' r where g': "resolve ''r1'' ?d ex_both = Some g'" and r: "map_of (gt_outbox g') ''r2'' = Some r"
    by auto
  have b: "map_of (gt_pending ex_both) ''r1'' = Some (PendingApproval ex_entry)"
    "\<not> ap_refuse_remember ex_entry" "ap_tool_name ex_entry = Some ''Bash''"
    "distinct (map fst (gt_pending ex_both))"
    by code_simp+
  have o: "gt_outbox ex_both = []" by code_simp
  show ?thesis
    using settled_together_means_approved [OF b g' map_of_SomeD [OF r]] o g' map_of_SomeD [OF r]
    by simp
qed

lemma pending_unmemorable_blocks_remember_witness:
  "resolve ''r1'' (AllowAndRemember Session (Some ''git push'') []) ex_stuck = None"
proof (rule pending_unmemorable_blocks_remember [where p = ex_entry and name = "''Bash''"
      and other = "''r2''" and q = "ex_entry\<lparr>ap_effects := Some ex_unmemorable\<rparr>" and t = "''Bash''"
      and e = ex_unmemorable and seg = "hd (ef_segments ex_unmemorable)"])
  show "(''r2'', PendingApproval (ex_entry\<lparr>ap_effects := Some ex_unmemorable\<rparr>)) \<in> set (gt_pending ex_stuck)"
    "ef_class ex_unmemorable \<notin> {ReadOnly, NeedsHumanInput}"
    "hd (ef_segments ex_unmemorable) \<in> set (ef_segments ex_unmemorable)"
    "map_of (gt_pending ex_stuck) ''r1'' = Some (PendingApproval ex_entry)"
    "''Bash'' \<notin> set (lr_auto_denied_tools (gt_learned ex_stuck))"
    by code_simp+
qed code_simp+

lemma judge_remembers_only_contained_segments_witness:
  "(''Bash'', ''git push'') \<in> set (lr_auto_approved_patterns
      (gt_learned (persist_judge_allowed_segments ''Bash'' (ex_call [''git push'']) ex_gate)))
   \<and> gt_disk (persist_judge_allowed_segments ''Bash'' (ex_call [''git push'']) ex_gate) = gt_disk ex_gate"
proof -
  have l: "(''Bash'', ''git push'') \<in> set (lr_auto_approved_patterns
      (gt_learned (persist_judge_allowed_segments ''Bash'' (ex_call [''git push'']) ex_gate)))"
    "(''Bash'', ''git push'') \<notin> set (lr_auto_approved_patterns (gt_learned ex_gate))"
    by code_simp+
  from l(1) judge_remembers_only_contained_segments [OF l] show ?thesis by blast
qed

text \<open>A store without any rule.\<close>

definition ex_open :: gate where
  "ex_open =
     with_store \<lparr>st_global = default_view, st_projects = [], st_sessions = []\<rparr> ''s'' None
       (new_gate default_policy \<lparr>dk_files = Map.empty, dk_now = 1, dk_read_ok = True, dk_write_ok = True\<rparr>)"

lemma remember_without_pattern_allows_every_command_witness:
  "fst (check ''r'' ''Bash'' (ex_call [''curl x'']) (remember Session ''Bash'' None ex_open)) = Some Approved"
proof -
  let ?st = "\<lparr>st_global = default_view, st_projects = [], st_sessions = []\<rparr> :: store"
  have "gt_store ex_open = Some ?st" "gt_session_id ex_open = Some ''s''"
    by (simp_all add: ex_open_def with_store_def)
  moreover have "map_of (st_sessions ?st) ''s'' = None"
    "deny_rules (gt_disk ex_open) ?st (Some ''s'') (gt_workdir ex_open) = []"
    "ef_dangerous_kinds (ex_call [''curl x'']) = []"
    "''Bash'' \<notin> set (lr_auto_denied_tools (gt_learned ex_open))"
    "\<forall>seg \<in> set (ef_segments (ex_call [''curl x''])). \<not> seg_unmemorable seg"
    "\<exists>seg \<in> set (ef_segments (ex_call [''curl x''])). \<not> seg_is_readonly seg"
    by code_simp+
  ultimately show ?thesis
    using remember_without_pattern_allows_every_command by blast
qed

end
