(* ===== verification/Workspace.thy ===== *)
theory Workspace
  imports Rust_Path
begin

text \<open>
  \<open>crates/agent-core/src/workspace.rs\<close>: which paths a conversation may touch. The file system is
  an argument: \<open>ho_canonicalize\<close> is \<open>std::fs::canonicalize\<close> (\<open>None\<close> where it fails) and
  \<open>ho_temp_dir\<close> is \<open>std::env::temp_dir\<close>. Paths compare by component.
\<close>

record host =
  ho_canonicalize :: "path \<Rightarrow> path option"
  ho_temp_dir :: path

record workspace =
  ws_workdir :: path
  ws_initial :: "path list"
  ws_announced :: "path list"
  ws_pending :: "path list"

section \<open>Canonical paths\<close>

text \<open>\<open>canonicalize_lossy\<close>: walk up to the first ancestor that exists and put the names below it
  back. The components come last first. A component that is not a name ends the walk, and then the
  path is taken as it was written.\<close>

fun lossy_up :: "host \<Rightarrow> component list \<Rightarrow> str list \<Rightarrow> path option" where
  "lossy_up h (Normal name # cs) suf =
     (case ho_canonicalize h (render (rev cs)) of
        Some p \<Rightarrow> Some (fold (\<lambda>part out. path_join out part) (name # suf) p)
      | None \<Rightarrow> lossy_up h cs (name # suf))"
| "lossy_up h _ suf = None"

definition canonicalize_lossy :: "host \<Rightarrow> path \<Rightarrow> path" where
  "canonicalize_lossy h p =
     (case ho_canonicalize h p of
        Some q \<Rightarrow> q
      | None \<Rightarrow> (case lossy_up h (rev (components p)) [] of Some q \<Rightarrow> q | None \<Rightarrow> p))"

definition is_unrestricted_device :: "path \<Rightarrow> bool" where
  "is_unrestricted_device p \<longleftrightarrow>
     p \<in> {''/dev/null'', ''/dev/zero'', ''/dev/random'', ''/dev/urandom''}
     \<or> to_ascii_lowercase p = ''nul''
     \<or> to_ascii_lowercase p = [bs, bs, CHR ''.'', bs] @ ''nul''"

definition is_temporary_path :: "host \<Rightarrow> path \<Rightarrow> bool" where
  "is_temporary_path h p =
     (let canon = canonicalize_lossy h p in
      if comp_starts_with canon (canonicalize_lossy h (ho_temp_dir h)) then True
      else case ho_canonicalize h ''/tmp'' of
        Some t \<Rightarrow> comp_starts_with canon t
      | None \<Rightarrow> False)"

section \<open>The workspace\<close>

definition dedup :: "path list \<Rightarrow> path list" where
  "dedup v = dedup_on components [] v"

definition canonical_or_self :: "host \<Rightarrow> path \<Rightarrow> path" where
  "canonical_or_self h p = (case ho_canonicalize h p of Some q \<Rightarrow> q | None \<Rightarrow> p)"

definition resolve_paths :: "host \<Rightarrow> path \<Rightarrow> path list \<Rightarrow> path list" where
  "resolve_paths h workdir =
     map (\<lambda>p. canonical_or_self h (if is_relative p then path_join workdir p else p))"

definition with_runtime_state ::
  "host \<Rightarrow> path \<Rightarrow> path list \<Rightarrow> path list \<Rightarrow> path list \<Rightarrow> workspace" where
  "with_runtime_state h workdir initial announced pending =
     (let i = dedup (resolve_paths h workdir initial);
          a = filter (\<lambda>p. \<not> path_contains i p) (dedup (resolve_paths h workdir announced));
          p = filter (\<lambda>p. \<not> path_contains i p \<and> \<not> path_contains a p)
                (dedup (resolve_paths h workdir pending))
      in \<lparr>ws_workdir = workdir, ws_initial = i, ws_announced = a, ws_pending = p\<rparr>)"

definition new_workspace :: "host \<Rightarrow> path \<Rightarrow> path list \<Rightarrow> workspace" where
  "new_workspace h workdir initial = with_runtime_state h workdir initial [] []"

definition allowed_paths_snapshot :: "workspace \<Rightarrow> path list" where
  "allowed_paths_snapshot w =
     fold push_path (ws_pending w) (fold push_path (ws_announced w) (ws_initial w))"

definition add_allowed_path :: "host \<Rightarrow> path \<Rightarrow> workspace \<Rightarrow> workspace" where
  "add_allowed_path h raw w =
     (let p = canonical_or_self h raw in
      if path_contains (ws_initial w) p then w
      else if path_contains (ws_announced w) p then w
      else w\<lparr>ws_pending := push_path p (ws_pending w)\<rparr>)"

definition take_pending_announcement :: "workspace \<Rightarrow> path list \<times> workspace" where
  "take_pending_announcement w =
     (if ws_pending w = [] then ([], w)
      else (ws_pending w,
            w\<lparr>ws_announced := fold push_path (ws_pending w) (ws_announced w), ws_pending := []\<rparr>))"

definition allows :: "host \<Rightarrow> workspace \<Rightarrow> path \<Rightarrow> bool" where
  "allows h w p =
     (if is_unrestricted_device p \<or> is_temporary_path h p then True
      else
        let canon = canonicalize_lossy h p;
            below = (\<lambda>root. comp_starts_with canon (canonicalize_lossy h root))
        in below (ws_workdir w) \<or> list_ex below (ws_initial w) \<or> list_ex below (ws_announced w)
           \<or> list_ex below (ws_pending w))"

definition resolve_cwd :: "workspace \<Rightarrow> str option \<Rightarrow> path" where
  "resolve_cwd w cwd =
     (case cwd of None \<Rightarrow> ws_workdir w | Some p \<Rightarrow> if p = [] then ws_workdir w else p)"

section \<open>What holds of it\<close>

definition workspace_wf :: "workspace \<Rightarrow> bool" where
  "workspace_wf w \<longleftrightarrow>
     distinct (map components (ws_initial w @ ws_announced w @ ws_pending w))"

lemma distinct_dedup [simp]: "distinct (map components (dedup v))"
  by (simp add: dedup_def distinct_dedup_on)

lemma fold_push_path:
  "components ` set (fold push_path ps qs) = components ` set ps \<union> components ` set qs"
  by (induction ps arbitrary: qs) (auto simp: push_path_components)

lemma distinct_fold_push:
  "distinct (map components qs) \<Longrightarrow> distinct (map components (fold push_path ps qs))"
  by (induction ps arbitrary: qs) (simp_all add: distinct_push_path)

lemma fold_push_new:
  "distinct (map components (qs @ ps)) \<Longrightarrow> fold push_path ps qs = qs @ ps"
proof (induction ps arbitrary: qs)
  case (Cons p ps)
  then have "push_path p qs = qs @ [p]" by (auto simp: push_path_def path_contains_iff)
  then show ?case using Cons.IH [of "qs @ [p]"] Cons.prems by simp
qed simp

lemma with_runtime_state_wf: "workspace_wf (with_runtime_state h wd i a p)"
proof -
  have disj: "components ` set i \<inter> components ` set (filter (\<lambda>p. \<not> path_contains i p \<and> Q p) ps) = {}"
    for i ps Q
    by (auto simp: path_contains_iff image_iff)
  let ?i = "dedup (resolve_paths h wd i)"
  let ?a = "filter (\<lambda>p. \<not> path_contains ?i p) (dedup (resolve_paths h wd a))"
  let ?p = "filter (\<lambda>p. \<not> path_contains ?i p \<and> \<not> path_contains ?a p) (dedup (resolve_paths h wd p))"
  have "components ` set ?i \<inter> components ` set ?a = {}"
    using disj [of ?i "\<lambda>_. True"] by simp
  moreover have "components ` set ?i \<inter> components ` set ?p = {}"
    by (rule disj)
  moreover have "components ` set ?a \<inter> components ` set ?p = {}"
    using disj [of ?a "\<lambda>p. \<not> path_contains ?i p" "dedup (resolve_paths h wd p)"]
    by (simp add: conj_commute)
  ultimately show ?thesis
    by (simp add: workspace_wf_def with_runtime_state_def Let_def distinct_map_filter
        Int_Un_distrib image_Un del: set_filter)
qed

lemma add_allowed_path_wf: "workspace_wf w \<Longrightarrow> workspace_wf (add_allowed_path h p w)"
  by (auto simp: workspace_wf_def add_allowed_path_def push_path_def Let_def path_contains_iff)

lemma take_pending_wf: "workspace_wf w \<Longrightarrow> workspace_wf (snd (take_pending_announcement w))"
  by (auto simp: workspace_wf_def take_pending_announcement_def fold_push_new)

text \<open>A path that was granted is announced to the model exactly once, and telling the model
  changes nothing for it: a path is never in two of the three lists, \<open>take_pending_announcement\<close>
  returns what was granted and not yet announced and leaves nothing of it pending, and every path
  is allowed after it exactly when it was before.\<close>

theorem announcing_keeps_access:
  assumes "workspace_wf w"
  shows "fst (take_pending_announcement w) = ws_pending w
    \<and> ws_pending (snd (take_pending_announcement w)) = []
    \<and> ws_announced (snd (take_pending_announcement w)) = ws_announced w @ ws_pending w
    \<and> workspace_wf (snd (take_pending_announcement w))
    \<and> allows h (snd (take_pending_announcement w)) p = allows h w p"
proof -
  have "fold push_path (ws_pending w) (ws_announced w) = ws_announced w @ ws_pending w"
    by (rule fold_push_new) (use assms in \<open>auto simp: workspace_wf_def\<close>)
  then show ?thesis
    using take_pending_wf [OF assms]
    by (auto simp: take_pending_announcement_def allows_def Let_def)
qed

lemma allows_mono:
  "ws_workdir w' = ws_workdir w \<Longrightarrow> set (ws_initial w) \<subseteq> set (ws_initial w') \<Longrightarrow>
    set (ws_announced w) \<subseteq> set (ws_announced w') \<Longrightarrow> set (ws_pending w) \<subseteq> set (ws_pending w') \<Longrightarrow>
    allows h w p \<Longrightarrow> allows h w' p"
  by (auto simp: allows_def Let_def list_ex_iff split: if_splits)

lemma allows_root:
  "root \<in> set (ws_initial w) \<union> set (ws_announced w) \<union> set (ws_pending w) \<Longrightarrow>
    comp_starts_with (canonicalize_lossy h p) (canonicalize_lossy h root) \<Longrightarrow> allows h w p"
  by (auto simp: allows_def Let_def list_ex_iff)

text \<open>Granting a path opens it and everything below it, and closes nothing: when the host
  resolves the granted path to \<open>q\<close>, and every spelling of \<open>q\<close> to \<open>q\<close> itself, then whatever
  resolves to a place below \<open>q\<close>, and whatever was allowed before, is allowed afterwards.\<close>

theorem granted_path_is_allowed:
  assumes "ho_canonicalize h p = Some q" and "\<forall>s. path_eq s q \<longrightarrow> ho_canonicalize h s = Some q"
    and "comp_starts_with (canonicalize_lossy h r) q \<or> allows h w r"
  shows "allows h (add_allowed_path h p w) r"
proof -
  let ?w = "add_allowed_path h p w"
  have q: "canonical_or_self h p = q" using assms(1) by (simp add: canonical_or_self_def)
  have "\<exists>s. path_eq s q \<and> s \<in> set (ws_initial ?w) \<union> set (ws_announced ?w) \<union> set (ws_pending ?w)"
    by (auto simp: add_allowed_path_def q Let_def push_path_def path_contains_iff path_eq_def)
  then obtain s where s: "path_eq s q"
    "s \<in> set (ws_initial ?w) \<union> set (ws_announced ?w) \<union> set (ws_pending ?w)" by blast
  have "canonicalize_lossy h s = q" using assms(2) s(1) by (simp add: canonicalize_lossy_def)
  then have "allows h ?w r" if "comp_starts_with (canonicalize_lossy h r) q"
    using allows_root [OF s(2)] that by simp
  moreover have "allows h ?w r" if "allows h w r"
    by (rule allows_mono [OF _ _ _ _ that])
      (auto simp: add_allowed_path_def push_path_def Let_def)
  ultimately show ?thesis using assms(3) by blast
qed

text \<open>The guard against \<open>..\<close> has a hole: below a directory that does not exist yet, a path is
  compared as it was written, so it is allowed whatever \<open>..\<close> follows, although it names a place
  outside as soon as the directory is there.\<close>

theorem parent_steps_below_a_new_directory_are_allowed:
  assumes "ho_canonicalize h ''/ws'' = Some ''/ws''" and "ws_workdir w = ''/ws''"
    and "ho_canonicalize h ''/ws/new/../../etc/x'' = None"
    and "ho_canonicalize h ''/ws/new/../../etc'' = None"
    and "ho_canonicalize h ''/ws/new/../..'' = None"
  shows "allows h w ''/ws/new/../../etc/x''"
proof -
  have c: "components ''/ws/new/../../etc/x'' =
      [RootDir, Normal ''ws'', Normal ''new'', ParentDir, ParentDir, Normal ''etc'', Normal ''x'']"
    by (simp add: components_def inner_component_def map_filter_simps)
  have r: "render [RootDir, Normal ''ws'', Normal ''new'', ParentDir, ParentDir, Normal ''etc''] = ''/ws/new/../../etc''"
    "render [RootDir, Normal ''ws'', Normal ''new'', ParentDir, ParentDir] = ''/ws/new/../..''"
    by (simp_all add: render_def path_join_def)
  have "canonicalize_lossy h ''/ws/new/../../etc/x'' = ''/ws/new/../../etc/x''"
    using assms(3-5) by (simp add: canonicalize_lossy_def c r)
  moreover have "canonicalize_lossy h (ws_workdir w) = ''/ws''"
    using assms(1,2) by (simp add: canonicalize_lossy_def)
  moreover have "comp_starts_with ''/ws/new/../../etc/x'' ''/ws''"
    by (simp add: comp_starts_with_def c) (simp add: components_def inner_component_def map_filter_simps)
  ultimately show ?thesis by (simp add: allows_def Let_def)
qed

section \<open>The properties on a concrete host\<close>

text \<open>A host where every path exists and resolves to its normal spelling, and one where only
  \<open>/ws\<close> exists.\<close>

definition ex_host :: host where
  "ex_host = \<lparr>ho_canonicalize = (\<lambda>p. Some (render (components p))), ho_temp_dir = ''/tmp''\<rparr>"

definition ex_bare_host :: host where
  "ex_bare_host =
     \<lparr>ho_canonicalize = (\<lambda>p. if p = ''/ws'' then Some p else None), ho_temp_dir = ''/tmp''\<rparr>"

definition ex_workspace :: workspace where
  "ex_workspace =
     \<lparr>ws_workdir = ''/ws'', ws_initial = [''/lib''], ws_announced = [], ws_pending = [''/opt'']\<rparr>"

lemma announcing_keeps_access_witness:
  "fst (take_pending_announcement ex_workspace) = [''/opt'']
   \<and> allows ex_host (snd (take_pending_announcement ex_workspace)) ''/opt/x''"
proof -
  have "workspace_wf ex_workspace" by code_simp
  moreover have "ws_pending ex_workspace = [''/opt'']" "allows ex_host ex_workspace ''/opt/x''"
    by code_simp+
  ultimately show ?thesis using announcing_keeps_access by simp
qed

lemma granted_path_is_allowed_witness:
  "allows ex_host (add_allowed_path ex_host ''/data/'' ex_workspace) ''/data/a/../b''"
proof (rule granted_path_is_allowed)
  show "ho_canonicalize ex_host ''/data/'' = Some ''/data''" by code_simp
  have "render (components ''/data'') = ''/data''" by code_simp
  then show "\<forall>s. path_eq s ''/data'' \<longrightarrow> ho_canonicalize ex_host s = Some ''/data''"
    by (simp add: path_eq_def ex_host_def)
  show "comp_starts_with (canonicalize_lossy ex_host ''/data/a/../b'') ''/data''
      \<or> allows ex_host ex_workspace ''/data/a/../b''"
    by code_simp
qed

lemma parent_steps_below_a_new_directory_are_allowed_witness:
  "allows ex_bare_host ex_workspace ''/ws/new/../../etc/x''"
  by (rule parent_steps_below_a_new_directory_are_allowed)
    (simp_all add: ex_bare_host_def ex_workspace_def)

end
