(* ===== verification/Run_Mode.thy ===== *)
theory Run_Mode
  imports Rust_Str
begin

text \<open>
  \<open>crates/agent-core/src/run_mode.rs\<close>: the run mode with its two names, and the two registries
  of live runs. The shared handles (\<open>Arc<Mutex<RunMode>>\<close>, \<open>Arc<AtomicBool>\<close>) are cells of a
  heap; a registry maps a session to the cell its run holds, so that a \<open>set\<close> is seen by the
  dispatcher that reads the cell.
\<close>

datatype run_mode = DefaultMode | PlanMode | AutoMode | Yolo

definition run_mode_as_str :: "run_mode \<Rightarrow> str" where
  "run_mode_as_str m =
     (case m of
        DefaultMode \<Rightarrow> ''Default'' | PlanMode \<Rightarrow> ''PlanMode''
      | AutoMode \<Rightarrow> ''AutoMode'' | Yolo \<Rightarrow> ''Yolo'')"

definition run_mode_parse :: "str \<Rightarrow> run_mode option" where
  "run_mode_parse s =
     (let l = to_ascii_lowercase s in
      if l \<in> {''default'', ''ask-before-edits'', ''askbeforeedits'', ''ask'', ''edit-automatically'',
              ''editautomatically'', ''edit-auto'', ''auto-edit''} then Some DefaultMode
      else if l \<in> {''plan-mode'', ''planmode'', ''plan''} then Some PlanMode
      else if l \<in> {''auto-mode'', ''automode'', ''auto''} then Some AutoMode
      else if l = ''yolo'' then Some Yolo
      else None)"

section \<open>Live registries\<close>

type_synonym cell = nat

record live_modes =
  lm_table :: "str \<rightharpoonup> cell"
  lm_cells :: "cell \<Rightarrow> run_mode"

definition mode_register :: "str \<Rightarrow> cell \<Rightarrow> live_modes \<Rightarrow> live_modes" where
  "mode_register sid c r = r\<lparr>lm_table := (lm_table r)(sid \<mapsto> c)\<rparr>"

definition mode_unregister :: "str \<Rightarrow> live_modes \<Rightarrow> live_modes" where
  "mode_unregister sid r = r\<lparr>lm_table := (lm_table r)(sid := None)\<rparr>"

definition mode_set :: "str \<Rightarrow> run_mode \<Rightarrow> live_modes \<Rightarrow> bool \<times> live_modes" where
  "mode_set sid m r =
     (case lm_table r sid of
        Some c \<Rightarrow> (True, r\<lparr>lm_cells := (lm_cells r)(c := m)\<rparr>)
      | None \<Rightarrow> (False, r))"

definition mode_get :: "str \<Rightarrow> live_modes \<Rightarrow> run_mode option" where
  "mode_get sid r = map_option (lm_cells r) (lm_table r sid)"

text \<open>The hands-off switch: \<open>set\<close> makes a cell of its own where no run is live. \<open>lf_next\<close> is the
  next cell that was never handed out.\<close>

record live_force =
  lf_table :: "str \<rightharpoonup> cell"
  lf_cells :: "cell \<Rightarrow> bool"
  lf_next :: cell

definition force_register :: "str \<Rightarrow> cell \<Rightarrow> live_force \<Rightarrow> live_force" where
  "force_register sid c r = r\<lparr>lf_table := (lf_table r)(sid \<mapsto> c)\<rparr>"

definition force_unregister :: "str \<Rightarrow> live_force \<Rightarrow> live_force" where
  "force_unregister sid r = r\<lparr>lf_table := (lf_table r)(sid := None)\<rparr>"

definition force_set :: "str \<Rightarrow> bool \<Rightarrow> live_force \<Rightarrow> live_force" where
  "force_set sid enabled r =
     (case lf_table r sid of
        Some c \<Rightarrow> r\<lparr>lf_cells := (lf_cells r)(c := enabled)\<rparr>
      | None \<Rightarrow>
          r\<lparr>lf_table := (lf_table r)(sid \<mapsto> lf_next r),
            lf_cells := (lf_cells r)(lf_next r := enabled),
            lf_next := Suc (lf_next r)\<rparr>)"

definition force_get :: "str \<Rightarrow> live_force \<Rightarrow> bool" where
  "force_get sid r = (case lf_table r sid of None \<Rightarrow> False | Some c \<Rightarrow> lf_cells r c)"

section \<open>Facts\<close>

text \<open>Every mode's own name parses back to it, in any letter case: two spellings that differ
  in the case of ASCII letters only are the same mode.\<close>

theorem run_mode_roundtrip:
  "run_mode_parse (run_mode_as_str m) = Some m
   \<and> run_mode_parse (to_ascii_lowercase s) = run_mode_parse s"
proof
  show "run_mode_parse (run_mode_as_str m) = Some m"
    by (cases m) (simp_all add: run_mode_as_str_def run_mode_parse_def ascii_lower_def Let_def char_of_def bit_0)
  show "run_mode_parse (to_ascii_lowercase s) = run_mode_parse s"
    by (simp add: run_mode_parse_def comp_def)
qed

lemma force_get_set: "force_get sid (force_set sid b r) = b"
  by (simp add: force_get_def force_set_def split: option.split)

lemma mode_set_live:
  "mode_set sid m r = (True, r') \<Longrightarrow> lm_table r sid = Some c \<Longrightarrow> lm_cells r' c = m"
  by (auto simp: mode_set_def)

end
