(* ===== verification/Dispatch.thy ===== *)
theory Dispatch
  imports Hitl_Memory Workspace Run_Mode
begin

text \<open>
  The permission part of \<open>crates/agent-core/src/dispatch.rs\<close>. \<open>spawn_tool\<close> first decides
  synchronously (effects, path gate, tool gate: \<open>prepare\<close> here) and returns a future; the future
  asks the judge, waits for the replies, runs the hook and executes (\<open>call_step\<close>). The judge, the
  hooks, the file system and the shell grammar are outside code: the judge's and the hook's
  outcomes are free in a step, the others are arguments.
\<close>

section \<open>Data\<close>

record tool_call =
  tc_id :: str
  tc_name :: str
  tc_input :: json

record dispatcher =
  dp_gate :: gate
  dp_workspace :: workspace
  dp_run_mode :: run_mode
  dp_has_judge :: bool
  dp_force_automode :: bool
  dp_subagent_bypass :: bool
  dp_session_id :: "str option"
  dp_data_dir :: "path option"
  dp_cancelled :: bool

datatype automode_decision = JudgeAllow | JudgeDeny str | JudgeAsk str

definition collapse_ask_to_deny :: "automode_decision \<Rightarrow> automode_decision" where
  "collapse_ask_to_deny d =
     (case d of JudgeAsk reason \<Rightarrow> JudgeDeny (''force-automode: '' @ reason) | _ \<Rightarrow> d)"

section \<open>Decisions that ask nobody\<close>

definition edit_auto_allowed :: "str \<Rightarrow> run_mode \<Rightarrow> bool \<Rightarrow> bool \<Rightarrow> bool" where
  "edit_auto_allowed tool_name mode paths_in_bounds touches_git_meta \<longleftrightarrow>
     tool_name \<in> {''Edit'', ''Write''} \<and> mode \<in> {DefaultMode, AutoMode, Yolo}
     \<and> paths_in_bounds \<and> \<not> touches_git_meta"

definition bash_safe_write_allowed :: "str \<Rightarrow> effects \<Rightarrow> bool \<Rightarrow> bool" where
  "bash_safe_write_allowed tool_name eff paths_in_bounds \<longleftrightarrow>
     tool_name \<in> {''Bash'', ''PowerShell''} \<and> paths_in_bounds \<and> \<not> has_dangerous_pattern eff
     \<and> ef_segments eff \<noteq> [] \<and> list_ex seg_safe_write (ef_segments eff)
     \<and> list_all (\<lambda>s. seg_is_readonly s \<or> seg_safe_write s) (ef_segments eff)"

definition yolo_decision ::
  "run_mode \<Rightarrow> bool \<Rightarrow> bool \<Rightarrow> bool \<Rightarrow> str list \<Rightarrow> permission_decision option" where
  "yolo_decision mode dangerous paths_in_bounds touches_git_meta kinds =
     (if mode \<noteq> Yolo then None
      else if \<not> paths_in_bounds then Some (Denied DeniedOutOfBounds)
      else if touches_git_meta then Some (Denied DeniedGitMeta)
      else if dangerous then Some (Denied (DeniedDangerous kinds))
      else Some Approved)"

section \<open>Effects of a call in its workspace\<close>

definition is_shell :: "str \<Rightarrow> bool" where
  "is_shell name \<longleftrightarrow> name = ''Bash'' \<or> name = ''PowerShell''"

definition bash_cwd :: "workspace \<Rightarrow> json \<Rightarrow> path" where
  "bash_cwd w input =
     (let raw = resolve_cwd w (json_get_str input ''cwd'') in
      if is_relative raw then path_join (ws_workdir w) raw else raw)"

definition resolve_shell_paths :: "workspace \<Rightarrow> json \<Rightarrow> effects \<Rightarrow> effects" where
  "resolve_shell_paths w input eff =
     (let cwd = bash_cwd w input;
          ps = map (\<lambda>p. if is_relative p then path_join cwd p else p) (ef_paths eff)
      in eff\<lparr>ef_paths := (if ps = [] then [cwd] else ps)\<rparr>)"

text \<open>\<open>cd <inside>; git ...\<close>: every \<open>cd\<close> target lies in the workspace.\<close>

definition cd_inside :: "host \<Rightarrow> externals \<Rightarrow> workspace \<Rightarrow> json \<Rightarrow> bool option" where
  "cd_inside h ext w input =
     (case json_get_str input ''command'' of
        None \<Rightarrow> Some False
      | Some cmd \<Rightarrow>
          map_option
            (\<lambda>r. case r of
               Inl _ \<Rightarrow> False
             | Inr parsed \<Rightarrow>
                 let targets = cd_targets (ps_commands parsed) in
                 targets \<noteq> []
                 \<and> list_all (\<lambda>t. allows h w (if is_absolute t then t else path_join (ws_workdir w) t))
                     targets)
            (parse ext cmd))"

definition exempt_cd_git :: "host \<Rightarrow> externals \<Rightarrow> workspace \<Rightarrow> json \<Rightarrow> effects \<Rightarrow> effects option" where
  "exempt_cd_git h ext w input eff =
     (if ''cd-git-compound'' \<in> set (ef_dangerous_kinds eff) then
        map_option (\<lambda>inside.
            if inside
            then eff\<lparr>ef_dangerous_kinds := filter (\<lambda>k. k \<noteq> ''cd-git-compound'') (ef_dangerous_kinds eff)\<rparr>
            else eff)
          (cd_inside h ext w input)
      else Some eff)"

definition call_effects :: "host \<Rightarrow> externals \<Rightarrow> workspace \<Rightarrow> tool_call \<Rightarrow> effects option" where
  "call_effects h ext w call =
     Option.bind (analyze_effects ext (tc_name call) (tc_input call)) (\<lambda>eff.
       if is_shell (tc_name call)
       then exempt_cd_git h ext w (tc_input call) (resolve_shell_paths w (tc_input call) eff)
       else Some eff)"

section \<open>The path gate\<close>

definition session_artifact :: "dispatcher \<Rightarrow> path \<Rightarrow> bool" where
  "session_artifact d p =
     (case (dp_data_dir d, dp_session_id d) of
        (Some dd, Some sid) \<Rightarrow> comp_starts_with p (path_join (path_join dd ''sessions'') sid)
      | _ \<Rightarrow> False)"

definition readonly_data_dir :: "dispatcher \<Rightarrow> effects \<Rightarrow> path \<Rightarrow> bool" where
  "readonly_data_dir d eff p \<longleftrightarrow>
     ef_class eff = ReadOnly
     \<and> (case dp_data_dir d of None \<Rightarrow> False | Some dd \<Rightarrow> comp_starts_with p dd)"

text \<open>The paths that nothing allows, with the store refreshed along the way.\<close>

fun out_of_scope ::
  "host \<Rightarrow> dispatcher \<Rightarrow> effects \<Rightarrow> path list \<Rightarrow> store option \<Rightarrow> path list \<times> store option" where
  "out_of_scope h d eff [] st = ([], st)"
| "out_of_scope h d eff (p # ps) st =
     (if allows h (dp_workspace d) p \<or> session_artifact d p \<or> readonly_data_dir d eff p
      then out_of_scope h d eff ps st
      else case st of
        None \<Rightarrow> map_prod ((#) p) id (out_of_scope h d eff ps None)
      | Some s \<Rightarrow>
          let (hit, s') = allows_path_diagnostic (gt_disk (dp_gate d)) (dp_session_id d)
                            (Some (ws_workdir (dp_workspace d))) p s
          in if hit \<noteq> None then out_of_scope h d eff ps (Some s')
             else map_prod ((#) p) id (out_of_scope h d eff ps (Some s')))"

section \<open>The synchronous part of \<open>spawn_tool\<close>\<close>

record prepared =
  pr_effects :: effects
  pr_path :: "(str \<times> path list) option"
  pr_permission :: permission_decision
  pr_force :: bool

definition tool_gate ::
  "str \<Rightarrow> tool_call \<Rightarrow> effects \<Rightarrow> bool \<Rightarrow> dispatcher \<Rightarrow> permission_decision option \<times> gate" where
  "tool_gate rid call eff in_bounds d =
     (let mode = dp_run_mode d;
          git_meta = list_ex is_git_meta_path (ef_paths eff);
          yolo = yolo_decision mode (has_dangerous_pattern eff) in_bounds git_meta
                   (ef_dangerous_kinds eff)
      in case yolo of
           Some dec \<Rightarrow> (Some dec, dp_gate d)
         | None \<Rightarrow>
             if edit_auto_allowed (tc_name call) mode in_bounds git_meta then (Some Approved, dp_gate d)
             else if bash_safe_write_allowed (tc_name call) eff in_bounds then (Some Approved, dp_gate d)
             else if dp_subagent_bypass d \<and> \<not> has_dangerous_pattern eff then (Some Approved, dp_gate d)
             else check rid (tc_name call) eff (dp_gate d))"

text \<open>What the request event shows: the store is refreshed once more.\<close>

definition describe_request :: "permission_decision \<Rightarrow> tool_call \<Rightarrow> effects \<Rightarrow> gate \<Rightarrow> gate" where
  "describe_request dec call eff g =
     (case dec of
        NeedsApproval _ \<Rightarrow>
          snd (approval_segments (tc_name call) eff
            (snd (unapproved_memorable_writable_segments (tc_name call) eff g)))
      | _ \<Rightarrow> g)"

definition prepare ::
  "host \<Rightarrow> externals \<Rightarrow> str \<Rightarrow> str \<Rightarrow> tool_call \<Rightarrow> dispatcher \<Rightarrow> (prepared \<times> dispatcher) option" where
  "prepare h ext path_rid tool_rid call d =
     Option.bind (call_effects h ext (dp_workspace d) call) (\<lambda>eff.
       let (outside, st) = out_of_scope h d eff (ef_paths eff) (gt_store (dp_gate d));
           g1 = (dp_gate d)\<lparr>gt_store := st\<rparr>;
           in_bounds = (outside = []);
           asks_path = (\<not> in_bounds \<and> dp_run_mode d \<noteq> Yolo);
           g2 = (if asks_path then open_approval path_rid None None g1 else g1);
           (dec, g3) = tool_gate tool_rid call eff in_bounds (d\<lparr>dp_gate := g2\<rparr>)
       in case dec of
            None \<Rightarrow> None
          | Some p \<Rightarrow>
              Some (\<lparr>pr_effects = eff, pr_path = (if asks_path then Some (path_rid, outside) else None),
                     pr_permission = p, pr_force = dp_force_automode d\<rparr>,
                    d\<lparr>dp_gate := describe_request p call eff g3\<rparr>))"

section \<open>The future of \<open>spawn_tool\<close>\<close>

datatype denial =
    PathClosed | PathRefused
  | ToolClosed | ToolRefused
  | Feedback str
  | RefusedBy deny_reason
  | HookBlocked str

datatype call_result = CallDenied denial | CallCancelled | CallExecuted json

datatype hook_outcome = HookContinue | HookBlock str | HookModify "json option"

datatype phase =
    PathJudging | PathWaiting | ToolJudging | CancelCheck | ToolWaiting | HookPending
  | Executing json
  | Finished call_result

record running =
  rn_call :: tool_call
  rn_prepared :: prepared
  rn_judge :: bool
  rn_phase :: phase

text \<open>Where the future goes once the paths are settled, and where it starts.\<close>

definition after_paths :: "bool \<Rightarrow> prepared \<Rightarrow> phase" where
  "after_paths judge pr =
     (case pr_permission pr of
        NeedsApproval _ \<Rightarrow> if judge then ToolJudging else CancelCheck
      | _ \<Rightarrow> CancelCheck)"

definition start_call :: "tool_call \<Rightarrow> prepared \<Rightarrow> dispatcher \<Rightarrow> running" where
  "start_call call pr d =
     (let judge = (dp_run_mode d = AutoMode \<and> dp_has_judge d) in
      \<lparr>rn_call = call, rn_prepared = pr, rn_judge = judge,
       rn_phase = (case pr_path pr of
                     None \<Rightarrow> after_paths judge pr
                   | Some _ \<Rightarrow> if judge then PathJudging else PathWaiting)\<rparr>)"

definition fold_judgement :: "bool \<Rightarrow> automode_decision \<Rightarrow> automode_decision" where
  "fold_judgement force d = (if force then collapse_ask_to_deny d else d)"

definition path_judged :: "str \<Rightarrow> automode_decision \<Rightarrow> gate \<Rightarrow> gate option" where
  "path_judged rid d g =
     (case d of
        JudgeAllow \<Rightarrow> resolve rid AllowOnce g
      | JudgeDeny reason \<Rightarrow> resolve rid (DenyWithFeedback reason) g
      | JudgeAsk _ \<Rightarrow> Some g)"

definition tool_judged ::
  "str \<Rightarrow> str \<Rightarrow> effects \<Rightarrow> bool \<Rightarrow> automode_decision \<Rightarrow> gate \<Rightarrow> gate option" where
  "tool_judged rid tool_name eff force d g =
     (case d of
        JudgeAllow \<Rightarrow> resolve rid AllowOnce (persist_judge_allowed_segments tool_name eff g)
      | JudgeDeny reason \<Rightarrow>
          if is_shell tool_name \<and> \<not> force then Some g
          else resolve rid (DenyWithFeedback reason) g
      | JudgeAsk _ \<Rightarrow> Some g)"

text \<open>What a granted path leaves in the workspace and in the store.\<close>

definition grant_path :: "host \<Rightarrow> permission_scope \<Rightarrow> path \<Rightarrow> dispatcher \<Rightarrow> dispatcher" where
  "grant_path h scope p d =
     (let d1 = d\<lparr>dp_workspace := add_allowed_path h p (dp_workspace d)\<rparr>; g = dp_gate d1 in
      case gt_store g of
        None \<Rightarrow> d1
      | Some st \<Rightarrow>
          if scope \<in> {Once, Session} then d1
          else
            let wd = (if scope = Project then Some (ws_workdir (dp_workspace d1)) else None);
                (_, dk', st') = add_path scope wd p (gt_disk g) st
            in d1\<lparr>dp_gate := g\<lparr>gt_disk := dk', gt_store := Some st'\<rparr>\<rparr>)"

definition settle_path ::
  "host \<Rightarrow> path list \<Rightarrow> reply \<Rightarrow> dispatcher \<Rightarrow> (denial + unit) \<times> dispatcher" where
  "settle_path h paths r d =
     (case r of
        Decided AllowOnce \<Rightarrow> (Inr (), d)
      | Decided (AllowAndRemember scope _ _) \<Rightarrow> (Inr (), fold (grant_path h scope) paths d)
      | Decided DenyOnce \<Rightarrow> (Inl PathRefused, d)
      | Decided (DenyWithFeedback f) \<Rightarrow> (Inl (Feedback f), d)
      | Answered _ \<Rightarrow> (Inl PathClosed, d)
      | Closed \<Rightarrow> (Inl PathClosed, d))"

definition settle_tool :: "reply \<Rightarrow> denial + unit" where
  "settle_tool r =
     (case r of
        Decided AllowOnce \<Rightarrow> Inr ()
      | Decided (AllowAndRemember _ _ _) \<Rightarrow> Inr ()
      | Decided DenyOnce \<Rightarrow> Inl ToolRefused
      | Decided (DenyWithFeedback f) \<Rightarrow> Inl (Feedback f)
      | Answered _ \<Rightarrow> Inl ToolClosed
      | Closed \<Rightarrow> Inl ToolClosed)"

text \<open>After the judge (\<open>CancelCheck\<close>) and again before the hook the future stops when the run is
  cancelled.\<close>

definition settled_phase :: "denial + unit \<Rightarrow> bool \<Rightarrow> phase" where
  "settled_phase r cancelled =
     (case r of
        Inl reason \<Rightarrow> Finished (CallDenied reason)
      | Inr _ \<Rightarrow> if cancelled then Finished CallCancelled else HookPending)"

definition hook_phase :: "json \<Rightarrow> hook_outcome \<Rightarrow> phase" where
  "hook_phase input out =
     (case out of
        HookContinue \<Rightarrow> Executing input
      | HookBlock reason \<Rightarrow> Finished (CallDenied (HookBlocked reason))
      | HookModify (Some input') \<Rightarrow> Executing input'
      | HookModify None \<Rightarrow> Executing input)"

text \<open>One step of the future, or of the world around it: other calls, the surface and the user
  change the dispatcher in any way, but a reply once sent stays sent.\<close>

inductive call_step :: "host \<Rightarrow> running \<times> dispatcher \<Rightarrow> running \<times> dispatcher \<Rightarrow> bool" for h where
  path_judge:
    "rn_phase r = PathJudging \<Longrightarrow> pr_path (rn_prepared r) = Some (rid, ps) \<Longrightarrow>
     path_judged rid (fold_judgement (pr_force (rn_prepared r)) j) (dp_gate d) = Some g \<Longrightarrow>
     call_step h (r, d) (r\<lparr>rn_phase := PathWaiting\<rparr>, d\<lparr>dp_gate := g\<rparr>)"
| path_wait_granted:
    "rn_phase r = PathWaiting \<Longrightarrow> pr_path (rn_prepared r) = Some (rid, ps) \<Longrightarrow>
     (rid, rep) \<in> set (gt_outbox (dp_gate d)) \<Longrightarrow> settle_path h ps rep d = (Inr u, d') \<Longrightarrow>
     call_step h (r, d) (r\<lparr>rn_phase := after_paths (rn_judge r) (rn_prepared r)\<rparr>, d')"
| path_wait_denied:
    "rn_phase r = PathWaiting \<Longrightarrow> pr_path (rn_prepared r) = Some (rid, ps) \<Longrightarrow>
     (rid, rep) \<in> set (gt_outbox (dp_gate d)) \<Longrightarrow> settle_path h ps rep d = (Inl reason, d') \<Longrightarrow>
     call_step h (r, d) (r\<lparr>rn_phase := Finished (CallDenied reason)\<rparr>, d')"
| tool_judge:
    "rn_phase r = ToolJudging \<Longrightarrow> pr_permission (rn_prepared r) = NeedsApproval rid \<Longrightarrow>
     tool_judged rid (tc_name (rn_call r)) (pr_effects (rn_prepared r)) (pr_force (rn_prepared r))
       (fold_judgement (pr_force (rn_prepared r)) j) (dp_gate d) = Some g \<Longrightarrow>
     call_step h (r, d) (r\<lparr>rn_phase := CancelCheck\<rparr>, d\<lparr>dp_gate := g\<rparr>)"
| cancel_check:
    "rn_phase r = CancelCheck \<Longrightarrow>
     call_step h (r, d)
       (r\<lparr>rn_phase := (if dp_cancelled d then Finished CallCancelled else ToolWaiting)\<rparr>, d)"
| tool_approved:
    "rn_phase r = ToolWaiting \<Longrightarrow> pr_permission (rn_prepared r) = Approved \<Longrightarrow>
     call_step h (r, d) (r\<lparr>rn_phase := settled_phase (Inr ()) (dp_cancelled d)\<rparr>, d)"
| tool_denied:
    "rn_phase r = ToolWaiting \<Longrightarrow> pr_permission (rn_prepared r) = Denied reason \<Longrightarrow>
     call_step h (r, d) (r\<lparr>rn_phase := Finished (CallDenied (RefusedBy reason))\<rparr>, d)"
| tool_replied:
    "rn_phase r = ToolWaiting \<Longrightarrow> pr_permission (rn_prepared r) = NeedsApproval rid \<Longrightarrow>
     (rid, rep) \<in> set (gt_outbox (dp_gate d)) \<Longrightarrow>
     call_step h (r, d) (r\<lparr>rn_phase := settled_phase (settle_tool rep) (dp_cancelled d)\<rparr>, d)"
| hook:
    "rn_phase r = HookPending \<Longrightarrow>
     call_step h (r, d) (r\<lparr>rn_phase := hook_phase (tc_input (rn_call r)) out\<rparr>, d)"
| execute:
    "rn_phase r = Executing input \<Longrightarrow>
     call_step h (r, d) (r\<lparr>rn_phase := Finished (CallExecuted input)\<rparr>, d)"
| world:
    "set (gt_outbox (dp_gate d)) \<subseteq> set (gt_outbox (dp_gate d')) \<Longrightarrow>
     call_step h (r, d) (r, d')"

inductive call_run :: "host \<Rightarrow> running \<times> dispatcher \<Rightarrow> running \<times> dispatcher \<Rightarrow> bool" for h where
  call_run_refl: "call_run h s s"
| call_run_step: "call_run h s t \<Longrightarrow> call_step h t u \<Longrightarrow> call_run h s u"

inductive_cases call_stepE: "call_step h (r, d) (r', d')"

section \<open>A batch of calls\<close>

text \<open>\<open>run_calls\<close> gathers the outcomes in the order they complete: the first error wins, otherwise
  the results come back by call index.\<close>

fun first_error :: "('e + (nat \<times> 'r)) list \<Rightarrow> 'e option" where
  "first_error [] = None"
| "first_error (Inl e # os) = Some e"
| "first_error (Inr x # os) = first_error os"

fun results :: "('e + (nat \<times> 'r)) list \<Rightarrow> (nat \<times> 'r) list" where
  "results [] = []"
| "results (Inl e # os) = results os"
| "results (Inr x # os) = x # results os"

definition collect_outcomes :: "('e + (nat \<times> 'r)) list \<Rightarrow> 'e + 'r list" where
  "collect_outcomes os =
     (case first_error os of
        Some e \<Rightarrow> Inl e
      | None \<Rightarrow> Inr (map snd (sort_key fst (results os))))"

end
