(* ===== verification/Dispatch_Laws.thy ===== *)
theory Dispatch_Laws
  imports Dispatch "HOL-Library.Multiset"
begin

text \<open>
  The theorems about dispatching a call: what the path gate lets through, unattended runs, dangerous
  commands, that nothing executes without an authorisation, and the order of a batch's results.
\<close>

section \<open>The path gate\<close>

lemma allows_path_same:
  assumes "same_rules dk st st'"
  shows "fst (allows_path_diagnostic dk sid wd p st') = fst (allows_path_diagnostic dk sid wd p st)"
proof -
  have v: "fst (allows_path_diagnostic dk sid wd p s) =
      or_else (Option.bind sid (\<lambda>sid. Option.bind (map_of (st_sessions s) sid)
                (\<lambda>(allow, deny). first_path_rule Session allow [] p)))
        (or_else (Option.bind wd (\<lambda>wd. first_path_rule Project (vw_allow (project_view dk wd s))
                    (vw_paths (project_view dk wd s)) p))
          (first_path_rule Global (vw_allow (global_view dk s)) (vw_paths (global_view dk s)) p))" for s
    by (cases wd; cases "Option.bind sid (\<lambda>sid. Option.bind (map_of (st_sessions s) sid)
          (\<lambda>(allow, deny). first_path_rule Session allow [] p))")
      (auto simp: allows_path_diagnostic_def Let_def global_view_def [symmetric]
        global_view_refresh_project split: option.splits)
  show ?thesis using assms unfolding v by (cases wd) (simp_all add: same_rules_def)
qed

interpretation path_grants: rule_lookup
  "\<lambda>p. allows_path_diagnostic dk session_id workdir p" for dk session_id workdir
  by unfold_locales (rule allows_path_same, rule refreshes_same, rule refreshes_allows)

text \<open>A path is in scope when the workspace allows it, when it is an artifact of this session, when
  a read-only call reads the data directory, or when a rule or a whitelist of the store covers it.\<close>

definition in_scope :: "host \<Rightarrow> dispatcher \<Rightarrow> effects \<Rightarrow> store option \<Rightarrow> path \<Rightarrow> bool" where
  "in_scope h d eff st p \<longleftrightarrow>
     allows h (dp_workspace d) p \<or> session_artifact d p \<or> readonly_data_dir d eff p
     \<or> (case st of
          None \<Rightarrow> False
        | Some s \<Rightarrow> fst (allows_path (gt_disk (dp_gate d)) (dp_session_id d)
                       (Some (ws_workdir (dp_workspace d))) p s))"

lemma out_of_scope_filter:
  "fst (out_of_scope h d eff ps st) = filter (\<lambda>p. \<not> in_scope h d eff st p) ps"
proof (induction ps arbitrary: st)
  case (Cons p ps)
  show ?case
  proof (cases st)
    case None
    then show ?thesis by (simp add: Cons.IH in_scope_def)
  next
    case (Some s)
    let ?look = "\<lambda>p s. allows_path_diagnostic (gt_disk (dp_gate d)) (dp_session_id d)
      (Some (ws_workdir (dp_workspace d))) p s"
    obtain hit s' where l: "?look p s = (hit, s')" by fastforce
    have "in_scope h d eff (Some s') = in_scope h d eff (Some s)"
      using path_grants.stable_step [OF l]
      by (intro ext) (simp add: in_scope_def allows_path_def)
    then show ?thesis
      using l Some by (auto simp: Cons.IH in_scope_def allows_path_def)
  qed
qed simp

lemma prepare_cases:
  assumes "prepare h ext prid trid call d = Some (pr, d')"
  obtains eff g1 g3 where
    "call_effects h ext (dp_workspace d) call = Some eff" "pr_effects pr = eff"
    "pr_path pr = (if list_all (in_scope h d eff (gt_store (dp_gate d))) (ef_paths eff)
        \<or> dp_run_mode d = Yolo then None
      else Some (prid, filter (\<lambda>p. \<not> in_scope h d eff (gt_store (dp_gate d)) p) (ef_paths eff)))"
    "tool_gate trid call eff (list_all (in_scope h d eff (gt_store (dp_gate d))) (ef_paths eff))
      (d\<lparr>dp_gate := g1\<rparr>) = (Some (pr_permission pr), g3)"
    "gt_learned g1 = gt_learned (dp_gate d)"
    "dp_run_mode d = Yolo \<or> pr_path pr = None \<Longrightarrow> gt_pending g1 = gt_pending (dp_gate d)"
    "d' = d\<lparr>dp_gate := describe_request (pr_permission pr) call eff g3\<rparr>"
proof -
  from assms obtain eff where eff: "call_effects h ext (dp_workspace d) call = Some eff"
    by (auto simp: prepare_def bind_eq_Some_conv)
  let ?in = "list_all (in_scope h d eff (gt_store (dp_gate d))) (ef_paths eff)"
  obtain outside st where o: "out_of_scope h d eff (ef_paths eff) (gt_store (dp_gate d)) = (outside, st)"
    by fastforce
  have outside: "outside = filter (\<lambda>p. \<not> in_scope h d eff (gt_store (dp_gate d)) p) (ef_paths eff)"
    using out_of_scope_filter [of h d eff "ef_paths eff" "gt_store (dp_gate d)"] o by simp
  then have b: "outside = [] \<longleftrightarrow> ?in" by (auto simp: filter_empty_conv list_all_iff)
  let ?g1 = "(dp_gate d)\<lparr>gt_store := st\<rparr>"
  let ?g2 = "if outside \<noteq> [] \<and> dp_run_mode d \<noteq> Yolo then open_approval prid None None ?g1 else ?g1"
  obtain dec g3 where t: "tool_gate trid call eff (outside = []) (d\<lparr>dp_gate := ?g2\<rparr>) = (dec, g3)"
    by fastforce
  have "prepare h ext prid trid call d = (case dec of None \<Rightarrow> None
    | Some p \<Rightarrow> Some (\<lparr>pr_effects = eff,
        pr_path = (if outside \<noteq> [] \<and> dp_run_mode d \<noteq> Yolo then Some (prid, outside) else None),
        pr_permission = p, pr_force = dp_force_automode d\<rparr>,
        d\<lparr>dp_gate := describe_request p call eff g3\<rparr>))"
    unfolding prepare_def Let_def by (simp add: eff o t)
  with assms obtain p where dec: "dec = Some p"
    and pr: "pr = \<lparr>pr_effects = eff,
        pr_path = (if outside \<noteq> [] \<and> dp_run_mode d \<noteq> Yolo then Some (prid, outside) else None),
        pr_permission = p, pr_force = dp_force_automode d\<rparr>"
    and d': "d' = d\<lparr>dp_gate := describe_request p call eff g3\<rparr>"
    by (cases dec) simp_all
  have path: "pr_path pr = (if outside \<noteq> [] \<and> dp_run_mode d \<noteq> Yolo then Some (prid, outside) else None)"
    and e: "pr_effects pr = eff" and p: "pr_permission pr = p"
    by (simp_all add: pr)
  show thesis
  proof (rule that [of eff ?g2 g3])
    show "pr_path pr = (if ?in \<or> dp_run_mode d = Yolo then None
      else Some (prid, filter (\<lambda>p. \<not> in_scope h d eff (gt_store (dp_gate d)) p) (ef_paths eff)))"
      using path b outside by simp
    show "tool_gate trid call eff ?in (d\<lparr>dp_gate := ?g2\<rparr>) = (Some (pr_permission pr), g3)"
      using t dec p b by simp
  qed (use eff e d' p path in \<open>auto simp: open_approval_def open_approval_inner_def split: if_splits\<close>)
qed

lemma describe_request_pending [simp]:
  "gt_pending (describe_request dec call eff g) = gt_pending g"
  by (simp add: describe_request_def frame_simps split: permission_decision.split)

text \<open>The path gate asks for exactly the paths that are not in scope, in their order, and asks
  for none when all are in scope or when nobody is there to answer.\<close>

theorem path_gate_asks_for_the_rest:
  assumes "prepare h ext prid trid call d = Some (pr, d')"
  shows "pr_path pr =
    (let rest = filter (\<lambda>p. \<not> in_scope h d (pr_effects pr) (gt_store (dp_gate d)) p)
                  (ef_paths (pr_effects pr)) in
     if rest = [] \<or> dp_run_mode d = Yolo then None else Some (prid, rest))"
  using assms
  by (rule prepare_cases) (auto simp: Let_def filter_empty_conv list_all_iff)

section \<open>Unattended runs\<close>

text \<open>In \<open>Yolo\<close> mode nobody is ever asked: no approval is opened, for paths or for the tool; and
  a call runs exactly when all its paths are in scope, none of them is git metadata, and it has no
  dangerous pattern.\<close>

theorem yolo_never_asks:
  assumes "prepare h ext prid trid call d = Some (pr, d')" and "dp_run_mode d = Yolo"
  shows "pr_path pr = None \<and> (\<forall>rid. pr_permission pr \<noteq> NeedsApproval rid)
    \<and> gt_pending (dp_gate d') = gt_pending (dp_gate d)
    \<and> (pr_permission pr = Approved \<longleftrightarrow>
        (\<forall>p \<in> set (ef_paths (pr_effects pr)).
           in_scope h d (pr_effects pr) (gt_store (dp_gate d)) p \<and> \<not> is_git_meta_path p)
        \<and> ef_dangerous_kinds (pr_effects pr) = [])"
  using assms(1)
proof (rule prepare_cases)
  fix eff g1 g3
  let ?in = "list_all (in_scope h d eff (gt_store (dp_gate d))) (ef_paths eff)"
  assume a: "pr_effects pr = eff"
    "pr_path pr = (if ?in \<or> dp_run_mode d = Yolo then None
      else Some (prid, filter (\<lambda>p. \<not> in_scope h d eff (gt_store (dp_gate d)) p) (ef_paths eff)))"
    "tool_gate trid call eff ?in (d\<lparr>dp_gate := g1\<rparr>) = (Some (pr_permission pr), g3)"
    "dp_run_mode d = Yolo \<or> pr_path pr = None \<Longrightarrow> gt_pending g1 = gt_pending (dp_gate d)"
    "d' = d\<lparr>dp_gate := describe_request (pr_permission pr) call eff g3\<rparr>"
  have g3: "g3 = g1"
    and dec: "Some (pr_permission pr) = yolo_decision Yolo (has_dangerous_pattern eff) ?in
      (list_ex is_git_meta_path (ef_paths eff)) (ef_dangerous_kinds eff)"
    using a(3) assms(2) by (auto simp: tool_gate_def Let_def yolo_decision_def split: if_splits)
  have "gt_pending (dp_gate d') = gt_pending (dp_gate d)"
    using a(4,5) assms(2) g3 by simp
  moreover have "pr_path pr = None" using a(2) assms(2) by simp
  moreover have "pr_permission pr \<noteq> NeedsApproval rid" for rid
    using dec by (auto simp: yolo_decision_def split: if_splits)
  moreover have "pr_permission pr = Approved \<longleftrightarrow> ?in \<and> \<not> list_ex is_git_meta_path (ef_paths eff)
      \<and> ef_dangerous_kinds eff = []"
    using dec by (auto simp: yolo_decision_def has_dangerous_pattern_def split: if_splits)
  ultimately show ?thesis
    using a(1) by (auto simp: list_all_iff list_ex_iff)
qed

section \<open>Dangerous commands\<close>

lemma plain_kinds [simp]:
  "ef_dangerous_kinds effects_needs_human_input = []" "ef_dangerous_kinds effects_read_only = []"
  "ef_dangerous_kinds (effects_network dm) = []" "ef_dangerous_kinds (effects_mutating ps) = []"
  "ef_dangerous_kinds effects_destructive_no_paths = []"
  by (simp_all add: effects_needs_human_input_def effects_read_only_def effects_network_def
      effects_mutating_def effects_destructive_no_paths_def)

lemma analyze_plain:
  assumes "name \<notin> {''Bash'', ''PowerShell'', ''InteractiveBash''}"
  shows "map_option ef_dangerous_kinds (analyze_effects ext name input) = Some []"
  using assms by (simp add: analyze_effects_def)

lemma analyze_dangerous:
  assumes "analyze_effects ext name input = Some e" and "ef_dangerous_kinds e \<noteq> []"
  shows "ef_class e = Destructive"
proof -
  have shell: "analyze_shell ext input = Some e"
  proof (cases "name \<in> {''Bash'', ''PowerShell'', ''InteractiveBash''}")
    case True
    moreover from this have "name \<noteq> ''Ask''" "name \<noteq> ''ask''" by auto
    ultimately show ?thesis using assms(1) by (simp add: analyze_effects_def)
  next
    case False
    then show ?thesis using analyze_plain [of name ext input] assms by simp
  qed
  then show ?thesis
  proof (cases rule: analyze_shell_cases)
    case (empty cwd)
    with assms(2) show ?thesis by (simp add: effects_destructive_no_paths_def)
  next
    case (parsed cwd raw r)
    then have "ef_class e \<noteq> ReadOnly"
      using assms(2) by (cases r) (auto simp: shell_effects_class shell_effects_kinds classify_readonly_def)
    then show ?thesis using shell_effects_class_cases [of cwd raw r] parsed by simp
  qed
qed

lemma call_effects_dangerous:
  assumes "call_effects h ext w call = Some e" and "ef_dangerous_kinds e \<noteq> []"
  shows "ef_class e = Destructive"
proof -
  obtain e0 where e0: "analyze_effects ext (tc_name call) (tc_input call) = Some e0"
    and k: "set (ef_dangerous_kinds e) \<subseteq> set (ef_dangerous_kinds e0)" "ef_class e = ef_class e0"
    using assms(1)
    by (auto simp: call_effects_def exempt_cd_git_def resolve_shell_paths_def Let_def
        bind_eq_Some_conv split: if_splits)
  then have "ef_dangerous_kinds e0 \<noteq> []" using assms(2) by auto
  with analyze_dangerous [OF e0] k show ?thesis by simp
qed

lemma edit_not_dangerous:
  assumes "call_effects h ext w call = Some e" and "tc_name call \<in> {''Edit'', ''Write''}"
  shows "ef_dangerous_kinds e = []"
  using assms
  by (auto simp: call_effects_def analyze_effects_def effects_mutating_def is_shell_def
      READ_ONLY_TOOLS_def split: if_splits)

text \<open>C2. From the text of the command to the decision: in no mode, under no rule and for no
  sub-agent is a call whose command has a dangerous pattern let through without an answer.\<close>

theorem dangerous_call_is_never_auto_approved:
  assumes "prepare h ext prid trid call d = Some (pr, d')"
    and "ef_dangerous_kinds (pr_effects pr) \<noteq> []"
  shows "pr_permission pr \<noteq> Approved"
  using assms(1)
proof (rule prepare_cases)
  fix eff g1 g3
  let ?in = "list_all (in_scope h d eff (gt_store (dp_gate d))) (ef_paths eff)"
  assume a: "call_effects h ext (dp_workspace d) call = Some eff" "pr_effects pr = eff"
    "tool_gate trid call eff ?in (d\<lparr>dp_gate := g1\<rparr>) = (Some (pr_permission pr), g3)"
  have k: "ef_dangerous_kinds eff \<noteq> []" using assms(2) a(2) by simp
  have "ef_class eff = Destructive" using call_effects_dangerous [OF a(1) k] .
  then have "fst (check trid (tc_name call) eff g1) \<noteq> Some Approved"
    using k by (simp add: check_approves_spec)
  moreover have "tc_name call \<notin> {''Edit'', ''Write''}"
    using edit_not_dangerous [OF a(1)] k by blast
  ultimately show ?thesis
    using a(3) k
    by (auto simp: tool_gate_def Let_def yolo_decision_def edit_auto_allowed_def
        bash_safe_write_allowed_def has_dangerous_pattern_def split: if_splits)
qed

text \<open>Edits inside the workspace are let through before any rule is looked at: outside plan mode
  an \<open>Edit\<close> of files in scope that are not git metadata is approved whatever the session learned,
  whatever the policy says and whatever deny rules the store holds.\<close>

theorem edit_in_scope_ignores_rules:
  assumes "prepare h ext prid trid call d = Some (pr, d')" and "tc_name call = ''Edit''"
    and "dp_run_mode d \<noteq> PlanMode"
    and "\<forall>p \<in> set (ef_paths (pr_effects pr)).
      in_scope h d (pr_effects pr) (gt_store (dp_gate d)) p \<and> \<not> is_git_meta_path p"
  shows "pr_permission pr = Approved"
  using assms(1)
proof (rule prepare_cases)
  fix eff g1 g3
  let ?in = "list_all (in_scope h d eff (gt_store (dp_gate d))) (ef_paths eff)"
  assume a: "call_effects h ext (dp_workspace d) call = Some eff" "pr_effects pr = eff"
    "tool_gate trid call eff ?in (d\<lparr>dp_gate := g1\<rparr>) = (Some (pr_permission pr), g3)"
  have "?in" "\<not> list_ex is_git_meta_path (ef_paths eff)" "\<not> has_dangerous_pattern eff"
    using assms(2,4) a(1,2) edit_not_dangerous [OF a(1)]
    by (auto simp: list_all_iff list_ex_iff has_dangerous_pattern_def)
  then show ?thesis
    using a(3) assms(2,3)
    by (cases "dp_run_mode d")
      (auto simp: tool_gate_def Let_def yolo_decision_def edit_auto_allowed_def split: if_splits)
qed

section \<open>Nothing executes without an authorisation\<close>

definition grants :: "approval_decision \<Rightarrow> bool" where
  "grants dec \<longleftrightarrow> dec = AllowOnce \<or> (\<exists>scope pat extras. dec = AllowAndRemember scope pat extras)"

definition granted :: "str \<Rightarrow> dispatcher \<Rightarrow> bool" where
  "granted rid d \<longleftrightarrow> (\<exists>dec. (rid, Decided dec) \<in> set (gt_outbox (dp_gate d)) \<and> grants dec)"

definition paths_granted :: "prepared \<Rightarrow> dispatcher \<Rightarrow> bool" where
  "paths_granted pr d \<longleftrightarrow> (case pr_path pr of None \<Rightarrow> True | Some (rid, _) \<Rightarrow> granted rid d)"

definition tool_granted :: "prepared \<Rightarrow> dispatcher \<Rightarrow> bool" where
  "tool_granted pr d \<longleftrightarrow>
     (case pr_permission pr of
        Approved \<Rightarrow> True | Denied _ \<Rightarrow> False | NeedsApproval rid \<Rightarrow> granted rid d)"

fun past_paths :: "phase \<Rightarrow> bool" where
  "past_paths PathJudging = False"
| "past_paths PathWaiting = False"
| "past_paths (Finished (CallDenied _)) = False"
| "past_paths (Finished CallCancelled) = False"
| "past_paths _ = True"

fun past_tool :: "phase \<Rightarrow> bool" where
  "past_tool HookPending = True"
| "past_tool (Executing _) = True"
| "past_tool (Finished (CallExecuted _)) = True"
| "past_tool _ = False"

definition authorised :: "running \<times> dispatcher \<Rightarrow> bool" where
  "authorised s \<longleftrightarrow>
     (let (r, d) = s; pr = rn_prepared r in
      (past_paths (rn_phase r) \<longrightarrow> paths_granted pr d)
      \<and> (past_tool (rn_phase r) \<longrightarrow> tool_granted pr d))"

lemma resolve_outbox:
  assumes "resolve rid dec g = Some g'" shows "set (gt_outbox g) \<subseteq> set (gt_outbox g')"
proof -
  have m: "set (gt_outbox g) \<subseteq> set (gt_outbox g2)"
    if "resolve_matching_pending rid (remember_all scope t pat xs (drop_pending rid g)) = Some g2"
    for scope t pat xs g2
    using resolve_matching_Some(2) [OF that] by (auto simp: frame_simps)
  show ?thesis
    using assms m
    by (auto simp: resolve_def Let_def split: option.splits pending.splits approval_decision.splits
        if_splits dest!: m)
qed

lemma judged_outbox:
  "path_judged rid j g = Some g' \<Longrightarrow> set (gt_outbox g) \<subseteq> set (gt_outbox g')"
  "tool_judged rid t e force j g = Some g' \<Longrightarrow> set (gt_outbox g) \<subseteq> set (gt_outbox g')"
  by (auto simp: path_judged_def tool_judged_def frame_simps dest: resolve_outbox
      split: automode_decision.splits if_splits dest!: subsetD [OF resolve_outbox])

lemma grant_path_outbox [simp]: "gt_outbox (dp_gate (grant_path h scope p d)) = gt_outbox (dp_gate d)"
  by (simp add: grant_path_def Let_def split: option.split prod.split)

lemma fold_grant_outbox [simp]:
  "gt_outbox (dp_gate (fold (grant_path h scope) ps d)) = gt_outbox (dp_gate d)"
  by (induction ps arbitrary: d) simp_all

lemma settle_path_granted:
  assumes "settle_path h ps rep d = (Inr u, d')"
  shows "gt_outbox (dp_gate d') = gt_outbox (dp_gate d) \<and> (\<exists>dec. rep = Decided dec \<and> grants dec)"
  using assms by (auto simp: settle_path_def grants_def split: reply.splits approval_decision.splits)

lemma settle_tool_granted: "settle_tool rep = Inr u \<Longrightarrow> \<exists>dec. rep = Decided dec \<and> grants dec"
  by (auto simp: settle_tool_def grants_def split: reply.splits approval_decision.splits)

lemma granted_mono:
  "set (gt_outbox (dp_gate d)) \<subseteq> set (gt_outbox (dp_gate d')) \<Longrightarrow> granted rid d \<Longrightarrow> granted rid d'"
  by (auto simp: granted_def)

lemma authorised_mono:
  assumes "set (gt_outbox (dp_gate d)) \<subseteq> set (gt_outbox (dp_gate d'))"
  shows "paths_granted pr d \<Longrightarrow> paths_granted pr d'" and "tool_granted pr d \<Longrightarrow> tool_granted pr d'"
  using granted_mono [OF assms]
  by (auto simp: paths_granted_def tool_granted_def split: option.splits permission_decision.splits)

lemma after_paths_past [simp]: "\<not> past_tool (after_paths j pr)"
  by (simp add: after_paths_def split: permission_decision.split)

lemma settled_past: "past_tool (settled_phase r c) \<Longrightarrow> r = Inr ()"
  by (auto simp: settled_phase_def split: sum.splits if_splits)

lemma start_authorised: "authorised (start_call call pr d, d)"
  by (auto simp: authorised_def start_call_def Let_def paths_granted_def split: option.split)

lemma call_step_authorised:
  assumes "call_step h s s'" and "authorised s" shows "authorised s'"
  using assms
proof (induction rule: call_step.induct)
  case (path_judge r rid ps j d g)
  then show ?case by (simp add: authorised_def)
next
  case (path_wait_granted r rid ps rep d u d')
  from settle_path_granted [OF path_wait_granted.hyps(4)] path_wait_granted.hyps
  have "granted rid d'" by (auto simp: granted_def)
  then show ?case using path_wait_granted.hyps(2) by (simp add: authorised_def paths_granted_def)
next
  case (tool_judge r rid j d g)
  then show ?case
    using authorised_mono [of d "d\<lparr>dp_gate := g\<rparr>"] judged_outbox(2)
    by (simp add: authorised_def)
next
  case (tool_replied r rid rep d)
  have "tool_granted (rn_prepared r) d" if "settle_tool rep = Inr ()"
    using settle_tool_granted [OF that] tool_replied.hyps
    by (auto simp: tool_granted_def granted_def)
  with tool_replied show ?case by (auto simp: authorised_def dest: settled_past)
next
  case (hook r d out)
  then show ?case by (simp add: authorised_def Let_def)
next
  case (world d d' r)
  then show ?case using authorised_mono [OF world.hyps] by (simp add: authorised_def Let_def)
qed (auto simp: authorised_def tool_granted_def)

lemma call_run_authorised: "call_run h s t \<Longrightarrow> authorised s \<Longrightarrow> authorised t"
  by (induction rule: call_run.induct) (auto intro: call_step_authorised)

lemma call_step_prepared: "call_step h s s' \<Longrightarrow> rn_prepared (fst s') = rn_prepared (fst s)"
  by (induction rule: call_step.induct) simp_all

lemma call_run_prepared: "call_run h s t \<Longrightarrow> rn_prepared (fst t) = rn_prepared (fst s)"
  by (induction rule: call_run.induct) (simp_all add: call_step_prepared)

lemma yolo_out_of_scope:
  assumes "prepare h ext prid trid call d = Some (pr, d')" and "dp_run_mode d = Yolo"
    and "p \<in> set (ef_paths (pr_effects pr))"
    and "\<not> in_scope h d (pr_effects pr) (gt_store (dp_gate d)) p"
  shows "pr_permission pr = Denied DeniedOutOfBounds"
  using assms(1)
proof (rule prepare_cases)
  fix eff g1 g3
  assume "pr_effects pr = eff"
    and t: "tool_gate trid call eff (list_all (in_scope h d eff (gt_store (dp_gate d))) (ef_paths eff))
      (d\<lparr>dp_gate := g1\<rparr>) = (Some (pr_permission pr), g3)"
  then have "\<not> list_all (in_scope h d eff (gt_store (dp_gate d))) (ef_paths eff)"
    using assms(3,4) by (auto simp: list_all_iff)
  with t assms(2) show ?thesis by (simp add: tool_gate_def yolo_decision_def Let_def)
qed

text \<open>C1. However the judge decides, the hooks answer, the user switches modes and other calls and
  surfaces interleave: when a call executes, every path that was not in scope was granted by a
  reply to its path request, and the tool was either approved without asking or granted by a reply
  to its own request. A closed channel, a cancelled question or a refusal never executes.\<close>

theorem execution_is_authorised:
  assumes "prepare h ext prid trid call d = Some (pr, d0)"
    and "call_run h (start_call call pr d0, d0) (r, d')"
    and "rn_phase r = Executing input \<or> rn_phase r = Finished (CallExecuted input)"
  shows "(\<forall>p \<in> set (ef_paths (pr_effects pr)).
            in_scope h d (pr_effects pr) (gt_store (dp_gate d)) p \<or> granted prid d')
    \<and> (pr_permission pr = Approved \<or> (\<exists>rid. pr_permission pr = NeedsApproval rid \<and> granted rid d'))"
proof -
  have a: "authorised (r, d')"
    using assms(2) start_authorised by (rule call_run_authorised)
  have pr: "rn_prepared r = pr"
    using call_run_prepared [OF assms(2)] by (simp add: start_call_def Let_def)
  have g: "paths_granted pr d'" "tool_granted pr d'"
    using a assms(3) pr by (auto simp: authorised_def)
  have "in_scope h d (pr_effects pr) (gt_store (dp_gate d)) p \<or> granted prid d'"
    if "p \<in> set (ef_paths (pr_effects pr))" for p
    using assms(1)
  proof (rule prepare_cases)
    fix eff
    assume "pr_effects pr = eff"
      "pr_path pr = (if list_all (in_scope h d eff (gt_store (dp_gate d))) (ef_paths eff)
          \<or> dp_run_mode d = Yolo then None
        else Some (prid, filter (\<lambda>p. \<not> in_scope h d eff (gt_store (dp_gate d)) p) (ef_paths eff)))"
    moreover have "dp_run_mode d = Yolo \<Longrightarrow> ?thesis"
      using g(2) yolo_out_of_scope [OF assms(1) _ that] by (cases ?thesis) (simp_all add: tool_granted_def)
    ultimately show ?thesis
      using g(1) that by (auto simp: paths_granted_def list_all_iff split: if_splits)
  qed
  moreover have "pr_permission pr = Approved \<or> (\<exists>rid. pr_permission pr = NeedsApproval rid \<and> granted rid d')"
    using g(2) by (auto simp: tool_granted_def split: permission_decision.splits)
  ultimately show ?thesis by blast
qed

section \<open>A batch of calls\<close>

lemma first_error_None: "first_error os = None \<longleftrightarrow> (\<forall>o' \<in> set os. \<exists>x. o' = Inr x)"
  by (induction os rule: first_error.induct) auto

lemma results_alt: "results os = map projr (filter (\<lambda>x. \<not> isl x) os)"
  by (induction os rule: results.induct) simp_all

lemma results_mset: "mset os = mset (os' :: ('a + nat \<times> 'b) list) \<Longrightarrow> mset (results os) = mset (results os')"
proof -
  assume m: "mset os = mset os'"
  have "mset (results zs) = image_mset projr (filter_mset (\<lambda>x. \<not> isl x) (mset zs))"
    for zs :: "('a + nat \<times> 'b) list"
    by (simp only: results_alt mset_map mset_filter)
  then show ?thesis by (simp only: m)
qed

lemma filter_key:
  "distinct (map fst zs) \<Longrightarrow> k \<in> set zs \<Longrightarrow> filter (\<lambda>x. fst k = fst x) zs = [k]"
proof (induction zs)
  case (Cons z zs)
  show ?case
  proof (cases "k = z")
    case True
    then have "filter (\<lambda>x. fst k = fst x) zs = []"
      using Cons.prems(1) by (auto simp: filter_empty_conv image_iff)
    then show ?thesis using True by simp
  next
    case False
    then have "fst k \<noteq> fst z" using Cons.prems by (auto simp: image_iff)
    then show ?thesis using Cons False by simp
  qed
qed simp

lemma sort_key_perm:
  assumes "mset xs = mset ys" and "distinct (map fst xs)"
  shows "sort_key fst xs = sort_key fst ys"
proof (rule properties_for_sort_key)
  show "mset (sort_key fst ys) = mset xs" using assms(1) by simp
  fix k assume "k \<in> set (sort_key fst ys)"
  then have k: "k \<in> set xs" using mset_eq_setD [OF assms(1)] by simp
  have eq: "filter (\<lambda>x. fst k = fst x) zs = [k]" if "mset zs = mset xs" for zs
  proof -
    have "mset (map fst zs) = mset (map fst xs)" using that by simp
    then have "distinct (map fst zs)" using assms(2) mset_eq_imp_distinct_iff by blast
    moreover have "k \<in> set zs" using k mset_eq_setD [OF that] by simp
    ultimately show ?thesis by (rule filter_key)
  qed
  show "filter (\<lambda>x. fst k = fst x) (sort_key fst ys) = filter (\<lambda>x. fst k = fst x) xs"
    using eq [of xs] eq [of "sort_key fst ys"] assms(1) by simp
qed simp

text \<open>What a batch returns does not depend on the order in which its calls happen to finish: with
  one result per call index, two completion orders of the same outcomes both fail, or both return
  the same results in the order of the calls.\<close>

theorem batch_order_is_irrelevant:
  assumes "mset os = mset os'" and "distinct (map fst (results os))"
  shows "(\<exists>e e'. collect_outcomes os = Inl e \<and> collect_outcomes os' = Inl e'
            \<and> Inl e \<in> set os \<and> Inl e' \<in> set os)
    \<or> (\<exists>rs. collect_outcomes os = Inr rs \<and> collect_outcomes os' = Inr rs
            \<and> length rs = length os)"
proof (cases "first_error os")
  case None
  have "set os = set os'" using assms(1) by (metis set_mset_mset)
  then have n': "first_error os' = None" using None by (simp add: first_error_None)
  have "mset (results os) = mset (results os')" using assms(1) by (rule results_mset)
  then have "sort_key fst (results os) = sort_key fst (results os')"
    using assms(2) by (rule sort_key_perm)
  moreover have "length (results zs) = length zs" if "first_error zs = None" for zs :: "('a + nat \<times> 'b) list"
    using that by (induction zs rule: results.induct) auto
  moreover note mset_eq_length [OF assms(1)]
  ultimately show ?thesis using None n' by (simp add: collect_outcomes_def)
next
  case (Some e)
  have s: "set os = set os'" using assms(1) by (metis set_mset_mset)
  have err: "Inl e \<in> set zs" if "first_error zs = Some e" for zs :: "('a + nat \<times> 'b) list" and e
    using that by (induction zs rule: first_error.induct) auto
  have "first_error os' \<noteq> None" using Some s by (metis first_error_None option.distinct(1))
  then obtain e' where e': "first_error os' = Some e'" by blast
  then show ?thesis using Some err [OF Some] err [OF e'] s by (simp add: collect_outcomes_def)
qed

section \<open>The properties on concrete calls\<close>

text \<open>No syntax tree, so that the fallback parser is used, and words split at blanks.\<close>

definition ex_ext :: externals where
  "ex_ext =
     \<lparr>ts_parse = (\<lambda>_. None), shlex_split = (\<lambda>s. Some (split_ascii_whitespace s)),
      url_host = (\<lambda>_. None)\<rparr>"

definition ex_dispatcher :: "run_mode \<Rightarrow> dispatcher" where
  "ex_dispatcher mode =
     \<lparr>dp_gate = ex_gate, dp_workspace = ex_workspace, dp_run_mode = mode, dp_has_judge = False,
      dp_force_automode = False, dp_subagent_bypass = False, dp_session_id = Some ''s'',
      dp_data_dir = None, dp_cancelled = False\<rparr>"

definition ex_edit :: "str \<Rightarrow> tool_call" where
  "ex_edit p = \<lparr>tc_id = ''c'', tc_name = ''Edit'', tc_input = JObj [(''file_path'', JStr p)]\<rparr>"

definition ex_bash :: "str \<Rightarrow> tool_call" where
  "ex_bash c = \<lparr>tc_id = ''c'', tc_name = ''Bash'', tc_input = JObj [(''command'', JStr c)]\<rparr>"

definition ex_prepare :: "tool_call \<Rightarrow> run_mode \<Rightarrow> (prepared \<times> dispatcher) option" where
  "ex_prepare call mode = prepare ex_host ex_ext ''p'' ''t'' call (ex_dispatcher mode)"

lemma path_gate_asks_for_the_rest_witness:
  "\<exists>pr d'. ex_prepare (ex_edit ''/srv/a'') DefaultMode = Some (pr, d')
     \<and> pr_path pr = Some (''p'', [''/srv/a''])"
proof -
  have "map_option (\<lambda>(pr, d). ef_paths (pr_effects pr)) (ex_prepare (ex_edit ''/srv/a'') DefaultMode)
      = Some [''/srv/a'']" by code_simp
  then obtain pr d' where p: "ex_prepare (ex_edit ''/srv/a'') DefaultMode = Some (pr, d')"
    and e: "ef_paths (pr_effects pr) = [''/srv/a'']" by auto
  have "map_option (\<lambda>(pr, d). in_scope ex_host (ex_dispatcher DefaultMode) (pr_effects pr)
        (gt_store (dp_gate (ex_dispatcher DefaultMode))) ''/srv/a'')
      (ex_prepare (ex_edit ''/srv/a'') DefaultMode) = Some False" by code_simp
  with p have "\<not> in_scope ex_host (ex_dispatcher DefaultMode) (pr_effects pr)
        (gt_store (dp_gate (ex_dispatcher DefaultMode))) ''/srv/a''" by simp
  with path_gate_asks_for_the_rest [OF p [unfolded ex_prepare_def]] e p show ?thesis
    by (simp add: Let_def ex_dispatcher_def)
qed

lemma yolo_never_asks_witness:
  "\<exists>pr d'. ex_prepare (ex_edit ''/srv/a'') Yolo = Some (pr, d') \<and> pr_path pr = None"
proof -
  have "map_option (\<lambda>_. True) (ex_prepare (ex_edit ''/srv/a'') Yolo) = Some True" by code_simp
  then obtain pr d' where p: "ex_prepare (ex_edit ''/srv/a'') Yolo = Some (pr, d')" by auto
  have "dp_run_mode (ex_dispatcher Yolo) = Yolo" by (simp add: ex_dispatcher_def)
  from yolo_never_asks [OF p [unfolded ex_prepare_def] this] p show ?thesis by simp
qed

lemma dangerous_call_is_never_auto_approved_witness:
  "\<exists>pr d'. ex_prepare (ex_bash ''rm -rf /'') Yolo = Some (pr, d')
     \<and> ef_dangerous_kinds (pr_effects pr) = [''rm-rf-root''] \<and> pr_permission pr \<noteq> Approved"
proof -
  have "map_option (\<lambda>(pr, d). ef_dangerous_kinds (pr_effects pr)) (ex_prepare (ex_bash ''rm -rf /'') Yolo)
      = Some [''rm-rf-root'']" by code_simp
  then obtain pr d' where p: "ex_prepare (ex_bash ''rm -rf /'') Yolo = Some (pr, d')"
    and k: "ef_dangerous_kinds (pr_effects pr) = [''rm-rf-root'']" by auto
  from dangerous_call_is_never_auto_approved [OF p [unfolded ex_prepare_def]] k p show ?thesis
    by simp
qed

text \<open>The store of the example denies edits below \<open>/etc\<close>; here \<open>/etc\<close> is the workspace.\<close>

lemma edit_in_scope_ignores_rules_witness:
  "\<exists>pr d'. prepare ex_host ex_ext ''p'' ''t'' (ex_edit ''/etc/a'')
       ((ex_dispatcher DefaultMode)\<lparr>dp_workspace := ex_workspace\<lparr>ws_workdir := ''/etc''\<rparr>\<rparr>) = Some (pr, d')
     \<and> pr_permission pr = Approved"
proof -
  let ?d = "(ex_dispatcher DefaultMode)\<lparr>dp_workspace := ex_workspace\<lparr>ws_workdir := ''/etc''\<rparr>\<rparr>"
  let ?r = "prepare ex_host ex_ext ''p'' ''t'' (ex_edit ''/etc/a'') ?d"
  have "map_option (\<lambda>(pr, d). \<forall>p \<in> set (ef_paths (pr_effects pr)).
      in_scope ex_host ?d (pr_effects pr) (gt_store (dp_gate ?d)) p \<and> \<not> is_git_meta_path p) ?r = Some True"
    by code_simp
  then obtain pr d' where p: "?r = Some (pr, d')"
    and s: "\<forall>p \<in> set (ef_paths (pr_effects pr)).
      in_scope ex_host ?d (pr_effects pr) (gt_store (dp_gate ?d)) p \<and> \<not> is_git_meta_path p"
    by auto
  have "tc_name (ex_edit ''/etc/a'') = ''Edit''" "dp_run_mode ?d \<noteq> PlanMode"
    by (simp_all add: ex_edit_def ex_dispatcher_def)
  from edit_in_scope_ignores_rules [OF p this s] p show ?thesis by blast
qed

lemma execution_is_authorised_witness:
  "\<exists>pr d0 r d'. ex_prepare (ex_edit ''/ws/a'') DefaultMode = Some (pr, d0)
     \<and> call_run ex_host (start_call (ex_edit ''/ws/a'') pr d0, d0) (r, d')
     \<and> rn_phase r = Executing (tc_input (ex_edit ''/ws/a''))
     \<and> (pr_permission pr = Approved \<or> (\<exists>rid. pr_permission pr = NeedsApproval rid \<and> granted rid d'))"
proof -
  let ?c = "ex_edit ''/ws/a''"
  have "map_option (\<lambda>(pr, d). (pr_path pr = None, pr_permission pr = Approved, dp_cancelled d))
      (ex_prepare ?c DefaultMode) = Some (True, True, False)" by code_simp
  then obtain pr d0 where p: "ex_prepare ?c DefaultMode = Some (pr, d0)"
    and f: "pr_path pr = None" "pr_permission pr = Approved" "\<not> dp_cancelled d0" by auto
  let ?r = "start_call ?c pr d0"
  have c: "rn_phase ?r = CancelCheck" "rn_prepared ?r = pr" "rn_call ?r = ?c"
    using f by (simp_all add: start_call_def after_paths_def Let_def)
  have "call_step ex_host (?r, d0) (?r\<lparr>rn_phase := ToolWaiting\<rparr>, d0)"
    using cancel_check [of ?r ex_host d0] c f by simp
  moreover have "call_step ex_host (?r\<lparr>rn_phase := ToolWaiting\<rparr>, d0) (?r\<lparr>rn_phase := HookPending\<rparr>, d0)"
    using tool_approved [of "?r\<lparr>rn_phase := ToolWaiting\<rparr>" ex_host d0] c f
    by (simp add: settled_phase_def)
  moreover have "call_step ex_host (?r\<lparr>rn_phase := HookPending\<rparr>, d0)
      (?r\<lparr>rn_phase := Executing (tc_input ?c)\<rparr>, d0)"
    using hook [of "?r\<lparr>rn_phase := HookPending\<rparr>" ex_host d0 HookContinue] c
    by (simp add: hook_phase_def)
  ultimately have run: "call_run ex_host (?r, d0) (?r\<lparr>rn_phase := Executing (tc_input ?c)\<rparr>, d0)"
    by (blast intro: call_run_refl call_run_step)
  have "rn_phase (?r\<lparr>rn_phase := Executing (tc_input ?c)\<rparr>) = Executing (tc_input ?c)" by simp
  moreover from this execution_is_authorised [OF p [unfolded ex_prepare_def] run, of "tc_input ?c"]
  have "pr_permission pr = Approved \<or> (\<exists>rid. pr_permission pr = NeedsApproval rid \<and> granted rid d0)"
    by blast
  ultimately show ?thesis using p run by blast
qed

lemma batch_order_is_irrelevant_witness:
  "collect_outcomes [Inr (1, ''b''), Inr (0, ''a'')]
     = (collect_outcomes [Inr (0, ''a''), Inr (1, ''b'')] :: str + str list)"
proof -
  let ?a = "[Inr (1, ''b''), Inr (0, ''a'')] :: (str + nat \<times> str) list"
  have "mset ?a = mset (rev ?a)" "distinct (map fst (results ?a))" by simp_all
  from batch_order_is_irrelevant [OF this] show ?thesis by auto
qed

end
