(* ===== verification/Rust_Text.thy ===== *)
theory Rust_Text
  imports Rust_Str "HOL-Library.Word"
begin

unbundle bit_operations_syntax

text \<open>
  More of Rust's string library, for the code that edits and cuts text: \<open>lines\<close>, \<open>split\<close> and
  \<open>split_once\<close>, \<open>replace\<close> and \<open>matches\<close>, decimal and hexadecimal numbers, characters of a UTF-8
  string. A \<open>usize\<close> is a natural number below \<open>2 ^ 64\<close>; where the code could leave that range
  the definition says so.
\<close>

section \<open>Lines\<close>

text \<open>\<open>split('\n')\<close>: one part more than there are line feeds.\<close>

fun split_nl :: "str \<Rightarrow> str list" where
  "split_nl [] = [[]]"
| "split_nl (c # s) =
     (if c = nl then [] # split_nl s
      else case split_nl s of l # ls \<Rightarrow> (c # l) # ls | [] \<Rightarrow> [[c]])"

text \<open>\<open>str::lines\<close>: the end of a line is a line feed, and one carriage return before it.\<close>

definition strip_eol :: "str \<Rightarrow> str" where
  "strip_eol l =
     (case str_strip_suffix l [nl] of
        None \<Rightarrow> l
      | Some a \<Rightarrow> (case str_strip_suffix a [cr] of None \<Rightarrow> a | Some b \<Rightarrow> b))"

definition str_lines :: "str \<Rightarrow> str list" where
  "str_lines s = map strip_eol (split_inclusive_nl s)"

lemma split_nl_ne [simp]: "split_nl s \<noteq> []"
  by (induction s) (auto split: list.split)

lemma split_nl_hd: "nl \<notin> set l \<Longrightarrow> split_nl (l @ nl # s) = l # split_nl s"
  by (induction l) auto

lemma split_nl_id: "nl \<notin> set l \<Longrightarrow> split_nl l = [l]"
  by (induction l) auto

lemma split_nl_clean: "l \<in> set (split_nl s) \<Longrightarrow> nl \<notin> set l"
proof (induction s arbitrary: l)
  case (Cons c s)
  then show ?case by (cases "split_nl s") (auto split: if_splits)
qed simp

lemma join_Cons_char: "join sep ((c # l) # ls) = c # join sep (l # ls)"
  by (cases ls) auto

lemma join_Cons: "ls \<noteq> [] \<Longrightarrow> join sep (l # ls) = l @ sep @ join sep ls"
  by (cases ls) auto

lemma join_split_nl [simp]: "join [nl] (split_nl s) = s"
proof (induction s)
  case (Cons c s)
  then show ?case
    by (auto simp: join_Cons join_Cons_char split: list.split)
qed simp

lemma split_join_nl:
  "ls \<noteq> [] \<Longrightarrow> \<forall>l \<in> set ls. nl \<notin> set l \<Longrightarrow> split_nl (join [nl] ls) = ls"
  by (induction "[nl]" ls rule: join.induct) (auto simp: split_nl_id split_nl_hd)

lemma lines_acc_line: "nl \<notin> set l \<Longrightarrow> lines_acc b (l @ nl # s) = (b @ l @ [nl]) # lines_acc [] s"
  by (induction l arbitrary: b) auto

lemma lines_acc_rest: "nl \<notin> set l \<Longrightarrow> lines_acc b l = (if b @ l = [] then [] else [b @ l])"
  by (induction l arbitrary: b) auto

lemma split_inclusive_nl_line:
  "nl \<notin> set l \<Longrightarrow> split_inclusive_nl (l @ nl # s) = (l @ [nl]) # split_inclusive_nl s"
  by (simp add: split_inclusive_nl_def lines_acc_line)

lemma split_inclusive_nl_Nil [simp]: "split_inclusive_nl [] = []"
  by (simp add: split_inclusive_nl_def)

lemma ends_with_char [simp]: "ends_with s [c] \<longleftrightarrow> s \<noteq> [] \<and> last s = c"
  by (cases s rule: rev_cases) auto

lemma strip_eol_line: "strip_eol (l @ [nl]) = (if l \<noteq> [] \<and> last l = cr then butlast l else l)"
  by (cases l rule: rev_cases) (auto simp: strip_eol_def str_strip_suffix_def)

text \<open>Text printed line by line is read line by line, when no line holds an end of line.\<close>

definition plain_line :: "str \<Rightarrow> bool" where
  "plain_line l \<longleftrightarrow> nl \<notin> set l \<and> (l = [] \<or> last l \<noteq> cr)"

abbreviation unlines :: "str list \<Rightarrow> str" where
  "unlines ls \<equiv> concat (map (\<lambda>l. l @ [nl]) ls)"

lemma str_lines_unlines: "list_all plain_line ls \<Longrightarrow> str_lines (unlines ls) = ls"
  by (induction ls) (auto simp: str_lines_def plain_line_def split_inclusive_nl_line strip_eol_line)

lemma split_inclusive_unlines:
  "\<forall>l \<in> set ls. nl \<notin> set l \<Longrightarrow> split_inclusive_nl (unlines ls) = map (\<lambda>l. l @ [nl]) ls"
  by (induction ls) (auto simp: split_inclusive_nl_line)

section \<open>Splitting at a string\<close>

text \<open>\<open>split_once(&str)\<close> with a non-empty pattern, and \<open>rsplit_once(char)\<close>.\<close>

fun split_once_str :: "str \<Rightarrow> str \<Rightarrow> (str \<times> str) option" where
  "split_once_str p [] = None"
| "split_once_str p (x # xs) =
     (if prefix p (x # xs) then Some ([], drop (length p) (x # xs))
      else map_option (\<lambda>(a, b). (x # a, b)) (split_once_str p xs))"

definition rsplit_at_char :: "char \<Rightarrow> str \<Rightarrow> (str \<times> str) option" where
  "rsplit_at_char c s = map_option (\<lambda>(b, a). (rev a, rev b)) (split_at_char c (rev s))"

lemma rsplit_at_char_append [simp]:
  assumes "c \<notin> set b" shows "rsplit_at_char c (a @ c # b) = Some (a, b)"
  using assms split_at_char_append [of c "rev b" "rev a"] by (simp add: rsplit_at_char_def)

lemma split_once_str_append:
  "p = q # p' \<Longrightarrow> q \<notin> set a \<Longrightarrow> split_once_str p (a @ p @ b) = Some (a, b)"
proof (induction a)
  case (Cons x a)
  then show ?case by (cases "prefix p (x # a @ p @ b)") auto
qed simp

section \<open>Numbers\<close>

abbreviation usize_max :: nat where "usize_max \<equiv> 2 ^ 64 - 1"

definition digit_char :: "nat \<Rightarrow> char" where
  "digit_char n = char_of (48 + n)"

function dec :: "nat \<Rightarrow> str" where
  "dec n = (if n < 10 then [digit_char n] else dec (n div 10) @ [digit_char (n mod 10)])"
  by pat_completeness auto
termination by (relation "measure id") auto

declare dec.simps [simp del]

definition digit_val :: "char \<Rightarrow> nat" where
  "digit_val c = of_char c - 48"

definition num_of :: "str \<Rightarrow> nat" where
  "num_of = foldl (\<lambda>n c. 10 * n + digit_val c) 0"

text \<open>\<open>str::parse::<usize>()\<close>: an optional plus sign, digits, no overflow.\<close>

definition parse_usize :: "str \<Rightarrow> nat option" where
  "parse_usize s =
     (let d = (case s of c # r \<Rightarrow> if c = CHR ''+'' then r else s | [] \<Rightarrow> s)
      in if d \<noteq> [] \<and> list_all ascii_digit d \<and> num_of d \<le> usize_max then Some (num_of d) else None)"

lemma digit_char_less [simp]:
  assumes "n < 10" shows "ascii_digit (digit_char n)" "digit_val (digit_char n) = n"
  using assms by (simp_all add: ascii_digit_def digit_char_def digit_val_def of_char_of take_bit_nat_def)

lemma dec_digits: "list_all ascii_digit (dec n)"
  by (induction n rule: dec.induct) (subst dec.simps, simp)

lemma dec_ne [simp]: "dec n \<noteq> []"
  by (subst dec.simps) simp

lemma num_of_dec [simp]: "num_of (dec n) = n"
  by (induction n rule: dec.induct) (subst dec.simps, simp add: num_of_def)

lemma ascii_digit_graph: "ascii_digit c \<Longrightarrow> ascii_graph c"
  by (simp add: ascii_digit_def ascii_graph_def)

lemma trim_dec [simp]: "trim (dec n) = dec n"
proof (rule trim_trimmed, rule trimmed_graph)
  show "dec n \<noteq> []" by simp
  have "\<forall>c \<in> set (dec n). ascii_graph c"
    using dec_digits [of n] by (auto simp: list_all_iff intro: ascii_digit_graph)
  then show "ascii_graph (hd (dec n))" "ascii_graph (last (dec n))" by simp_all
qed

lemma dec_char:
  assumes "c \<in> set (dec n)" shows "ascii_digit c"
  using assms dec_digits [of n] by (simp add: list_all_iff)

lemma not_in_dec: "\<not> ascii_digit c \<Longrightarrow> c \<notin> set (dec n)"
  using dec_char by blast

lemma parse_usize_dec: "parse_usize (dec n) = (if n \<le> usize_max then Some n else None)"
proof -
  obtain c r where c: "dec n = c # r" by (metis dec_ne list.exhaust)
  moreover have "c \<noteq> CHR ''+''" using not_in_dec [of "CHR ''+''" n] c by (auto simp: ascii_digit_def)
  ultimately show ?thesis
    using dec_digits [of n] num_of_dec [of n] by (simp add: parse_usize_def)
qed

lemma parse_usize_bound: "parse_usize s = Some n \<Longrightarrow> n \<le> usize_max"
  by (auto simp: parse_usize_def Let_def split: if_splits)

text \<open>\<open>{:X}\<close> of a number below 16, and \<open>is_ascii_hexdigit\<close>, \<open>to_ascii_uppercase\<close>.\<close>

definition hex_upper :: "nat \<Rightarrow> char" where
  "hex_upper n = (if n < 10 then char_of (48 + n) else char_of (55 + n))"

definition ascii_hexdigit :: "char \<Rightarrow> bool" where
  "ascii_hexdigit c \<longleftrightarrow> ascii_digit c \<or>
     (97 \<le> (of_char c :: nat) \<and> (of_char c :: nat) \<le> 102) \<or>
     (65 \<le> (of_char c :: nat) \<and> (of_char c :: nat) \<le> 70)"

definition ascii_upper :: "char \<Rightarrow> char" where
  "ascii_upper c =
     (if 97 \<le> (of_char c :: nat) \<and> (of_char c :: nat) \<le> 122
      then char_of ((of_char c :: nat) - 32) else c)"

definition hex_val :: "char \<Rightarrow> nat" where
  "hex_val c = (let n = of_char c in if n \<le> 57 then n - 48 else if n \<le> 70 then n - 55 else n - 87)"

lemma hex_upper_spec:
  assumes "n < 16"
  shows "ascii_hexdigit (hex_upper n)" "ascii_upper (hex_upper n) = hex_upper n"
    "hex_val (hex_upper n) = n"
proof -
  have v: "(of_char (hex_upper n) :: nat) = (if n < 10 then 48 + n else 55 + n)"
    using assms by (simp add: hex_upper_def of_char_of take_bit_nat_def)
  show "ascii_hexdigit (hex_upper n)" "hex_val (hex_upper n) = n"
    using assms by (auto simp: ascii_hexdigit_def ascii_digit_def hex_val_def v Let_def)
  show "ascii_upper (hex_upper n) = hex_upper n"
    using assms by (auto simp: ascii_upper_def v)
qed

section \<open>Characters\<close>

text \<open>A byte that continues a UTF-8 character; \<open>is_char_boundary\<close>; \<open>chars().take(n)\<close>.\<close>

definition is_continuation :: "char \<Rightarrow> bool" where
  "is_continuation c \<longleftrightarrow> 128 \<le> (of_char c :: nat) \<and> (of_char c :: nat) < 192"

definition is_char_boundary :: "str \<Rightarrow> nat \<Rightarrow> bool" where
  "is_char_boundary s i \<longleftrightarrow>
     i = 0 \<or> i = length s \<or> (i < length s \<and> \<not> is_continuation (s ! i))"

fun take_chars :: "nat \<Rightarrow> str \<Rightarrow> str" where
  "take_chars n [] = []"
| "take_chars n (c # s) =
     (if is_continuation c then c # take_chars n s
      else case n of 0 \<Rightarrow> [] | Suc m \<Rightarrow> c # take_chars m s)"

definition chars_count :: "str \<Rightarrow> nat" where
  "chars_count s = length (filter (\<lambda>c. \<not> is_continuation c) s)"

section \<open>Searching and replacing\<close>

text \<open>\<open>matches(p).count()\<close> and \<open>replacen(p, r, k)\<close> with a non-empty pattern: occurrences are taken
  from the left and do not overlap; \<open>skip\<close> is the rest of an occurrence.\<close>

function match_count :: "str \<Rightarrow> str \<Rightarrow> nat" where
  "match_count p s =
     (case s of
        [] \<Rightarrow> 0
      | x # xs \<Rightarrow>
          if p \<noteq> [] \<and> prefix p s then Suc (match_count p (drop (length p) s))
          else match_count p xs)"
  by pat_completeness auto
termination by (relation "measure (length \<circ> snd)") auto

function replacen :: "str \<Rightarrow> str \<Rightarrow> nat \<Rightarrow> str \<Rightarrow> str" where
  "replacen p r k s =
     (case s of
        [] \<Rightarrow> []
      | x # xs \<Rightarrow>
          if k = 0 then s
          else if p \<noteq> [] \<and> prefix p s then r @ replacen p r (k - 1) (drop (length p) s)
          else x # replacen p r k xs)"
  by pat_completeness auto
termination by (relation "measure (\<lambda>(p, r, k, s). length s)") auto

declare match_count.simps [simp del] replacen.simps [simp del]

text \<open>\<open>replace(p, r)\<close>: there are never more occurrences than bytes.\<close>

definition str_replace :: "str \<Rightarrow> str \<Rightarrow> str \<Rightarrow> str" where
  "str_replace p r s = replacen p r (length s) s"

end
