(* ===== verification/File_World.thy ===== *)
theory File_World
  imports Rust_Text Effects
begin

text \<open>
  What the file tools see of the machine: a disk of files with modification times, the operating
  system's answers as parameters, UTF-8 decoding, and the table of files a session has read
  (\<open>crates/agent-core/src/read_state.rs\<close>).

  A call runs to its end before the next thing happens. Every write takes the time of the clock,
  which then moves on: two writes never share a millisecond. A write that fails leaves its file
  as it was, and the directories that \<open>create_dir_all\<close> makes hold no file.
\<close>

section \<open>UTF-8\<close>

definition byte_in :: "nat \<Rightarrow> nat \<Rightarrow> char \<Rightarrow> bool" where
  "byte_in a b c \<longleftrightarrow> a \<le> of_char c \<and> (of_char c :: nat) \<le> b"

text \<open>Whether a character starts here, and how many bytes it has; for a byte sequence that is none,
  how many bytes a decoder replaces.\<close>

definition nth_in :: "nat \<Rightarrow> nat \<Rightarrow> nat \<Rightarrow> str \<Rightarrow> bool" where
  "nth_in i a b s \<longleftrightarrow> i < length s \<and> byte_in a b (s ! i)"

definition utf8_step :: "str \<Rightarrow> bool \<times> nat" where
  "utf8_step s =
     (let c = hd s;
          three = (\<lambda>a b. if \<not> nth_in 1 a b s then (False, 1)
                        else if \<not> nth_in 2 128 191 s then (False, 2) else (True, 3));
          four = (\<lambda>a b. if \<not> nth_in 1 a b s then (False, 1)
                       else if \<not> nth_in 2 128 191 s then (False, 2)
                       else if \<not> nth_in 3 128 191 s then (False, 3) else (True, 4))
      in if byte_in 0 127 c then (True, 1)
         else if byte_in 194 223 c then (if nth_in 1 128 191 s then (True, 2) else (False, 1))
         else if byte_in 224 224 c then three 160 191
         else if byte_in 237 237 c then three 128 159
         else if byte_in 225 239 c then three 128 191
         else if byte_in 240 240 c then four 144 191
         else if byte_in 241 243 c then four 128 191
         else if byte_in 244 244 c then four 128 143
         else (False, 1))"

lemma utf8_step_pos: "0 < snd (utf8_step s)"
  by (simp add: utf8_step_def Let_def)

function valid_utf8 :: "str \<Rightarrow> bool" where
  "valid_utf8 s =
     (if s = [] then True
      else if fst (utf8_step s) then valid_utf8 (drop (snd (utf8_step s)) s) else False)"
  by pat_completeness auto
termination
  by (relation "measure length") (auto simp: utf8_step_pos)

text \<open>\<open>String::from_utf8_lossy\<close>.\<close>

function utf8_lossy :: "str \<Rightarrow> str" where
  "utf8_lossy s =
     (if s = [] then []
      else (case utf8_step s of (ok, n) \<Rightarrow>
        (if ok then take n s else [CHR 0xEF, CHR 0xBF, CHR 0xBD]) @ utf8_lossy (drop n s)))"
  by pat_completeness auto
termination
proof (relation "measure length", goal_cases)
  case (2 s x y)
  then show ?case using utf8_step_pos [of s] by (cases "utf8_step s") auto
qed simp

declare valid_utf8.simps [simp del] utf8_lossy.simps [simp del]

lemma utf8_lossy_valid: "valid_utf8 s \<Longrightarrow> utf8_lossy s = s"
proof (induction s rule: valid_utf8.induct)
  case (1 s)
  then show ?case
    by (subst utf8_lossy.simps) (auto simp: valid_utf8.simps [of s] split: prod.split)
qed

section \<open>Files that were read (\<open>read_state.rs\<close>)\<close>

record read_state =
  rs_content_hash :: "64 word"
  rs_mtime_ms :: int

datatype edit_precheck = Fresh | NotRead | Stale

text \<open>A \<open>HashMap<PathBuf, _>\<close> compares its keys by component.\<close>

type_synonym read_tracker = "component list \<Rightarrow> read_state option"

definition tracker_record :: "path \<Rightarrow> 64 word \<Rightarrow> int \<Rightarrow> read_tracker \<Rightarrow> read_tracker" where
  "tracker_record p h t tr =
     tr(components p \<mapsto> \<lparr>rs_content_hash = h, rs_mtime_ms = t\<rparr>)"

definition precheck :: "read_tracker \<Rightarrow> path \<Rightarrow> int \<Rightarrow> edit_precheck" where
  "precheck tr p current_mtime_ms =
     (case tr (components p) of
        None \<Rightarrow> NotRead
      | Some st \<Rightarrow> if current_mtime_ms > rs_mtime_ms st then Stale else Fresh)"

section \<open>The disk\<close>

record disk_file =
  df_is_dir :: bool
  df_bytes :: str
  df_mtime :: int

text \<open>The operating system: which file a path names (links and parent steps resolved), which files it
  lets the process read, write and stat, where directories can be made; and the hash function of
  the process, \<open>DefaultHasher\<close>.\<close>

record os =
  os_file :: "component list \<Rightarrow> str"
  os_readable :: "str \<Rightarrow> bool"
  os_writable :: "str \<Rightarrow> bool"
  os_mkdir :: "path \<Rightarrow> bool"
  os_hash :: "str \<Rightarrow> 64 word"

record world =
  wd_files :: "str \<Rightarrow> disk_file option"
  wd_now :: int
  wd_tracker :: "read_tracker option"

definition file_of :: "os \<Rightarrow> world \<Rightarrow> path \<Rightarrow> disk_file option" where
  "file_of os w p = wd_files w (os_file os (components p))"

text \<open>\<open>fs::read\<close>, \<open>fs::read_to_string\<close> and \<open>fs::write\<close>.\<close>

definition fs_read :: "os \<Rightarrow> path \<Rightarrow> world \<Rightarrow> str option" where
  "fs_read os p w =
     (case file_of os w p of
        None \<Rightarrow> None
      | Some f \<Rightarrow> if df_is_dir f \<or> \<not> os_readable os (os_file os (components p)) then None
                 else Some (df_bytes f))"

definition fs_read_to_string :: "os \<Rightarrow> path \<Rightarrow> world \<Rightarrow> str option" where
  "fs_read_to_string os p w =
     (case fs_read os p w of None \<Rightarrow> None | Some s \<Rightarrow> if valid_utf8 s then Some s else None)"

definition fs_write :: "os \<Rightarrow> path \<Rightarrow> str \<Rightarrow> world \<Rightarrow> world option" where
  "fs_write os p s w =
     (let i = os_file os (components p)
      in if \<not> os_writable os i \<or> (case wd_files w i of None \<Rightarrow> False | Some f \<Rightarrow> df_is_dir f) then None
         else Some (w\<lparr>wd_files := (wd_files w)(i \<mapsto>
                  \<lparr>df_is_dir = False, df_bytes = s, df_mtime = wd_now w\<rparr>),
                wd_now := wd_now w + 1\<rparr>))"

text \<open>\<open>modified()\<close> in milliseconds since the epoch; a time before it counts as 0.\<close>

definition mtime_ms :: "disk_file \<Rightarrow> int" where
  "mtime_ms f = max 0 (df_mtime f)"

text \<open>\<open>current_disk_mtime\<close>, and the update of the tracker after a write.\<close>

definition current_disk_mtime :: "os \<Rightarrow> path \<Rightarrow> world \<Rightarrow> int" where
  "current_disk_mtime os p w = (case file_of os w p of None \<Rightarrow> 0 | Some f \<Rightarrow> mtime_ms f)"

definition record_state :: "os \<Rightarrow> path \<Rightarrow> str \<Rightarrow> int \<Rightarrow> world \<Rightarrow> world" where
  "record_state os p s t w =
     w\<lparr>wd_tracker := map_option (tracker_record p (os_hash os s) t) (wd_tracker w)\<rparr>"

lemma fs_write_fields [frame_simps]:
  "fs_write os p s w = Some w' \<Longrightarrow> wd_tracker w' = wd_tracker w"
  by (auto simp: fs_write_def Let_def split: if_splits)

lemma record_state_fields [frame_simps]:
  "wd_files (record_state os p s t w) = wd_files w" "wd_now (record_state os p s t w) = wd_now w"
  by (simp_all add: record_state_def)

end
