(* ===== verification/Hashline.thy ===== *)
theory Hashline
  imports Rust_Text
begin

text \<open>
  The line-addressed patch language of the hashline edit back end
  (\<open>crates/agent-core/src/edits/hashline\<close>): \<open>parser.rs\<close> reads a patch, \<open>apply.rs\<close> applies the section
  of one file to its text, \<open>format.rs\<close> computes the fingerprint and renders a file with line numbers.

  The checksum of the crate \<open>crc32fast\<close> is the parameter \<open>crc\<close>.
\<close>

abbreviation pilcrow :: str where "pilcrow \<equiv> [CHR 0xC2, CHR 0xB6]"

section \<open>Patches (\<open>parser.rs\<close>)\<close>

datatype hunk_line = Add str | Keep nat nat

record hunk =
  hk_start :: nat
  hk_end :: nat
  hk_body :: "hunk_line list"
  hk_is_eof_append :: bool

record file_section =
  fs_path :: str
  fs_expected_hash :: str
  fs_hunks :: "hunk list"

datatype hl_parse_error =
  MissingFileHeader nat
| InvalidHash nat
| InvalidKeepRange nat str
| UnexpectedLine nat str

text \<open>The three variables of \<open>parse_patch\<close>.\<close>

record patch_parser =
  pp_sections :: "file_section list"
  pp_section :: "file_section option"
  pp_hunk :: "hunk option"

definition flush_hunk :: "hunk option \<Rightarrow> file_section \<Rightarrow> file_section" where
  "flush_hunk current_hunk sec =
     (case current_hunk of None \<Rightarrow> sec | Some h \<Rightarrow> sec\<lparr>fs_hunks := fs_hunks sec @ [h]\<rparr>)"

text \<open>Without a current section the current hunk stays; the parser never has one without the other.\<close>

definition flush_section :: "patch_parser \<Rightarrow> patch_parser" where
  "flush_section p =
     (case pp_section p of
        None \<Rightarrow> p
      | Some sec \<Rightarrow>
          p\<lparr>pp_sections := pp_sections p @ [flush_hunk (pp_hunk p) sec],
            pp_section := None, pp_hunk := None\<rparr>)"

definition parse_file_header :: "str \<Rightarrow> nat \<Rightarrow> hl_parse_error + (str \<times> str)" where
  "parse_file_header rest line_no =
     (case rsplit_at_char (CHR ''#'') rest of
        None \<Rightarrow> Inl (MissingFileHeader line_no)
      | Some (path, hash) \<Rightarrow>
          if length hash \<noteq> 3 \<or> \<not> list_all ascii_hexdigit hash then Inl (InvalidHash line_no)
          else Inr (path, map ascii_upper hash))"

definition parse_hunk_header :: "str \<Rightarrow> (nat \<times> nat) option" where
  "parse_hunk_header line =
     (case split_at_char sp line of
        None \<Rightarrow> None
      | Some (a, b) \<Rightarrow>
          (case parse_usize (trim a) of
             None \<Rightarrow> None
           | Some x \<Rightarrow> map_option (Pair x) (parse_usize (trim b))))"

definition parse_keep_range :: "str \<Rightarrow> nat \<Rightarrow> hl_parse_error + (nat \<times> nat)" where
  "parse_keep_range rest line_no =
     (let bad = Inl (InvalidKeepRange line_no (''&'' @ rest))
      in case split_once_str ''..'' rest of
           None \<Rightarrow> bad
         | Some (a, b) \<Rightarrow>
             (case parse_usize (trim a) of
                None \<Rightarrow> bad
              | Some s \<Rightarrow> (case parse_usize (trim b) of None \<Rightarrow> bad | Some e \<Rightarrow> Inr (s, e))))"

definition strip_line_number_prefix :: "str \<Rightarrow> str" where
  "strip_line_number_prefix s =
     (case split_at_char (CHR '':'') s of
        None \<Rightarrow> s
      | Some (head, rest) \<Rightarrow>
          if head \<noteq> [] \<and> list_all ascii_digit (trim head) then rest else s)"

text \<open>\<open>current_hunk.get_or_insert_with(..)\<close> followed by a push on its body.\<close>

definition empty_hunk :: "nat \<Rightarrow> nat \<Rightarrow> bool \<Rightarrow> hunk" where
  "empty_hunk a b eof = \<lparr>hk_start = a, hk_end = b, hk_body = [], hk_is_eof_append = eof\<rparr>"

definition push_line :: "hunk_line \<Rightarrow> patch_parser \<Rightarrow> patch_parser" where
  "push_line l p =
     (let h = (case pp_hunk p of Some h \<Rightarrow> h | None \<Rightarrow> empty_hunk 0 0 False)
      in p\<lparr>pp_hunk := Some (h\<lparr>hk_body := hk_body h @ [l]\<rparr>)\<rparr>)"

text \<open>One turn of the loop over the lines.\<close>

definition parse_line :: "nat \<Rightarrow> str \<Rightarrow> patch_parser \<Rightarrow> hl_parse_error + patch_parser" where
  "parse_line line_no raw p =
     (case str_strip_prefix raw pilcrow of
        Some rest \<Rightarrow>
          (case parse_file_header rest line_no of
             Inl e \<Rightarrow> Inl e
           | Inr (path, hash) \<Rightarrow>
               Inr ((flush_section p)\<lparr>pp_section :=
                 Some \<lparr>fs_path = path, fs_expected_hash = hash, fs_hunks = []\<rparr>\<rparr>))
      | None \<Rightarrow>
          (case pp_section p of
             None \<Rightarrow> Inl (MissingFileHeader line_no)
           | Some sec \<Rightarrow>
               if raw = [] then Inr p
               else if raw = ''EOF'' then
                 Inr (p\<lparr>pp_section := Some (flush_hunk (pp_hunk p) sec),
                        pp_hunk := Some (empty_hunk 0 0 True)\<rparr>)
               else
                 (case str_strip_prefix raw ''+'' of
                    Some rest \<Rightarrow> Inr (push_line (Add (strip_line_number_prefix rest)) p)
                  | None \<Rightarrow>
                      (case str_strip_prefix raw ''&'' of
                         Some rest \<Rightarrow>
                           (case parse_keep_range rest line_no of
                              Inl e \<Rightarrow> Inl e
                            | Inr (s, e) \<Rightarrow> Inr (push_line (Keep s e) p))
                       | None \<Rightarrow>
                           (case parse_hunk_header raw of
                              Some (a, b) \<Rightarrow>
                                Inr (p\<lparr>pp_section := Some (flush_hunk (pp_hunk p) sec),
                                       pp_hunk := Some (empty_hunk a b False)\<rparr>)
                            | None \<Rightarrow> Inl (UnexpectedLine line_no (take_chars 60 raw)))))))"

fun parse_lines :: "nat \<Rightarrow> str list \<Rightarrow> patch_parser \<Rightarrow> hl_parse_error + patch_parser" where
  "parse_lines n [] p = Inr p"
| "parse_lines n (l # ls) p =
     (case parse_line n l p of Inl e \<Rightarrow> Inl e | Inr q \<Rightarrow> parse_lines (Suc n) ls q)"

definition parse_patch :: "str \<Rightarrow> hl_parse_error + file_section list" where
  "parse_patch patch =
     (case parse_lines 1 (str_lines patch)
             \<lparr>pp_sections = [], pp_section = None, pp_hunk = None\<rparr> of
        Inl e \<Rightarrow> Inl e
      | Inr p \<Rightarrow> Inr (pp_sections (flush_section p)))"

section \<open>Fingerprints and rendering (\<open>format.rs\<close>)\<close>

definition hash3 :: "(str \<Rightarrow> 32 word) \<Rightarrow> str \<Rightarrow> str" where
  "hash3 crc content =
     (let nibbles = crc content AND 0xFFF
      in [hex_upper (unat (drop_bit 8 nibbles AND 0xF)),
          hex_upper (unat (drop_bit 4 nibbles AND 0xF)),
          hex_upper (unat (nibbles AND 0xF))])"

fun number_lines :: "nat \<Rightarrow> str list \<Rightarrow> str" where
  "number_lines n [] = []"
| "number_lines n (l # ls) =
     dec n @ '':'' @ (case str_strip_suffix l [nl] of Some t \<Rightarrow> t | None \<Rightarrow> l) @ [nl]
       @ number_lines (Suc n) ls"

definition render_with_line_numbers_with_path :: "str \<Rightarrow> str \<Rightarrow> str \<Rightarrow> str" where
  "render_with_line_numbers_with_path path content hash =
     (let out = pilcrow @ path @ ''#'' @ hash @ [nl]
      in if content = [] then out else out @ number_lines 1 (split_inclusive_nl content))"

definition render_with_line_numbers :: "str \<Rightarrow> str \<Rightarrow> str" where
  "render_with_line_numbers content hash = render_with_line_numbers_with_path [] content hash"

section \<open>Applying a section (\<open>apply.rs\<close>)\<close>

text \<open>The transparent variant \<open>Parse\<close> is never built by this module.\<close>

datatype apply_error =
  StaleHash str str str
| OutOfRange str

definition split_lines :: "str \<Rightarrow> str list" where
  "split_lines content =
     (if content = [] then []
      else if ends_with content [nl] then butlast (split_nl content) else split_nl content)"

definition join_lines :: "str list \<Rightarrow> bool \<Rightarrow> str" where
  "join_lines lines trailing =
     (if lines = [] then (if trailing then [nl] else [])
      else join [nl] lines @ (if trailing then [nl] else []))"

fun expand_body :: "hunk_line list \<Rightarrow> str list \<Rightarrow> apply_error + str list" where
  "expand_body [] original_lines = Inr []"
| "expand_body (Add s # ls) original_lines =
     (case expand_body ls original_lines of Inl e \<Rightarrow> Inl e | Inr r \<Rightarrow> Inr (s # r))"
| "expand_body (Keep start stop # ls) original_lines =
     (if start = 0 \<or> stop < start \<or> length original_lines < stop then
        Inl (OutOfRange (''&'' @ dec start @ ''..'' @ dec stop @ '' (file has '' @
          dec (length original_lines) @ '' lines)''))
      else
        (case expand_body ls original_lines of
           Inl e \<Rightarrow> Inl e
         | Inr r \<Rightarrow> Inr (take (stop - (start - 1)) (drop (start - 1) original_lines) @ r)))"

definition apply_hunk :: "hunk \<Rightarrow> str list \<Rightarrow> str list \<Rightarrow> apply_error + str list" where
  "apply_hunk h original_lines lines =
     (case expand_body (hk_body h) original_lines of
        Inl e \<Rightarrow> Inl e
      | Inr expanded \<Rightarrow>
          if hk_is_eof_append h then Inr (lines @ expanded)
          else if hk_start h = 0 \<or> hk_end h < hk_start h \<or> length lines < hk_end h then
            Inl (OutOfRange (''lines '' @ dec (hk_start h) @ ''..='' @ dec (hk_end h) @
              '' (file has '' @ dec (length lines) @ '' lines)''))
          else Inr (take (hk_start h - 1) lines @ expanded @ drop (hk_end h) lines))"

definition hunk_key :: "hunk \<Rightarrow> nat" where
  "hunk_key h = (if hk_is_eof_append h then usize_max else hk_start h)"

text \<open>\<open>sort_by_key(Reverse(..))\<close> is stable.\<close>

definition hunks_sorted :: "hunk list \<Rightarrow> hunk list" where
  "hunks_sorted hs = sort_key (\<lambda>h. - int (hunk_key h)) hs"

fun apply_hunks :: "hunk list \<Rightarrow> str list \<Rightarrow> str list \<Rightarrow> apply_error + str list" where
  "apply_hunks [] original_lines lines = Inr lines"
| "apply_hunks (h # hs) original_lines lines =
     (case apply_hunk h original_lines lines of
        Inl e \<Rightarrow> Inl e
      | Inr lines' \<Rightarrow> apply_hunks hs original_lines lines')"

definition apply_section ::
    "(str \<Rightarrow> 32 word) \<Rightarrow> file_section \<Rightarrow> str \<Rightarrow> apply_error + str" where
  "apply_section crc s original =
     (let actual = hash3 crc original
      in if actual \<noteq> fs_expected_hash s then
           Inl (StaleHash (fs_path s) (fs_expected_hash s) actual)
         else
           let original_lines = split_lines original
           in case apply_hunks (hunks_sorted (fs_hunks s)) original_lines original_lines of
                Inl e \<Rightarrow> Inl e
              | Inr lines \<Rightarrow> Inr (join_lines lines (ends_with original [nl])))"

end
