(* ===== verification/Edit_Tools.thy ===== *)
theory Edit_Tools
  imports File_World Hashline
begin

text \<open>
  The two back ends of the tool \<open>Edit\<close>: string replacement
  (\<open>crates/agent-core/src/tools/edit.rs\<close>) and line patches (\<open>tools/edit_hashline.rs\<close>). An error is a
  value of \<open>edit_error\<close>; a slice off a character boundary panics, which is \<open>Panicked\<close>.
\<close>

section \<open>Outcomes\<close>

datatype edit_error =
  MissingField str
| NoChange
| NotebookUnsupported
| FileNotEmpty
| MkdirFailed
| WriteFailed
| NoSuchFile
| FileTooLarge nat
| IsDirectory
| FileNotRead
| FileStale
| ReadFailed
| OldStringNotFound bool
| NotUnique nat
| PatchSyntax hl_parse_error
| EmptyPatch
| SectionRejected apply_error

datatype edit_outcome =
  Panicked
| Refused edit_error
| Created nat nat
| Modified "nat option" nat nat
| Patched "(str \<times> nat \<times> str) list"

section \<open>Escapes (\<open>swap_unicode_escapes\<close>)\<close>

text \<open>\<open>char::from_u32\<close> of four hexadecimal digits and its UTF-8 bytes.\<close>

definition hex_code :: "str \<Rightarrow> nat" where
  "hex_code h = foldl (\<lambda>n c. 16 * n + hex_val c) 0 h"

definition encode_utf8 :: "nat \<Rightarrow> str option" where
  "encode_utf8 n =
     (if n < 128 then Some [char_of n]
      else if n < 2048 then Some [char_of (192 + n div 64), char_of (128 + n mod 64)]
      else if 55296 \<le> n \<and> n \<le> 57343 then None
      else Some [char_of (224 + n div 4096), char_of (128 + n div 64 mod 64), char_of (128 + n mod 64)])"

text \<open>The loop from byte \<open>i\<close> on, where \<open>s\<close> is the rest of the text: the output and whether a
  conversion was made; \<open>None\<close> where the slice \<open>s[i + 2..i + 6]\<close> panics.\<close>

function swap_loop :: "str \<Rightarrow> (str \<times> bool) option" where
  "swap_loop s =
     (case s of
        [] \<Rightarrow> Some ([], False)
      | c # r \<Rightarrow>
          (let plain = map_option (\<lambda>(out, ch). (c # takeWhile is_continuation r @ out, ch))
                 (swap_loop (dropWhile is_continuation r))
           in if c = bs \<and> 5 < length s \<and> s ! 1 = CHR ''u'' then
                (if \<not> is_char_boundary s 2 \<or> \<not> is_char_boundary s 6 then None
                 else
                   let hex = take 4 (drop 2 s)
                   in case (if list_all ascii_hexdigit hex then encode_utf8 (hex_code hex) else None) of
                        Some ch \<Rightarrow> map_option (\<lambda>(out, _). (ch @ out, True)) (swap_loop (drop 6 s))
                      | None \<Rightarrow> plain)
              else plain))"
  by pat_completeness auto
termination
proof (relation "measure length", goal_cases)
  case (2 s c r)
  then show ?case using length_dropWhile_le [of is_continuation r] by (simp add: le_imp_less_Suc)
qed auto

declare swap_loop.simps [simp del]

datatype swap_result = SwapPanic | NoSwap | Swapped str

definition swap_unicode_escapes :: "str \<Rightarrow> swap_result" where
  "swap_unicode_escapes s =
     (if \<not> contains_str s [bs, CHR ''u''] then NoSwap
      else case swap_loop s of
             None \<Rightarrow> SwapPanic
           | Some (out, ch) \<Rightarrow> if ch then Swapped out else NoSwap)"

section \<open>String replacement (\<open>edit.rs\<close>)\<close>

definition MAX_FILE_BYTES :: nat where "MAX_FILE_BYTES = 1024 * 1024 * 1024"

definition find_matches :: "str \<Rightarrow> str \<Rightarrow> nat option" where
  "find_matches haystack needle =
     (if needle = [] then None
      else let n = match_count needle haystack in if n = 0 then None else Some n)"

definition normalize_eol :: "str \<Rightarrow> str" where
  "normalize_eol s = str_replace [cr, nl] [nl] s"

text \<open>The text that is replaced and how often it occurs.\<close>

definition actual_old :: "str \<Rightarrow> str \<Rightarrow> (edit_error + (str \<times> nat)) option" where
  "actual_old normalized_content normalized_old =
     (case find_matches normalized_content normalized_old of
        Some n \<Rightarrow> Some (Inr (normalized_old, n))
      | None \<Rightarrow>
          (case swap_unicode_escapes normalized_old of
             SwapPanic \<Rightarrow> None
           | NoSwap \<Rightarrow> Some (Inl (OldStringNotFound False))
           | Swapped swapped \<Rightarrow>
               (case find_matches normalized_content swapped of
                  Some n \<Rightarrow> Some (Inr (swapped, n))
                | None \<Rightarrow> Some (Inl (OldStringNotFound True)))))"

definition edit_text :: "str \<Rightarrow> str \<Rightarrow> str \<Rightarrow> bool \<Rightarrow> (edit_error + (str \<times> nat)) option" where
  "edit_text content old_string new_string replace_all =
     (let normalized_content = normalize_eol content
      in case actual_old normalized_content (normalize_eol old_string) of
           None \<Rightarrow> None
         | Some (Inl e) \<Rightarrow> Some (Inl e)
         | Some (Inr (old, n)) \<Rightarrow>
             if n > 1 \<and> \<not> replace_all then Some (Inl (NotUnique n))
             else Some (Inr (if replace_all then str_replace old new_string normalized_content
                             else replacen old new_string 1 normalized_content, n)))"

text \<open>The check against the tracker, when there is one.\<close>

definition tracker_refuses :: "world \<Rightarrow> path \<Rightarrow> disk_file \<Rightarrow> edit_error option" where
  "tracker_refuses w p f =
     (case wd_tracker w of
        None \<Rightarrow> None
      | Some tr \<Rightarrow>
          (case precheck tr p (mtime_ms f) of
             NotRead \<Rightarrow> Some FileNotRead
           | Stale \<Rightarrow> Some FileStale
           | Fresh \<Rightarrow> None))"

definition write_back :: "os \<Rightarrow> path \<Rightarrow> str \<Rightarrow> world \<Rightarrow> world option" where
  "write_back os p s w =
     map_option (\<lambda>w'. record_state os p s (current_disk_mtime os p w') w') (fs_write os p s w)"

definition execute_create :: "os \<Rightarrow> path \<Rightarrow> str \<Rightarrow> world \<Rightarrow> edit_outcome \<times> world" where
  "execute_create os p new_string w =
     (if file_of os w p \<noteq> None \<and>
         trim (case fs_read_to_string os p w of Some s \<Rightarrow> s | None \<Rightarrow> []) \<noteq> []
      then (Refused FileNotEmpty, w)
      else if (case path_parent p of None \<Rightarrow> False | Some q \<Rightarrow> \<not> os_mkdir os q)
      then (Refused MkdirFailed, w)
      else case write_back os p new_string w of
             None \<Rightarrow> (Refused WriteFailed, w)
           | Some w' \<Rightarrow> (Created (length new_string) (length (str_lines new_string)), w'))"

definition execute_modify ::
    "os \<Rightarrow> path \<Rightarrow> str \<Rightarrow> str \<Rightarrow> bool \<Rightarrow> world \<Rightarrow> edit_outcome \<times> world" where
  "execute_modify os p old_string new_string replace_all w =
     (case file_of os w p of
        None \<Rightarrow> (Refused NoSuchFile, w)
      | Some f \<Rightarrow>
          if length (df_bytes f) > MAX_FILE_BYTES then (Refused (FileTooLarge (length (df_bytes f))), w)
          else if df_is_dir f then (Refused IsDirectory, w)
          else (case tracker_refuses w p f of
            Some e \<Rightarrow> (Refused e, w)
          | None \<Rightarrow>
              (case fs_read_to_string os p w of
                 None \<Rightarrow> (Refused ReadFailed, w)
               | Some content \<Rightarrow>
                   (case edit_text content old_string new_string replace_all of
                      None \<Rightarrow> (Panicked, w)
                    | Some (Inl e) \<Rightarrow> (Refused e, w)
                    | Some (Inr (new_content, n)) \<Rightarrow>
                        (case write_back os p new_content w of
                           None \<Rightarrow> (Refused WriteFailed, w)
                         | Some w' \<Rightarrow>
                             (Modified (if replace_all \<and> n > 1 then Some n else None)
                                (length content) (length new_content), w'))))))"

text \<open>\<open>Path::extension\<close>.\<close>

definition path_extension :: "path \<Rightarrow> str option" where
  "path_extension p =
     (case path_file_name p of
        None \<Rightarrow> None
      | Some n \<Rightarrow>
          (case rsplit_at_char (CHR ''.'') n of
             None \<Rightarrow> None
           | Some (a, b) \<Rightarrow> if a = [] then None else Some b))"

definition json_get_bool :: "json \<Rightarrow> str \<Rightarrow> bool option" where
  "json_get_bool v k =
     (case v of
        JObj kvs \<Rightarrow> (case map_of kvs k of Some (JBool b) \<Rightarrow> Some b | _ \<Rightarrow> None)
      | _ \<Rightarrow> None)"

definition edit_execute :: "os \<Rightarrow> json \<Rightarrow> world \<Rightarrow> edit_outcome \<times> world" where
  "edit_execute os input w =
     (case json_get_str input ''file_path'' of
        None \<Rightarrow> (Refused (MissingField ''file_path''), w)
      | Some p \<Rightarrow>
     (case json_get_str input ''old_string'' of
        None \<Rightarrow> (Refused (MissingField ''old_string''), w)
      | Some old_string \<Rightarrow>
     (case json_get_str input ''new_string'' of
        None \<Rightarrow> (Refused (MissingField ''new_string''), w)
      | Some new_string \<Rightarrow>
          if old_string = new_string then (Refused NoChange, w)
          else if path_extension p = Some ''ipynb'' then (Refused NotebookUnsupported, w)
          else if old_string = [] then execute_create os p new_string w
          else execute_modify os p old_string new_string
                 (json_get_bool input ''replace_all'' = Some True) w)))"

section \<open>Line patches (\<open>edit_hashline.rs\<close>)\<close>

definition apply_file ::
    "os \<Rightarrow> (str \<Rightarrow> 32 word) \<Rightarrow> file_section \<Rightarrow> world \<Rightarrow> edit_error + (str \<times> world)" where
  "apply_file os crc s w =
     (let p = fs_path s
      in case file_of os w p of
           None \<Rightarrow> Inl NoSuchFile
         | Some f \<Rightarrow>
             (case tracker_refuses w p f of
                Some e \<Rightarrow> Inl e
              | None \<Rightarrow>
                  (case fs_read_to_string os p w of
                     None \<Rightarrow> Inl ReadFailed
                   | Some original \<Rightarrow>
                       (case apply_section crc s original of
                          Inl e \<Rightarrow> Inl (SectionRejected e)
                        | Inr new_content \<Rightarrow>
                            (case write_back os p new_content w of
                               None \<Rightarrow> Inl WriteFailed
                             | Some w' \<Rightarrow> Inr (hash3 crc new_content, w'))))))"

fun apply_files ::
    "os \<Rightarrow> (str \<Rightarrow> 32 word) \<Rightarrow> file_section list \<Rightarrow> (str \<times> nat \<times> str) list \<Rightarrow> world \<Rightarrow>
     edit_outcome \<times> world" where
  "apply_files os crc [] report w = (Patched report, w)"
| "apply_files os crc (s # ss) report w =
     (case apply_file os crc s w of
        Inl e \<Rightarrow> (Refused e, w)
      | Inr (h, w') \<Rightarrow>
          apply_files os crc ss (report @ [(fs_path s, length (fs_hunks s), h)]) w')"

definition edit_hashline_execute ::
    "os \<Rightarrow> (str \<Rightarrow> 32 word) \<Rightarrow> json \<Rightarrow> world \<Rightarrow> edit_outcome \<times> world" where
  "edit_hashline_execute os crc input w =
     (case json_get_str input ''patch'' of
        None \<Rightarrow> (Refused (MissingField ''patch''), w)
      | Some patch \<Rightarrow>
          (case parse_patch patch of
             Inl e \<Rightarrow> (Refused (PatchSyntax e), w)
           | Inr sections \<Rightarrow>
               if sections = [] then (Refused EmptyPatch, w)
               else apply_files os crc sections [] w))"

end
