(* ===== verification/Read_Tools.thy ===== *)
theory Read_Tools
  imports File_World Hashline
begin

text \<open>
  The two back ends of the tool \<open>Read\<close>: numbered lines (\<open>crates/agent-core/src/tools/read.rs\<close>) and
  the hashline format (\<open>tools/read_hashline.rs\<close>), with the recognition of images
  (\<open>crates/common/src/attachments.rs\<close>). Both print the lines of a page up to a size, put the rest of
  a long line into a file of the session and record the file as read.
\<close>

section \<open>Images (\<open>attachments.rs\<close>)\<close>

definition sniff_image_magic :: "str \<Rightarrow> str option" where
  "sniff_image_magic bytes =
     (if starts_with bytes [CHR 0x89, CHR ''P'', CHR ''N'', CHR ''G'', CHR 0x0D, CHR 0x0A, CHR 0x1A, CHR 0x0A]
      then Some ''image/png''
      else if starts_with bytes [CHR 0xFF, CHR 0xD8, CHR 0xFF] then Some ''image/jpeg''
      else if 12 \<le> length bytes \<and> take 4 bytes = ''RIFF'' \<and> take 4 (drop 8 bytes) = ''WEBP''
      then Some ''image/webp''
      else if starts_with bytes ''GIF87a'' \<or> starts_with bytes ''GIF89a'' then Some ''image/gif''
      else None)"

definition detect_image_media_type :: "str \<Rightarrow> str \<Rightarrow> str option" where
  "detect_image_media_type file_name bytes =
     (let ext = to_ascii_lowercase
            (case rsplit_at_char (CHR ''.'') file_name of Some (_, e) \<Rightarrow> e | None \<Rightarrow> file_name);
          by_ext = (if ext = ''png'' then Some ''image/png''
                    else if ext = ''jpg'' \<or> ext = ''jpeg'' then Some ''image/jpeg''
                    else if ext = ''webp'' then Some ''image/webp''
                    else if ext = ''gif'' then Some ''image/gif''
                    else None)
      in if by_ext \<noteq> None \<and> sniff_image_magic bytes = by_ext then by_ext else None)"

section \<open>Texts of the messages\<close>

definition msg_ellipsis_open :: str where
  "msg_ellipsis_open =
     [CHR 0xE2, CHR 0x80, CHR 0xA6, CHR 0x5B, CHR 0xE6, CHR 0x88, CHR 0xAA, CHR 0xE6, CHR 0x96,
     CHR 0xAD, CHR 0xEF, CHR 0xBC, CHR 0x8C, CHR 0xE5, CHR 0x89, CHR 0xA9, CHR 0xE4, CHR 0xBD,
     CHR 0x99, CHR 0x20]"

definition msg_chars_saved :: str where
  "msg_chars_saved =
     [CHR 0x20, CHR 0xE5, CHR 0xAD, CHR 0x97, CHR 0xE7, CHR 0xAC, CHR 0xA6, CHR 0xE5, CHR 0xB7,
     CHR 0xB2, CHR 0xE8, CHR 0x90, CHR 0xBD, CHR 0xE7, CHR 0x9B, CHR 0x98, CHR 0x20]"

definition msg_chars_close :: str where
  "msg_chars_close =
     [CHR 0x20, CHR 0xE5, CHR 0xAD, CHR 0x97, CHR 0xE7, CHR 0xAC, CHR 0xA6, CHR 0x5D]"

definition msg_capped_open :: str where
  "msg_capped_open =
     [CHR 0x0A, CHR 0x5B, CHR 0xE8, CHR 0xBE, CHR 0x93, CHR 0xE5, CHR 0x87, CHR 0xBA, CHR 0xE6,
     CHR 0x88, CHR 0xAA, CHR 0xE6, CHR 0x96, CHR 0xAD, CHR 0xEF, CHR 0xBC, CHR 0x9A, CHR 0xE5,
     CHR 0xB7, CHR 0xB2, CHR 0xE6, CHR 0x98, CHR 0xBE, CHR 0xE7, CHR 0xA4, CHR 0xBA, CHR 0x20]"

definition msg_capped_lines :: str where
  "msg_capped_lines =
     [CHR 0x20, CHR 0xE8, CHR 0xA1, CHR 0x8C, CHR 0xE3, CHR 0x80, CHR 0x82, CHR 0xE5, CHR 0x90,
     CHR 0x8E, CHR 0xE7, CHR 0xBB, CHR 0xAD, CHR 0xE7, CHR 0xBA, CHR 0xA6, CHR 0x20]"

definition msg_capped_rest :: str where
  "msg_capped_rest =
     [CHR 0x20, CHR 0xE8, CHR 0xA1, CHR 0x8C, CHR 0xE6, CHR 0x9C, CHR 0xAA, CHR 0xE6, CHR 0x98,
     CHR 0xBE, CHR 0xE7, CHR 0xA4, CHR 0xBA, CHR 0xE3, CHR 0x80, CHR 0x82, CHR 0xE8, CHR 0xAF,
     CHR 0xB7, CHR 0xE7, CHR 0x94, CHR 0xA8, CHR 0x20, CHR 0x6F, CHR 0x66, CHR 0x66, CHR 0x73,
     CHR 0x65, CHR 0x74, CHR 0x2F, CHR 0x6C, CHR 0x69, CHR 0x6D, CHR 0x69, CHR 0x74, CHR 0x20,
     CHR 0xE7, CHR 0xBF, CHR 0xBB, CHR 0xE9, CHR 0xA1, CHR 0xB5, CHR 0xE8, CHR 0xAF, CHR 0xBB,
     CHR 0xE5, CHR 0x8F, CHR 0x96, CHR 0xEF, CHR 0xBC, CHR 0x88, CHR 0xE5, CHR 0xBD, CHR 0x93,
     CHR 0xE5, CHR 0x89, CHR 0x8D, CHR 0x20, CHR 0x6F, CHR 0x66, CHR 0x66, CHR 0x73, CHR 0x65,
     CHR 0x74, CHR 0x3D]"

definition msg_capped_close :: str where
  "msg_capped_close =
     [CHR 0xEF, CHR 0xBC, CHR 0x89, CHR 0xE3, CHR 0x80, CHR 0x82, CHR 0x5D]"

definition msg_none_open :: str where
  "msg_none_open =
     [CHR 0x28, CHR 0xE6, CHR 0x96, CHR 0x87, CHR 0xE4, CHR 0xBB, CHR 0xB6, CHR 0xE5, CHR 0x85,
     CHR 0xB1, CHR 0x20]"

definition msg_none_lines :: str where
  "msg_none_lines =
     [CHR 0x20, CHR 0xE8, CHR 0xA1, CHR 0x8C, CHR 0xEF, CHR 0xBC, CHR 0x9B, CHR 0x6F, CHR 0x66,
     CHR 0x66, CHR 0x73, CHR 0x65, CHR 0x74, CHR 0x3D]"

definition msg_none_close :: str where
  "msg_none_close =
     [CHR 0x20, CHR 0xE8, CHR 0x8C, CHR 0x83, CHR 0xE5, CHR 0x9B, CHR 0xB4, CHR 0xE5, CHR 0x86,
     CHR 0x85, CHR 0xE6, CHR 0x97, CHR 0xA0, CHR 0xE5, CHR 0x86, CHR 0x85, CHR 0xE5, CHR 0xAE,
     CHR 0xB9, CHR 0x29]"

section \<open>Pages\<close>

definition DEFAULT_LIMIT :: nat where "DEFAULT_LIMIT = 2000"
definition MAX_LINE_LENGTH :: nat where "MAX_LINE_LENGTH = 2000"
definition MAX_OUTPUT_BYTES :: nat where "MAX_OUTPUT_BYTES = 100000"
definition READ_MAX_FILE_BYTES :: nat where "READ_MAX_FILE_BYTES = 5 * 1024 * 1024"

datatype read_style = CatN | HashlineStyle

text \<open>What a tool is built with; \<open>rd_hash_str\<close> is the hash of a path in a file name.\<close>

record reader =
  rd_style :: read_style
  rd_data_dir :: "path option"
  rd_session_id :: "str option"
  rd_hash_str :: "str \<Rightarrow> 64 word"

function floor_char_boundary :: "str \<Rightarrow> nat \<Rightarrow> nat" where
  "floor_char_boundary s i =
     (if length s \<le> i then length s
      else if is_char_boundary s i then i else floor_char_boundary s (i - 1))"
  by pat_completeness auto
termination
  by (relation "measure snd") (auto simp: is_char_boundary_def intro: gr0I)

declare floor_char_boundary.simps [simp del]

text \<open>\<open>{:016x}\<close> and \<open>{:>5}\<close>.\<close>

definition hex16 :: "64 word \<Rightarrow> str" where
  "hex16 w = map (\<lambda>i. ascii_lower (hex_upper (unat w div 16 ^ i mod 16))) (rev [0..<16])"

definition pad5 :: "str \<Rightarrow> str" where
  "pad5 s = replicate (5 - length s) sp @ s"

text \<open>The rest of a line in chunks of characters, each on its own line.\<close>

function wrap_chunks :: "str \<Rightarrow> str" where
  "wrap_chunks s =
     (let chunk = take_chars MAX_LINE_LENGTH s
      in if chunk = [] then [] else chunk @ [nl] @ wrap_chunks (drop (length chunk) s))"
  by pat_completeness auto
termination
proof (relation "measure length", goal_cases)
  case (2 s chunk)
  have "take_chars n [] = []" for n by simp
  with 2 show ?case by (cases s) (auto simp: Let_def)
qed simp

declare wrap_chunks.simps [simp del]

definition line_trunc_path :: "path \<Rightarrow> str \<Rightarrow> 64 word \<Rightarrow> nat \<Rightarrow> path" where
  "line_trunc_path data_dir session_id h line_no =
     path_join (path_join (path_join (path_join data_dir ''sessions'') session_id) ''line_trunc'')
       (hex16 h @ ''_L'' @ dec line_no @ ''.txt'')"

definition save_line_remainder ::
    "os \<Rightarrow> reader \<Rightarrow> str \<Rightarrow> nat \<Rightarrow> str \<Rightarrow> world \<Rightarrow> path option \<times> world" where
  "save_line_remainder os rd file_path line_no remainder w =
     (case (rd_data_dir rd, rd_session_id rd) of
        (Some dd, Some sid) \<Rightarrow>
          (let p = line_trunc_path dd sid (rd_hash_str rd file_path) line_no;
               dir = path_join (path_join (path_join dd ''sessions'') sid) ''line_trunc''
           in if \<not> os_mkdir os dir then (None, w)
              else case fs_write os p (wrap_chunks remainder) w of
                     None \<Rightarrow> (None, w)
                   | Some w' \<Rightarrow> (Some p, w'))
      | _ \<Rightarrow> (None, w))"

text \<open>A line as it is shown; \<open>None\<close> where the slice of the hashline back end panics.\<close>

definition format_line ::
    "os \<Rightarrow> reader \<Rightarrow> str \<Rightarrow> nat \<Rightarrow> str \<Rightarrow> world \<Rightarrow> (str \<times> world) option" where
  "format_line os rd file_path line_no line w =
     (if length line \<le> MAX_LINE_LENGTH then Some (line, w)
      else
        let split = (case rd_style rd of
              CatN \<Rightarrow> Some (floor_char_boundary line MAX_LINE_LENGTH)
            | HashlineStyle \<Rightarrow>
                if is_char_boundary line MAX_LINE_LENGTH then Some MAX_LINE_LENGTH else None)
        in case split of
             None \<Rightarrow> None
           | Some n \<Rightarrow>
               (let remainder = drop n line;
                    (saved, w') = save_line_remainder os rd file_path line_no remainder w;
                    len = dec (length remainder)
                in Some (take n line @ msg_ellipsis_open @ len @
                     (case saved of Some q \<Rightarrow> msg_chars_saved @ q @ '']'' | None \<Rightarrow> msg_chars_close), w')))"

definition line_str :: "read_style \<Rightarrow> nat \<Rightarrow> str \<Rightarrow> str" where
  "line_str st n formatted =
     (case st of
        CatN \<Rightarrow> pad5 (dec n) @ [tab] @ formatted @ [nl]
      | HashlineStyle \<Rightarrow> dec n @ '':'' @ formatted @ [nl])"

text \<open>\<open>offset + limit\<close> in 64 bits: the release build wraps around.\<close>

definition page_end :: "nat \<Rightarrow> nat \<Rightarrow> nat" where
  "page_end offset limit = (offset + limit) mod 2 ^ 64"

definition in_page :: "nat \<Rightarrow> nat \<Rightarrow> nat \<Rightarrow> bool" where
  "in_page offset limit n \<longleftrightarrow> \<not> (n < offset \<or> n \<ge> page_end offset limit)"

definition capped_note :: "nat \<Rightarrow> nat \<Rightarrow> nat \<Rightarrow> nat \<Rightarrow> str" where
  "capped_note shown remaining offset limit =
     msg_capped_open @ dec shown @ msg_capped_lines @ dec remaining @ msg_capped_rest @
     dec offset @ '' limit='' @ dec limit @ msg_capped_close"

text \<open>The loop over the lines after the first \<open>k\<close>. A page that is full ends with a note.\<close>

datatype page = PagePanic | PageFull str | PageEnd str nat

fun read_lines ::
    "os \<Rightarrow> reader \<Rightarrow> str \<Rightarrow> nat \<Rightarrow> nat \<Rightarrow> nat \<Rightarrow> nat \<Rightarrow> str list \<Rightarrow> str \<Rightarrow> nat \<Rightarrow> world \<Rightarrow> page \<times> world"
where
  "read_lines os rd p offset limit count k [] out shown w = (PageEnd out shown, w)"
| "read_lines os rd p offset limit count k (l # ls) out shown w =
     (let n = k + 1
      in if \<not> in_page offset limit n then read_lines os rd p offset limit count n ls out shown w
         else case format_line os rd p n l w of
                None \<Rightarrow> (PagePanic, w)
              | Some (formatted, w') \<Rightarrow>
                  (let s = line_str (rd_style rd) n formatted;
                       started = (case rd_style rd of CatN \<Rightarrow> out \<noteq> [] | HashlineStyle \<Rightarrow> 0 < shown)
                   in if length out + length s > MAX_OUTPUT_BYTES \<and> started
                      then (PageFull (out @ capped_note shown (count - n) offset limit), w')
                      else read_lines os rd p offset limit count n ls (out @ s) (shown + 1) w'))"

section \<open>The tool\<close>

definition json_get_u64 :: "json \<Rightarrow> str \<Rightarrow> nat option" where
  "json_get_u64 v k =
     (case v of
        JObj kvs \<Rightarrow>
          (case map_of kvs k of
             Some (JNum i) \<Rightarrow> if 0 \<le> i \<and> i < 2 ^ 64 then Some (nat i) else None
           | _ \<Rightarrow> None)
      | _ \<Rightarrow> None)"

datatype read_error = ReadMissingPath | ReadStatFailed | ReadIsDirectory | ReadTooLarge nat | ReadIoFailed

datatype read_outcome = ReadPanicked | ReadRefused read_error | ReadImage str str | ReadText str

definition show_text ::
    "os \<Rightarrow> (str \<Rightarrow> 32 word) \<Rightarrow> reader \<Rightarrow> str \<Rightarrow> nat \<Rightarrow> nat \<Rightarrow> str \<Rightarrow> world \<Rightarrow> read_outcome \<times> world" where
  "show_text os crc rd p offset limit content w =
     (let txt = utf8_lossy content;
          ls = str_lines txt;
          header = (case rd_style rd of
              CatN \<Rightarrow> []
            | HashlineStyle \<Rightarrow> pilcrow @ p @ ''#'' @ hash3 crc txt @ [nl])
      in case read_lines os rd p offset limit (length ls) 0 ls header 0 w of
           (PagePanic, w') \<Rightarrow> (ReadPanicked, w')
         | (PageFull out, w') \<Rightarrow> (ReadText out, w')
         | (PageEnd out shown, w') \<Rightarrow>
             (let empty = (case rd_style rd of CatN \<Rightarrow> out = [] | HashlineStyle \<Rightarrow> shown = 0)
              in (ReadText
                    (if empty then msg_none_open @ dec (length ls) @ msg_none_lines @ dec offset @
                       '' limit='' @ dec limit @ msg_none_close
                     else out), w')))"

definition read_execute ::
    "os \<Rightarrow> (str \<Rightarrow> 32 word) \<Rightarrow> reader \<Rightarrow> json \<Rightarrow> world \<Rightarrow> read_outcome \<times> world" where
  "read_execute os crc rd input w =
     (case json_get_str input ''file_path'' of
        None \<Rightarrow> (ReadRefused ReadMissingPath, w)
      | Some p \<Rightarrow>
          (let offset = max 1 (case json_get_u64 input ''offset'' of Some n \<Rightarrow> n | None \<Rightarrow> 1);
               limit = (case json_get_u64 input ''limit'' of Some n \<Rightarrow> n | None \<Rightarrow> DEFAULT_LIMIT)
           in case file_of os w p of
                None \<Rightarrow> (ReadRefused ReadStatFailed, w)
              | Some f \<Rightarrow>
                  if df_is_dir f then (ReadRefused ReadIsDirectory, w)
                  else if length (df_bytes f) > READ_MAX_FILE_BYTES
                  then (ReadRefused (ReadTooLarge (length (df_bytes f))), w)
                  else (case fs_read os p w of
                     None \<Rightarrow> (ReadRefused ReadIoFailed, w)
                   | Some content \<Rightarrow>
                       (let w' = record_state os p content (mtime_ms f) w
                        in case (case rd_style rd of
                                   CatN \<Rightarrow> detect_image_media_type p content
                                 | HashlineStyle \<Rightarrow> None) of
                             Some media \<Rightarrow>
                               (ReadImage (case path_file_name p of Some n \<Rightarrow> n | None \<Rightarrow> p) media, w')
                           | None \<Rightarrow> show_text os crc rd p offset limit content w'))))"

end
