(* ===== verification/Edit_Guard.thy ===== *)
theory Edit_Guard
  imports Edit_Tools Read_Tools
begin

text \<open>
  What the read tracker gives: the interface \<open>file_tool\<close> states the contract that every tool sharing
  the tracker keeps, the interpretations discharge it for \<open>Edit\<close>, its hashline back end and \<open>Read\<close>,
  and the clients' lemmas follow for every sequence of calls and changes from outside.
\<close>

section \<open>The invariant\<close>

text \<open>A file that looks fresh has the content whose hash the tracker holds; the clock is ahead of all
  times.\<close>

definition seen :: "os \<Rightarrow> world \<Rightarrow> bool" where
  "seen os w \<longleftrightarrow> (\<forall>tr k rs g. wd_tracker w = Some tr \<longrightarrow> tr k = Some rs \<longrightarrow>
     wd_files w (os_file os k) = Some g \<longrightarrow> mtime_ms g \<le> rs_mtime_ms rs \<longrightarrow>
     rs_content_hash rs = os_hash os (df_bytes g))"

definition clock_ok :: "world \<Rightarrow> bool" where
  "clock_ok w \<longleftrightarrow> 0 < wd_now w \<and> (\<forall>i g. wd_files w i = Some g \<longrightarrow> mtime_ms g < wd_now w) \<and>
     (\<forall>tr k rs. wd_tracker w = Some tr \<longrightarrow> tr k = Some rs \<longrightarrow> rs_mtime_ms rs < wd_now w)"

definition world_ok :: "os \<Rightarrow> world \<Rightarrow> bool" where
  "world_ok os w \<longleftrightarrow> seen os w \<and> clock_ok w"

text \<open>What a tool may overwrite: nothing, a text of white space, a file that cannot be read as text,
  or a file some path of which passes the check.\<close>

definition no_text :: "os \<Rightarrow> str \<Rightarrow> disk_file \<Rightarrow> bool" where
  "no_text os i g \<longleftrightarrow> df_is_dir g \<or> \<not> os_readable os i \<or> \<not> valid_utf8 (df_bytes g) \<or> trim (df_bytes g) = []"

definition fresh_file :: "os \<Rightarrow> read_tracker \<Rightarrow> str \<Rightarrow> disk_file \<Rightarrow> bool" where
  "fresh_file os tr i g \<longleftrightarrow>
     (\<exists>p. os_file os (components p) = i \<and> precheck tr p (mtime_ms g) = Fresh)"

definition overwritable :: "os \<Rightarrow> world \<Rightarrow> str \<Rightarrow> bool" where
  "overwritable os w i \<longleftrightarrow> (\<forall>tr g. wd_tracker w = Some tr \<longrightarrow> wd_files w i = Some g \<longrightarrow>
     no_text os i g \<or> fresh_file os tr i g)"

lemma precheck_Fresh_iff:
  "precheck tr p t = Fresh \<longleftrightarrow> (\<exists>rs. tr (components p) = Some rs \<and> t \<le> rs_mtime_ms rs)"
  by (auto simp: precheck_def split: option.splits)

lemma seen_fresh:
  "seen os w \<Longrightarrow> wd_tracker w = Some tr \<Longrightarrow> wd_files w i = Some g \<Longrightarrow> fresh_file os tr i g \<Longrightarrow>
    \<exists>p rs. os_file os (components p) = i \<and> tr (components p) = Some rs \<and>
      rs_content_hash rs = os_hash os (df_bytes g)"
  unfolding fresh_file_def precheck_Fresh_iff seen_def by blast

section \<open>Events\<close>

text \<open>A call of a tool, or a change from outside at a time not before the clock.\<close>

datatype 'i event = Call 'i | Outside str "disk_file option" int

fun happen :: "('i \<Rightarrow> world \<Rightarrow> 'o \<times> world) \<Rightarrow> 'i event \<Rightarrow> world \<Rightarrow> world" where
  "happen run (Call i) w = snd (run i w)"
| "happen run (Outside f g t) w =
     w\<lparr>wd_files := (wd_files w)(f := map_option (\<lambda>d. d\<lparr>df_mtime := t\<rparr>) g), wd_now := t + 1\<rparr>"

fun in_time :: "('i \<Rightarrow> world \<Rightarrow> 'o \<times> world) \<Rightarrow> 'i event list \<Rightarrow> world \<Rightarrow> bool" where
  "in_time run [] w \<longleftrightarrow> True"
| "in_time run (e # es) w \<longleftrightarrow>
     (case e of Outside f g t \<Rightarrow> wd_now w \<le> t | Call i \<Rightarrow> True) \<and> in_time run es (happen run e w)"

lemma world_ok_outside:
  assumes "world_ok os w" "wd_now w \<le> t"
  shows "world_ok os (w\<lparr>wd_files := (wd_files w)(f := map_option (\<lambda>d. d\<lparr>df_mtime := t\<rparr>) g), wd_now := t + 1\<rparr>)"
    (is "world_ok os ?w")
  unfolding world_ok_def
proof
  have t: "0 < wd_now w" "\<And>i g. wd_files w i = Some g \<Longrightarrow> mtime_ms g < wd_now w"
    "\<And>tr k rs. wd_tracker w = Some tr \<Longrightarrow> tr k = Some rs \<Longrightarrow> rs_mtime_ms rs < wd_now w"
    using assms(1) by (auto simp: world_ok_def clock_ok_def)
  show "clock_ok ?w"
    using t assms(2) by (force simp: clock_ok_def mtime_ms_def)
  show "seen os ?w"
    unfolding seen_def
  proof (intro allI impI)
    fix tr k rs d
    assume a: "wd_tracker ?w = Some tr" "tr k = Some rs" "wd_files ?w (os_file os k) = Some d"
      "mtime_ms d \<le> rs_mtime_ms rs"
    then have "os_file os k \<noteq> f"
      using t(3) [of tr k rs] assms(2) by (auto simp: mtime_ms_def)
    with a show "rs_content_hash rs = os_hash os (df_bytes d)"
      using assms(1) unfolding world_ok_def seen_def by (metis fun_upd_other world.select_convs(1,3)
          world.surjective world.update_convs(1,2))
  qed
qed

section \<open>The contract of a tool\<close>

locale file_tool =
  fixes os :: os and run :: "'i \<Rightarrow> world \<Rightarrow> 'o \<times> world" and scratch :: "str set"
  assumes keeps: "world_ok os w \<Longrightarrow> world_ok os (snd (run i w))"
    and guarded: "wd_files (snd (run i w)) f \<noteq> wd_files w f \<Longrightarrow> f \<notin> scratch \<Longrightarrow> overwritable os w f"
    and tracker_stays: "wd_tracker (snd (run i w)) = None \<longleftrightarrow> wd_tracker w = None"
begin

lemma ok_after: "world_ok os w \<Longrightarrow> in_time run es w \<Longrightarrow> world_ok os (fold (happen run) es w)"
proof (induction es arbitrary: w)
  case (Cons e es)
  then show ?case
    using keeps world_ok_outside by (cases e) auto
qed simp

lemma tracker_after: "wd_tracker (fold (happen run) es w) = None \<longleftrightarrow> wd_tracker w = None"
proof (induction es arbitrary: w)
  case (Cons e es)
  then show ?case by (cases e) (simp_all add: tracker_stays)
qed simp

lemma overwrites_what_was_seen:
  assumes "world_ok os w0" "in_time run es w0" "wd_tracker w0 \<noteq> None"
    and "w = fold (happen run) es w0" "wd_files w f = Some g" "f \<notin> scratch"
    and "wd_files (snd (run i w)) f \<noteq> Some g"
  shows "no_text os f g \<or> (\<exists>tr p rs. wd_tracker w = Some tr \<and> os_file os (components p) = f \<and>
    tr (components p) = Some rs \<and> rs_content_hash rs = os_hash os (df_bytes g))"
proof -
  obtain tr where "wd_tracker w = Some tr"
    using assms(3,4) tracker_after [of es w0] by fastforce
  moreover have "overwritable os w f"
    using assms(5-7) by (intro guarded [of i]) auto
  ultimately show ?thesis
    using assms(5) seen_fresh [of os w tr f g] ok_after [OF assms(1,2)] assms(4)
    by (auto simp: overwritable_def world_ok_def)
qed

end

section \<open>Writing and recording\<close>

lemma fs_write_Some:
  assumes "fs_write os p s w = Some w'"
  shows "wd_files w' = (wd_files w)(os_file os (components p) \<mapsto>
      \<lparr>df_is_dir = False, df_bytes = s, df_mtime = wd_now w\<rparr>)"
    and "wd_now w' = wd_now w + 1" "wd_tracker w' = wd_tracker w"
  using assms by (auto simp: fs_write_def Let_def split: if_splits)

lemma world_ok_write:
  assumes "world_ok os w" "fs_write os p s w = Some w'" shows "world_ok os w'"
proof -
  have "w' = w\<lparr>wd_files := (wd_files w)(os_file os (components p) :=
      map_option (\<lambda>d. d\<lparr>df_mtime := wd_now w\<rparr>) (Some \<lparr>df_is_dir = False, df_bytes = s, df_mtime = 0\<rparr>)),
      wd_now := wd_now w + 1\<rparr>"
    using assms(2) by (auto simp: fs_write_def Let_def split: if_splits)
  then show ?thesis
    using world_ok_outside [OF assms(1) order_refl, of "os_file os (components p)"
        "Some \<lparr>df_is_dir = False, df_bytes = s, df_mtime = 0\<rparr>"] by simp
qed

lemma world_ok_record:
  assumes "world_ok os w" "wd_files w (os_file os (components p)) = Some g" "df_bytes g = s"
    "t = mtime_ms g"
  shows "world_ok os (record_state os p s t w)"
proof -
  have t: "t < wd_now w" using assms by (auto simp: world_ok_def clock_ok_def)
  have k: "tracker_record p h u tr k = (if k = components p
      then Some \<lparr>rs_content_hash = h, rs_mtime_ms = u\<rparr> else tr k)" for h u tr k
    by (simp add: tracker_record_def)
  have "seen os (record_state os p s t w)"
    using assms by (auto simp: world_ok_def seen_def record_state_def k split: if_splits)
  moreover have "clock_ok (record_state os p s t w)"
    using assms(1) t by (fastforce simp: world_ok_def clock_ok_def record_state_def k split: if_splits)
  ultimately show ?thesis by (simp add: world_ok_def)
qed

lemma write_back_Some:
  assumes "write_back os p s w = Some w'"
  shows "wd_files w' = (wd_files w)(os_file os (components p) \<mapsto>
      \<lparr>df_is_dir = False, df_bytes = s, df_mtime = wd_now w\<rparr>)"
    and "wd_tracker w' = map_option (tracker_record p (os_hash os s) (max 0 (wd_now w))) (wd_tracker w)"
    and "wd_now w' = wd_now w + 1"
  using assms by (auto simp: write_back_def fs_write_Some record_state_def current_disk_mtime_def
      file_of_def mtime_ms_def)

lemma world_ok_write_back:
  assumes "world_ok os w" "write_back os p s w = Some w'" shows "world_ok os w'"
proof -
  obtain v where v: "fs_write os p s w = Some v"
    "w' = record_state os p s (current_disk_mtime os p v) v"
    using assms(2) by (auto simp: write_back_def)
  show ?thesis
    unfolding v(2) using fs_write_Some(1) [OF v(1)]
    by (intro world_ok_record [OF world_ok_write [OF assms(1) v(1)]])
      (auto simp: current_disk_mtime_def file_of_def)
qed

lemma tracker_refuses_None:
  "tracker_refuses w p f = None \<Longrightarrow> wd_tracker w = Some tr \<Longrightarrow> precheck tr p (mtime_ms f) = Fresh"
  by (auto simp: tracker_refuses_def split: edit_precheck.splits)

lemma overwritable_fresh:
  assumes "file_of os w p = Some f" "tracker_refuses w p f = None"
  shows "overwritable os w (os_file os (components p))"
  using assms tracker_refuses_None [OF assms(2)]
  by (auto simp: overwritable_def fresh_file_def file_of_def)

section \<open>The tool \<open>Edit\<close>\<close>

text \<open>Either nothing happens, or one file is written that may be.\<close>

lemma edit_effect:
  "snd (edit_execute os input w) = w \<or>
    (\<exists>p s. write_back os p s w = Some (snd (edit_execute os input w)) \<and>
      overwritable os w (os_file os (components p)))"
proof -
  have create: "snd (execute_create os p s w) = w \<or>
      (write_back os p s w = Some (snd (execute_create os p s w)) \<and>
        overwritable os w (os_file os (components p)))" for p s
    by (auto simp: execute_create_def overwritable_def no_text_def file_of_def fs_read_to_string_def
        fs_read_def split: option.split)
  have modify: "snd (execute_modify os p old new rep w) = w \<or>
      (\<exists>s. write_back os p s w = Some (snd (execute_modify os p old new rep w)) \<and>
        overwritable os w (os_file os (components p)))" for p old new rep
    by (auto simp: execute_modify_def overwritable_fresh split: option.split sum.split)
  show ?thesis
    using create modify by (simp add: edit_execute_def split: option.split) blast
qed

interpretation edit: file_tool os "edit_execute os" "{}" for os
proof unfold_locales
  fix w input assume "world_ok os w"
  then show "world_ok os (snd (edit_execute os input w))"
    using edit_effect [of os input w] world_ok_write_back by metis
next
  fix w input f assume "wd_files (snd (edit_execute os input w)) f \<noteq> wd_files w f"
  then show "overwritable os w f"
    using edit_effect [of os input w] write_back_Some(1) by (metis fun_upd_other)
next
  fix w input show "wd_tracker (snd (edit_execute os input w)) = None \<longleftrightarrow> wd_tracker w = None"
    using edit_effect [of os input w] write_back_Some(2) by (metis map_option_is_None)
qed

section \<open>The hashline back end\<close>

lemma apply_file_effect:
  assumes "apply_file os crc s w = Inr (h, w')"
  shows "\<exists>t. write_back os (fs_path s) t w = Some w'"
    and "overwritable os w (os_file os (components (fs_path s)))"
  using assms overwritable_fresh
  by (fastforce simp: apply_file_def Let_def split: option.splits sum.splits)+

lemma overwritable_other:
  assumes "write_back os p t w = Some w'" "os_file os (components p) \<noteq> f" "overwritable os w' f"
  shows "overwritable os w f"
proof -
  have "wd_files w' f = wd_files w f" using write_back_Some(1) [OF assms(1)] assms(2) by simp
  moreover have "fresh_file os (tracker_record p h u tr) f g \<longleftrightarrow> fresh_file os tr f g" for h u tr g
    using assms(2) by (auto simp: fresh_file_def precheck_def tracker_record_def split: option.splits)
  ultimately show ?thesis
    using assms(3) write_back_Some(2) [OF assms(1)] by (fastforce simp: overwritable_def)
qed

lemma apply_files_step:
  obtains "snd (apply_files os crc (s # ss) rep w) = w"
  | t w' rep' where "write_back os (fs_path s) t w = Some w'"
      "apply_files os crc (s # ss) rep w = apply_files os crc ss rep' w'"
proof (cases "apply_file os crc s w")
  case (Inr r)
  then show thesis using apply_file_effect(1) [of os crc s w "fst r" "snd r"] that(2) by (cases r) auto
qed (use that(1) in simp)

lemma apply_files_ok:
  "world_ok os w \<Longrightarrow> world_ok os (snd (apply_files os crc ss rep w))"
proof (induction ss arbitrary: rep w)
  case (Cons s ss)
  show ?case
    by (rule apply_files_step [of os crc s ss rep w])
      (use Cons world_ok_write_back in \<open>simp_all del: apply_files.simps\<close>)
qed simp

lemma apply_files_tracker:
  "wd_tracker (snd (apply_files os crc ss rep w)) = None \<longleftrightarrow> wd_tracker w = None"
proof (induction ss arbitrary: rep w)
  case (Cons s ss)
  show ?case
    by (rule apply_files_step [of os crc s ss rep w])
      (simp_all add: Cons.IH write_back_Some(2) del: apply_files.simps)
qed simp

lemma apply_files_guarded:
  "wd_files (snd (apply_files os crc ss rep w)) f \<noteq> wd_files w f \<Longrightarrow> overwritable os w f"
proof (induction ss arbitrary: rep w)
  case (Cons s ss)
  show ?case
  proof (cases "apply_file os crc s w")
    case (Inr r)
    obtain h w' where r: "r = (h, w')" by (cases r)
    obtain t where t: "write_back os (fs_path s) t w = Some w'"
      using apply_file_effect(1) Inr r by blast
    show ?thesis
    proof (cases "os_file os (components (fs_path s)) = f")
      case True
      then show ?thesis using apply_file_effect(2) Inr r by blast
    next
      case False
      then have "wd_files w' f = wd_files w f" using write_back_Some(1) [OF t] by simp
      then show ?thesis
        using Cons overwritable_other [OF t False] Inr r by simp
    qed
  qed (use Cons.prems in simp)
qed simp

lemma hashline_effect:
  "snd (edit_hashline_execute os crc input w) = w \<or>
    (\<exists>ss. edit_hashline_execute os crc input w = apply_files os crc ss [] w)"
  by (auto simp: edit_hashline_execute_def split: option.split sum.split)

interpretation hashline: file_tool os "edit_hashline_execute os crc" "{}" for os crc
proof unfold_locales
  fix w input assume "world_ok os w"
  then show "world_ok os (snd (edit_hashline_execute os crc input w))"
    using hashline_effect [of os crc input w] apply_files_ok by metis
next
  fix w input f assume "wd_files (snd (edit_hashline_execute os crc input w)) f \<noteq> wd_files w f"
  then show "overwritable os w f"
    using hashline_effect [of os crc input w] apply_files_guarded by metis
next
  fix w input
  show "wd_tracker (snd (edit_hashline_execute os crc input w)) = None \<longleftrightarrow> wd_tracker w = None"
    using hashline_effect [of os crc input w] apply_files_tracker by metis
qed

section \<open>The tool \<open>Read\<close>\<close>

definition trunc_files :: "os \<Rightarrow> reader \<Rightarrow> str set" where
  "trunc_files os rd = {os_file os (components (line_trunc_path dd sid h n)) | dd sid h n.
     rd_data_dir rd = Some dd \<and> rd_session_id rd = Some sid}"

text \<open>A reader changes only files of its own, and does not touch the tracker meanwhile.\<close>

definition only_trunc :: "os \<Rightarrow> reader \<Rightarrow> world \<Rightarrow> world \<Rightarrow> bool" where
  "only_trunc os rd w w' \<longleftrightarrow> (world_ok os w \<longrightarrow> world_ok os w') \<and> wd_tracker w' = wd_tracker w \<and>
     (\<forall>f. f \<notin> trunc_files os rd \<longrightarrow> wd_files w' f = wd_files w f)"

lemma only_trunc_refl [simp]: "only_trunc os rd w w"
  by (simp add: only_trunc_def)

lemma only_trunc_trans: "only_trunc os rd u v \<Longrightarrow> only_trunc os rd v w \<Longrightarrow> only_trunc os rd u w"
  by (auto simp: only_trunc_def)

lemma save_only_trunc: "only_trunc os rd w (snd (save_line_remainder os rd p n r w))"
proof (cases "\<exists>dd sid. rd_data_dir rd = Some dd \<and> rd_session_id rd = Some sid")
  case True
  then obtain dd sid where d: "rd_data_dir rd = Some dd" "rd_session_id rd = Some sid" by blast
  then have "os_file os (components (line_trunc_path dd sid h n)) \<in> trunc_files os rd" for h
    by (auto simp: trunc_files_def)
  then have "only_trunc os rd w w'" if "fs_write os (line_trunc_path dd sid h n) s w = Some w'" for h s w'
    using fs_write_Some [OF that] world_ok_write [OF _ that] by (auto simp: only_trunc_def)
  then show ?thesis
    using d by (auto simp: save_line_remainder_def Let_def split: option.split)
qed (auto simp: save_line_remainder_def split: option.split)

lemma format_only_trunc:
  "format_line os rd p n l w = Some (s, w') \<Longrightarrow> only_trunc os rd w w'"
  by (auto simp: format_line_def Let_def split: if_splits option.splits prod.splits)
    (metis save_only_trunc snd_conv)+

lemma read_lines_only_trunc:
  "only_trunc os rd w (snd (read_lines os rd p offset limit count k ls out shown w))"
proof (induction ls arbitrary: k out shown w)
  case (Cons l ls)
  show ?case
  proof (cases "format_line os rd p (k + 1) l w")
    case None
    then show ?thesis using Cons.IH by (simp add: Let_def)
  next
    case (Some r)
    obtain s w' where "r = (s, w')" by (cases r)
    with Some have "only_trunc os rd w w'" by (simp add: format_only_trunc)
    then show ?thesis
      using Cons.IH only_trunc_trans Some \<open>r = (s, w')\<close> by (simp add: Let_def)
  qed
qed simp

lemma show_only_trunc: "only_trunc os rd w (snd (show_text os crc rd p offset limit c w))"
proof -
  have "snd (show_text os crc rd p offset limit c w) = snd (read_lines os rd p offset limit
      (length (str_lines (utf8_lossy c))) 0 (str_lines (utf8_lossy c))
      (case rd_style rd of CatN \<Rightarrow> [] | HashlineStyle \<Rightarrow> pilcrow @ p @ ''#'' @ hash3 crc (utf8_lossy c) @ [nl])
      0 w)"
    by (simp add: show_text_def Let_def split: prod.split page.split)
  then show ?thesis using read_lines_only_trunc by metis
qed

lemma read_effect:
  "snd (read_execute os crc rd input w) = w \<or>
    (\<exists>p f. wd_files w (os_file os (components p)) = Some f \<and>
      only_trunc os rd (record_state os p (df_bytes f) (mtime_ms f) w) (snd (read_execute os crc rd input w)))"
proof (cases "json_get_str input ''file_path''")
  case (Some p)
  show ?thesis
  proof (cases "file_of os w p")
    case f: (Some f)
    show ?thesis
    proof (cases "df_is_dir f \<or> length (df_bytes f) > READ_MAX_FILE_BYTES \<or> fs_read os p w = None")
      case True
      then show ?thesis by (auto simp: read_execute_def Let_def Some f)
    next
      case False
      then have "fs_read os p w = Some (df_bytes f)"
        by (auto simp: fs_read_def f split: if_splits)
      with False have "only_trunc os rd (record_state os p (df_bytes f) (mtime_ms f) w)
          (snd (read_execute os crc rd input w))"
        by (simp add: read_execute_def Let_def Some f show_only_trunc split: option.split)
      then show ?thesis using f by (auto simp: file_of_def)
    qed
  qed (simp add: read_execute_def Some)
qed (simp add: read_execute_def)

interpretation reading: file_tool os "read_execute os crc rd" "trunc_files os rd" for os crc rd
proof unfold_locales
  fix w input assume "world_ok os w"
  then show "world_ok os (snd (read_execute os crc rd input w))"
    using read_effect [of os crc rd input w] world_ok_record by (metis only_trunc_def)
next
  fix w input f
  assume "wd_files (snd (read_execute os crc rd input w)) f \<noteq> wd_files w f" "f \<notin> trunc_files os rd"
  then show "overwritable os w f"
    using read_effect [of os crc rd input w] record_state_fields(1) by (metis only_trunc_def)
next
  fix w input show "wd_tracker (snd (read_execute os crc rd input w)) = None \<longleftrightarrow> wd_tracker w = None"
    using read_effect [of os crc rd input w]
    by (auto simp: only_trunc_def record_state_def)
qed

section \<open>All of them\<close>

datatype file_call = CallRead json | CallEdit json | CallPatch json

datatype call_outcome = ReadOutcome read_outcome | EditOutcome edit_outcome

fun run_call :: "os \<Rightarrow> (str \<Rightarrow> 32 word) \<Rightarrow> reader \<Rightarrow> file_call \<Rightarrow> world \<Rightarrow> call_outcome \<times> world" where
  "run_call os crc rd (CallRead i) w = apfst ReadOutcome (read_execute os crc rd i w)"
| "run_call os crc rd (CallEdit i) w = apfst EditOutcome (edit_execute os i w)"
| "run_call os crc rd (CallPatch i) w = apfst EditOutcome (edit_hashline_execute os crc i w)"

interpretation files: file_tool os "run_call os crc rd" "trunc_files os rd" for os crc rd
proof unfold_locales
  fix w c assume "world_ok os w"
  then show "world_ok os (snd (run_call os crc rd c w))"
    by (cases c) (auto intro: edit.keeps hashline.keeps reading.keeps)
next
  fix w c f
  assume "wd_files (snd (run_call os crc rd c w)) f \<noteq> wd_files w f" "f \<notin> trunc_files os rd"
  then show "overwritable os w f"
    by (cases c) (auto dest: edit.guarded hashline.guarded reading.guarded)
next
  fix w c show "wd_tracker (snd (run_call os crc rd c w)) = None \<longleftrightarrow> wd_tracker w = None"
    by (cases c) (simp_all add: edit.tracker_stays hashline.tracker_stays reading.tracker_stays)
qed

end
