(* ===== verification/Hashline_Laws.thy ===== *)
theory Hashline_Laws
  imports Hashline
begin

text \<open>
  What the hashline back end promises: the hunks of a section are applied as if all at once to the
  numbered lines that were shown, a section is accepted exactly when its fingerprint is current and
  every hunk is in bounds, a patch that is printed is parsed, and a file that is sent back as it was
  shown is unchanged.
\<close>

section \<open>Reference: all hunks at once\<close>

definition body_lines :: "str list \<Rightarrow> hunk \<Rightarrow> str list" where
  "body_lines orig h = (case expand_body (hk_body h) orig of Inr ls \<Rightarrow> ls | Inl _ \<Rightarrow> [])"

definition starts_at :: "nat \<Rightarrow> hunk \<Rightarrow> bool" where
  "starts_at i h \<longleftrightarrow> \<not> hk_is_eof_append h \<and> hk_start h = i"

definition covers :: "nat \<Rightarrow> hunk \<Rightarrow> bool" where
  "covers i h \<longleftrightarrow> \<not> hk_is_eof_append h \<and> hk_start h \<le> i \<and> i \<le> hk_end h"

definition emitted :: "str list \<Rightarrow> hunk list \<Rightarrow> nat \<Rightarrow> str list" where
  "emitted orig hs i =
     concat (map (body_lines orig) (filter (starts_at i) hs)) @
     (if list_ex (covers i) hs then [] else [orig ! (i - 1)])"

definition appended :: "str list \<Rightarrow> hunk list \<Rightarrow> str list" where
  "appended orig hs = concat (map (body_lines orig) (filter hk_is_eof_append hs))"

definition patched :: "str list \<Rightarrow> hunk list \<Rightarrow> str list" where
  "patched orig hs =
     concat (map (emitted orig hs) [1..<Suc (length orig)]) @ appended orig hs"

text \<open>A hunk that fits a file, and hunks that do not overlap.\<close>

definition body_ok :: "str list \<Rightarrow> hunk \<Rightarrow> bool" where
  "body_ok orig h \<longleftrightarrow> \<not> isl (expand_body (hk_body h) orig)"

definition range_ok :: "nat \<Rightarrow> hunk \<Rightarrow> bool" where
  "range_ok n h \<longleftrightarrow>
     hk_is_eof_append h \<or> (1 \<le> hk_start h \<and> hk_start h \<le> hk_end h \<and> hk_end h \<le> n)"

definition hunk_ok :: "str list \<Rightarrow> hunk \<Rightarrow> bool" where
  "hunk_ok orig h \<longleftrightarrow> body_ok orig h \<and> range_ok (length orig) h"

definition apart :: "hunk \<Rightarrow> hunk \<Rightarrow> bool" where
  "apart g h \<longleftrightarrow> hk_is_eof_append g \<or> hk_is_eof_append h \<or>
     hk_end g < hk_start h \<or> hk_end h < hk_start g"

lemma apart_sym: "apart g h \<Longrightarrow> apart h g"
  by (auto simp: apart_def)

section \<open>The sorted order\<close>

lemma filter_hunks_sorted:
  assumes "\<And>h. P h \<Longrightarrow> hunk_key h = k"
  shows "filter P (hunks_sorted hs) = filter P hs"
proof -
  let ?f = "\<lambda>h. - int (hunk_key h)"
  have P: "filter P xs = filter P (filter (\<lambda>h. ?f h = - int k) xs)" for xs
    by (simp, rule filter_cong [OF refl]) (use assms in auto)
  show ?thesis
    unfolding hunks_sorted_def P [of "sort_key _ _"] P [of hs]
    by (simp only: sort_key_stable)
qed

lemma set_hunks_sorted [simp]: "set (hunks_sorted hs) = set hs"
  by (simp add: hunks_sorted_def)

lemma hunks_sorted_desc: "sorted_wrt (\<lambda>g h. hunk_key h \<le> hunk_key g) (hunks_sorted hs)"
  using sorted_sort_key [of "\<lambda>h. - int (hunk_key h)" hs]
  by (simp add: hunks_sorted_def sorted_map)

lemma sorted_wrt_insort_key:
  assumes "\<And>x y. R x y \<Longrightarrow> R y x"
  shows "sorted_wrt R (insort_key f x xs) \<longleftrightarrow> (\<forall>y \<in> set xs. R x y) \<and> sorted_wrt R xs"
  by (induction xs) (auto simp: set_insort_key intro: assms)

lemma hunks_sorted_apart:
  "sorted_wrt apart hs \<Longrightarrow> sorted_wrt apart (hunks_sorted hs)"
  unfolding hunks_sorted_def
  by (induction hs) (simp_all add: sorted_wrt_insort_key [OF apart_sym])

lemma emitted_hunks_sorted [simp]: "emitted orig (hunks_sorted hs) = emitted orig hs"
proof (rule ext)
  fix i
  have "filter (starts_at i) (hunks_sorted hs) = filter (starts_at i) hs"
    by (rule filter_hunks_sorted [of _ i]) (simp add: starts_at_def hunk_key_def)
  then show "emitted orig (hunks_sorted hs) i = emitted orig hs i"
    by (simp add: emitted_def list_ex_iff)
qed

lemma appended_hunks_sorted [simp]: "appended orig (hunks_sorted hs) = appended orig hs"
proof -
  have "filter hk_is_eof_append (hunks_sorted hs) = filter hk_is_eof_append hs"
    by (rule filter_hunks_sorted [of _ usize_max]) (simp add: hunk_key_def)
  then show ?thesis by (simp add: appended_def)
qed

section \<open>Applying the hunks one by one\<close>

lemma emitted_skip:
  assumes "\<not> starts_at i h" "\<not> covers i h"
  shows "emitted orig (h # hs) i = emitted orig hs i"
  using assms by (simp add: emitted_def)

lemma concat_singletons: "concat (map (\<lambda>i. [f i]) xs) = map f xs"
  by (induction xs) auto

lemma map_nth_range:
  assumes "b \<le> k" "k \<le> length orig"
  shows "map (\<lambda>i. orig ! (i - 1)) [Suc b..<Suc k] = drop b (take k orig)"
  using assms by (intro nth_equalityI) (simp_all del: upt_Suc)

lemma emitted_split:
  assumes h: "\<not> hk_is_eof_append h" "1 \<le> hk_start h" "hk_start h \<le> hk_end h" "hk_end h \<le> k"
    and k: "k \<le> length orig"
    and hs: "\<forall>g \<in> set hs. hk_is_eof_append g \<or> (hk_start g \<le> hk_end g \<and> hk_end g < hk_start h)"
  shows "concat (map (emitted orig (h # hs)) [1..<Suc k]) =
    concat (map (emitted orig hs) [1..<hk_start h]) @ body_lines orig h @
    drop (hk_end h) (take k orig)"
proof -
  let ?a = "hk_start h" let ?b = "hk_end h" let ?e = "emitted orig (h # hs)"
  have none: "filter (starts_at i) hs = []" "\<not> list_ex (covers i) hs" if "?a \<le> i" for i
    using that hs by (fastforce simp: filter_empty_conv starts_at_def covers_def list_ex_iff)+
  have split: "[1..<Suc k] = [1..<?a] @ ?a # [Suc ?a..<Suc ?b] @ [Suc ?b..<Suc k]"
    using h upt_add_eq_append [of 1 "?a" "Suc k - ?a"] upt_conv_Cons [of ?a "Suc k"]
      upt_add_eq_append [of "Suc ?a" "Suc ?b" "k - ?b"]
    by simp
  have below: "map ?e [1..<?a] = map (emitted orig hs) [1..<?a]"
    by (rule map_cong [OF refl], rule emitted_skip) (auto simp: starts_at_def covers_def)
  have e: "?e i = (if i = ?a then body_lines orig h else []) @
      (if i \<le> ?b then [] else [orig ! (i - 1)])" if "?a \<le> i" for i
    using h(1) that by (simp add: emitted_def none) (simp add: starts_at_def covers_def)
  have "?e ?a = body_lines orig h" using e [of ?a] h by simp
  moreover have "concat (map ?e [Suc ?a..<Suc ?b]) = []"
    using e by (auto simp del: upt_Suc)
  moreover have "map ?e [Suc ?b..<Suc k] = map (\<lambda>i. [orig ! (i - 1)]) [Suc ?b..<Suc k]"
    using e h by (auto simp del: upt_Suc)
  ultimately show ?thesis
    using h k below by (simp only: split map_append concat_append list.map concat.simps
        concat_singletons map_nth_range append_Nil append_assoc)
qed

lemma apply_hunks_desc:
  assumes "sorted_wrt (\<lambda>g h. hunk_key h \<le> hunk_key g) hs" "sorted_wrt apart hs"
    and "\<forall>h \<in> set hs. body_ok orig h \<and> range_ok k h" "k \<le> length orig"
  shows "apply_hunks hs orig (take k orig @ tail) =
    Inr (concat (map (emitted orig hs) [1..<Suc k]) @ tail @ appended orig hs)"
  using assms
proof (induction hs arbitrary: k tail)
  case Nil
  have "map (emitted orig []) [1..<Suc k] = map (\<lambda>i. [orig ! (i - 1)]) [1..<Suc k]"
    by (simp add: emitted_def)
  then show ?case
    using Nil.prems(4) map_nth_range [of 0 k orig]
    by (simp only: concat_singletons) (simp add: appended_def)
next
  case (Cons h hs)
  obtain ex where ex: "expand_body (hk_body h) orig = Inr ex"
    using Cons.prems(3) by (auto simp: body_ok_def) (metis isl_def sum.exhaust)
  then have bl: "body_lines orig h = ex" by (simp add: body_lines_def)
  show ?case
  proof (cases "hk_is_eof_append h")
    case True
    then have "emitted orig (h # hs) i = emitted orig hs i" for i
      by (simp add: emitted_skip starts_at_def covers_def)
    then have e: "emitted orig (h # hs) = emitted orig hs" by blast
    from True show ?thesis
      using Cons.prems Cons.IH [of k "tail @ ex"]
      by (simp add: apply_hunk_def ex bl e appended_def)
  next
    case False
    let ?a = "hk_start h" let ?b = "hk_end h"
    have r: "1 \<le> ?a" "?a \<le> ?b" "?b \<le> k"
      using Cons.prems(3) False by (auto simp: range_ok_def)
    have below: "hk_is_eof_append g \<or> (hk_start g \<le> hk_end g \<and> hk_end g < ?a)"
      if "g \<in> set hs" for g
      using that Cons.prems(1-3) False r
      by (fastforce simp: hunk_key_def apart_def range_ok_def)
    have "apply_hunks hs orig (take (?a - 1) orig @ ex @ drop ?b (take k orig) @ tail) =
      Inr (concat (map (emitted orig hs) [1..<Suc (?a - 1)]) @
        (ex @ drop ?b (take k orig) @ tail) @ appended orig hs)"
      using Cons.prems r below by (intro Cons.IH) (fastforce simp: range_ok_def)+
    moreover have "apply_hunk h orig (take k orig @ tail) =
        Inr (take (?a - 1) orig @ ex @ drop ?b (take k orig) @ tail)"
      using r Cons.prems(4) False by (simp add: apply_hunk_def ex min_def)
    moreover have "concat (map (emitted orig (h # hs)) [1..<Suc k]) =
        concat (map (emitted orig hs) [1..<?a]) @ ex @ drop ?b (take k orig)"
      using emitted_split [OF False r(1,2,3) Cons.prems(4)] below bl by blast
    ultimately show ?thesis
      using r False by (simp add: appended_def del: upt_Suc)
  qed
qed

lemma apply_all_hunks:
  assumes "hash3 crc original = fs_expected_hash s"
    and "\<forall>h \<in> set (fs_hunks s). hunk_ok (split_lines original) h"
    and "sorted_wrt apart (fs_hunks s)"
  shows "apply_section crc s original =
    Inr (join_lines (patched (split_lines original) (fs_hunks s)) (ends_with original [nl]))"
proof -
  let ?orig = "split_lines original"
  have "apply_hunks (hunks_sorted (fs_hunks s)) ?orig (take (length ?orig) ?orig @ []) =
      Inr (patched ?orig (fs_hunks s))"
    using assms(2,3)
    by (subst apply_hunks_desc)
      (auto simp: hunks_sorted_desc hunks_sorted_apart hunk_ok_def patched_def simp del: upt_Suc)
  then show ?thesis using assms(1) by (simp add: apply_section_def Let_def)
qed

text \<open>C10. The hunks of a section act as if all at once on the lines that were shown: whatever their
  order in the patch, when they do not overlap, every hunk replaces the lines of its own range as
  they are numbered in the file, and the end-of-file hunks are appended in their order.\<close>

theorem hunks_apply_at_once:
  assumes "hash3 crc original = fs_expected_hash s"
    and "\<forall>h \<in> set (fs_hunks s). hunk_ok (split_lines original) h"
    and "sorted_wrt apart (fs_hunks s)"
  shows "apply_section crc s original =
    Inr (join_lines (patched (split_lines original) (fs_hunks s)) (ends_with original [nl]))"
  using assms by (rule apply_all_hunks)

section \<open>What is accepted\<close>

lemma apply_hunk_accepts:
  assumes "apply_hunk h orig lines = Inr r"
  shows "body_ok orig h" "range_ok (length lines) h"
  using assms by (auto simp: apply_hunk_def body_ok_def range_ok_def split: sum.splits if_splits)

lemma apply_hunks_accepts:
  "apply_hunks hs orig lines = Inr r \<Longrightarrow> h \<in> set hs \<Longrightarrow>
    body_ok orig h \<and> (hk_is_eof_append h \<or> (1 \<le> hk_start h \<and> hk_start h \<le> hk_end h))"
proof (induction hs arbitrary: lines)
  case (Cons g hs)
  then show ?case
    by (auto split: sum.splits dest: apply_hunk_accepts simp: range_ok_def)
qed simp

text \<open>A section is accepted exactly when it is current and in bounds: with hunks that do not overlap
  and none at the end of the file, the section applies if and only if its fingerprint is that of the
  file now, every range is a non-empty range of its lines and every kept range lies in it; a stale
  fingerprint is reported as such, with both values, before any hunk is looked at.\<close>

theorem section_accepted_iff:
  assumes "sorted_wrt apart (fs_hunks s)" and "\<forall>h \<in> set (fs_hunks s). \<not> hk_is_eof_append h"
  shows "((\<exists>r. apply_section crc s original = Inr r) \<longleftrightarrow>
      hash3 crc original = fs_expected_hash s \<and>
      (\<forall>h \<in> set (fs_hunks s). hunk_ok (split_lines original) h)) \<and>
    (hash3 crc original \<noteq> fs_expected_hash s \<longrightarrow> apply_section crc s original =
      Inl (StaleHash (fs_path s) (fs_expected_hash s) (hash3 crc original)))"
proof (intro conjI impI)
  let ?orig = "split_lines original" let ?hs = "hunks_sorted (fs_hunks s)"
  have bounds: "hunk_ok ?orig h" if r: "apply_hunks ?hs ?orig ?orig = Inr r" and h: "h \<in> set ?hs"
    for r h
  proof -
    obtain g gs where gs: "?hs = g # gs" using h by (cases ?hs) auto
    have ok: "body_ok ?orig k \<and> 1 \<le> hk_start k \<and> hk_start k \<le> hk_end k" if "k \<in> set ?hs" for k
      using apply_hunks_accepts [OF r that] that assms(2) by auto
    have g: "hk_end g \<le> length ?orig"
      using r gs assms(2) by (auto split: sum.splits dest!: apply_hunk_accepts(2) simp: range_ok_def
          simp flip: set_hunks_sorted [of "fs_hunks s"])
    have all: "\<forall>k \<in> set (g # gs). \<not> hk_is_eof_append k"
      using assms(2) set_hunks_sorted [of "fs_hunks s"] by (simp add: gs)
    have "sorted_wrt (\<lambda>g h. hunk_key h \<le> hunk_key g) (g # gs)" "sorted_wrt apart (g # gs)"
      using hunks_sorted_desc [of "fs_hunks s"] hunks_sorted_apart [OF assms(1)] by (simp_all add: gs)
    then have "h = g \<or> hk_end h < hk_start g"
      using h ok [OF h] ok [of g] all by (fastforce simp: gs apart_def hunk_key_def)
    then show ?thesis
      using g ok [OF h] ok [of g] gs by (auto simp: hunk_ok_def range_ok_def)
  qed
  show "(\<exists>r. apply_section crc s original = Inr r) \<longleftrightarrow>
      hash3 crc original = fs_expected_hash s \<and> (\<forall>h \<in> set (fs_hunks s). hunk_ok ?orig h)"
  proof
    assume "\<exists>r. apply_section crc s original = Inr r"
    then obtain ls where "hash3 crc original = fs_expected_hash s"
      "apply_hunks ?hs ?orig ?orig = Inr ls"
      by (auto simp: apply_section_def Let_def split: if_splits sum.splits)
    then show "hash3 crc original = fs_expected_hash s \<and>
        (\<forall>h \<in> set (fs_hunks s). hunk_ok ?orig h)"
      using bounds by simp
  qed (auto dest: apply_all_hunks [OF _ _ assms(1)])
  show "apply_section crc s original =
      Inl (StaleHash (fs_path s) (fs_expected_hash s) (hash3 crc original))"
    if "hash3 crc original \<noteq> fs_expected_hash s"
    using that by (simp add: apply_section_def)
qed

section \<open>Printing and parsing\<close>

fun print_line :: "hunk_line \<Rightarrow> str" where
  "print_line (Add s) = ''+'' @ s"
| "print_line (Keep a b) = ''&'' @ dec a @ ''..'' @ dec b"

definition print_hunk :: "hunk \<Rightarrow> str list" where
  "print_hunk h =
     (if hk_is_eof_append h then ''EOF'' else dec (hk_start h) @ '' '' @ dec (hk_end h)) #
     map print_line (hk_body h)"

definition print_section :: "file_section \<Rightarrow> str list" where
  "print_section s =
     (pilcrow @ fs_path s @ ''#'' @ fs_expected_hash s) # concat (map print_hunk (fs_hunks s))"

definition print_patch :: "file_section list \<Rightarrow> str" where
  "print_patch ss = unlines (concat (map print_section ss))"

fun printable_line :: "hunk_line \<Rightarrow> bool" where
  "printable_line (Add s) \<longleftrightarrow> plain_line s \<and> strip_line_number_prefix s = s"
| "printable_line (Keep a b) \<longleftrightarrow> a \<le> usize_max \<and> b \<le> usize_max"

definition printable_hunk :: "hunk \<Rightarrow> bool" where
  "printable_hunk h \<longleftrightarrow> list_all printable_line (hk_body h) \<and>
     (if hk_is_eof_append h then hk_start h = 0 \<and> hk_end h = 0
      else hk_start h \<le> usize_max \<and> hk_end h \<le> usize_max)"

definition printable_section :: "file_section \<Rightarrow> bool" where
  "printable_section s \<longleftrightarrow> nl \<notin> set (fs_path s) \<and> length (fs_expected_hash s) = 3 \<and>
     list_all ascii_hexdigit (fs_expected_hash s) \<and>
     map ascii_upper (fs_expected_hash s) = fs_expected_hash s \<and>
     list_all printable_hunk (fs_hunks s)"

text \<open>What a state of the parser stands for: the sections finished, and the current one with its
  current hunk.\<close>

definition view :: "patch_parser \<Rightarrow> file_section list \<times> file_section option" where
  "view p = (pp_sections p, map_option (flush_hunk (pp_hunk p)) (pp_section p))"

definition finished :: "file_section list \<times> file_section option \<Rightarrow> file_section list" where
  "finished v = fst v @ (case snd v of None \<Rightarrow> [] | Some s \<Rightarrow> [s])"

lemma finished_flush: "pp_sections (flush_section p) = finished (view p)"
  by (simp add: flush_section_def view_def finished_def split: option.split)

lemma view_flush: "view (flush_section p) = (finished (view p), None)"
  by (simp add: flush_section_def view_def finished_def split: option.split)

lemma parse_lines_append:
  "parse_lines n (xs @ ys) p =
    (case parse_lines n xs p of Inl e \<Rightarrow> Inl e | Inr q \<Rightarrow> parse_lines (n + length xs) ys q)"
  by (induction xs arbitrary: n p) (auto split: sum.split)

lemma not_pilcrow: "c \<noteq> CHR 0xC2 \<Longrightarrow> str_strip_prefix (c # s) pilcrow = None"
  by (simp add: str_strip_prefix_def)

lemma parse_add:
  "pp_section p = Some sec \<Longrightarrow>
    parse_line n (''+'' @ s) p = Inr (push_line (Add (strip_line_number_prefix s)) p)"
  by (simp add: parse_line_def not_pilcrow str_strip_prefix_def)

lemma parse_keep_range_dec:
  "a \<le> usize_max \<Longrightarrow> b \<le> usize_max \<Longrightarrow> parse_keep_range (dec a @ ''..'' @ dec b) n = Inr (a, b)"
  using split_once_str_append [of "''..''" "CHR ''.''" "''.''" "dec a" "dec b"]
    not_in_dec [of "CHR ''.''"]
  by (simp add: parse_keep_range_def parse_usize_dec ascii_digit_def)

lemma parse_printed_line:
  "pp_section p = Some sec \<Longrightarrow> printable_line l \<Longrightarrow> parse_line n (print_line l) p = Inr (push_line l p)"
  by (cases l) (auto simp: parse_add [simplified] parse_keep_range_dec [simplified] parse_line_def
      not_pilcrow str_strip_prefix_def)

lemma dec_hd: obtains c r where "dec a = c # r" "ascii_digit c"
  using dec_ne [of a] dec_char by (metis list.exhaust list.set_intros(1))

lemma parse_header_line:
  assumes "pp_section p = Some sec" "a \<le> usize_max" "b \<le> usize_max"
  shows "parse_line n (dec a @ '' '' @ dec b) p =
    Inr (p\<lparr>pp_section := Some (flush_hunk (pp_hunk p) sec), pp_hunk := Some (empty_hunk a b False)\<rparr>)"
proof -
  obtain c r where c: "dec a = c # r" "ascii_digit c" by (rule dec_hd)
  have ne: "c \<noteq> CHR 0xC2" "c \<noteq> CHR ''E''" "c \<noteq> CHR ''+''" "c \<noteq> CHR ''&''"
    using c(2) by (auto simp: ascii_digit_def)
  have "split_at_char sp (dec a @ '' '' @ dec b) = Some (dec a, dec b)"
    using not_in_dec [of sp a] by (simp add: ascii_digit_def)
  then have "parse_hunk_header (dec a @ '' '' @ dec b) = Some (a, b)"
    using assms(2,3) by (simp add: parse_hunk_header_def parse_usize_dec)
  then show ?thesis
    using assms(1) ne by (simp add: parse_line_def c(1) str_strip_prefix_def)
qed

lemma parse_eof_line:
  "pp_section p = Some sec \<Longrightarrow> parse_line n ''EOF'' p =
    Inr (p\<lparr>pp_section := Some (flush_hunk (pp_hunk p) sec), pp_hunk := Some (empty_hunk 0 0 True)\<rparr>)"
  by (simp add: parse_line_def str_strip_prefix_def)

lemma push_line_hunk:
  "pp_hunk p = Some h \<Longrightarrow> push_line l p = p\<lparr>pp_hunk := Some (h\<lparr>hk_body := hk_body h @ [l]\<rparr>)\<rparr>"
  by (simp add: push_line_def)

lemma parse_body:
  assumes "\<And>l p n. l \<in> set ls \<Longrightarrow> pp_section p = Some sec \<Longrightarrow> parse_line n (f l) p = Inr (push_line (g l) p)"
    and "pp_section p = Some sec" "pp_hunk p = Some h"
  shows "parse_lines n (map f ls) p = Inr (p\<lparr>pp_hunk := Some (h\<lparr>hk_body := hk_body h @ map g ls\<rparr>)\<rparr>)"
  using assms
proof (induction ls arbitrary: n p h)
  case (Cons l ls)
  then show ?case by (simp add: push_line_hunk)
qed simp

lemma parse_hunk:
  assumes "pp_section p = Some sec" "printable_hunk h"
  shows "parse_lines n (print_hunk h) p =
    Inr (p\<lparr>pp_section := Some (flush_hunk (pp_hunk p) sec), pp_hunk := Some h\<rparr>)"
proof -
  let ?q = "p\<lparr>pp_section := Some (flush_hunk (pp_hunk p) sec),
    pp_hunk := Some (empty_hunk (hk_start h) (hk_end h) (hk_is_eof_append h))\<rparr>"
  have "parse_line n (hd (print_hunk h)) p = Inr ?q"
    using assms parse_header_line [OF assms(1)] parse_eof_line [OF assms(1)]
    by (auto simp: print_hunk_def printable_hunk_def split: if_splits)
  moreover have "parse_lines (Suc n) (map print_line (hk_body h)) ?q =
      Inr (?q\<lparr>pp_hunk := Some ((empty_hunk (hk_start h) (hk_end h) (hk_is_eof_append h))
        \<lparr>hk_body := [] @ map (\<lambda>l. l) (hk_body h)\<rparr>)\<rparr>)"
    using assms(2)
    by (subst parse_body [where g = "\<lambda>l. l"])
      (auto simp: printable_hunk_def list_all_iff parse_printed_line empty_hunk_def)
  ultimately show ?thesis
    by (simp add: print_hunk_def empty_hunk_def)
qed

lemma parse_hunks:
  "pp_section p = Some sec \<Longrightarrow> list_all printable_hunk hs \<Longrightarrow>
    \<exists>q. parse_lines n (concat (map print_hunk hs)) p = Inr q \<and> pp_section q \<noteq> None \<and>
      view q = (pp_sections p, Some ((flush_hunk (pp_hunk p) sec)
        \<lparr>fs_hunks := fs_hunks (flush_hunk (pp_hunk p) sec) @ hs\<rparr>))"
proof (induction hs arbitrary: n p sec)
  case Nil
  then show ?case by (simp add: view_def)
next
  case (Cons h hs)
  let ?p = "p\<lparr>pp_section := Some (flush_hunk (pp_hunk p) sec), pp_hunk := Some h\<rparr>"
  have "parse_lines n (print_hunk h) p = Inr ?p"
    using Cons.prems by (simp add: parse_hunk)
  then show ?case
    using Cons.prems Cons.IH [of ?p "flush_hunk (pp_hunk p) sec" "n + length (print_hunk h)"]
    by (simp add: parse_lines_append) (simp add: flush_hunk_def)
qed

lemma parse_section_header:
  assumes "length hash = 3" "list_all ascii_hexdigit hash" "map ascii_upper hash = hash"
  shows "parse_line n (pilcrow @ path @ ''#'' @ hash) p = Inr ((flush_section p)\<lparr>pp_section :=
    Some \<lparr>fs_path = path, fs_expected_hash = hash, fs_hunks = []\<rparr>\<rparr>)"
proof -
  have "CHR ''#'' \<notin> set hash"
    using assms(2) by (auto simp: list_all_iff ascii_hexdigit_def ascii_digit_def)
  then have "parse_file_header (path @ ''#'' @ hash) n = Inr (path, hash)"
    using assms by (simp add: parse_file_header_def)
  then show ?thesis
    by (simp add: parse_line_def str_strip_prefix_def)
qed

lemma flush_section_hunk: "pp_section p \<noteq> None \<or> pp_hunk p = None \<Longrightarrow> pp_hunk (flush_section p) = None"
  by (auto simp: flush_section_def split: option.split)

lemma parse_sections:
  "list_all printable_section ss \<Longrightarrow> pp_section p \<noteq> None \<or> pp_hunk p = None \<Longrightarrow>
    \<exists>q. parse_lines n (concat (map print_section ss)) p = Inr q \<and>
      finished (view q) = finished (view p) @ ss"
proof (induction ss arbitrary: n p)
  case (Cons s ss)
  let ?sec = "\<lparr>fs_path = fs_path s, fs_expected_hash = fs_expected_hash s, fs_hunks = []\<rparr>"
  let ?p = "(flush_section p)\<lparr>pp_section := Some ?sec\<rparr>"
  have h: "pp_hunk (flush_section p) = None" "pp_sections (flush_section p) = finished (view p)"
    using Cons.prems by (simp_all add: flush_section_hunk finished_flush)
  obtain q where q: "parse_lines (Suc n) (concat (map print_hunk (fs_hunks s))) ?p = Inr q"
    "pp_section q \<noteq> None" "view q = (finished (view p), Some s)"
    using Cons.prems parse_hunks [of ?p ?sec "fs_hunks s" "Suc n"] h
    by (auto simp: printable_section_def flush_hunk_def)
  have "parse_lines n (print_section s) p = Inr q"
    using Cons.prems q(1) parse_section_header [of "fs_expected_hash s" n "fs_path s" p]
    by (simp add: print_section_def printable_section_def)
  then show ?case
    using Cons.IH [of q "n + length (print_section s)"] Cons.prems q(2,3)
    by (auto simp: parse_lines_append finished_def)
qed simp

lemma plain_dec: "plain_line (a @ dec b)" if "nl \<notin> set a"
proof -
  have "ascii_digit (last (dec b))" by (rule dec_char [OF last_in_set]) simp
  then show ?thesis
    using that not_in_dec [of nl b] by (auto simp: plain_line_def ascii_digit_def)
qed

lemma plain_printed:
  assumes "printable_section s" shows "list_all plain_line (print_section s)"
proof -
  have digits: "nl \<notin> set (dec a)" for a by (rule not_in_dec) (simp add: ascii_digit_def)
  have line: "plain_line (print_line l)" if "printable_line l" for l
    using that plain_dec [of "''&'' @ dec a @ ''..''" for a] digits
    by (cases l) (auto simp: plain_line_def)
  have "last (fs_expected_hash s) \<noteq> cr" "fs_expected_hash s \<noteq> []"
    using assms by (cases "fs_expected_hash s" rule: rev_cases;
        auto simp: printable_section_def ascii_hexdigit_def ascii_digit_def)+
  then have "plain_line (pilcrow @ fs_path s @ ''#'' @ fs_expected_hash s)"
    using assms
    by (auto simp: printable_section_def plain_line_def list_all_iff ascii_hexdigit_def ascii_digit_def)
  moreover have "list_all plain_line (print_hunk h)" if "h \<in> set (fs_hunks s)" for h
    using that assms line plain_dec [of "dec (hk_start h) @ '' ''" "hk_end h"] digits
    by (auto simp: print_hunk_def printable_section_def printable_hunk_def list_all_iff plain_line_def)
  ultimately show ?thesis
    by (auto simp: print_section_def list_all_iff)
qed

text \<open>C29. Parsing is a left inverse of printing: any list of sections, with paths and added lines
  without line ends, upper-case fingerprints and numbers in range, is read back as it was written,
  and no line number inside a line is mistaken for a prefix as long as the line does not look like
  one.\<close>

theorem parse_print_patch:
  assumes "list_all printable_section ss"
  shows "parse_patch (print_patch ss) = Inr ss"
proof -
  let ?p = "\<lparr>pp_sections = [], pp_section = None, pp_hunk = None\<rparr>"
  have "str_lines (print_patch ss) = concat (map print_section ss)"
    unfolding print_patch_def using assms plain_printed
    by (intro str_lines_unlines) (auto simp: list_all_iff)
  moreover obtain q where "parse_lines 1 (concat (map print_section ss)) ?p = Inr q"
    "finished (view q) = ss"
    using parse_sections [OF assms, of ?p 1] by (auto simp: view_def finished_def)
  ultimately show ?thesis by (simp add: parse_patch_def finished_flush)
qed

section \<open>What Read shows can be sent back\<close>

lemma split_lines_spec:
  "\<forall>l \<in> set (split_lines c). nl \<notin> set l" "c \<noteq> [] \<Longrightarrow> split_lines c \<noteq> []"
  "c \<noteq> [] \<Longrightarrow> join_lines (split_lines c) (ends_with c [nl]) = c"
proof -
  show "\<forall>l \<in> set (split_lines c). nl \<notin> set l"
    using split_nl_clean by (auto simp: split_lines_def dest: in_set_butlastD)
  have *: "split_nl (d @ [nl]) = split_nl d @ [[]]" for d
    by (induction d) (auto split: list.split)
  show "c \<noteq> [] \<Longrightarrow> split_lines c \<noteq> []"
    by (cases c rule: rev_cases) (auto simp: split_lines_def *)
  show "c \<noteq> [] \<Longrightarrow> join_lines (split_lines c) (ends_with c [nl]) = c"
    by (cases c rule: rev_cases) (auto simp: split_lines_def join_lines_def *)
qed

lemma split_inclusive_lines:
  assumes "c \<noteq> []"
  shows "split_inclusive_nl c =
    (if ends_with c [nl] then map (\<lambda>l. l @ [nl]) (split_lines c)
     else map (\<lambda>l. l @ [nl]) (butlast (split_lines c)) @ [last (split_lines c)])"
proof -
  have split: "split_inclusive_nl (unlines ls @ l) = map (\<lambda>l. l @ [nl]) ls @ split_inclusive_nl l"
    if "\<forall>l \<in> set ls. nl \<notin> set l" for ls l
    using that by (induction ls) (auto simp: split_inclusive_nl_line)
  have join: "ls \<noteq> [] \<Longrightarrow> join [nl] ls = unlines (butlast ls) @ last ls" for ls
    by (induction "[nl]" ls rule: join.induct) auto
  let ?ls = "split_lines c"
  have ls: "\<forall>l \<in> set ?ls. nl \<notin> set l" "?ls \<noteq> []" "join_lines ?ls (ends_with c [nl]) = c"
    using assms split_lines_spec by blast+
  show ?thesis
  proof (cases "ends_with c [nl]")
    case True
    have "c = unlines (butlast ?ls) @ last ?ls @ [nl]"
      using ls(2,3) True join [OF ls(2)] by (simp add: join_lines_def)
    also have "\<dots> = unlines (butlast ?ls @ [last ?ls])" by simp
    finally have c: "c = unlines ?ls" by (simp only: append_butlast_last_id [OF ls(2)])
    have "split_inclusive_nl c = map (\<lambda>l. l @ [nl]) ?ls @ []"
      by (subst c) (use split [OF ls(1), of "[]"] in simp)
    then show ?thesis using True by (simp only: append_Nil2 if_True)
  next
    case False
    have c: "c = unlines (butlast ?ls) @ last ?ls"
      using ls(2,3) False join [OF ls(2)] by (simp add: join_lines_def)
    have "last ?ls \<noteq> []"
    proof
      assume "last ?ls = []"
      then have "c = unlines (butlast ?ls)" using c by simp
      then show False
        using assms False by (cases "butlast ?ls" rule: rev_cases) simp_all
    qed
    moreover have "nl \<notin> set (last ?ls)" using ls(1,2) by simp
    ultimately have "split_inclusive_nl (last ?ls) = [last ?ls]"
      by (simp add: split_inclusive_nl_def lines_acc_rest)
    moreover have "\<forall>l \<in> set (butlast ?ls). nl \<notin> set l" using ls(1) by (auto dest: in_set_butlastD)
    ultimately have "split_inclusive_nl (unlines (butlast ?ls) @ last ?ls) =
        map (\<lambda>l. l @ [nl]) (butlast ?ls) @ [last ?ls]"
      by (simp only: split)
    then show ?thesis using False by (simp only: c [symmetric] if_False)
  qed
qed

lemma strip_suffix_nl: "nl \<notin> set l \<Longrightarrow> str_strip_suffix l [nl] = None"
  by (cases l rule: rev_cases) (auto simp: str_strip_suffix_def)

lemma render_lines:
  assumes "c \<noteq> []"
  shows "number_lines k (split_inclusive_nl c) =
    unlines (map2 (\<lambda>i l. dec i @ '':'' @ l) [k..<k + length (split_lines c)] (split_lines c))"
proof -
  have numbered: "number_lines k (map (\<lambda>l. l @ [nl]) ls @ r) =
      unlines (map2 (\<lambda>i l. dec i @ '':'' @ l) [k..<k + length ls] ls) @ number_lines (k + length ls) r"
    for k ls r
    by (induction ls arbitrary: k) (auto simp: str_strip_suffix_def upt_conv_Cons simp del: upt_Suc)
  have ls: "split_lines c \<noteq> []" "nl \<notin> set (last (split_lines c))"
    using assms split_lines_spec(1) [of c] split_lines_spec(2) by auto
  show ?thesis
  proof (cases "ends_with c [nl]")
    case True
    then show ?thesis
      using numbered [of k "split_lines c" "[]"] by (simp only: split_inclusive_lines [OF assms]) simp
  next
    case False
    then show ?thesis
      using ls numbered [of k "butlast (split_lines c)" "[last (split_lines c)]"]
      by (simp only: split_inclusive_lines [OF assms])
        (cases "split_lines c" rule: rev_cases, simp_all add: strip_suffix_nl)
  qed
qed

lemma plain_lines:
  assumes "c \<noteq> []" "list_all plain_line (split_lines c)"
  shows "str_lines c = split_lines c"
proof -
  let ?ls = "split_lines c"
  have strip: "strip_eol l = l" if "nl \<notin> set l" for l
    using that by (simp add: strip_eol_def strip_suffix_nl)
  have "strip_eol (l @ [nl]) = l" if "l \<in> set ?ls" for l
    using that assms(2) by (auto simp: strip_eol_line plain_line_def list_all_iff)
  then have eol: "map strip_eol (map (\<lambda>l. l @ [nl]) xs) = xs" if "set xs \<subseteq> set ?ls" for xs
    using that by (simp add: map_idI subset_iff)
  have ls: "?ls \<noteq> []" "nl \<notin> set (last ?ls)"
    using assms(1) split_lines_spec(1) [of c] split_lines_spec(2) by auto
  show ?thesis
  proof (cases "ends_with c [nl]")
    case True
    then show ?thesis
      unfolding str_lines_def split_inclusive_lines [OF assms(1)] if_P [OF True] by (intro eol) simp
  next
    case False
    have "map strip_eol (map (\<lambda>l. l @ [nl]) (butlast ?ls)) = butlast ?ls"
      by (intro eol) (auto dest: in_set_butlastD)
    then show ?thesis
      unfolding str_lines_def split_inclusive_lines [OF assms(1)] if_not_P [OF False] map_append
      using strip [OF ls(2)] ls(1) by simp
  qed
qed

text \<open>The patch that sends the whole file back, each line as it was shown.\<close>

definition send_back :: "str \<Rightarrow> nat \<Rightarrow> str" where
  "send_back shown n =
     (let ls = str_lines shown
      in unlines (hd ls # (''1 '' @ dec n) # map ((@) ''+'') (tl ls)))"

lemma strip_numbered [simp]: "strip_line_number_prefix (dec i @ CHR '':'' # l) = l"
proof -
  have "split_at_char (CHR '':'') (dec i @ CHR '':'' # l) = Some (dec i, l)"
    by (rule split_at_char_append, rule not_in_dec) (simp add: ascii_digit_def)
  then show ?thesis
    by (simp add: strip_line_number_prefix_def dec_digits)
qed

lemma unat_and_mask: "unat (w AND 0xF) = unat w mod 16" "unat (w AND 0xFFF) = unat w mod 4096"
  for w :: "32 word"
proof -
  have "unat (w AND mask n) = unat w mod 2 ^ n" for n
    by (simp only: take_bit_eq_mask [symmetric] unsigned_take_bit_eq) (simp only: take_bit_eq_mod)
  from this [of 4] this [of 12]
  show "unat (w AND 0xF) = unat w mod 16" "unat (w AND 0xFFF) = unat w mod 4096"
    by (simp_all add: mask_eq_exp_minus_1)
qed

lemma hash3_digits:
  "hash3 crc c = map hex_upper
     [unat (crc c) div 256 mod 16, unat (crc c) div 16 mod 16, unat (crc c) mod 16]"
proof -
  have "n mod 4096 div 256 mod 16 = n div 256 mod 16" for n :: nat
    using mod_mult2_eq [of n 256 16] by simp
  moreover have "n mod 4096 div 16 mod 16 = n div 16 mod 16" for n :: nat
    using mod_mult2_eq [of n 16 256] mod_mod_cancel [of 16 256 "n div 16"] by simp
  ultimately show ?thesis
    by (simp add: hash3_def Let_def unat_and_mask unat_drop_bit_eq mod_mod_cancel)
      (simp add: drop_bit_eq_div unat_and_mask)
qed

lemma hash3_spec:
  "length (hash3 crc c) = 3" "list_all ascii_hexdigit (hash3 crc c)"
  "map ascii_upper (hash3 crc c) = hash3 crc c"
  by (simp_all add: hash3_digits hex_upper_spec)

lemma plain_appI: "nl \<notin> set a \<Longrightarrow> a \<noteq> [] \<Longrightarrow> last a \<noteq> cr \<Longrightarrow> plain_line b \<Longrightarrow> plain_line (a @ b)"
  by (cases "b = []") (auto simp: plain_line_def)

lemma map_snd_numbered: "length is = length ls \<Longrightarrow>
    map (\<lambda>l. Add (strip_line_number_prefix l)) (map2 (\<lambda>i l. dec i @ '':'' @ l) is ls) = map Add ls"
  by (induction "is" ls rule: list_induct2) auto

lemma expand_adds [simp]: "expand_body (map Add ls) orig = Inr ls"
  by (induction ls) auto

text \<open>Sending a file back as it was shown changes nothing: the patch made of the header line that
  Read shows, the range of all lines and every numbered line behind a plus sign is accepted for the
  file and gives the same text, line numbers stripped, whether or not the file ends in a line
  feed.\<close>

lemma shown_file_can_be_sent_back:
  assumes "content \<noteq> []" and "list_all plain_line (split_lines content)" and "nl \<notin> set path"
    and "length (split_lines content) \<le> usize_max"
  shows "\<exists>s. parse_patch (send_back
      (render_with_line_numbers_with_path path content (hash3 crc content))
      (length (split_lines content))) = Inr [s] \<and>
    fs_path s = path \<and> length (fs_hunks s) = 1 \<and> apply_section crc s content = Inr content"
proof -
  let ?ls = "split_lines content" let ?n = "length ?ls" let ?h = "hash3 crc content"
  let ?num = "map2 (\<lambda>i l. dec i @ '':'' @ l) [1..<1 + ?n] ?ls"
  let ?head = "pilcrow @ path @ ''#'' @ ?h"
  let ?hunk = "\<lparr>hk_start = 1, hk_end = ?n, hk_body = map Add ?ls, hk_is_eof_append = False\<rparr>"
  let ?s = "\<lparr>fs_path = path, fs_expected_hash = ?h, fs_hunks = [?hunk]\<rparr>"
  have ne: "?ls \<noteq> []" "1 \<le> ?n" using assms(1) split_lines_spec(2) by (auto simp: Suc_le_eq)
  have head: "plain_line ?head"
    using plain_printed [of "?s\<lparr>fs_hunks := []\<rparr>"] assms(3) hash3_spec [of crc content]
    by (simp add: printable_section_def print_section_def)
  have range: "plain_line (''1 '' @ dec ?n)" by (rule plain_dec) simp
  have num: "plain_line l" if "l \<in> set ?num" for l
  proof -
    have "l \<in> (\<lambda>q. dec (fst q) @ '':'' @ snd q) ` set (zip [1..<1 + ?n] ?ls)"
      using that by (simp only: set_map split_def)
    then obtain q where q: "l = dec (fst q) @ '':'' @ snd q" "q \<in> set (zip [1..<1 + ?n] ?ls)"
      by (rule imageE)
    obtain i k where ik: "q = (i, k)" by (cases q)
    have k: "k \<in> set ?ls" and l: "l = dec i @ '':'' @ k"
      using q unfolding ik by (auto dest: set_zip_rightD simp del: upt_Suc)
    have "plain_line (('':'') @ k)" using assms(2) k
      by (intro plain_appI) (auto simp: list_all_iff)
    moreover have "last (dec i) \<noteq> cr" "nl \<notin> set (dec i)"
      using dec_char [OF last_in_set [OF dec_ne], of i] not_in_dec [of nl i]
      by (auto simp: ascii_digit_def)
    ultimately show ?thesis unfolding l
      by (intro plain_appI [of "dec i"]) (simp_all only: dec_ne not_False_eq_True)
  qed
  have adds: "plain_line (''+'' @ l)" if "l \<in> set ?num" for l
    using num [OF that] by (intro plain_appI) simp_all
  have "render_with_line_numbers_with_path path content ?h = unlines (?head # ?num)"
    using assms(1) render_lines [OF assms(1), of 1]
    by (simp add: render_with_line_numbers_with_path_def Let_def)
  then have "str_lines (render_with_line_numbers_with_path path content ?h) = ?head # ?num"
    using str_lines_unlines [of "?head # ?num"] head num by (simp add: list_all_iff del: upt_Suc)
  then have "send_back (render_with_line_numbers_with_path path content ?h) ?n =
      unlines (?head # (''1 '' @ dec ?n) # map ((@) ''+'') ?num)"
    by (simp only: send_back_def Let_def list.sel)
  then have lines: "str_lines (send_back (render_with_line_numbers_with_path path content ?h) ?n) =
      ?head # (''1 '' @ dec ?n) # map ((@) ''+'') ?num"
    using str_lines_unlines [of "?head # (''1 '' @ dec ?n) # map ((@) ''+'') ?num"] head range adds
    by (simp add: list_all_iff del: upt_Suc)
  let ?p0 = "\<lparr>pp_sections = [], pp_section = None, pp_hunk = None\<rparr>"
  let ?sec = "\<lparr>fs_path = path, fs_expected_hash = ?h, fs_hunks = []\<rparr>"
  let ?p1 = "?p0\<lparr>pp_section := Some ?sec\<rparr>"
  let ?p2 = "?p1\<lparr>pp_hunk := Some (empty_hunk 1 ?n False)\<rparr>"
  have "parse_line 1 ?head ?p0 = Inr ?p1"
    using parse_section_header [of ?h 1 path ?p0] hash3_spec [of crc content]
    by (simp add: flush_section_def)
  moreover have "dec 1 = ''1''" by code_simp
  with assms(4) have "parse_line 2 (''1 '' @ dec ?n) ?p1 = Inr ?p2"
    using parse_header_line [of ?p1 ?sec 1 ?n 2] by (simp add: flush_hunk_def)
  moreover have "parse_lines 3 (map ((@) ''+'') ?num) ?p2 = Inr (?p1\<lparr>pp_hunk := Some ?hunk\<rparr>)"
  proof -
    let ?e = "empty_hunk 1 ?n False"
    have "parse_lines 3 (map ((@) ''+'') ?num) ?p2 = Inr (?p2\<lparr>pp_hunk :=
        Some (?e\<lparr>hk_body := hk_body ?e @ map (\<lambda>l. Add (strip_line_number_prefix l)) ?num\<rparr>)\<rparr>)"
      by (rule parse_body [where sec = ?sec]) (simp_all only: parse_add patch_parser.select_convs
          patch_parser.update_convs)
    also have "map (\<lambda>l. Add (strip_line_number_prefix l)) ?num = map Add ?ls"
      by (rule map_snd_numbered) (simp del: upt_Suc)
    also have "?p2\<lparr>pp_hunk := Some (?e\<lparr>hk_body := hk_body ?e @ map Add ?ls\<rparr>)\<rparr> =
        ?p1\<lparr>pp_hunk := Some ?hunk\<rparr>"
      by (simp add: empty_hunk_def)
    finally show ?thesis .
  qed
  ultimately have "parse_patch (send_back (render_with_line_numbers_with_path path content ?h) ?n) =
      Inr [?s]"
    by (simp add: parse_patch_def lines numeral_2_eq_2 numeral_3_eq_3 flush_section_def flush_hunk_def)
  moreover have "apply_section crc ?s content = Inr content"
  proof -
    have "apply_hunks (hunks_sorted [?hunk]) ?ls ?ls = Inr ?ls"
      using ne by (simp add: hunks_sorted_def apply_hunk_def)
    then show ?thesis
      using split_lines_spec(3) [OF assms(1)] by (simp add: apply_section_def)
  qed
  ultimately show ?thesis by (intro exI [of _ ?s]) simp
qed

text \<open>The fingerprint is three upper-case hexadecimal digits that stand for the low twelve bits of
  the checksum, so there are 4096 of them, and two texts have the same one exactly when their
  checksums agree modulo 4096.\<close>

theorem fingerprint_is_low_twelve_bits:
  "length (hash3 crc c) = 3"
  "list_all (\<lambda>d. ascii_hexdigit d \<and> ascii_upper d = d) (hash3 crc c)"
  "foldl (\<lambda>n d. 16 * n + hex_val d) 0 (hash3 crc c) = unat (crc c) mod 4096"
  "hash3 crc a = hash3 crc b \<longleftrightarrow> unat (crc a) mod 4096 = unat (crc b) mod 4096"
proof -
  show "length (hash3 crc c) = 3"
    "list_all (\<lambda>d. ascii_hexdigit d \<and> ascii_upper d = d) (hash3 crc c)"
    by (simp_all add: hash3_digits hex_upper_spec)
  have digits: "256 * (n div 256 mod 16) + 16 * (n div 16 mod 16) + n mod 16 = n mod 4096" for n :: nat
    using mod_mult2_eq [of n 16 256] mod_mult2_eq [of "n div 16" 16 16] by (simp flip: div_mult2_eq)
  have v: "foldl (\<lambda>n d. 16 * n + hex_val d) 0 (hash3 crc c) = unat (crc c) mod 4096" for c
    using digits [of "unat (crc c)"] by (simp add: hash3_digits hex_upper_spec)
  show "foldl (\<lambda>n d. 16 * n + hex_val d) 0 (hash3 crc c) = unat (crc c) mod 4096"
    by (rule v)
  have "n div 256 mod 16 = n mod 4096 div 256" for n :: nat
    using mod_mult2_eq [of n 256 16] by simp
  moreover have "n div 16 mod 16 = n mod 4096 div 16 mod 16" for n :: nat
    using mod_mult2_eq [of n 16 256] mod_mod_cancel [of 16 256 "n div 16"] by simp
  moreover have "n mod 16 = n mod 4096 mod 16" for n :: nat
    by (simp add: mod_mod_cancel)
  ultimately have "hash3 crc c = (let m = unat (crc c) mod 4096
      in map hex_upper [m div 256, m div 16 mod 16, m mod 16])" for c
    unfolding hash3_digits Let_def by metis
  then show "hash3 crc a = hash3 crc b \<longleftrightarrow> unat (crc a) mod 4096 = unat (crc b) mod 4096"
    using v [of a] v [of b] by metis
qed

text \<open>A number at the start of an added line is lost: the text of every line \<open>+H:R\<close> in which
  \<open>H\<close> is not empty and has only digits beside white space is read as \<open>R\<close>, although a
  new line need not carry a line number; a port mapping, a time or an indented key of digits loses
  its first part, and an indented line that starts with a colon loses its indentation and the
  colon.\<close>

theorem leading_number_is_lost:
  assumes "pp_section p = Some sec" and "CHR '':'' \<notin> set H" "H \<noteq> []" "list_all ascii_digit (trim H)"
  shows "parse_line n (''+'' @ H @ '':'' @ R) p = Inr (push_line (Add R) p)"
  using assms by (simp add: parse_add [simplified] strip_line_number_prefix_def)

section \<open>Witnesses\<close>

definition ex_crc :: "str \<Rightarrow> 32 word" where
  "ex_crc s = of_nat (length s)"

definition ex_hunk :: "nat \<Rightarrow> nat \<Rightarrow> hunk_line list \<Rightarrow> hunk" where
  "ex_hunk a b body = \<lparr>hk_start = a, hk_end = b, hk_body = body, hk_is_eof_append = False\<rparr>"

definition ex_text :: str where
  "ex_text = unlines [''a'', ''b'', ''c'']"

definition ex_section :: file_section where
  "ex_section = \<lparr>fs_path = ''f'', fs_expected_hash = ''006'',
     fs_hunks = [ex_hunk 1 1 [Add ''x'', Keep 3 3], ex_hunk 3 3 []]\<rparr>"

lemma hunks_apply_at_once_witness:
  "apply_section ex_crc ex_section ex_text = Inr (unlines [''x'', ''c'', ''b''])"
proof -
  have "hash3 ex_crc ex_text = fs_expected_hash ex_section"
    "\<forall>h \<in> set (fs_hunks ex_section). hunk_ok (split_lines ex_text) h"
    "sorted_wrt apart (fs_hunks ex_section)"
    "join_lines (patched (split_lines ex_text) (fs_hunks ex_section)) (ends_with ex_text [nl]) =
      unlines [''x'', ''c'', ''b'']"
    by code_simp+
  then show ?thesis using hunks_apply_at_once [of ex_crc ex_text ex_section] by simp
qed

lemma section_accepted_iff_witness:
  "(\<exists>r. apply_section ex_crc ex_section ex_text = Inr r) \<and>
   apply_section ex_crc ex_section [] = Inl (StaleHash ''f'' ''006'' ''000'')"
proof (intro conjI)
  have s: "sorted_wrt apart (fs_hunks ex_section)"
    "\<forall>h \<in> set (fs_hunks ex_section). \<not> hk_is_eof_append h" by code_simp+
  have "hash3 ex_crc ex_text = fs_expected_hash ex_section"
    "\<forall>h \<in> set (fs_hunks ex_section). hunk_ok (split_lines ex_text) h" by code_simp+
  then show "\<exists>r. apply_section ex_crc ex_section ex_text = Inr r"
    using section_accepted_iff [OF s, of ex_crc ex_text] by blast
  have "hash3 ex_crc [] = ''000''" by code_simp
  then show "apply_section ex_crc ex_section [] = Inl (StaleHash ''f'' ''006'' ''000'')"
    using section_accepted_iff [OF s, of ex_crc "[]"] by (simp add: ex_section_def)
qed

lemma parse_print_patch_witness: "parse_patch (print_patch [ex_section]) = Inr [ex_section]"
proof -
  have "printable_line (Add ''x'')" "printable_hunk (ex_hunk 3 3 [])"
    by (simp_all add: printable_hunk_def ex_hunk_def plain_line_def strip_line_number_prefix_def)
  then have "printable_hunk h" if "h \<in> set (fs_hunks ex_section)" for h
    using that by (auto simp: printable_hunk_def ex_section_def ex_hunk_def)
  moreover have "printable_section (ex_section\<lparr>fs_hunks := []\<rparr>)" by code_simp
  ultimately have "list_all printable_section [ex_section]"
    by (simp add: printable_section_def list_all_iff)
  then show ?thesis by (rule parse_print_patch)
qed

lemma leading_number_is_lost_witness:
  "parse_line 3 ''+  8080:80'' \<lparr>pp_sections = [], pp_section = Some ex_section, pp_hunk = None\<rparr> =
     Inr (push_line (Add ''80'') \<lparr>pp_sections = [], pp_section = Some ex_section, pp_hunk = None\<rparr>)"
proof -
  have "list_all ascii_digit (trim ''  8080'')" by code_simp
  then show ?thesis
    using leading_number_is_lost [of "\<lparr>pp_sections = [], pp_section = Some ex_section, pp_hunk = None\<rparr>"
        ex_section "''  8080''" 3 "''80''"] by simp
qed

text \<open>Further behaviour, on examples: a hunk may lie beyond the file when an end-of-file hunk of the
  same section has extended it, overlapping hunks are applied one after the other, and a file whose
  lines are all deleted keeps an empty line.\<close>

lemma range_checked_after_append:
  fixes eof defines "eof \<equiv> \<lparr>hk_start = 0, hk_end = 0, hk_body = [Add ''x''], hk_is_eof_append = True\<rparr>"
  shows "apply_section ex_crc \<lparr>fs_path = ''f'', fs_expected_hash = ''002'',
      fs_hunks = [ex_hunk 2 2 [Add ''y''], eof]\<rparr> (unlines [''a'']) = Inr (unlines [''a'', ''y''])"
proof -
  have "hunks_sorted [ex_hunk 2 2 [Add ''y''], eof] = [eof, ex_hunk 2 2 [Add ''y'']]"
    by (simp add: hunks_sorted_def hunk_key_def ex_hunk_def eof_def)
  moreover have "hash3 ex_crc (unlines [''a'']) = ''002''" "split_lines (unlines [''a'']) = [''a'']"
    "apply_hunks [eof, ex_hunk 2 2 [Add ''y'']] [''a''] [''a''] = Inr [''a'', ''y'']"
    "join_lines [''a'', ''y''] (ends_with (unlines [''a'']) [nl]) = unlines [''a'', ''y'']"
    unfolding eof_def by code_simp+
  ultimately show ?thesis by (simp add: apply_section_def)
qed

lemma deleting_all_lines_leaves_one:
  "apply_section ex_crc \<lparr>fs_path = ''f'', fs_expected_hash = ''002'', fs_hunks = [ex_hunk 1 1 []]\<rparr>
    (unlines [''a'']) = Inr [nl]"
  by code_simp

end
