(* ===== verification/Edit_Laws.thy ===== *)
theory Edit_Laws
  imports Edit_Guard Hashline_Laws
begin

text \<open>
  The properties of the file tools: no update is lost under the tracker, the text edit replaces what
  it says, the page that Read prints is the rendering the patch language refers to, and what
  happens in the cases the code does not foresee.
\<close>

section \<open>Occurrences\<close>

lemma match_count_Nil [simp]: "match_count p [] = 0"
  by (simp add: match_count.simps)

lemma match_count_Cons:
  "match_count p (x # xs) =
    (if p \<noteq> [] \<and> prefix p (x # xs) then Suc (match_count p (drop (length p) (x # xs)))
     else match_count p xs)"
  by (simp add: match_count.simps [of p "x # xs"])

lemma replacen_0 [simp]: "replacen p r 0 s = s"
  by (cases s) (simp_all add: replacen.simps)

lemma replacen_Cons:
  "replacen p r (Suc k) (x # xs) =
    (if p \<noteq> [] \<and> prefix p (x # xs) then r @ replacen p r k (drop (length p) (x # xs))
     else x # replacen p r (Suc k) xs)"
  by (simp add: replacen.simps [of p r "Suc k" "x # xs"])

text \<open>The first occurrence is replaced, and the search goes on behind it.\<close>

lemma first_match:
  assumes "match_count p s > 0"
  shows "\<exists>a b. s = a @ p @ b \<and> match_count p s = Suc (match_count p b) \<and>
    (\<forall>k r. replacen p r (Suc k) s = a @ r @ replacen p r k b)"
  using assms
proof (induction s)
  case (Cons x s)
  show ?case
  proof (cases "p \<noteq> [] \<and> prefix p (x # s)")
    case True
    then obtain b where b: "x # s = p @ b" by (auto simp: prefix_def)
    then have d: "drop (length p) (x # s) = b" by simp
    have "match_count p (x # s) = Suc (match_count p b)"
      by (simp only: match_count_Cons True d if_True simp_thms)
    moreover have "replacen p r (Suc k) (x # s) = r @ replacen p r k b" for k r
      by (simp only: replacen_Cons True d if_True simp_thms)
    ultimately show ?thesis
      using b by (intro exI [of _ "[]"] exI [of _ b]) simp
  next
    case False
    then obtain a b where "s = a @ p @ b" "match_count p s = Suc (match_count p b)"
      "\<forall>k r. replacen p r (Suc k) s = a @ r @ replacen p r k b"
      using Cons by (auto simp: match_count_Cons)
    with False show ?thesis
      by (intro exI [of _ "x # a"] exI [of _ b]) (auto simp: match_count_Cons replacen_Cons)
  qed
qed simp

lemma contains_match: "p \<noteq> [] \<Longrightarrow> contains_str s p \<longleftrightarrow> match_count p s > 0"
proof
  show "p \<noteq> [] \<Longrightarrow> contains_str s p \<Longrightarrow> match_count p s > 0"
    by (induction s) (auto simp: match_count_Cons)
  show "match_count p s > 0 \<Longrightarrow> contains_str s p"
    using first_match by (metis contains_str_iff)
qed

section \<open>No lost update\<close>

text \<open>C9. No update is lost: over every sequence of calls of Read, Edit and the patch tool and of changes
  from outside at any later time, when a call changes a file that holds text, the tracker holds for
  some path of that file the hash of exactly the content that is overwritten; the content was read
  or written by a tool of this session, and nobody changed it since.\<close>

theorem no_update_is_lost:
  assumes "world_ok os w0" and "in_time (run_call os crc rd) es w0" and "wd_tracker w0 \<noteq> None"
    and "w = fold (happen (run_call os crc rd)) es w0"
    and "wd_files w f = Some g" and "f \<notin> trunc_files os rd"
    and "wd_files (snd (run_call os crc rd c w)) f \<noteq> Some g"
    and "\<not> no_text os f g"
  shows "\<exists>tr p rs. wd_tracker w = Some tr \<and> os_file os (components p) = f \<and>
    tr (components p) = Some rs \<and> rs_content_hash rs = os_hash os (df_bytes g)"
  using files.overwrites_what_was_seen [OF assms(1-7)] assms(8) by blast

section \<open>Text edits\<close>

text \<open>C31. A text edit replaces one occurrence and nothing else: when Edit reports a modification without
  \<open>replace_all\<close>, the file was fresh for the tracker, its text with LF line ends is \<open>a @ old @ b\<close> with
  no further occurrence of \<open>old\<close>, the old string or its unescaped form; the file now holds
  \<open>a @ new_string @ b\<close>, no other file has changed and the tracker knows the new content. A call that is
  refused or panics changes nothing at all, where a write that fails is taken to leave the file alone.\<close>

theorem edit_replaces_one_occurrence:
  assumes "execute_modify os p old_string new_string False w = (out, w')"
  shows "case out of Modified k n m \<Rightarrow>
      \<exists>f a b old. file_of os w p = Some f \<and> tracker_refuses w p f = None \<and>
        normalize_eol (df_bytes f) = a @ old @ b \<and> match_count old b = 0 \<and> old \<noteq> [] \<and>
        (old = normalize_eol old_string \<or> swap_unicode_escapes (normalize_eol old_string) = Swapped old) \<and>
        wd_files w' = (wd_files w)(os_file os (components p) \<mapsto>
          \<lparr>df_is_dir = False, df_bytes = a @ new_string @ b, df_mtime = wd_now w\<rparr>) \<and>
        wd_tracker w' = map_option (tracker_record p (os_hash os (a @ new_string @ b)) (max 0 (wd_now w)))
          (wd_tracker w)
    | _ \<Rightarrow> w' = w"
proof (cases "\<exists>k n m. out = Modified k n m")
  case True
  then obtain k n m where out: "out = Modified k n m" by blast
  obtain f where f: "file_of os w p = Some f" using assms out
    by (auto simp: execute_modify_def split: option.splits)
  obtain content new_content c where e: "tracker_refuses w p f = None"
    "fs_read_to_string os p w = Some content"
    "edit_text content old_string new_string False = Some (Inr (new_content, c))"
    "write_back os p new_content w = Some w'"
    using assms out
    by (auto simp: execute_modify_def f split: if_splits option.splits sum.splits)
  obtain old where old: "actual_old (normalize_eol content) (normalize_eol old_string) = Some (Inr (old, c))"
    "\<not> c > 1" "new_content = replacen old new_string 1 (normalize_eol content)"
    using e(3) by (auto simp: edit_text_def Let_def split: option.splits sum.splits if_splits)
  have m: "find_matches (normalize_eol content) old = Some c"
    "old = normalize_eol old_string \<or> swap_unicode_escapes (normalize_eol old_string) = Swapped old"
    using old(1) by (auto simp: actual_old_def split: option.splits swap_result.splits)
  then have c: "old \<noteq> []" "match_count old (normalize_eol content) = 1"
    using old(2) by (auto simp: find_matches_def Let_def split: if_splits)
  obtain a b where ab: "normalize_eol content = a @ old @ b" "match_count old b = 0"
    "new_content = a @ new_string @ b"
    using first_match [of old "normalize_eol content"] c(2) old(3) by auto
  have "content = df_bytes f"
    using e(2) f by (auto simp: fs_read_to_string_def fs_read_def split: option.splits if_splits)
  then have "\<exists>f a b old. file_of os w p = Some f \<and> tracker_refuses w p f = None \<and>
        normalize_eol (df_bytes f) = a @ old @ b \<and> match_count old b = 0 \<and> old \<noteq> [] \<and>
        (old = normalize_eol old_string \<or> swap_unicode_escapes (normalize_eol old_string) = Swapped old) \<and>
        wd_files w' = (wd_files w)(os_file os (components p) \<mapsto>
          \<lparr>df_is_dir = False, df_bytes = a @ new_string @ b, df_mtime = wd_now w\<rparr>) \<and>
        wd_tracker w' = map_option (tracker_record p (os_hash os (a @ new_string @ b)) (max 0 (wd_now w)))
          (wd_tracker w)"
    using f e(1) ab c(1) m(2) write_back_Some(1,2) [OF e(4)] by blast
  then show ?thesis by (simp add: out)
next
  case False
  then have "w' = w"
    using assms by (auto simp: execute_modify_def split: if_splits option.splits sum.splits)
  then show ?thesis using False by (simp split: edit_outcome.split)
qed

section \<open>Escapes\<close>

text \<open>Edit panics on some escapes: when the old string does not occur in the file and has \<open>\u\<close>
  before characters of which one straddles the sixth byte, the slice of the four digits is off a
  character boundary. The tool does not return an error, and the file is unchanged.\<close>

theorem escape_before_wide_characters_panics:
  assumes "file_of os w p = Some f" and "\<not> df_is_dir f" and "length (df_bytes f) \<le> MAX_FILE_BYTES"
    and "tracker_refuses w p f = None" and "fs_read_to_string os p w = Some content"
    and "normalize_eol old_string = bs # CHR ''u'' # x"
    and "match_count (bs # CHR ''u'' # x) (normalize_eol content) = 0"
    and "length x > 3" and "length x > 4 \<longrightarrow> is_continuation (x ! 4)" and "length x \<noteq> 4"
  shows "execute_modify os p old_string new_string all w = (Panicked, w)"
proof -
  let ?s = "bs # CHR ''u'' # x"
  have "\<not> is_char_boundary ?s 6"
    using assms(8-10) by (auto simp: is_char_boundary_def)
  then have "swap_loop ?s = None"
    using assms(8) by (simp add: swap_loop.simps [of ?s])
  then have "swap_unicode_escapes ?s = SwapPanic"
    by (simp add: swap_unicode_escapes_def)
  then have "edit_text content old_string new_string all = None"
    using assms(6,7) by (simp add: edit_text_def actual_old_def find_matches_def)
  then show ?thesis
    using assms(1-5) by (simp add: execute_modify_def)
qed

section \<open>Creation\<close>

text \<open>Creating a file destroys a binary one: with an empty old string, a file that is there, readable
  and not empty but no UTF-8 text counts as empty. It is overwritten without a Read before, although the
  same call on a text is refused.\<close>

theorem create_overwrites_binary_files:
  assumes "file_of os w p = Some f" and "\<not> valid_utf8 (df_bytes f)" and "\<not> df_is_dir f"
    and "os_writable os (os_file os (components p))" and "\<forall>q. path_parent p = Some q \<longrightarrow> os_mkdir os q"
  shows "\<exists>n m w'. execute_create os p new_string w = (Created n m, w') \<and>
    map_option df_bytes (file_of os w' p) = Some new_string"
proof -
  have "fs_read_to_string os p w = None"
    using assms(1,2) by (auto simp: fs_read_to_string_def fs_read_def split: option.split)
  moreover obtain w' where w': "write_back os p new_string w = Some w'"
    using assms(1,3,4) by (auto simp: write_back_def fs_write_def file_of_def)
  moreover have "map_option df_bytes (file_of os w' p) = Some new_string"
    using write_back_Some(1) [OF w'] by (simp add: file_of_def)
  ultimately show ?thesis
    using assms(5) by (auto simp: execute_create_def split: option.split)
qed

section \<open>Patches of several files\<close>

text \<open>A patch that fails has been applied in part: the files of the sections before the failing one
  stay written, and the outcome names only the error.\<close>

theorem failing_patch_keeps_earlier_files:
  assumes "apply_files os crc ss rep w = (Patched rep', w')"
    and "apply_file os crc s w' = Inl e"
  shows "apply_files os crc (ss @ s # rest) rep w = (Refused e, w')"
  using assms(1)
proof (induction ss arbitrary: rep w)
  case Nil
  then show ?case using assms(2) by simp
next
  case (Cons t ss)
  then show ?case by (auto split: sum.splits)
qed

section \<open>Pages\<close>

lemma read_lines_append:
  assumes "\<forall>l \<in> set ls. length l \<le> MAX_LINE_LENGTH"
    and "\<forall>i \<in> {k<..k + length ls}. in_page offset limit i"
    and "length out + length (concat (map2 (line_str (rd_style rd)) [Suc k..<Suc (k + length ls)] ls))
      \<le> MAX_OUTPUT_BYTES"
  shows "read_lines os rd p offset limit count k ls out shown w =
    (PageEnd (out @ concat (map2 (line_str (rd_style rd)) [Suc k..<Suc (k + length ls)] ls))
      (shown + length ls), w)"
  using assms
proof (induction ls arbitrary: k out shown)
  case (Cons l ls)
  let ?s = "line_str (rd_style rd) (Suc k) l"
  have upt: "[Suc k..<Suc (Suc (k + length ls))] = Suc k # [Suc (Suc k)..<Suc (Suc (k + length ls))]"
    by (simp add: upt_conv_Cons del: upt_Suc)
  have "read_lines os rd p offset limit count (Suc k) ls (out @ ?s) (Suc shown) w =
    (PageEnd ((out @ ?s) @ concat (map2 (line_str (rd_style rd)) [Suc (Suc k)..<Suc (Suc k + length ls)] ls))
      (Suc shown + length ls), w)"
    using Cons.prems by (intro Cons.IH) (auto simp: upt simp del: upt_Suc)
  moreover have "format_line os rd p (Suc k) l w = Some (l, w)"
    using Cons.prems(1) by (simp add: format_line_def)
  ultimately show ?case
    using Cons.prems(2,3) by (simp add: Let_def upt del: upt_Suc)
qed simp

lemma read_whole_file:
  assumes "rd_style rd = HashlineStyle" and "json_get_str input ''file_path'' = Some p"
    and "json_get_u64 input ''offset'' = None" "json_get_u64 input ''limit'' = None"
    and "file_of os w p = Some f" "\<not> df_is_dir f" "os_readable os (os_file os (components p))"
    and "length (df_bytes f) \<le> READ_MAX_FILE_BYTES" "valid_utf8 (df_bytes f)" "df_bytes f \<noteq> []"
    and "list_all plain_line (split_lines (df_bytes f))"
    and "\<forall>l \<in> set (split_lines (df_bytes f)). length l \<le> MAX_LINE_LENGTH"
    and "length (split_lines (df_bytes f)) \<le> DEFAULT_LIMIT"
    and "length (render_with_line_numbers_with_path p (df_bytes f) (hash3 crc (df_bytes f))) \<le> MAX_OUTPUT_BYTES"
  shows "read_execute os crc rd input w =
    (ReadText (render_with_line_numbers_with_path p (df_bytes f) (hash3 crc (df_bytes f))),
     record_state os p (df_bytes f) (mtime_ms f) w)"
proof -
  let ?c = "df_bytes f" let ?ls = "split_lines ?c" let ?n = "length ?ls"
  let ?h = "pilcrow @ p @ ''#'' @ hash3 crc ?c @ [nl]" let ?w = "record_state os p ?c (mtime_ms f) w"
  have render: "render_with_line_numbers_with_path p ?c (hash3 crc ?c) =
      ?h @ concat (map2 (line_str HashlineStyle) [Suc 0..<Suc (0 + ?n)] ?ls)"
  proof -
    have "unlines (map2 (\<lambda>i l. dec i @ '':'' @ l) is ls) = concat (map2 (line_str HashlineStyle) is ls)"
      for "is" ls
      by (induction "is" ls rule: list_induct2') (simp_all add: line_str_def)
    then show ?thesis
      using assms(10) render_lines [OF assms(10), of 1]
      by (simp add: render_with_line_numbers_with_path_def Let_def del: upt_Suc)
  qed
  have ne: "0 < ?n" using split_lines_spec(2) [OF assms(10)] by simp
  have "read_lines os rd p 1 DEFAULT_LIMIT ?n 0 ?ls ?h 0 ?w =
      (PageEnd (?h @ concat (map2 (line_str (rd_style rd)) [Suc 0..<Suc (0 + ?n)] ?ls)) (0 + ?n), ?w)"
  proof (rule read_lines_append)
    show "\<forall>i \<in> {0<..0 + ?n}. in_page 1 DEFAULT_LIMIT i"
      using assms(13) by (auto simp: in_page_def page_end_def DEFAULT_LIMIT_def)
    show "length ?h + length (concat (map2 (line_str (rd_style rd)) [Suc 0..<Suc (0 + ?n)] ?ls))
        \<le> MAX_OUTPUT_BYTES"
      using assms(14) unfolding render assms(1) by (simp del: upt_Suc)
  qed (fact assms)
  then have "show_text os crc rd p 1 DEFAULT_LIMIT ?c ?w =
      (ReadText (render_with_line_numbers_with_path p ?c (hash3 crc ?c)), ?w)"
    using ne unfolding render
    by (simp add: show_text_def Let_def utf8_lossy_valid assms(1,9) plain_lines [OF assms(10,11)]
        del: upt_Suc)
  moreover have "fs_read os p w = Some ?c"
    using assms(5-7) by (simp add: fs_read_def)
  ultimately show ?thesis
    using assms(1-8) by (simp add: read_execute_def)
qed

text \<open>C34. What Read shows in full, the patch tool takes. In the hashline back end, for a file that can be
  read and written, is not empty, is valid UTF-8 without a carriage return at the end of a line, is
  within the size that Read opens, has at most 2000 lines of at most 2000 bytes each, and whose page
  fits the output, under a path without a line feed: a Read of the whole file lets the patch that
  sends every shown line back, numbers and all, be accepted, and the file keeps its bytes.\<close>

theorem what_read_shows_can_be_sent_back:
  assumes "rd_style rd = HashlineStyle" and "json_get_str input ''file_path'' = Some p"
    and "json_get_u64 input ''offset'' = None" "json_get_u64 input ''limit'' = None"
    and "file_of os w p = Some f" "\<not> df_is_dir f" "os_readable os (os_file os (components p))"
    and "os_writable os (os_file os (components p))" "nl \<notin> set p"
    and "length (df_bytes f) \<le> READ_MAX_FILE_BYTES" "valid_utf8 (df_bytes f)" "df_bytes f \<noteq> []"
    and "list_all plain_line (split_lines (df_bytes f))"
    and "\<forall>l \<in> set (split_lines (df_bytes f)). length l \<le> MAX_LINE_LENGTH"
    and "length (split_lines (df_bytes f)) \<le> DEFAULT_LIMIT"
    and "length (render_with_line_numbers_with_path p (df_bytes f) (hash3 crc (df_bytes f))) \<le> MAX_OUTPUT_BYTES"
    and "JObj [(''patch'', JStr (send_back shown (length (split_lines (df_bytes f)))))] = patch"
    and "read_execute os crc rd input w = (ReadText shown, w1)"
  shows "\<exists>w2. edit_hashline_execute os crc patch w1 = (Patched [(p, 1, hash3 crc (df_bytes f))], w2) \<and>
    map_option df_bytes (file_of os w2 p) = Some (df_bytes f)"
proof -
  let ?c = "df_bytes f"
  have w1: "shown = render_with_line_numbers_with_path p ?c (hash3 crc ?c)"
    "w1 = record_state os p ?c (mtime_ms f) w"
    using assms(18) read_whole_file [OF assms(1-7,10-16)] by simp_all
  have "length (split_lines ?c) \<le> usize_max" using assms(15) by (simp add: DEFAULT_LIMIT_def)
  then obtain s where s: "parse_patch (send_back shown (length (split_lines ?c))) = Inr [s]"
    "fs_path s = p" "length (fs_hunks s) = 1" "apply_section crc s ?c = Inr ?c"
    using shown_file_can_be_sent_back [OF assms(12,13,9)] unfolding w1(1) by blast
  have f1: "file_of os w1 p = Some f" using assms(5) by (simp add: w1(2) file_of_def record_state_fields)
  have fresh: "tracker_refuses w1 p f = None"
    by (simp add: tracker_refuses_def w1(2) record_state_def precheck_def tracker_record_def
        split: option.split)
  have content: "fs_read_to_string os p w1 = Some ?c"
    using assms(6,7,11) by (simp add: fs_read_to_string_def fs_read_def f1)
  obtain w2 where w2: "write_back os p ?c w1 = Some w2"
    using assms(6,8) f1 by (auto simp: write_back_def fs_write_def file_of_def)
  have "apply_file os crc s w1 = Inr (hash3 crc ?c, w2)"
    using f1 fresh content w2 s(4) by (simp add: apply_file_def s(2))
  moreover have "json_get_str patch ''patch'' = Some (send_back shown (length (split_lines ?c)))"
    by (simp add: assms(17) [symmetric] json_get_str_def)
  ultimately have "edit_hashline_execute os crc patch w1 = (Patched [(p, 1, hash3 crc ?c)], w2)"
    using s(1-3) by (simp add: edit_hashline_execute_def)
  moreover have "map_option df_bytes (file_of os w2 p) = Some ?c"
    using write_back_Some(1) [OF w2] by (simp add: file_of_def)
  ultimately show ?thesis by blast
qed

definition page_inv :: "read_style \<Rightarrow> nat \<Rightarrow> nat \<Rightarrow> nat \<Rightarrow> str \<Rightarrow> nat \<Rightarrow> bool" where
  "page_inv st offset limit k out shown \<longleftrightarrow>
     (length out \<le> MAX_OUTPUT_BYTES \<or> shown \<le> 1) \<and> (st = CatN \<longrightarrow> (out = [] \<longleftrightarrow> shown = 0)) \<and>
     (shown = 0 \<or> (shown + offset \<le> k + 1 \<and> shown + offset \<le> page_end offset limit))"

lemma line_str_ne [simp]: "line_str st n l \<noteq> []"
  by (cases st) (simp_all add: line_str_def)

lemma read_lines_bounded:
  assumes "page_inv (rd_style rd) offset limit k out shown" "0 < offset"
    and "read_lines os rd p offset limit count k ls out shown w = (pg, w')"
  shows "(\<forall>o' n. pg = PageEnd o' n \<longrightarrow> (\<exists>j. page_inv (rd_style rd) offset limit j o' n)) \<and>
    (\<forall>t. pg = PageFull t \<longrightarrow> (\<exists>o' n j r. t = o' @ capped_note n r offset limit \<and> 0 < n \<and>
      page_inv (rd_style rd) offset limit j o' n))"
  using assms(1,3)
proof (induction ls arbitrary: k out shown w)
  case Nil
  then show ?case by auto
next
  case (Cons l ls)
  show ?case
  proof (cases "in_page offset limit (k + 1)")
    case False
    have "page_inv (rd_style rd) offset limit (k + 1) out shown"
      using Cons.prems(1) by (auto simp: page_inv_def)
    then show ?thesis
      using Cons.IH [of "k + 1" out shown w] Cons.prems(2) False by (simp add: Let_def)
  next
    case page: True
    show ?thesis
    proof (cases "format_line os rd p (k + 1) l w")
      case None
      then show ?thesis using Cons.prems(2) page by (auto simp: Let_def)
    next
      case (Some r)
      obtain fm w1 where r: "r = (fm, w1)" by (cases r)
      let ?s = "line_str (rd_style rd) (k + 1) fm"
      let ?started = "case rd_style rd of CatN \<Rightarrow> out \<noteq> [] | HashlineStyle \<Rightarrow> 0 < shown"
      show ?thesis
      proof (cases "length out + length ?s > MAX_OUTPUT_BYTES \<and> ?started")
        case True
        then have "0 < shown"
          using Cons.prems(1) by (auto simp: page_inv_def split: read_style.splits)
        moreover have "pg = PageFull (out @ capped_note shown (count - (k + 1)) offset limit)"
          using Cons.prems(2) page Some r True by (auto simp: Let_def)
        ultimately show ?thesis
          using Cons.prems(1) by (intro conjI allI impI exI [of _ out] exI [of _ shown] exI [of _ k]
              exI [of _ "count - (k + 1)"]) simp_all
      next
        case False
        have "page_inv (rd_style rd) offset limit (k + 1) (out @ ?s) (shown + 1)"
          using Cons.prems(1) page False
          by (cases "rd_style rd") (auto simp: page_inv_def in_page_def)
        moreover have "read_lines os rd p offset limit count (k + 1) ls (out @ ?s) (shown + 1) w1 = (pg, w')"
          using Cons.prems(2) page Some r False by (simp add: Let_def del: de_Morgan_conj split: if_splits)
        ultimately show ?thesis by (rule Cons.IH)
      qed
    qed
  qed
qed

lemma page_inv_bounds:
  assumes "page_inv st offset limit j out n"
  shows "(length out \<le> MAX_OUTPUT_BYTES \<or> n \<le> 1) \<and> n \<le> limit"
proof -
  have "page_end offset limit \<le> offset + limit" by (simp add: page_end_def)
  then show ?thesis using assms by (auto simp: page_inv_def)
qed

text \<open>A page is bounded: what Read prints before its closing note is at most 100000 bytes or one
  line, and never more lines than the limit, whatever the numbers asked for; a page that is cut short
  has at least one line and ends with the note that says how many.\<close>

theorem pages_are_bounded:
  assumes "0 < offset" and "header = [] \<or> rd_style rd = HashlineStyle"
    and "read_lines os rd p offset limit count 0 ls header 0 w = (pg, w')"
  shows "case pg of
      PageEnd out n \<Rightarrow> (length out \<le> MAX_OUTPUT_BYTES \<or> n \<le> 1) \<and> n \<le> limit
    | PageFull t \<Rightarrow> \<exists>out n r. t = out @ capped_note n r offset limit \<and> 0 < n \<and> n \<le> limit \<and>
        (length out \<le> MAX_OUTPUT_BYTES \<or> n \<le> 1)
    | PagePanic \<Rightarrow> True"
proof -
  have "page_inv (rd_style rd) offset limit 0 header 0"
    using assms(2) by (auto simp: page_inv_def)
  note b = read_lines_bounded [OF this assms(1,3)]
  show ?thesis
  proof (cases pg)
    case (PageEnd out n)
    then have "(length out \<le> MAX_OUTPUT_BYTES \<or> n \<le> 1) \<and> n \<le> limit"
      using b page_inv_bounds by fast
    with PageEnd show ?thesis by simp
  next
    case (PageFull t)
    then obtain out n j r where "t = out @ capped_note n r offset limit" "0 < n"
      "page_inv (rd_style rd) offset limit j out n"
      using b by blast
    then have "\<exists>out n r. t = out @ capped_note n r offset limit \<and> 0 < n \<and> n \<le> limit \<and>
        (length out \<le> MAX_OUTPUT_BYTES \<or> n \<le> 1)"
      using page_inv_bounds by metis
    with PageFull show ?thesis by simp
  qed simp
qed

lemma floor_char_boundary_ok: "is_char_boundary s (floor_char_boundary s i)"
proof (induction s i rule: floor_char_boundary.induct)
  case (1 s i)
  then show ?case
    by (subst floor_char_boundary.simps) (auto simp: is_char_boundary_def)
qed

lemma format_line_None:
  "format_line os rd p n l w = None \<longleftrightarrow>
    rd_style rd = HashlineStyle \<and> MAX_LINE_LENGTH < length l \<and> \<not> is_char_boundary l MAX_LINE_LENGTH"
  by (auto simp: format_line_def Let_def split: prod.split read_style.splits)

lemma read_lines_panic:
  "rd_style rd = CatN \<Longrightarrow> fst (read_lines os rd p offset limit count k ls out shown w) \<noteq> PagePanic"
proof (induction ls arbitrary: k out shown w)
  case (Cons l ls)
  then show ?case
    by (auto simp: Let_def format_line_None split: option.split prod.split)
qed simp

text \<open>The hashline back end of Read panics on a long line: when the first line has more than 2000
  bytes and the byte 2000 is inside a character, the slice is off a character boundary; the file is
  then already recorded as read. The other back end, which steps back to a boundary, never
  panics.\<close>

theorem only_hashline_read_panics:
  "rd_style rd = CatN \<Longrightarrow> fst (read_execute os crc rd input w) \<noteq> ReadPanicked"
  "rd_style rd = HashlineStyle \<Longrightarrow> json_get_str input ''file_path'' = Some p \<Longrightarrow>
    json_get_u64 input ''offset'' = None \<Longrightarrow> json_get_u64 input ''limit'' = None \<Longrightarrow>
    file_of os w p = Some f \<Longrightarrow> fs_read os p w = Some content \<Longrightarrow> length (df_bytes f) \<le> READ_MAX_FILE_BYTES \<Longrightarrow>
    str_lines (utf8_lossy content) = l # ls \<Longrightarrow> MAX_LINE_LENGTH < length l \<Longrightarrow>
    \<not> is_char_boundary l MAX_LINE_LENGTH \<Longrightarrow>
    read_execute os crc rd input w = (ReadPanicked, record_state os p content (mtime_ms f) w)"
proof -
  assume "rd_style rd = CatN"
  then have "fst (show_text os crc rd p offset limit c w) \<noteq> ReadPanicked" for p offset limit c w
    using read_lines_panic [of rd os p offset limit "length (str_lines (utf8_lossy c))" 0
        "str_lines (utf8_lossy c)" "[]" 0 w]
    by (auto simp: show_text_def Let_def split: prod.split page.split)
  then show "fst (read_execute os crc rd input w) \<noteq> ReadPanicked"
    by (auto simp: read_execute_def Let_def split: option.split)
next
  assume a: "rd_style rd = HashlineStyle" "json_get_str input ''file_path'' = Some p"
    "json_get_u64 input ''offset'' = None" "json_get_u64 input ''limit'' = None"
    "file_of os w p = Some f" "fs_read os p w = Some content" "length (df_bytes f) \<le> READ_MAX_FILE_BYTES"
    "str_lines (utf8_lossy content) = l # ls" "MAX_LINE_LENGTH < length l"
    "\<not> is_char_boundary l MAX_LINE_LENGTH"
  have "in_page (Suc 0) DEFAULT_LIMIT (Suc 0)" by (simp add: in_page_def page_end_def DEFAULT_LIMIT_def)
  moreover have "format_line os rd p (Suc 0) l v = None" for v
    using a by (simp add: format_line_None)
  ultimately have "show_text os crc rd p (Suc 0) DEFAULT_LIMIT content v = (ReadPanicked, v)" for v
    by (simp add: show_text_def Let_def a(8))
  then show "read_execute os crc rd input w = (ReadPanicked, record_state os p content (mtime_ms f) w)"
    using a by (simp add: read_execute_def fs_read_def split: if_splits)
qed

section \<open>Witnesses\<close>

definition ex_os :: os where
  "ex_os = \<lparr>os_file = render, os_readable = (\<lambda>_. True), os_writable = (\<lambda>_. True),
     os_mkdir = (\<lambda>_. True), os_hash = (\<lambda>s. of_nat (length s))\<rparr>"

definition ex_tracker :: read_tracker where
  "ex_tracker = [components ''/f'' \<mapsto> \<lparr>rs_content_hash = 2, rs_mtime_ms = 5\<rparr>]"

definition ex_world :: "str \<Rightarrow> world" where
  "ex_world s = \<lparr>wd_files = [''/f'' \<mapsto> \<lparr>df_is_dir = False, df_bytes = s, df_mtime = 5\<rparr>],
     wd_now = 9, wd_tracker = Some ex_tracker\<rparr>"

definition ex_edit_input :: "str \<Rightarrow> str \<Rightarrow> json" where
  "ex_edit_input a b =
     JObj [(''file_path'', JStr ''/f''), (''old_string'', JStr a), (''new_string'', JStr b)]"

definition ex_reader :: "read_style \<Rightarrow> reader" where
  "ex_reader st = \<lparr>rd_style = st, rd_data_dir = None, rd_session_id = None, rd_hash_str = (\<lambda>_. 0)\<rparr>"

lemma ex_path: "render (components ''/f'') = ''/f''" "path_extension ''/f'' = None"
  "path_parent ''/f'' = Some ''/''" "render (components ''/g'') = ''/g''"
  by code_simp+

lemma ex_file: "file_of ex_os (ex_world s) ''/f'' = Some \<lparr>df_is_dir = False, df_bytes = s, df_mtime = 5\<rparr>"
  by (simp add: file_of_def ex_os_def ex_world_def ex_path)

lemma ex_fresh: "tracker_refuses (ex_world s) ''/f'' \<lparr>df_is_dir = False, df_bytes = s, df_mtime = 5\<rparr> = None"
  by (simp add: tracker_refuses_def ex_world_def precheck_def ex_tracker_def mtime_ms_def)

lemma ex_read: "fs_read ex_os ''/f'' (ex_world s) = Some s"
  by (simp add: fs_read_def ex_file) (simp add: ex_os_def)

lemma ex_modify:
  assumes "valid_utf8 s" "edit_text s a b False = Some (Inr (t, n))" "length s \<le> MAX_FILE_BYTES"
  shows "\<exists>w'. execute_modify ex_os ''/f'' a b False (ex_world s) = (Modified None (length s) (length t), w') \<and>
    wd_files w' ''/f'' = Some \<lparr>df_is_dir = False, df_bytes = t, df_mtime = 9\<rparr>"
proof -
  obtain w' where w': "write_back ex_os ''/f'' t (ex_world s) = Some w'"
    by (simp add: write_back_def fs_write_def ex_path) (simp add: ex_os_def ex_world_def ex_path)
  then have "execute_modify ex_os ''/f'' a b False (ex_world s) = (Modified None (length s) (length t), w')"
    using assms ex_fresh [of s]
    by (simp add: execute_modify_def ex_file ex_read fs_read_to_string_def)
  then show ?thesis
    using write_back_Some(1) [OF w'] by (simp add: ex_os_def ex_path ex_world_def)
qed

lemma ex_world_ok: "length s = 2 \<Longrightarrow> world_ok ex_os (ex_world s)"
  by (auto simp: world_ok_def seen_def clock_ok_def ex_world_def ex_tracker_def ex_os_def mtime_ms_def
      ex_path split: if_splits)

lemma no_update_is_lost_witness:
  "\<exists>tr p rs. wd_tracker (ex_world ''ab'') = Some tr \<and> os_file ex_os (components p) = ''/f'' \<and>
    tr (components p) = Some rs \<and> rs_content_hash rs = os_hash ex_os ''ab''"
proof -
  let ?c = "CallEdit (ex_edit_input ''a'' ''c'')"
  have s: "valid_utf8 ''ab''" "edit_text ''ab'' ''a'' ''c'' False = Some (Inr (''cb'', 1))" "trim ''ab'' \<noteq> []"
    by code_simp+
  obtain w' where w': "execute_modify ex_os ''/f'' ''a'' ''c'' False (ex_world ''ab'') = (Modified None 2 2, w')"
    "wd_files w' ''/f'' = Some \<lparr>df_is_dir = False, df_bytes = ''cb'', df_mtime = 9\<rparr>"
    using ex_modify [OF s(1,2)] by (auto simp: MAX_FILE_BYTES_def)
  then have "wd_files (snd (run_call ex_os ex_crc (ex_reader CatN) ?c (ex_world ''ab''))) ''/f'' \<noteq>
      Some \<lparr>df_is_dir = False, df_bytes = ''ab'', df_mtime = 5\<rparr>"
    by (simp add: edit_execute_def ex_edit_input_def json_get_str_def json_get_bool_def ex_path)
  moreover have "\<not> no_text ex_os ''/f'' \<lparr>df_is_dir = False, df_bytes = ''ab'', df_mtime = 5\<rparr>"
    using s by (simp add: no_text_def) (simp add: ex_os_def)
  moreover have "trunc_files ex_os (ex_reader CatN) = {}"
    by (simp add: trunc_files_def ex_reader_def)
  ultimately show ?thesis
    using no_update_is_lost [of ex_os "ex_world ''ab''" ex_crc "ex_reader CatN" "[]" "ex_world ''ab''" "''/f''"
        "\<lparr>df_is_dir = False, df_bytes = ''ab'', df_mtime = 5\<rparr>" ?c]
      ex_world_ok [of "''ab''"]
    by (simp add: ex_world_def [of "''ab''"])
qed

lemma edit_replaces_one_occurrence_witness:
  "(\<exists>f a b old. file_of ex_os (ex_world ''ab'') ''/f'' = Some f \<and>
      normalize_eol (df_bytes f) = a @ old @ b \<and> match_count old b = 0) \<and>
   snd (execute_modify ex_os ''/g'' ''a'' ''c'' False (ex_world ''ab'')) = ex_world ''ab''"
proof -
  have s: "valid_utf8 ''ab''" "edit_text ''ab'' ''a'' ''c'' False = Some (Inr (''cb'', 1))"
    by code_simp+
  obtain w' where w': "execute_modify ex_os ''/f'' ''a'' ''c'' False (ex_world ''ab'') = (Modified None 2 2, w')"
    using ex_modify [OF s] by (auto simp: MAX_FILE_BYTES_def)
  have "execute_modify ex_os ''/g'' ''a'' ''c'' False (ex_world ''ab'') =
      (Refused NoSuchFile, snd (execute_modify ex_os ''/g'' ''a'' ''c'' False (ex_world ''ab'')))"
    by (simp add: execute_modify_def file_of_def ex_os_def ex_world_def ex_path)
  from edit_replaces_one_occurrence [OF this] edit_replaces_one_occurrence [OF w']
  show ?thesis by auto
qed

lemma escape_before_wide_characters_panics_witness:
  "execute_modify ex_os ''/f'' (bs # CHR ''u'' # [CHR 0xE4, CHR 0xB8, CHR 0xAD, CHR 0xE6, CHR 0x96, CHR 0x87])
     ''x'' False (ex_world ''ab'') = (Panicked, ex_world ''ab'')"
proof -
  let ?x = "[CHR 0xE4, CHR 0xB8, CHR 0xAD, CHR 0xE6, CHR 0x96, CHR 0x87]"
  have "valid_utf8 ''ab''" "normalize_eol (bs # CHR ''u'' # ?x) = bs # CHR ''u'' # ?x"
    "match_count (bs # CHR ''u'' # ?x) (normalize_eol ''ab'') = 0" "is_continuation (?x ! 4)"
    by code_simp+
  then show ?thesis
    using escape_before_wide_characters_panics [OF ex_file _ _ ex_fresh, of "''ab''" "''ab''"
        "bs # CHR ''u'' # ?x" ?x "''x''" False]
    by (simp add: fs_read_to_string_def ex_read MAX_FILE_BYTES_def)
qed

lemma create_overwrites_binary_files_witness:
  "\<exists>n m w'. execute_create ex_os ''/f'' ''x'' (ex_world [CHR 0x89]) = (Created n m, w') \<and>
    map_option df_bytes (file_of ex_os w' ''/f'') = Some ''x''"
proof -
  have "\<not> valid_utf8 [CHR 0x89]" by code_simp
  then show ?thesis
    using create_overwrites_binary_files [OF ex_file, of "[CHR 0x89]" "''x''"] by (simp add: ex_os_def)
qed

lemma failing_patch_keeps_earlier_files_witness:
  "\<exists>w'. apply_files ex_os ex_crc ([] @ ex_section\<lparr>fs_path := ''/g''\<rparr> # []) [] (ex_world ''ab'') =
    (Refused NoSuchFile, w')"
proof -
  have "apply_file ex_os ex_crc (ex_section\<lparr>fs_path := ''/g''\<rparr>) (ex_world ''ab'') = Inl NoSuchFile"
    by (simp add: apply_file_def Let_def file_of_def ex_os_def ex_world_def ex_path)
  from failing_patch_keeps_earlier_files [where ss = "[]" and rep = "[]" and rest = "[]", OF _ this]
  show ?thesis by simp
qed

lemma ex_input: "json_get_str (ex_edit_input a b) ''file_path'' = Some ''/f''"
  "json_get_u64 (ex_edit_input a b) ''offset'' = None" "json_get_u64 (ex_edit_input a b) ''limit'' = None"
  by (simp_all add: ex_edit_input_def json_get_str_def json_get_u64_def)

lemma what_read_shows_can_be_sent_back_witness:
  "\<exists>shown w1 w2. read_execute ex_os ex_crc (ex_reader HashlineStyle) (ex_edit_input [] []) (ex_world ex_text) =
      (ReadText shown, w1) \<and>
    edit_hashline_execute ex_os ex_crc (JObj [(''patch'', JStr (send_back shown 3))]) w1 =
      (Patched [(''/f'', 1, hash3 ex_crc ex_text)], w2)"
proof -
  let ?f = "\<lparr>df_is_dir = False, df_bytes = ex_text, df_mtime = 5\<rparr>"
  let ?shown = "render_with_line_numbers_with_path ''/f'' ex_text (hash3 ex_crc ex_text)"
  have c: "valid_utf8 ex_text" "ex_text \<noteq> []" "list_all plain_line (split_lines ex_text)"
    "split_lines ex_text = [''a'', ''b'', ''c'']" "length ?shown = 21" "length ex_text = 6"
    by code_simp+
  have small: "length ex_text \<le> READ_MAX_FILE_BYTES" "length ?shown \<le> MAX_OUTPUT_BYTES"
    "\<forall>l \<in> set (split_lines ex_text). length l \<le> MAX_LINE_LENGTH"
    "length (split_lines ex_text) \<le> DEFAULT_LIMIT"
    by (simp_all add: c READ_MAX_FILE_BYTES_def MAX_OUTPUT_BYTES_def MAX_LINE_LENGTH_def DEFAULT_LIMIT_def)
  have os: "os_readable ex_os i" "os_writable ex_os i" for i by (simp_all add: ex_os_def)
  have "rd_style (ex_reader HashlineStyle) = HashlineStyle" by (simp add: ex_reader_def)
  note facts = this ex_input ex_file
  obtain w1 where w1: "read_execute ex_os ex_crc (ex_reader HashlineStyle) (ex_edit_input [] []) (ex_world ex_text) =
      (ReadText ?shown, w1)"
    using read_whole_file [OF facts] c small os by simp
  moreover have "\<exists>w2. edit_hashline_execute ex_os ex_crc (JObj [(''patch'', JStr (send_back ?shown 3))]) w1 =
      (Patched [(''/f'', 1, hash3 ex_crc ex_text)], w2)"
    using what_read_shows_can_be_sent_back [OF facts _ _ _ _ _ _ _ _ _ _ _ refl w1] c small os by (auto simp: numeral_3_eq_3)
  ultimately show ?thesis by blast
qed

lemma pages_are_bounded_witness:
  "\<exists>out. read_lines ex_os (ex_reader CatN) ''/f'' 1 1 2 0 [''a'', ''b''] [] 0 (ex_world ''ab'') =
      (PageEnd out 1, ex_world ''ab'') \<and> (length out \<le> MAX_OUTPUT_BYTES \<or> (1 :: nat) \<le> 1)"
proof -
  have "read_lines ex_os (ex_reader CatN) ''/f'' 1 1 2 0 [''a'', ''b''] [] 0 (ex_world ''ab'') =
      (PageEnd (line_str CatN 1 ''a'') 1, ex_world ''ab'')"
    by (simp add: in_page_def page_end_def format_line_def MAX_LINE_LENGTH_def ex_reader_def)
  moreover note pages_are_bounded [OF _ _ this]
  ultimately show ?thesis by simp
qed

definition ex_long_line :: str where
  "ex_long_line = CHR ''x'' # concat (replicate 999 [CHR 0xC3, CHR 0xA9]) @ [CHR 0xC3, CHR 0xA9]"

lemma ex_long_line: "valid_utf8 ex_long_line" "length ex_long_line = 2001"
  "\<not> is_char_boundary ex_long_line MAX_LINE_LENGTH" "str_lines ex_long_line = [ex_long_line]"
proof -
  let ?r = "\<lambda>n. concat (replicate n [CHR 0xC3, CHR 0xA9])"
  have step: "utf8_step (CHR 0xC3 # CHR 0xA9 # t) = (True, 2)" "utf8_step (CHR ''x'' # t) = (True, 1)" for t
    by (simp_all add: utf8_step_def byte_in_def nth_in_def)
  have "valid_utf8 (?r n @ [CHR 0xC3, CHR 0xA9])" for n
    by (induction n) (simp_all add: valid_utf8.simps [of "_ # _"] valid_utf8.simps [of "[]"] step)
  then show "valid_utf8 ex_long_line"
    by (simp add: ex_long_line_def valid_utf8.simps [of "CHR ''x'' # _"] step)
  have len: "length (?r n) = 2 * n" for n by (simp add: length_concat sum_list_replicate)
  show "length ex_long_line = 2001" by (simp add: ex_long_line_def len)
  have "ex_long_line ! 2000 = CHR 0xA9" by (simp add: ex_long_line_def nth_append len)
  then show "\<not> is_char_boundary ex_long_line MAX_LINE_LENGTH"
    using \<open>length ex_long_line = 2001\<close>
    by (simp add: is_char_boundary_def MAX_LINE_LENGTH_def is_continuation_def)
  have "nl \<notin> set ex_long_line" "ex_long_line \<noteq> []" by (auto simp: ex_long_line_def)
  then show "str_lines ex_long_line = [ex_long_line]"
    by (simp add: str_lines_def split_inclusive_nl_def lines_acc_rest strip_eol_def strip_suffix_nl)
qed

lemma only_hashline_read_panics_witness:
  "fst (read_execute ex_os ex_crc (ex_reader CatN) JNull (ex_world [])) \<noteq> ReadPanicked \<and>
   fst (read_execute ex_os ex_crc (ex_reader HashlineStyle) (ex_edit_input [] []) (ex_world ex_long_line)) =
     ReadPanicked"
proof -
  have "fst (read_execute ex_os ex_crc (ex_reader CatN) JNull (ex_world [])) \<noteq> ReadPanicked"
    by (rule only_hashline_read_panics(1)) (simp add: ex_reader_def)
  moreover have "rd_style (ex_reader HashlineStyle) = HashlineStyle" by (simp add: ex_reader_def)
  from only_hashline_read_panics(2) [OF this ex_input ex_file ex_read, of ex_long_line ex_long_line "[]"]
  have "fst (read_execute ex_os ex_crc (ex_reader HashlineStyle) (ex_edit_input [] []) (ex_world ex_long_line)) =
      ReadPanicked"
    by (simp add: ex_long_line utf8_lossy_valid READ_MAX_FILE_BYTES_def MAX_LINE_LENGTH_def [symmetric])
      (simp add: MAX_LINE_LENGTH_def)
  ultimately show ?thesis by blast
qed

end
