(* ===== verification/Reasoning.thy ===== *)
theory Reasoning
  imports Rust_Str
begin

text \<open>
  Reasoning settings and the model families (\<open>crates/common/src/reasoning.rs\<close>). The families are
  recognised by substrings of the normalised model id.
\<close>

section \<open>Effort\<close>

datatype reasoning_effort = LowEffort | MediumEffort | HighEffort | ExtraEffort | MaxEffort

record reasoning_config =
  rc_enabled :: "bool option"
  rc_effort :: "reasoning_effort option"
  rc_long_context :: "bool option"

definition is_enabled :: "reasoning_config \<Rightarrow> bool" where
  "is_enabled c = (case rc_enabled c of Some b \<Rightarrow> b | None \<Rightarrow> False)"

definition effective_effort :: "reasoning_config \<Rightarrow> reasoning_effort" where
  "effective_effort c = (case rc_effort c of Some e \<Rightarrow> e | None \<Rightarrow> ExtraEffort)"

definition wants_long_context :: "reasoning_config \<Rightarrow> bool" where
  "wants_long_context c = (case rc_long_context c of Some b \<Rightarrow> b | None \<Rightarrow> False)"

fun anthropic_legacy_budget_tokens :: "reasoning_effort \<Rightarrow> nat" where
  "anthropic_legacy_budget_tokens LowEffort = 1024"
| "anthropic_legacy_budget_tokens MediumEffort = 4096"
| "anthropic_legacy_budget_tokens HighEffort = 16384"
| "anthropic_legacy_budget_tokens ExtraEffort = 32000"
| "anthropic_legacy_budget_tokens MaxEffort = 48000"

fun deepseek_effort :: "reasoning_effort \<Rightarrow> str" where
  "deepseek_effort ExtraEffort = ''max''"
| "deepseek_effort MaxEffort = ''max''"
| "deepseek_effort _ = ''high''"

section \<open>Model families\<close>

definition normalize_model_id :: "str \<Rightarrow> str" where
  "normalize_model_id m = map (\<lambda>c. if c = CHR ''.'' then CHR ''-'' else c) (to_ascii_lowercase m)"

definition mentions :: "str \<Rightarrow> str list \<Rightarrow> bool" where
  "mentions m ps = list_ex (contains_str m) ps"

datatype thinking_mode = Opus47Adaptive | Adaptive46 | LegacyEnabled

definition anthropic_thinking_mode :: "str \<Rightarrow> thinking_mode option" where
  "anthropic_thinking_mode model =
     (let m = normalize_model_id model in
      if mentions m [''opus-4-7'', ''opus-4-8''] then Some Opus47Adaptive
      else if mentions m [''opus-4-6'', ''sonnet-4-6''] then Some Adaptive46
      else if mentions m [''claude-3-7'', ''claude-opus-4'', ''claude-sonnet-4'', ''claude-haiku-4'']
      then Some LegacyEnabled
      else None)"

definition anthropic_supports_thinking :: "str \<Rightarrow> bool" where
  "anthropic_supports_thinking model = (anthropic_thinking_mode model \<noteq> None)"

definition anthropic_supports_xhigh_effort :: "str \<Rightarrow> bool" where
  "anthropic_supports_xhigh_effort model =
     mentions (normalize_model_id model) [''fable-5'', ''mythos-5'', ''opus-4-7'', ''opus-4-8'']"

definition anthropic_supports_max_effort :: "str \<Rightarrow> bool" where
  "anthropic_supports_max_effort model =
     mentions (normalize_model_id model)
       [''fable-5'', ''mythos-5'', ''opus-4-6'', ''opus-4-7'', ''opus-4-8'', ''sonnet-4-6'']"

definition anthropic_supports_fallbacks :: "str \<Rightarrow> bool" where
  "anthropic_supports_fallbacks model = mentions (normalize_model_id model) [''fable'', ''mythos'']"

definition anthropic_long_context_uses_beta :: "str \<Rightarrow> bool" where
  "anthropic_long_context_uses_beta model =
     (let m = normalize_model_id model in
      if mentions m [''opus-4-8'', ''opus-4-7'', ''opus-4-6'', ''sonnet-4-6''] then False
      else mentions m [''sonnet-4'', ''opus-4''])"

definition openai_skips_reasoning :: "str \<Rightarrow> bool" where
  "openai_skips_reasoning model = starts_with (normalize_model_id model) ''o1-mini''"

definition openai_supports_xhigh :: "str \<Rightarrow> bool" where
  "openai_supports_xhigh model =
     (let m = normalize_model_id model in
      starts_with m ''gpt-5-4'' \<or> starts_with m ''gpt-5-5'' \<or> starts_with m ''gpt-5-6'' \<or>
      contains_str m ''gpt-5-1-codex-max'')"

definition openai_supports_reasoning :: "str \<Rightarrow> bool" where
  "openai_supports_reasoning model =
     (let m = normalize_model_id model in
      if openai_skips_reasoning m then False
      else if starts_with m ''gpt-5'' then True
      else starts_with m ''o1'' \<or> starts_with m ''o3'' \<or> starts_with m ''o4'' \<or>
           contains_str m ''-reasoning'')"

section \<open>What is sent for a model\<close>

fun anthropic_adaptive_effort_for_model :: "reasoning_effort \<Rightarrow> str \<Rightarrow> str" where
  "anthropic_adaptive_effort_for_model LowEffort model = ''low''"
| "anthropic_adaptive_effort_for_model MediumEffort model = ''medium''"
| "anthropic_adaptive_effort_for_model HighEffort model = ''high''"
| "anthropic_adaptive_effort_for_model ExtraEffort model =
     (if anthropic_supports_xhigh_effort model then ''xhigh'' else ''high'')"
| "anthropic_adaptive_effort_for_model MaxEffort model =
     (if anthropic_supports_max_effort model then ''max'' else ''high'')"

fun openai_effort_for_model :: "reasoning_effort \<Rightarrow> str \<Rightarrow> str" where
  "openai_effort_for_model LowEffort model = ''low''"
| "openai_effort_for_model MediumEffort model = ''medium''"
| "openai_effort_for_model HighEffort model = ''high''"
| "openai_effort_for_model _ model = (if openai_supports_xhigh model then ''xhigh'' else ''high'')"

definition default_reasoning_for_model :: "str \<Rightarrow> reasoning_config option" where
  "default_reasoning_for_model model =
     (if anthropic_supports_thinking model \<or> openai_supports_reasoning model
      then Some \<lparr>rc_enabled = Some True, rc_effort = Some ExtraEffort, rc_long_context = None\<rparr>
      else None)"

section \<open>Naming a model by dots or by dashes\<close>

lemma normalize_model_id_idem [simp]: "normalize_model_id (normalize_model_id m) = normalize_model_id m"
proof -
  have "ascii_lower CHR ''-'' = CHR ''-''" by (simp add: ascii_lower_def)
  then show ?thesis by (auto simp: normalize_model_id_def)
qed

lemma openai_skips_normalized: "openai_skips_reasoning (normalize_model_id m) = openai_skips_reasoning m"
  by (simp add: openai_skips_reasoning_def)

text \<open>Every question about a model has the same answer for its normalised id: an upstream that
  writes a version with dots or in capitals is treated like the official name.\<close>

theorem model_questions_ignore_the_spelling:
  "default_reasoning_for_model (normalize_model_id m) = default_reasoning_for_model m"
  by (simp add: default_reasoning_for_model_def anthropic_supports_thinking_def
      anthropic_thinking_mode_def openai_supports_reasoning_def openai_skips_normalized Let_def)

text \<open>A model whose reasoning is switched on by default accepts an effort: the effort sent to an
  adaptive Anthropic model is below the maximum the model has.\<close>

lemma adaptive_effort_is_supported:
  "anthropic_adaptive_effort_for_model e m = ''xhigh'' \<Longrightarrow> anthropic_supports_xhigh_effort m"
  by (cases e) (auto split: if_splits)

end
