(* ===== verification/Session_Model.thy ===== *)
theory Session_Model
  imports Effects Reasoning
begin

text \<open>
  What a session stores and what a model is sent: messages with their parts
  (\<open>crates/agent-core/src/storage/sessions.rs\<close>), attachments (\<open>crates/common/src/attachments.rs\<close>),
  transcript entries (\<open>crates/model-gateway/src/types.rs\<close>) and the events of a run that carry content
  (\<open>crates/protocol/src/event.rs\<close>).
\<close>

section \<open>Stored messages\<close>

datatype role = SystemRole | UserRole | AssistantRole | MarkerRole

datatype forward_kind = ApprovalForward | QuestionForward

datatype forward_status = PendingForward | ResolvedForward str

record memory_item =
  mi_id :: str
  mi_summary :: str
  mi_scope :: str

datatype message_meta =
  SwitchMeta str str str str
| InterruptedMeta
| CompactBoundary str nat nat
| ReasoningSwitchMeta "reasoning_config option" "reasoning_config option"
| SystemNotificationMeta str "str option" "str option"
| MemoryWritesMeta "memory_item list"
| MemoryRecallMeta "memory_item list"
| GoalOutcomeMeta str str str nat
| HookOutcomeMeta str str str
| ChannelForwardMeta str forward_kind forward_status

datatype message_attachment = TextFile str str str | Image str str str

record tool_part =
  tp_id :: str
  tp_name :: str
  tp_input :: json
  tp_arguments :: str
  tp_result :: "str option"
  tp_duration_ms :: "nat option"
  tp_is_error :: bool

datatype message_part = TextPart str | ReasoningPart str "nat option" | ToolPart tool_part

record message_tool_call =
  mc_id :: str
  mc_name :: str
  mc_input :: json
  mc_result :: "str option"
  mc_duration_ms :: "nat option"
  mc_is_error :: bool
  mc_nested :: "message_part list"

record message =
  ms_id :: str
  ms_role :: role
  ms_content :: str
  ms_attachments :: "message_attachment list"
  ms_tool_calls :: "message_tool_call list"
  ms_parts :: "message_part list"
  ms_created_at :: int
  ms_meta :: "message_meta option"
  ms_subagent_call_id :: "str option"
  ms_run_duration_ms :: "nat option"

section \<open>Transcripts\<close>

record call_entry =
  ce_id :: str
  ce_name :: str
  ce_input :: json

record tool_artifact =
  ta_path :: str
  ta_bytes :: nat
  ta_line_count :: "nat option"

record tool_result =
  tr_call_id :: str
  tr_name :: str
  tr_content :: str
  tr_artifact :: "tool_artifact option"
  tr_attachments :: "message_attachment list"

record user_entry =
  ue_text :: str
  ue_attachments :: "message_attachment list"

record assistant_entry =
  ae_text :: str
  ae_reasoning :: str
  ae_reasoning_signature :: str
  ae_tool_calls :: "call_entry list"

datatype transcript_entry =
  UserEntry user_entry | AssistantEntry assistant_entry | ToolResults "tool_result list"

section \<open>Events\<close>

text \<open>The payloads the accumulator looks at; every other one is \<open>OtherEvent\<close>.\<close>

datatype event_payload =
  ReasoningEvent str
| ReasoningDuration nat
| TextDelta str
| TextDone str
| ToolCallDelta nat "str option" "str option" "str option"
| ToolCallStarted nat str str json
| ToolCallFinished nat str str nat bool
| OtherEvent

end
