(* ===== verification/Transcript.thy ===== *)
theory Transcript
  imports Session_Model Rust_Text
begin

text \<open>
  The transcript that is sent to a model, rebuilt from the stored messages
  (\<open>crates/agent-core/src/context/transcript.rs\<close>, with the cleaning of leaked tool XML of
  \<open>tool_xml_leak.rs\<close>). Parameters: \<open>leak_start\<close> is the start of the first match of the regular
  expression \<open>LEAK_START\<close> (crate \<open>regex\<close>), \<open>json_parse\<close> is \<open>serde_json::from_str\<close>.
\<close>

section \<open>Texts\<close>

definition summary_heading :: str where
  "summary_heading =
     [CHR 0x5B, CHR 0xE5, CHR 0x89, CHR 0x8D, CHR 0xE6, CHR 0x83, CHR 0x85, CHR 0xE6, CHR 0xA6,
     CHR 0x82, CHR 0xE8, CHR 0xA6, CHR 0x81, CHR 0x5D, CHR 0x0A]"

definition summary_ack :: str where
  "summary_ack =
     [CHR 0xE5, CHR 0xB7, CHR 0xB2, CHR 0xE6, CHR 0x94, CHR 0xB6, CHR 0xE5, CHR 0x88, CHR 0xB0,
     CHR 0xE5, CHR 0x89, CHR 0x8D, CHR 0xE6, CHR 0x83, CHR 0x85, CHR 0xE6, CHR 0xA6, CHR 0x82,
     CHR 0xE8, CHR 0xA6, CHR 0x81, CHR 0xEF, CHR 0xBC, CHR 0x8C, CHR 0xE5, CHR 0xB0, CHR 0x86,
     CHR 0xE5, CHR 0x9F, CHR 0xBA, CHR 0xE4, CHR 0xBA, CHR 0x8E, CHR 0xE6, CHR 0xAD, CHR 0xA4,
     CHR 0xE7, CHR 0xBB, CHR 0xA7, CHR 0xE7, CHR 0xBB, CHR 0xAD, CHR 0xE3, CHR 0x80, CHR 0x82]"

definition continue_text :: str where
  "continue_text =
     [CHR 0xE7, CHR 0xBB, CHR 0xA7, CHR 0xE7, CHR 0xBB, CHR 0xAD]"

definition failure_marker :: str where
  "failure_marker =
     [CHR 0x5B, CHR 0xE8, CHR 0xAF, CHR 0xB7, CHR 0xE6, CHR 0xB1, CHR 0x82, CHR 0xE5, CHR 0xA4,
     CHR 0xB1, CHR 0xE8, CHR 0xB4, CHR 0xA5, CHR 0xEF, CHR 0xBC, CHR 0x9A]"

record cleaning =
  cl_leak_start :: "str \<Rightarrow> nat option"
  cl_json_parse :: "str \<Rightarrow> json option"

definition sanitize_tool_xml_leak :: "cleaning \<Rightarrow> str \<Rightarrow> str" where
  "sanitize_tool_xml_leak cl txt =
     (case cl_leak_start cl txt of None \<Rightarrow> txt | Some i \<Rightarrow> trim_end (take i txt))"

definition strip_request_failure_marker :: "str \<Rightarrow> str" where
  "strip_request_failure_marker txt =
     (case split_once_str failure_marker txt of
        None \<Rightarrow> txt
      | Some (a, _) \<Rightarrow> trim_end a)"

definition sanitize_loaded_assistant_text :: "cleaning \<Rightarrow> str \<Rightarrow> str" where
  "sanitize_loaded_assistant_text cl txt =
     sanitize_tool_xml_leak cl (strip_request_failure_marker txt)"

definition json_is_object :: "json \<Rightarrow> bool" where
  "json_is_object v \<longleftrightarrow> (case v of JObj _ \<Rightarrow> True | _ \<Rightarrow> False)"

definition normalize_tool_input :: "cleaning \<Rightarrow> json \<Rightarrow> json" where
  "normalize_tool_input cl v =
     (case v of
        JObj _ \<Rightarrow> v
      | JStr s \<Rightarrow>
          (case cl_json_parse cl s of
             Some w \<Rightarrow> if json_is_object w then w else JObj []
           | None \<Rightarrow> JObj [])
      | _ \<Rightarrow> JObj [])"

section \<open>Assistant messages\<close>

definition plain_result :: "str \<Rightarrow> str \<Rightarrow> str \<Rightarrow> tool_result" where
  "plain_result cid name content =
     \<lparr>tr_call_id = cid, tr_name = name, tr_content = content, tr_artifact = None, tr_attachments = []\<rparr>"

definition assistant_turn :: "str \<Rightarrow> str \<Rightarrow> call_entry list \<Rightarrow> transcript_entry" where
  "assistant_turn txt reasoning calls =
     AssistantEntry \<lparr>ae_text = txt, ae_reasoning = reasoning, ae_reasoning_signature = [], ae_tool_calls = calls\<rparr>"

text \<open>The variables of \<open>push_assistant_parts\<close>.\<close>

record turn =
  tu_text :: str
  tu_reasoning :: str
  tu_calls :: "call_entry list"
  tu_results :: "tool_result list"

definition empty_turn :: turn where
  "empty_turn = \<lparr>tu_text = [], tu_reasoning = [], tu_calls = [], tu_results = []\<rparr>"

definition flush_assistant_turn :: "turn \<Rightarrow> transcript_entry list" where
  "flush_assistant_turn t =
     assistant_turn (tu_text t) (tu_reasoning t) (tu_calls t) #
     (if tu_results t = [] then [] else [ToolResults (tu_results t)])"

text \<open>A part is added to the current turn, which is flushed first when it already has calls.\<close>

fun push_part :: "cleaning \<Rightarrow> message_part \<Rightarrow> transcript_entry list \<times> turn \<Rightarrow> transcript_entry list \<times> turn" where
  "push_part cl (TextPart s) (es, t) =
     (let (es, t) = (if tu_calls t \<noteq> [] then (es @ flush_assistant_turn t, empty_turn) else (es, t))
      in (es, t\<lparr>tu_text := tu_text t @ strip_request_failure_marker s\<rparr>))"
| "push_part cl (ReasoningPart s _) (es, t) =
     (let (es, t) = (if tu_calls t \<noteq> [] then (es @ flush_assistant_turn t, empty_turn) else (es, t))
      in (es, t\<lparr>tu_reasoning := tu_reasoning t @ s\<rparr>))"
| "push_part cl (ToolPart p) (es, t) =
     (case tp_result p of
        None \<Rightarrow> (es, t)
      | Some content \<Rightarrow>
          (es, t\<lparr>tu_calls := tu_calls t @
                 [\<lparr>ce_id = tp_id p, ce_name = tp_name p, ce_input = normalize_tool_input cl (tp_input p)\<rparr>],
               tu_results := tu_results t @ [plain_result (tp_id p) (tp_name p) content]\<rparr>))"

definition push_assistant_parts ::
    "cleaning \<Rightarrow> message_part list \<Rightarrow> transcript_entry list \<Rightarrow> transcript_entry list" where
  "push_assistant_parts cl ps es =
     (let (es, t) = fold (push_part cl) ps (es, empty_turn)
      in if tu_calls t \<noteq> [] then es @ flush_assistant_turn t
         else if tu_text t \<noteq> [] then
           es @ [assistant_turn (sanitize_tool_xml_leak cl (tu_text t)) (tu_reasoning t) []]
         else es)"

definition push_assistant_message ::
    "cleaning \<Rightarrow> message \<Rightarrow> transcript_entry list \<Rightarrow> transcript_entry list" where
  "push_assistant_message cl m es =
     (if ms_parts m \<noteq> [] then push_assistant_parts cl (ms_parts m) es
      else
        let finished = filter (\<lambda>c. mc_result c \<noteq> None) (ms_tool_calls m);
            calls = map (\<lambda>c. \<lparr>ce_id = mc_id c, ce_name = mc_name c,
                      ce_input = normalize_tool_input cl (mc_input c)\<rparr>) finished;
            results = map (\<lambda>c. plain_result (mc_id c) (mc_name c) (the (mc_result c))) finished
        in es @
           (if calls \<noteq> [] \<or> ms_content m \<noteq> [] then
              [assistant_turn
                 (if calls = [] then sanitize_loaded_assistant_text cl (ms_content m)
                  else strip_request_failure_marker (ms_content m)) [] calls]
            else []) @
           (if results \<noteq> [] then [ToolResults results] else []))"

section \<open>The whole session\<close>

definition is_boundary :: "message \<Rightarrow> bool" where
  "is_boundary m \<longleftrightarrow> (case ms_meta m of Some (CompactBoundary _ _ _) \<Rightarrow> True | _ \<Rightarrow> False)"

text \<open>The summary of the last boundary, and the messages behind it.\<close>

fun split_boundary :: "message list \<Rightarrow> str option \<times> message list" where
  "split_boundary [] = (None, [])"
| "split_boundary (m # ms) =
     (case split_boundary ms of
        (Some s, rest) \<Rightarrow> (Some s, rest)
      | (None, rest) \<Rightarrow>
          (case ms_meta m of
             Some (CompactBoundary s _ _) \<Rightarrow> (Some s, ms)
           | _ \<Rightarrow> (None, m # ms)))"

definition user_turn :: "str \<Rightarrow> message_attachment list \<Rightarrow> transcript_entry" where
  "user_turn txt atts = UserEntry \<lparr>ue_text = txt, ue_attachments = atts\<rparr>"

definition boundary_entries :: "str option \<Rightarrow> transcript_entry list" where
  "boundary_entries summary =
     (case summary of
        None \<Rightarrow> []
      | Some s \<Rightarrow>
          if trim s = [] then []
          else [user_turn (summary_heading @ s) [], assistant_turn summary_ack [] []])"

definition push_message :: "cleaning \<Rightarrow> message \<Rightarrow> transcript_entry list \<Rightarrow> transcript_entry list" where
  "push_message cl m es =
     (if ms_subagent_call_id m \<noteq> None then es
      else case ms_role m of
             UserRole \<Rightarrow> es @ [user_turn (ms_content m) (ms_attachments m)]
           | AssistantRole \<Rightarrow> push_assistant_message cl m es
           | _ \<Rightarrow> es)"

definition last_model_facing_role :: "message list \<Rightarrow> role option" where
  "last_model_facing_role ms =
     map_option ms_role (find (\<lambda>m. ms_subagent_call_id m = None \<and>
       (ms_role m = UserRole \<or> ms_role m = AssistantRole)) (rev ms))"

definition from_session :: "cleaning \<Rightarrow> message list \<Rightarrow> transcript_entry list" where
  "from_session cl messages =
     (let (summary, ms) = split_boundary messages;
          es = fold (push_message cl) ms (boundary_entries summary);
          rebuilt_tail_needs_user =
            (es \<noteq> [] \<and> (case last es of UserEntry _ \<Rightarrow> False | _ \<Rightarrow> True));
          raw_tail_needs_user = (last_model_facing_role ms = Some AssistantRole)
      in if rebuilt_tail_needs_user \<or> raw_tail_needs_user then es @ [user_turn continue_text []] else es)"

end
