(* ===== verification/Turn_Accumulator.thy ===== *)
theory Turn_Accumulator
  imports Session_Model
begin

text \<open>
  From the events of a run to the assistant message that is stored
  (\<open>crates/agent-core/src/turn_accumulator.rs\<close>). The clock, the id of the message and the text of a
  JSON value (\<open>serde_json\<close>) are arguments.
\<close>

section \<open>State\<close>

record accumulator =
  ac_parts :: "message_part list"
  ac_by_index :: "nat \<Rightarrow> nat option"
  ac_by_id :: "str \<Rightarrow> nat option"
  ac_tool_calls :: "message_tool_call list"
  ac_final_text :: str
  ac_started_at :: "int option"

definition new_accumulator :: accumulator where
  "new_accumulator = \<lparr>ac_parts = [], ac_by_index = Map.empty, ac_by_id = Map.empty,
     ac_tool_calls = [], ac_final_text = [], ac_started_at = None\<rparr>"

fun text_from_parts :: "message_part list \<Rightarrow> str" where
  "text_from_parts [] = []"
| "text_from_parts (TextPart t # ps) = t @ text_from_parts ps"
| "text_from_parts (_ # ps) = text_from_parts ps"

definition nonblank :: "str option \<Rightarrow> str option" where
  "nonblank v = (case v of Some s \<Rightarrow> if trim s = [] then None else Some s | None \<Rightarrow> None)"

definition empty_tool_call :: message_tool_call where
  "empty_tool_call = \<lparr>mc_id = [], mc_name = [], mc_input = JObj [], mc_result = None,
     mc_duration_ms = None, mc_is_error = False, mc_nested = []\<rparr>"

section \<open>Text and reasoning\<close>

definition append_text :: "str \<Rightarrow> message_part list \<Rightarrow> message_part list" where
  "append_text t ps =
     (if t = [] then ps
      else if ps = [] then [TextPart t]
      else case last ps of
             TextPart s \<Rightarrow> butlast ps @ [TextPart (s @ t)]
           | _ \<Rightarrow> ps @ [TextPart t])"

definition append_reasoning :: "str \<Rightarrow> message_part list \<Rightarrow> message_part list" where
  "append_reasoning t ps =
     (if t = [] then ps
      else if ps = [] then [ReasoningPart t None]
      else case last ps of
             ReasoningPart s d \<Rightarrow> butlast ps @ [ReasoningPart (s @ t) d]
           | _ \<Rightarrow> ps @ [ReasoningPart t None])"

definition set_reasoning_duration :: "nat \<Rightarrow> message_part list \<Rightarrow> message_part list" where
  "set_reasoning_duration ms ps =
     (if ps = [] then [ReasoningPart [] (Some ms)]
      else case last ps of
             ReasoningPart s _ \<Rightarrow> butlast ps @ [ReasoningPart s (Some ms)]
           | _ \<Rightarrow> ps @ [ReasoningPart [] (Some ms)])"

section \<open>Tool calls\<close>

text \<open>A tool part that was just created.\<close>

definition new_tool_part :: "str option \<Rightarrow> str option \<Rightarrow> tool_part" where
  "new_tool_part cid name =
     \<lparr>tp_id = (case cid of Some v \<Rightarrow> v | None \<Rightarrow> []),
      tp_name = (case nonblank name of Some v \<Rightarrow> v | None \<Rightarrow> []),
      tp_input = JObj [], tp_arguments = [], tp_result = None, tp_duration_ms = None,
      tp_is_error = False\<rparr>"

definition collides :: "message_part \<Rightarrow> str option \<Rightarrow> bool" where
  "collides p incoming =
     (case (incoming, p) of
        (Some v, ToolPart t) \<Rightarrow> trim (tp_id t) \<noteq> [] \<and> tp_id t \<noteq> v
      | _ \<Rightarrow> False)"

definition tool_position ::
    "nat \<Rightarrow> str option \<Rightarrow> str option \<Rightarrow> accumulator \<Rightarrow> nat \<times> accumulator" where
  "tool_position index cid name ac =
     (let incoming = nonblank cid;
          fresh = (length (ac_parts ac),
            ac\<lparr>ac_parts := ac_parts ac @ [ToolPart (new_tool_part incoming name)],
               ac_by_index := (ac_by_index ac)(index \<mapsto> length (ac_parts ac)),
               ac_by_id := (case incoming of None \<Rightarrow> ac_by_id ac
                  | Some v \<Rightarrow> (ac_by_id ac)(v \<mapsto> length (ac_parts ac)))\<rparr>)
      in case Option.bind incoming (ac_by_id ac) of
           Some pos \<Rightarrow>
             (pos, if ac_by_index ac index = None
                   then ac\<lparr>ac_by_index := (ac_by_index ac)(index \<mapsto> pos)\<rparr> else ac)
         | None \<Rightarrow>
             (case ac_by_index ac index of
                Some pos \<Rightarrow> if collides (ac_parts ac ! pos) incoming then fresh else (pos, ac)
              | None \<Rightarrow> fresh))"

text \<open>\<open>if let MessagePart::ToolCall { .. } = &mut self.parts[pos]\<close>.\<close>

definition update_tool :: "nat \<Rightarrow> (tool_part \<Rightarrow> tool_part) \<Rightarrow> accumulator \<Rightarrow> accumulator" where
  "update_tool pos f ac =
     (case ac_parts ac ! pos of
        ToolPart t \<Rightarrow> ac\<lparr>ac_parts := (ac_parts ac)[pos := ToolPart (f t)]\<rparr>
      | _ \<Rightarrow> ac)"

definition bind_id :: "str \<Rightarrow> nat \<Rightarrow> accumulator \<Rightarrow> accumulator" where
  "bind_id v pos ac =
     (case ac_parts ac ! pos of
        ToolPart _ \<Rightarrow> ac\<lparr>ac_by_id := (ac_by_id ac)(v \<mapsto> pos)\<rparr>
      | _ \<Rightarrow> ac)"

definition apply_tool_delta ::
    "nat \<Rightarrow> str option \<Rightarrow> str option \<Rightarrow> str option \<Rightarrow> accumulator \<Rightarrow> accumulator" where
  "apply_tool_delta index cid name delta ac =
     (let (pos, ac) = tool_position index cid name ac;
          ac = (case nonblank cid of
                  None \<Rightarrow> ac
                | Some v \<Rightarrow> bind_id v pos (update_tool pos (\<lambda>t. t\<lparr>tp_id := v\<rparr>) ac));
          ac = (case nonblank name of
                  None \<Rightarrow> ac
                | Some v \<Rightarrow> update_tool pos (\<lambda>t. t\<lparr>tp_name := v\<rparr>) ac)
      in case delta of
           None \<Rightarrow> ac
         | Some d \<Rightarrow>
             if d = [] then ac
             else update_tool pos (\<lambda>t. t\<lparr>tp_arguments := tp_arguments t @ d\<rparr>) ac)"

text \<open>The flat list, filled up to an index.\<close>

definition resize_calls :: "nat \<Rightarrow> message_tool_call list \<Rightarrow> message_tool_call list" where
  "resize_calls index cs =
     (if length cs \<le> index then cs @ replicate (index + 1 - length cs) empty_tool_call else cs)"

definition update_call ::
    "nat \<Rightarrow> (message_tool_call \<Rightarrow> message_tool_call) \<Rightarrow> message_tool_call list \<Rightarrow> message_tool_call list" where
  "update_call index f cs =
     (let cs = resize_calls index cs in cs[index := f (cs ! index)])"

definition upsert_tool_call ::
    "nat \<Rightarrow> str \<Rightarrow> str \<Rightarrow> json \<Rightarrow> message_tool_call list \<Rightarrow> message_tool_call list" where
  "upsert_tool_call index cid name input cs =
     update_call index (\<lambda>c. c\<lparr>mc_id := cid, mc_name := name, mc_input := input\<rparr>) cs"

definition start_tool ::
    "(json \<Rightarrow> str) \<Rightarrow> nat \<Rightarrow> str \<Rightarrow> str \<Rightarrow> json \<Rightarrow> accumulator \<Rightarrow> accumulator" where
  "start_tool json_text index cid name input ac =
     (let (pos, ac) = tool_position index (Some cid) (Some name) ac;
          ac = bind_id cid pos (update_tool pos (\<lambda>t. t\<lparr>tp_id := cid, tp_name := name, tp_input := input,
                 tp_arguments := (if tp_arguments t = [] then json_text input else tp_arguments t)\<rparr>) ac)
      in ac\<lparr>ac_tool_calls := upsert_tool_call index cid name input (ac_tool_calls ac)\<rparr>)"

definition finish_tool ::
    "nat \<Rightarrow> str \<Rightarrow> str \<Rightarrow> nat \<Rightarrow> bool \<Rightarrow> accumulator \<Rightarrow> accumulator" where
  "finish_tool index cid result ms is_error ac =
     (let (pos, ac) = tool_position index (Some cid) None ac;
          ac = bind_id cid pos (update_tool pos (\<lambda>t. t\<lparr>tp_id := cid, tp_result := Some result,
                 tp_duration_ms := Some ms, tp_is_error := is_error\<rparr>) ac)
      in ac\<lparr>ac_tool_calls := update_call index (\<lambda>c. c\<lparr>mc_id := cid, mc_result := Some result,
           mc_duration_ms := Some ms, mc_is_error := is_error\<rparr>) (ac_tool_calls ac)\<rparr>)"

section \<open>Events\<close>

definition mark_started :: "int \<Rightarrow> event_payload \<Rightarrow> accumulator \<Rightarrow> accumulator" where
  "mark_started now p ac =
     (if ac_started_at ac = None \<and>
         (case p of ToolCallDelta _ _ _ _ \<Rightarrow> False | OtherEvent \<Rightarrow> False | _ \<Rightarrow> True)
      then ac\<lparr>ac_started_at := Some now\<rparr> else ac)"

fun record_part :: "(json \<Rightarrow> str) \<Rightarrow> event_payload \<Rightarrow> accumulator \<Rightarrow> accumulator" where
  "record_part jt (TextDelta t) ac = ac\<lparr>ac_parts := append_text t (ac_parts ac)\<rparr>"
| "record_part jt (ReasoningEvent t) ac = ac\<lparr>ac_parts := append_reasoning t (ac_parts ac)\<rparr>"
| "record_part jt (ReasoningDuration ms) ac = ac\<lparr>ac_parts := set_reasoning_duration ms (ac_parts ac)\<rparr>"
| "record_part jt (TextDone t) ac = ac\<lparr>ac_final_text := t\<rparr>"
| "record_part jt (ToolCallDelta i cid name d) ac = apply_tool_delta i cid name d ac"
| "record_part jt (ToolCallStarted i cid name input) ac = start_tool jt i cid name input ac"
| "record_part jt (ToolCallFinished i cid r ms e) ac = finish_tool i cid r ms e ac"
| "record_part jt OtherEvent ac = ac"

fun record_tool :: "event_payload \<Rightarrow> accumulator \<Rightarrow> accumulator" where
  "record_tool (ToolCallDelta i cid name d) ac =
     ac\<lparr>ac_tool_calls := update_call i (\<lambda>c.
       (case name of None \<Rightarrow> (\<lambda>c. c) | Some n \<Rightarrow> (\<lambda>c. c\<lparr>mc_name := n\<rparr>))
         ((case cid of None \<Rightarrow> c | Some v \<Rightarrow> c\<lparr>mc_id := v\<rparr>))) (ac_tool_calls ac)\<rparr>"
| "record_tool _ ac = ac"

definition on_event :: "(json \<Rightarrow> str) \<Rightarrow> int \<times> event_payload \<Rightarrow> accumulator \<Rightarrow> accumulator" where
  "on_event jt e ac = record_tool (snd e) (record_part jt (snd e) (mark_started (fst e) (snd e) ac))"

section \<open>The message\<close>

definition append_final_text_if_missing :: "accumulator \<Rightarrow> accumulator" where
  "append_final_text_if_missing ac =
     (if ac_final_text ac = [] then ac
      else if ends_with (text_from_parts (ac_parts ac)) (ac_final_text ac) then ac
      else ac\<lparr>ac_parts := append_text (ac_final_text ac) (ac_parts ac), ac_final_text := []\<rparr>)"

definition build :: "str \<Rightarrow> int \<Rightarrow> accumulator \<Rightarrow> message option" where
  "build new_id now ac =
     (let ac = append_final_text_if_missing ac;
          content = text_from_parts (ac_parts ac)
      in if content = [] \<and> ac_tool_calls ac = [] \<and> ac_parts ac = [] then None
         else Some \<lparr>ms_id = new_id, ms_role = AssistantRole, ms_content = content, ms_attachments = [],
           ms_tool_calls = ac_tool_calls ac, ms_parts = ac_parts ac,
           ms_created_at = (case ac_started_at ac of Some t \<Rightarrow> t | None \<Rightarrow> now),
           ms_meta = None, ms_subagent_call_id = None, ms_run_duration_ms = None\<rparr>)"

definition into_parts :: "accumulator \<Rightarrow> message_part list \<times> message_tool_call list" where
  "into_parts ac =
     (let ac = append_final_text_if_missing ac in (ac_parts ac, ac_tool_calls ac))"

end
