(* ===== verification/Turn_Laws.thy ===== *)
theory Turn_Laws
  imports Turn_Accumulator
begin

text \<open>
  What the accumulator keeps: its two indexes point at tool parts, every identified call has one
  part of its own, a result that arrived stays, and the text is what was streamed.
\<close>

section \<open>The invariant\<close>

definition identified :: "str \<Rightarrow> bool" where
  "identified v \<longleftrightarrow> trim v \<noteq> []"

text \<open>Position \<open>pos\<close> holds the tool part \<open>t\<close>.\<close>

definition tool_at :: "message_part list \<Rightarrow> nat \<Rightarrow> tool_part \<Rightarrow> bool" where
  "tool_at ps pos t \<longleftrightarrow> pos < length ps \<and> ps ! pos = ToolPart t"

definition index_ok :: "message_part list \<Rightarrow> (nat \<Rightarrow> nat option) \<Rightarrow> (str \<Rightarrow> nat option) \<Rightarrow> bool" where
  "index_ok ps bi bd \<longleftrightarrow>
     (\<forall>i pos. bi i = Some pos \<longrightarrow> (\<exists>t. tool_at ps pos t)) \<and>
     (\<forall>v pos. bd v = Some pos \<longrightarrow> identified v \<and> (\<exists>t. tool_at ps pos t \<and> tp_id t = v)) \<and>
     (\<forall>pos t. tool_at ps pos t \<longrightarrow> identified (tp_id t) \<longrightarrow> bd (tp_id t) = Some pos)"

definition acc_ok :: "accumulator \<Rightarrow> bool" where
  "acc_ok ac \<longleftrightarrow> index_ok (ac_parts ac) (ac_by_index ac) (ac_by_id ac)"

text \<open>What a run emits: the calls that start or finish have an id.\<close>

fun event_ok :: "event_payload \<Rightarrow> bool" where
  "event_ok (ToolCallStarted i cid name input) = identified cid"
| "event_ok (ToolCallFinished i cid r ms e) = identified cid"
| "event_ok _ = True"

lemma tool_at_fun: "tool_at ps pos t \<Longrightarrow> tool_at ps pos u \<Longrightarrow> t = u"
  by (simp add: tool_at_def)

lemma nonblank_Some: "nonblank v = Some s \<longleftrightarrow> v = Some s \<and> identified s"
  by (auto simp: nonblank_def identified_def split: option.split if_splits)

lemma acc_okD:
  assumes "acc_ok ac"
  shows "ac_by_index ac i = Some pos \<Longrightarrow> \<exists>t. tool_at (ac_parts ac) pos t"
    and "ac_by_id ac v = Some pos \<Longrightarrow> identified v \<and> (\<exists>t. tool_at (ac_parts ac) pos t \<and> tp_id t = v)"
    and "tool_at (ac_parts ac) pos t \<Longrightarrow> identified (tp_id t) \<Longrightarrow> ac_by_id ac (tp_id t) = Some pos"
  using assms unfolding acc_ok_def index_ok_def by blast+

lemma index_okI:
  assumes "\<And>i pos. bi i = Some pos \<Longrightarrow> \<exists>t. tool_at ps pos t"
    and "\<And>v pos. bd v = Some pos \<Longrightarrow> identified v"
    and "\<And>v pos. bd v = Some pos \<Longrightarrow> \<exists>t. tool_at ps pos t \<and> tp_id t = v"
    and "\<And>pos t. tool_at ps pos t \<Longrightarrow> identified (tp_id t) \<Longrightarrow> bd (tp_id t) = Some pos"
  shows "index_ok ps bi bd"
  using assms unfolding index_ok_def by blast

lemma acc_okI:
  assumes "\<And>i pos. ac_by_index ac i = Some pos \<Longrightarrow> \<exists>t. tool_at (ac_parts ac) pos t"
    and "\<And>v pos. ac_by_id ac v = Some pos \<Longrightarrow> identified v"
    and "\<And>v pos. ac_by_id ac v = Some pos \<Longrightarrow> \<exists>t. tool_at (ac_parts ac) pos t \<and> tp_id t = v"
    and "\<And>pos t. tool_at (ac_parts ac) pos t \<Longrightarrow> identified (tp_id t) \<Longrightarrow> ac_by_id ac (tp_id t) = Some pos"
  shows "acc_ok ac"
  unfolding acc_ok_def by (rule index_okI) (fact assms)+

text \<open>Text and reasoning leave the tool parts where they are.\<close>

definition same_tools :: "message_part list \<Rightarrow> message_part list \<Rightarrow> bool" where
  "same_tools ps qs \<longleftrightarrow> tool_at ps = tool_at qs"

definition no_tool :: "message_part \<Rightarrow> bool" where
  "no_tool p \<longleftrightarrow> (case p of ToolPart t \<Rightarrow> False | _ \<Rightarrow> True)"

lemma no_tool_simps [simp]: "no_tool (TextPart s)" "no_tool (ReasoningPart s d)" "\<not> no_tool (ToolPart t)"
  by (simp_all add: no_tool_def)

lemma tool_at_snoc:
  "tool_at (ps @ [p]) pos t \<longleftrightarrow> tool_at ps pos t \<or> (pos = length ps \<and> p = ToolPart t)"
  by (auto simp: tool_at_def nth_append less_Suc_eq)

lemma same_tools_refl: "same_tools ps ps"
  by (simp add: same_tools_def)

lemma same_tools_append: "no_tool p \<Longrightarrow> same_tools ps (ps @ [p])"
  by (intro same_tools_def [THEN iffD2] ext) (auto simp: tool_at_snoc)

lemma same_tools_last: "no_tool p \<Longrightarrow> no_tool q \<Longrightarrow> same_tools (ps @ [p]) (ps @ [q])"
  by (intro same_tools_def [THEN iffD2] ext) (auto simp: tool_at_snoc)

lemma same_tools_append2: "no_tool q \<Longrightarrow> same_tools (ps @ [p]) (ps @ [p, q])"
  using same_tools_append [of q "ps @ [p]"] by simp

lemmas same_tools_intros = same_tools_append2 same_tools_refl same_tools_append same_tools_last

lemma same_tools_single: "no_tool p \<Longrightarrow> same_tools [] [p]"
  using same_tools_append [of p "[]"] by simp

lemma same_tools_text: "same_tools ps (append_text t ps)"
proof (cases ps rule: rev_cases)
  case (snoc qs q)
  then show ?thesis by (cases q) (simp_all add: append_text_def same_tools_intros)
qed (simp add: append_text_def same_tools_single same_tools_refl)

lemma same_tools_reasoning: "same_tools ps (append_reasoning t ps)"
proof (cases ps rule: rev_cases)
  case (snoc qs q)
  then show ?thesis by (cases q) (simp_all add: append_reasoning_def same_tools_intros)
qed (simp add: append_reasoning_def same_tools_single same_tools_refl)

lemma same_tools_duration: "same_tools ps (set_reasoning_duration ms ps)"
proof (cases ps rule: rev_cases)
  case (snoc qs q)
  then show ?thesis by (cases q) (simp_all add: set_reasoning_duration_def same_tools_intros)
qed (simp add: set_reasoning_duration_def same_tools_single)

lemma acc_ok_same:
  "acc_ok ac \<Longrightarrow> same_tools (ac_parts ac) ps \<Longrightarrow> acc_ok (ac\<lparr>ac_parts := ps\<rparr>)"
proof -
  have "same_tools (ac_parts ac) ps \<Longrightarrow> index_ok (ac_parts ac) bi bd = index_ok ps bi bd" for bi bd
    by (simp only: same_tools_def index_ok_def)
  then show "acc_ok ac \<Longrightarrow> same_tools (ac_parts ac) ps \<Longrightarrow> acc_ok (ac\<lparr>ac_parts := ps\<rparr>)"
    by (simp add: acc_ok_def)
qed

section \<open>Finding the part of a call\<close>

lemma tool_position_ok:
  assumes "acc_ok ac" "tool_position index cid name ac = (pos, ac')"
  shows "acc_ok ac'"
    and "\<exists>t. tool_at (ac_parts ac') pos t \<and> (\<forall>v. nonblank cid = Some v \<longrightarrow> tp_id t = v \<or> \<not> identified (tp_id t))"
    and "\<forall>p t. tool_at (ac_parts ac) p t \<longrightarrow> tool_at (ac_parts ac') p t"
    and "\<forall>v. nonblank cid = Some v \<longrightarrow> ac_by_id ac' v = None \<or> ac_by_id ac' v = Some pos"
    and "\<forall>t. tool_at (ac_parts ac') pos t \<longrightarrow> tool_at (ac_parts ac) pos t \<or>
      (pos = length (ac_parts ac) \<and> t = new_tool_part (nonblank cid) name)"
proof -
  let ?n = "length (ac_parts ac)" let ?t = "new_tool_part (nonblank cid) name"
  let ?fresh = "ac\<lparr>ac_parts := ac_parts ac @ [ToolPart ?t],
      ac_by_index := (ac_by_index ac)(index \<mapsto> ?n),
      ac_by_id := (case nonblank cid of None \<Rightarrow> ac_by_id ac | Some v \<Rightarrow> (ac_by_id ac)(v \<mapsto> ?n))\<rparr>"
  have at: "tool_at (ac_parts ac @ [ToolPart ?t]) p t \<longleftrightarrow>
      tool_at (ac_parts ac) p t \<or> (p = ?n \<and> t = ?t)" for p t
    by (auto simp: tool_at_def nth_append less_Suc_eq)
  have old: "p < ?n" if "tool_at (ac_parts ac) p t" for p t
    using that by (simp add: tool_at_def)
  consider (id) v where "nonblank cid = Some v" "ac_by_id ac v = Some pos" "ac_parts ac' = ac_parts ac"
      "ac_by_id ac' = ac_by_id ac"
      "ac_by_index ac' = ac_by_index ac \<or> ac_by_index ac' = (ac_by_index ac)(index \<mapsto> pos)"
    | (index) "Option.bind (nonblank cid) (ac_by_id ac) = None" "ac' = ac" "ac_by_index ac index = Some pos"
      "\<not> collides (ac_parts ac ! pos) (nonblank cid)"
    | (fresh) "Option.bind (nonblank cid) (ac_by_id ac) = None" "pos = ?n" "ac' = ?fresh"
  proof (cases "Option.bind (nonblank cid) (ac_by_id ac)")
    case (Some q)
    then obtain v where "nonblank cid = Some v" "ac_by_id ac v = Some q" by (cases "nonblank cid") auto
    with Some assms(2) show thesis
      by (intro that(1)) (auto simp: tool_position_def Let_def split: if_splits)
  next
    case None
    show thesis
    proof (cases "ac_by_index ac index")
      case (Some q)
      note e = None Some assms(2)
      show thesis
      proof (cases "collides (ac_parts ac ! q) (nonblank cid)")
        case True
        with e show thesis by (intro that(3)) (auto simp: tool_position_def Let_def)
      next
        case False
        with e show thesis by (intro that(2)) (simp_all add: tool_position_def Let_def)
      qed
    next
      case index: None
      with None assms(2) show thesis by (intro that(3)) (auto simp: tool_position_def Let_def)
    qed
  qed
  note cases = this
  have "acc_ok ac' \<and>
    (\<exists>t. tool_at (ac_parts ac') pos t \<and> (\<forall>v. nonblank cid = Some v \<longrightarrow> tp_id t = v \<or> \<not> identified (tp_id t))) \<and>
    (\<forall>p t. tool_at (ac_parts ac) p t \<longrightarrow> tool_at (ac_parts ac') p t) \<and>
    (\<forall>v. nonblank cid = Some v \<longrightarrow> ac_by_id ac' v = None \<or> ac_by_id ac' v = Some pos) \<and>
    (\<forall>t. tool_at (ac_parts ac') pos t \<longrightarrow> tool_at (ac_parts ac) pos t \<or>
      (pos = ?n \<and> t = ?t))"
  proof (cases rule: cases)
    case id
    then obtain t where t: "tool_at (ac_parts ac) pos t" "tp_id t = v"
      using acc_okD(2) [OF assms(1)] by blast
    have "acc_ok ac'"
    proof (rule acc_okI)
      fix i p assume "ac_by_index ac' i = Some p"
      then have "p = pos \<or> ac_by_index ac i = Some p" using id(5) by (auto split: if_splits)
      then show "\<exists>t. tool_at (ac_parts ac') p t"
        unfolding id(3) using acc_okD(1) [OF assms(1)] t(1) by blast
    qed (use acc_okD(2,3) [OF assms(1)] id(3,4) in \<open>metis+\<close>)
    then show ?thesis using id t by auto
  next
    case index
    obtain t where t: "tool_at (ac_parts ac) pos t"
      using acc_okD(1) [OF assms(1) index(3)] by blast
    have "tp_id t = v \<or> \<not> identified (tp_id t)" if "nonblank cid = Some v" for v
      using index(4) t that by (auto simp: collides_def tool_at_def identified_def)
    then show ?thesis using index t assms(1) by (auto simp: bind_eq_None_conv)
  next
    case fresh
    have idt: "tp_id ?t = (case nonblank cid of Some v \<Rightarrow> v | None \<Rightarrow> [])" by (simp add: new_tool_part_def)
    have new: "\<not> identified []" by (simp add: identified_def)
    have "acc_ok ?fresh"
    proof (rule acc_okI)
      fix i p assume "ac_by_index ?fresh i = Some p"
      then show "\<exists>t. tool_at (ac_parts ?fresh) p t"
        using acc_okD(1) [OF assms(1)] by (fastforce simp: at split: if_splits)
    next
      fix v p assume v: "ac_by_id ?fresh v = Some p"
      show "identified v"
        using v acc_okD(2) [OF assms(1), of v p] nonblank_Some [of cid]
        by (auto split: option.splits if_splits)
      show "\<exists>t. tool_at (ac_parts ?fresh) p t \<and> tp_id t = v"
        using v acc_okD(2) [OF assms(1), of v p] idt
        by (auto simp: at split: option.splits if_splits)
    next
      fix p t assume t: "tool_at (ac_parts ?fresh) p t" "identified (tp_id t)"
      then consider "tool_at (ac_parts ac) p t" | "p = ?n" "t = ?t" by (auto simp: at)
      then show "ac_by_id ?fresh (tp_id t) = Some p"
      proof cases
        case 1
        then have "ac_by_id ac (tp_id t) = Some p" using acc_okD(3) [OF assms(1)] t(2) by blast
        moreover have "nonblank cid \<noteq> Some (tp_id t)" using fresh(1) calculation by auto
        ultimately show ?thesis by (auto split: option.split)
      next
        case 2
        then show ?thesis using t(2) idt new by (auto split: option.splits)
      qed
    qed
    then show ?thesis using fresh(2,3) idt new by (auto simp: at split: option.splits)
  qed
  then show "acc_ok ac'"
    and "\<exists>t. tool_at (ac_parts ac') pos t \<and> (\<forall>v. nonblank cid = Some v \<longrightarrow> tp_id t = v \<or> \<not> identified (tp_id t))"
    and "\<forall>p t. tool_at (ac_parts ac) p t \<longrightarrow> tool_at (ac_parts ac') p t"
    and "\<forall>v. nonblank cid = Some v \<longrightarrow> ac_by_id ac' v = None \<or> ac_by_id ac' v = Some pos"
    and "\<forall>t. tool_at (ac_parts ac') pos t \<longrightarrow> tool_at (ac_parts ac) pos t \<or>
      (pos = ?n \<and> t = ?t)"
    by blast+
qed

section \<open>Changing a part\<close>

lemma tool_at_update:
  "tool_at ps pos t \<Longrightarrow> tool_at (ps[pos := ToolPart u]) p s \<longleftrightarrow> (if p = pos then s = u else tool_at ps p s)"
  by (auto simp: tool_at_def nth_list_update)

lemma update_tool_at:
  "tool_at (ac_parts ac) pos t \<Longrightarrow> update_tool pos f ac = ac\<lparr>ac_parts := (ac_parts ac)[pos := ToolPart (f t)]\<rparr>"
  by (simp add: update_tool_def tool_at_def)

lemma update_tool_ok:
  assumes "acc_ok ac" "tool_at (ac_parts ac) pos t" "tp_id (f t) = tp_id t"
  shows "acc_ok (update_tool pos f ac)"
    and "tool_at (ac_parts (update_tool pos f ac)) p s \<longleftrightarrow>
      (if p = pos then s = f t else tool_at (ac_parts ac) p s)"
proof -
  let ?ac = "ac\<lparr>ac_parts := (ac_parts ac)[pos := ToolPart (f t)]\<rparr>"
  have at: "tool_at (ac_parts ?ac) p s \<longleftrightarrow> (if p = pos then s = f t else tool_at (ac_parts ac) p s)" for p s
    using tool_at_update [OF assms(2)] by simp
  have e: "update_tool pos f ac = ?ac" by (rule update_tool_at [OF assms(2)])
  show "tool_at (ac_parts (update_tool pos f ac)) p s \<longleftrightarrow>
      (if p = pos then s = f t else tool_at (ac_parts ac) p s)"
    unfolding e by (rule at)
  show "acc_ok (update_tool pos f ac)"
    unfolding e
  proof (rule acc_okI)
    fix i p assume "ac_by_index ?ac i = Some p"
    then show "\<exists>t. tool_at (ac_parts ?ac) p t"
      using acc_okD(1) [OF assms(1), of i p] unfolding at by auto
  next
    fix v p assume v: "ac_by_id ?ac v = Some p"
    then obtain s where s: "identified v" "tool_at (ac_parts ac) p s" "tp_id s = v"
      using acc_okD(2) [OF assms(1), of v p] by auto
    show "identified v" by (rule s)
    show "\<exists>t. tool_at (ac_parts ?ac) p t \<and> tp_id t = v"
      using s(2,3) assms(3) tool_at_fun [OF assms(2), of s] unfolding at by (cases "p = pos") auto
  next
    fix p s assume "tool_at (ac_parts ?ac) p s" "identified (tp_id s)"
    then show "ac_by_id ?ac (tp_id s) = Some p"
      using assms(2,3) acc_okD(3) [OF assms(1)] unfolding at by (cases "p = pos") auto
  qed
qed

lemma bind_tool_ok:
  assumes "acc_ok ac" "tool_at (ac_parts ac) pos t" "tp_id (f t) = v" "identified v"
    and "tp_id t = v \<or> \<not> identified (tp_id t)" "ac_by_id ac v = None \<or> ac_by_id ac v = Some pos"
  shows "acc_ok (bind_id v pos (update_tool pos f ac))"
    and "tool_at (ac_parts (bind_id v pos (update_tool pos f ac))) pos (f t)"
    and "p \<noteq> pos \<Longrightarrow> tool_at (ac_parts (bind_id v pos (update_tool pos f ac))) p s \<longleftrightarrow> tool_at (ac_parts ac) p s"
proof -
  let ?ps = "(ac_parts ac)[pos := ToolPart (f t)]"
  have at: "tool_at ?ps p s \<longleftrightarrow> (if p = pos then s = f t else tool_at (ac_parts ac) p s)" for p s
    by (rule tool_at_update [OF assms(2)])
  have "?ps ! pos = ToolPart (f t)" using assms(2) by (simp add: tool_at_def)
  then have e: "bind_id v pos (update_tool pos f ac) = ac\<lparr>ac_parts := ?ps, ac_by_id := (ac_by_id ac)(v \<mapsto> pos)\<rparr>"
    by (simp add: bind_id_def update_tool_at [OF assms(2)])
  show "tool_at (ac_parts (bind_id v pos (update_tool pos f ac))) pos (f t)"
    and "p \<noteq> pos \<Longrightarrow> tool_at (ac_parts (bind_id v pos (update_tool pos f ac))) p s \<longleftrightarrow> tool_at (ac_parts ac) p s"
    by (simp_all add: e at)
  have "index_ok ?ps (ac_by_index ac) ((ac_by_id ac)(v \<mapsto> pos))"
  proof (rule index_okI)
    fix i p assume "ac_by_index ac i = Some p"
    then show "\<exists>t. tool_at ?ps p t"
      using acc_okD(1) [OF assms(1), of i p] unfolding at by auto
  next
    fix u p assume u: "((ac_by_id ac)(v \<mapsto> pos)) u = Some p"
    show "identified u"
      using u assms(4) acc_okD(2) [OF assms(1), of u p] by (auto split: if_splits)
    show "\<exists>s. tool_at ?ps p s \<and> tp_id s = u"
    proof (cases "u = v")
      case True
      then show ?thesis using u assms(3) unfolding at by auto
    next
      case False
      then obtain s where s: "tool_at (ac_parts ac) p s" "tp_id s = u" "identified u"
        using u acc_okD(2) [OF assms(1), of u p] by auto
      moreover have "p \<noteq> pos"
        using s False assms(5) tool_at_fun [OF assms(2), of s] by auto
      ultimately show ?thesis unfolding at by auto
    qed
  next
    fix p s assume "tool_at ?ps p s" "identified (tp_id s)"
    then show "((ac_by_id ac)(v \<mapsto> pos)) (tp_id s) = Some p"
      using assms(3,6) acc_okD(3) [OF assms(1), of p s] unfolding at by (auto split: if_splits)
  qed
  then show "acc_ok (bind_id v pos (update_tool pos f ac))"
    by (simp add: e acc_ok_def)
qed

section \<open>Events keep the invariant\<close>

text \<open>How the part of an identified call may change: only its own result events set its result.\<close>

definition keeps_results :: "str set \<Rightarrow> accumulator \<Rightarrow> accumulator \<Rightarrow> bool" where
  "keeps_results touched ac ac' \<longleftrightarrow>
     (\<forall>pos t. tool_at (ac_parts ac) pos t \<longrightarrow> identified (tp_id t) \<longrightarrow> tp_id t \<notin> touched \<longrightarrow>
        (\<exists>t'. tool_at (ac_parts ac') pos t' \<and> tp_id t' = tp_id t \<and> tp_result t' = tp_result t \<and>
          tp_is_error t' = tp_is_error t))"

lemma keeps_refl [simp]: "keeps_results X ac ac"
  by (auto simp: keeps_results_def)

lemma keeps_trans: "keeps_results X a b \<Longrightarrow> keeps_results X b c \<Longrightarrow> keeps_results X a c"
  unfolding keeps_results_def by metis

lemma keeps_mono: "keeps_results X a b \<Longrightarrow> X \<subseteq> Y \<Longrightarrow> keeps_results Y a b"
  unfolding keeps_results_def by (meson subsetD)

lemma keeps_same: "same_tools (ac_parts ac) ps \<Longrightarrow> keeps_results X ac (ac\<lparr>ac_parts := ps\<rparr>)"
  by (auto simp: keeps_results_def same_tools_def)

lemma keeps_subset:
  "(\<And>p t. tool_at (ac_parts a) p t \<Longrightarrow> tool_at (ac_parts b) p t) \<Longrightarrow> keeps_results X a b"
  unfolding keeps_results_def by blast

text \<open>Naming the part at a position that is free or already has the name.\<close>

lemma keeps_bind:
  assumes "acc_ok ac" "tool_at (ac_parts ac) pos t" "tp_id (f t) = v" "identified v"
    and "tp_id t = v \<or> \<not> identified (tp_id t)" "ac_by_id ac v = None \<or> ac_by_id ac v = Some pos"
    and "v \<in> X \<or> (tp_result (f t) = tp_result t \<and> tp_is_error (f t) = tp_is_error t)"
  shows "keeps_results X ac (bind_id v pos (update_tool pos f ac))"
  unfolding keeps_results_def
proof (intro allI impI)
  fix p s assume s: "tool_at (ac_parts ac) p s" "identified (tp_id s)" "tp_id s \<notin> X"
  note b = bind_tool_ok [where f = f, OF assms(1-6)]
  show "\<exists>t'. tool_at (ac_parts (bind_id v pos (update_tool pos f ac))) p t' \<and> tp_id t' = tp_id s \<and>
    tp_result t' = tp_result s \<and> tp_is_error t' = tp_is_error s"
  proof (cases "p = pos")
    case True
    then have "s = t" using s(1) tool_at_fun [OF assms(2)] by simp
    then show ?thesis using b(2) True s(2,3) assms(3,5,7) by auto
  next
    case False
    then show ?thesis using b(3) s(1) by blast
  qed
qed

lemma keeps_update:
  assumes "acc_ok ac" "tool_at (ac_parts ac) pos t" "tp_id (f t) = tp_id t"
    "tp_result (f t) = tp_result t" "tp_is_error (f t) = tp_is_error t"
  shows "keeps_results X ac (update_tool pos f ac)"
  unfolding keeps_results_def update_tool_ok(2) [where f = f, OF assms(1-3)]
  using assms(3-5) tool_at_fun [OF assms(2)] by (metis (full_types))

text \<open>One step of naming, as the three event handlers do it.\<close>

lemma named_position:
  assumes "acc_ok ac" "tool_position index (Some v) name ac = (pos, ac1)" "identified v"
  obtains t where "acc_ok ac1" "tool_at (ac_parts ac1) pos t" "tp_id t = v \<or> \<not> identified (tp_id t)"
    "ac_by_id ac1 v = None \<or> ac_by_id ac1 v = Some pos" "keeps_results X ac ac1"
proof -
  note p = tool_position_ok [OF assms(1,2)]
  have n: "nonblank (Some v) = Some v" using assms(3) by (simp add: nonblank_Some)
  obtain t where "tool_at (ac_parts ac1) pos t" "tp_id t = v \<or> \<not> identified (tp_id t)"
    using p(2) n by blast
  then show thesis using that p(1,4) n keeps_subset [of ac ac1 X] p(3) by blast
qed

lemma start_tool_ok:
  assumes "acc_ok ac" "identified v"
  shows "acc_ok (start_tool jt index v name input ac)"
    and "keeps_results X ac (start_tool jt index v name input ac)"
proof -
  obtain pos ac1 where p: "tool_position index (Some v) (Some name) ac = (pos, ac1)" by fastforce
  obtain t where t: "acc_ok ac1" "tool_at (ac_parts ac1) pos t" "tp_id t = v \<or> \<not> identified (tp_id t)"
    "ac_by_id ac1 v = None \<or> ac_by_id ac1 v = Some pos" "keeps_results X ac ac1"
    by (rule named_position [OF assms(1) p assms(2)])
  let ?f = "\<lambda>t. t\<lparr>tp_id := v, tp_name := name, tp_input := input,
    tp_arguments := (if tp_arguments t = [] then jt input else tp_arguments t)\<rparr>"
  have "start_tool jt index v name input ac = (bind_id v pos (update_tool pos ?f ac1))
      \<lparr>ac_tool_calls := upsert_tool_call index v name input (ac_tool_calls (bind_id v pos (update_tool pos ?f ac1)))\<rparr>"
    by (simp add: start_tool_def p Let_def)
  then show "acc_ok (start_tool jt index v name input ac)"
    and "keeps_results X ac (start_tool jt index v name input ac)"
    using bind_tool_ok(1) [where f = ?f, OF t(1,2) _ assms(2) t(3,4)]
      keeps_trans [OF t(5) keeps_bind [where f = ?f, OF t(1,2) _ assms(2) t(3,4)]]
    by (simp_all add: acc_ok_def keeps_results_def)
qed

lemma finish_tool_ok:
  assumes "acc_ok ac" "identified v"
  shows "acc_ok (finish_tool index v r ms e ac)"
    and "keeps_results {v} ac (finish_tool index v r ms e ac)"
    and "\<exists>pos t. tool_at (ac_parts (finish_tool index v r ms e ac)) pos t \<and> tp_id t = v \<and>
      tp_result t = Some r \<and> tp_is_error t = e"
proof -
  obtain pos ac1 where p: "tool_position index (Some v) None ac = (pos, ac1)" by fastforce
  obtain t where t: "acc_ok ac1" "tool_at (ac_parts ac1) pos t" "tp_id t = v \<or> \<not> identified (tp_id t)"
    "ac_by_id ac1 v = None \<or> ac_by_id ac1 v = Some pos" "keeps_results {v} ac ac1"
    by (rule named_position [OF assms(1) p assms(2)])
  let ?f = "\<lambda>t. t\<lparr>tp_id := v, tp_result := Some r, tp_duration_ms := Some ms, tp_is_error := e\<rparr>"
  let ?ac = "bind_id v pos (update_tool pos ?f ac1)"
  have e: "ac_parts (finish_tool index v r ms e ac) = ac_parts ?ac"
    "ac_by_index (finish_tool index v r ms e ac) = ac_by_index ?ac"
    "ac_by_id (finish_tool index v r ms e ac) = ac_by_id ?ac"
    by (simp_all add: finish_tool_def p Let_def)
  show "acc_ok (finish_tool index v r ms e ac)"
    using bind_tool_ok(1) [where f = ?f, OF t(1,2) _ assms(2) t(3,4)] by (simp add: acc_ok_def e)
  show "keeps_results {v} ac (finish_tool index v r ms e ac)"
    using keeps_trans [OF t(5) keeps_bind [where f = ?f, OF t(1,2) _ assms(2) t(3,4)]]
    by (simp add: keeps_results_def e)
  show "\<exists>pos t. tool_at (ac_parts (finish_tool index v r ms e ac)) pos t \<and> tp_id t = v \<and>
      tp_result t = Some r \<and> tp_is_error t = e"
    using bind_tool_ok(2) [where f = ?f, OF t(1,2) _ assms(2) t(3,4)] unfolding e
    by (intro exI [of _ pos] exI [of _ "?f t"]) simp
qed

lemma apply_tool_delta_ok:
  assumes "acc_ok ac"
  shows "acc_ok (apply_tool_delta index cid name d ac)"
    and "keeps_results X ac (apply_tool_delta index cid name d ac)"
proof -
  obtain pos ac1 where p: "tool_position index cid name ac = (pos, ac1)" by fastforce
  note q = tool_position_ok [OF assms p]
  obtain t where t: "tool_at (ac_parts ac1) pos t" using q(2) by blast
  let ?f = "\<lambda>v t. t\<lparr>tp_id := v\<rparr>"
  define ac2 where "ac2 = (case nonblank cid of None \<Rightarrow> ac1
    | Some v \<Rightarrow> bind_id v pos (update_tool pos (?f v) ac1))"
  have 2: "acc_ok ac2 \<and> keeps_results X ac ac2 \<and> (\<exists>t. tool_at (ac_parts ac2) pos t)"
  proof (cases "nonblank cid")
    case None
    then show ?thesis using q(1,3) t keeps_subset [of ac ac1] by (auto simp: ac2_def)
  next
    case (Some v)
    then have v: "cid = Some v" "identified v" by (simp_all add: nonblank_Some)
    obtain u where u: "acc_ok ac1" "tool_at (ac_parts ac1) pos u" "tp_id u = v \<or> \<not> identified (tp_id u)"
      "ac_by_id ac1 v = None \<or> ac_by_id ac1 v = Some pos" "keeps_results X ac ac1"
      by (rule named_position [OF assms p [unfolded v(1)] v(2)])
    show ?thesis
      using bind_tool_ok(1,2) [where f = "?f v", OF u(1,2) _ v(2) u(3,4)]
        keeps_trans [OF u(5) keeps_bind [where f = "?f v", OF u(1,2) _ v(2) u(3,4)]]
      by (auto simp: ac2_def Some)
  qed
  define ac3 where "ac3 = (case nonblank name of None \<Rightarrow> ac2
    | Some v \<Rightarrow> update_tool pos (\<lambda>t. t\<lparr>tp_name := v\<rparr>) ac2)"
  have step: "acc_ok (update_tool pos f b) \<and> keeps_results X ac (update_tool pos f b) \<and>
      (\<exists>t. tool_at (ac_parts (update_tool pos f b)) pos t)"
    if b: "acc_ok b \<and> keeps_results X ac b \<and> (\<exists>t. tool_at (ac_parts b) pos t)"
      and f: "\<And>t. tp_id (f t) = tp_id t" "\<And>t. tp_result (f t) = tp_result t" "\<And>t. tp_is_error (f t) = tp_is_error t"
    for b f
  proof -
    obtain t where t: "acc_ok b" "keeps_results X ac b" "tool_at (ac_parts b) pos t" using b by blast
    have "tool_at (ac_parts (update_tool pos f b)) pos (f t)"
      by (simp add: update_tool_ok(2) [where f = f, OF t(1,3) f(1)])
    then show ?thesis
      using update_tool_ok(1) [where f = f, OF t(1,3) f(1)]
        keeps_trans [OF t(2) keeps_update [where f = f, OF t(1,3) f]] by blast
  qed
  have 3: "acc_ok ac3 \<and> keeps_results X ac ac3 \<and> (\<exists>t. tool_at (ac_parts ac3) pos t)"
    using 2 step [OF 2, of "\<lambda>t. t\<lparr>tp_name := v\<rparr>" for v] by (auto simp: ac3_def split: option.split)
  have "apply_tool_delta index cid name d ac = (case d of None \<Rightarrow> ac3
    | Some d \<Rightarrow> if d = [] then ac3 else update_tool pos (\<lambda>t. t\<lparr>tp_arguments := tp_arguments t @ d\<rparr>) ac3)"
    unfolding ac3_def ac2_def by (simp only: apply_tool_delta_def p Let_def prod.case)
  then show "acc_ok (apply_tool_delta index cid name d ac)"
    and "keeps_results X ac (apply_tool_delta index cid name d ac)"
    using 3 step [OF 3, of "\<lambda>t. t\<lparr>tp_arguments := tp_arguments t @ d\<rparr>" for d]
    by (auto split: option.split)
qed

text \<open>The calls whose result an event sets.\<close>

fun finishes :: "event_payload \<Rightarrow> str set" where
  "finishes (ToolCallFinished i cid r ms e) = {cid}"
| "finishes _ = {}"

lemma on_event_ok:
  assumes "acc_ok ac" "event_ok (snd e)"
  shows "acc_ok (on_event jt e ac)" "keeps_results (finishes (snd e)) ac (on_event jt e ac)"
proof -
  let ?ac = "mark_started (fst e) (snd e) ac"
  have m: "ac_parts ?ac = ac_parts ac" "ac_by_index ?ac = ac_by_index ac" "ac_by_id ?ac = ac_by_id ac"
    by (simp_all add: mark_started_def)
  have ok: "acc_ok ?ac" using assms(1) by (simp add: acc_ok_def m)
  have t: "ac_parts (record_tool p b) = ac_parts b" "ac_by_index (record_tool p b) = ac_by_index b"
    "ac_by_id (record_tool p b) = ac_by_id b" for p b by (cases p; simp)+
  have final: "acc_ok (b\<lparr>ac_final_text := x\<rparr>) = acc_ok b" "keeps_results X b (b\<lparr>ac_final_text := x\<rparr>)" for b x X
    by (auto simp: acc_ok_def keeps_results_def)
  have "acc_ok (record_part jt (snd e) ?ac) \<and>
      keeps_results (finishes (snd e)) ?ac (record_part jt (snd e) ?ac)"
    using ok assms(2) acc_ok_same [OF ok] keeps_same [of ?ac]
    by (cases "snd e") (auto simp: same_tools_text same_tools_reasoning same_tools_duration
        start_tool_ok finish_tool_ok apply_tool_delta_ok final)
  then show "acc_ok (on_event jt e ac)" "keeps_results (finishes (snd e)) ac (on_event jt e ac)"
    by (simp_all add: on_event_def acc_ok_def keeps_results_def t m)
qed

lemma events_ok:
  "acc_ok ac \<Longrightarrow> \<forall>e \<in> set es. event_ok (snd e) \<Longrightarrow> acc_ok (fold (on_event jt) es ac)"
  by (induction es arbitrary: ac) (simp_all add: on_event_ok)

lemma events_keep:
  "acc_ok ac \<Longrightarrow> \<forall>e \<in> set es. event_ok (snd e) \<and> finishes (snd e) \<inter> Y = {} \<Longrightarrow>
    keeps_results (- Y) ac (fold (on_event jt) es ac)"
proof (induction es arbitrary: ac)
  case (Cons e es)
  have "keeps_results (- Y) ac (on_event jt e ac)"
    using Cons.prems on_event_ok(2) [of ac e jt] keeps_mono [of "finishes (snd e)" ac _ "- Y"] by auto
  moreover have "keeps_results (- Y) (on_event jt e ac) (fold (on_event jt) es (on_event jt e ac))"
    using Cons.prems by (intro Cons.IH) (auto simp: on_event_ok)
  ultimately show ?case using keeps_trans by simp
qed simp

lemma acc_ok_new: "acc_ok new_accumulator"
  by (simp add: acc_ok_def index_ok_def new_accumulator_def tool_at_def)

section \<open>Properties\<close>

text \<open>No tool result is lost or overwritten: in every stream of events in which started and finished
  calls have an id, however the indices of concurrent calls collide and whatever comes before and
  after, a result that arrived is in the one part that carries the id of its call, as long as no
  later event finishes the same call.\<close>

lemma tool_result_stays:
  assumes "\<forall>e \<in> set (before @ after). event_ok (snd e)" and "identified cid"
    and "\<forall>e \<in> set after. \<forall>i r ms err. snd e \<noteq> ToolCallFinished i cid r ms err"
    and "ac = fold (on_event jt) (before @ (now, ToolCallFinished i cid r ms err) # after) new_accumulator"
  shows "\<exists>pos t. tool_at (ac_parts ac) pos t \<and> tp_id t = cid \<and> tp_result t = Some r \<and> tp_is_error t = err \<and>
    (\<forall>p u. tool_at (ac_parts ac) p u \<and> tp_id u = cid \<longrightarrow> p = pos)"
proof -
  let ?e = "(now, ToolCallFinished i cid r ms err)"
  let ?a = "fold (on_event jt) before new_accumulator" let ?b = "on_event jt ?e ?a"
  have a: "acc_ok ?a" using assms(1) by (intro events_ok acc_ok_new) auto
  have b: "acc_ok ?b" using assms(2) by (intro on_event_ok a) simp
  have m: "acc_ok (mark_started now (snd ?e) ?a)"
    using a by (simp add: mark_started_def acc_ok_def)
  have "ac_parts ?b = ac_parts (finish_tool i cid r ms err (mark_started now (snd ?e) ?a))"
    by (simp add: on_event_def)
  then obtain pos t where t: "tool_at (ac_parts ?b) pos t" "tp_id t = cid" "tp_result t = Some r"
    "tp_is_error t = err"
    using finish_tool_ok(3) [OF m assms(2), of i r ms err] by auto
  have keep: "keeps_results (- {cid}) ?b ac"
  proof -
    have "finishes (snd e) \<inter> {cid} = {}" if "e \<in> set after" for e
      using assms(3) that by (cases "snd e") auto
    then have "keeps_results (- {cid}) ?b (fold (on_event jt) after ?b)"
      using assms(1) by (intro events_keep b) auto
    then show ?thesis by (simp add: assms(4))
  qed
  have ok: "acc_ok ac"
    using events_ok [OF b, of after jt] assms(1,4) by auto
  obtain u where u: "tool_at (ac_parts ac) pos u" "tp_id u = cid" "tp_result u = Some r" "tp_is_error u = err"
    using keep t assms(2) unfolding keeps_results_def by force
  have "p = pos" if "tool_at (ac_parts ac) p s" "tp_id s = cid" for p s
    using acc_okD(3) [OF ok that(1)] acc_okD(3) [OF ok u(1)] that(2) u(2) assms(2) by simp
  with u show ?thesis by blast
qed

text \<open>The two indexes of the accumulator never point outside the parts or at anything but a tool
  call, so that no lookup panics; a known id leads to the part that carries it, and two calls with
  different ids never share a part.\<close>

theorem indexes_stay_in_bounds:
  assumes "\<forall>e \<in> set es. event_ok (snd e)" and "ac = fold (on_event jt) es new_accumulator"
  shows "ac_by_index ac i = Some pos \<Longrightarrow> pos < length (ac_parts ac) \<and> (\<exists>t. ac_parts ac ! pos = ToolPart t)"
    and "ac_by_id ac v = Some pos \<Longrightarrow>
      pos < length (ac_parts ac) \<and> (\<exists>t. ac_parts ac ! pos = ToolPart t \<and> tp_id t = v)"
    and "fst (tool_position i cid name ac) < length (ac_parts (snd (tool_position i cid name ac)))"
proof -
  have ok: "acc_ok ac" using assms by (simp add: events_ok acc_ok_new)
  show "ac_by_index ac i = Some pos \<Longrightarrow> pos < length (ac_parts ac) \<and> (\<exists>t. ac_parts ac ! pos = ToolPart t)"
    using acc_okD(1) [OF ok] by (auto simp: tool_at_def)
  show "ac_by_id ac v = Some pos \<Longrightarrow>
      pos < length (ac_parts ac) \<and> (\<exists>t. ac_parts ac ! pos = ToolPart t \<and> tp_id t = v)"
    using acc_okD(2) [OF ok, of v pos] by (auto simp: tool_at_def)
  obtain p ac' where "tool_position i cid name ac = (p, ac')" by fastforce
  then show "fst (tool_position i cid name ac) < length (ac_parts (snd (tool_position i cid name ac)))"
    using tool_position_ok(2) [OF ok] by (auto simp: tool_at_def)
qed

text \<open>The text parts, and what was streamed.\<close>

fun delta_text :: "event_payload \<Rightarrow> str" where
  "delta_text (TextDelta t) = t"
| "delta_text _ = []"

lemma text_append [simp]: "text_from_parts (ps @ qs) = text_from_parts ps @ text_from_parts qs"
  by (induction ps rule: text_from_parts.induct) auto

lemma text_append_text [simp]: "text_from_parts (append_text t ps) = text_from_parts ps @ t"
  by (cases ps rule: rev_cases) (auto simp: append_text_def split: message_part.split)

lemma text_append_reasoning [simp]:
  "text_from_parts (append_reasoning t ps) = text_from_parts ps"
  "text_from_parts (set_reasoning_duration ms ps) = text_from_parts ps"
  by (cases ps rule: rev_cases;
      auto simp: append_reasoning_def set_reasoning_duration_def split: message_part.split)+

lemma text_list_update:
  "ps ! pos = ToolPart t \<Longrightarrow> text_from_parts (ps[pos := ToolPart u]) = text_from_parts ps"
proof (induction ps arbitrary: pos)
  case (Cons p ps)
  then show ?case by (cases pos; cases p) auto
qed simp

lemma text_update_tool [simp]: "text_from_parts (ac_parts (update_tool pos f ac)) = text_from_parts (ac_parts ac)"
  by (auto simp: update_tool_def text_list_update split: message_part.split)

lemma parts_bind_id [simp]: "ac_parts (bind_id v pos ac) = ac_parts ac"
  by (auto simp: bind_id_def split: message_part.split)

lemma text_tool_position:
  "tool_position i cid name ac = (pos, ac') \<Longrightarrow> text_from_parts (ac_parts ac') = text_from_parts (ac_parts ac)"
  by (auto simp: tool_position_def Let_def split: option.splits if_splits)

lemma text_on_event:
  "text_from_parts (ac_parts (on_event jt e ac)) = text_from_parts (ac_parts ac) @ delta_text (snd e)"
proof -
  have m: "ac_parts (mark_started n p ac) = ac_parts ac" for n p by (simp add: mark_started_def)
  have t: "ac_parts (record_tool p b) = ac_parts b" for p b by (cases p) simp_all
  show ?thesis
    by (cases "snd e")
      (auto simp: on_event_def m t apply_tool_delta_def start_tool_def finish_tool_def Let_def
        dest!: text_tool_position split: prod.split option.split)
qed

definition streamed_text :: "(int \<times> event_payload) list \<Rightarrow> str" where
  "streamed_text es = concat (map (\<lambda>e. delta_text (snd e)) es)"

lemma text_events:
  "text_from_parts (ac_parts (fold (on_event jt) es ac)) = text_from_parts (ac_parts ac) @ streamed_text es"
  by (induction es arbitrary: ac) (simp_all add: text_on_event streamed_text_def)

text \<open>The text of the stored message is the text that was streamed, in order, whatever tool calls and
  reasoning come between; only when the final text of the run is not its end, the whole final text is
  put behind it.\<close>

theorem stored_text_is_what_was_streamed:
  assumes "ac = fold (on_event jt) es new_accumulator" and "build mid now ac = Some m"
  shows "ms_content m = streamed_text es @
    (if ends_with (streamed_text es) (ac_final_text ac) then [] else ac_final_text ac)"
proof -
  have "text_from_parts (ac_parts ac) = streamed_text es"
    by (simp add: assms(1) text_events) (simp add: new_accumulator_def)
  then show ?thesis
    using assms(2)
    by (auto simp: build_def append_final_text_if_missing_def Let_def split: if_splits)
qed

section \<open>Witnesses\<close>

text \<open>Two calls whose events share the index 0, with text before them.\<close>

definition ex_events :: "(int \<times> event_payload) list" where
  "ex_events =
     [(1, TextDelta ''ok''),
      (2, ToolCallStarted 0 ''c1'' ''Read'' (JObj [])),
      (3, ToolCallStarted 0 ''c2'' ''Bash'' (JObj []))]"

definition ex_later :: "(int \<times> event_payload) list" where
  "ex_later = [(5, ToolCallFinished 0 ''c2'' ''two'' 7 True), (6, TextDone ''ok'')]"

definition ex_run :: accumulator where
  "ex_run = fold (on_event (\<lambda>_. ''{}'')) (ex_events @ (4, ToolCallFinished 0 ''c1'' ''one'' 5 False) # ex_later)
     new_accumulator"

lemma ex_events_ok: "\<forall>e \<in> set (ex_events @ ex_later). event_ok (snd e)"
  by code_simp

lemma indexes_stay_in_bounds_witness:
  "\<exists>pos t. ac_by_id ex_run ''c1'' = Some pos \<and> pos < length (ac_parts ex_run) \<and>
    ac_parts ex_run ! pos = ToolPart t \<and> tp_id t = ''c1''"
proof -
  have "\<forall>e \<in> set (ex_events @ (4, ToolCallFinished 0 ''c1'' ''one'' 5 False) # ex_later). event_ok (snd e)"
    "ac_by_id ex_run ''c1'' = Some 1"
    by code_simp+
  then show ?thesis
    using indexes_stay_in_bounds(2) [of _ ex_run "\<lambda>_. ''{}''" "''c1''" 1] unfolding ex_run_def by blast
qed

lemma stored_text_is_what_was_streamed_witness:
  "map_option ms_content (build ''m'' 9 ex_run) = Some ''ok''"
proof -
  let ?es = "ex_events @ (4, ToolCallFinished 0 ''c1'' ''one'' 5 False) # ex_later"
  have c: "build ''m'' 9 ex_run \<noteq> None" "streamed_text ?es = ''ok''" "ac_final_text ex_run = ''ok''"
    by code_simp+
  obtain m where m: "build ''m'' 9 ex_run = Some m" using c(1) by blast
  show ?thesis
    using stored_text_is_what_was_streamed [OF ex_run_def m] c(2,3) m by simp
qed

end
