(* ===== verification/Transcript_Laws.thy ===== *)
theory Transcript_Laws
  imports Transcript Turn_Laws
begin

text \<open>
  The transcript that is rebuilt obeys the protocol of the model interfaces, and a tool call whose
  result was streamed reaches the next request with its result.
\<close>

section \<open>Well-formed transcripts\<close>

definition answers :: "call_entry list \<Rightarrow> tool_result list \<Rightarrow> bool" where
  "answers calls results \<longleftrightarrow>
     map (\<lambda>c. (ce_id c, ce_name c)) calls = map (\<lambda>r. (tr_call_id r, tr_name r)) results"

text \<open>Every turn with calls is followed by the results of exactly these calls, in their order, and there
  are no other results.\<close>

fun paired :: "transcript_entry list \<Rightarrow> bool" where
  "paired [] \<longleftrightarrow> True"
| "paired (UserEntry u # es) \<longleftrightarrow> paired es"
| "paired (ToolResults rs # es) \<longleftrightarrow> False"
| "paired (AssistantEntry a # es) \<longleftrightarrow>
     (if ae_tool_calls a = [] then paired es
      else case es of
             ToolResults rs # fs \<Rightarrow> answers (ae_tool_calls a) rs \<and> paired fs
           | _ \<Rightarrow> False)"

definition typed_calls :: "call_entry list \<Rightarrow> bool" where
  "typed_calls cs \<longleftrightarrow> list_all (\<lambda>c. json_is_object (ce_input c)) cs"

definition typed_entry :: "transcript_entry \<Rightarrow> bool" where
  "typed_entry e \<longleftrightarrow> (case e of AssistantEntry a \<Rightarrow> typed_calls (ae_tool_calls a) | _ \<Rightarrow> True)"

definition well_formed :: "transcript_entry list \<Rightarrow> bool" where
  "well_formed es \<longleftrightarrow> paired es \<and> list_all typed_entry es"

lemma paired_append: "paired xs \<Longrightarrow> paired ys \<Longrightarrow> paired (xs @ ys)"
  by (induction xs rule: paired.induct) (auto split: list.splits transcript_entry.splits if_splits)

lemma well_formed_append [intro]: "well_formed xs \<Longrightarrow> well_formed ys \<Longrightarrow> well_formed (xs @ ys)"
  by (simp add: well_formed_def paired_append)

lemma well_formed_user [simp]: "well_formed [user_turn s atts]"
  by (simp add: well_formed_def user_turn_def typed_entry_def)

lemma well_formed_plain [simp]: "well_formed [assistant_turn s r []]"
  by (simp add: well_formed_def assistant_turn_def typed_entry_def typed_calls_def)

lemma well_formed_turn:
  "calls \<noteq> [] \<Longrightarrow> answers calls results \<Longrightarrow> typed_calls calls \<Longrightarrow>
    well_formed [assistant_turn s r calls, ToolResults results]"
  by (simp add: well_formed_def assistant_turn_def typed_entry_def)

lemma normalize_object [simp]: "json_is_object (normalize_tool_input cl v)"
  by (simp add: normalize_tool_input_def json_is_object_def split: json.split option.split)

section \<open>Assistant messages\<close>

text \<open>What holds of the turn that is being put together.\<close>

definition turn_ok :: "turn \<Rightarrow> bool" where
  "turn_ok t \<longleftrightarrow> answers (tu_calls t) (tu_results t) \<and> typed_calls (tu_calls t)"

lemma turn_ok_empty [simp]: "turn_ok empty_turn"
  by (simp add: turn_ok_def empty_turn_def answers_def typed_calls_def)

lemma flush_well_formed: "turn_ok t \<Longrightarrow> tu_calls t \<noteq> [] \<Longrightarrow> well_formed (flush_assistant_turn t)"
  by (auto simp: turn_ok_def flush_assistant_turn_def answers_def intro: well_formed_turn)

lemma push_part_ok:
  assumes "well_formed es" "turn_ok t" "push_part cl p (es, t) = (es', t')"
  shows "well_formed es' \<and> turn_ok t'"
proof (cases p)
  case (ToolPart q)
  then show ?thesis
    using assms
    by (auto simp: turn_ok_def answers_def typed_calls_def plain_result_def split: option.splits)
qed (use assms flush_well_formed [of t] turn_ok_empty in
    \<open>auto simp: Let_def turn_ok_def split: if_splits\<close>)

lemma push_parts_ok:
  "well_formed es \<Longrightarrow> turn_ok t \<Longrightarrow> fold (push_part cl) ps (es, t) = (es', t') \<Longrightarrow>
    well_formed es' \<and> turn_ok t'"
proof (induction ps arbitrary: es t)
  case (Cons p ps)
  obtain es1 t1 where p: "push_part cl p (es, t) = (es1, t1)" by fastforce
  then show ?case using Cons.IH [of es1 t1] Cons.prems(3) push_part_ok [OF Cons.prems(1,2) p] by simp
qed simp

lemma push_assistant_parts_ok: "well_formed es \<Longrightarrow> well_formed (push_assistant_parts cl ps es)"
proof -
  assume es: "well_formed es"
  obtain es' t where f: "fold (push_part cl) ps (es, empty_turn) = (es', t)" by fastforce
  have "well_formed es'" "turn_ok t" using push_parts_ok [OF es turn_ok_empty f] by simp_all
  then show ?thesis
    by (auto simp: push_assistant_parts_def f intro: flush_well_formed)
qed

lemma push_assistant_message_ok: "well_formed es \<Longrightarrow> well_formed (push_assistant_message cl m es)"
proof (cases "ms_parts m = []")
  case False
  then show "well_formed es \<Longrightarrow> ?thesis" by (simp add: push_assistant_message_def push_assistant_parts_ok)
next
  case True
  let ?fin = "filter (\<lambda>c. mc_result c \<noteq> None) (ms_tool_calls m)"
  let ?calls = "map (\<lambda>c. \<lparr>ce_id = mc_id c, ce_name = mc_name c,
    ce_input = normalize_tool_input cl (mc_input c)\<rparr>) ?fin"
  let ?results = "map (\<lambda>c. plain_result (mc_id c) (mc_name c) (the (mc_result c))) ?fin"
  assume es: "well_formed es"
  have "answers ?calls ?results" "typed_calls ?calls"
    by (simp_all add: answers_def typed_calls_def list_all_iff plain_result_def)
  then have turn: "?fin \<noteq> [] \<Longrightarrow> well_formed [assistant_turn s r ?calls, ToolResults ?results]" for s r
    by (intro well_formed_turn) auto
  show ?thesis
  proof (cases "?fin = []")
    case True
    then show ?thesis
      using es \<open>ms_parts m = []\<close> by (auto simp: push_assistant_message_def Let_def)
  next
    case False
    then have "well_formed (es @ [assistant_turn (strip_request_failure_marker (ms_content m)) [] ?calls,
        ToolResults ?results])"
      using es turn by blast
    then show ?thesis
      using False \<open>ms_parts m = []\<close> by (simp add: push_assistant_message_def Let_def)
  qed
qed

section \<open>Sessions\<close>

lemma boundary_entries_ok: "well_formed (boundary_entries s)"
  using well_formed_append [OF well_formed_user [of "summary_heading @ x" "[]" for x] well_formed_plain]
  by (auto simp: boundary_entries_def well_formed_def split: option.split)

lemma push_messages_ok: "well_formed es \<Longrightarrow> well_formed (fold (push_message cl) ms es)"
proof (induction ms arbitrary: es)
  case (Cons m ms)
  have "well_formed (push_message cl m es)"
    using Cons.prems by (auto simp: push_message_def push_assistant_message_ok split: role.split)
  then show ?case using Cons.IH by simp
qed simp

lemma from_session_well_formed: "well_formed (from_session cl messages)"
proof -
  obtain s ms where b: "split_boundary messages = (s, ms)" by fastforce
  have "well_formed (fold (push_message cl) ms (boundary_entries s))"
    by (simp add: boundary_entries_ok push_messages_ok)
  then show ?thesis by (auto simp: from_session_def b Let_def)
qed

text \<open>C20. The rebuilt transcript obeys the protocol: for every stored history, whatever calls were left
  unfinished and whatever inputs were stored, each assistant turn with calls is followed at once by the
  results of exactly these calls in order, no other results occur, every input is a JSON object, and a
  transcript that is not empty ends with a user turn.\<close>

theorem rebuilt_transcript_is_well_formed:
  "well_formed (from_session cl messages) \<and>
    (from_session cl messages = [] \<or> (\<exists>u. last (from_session cl messages) = UserEntry u))"
proof -
  obtain s ms where b: "split_boundary messages = (s, ms)" by fastforce
  have "from_session cl messages = [] \<or> (\<exists>u. last (from_session cl messages) = UserEntry u)"
    by (auto simp: from_session_def b Let_def user_turn_def split: transcript_entry.splits)
  then show ?thesis using from_session_well_formed by blast
qed

section \<open>From the stream to the next request\<close>

definition result_in :: "str \<Rightarrow> str \<Rightarrow> transcript_entry list \<Rightarrow> bool" where
  "result_in cid r es \<longleftrightarrow>
     (\<exists>rs res. ToolResults rs \<in> set es \<and> res \<in> set rs \<and> tr_call_id res = cid \<and> tr_content res = r)"

definition turn_has :: "str \<Rightarrow> str \<Rightarrow> turn \<Rightarrow> bool" where
  "turn_has cid r t \<longleftrightarrow> (\<exists>res \<in> set (tu_results t). tr_call_id res = cid \<and> tr_content res = r)"

lemma result_in_append [simp]: "result_in c r (xs @ ys) \<longleftrightarrow> result_in c r xs \<or> result_in c r ys"
  unfolding result_in_def set_append by blast

lemma result_in_flush: "turn_has c r t \<Longrightarrow> result_in c r (flush_assistant_turn t)"
  by (fastforce simp: turn_has_def result_in_def flush_assistant_turn_def)

lemma push_part_keeps:
  assumes "result_in c r es \<or> (turn_has c r t \<and> tu_calls t \<noteq> [])" "push_part cl p (es, t) = (es', t')"
  shows "result_in c r es' \<or> (turn_has c r t' \<and> tu_calls t' \<noteq> [])"
proof (cases p)
  case (ToolPart q)
  then show ?thesis using assms by (auto simp: turn_has_def split: option.splits)
next
  case (TextPart s)
  then show ?thesis
    using assms result_in_flush [of c r t] by (auto simp: Let_def split: if_splits)
next
  case (ReasoningPart s d)
  then show ?thesis
    using assms result_in_flush [of c r t] by (auto simp: Let_def split: if_splits)
qed

lemma push_parts_keep:
  "result_in c r es \<or> (turn_has c r t \<and> tu_calls t \<noteq> []) \<Longrightarrow>
    fold (push_part cl) ps (es, t) = (es', t') \<Longrightarrow>
    result_in c r es' \<or> (turn_has c r t' \<and> tu_calls t' \<noteq> [])"
proof (induction ps arbitrary: es t)
  case (Cons p ps)
  obtain es1 t1 where p: "push_part cl p (es, t) = (es1, t1)" by fastforce
  then show ?case using Cons.IH [OF push_part_keeps [OF Cons.prems(1) p]] Cons.prems(2) by simp
qed simp

lemma push_assistant_parts_result:
  assumes "ToolPart q \<in> set ps" "tp_result q = Some r"
  shows "result_in (tp_id q) r (push_assistant_parts cl ps es)"
proof -
  obtain xs ys where ps: "ps = xs @ ToolPart q # ys" using assms(1) by (auto simp: in_set_conv_decomp)
  obtain es1 t1 where 1: "fold (push_part cl) xs (es, empty_turn) = (es1, t1)" by fastforce
  obtain es2 t2 where 2: "push_part cl (ToolPart q) (es1, t1) = (es2, t2)" by fastforce
  have "result_in (tp_id q) r es2 \<or> (turn_has (tp_id q) r t2 \<and> tu_calls t2 \<noteq> [])"
    using 2 assms(2) by (auto simp: turn_has_def plain_result_def)
  moreover obtain es3 t3 where 3: "fold (push_part cl) ys (es2, t2) = (es3, t3)" by fastforce
  ultimately have "result_in (tp_id q) r es3 \<or> (turn_has (tp_id q) r t3 \<and> tu_calls t3 \<noteq> [])"
    by (rule push_parts_keep)
  moreover have "fold (push_part cl) ps (es, empty_turn) = (es3, t3)"
    by (simp only: ps fold_append fold_simps o_apply 1 2 3)
  ultimately show ?thesis
    using result_in_flush [of "tp_id q" r t3] by (auto simp: push_assistant_parts_def)
qed

lemma split_boundary_snoc:
  "\<not> is_boundary m \<Longrightarrow> split_boundary (ms @ [m]) = apsnd (\<lambda>xs. xs @ [m]) (split_boundary ms)"
  by (induction ms)
    (auto simp: is_boundary_def split: option.splits message_meta.splits prod.splits)

text \<open>C27. A result that was streamed reaches the model: when a call with an id finishes in a run, in
  whatever order the events of concurrent calls arrive, then the message that is stored for the run
  makes the next request, over every history before it, contain that result under the id of the
  call.\<close>

theorem streamed_result_reaches_the_model:
  assumes "\<forall>e \<in> set (before @ after). event_ok (snd e)" and "identified cid"
    and "\<forall>e \<in> set after. \<forall>i r ms err. snd e \<noteq> ToolCallFinished i cid r ms err"
    and "build mid now (fold (on_event jt) (before @ (t, ToolCallFinished i cid r ms err) # after)
      new_accumulator) = Some m"
  shows "result_in cid r (from_session cl (history @ [m]))"
proof -
  let ?ac = "fold (on_event jt) (before @ (t, ToolCallFinished i cid r ms err) # after) new_accumulator"
  obtain pos u where u: "tool_at (ac_parts ?ac) pos u" "tp_id u = cid" "tp_result u = Some r"
    using tool_result_stays [OF assms(1-3) refl] by blast
  have "same_tools (ac_parts ?ac) (ms_parts m)"
    using assms(4) same_tools_text same_tools_refl
    by (auto simp: build_def append_final_text_if_missing_def Let_def split: if_splits)
  then have part: "ToolPart u \<in> set (ms_parts m)"
    using u(1) by (metis same_tools_def tool_at_def nth_mem)
  have m: "ms_meta m = None" "ms_role m = AssistantRole" "ms_subagent_call_id m = None"
    using assms(4) by (auto simp: build_def Let_def split: if_splits)
  obtain s xs where "split_boundary history = (s, xs)" by fastforce
  then have b: "split_boundary (history @ [m]) = (s, xs @ [m])"
    using m(1) by (simp add: split_boundary_snoc is_boundary_def)
  let ?es = "fold (push_message cl) xs (boundary_entries s)"
  have "push_message cl m ?es = push_assistant_parts cl (ms_parts m) ?es"
    using m part by (auto simp: push_message_def push_assistant_message_def)
  then have "result_in cid r (fold (push_message cl) (xs @ [m]) (boundary_entries s))"
    using push_assistant_parts_result [OF part u(3)] u(2) by simp
  then show ?thesis by (simp add: from_session_def b Let_def)
qed

section \<open>Failure markers\<close>

lemma split_once_str_Some: "split_once_str p s = Some (a, b) \<Longrightarrow> s = a @ p @ b"
proof (induction s arbitrary: a)
  case (Cons x s)
  then show ?case by (auto simp: prefix_def split: if_splits)
qed simp

lemma split_once_head:
  "split_once_str p s = Some (a, b) \<Longrightarrow> \<not> contains_str a p \<or> p = []"
proof (induction s arbitrary: a)
  case (Cons x s)
  show ?case
  proof (cases "prefix p (x # s)")
    case True
    then show ?thesis using Cons.prems by auto
  next
    case False
    then obtain a' where a: "a = x # a'" "split_once_str p s = Some (a', b)"
      using Cons.prems by auto
    have "prefix a (x # s)" using split_once_str_Some [OF Cons.prems] by simp
    then have "\<not> prefix p a" using False prefix_order.trans by blast
    then show ?thesis using Cons.IH [OF a(2)] a(1) by auto
  qed
qed simp

lemma strip_marker_clean: "\<not> contains_str (strip_request_failure_marker s) failure_marker"
proof (cases "split_once_str failure_marker s")
  case None
  have "split_once_str p s = None \<Longrightarrow> p \<noteq> [] \<Longrightarrow> \<not> contains_str s p" for p
    by (induction s) (auto split: if_splits)
  then show ?thesis using None by (simp add: strip_request_failure_marker_def failure_marker_def)
next
  case (Some ab)
  obtain a b where ab: "ab = (a, b)" by (cases ab)
  then have "\<not> contains_str a failure_marker"
    using split_once_head [of failure_marker s a b] Some by (simp add: failure_marker_def)
  moreover have "prefix (trim_end a) a" using trim_end_prefix [of a] by (auto simp: prefix_def)
  ultimately show ?thesis
    using Some ab by (auto simp: strip_request_failure_marker_def contains_str_iff prefix_def)
qed

text \<open>A stored error that is the whole message becomes a turn without text: the empty rest is not
  skipped when the message has no parts.\<close>

lemma failure_only_message_becomes_empty_turn:
  assumes "ms_parts m = []" "\<forall>c \<in> set (ms_tool_calls m). mc_result c = None"
    and "ms_content m = failure_marker @ x" "cl_leak_start cl [] = None"
  shows "push_assistant_message cl m es = es @ [assistant_turn [] [] []]"
proof -
  have "split_once_str failure_marker (failure_marker @ x) = Some ([], x)"
    by (simp add: failure_marker_def)
  then have "strip_request_failure_marker (ms_content m) = []"
    by (simp add: assms(3) strip_request_failure_marker_def trim_end_def trim_rev.simps)
  moreover have "filter (\<lambda>c. mc_result c \<noteq> None) (ms_tool_calls m) = []"
    using assms(2) by (auto simp: filter_empty_conv)
  ultimately show ?thesis
    using assms by (simp add: push_assistant_message_def Let_def sanitize_loaded_assistant_text_def
        sanitize_tool_xml_leak_def failure_marker_def)
qed

section \<open>Witness\<close>

lemma streamed_result_reaches_the_model_witness:
  "\<exists>m. build ''m'' 9 ex_run = Some m \<and>
    result_in ''c1'' ''one'' (from_session \<lparr>cl_leak_start = (\<lambda>_. None), cl_json_parse = (\<lambda>_. None)\<rparr> ([] @ [m]))"
proof -
  have "identified ''c1''" "build ''m'' 9 ex_run \<noteq> None"
    "\<forall>e \<in> set ex_later. case snd e of ToolCallFinished i c r ms err \<Rightarrow> c \<noteq> ''c1'' | _ \<Rightarrow> True"
    by code_simp+
  moreover from this(3) have "\<forall>e \<in> set ex_later. \<forall>i r ms err. snd e \<noteq> ToolCallFinished i ''c1'' r ms err"
    by fastforce
  moreover obtain m where "build ''m'' 9 ex_run = Some m" using calculation(2) by blast
  ultimately show ?thesis
    using streamed_result_reaches_the_model [OF ex_events_ok, of "''c1''" "''m''" 9 "\<lambda>_. ''{}''" 4 0 "''one''" 5
        False m] unfolding ex_run_def by blast
qed

end
