(* ===== verification/Tool_Output.thy ===== *)
theory Tool_Output
  imports Session_Model Read_Tools
begin

text \<open>
  What happens to the output of a tool before it enters the transcript
  (\<open>crates/agent-core/src/context/tool_output.rs\<close>, \<open>materialize_tool_output\<close> and
  \<open>truncate_tool_result\<close> of \<open>dispatch.rs\<close>, \<open>storage/tool_results.rs\<close>): cleaning, cutting, previews and
  the file that keeps the full text. The crate \<open>regex\<close> is a parameter: \<open>rx pattern text\<close> lists the
  matches \<open>find_iter\<close> returns, as start and end.
\<close>

section \<open>Characters\<close>

text \<open>\<open>str::chars\<close>: a byte that continues no character starts one.\<close>

function chars_of :: "str \<Rightarrow> str list" where
  "chars_of [] = []"
| "chars_of (c # s) = (c # takeWhile is_continuation s) # chars_of (dropWhile is_continuation s)"
  by pat_completeness auto
termination
  by (relation "measure length") (auto simp: le_imp_less_Suc length_dropWhile_le)

definition char_total :: "str \<Rightarrow> nat" where
  "char_total s = length (chars_of s)"

definition head_chars :: "str \<Rightarrow> nat \<Rightarrow> str" where
  "head_chars s n = concat (take n (chars_of s))"

definition take_last_chars :: "str \<Rightarrow> nat \<Rightarrow> str" where
  "take_last_chars s n = concat (rev (take n (rev (chars_of s))))"

text \<open>\<open>char::is_control\<close>: U+0000..U+001F, U+007F..U+009F.\<close>

definition is_control :: "str \<Rightarrow> bool" where
  "is_control ch \<longleftrightarrow>
     (case ch of
        [b] \<Rightarrow> (of_char b :: nat) < 32 \<or> (of_char b :: nat) = 127
      | [a, b] \<Rightarrow> a = CHR 0xC2 \<and> 128 \<le> (of_char b :: nat) \<and> (of_char b :: nat) < 160
      | _ \<Rightarrow> False)"

section \<open>Regular expressions\<close>

type_synonym regex_engine = "str \<Rightarrow> str \<Rightarrow> (nat \<times> nat) list"

text \<open>\<open>replace_all\<close> with a text that has no references to groups.\<close>

fun replace_spans :: "str \<Rightarrow> (nat \<times> nat) list \<Rightarrow> nat \<Rightarrow> str \<Rightarrow> str" where
  "replace_spans r [] i s = drop i s"
| "replace_spans r ((a, b) # ms) i s = take (a - i) (drop i s) @ r @ replace_spans r ms b s"

definition regex_replace_all :: "regex_engine \<Rightarrow> str \<Rightarrow> str \<Rightarrow> str \<Rightarrow> str" where
  "regex_replace_all rx pat r s = replace_spans r (rx pat s) 0 s"

definition ansi_pattern :: str where
  "ansi_pattern =
     [CHR 0x5C, CHR 0x78, CHR 0x31, CHR 0x42, CHR 0x28, CHR 0x3F, CHR 0x3A, CHR 0x5B, CHR 0x40,
     CHR 0x2D, CHR 0x5A, CHR 0x5C, CHR 0x5C, CHR 0x2D, CHR 0x5F, CHR 0x5D, CHR 0x7C, CHR 0x5C,
     CHR 0x5B, CHR 0x5B, CHR 0x30, CHR 0x2D, CHR 0x3F, CHR 0x5D, CHR 0x2A, CHR 0x5B, CHR 0x20,
     CHR 0x2D, CHR 0x2F, CHR 0x5D, CHR 0x2A, CHR 0x5B, CHR 0x40, CHR 0x2D, CHR 0x7E, CHR 0x5D,
     CHR 0x7C, CHR 0x5C, CHR 0x5D, CHR 0x5B, CHR 0x5E, CHR 0x5C, CHR 0x78, CHR 0x30, CHR 0x37,
     CHR 0x5D, CHR 0x2A, CHR 0x28, CHR 0x3F, CHR 0x3A, CHR 0x5C, CHR 0x78, CHR 0x30, CHR 0x37,
     CHR 0x7C, CHR 0x5C, CHR 0x78, CHR 0x31, CHR 0x42, CHR 0x5C, CHR 0x5C, CHR 0x29, CHR 0x7C,
     CHR 0x50, CHR 0x5B, CHR 0x5E, CHR 0x5C, CHR 0x78, CHR 0x31, CHR 0x42, CHR 0x5D, CHR 0x2A,
     CHR 0x28, CHR 0x3F, CHR 0x3A, CHR 0x5C, CHR 0x78, CHR 0x31, CHR 0x42, CHR 0x5C, CHR 0x5C,
     CHR 0x29, CHR 0x29]"

definition pat_bearer :: str where
  "pat_bearer =
     [CHR 0x28, CHR 0x3F, CHR 0x69, CHR 0x29, CHR 0x42, CHR 0x65, CHR 0x61, CHR 0x72, CHR 0x65,
     CHR 0x72, CHR 0x5C, CHR 0x73, CHR 0x2B, CHR 0x5B, CHR 0x41, CHR 0x2D, CHR 0x5A, CHR 0x61,
     CHR 0x2D, CHR 0x7A, CHR 0x30, CHR 0x2D, CHR 0x39, CHR 0x2E, CHR 0x5F, CHR 0x7E, CHR 0x2B,
     CHR 0x2F, CHR 0x3D, CHR 0x2D, CHR 0x5D, CHR 0x7B, CHR 0x31, CHR 0x32, CHR 0x2C, CHR 0x7D]"

definition pat_jwt :: str where
  "pat_jwt =
     [CHR 0x65, CHR 0x79, CHR 0x4A, CHR 0x5B, CHR 0x41, CHR 0x2D, CHR 0x5A, CHR 0x61, CHR 0x2D,
     CHR 0x7A, CHR 0x30, CHR 0x2D, CHR 0x39, CHR 0x5F, CHR 0x2D, CHR 0x5D, CHR 0x7B, CHR 0x38,
     CHR 0x2C, CHR 0x7D, CHR 0x5C, CHR 0x2E, CHR 0x5B, CHR 0x41, CHR 0x2D, CHR 0x5A, CHR 0x61,
     CHR 0x2D, CHR 0x7A, CHR 0x30, CHR 0x2D, CHR 0x39, CHR 0x5F, CHR 0x2D, CHR 0x5D, CHR 0x7B,
     CHR 0x38, CHR 0x2C, CHR 0x7D, CHR 0x5C, CHR 0x2E, CHR 0x5B, CHR 0x41, CHR 0x2D, CHR 0x5A,
     CHR 0x61, CHR 0x2D, CHR 0x7A, CHR 0x30, CHR 0x2D, CHR 0x39, CHR 0x5F, CHR 0x2D, CHR 0x5D,
     CHR 0x7B, CHR 0x38, CHR 0x2C, CHR 0x7D]"

definition pat_private_key :: str where
  "pat_private_key =
     [CHR 0x2D, CHR 0x2D, CHR 0x2D, CHR 0x2D, CHR 0x2D, CHR 0x42, CHR 0x45, CHR 0x47, CHR 0x49,
     CHR 0x4E, CHR 0x20, CHR 0x5B, CHR 0x41, CHR 0x2D, CHR 0x5A, CHR 0x20, CHR 0x5D, CHR 0x2A,
     CHR 0x50, CHR 0x52, CHR 0x49, CHR 0x56, CHR 0x41, CHR 0x54, CHR 0x45, CHR 0x20, CHR 0x4B,
     CHR 0x45, CHR 0x59, CHR 0x2D, CHR 0x2D, CHR 0x2D, CHR 0x2D, CHR 0x2D, CHR 0x5B, CHR 0x5C,
     CHR 0x73, CHR 0x5C, CHR 0x53, CHR 0x5D, CHR 0x2A, CHR 0x3F, CHR 0x2D, CHR 0x2D, CHR 0x2D,
     CHR 0x2D, CHR 0x2D, CHR 0x45, CHR 0x4E, CHR 0x44, CHR 0x20, CHR 0x5B, CHR 0x41, CHR 0x2D,
     CHR 0x5A, CHR 0x20, CHR 0x5D, CHR 0x2A, CHR 0x50, CHR 0x52, CHR 0x49, CHR 0x56, CHR 0x41,
     CHR 0x54, CHR 0x45, CHR 0x20, CHR 0x4B, CHR 0x45, CHR 0x59, CHR 0x2D, CHR 0x2D, CHR 0x2D,
     CHR 0x2D, CHR 0x2D]"

definition pat_aws_access_key :: str where
  "pat_aws_access_key =
     [CHR 0x41, CHR 0x4B, CHR 0x49, CHR 0x41, CHR 0x5B, CHR 0x30, CHR 0x2D, CHR 0x39, CHR 0x41,
     CHR 0x2D, CHR 0x5A, CHR 0x5D, CHR 0x7B, CHR 0x31, CHR 0x36, CHR 0x7D]"

definition pat_github_token :: str where
  "pat_github_token =
     [CHR 0x67, CHR 0x68, CHR 0x5B, CHR 0x70, CHR 0x6F, CHR 0x75, CHR 0x73, CHR 0x72, CHR 0x5D,
     CHR 0x5F, CHR 0x5B, CHR 0x41, CHR 0x2D, CHR 0x5A, CHR 0x61, CHR 0x2D, CHR 0x7A, CHR 0x30,
     CHR 0x2D, CHR 0x39, CHR 0x5F, CHR 0x5D, CHR 0x7B, CHR 0x32, CHR 0x30, CHR 0x2C, CHR 0x7D]"

definition pat_api_key :: str where
  "pat_api_key =
     [CHR 0x73, CHR 0x6B, CHR 0x2D, CHR 0x28, CHR 0x3F, CHR 0x3A, CHR 0x70, CHR 0x72, CHR 0x6F,
     CHR 0x6A, CHR 0x2D, CHR 0x29, CHR 0x3F, CHR 0x5B, CHR 0x41, CHR 0x2D, CHR 0x5A, CHR 0x61,
     CHR 0x2D, CHR 0x7A, CHR 0x30, CHR 0x2D, CHR 0x39, CHR 0x5F, CHR 0x2D, CHR 0x5D, CHR 0x7B,
     CHR 0x32, CHR 0x30, CHR 0x2C, CHR 0x7D]"

definition pat_slack_token :: str where
  "pat_slack_token =
     [CHR 0x78, CHR 0x6F, CHR 0x78, CHR 0x5B, CHR 0x62, CHR 0x61, CHR 0x70, CHR 0x72, CHR 0x73,
     CHR 0x5D, CHR 0x2D, CHR 0x5B, CHR 0x41, CHR 0x2D, CHR 0x5A, CHR 0x61, CHR 0x2D, CHR 0x7A,
     CHR 0x30, CHR 0x2D, CHR 0x39, CHR 0x2D, CHR 0x5D, CHR 0x7B, CHR 0x32, CHR 0x30, CHR 0x2C,
     CHR 0x7D]"

definition pat_secret_assignment :: str where
  "pat_secret_assignment =
     [CHR 0x28, CHR 0x3F, CHR 0x69, CHR 0x29, CHR 0x28, CHR 0x74, CHR 0x6F, CHR 0x6B, CHR 0x65,
     CHR 0x6E, CHR 0x7C, CHR 0x61, CHR 0x70, CHR 0x69, CHR 0x5B, CHR 0x5F, CHR 0x2D, CHR 0x5D,
     CHR 0x3F, CHR 0x6B, CHR 0x65, CHR 0x79, CHR 0x7C, CHR 0x70, CHR 0x61, CHR 0x73, CHR 0x73,
     CHR 0x77, CHR 0x6F, CHR 0x72, CHR 0x64, CHR 0x7C, CHR 0x73, CHR 0x65, CHR 0x63, CHR 0x72,
     CHR 0x65, CHR 0x74, CHR 0x29, CHR 0x5C, CHR 0x73, CHR 0x2A, CHR 0x5B, CHR 0x3A, CHR 0x3D,
     CHR 0x5D, CHR 0x5C, CHR 0x73, CHR 0x2A, CHR 0x5B, CHR 0x5E, CHR 0x5C, CHR 0x73, CHR 0x27,
     CHR 0x22, CHR 0x5D, CHR 0x7B, CHR 0x38, CHR 0x2C, CHR 0x7D]"

definition secret_regexes :: "(str \<times> str) list" where
  "secret_regexes =
     [(pat_bearer, ''bearer''),
      (pat_jwt, ''jwt''),
      (pat_private_key, ''private_key''),
      (pat_aws_access_key, ''aws_access_key''),
      (pat_github_token, ''github_token''),
      (pat_api_key, ''api_key''),
      (pat_slack_token, ''slack_token''),
      (pat_secret_assignment, ''secret_assignment'')]"

section \<open>Cleaning\<close>

abbreviation LONG_LINE_MAX_CHARS :: nat where "LONG_LINE_MAX_CHARS \<equiv> 800"
abbreviation LONG_LINE_HEAD_CHARS :: nat where "LONG_LINE_HEAD_CHARS \<equiv> 240"
abbreviation LONG_LINE_TAIL_CHARS :: nat where "LONG_LINE_TAIL_CHARS \<equiv> 120"

text \<open>What is behind the last carriage return, \<open>rsplit('\r').next()\<close>.\<close>

definition last_frame :: "str \<Rightarrow> str" where
  "last_frame body = (case rsplit_at_char cr body of None \<Rightarrow> body | Some (_, b) \<Rightarrow> b)"

definition fold_segment :: "str \<Rightarrow> str" where
  "fold_segment seg =
     (if ends_with seg [nl] then last_frame (butlast seg) @ [nl] else last_frame seg)"

definition fold_carriage_returns :: "str \<Rightarrow> str" where
  "fold_carriage_returns s = concat (map fold_segment (split_inclusive_nl s))"

definition strip_char :: "str \<Rightarrow> str list \<Rightarrow> str list" where
  "strip_char ch out =
     (if ch = [CHR 0x08] then butlast out
      else if ch = [nl] \<or> ch = [tab] then out @ [ch]
      else if is_control ch then out
      else out @ [ch])"

definition strip_ansi_and_controls :: "regex_engine \<Rightarrow> str \<Rightarrow> str" where
  "strip_ansi_and_controls rx s =
     concat (fold strip_char (chars_of (regex_replace_all rx ansi_pattern [] s)) [])"

definition redact_one :: "regex_engine \<Rightarrow> str \<times> str \<Rightarrow> str \<times> nat \<Rightarrow> str \<times> nat" where
  "redact_one rx rule acc =
     (case (rule, acc) of ((pat, label), (txt, count)) \<Rightarrow>
        let matches = length (rx pat txt)
        in if matches > 0
           then (regex_replace_all rx pat (''[REDACTED:'' @ label @ '']'') txt, count + matches)
           else (txt, count))"

definition redact_secrets :: "regex_engine \<Rightarrow> str \<Rightarrow> str \<times> nat" where
  "redact_secrets rx s = fold (redact_one rx) secret_regexes (s, 0)"

definition elide_line :: "str \<Rightarrow> str" where
  "elide_line line =
     (let chars = char_total line
      in if chars \<le> LONG_LINE_MAX_CHARS then line
         else head_chars line LONG_LINE_HEAD_CHARS @ ''<elided '' @
              dec (chars - (LONG_LINE_HEAD_CHARS + LONG_LINE_TAIL_CHARS)) @ '' chars>'' @
              take_last_chars line LONG_LINE_TAIL_CHARS)"

definition elide_step :: "str \<Rightarrow> nat \<times> str \<Rightarrow> nat \<times> str" where
  "elide_step line st =
     (case st of (idx, out) \<Rightarrow>
        let has_newline = ends_with line [nl];
            body = (if has_newline then butlast line else line);
            out = (if idx > 0 \<and> \<not> ends_with out [nl] then out @ [nl] else out)
        in (Suc idx, out @ elide_line body @ (if has_newline then [nl] else [])))"

definition elide_long_lines :: "str \<Rightarrow> str" where
  "elide_long_lines s = snd (fold elide_step (split_inclusive_nl s) (0, []))"

record sanitized_tool_output =
  so_text :: str
  so_redactions_count :: nat

definition sanitize_tool_output :: "regex_engine \<Rightarrow> str \<Rightarrow> sanitized_tool_output" where
  "sanitize_tool_output rx raw =
     (case redact_secrets rx (strip_ansi_and_controls rx (fold_carriage_returns raw)) of
        (redacted, n) \<Rightarrow> \<lparr>so_text = elide_long_lines redacted, so_redactions_count = n\<rparr>)"

section \<open>Previews\<close>

definition contains_error_signal :: "str \<Rightarrow> bool" where
  "contains_error_signal s \<longleftrightarrow>
     list_ex (contains_str (to_ascii_lowercase s))
       [''error'', ''failed'', ''panic'', ''traceback'', ''exception'', ''exit code'',
        ''cannot find'', ''mismatched'']"

record preview_policy =
  pp_max_chars :: nat
  pp_error_tail_bias :: bool

definition new_preview_policy :: "nat \<Rightarrow> bool \<Rightarrow> str \<Rightarrow> preview_policy" where
  "new_preview_policy n is_error s =
     \<lparr>pp_max_chars = n, pp_error_tail_bias = (is_error \<or> contains_error_signal s)\<rparr>"

record preview =
  pv_text :: str
  pv_omitted_chars :: nat
  pv_shown_head_chars :: nat
  pv_shown_tail_chars :: nat

definition preview_text :: "str \<Rightarrow> nat \<Rightarrow> str \<Rightarrow> str" where
  "preview_text head omitted tail =
     ''--- BEGIN HEAD ---'' @ [nl] @ head @ [nl] @ ''--- END HEAD ---'' @ [nl, nl] @
     ''... '' @ dec omitted @ '' chars omitted ...'' @ [nl, nl] @
     ''--- BEGIN TAIL ---'' @ [nl] @ tail @ [nl] @ ''--- END TAIL ---''"

definition head_tail_preview :: "str \<Rightarrow> preview_policy \<Rightarrow> preview" where
  "head_tail_preview s policy =
     (let total_chars = char_total s
      in if total_chars \<le> pp_max_chars policy then
           \<lparr>pv_text = s, pv_omitted_chars = 0, pv_shown_head_chars = total_chars,
            pv_shown_tail_chars = 0\<rparr>
         else
           let max_chars = max (pp_max_chars policy) 32;
               head_chars' = (if pp_error_tail_bias policy then max_chars * 35 div 100
                              else max_chars * 60 div 100);
               tail_chars = max_chars - head_chars';
               omitted = total_chars - (head_chars' + tail_chars)
           in \<lparr>pv_text = preview_text (head_chars s head_chars') omitted (take_last_chars s tail_chars),
               pv_omitted_chars = omitted, pv_shown_head_chars = head_chars',
               pv_shown_tail_chars = tail_chars\<rparr>)"

section \<open>The file of a result (\<open>storage/tool_results.rs\<close>)\<close>

text \<open>The files below the data directory; \<open>can p\<close> says whether the system lets the file be written.\<close>

type_synonym artifacts = "component list \<Rightarrow> str option"

definition dir_for_session :: "path \<Rightarrow> str \<Rightarrow> path" where
  "dir_for_session data_dir sid = path_join (path_join (path_join data_dir ''sessions'') sid) ''tool_results''"

definition tool_result_path :: "path \<Rightarrow> str \<Rightarrow> str \<Rightarrow> path" where
  "tool_result_path data_dir sid cid = path_join (dir_for_session data_dir sid) (cid @ ''.txt'')"

definition save_tool_result ::
    "(path \<Rightarrow> bool) \<Rightarrow> path \<Rightarrow> str \<Rightarrow> str \<Rightarrow> str \<Rightarrow> artifacts \<Rightarrow> (path \<times> artifacts) option" where
  "save_tool_result can data_dir sid cid content fs =
     (let p = tool_result_path data_dir sid cid
      in if can p then Some (p, fs(components p \<mapsto> content)) else None)"

section \<open>Results of a call (\<open>dispatch.rs\<close>)\<close>

abbreviation MAX_TOOL_RESULT_INLINE :: nat where "MAX_TOOL_RESULT_INLINE \<equiv> 6000"
abbreviation ARTIFACT_PREVIEW_CHARS :: nat where "ARTIFACT_PREVIEW_CHARS \<equiv> 2000"

definition artifact_heading :: str where
  "artifact_heading =
     [CHR 0x5B, CHR 0xE5, CHR 0xB7, CHR 0xA5, CHR 0xE5, CHR 0x85, CHR 0xB7, CHR 0xE8, CHR 0xBE,
     CHR 0x93, CHR 0xE5, CHR 0x87, CHR 0xBA, CHR 0xE8, CHR 0xBF, CHR 0x87, CHR 0xE9, CHR 0x95,
     CHR 0xBF, CHR 0xEF, CHR 0xBC, CHR 0x8C, CHR 0xE5, CHR 0xB7, CHR 0xB2, CHR 0xE4, CHR 0xBF,
     CHR 0x9D, CHR 0xE5, CHR 0xAD, CHR 0x98, CHR 0xE5, CHR 0xAE, CHR 0x8C, CHR 0xE6, CHR 0x95,
     CHR 0xB4, CHR 0xE5, CHR 0x86, CHR 0x85, CHR 0xE5, CHR 0xAE, CHR 0xB9, CHR 0x5D, CHR 0x0A,
     CHR 0x54, CHR 0x6F, CHR 0x6F, CHR 0x6C, CHR 0x3A, CHR 0x20]"

definition cut_mark :: str where
  "cut_mark =
     [CHR 0xE2, CHR 0x80, CHR 0xA6, CHR 0x5B, CHR 0xE5, CHR 0xB7, CHR 0xB2, CHR 0xE6, CHR 0x88,
     CHR 0xAA, CHR 0xE6, CHR 0x96, CHR 0xAD, CHR 0x5D]"

definition artifact_marker ::
    "str \<Rightarrow> str \<Rightarrow> nat \<Rightarrow> nat \<Rightarrow> nat \<Rightarrow> path \<Rightarrow> preview \<Rightarrow> str \<Rightarrow> str" where
  "artifact_marker tool cid original sanitized line_count p pv txt =
     artifact_heading @ tool @ [nl] @ ''Call ID: '' @ cid @ [nl] @
     ''Original: '' @ dec original @ '' bytes'' @ [nl] @
     ''Sanitized: '' @ dec sanitized @ '' bytes / '' @ dec line_count @ '' lines'' @ [nl] @
     ''Shown: first '' @ dec (pv_shown_head_chars pv) @ '' chars + last '' @
       dec (pv_shown_tail_chars pv) @ '' chars'' @ [nl] @
     ''Full output: '' @ p @ [nl, nl] @ txt @ [nl, nl] @
     ''Need details? Use Grep on the artifact first, then Read with offset/limit. Do not read the full file unless necessary.''"

text \<open>Where results are kept: \<open>session_id\<close> and \<open>data_dir\<close>, which a run may lack.\<close>

type_synonym keep_place = "(path \<times> str) option"

definition materialize_tool_output ::
    "regex_engine \<Rightarrow> (path \<Rightarrow> bool) \<Rightarrow> keep_place \<Rightarrow> str \<Rightarrow> str \<Rightarrow> str \<Rightarrow> bool \<Rightarrow> artifacts \<Rightarrow>
      (str \<times> tool_artifact option) \<times> artifacts" where
  "materialize_tool_output rx can place raw tool cid is_error fs =
     (let txt = so_text (sanitize_tool_output rx raw);
          line_count = length (str_lines txt) mod 2 ^ 32
      in if length txt \<le> MAX_TOOL_RESULT_INLINE then ((txt, None), fs)
         else case place of
                None \<Rightarrow> ((txt, None), fs)
              | Some (data_dir, sid) \<Rightarrow>
                  (case save_tool_result can data_dir sid cid txt fs of
                     None \<Rightarrow> ((txt, None), fs)
                   | Some (p, fs') \<Rightarrow>
                       let pv = head_tail_preview txt
                                  (new_preview_policy ARTIFACT_PREVIEW_CHARS is_error txt)
                       in ((artifact_marker tool cid (length raw) (length txt) line_count p pv (pv_text pv),
                            Some \<lparr>ta_path = p, ta_bytes = length txt, ta_line_count = Some line_count\<rparr>),
                           fs')))"

definition truncate_tool_result :: "str \<Rightarrow> str \<times> bool" where
  "truncate_tool_result raw =
     (if length raw \<le> MAX_TOOL_RESULT_INLINE then (raw, False)
      else (take (floor_char_boundary raw MAX_TOOL_RESULT_INLINE) raw @ cut_mark, True))"

text \<open>How a tool ended: it returned text with attachments and its own verdict, it returned an error, it
  panicked, or no tool has the name.\<close>

datatype tool_end =
  ToolReturned str "message_attachment list" bool | ToolError str | ToolPanicked str | ToolNotFound

definition exec_error_text :: str where
  "exec_error_text =
     [CHR 0xE5, CHR 0xB7, CHR 0xA5, CHR 0xE5, CHR 0x85, CHR 0xB7, CHR 0xE6, CHR 0x89, CHR 0xA7,
     CHR 0xE8, CHR 0xA1, CHR 0x8C, CHR 0xE9, CHR 0x94, CHR 0x99, CHR 0xE8, CHR 0xAF, CHR 0xAF,
     CHR 0x3A, CHR 0x20]"

definition panic_text :: str where
  "panic_text =
     [CHR 0xE5, CHR 0xB7, CHR 0xA5, CHR 0xE5, CHR 0x85, CHR 0xB7, CHR 0xE6, CHR 0x89, CHR 0xA7,
     CHR 0xE8, CHR 0xA1, CHR 0x8C, CHR 0x20, CHR 0x70, CHR 0x61, CHR 0x6E, CHR 0x69, CHR 0x63,
     CHR 0x3A, CHR 0x20]"

definition not_found_text :: str where
  "not_found_text =
     [CHR 0xE6, CHR 0x9C, CHR 0xAA, CHR 0xE6, CHR 0x89, CHR 0xBE, CHR 0xE5, CHR 0x88, CHR 0xB0,
     CHR 0xE5, CHR 0xB7, CHR 0xA5, CHR 0xE5, CHR 0x85, CHR 0xB7, CHR 0x3A, CHR 0x20]"

fun tool_raw :: "str \<Rightarrow> tool_end \<Rightarrow> str \<times> message_attachment list \<times> bool \<times> bool" where
  "tool_raw name (ToolReturned txt atts err) = (txt, atts, False, err)"
| "tool_raw name (ToolError e) = (exec_error_text @ e, [], True, False)"
| "tool_raw name (ToolPanicked msg) = (panic_text @ msg, [], True, False)"
| "tool_raw name ToolNotFound = (not_found_text @ name, [], True, False)"

text \<open>From the end of the tool to its result; \<open>hook\<close> is the text a \<open>PostToolUse\<close> hook puts in place of the
  result, which counts only when the tool itself did not fail.\<close>

definition finish_tool_call ::
    "regex_engine \<Rightarrow> (path \<Rightarrow> bool) \<Rightarrow> keep_place \<Rightarrow> (str \<Rightarrow> str option) \<Rightarrow> str \<Rightarrow> str \<Rightarrow> tool_end \<Rightarrow>
      artifacts \<Rightarrow> tool_result \<times> bool \<times> bool \<times> artifacts" where
  "finish_tool_call rx can place hook name cid fin fs =
     (case tool_raw name fin of (raw, atts, exec_failed, semantic_failed) \<Rightarrow>
        let is_error = (exec_failed \<or> semantic_failed);
            direct_result = (name = ''Read'' \<or> name = ''Skill'');
            ((materialized, artifact), fs') =
              (if exec_failed \<or> direct_result then ((raw, None), fs)
               else materialize_tool_output rx can place raw name cid is_error fs);
            (content, truncated) =
              (if direct_result then (materialized, False) else truncate_tool_result materialized);
            content' = (if exec_failed then content
                        else case hook content of None \<Rightarrow> content | Some r \<Rightarrow> r)
        in (\<lparr>tr_call_id = cid, tr_name = name, tr_content = content', tr_artifact = artifact,
             tr_attachments = atts\<rparr>, truncated, is_error, fs'))"

end
