(* ===== verification/Context_Window.thy ===== *)
theory Context_Window
  imports Tool_Output Transcript Complex_Main
begin

text \<open>
  Keeping the transcript inside the context window: the token estimate and its calibration
  (\<open>crates/agent-core/src/context/budget.rs\<close>), shadowing of old tool results (\<open>microcompact.rs\<close>),
  structural compaction, compaction by a model and the emergency reset (\<open>compaction.rs\<close>).

  The \<open>f64\<close> ratios are rational numbers here: the code rounds a product to the nearest integer, and
  no result below depends on the last bit of that product. \<open>js\<close> is \<open>serde_json::Value::to_string\<close>.
\<close>

section \<open>Token estimates (\<open>budget.rs\<close>)\<close>

abbreviation BASE_OVERHEAD_TOKENS :: nat where "BASE_OVERHEAD_TOKENS \<equiv> 10000"
abbreviation IMAGE_TOKENS_ESTIMATE :: nat where "IMAGE_TOKENS_ESTIMATE \<equiv> 2000"

definition estimate_tokens :: "str \<Rightarrow> nat" where
  "estimate_tokens s =
     (let chars = char_total s; bytes = length s
      in if bytes > chars * 2 then chars else bytes div 4)"

fun attachment_tokens :: "message_attachment \<Rightarrow> nat" where
  "attachment_tokens (TextFile name media content) = estimate_tokens content + 16"
| "attachment_tokens (Image name media data) = IMAGE_TOKENS_ESTIMATE"

fun entry_tokens :: "(json \<Rightarrow> str) \<Rightarrow> transcript_entry \<Rightarrow> nat" where
  "entry_tokens js (UserEntry u) =
     estimate_tokens (ue_text u) + sum_list (map attachment_tokens (ue_attachments u)) + 4"
| "entry_tokens js (AssistantEntry a) =
     estimate_tokens (ae_text a) + estimate_tokens (ae_reasoning a) + 4 +
     sum_list (map (\<lambda>c. estimate_tokens (ce_name c) + estimate_tokens (js (ce_input c)) + 8)
       (ae_tool_calls a))"
| "entry_tokens js (ToolResults rs) = sum_list (map (\<lambda>r. estimate_tokens (tr_content r) + 8) rs)"

definition estimate_transcript_tokens :: "(json \<Rightarrow> str) \<Rightarrow> str option \<Rightarrow> transcript_entry list \<Rightarrow> nat" where
  "estimate_transcript_tokens js system es =
     BASE_OVERHEAD_TOKENS + (case system of None \<Rightarrow> 0 | Some s \<Rightarrow> estimate_tokens s + 4) +
     sum_list (map (entry_tokens js) es)"

definition calibrated_transcript_tokens ::
    "(json \<Rightarrow> str) \<Rightarrow> str option \<Rightarrow> transcript_entry list \<Rightarrow> nat \<Rightarrow> nat \<Rightarrow> nat" where
  "calibrated_transcript_tokens js system es last_real last_estimated =
     (let raw = estimate_transcript_tokens js system es
      in if last_real = 0 \<or> last_estimated = 0 then raw
         else let ratio = min (of_nat last_real / of_nat last_estimated) (3 :: rat)
              in nat \<lfloor>of_nat raw * ratio + 1 / 2\<rfloor>)"

section \<open>The last turns\<close>

definition is_user :: "transcript_entry \<Rightarrow> bool" where
  "is_user e \<longleftrightarrow> (case e of UserEntry _ \<Rightarrow> True | _ \<Rightarrow> False)"

text \<open>The scan from the end for the user entry number \<open>keep\<close>, which \<open>protected_suffix_start\<close> and
  \<open>recent_turn_start\<close> both write out.\<close>

fun scan_back :: "nat \<Rightarrow> nat \<Rightarrow> (nat \<times> transcript_entry) list \<Rightarrow> nat" where
  "scan_back keep seen [] = 0"
| "scan_back keep seen ((idx, e) # es) =
     (if is_user e
      then (if Suc seen = keep then idx else scan_back keep (Suc seen) es)
      else scan_back keep seen es)"

definition protected_suffix_start :: "transcript_entry list \<Rightarrow> nat \<Rightarrow> nat" where
  "protected_suffix_start es keep =
     (if keep = 0 then length es else scan_back keep 0 (rev (enumerate 0 es)))"

definition recent_turn_start :: "transcript_entry list \<Rightarrow> nat \<Rightarrow> nat" where
  "recent_turn_start es keep =
     (if keep = 0 then length es else scan_back keep 0 (rev (enumerate 0 es)))"

section \<open>Shadowing old results (\<open>microcompact.rs\<close>)\<close>

definition COMPACTABLE_TOOLS :: "str list" where
  "COMPACTABLE_TOOLS = [''Bash'', ''Read'', ''Grep'', ''Glob'', ''Edit'', ''Fetch'', ''WebSearch'']"

definition is_compactable :: "str \<Rightarrow> bool" where
  "is_compactable name \<longleftrightarrow> name \<in> set COMPACTABLE_TOOLS"

definition shadowed_prefix :: str where
  "shadowed_prefix =
     [CHR 0x5B, CHR 0xE7, CHR 0xBB, CHR 0x93, CHR 0xE6, CHR 0x9E, CHR 0x9C, CHR 0xE5, CHR 0xB7,
     CHR 0xB2, CHR 0xE8, CHR 0xA2, CHR 0xAB, CHR 0xE5, CHR 0x8E, CHR 0x8B, CHR 0xE7, CHR 0xBC,
     CHR 0xA9]"

definition shadowed_heading :: str where
  "shadowed_heading =
     [CHR 0x5B, CHR 0xE7, CHR 0xBB, CHR 0x93, CHR 0xE6, CHR 0x9E, CHR 0x9C, CHR 0xE5, CHR 0xB7,
     CHR 0xB2, CHR 0xE8, CHR 0xA2, CHR 0xAB, CHR 0xE5, CHR 0x8E, CHR 0x8B, CHR 0xE7, CHR 0xBC,
     CHR 0xA9, CHR 0xE3, CHR 0x80, CHR 0x82, CHR 0x54, CHR 0x6F, CHR 0x6F, CHR 0x6C, CHR 0x3A,
     CHR 0x20]"

definition is_already_shadowed :: "str \<Rightarrow> bool" where
  "is_already_shadowed content \<longleftrightarrow> starts_with content shadowed_prefix"

record microcompact_policy =
  mp_min_pressure :: rat
  mp_min_tokens_per_result :: nat
  mp_recent_turns_to_keep :: nat

definition default_microcompact_policy :: microcompact_policy where
  "default_microcompact_policy =
     \<lparr>mp_min_pressure = 1 / 2, mp_min_tokens_per_result = 2000, mp_recent_turns_to_keep = 3\<rparr>"

record microcompact_report =
  mc_shadowed_count :: nat
  mc_kept_count :: nat
  mc_total_compactable :: nat
  mc_pressure :: rat
  mc_shadowed_artifacts :: "(str \<times> str) list"

definition empty_report :: microcompact_report where
  "empty_report = \<lparr>mc_shadowed_count = 0, mc_kept_count = 0, mc_total_compactable = 0, mc_pressure = 0,
     mc_shadowed_artifacts = []\<rparr>"

abbreviation SHADOW_PREVIEW_CHARS :: nat where "SHADOW_PREVIEW_CHARS \<equiv> 800"

definition shadow_placeholder :: "str \<Rightarrow> str \<Rightarrow> nat \<Rightarrow> str \<Rightarrow> str" where
  "shadow_placeholder tool cid original_bytes artifact =
     shadowed_heading @ tool @ ''; Call ID: '' @ cid @ ''; Original: '' @ dec original_bytes @
     '' bytes; Sanitized: '' @ dec (length artifact) @ '' bytes / '' @ dec (length (str_lines artifact)) @
     '' lines; Full output: tool_results/'' @ cid @ ''.txt]'' @ [nl, nl] @
     pv_text (head_tail_preview artifact (new_preview_policy SHADOW_PREVIEW_CHARS False artifact)) @
     [nl, nl] @ ''Need details? Use Grep on the artifact first, then Read with offset/limit.''"

definition shadow_result ::
    "regex_engine \<Rightarrow> microcompact_policy \<Rightarrow> bool \<Rightarrow> tool_result \<Rightarrow> microcompact_report \<Rightarrow>
      tool_result \<times> microcompact_report" where
  "shadow_result rx policy protected r rep =
     (if \<not> is_compactable (tr_name r) then (r, rep)
      else
        let rep = rep\<lparr>mc_total_compactable := mc_total_compactable rep + 1\<rparr>
        in if is_already_shadowed (tr_content r) then
             (r, rep\<lparr>mc_shadowed_count := mc_shadowed_count rep + 1\<rparr>)
           else if protected then (r, rep\<lparr>mc_kept_count := mc_kept_count rep + 1\<rparr>)
           else if estimate_tokens (tr_content r) < mp_min_tokens_per_result policy then
             (r, rep\<lparr>mc_kept_count := mc_kept_count rep + 1\<rparr>)
           else
             let artifact = so_text (sanitize_tool_output rx (tr_content r))
             in (plain_result (tr_call_id r) (tr_name r)
                   (shadow_placeholder (tr_name r) (tr_call_id r) (length (tr_content r)) artifact),
                 rep\<lparr>mc_shadowed_count := mc_shadowed_count rep + 1,
                     mc_shadowed_artifacts :=
                       mc_shadowed_artifacts rep @ [(tr_call_id r, artifact)]\<rparr>))"

fun shadow_results ::
    "regex_engine \<Rightarrow> microcompact_policy \<Rightarrow> bool \<Rightarrow> tool_result list \<Rightarrow> microcompact_report \<Rightarrow>
      tool_result list \<times> microcompact_report" where
  "shadow_results rx policy protected [] rep = ([], rep)"
| "shadow_results rx policy protected (r # rs) rep =
     (let (r', rep') = shadow_result rx policy protected r rep;
          (rs', rep'') = shadow_results rx policy protected rs rep'
      in (r' # rs', rep''))"

fun shadow_entries ::
    "regex_engine \<Rightarrow> microcompact_policy \<Rightarrow> nat \<Rightarrow> nat \<Rightarrow> transcript_entry list \<Rightarrow> microcompact_report \<Rightarrow>
      transcript_entry list \<times> microcompact_report" where
  "shadow_entries rx policy protected_from idx [] rep = ([], rep)"
| "shadow_entries rx policy protected_from idx (e # es) rep =
     (let (e', rep') =
            (case e of
               ToolResults rs \<Rightarrow>
                 (let (rs', rep') = shadow_results rx policy (idx \<ge> protected_from) rs rep
                  in (ToolResults rs', rep'))
             | _ \<Rightarrow> (e, rep));
          (es', rep'') = shadow_entries rx policy protected_from (Suc idx) es rep'
      in (e' # es', rep''))"

definition microcompact_entries ::
    "regex_engine \<Rightarrow> transcript_entry list \<Rightarrow> rat \<Rightarrow> microcompact_policy \<Rightarrow>
      transcript_entry list \<times> microcompact_report" where
  "microcompact_entries rx es pressure policy =
     (let protected_from = protected_suffix_start es (mp_recent_turns_to_keep policy);
          (es', rep) = shadow_entries rx policy protected_from 0 es empty_report
      in (es', rep\<lparr>mc_pressure := pressure\<rparr>))"

definition microcompact :: "regex_engine \<Rightarrow> transcript_entry list \<Rightarrow> microcompact_policy \<Rightarrow>
      transcript_entry list \<times> microcompact_report" where
  "microcompact rx es policy = microcompact_entries rx es 1 (policy\<lparr>mp_recent_turns_to_keep := 0\<rparr>)"

record compaction_policy =
  cp_token_budget :: nat
  cp_keep_recent_turns :: nat

definition microcompact_with_pressure ::
    "regex_engine \<Rightarrow> (json \<Rightarrow> str) \<Rightarrow> str option \<Rightarrow> transcript_entry list \<Rightarrow> compaction_policy \<Rightarrow>
      nat \<Rightarrow> nat \<Rightarrow> microcompact_policy \<Rightarrow> transcript_entry list \<times> microcompact_report" where
  "microcompact_with_pressure rx js system es cpol last_real last_estimated policy =
     (let estimated = calibrated_transcript_tokens js system es last_real last_estimated;
          pressure = (if cp_token_budget cpol = 0 then 1
                      else of_nat estimated / of_nat (cp_token_budget cpol))
      in if pressure < mp_min_pressure policy then (es, empty_report\<lparr>mc_pressure := pressure\<rparr>)
         else microcompact_entries rx es pressure policy)"

text \<open>What the agent loop does with the shadowed texts: it saves them under the ids of their calls.\<close>

definition save_shadowed ::
    "(path \<Rightarrow> bool) \<Rightarrow> keep_place \<Rightarrow> (str \<times> str) list \<Rightarrow> artifacts \<Rightarrow> artifacts" where
  "save_shadowed can place arts fs =
     (case place of
        None \<Rightarrow> fs
      | Some (data_dir, sid) \<Rightarrow>
          fold (\<lambda>(cid, content) fs.
              case save_tool_result can data_dir sid cid content fs of None \<Rightarrow> fs | Some (_, fs') \<Rightarrow> fs')
            arts fs)"

section \<open>Compaction (\<open>compaction.rs\<close>)\<close>

definition compact_prompt :: str where
  "compact_prompt =
     [CHR 0xE4, CHR 0xBD, CHR 0xA0, CHR 0xE6, CHR 0xAD, CHR 0xA3, CHR 0xE5, CHR 0x9C, CHR 0xA8,
     CHR 0xE6, CHR 0x89, CHR 0xA7, CHR 0xE8, CHR 0xA1, CHR 0x8C, CHR 0xE3, CHR 0x80, CHR 0x90,
     CHR 0xE4, CHR 0xB8, CHR 0x8A, CHR 0xE4, CHR 0xB8, CHR 0x8B, CHR 0xE6, CHR 0x96, CHR 0x87,
     CHR 0xE5, CHR 0x8E, CHR 0x8B, CHR 0xE7, CHR 0xBC, CHR 0xA9, CHR 0xE3, CHR 0x80, CHR 0x91,
     CHR 0xE3, CHR 0x80, CHR 0x82, CHR 0xE8, CHR 0xAF, CHR 0xB7, CHR 0xE6, CHR 0x8A, CHR 0x8A,
     CHR 0xE5, CHR 0xBD, CHR 0x93, CHR 0xE5, CHR 0x89, CHR 0x8D, CHR 0xE5, CHR 0xAF, CHR 0xB9,
     CHR 0xE8, CHR 0xAF, CHR 0x9D, CHR 0xE5, CHR 0x8E, CHR 0x86, CHR 0xE5, CHR 0x8F, CHR 0xB2,
     CHR 0xE6, CHR 0xB5, CHR 0x93, CHR 0xE7, CHR 0xBC, CHR 0xA9, CHR 0xE6, CHR 0x88, CHR 0x90,
     CHR 0xE4, CHR 0xB8, CHR 0x80, CHR 0xE4, CHR 0xBB, CHR 0xBD, CHR 0xE7, CHR 0xAE, CHR 0x80,
     CHR 0xE6, CHR 0x98, CHR 0x8E, CHR 0xE3, CHR 0x80, CHR 0x81, CHR 0xE7, CHR 0xBB, CHR 0x93,
     CHR 0xE6, CHR 0x9E, CHR 0x84, CHR 0xE5, CHR 0x8C, CHR 0x96, CHR 0xE7, CHR 0x9A, CHR 0x84,
     CHR 0xE6, CHR 0x8E, CHR 0xA5, CHR 0xE5, CHR 0x8A, CHR 0x9B, CHR 0xE6, CHR 0x91, CHR 0x98,
     CHR 0xE8, CHR 0xA6, CHR 0x81, CHR 0xEF, CHR 0xBC, CHR 0x8C, CHR 0xE8, CHR 0xAE, CHR 0xA9,
     CHR 0xE5, CHR 0x8F, CHR 0xA6, CHR 0xE4, CHR 0xB8, CHR 0x80, CHR 0xE4, CHR 0xB8, CHR 0xAA,
     CHR 0x20, CHR 0x4C, CHR 0x4C, CHR 0x4D, CHR 0x20, CHR 0xE8, CHR 0x83, CHR 0xBD, CHR 0xE5,
     CHR 0x9C, CHR 0xA8, CHR 0xE4, CHR 0xB8, CHR 0x8D, CHR 0xE8, CHR 0xAF, CHR 0xBB, CHR 0xE5,
     CHR 0x8E, CHR 0x9F, CHR 0xE5, CHR 0xAF, CHR 0xB9, CHR 0xE8, CHR 0xAF, CHR 0x9D, CHR 0xE7,
     CHR 0x9A, CHR 0x84, CHR 0xE6, CHR 0x83, CHR 0x85, CHR 0xE5, CHR 0x86, CHR 0xB5, CHR 0xE4,
     CHR 0xB8, CHR 0x8B, CHR 0xE6, CHR 0x97, CHR 0xA0, CHR 0xE7, CHR 0xBC, CHR 0x9D, CHR 0xE7,
     CHR 0xBB, CHR 0xA7, CHR 0xE7, CHR 0xBB, CHR 0xAD, CHR 0xE5, CHR 0xB7, CHR 0xA5, CHR 0xE4,
     CHR 0xBD, CHR 0x9C, CHR 0xE3, CHR 0x80, CHR 0x82, CHR 0x0A, CHR 0x0A, CHR 0xE8, CHR 0xAF,
     CHR 0xB7, CHR 0xE8, CHR 0xA6, CHR 0x86, CHR 0xE7, CHR 0x9B, CHR 0x96, CHR 0xEF, CHR 0xBC,
     CHR 0x9A, CHR 0x0A, CHR 0x2D, CHR 0x20, CHR 0xE7, CHR 0x94, CHR 0xA8, CHR 0xE6, CHR 0x88,
     CHR 0xB7, CHR 0xE7, CHR 0x9A, CHR 0x84, CHR 0xE6, CHR 0xA0, CHR 0xB8, CHR 0xE5, CHR 0xBF,
     CHR 0x83, CHR 0xE7, CHR 0x9B, CHR 0xAE, CHR 0xE6, CHR 0xA0, CHR 0x87, CHR 0x20, CHR 0x2F,
     CHR 0x20, CHR 0xE7, CHR 0xBA, CHR 0xA6, CHR 0xE6, CHR 0x9D, CHR 0x9F, CHR 0x20, CHR 0x2F,
     CHR 0x20, CHR 0xE5, CHR 0x81, CHR 0x8F, CHR 0xE5, CHR 0xA5, CHR 0xBD, CHR 0x0A, CHR 0x2D,
     CHR 0x20, CHR 0xE5, CHR 0xB7, CHR 0xB2, CHR 0xE5, CHR 0xAE, CHR 0x8C, CHR 0xE6, CHR 0x88,
     CHR 0x90, CHR 0xE7, CHR 0x9A, CHR 0x84, CHR 0xE5, CHR 0x85, CHR 0xB3, CHR 0xE9, CHR 0x94,
     CHR 0xAE, CHR 0xE5, CHR 0xB7, CHR 0xA5, CHR 0xE4, CHR 0xBD, CHR 0x9C, CHR 0xE5, CHR 0x92,
     CHR 0x8C, CHR 0xE9, CHR 0x87, CHR 0x8D, CHR 0xE8, CHR 0xA6, CHR 0x81, CHR 0xE5, CHR 0x86,
     CHR 0xB3, CHR 0xE7, CHR 0xAD, CHR 0x96, CHR 0xEF, CHR 0xBC, CHR 0x88, CHR 0xE5, CHR 0x90,
     CHR 0xAB, CHR 0xE5, CHR 0xBD, CHR 0xB1, CHR 0xE5, CHR 0x93, CHR 0x8D, CHR 0xE5, CHR 0x90,
     CHR 0x8E, CHR 0xE7, CHR 0xBB, CHR 0xAD, CHR 0xE5, CHR 0x88, CHR 0xA4, CHR 0xE6, CHR 0x96,
     CHR 0xAD, CHR 0xE7, CHR 0x9A, CHR 0x84, CHR 0xE7, CHR 0xBB, CHR 0x86, CHR 0xE8, CHR 0x8A,
     CHR 0x82, CHR 0xEF, CHR 0xBC, CHR 0x89, CHR 0x0A, CHR 0x2D, CHR 0x20, CHR 0xE4, CHR 0xBB,
     CHR 0x8D, CHR 0xE6, CHR 0x9C, CHR 0xAA, CHR 0xE5, CHR 0xAE, CHR 0x8C, CHR 0xE6, CHR 0x88,
     CHR 0x90, CHR 0xE7, CHR 0x9A, CHR 0x84, CHR 0xE4, CHR 0xBA, CHR 0x8B, CHR 0xE9, CHR 0xA1,
     CHR 0xB9, CHR 0x20, CHR 0x2F, CHR 0x20, CHR 0xE4, CHR 0xB8, CHR 0x8B, CHR 0xE4, CHR 0xB8,
     CHR 0x80, CHR 0xE6, CHR 0xAD, CHR 0xA5, CHR 0x0A, CHR 0x2D, CHR 0x20, CHR 0xE5, CHR 0x85,
     CHR 0xB3, CHR 0xE9, CHR 0x94, CHR 0xAE, CHR 0xE6, CHR 0x95, CHR 0xB0, CHR 0xE6, CHR 0x8D,
     CHR 0xAE, CHR 0xEF, CHR 0xBC, CHR 0x9A, CHR 0xE6, CHR 0x96, CHR 0x87, CHR 0xE4, CHR 0xBB,
     CHR 0xB6, CHR 0xE8, CHR 0xB7, CHR 0xAF, CHR 0xE5, CHR 0xBE, CHR 0x84, CHR 0xE3, CHR 0x80,
     CHR 0x81, CHR 0xE5, CHR 0x91, CHR 0xBD, CHR 0xE4, CHR 0xBB, CHR 0xA4, CHR 0xE3, CHR 0x80,
     CHR 0x81, CHR 0xE4, CHR 0xBB, CHR 0xA3, CHR 0xE7, CHR 0xA0, CHR 0x81, CHR 0xE7, CHR 0x89,
     CHR 0x87, CHR 0xE6, CHR 0xAE, CHR 0xB5, CHR 0xE3, CHR 0x80, CHR 0x81, CHR 0xE9, CHR 0x94,
     CHR 0x99, CHR 0xE8, CHR 0xAF, CHR 0xAF, CHR 0xE4, CHR 0xBF, CHR 0xA1, CHR 0xE6, CHR 0x81,
     CHR 0xAF, CHR 0xE3, CHR 0x80, CHR 0x81, CHR 0xE5, CHR 0xA4, CHR 0x96, CHR 0xE9, CHR 0x83,
     CHR 0xA8, CHR 0xE9, CHR 0x93, CHR 0xBE, CHR 0xE6, CHR 0x8E, CHR 0xA5, CHR 0x0A, CHR 0x2D,
     CHR 0x20, CHR 0xE4, CHR 0xBB, CHR 0xBB, CHR 0xE4, CHR 0xBD, CHR 0x95, CHR 0xE6, CHR 0xA8,
     CHR 0xA1, CHR 0xE5, CHR 0x9E, CHR 0x8B, CHR 0xE4, CHR 0xB8, CHR 0x8D, CHR 0xE8, CHR 0xAF,
     CHR 0xBB, CHR 0xE4, CHR 0xB8, CHR 0x8A, CHR 0xE4, CHR 0xB8, CHR 0x8B, CHR 0xE6, CHR 0x96,
     CHR 0x87, CHR 0xE5, CHR 0xB0, CHR 0xB1, CHR 0xE4, CHR 0xBC, CHR 0x9A, CHR 0xE4, CHR 0xB8,
     CHR 0xA2, CHR 0xE7, CHR 0x9A, CHR 0x84, CHR 0xE9, CHR 0x9A, CHR 0x90, CHR 0xE5, CHR 0x90,
     CHR 0xAB, CHR 0xE4, CHR 0xB8, CHR 0x8A, CHR 0xE4, CHR 0xB8, CHR 0x8B, CHR 0xE6, CHR 0x96,
     CHR 0x87, CHR 0x0A, CHR 0x0A, CHR 0xE8, CHR 0xBE, CHR 0x93, CHR 0xE5, CHR 0x87, CHR 0xBA,
     CHR 0xE8, CHR 0xA6, CHR 0x81, CHR 0xE6, CHR 0xB1, CHR 0x82, CHR 0xEF, CHR 0xBC, CHR 0x9A,
     CHR 0x0A, CHR 0x2D, CHR 0x20, CHR 0xE7, CHR 0x9B, CHR 0xB4, CHR 0xE6, CHR 0x8E, CHR 0xA5,
     CHR 0xE7, CHR 0xBB, CHR 0x99, CHR 0xE6, CHR 0x91, CHR 0x98, CHR 0xE8, CHR 0xA6, CHR 0x81,
     CHR 0xE6, CHR 0xAD, CHR 0xA3, CHR 0xE6, CHR 0x96, CHR 0x87, CHR 0xEF, CHR 0xBC, CHR 0x8C,
     CHR 0xE4, CHR 0xB8, CHR 0x8D, CHR 0xE8, CHR 0xA6, CHR 0x81, CHR 0xE5, CHR 0xAF, CHR 0x92,
     CHR 0xE6, CHR 0x9A, CHR 0x84, CHR 0xE3, CHR 0x80, CHR 0x81, CHR 0xE4, CHR 0xB8, CHR 0x8D,
     CHR 0xE8, CHR 0xA6, CHR 0x81, CHR 0x20, CHR 0xE2, CHR 0x80, CHR 0x9C, CHR 0xE4, CHR 0xBB,
     CHR 0xA5, CHR 0xE4, CHR 0xB8, CHR 0x8B, CHR 0xE6, CHR 0x98, CHR 0xAF, CHR 0xE6, CHR 0x91,
     CHR 0x98, CHR 0xE8, CHR 0xA6, CHR 0x81, CHR 0xE2, CHR 0x80, CHR 0x9D, CHR 0x20, CHR 0xE4,
     CHR 0xB9, CHR 0x8B, CHR 0xE7, CHR 0xB1, CHR 0xBB, CHR 0xE7, CHR 0x9A, CHR 0x84, CHR 0xE5,
     CHR 0xBC, CHR 0x95, CHR 0xE5, CHR 0xAF, CHR 0xBC, CHR 0xE8, CHR 0xAF, CHR 0xAD, CHR 0x0A,
     CHR 0x2D, CHR 0x20, CHR 0xE7, CHR 0xB4, CHR 0xA7, CHR 0xE5, CHR 0x87, CHR 0x91, CHR 0xE4,
     CHR 0xBD, CHR 0x86, CHR 0xE4, CHR 0xB8, CHR 0x8D, CHR 0xE4, CHR 0xB8, CHR 0xA2, CHR 0xE5,
     CHR 0x85, CHR 0xB3, CHR 0xE9, CHR 0x94, CHR 0xAE, CHR 0xE4, CHR 0xBF, CHR 0xA1, CHR 0xE6,
     CHR 0x81, CHR 0xAF, CHR 0xEF, CHR 0xBC, CHR 0x9B, CHR 0xE4, CHR 0xBC, CHR 0x98, CHR 0xE5,
     CHR 0x85, CHR 0x88, CHR 0x20, CHR 0x62, CHR 0x75, CHR 0x6C, CHR 0x6C, CHR 0x65, CHR 0x74,
     CHR 0x20, CHR 0x6C, CHR 0x69, CHR 0x73, CHR 0x74, CHR 0x0A, CHR 0x2D, CHR 0x20, CHR 0xE4,
     CHR 0xBF, CHR 0x9D, CHR 0xE6, CHR 0x8C, CHR 0x81, CHR 0xE4, CHR 0xB8, CHR 0xAD, CHR 0xE6,
     CHR 0x96, CHR 0x87]"

definition extra_instructions :: str where
  "extra_instructions =
     [CHR 0x0A, CHR 0x0A, CHR 0xE9, CHR 0x99, CHR 0x84, CHR 0xE5, CHR 0x8A, CHR 0xA0, CHR 0xE6,
     CHR 0x8C, CHR 0x87, CHR 0xE4, CHR 0xBB, CHR 0xA4, CHR 0xEF, CHR 0xBC, CHR 0x9A]"

definition emergency_text :: str where
  "emergency_text =
     [CHR 0x0A, CHR 0x0A, CHR 0xE6, CHR 0x97, CHR 0xA7, CHR 0xE4, CHR 0xB8, CHR 0x8A, CHR 0xE4,
     CHR 0xB8, CHR 0x8B, CHR 0xE6, CHR 0x96, CHR 0x87, CHR 0xE5, CHR 0xB7, CHR 0xB2, CHR 0xE5,
     CHR 0xBD, CHR 0x92, CHR 0xE6, CHR 0xA1, CHR 0xA3, CHR 0xE5, CHR 0x88, CHR 0xB0, CHR 0xE6,
     CHR 0x9C, CHR 0xAC, CHR 0xE4, CHR 0xBC, CHR 0x9A, CHR 0xE8, CHR 0xAF, CHR 0x9D, CHR 0x20,
     CHR 0x63, CHR 0x6F, CHR 0x6D, CHR 0x70, CHR 0x61, CHR 0x63, CHR 0x74, CHR 0x69, CHR 0x6F,
     CHR 0x6E, CHR 0x73, CHR 0x2F, CHR 0x20, CHR 0xE7, CHR 0x9B, CHR 0xAE, CHR 0xE5, CHR 0xBD,
     CHR 0x95, CHR 0xE3, CHR 0x80, CHR 0x82, CHR 0xE7, CHR 0xBB, CHR 0xA7, CHR 0xE7, CHR 0xBB,
     CHR 0xAD, CHR 0xE4, CHR 0xBB, CHR 0xBB, CHR 0xE5, CHR 0x8A, CHR 0xA1, CHR 0xE6, CHR 0x97,
     CHR 0xB6, CHR 0xE4, CHR 0xBC, CHR 0x98, CHR 0xE5, CHR 0x85, CHR 0x88, CHR 0xE4, CHR 0xBE,
     CHR 0x9D, CHR 0xE6, CHR 0x8D, CHR 0xAE, CHR 0xE6, CHR 0x9C, CHR 0x80, CHR 0xE8, CHR 0xBF,
     CHR 0x91, CHR 0xE5, CHR 0xAF, CHR 0xB9, CHR 0xE8, CHR 0xAF, CHR 0x9D, CHR 0xE5, CHR 0x92,
     CHR 0x8C, CHR 0xE5, CHR 0xB7, CHR 0xA5, CHR 0xE5, CHR 0x85, CHR 0xB7, CHR 0x20, CHR 0x61,
     CHR 0x72, CHR 0x74, CHR 0x69, CHR 0x66, CHR 0x61, CHR 0x63, CHR 0x74, CHR 0xEF, CHR 0xBC,
     CHR 0x9B, CHR 0xE9, CHR 0x9C, CHR 0x80, CHR 0xE8, CHR 0xA6, CHR 0x81, CHR 0xE6, CHR 0x97,
     CHR 0xA7, CHR 0xE7, CHR 0xBB, CHR 0x86, CHR 0xE8, CHR 0x8A, CHR 0x82, CHR 0xE6, CHR 0x97,
     CHR 0xB6, CHR 0xE5, CHR 0x85, CHR 0x88, CHR 0x20, CHR 0x47, CHR 0x72, CHR 0x65, CHR 0x70,
     CHR 0x20, CHR 0x63, CHR 0x6F, CHR 0x6D, CHR 0x70, CHR 0x61, CHR 0x63, CHR 0x74, CHR 0x69,
     CHR 0x6F, CHR 0x6E, CHR 0x73, CHR 0x2F, CHR 0x20, CHR 0xE6, CHR 0x88, CHR 0x96, CHR 0x20,
     CHR 0x74, CHR 0x6F, CHR 0x6F, CHR 0x6C, CHR 0x5F, CHR 0x72, CHR 0x65, CHR 0x73, CHR 0x75,
     CHR 0x6C, CHR 0x74, CHR 0x73, CHR 0x2F, CHR 0xEF, CHR 0xBC, CHR 0x8C, CHR 0xE5, CHR 0x86,
     CHR 0x8D, CHR 0x20, CHR 0x52, CHR 0x65, CHR 0x61, CHR 0x64, CHR 0x20, CHR 0xE5, CHR 0xB1,
     CHR 0x80, CHR 0xE9, CHR 0x83, CHR 0xA8, CHR 0x20, CHR 0x6F, CHR 0x66, CHR 0x66, CHR 0x73,
     CHR 0x65, CHR 0x74, CHR 0x2F, CHR 0x6C, CHR 0x69, CHR 0x6D, CHR 0x69, CHR 0x74, CHR 0xE3,
     CHR 0x80, CHR 0x82]"

definition emergency_ack :: str where
  "emergency_ack =
     [CHR 0xE5, CHR 0xB7, CHR 0xB2, CHR 0xE6, CHR 0x94, CHR 0xB6, CHR 0xE5, CHR 0x88, CHR 0xB0,
     CHR 0xE5, CHR 0x89, CHR 0x8D, CHR 0xE6, CHR 0x83, CHR 0x85, CHR 0xE6, CHR 0xA6, CHR 0x82,
     CHR 0xE8, CHR 0xA6, CHR 0x81, CHR 0xEF, CHR 0xBC, CHR 0x8C, CHR 0xE5, CHR 0xB0, CHR 0x86,
     CHR 0xE5, CHR 0x9F, CHR 0xBA, CHR 0xE4, CHR 0xBA, CHR 0x8E, CHR 0xE6, CHR 0x9C, CHR 0x80,
     CHR 0xE8, CHR 0xBF, CHR 0x91, CHR 0xE4, CHR 0xB8, CHR 0x8A, CHR 0xE4, CHR 0xB8, CHR 0x8B,
     CHR 0xE6, CHR 0x96, CHR 0x87, CHR 0xE7, CHR 0xBB, CHR 0xA7, CHR 0xE7, CHR 0xBB, CHR 0xAD,
     CHR 0xE3, CHR 0x80, CHR 0x82]"

definition empty_summary_error :: str where
  "empty_summary_error =
     [CHR 0xE5, CHR 0x8E, CHR 0x8B, CHR 0xE7, CHR 0xBC, CHR 0xA9, CHR 0xE5, CHR 0xA4, CHR 0xB1,
     CHR 0xE8, CHR 0xB4, CHR 0xA5, CHR 0xEF, CHR 0xBC, CHR 0x9A, CHR 0xE6, CHR 0xA8, CHR 0xA1,
     CHR 0xE5, CHR 0x9E, CHR 0x8B, CHR 0xE8, CHR 0xBF, CHR 0x94, CHR 0xE5, CHR 0x9B, CHR 0x9E,
     CHR 0xE4, CHR 0xBA, CHR 0x86, CHR 0xE7, CHR 0xA9, CHR 0xBA, CHR 0xE6, CHR 0x91, CHR 0x98,
     CHR 0xE8, CHR 0xA6, CHR 0x81]"

record compaction_result =
  cr_entries :: "transcript_entry list"
  cr_before_tokens :: nat
  cr_after_tokens :: nat
  cr_summary :: str

text \<open>The index of the first user entry from \<open>s\<close> on, the length when there is none.\<close>

function first_user_from :: "transcript_entry list \<Rightarrow> nat \<Rightarrow> nat" where
  "first_user_from es s =
     (if length es \<le> s then s else if is_user (es ! s) then s else first_user_from es (Suc s))"
  by pat_completeness auto
termination by (relation "measure (\<lambda>(es, s). length es - s)") auto

declare first_user_from.simps [simp del]

definition compact_structural ::
    "(json \<Rightarrow> str) \<Rightarrow> str option \<Rightarrow> transcript_entry list \<Rightarrow> compaction_policy \<Rightarrow> compaction_result" where
  "compact_structural js system es policy =
     (let before = estimate_transcript_tokens js system es
      in if before \<le> cp_token_budget policy then
           \<lparr>cr_entries = es, cr_before_tokens = before, cr_after_tokens = before, cr_summary = []\<rparr>
         else
           let keep = cp_keep_recent_turns policy * 3;
               total = length es;
               raw_start = total - keep;
               s = first_user_from es raw_start;
               start = (if s \<ge> total then raw_start else s);
               compacted = drop start es
           in \<lparr>cr_entries = compacted, cr_before_tokens = before,
               cr_after_tokens = estimate_transcript_tokens js system compacted, cr_summary = []\<rparr>)"

definition build_emergency_reset ::
    "(json \<Rightarrow> str) \<Rightarrow> str option \<Rightarrow> transcript_entry list \<Rightarrow> compaction_policy \<Rightarrow> str \<Rightarrow>
      compaction_result" where
  "build_emergency_reset js system es policy reason =
     (let start = recent_turn_start es (max (cp_keep_recent_turns policy) 3);
          summary = ''L4 emergency reset triggered: '' @ reason @ emergency_text;
          replacement = [user_turn (summary_heading @ summary) [], assistant_turn emergency_ack [] []] @
                        drop start es
      in \<lparr>cr_entries = replacement, cr_before_tokens = estimate_transcript_tokens js system es,
          cr_after_tokens = estimate_transcript_tokens js system replacement, cr_summary = summary\<rparr>)"

definition needs_compaction ::
    "(json \<Rightarrow> str) \<Rightarrow> str option \<Rightarrow> transcript_entry list \<Rightarrow> compaction_policy \<Rightarrow> nat \<Rightarrow> nat \<Rightarrow> bool" where
  "needs_compaction js system es policy last_real last_estimated \<longleftrightarrow>
     calibrated_transcript_tokens js system es last_real last_estimated > cp_token_budget policy"

text \<open>The request for a summary. A last user entry takes the prompt into its text.\<close>

definition compaction_prompt :: "str option \<Rightarrow> str" where
  "compaction_prompt custom =
     (case map_option trim custom of
        None \<Rightarrow> compact_prompt
      | Some extra \<Rightarrow> if extra = [] then compact_prompt else compact_prompt @ extra_instructions @ extra)"

definition compaction_entries :: "transcript_entry list \<Rightarrow> str \<Rightarrow> transcript_entry list" where
  "compaction_entries es prompt =
     (case es of
        [] \<Rightarrow> [user_turn prompt []]
      | _ \<Rightarrow> (case last es of
                UserEntry u \<Rightarrow> butlast es @ [UserEntry (u\<lparr>ue_text := ue_text u @ [nl, nl] @ prompt\<rparr>)]
              | _ \<Rightarrow> es @ [user_turn prompt []]))"

record model_request =
  rq_system :: "str option"
  rq_entries :: "transcript_entry list"
  rq_tools :: "str list"
  rq_max_tokens :: nat

definition build_compaction_request ::
    "(json \<Rightarrow> str) \<Rightarrow> str option \<Rightarrow> transcript_entry list \<Rightarrow> str option \<Rightarrow> nat \<times> model_request" where
  "build_compaction_request js system es custom =
     (estimate_transcript_tokens js system es,
      \<lparr>rq_system = system, rq_entries = compaction_entries es (compaction_prompt custom), rq_tools = [],
       rq_max_tokens = 4096\<rparr>)"

text \<open>The errors of a model call (\<open>model-gateway/src/types.rs\<close>).\<close>

datatype model_error =
  HttpError nat str | RequestError str | JsonError str | CancelledError | SuspendedError | OtherError str

text \<open>\<open>remote\<close> is the answer of \<open>compact_remote\<close>, \<open>response\<close> the text of the streamed answer.\<close>

definition compact_request_with_llm_progress ::
    "(json \<Rightarrow> str) \<Rightarrow> model_request \<Rightarrow> nat \<Rightarrow> model_error + transcript_entry list option \<Rightarrow>
      model_error + str \<Rightarrow> model_error + compaction_result" where
  "compact_request_with_llm_progress js req before remote response =
     (case remote of
        Inl e \<Rightarrow> Inl e
      | Inr (Some es) \<Rightarrow>
          Inr \<lparr>cr_entries = es, cr_before_tokens = before,
               cr_after_tokens = estimate_transcript_tokens js (rq_system req) es,
               cr_summary = ''[remote compact]''\<rparr>
      | Inr None \<Rightarrow>
          (case response of
             Inl e \<Rightarrow> Inl e
           | Inr txt \<Rightarrow>
               let summary = trim txt
               in if summary = [] then Inl (OtherError empty_summary_error)
                  else
                    let es = [user_turn (summary_heading @ summary) [], assistant_turn summary_ack [] []]
                    in Inr \<lparr>cr_entries = es, cr_before_tokens = before,
                            cr_after_tokens = estimate_transcript_tokens js (rq_system req) es,
                            cr_summary = summary\<rparr>))"

end
