(* ===== verification/Output_Laws.thy ===== *)
theory Output_Laws
  imports Tool_Output
begin

text \<open>
  Bounds and losses of the cleaning of tool output: no line of a cleaned text is long, a preview
  accounts for every character, and text with carriage returns loses its lines.
\<close>

section \<open>Characters\<close>

lemma chars_of_concat [simp]: "concat (chars_of s) = s"
  by (induction s rule: chars_of.induct) auto

lemma chars_of_eq_Nil [simp]: "chars_of s = [] \<longleftrightarrow> s = []"
  by (cases s) auto

lemma chars_of_single [simp]: "chars_of [c] = [[c]]"
  by simp

lemma chars_of_append:
  "t = [] \<or> \<not> is_continuation (hd t) \<Longrightarrow> chars_of (s @ t) = chars_of s @ chars_of t"
proof (induction s rule: chars_of.induct)
  case (2 c s)
  have t: "takeWhile is_continuation t = []" "dropWhile is_continuation t = t"
    using 2(2) by (cases t; auto)+
  have "takeWhile is_continuation (s @ t) = takeWhile is_continuation s"
    using t(1) by (induction s) auto
  moreover have "dropWhile is_continuation (s @ t) = dropWhile is_continuation s @ t"
    using t(2) by (induction s) auto
  ultimately show ?case using 2 by simp
qed simp

lemma char_total_append_le: "char_total (s @ t) \<le> char_total s + char_total t"
proof (induction s rule: chars_of.induct)
  case (2 c s)
  show ?case
  proof (cases "dropWhile is_continuation s = []")
    case True
    then have s: "\<forall>x \<in> set s. is_continuation x" by simp
    then have "dropWhile is_continuation (s @ t) = dropWhile is_continuation t" by simp
    moreover have "length (chars_of (dropWhile is_continuation t)) \<le> length (chars_of t)"
      by (induction t) auto
    ultimately show ?thesis using True by (simp add: char_total_def)
  next
    case False
    then have "dropWhile is_continuation (s @ t) = dropWhile is_continuation s @ t"
      by (metis append_is_Nil_conv dropWhile_append1 dropWhile_eq_Nil_conv)
    then show ?thesis using 2 by (simp add: char_total_def)
  qed
qed (simp add: char_total_def)

lemma char_total_concat_le: "char_total (concat gs) \<le> sum_list (map char_total gs)"
proof (induction gs)
  case (Cons g gs)
  then show ?case using char_total_append_le [of g "concat gs"] by simp
qed (simp add: char_total_def)

lemma char_total_group: "g \<in> set (chars_of s) \<Longrightarrow> char_total g = 1"
proof (induction s rule: chars_of.induct)
  case (2 c s)
  have "dropWhile is_continuation (takeWhile is_continuation s) = []"
    by (simp add: dropWhile_eq_Nil_conv) (metis set_takeWhileD)
  then have "char_total (c # takeWhile is_continuation s) = 1" by (simp add: char_total_def)
  then show ?case using 2 by (metis chars_of.simps(2) set_ConsD)
qed simp

lemma char_total_groups:
  assumes "set gs \<subseteq> set (chars_of s)" shows "char_total (concat gs) \<le> length gs"
proof -
  have "set gs \<subseteq> set (chars_of s) \<Longrightarrow> sum_list (map char_total gs) = length gs"
    by (induction gs) (auto simp: char_total_group)
  then show ?thesis using char_total_concat_le [of gs] assms by simp
qed

lemma char_total_take: "char_total (head_chars s n) \<le> n"
  using char_total_groups [of "take n (chars_of s)" s] set_take_subset [of n "chars_of s"]
  by (simp add: head_chars_def)

lemma char_total_last: "char_total (take_last_chars s n) \<le> n"
  using char_total_groups [of "rev (take n (rev (chars_of s)))" s] set_take_subset [of n "rev (chars_of s)"]
  by (simp add: take_last_chars_def)

lemma char_total_le_length: "char_total s \<le> length s"
proof (induction s rule: chars_of.induct)
  case (2 c s)
  then show ?case using length_dropWhile_le [of is_continuation s] by (simp add: char_total_def)
qed (simp add: char_total_def)

text \<open>Text without carriage returns and control characters.\<close>

lemma set_chars_of: "g \<in> set (chars_of s) \<Longrightarrow> set g \<subseteq> set s"
  by (metis chars_of_concat concat_eq_append_conv UN_upper set_concat)

lemma set_head_chars: "set (head_chars s n) \<subseteq> set s"
  using set_chars_of [of _ s] by (fastforce simp: head_chars_def dest: in_set_takeD)

lemma set_take_last_chars: "set (take_last_chars s n) \<subseteq> set s"
  using set_chars_of [of _ s] by (fastforce simp: take_last_chars_def dest: in_set_takeD)

section \<open>Long lines\<close>

lemma length_dec: "n < 10 ^ k \<Longrightarrow> 0 < k \<Longrightarrow> length (dec n) \<le> k"
proof (induction k arbitrary: n)
  case (Suc k)
  show ?case
  proof (cases "n < 10")
    case True
    then show ?thesis by (subst dec.simps) simp
  next
    case False
    then have "0 < k" using Suc.prems by (cases k) auto
    moreover have "n div 10 < 10 ^ k" using Suc.prems(1) by (simp add: less_mult_imp_div_less)
    ultimately show ?thesis using Suc.IH [of "n div 10"] False by (subst dec.simps) simp
  qed
qed simp

lemma nl_not_in_dec [simp]: "nl \<notin> set (dec n)"
  by (rule not_in_dec) (simp add: ascii_digit_def)

lemma elide_line_no_nl: "nl \<notin> set l \<Longrightarrow> nl \<notin> set (elide_line l)"
  using set_head_chars [of l] set_take_last_chars [of l] by (auto simp: elide_line_def Let_def)

lemma char_total_append3:
  "char_total (a @ b @ c @ d @ e) \<le> char_total a + char_total b + char_total c + char_total d + char_total e"
  using char_total_append_le [of a "b @ c @ d @ e"] char_total_append_le [of b "c @ d @ e"]
    char_total_append_le [of c "d @ e"] char_total_append_le [of d e] by linarith

lemma elide_line_short:
  assumes "length l < 2 ^ 64"
  shows "char_total (elide_line l) \<le> LONG_LINE_MAX_CHARS"
proof (cases "char_total l \<le> LONG_LINE_MAX_CHARS")
  case False
  let ?d = "dec (char_total l - 360)"
  have "char_total l - 360 < 10 ^ 20" using assms char_total_le_length [of l] by simp
  then have d: "char_total ?d \<le> 20" using length_dec [of _ 20] char_total_le_length [of ?d] by fastforce
  have e: "elide_line l = head_chars l 240 @ ''<elided '' @ ?d @ '' chars>'' @ take_last_chars l 120"
    using False by (simp add: elide_line_def Let_def)
  have "char_total ''<elided '' = 8" "char_total '' chars>'' = 7" by code_simp+
  then show ?thesis
    using d char_total_take [of l 240] char_total_last [of l 120] unfolding e
    by (intro order_trans [OF char_total_append3]) linarith
qed (simp add: elide_line_def)

section \<open>Lines\<close>

text \<open>The segments of \<open>split_inclusive\<close>: complete lines, and a rest without line feed.\<close>

definition segments :: "str list \<Rightarrow> str \<Rightarrow> str list" where
  "segments ls r = map (\<lambda>l. l @ [nl]) ls @ (if r = [] then [] else [r])"

lemma split_inclusive_segments:
  obtains ls r where "split_inclusive_nl s = segments ls r" "\<forall>l \<in> set (r # ls). nl \<notin> set l"
proof -
  have "nl \<notin> set b \<Longrightarrow> \<exists>ls r. lines_acc b s = segments ls r \<and> (\<forall>l \<in> set (r # ls). nl \<notin> set l)" for b
  proof (induction b s rule: lines_acc.induct)
    case (1 b)
    then show ?case by (intro exI [of _ "[]"] exI [of _ b]) (simp add: segments_def)
  next
    case (2 b c s)
    show ?case
    proof (cases "c = nl")
      case True
      then obtain ls r where "lines_acc [] s = segments ls r" "\<forall>l \<in> set (r # ls). nl \<notin> set l"
        using 2(1) by auto
      then show ?thesis
        using True 2(3) by (intro exI [of _ "b # ls"] exI [of _ r]) (simp add: segments_def)
    qed (use 2 in auto)
  qed
  from this [of "[]"] show ?thesis using that by (auto simp: split_inclusive_nl_def)
qed

lemma elide_step_line:
  assumes "0 < i \<longrightarrow> out \<noteq> [] \<and> last out = nl"
  shows "elide_step (l @ [nl]) (i, out) = (Suc i, out @ elide_line l @ [nl])"
    "l \<noteq> [] \<Longrightarrow> last l \<noteq> nl \<Longrightarrow> elide_step l (i, out) = (Suc i, out @ elide_line l)"
proof -
  have out: "0 < i \<Longrightarrow> ends_with out [nl]" using assms by (cases out rule: rev_cases) auto
  then show "elide_step (l @ [nl]) (i, out) = (Suc i, out @ elide_line l @ [nl])"
    by (auto simp: elide_step_def Let_def)
  show "l \<noteq> [] \<Longrightarrow> last l \<noteq> nl \<Longrightarrow> elide_step l (i, out) = (Suc i, out @ elide_line l)"
    using out by (cases l rule: rev_cases) (auto simp: elide_step_def Let_def)
qed

lemma elide_step_lines:
  assumes "0 < i \<longrightarrow> out \<noteq> [] \<and> last out = nl"
  shows "fold elide_step (map (\<lambda>l. l @ [nl]) ls) (i, out) = (i + length ls, out @ unlines (map elide_line ls))"
  using assms by (induction ls arbitrary: i out) (simp_all add: elide_step_line)

lemma elide_segments:
  assumes "split_inclusive_nl s = segments ls r" "\<forall>l \<in> set (r # ls). nl \<notin> set l"
  shows "elide_long_lines s = unlines (map elide_line ls) @ elide_line r"
proof -
  let ?out = "unlines (map elide_line ls)"
  have f: "fold elide_step (map (\<lambda>l. l @ [nl]) ls) (0, []) = (length ls, ?out)"
    using elide_step_lines [of 0 "[]" ls] by simp
  have out: "0 < length ls \<Longrightarrow> ?out \<noteq> [] \<and> last ?out = nl"
    by (induction ls rule: rev_induct) auto
  have r: "elide_line [] = []" by (simp add: elide_line_def char_total_def)
  show ?thesis
  proof (cases "r = []")
    case True
    then show ?thesis by (simp add: elide_long_lines_def assms(1) segments_def f r)
  next
    case False
    then have "last r \<noteq> nl" using assms(2) last_in_set [OF False] by (metis list.set_intros(1))
    then show ?thesis
      using False out by (simp add: elide_long_lines_def assms(1) segments_def f elide_step_line)
  qed
qed

lemma split_nl_unlines:
  "\<forall>l \<in> set (r # ls). nl \<notin> set l \<Longrightarrow> split_nl (unlines ls @ r) = ls @ [r]"
  by (induction ls) (auto simp: split_nl_hd split_nl_id)

lemma length_segment:
  assumes "split_inclusive_nl s = segments ls r" "l \<in> set (r # ls)" shows "length l \<le> length s"
proof -
  have "s = concat (segments ls r)"
    using assms(1) concat_lines_acc [of "[]" s] by (simp add: split_inclusive_nl_def)
  then have "length s = length r + sum_list (map (\<lambda>l. Suc (length l)) ls)"
    by (auto simp: segments_def length_concat comp_def)
  moreover have "l \<in> set ls \<Longrightarrow> Suc (length l) \<le> sum_list (map (\<lambda>l. Suc (length l)) ls)"
    by (intro member_le_sum_list) auto
  ultimately show ?thesis using assms(2) by fastforce
qed

text \<open>No line of a cleaned tool result is longer than 800 characters: whatever the tool printed and
  whatever was redacted, the text that enters the transcript and the file of the full result has only
  lines of at most 800 characters, as long as the text before the last step fits into memory.\<close>

theorem cleaned_lines_are_short:
  assumes "length (fst (redact_secrets rx (strip_ansi_and_controls rx (fold_carriage_returns raw)))) < 2 ^ 64"
    and "l \<in> set (split_nl (so_text (sanitize_tool_output rx raw)))"
  shows "char_total l \<le> 800"
proof -
  define t where "t = fst (redact_secrets rx (strip_ansi_and_controls rx (fold_carriage_returns raw)))"
  have e: "so_text (sanitize_tool_output rx raw) = elide_long_lines t"
    by (simp add: sanitize_tool_output_def t_def split: prod.split)
  obtain ls r where s: "split_inclusive_nl t = segments ls r" "\<forall>l \<in> set (r # ls). nl \<notin> set l"
    by (rule split_inclusive_segments)
  have "split_nl (unlines (map elide_line ls) @ elide_line r) = map elide_line ls @ [elide_line r]"
    by (rule split_nl_unlines) (use s(2) elide_line_no_nl in auto)
  then have "split_nl (so_text (sanitize_tool_output rx raw)) = map elide_line ls @ [elide_line r]"
    using elide_segments [OF s] e by simp
  then obtain m where m: "m \<in> set (r # ls)" "l = elide_line m" using assms(2) by auto
  then have "length m < 2 ^ 64" using length_segment [OF s(1)] assms(1) by (fastforce simp: t_def)
  then show ?thesis using elide_line_short m(2) by simp
qed

section \<open>Carriage returns\<close>

lemma split_inclusive_unlines_segments:
  "\<forall>l \<in> set ls. nl \<notin> set l \<Longrightarrow> split_inclusive_nl (unlines ls) = segments ls []"
  by (simp add: split_inclusive_unlines segments_def)

lemma last_frame_cr: "last_frame (l @ [cr]) = []"
  using rsplit_at_char_append [of cr "[]" l] by (simp add: last_frame_def)

lemma fold_crlf:
  assumes "\<forall>l \<in> set ls. nl \<notin> set l"
  shows "fold_carriage_returns (unlines (map (\<lambda>l. l @ [cr]) ls)) = replicate (length ls) nl"
proof -
  have "split_inclusive_nl (unlines (map (\<lambda>l. l @ [cr]) ls)) = map (\<lambda>l. (l @ [cr]) @ [nl]) ls"
    using split_inclusive_unlines [of "map (\<lambda>l. l @ [cr]) ls"] assms by (auto simp: comp_def)
  moreover have "fold_segment ((l @ [cr]) @ [nl]) = [nl]" for l
    using last_frame_cr [of l] by (simp add: fold_segment_def butlast_append)
  ultimately show ?thesis
    by (simp add: fold_carriage_returns_def comp_def map_replicate_const concat_replicate_trivial)
qed

lemma chars_of_nl: "chars_of (replicate n nl) = replicate n [nl]"
proof (induction n)
  case (Suc n)
  then show ?case using chars_of_append [of "replicate n nl" "[nl]"]
    by (cases n) (simp_all add: is_continuation_def)
qed simp

lemma strip_nl: "concat (fold strip_char (replicate n [nl]) []) = replicate n nl"
proof -
  have "fold strip_char (replicate n [nl]) out = out @ replicate n [nl]" for out
    by (induction n arbitrary: out) (auto simp: strip_char_def)
  moreover have "concat (replicate n [nl]) = replicate n nl" by (induction n) auto
  ultimately show ?thesis by simp
qed

lemma redact_nothing: "\<forall>pat. rx pat s = [] \<Longrightarrow> redact_secrets rx s = (s, 0)"
  by (simp add: redact_secrets_def secret_regexes_def redact_one_def)

lemma elide_nl: "elide_long_lines (replicate n nl) = replicate n nl"
proof -
  have "replicate n nl = unlines (replicate n [])" by (induction n) auto
  moreover have "elide_line [] = []" by (simp add: elide_line_def char_total_def)
  ultimately show ?thesis
    using elide_segments [of "replicate n nl" "replicate n []" "[]"]
      split_inclusive_unlines_segments [of "replicate n []"] by simp
qed

text \<open>Text with Windows line ends loses every line: of a result whose lines end with a carriage return
  and a line feed only the line feeds are left, in the transcript and in the file of the full
  result, because folding keeps what is behind the last carriage return of a line.\<close>

theorem crlf_lines_are_erased:
  assumes "\<forall>l \<in> set ls. nl \<notin> set l" and "\<forall>pat. rx pat (replicate (length ls) nl) = []"
  shows "so_text (sanitize_tool_output rx (unlines (map (\<lambda>l. l @ [cr]) ls))) = replicate (length ls) nl"
proof -
  have "regex_replace_all rx ansi_pattern [] (replicate (length ls) nl) = replicate (length ls) nl"
    using assms(2) by (simp add: regex_replace_all_def)
  then have "strip_ansi_and_controls rx (replicate (length ls) nl) = replicate (length ls) nl"
    by (simp add: strip_ansi_and_controls_def chars_of_nl strip_nl [simplified])
  then show ?thesis
    unfolding sanitize_tool_output_def fold_crlf [OF assms(1)] using assms(2)
    by (simp add: redact_nothing elide_nl)
qed

section \<open>Previews\<close>

lemma head_preview_accounts:
  assumes "32 \<le> pp_max_chars policy"
  shows "pv_shown_head_chars (head_tail_preview s policy) + pv_omitted_chars (head_tail_preview s policy) +
    pv_shown_tail_chars (head_tail_preview s policy) = char_total s"
  using assms by (auto simp: head_tail_preview_def Let_def max_def)

section \<open>Witnesses\<close>

lemma cleaned_lines_are_short_witness:
  "char_total ''ok'' \<le> 800 \<and> split_nl (so_text (sanitize_tool_output (\<lambda>_ _. []) ''ok'')) = [''ok'']"
proof -
  have "so_text (sanitize_tool_output (\<lambda>_ _. []) ''ok'') = ''ok''" by code_simp
  moreover have "fst (redact_secrets (\<lambda>_ _. []) (strip_ansi_and_controls (\<lambda>_ _. [])
      (fold_carriage_returns ''ok''))) = ''ok''" by code_simp
  moreover have "split_nl ''ok'' = [''ok'']" by code_simp
  ultimately show ?thesis using cleaned_lines_are_short [of "\<lambda>_ _. []" "''ok''" "''ok''"] by simp
qed

lemma crlf_lines_are_erased_witness:
  "so_text (sanitize_tool_output (\<lambda>_ _. []) (''HTTP/1.1 200 OK'' @ [cr, nl] @ ''Date: x'' @ [cr, nl])) = [nl, nl]"
  using crlf_lines_are_erased [of "[''HTTP/1.1 200 OK'', ''Date: x'']" "\<lambda>_ _. []"] by (simp add: numeral_2_eq_2)

end
