(* ===== verification/Context_Laws.thy ===== *)
theory Context_Laws
  imports Context_Window Transcript_Laws Output_Laws
begin

text \<open>
  Every step that shrinks a transcript keeps the protocol of the model interfaces; shadowing is
  idempotent and keeps what it removes, but it also replaces the file of a result that already had
  one; and the emergency reset of a session with few turns removes nothing.
\<close>

section \<open>Shadowing keeps the calls\<close>

abbreviation result_key :: "tool_result \<Rightarrow> str \<times> str" where
  "result_key r \<equiv> (tr_call_id r, tr_name r)"

definition same_shape :: "transcript_entry \<Rightarrow> transcript_entry \<Rightarrow> bool" where
  "same_shape e f \<longleftrightarrow>
     (case e of
        ToolResults rs \<Rightarrow> (\<exists>rs'. f = ToolResults rs' \<and> map result_key rs' = map result_key rs)
      | _ \<Rightarrow> f = e)"

lemma same_shape_simps [simp]:
  "same_shape (UserEntry u) f \<longleftrightarrow> f = UserEntry u"
  "same_shape (AssistantEntry a) f \<longleftrightarrow> f = AssistantEntry a"
  "same_shape (ToolResults rs) f \<longleftrightarrow> (\<exists>rs'. f = ToolResults rs' \<and> map result_key rs' = map result_key rs)"
  by (simp_all add: same_shape_def)

lemma same_shape_user: "same_shape e f \<Longrightarrow> is_user f = is_user e"
  by (cases e) (auto simp: is_user_def)

lemma shadow_result_key: "result_key (fst (shadow_result rx pol pr r rep)) = result_key r"
  by (simp add: shadow_result_def Let_def plain_result_def)

lemma shadow_results_keys:
  "map result_key (fst (shadow_results rx pol pr rs rep)) = map result_key rs"
  using shadow_result_key [of rx pol pr]
  by (induction rs arbitrary: rep) (simp_all add: split_beta Let_def)

lemma shadow_entries_shape: "list_all2 same_shape es (fst (shadow_entries rx pol pf i es rep))"
  using shadow_results_keys [of rx pol]
  by (induction es arbitrary: i rep)
    (auto simp: split_beta Let_def split: transcript_entry.split)

lemma answers_keys: "map result_key rs' = map result_key rs \<Longrightarrow> answers cs rs' = answers cs rs"
  by (simp add: answers_def)

lemma paired_shape: "list_all2 same_shape es fs \<Longrightarrow> paired fs = paired es"
proof (induction es arbitrary: fs rule: paired.induct)
  case (4 a es)
  then obtain gs where fs: "fs = AssistantEntry a # gs" "list_all2 same_shape es gs"
    by (auto simp: list_all2_Cons1)
  show ?case
  proof (cases "ae_tool_calls a = []")
    case True
    then show ?thesis using 4(1) fs by simp
  next
    case False
    show ?thesis
    proof (cases es)
      case (Cons e es')
      then show ?thesis
        using 4(2) [OF False Cons] fs False by (cases e) (auto simp: list_all2_Cons1 dest: answers_keys)
    qed (use fs False in simp)
  qed
qed (auto simp: list_all2_Cons1)

lemma typed_shape: "list_all2 same_shape es fs \<Longrightarrow> list_all typed_entry fs = list_all typed_entry es"
proof (induction es arbitrary: fs)
  case (Cons e es)
  then show ?case by (cases e) (auto simp: list_all2_Cons1 typed_entry_def)
qed simp

lemma well_formed_shape: "list_all2 same_shape es fs \<Longrightarrow> well_formed fs = well_formed es"
  by (simp add: well_formed_def paired_shape typed_shape)

section \<open>Counts and texts\<close>

text \<open>What is removed is handed to the caller, and nothing that was handed over is dropped.\<close>

definition kept_aside :: "regex_engine \<Rightarrow> microcompact_report \<Rightarrow> tool_result \<Rightarrow> bool" where
  "kept_aside rx rep r \<longleftrightarrow>
     (tr_call_id r, so_text (sanitize_tool_output rx (tr_content r))) \<in> set (mc_shadowed_artifacts rep)"

lemma shadow_result_cases:
  assumes "shadow_result rx pol pr r rep = (r', rep')"
  shows "r' = r \<and> mc_shadowed_artifacts rep' = mc_shadowed_artifacts rep \<or>
    \<not> pr \<and> mc_shadowed_artifacts rep' = mc_shadowed_artifacts rep @
        [(tr_call_id r, so_text (sanitize_tool_output rx (tr_content r)))] \<and>
      is_already_shadowed (tr_content r')"
  using assms
  by (auto simp: shadow_result_def Let_def plain_result_def is_already_shadowed_def shadow_placeholder_def
      shadowed_heading_def shadowed_prefix_def split: if_splits)

lemma shadow_results_arts:
  "shadow_results rx pol pr rs rep = (rs', rep') \<Longrightarrow>
    set (mc_shadowed_artifacts rep) \<subseteq> set (mc_shadowed_artifacts rep') \<and>
    list_all2 (\<lambda>r r'. r' = r \<or> \<not> pr \<and> kept_aside rx rep' r) rs rs'"
proof (induction rs arbitrary: rs' rep)
  case (Cons r rs)
  obtain r1 rep1 where r: "shadow_result rx pol pr r rep = (r1, rep1)" by fastforce
  obtain rs1 rep2 where rs: "shadow_results rx pol pr rs rep1 = (rs1, rep2)" by fastforce
  have eq: "rs' = r1 # rs1" "rep' = rep2" using Cons.prems r rs by simp_all
  show ?case
    using Cons.IH [OF rs [folded eq(2)]] shadow_result_cases [OF r] by (auto simp: eq kept_aside_def)
qed simp

fun removed_with_care :: "regex_engine \<Rightarrow> microcompact_report \<Rightarrow> transcript_entry \<Rightarrow> transcript_entry \<Rightarrow> bool" where
  "removed_with_care rx rep (ToolResults rs) (ToolResults rs') \<longleftrightarrow>
     list_all2 (\<lambda>r r'. r' = r \<or> kept_aside rx rep r) rs rs'"
| "removed_with_care rx rep e f \<longleftrightarrow> f = e"

lemma removed_mono:
  "removed_with_care rx rep e f \<Longrightarrow> set (mc_shadowed_artifacts rep) \<subseteq> set (mc_shadowed_artifacts rep') \<Longrightarrow>
    removed_with_care rx rep' e f"
  by (cases "(rx, rep, e, f)" rule: removed_with_care.cases)
    (auto simp: kept_aside_def elim!: list.rel_mono_strong)

lemma list_all2_refl_eq: "list_all2 (\<lambda>r r'. r' = r \<or> P r) rs rs"
  by (simp add: list_all2_same)

lemma drop_step: "drop (n - i) (x # xs) = (if n \<le> i then x # xs else drop (n - Suc i) xs)"
  by (cases "n \<le> i") (auto simp: drop_Cons' diff_Suc split: nat.splits)

lemma shadow_entries_arts:
  "shadow_entries rx pol pf i es rep = (es', rep') \<Longrightarrow>
    set (mc_shadowed_artifacts rep) \<subseteq> set (mc_shadowed_artifacts rep') \<and>
    list_all2 (removed_with_care rx rep') es es' \<and> drop (pf - i) es' = drop (pf - i) es"
proof (induction es arbitrary: i es' rep)
  case (Cons e es)
  show ?case
  proof (cases "\<exists>rs. e = ToolResults rs")
    case True
    then obtain rs where e: "e = ToolResults rs" by blast
    obtain rs1 rep1 where r: "shadow_results rx pol (pf \<le> i) rs rep = (rs1, rep1)" by fastforce
    obtain es1 rep2 where es: "shadow_entries rx pol pf (Suc i) es rep1 = (es1, rep2)" by fastforce
    have eq: "es' = ToolResults rs1 # es1" "rep' = rep2" using Cons.prems r es e by simp_all
    have IH: "set (mc_shadowed_artifacts rep1) \<subseteq> set (mc_shadowed_artifacts rep')"
      "list_all2 (removed_with_care rx rep') es es1" "drop (pf - Suc i) es1 = drop (pf - Suc i) es"
      using Cons.IH [OF es [folded eq(2)]] by simp_all
    have A: "set (mc_shadowed_artifacts rep) \<subseteq> set (mc_shadowed_artifacts rep1)"
      "list_all2 (\<lambda>r r'. r' = r \<or> \<not> pf \<le> i \<and> kept_aside rx rep1 r) rs rs1"
      using shadow_results_arts [OF r] by simp_all
    have "list_all2 (\<lambda>r r'. r' = r \<or> kept_aside rx rep' r) rs rs1"
      using A(2) IH(1) by (auto simp: kept_aside_def elim!: list.rel_mono_strong)
    moreover have "rs1 = rs" if "pf \<le> i"
    proof -
      have "list_all2 (=) rs rs1" using A(2) that by (auto elim!: list.rel_mono_strong)
      then show ?thesis by (simp add: list.rel_eq)
    qed
    ultimately show ?thesis using A(1) IH by (auto simp: eq e drop_step)
  next
    case False
    obtain es1 where es: "shadow_entries rx pol pf (Suc i) es rep = (es1, rep')" "es' = e # es1"
      using Cons.prems False by (cases e) (auto split: prod.splits)
    have "removed_with_care rx rep' e e" using False by (cases e) auto
    then show ?thesis using Cons.IH [OF es(1)] by (auto simp: es(2) drop_step)
  qed
qed simp

text \<open>The results of a transcript that shadowing looks at, and what the counts of the report are.\<close>

definition compactable_results :: "transcript_entry list \<Rightarrow> tool_result list" where
  "compactable_results es =
     filter (\<lambda>r. is_compactable (tr_name r)) (concat (map (\<lambda>e. case e of ToolResults rs \<Rightarrow> rs | _ \<Rightarrow> []) es))"

definition counted :: "tool_result list \<Rightarrow> microcompact_report \<Rightarrow> microcompact_report \<Rightarrow> bool" where
  "counted rs rep rep' \<longleftrightarrow>
     mc_total_compactable rep' = mc_total_compactable rep + length rs \<and>
     mc_shadowed_count rep' = mc_shadowed_count rep + length (filter (\<lambda>r. is_already_shadowed (tr_content r)) rs) \<and>
     mc_kept_count rep' = mc_kept_count rep + length (filter (\<lambda>r. \<not> is_already_shadowed (tr_content r)) rs)"

lemma counted_nil [simp]: "counted [] rep rep"
  by (simp add: counted_def)

lemma counted_append: "counted xs rep rep1 \<Longrightarrow> counted ys rep1 rep2 \<Longrightarrow> counted (xs @ ys) rep rep2"
  by (simp add: counted_def)

lemma shadow_result_counted:
  assumes "shadow_result rx pol pr r rep = (r', rep')"
  shows "counted (compactable_results [ToolResults [r']]) rep rep'"
  using assms
  by (auto simp: shadow_result_def Let_def plain_result_def is_already_shadowed_def shadow_placeholder_def
      shadowed_heading_def shadowed_prefix_def counted_def compactable_results_def split: if_splits)

lemma shadow_results_counted:
  "shadow_results rx pol pr rs rep = (rs', rep') \<Longrightarrow> counted (compactable_results [ToolResults rs']) rep rep'"
proof (induction rs arbitrary: rs' rep)
  case (Cons r rs)
  obtain r1 rep1 where r: "shadow_result rx pol pr r rep = (r1, rep1)" by fastforce
  obtain rs1 rep2 where rs: "shadow_results rx pol pr rs rep1 = (rs1, rep2)" by fastforce
  have eq: "rs' = [r1] @ rs1" "rep' = rep2" using Cons.prems r rs by simp_all
  show ?case
    using counted_append [OF shadow_result_counted [OF r] Cons.IH [OF rs [folded eq(2)]]]
    unfolding eq by (simp add: compactable_results_def split: if_splits)
qed (simp add: compactable_results_def)

lemma shadow_entries_counted:
  "shadow_entries rx pol pf i es rep = (es', rep') \<Longrightarrow> counted (compactable_results es') rep rep'"
proof (induction es arbitrary: i es' rep)
  case (Cons e es)
  obtain e1 rep1 where e: "(case e of ToolResults rs \<Rightarrow>
      (let (rs', rep') = shadow_results rx pol (pf \<le> i) rs rep in (ToolResults rs', rep')) | _ \<Rightarrow> (e, rep)) = (e1, rep1)"
    by (metis prod.exhaust)
  obtain es1 where es: "shadow_entries rx pol pf (Suc i) es rep1 = (es1, rep')" "es' = e1 # es1"
    using Cons.prems e by (auto split: prod.splits)
  have "counted (compactable_results [e1]) rep rep1"
  proof (cases e)
    case (ToolResults rs)
    then show ?thesis using e shadow_results_counted by (fastforce split: prod.splits)
  qed (use e in \<open>auto simp: compactable_results_def\<close>)
  from counted_append [OF this Cons.IH [OF es(1)]] show ?case by (simp add: es(2) compactable_results_def)
qed (simp add: compactable_results_def)

lemma compactable_Cons: "compactable_results (e # es) = compactable_results [e] @ compactable_results es"
  by (simp add: compactable_results_def)

lemma filter_keys:
  "map result_key ys = map result_key xs \<Longrightarrow>
    map result_key (filter (\<lambda>r. is_compactable (tr_name r)) ys) =
      map result_key (filter (\<lambda>r. is_compactable (tr_name r)) xs)"
proof (induction xs arbitrary: ys)
  case (Cons x xs)
  then obtain y zs where y: "ys = y # zs" "result_key y = result_key x" "map result_key zs = map result_key xs"
    by (cases ys) auto
  have "tr_name y = tr_name x" "tr_call_id y = tr_call_id x" using y(2) by simp_all
  then show ?case using Cons.IH [OF y(3)] by (simp add: y(1))
qed simp

lemma compactable_keys:
  "list_all2 same_shape es es' \<Longrightarrow>
    map result_key (compactable_results es') = map result_key (compactable_results es)"
proof (induction es es' rule: list_all2_induct)
  case (Cons e es f fs)
  have "map result_key (compactable_results [f]) = map result_key (compactable_results [e])"
  proof (cases e)
    case (ToolResults rs)
    then obtain rs' where rs: "f = ToolResults rs'" "map result_key rs' = map result_key rs" using Cons(1) by auto
    show ?thesis using filter_keys [OF rs(2)] by (simp add: compactable_results_def ToolResults rs(1))
  qed (use Cons(1) in simp_all)
  then show ?case
    using Cons(3) by (simp only: compactable_Cons [of e es] compactable_Cons [of f fs] map_append)
qed simp

text \<open>C28. Shadowing keeps the protocol: the transcript stays well-formed, with the same calls and results
  in the same places; the protected last turns are untouched; every result is unchanged, or its text
  as \<open>sanitize_tool_output\<close> cleans it is handed to the caller under the id of its call; and the report
  counts every result of a compactable tool once, as shadowed or as kept by what it is afterwards.\<close>

theorem shadowing_keeps_the_protocol:
  assumes "microcompact_entries rx es pressure policy = (es', rep)"
  shows "well_formed es' = well_formed es \<and> list_all2 same_shape es es' \<and>
    list_all2 (removed_with_care rx rep) es es' \<and>
    drop (protected_suffix_start es (mp_recent_turns_to_keep policy)) es' =
      drop (protected_suffix_start es (mp_recent_turns_to_keep policy)) es \<and>
    mc_total_compactable rep = length (compactable_results es) \<and>
    mc_shadowed_count rep = length (filter (\<lambda>r. is_already_shadowed (tr_content r)) (compactable_results es')) \<and>
    mc_kept_count rep = length (filter (\<lambda>r. \<not> is_already_shadowed (tr_content r)) (compactable_results es'))"
proof -
  let ?pf = "protected_suffix_start es (mp_recent_turns_to_keep policy)"
  obtain rep0 where s: "shadow_entries rx policy ?pf 0 es empty_report = (es', rep0)"
    and rep: "rep = rep0\<lparr>mc_pressure := pressure\<rparr>"
    using assms by (auto simp: microcompact_entries_def Let_def split: prod.splits)
  have "counted (compactable_results es') empty_report rep0" by (rule shadow_entries_counted [OF s])
  moreover have shape: "list_all2 same_shape es es'"
    using shadow_entries_shape [of es rx policy ?pf 0 empty_report] s by simp
  moreover have "length (compactable_results es') = length (compactable_results es)"
    using map_eq_imp_length_eq [OF compactable_keys [OF shape]] .
  moreover have "list_all2 (removed_with_care rx rep) es es'"
    using shadow_entries_arts [OF s] by (auto simp: rep elim!: list.rel_mono_strong removed_mono)
  ultimately show ?thesis
    using shadow_entries_arts [OF s] by (simp add: rep counted_def empty_report_def well_formed_shape)
qed

section \<open>Shadowing twice\<close>

lemma scan_back_shape:
  "list_all2 (\<lambda>(i, e) (j, f). i = j \<and> is_user e = is_user f) xs ys \<Longrightarrow>
    scan_back keep seen xs = scan_back keep seen ys"
  by (induction xs arbitrary: ys seen) (auto simp: list_all2_Cons1)

lemma protected_suffix_shape:
  assumes "list_all2 same_shape es fs"
  shows "protected_suffix_start fs keep = protected_suffix_start es keep"
proof -
  have "list_all2 (\<lambda>(i, e) (j, f). i = j \<and> is_user e = is_user f) (enumerate n es) (enumerate n fs)" for n
    using assms by (induction es fs arbitrary: n rule: list_all2_induct) (auto dest: same_shape_user)
  then show ?thesis
    using assms scan_back_shape [of "rev (enumerate 0 es)" "rev (enumerate 0 fs)"]
    by (simp add: protected_suffix_start_def list_all2_lengthD)
qed

lemma shadow_result_twice:
  assumes "shadow_result rx pol pr r rep = (r', rep')"
  shows "fst (shadow_result rx pol pr r' rep2) = r' \<and>
    mc_shadowed_artifacts (snd (shadow_result rx pol pr r' rep2)) = mc_shadowed_artifacts rep2"
proof (cases "is_already_shadowed (tr_content r')")
  case True
  then show ?thesis by (simp add: shadow_result_def Let_def)
next
  case False
  then have "r' = r \<and> (\<not> is_compactable (tr_name r) \<or> pr \<or>
      estimate_tokens (tr_content r) < mp_min_tokens_per_result pol)"
    using assms shadow_result_cases [OF assms]
    by (auto simp: shadow_result_def Let_def plain_result_def split: if_splits)
  then show ?thesis by (auto simp: shadow_result_def Let_def)
qed

lemma shadow_results_twice:
  "fst (shadow_results rx pol pr (fst (shadow_results rx pol pr rs rep)) rep2) =
      fst (shadow_results rx pol pr rs rep) \<and>
    mc_shadowed_artifacts (snd (shadow_results rx pol pr (fst (shadow_results rx pol pr rs rep)) rep2)) =
      mc_shadowed_artifacts rep2"
proof (induction rs arbitrary: rep rep2)
  case (Cons r rs)
  obtain r1 rep1 where "shadow_result rx pol pr r rep = (r1, rep1)" by fastforce
  then show ?case using shadow_result_twice [of rx pol pr r rep r1 rep1 rep2] Cons
    by (simp add: split_beta Let_def)
qed simp

lemma shadow_entries_twice:
  "fst (shadow_entries rx pol pf i (fst (shadow_entries rx pol pf i es rep)) rep2) =
      fst (shadow_entries rx pol pf i es rep) \<and>
    mc_shadowed_artifacts (snd (shadow_entries rx pol pf i (fst (shadow_entries rx pol pf i es rep)) rep2)) =
      mc_shadowed_artifacts rep2"
proof (induction es arbitrary: i rep rep2)
  case (Cons e es)
  then show ?case
    using shadow_results_twice [of rx pol "pf \<le> i"] by (cases e) (simp_all add: split_beta Let_def)
qed simp

text \<open>Shadowing is idempotent: a second run over its own result changes nothing and hands over no text
  again, whatever the pressure is by then.\<close>

theorem shadowing_is_idempotent:
  "fst (microcompact_entries rx (fst (microcompact_entries rx es pressure policy)) pressure2 policy) =
      fst (microcompact_entries rx es pressure policy) \<and>
    mc_shadowed_artifacts (snd (microcompact_entries rx (fst (microcompact_entries rx es pressure policy))
      pressure2 policy)) = []"
proof -
  let ?pf = "protected_suffix_start es (mp_recent_turns_to_keep policy)"
  let ?es = "fst (shadow_entries rx policy ?pf 0 es empty_report)"
  have f: "fst (microcompact_entries rx es pressure policy) = ?es"
    by (simp add: microcompact_entries_def Let_def split_beta)
  have "protected_suffix_start ?es (mp_recent_turns_to_keep policy) = ?pf"
    by (rule protected_suffix_shape [OF shadow_entries_shape])
  then show ?thesis
    using shadow_entries_twice [of rx policy ?pf 0 es empty_report empty_report]
    unfolding f by (simp add: microcompact_entries_def Let_def split_beta empty_report_def)
qed

section \<open>The emergency reset\<close>

lemma scan_back_member: "scan_back keep seen xs = 0 \<or> (\<exists>e. (scan_back keep seen xs, e) \<in> set xs \<and> is_user e)"
  by (induction keep seen xs rule: scan_back.induct) auto

lemma scan_back_few:
  "seen + length (filter is_user (map snd xs)) < keep \<Longrightarrow> scan_back keep seen xs = 0"
  by (induction keep seen xs rule: scan_back.induct) auto

lemma recent_turn_start_user:
  "0 < keep \<Longrightarrow> recent_turn_start es keep = 0 \<or>
    recent_turn_start es keep < length es \<and> is_user (es ! recent_turn_start es keep)"
  using scan_back_member [of keep 0 "rev (enumerate 0 es)"]
  by (auto simp: recent_turn_start_def in_set_enumerate_eq)

lemma recent_turn_start_few:
  "length (filter is_user es) < keep \<Longrightarrow> recent_turn_start es keep = 0"
  using scan_back_few [of 0 "rev (enumerate 0 es)" keep]
  by (simp add: recent_turn_start_def rev_map [symmetric] rev_filter [symmetric])

lemma paired_drop: "paired es \<Longrightarrow> i < length es \<Longrightarrow> is_user (es ! i) \<Longrightarrow> paired (drop i es)"
proof (induction es arbitrary: i rule: paired.induct)
  case (4 a es)
  then obtain j where j: "i = Suc j" by (cases i) (auto simp: is_user_def)
  show ?case
  proof (cases "ae_tool_calls a = []")
    case False
    then obtain rs fs where es: "es = ToolResults rs # fs" "paired fs"
      using 4(3) by (auto split: list.splits transcript_entry.splits)
    then obtain k where "j = Suc k" using 4(5) j by (cases j) (auto simp: is_user_def)
    then show ?thesis using 4(2) [OF False es(1) refl, of k] 4(3-) j es by simp
  qed (use 4 j in auto)
qed (auto simp: nth_Cons' drop_Cons' split: if_splits)

lemma well_formed_drop: "well_formed es \<Longrightarrow> i < length es \<Longrightarrow> is_user (es ! i) \<Longrightarrow> well_formed (drop i es)"
  by (auto simp: well_formed_def paired_drop list_all_iff dest: in_set_dropD)

lemma well_formed_pair: "well_formed ([user_turn s atts, assistant_turn t r []] @ es) = well_formed es"
  by (simp add: well_formed_def user_turn_def assistant_turn_def typed_entry_def typed_calls_def)

text \<open>The emergency reset keeps the protocol: of a well-formed transcript it keeps a suffix that starts
  at a user turn, or all of it, behind one user and one assistant turn, and the result is
  well-formed again.\<close>

theorem emergency_reset_is_well_formed:
  assumes "well_formed es"
  shows "well_formed (cr_entries (build_emergency_reset js system es policy reason)) \<and>
    (\<exists>s i. cr_entries (build_emergency_reset js system es policy reason) =
        [user_turn s [], assistant_turn emergency_ack [] []] @ drop i es \<and>
      (i = 0 \<or> i < length es \<and> is_user (es ! i)))"
proof -
  let ?i = "recent_turn_start es (max (cp_keep_recent_turns policy) 3)"
  have i: "?i = 0 \<or> ?i < length es \<and> is_user (es ! ?i)" by (rule recent_turn_start_user) simp
  then have "well_formed (drop ?i es)" using assms well_formed_drop [of es ?i] by auto
  then have "well_formed (cr_entries (build_emergency_reset js system es policy reason))"
    using well_formed_pair by (simp add: build_emergency_reset_def Let_def)
  then show ?thesis
    using i by (intro conjI) (simp, auto simp: build_emergency_reset_def Let_def)
qed

text \<open>The emergency reset of a session with few turns removes nothing: with fewer user turns than it
  keeps, which are at least three, the transcript that is sent again after the model found it too
  long is the old one with two turns in front, and its estimate has grown.\<close>

theorem emergency_reset_of_few_turns_grows:
  assumes "length (filter is_user es) < max (cp_keep_recent_turns policy) 3"
  shows "(\<exists>s. cr_entries (build_emergency_reset js system es policy reason) =
        [user_turn s [], assistant_turn emergency_ack [] []] @ es) \<and>
    cr_before_tokens (build_emergency_reset js system es policy reason) <
      cr_after_tokens (build_emergency_reset js system es policy reason)"
  using recent_turn_start_few [OF assms]
  by (simp add: build_emergency_reset_def Let_def estimate_transcript_tokens_def user_turn_def)

section \<open>Results with a file\<close>

lemma materialize_artifact:
  assumes "materialize_tool_output rx can place raw tool cid err fs = ((txt, Some a), fs')"
  obtains dd sid where "place = Some (dd, sid)" "can (tool_result_path dd sid cid)"
    "ta_path a = tool_result_path dd sid cid"
    "fs' = fs(components (ta_path a) \<mapsto> so_text (sanitize_tool_output rx raw))"
  using assms
  by (auto simp: materialize_tool_output_def save_tool_result_def Let_def split: if_splits option.splits)

lemma finish_artifact:
  assumes "finish_tool_call rx can place hook name cid fin fs = (r, tr, er, fs')" "tr_artifact r = Some a"
  obtains raw atts err dd sid where "fin = ToolReturned raw atts err" "place = Some (dd, sid)"
    "can (tool_result_path dd sid cid)" "ta_path a = tool_result_path dd sid cid" "tr_call_id r = cid"
    "fs' = fs(components (ta_path a) \<mapsto> so_text (sanitize_tool_output rx raw))"
proof (cases fin)
  case (ToolReturned raw atts err)
  obtain c where m: "materialize_tool_output rx can place raw name cid err fs = ((c, Some a), fs')"
    "tr_call_id r = cid"
    using assms ToolReturned
    by (auto simp: finish_tool_call_def Let_def split: if_splits prod.splits option.splits)
  show ?thesis
    by (rule materialize_artifact [OF m(1)]) (rule that [OF ToolReturned _ _ _ m(2)])
qed (use assms in \<open>auto simp: finish_tool_call_def Let_def split: if_splits option.splits prod.splits\<close>)

lemma save_shadowed_last:
  assumes "can (tool_result_path dd sid cid)"
  shows "save_shadowed can (Some (dd, sid)) (arts @ [(cid, content)]) fs
    (components (tool_result_path dd sid cid)) = Some content"
  using assms by (auto simp: save_shadowed_def save_tool_result_def Let_def split: option.split)

text \<open>Shadowing replaces the file of a result that already has one: when the full output of a call was
  saved and only an excerpt entered the transcript, and that excerpt is shadowed later, then the
  excerpt is saved to the same file, and the full output both texts point to is gone.\<close>

theorem shadowing_replaces_the_full_output:
  assumes "finish_tool_call rx can (Some (dd, sid)) hook name cid (ToolReturned raw atts err) fs =
      (r, tr, er, fs')"
    and "tr_artifact r = Some a"
    and "shadow_result rx policy False r rep = (r', rep')" and "r' \<noteq> r"
  shows "fs' (components (ta_path a)) = Some (so_text (sanitize_tool_output rx raw)) \<and>
    save_shadowed can (Some (dd, sid)) (mc_shadowed_artifacts rep') fs' (components (ta_path a)) =
      Some (so_text (sanitize_tool_output rx (tr_content r)))"
proof -
  have f: "can (tool_result_path dd sid cid)" "ta_path a = tool_result_path dd sid cid" "tr_call_id r = cid"
    "fs' = fs(components (ta_path a) \<mapsto> so_text (sanitize_tool_output rx raw))"
    using finish_artifact [OF assms(1,2)] by (metis (no_types) Pair_inject option.inject tool_end.inject(1))+
  have "mc_shadowed_artifacts rep' =
      mc_shadowed_artifacts rep @ [(cid, so_text (sanitize_tool_output rx (tr_content r)))]"
    using shadow_result_cases [OF assms(3)] assms(4) f(3) by auto
  then show ?thesis using f save_shadowed_last by simp
qed

section \<open>Plain text\<close>

text \<open>Cleaning leaves text alone that has only printable ASCII in short lines.\<close>

definition printable :: "str \<Rightarrow> bool" where
  "printable l \<longleftrightarrow> list_all (\<lambda>c. 32 \<le> (of_char c :: nat) \<and> (of_char c :: nat) < 127) l"

lemma printable_chars:
  assumes "printable l"
  shows "nl \<notin> set l" "cr \<notin> set l" "chars_of l = map (\<lambda>c. [c]) l" "char_total l = length l"
proof -
  show "nl \<notin> set l" "cr \<notin> set l" using assms by (auto simp: printable_def list_all_iff)
  show c: "chars_of l = map (\<lambda>c. [c]) l"
    using assms
  proof (induction l)
    case (Cons x l)
    then have "takeWhile is_continuation l = []" "dropWhile is_continuation l = l"
      by (cases l; auto simp: printable_def is_continuation_def)+
    then show ?case using Cons by (simp add: printable_def)
  qed simp
  show "char_total l = length l" by (simp add: char_total_def c)
qed

lemma fold_plain: "\<forall>l \<in> set ls. printable l \<Longrightarrow> fold_carriage_returns (unlines ls) = unlines ls"
proof -
  assume ls: "\<forall>l \<in> set ls. printable l"
  have "fold_segment (l @ [nl]) = l @ [nl]" if "printable l" for l
    using printable_chars(2) [OF that]
    by (simp add: fold_segment_def last_frame_def rsplit_at_char_def split_at_char_None
        split_at_char_None [THEN iffD2])
  then have "map fold_segment (map (\<lambda>l. l @ [nl]) ls) = map (\<lambda>l. l @ [nl]) ls" using ls by simp
  then show ?thesis
    using split_inclusive_unlines [of ls] ls printable_chars(1)
    by (simp add: fold_carriage_returns_def del: map_map)
qed

lemma chars_of_unlines: "\<forall>l \<in> set ls. printable l \<Longrightarrow> chars_of (unlines ls) = map (\<lambda>c. [c]) (unlines ls)"
proof (induction ls)
  case (Cons l ls)
  have "chars_of ((l @ [nl]) @ unlines ls) = chars_of (l @ [nl]) @ chars_of (unlines ls)"
    by (rule chars_of_append)
      (use Cons.prems in \<open>cases ls; cases "hd ls"; simp add: printable_def is_continuation_def\<close>)
  moreover have "chars_of (l @ [nl]) = chars_of l @ [[nl]]"
    using chars_of_append [of "[nl]" l] by (simp add: is_continuation_def)
  ultimately show ?case using Cons printable_chars(3) [of l] by simp
qed simp

lemma strip_plain:
  "\<forall>c \<in> set s. c = nl \<or> 32 \<le> (of_char c :: nat) \<and> (of_char c :: nat) < 127 \<Longrightarrow>
    fold strip_char (map (\<lambda>c. [c]) s) out = out @ map (\<lambda>c. [c]) s"
proof (induction s arbitrary: out)
  case (Cons c s)
  have "c = nl \<or> c \<noteq> CHR 0x08 \<and> \<not> is_control [c]"
  proof (cases "c = nl")
    case False
    then have "32 \<le> (of_char c :: nat)" "(of_char c :: nat) < 127" using Cons.prems by simp_all
    moreover from this have "c \<noteq> CHR 0x08" by (intro notI) simp
    ultimately show ?thesis by (simp add: is_control_def)
  qed simp
  then have "strip_char [c] out = out @ [[c]]" by (auto simp: strip_char_def)
  then show ?case using Cons by simp
qed simp

lemma elide_plain:
  "\<forall>l \<in> set ls. printable l \<and> length l \<le> 800 \<Longrightarrow> elide_long_lines (unlines ls) = unlines ls"
proof -
  assume ls: "\<forall>l \<in> set ls. printable l \<and> length l \<le> 800"
  then have "split_inclusive_nl (unlines ls) = segments ls []" "\<forall>l \<in> set ([] # ls). nl \<notin> set l"
    using split_inclusive_unlines_segments [of ls] printable_chars(1) by auto
  moreover have "map elide_line ls = ls"
    using ls printable_chars(4) by (intro map_idI) (simp add: elide_line_def)
  moreover have "elide_line [] = []" by (simp add: elide_line_def char_total_def)
  ultimately show ?thesis using elide_segments [of "unlines ls" ls "[]"] by simp
qed

lemma sanitize_plain:
  assumes "\<forall>l \<in> set ls. printable l \<and> length l \<le> 800" "\<forall>pat s. rx pat s = []"
  shows "so_text (sanitize_tool_output rx (unlines ls)) = unlines ls"
proof -
  have "concat (map (\<lambda>c. [c]) s) = s" for s :: str by (induction s) auto
  moreover have "fold strip_char (map (\<lambda>c. [c]) (unlines ls)) [] = map (\<lambda>c. [c]) (unlines ls)"
  proof -
    have "c = nl \<or> 32 \<le> (of_char c :: nat) \<and> (of_char c :: nat) < 127" if "c \<in> set (unlines ls)" for c
      using that assms(1) by (auto simp: printable_def list_all_iff split: if_splits)
    then show ?thesis using strip_plain [of "unlines ls" "[]"] by simp
  qed
  ultimately show ?thesis
    using assms fold_plain [of ls] chars_of_unlines [of ls] elide_plain [of ls]
    by (simp add: sanitize_tool_output_def strip_ansi_and_controls_def regex_replace_all_def redact_nothing)
qed

section \<open>Witnesses\<close>

definition ex_rx :: regex_engine where "ex_rx = (\<lambda>_ _. [])"

definition ex_calls :: "transcript_entry list" where
  "ex_calls =
     [user_turn ''go'' [],
      assistant_turn [] [] [\<lparr>ce_id = ''c1'', ce_name = ''Bash'', ce_input = JObj []\<rparr>],
      ToolResults [plain_result ''c1'' ''Bash'' ''0123456789'']]"

definition ex_micro :: microcompact_policy where
  "ex_micro = \<lparr>mp_min_pressure = 0, mp_min_tokens_per_result = 1, mp_recent_turns_to_keep = 0\<rparr>"

lemma shadowing_keeps_the_protocol_witness:
  "well_formed (fst (microcompact_entries ex_rx ex_calls 1 ex_micro)) = well_formed ex_calls \<and>
    fst (microcompact_entries ex_rx ex_calls 1 ex_micro) \<noteq> ex_calls"
proof -
  have "fst (microcompact_entries ex_rx ex_calls 1 ex_micro) \<noteq> ex_calls" by code_simp
  then show ?thesis
    using shadowing_keeps_the_protocol [OF surjective_pairing, of ex_rx ex_calls 1 ex_micro] by simp
qed

lemma emergency_reset_is_well_formed_witness:
  "well_formed (cr_entries (build_emergency_reset (\<lambda>_. []) None ex_calls
    \<lparr>cp_token_budget = 1, cp_keep_recent_turns = 8\<rparr> ''too long''))"
proof -
  have "well_formed ex_calls" by code_simp
  then show ?thesis using emergency_reset_is_well_formed by blast
qed

lemma emergency_reset_of_few_turns_grows_witness:
  "cr_before_tokens (build_emergency_reset (\<lambda>_. []) None ex_calls
      \<lparr>cp_token_budget = 80000, cp_keep_recent_turns = 8\<rparr> ''too long'') <
    cr_after_tokens (build_emergency_reset (\<lambda>_. []) None ex_calls
      \<lparr>cp_token_budget = 80000, cp_keep_recent_turns = 8\<rparr> ''too long'')"
proof -
  have "length (filter is_user ex_calls) = 1" by code_simp
  then show ?thesis
    using emergency_reset_of_few_turns_grows [of ex_calls "\<lparr>cp_token_budget = 80000, cp_keep_recent_turns = 8\<rparr>"]
    by simp
qed

text \<open>A hundred lines of output, and a hook that puts a long text in place of the excerpt.\<close>

definition ex_output :: str where
  "ex_output = unlines (replicate 100 (replicate 99 (CHR ''x'')))"

definition ex_hook :: "str \<Rightarrow> str option" where
  "ex_hook = (\<lambda>_. Some (replicate 8000 (CHR ''y'')))"

definition ex_finish :: "tool_result \<times> bool \<times> bool \<times> artifacts" where
  "ex_finish = finish_tool_call ex_rx (\<lambda>_. True) (Some (''/d'', ''s'')) ex_hook ''Bash'' ''c1''
     (ToolReturned ex_output [] False) (\<lambda>_. None)"

lemma ex_output_clean: "so_text (sanitize_tool_output ex_rx ex_output) = ex_output" "length ex_output = 10000"
proof -
  have "printable (replicate 99 (CHR ''x''))" by (simp add: printable_def list_all_length)
  then show "so_text (sanitize_tool_output ex_rx ex_output) = ex_output"
    unfolding ex_output_def by (intro sanitize_plain) (simp_all add: ex_rx_def)
  have "length (unlines (replicate n (replicate 99 (CHR ''x'')))) = 100 * n" for n
    by (induction n) auto
  then show "length ex_output = 10000" unfolding ex_output_def by simp
qed

lemma ex_finish_result:
  "tr_content (fst ex_finish) = replicate 8000 (CHR ''y'')" "tr_name (fst ex_finish) = ''Bash''"
  "tr_artifact (fst ex_finish) \<noteq> None"
  by (simp_all add: ex_finish_def finish_tool_call_def materialize_tool_output_def ex_output_clean
      save_tool_result_def ex_hook_def split_beta Let_def)

lemma ex_finish_shadowed:
  "fst (shadow_result ex_rx default_microcompact_policy False (fst ex_finish) empty_report) \<noteq> fst ex_finish"
proof -
  let ?c = "replicate 8000 (CHR ''y'')"
  have "estimate_tokens ?c = 2000"
  proof -
    have "char_total ?c = 8000" by (simp add: printable_chars printable_def list_all_length)
    then show ?thesis by (simp add: estimate_tokens_def)
  qed
  moreover have y: "?c = CHR ''y'' # replicate 7999 (CHR ''y'')"
    using replicate_Suc [of 7999 "CHR ''y''"] by simp
  then have "\<not> is_already_shadowed ?c"
    unfolding is_already_shadowed_def y by (simp add: shadowed_prefix_def)
  moreover have "shadow_placeholder tool cid n a \<noteq> ?c" for tool cid n a
    unfolding y by (simp add: shadow_placeholder_def shadowed_heading_def)
  ultimately show ?thesis
    by (simp add: shadow_result_def ex_finish_result is_compactable_def COMPACTABLE_TOOLS_def
        default_microcompact_policy_def plain_result_def Let_def)
      (metis ex_finish_result(1) tool_result.select_convs(3))
qed

lemma shadowing_replaces_the_full_output_witness:
  "\<exists>r t e fs a r' rep. ex_finish = (r, t, e, fs) \<and> tr_artifact r = Some a \<and>
    shadow_result ex_rx default_microcompact_policy False r empty_report = (r', rep) \<and>
    fs (components (ta_path a)) = Some ex_output \<and>
    save_shadowed (\<lambda>_. True) (Some (''/d'', ''s'')) (mc_shadowed_artifacts rep) fs (components (ta_path a)) =
      Some (so_text (sanitize_tool_output ex_rx (replicate 8000 (CHR ''y''))))"
proof -
  obtain r t e fs where f: "ex_finish = (r, t, e, fs)" by (metis prod_cases4)
  have r: "r = fst ex_finish" unfolding f by (rule fst_conv [symmetric])
  then have "tr_artifact r \<noteq> None" using ex_finish_result(3) by metis
  then obtain a where a: "tr_artifact r = Some a" by blast
  obtain r' rep where s: "shadow_result ex_rx default_microcompact_policy False r empty_report = (r', rep)"
    by fastforce
  then have "r' \<noteq> r" using ex_finish_shadowed r by simp
  have c: "fs (components (ta_path a)) = Some ex_output \<and>
      save_shadowed (\<lambda>_. True) (Some (''/d'', ''s'')) (mc_shadowed_artifacts rep) fs (components (ta_path a)) =
        Some (so_text (sanitize_tool_output ex_rx (tr_content r)))"
    using shadowing_replaces_the_full_output [OF f [unfolded ex_finish_def] a s \<open>r' \<noteq> r\<close>]
    unfolding ex_output_clean(1) .
  have "tr_content r = replicate 8000 (CHR ''y'')" unfolding r by (rule ex_finish_result(1))
  with c have "fs (components (ta_path a)) = Some ex_output \<and>
      save_shadowed (\<lambda>_. True) (Some (''/d'', ''s'')) (mc_shadowed_artifacts rep) fs (components (ta_path a)) =
        Some (so_text (sanitize_tool_output ex_rx (replicate 8000 (CHR ''y''))))"
    by (simp only:)
  with f a s show ?thesis by blast
qed

end
