(* ===== verification/Agent_Loop.thy ===== *)
theory Agent_Loop
  imports Context_Window Dispatch
begin

text \<open>
  The loop that runs an agent (\<open>crates/agent-core/src/agent_loop.rs\<close>, \<open>run_agent\<close>), and the driver that
  follows its events for a surface (\<open>harness.rs\<close>, \<open>RunHandle::drive\<close>).

  One run of the loop body is the function \<open>turn\<close>. What the world answers in it is a record
  \<open>turn_env\<close>: the cancel flag where it is read, the inputs the surface queued, the answers of the
  model, of the hooks, of the goal judge, and of the tools. Texts of logs, spans and the dump of model requests are left out; so are the
  events the dispatcher emits, and streamed deltas, which are the subject of \<open>Turn_Accumulator\<close>.
\<close>

section \<open>Errors of a model call\<close>

definition context_needles :: "str list" where
  "context_needles =
     [''prompt_too_long'', ''context_length_exceeded'', ''context length'', ''maximum context'',
      ''max context'', ''context window'', ''input tokens'', ''too many tokens'', ''token limit'',
      ''request too large'']"

definition is_context_too_long :: "model_error \<Rightarrow> bool" where
  "is_context_too_long e \<longleftrightarrow>
     (case e of
        HttpError status body \<Rightarrow>
          (status = 400 \<or> status = 413) \<and> list_ex (contains_str (to_ascii_lowercase body)) context_needles
      | OtherError body \<Rightarrow> list_ex (contains_str (to_ascii_lowercase body)) context_needles
      | _ \<Rightarrow> False)"

definition is_retryable_model_error :: "model_error \<Rightarrow> bool" where
  "is_retryable_model_error e \<longleftrightarrow>
     (case e of
        CancelledError \<Rightarrow> False
      | SuspendedError \<Rightarrow> False
      | JsonError _ \<Rightarrow> False
      | HttpError status _ \<Rightarrow> \<not> is_context_too_long e \<and> (status = 429 \<or> status \<ge> 500)
      | RequestError _ \<Rightarrow> True
      | OtherError _ \<Rightarrow> True)"

definition request_error_text :: str where
  "request_error_text =
     [CHR 0xE8, CHR 0xAF, CHR 0xB7, CHR 0xE6, CHR 0xB1, CHR 0x82, CHR 0xE5, CHR 0xA4, CHR 0xB1,
     CHR 0xE8, CHR 0xB4, CHR 0xA5, CHR 0x3A, CHR 0x20]"

definition json_error_text :: str where
  "json_error_text =
     [CHR 0x4A, CHR 0x53, CHR 0x4F, CHR 0x4E, CHR 0x20, CHR 0xE8, CHR 0xA7, CHR 0xA3, CHR 0xE6,
     CHR 0x9E, CHR 0x90, CHR 0xE5, CHR 0xA4, CHR 0xB1, CHR 0xE8, CHR 0xB4, CHR 0xA5, CHR 0x3A,
     CHR 0x20]"

definition cancelled_text :: str where
  "cancelled_text =
     [CHR 0xE5, CHR 0xB7, CHR 0xB2, CHR 0xE5, CHR 0x8F, CHR 0x96, CHR 0xE6, CHR 0xB6, CHR 0x88]"

definition suspended_text :: str where
  "suspended_text =
     [CHR 0xE5, CHR 0xB7, CHR 0xB2, CHR 0xE6, CHR 0x8C, CHR 0x82, CHR 0xE8, CHR 0xB5, CHR 0xB7,
     CHR 0xEF, CHR 0xBC, CHR 0x8C, CHR 0xE7, CHR 0xAD, CHR 0x89, CHR 0xE5, CHR 0xBE, CHR 0x85,
     CHR 0x20, CHR 0x77, CHR 0x61, CHR 0x6B, CHR 0x65, CHR 0x75, CHR 0x70]"

definition error_text :: "model_error \<Rightarrow> str" where
  "error_text e =
     (case e of
        HttpError status body \<Rightarrow> ''HTTP '' @ dec status @ '': '' @ body
      | RequestError s \<Rightarrow> request_error_text @ s
      | JsonError s \<Rightarrow> json_error_text @ s
      | CancelledError \<Rightarrow> cancelled_text
      | SuspendedError \<Rightarrow> suspended_text
      | OtherError s \<Rightarrow> s)"

section \<open>Answers of a model\<close>

datatype finish_reason = FinishStop | FinishLength | FinishRefusal | FinishContentFilter | FinishOther str

record usage =
  us_input :: nat
  us_output :: nat
  us_cache_read :: nat
  us_cache_creation :: nat

definition add_usage :: "usage \<Rightarrow> usage \<Rightarrow> usage" where
  "add_usage a b =
     \<lparr>us_input = us_input a + us_input b, us_output = us_output a + us_output b,
      us_cache_read = us_cache_read a + us_cache_read b,
      us_cache_creation = us_cache_creation a + us_cache_creation b\<rparr>"

datatype model_response =
  ModelDone finish_reason str str "message_attachment list" usage
| ModelToolCalls str str "call_entry list" "message_attachment list" usage

record assistant_output =
  ao_text :: str
  ao_attachments :: "message_attachment list"

section \<open>Events, and what is written to the session\<close>

datatype step_kind = ModelStep | ToolStep
datatype stop_reason = EndTurn | StopCancelled | StopFailed | MaxIterations

datatype continue_kind = Truncated | Refused | Filtered | NetworkError | MaxIterationsKind | OtherKind

datatype notice = AutoCompactionFailed model_error | EmergencyResetDone | PendingContinue continue_kind str
  | SaveEditsFailed

datatype run_event =
  RunStarted | RunResumed
| TurnStarted nat | TurnFinished nat stop_reason
| StepStarted step_kind nat | StepFinished step_kind nat
| ModelRetry nat nat nat model_error
| UsageEvent usage | ReasoningText str | DeltaText str | DoneText str
| CompactionStarted nat | ContextCompacted nat nat
| Notice notice
| GoalAchieved str str | GoalImpossible str str | GoalProgress nat str
| RunEditsCommitted
| RunSuspended | RunFinished usage | RunCancelled | RunFailed str

text \<open>Writes to the session file and to files beside it, in the order they are made.\<close>

datatype saved =
  SavedUser str "message_attachment list" "str option"
| FlushSegment | Finish | FinishInterrupted
| SavedBoundary str nat nat
| SavedArchive "transcript_entry list"
| SavedGoal str str str nat
| SavedHook str str
| SavedActiveGoal "(str \<times> nat \<times> str) option"
| SavedCheckpoint nat nat nat nat usage
| SavedContinue "(continue_kind \<times> str) option"

section \<open>The run\<close>

type_synonym inputs = "(str \<times> message_attachment list) list"

datatype run_phase = AwaitingBackgroundTask str | AwaitingCron int

record run_config =
  rc_system :: "str option"
  rc_system_prompt :: "str option \<Rightarrow> str"
  rc_rules :: "str option"
  rc_policy :: compaction_policy
  rc_tools :: "str list"
  rc_stream :: bool
  rc_streaming_tools :: bool
  rc_hooks :: bool
  rc_judge :: bool
  rc_place :: keep_place
  rc_can_save :: "path \<Rightarrow> bool"
  rc_persist :: bool
  rc_nested :: bool
  rc_max_iterations :: "nat option"
  rc_rx :: regex_engine
  rc_cleaning :: cleaning
  rc_json :: "json \<Rightarrow> str"

record run =
  rn_entries :: "transcript_entry list"
  rn_iteration :: nat
  rn_offset :: nat
  rn_model_steps :: nat
  rn_tool_steps :: nat
  rn_turn :: nat
  rn_totals :: usage
  rn_calib :: "nat \<times> nat"
  rn_attachments :: "message_attachment list"
  rn_stop_injections :: nat
  rn_goal_iterations :: nat
  rn_leak_recoveries :: nat
  rn_last_finish :: finish_reason
  rn_emergency :: bool
  rn_accepting :: bool
  rn_files :: artifacts
  rn_events :: "run_event list"
  rn_saved :: "saved list"
  rn_requests :: "model_request list"

definition emit :: "run_event \<Rightarrow> run \<Rightarrow> run" where
  "emit e r = r\<lparr>rn_events := rn_events r @ [e]\<rparr>"

definition save :: "saved \<Rightarrow> run \<Rightarrow> run" where
  "save s r = r\<lparr>rn_saved := rn_saved r @ [s]\<rparr>"

text \<open>With a persister; with a data directory and a session.\<close>

definition persist :: "run_config \<Rightarrow> saved \<Rightarrow> run \<Rightarrow> run" where
  "persist cfg s r = (if rc_persist cfg then save s r else r)"

definition on_disk :: "run_config \<Rightarrow> saved \<Rightarrow> run \<Rightarrow> run" where
  "on_disk cfg s r = (if rc_place cfg \<noteq> None then save s r else r)"

definition send_request :: "model_request \<Rightarrow> run \<Rightarrow> run" where
  "send_request q r = r\<lparr>rn_requests := rn_requests r @ [q]\<rparr>"

definition push_user :: "str \<Rightarrow> message_attachment list \<Rightarrow> run \<Rightarrow> run" where
  "push_user s atts r = r\<lparr>rn_entries := rn_entries r @ [user_turn s atts]\<rparr>"

definition push_assistant :: "str \<Rightarrow> str \<Rightarrow> call_entry list \<Rightarrow> run \<Rightarrow> run" where
  "push_assistant s reasoning calls r =
     r\<lparr>rn_entries := rn_entries r @ [assistant_turn s reasoning calls]\<rparr>"

definition push_tool_results :: "tool_result list \<Rightarrow> run \<Rightarrow> run" where
  "push_tool_results rs r = r\<lparr>rn_entries := rn_entries r @ [ToolResults rs]\<rparr>"

definition drain_pending_inputs :: "run_config \<Rightarrow> inputs \<Rightarrow> run \<Rightarrow> run" where
  "drain_pending_inputs cfg inputs r =
     fold (\<lambda>(s, atts) r. push_user s atts (persist cfg (SavedUser s atts None) r)) inputs r"

definition push_system_feedback :: "run_config \<Rightarrow> str \<Rightarrow> str \<Rightarrow> run \<Rightarrow> run" where
  "push_system_feedback cfg kind content r =
     push_user content [] (persist cfg (SavedUser content [] (Some kind)) r)"

definition append_compact_boundary :: "run_config \<Rightarrow> str \<Rightarrow> nat \<Rightarrow> nat \<Rightarrow> run \<Rightarrow> run" where
  "append_compact_boundary cfg summary before after r = on_disk cfg (SavedBoundary summary before after) r"

definition record_request_usage :: "usage \<Rightarrow> nat \<Rightarrow> run \<Rightarrow> run" where
  "record_request_usage u estimated r =
     (emit (UsageEvent u) r)\<lparr>rn_calib := (us_input u, estimated), rn_totals := add_usage (rn_totals r) u\<rparr>"

section \<open>The call of the model\<close>

abbreviation MAX_MODEL_RETRIES :: nat where "MAX_MODEL_RETRIES \<equiv> 20"
abbreviation MAX_STOP_INJECTIONS :: nat where "MAX_STOP_INJECTIONS \<equiv> 3"
abbreviation MAX_TOOL_XML_LEAK_RECOVERIES :: nat where "MAX_TOOL_XML_LEAK_RECOVERIES \<equiv> 2"

text \<open>The pause before an attempt, in milliseconds.\<close>

definition model_retry_delay :: "nat \<Rightarrow> nat" where
  "model_retry_delay attempt = 1000 * min (2 ^ (attempt - 1)) 60"

text \<open>The pause in steps of 200 ms; \<open>polls i\<close> is what the cancel flag reads before step \<open>i\<close>.\<close>

function backoff_or_cancel :: "nat \<Rightarrow> (nat \<Rightarrow> bool) \<Rightarrow> nat \<Rightarrow> nat \<Rightarrow> bool" where
  "backoff_or_cancel delay polls slept i =
     (if slept < delay then
        if polls i then False
        else backoff_or_cancel delay polls (slept + min 200 (delay - slept)) (Suc i)
      else \<not> polls i)"
  by pat_completeness auto
termination by (relation "measure (\<lambda>(delay, polls, slept, i). delay - slept)") auto

declare backoff_or_cancel.simps [simp del]

text \<open>\<open>answers k\<close> is the answer to attempt \<open>k\<close>, \<open>polls k\<close> the cancel flag during the pause before it.\<close>

function call_model ::
    "(nat \<Rightarrow> model_error + model_response) \<Rightarrow> (nat \<Rightarrow> nat \<Rightarrow> bool) \<Rightarrow> nat \<Rightarrow>
      (model_error + model_response) \<times> run_event list" where
  "call_model answers polls k =
     (case answers k of
        Inr resp \<Rightarrow> (Inr resp, [])
      | Inl e \<Rightarrow>
          if k < MAX_MODEL_RETRIES \<and> is_retryable_model_error e then
            let retry = ModelRetry (k + 1) MAX_MODEL_RETRIES (model_retry_delay (k + 1)) e
            in if \<not> backoff_or_cancel (model_retry_delay (k + 1)) (polls (k + 1)) 0 0
               then (Inl CancelledError, [retry])
               else (case call_model answers polls (k + 1) of (res, evs) \<Rightarrow> (res, retry # evs))
          else (Inl e, []))"
  by pat_completeness auto
termination by (relation "measure (\<lambda>(answers, polls, k). MAX_MODEL_RETRIES - k)") auto

declare call_model.simps [simp del]

section \<open>The calls of a turn\<close>

text \<open>\<open>ToolDispatcher::run_calls\<close>: calls are started in their order until the cancel flag is seen, each as
  a task of its own that ends with an error or with a result under the id and the name of its call;
  the tasks run at the same time, and their outcomes are gathered in the order they end.\<close>

record tool_output =
  to_content :: str
  to_artifact :: "tool_artifact option"
  to_attachments :: "message_attachment list"

fun started_calls :: "(nat \<Rightarrow> bool) \<Rightarrow> nat \<Rightarrow> call_entry list \<Rightarrow> nat" where
  "started_calls cancelled i [] = i"
| "started_calls cancelled i (c # cs) = (if cancelled i then i else started_calls cancelled (Suc i) cs)"

definition call_task :: "call_entry list \<Rightarrow> nat \<times> (model_error + tool_output) \<Rightarrow> model_error + nat \<times> tool_result" where
  "call_task calls d =
     (case snd d of
        Inl e \<Rightarrow> Inl e
      | Inr out \<Rightarrow> Inr (fst d,
          \<lparr>tr_call_id = ce_id (calls ! fst d), tr_name = ce_name (calls ! fst d), tr_content = to_content out,
           tr_artifact = to_artifact out, tr_attachments = to_attachments out\<rparr>))"

definition run_calls ::
    "call_entry list \<Rightarrow> (nat \<times> (model_error + tool_output)) list \<Rightarrow> model_error + tool_result list" where
  "run_calls calls done_calls = collect_outcomes (map (call_task calls) done_calls)"

section \<open>One turn\<close>

datatype stop_outcome = StopPassed | StopBlocked str | InjectFollowup str

datatype goal_verdict = Achieved str | Impossible str | NotYet str

record turn_env =
  te_cancelled :: bool
  te_pending :: inputs
  te_remote_compact :: "model_error + transcript_entry list option"
  te_summary :: "model_error + str"
  te_plan_mode :: bool
  te_answers :: "nat \<Rightarrow> model_error + model_response"
  te_polls :: "nat \<Rightarrow> nat \<Rightarrow> bool"
  te_pending_done :: inputs
  te_stop_hook :: stop_outcome
  te_goal :: "str option"
  te_verdict :: goal_verdict
  te_cancelled_judge :: bool
  te_calls_cancelled :: "nat \<Rightarrow> bool"
  te_calls_done :: "(nat \<times> (model_error + tool_output)) list"
  te_pending_tools :: inputs
  te_phase :: "run_phase option"

datatype turn_result = Continue run | Break run "model_error + assistant_output" | Return run model_error

text \<open>The transcript is shrunk before a request: old results first, then the whole.\<close>

definition microcompact_step :: "run_config \<Rightarrow> run \<Rightarrow> run" where
  "microcompact_step cfg r =
     (case microcompact_with_pressure (rc_rx cfg) (rc_json cfg) (rc_system cfg) (rn_entries r) (rc_policy cfg)
             (fst (rn_calib r)) (snd (rn_calib r)) default_microcompact_policy of
        (es, rep) \<Rightarrow>
          r\<lparr>rn_entries := es,
            rn_files := save_shadowed (rc_can_save cfg) (rc_place cfg) (mc_shadowed_artifacts rep) (rn_files r)\<rparr>)"

definition compaction_step :: "run_config \<Rightarrow> turn_env \<Rightarrow> run \<Rightarrow> run + run" where
  "compaction_step cfg env r =
     (if \<not> needs_compaction (rc_json cfg) (rc_system cfg) (rn_entries r) (rc_policy cfg)
            (fst (rn_calib r)) (snd (rn_calib r))
      then Inr r
      else
        let (before, req) = build_compaction_request (rc_json cfg) (rc_system cfg) (rn_entries r) None;
            r = send_request req (emit (CompactionStarted before) r)
        in case compact_request_with_llm_progress (rc_json cfg) req before (te_remote_compact env)
                  (te_summary env) of
             Inl e \<Rightarrow>
               if e = CancelledError then Inl r else Inr (emit (Notice (AutoCompactionFailed e)) r)
           | Inr res \<Rightarrow>
               let r = on_disk cfg (SavedArchive (rn_entries r)) r;
                   r = r\<lparr>rn_entries := cr_entries res\<rparr>;
                   r = persist cfg FlushSegment r;
                   r = append_compact_boundary cfg (cr_summary res) (cr_before_tokens res)
                         (cr_after_tokens res) r
               in Inr (emit (ContextCompacted (cr_before_tokens res) (cr_after_tokens res)) r))"

text \<open>In plan mode the tools that change something are left out of the request.\<close>

definition request_tools :: "run_config \<Rightarrow> bool \<Rightarrow> str list" where
  "request_tools cfg plan =
     (if plan then filter (\<lambda>t. t \<notin> {''Bash'', ''PowerShell'', ''Edit''}) (rc_tools cfg) else rc_tools cfg)"

definition combined_system :: "run_config \<Rightarrow> str" where
  "combined_system cfg =
     rc_system_prompt cfg (rc_system cfg) @
     (case rc_rules cfg of None \<Rightarrow> [] | Some s \<Rightarrow> if s = [] then [] else [nl] @ s)"

definition main_request :: "run_config \<Rightarrow> turn_env \<Rightarrow> run \<Rightarrow> model_request" where
  "main_request cfg env r =
     \<lparr>rq_system = Some (combined_system cfg), rq_entries = rn_entries r,
      rq_tools = request_tools cfg (te_plan_mode env), rq_max_tokens = 8192\<rparr>"

definition used_stream_path :: "run_config \<Rightarrow> turn_env \<Rightarrow> bool" where
  "used_stream_path cfg env \<longleftrightarrow>
     rc_stream cfg \<and> (request_tools cfg (te_plan_mode env) = [] \<or> rc_streaming_tools cfg)"

text \<open>A model that finds the context too long is asked once more with a reset transcript.\<close>

definition reset_reason :: str where "reset_reason = ''provider reported context too long''"

definition emergency_step :: "run_config \<Rightarrow> nat \<Rightarrow> run \<Rightarrow> turn_result" where
  "emergency_step cfg turn r =
     (let res = build_emergency_reset (rc_json cfg) (rc_system cfg) (rn_entries r) (rc_policy cfg) reset_reason;
          r = on_disk cfg (SavedArchive (rn_entries r)) (r\<lparr>rn_emergency := True\<rparr>);
          r = persist cfg FlushSegment (r\<lparr>rn_entries := cr_entries res\<rparr>);
          r = append_compact_boundary cfg (cr_summary res) (cr_before_tokens res) (cr_after_tokens res) r;
          r = emit (ContextCompacted (cr_before_tokens res) (cr_after_tokens res)) r;
          r = emit (Notice EmergencyResetDone) r
      in Continue (emit (TurnFinished turn StopFailed) r))"

definition tool_format_feedback :: str where
  "tool_format_feedback =
     [CHR 0x5B, CHR 0x53, CHR 0x59, CHR 0x53, CHR 0x54, CHR 0x45, CHR 0x4D, CHR 0x20, CHR 0x4E,
     CHR 0x4F, CHR 0x54, CHR 0x49, CHR 0x46, CHR 0x49, CHR 0x43, CHR 0x41, CHR 0x54, CHR 0x49,
     CHR 0x4F, CHR 0x4E, CHR 0x20, CHR 0x2D, CHR 0x20, CHR 0x4E, CHR 0x4F, CHR 0x54, CHR 0x20,
     CHR 0x55, CHR 0x53, CHR 0x45, CHR 0x52, CHR 0x20, CHR 0x49, CHR 0x4E, CHR 0x50, CHR 0x55,
     CHR 0x54, CHR 0x5D, CHR 0x0A, CHR 0x3C, CHR 0x74, CHR 0x6F, CHR 0x6F, CHR 0x6C, CHR 0x2D,
     CHR 0x66, CHR 0x6F, CHR 0x72, CHR 0x6D, CHR 0x61, CHR 0x74, CHR 0x2D, CHR 0x65, CHR 0x72,
     CHR 0x72, CHR 0x6F, CHR 0x72, CHR 0x3E, CHR 0x0A, CHR 0xE4, CHR 0xB8, CHR 0x8A, CHR 0xE4,
     CHR 0xB8, CHR 0x80, CHR 0xE6, CHR 0x9D, CHR 0xA1, CHR 0xE5, CHR 0x9B, CHR 0x9E, CHR 0xE5,
     CHR 0xA4, CHR 0x8D, CHR 0xE9, CHR 0x87, CHR 0x8C, CHR 0xE5, CHR 0x87, CHR 0xBA, CHR 0xE7,
     CHR 0x8E, CHR 0xB0, CHR 0xE4, CHR 0xBA, CHR 0x86, CHR 0xE6, CHR 0x9C, CHR 0xAA, CHR 0xE8,
     CHR 0xA2, CHR 0xAB, CHR 0xE6, CHR 0x89, CHR 0xA7, CHR 0xE8, CHR 0xA1, CHR 0x8C, CHR 0xE7,
     CHR 0x9A, CHR 0x84, CHR 0xE5, CHR 0xB7, CHR 0xA5, CHR 0xE5, CHR 0x85, CHR 0xB7, CHR 0xE8,
     CHR 0xB0, CHR 0x83, CHR 0xE7, CHR 0x94, CHR 0xA8, CHR 0xE6, CHR 0x96, CHR 0x87, CHR 0xE6,
     CHR 0x9C, CHR 0xAC, CHR 0xEF, CHR 0xBC, CHR 0x88, CHR 0x60, CHR 0x3C, CHR 0x69, CHR 0x6E,
     CHR 0x76, CHR 0x6F, CHR 0x6B, CHR 0x65, CHR 0x3E, CHR 0x60, CHR 0x20, CHR 0x2F, CHR 0x20,
     CHR 0x60, CHR 0x3C, CHR 0x66, CHR 0x75, CHR 0x6E, CHR 0x63, CHR 0x74, CHR 0x69, CHR 0x6F,
     CHR 0x6E, CHR 0x5F, CHR 0x63, CHR 0x61, CHR 0x6C, CHR 0x6C, CHR 0x73, CHR 0x3E, CHR 0x60,
     CHR 0x20, CHR 0x58, CHR 0x4D, CHR 0x4C, CHR 0xEF, CHR 0xBC, CHR 0x89, CHR 0xE3, CHR 0x80,
     CHR 0x82, CHR 0xE5, CHR 0xB7, CHR 0xA5, CHR 0xE5, CHR 0x85, CHR 0xB7, CHR 0xE8, CHR 0xB0,
     CHR 0x83, CHR 0xE7, CHR 0x94, CHR 0xA8, CHR 0xE5, CHR 0xBF, CHR 0x85, CHR 0xE9, CHR 0xA1,
     CHR 0xBB, CHR 0xE8, CHR 0xB5, CHR 0xB0, CHR 0xE7, CHR 0xBB, CHR 0x93, CHR 0xE6, CHR 0x9E,
     CHR 0x84, CHR 0xE5, CHR 0x8C, CHR 0x96, CHR 0x20, CHR 0x66, CHR 0x75, CHR 0x6E, CHR 0x63,
     CHR 0x74, CHR 0x69, CHR 0x6F, CHR 0x6E, CHR 0x2D, CHR 0x63, CHR 0x61, CHR 0x6C, CHR 0x6C,
     CHR 0x69, CHR 0x6E, CHR 0x67, CHR 0x20, CHR 0xE9, CHR 0x80, CHR 0x9A, CHR 0xE9, CHR 0x81,
     CHR 0x93, CHR 0xEF, CHR 0xBC, CHR 0x8C, CHR 0xE7, CHR 0xBB, CHR 0x9D, CHR 0xE4, CHR 0xB8,
     CHR 0x8D, CHR 0xE8, CHR 0x83, CHR 0xBD, CHR 0xE6, CHR 0x8A, CHR 0x8A, CHR 0xE8, CHR 0xBF,
     CHR 0x99, CHR 0xE7, CHR 0xA7, CHR 0x8D, CHR 0x20, CHR 0x58, CHR 0x4D, CHR 0x4C, CHR 0x20,
     CHR 0xE5, CHR 0x86, CHR 0x99, CHR 0xE8, CHR 0xBF, CHR 0x9B, CHR 0xE6, CHR 0xAD, CHR 0xA3,
     CHR 0xE6, CHR 0x96, CHR 0x87, CHR 0xE3, CHR 0x80, CHR 0x82, CHR 0xE8, CHR 0xAF, CHR 0xB7,
     CHR 0xE7, CHR 0x94, CHR 0xA8, CHR 0xE6, CHR 0xAD, CHR 0xA3, CHR 0xE7, CHR 0xA1, CHR 0xAE,
     CHR 0xE7, CHR 0x9A, CHR 0x84, CHR 0xE5, CHR 0xB7, CHR 0xA5, CHR 0xE5, CHR 0x85, CHR 0xB7,
     CHR 0xE8, CHR 0xB0, CHR 0x83, CHR 0xE7, CHR 0x94, CHR 0xA8, CHR 0xE6, CHR 0x96, CHR 0xB9,
     CHR 0xE5, CHR 0xBC, CHR 0x8F, CHR 0xE9, CHR 0x87, CHR 0x8D, CHR 0xE6, CHR 0x96, CHR 0xB0,
     CHR 0xE6, CHR 0x89, CHR 0xA7, CHR 0xE8, CHR 0xA1, CHR 0x8C, CHR 0xE5, CHR 0x88, CHR 0x9A,
     CHR 0xE6, CHR 0x89, CHR 0x8D, CHR 0xE6, CHR 0x83, CHR 0xB3, CHR 0xE5, CHR 0x81, CHR 0x9A,
     CHR 0xE7, CHR 0x9A, CHR 0x84, CHR 0xE6, CHR 0x93, CHR 0x8D, CHR 0xE4, CHR 0xBD, CHR 0x9C,
     CHR 0xE3, CHR 0x80, CHR 0x82, CHR 0x0A, CHR 0x3C, CHR 0x2F, CHR 0x74, CHR 0x6F, CHR 0x6F,
     CHR 0x6C, CHR 0x2D, CHR 0x66, CHR 0x6F, CHR 0x72, CHR 0x6D, CHR 0x61, CHR 0x74, CHR 0x2D,
     CHR 0x65, CHR 0x72, CHR 0x72, CHR 0x6F, CHR 0x72, CHR 0x3E]"

definition hook_feedback_open :: str where
  "hook_feedback_open =
     [CHR 0x5B, CHR 0x53, CHR 0x59, CHR 0x53, CHR 0x54, CHR 0x45, CHR 0x4D, CHR 0x20, CHR 0x4E,
     CHR 0x4F, CHR 0x54, CHR 0x49, CHR 0x46, CHR 0x49, CHR 0x43, CHR 0x41, CHR 0x54, CHR 0x49,
     CHR 0x4F, CHR 0x4E, CHR 0x20, CHR 0x2D, CHR 0x20, CHR 0x4E, CHR 0x4F, CHR 0x54, CHR 0x20,
     CHR 0x55, CHR 0x53, CHR 0x45, CHR 0x52, CHR 0x20, CHR 0x49, CHR 0x4E, CHR 0x50, CHR 0x55,
     CHR 0x54, CHR 0x5D, CHR 0x0A, CHR 0x3C, CHR 0x68, CHR 0x6F, CHR 0x6F, CHR 0x6B, CHR 0x2D,
     CHR 0x66, CHR 0x65, CHR 0x65, CHR 0x64, CHR 0x62, CHR 0x61, CHR 0x63, CHR 0x6B, CHR 0x20,
     CHR 0x73, CHR 0x6F, CHR 0x75, CHR 0x72, CHR 0x63, CHR 0x65, CHR 0x3D, CHR 0x22, CHR 0x53,
     CHR 0x74, CHR 0x6F, CHR 0x70, CHR 0x22, CHR 0x3E, CHR 0x0A]"

definition hook_feedback_close :: str where
  "hook_feedback_close =
     [CHR 0x0A, CHR 0x3C, CHR 0x2F, CHR 0x68, CHR 0x6F, CHR 0x6F, CHR 0x6B, CHR 0x2D, CHR 0x66,
     CHR 0x65, CHR 0x65, CHR 0x64, CHR 0x62, CHR 0x61, CHR 0x63, CHR 0x6B, CHR 0x3E]"

definition goal_feedback_open :: str where
  "goal_feedback_open =
     [CHR 0x5B, CHR 0x53, CHR 0x59, CHR 0x53, CHR 0x54, CHR 0x45, CHR 0x4D, CHR 0x20, CHR 0x4E,
     CHR 0x4F, CHR 0x54, CHR 0x49, CHR 0x46, CHR 0x49, CHR 0x43, CHR 0x41, CHR 0x54, CHR 0x49,
     CHR 0x4F, CHR 0x4E, CHR 0x20, CHR 0x2D, CHR 0x20, CHR 0x4E, CHR 0x4F, CHR 0x54, CHR 0x20,
     CHR 0x55, CHR 0x53, CHR 0x45, CHR 0x52, CHR 0x20, CHR 0x49, CHR 0x4E, CHR 0x50, CHR 0x55,
     CHR 0x54, CHR 0x5D, CHR 0x0A, CHR 0x3C, CHR 0x67, CHR 0x6F, CHR 0x61, CHR 0x6C, CHR 0x2D,
     CHR 0x66, CHR 0x65, CHR 0x65, CHR 0x64, CHR 0x62, CHR 0x61, CHR 0x63, CHR 0x6B, CHR 0x3E,
     CHR 0x0A, CHR 0xE7, CHR 0x9B, CHR 0xAE, CHR 0xE6, CHR 0xA0, CHR 0x87, CHR 0xE5, CHR 0xB0,
     CHR 0x9A, CHR 0xE6, CHR 0x9C, CHR 0xAA, CHR 0xE8, CHR 0xBE, CHR 0xBE, CHR 0xE6, CHR 0x88,
     CHR 0x90, CHR 0xE3, CHR 0x80, CHR 0x82]"

definition goal_feedback_close :: str where
  "goal_feedback_close =
     [CHR 0x0A, CHR 0xE7, CHR 0xBB, CHR 0xA7, CHR 0xE7, CHR 0xBB, CHR 0xAD, CHR 0xE6, CHR 0x8E,
     CHR 0xA8, CHR 0xE8, CHR 0xBF, CHR 0x9B, CHR 0xEF, CHR 0xBC, CHR 0x8C, CHR 0xE8, CHR 0xBE,
     CHR 0xBE, CHR 0xE6, CHR 0x88, CHR 0x90, CHR 0xE5, CHR 0x90, CHR 0x8E, CHR 0xE4, CHR 0xBC,
     CHR 0x9A, CHR 0xE8, CHR 0x87, CHR 0xAA, CHR 0xE5, CHR 0x8A, CHR 0xA8, CHR 0xE7, CHR 0xBB,
     CHR 0x93, CHR 0xE6, CHR 0x9D, CHR 0x9F, CHR 0xE3, CHR 0x80, CHR 0x82, CHR 0x0A, CHR 0x3C,
     CHR 0x2F, CHR 0x67, CHR 0x6F, CHR 0x61, CHR 0x6C, CHR 0x2D, CHR 0x66, CHR 0x65, CHR 0x65,
     CHR 0x64, CHR 0x62, CHR 0x61, CHR 0x63, CHR 0x6B, CHR 0x3E]"

definition max_iterations_text :: str where
  "max_iterations_text =
     [CHR 0xE5, CHR 0xB7, CHR 0xB2, CHR 0xE8, CHR 0xBE, CHR 0xBE, CHR 0xE5, CHR 0x88, CHR 0xB0,
     CHR 0xE6, CHR 0x9C, CHR 0x80, CHR 0xE5, CHR 0xA4, CHR 0xA7, CHR 0xE5, CHR 0xB7, CHR 0xA5,
     CHR 0xE5, CHR 0x85, CHR 0xB7, CHR 0xE8, CHR 0xB0, CHR 0x83, CHR 0xE7, CHR 0x94, CHR 0xA8,
     CHR 0xE8, CHR 0xBD, CHR 0xAE, CHR 0xE6, CHR 0x95, CHR 0xB0, CHR 0x20]"

text \<open>The goal of the session is judged when the turn would end.\<close>

definition judge_step ::
    "run_config \<Rightarrow> turn_env \<Rightarrow> message_attachment list \<Rightarrow> assistant_output \<Rightarrow> run \<Rightarrow> turn_result" where
  "judge_step cfg env atts output r =
     (case (rc_place cfg, te_goal env) of
        (Some _, Some condition) \<Rightarrow>
          let r = persist cfg FlushSegment r
          in if \<not> rc_judge cfg then Break r (Inr output)
             else case te_verdict env of
               Achieved reason \<Rightarrow>
                 let r = save (SavedActiveGoal None) r;
                     r = save (SavedGoal ''achieved'' condition reason (rn_goal_iterations r)) r
                 in Break (emit (GoalAchieved condition reason) r) (Inr output)
             | Impossible reason \<Rightarrow>
                 let r = save (SavedActiveGoal None) r;
                     r = save (SavedGoal ''impossible'' condition reason (rn_goal_iterations r)) r
                 in Break (emit (GoalImpossible condition reason) r) (Inr output)
             | NotYet reason \<Rightarrow>
                 if te_cancelled_judge env then Break r (Inl CancelledError)
                 else
                   let n = rn_goal_iterations r + 1;
                       r = r\<lparr>rn_goal_iterations := n\<rparr>;
                       r = save (SavedActiveGoal (Some (condition, n, reason))) r;
                       r = save (SavedGoal ''progress'' condition reason n) r;
                       r = emit (GoalProgress n reason) r;
                       r = push_system_feedback cfg ''goal_feedback''
                             (goal_feedback_open @ reason @ goal_feedback_close) r
                   in Continue (r\<lparr>rn_accepting := True, rn_attachments := atts\<rparr>)
      | _ \<Rightarrow> Break r (Inr output))"

definition stop_hook_step ::
    "run_config \<Rightarrow> turn_env \<Rightarrow> message_attachment list \<Rightarrow> assistant_output \<Rightarrow> run \<Rightarrow> turn_result" where
  "stop_hook_step cfg env atts output r =
     (if rc_hooks cfg \<and> rn_stop_injections r < MAX_STOP_INJECTIONS then
        let (status, detail) =
              (case te_stop_hook env of
                 InjectFollowup s \<Rightarrow> if trim s \<noteq> [] then (''injected'', trim s) else (''passed'', [])
               | StopBlocked s \<Rightarrow> (''blocked'', s)
               | StopPassed \<Rightarrow> (''passed'', []));
            r = (if rc_place cfg \<noteq> None then save (SavedHook status detail) (persist cfg FlushSegment r) else r)
        in case te_stop_hook env of
             InjectFollowup s \<Rightarrow>
               if trim s \<noteq> [] then
                 let r = push_system_feedback cfg ''hook_feedback''
                           (hook_feedback_open @ trim s @ hook_feedback_close)
                           (r\<lparr>rn_stop_injections := rn_stop_injections r + 1\<rparr>)
                 in Continue (r\<lparr>rn_accepting := True, rn_attachments := atts\<rparr>)
               else judge_step cfg env atts output r
           | _ \<Rightarrow> judge_step cfg env atts output r
      else judge_step cfg env atts output r)"

definition done_step ::
    "run_config \<Rightarrow> turn_env \<Rightarrow> nat \<Rightarrow> nat \<Rightarrow> finish_reason \<Rightarrow> str \<Rightarrow> str \<Rightarrow> message_attachment list \<Rightarrow> usage \<Rightarrow>
      run \<Rightarrow> turn_result" where
  "done_step cfg env turn estimated fin txt reasoning atts u r =
     (let r = record_request_usage u estimated (r\<lparr>rn_last_finish := fin\<rparr>);
          streamed = used_stream_path cfg env;
          detected = (cl_leak_start (rc_cleaning cfg) txt \<noteq> None);
          clean = sanitize_tool_xml_leak (rc_cleaning cfg) txt
      in if detected \<and> rn_leak_recoveries r < MAX_TOOL_XML_LEAK_RECOVERIES then
           let r = r\<lparr>rn_leak_recoveries := rn_leak_recoveries r + 1\<rparr>;
               r = (if \<not> streamed \<and> txt \<noteq> [] then emit (DeltaText txt) r else r);
               r = push_assistant clean reasoning [] r
           in Continue (push_system_feedback cfg ''tool_format_error'' tool_format_feedback r)
         else
           let r = (if \<not> streamed \<and> reasoning \<noteq> [] then emit (ReasoningText reasoning) r else r);
               r = emit (TurnFinished turn EndTurn) (emit (DoneText txt) r);
               r = (if te_pending_done env \<noteq> [] then persist cfg FlushSegment r else r);
               r = push_assistant clean reasoning [] r;
               all = rn_attachments r @ atts;
               r = drain_pending_inputs cfg (te_pending_done env) (r\<lparr>rn_accepting := False\<rparr>)
           in if te_pending_done env \<noteq> [] then
                Continue (r\<lparr>rn_accepting := True, rn_attachments := all\<rparr>)
              else stop_hook_step cfg env all \<lparr>ao_text = clean, ao_attachments = all\<rparr> r)"

definition run_tools :: "run_config \<Rightarrow> turn_env \<Rightarrow> nat \<Rightarrow> call_entry list \<Rightarrow> run \<Rightarrow> turn_result" where
  "run_tools cfg env turn calls r =
     (let r = r\<lparr>rn_iteration := rn_iteration r + 1, rn_tool_steps := rn_tool_steps r + 1\<rparr>;
          r = emit (StepStarted ToolStep (rn_tool_steps r)) r
      in case run_calls calls (te_calls_done env) of
           Inl e \<Rightarrow> Break (emit (TurnFinished turn StopCancelled) r) (Inl e)
         | Inr rs \<Rightarrow>
             let r = push_tool_results rs r;
                 r = emit (StepFinished ToolStep (rn_tool_steps r)) (r\<lparr>rn_offset := rn_offset r + length calls\<rparr>);
                 r = (if te_pending_tools env \<noteq> [] then persist cfg FlushSegment r else r);
                 r = drain_pending_inputs cfg (te_pending_tools env) r
             in case te_phase env of
                  None \<Rightarrow> Continue (emit (TurnFinished turn EndTurn) r)
                | Some ph \<Rightarrow>
                    let r = emit RunSuspended r;
                        r = on_disk cfg (SavedCheckpoint (rn_iteration r) (rn_model_steps r) (rn_tool_steps r)
                              (rn_offset r) (rn_totals r)) r
                    in Break (emit (TurnFinished turn EndTurn) r) (Inl SuspendedError))"

definition tools_step ::
    "run_config \<Rightarrow> turn_env \<Rightarrow> nat \<Rightarrow> nat \<Rightarrow> str \<Rightarrow> str \<Rightarrow> call_entry list \<Rightarrow> message_attachment list \<Rightarrow> usage \<Rightarrow>
      run \<Rightarrow> turn_result" where
  "tools_step cfg env turn estimated txt reasoning calls atts u r =
     (let r = record_request_usage u estimated r;
          streamed = used_stream_path cfg env;
          r = (if \<not> streamed \<and> reasoning \<noteq> [] then emit (ReasoningText reasoning) r else r);
          r = (if \<not> streamed \<and> txt \<noteq> [] then emit (DeltaText txt) r else r);
          r = push_assistant txt reasoning calls (r\<lparr>rn_attachments := rn_attachments r @ atts\<rparr>)
      in case rc_max_iterations cfg of
           Some n \<Rightarrow>
             if rn_iteration r \<ge> n then
               Break (emit (TurnFinished turn MaxIterations) r) (Inl (OtherError (max_iterations_text @ dec n)))
             else run_tools cfg env turn calls r
         | None \<Rightarrow> run_tools cfg env turn calls r)"

text \<open>The turn around the call: what comes before it, and what each answer leads to.\<close>

definition begin_call :: "run_config \<Rightarrow> turn_env \<Rightarrow> run \<Rightarrow> run" where
  "begin_call cfg env r =
     (let r = emit (TurnStarted (rn_turn r)) (r\<lparr>rn_turn := rn_turn r + 1\<rparr>);
          r = (send_request (main_request cfg env r) r)\<lparr>rn_model_steps := rn_model_steps r + 1\<rparr>
      in emit (StepStarted ModelStep (rn_model_steps r)) r)"

definition end_call :: "run_event list \<Rightarrow> run \<Rightarrow> run" where
  "end_call retries r = emit (StepFinished ModelStep (rn_model_steps r)) (fold emit retries r)"

definition answer_step ::
    "run_config \<Rightarrow> turn_env \<Rightarrow> nat \<Rightarrow> nat \<Rightarrow> model_error + model_response \<Rightarrow> run \<Rightarrow> turn_result" where
  "answer_step cfg env turn estimated res r =
     (case res of
        Inl e \<Rightarrow>
          if is_context_too_long e \<and> \<not> rn_emergency r then emergency_step cfg turn r
          else Break (emit (TurnFinished turn StopFailed) r) (Inl e)
      | Inr (ModelDone fin txt reasoning atts u) \<Rightarrow>
          done_step cfg env turn estimated fin txt reasoning atts u r
      | Inr (ModelToolCalls txt reasoning calls atts u) \<Rightarrow>
          tools_step cfg env turn estimated txt reasoning calls atts u r)"

definition run_turn :: "run_config \<Rightarrow> turn_env \<Rightarrow> run \<Rightarrow> turn_result" where
  "run_turn cfg env r =
     (if te_cancelled env then Break (drain_pending_inputs cfg (te_pending env) r) (Inl CancelledError)
      else
        case compaction_step cfg env (microcompact_step cfg (drain_pending_inputs cfg (te_pending env) r)) of
          Inl r \<Rightarrow> Return r CancelledError
        | Inr r \<Rightarrow>
            (case call_model (te_answers env) (te_polls env) 0 of
               (res, retries) \<Rightarrow>
                 answer_step cfg env (rn_turn r)
                   (estimate_transcript_tokens (rc_json cfg) (rc_system cfg) (rn_entries r)) res
                   (end_call retries (begin_call cfg env r))))"

section \<open>The end of a run\<close>

definition truncated_text :: str where
  "truncated_text =
     [CHR 0xE5, CHR 0x9B, CHR 0x9E, CHR 0xE7, CHR 0xAD, CHR 0x94, CHR 0xE8, CHR 0xA2, CHR 0xAB,
     CHR 0xE9, CHR 0x95, CHR 0xBF, CHR 0xE5, CHR 0xBA, CHR 0xA6, CHR 0xE4, CHR 0xB8, CHR 0x8A,
     CHR 0xE9, CHR 0x99, CHR 0x90, CHR 0xE6, CHR 0x88, CHR 0xAA, CHR 0xE6, CHR 0x96, CHR 0xAD,
     CHR 0xE4, CHR 0xBA, CHR 0x86, CHR 0xEF, CHR 0xBC, CHR 0x8C, CHR 0xE7, CHR 0x82, CHR 0xB9,
     CHR 0xE3, CHR 0x80, CHR 0x8C, CHR 0xE7, CHR 0xBB, CHR 0xA7, CHR 0xE7, CHR 0xBB, CHR 0xAD,
     CHR 0xE3, CHR 0x80, CHR 0x8D, CHR 0xE8, CHR 0xAE, CHR 0xA9, CHR 0xE6, CHR 0xA8, CHR 0xA1,
     CHR 0xE5, CHR 0x9E, CHR 0x8B, CHR 0xE6, CHR 0x8E, CHR 0xA5, CHR 0xE7, CHR 0x9D, CHR 0x80,
     CHR 0xE5, CHR 0x86, CHR 0x99]"

definition refused_text :: str where
  "refused_text =
     [CHR 0xE6, CHR 0xA8, CHR 0xA1, CHR 0xE5, CHR 0x9E, CHR 0x8B, CHR 0xE8, CHR 0xBF, CHR 0x99,
     CHR 0xE6, CHR 0xAC, CHR 0xA1, CHR 0xE6, CHR 0x8B, CHR 0x92, CHR 0xE7, CHR 0xBB, CHR 0x9D,
     CHR 0xE4, CHR 0xBA, CHR 0x86, CHR 0xE5, CHR 0x9B, CHR 0x9E, CHR 0xE7, CHR 0xAD, CHR 0x94]"

definition filtered_text :: str where
  "filtered_text =
     [CHR 0xE8, CHR 0xBF, CHR 0x99, CHR 0xE6, CHR 0xAC, CHR 0xA1, CHR 0xE5, CHR 0x86, CHR 0x85,
     CHR 0xE5, CHR 0xAE, CHR 0xB9, CHR 0xE8, CHR 0xA2, CHR 0xAB, CHR 0xE5, CHR 0xAE, CHR 0x89,
     CHR 0xE5, CHR 0x85, CHR 0xA8, CHR 0xE7, CHR 0xAD, CHR 0x96, CHR 0xE7, CHR 0x95, CHR 0xA5,
     CHR 0xE6, CHR 0x8B, CHR 0xA6, CHR 0xE4, CHR 0xBA, CHR 0x86, CHR 0xE4, CHR 0xB8, CHR 0x8B,
     CHR 0xE6, CHR 0x9D, CHR 0xA5]"

definition odd_finish_open :: str where
  "odd_finish_open =
     [CHR 0xE6, CHR 0xA8, CHR 0xA1, CHR 0xE5, CHR 0x9E, CHR 0x8B, CHR 0xE5, CHR 0xBC, CHR 0x82,
     CHR 0xE5, CHR 0xB8, CHR 0xB8, CHR 0xE7, CHR 0xBB, CHR 0x93, CHR 0xE6, CHR 0x9D, CHR 0x9F,
     CHR 0xEF, CHR 0xBC, CHR 0x88]"

definition odd_finish_close :: str where
  "odd_finish_close =
     [CHR 0xEF, CHR 0xBC, CHR 0x89, CHR 0xEF, CHR 0xBC, CHR 0x8C, CHR 0xE7, CHR 0x82, CHR 0xB9,
     CHR 0xE3, CHR 0x80, CHR 0x8C, CHR 0xE7, CHR 0xBB, CHR 0xA7, CHR 0xE7, CHR 0xBB, CHR 0xAD,
     CHR 0xE3, CHR 0x80, CHR 0x8D, CHR 0xE5, CHR 0x86, CHR 0x8D, CHR 0xE8, CHR 0xAF, CHR 0x95,
     CHR 0xE4, CHR 0xB8, CHR 0x80, CHR 0xE6, CHR 0xAC, CHR 0xA1]"

definition not_ok_open :: str where
  "not_ok_open =
     [CHR 0xE8, CHR 0xBF, CHR 0x99, CHR 0xE6, CHR 0xAC, CHR 0xA1, CHR 0xE8, CHR 0xAF, CHR 0xB7,
     CHR 0xE6, CHR 0xB1, CHR 0x82, CHR 0xE6, CHR 0xB2, CHR 0xA1, CHR 0xE6, CHR 0x88, CHR 0x90,
     CHR 0xE5, CHR 0x8A, CHR 0x9F, CHR 0xEF, CHR 0xBC, CHR 0x88]"

definition not_ok_close :: str where
  "not_ok_close =
     [CHR 0xEF, CHR 0xBC, CHR 0x89, CHR 0xEF, CHR 0xBC, CHR 0x8C, CHR 0xE7, CHR 0x82, CHR 0xB9,
     CHR 0xE3, CHR 0x80, CHR 0x8C, CHR 0xE7, CHR 0xBB, CHR 0xA7, CHR 0xE7, CHR 0xBB, CHR 0xAD,
     CHR 0xE3, CHR 0x80, CHR 0x8D, CHR 0xE9, CHR 0x87, CHR 0x8D, CHR 0xE8, CHR 0xAF, CHR 0x95]"

definition continue_for_outcome ::
    "model_error + assistant_output \<Rightarrow> finish_reason \<Rightarrow> (continue_kind \<times> str) option" where
  "continue_for_outcome res fin =
     (case res of
        Inr _ \<Rightarrow>
          (case fin of
             FinishStop \<Rightarrow> None
           | FinishLength \<Rightarrow> Some (Truncated, truncated_text)
           | FinishRefusal \<Rightarrow> Some (Refused, refused_text)
           | FinishContentFilter \<Rightarrow> Some (Filtered, filtered_text)
           | FinishOther s \<Rightarrow> Some (OtherKind, odd_finish_open @ s @ odd_finish_close))
      | Inl CancelledError \<Rightarrow> None
      | Inl SuspendedError \<Rightarrow> None
      | Inl e \<Rightarrow> Some (NetworkError, not_ok_open @ error_text e @ not_ok_close))"

text \<open>What the worktree of the edits reports at the end of a run.\<close>

datatype edits_outcome = EditsNone | EditsCommitted | EditsFailed

definition commit_run_edits :: "run_config \<Rightarrow> edits_outcome \<Rightarrow> run \<Rightarrow> run" where
  "commit_run_edits cfg edits r =
     (if rc_nested cfg then r
      else case edits of
             EditsNone \<Rightarrow> r
           | EditsCommitted \<Rightarrow> emit RunEditsCommitted r
           | EditsFailed \<Rightarrow> emit (Notice SaveEditsFailed) r)"

definition report_outcome :: "run_config \<Rightarrow> model_error + assistant_output \<Rightarrow> run \<Rightarrow> run" where
  "report_outcome cfg res r =
     (case res of
        Inr _ \<Rightarrow> emit (RunFinished (rn_totals r)) (persist cfg Finish r)
      | Inl CancelledError \<Rightarrow> emit RunCancelled (persist cfg FinishInterrupted r)
      | Inl SuspendedError \<Rightarrow> persist cfg Finish r
      | Inl e \<Rightarrow> emit (RunFailed (error_text e)) (persist cfg FinishInterrupted r))"

definition finish_run ::
    "run_config \<Rightarrow> edits_outcome \<Rightarrow> model_error + assistant_output \<Rightarrow> run \<Rightarrow> run" where
  "finish_run cfg edits res r =
     (let r = r\<lparr>rn_accepting := False\<rparr>;
          r = (if res = Inl SuspendedError then r else commit_run_edits cfg edits r);
          r = report_outcome cfg res r
      in if res = Inl SuspendedError then r
         else
           let pending = continue_for_outcome res (rn_last_finish r);
               r = (case pending of
                      None \<Rightarrow> r
                    | Some (kind, message) \<Rightarrow> emit (Notice (PendingContinue kind message)) r)
           in on_disk cfg (SavedContinue pending) r)"

section \<open>A whole run\<close>

datatype run_result = Running run | Ended run "model_error + assistant_output"

fun run_loop :: "run_config \<Rightarrow> edits_outcome \<Rightarrow> turn_env list \<Rightarrow> run \<Rightarrow> run_result" where
  "run_loop cfg edits [] r = Running r"
| "run_loop cfg edits (env # envs) r =
     (case run_turn cfg env r of
        Continue r' \<Rightarrow> run_loop cfg edits envs r'
      | Break r' res \<Rightarrow> Ended (finish_run cfg edits res r') res
      | Return r' e \<Rightarrow> Ended r' (Inl e))"

record run_checkpoint =
  ck_iteration :: nat
  ck_model_step :: nat
  ck_tool_step :: nat
  ck_offset :: nat
  ck_totals :: usage

definition start_run ::
    "run_checkpoint option \<Rightarrow> nat \<times> nat \<Rightarrow> artifacts \<Rightarrow> transcript_entry list \<Rightarrow> run" where
  "start_run resume calib files es =
     (let fresh = \<lparr>ck_iteration = 0, ck_model_step = 0, ck_tool_step = 0, ck_offset = 0,
                   ck_totals = \<lparr>us_input = 0, us_output = 0, us_cache_read = 0, us_cache_creation = 0\<rparr>\<rparr>;
          c = (case resume of None \<Rightarrow> fresh | Some c \<Rightarrow> c)
      in \<lparr>rn_entries = es, rn_iteration = ck_iteration c, rn_offset = ck_offset c,
          rn_model_steps = ck_model_step c, rn_tool_steps = ck_tool_step c, rn_turn = 0,
          rn_totals = ck_totals c, rn_calib = calib, rn_attachments = [], rn_stop_injections = 0,
          rn_goal_iterations = 0, rn_leak_recoveries = 0, rn_last_finish = FinishStop, rn_emergency = False,
          rn_accepting = True, rn_files = files,
          rn_events = [case resume of None \<Rightarrow> RunStarted | Some _ \<Rightarrow> RunResumed],
          rn_saved = [], rn_requests = []\<rparr>)"

definition run_agent ::
    "run_config \<Rightarrow> edits_outcome \<Rightarrow> run_checkpoint option \<Rightarrow> nat \<times> nat \<Rightarrow> artifacts \<Rightarrow>
      transcript_entry list \<Rightarrow> turn_env list \<Rightarrow> run_result" where
  "run_agent cfg edits resume calib files es envs =
     run_loop cfg edits envs (start_run resume calib files es)"

section \<open>The driver of a surface (\<open>harness.rs\<close>)\<close>

definition closed_text :: str where
  "closed_text =
     [CHR 0xE4, CHR 0xBA, CHR 0x8B, CHR 0xE4, CHR 0xBB, CHR 0xB6, CHR 0xE6, CHR 0xB5, CHR 0x81,
     CHR 0xE6, CHR 0x84, CHR 0x8F, CHR 0xE5, CHR 0xA4, CHR 0x96, CHR 0xE5, CHR 0x85, CHR 0xB3,
     CHR 0xE9, CHR 0x97, CHR 0xAD]"

datatype turn_outcome = OutcomeDone usage | OutcomeCancelled | OutcomeSuspended | OutcomeFailed str

text \<open>The outcome, and the events the observer is given. After the last event of a run that finished or was
  suspended the driver reads on until the channel closes (for at most five seconds, in which the
  rest is taken to arrive); after a failure or a cancellation it returns at once.\<close>

fun drive :: "run_event list \<Rightarrow> turn_outcome \<times> run_event list" where
  "drive [] = (OutcomeFailed closed_text, [])"
| "drive (e # es) =
     (case e of
        RunFinished u \<Rightarrow> (OutcomeDone u, e # es)
      | RunFailed s \<Rightarrow> (OutcomeFailed s, [e])
      | RunCancelled \<Rightarrow> (OutcomeCancelled, [e])
      | RunSuspended \<Rightarrow> (OutcomeSuspended, e # es)
      | _ \<Rightarrow> (case drive es of (out, shown) \<Rightarrow> (out, e # shown)))"

end
