(* ===== verification/Gateway_Json.thy ===== *)
theory Gateway_Json
  imports Agent_Loop Turn_Accumulator "HOL-Library.AList"
begin

text \<open>
  What the code of the model gateway (\<open>crates/model-gateway\<close>) uses of JSON values, of attachments
  (\<open>crates/common/src/attachments.rs\<close>), and the request it gets (\<open>types.rs\<close>). The fields of an object
  are a list of pairs; their order means nothing, because \<open>serde_json\<close> keeps them sorted.
\<close>

section \<open>Values\<close>

definition json_get :: "json \<Rightarrow> str \<Rightarrow> json option" where
  "json_get v k = (case v of JObj kvs \<Rightarrow> map_of kvs k | _ \<Rightarrow> None)"

text \<open>\<open>v["k"]\<close> and \<open>v[0]\<close>: null when there is no such thing.\<close>

definition json_at :: "json \<Rightarrow> str \<Rightarrow> json" where
  "json_at v k = (case json_get v k of Some x \<Rightarrow> x | None \<Rightarrow> JNull)"

definition json_first :: "json \<Rightarrow> json" where
  "json_first v = (case v of JArr (x # _) \<Rightarrow> x | _ \<Rightarrow> JNull)"

definition as_str :: "json \<Rightarrow> str option" where
  "as_str v = (case v of JStr s \<Rightarrow> Some s | _ \<Rightarrow> None)"

definition as_array :: "json \<Rightarrow> json list option" where
  "as_array v = (case v of JArr xs \<Rightarrow> Some xs | _ \<Rightarrow> None)"

definition as_u64 :: "json \<Rightarrow> nat option" where
  "as_u64 v = (case v of JNum n \<Rightarrow> if 0 \<le> n \<and> n < 2 ^ 64 then Some (nat n) else None | _ \<Rightarrow> None)"

definition is_object :: "json \<Rightarrow> bool" where
  "is_object v = (case v of JObj _ \<Rightarrow> True | _ \<Rightarrow> False)"

text \<open>\<open>unwrap_or("")\<close>, and \<open>filter(|s| !s.is_empty())\<close>.\<close>

definition str_or_empty :: "json \<Rightarrow> str" where
  "str_or_empty v = (case as_str v of Some s \<Rightarrow> s | None \<Rightarrow> [])"

definition nonempty_str_of :: "json \<Rightarrow> str option" where
  "nonempty_str_of v = (case as_str v of Some s \<Rightarrow> if s = [] then None else Some s | None \<Rightarrow> None)"

definition first_of :: "'a option \<Rightarrow> 'a option \<Rightarrow> 'a option" where
  "first_of a b = (case a of None \<Rightarrow> b | Some _ \<Rightarrow> a)"

text \<open>\<open>map.insert\<close> and \<open>map.remove\<close> on an object; \<open>v["k"] = x\<close> on any value, which makes an object
  of null and panics (\<open>None\<close>) on everything else.\<close>

definition json_put :: "str \<Rightarrow> json \<Rightarrow> json \<Rightarrow> json" where
  "json_put k x v = (case v of JObj kvs \<Rightarrow> JObj (AList.update k x kvs) | _ \<Rightarrow> v)"

definition json_remove :: "str \<Rightarrow> json \<Rightarrow> json" where
  "json_remove k v = (case v of JObj kvs \<Rightarrow> JObj (AList.delete k kvs) | _ \<Rightarrow> v)"

definition json_set :: "str \<Rightarrow> json \<Rightarrow> json \<Rightarrow> json option" where
  "json_set k x v =
     (case v of
        JObj kvs \<Rightarrow> Some (JObj (AList.update k x kvs))
      | JNull \<Rightarrow> Some (JObj [(k, x)])
      | _ \<Rightarrow> None)"

definition map_last :: "('a \<Rightarrow> 'a) \<Rightarrow> 'a list \<Rightarrow> 'a list" where
  "map_last f xs = (if xs = [] then [] else butlast xs @ [f (last xs)])"

lemma json_at_obj: "json_at (JObj kvs) k = (case map_of kvs k of Some x \<Rightarrow> x | None \<Rightarrow> JNull)"
  by (simp add: json_at_def json_get_def)

lemma json_get_obj [simp]: "json_get (JObj kvs) k = map_of kvs k"
  by (simp add: json_get_def)

lemma as_simps [simp]:
  "as_str (JStr s) = Some s" "as_str JNull = None" "as_str (JObj kvs) = None" "as_str (JArr xs) = None"
  "as_str (JNum n) = None" "as_str (JBool b) = None"
  "as_array (JArr xs) = Some xs" "as_array (JStr s) = None" "as_array JNull = None"
  "as_array (JObj kvs) = None"
  "is_object (JObj kvs)" "\<not> is_object (JStr s)" "\<not> is_object JNull" "\<not> is_object (JArr xs)"
  "str_or_empty (JStr s) = s" "str_or_empty JNull = []"
  "nonempty_str_of JNull = None" "nonempty_str_of (JStr s) = (if s = [] then None else Some s)"
  by (simp_all add: as_str_def as_array_def is_object_def str_or_empty_def nonempty_str_of_def)

lemma first_of_simps [simp]: "first_of None b = b" "first_of (Some a) b = Some a"
  by (simp_all add: first_of_def)

lemma json_get_put [simp]:
  "is_object v \<Longrightarrow> json_get (json_put k x v) k' = (if k = k' then Some x else json_get v k')"
  by (auto simp: json_put_def is_object_def update_conv' split: json.splits)

lemma is_object_put [simp]: "is_object (json_put k x v) = is_object v"
  by (simp add: json_put_def is_object_def split: json.split)

lemma json_get_remove [simp]: "json_get (json_remove k v) k' = (if k = k' then None else json_get v k')"
  by (simp add: json_remove_def json_get_def delete_conv' split: json.split)

lemma is_object_remove [simp]: "is_object (json_remove k v) = is_object v"
  by (simp add: json_remove_def is_object_def split: json.split)

section \<open>Attachments\<close>

definition escape_attr :: "str \<Rightarrow> str" where
  "escape_attr v =
     str_replace (str_replace (str_replace (str_replace v ''&'' ''&amp;'') [CHR 0x22] ''&quot;'')
       ''<'' ''&lt;'') ''>'' ''&gt;''"

definition file_open :: str where
  "file_open =
     [CHR 0x3C, CHR 0x66, CHR 0x69, CHR 0x6C, CHR 0x65, CHR 0x20, CHR 0x6E, CHR 0x61, CHR 0x6D,
     CHR 0x65, CHR 0x3D, CHR 0x22]"

definition file_type :: str where
  "file_type =
     [CHR 0x22, CHR 0x20, CHR 0x6D, CHR 0x65, CHR 0x64, CHR 0x69, CHR 0x61, CHR 0x5F, CHR 0x74,
     CHR 0x79, CHR 0x70, CHR 0x65, CHR 0x3D, CHR 0x22]"

definition file_middle :: str where
  "file_middle =
     [CHR 0x22, CHR 0x3E, CHR 0x0A]"

definition file_close :: str where
  "file_close =
     [CHR 0x0A, CHR 0x3C, CHR 0x2F, CHR 0x66, CHR 0x69, CHR 0x6C, CHR 0x65, CHR 0x3E]"

fun as_text_block :: "message_attachment \<Rightarrow> str option" where
  "as_text_block (TextFile name media body) =
     Some (file_open @ escape_attr name @ file_type @ escape_attr media @ file_middle @ body @ file_close)"
| "as_text_block (Image _ _ _) = None"

fun image_data_url :: "message_attachment \<Rightarrow> str option" where
  "image_data_url (Image _ media dat) = Some (''data:'' @ media @ '';base64,'' @ dat)"
| "image_data_url (TextFile _ _ _) = None"

section \<open>A request to a model\<close>

record tool_definition =
  td_name :: str
  td_description :: str
  td_parameters :: json

record call_request =
  cq_model :: str
  cq_system :: "str option"
  cq_entries :: "transcript_entry list"
  cq_tools :: "tool_definition list"
  cq_max_tokens :: nat
  cq_reasoning :: "reasoning_config option"
  cq_compact_key :: "str option"

definition IMAGE_GENERATION_TOOL_NAME :: str where
  "IMAGE_GENERATION_TOOL_NAME = ''image_generation''"

definition has_image_generation_tool :: "tool_definition list \<Rightarrow> bool" where
  "has_image_generation_tool ts = list_ex (\<lambda>t. td_name t = IMAGE_GENERATION_TOOL_NAME) ts"

text \<open>The reasoning of a DeepSeek model is on unless the user switched it off.\<close>

definition deepseek_enabled :: "call_request \<Rightarrow> bool" where
  "deepseek_enabled req =
     (case cq_reasoning req of
        None \<Rightarrow> True
      | Some c \<Rightarrow> (case rc_enabled c of Some b \<Rightarrow> b | None \<Rightarrow> True))"

definition deepseek_effort_of :: "call_request \<Rightarrow> str" where
  "deepseek_effort_of req =
     (case cq_reasoning req of Some c \<Rightarrow> deepseek_effort (effective_effort c) | None \<Rightarrow> ''high'')"

definition DEEPSEEK_HIGH_THINKING_BUDGET :: nat where "DEEPSEEK_HIGH_THINKING_BUDGET = 32768"
definition DEEPSEEK_HIGH_SAFE_MAX_TOKENS :: nat where "DEEPSEEK_HIGH_SAFE_MAX_TOKENS = 65536"
definition DEEPSEEK_MAX_SAFE_MAX_TOKENS :: nat where "DEEPSEEK_MAX_SAFE_MAX_TOKENS = 131072"

definition deepseek_max_tokens :: "call_request \<Rightarrow> nat" where
  "deepseek_max_tokens req =
     (if cq_max_tokens req \<le> DEEPSEEK_HIGH_THINKING_BUDGET
      then if deepseek_effort_of req = ''max'' then DEEPSEEK_MAX_SAFE_MAX_TOKENS
           else DEEPSEEK_HIGH_SAFE_MAX_TOKENS
      else cq_max_tokens req)"

section \<open>Events of a streamed answer\<close>

datatype stream_event =
  StreamText str | StreamReasoning str | StreamSignature str | StreamDuration nat
| StreamCall nat "str option" "str option" "str option"

text \<open>What the loop makes of them: the callback \<open>stream_cb\<close> of \<open>run_agent\<close>.\<close>

fun stream_payload :: "nat \<Rightarrow> stream_event \<Rightarrow> event_payload option" where
  "stream_payload n (StreamText t) = Some (TextDelta t)"
| "stream_payload n (StreamReasoning t) = Some (ReasoningEvent t)"
| "stream_payload n (StreamSignature s) = None"
| "stream_payload n (StreamDuration ms) = Some (ReasoningDuration ms)"
| "stream_payload n (StreamCall i cid name d) = Some (ToolCallDelta (n + i) cid name d)"

end
