(* ===== verification/Openai_Wire.thy ===== *)
theory Openai_Wire
  imports Gateway_Json
begin

text \<open>
  The formats of OpenAI (\<open>crates/model-gateway/src/protocols/openai.rs\<close>): the bodies of chat
  completions, with the dialect of DeepSeek, and of the Responses interface, and what is read out of
  answers and of the frames of a stream. \<open>pj\<close> is \<open>serde_json::from_str\<close>, \<open>js\<close> is \<open>to_string\<close> and \<open>lower\<close>
  is \<open>str::to_lowercase\<close>.
\<close>

section \<open>Chat completions: the messages\<close>

definition typed_text :: "str \<Rightarrow> str \<Rightarrow> json" where
  "typed_text ty t = JObj [(''type'', JStr ty), (''text'', JStr t)]"

definition chat_image :: "str \<Rightarrow> json" where
  "chat_image url = JObj [(''type'', JStr ''image_url''), (''image_url'', JObj [(''url'', JStr url)])]"

definition chat_attachment :: "message_attachment \<Rightarrow> json option" where
  "chat_attachment a =
     first_of (map_option (typed_text ''text'') (as_text_block a)) (map_option chat_image (image_data_url a))"

definition chat_user_content :: "user_entry \<Rightarrow> json" where
  "chat_user_content u =
     (if ue_attachments u = [] then JStr (ue_text u)
      else JArr ((if trim (ue_text u) = [] then [] else [typed_text ''text'' (ue_text u)]) @
             List.map_filter chat_attachment (ue_attachments u)))"

definition chat_message :: "str \<Rightarrow> json \<Rightarrow> json" where
  "chat_message r content = JObj [(''role'', JStr r), (''content'', content)]"

definition chat_call :: "(json \<Rightarrow> str) \<Rightarrow> call_entry \<Rightarrow> json" where
  "chat_call js c =
     JObj [(''id'', JStr (ce_id c)), (''type'', JStr ''function''),
       (''function'', JObj [(''name'', JStr (ce_name c)), (''arguments'', JStr (js (ce_input c)))])]"

definition chat_assistant :: "(json \<Rightarrow> str) \<Rightarrow> assistant_entry \<Rightarrow> json" where
  "chat_assistant js e =
     (let msg = (if ae_tool_calls e = [] then chat_message ''assistant'' (JStr (ae_text e))
                 else JObj [(''role'', JStr ''assistant''),
                        (''content'', if ae_text e = [] then JNull else JStr (ae_text e)),
                        (''tool_calls'', JArr (map (chat_call js) (ae_tool_calls e)))])
      in if ae_reasoning e = [] then msg
         else json_put ''reasoning_content'' (JStr (ae_reasoning e)) msg)"

definition chat_tool_message :: "tool_result \<Rightarrow> json" where
  "chat_tool_message r =
     JObj [(''role'', JStr ''tool''), (''tool_call_id'', JStr (tr_call_id r)),
           (''content'', JStr (tr_content r))]"

definition chat_result :: "tool_result \<Rightarrow> json list" where
  "chat_result r =
     (let images = map chat_image (List.map_filter image_data_url (tr_attachments r))
      in chat_tool_message r # (if images = [] then [] else [chat_message ''user'' (JArr images)]))"

fun chat_entry :: "(json \<Rightarrow> str) \<Rightarrow> transcript_entry \<Rightarrow> json list" where
  "chat_entry js (UserEntry u) = [chat_message ''user'' (chat_user_content u)]"
| "chat_entry js (AssistantEntry e) = [chat_assistant js e]"
| "chat_entry js (ToolResults rs) = concat (map chat_result rs)"

definition chat_messages :: "(json \<Rightarrow> str) \<Rightarrow> str option \<Rightarrow> transcript_entry list \<Rightarrow> json list" where
  "chat_messages js system es =
     (case system of
        Some s \<Rightarrow> if trim s = [] then [] else [chat_message ''system'' (JStr s)]
      | None \<Rightarrow> []) @ concat (map (chat_entry js) es)"

section \<open>The dialect of DeepSeek\<close>

definition is_deepseek_thinking_model :: "(str \<Rightarrow> str) \<Rightarrow> str \<Rightarrow> bool" where
  "is_deepseek_thinking_model lower model =
     (let m = lower model
      in if contains_str m ''nothinking'' then False
         else starts_with m ''deepseek-v4'' \<or> m = ''deepseek-reasoner'')"

definition has_tool_calls :: "json \<Rightarrow> bool" where
  "has_tool_calls msg \<longleftrightarrow>
     (case Option.bind (json_get msg ''tool_calls'') as_array of Some xs \<Rightarrow> xs \<noteq> [] | None \<Rightarrow> False)"

definition deepseek_message :: "json \<Rightarrow> json" where
  "deepseek_message msg =
     (if Option.bind (json_get msg ''role'') as_str \<noteq> Some ''assistant'' \<or> \<not> has_tool_calls msg then msg
      else
        let msg = (if Option.bind (json_get msg ''reasoning_content'') as_str = None
                   then json_put ''reasoning_content'' (JStr []) msg else msg)
        in if json_get msg ''content'' \<in> {None, Some JNull} then json_put ''content'' (JStr []) msg else msg)"

definition map_messages :: "(json \<Rightarrow> json) \<Rightarrow> json \<Rightarrow> json" where
  "map_messages f body =
     (case Option.bind (json_get body ''messages'') as_array of
        Some ms \<Rightarrow> json_put ''messages'' (JArr (map f ms)) body
      | None \<Rightarrow> body)"

definition typed :: "str \<Rightarrow> json" where
  "typed t = JObj [(''type'', JStr t)]"

definition apply_deepseek_compat :: "(str \<Rightarrow> str) \<Rightarrow> call_request \<Rightarrow> json \<Rightarrow> json" where
  "apply_deepseek_compat lower req body =
     (if \<not> is_deepseek_thinking_model lower (cq_model req) then body
      else if \<not> deepseek_enabled req
      then map_messages (json_remove ''reasoning_content'')
             (json_remove ''reasoning_effort'' (json_put ''thinking'' (typed ''disabled'') body))
      else json_put ''max_tokens'' (JNum (int (deepseek_max_tokens req)))
             (json_put ''thinking'' (typed ''enabled'')
               (json_put ''reasoning_effort'' (JStr (deepseek_effort_of req))
                 (map_messages deepseek_message body))))"

section \<open>Chat completions: the body\<close>

definition openai_tool :: "tool_definition \<Rightarrow> json" where
  "openai_tool t =
     JObj [(''type'', JStr ''function''),
       (''function'', JObj [(''name'', JStr (td_name t)), (''description'', JStr (td_description t)),
          (''parameters'', td_parameters t)])]"

definition openai_tool_defs :: "tool_definition list \<Rightarrow> json list" where
  "openai_tool_defs ts = map openai_tool (filter (\<lambda>t. td_name t \<noteq> IMAGE_GENERATION_TOOL_NAME) ts)"

text \<open>The effort of a model that reasons, when the session has it switched on.\<close>

definition openai_effort_of :: "call_request \<Rightarrow> str option" where
  "openai_effort_of req =
     (case cq_reasoning req of
        None \<Rightarrow> None
      | Some c \<Rightarrow>
          if is_enabled c \<and> openai_supports_reasoning (cq_model req)
          then Some (openai_effort_for_model (effective_effort c) (cq_model req)) else None)"

definition chat_body :: "(json \<Rightarrow> str) \<Rightarrow> (str \<Rightarrow> str) \<Rightarrow> call_request \<Rightarrow> bool \<Rightarrow> json" where
  "chat_body js lower req stream =
     (let body = JObj [(''model'', JStr (cq_model req)),
                   (''messages'', JArr (chat_messages js (cq_system req) (cq_entries req))),
                   (''stream'', JBool stream)];
          body = (if stream then json_put ''stream_options'' (JObj [(''include_usage'', JBool True)]) body
                  else body);
          body = (if cq_tools req = [] then body
                  else json_put ''tools'' (JArr (openai_tool_defs (cq_tools req))) body);
          body = (case openai_effort_of req of
                    Some e \<Rightarrow> json_put ''reasoning_effort'' (JStr e) body
                  | None \<Rightarrow> body)
      in apply_deepseek_compat lower req body)"

section \<open>The intent to generate an image\<close>

definition refusal_words :: "str list" where
  "refusal_words =
     [
      [CHR 0xE4, CHR 0xB8, CHR 0x8D, CHR 0xE8, CHR 0xA6, CHR 0x81, CHR 0xE7, CHR 0x94, CHR 0x9F, CHR 0xE6, CHR 0x88, CHR 0x90],
      [CHR 0xE4, CHR 0xB8, CHR 0x8D, CHR 0xE7, CHR 0x94, CHR 0x9F, CHR 0xE6, CHR 0x88, CHR 0x90],
      [CHR 0xE5, CHR 0x88, CHR 0xAB, CHR 0xE7, CHR 0x94, CHR 0x9F, CHR 0xE6, CHR 0x88, CHR 0x90],
      [CHR 0xE4, CHR 0xB8, CHR 0x8D, CHR 0xE8, CHR 0xA6, CHR 0x81, CHR 0xE7, CHR 0x94, CHR 0xBB],
      [CHR 0xE5, CHR 0x88, CHR 0xAB, CHR 0xE7, CHR 0x94, CHR 0xBB],
      [CHR 0xE4, CHR 0xB8, CHR 0xBA, CHR 0xE4, CHR 0xBB, CHR 0x80, CHR 0xE4, CHR 0xB9, CHR 0x88],
      [CHR 0xE4, CHR 0xB8, CHR 0xBA, CHR 0xE4, CHR 0xBD, CHR 0x95],
      [CHR 0xE5, CHR 0xA6, CHR 0x82, CHR 0xE4, CHR 0xBD, CHR 0x95],
      [CHR 0xE6, CHR 0x80, CHR 0x8E, CHR 0xE4, CHR 0xB9, CHR 0x88],
      [CHR 0xE6, CHR 0x8F, CHR 0x90, CHR 0xE7, CHR 0xA4, CHR 0xBA, CHR 0xE8, CHR 0xAF, CHR 0x8D],
      ''do not generate'',
      [CHR 0x64, CHR 0x6F, CHR 0x6E, CHR 0x27, CHR 0x74, CHR 0x20, CHR 0x67, CHR 0x65, CHR 0x6E, CHR 0x65, CHR 0x72, CHR 0x61, CHR 0x74, CHR 0x65],
      ''how to'', ''why'', ''prompt'']"

definition image_nouns :: "str list" where
  "image_nouns =
     [[CHR 0xE5, CHR 0x9B, CHR 0xBE],
      [CHR 0xE5, CHR 0x9B, CHR 0xBE, CHR 0xE7, CHR 0x89, CHR 0x87],
      [CHR 0xE5, CHR 0x9B, CHR 0xBE, CHR 0xE5, CHR 0x83, CHR 0x8F],
      [CHR 0xE7, CHR 0x85, CHR 0xA7, CHR 0xE7, CHR 0x89, CHR 0x87],
      [CHR 0xE6, CHR 0xB5, CHR 0xB7, CHR 0xE6, CHR 0x8A, CHR 0xA5],
      [CHR 0xE6, CHR 0x8F, CHR 0x92, CHR 0xE7, CHR 0x94, CHR 0xBB], ''image'', ''picture'',
      ''photo'', ''poster'', ''illustration'']"

definition generation_verbs :: "str list" where
  "generation_verbs =
     [[CHR 0xE7, CHR 0x94, CHR 0x9F, CHR 0xE6, CHR 0x88, CHR 0x90],
      [CHR 0xE7, CHR 0x94, CHR 0x9F, CHR 0xE5, CHR 0x9B, CHR 0xBE],
      [CHR 0xE5, CHR 0x87, CHR 0xBA, CHR 0xE5, CHR 0x9B, CHR 0xBE],
      [CHR 0xE7, CHR 0x94, CHR 0xBB],
      [CHR 0xE7, CHR 0xBB, CHR 0x98, CHR 0xE5, CHR 0x88, CHR 0xB6],
      [CHR 0xE5, CHR 0x88, CHR 0x9B, CHR 0xE5, CHR 0xBB, CHR 0xBA],
      [CHR 0xE5, CHR 0x88, CHR 0xB6, CHR 0xE4, CHR 0xBD, CHR 0x9C], ''generate'', ''create'',
      ''draw'', ''make'']"

definition image_generation_intent :: "(str \<Rightarrow> str) \<Rightarrow> str \<Rightarrow> bool" where
  "image_generation_intent lower txt =
     (let l = lower txt
      in if mentions l refusal_words then False
         else mentions l image_nouns \<and> mentions l generation_verbs)"

fun last_user_text :: "transcript_entry list \<Rightarrow> str option" where
  "last_user_text [] = None"
| "last_user_text (e # es) =
     (case last_user_text es of
        Some t \<Rightarrow> Some t
      | None \<Rightarrow> (case e of UserEntry u \<Rightarrow> Some (ue_text u) | _ \<Rightarrow> None))"

definition should_force_image_generation :: "(str \<Rightarrow> str) \<Rightarrow> call_request \<Rightarrow> bool" where
  "should_force_image_generation lower req =
     (if \<not> has_image_generation_tool (cq_tools req) then False
      else case last_user_text (cq_entries req) of
             None \<Rightarrow> False
           | Some t \<Rightarrow> image_generation_intent lower t)"

section \<open>Responses: the body\<close>

definition input_image :: "str \<Rightarrow> json" where
  "input_image url = JObj [(''type'', JStr ''input_image''), (''image_url'', JStr url)]"

definition responses_attachment :: "message_attachment \<Rightarrow> json option" where
  "responses_attachment a =
     first_of (map_option (typed_text ''input_text'') (as_text_block a))
       (map_option input_image (image_data_url a))"

definition responses_user_content :: "user_entry \<Rightarrow> json list" where
  "responses_user_content u =
     (let content = (if trim (ue_text u) = [] then [] else [typed_text ''input_text'' (ue_text u)]) @
                    List.map_filter responses_attachment (ue_attachments u)
      in if content = [] then [typed_text ''input_text'' []] else content)"

definition responses_message :: "str \<Rightarrow> json list \<Rightarrow> json" where
  "responses_message r content =
     JObj [(''type'', JStr ''message''), (''role'', JStr r), (''content'', JArr content)]"

definition responses_call :: "(json \<Rightarrow> str) \<Rightarrow> call_entry \<Rightarrow> json" where
  "responses_call js c =
     JObj [(''type'', JStr ''function_call''), (''call_id'', JStr (ce_id c)), (''name'', JStr (ce_name c)),
           (''arguments'', JStr (js (ce_input c)))]"

definition note_name :: "call_entry \<Rightarrow> (str \<Rightarrow> str option) \<Rightarrow> (str \<Rightarrow> str option)" where
  "note_name c names = (if trim (ce_name c) = [] then names else names(ce_id c \<mapsto> ce_name c))"

definition resolve_tool_result_name :: "str \<Rightarrow> str \<Rightarrow> (str \<Rightarrow> str option) \<Rightarrow> str" where
  "resolve_tool_result_name cid name names =
     (if trim name \<noteq> [] then name
      else case names cid of Some n \<Rightarrow> n | None \<Rightarrow> ''unknown_tool'')"

definition responses_result :: "bool \<Rightarrow> (str \<Rightarrow> str option) \<Rightarrow> tool_result \<Rightarrow> json list" where
  "responses_result codex names r =
     (let item = JObj [(''type'', JStr ''function_call_output''), (''call_id'', JStr (tr_call_id r)),
                   (''output'', JStr (tr_content r))];
          item = (if codex
                  then json_put ''name'' (JStr (resolve_tool_result_name (tr_call_id r) (tr_name r) names)) item
                  else item);
          images = map input_image (List.map_filter image_data_url (tr_attachments r))
      in item # (if images = [] then [] else [chat_message ''user'' (JArr images)]))"

fun responses_entry ::
    "(json \<Rightarrow> str) \<Rightarrow> bool \<Rightarrow> transcript_entry \<Rightarrow> json list \<times> (str \<Rightarrow> str option) \<Rightarrow>
     json list \<times> (str \<Rightarrow> str option)" where
  "responses_entry js codex (UserEntry u) (input, names) =
     (input @ [responses_message ''user'' (responses_user_content u)], names)"
| "responses_entry js codex (AssistantEntry e) (input, names) =
     (input @ (if ae_text e = [] then []
               else [responses_message ''assistant'' [typed_text ''output_text'' (ae_text e)]]) @
        map (responses_call js) (ae_tool_calls e),
      fold note_name (ae_tool_calls e) names)"
| "responses_entry js codex (ToolResults rs) (input, names) =
     (input @ concat (map (responses_result codex names) rs), names)"

definition responses_input :: "(json \<Rightarrow> str) \<Rightarrow> bool \<Rightarrow> transcript_entry list \<Rightarrow> json list" where
  "responses_input js codex es = fst (fold (responses_entry js codex) es ([], Map.empty))"

definition responses_tool :: "tool_definition \<Rightarrow> json" where
  "responses_tool t =
     (if td_name t = IMAGE_GENERATION_TOOL_NAME then typed ''image_generation''
      else JObj [(''type'', JStr ''function''), (''name'', JStr (td_name t)),
             (''description'', JStr (td_description t)), (''parameters'', td_parameters t)])"

definition put_new :: "str \<Rightarrow> json \<Rightarrow> json \<Rightarrow> json" where
  "put_new k x v = (if json_get v k = None then json_put k x v else v)"

definition codex_fields :: "json \<Rightarrow> json" where
  "codex_fields body =
     (let body = json_put ''store'' (JBool False) body;
          body = json_put ''include'' (JArr [JStr ''reasoning.encrypted_content'']) body;
          body = json_put ''stream'' (JBool True) body;
          body = json_remove ''max_output_tokens'' body
      in put_new ''parallel_tool_calls'' (JBool False) (put_new ''tools'' (JArr []) body))"

definition responses_body ::
    "(json \<Rightarrow> str) \<Rightarrow> (str \<Rightarrow> str) \<Rightarrow> call_request \<Rightarrow> bool \<Rightarrow> bool \<Rightarrow> json" where
  "responses_body js lower req stream codex =
     (let body = JObj [(''model'', JStr (cq_model req)),
                   (''input'', JArr (responses_input js codex (cq_entries req))),
                   (''instructions'', JStr (case cq_system req of Some s \<Rightarrow> s | None \<Rightarrow> [])),
                   (''stream'', JBool stream)];
          body = (case cq_compact_key req of
                    Some k \<Rightarrow> if trim k = [] then body else json_put ''prompt_cache_key'' (JStr (trim k)) body
                  | None \<Rightarrow> body);
          body = (if 0 < cq_max_tokens req
                  then json_put ''max_output_tokens'' (JNum (int (cq_max_tokens req))) body else body);
          body = (if cq_tools req = [] then body
                  else json_put ''tools'' (JArr (map responses_tool (cq_tools req))) body);
          body = (if should_force_image_generation lower req
                  then json_put ''tool_choice'' (typed ''image_generation'') body else body);
          body = (if codex then codex_fields body else body)
      in case openai_effort_of req of
           Some e \<Rightarrow> json_put ''reasoning'' (JObj [(''effort'', JStr e)]) body
         | None \<Rightarrow> body)"

definition compact_keys :: "str list" where
  "compact_keys = [''model'', ''input'', ''instructions'', ''tools'', ''parallel_tool_calls'', ''reasoning'',
     ''text'', ''previous_response_id'', ''prompt_cache_key'']"

definition build_compact_responses_body :: "json \<Rightarrow> json" where
  "build_compact_responses_body body =
     JObj (List.map_filter (\<lambda>k. map_option (Pair k) (json_get body k)) compact_keys)"

section \<open>Usage and finish\<close>

definition map_openai_finish :: "str \<Rightarrow> finish_reason" where
  "map_openai_finish s =
     (if s \<in> {''stop'', []} then FinishStop
      else if s = ''length'' then FinishLength
      else if s = ''content_filter'' then FinishContentFilter
      else FinishOther s)"

definition first_count :: "json list \<Rightarrow> nat" where
  "first_count vs = (case List.map_filter as_u64 vs of n # _ \<Rightarrow> n | [] \<Rightarrow> 0)"

definition chat_usage :: "json \<Rightarrow> usage" where
  "chat_usage v =
     (let u = json_at v ''usage''
      in \<lparr>us_input = first_count [json_at u ''prompt_tokens'', json_at u ''input_tokens''],
          us_output = first_count [json_at u ''completion_tokens'', json_at u ''output_tokens''],
          us_cache_read = first_count [json_at (json_at u ''prompt_tokens_details'') ''cached_tokens'',
            json_at (json_at u ''input_tokens_details'') ''cached_tokens'', json_at u ''prompt_cache_hit_tokens''],
          us_cache_creation = 0\<rparr>)"

definition responses_usage :: "json \<Rightarrow> usage" where
  "responses_usage v =
     (let u = json_at v ''usage''
      in \<lparr>us_input = first_count [json_at u ''input_tokens'', json_at u ''prompt_tokens''],
          us_output = first_count [json_at u ''output_tokens'', json_at u ''completion_tokens''],
          us_cache_read = first_count [json_at (json_at u ''input_tokens_details'') ''cached_tokens'',
            json_at (json_at u ''prompt_tokens_details'') ''cached_tokens'', json_at u ''prompt_cache_hit_tokens''],
          us_cache_creation = 0\<rparr>)"

end
