(* ===== verification/Openai_Answer.thy ===== *)
theory Openai_Answer
  imports Openai_Wire
begin

text \<open>
  What is read out of the answers of OpenAI (\<open>protocols/openai.rs\<close>): a chat completion, a response with
  its images and calls, the frames of a streamed chat and of a streamed response. An answer is the
  signature of the thinking, which is empty here, beside the response.
\<close>

section \<open>Chat completions\<close>

definition json_or_null :: "(str \<Rightarrow> json option) \<Rightarrow> str \<Rightarrow> json" where
  "json_or_null pj s = (case pj s of Some v \<Rightarrow> v | None \<Rightarrow> JNull)"

definition str_or :: "str \<Rightarrow> json \<Rightarrow> str" where
  "str_or d v = (case as_str v of Some s \<Rightarrow> s | None \<Rightarrow> d)"

definition nonblank_of :: "json \<Rightarrow> str option" where
  "nonblank_of v = (case as_str v of Some s \<Rightarrow> if trim s = [] then None else Some s | None \<Rightarrow> None)"

definition chat_tool_call :: "(str \<Rightarrow> json option) \<Rightarrow> json \<Rightarrow> call_entry option" where
  "chat_tool_call pj tc =
     (case as_str (json_at tc ''id'') of
        None \<Rightarrow> None
      | Some cid \<Rightarrow>
          (case nonblank_of (json_at (json_at tc ''function'') ''name'') of
             None \<Rightarrow> None
           | Some name \<Rightarrow>
               Some \<lparr>ce_id = cid, ce_name = name,
                 ce_input = json_or_null pj (str_or ''{}'' (json_at (json_at tc ''function'') ''arguments''))\<rparr>))"

definition parse_tool_calls :: "(str \<Rightarrow> json option) \<Rightarrow> json \<Rightarrow> call_entry list" where
  "parse_tool_calls pj v =
     (case as_array v of Some xs \<Rightarrow> List.map_filter (chat_tool_call pj) xs | None \<Rightarrow> [])"

definition reasoning_field :: "json \<Rightarrow> str option" where
  "reasoning_field msg =
     Option.bind (first_of (json_get msg ''reasoning_content'') (json_get msg ''reasoning'')) as_str"

definition chat_response :: "(str \<Rightarrow> json option) \<Rightarrow> json \<Rightarrow> str \<times> model_response" where
  "chat_response pj v =
     (let choice = json_first (json_at v ''choices''); msg = json_at choice ''message'';
          finish = str_or_empty (json_at choice ''finish_reason'');
          reasoning = (case reasoning_field msg of Some s \<Rightarrow> s | None \<Rightarrow> []);
          txt = str_or_empty (json_at msg ''content'')
      in ([], if finish = ''tool_calls''
              then ModelToolCalls txt reasoning (parse_tool_calls pj (json_at msg ''tool_calls'')) [] (chat_usage v)
              else ModelDone (map_openai_finish finish) txt reasoning [] (chat_usage v)))"

section \<open>Images\<close>

definition split_data_url :: "str \<Rightarrow> (str \<times> str) option" where
  "split_data_url v = Option.bind (str_strip_prefix v ''data:'') (split_once_str '';base64,'')"

definition image_media_type :: "json \<Rightarrow> str" where
  "image_media_type item =
     (let format = dropWhile (\<lambda>c. c = CHR ''.'')
            (case first_of (as_str (json_at item ''output_format'')) (as_str (json_at item ''format'')) of
               Some s \<Rightarrow> s | None \<Rightarrow> ''png'')
      in if format = ''jpg'' \<or> format = ''jpeg'' then ''image/jpeg''
         else if format = ''webp'' then ''image/webp''
         else if format = ''png'' then ''image/png''
         else if starts_with format ''image/'' then format
         else ''image/png'')"

definition generated_image_name :: "nat \<Rightarrow> str \<Rightarrow> str" where
  "generated_image_name n media =
     ''generated-image-'' @ dec n @ ''.'' @
     (if media = ''image/jpeg'' then ''jpg'' else if media = ''image/webp'' then ''webp'' else ''png'')"

definition push_image_attachment ::
    "json \<Rightarrow> str \<Rightarrow> message_attachment list \<Rightarrow> message_attachment list" where
  "push_image_attachment item dat atts =
     (let (media, dat) = (case split_data_url dat of
                            Some p \<Rightarrow> p | None \<Rightarrow> (image_media_type item, dat));
          name = (case first_of (as_str (json_at item ''filename'')) (as_str (json_at item ''name'')) of
                    Some n \<Rightarrow> n
                  | None \<Rightarrow> generated_image_name (length atts + 1) media)
      in atts @ [Image name media dat])"

definition push_generated_image ::
    "json \<Rightarrow> message_attachment list \<Rightarrow> message_attachment list" where
  "push_generated_image item atts =
     (case nonblank_of (json_at item ''result'') of
        Some r \<Rightarrow> push_image_attachment item r atts
      | None \<Rightarrow> atts)"

definition push_output_image :: "json \<Rightarrow> message_attachment list \<Rightarrow> message_attachment list" where
  "push_output_image item atts =
     (case first_of (as_str (json_at item ''image_url''))
             (first_of (as_str (json_at item ''b64_json'')) (as_str (json_at item ''data''))) of
        Some d \<Rightarrow> if trim d = [] then atts else push_image_attachment item d atts
      | None \<Rightarrow> atts)"

section \<open>Responses\<close>

record output_read =
  or_text :: str
  or_calls :: "call_entry list"
  or_images :: "message_attachment list"
  or_refused :: bool

definition no_output :: output_read where
  "no_output = \<lparr>or_text = [], or_calls = [], or_images = [], or_refused = False\<rparr>"

definition read_output_block :: "json \<Rightarrow> output_read \<Rightarrow> output_read" where
  "read_output_block b r =
     (let t = str_or_empty (json_at b ''type'') in
      if t = ''output_text'' then r\<lparr>or_text := or_text r @ str_or_empty (json_at b ''text'')\<rparr>
      else if t = ''refusal''
      then r\<lparr>or_refused := True, or_text := or_text r @ str_or_empty (json_at b ''refusal'')\<rparr>
      else if t = ''output_image'' then r\<lparr>or_images := push_output_image b (or_images r)\<rparr>
      else r)"

definition read_function_call :: "(str \<Rightarrow> json option) \<Rightarrow> json \<Rightarrow> call_entry option" where
  "read_function_call pj item =
     (let cid = (case first_of (as_str (json_at item ''call_id'')) (as_str (json_at item ''id'')) of
                   Some s \<Rightarrow> s | None \<Rightarrow> []);
          name = str_or_empty (json_at item ''name'')
      in if cid = [] \<or> name = [] then None
         else Some \<lparr>ce_id = cid, ce_name = name,
                ce_input = json_or_null pj (str_or ''{}'' (json_at item ''arguments''))\<rparr>)"

definition read_output_item :: "(str \<Rightarrow> json option) \<Rightarrow> json \<Rightarrow> output_read \<Rightarrow> output_read" where
  "read_output_item pj item r =
     (let t = str_or_empty (json_at item ''type'') in
      if t = ''message''
      then (case as_array (json_at item ''content'') of
              Some blocks \<Rightarrow> fold read_output_block blocks r | None \<Rightarrow> r)
      else if t = ''image_generation_call''
      then r\<lparr>or_images := push_generated_image item (or_images r)\<rparr>
      else if t = ''function_call''
      then (case read_function_call pj item of
              Some c \<Rightarrow> r\<lparr>or_calls := or_calls r @ [c]\<rparr> | None \<Rightarrow> r)
      else r)"

definition responses_finish :: "bool \<Rightarrow> json \<Rightarrow> finish_reason" where
  "responses_finish refused v =
     (case as_str (json_at (json_at v ''incomplete_details'') ''reason'') of
        Some s \<Rightarrow>
          if s = ''max_output_tokens'' then FinishLength
          else if s = ''content_filter'' then FinishContentFilter
          else FinishOther s
      | None \<Rightarrow> if refused then FinishRefusal else FinishStop)"

definition responses_response :: "(str \<Rightarrow> json option) \<Rightarrow> json \<Rightarrow> model_response" where
  "responses_response pj v =
     (let r = (case as_array (json_at v ''output'') of
                 Some items \<Rightarrow> fold (read_output_item pj) items no_output
               | None \<Rightarrow> no_output\<lparr>or_text := str_or_empty (json_at v ''output_text'')\<rparr>)
      in if or_calls r = []
         then ModelDone (responses_finish (or_refused r) v) (or_text r) [] (or_images r) (responses_usage v)
         else ModelToolCalls (or_text r) [] (or_calls r) (or_images r) (responses_usage v))"

section \<open>Frames of a streamed chat\<close>

record chat_delta =
  cd_index :: nat
  cd_id :: "str option"
  cd_name :: "str option"
  cd_arguments :: "str option"

record chat_frame =
  cf_text :: "str option"
  cf_reasoning :: "str option"
  cf_calls :: "chat_delta list"
  cf_usage :: "usage option"
  cf_finish :: "str option"

definition chat_delta_of :: "nat \<times> json \<Rightarrow> chat_delta" where
  "chat_delta_of p =
     (let (i, item) = p; f = json_at item ''function''
      in \<lparr>cd_index = (case as_u64 (json_at item ''index'') of Some n \<Rightarrow> n | None \<Rightarrow> i),
          cd_id = as_str (json_at item ''id''), cd_name = nonblank_of (json_at f ''name''),
          cd_arguments = as_str (json_at f ''arguments'')\<rparr>)"

definition nonempty_opt :: "str option \<Rightarrow> str option" where
  "nonempty_opt v = (case v of Some s \<Rightarrow> if s = [] then None else Some s | None \<Rightarrow> None)"

definition chat_frame_of :: "json \<Rightarrow> chat_frame option" where
  "chat_frame_of v =
     (let usage = (case json_get v ''usage'' of
                     Some u \<Rightarrow> if u = JNull then None else Some (chat_usage v) | None \<Rightarrow> None);
          choice = (case Option.bind (json_get v ''choices'') as_array of
                      Some (c # _) \<Rightarrow> Some c | _ \<Rightarrow> None);
          finish = nonempty_opt (Option.bind (Option.bind choice (\<lambda>c. json_get c ''finish_reason'')) as_str);
          (txt, reasoning, calls) =
            (case Option.bind choice (\<lambda>c. json_get c ''delta'') of
               None \<Rightarrow> (None, None, [])
             | Some d \<Rightarrow>
                 (nonempty_str_of (json_at d ''content''), nonempty_opt (reasoning_field d),
                  (case as_array (json_at d ''tool_calls'') of
                     Some items \<Rightarrow> map chat_delta_of (List.enumerate 0 items) | None \<Rightarrow> [])))
      in if txt = None \<and> reasoning = None \<and> calls = [] \<and> usage = None \<and> finish = None then None
         else Some \<lparr>cf_text = txt, cf_reasoning = reasoning, cf_calls = calls, cf_usage = usage,
                cf_finish = finish\<rparr>)"

definition parse_chat_stream_frame :: "(str \<Rightarrow> json option) \<Rightarrow> str \<Rightarrow> chat_frame option" where
  "parse_chat_stream_frame pj dat = Option.bind (pj dat) chat_frame_of"

section \<open>Frames of a streamed response\<close>

datatype responses_event =
  RespText str
| RespReasoning str
| RespItem "nat option" json
| RespArgs "nat option" "str option" str
| RespArgsDone "nat option" "str option" "str option" "str option" str
| RespCompleted json
| RespFailed str
| RespIgnore

text \<open>\<open>merge_responses_event_call_fields\<close>: \<open>None\<close> is the panic of assigning into a value that is neither
  an object nor null.\<close>

definition merge_call_field :: "json \<Rightarrow> str \<Rightarrow> json option \<Rightarrow> json option" where
  "merge_call_field event k item =
     (case item of
        None \<Rightarrow> None
      | Some it \<Rightarrow>
          if nonempty_str_of (json_at it k) \<noteq> None then Some it
          else case nonempty_str_of (json_at event k) of
                 Some s \<Rightarrow> json_set k (JStr s) it
               | None \<Rightarrow> Some it)"

definition merge_responses_event_call_fields :: "json \<Rightarrow> json \<Rightarrow> json option" where
  "merge_responses_event_call_fields event item =
     fold (merge_call_field event) [''call_id'', ''name'', ''arguments''] (Some item)"

definition responses_item :: "json \<Rightarrow> responses_event option" where
  "responses_item v =
     (case json_get v ''item'' of
        None \<Rightarrow> Some RespIgnore
      | Some item \<Rightarrow>
          map_option (RespItem (as_u64 (json_at v ''output_index'')))
            (merge_responses_event_call_fields v item))"

definition responses_reasoning_events :: "str list" where
  "responses_reasoning_events =
     [''response.reasoning_text.delta'', ''response.reasoning_summary_text.delta'',
      ''response.reasoning.delta'']"

definition failure_message :: "json \<Rightarrow> str" where
  "failure_message v =
     str_or ''response.failed event received'' (json_at (json_at (json_at v ''response'') ''error'') ''message'')"

definition responses_event_of :: "str \<Rightarrow> json \<Rightarrow> responses_event option" where
  "responses_event_of name v =
     (let name = (if name = [] then str_or_empty (json_at v ''type'') else name);
          index = as_u64 (json_at v ''output_index'')
      in if name = ''response.output_text.delta''
         then Some (case nonempty_str_of (json_at v ''delta'') of Some s \<Rightarrow> RespText s | None \<Rightarrow> RespIgnore)
         else if name \<in> set responses_reasoning_events
         then Some (case nonempty_str_of (json_at v ''delta'') of
                      Some s \<Rightarrow> RespReasoning s | None \<Rightarrow> RespIgnore)
         else if name = ''response.output_item.added'' \<or> name = ''response.output_item.done''
         then responses_item v
         else if name = ''response.function_call_arguments.delta''
         then Some (case as_str (json_at v ''delta'') of
                      Some d \<Rightarrow> RespArgs index (nonblank_of (json_at v ''item_id'')) d
                    | None \<Rightarrow> RespIgnore)
         else if name = ''response.function_call_arguments.done''
         then Some (RespArgsDone index (nonblank_of (json_at v ''item_id''))
                      (nonblank_of (json_at v ''call_id'')) (nonblank_of (json_at v ''name''))
                      (str_or_empty (json_at v ''arguments'')))
         else if name = ''response.completed''
         then Some (RespCompleted (case json_get v ''response'' of Some r \<Rightarrow> r | None \<Rightarrow> v))
         else if name = ''response.failed'' then Some (RespFailed (failure_message v))
         else Some RespIgnore)"

definition parse_responses_sse_event ::
    "(str \<Rightarrow> json option) \<Rightarrow> str \<Rightarrow> str \<Rightarrow> responses_event option" where
  "parse_responses_sse_event pj name dat =
     (if trim dat = [] \<or> trim dat = ''[DONE]'' then Some RespIgnore
      else case pj dat of None \<Rightarrow> Some RespIgnore | Some v \<Rightarrow> responses_event_of name v)"

end
