(* ===== verification/Anthropic_Wire.thy ===== *)
theory Anthropic_Wire
  imports Gateway_Json
begin

text \<open>
  The Messages format of Anthropic (\<open>crates/model-gateway/src/protocols/anthropic.rs\<close>): the body of a
  request and what is read out of an answer. \<open>pj\<close> is \<open>serde_json::from_str\<close>. The date, and the user id
  (hashes of the home directory and of the first entry, as JSON text), are arguments. The code that
  would remove sampling parameters is never reached (\<open>suppress_sampling\<close> is false).
\<close>

section \<open>Messages\<close>

definition text_block :: "str \<Rightarrow> json" where
  "text_block t = JObj [(''type'', JStr ''text''), (''text'', JStr t)]"

fun image_block :: "message_attachment \<Rightarrow> json option" where
  "image_block (Image _ media dat) =
     Some (JObj [(''type'', JStr ''image''),
       (''source'', JObj [(''type'', JStr ''base64''), (''media_type'', JStr media), (''data'', JStr dat)])])"
| "image_block (TextFile _ _ _) = None"

fun attachment_block :: "message_attachment \<Rightarrow> json option" where
  "attachment_block (TextFile n m b) = map_option text_block (as_text_block (TextFile n m b))"
| "attachment_block (Image n m d) = image_block (Image n m d)"

definition anthropic_user_content :: "user_entry \<Rightarrow> json" where
  "anthropic_user_content u =
     (if ue_attachments u = [] then JStr (ue_text u)
      else JArr ((if trim (ue_text u) = [] then [] else [text_block (ue_text u)]) @
             List.map_filter attachment_block (ue_attachments u)))"

text \<open>The thinking of an assistant turn with tool calls.\<close>

definition thinking_blocks :: "bool \<Rightarrow> assistant_entry \<Rightarrow> json list" where
  "thinking_blocks deepseek e =
     (if deepseek \<and> trim (ae_reasoning e) \<noteq> []
      then [JObj [(''type'', JStr ''thinking''), (''thinking'', JStr (ae_reasoning e))]]
      else if trim (ae_reasoning e) \<noteq> [] \<and> ae_reasoning_signature e \<noteq> []
      then [JObj [(''type'', JStr ''thinking''), (''thinking'', JStr (ae_reasoning e)),
                  (''signature'', JStr (ae_reasoning_signature e))]]
      else [])"

definition tool_input :: "(str \<Rightarrow> json option) \<Rightarrow> json \<Rightarrow> json" where
  "tool_input pj input =
     (case input of
        JObj kvs \<Rightarrow> JObj kvs
      | JStr s \<Rightarrow> (case pj s of Some v \<Rightarrow> if is_object v then v else JObj [] | None \<Rightarrow> JObj [])
      | _ \<Rightarrow> JObj [])"

definition tool_use_block :: "(str \<Rightarrow> json option) \<Rightarrow> call_entry \<Rightarrow> json" where
  "tool_use_block pj c =
     JObj [(''type'', JStr ''tool_use''), (''id'', JStr (ce_id c)), (''name'', JStr (ce_name c)),
           (''input'', tool_input pj (ce_input c))]"

definition tool_result_block :: "tool_result \<Rightarrow> json" where
  "tool_result_block r =
     JObj [(''type'', JStr ''tool_result''), (''tool_use_id'', JStr (tr_call_id r)),
       (''content'',
          if tr_attachments r = [] then JStr (tr_content r)
          else JArr (text_block (tr_content r) # List.map_filter image_block (tr_attachments r)))]"

definition role_message :: "str \<Rightarrow> json \<Rightarrow> json" where
  "role_message r content = JObj [(''role'', JStr r), (''content'', content)]"

fun entry_to_message :: "(str \<Rightarrow> json option) \<Rightarrow> bool \<Rightarrow> transcript_entry \<Rightarrow> json option" where
  "entry_to_message pj deepseek (UserEntry u) = Some (role_message ''user'' (anthropic_user_content u))"
| "entry_to_message pj deepseek (AssistantEntry e) =
     Some (role_message ''assistant''
       (if ae_tool_calls e = [] then JStr (ae_text e)
        else JArr (thinking_blocks deepseek e @ (if ae_text e = [] then [] else [text_block (ae_text e)]) @
               map (tool_use_block pj) (ae_tool_calls e))))"
| "entry_to_message pj deepseek (ToolResults rs) =
     (if rs = [] then None else Some (role_message ''user'' (JArr (map tool_result_block rs))))"

definition ends_with_user_message :: "json list \<Rightarrow> bool" where
  "ends_with_user_message ms \<longleftrightarrow> ms \<noteq> [] \<and> json_get (last ms) ''role'' = Some (JStr ''user'')"

definition go_on_text :: str where
  "go_on_text =
     [CHR 0xE7, CHR 0xBB, CHR 0xA7, CHR 0xE7, CHR 0xBB, CHR 0xAD]"

definition anthropic_messages :: "(str \<Rightarrow> json option) \<Rightarrow> bool \<Rightarrow> transcript_entry list \<Rightarrow> json list" where
  "anthropic_messages pj deepseek es =
     (let ms = List.map_filter (entry_to_message pj deepseek) es
      in if ends_with_user_message ms then ms else ms @ [role_message ''user'' (JStr go_on_text)])"

section \<open>Thinking\<close>

definition is_deepseek_v4_anthropic_dialect :: "str \<Rightarrow> bool" where
  "is_deepseek_v4_anthropic_dialect model =
     (let m = to_ascii_lowercase model
      in if contains_str m ''nothinking'' then False else starts_with m ''deepseek-v4'')"

definition is_direct_anthropic :: "str \<Rightarrow> bool" where
  "is_direct_anthropic base_url = contains_str base_url ''api.anthropic.com''"

definition thinking_missing_text :: str where
  "thinking_missing_text =
     [CHR 0x44, CHR 0x65, CHR 0x65, CHR 0x70, CHR 0x53, CHR 0x65, CHR 0x65, CHR 0x6B, CHR 0x20,
     CHR 0x74, CHR 0x68, CHR 0x69, CHR 0x6E, CHR 0x6B, CHR 0x69, CHR 0x6E, CHR 0x67, CHR 0x20,
     CHR 0x28, CHR 0x41, CHR 0x6E, CHR 0x74, CHR 0x68, CHR 0x72, CHR 0x6F, CHR 0x70, CHR 0x69,
     CHR 0x63, CHR 0x20, CHR 0xE7, CHR 0xAB, CHR 0xAF, CHR 0xE7, CHR 0x82, CHR 0xB9, CHR 0x29,
     CHR 0x20, CHR 0xE6, CHR 0xA8, CHR 0xA1, CHR 0xE5, CHR 0xBC, CHR 0x8F, CHR 0xE4, CHR 0xB8,
     CHR 0x8B, CHR 0xEF, CHR 0xBC, CHR 0x8C, CHR 0xE5, CHR 0x8E, CHR 0x86, CHR 0xE5, CHR 0x8F,
     CHR 0xB2, CHR 0xE9, CHR 0x87, CHR 0x8C, CHR 0xE5, CHR 0xB8, CHR 0xA6, CHR 0x20, CHR 0x74,
     CHR 0x6F, CHR 0x6F, CHR 0x6C, CHR 0x5F, CHR 0x75, CHR 0x73, CHR 0x65, CHR 0x20, CHR 0xE7,
     CHR 0x9A, CHR 0x84, CHR 0x20, CHR 0x61, CHR 0x73, CHR 0x73, CHR 0x69, CHR 0x73, CHR 0x74,
     CHR 0x61, CHR 0x6E, CHR 0x74, CHR 0x20, CHR 0xE6, CHR 0xB6, CHR 0x88, CHR 0xE6, CHR 0x81,
     CHR 0xAF, CHR 0xE7, CHR 0xBC, CHR 0xBA, CHR 0xE5, CHR 0xA4, CHR 0xB1, CHR 0x20, CHR 0xE9,
     CHR 0x9D, CHR 0x9E, CHR 0xE7, CHR 0xA9, CHR 0xBA, CHR 0x20, CHR 0x74, CHR 0x68, CHR 0x69,
     CHR 0x6E, CHR 0x6B, CHR 0x69, CHR 0x6E, CHR 0x67, CHR 0x20, CHR 0x62, CHR 0x6C, CHR 0x6F,
     CHR 0x63, CHR 0x6B, CHR 0xE3, CHR 0x80, CHR 0x82, CHR 0xE8, CHR 0xAF, CHR 0xB7, CHR 0xE5,
     CHR 0x8E, CHR 0x8B, CHR 0xE7, CHR 0xBC, CHR 0xA9, CHR 0xE5, CHR 0xBD, CHR 0x93, CHR 0xE5,
     CHR 0x89, CHR 0x8D, CHR 0xE4, CHR 0xBC, CHR 0x9A, CHR 0xE8, CHR 0xAF, CHR 0x9D, CHR 0xE6,
     CHR 0x88, CHR 0x96, CHR 0xE5, CHR 0xBC, CHR 0x80, CHR 0xE6, CHR 0x96, CHR 0xB0, CHR 0xE4,
     CHR 0xBC, CHR 0x9A, CHR 0xE8, CHR 0xAF, CHR 0x9D, CHR 0xE5, CHR 0x90, CHR 0x8E, CHR 0xE5,
     CHR 0x86, CHR 0x8D, CHR 0xE7, CHR 0xBB, CHR 0xA7, CHR 0xE7, CHR 0xBB, CHR 0xAD, CHR 0xE4,
     CHR 0xBD, CHR 0xBF, CHR 0xE7, CHR 0x94, CHR 0xA8, CHR 0x20, CHR 0x44, CHR 0x65, CHR 0x65,
     CHR 0x70, CHR 0x53, CHR 0x65, CHR 0x65, CHR 0x6B, CHR 0x20, CHR 0x74, CHR 0x68, CHR 0x69,
     CHR 0x6E, CHR 0x6B, CHR 0x69, CHR 0x6E, CHR 0x67, CHR 0xE3, CHR 0x80, CHR 0x82]"

definition is_type :: "str \<Rightarrow> json \<Rightarrow> bool" where
  "is_type t b \<longleftrightarrow> Option.bind (json_get b ''type'') as_str = Some t"

definition lacks_thinking :: "json \<Rightarrow> bool" where
  "lacks_thinking msg =
     (if Option.bind (json_get msg ''role'') as_str \<noteq> Some ''assistant'' then False
      else case Option.bind (json_get msg ''content'') as_array of
             None \<Rightarrow> False
           | Some content \<Rightarrow>
               list_ex (is_type ''tool_use'') content \<and>
               \<not> list_ex (\<lambda>b. is_type ''thinking'' b \<and>
                    (case Option.bind (json_get b ''thinking'') as_str of
                       Some s \<Rightarrow> trim s \<noteq> [] | None \<Rightarrow> False)) content)"

definition budget_block :: "nat \<Rightarrow> bool \<Rightarrow> json" where
  "budget_block budget shown =
     JObj ([(''type'', JStr ''enabled''), (''budget_tokens'', JNum (int budget))] @
           (if shown then [(''display'', JStr ''summarized'')] else []))"

text \<open>\<open>max_tokens\<close>, the field \<open>thinking\<close> and the field \<open>output_config\<close>, before the compatibility with
  Claude Code.\<close>

definition anthropic_thinking ::
    "call_request \<Rightarrow> json list \<Rightarrow> model_error + nat \<times> json option \<times> json option" where
  "anthropic_thinking req ms =
     (if is_deepseek_v4_anthropic_dialect (cq_model req)
      then if deepseek_enabled req
           then if list_ex lacks_thinking ms then Inl (OtherError thinking_missing_text)
                else Inr (deepseek_max_tokens req, Some (JObj [(''type'', JStr ''enabled'')]),
                       Some (JObj [(''effort'', JStr (deepseek_effort_of req))]))
           else Inr (cq_max_tokens req, Some (JObj [(''type'', JStr ''disabled'')]), None)
      else case (cq_reasoning req, anthropic_thinking_mode (cq_model req)) of
             (Some c, Some mode) \<Rightarrow>
               if is_enabled c
               then let budget = anthropic_legacy_budget_tokens (effective_effort c);
                        max_tokens = (if cq_max_tokens req \<le> budget then budget + 1024 else cq_max_tokens req)
                    in Inr (max_tokens, Some (budget_block budget (mode = Opus47Adaptive)), None)
               else Inr (cq_max_tokens req, None, None)
           | _ \<Rightarrow> Inr (cq_max_tokens req, None, None))"

text \<open>Claude Code: adaptive thinking with the effort of the user, whatever was decided before.\<close>

definition adaptive_thinking :: "call_request \<Rightarrow> bool \<Rightarrow> json" where
  "adaptive_thinking req direct =
     JObj ([(''type'', JStr ''adaptive'')] @ (if direct then [(''display'', JStr ''summarized'')] else []))"

definition adaptive_effort :: "call_request \<Rightarrow> json" where
  "adaptive_effort req =
     JObj [(''effort'', JStr (anthropic_adaptive_effort_for_model
       (case cq_reasoning req of Some c \<Rightarrow> effective_effort c | None \<Rightarrow> ExtraEffort) (cq_model req)))]"

section \<open>System, tools, cache\<close>

definition CLAUDE_CODE_BANNER :: str where
  "CLAUDE_CODE_BANNER =
     [CHR 0x59, CHR 0x6F, CHR 0x75, CHR 0x20, CHR 0x61, CHR 0x72, CHR 0x65, CHR 0x20, CHR 0x43,
     CHR 0x6C, CHR 0x61, CHR 0x75, CHR 0x64, CHR 0x65, CHR 0x20, CHR 0x43, CHR 0x6F, CHR 0x64,
     CHR 0x65, CHR 0x2C, CHR 0x20, CHR 0x41, CHR 0x6E, CHR 0x74, CHR 0x68, CHR 0x72, CHR 0x6F,
     CHR 0x70, CHR 0x69, CHR 0x63, CHR 0x27, CHR 0x73, CHR 0x20, CHR 0x6F, CHR 0x66, CHR 0x66,
     CHR 0x69, CHR 0x63, CHR 0x69, CHR 0x61, CHR 0x6C, CHR 0x20, CHR 0x43, CHR 0x4C, CHR 0x49,
     CHR 0x20, CHR 0x66, CHR 0x6F, CHR 0x72, CHR 0x20, CHR 0x43, CHR 0x6C, CHR 0x61, CHR 0x75,
     CHR 0x64, CHR 0x65, CHR 0x2E]"

definition date_text :: str where
  "date_text =
     [CHR 0x54, CHR 0x6F, CHR 0x64, CHR 0x61, CHR 0x79, CHR 0x27, CHR 0x73, CHR 0x20, CHR 0x64,
     CHR 0x61, CHR 0x74, CHR 0x65, CHR 0x20, CHR 0x69, CHR 0x73, CHR 0x20]"

definition build_system :: "str \<Rightarrow> str option \<Rightarrow> bool \<Rightarrow> json" where
  "build_system date system oauth =
     (let user = (case system of None \<Rightarrow> None | Some s \<Rightarrow> if trim s = [] then None else Some (trim s))
      in if \<not> oauth then (case user of Some s \<Rightarrow> JStr s | None \<Rightarrow> JNull)
         else JArr ([text_block CLAUDE_CODE_BANNER, text_block (date_text @ date @ ''.'')] @
                (case user of Some s \<Rightarrow> [text_block s] | None \<Rightarrow> [])))"

definition anthropic_tool :: "bool \<Rightarrow> tool_definition \<Rightarrow> json" where
  "anthropic_tool eager t =
     JObj ([(''name'', JStr (td_name t)), (''description'', JStr (td_description t)),
            (''input_schema'', td_parameters t)] @
           (if eager then [(''eager_input_streaming'', JBool True)] else []))"

definition anthropic_tool_defs :: "bool \<Rightarrow> tool_definition list \<Rightarrow> json list" where
  "anthropic_tool_defs eager ts =
     map (anthropic_tool eager) (filter (\<lambda>t. td_name t \<noteq> IMAGE_GENERATION_TOOL_NAME) ts)"

definition cache_mark :: "bool \<Rightarrow> json" where
  "cache_mark shared =
     JObj ([(''type'', JStr ''ephemeral''), (''ttl'', JStr ''1h'')] @
           (if shared then [(''scope'', JStr ''global'')] else []))"

definition mark_content :: "json \<Rightarrow> json \<Rightarrow> json" where
  "mark_content cc content =
     (case content of
        JStr s \<Rightarrow> JArr [JObj [(''type'', JStr ''text''), (''text'', JStr s), (''cache_control'', cc)]]
      | JArr blocks \<Rightarrow> JArr (map_last (json_put ''cache_control'' cc) blocks)
      | v \<Rightarrow> v)"

definition mark_message :: "json \<Rightarrow> json" where
  "mark_message m =
     (if is_object m then json_put ''content'' (mark_content (cache_mark False) (json_at m ''content'')) m
      else m)"

definition apply_cache_control :: "json \<Rightarrow> json" where
  "apply_cache_control body =
     (let body = (case json_get body ''system'' of
                    Some s \<Rightarrow> json_put ''system'' (mark_content (cache_mark True) s) body
                  | None \<Rightarrow> body)
      in case Option.bind (json_get body ''messages'') as_array of
           Some ms \<Rightarrow> json_put ''messages'' (JArr (map_last mark_message ms)) body
         | None \<Rightarrow> body)"

section \<open>The body\<close>

definition put_opt :: "str \<Rightarrow> json option \<Rightarrow> json \<Rightarrow> json" where
  "put_opt k x v = (case x of Some x \<Rightarrow> json_put k x v | None \<Rightarrow> v)"

definition CC_MAX_TOKENS :: nat where "CC_MAX_TOKENS = 64000"

definition cc_fields :: "str \<Rightarrow> str \<Rightarrow> json \<Rightarrow> json" where
  "cc_fields model user_id body =
     (let body = json_put ''metadata'' (JObj [(''user_id'', JStr user_id)]) body;
          body = json_put ''context_management''
                   (JObj [(''edits'', JArr [JObj [(''type'', JStr ''clear_thinking_20251015''),
                      (''keep'', JStr ''all'')]])]) body;
          body = json_put ''diagnostics'' (JObj [(''previous_message_id'', JNull)]) body
      in if anthropic_supports_fallbacks model
         then json_put ''fallbacks'' (JArr [JObj [(''model'', JStr ''claude-opus-4-8'')]]) body
         else body)"

definition anthropic_body ::
    "(str \<Rightarrow> json option) \<Rightarrow> str \<Rightarrow> str \<Rightarrow> call_request \<Rightarrow> bool \<Rightarrow> bool \<Rightarrow> bool \<Rightarrow> model_error + json" where
  "anthropic_body pj date user_id req stream oauth direct =
     (let ms = anthropic_messages pj (is_deepseek_v4_anthropic_dialect (cq_model req)) (cq_entries req)
      in case anthropic_thinking req ms of
           Inl e \<Rightarrow> Inl e
         | Inr (max_tokens, thinking, config) \<Rightarrow>
             let max_tokens = (if oauth \<and> max_tokens < CC_MAX_TOKENS then CC_MAX_TOKENS else max_tokens);
                 thinking = (if oauth then Some (adaptive_thinking req direct) else thinking);
                 config = (if oauth then Some (adaptive_effort req) else config);
                 body = JObj [(''model'', JStr (cq_model req)), (''max_tokens'', JNum (int max_tokens)),
                          (''messages'', JArr ms), (''stream'', JBool stream)];
                 body = put_opt ''output_config'' config (put_opt ''thinking'' thinking body);
                 system = build_system date (cq_system req) oauth;
                 body = (if system = JNull then body else json_put ''system'' system body);
                 body = (if oauth then cc_fields (cq_model req) user_id body else body);
                 body = (if cq_tools req = [] then body
                         else json_put ''tools'' (JArr (anthropic_tool_defs oauth (cq_tools req))) body)
             in Inr (apply_cache_control body))"

section \<open>Answers\<close>

definition map_anthropic_finish :: "str \<Rightarrow> finish_reason" where
  "map_anthropic_finish s =
     (if s \<in> {''end_turn'', ''stop_sequence'', []} then FinishStop
      else if s = ''max_tokens'' then FinishLength
      else if s = ''refusal'' then FinishRefusal
      else FinishOther s)"

definition usage_count :: "json \<Rightarrow> str \<Rightarrow> nat" where
  "usage_count v k = (case as_u64 (json_at (json_at v ''usage'') k) of Some n \<Rightarrow> n | None \<Rightarrow> 0)"

definition anthropic_usage :: "json \<Rightarrow> usage" where
  "anthropic_usage v =
     (let fresh = usage_count v ''input_tokens''; hit = usage_count v ''cache_read_input_tokens'';
          made = usage_count v ''cache_creation_input_tokens''
      in \<lparr>us_input = fresh + hit + made, us_output = usage_count v ''output_tokens'',
          us_cache_read = hit, us_cache_creation = made\<rparr>)"

text \<open>What was read of the blocks so far.\<close>

record wire_answer =
  an_text :: str
  an_reasoning :: str
  an_signature :: str
  an_calls :: "call_entry list"

definition no_answer :: wire_answer where
  "no_answer = \<lparr>an_text = [], an_reasoning = [], an_signature = [], an_calls = []\<rparr>"

definition read_thinking :: "json \<Rightarrow> wire_answer \<Rightarrow> wire_answer" where
  "read_thinking b a =
     (let a = (case first_of (as_str (json_at b ''thinking'')) (as_str (json_at b ''summary'')) of
                 Some s \<Rightarrow> a\<lparr>an_reasoning := an_reasoning a @ s\<rparr>
               | None \<Rightarrow> a)
      in case as_str (json_at b ''signature'') of Some s \<Rightarrow> a\<lparr>an_signature := s\<rparr> | None \<Rightarrow> a)"

definition read_block :: "json \<Rightarrow> wire_answer \<Rightarrow> wire_answer" where
  "read_block b a =
     (let t = as_str (json_at b ''type'') in
      if t = Some ''text'' then a\<lparr>an_text := an_text a @ str_or_empty (json_at b ''text'')\<rparr>
      else if t = Some ''thinking'' then read_thinking b a
      else if t = Some ''tool_use''
      then a\<lparr>an_calls := an_calls a @ [\<lparr>ce_id = str_or_empty (json_at b ''id''),
             ce_name = str_or_empty (json_at b ''name''), ce_input = json_at b ''input''\<rparr>]\<rparr>
      else a)"

text \<open>The signature of the thinking, and the answer.\<close>

definition finish_answer :: "str \<Rightarrow> usage \<Rightarrow> wire_answer \<Rightarrow> str \<times> model_response" where
  "finish_answer stop u a =
     (an_signature a,
      if stop = ''tool_use'' \<and> an_calls a \<noteq> []
      then ModelToolCalls (an_text a) (an_reasoning a) (an_calls a) [] u
      else ModelDone (map_anthropic_finish stop) (an_text a) (an_reasoning a) [] u)"

definition anthropic_response :: "json \<Rightarrow> str \<times> model_response" where
  "anthropic_response v =
     finish_answer (str_or_empty (json_at v ''stop_reason'')) (anthropic_usage v)
       (case as_array (json_at v ''content'') of Some blocks \<Rightarrow> fold read_block blocks no_answer | None \<Rightarrow> no_answer)"

end
