(* ===== verification/Sse_Stream.thy ===== *)
theory Sse_Stream
  imports Gateway_Json
begin

text \<open>
  How the clients of the providers send a request and read a streamed answer
  (\<open>crates/model-gateway/src/providers/mod.rs\<close> and the loops of \<open>anthropic.rs\<close> and \<open>openai.rs\<close>): the
  retries of a request, the refresh of a refused token, the chunks of the network, the frames of
  server-sent events. What the network answers is an argument, one element for each attempt or chunk.
\<close>

section \<open>Sending\<close>

definition DEFAULT_MAX_RETRIES :: nat where "DEFAULT_MAX_RETRIES = 4"

definition overloaded_text :: str where "overloaded_text = ''overloaded_error''"

text \<open>\<open>transient\<close>: the error of the HTTP library is a failed connection or a timeout.\<close>

definition gateway_retryable :: "(str \<Rightarrow> bool) \<Rightarrow> model_error \<Rightarrow> bool" where
  "gateway_retryable transient e =
     (case e of
        HttpError status body \<Rightarrow>
          status \<in> {408, 409, 429} \<or> (500 \<le> status \<and> status \<le> 599) \<or> contains_str body overloaded_text
      | RequestError s \<Rightarrow> transient s
      | _ \<Rightarrow> False)"

text \<open>The delay before attempt \<open>attempt + 1\<close> in milliseconds; \<open>jitter\<close> is drawn from \<open>0..=max (base div 4) 1\<close>.\<close>

definition retry_base_ms :: "nat \<Rightarrow> nat" where
  "retry_base_ms attempt = min (500 * 2 ^ min (attempt - 1) 10) 8000"

definition retry_delay :: "nat \<Rightarrow> nat \<Rightarrow> nat" where
  "retry_delay attempt jitter = retry_base_ms attempt + jitter"

text \<open>One attempt: whether the flag was set before it, what came first of the answer and the flag
  (\<open>None\<close>: the flag), and whether the flag was set during the pause behind it.\<close>

record 'a send_attempt =
  at_cancelled :: bool
  at_answer :: "(model_error + 'a) option"
  at_pause_cancelled :: bool

text \<open>The result (\<open>None\<close>: the attempts of the argument are used up) with the number of attempts made.\<close>

fun retry_request ::
    "(str \<Rightarrow> bool) \<Rightarrow> nat \<Rightarrow> 'a send_attempt list \<Rightarrow> (model_error + 'a) option \<times> nat" where
  "retry_request transient n [] = (None, n)"
| "retry_request transient n (k # ks) =
     (if at_cancelled k then (Some (Inl CancelledError), n)
      else case at_answer k of
             None \<Rightarrow> (Some (Inl CancelledError), n + 1)
           | Some (Inr x) \<Rightarrow> (Some (Inr x), n + 1)
           | Some (Inl e) \<Rightarrow>
               if DEFAULT_MAX_RETRIES < n + 1 \<or> \<not> gateway_retryable transient e then (Some (Inl e), n + 1)
               else if at_pause_cancelled k then (Some (Inl CancelledError), n + 1)
               else retry_request transient (n + 1) ks)"

text \<open>\<open>send_with_refresh\<close>: \<open>post\<close> sends a body with a provider; \<open>refresh\<close> is \<open>None\<close> without a data
  directory, otherwise the provider with a fresh token or an error. \<open>mk\<close> builds the body for the
  account of a provider.\<close>

definition send_with_refresh ::
    "('p \<Rightarrow> model_error + json) \<Rightarrow> ('p \<Rightarrow> json \<Rightarrow> model_error + 'a) \<Rightarrow>
     ('p \<Rightarrow> (str + 'p) option) \<Rightarrow> 'p \<Rightarrow> model_error + 'a" where
  "send_with_refresh mk post refresh p =
     (case mk p of
        Inl e \<Rightarrow> Inl e
      | Inr body \<Rightarrow>
          (case post p body of
             Inl (HttpError status text) \<Rightarrow>
               if status \<noteq> 401 then Inl (HttpError status text)
               else (case refresh p of
                       Some (Inr q) \<Rightarrow> (case mk q of Inl e \<Rightarrow> Inl e | Inr body \<Rightarrow> post q body)
                     | _ \<Rightarrow> Inl (HttpError status text))
           | r \<Rightarrow> r))"

definition needs_long_context_beta :: "call_request \<Rightarrow> bool" where
  "needs_long_context_beta req \<longleftrightarrow>
     (case cq_reasoning req of Some c \<Rightarrow> wants_long_context c | None \<Rightarrow> False) \<and>
     anthropic_long_context_uses_beta (cq_model req)"

section \<open>Frames\<close>

definition take_sse_frame :: "str \<Rightarrow> (str \<times> str) option" where
  "take_sse_frame buf =
     first_of (split_once_str [nl, nl] buf) (split_once_str [cr, nl, cr, nl] buf)"

lemma split_once_str_split: "split_once_str p s = Some (a, b) \<Longrightarrow> s = a @ p @ b"
proof (induction s arbitrary: a b)
  case (Cons x xs)
  show ?case
  proof (cases "prefix p (x # xs)")
    case True
    then show ?thesis using Cons.prems by (auto simp: prefix_def split: if_splits)
  next
    case False
    then obtain a' where "split_once_str p xs = Some (a', b)" "a = x # a'"
      using Cons.prems by auto
    then show ?thesis using Cons.IH by simp
  qed
qed simp

lemma take_sse_frame_shorter: "take_sse_frame buf = Some (f, rest) \<Longrightarrow> length rest < length buf"
  by (auto simp: take_sse_frame_def first_of_def dest!: split_once_str_split split: option.splits)

function sse_frames :: "str \<Rightarrow> str list \<times> str" where
  "sse_frames buf =
     (case take_sse_frame buf of
        None \<Rightarrow> ([], buf)
      | Some (f, rest) \<Rightarrow> (case sse_frames rest of (fs, r) \<Rightarrow> (f # fs, r)))"
  by pat_completeness auto
termination
  by (relation "measure length") (auto dest: take_sse_frame_shorter)

declare sse_frames.simps [simp del]

definition sse_lines :: "str \<Rightarrow> str list" where
  "sse_lines frame = map (trim_end_matches {cr}) (str_lines frame)"

section \<open>Chunks\<close>

text \<open>What the stream answers: bytes at a time, an error of the network, or the cancel flag.\<close>

datatype net_read = Chunk int str | NetBroken str | NetCancelled

text \<open>Why reading stops before the end: an error, or a panic.\<close>

datatype stream_stop = StreamError model_error | StreamPanic

fun run_steps :: "('x \<Rightarrow> 's \<Rightarrow> stream_stop option \<times> 's) \<Rightarrow> 'x list \<Rightarrow> 's \<Rightarrow> stream_stop option \<times> 's" where
  "run_steps f [] s = (None, s)"
| "run_steps f (x # xs) s =
     (case f x s of (Some e, s) \<Rightarrow> (Some e, s) | (None, s) \<Rightarrow> run_steps f xs s)"

text \<open>The loop over the chunks. Each is decoded by itself and put behind what is left of the buffer;
  what is left when the stream ends is dropped.\<close>

fun read_chunks ::
    "(int \<Rightarrow> str \<Rightarrow> 's \<Rightarrow> stream_stop option \<times> 's) \<Rightarrow> net_read list \<Rightarrow> str \<Rightarrow> 's \<Rightarrow>
     stream_stop option \<times> 's" where
  "read_chunks f [] buf s = (None, s)"
| "read_chunks f (NetBroken e # ns) buf s = (Some (StreamError (RequestError e)), s)"
| "read_chunks f (NetCancelled # ns) buf s = (Some (StreamError CancelledError), s)"
| "read_chunks f (Chunk now b # ns) buf s =
     (case sse_frames (buf @ utf8_lossy b) of (fs, rest) \<Rightarrow>
        (case run_steps (f now) fs s of
           (Some e, s) \<Rightarrow> (Some e, s)
         | (None, s) \<Rightarrow> read_chunks f ns rest s))"

definition stream_error_text :: str where
  "stream_error_text =
     [CHR 0xE6, CHR 0xA8, CHR 0xA1, CHR 0xE5, CHR 0x9E, CHR 0x8B, CHR 0xE6, CHR 0xB5, CHR 0x81,
     CHR 0xE5, CHR 0xBC, CHR 0x8F, CHR 0xE8, CHR 0xBF, CHR 0x94, CHR 0xE5, CHR 0x9B, CHR 0x9E,
     CHR 0xE9, CHR 0x94, CHR 0x99, CHR 0xE8, CHR 0xAF, CHR 0xAF, CHR 0xEF, CHR 0xBC, CHR 0x9A]"

end
