(* ===== verification/Anthropic_Stream.thy ===== *)
theory Anthropic_Stream
  imports Anthropic_Wire Sse_Stream
begin

text \<open>
  The streamed answer of Anthropic: \<open>parse_stream_event\<close> of \<open>protocols/anthropic.rs\<close> and the loop of
  \<open>AnthropicClient::stream\<close> in \<open>providers/anthropic.rs\<close>. A \<open>BTreeMap\<close> is a list of pairs sorted by the
  key. Times are milliseconds of the monotonic clock.
\<close>

section \<open>Events of the stream\<close>

datatype claude_event =
  ClaudeText nat str
| ClaudeThinking nat str
| ClaudeThinkingStart nat
| ClaudeBlockStop nat
| ClaudeSignature nat str
| ClaudeToolStart nat str str
| ClaudeToolArgs nat str
| ClaudeMessageStart usage
| ClaudeMessageDelta "str option" "usage option"

definition claude_block_start :: "json \<Rightarrow> claude_event option" where
  "claude_block_start v =
     (case as_u64 (json_at v ''index'') of
        None \<Rightarrow> None
      | Some i \<Rightarrow>
          let b = json_at v ''content_block'' in
          case as_str (json_at b ''type'') of
            None \<Rightarrow> None
          | Some t \<Rightarrow>
              if t = ''tool_use''
              then Some (ClaudeToolStart i (str_or_empty (json_at b ''id'')) (str_or_empty (json_at b ''name'')))
              else if t = ''thinking'' then Some (ClaudeThinkingStart i)
              else None)"

definition claude_block_delta :: "json \<Rightarrow> claude_event option" where
  "claude_block_delta v =
     (case as_u64 (json_at v ''index'') of
        None \<Rightarrow> None
      | Some i \<Rightarrow>
          let d = json_at v ''delta''; t = as_str (json_at d ''type'') in
          if t = Some ''text_delta'' \<or> t = None
          then map_option (ClaudeText i) (nonempty_str_of (json_at d ''text''))
          else if t = Some ''thinking_delta''
          then map_option (ClaudeThinking i) (nonempty_str_of (json_at d ''thinking''))
          else if t = Some ''input_json_delta''
          then map_option (ClaudeToolArgs i) (as_str (json_at d ''partial_json''))
          else if t = Some ''signature_delta''
          then map_option (ClaudeSignature i) (as_str (json_at d ''signature''))
          else None)"

definition parse_claude_event :: "str \<Rightarrow> json \<Rightarrow> claude_event option" where
  "parse_claude_event ty v =
     (if ty = ''content_block_start'' then claude_block_start v
      else if ty = ''content_block_stop'' then map_option ClaudeBlockStop (as_u64 (json_at v ''index''))
      else if ty = ''content_block_delta'' then claude_block_delta v
      else if ty = ''message_start''
      then map_option (\<lambda>m. ClaudeMessageStart (anthropic_usage m)) (json_get v ''message'')
      else if ty = ''message_delta''
      then Some (ClaudeMessageDelta (as_str (json_at (json_at v ''delta'') ''stop_reason''))
                   (map_option (\<lambda>_. anthropic_usage v) (json_get v ''usage'')))
      else None)"

definition parse_stream_event :: "(str \<Rightarrow> json option) \<Rightarrow> str \<Rightarrow> str \<Rightarrow> claude_event option" where
  "parse_stream_event pj ty dat = Option.bind (pj dat) (parse_claude_event ty)"

section \<open>State\<close>

fun bt_put :: "nat \<Rightarrow> 'a \<Rightarrow> (nat \<times> 'a) list \<Rightarrow> (nat \<times> 'a) list" where
  "bt_put k x [] = [(k, x)]"
| "bt_put k x ((j, y) # m) =
     (if k < j then (k, x) # (j, y) # m
      else if k = j then (k, x) # m
      else (j, y) # bt_put k x m)"

record tool_accum =
  tm_id :: str
  tm_name :: str
  tm_args :: str

record claude_state =
  cs_text :: str
  cs_reasoning :: str
  cs_signature :: str
  cs_event :: str
  cs_thinking_at :: "(nat \<times> int) list"
  cs_tools :: "(nat \<times> tool_accum) list"
  cs_ordinals :: "(nat \<times> nat) list"
  cs_stop :: "str option"
  cs_usage :: usage
  cs_sent :: "stream_event list"

definition no_usage :: usage where
  "no_usage = \<lparr>us_input = 0, us_output = 0, us_cache_read = 0, us_cache_creation = 0\<rparr>"

definition claude_begin :: claude_state where
  "claude_begin = \<lparr>cs_text = [], cs_reasoning = [], cs_signature = [], cs_event = [], cs_thinking_at = [],
     cs_tools = [], cs_ordinals = [], cs_stop = None, cs_usage = no_usage, cs_sent = []\<rparr>"

definition on_stream :: "stream_event \<Rightarrow> claude_state \<Rightarrow> claude_state" where
  "on_stream e s = s\<lparr>cs_sent := cs_sent s @ [e]\<rparr>"

section \<open>One event\<close>

definition start_claude_tool :: "nat \<Rightarrow> str \<Rightarrow> str \<Rightarrow> claude_state \<Rightarrow> claude_state" where
  "start_claude_tool i cid name s =
     (let n = length (cs_ordinals s)
      in on_stream (StreamCall n (Some cid) (Some name) None)
           (s\<lparr>cs_ordinals := bt_put i n (cs_ordinals s),
              cs_tools := bt_put i \<lparr>tm_id = cid, tm_name = name, tm_args = []\<rparr> (cs_tools s)\<rparr>))"

definition add_claude_args :: "nat \<Rightarrow> str \<Rightarrow> claude_state \<Rightarrow> claude_state" where
  "add_claude_args i d s =
     (let s = (case map_of (cs_tools s) i of
                 Some t \<Rightarrow> s\<lparr>cs_tools := bt_put i (t\<lparr>tm_args := tm_args t @ d\<rparr>) (cs_tools s)\<rparr>
               | None \<Rightarrow> s)
      in case map_of (cs_ordinals s) i of
           Some n \<Rightarrow> on_stream (StreamCall n None None (Some d)) s
         | None \<Rightarrow> s)"

definition merge_usage :: "usage option \<Rightarrow> usage \<Rightarrow> usage" where
  "merge_usage u old =
     (case u of Some d \<Rightarrow> if 0 < us_output d then old\<lparr>us_output := us_output d\<rparr> else old | None \<Rightarrow> old)"

fun claude_event_step :: "int \<Rightarrow> claude_event \<Rightarrow> claude_state \<Rightarrow> claude_state" where
  "claude_event_step now (ClaudeText _ d) s = (on_stream (StreamText d) s)\<lparr>cs_text := cs_text s @ d\<rparr>"
| "claude_event_step now (ClaudeThinkingStart i) s =
     s\<lparr>cs_thinking_at := bt_put i now (cs_thinking_at s)\<rparr>"
| "claude_event_step now (ClaudeThinking _ d) s =
     on_stream (StreamReasoning d) (s\<lparr>cs_reasoning := cs_reasoning s @ d\<rparr>)"
| "claude_event_step now (ClaudeSignature _ g) s =
     on_stream (StreamSignature g) (s\<lparr>cs_signature := g\<rparr>)"
| "claude_event_step now (ClaudeBlockStop i) s =
     (case map_of (cs_thinking_at s) i of
        Some t \<Rightarrow> on_stream (StreamDuration (nat (now - t)))
                    (s\<lparr>cs_thinking_at := AList.delete i (cs_thinking_at s)\<rparr>)
      | None \<Rightarrow> s)"
| "claude_event_step now (ClaudeToolStart i cid name) s = start_claude_tool i cid name s"
| "claude_event_step now (ClaudeToolArgs i d) s = add_claude_args i d s"
| "claude_event_step now (ClaudeMessageStart u) s = s\<lparr>cs_usage := u\<rparr>"
| "claude_event_step now (ClaudeMessageDelta sr u) s =
     s\<lparr>cs_stop := first_of sr (cs_stop s), cs_usage := merge_usage u (cs_usage s)\<rparr>"

section \<open>The stream\<close>

definition claude_line ::
    "(str \<Rightarrow> json option) \<Rightarrow> int \<Rightarrow> str \<Rightarrow> claude_state \<Rightarrow> stream_stop option \<times> claude_state" where
  "claude_line pj now line s =
     (case str_strip_prefix line ''event:'' of
        Some e \<Rightarrow> (None, s\<lparr>cs_event := trim e\<rparr>)
      | None \<Rightarrow>
          (case str_strip_prefix line ''data:'' of
             None \<Rightarrow> (None, s)
           | Some d \<Rightarrow>
               if trim d = [] then (None, s)
               else if cs_event s = ''error'' then (Some (StreamError (OtherError (stream_error_text @ trim d))), s)
               else (None, case parse_stream_event pj (cs_event s) (trim d) of
                             Some ev \<Rightarrow> claude_event_step now ev s
                           | None \<Rightarrow> s)))"

definition claude_frame ::
    "(str \<Rightarrow> json option) \<Rightarrow> int \<Rightarrow> str \<Rightarrow> claude_state \<Rightarrow> stream_stop option \<times> claude_state" where
  "claude_frame pj now frame s = run_steps (claude_line pj now) (sse_lines frame) s"

definition claude_call :: "(str \<Rightarrow> json option) \<Rightarrow> tool_accum \<Rightarrow> call_entry" where
  "claude_call pj t =
     \<lparr>ce_id = tm_id t, ce_name = tm_name t,
      ce_input = (case pj (tm_args t) of Some v \<Rightarrow> v | None \<Rightarrow> JStr (tm_args t))\<rparr>"

definition claude_answer :: "(str \<Rightarrow> json option) \<Rightarrow> claude_state \<Rightarrow> str \<times> model_response" where
  "claude_answer pj s =
     finish_answer (case cs_stop s of Some r \<Rightarrow> r | None \<Rightarrow> []) (cs_usage s)
       \<lparr>an_text = cs_text s, an_reasoning = cs_reasoning s, an_signature = cs_signature s,
        an_calls = map (claude_call pj \<circ> snd) (cs_tools s)\<rparr>"

definition image_refused_text :: str where
  "image_refused_text =
     [CHR 0x69, CHR 0x6D, CHR 0x61, CHR 0x67, CHR 0x65, CHR 0x5F, CHR 0x67, CHR 0x65, CHR 0x6E,
     CHR 0x65, CHR 0x72, CHR 0x61, CHR 0x74, CHR 0x69, CHR 0x6F, CHR 0x6E, CHR 0x20, CHR 0xE5,
     CHR 0xB7, CHR 0xA5, CHR 0xE5, CHR 0x85, CHR 0xB7, CHR 0xE5, CHR 0x8F, CHR 0xAA, CHR 0xE6,
     CHR 0x94, CHR 0xAF, CHR 0xE6, CHR 0x8C, CHR 0x81, CHR 0x20, CHR 0x4F, CHR 0x70, CHR 0x65,
     CHR 0x6E, CHR 0x41, CHR 0x49, CHR 0x20, CHR 0x52, CHR 0x65, CHR 0x73, CHR 0x70, CHR 0x6F,
     CHR 0x6E, CHR 0x73, CHR 0x65, CHR 0x73, CHR 0xEF, CHR 0xBC, CHR 0x9B, CHR 0xE8, CHR 0xAF,
     CHR 0xB7, CHR 0xE5, CHR 0x88, CHR 0x87, CHR 0xE6, CHR 0x8D, CHR 0xA2, CHR 0xE5, CHR 0x88,
     CHR 0xB0, CHR 0x20, CHR 0x4F, CHR 0x70, CHR 0x65, CHR 0x6E, CHR 0x41, CHR 0x49, CHR 0x20,
     CHR 0x70, CHR 0x72, CHR 0x6F, CHR 0x76, CHR 0x69, CHR 0x64, CHR 0x65, CHR 0x72, CHR 0xEF,
     CHR 0xBC, CHR 0x8C, CHR 0xE6, CHR 0x88, CHR 0x96, CHR 0xE5, CHR 0x85, CHR 0xB3, CHR 0xE9,
     CHR 0x97, CHR 0xAD, CHR 0xE7, CHR 0x94, CHR 0x9F, CHR 0xE5, CHR 0x9B, CHR 0xBE, CHR 0xE5,
     CHR 0xB7, CHR 0xA5, CHR 0xE5, CHR 0x85, CHR 0xB7, CHR 0xE3, CHR 0x80, CHR 0x82]"

text \<open>\<open>stream\<close>: the answer or an error, with the events handed to the loop before it. \<open>send\<close> is
  \<open>send_with_refresh\<close>.\<close>

definition claude_stream ::
    "(str \<Rightarrow> json option) \<Rightarrow> (call_request \<Rightarrow> model_error + net_read list) \<Rightarrow> call_request \<Rightarrow>
     (stream_stop + (str \<times> model_response)) \<times> stream_event list" where
  "claude_stream pj send req =
     (if has_image_generation_tool (cq_tools req) then (Inl (StreamError (OtherError image_refused_text)), [])
      else case send req of
             Inl e \<Rightarrow> (Inl (StreamError e), [])
           | Inr chunks \<Rightarrow>
               (case read_chunks (claude_frame pj) chunks [] claude_begin of
                  (Some e, s) \<Rightarrow> (Inl e, cs_sent s)
                | (None, s) \<Rightarrow> (Inr (claude_answer pj s), cs_sent s)))"

text \<open>\<open>complete\<close>; \<open>json_error\<close> is the error of the parser.\<close>

definition claude_complete ::
    "(str \<Rightarrow> json option) \<Rightarrow> str \<Rightarrow> (call_request \<Rightarrow> model_error + str) \<Rightarrow> call_request \<Rightarrow>
     model_error + (str \<times> model_response)" where
  "claude_complete pj json_error send req =
     (if has_image_generation_tool (cq_tools req) then Inl (OtherError image_refused_text)
      else case send req of
             Inl e \<Rightarrow> Inl e
           | Inr body \<Rightarrow>
               (case pj body of None \<Rightarrow> Inl (JsonError json_error) | Some v \<Rightarrow> Inr (anthropic_response v)))"

end
