(* ===== verification/Openai_Stream.thy ===== *)
theory Openai_Stream
  imports Openai_Answer Anthropic_Stream
begin

text \<open>
  The client of OpenAI (\<open>crates/model-gateway/src/providers/openai.rs\<close>): the streamed chat, the streamed
  response with the accumulator of its output items, an answer that is one body, the remote
  compaction. Counters for the log are left out.
\<close>

section \<open>Where a request goes\<close>

text \<open>\<open>codex\<close>: the provider signs in as Codex; \<open>codex_mode\<close>: it is set to speak as Codex.\<close>

definition should_use_responses :: "bool \<Rightarrow> bool \<Rightarrow> call_request \<Rightarrow> bool" where
  "should_use_responses codex codex_mode req \<longleftrightarrow>
     codex \<or> codex_mode \<or> has_image_generation_tool (cq_tools req)"

definition responses_url :: "bool \<Rightarrow> str \<Rightarrow> str" where
  "responses_url codex base =
     (let b = trim_end_matches {CHR ''/''} base
      in (if codex \<and> b = ''https://api.openai.com/v1'' then ''https://chatgpt.com/backend-api/codex'' else b) @
         ''/responses'')"

definition responses_compact_url :: "bool \<Rightarrow> str \<Rightarrow> str" where
  "responses_compact_url codex base = responses_url codex base @ ''/compact''"

section \<open>Calls put together from deltas\<close>

record partial_call =
  pl_id :: "str option"
  pl_name :: "str option"
  pl_arguments :: str

definition no_call :: partial_call where
  "no_call = \<lparr>pl_id = None, pl_name = None, pl_arguments = []\<rparr>"

definition clean_optional :: "str option \<Rightarrow> str option" where
  "clean_optional v = nonempty_opt (map_option trim v)"

definition merge_call_delta :: "chat_delta \<Rightarrow> partial_call \<Rightarrow> partial_call" where
  "merge_call_delta d p =
     \<lparr>pl_id = first_of (nonblank (cd_id d)) (pl_id p), pl_name = first_of (nonblank (cd_name d)) (pl_name p),
      pl_arguments = pl_arguments p @ (case cd_arguments d of Some a \<Rightarrow> a | None \<Rightarrow> [])\<rparr>"

definition apply_tool_call_delta :: "chat_delta \<Rightarrow> partial_call list \<Rightarrow> partial_call list" where
  "apply_tool_call_delta d ps =
     (let ps = ps @ replicate (cd_index d + 1 - length ps) no_call
      in ps[cd_index d := merge_call_delta d (ps ! cd_index d)])"

definition finish_call :: "(str \<Rightarrow> json option) \<Rightarrow> partial_call \<Rightarrow> call_entry option" where
  "finish_call pj p =
     (case (pl_id p, pl_name p) of
        (Some cid, Some name) \<Rightarrow>
          Some \<lparr>ce_id = cid, ce_name = name,
            ce_input = (if trim (pl_arguments p) = [] then JObj [] else json_or_null pj (pl_arguments p))\<rparr>
      | _ \<Rightarrow> None)"

definition finish_tool_calls :: "(str \<Rightarrow> json option) \<Rightarrow> partial_call list \<Rightarrow> call_entry list" where
  "finish_tool_calls pj ps = List.map_filter (finish_call pj) ps"

definition tool_call_delta ::
    "nat \<Rightarrow> str option \<Rightarrow> str option \<Rightarrow> str option \<Rightarrow> stream_event list" where
  "tool_call_delta i cid name d =
     (if cid = None \<and> name = None \<and> d = None then [] else [StreamCall i cid name d])"

section \<open>The streamed chat\<close>

record chat_state =
  ch_text :: str
  ch_reasoning :: str
  ch_parts :: "partial_call list"
  ch_usage :: usage
  ch_finish :: "str option"
  ch_sent :: "stream_event list"

definition chat_begin :: chat_state where
  "chat_begin = \<lparr>ch_text = [], ch_reasoning = [], ch_parts = [], ch_usage = no_usage, ch_finish = None,
     ch_sent = []\<rparr>"

definition chat_delta_step :: "chat_delta \<Rightarrow> chat_state \<Rightarrow> chat_state" where
  "chat_delta_step d s =
     s\<lparr>ch_parts := apply_tool_call_delta d (ch_parts s),
       ch_sent := ch_sent s @ tool_call_delta (cd_index d) (clean_optional (cd_id d))
         (clean_optional (cd_name d)) (nonempty_opt (cd_arguments d))\<rparr>"

definition add_reasoning :: "str option \<Rightarrow> chat_state \<Rightarrow> chat_state" where
  "add_reasoning t s =
     (case t of
        Some d \<Rightarrow> s\<lparr>ch_reasoning := ch_reasoning s @ d, ch_sent := ch_sent s @ [StreamReasoning d]\<rparr>
      | None \<Rightarrow> s)"

definition add_text :: "str option \<Rightarrow> chat_state \<Rightarrow> chat_state" where
  "add_text t s =
     (case t of
        Some d \<Rightarrow> s\<lparr>ch_text := ch_text s @ d, ch_sent := ch_sent s @ [StreamText d]\<rparr>
      | None \<Rightarrow> s)"

definition chat_frame_step :: "chat_frame \<Rightarrow> chat_state \<Rightarrow> chat_state" where
  "chat_frame_step f s =
     (let s = fold chat_delta_step (cf_calls f) (add_text (cf_text f) (add_reasoning (cf_reasoning f) s))
      in s\<lparr>ch_usage := (case cf_usage f of Some u \<Rightarrow> u | None \<Rightarrow> ch_usage s),
           ch_finish := first_of (cf_finish f) (ch_finish s)\<rparr>)"

definition error_in_frame :: "(str \<Rightarrow> json option) \<Rightarrow> str \<Rightarrow> bool" where
  "error_in_frame pj d \<longleftrightarrow>
     (case Option.bind (pj d) (\<lambda>v. json_get v ''error'') of Some e \<Rightarrow> e \<noteq> JNull | None \<Rightarrow> False)"

definition chat_line ::
    "(str \<Rightarrow> json option) \<Rightarrow> str \<Rightarrow> chat_state \<Rightarrow> stream_stop option \<times> chat_state" where
  "chat_line pj line s =
     (case str_strip_prefix line ''data:'' of
        None \<Rightarrow> (None, s)
      | Some d \<Rightarrow>
          let d = trim d in
          if d = ''[DONE]'' \<or> d = [] then (None, s)
          else if error_in_frame pj d then (Some (StreamError (OtherError (stream_error_text @ d))), s)
          else (None, case parse_chat_stream_frame pj d of Some f \<Rightarrow> chat_frame_step f s | None \<Rightarrow> s))"

definition chat_sse_frame ::
    "(str \<Rightarrow> json option) \<Rightarrow> int \<Rightarrow> str \<Rightarrow> chat_state \<Rightarrow> stream_stop option \<times> chat_state" where
  "chat_sse_frame pj now frame s = run_steps (chat_line pj) (sse_lines frame) s"

definition chat_answer :: "(str \<Rightarrow> json option) \<Rightarrow> chat_state \<Rightarrow> str \<times> model_response" where
  "chat_answer pj s =
     (let calls = finish_tool_calls pj (ch_parts s)
      in ([], if calls = []
              then ModelDone (map_openai_finish (case ch_finish s of Some f \<Rightarrow> f | None \<Rightarrow> []))
                     (ch_text s) (ch_reasoning s) [] (ch_usage s)
              else ModelToolCalls (ch_text s) (ch_reasoning s) calls [] (ch_usage s)))"

definition chat_stream ::
    "(str \<Rightarrow> json option) \<Rightarrow> net_read list \<Rightarrow> (stream_stop + (str \<times> model_response)) \<times> stream_event list" where
  "chat_stream pj chunks =
     (case read_chunks (chat_sse_frame pj) chunks [] chat_begin of
        (Some e, s) \<Rightarrow> (Inl e, ch_sent s)
      | (None, s) \<Rightarrow> (Inr (chat_answer pj s), ch_sent s))"

section \<open>Output items of a response\<close>

record output_acc =
  oa_indexed :: "(nat \<times> json) list"
  oa_unindexed :: "json list"

definition no_items :: output_acc where
  "no_items = \<lparr>oa_indexed = [], oa_unindexed = []\<rparr>"

definition output_item_id :: "json \<Rightarrow> str option" where
  "output_item_id item = as_str (json_at item ''id'')"

definition keeps_existing :: "json option \<Rightarrow> json \<Rightarrow> bool" where
  "keeps_existing current new =
     (case (current, new) of
        (Some (JStr c), JStr n) \<Rightarrow> c \<noteq> [] \<and> n = []
      | (Some c, JNull) \<Rightarrow> c \<noteq> JNull
      | _ \<Rightarrow> False)"

definition merge_response_output_item :: "json \<Rightarrow> json \<Rightarrow> json" where
  "merge_response_output_item existing incoming =
     (case (existing, incoming) of
        (JObj _, JObj kvs) \<Rightarrow>
          fold (\<lambda>(k, v) e. if keeps_existing (json_get e k) v then e else json_put k v e) kvs existing
      | _ \<Rightarrow> incoming)"

definition find_index_for_id :: "str option \<Rightarrow> output_acc \<Rightarrow> nat option" where
  "find_index_for_id item_id a =
     (case item_id of
        None \<Rightarrow> None
      | Some x \<Rightarrow> map_option fst (find (\<lambda>(i, item). output_item_id item = Some x) (oa_indexed a)))"

text \<open>\<open>position\<close> of the first item with the id among those without an index.\<close>

definition find_unindexed_pos_for_id :: "str option \<Rightarrow> output_acc \<Rightarrow> nat option" where
  "find_unindexed_pos_for_id item_id a =
     (case item_id of
        None \<Rightarrow> None
      | Some x \<Rightarrow>
          let n = length (takeWhile (\<lambda>item. output_item_id item \<noteq> Some x) (oa_unindexed a))
          in if n < length (oa_unindexed a) then Some n else None)"

definition change_indexed :: "nat \<Rightarrow> json \<Rightarrow> (json \<Rightarrow> json) \<Rightarrow> output_acc \<Rightarrow> output_acc" where
  "change_indexed i fresh f a =
     a\<lparr>oa_indexed := bt_put i (f (case map_of (oa_indexed a) i of Some x \<Rightarrow> x | None \<Rightarrow> fresh)) (oa_indexed a)\<rparr>"

definition change_unindexed :: "nat \<Rightarrow> (json \<Rightarrow> json) \<Rightarrow> output_acc \<Rightarrow> output_acc" where
  "change_unindexed n f a = a\<lparr>oa_unindexed := (oa_unindexed a)[n := f (oa_unindexed a ! n)]\<rparr>"

definition put_output_item :: "nat option \<Rightarrow> json \<Rightarrow> output_acc \<Rightarrow> output_acc" where
  "put_output_item index item a =
     (case first_of index (find_index_for_id (output_item_id item) a) of
        Some i \<Rightarrow> change_indexed i (JObj []) (\<lambda>e. merge_response_output_item e item) a
      | None \<Rightarrow>
          (case find_unindexed_pos_for_id (output_item_id item) a of
             Some n \<Rightarrow> change_unindexed n (\<lambda>e. merge_response_output_item e item) a
           | None \<Rightarrow> a\<lparr>oa_unindexed := oa_unindexed a @ [item]\<rparr>))"

definition put_id :: "str option \<Rightarrow> json \<Rightarrow> json" where
  "put_id item_id item = (case item_id of Some x \<Rightarrow> json_put ''id'' (JStr x) item | None \<Rightarrow> item)"

definition minimal_function_call_item :: "str option \<Rightarrow> json" where
  "minimal_function_call_item item_id =
     put_id item_id (JObj [(''type'', JStr ''function_call''), (''arguments'', JStr [])])"

definition ensure_function_call_item :: "str option \<Rightarrow> json \<Rightarrow> json" where
  "ensure_function_call_item item_id item =
     (let item = (if is_object item then item else JObj []);
          item = (if str_or_empty (json_at item ''type'') = []
                  then json_put ''type'' (JStr ''function_call'') item else item);
          item = (if str_or_empty (json_at item ''id'') = [] then put_id item_id item else item)
      in if as_str (json_at item ''arguments'') = None then json_put ''arguments'' (JStr []) item else item)"

text \<open>\<open>function_call_item_mut\<close> with what is done to the item.\<close>

definition change_call_item ::
    "nat option \<Rightarrow> str option \<Rightarrow> (json \<Rightarrow> json) \<Rightarrow> output_acc \<Rightarrow> output_acc" where
  "change_call_item index item_id f a =
     (case first_of index (find_index_for_id item_id a) of
        Some i \<Rightarrow>
          change_indexed i (minimal_function_call_item item_id) (f \<circ> ensure_function_call_item item_id) a
      | None \<Rightarrow>
          (case find_unindexed_pos_for_id item_id a of
             Some n \<Rightarrow> change_unindexed n (f \<circ> ensure_function_call_item item_id) a
           | None \<Rightarrow> a\<lparr>oa_unindexed := oa_unindexed a @ [f (minimal_function_call_item item_id)]\<rparr>))"

definition append_function_call_arguments ::
    "nat option \<Rightarrow> str option \<Rightarrow> str \<Rightarrow> output_acc \<Rightarrow> output_acc" where
  "append_function_call_arguments index item_id d a =
     (if d = [] then a
      else change_call_item index item_id
             (\<lambda>item. json_put ''arguments'' (JStr (str_or_empty (json_at item ''arguments'') @ d)) item) a)"

definition finish_item ::
    "str option \<Rightarrow> str option \<Rightarrow> str \<Rightarrow> json \<Rightarrow> json" where
  "finish_item cid name args item =
     (let item = (case cid of Some c \<Rightarrow> json_put ''call_id'' (JStr c) item | None \<Rightarrow> item);
          item = (case name of Some n \<Rightarrow> json_put ''name'' (JStr n) item | None \<Rightarrow> item);
          item = (if args \<noteq> [] \<or> str_or_empty (json_at item ''arguments'') = []
                  then json_put ''arguments'' (JStr args) item else item)
      in json_put ''status'' (JStr ''completed'') item)"

definition finish_function_call_arguments ::
    "nat option \<Rightarrow> str option \<Rightarrow> str option \<Rightarrow> str option \<Rightarrow> str \<Rightarrow> output_acc \<Rightarrow> output_acc" where
  "finish_function_call_arguments index item_id cid name args a =
     change_call_item index item_id (finish_item cid name args) a"

definition into_output_items :: "output_acc \<Rightarrow> json list" where
  "into_output_items a = map snd (oa_indexed a) @ oa_unindexed a"

definition merge_from :: "output_acc \<Rightarrow> output_acc \<Rightarrow> output_acc" where
  "merge_from other a =
     fold (put_output_item None) (oa_unindexed other)
       (fold (\<lambda>(i, item). put_output_item (Some i) item) (oa_indexed other) a)"

definition merge_response_output :: "json option \<Rightarrow> output_acc \<Rightarrow> json list" where
  "merge_response_output completed acc =
     (case Option.bind completed as_array of
        None \<Rightarrow> into_output_items acc
      | Some items \<Rightarrow>
          into_output_items (merge_from acc
            (fold (\<lambda>(i, item). put_output_item (Some i) item) (List.enumerate 0 items) no_items)))"

section \<open>The streamed response\<close>

text \<open>A frame: the last event name and all lines of data.\<close>

definition frame_event :: "str list \<Rightarrow> str" where
  "frame_event ls =
     (case rev (List.map_filter (\<lambda>l. str_strip_prefix l ''event:'') ls) of e # _ \<Rightarrow> trim e | [] \<Rightarrow> [])"

definition frame_data :: "str list \<Rightarrow> str list" where
  "frame_data ls =
     List.map_filter (\<lambda>l. if str_strip_prefix l ''event:'' = None
       then map_option trim_start (str_strip_prefix l ''data:'') else None) ls"

definition parse_responses_frame ::
    "(str \<Rightarrow> json option) \<Rightarrow> str \<Rightarrow> stream_stop + responses_event" where
  "parse_responses_frame pj frame =
     (let ls = sse_lines frame in
      if frame_data ls = [] then Inr RespIgnore
      else case parse_responses_sse_event pj (frame_event ls) (join [nl] (frame_data ls)) of
             None \<Rightarrow> Inl StreamPanic
           | Some (RespFailed msg) \<Rightarrow> Inl (StreamError (OtherError msg))
           | Some e \<Rightarrow> Inr e)"

record responses_state =
  rs_text :: str
  rs_reasoning :: str
  rs_items :: output_acc
  rs_completed :: "json option"
  rs_sent :: "stream_event list"

definition responses_begin :: responses_state where
  "responses_begin = \<lparr>rs_text = [], rs_reasoning = [], rs_items = no_items, rs_completed = None, rs_sent = []\<rparr>"

definition response_tool_index :: "nat option \<Rightarrow> nat" where
  "response_tool_index index = (case index of Some i \<Rightarrow> i | None \<Rightarrow> 0)"

definition responses_tool_call_item :: "nat option \<Rightarrow> json \<Rightarrow> stream_event list" where
  "responses_tool_call_item index item =
     (if as_str (json_at item ''type'') \<noteq> Some ''function_call'' then []
      else tool_call_delta (response_tool_index index)
             (first_of (clean_optional (as_str (json_at item ''call_id'')))
                (clean_optional (as_str (json_at item ''id''))))
             (clean_optional (as_str (json_at item ''name''))) None)"

definition emit_all :: "stream_event list \<Rightarrow> responses_state \<Rightarrow> responses_state" where
  "emit_all es s = s\<lparr>rs_sent := rs_sent s @ es\<rparr>"

fun responses_step :: "responses_event \<Rightarrow> responses_state \<Rightarrow> responses_state" where
  "responses_step (RespText d) s = (emit_all [StreamText d] s)\<lparr>rs_text := rs_text s @ d\<rparr>"
| "responses_step (RespReasoning d) s =
     emit_all [StreamReasoning d] (s\<lparr>rs_reasoning := rs_reasoning s @ d\<rparr>)"
| "responses_step (RespItem index item) s =
     (emit_all (responses_tool_call_item index item) s)\<lparr>rs_items := put_output_item index item (rs_items s)\<rparr>"
| "responses_step (RespArgs index item_id d) s =
     (emit_all (tool_call_delta (response_tool_index index) (clean_optional item_id) None
         (nonempty_opt (Some d))) s)
       \<lparr>rs_items := append_function_call_arguments index item_id d (rs_items s)\<rparr>"
| "responses_step (RespArgsDone index item_id cid name args) s =
     (emit_all (tool_call_delta (response_tool_index index)
         (first_of (clean_optional cid) (clean_optional item_id)) (clean_optional name) None) s)
       \<lparr>rs_items := finish_function_call_arguments index item_id cid name args (rs_items s)\<rparr>"
| "responses_step (RespCompleted r) s = s\<lparr>rs_completed := Some r\<rparr>"
| "responses_step (RespFailed _) s = s"
| "responses_step RespIgnore s = s"

definition responses_sse_frame ::
    "(str \<Rightarrow> json option) \<Rightarrow> int \<Rightarrow> str \<Rightarrow> responses_state \<Rightarrow> stream_stop option \<times> responses_state" where
  "responses_sse_frame pj now frame s =
     (case parse_responses_frame pj frame of
        Inl e \<Rightarrow> (Some e, s)
      | Inr e \<Rightarrow> (None, responses_step e s))"

text \<open>The response with the merged output items; \<open>None\<close> is the panic of assigning into a response that
  is neither an object nor null.\<close>

definition with_output :: "json \<Rightarrow> output_acc \<Rightarrow> json option" where
  "with_output response acc =
     (let items = merge_response_output (json_get response ''output'') acc
      in if items = [] then Some response else json_set ''output'' (JArr items) response)"

definition responses_answer :: "(str \<Rightarrow> json option) \<Rightarrow> responses_state \<Rightarrow> stream_stop + (str \<times> model_response)" where
  "responses_answer pj s =
     (case with_output (case rs_completed s of Some r \<Rightarrow> r | None \<Rightarrow> JObj []) (rs_items s) of
        None \<Rightarrow> Inl StreamPanic
      | Some response \<Rightarrow>
          Inr ([], case responses_response pj response of
                     ModelDone f txt reasoning atts u \<Rightarrow>
                       ModelDone f (if rs_text s = [] then txt else rs_text s)
                         (if rs_reasoning s \<noteq> [] then rs_reasoning s else reasoning) atts u
                   | other \<Rightarrow> other))"

definition responses_stream ::
    "(str \<Rightarrow> json option) \<Rightarrow> net_read list \<Rightarrow> (stream_stop + (str \<times> model_response)) \<times> stream_event list" where
  "responses_stream pj chunks =
     (case read_chunks (responses_sse_frame pj) chunks [] responses_begin of
        (Some e, s) \<Rightarrow> (Inl e, rs_sent s)
      | (None, s) \<Rightarrow> (responses_answer pj s, rs_sent s))"

section \<open>A response that is one body\<close>

definition no_completed_text :: str where
  "no_completed_text =
     [CHR 0x52, CHR 0x65, CHR 0x73, CHR 0x70, CHR 0x6F, CHR 0x6E, CHR 0x73, CHR 0x65, CHR 0x73,
     CHR 0x20, CHR 0x53, CHR 0x53, CHR 0x45, CHR 0x20, CHR 0xE7, CHR 0xBC, CHR 0xBA, CHR 0xE5,
     CHR 0xB0, CHR 0x91, CHR 0x20, CHR 0x72, CHR 0x65, CHR 0x73, CHR 0x70, CHR 0x6F, CHR 0x6E,
     CHR 0x73, CHR 0x65, CHR 0x2E, CHR 0x63, CHR 0x6F, CHR 0x6D, CHR 0x70, CHR 0x6C, CHR 0x65,
     CHR 0x74, CHR 0x65, CHR 0x64]"

definition response_item_step :: "responses_event \<Rightarrow> responses_state \<Rightarrow> responses_state" where
  "response_item_step e s =
     (case e of
        RespItem index item \<Rightarrow> s\<lparr>rs_items := put_output_item index item (rs_items s)\<rparr>
      | RespArgs index item_id d \<Rightarrow>
          s\<lparr>rs_items := append_function_call_arguments index item_id d (rs_items s)\<rparr>
      | RespArgsDone index item_id cid name args \<Rightarrow>
          s\<lparr>rs_items := finish_function_call_arguments index item_id cid name args (rs_items s)\<rparr>
      | RespCompleted r \<Rightarrow> s\<lparr>rs_completed := Some r\<rparr>
      | _ \<Rightarrow> s)"

definition body_frame ::
    "(str \<Rightarrow> json option) \<Rightarrow> str \<Rightarrow> responses_state \<Rightarrow> stream_stop option \<times> responses_state" where
  "body_frame pj frame s =
     (case parse_responses_frame pj frame of
        Inl e \<Rightarrow> (Some e, s)
      | Inr e \<Rightarrow> (None, response_item_step e s))"

definition parse_responses_body_or_sse ::
    "(str \<Rightarrow> json option) \<Rightarrow> str \<Rightarrow> str \<Rightarrow> stream_stop + model_response" where
  "parse_responses_body_or_sse pj json_error body =
     (if starts_with (trim_start body) ''{''
      then (case pj body of
              None \<Rightarrow> Inl (StreamError (JsonError json_error))
            | Some v \<Rightarrow> Inr (responses_response pj v))
      else case run_steps (body_frame pj) (fst (sse_frames body)) responses_begin of
             (Some e, s) \<Rightarrow> Inl e
           | (None, s) \<Rightarrow>
               (case rs_completed s of
                  None \<Rightarrow> Inl (StreamError (OtherError no_completed_text))
                | Some r \<Rightarrow>
                    (case with_output r (rs_items s) of
                       None \<Rightarrow> Inl StreamPanic
                     | Some response \<Rightarrow> Inr (responses_response pj response))))"

definition codex_only_text :: str where
  "codex_only_text =
     [CHR 0xE5, CHR 0x9B, CHR 0xBE, CHR 0xE7, CHR 0x89, CHR 0x87, CHR 0xE7, CHR 0x94, CHR 0x9F,
     CHR 0xE6, CHR 0x88, CHR 0x90, CHR 0xE8, CHR 0xAF, CHR 0xB7, CHR 0xE6, CHR 0xB1, CHR 0x82,
     CHR 0xE5, CHR 0xB7, CHR 0xB2, CHR 0xE5, CHR 0x88, CHR 0x87, CHR 0xE5, CHR 0x88, CHR 0xB0,
     CHR 0x20, CHR 0x4F, CHR 0x70, CHR 0x65, CHR 0x6E, CHR 0x41, CHR 0x49, CHR 0x20, CHR 0x52,
     CHR 0x65, CHR 0x73, CHR 0x70, CHR 0x6F, CHR 0x6E, CHR 0x73, CHR 0x65, CHR 0x73, CHR 0xEF,
     CHR 0xBC, CHR 0x8C, CHR 0xE4, CHR 0xBD, CHR 0x86, CHR 0xE5, CHR 0xBD, CHR 0x93, CHR 0xE5,
     CHR 0x89, CHR 0x8D, CHR 0xE4, CHR 0xBB, CHR 0xA3, CHR 0xE7, CHR 0x90, CHR 0x86, CHR 0xE6,
     CHR 0x8B, CHR 0x92, CHR 0xE7, CHR 0xBB, CHR 0x9D, CHR 0xE4, CHR 0xBA, CHR 0x86, CHR 0xE8,
     CHR 0xAF, CHR 0xA5, CHR 0xE5, CHR 0xAE, CHR 0xA2, CHR 0xE6, CHR 0x88, CHR 0xB7, CHR 0xE7,
     CHR 0xAB, CHR 0xAF, CHR 0xEF, CHR 0xBC, CHR 0x9A, CHR 0xE5, CHR 0x8F, CHR 0xAA, CHR 0xE5,
     CHR 0x85, CHR 0x81, CHR 0xE8, CHR 0xAE, CHR 0xB8, CHR 0x20, CHR 0x43, CHR 0x6F, CHR 0x64,
     CHR 0x65, CHR 0x78, CHR 0x20, CHR 0xE5, CHR 0xAE, CHR 0x98, CHR 0xE6, CHR 0x96, CHR 0xB9,
     CHR 0xE5, CHR 0xAE, CHR 0xA2, CHR 0xE6, CHR 0x88, CHR 0xB7, CHR 0xE7, CHR 0xAB, CHR 0xAF,
     CHR 0xE3, CHR 0x80, CHR 0x82, CHR 0xE8, CHR 0xAF, CHR 0xB7, CHR 0xE5, CHR 0x88, CHR 0x87,
     CHR 0xE6, CHR 0x8D, CHR 0xA2, CHR 0xE5, CHR 0x88, CHR 0xB0, CHR 0xE6, CHR 0x94, CHR 0xAF,
     CHR 0xE6, CHR 0x8C, CHR 0x81, CHR 0x20, CHR 0x69, CHR 0x6D, CHR 0x61, CHR 0x67, CHR 0x65,
     CHR 0x5F, CHR 0x67, CHR 0x65, CHR 0x6E, CHR 0x65, CHR 0x72, CHR 0x61, CHR 0x74, CHR 0x69,
     CHR 0x6F, CHR 0x6E, CHR 0x20, CHR 0xE7, CHR 0x9A, CHR 0x84, CHR 0x20, CHR 0x4F, CHR 0x70,
     CHR 0x65, CHR 0x6E, CHR 0x41, CHR 0x49, CHR 0x20, CHR 0x70, CHR 0x72, CHR 0x6F, CHR 0x76,
     CHR 0x69, CHR 0x64, CHR 0x65, CHR 0x72, CHR 0xEF, CHR 0xBC, CHR 0x8C, CHR 0xE6, CHR 0x88,
     CHR 0x96, CHR 0xE5, CHR 0x9C, CHR 0xA8, CHR 0xE4, CHR 0xBB, CHR 0xA3, CHR 0xE7, CHR 0x90,
     CHR 0x86, CHR 0xE7, CHR 0xAB, CHR 0xAF, CHR 0xE5, CHR 0x85, CHR 0xB3, CHR 0xE9, CHR 0x97,
     CHR 0xAD, CHR 0x2F, CHR 0xE6, CHR 0x94, CHR 0xBE, CHR 0xE8, CHR 0xA1, CHR 0x8C, CHR 0x20,
     CHR 0x63, CHR 0x6F, CHR 0x64, CHR 0x65, CHR 0x78, CHR 0x5F, CHR 0x63, CHR 0x6C, CHR 0x69,
     CHR 0x5F, CHR 0x6F, CHR 0x6E, CHR 0x6C, CHR 0x79, CHR 0xE3, CHR 0x80, CHR 0x82]"

definition image_model_head :: str where
  "image_model_head =
     [CHR 0xE4, CHR 0xB8, CHR 0x8D, CHR 0xE8, CHR 0xA6, CHR 0x81, CHR 0xE6, CHR 0x8A, CHR 0x8A,
     CHR 0x20]"

definition image_model_tail :: str where
  "image_model_tail =
     [CHR 0x20, CHR 0xE4, CHR 0xBD, CHR 0x9C, CHR 0xE4, CHR 0xB8, CHR 0xBA, CHR 0xE5, CHR 0xAF,
     CHR 0xB9, CHR 0xE8, CHR 0xAF, CHR 0x9D, CHR 0xE6, CHR 0xA8, CHR 0xA1, CHR 0xE5, CHR 0x9E,
     CHR 0x8B, CHR 0xE6, CHR 0x9D, CHR 0xA5, CHR 0xE8, CHR 0xB7, CHR 0x91, CHR 0xE7, CHR 0x94,
     CHR 0x9F, CHR 0xE5, CHR 0x9B, CHR 0xBE, CHR 0xEF, CHR 0xBC, CHR 0x9B, CHR 0xE8, CHR 0xAF,
     CHR 0xB7, CHR 0xE9, CHR 0x80, CHR 0x89, CHR 0xE6, CHR 0x8B, CHR 0xA9, CHR 0x20, CHR 0x67,
     CHR 0x70, CHR 0x74, CHR 0x2D, CHR 0x35, CHR 0x2E, CHR 0x35, CHR 0x20, CHR 0x2F, CHR 0x20,
     CHR 0x67, CHR 0x70, CHR 0x74, CHR 0x2D, CHR 0x35, CHR 0x2E, CHR 0x34, CHR 0x20, CHR 0xE8,
     CHR 0xBF, CHR 0x99, CHR 0xE7, CHR 0xB1, CHR 0xBB, CHR 0xE5, CHR 0xAF, CHR 0xB9, CHR 0xE8,
     CHR 0xAF, CHR 0x9D, CHR 0xE6, CHR 0xA8, CHR 0xA1, CHR 0xE5, CHR 0x9E, CHR 0x8B, CHR 0xEF,
     CHR 0xBC, CHR 0x8C, CHR 0xE5, CHR 0xB9, CHR 0xB6, CHR 0xE5, CHR 0x90, CHR 0xAF, CHR 0xE7,
     CHR 0x94, CHR 0xA8, CHR 0x20, CHR 0x69, CHR 0x6D, CHR 0x61, CHR 0x67, CHR 0x65, CHR 0x5F,
     CHR 0x67, CHR 0x65, CHR 0x6E, CHR 0x65, CHR 0x72, CHR 0x61, CHR 0x74, CHR 0x69, CHR 0x6F,
     CHR 0x6E, CHR 0x20, CHR 0xE5, CHR 0xB7, CHR 0xA5, CHR 0xE5, CHR 0x85, CHR 0xB7, CHR 0xE3,
     CHR 0x80, CHR 0x82, CHR 0xE5, CHR 0x8E, CHR 0x9F, CHR 0xE5, CHR 0xA7, CHR 0x8B, CHR 0xE9,
     CHR 0x94, CHR 0x99, CHR 0xE8, CHR 0xAF, CHR 0xAF, CHR 0xEF, CHR 0xBC, CHR 0x9A]"

definition responses_http_error :: "(str \<Rightarrow> str) \<Rightarrow> nat \<Rightarrow> str \<Rightarrow> bool \<Rightarrow> str \<Rightarrow> model_error" where
  "responses_http_error lower status body with_image model =
     (if \<not> with_image then HttpError status body
      else if status = 403 \<and> contains_str (lower body) ''codex official clients''
      then OtherError codex_only_text
      else if status = 400 \<and> starts_with (lower model) ''gpt-image-''
      then OtherError (image_model_head @ model @ image_model_tail @ body)
      else HttpError status body)"

section \<open>Remote compaction\<close>

definition message_text_part :: "json \<Rightarrow> str option" where
  "message_text_part part =
     (if Option.bind (json_get part ''type'') as_str \<in>
          {Some ''output_text'', Some ''input_text'', Some ''text''}
      then Option.bind (json_get part ''text'') as_str else None)"

definition extract_message_text :: "json list \<Rightarrow> str" where
  "extract_message_text parts = trim (join [nl] (List.map_filter message_text_part parts))"

definition compact_heading :: str where
  "compact_heading =
     [CHR 0x5B, CHR 0xE5, CHR 0x89, CHR 0x8D, CHR 0xE6, CHR 0x83, CHR 0x85, CHR 0xE6, CHR 0xA6,
     CHR 0x82, CHR 0xE8, CHR 0xA6, CHR 0x81, CHR 0x5D, CHR 0x0A]"

definition summary_reply :: str where
  "summary_reply =
     [CHR 0xE5, CHR 0xB7, CHR 0xB2, CHR 0xE6, CHR 0x94, CHR 0xB6, CHR 0xE5, CHR 0x88, CHR 0xB0,
     CHR 0xE5, CHR 0x89, CHR 0x8D, CHR 0xE6, CHR 0x83, CHR 0x85, CHR 0xE6, CHR 0xA6, CHR 0x82,
     CHR 0xE8, CHR 0xA6, CHR 0x81, CHR 0xEF, CHR 0xBC, CHR 0x8C, CHR 0xE5, CHR 0xB0, CHR 0x86,
     CHR 0xE5, CHR 0x9F, CHR 0xBA, CHR 0xE4, CHR 0xBA, CHR 0x8E, CHR 0xE6, CHR 0xAD, CHR 0xA4,
     CHR 0xE7, CHR 0xBB, CHR 0xA7, CHR 0xE7, CHR 0xBB, CHR 0xAD, CHR 0xE3, CHR 0x80, CHR 0x82]"

definition plain_user :: "str \<Rightarrow> transcript_entry" where
  "plain_user t = UserEntry \<lparr>ue_text = t, ue_attachments = []\<rparr>"

definition plain_assistant :: "str \<Rightarrow> transcript_entry" where
  "plain_assistant t =
     AssistantEntry \<lparr>ae_text = t, ae_reasoning = [], ae_reasoning_signature = [], ae_tool_calls = []\<rparr>"

definition compacted_text :: "json \<Rightarrow> str" where
  "compacted_text item =
     trim (case first_of (Option.bind (json_get item ''summary'') as_str)
             (first_of (Option.bind (json_get item ''text'') as_str)
                (Option.bind (json_get item ''encrypted_content'') as_str)) of
             Some s \<Rightarrow> s | None \<Rightarrow> [])"

definition compacted_message :: "json \<Rightarrow> transcript_entry list" where
  "compacted_message item =
     (let r = Option.bind (json_get item ''role'') as_str;
          t = (case Option.bind (json_get item ''content'') as_array of
                 Some parts \<Rightarrow> extract_message_text parts | None \<Rightarrow> [])
      in if t = [] then []
         else if r = Some ''user'' then [plain_user t]
         else if r = Some ''assistant'' then [plain_assistant t]
         else [])"

definition compacted_item :: "json \<Rightarrow> transcript_entry list" where
  "compacted_item item =
     (let kind = Option.bind (json_get item ''type'') as_str in
      if kind = Some ''message'' then compacted_message item
      else if kind = Some ''compaction''
      then (if compacted_text item = [] then []
            else [plain_user (compact_heading @ compacted_text item), plain_assistant summary_reply])
      else [])"

definition parse_remote_compacted_entries :: "json \<Rightarrow> transcript_entry list" where
  "parse_remote_compacted_entries v =
     (case Option.bind (json_get v ''output'') as_array of
        None \<Rightarrow> []
      | Some items \<Rightarrow> concat (map compacted_item items))"

text \<open>\<open>send\<close> posts the body and answers with the value of the reply.\<close>

definition compact_remote ::
    "(json \<Rightarrow> str) \<Rightarrow> (str \<Rightarrow> str) \<Rightarrow> bool \<Rightarrow> bool \<Rightarrow> (json \<Rightarrow> model_error + json) \<Rightarrow> call_request \<Rightarrow>
     model_error + transcript_entry list option" where
  "compact_remote js lower codex codex_mode send req =
     (if \<not> (codex \<or> codex_mode) then Inr None
      else case send (build_compact_responses_body (responses_body js lower req False codex)) of
             Inl e \<Rightarrow> Inl e
           | Inr v \<Rightarrow> Inr (Some (parse_remote_compacted_entries v)))"

end
