(* ===== verification/Agent_Frame.thy ===== *)
theory Agent_Frame
  imports Agent_Loop Context_Laws Dispatch_Laws Openai_Stream
begin

text \<open>
  The facts about single steps of the agent loop that its laws rest on: what each step leaves alone,
  how a transcript grows, and what is taken to hold of the answers of the world.
\<close>

section \<open>Transcripts that grow\<close>

text \<open>Every turn with calls is followed by the results of exactly these calls, in their order. Unlike
  \<open>paired\<close> this allows an entry without results behind a turn without calls, which the loop makes of an
  answer that ends for tool calls and has none.\<close>

fun well_paired :: "transcript_entry list \<Rightarrow> bool" where
  "well_paired [] \<longleftrightarrow> True"
| "well_paired (UserEntry u # es) \<longleftrightarrow> well_paired es"
| "well_paired (ToolResults rs # es) \<longleftrightarrow> False"
| "well_paired (AssistantEntry a # ToolResults rs # es) \<longleftrightarrow> answers (ae_tool_calls a) rs \<and> well_paired es"
| "well_paired (AssistantEntry a # es) \<longleftrightarrow> ae_tool_calls a = [] \<and> well_paired es"

lemma entries_induct [case_names none user results answered at_end before_user before_turn]:
  assumes "P []" and "\<And>u es. P es \<Longrightarrow> P (UserEntry u # es)" and "\<And>rs es. P (ToolResults rs # es)"
    and "\<And>a rs es. P es \<Longrightarrow> P (AssistantEntry a # ToolResults rs # es)" and "\<And>a. P [AssistantEntry a]"
    and "\<And>a u es. P (UserEntry u # es) \<Longrightarrow> P (AssistantEntry a # UserEntry u # es)"
    and "\<And>a b es. P (AssistantEntry b # es) \<Longrightarrow> P (AssistantEntry a # AssistantEntry b # es)"
  shows "P es"
  by (rule well_paired.induct) (simp_all add: assms)

lemma well_paired_of_paired: "paired es \<Longrightarrow> well_paired es"
  by (induction es rule: entries_induct) (auto split: if_splits)

text \<open>Without such entries the two are the same.\<close>

lemma paired_of_well_paired: "well_paired es \<Longrightarrow> ToolResults [] \<notin> set es \<Longrightarrow> paired es"
  by (induction es rule: entries_induct) (auto simp: answers_def)

lemma well_paired_append [simp, intro]: "well_paired xs \<Longrightarrow> well_paired ys \<Longrightarrow> well_paired (xs @ ys)"
proof (induction xs rule: entries_induct)
  case (at_end a)
  then show ?case by (cases ys rule: well_paired.cases) auto
qed auto

lemma well_paired_user_turn [simp]: "well_paired (user_turn s atts # es) = well_paired es"
  by (simp add: user_turn_def)

lemma well_paired_plain_turn [simp]: "well_paired es \<Longrightarrow> well_paired (assistant_turn s r [] # es)"
  using well_paired_append [of "[assistant_turn s r []]" es] by (simp add: assistant_turn_def)

lemma well_paired_calls_turn [simp]:
  "answers calls rs \<Longrightarrow> well_paired (assistant_turn s r calls # ToolResults rs # es) = well_paired es"
  by (simp add: assistant_turn_def)

lemma well_paired_user_turns [simp]: "well_paired (map (\<lambda>(s, atts). user_turn s atts) xs)"
  by (induction xs) auto

lemma well_paired_butlast_user: "well_paired (es @ [UserEntry u]) \<Longrightarrow> well_paired es"
  by (induction es rule: entries_induct) auto

lemma well_paired_compaction_entries: "well_paired es \<Longrightarrow> well_paired (compaction_entries es p)"
proof (cases es rule: rev_cases)
  case (snoc xs e)
  assume es: "well_paired es"
  show ?thesis
  proof (cases e)
    case (UserEntry u)
    then have "well_paired xs" using es snoc well_paired_butlast_user by blast
    then have "well_paired (xs @ [UserEntry v])" for v by (intro well_paired_append) simp_all
    then show ?thesis using snoc UserEntry by (cases xs) (auto simp: compaction_entries_def)
  qed (use es snoc well_paired_append [OF es] in \<open>cases xs; auto simp: compaction_entries_def\<close>)+
qed (simp add: compaction_entries_def user_turn_def)

lemma well_paired_shape: "list_all2 same_shape es fs \<Longrightarrow> well_paired es \<Longrightarrow> well_paired fs"
proof (induction es arbitrary: fs rule: entries_induct)
  case (answered a rs es)
  then obtain rs' gs where fs: "fs = AssistantEntry a # ToolResults rs' # gs" "list_all2 same_shape es gs"
      "map result_key rs' = map result_key rs"
    by (auto simp: list_all2_Cons1)
  then show ?case using answered answers_keys [OF fs(3)] by simp
next
  case (before_user a u es)
  then obtain gs where "fs = AssistantEntry a # UserEntry u # gs" "list_all2 same_shape es gs"
    by (auto simp: list_all2_Cons1)
  then show ?case using before_user(1) [of "UserEntry u # gs"] before_user(3) by simp
next
  case (before_turn a b es)
  then obtain gs where "fs = AssistantEntry a # AssistantEntry b # gs" "list_all2 same_shape es gs"
    by (auto simp: list_all2_Cons1)
  then show ?case using before_turn(1) [of "AssistantEntry b # gs"] before_turn(3) by simp
qed (auto simp: list_all2_Cons1)

lemma well_paired_microcompact: "well_paired es \<Longrightarrow> well_paired (fst (microcompact_with_pressure rx js sys es cp a b mp))"
  using well_paired_shape [OF shadow_entries_shape [of es]]
  by (simp add: microcompact_with_pressure_def microcompact_entries_def Let_def split_beta)

lemma well_paired_drop: "well_paired es \<Longrightarrow> i < length es \<Longrightarrow> is_user (es ! i) \<Longrightarrow> well_paired (drop i es)"
proof (induction es arbitrary: i rule: entries_induct)
  case (answered a rs es)
  then obtain j where "i = Suc (Suc j)"
    by (cases i; cases "i - 1") (auto simp: is_user_def)
  with answered show ?case by simp
next
  case (before_user a u es)
  then obtain j where "i = Suc j" by (cases i) (auto simp: is_user_def)
  with before_user show ?case by simp
next
  case (before_turn a b es)
  then obtain j where "i = Suc j" by (cases i) (auto simp: is_user_def)
  with before_turn show ?case by simp
next
  case (user u es)
  then show ?case by (cases i) simp_all
qed (simp_all add: is_user_def)

lemma well_paired_reset: "well_paired es \<Longrightarrow> well_paired (cr_entries (build_emergency_reset js sys es cp reason))"
proof -
  assume es: "well_paired es"
  let ?i = "recent_turn_start es (max (cp_keep_recent_turns cp) 3)"
  have "?i = 0 \<or> ?i < length es \<and> is_user (es ! ?i)" by (rule recent_turn_start_user) simp
  then have "well_paired (drop ?i es)" using es well_paired_drop [of es ?i] by auto
  then show ?thesis by (simp add: build_emergency_reset_def Let_def)
qed

text \<open>What the remote compaction of the gateway makes of a reply has no calls.\<close>

lemma well_paired_remote: "well_paired (parse_remote_compacted_entries v)"
proof -
  have item: "well_paired (compacted_item x)" for x
    by (auto simp: compacted_item_def compacted_message_def plain_user_def plain_assistant_def Let_def)
  have "well_paired (concat (map compacted_item items))" for items
    by (induction items) (simp_all add: item)
  then show ?thesis by (simp add: parse_remote_compacted_entries_def split: option.split)
qed

lemma well_paired_compacted:
  assumes "compact_request_with_llm_progress js req before remote ans = Inr res"
    and "\<And>es. remote = Inr (Some es) \<Longrightarrow> well_paired es"
  shows "well_paired (cr_entries res)"
  using assms
  by (auto simp: compact_request_with_llm_progress_def Let_def split: sum.splits option.splits if_splits)

section \<open>What the steps leave alone\<close>

named_theorems run_frame \<open>fields a step of a run leaves alone\<close>

lemma emit_frame [simp, run_frame]:
  "rn_entries (emit e r) = rn_entries r" "rn_requests (emit e r) = rn_requests r"
  "rn_events (emit e r) = rn_events r @ [e]" "rn_iteration (emit e r) = rn_iteration r"
  "rn_stop_injections (emit e r) = rn_stop_injections r" "rn_leak_recoveries (emit e r) = rn_leak_recoveries r"
  "rn_emergency (emit e r) = rn_emergency r" "rn_totals (emit e r) = rn_totals r"
  "rn_saved (emit e r) = rn_saved r" "rn_last_finish (emit e r) = rn_last_finish r"
  by (simp_all add: emit_def)

lemma save_frame [simp, run_frame]:
  "rn_entries (save s r) = rn_entries r" "rn_requests (save s r) = rn_requests r"
  "rn_events (save s r) = rn_events r" "rn_iteration (save s r) = rn_iteration r"
  "rn_stop_injections (save s r) = rn_stop_injections r" "rn_leak_recoveries (save s r) = rn_leak_recoveries r"
  "rn_emergency (save s r) = rn_emergency r" "rn_totals (save s r) = rn_totals r"
  "rn_saved (save s r) = rn_saved r @ [s]" "rn_last_finish (save s r) = rn_last_finish r"
  by (simp_all add: save_def)

lemma saved_frame [simp, run_frame]:
  "rn_entries (persist c s r) = rn_entries r" "rn_requests (persist c s r) = rn_requests r"
  "rn_events (persist c s r) = rn_events r" "rn_iteration (persist c s r) = rn_iteration r"
  "rn_stop_injections (persist c s r) = rn_stop_injections r"
  "rn_leak_recoveries (persist c s r) = rn_leak_recoveries r"
  "rn_emergency (persist c s r) = rn_emergency r" "rn_totals (persist c s r) = rn_totals r"
  "rn_last_finish (persist c s r) = rn_last_finish r"
  by (simp_all add: persist_def)

lemma on_disk_frame [simp, run_frame]:
  "rn_entries (on_disk c s r) = rn_entries r" "rn_requests (on_disk c s r) = rn_requests r"
  "rn_events (on_disk c s r) = rn_events r" "rn_iteration (on_disk c s r) = rn_iteration r"
  "rn_stop_injections (on_disk c s r) = rn_stop_injections r"
  "rn_leak_recoveries (on_disk c s r) = rn_leak_recoveries r"
  "rn_emergency (on_disk c s r) = rn_emergency r" "rn_totals (on_disk c s r) = rn_totals r"
  "rn_last_finish (on_disk c s r) = rn_last_finish r"
  by (simp_all add: on_disk_def)

lemma send_frame [simp, run_frame]:
  "rn_entries (send_request q r) = rn_entries r" "rn_requests (send_request q r) = rn_requests r @ [q]"
  "rn_events (send_request q r) = rn_events r" "rn_iteration (send_request q r) = rn_iteration r"
  "rn_stop_injections (send_request q r) = rn_stop_injections r"
  "rn_leak_recoveries (send_request q r) = rn_leak_recoveries r"
  "rn_emergency (send_request q r) = rn_emergency r"
  by (simp_all add: send_request_def)

lemma push_frame [simp, run_frame]:
  "rn_entries (push_user s atts r) = rn_entries r @ [user_turn s atts]"
  "rn_requests (push_user s atts r) = rn_requests r" "rn_events (push_user s atts r) = rn_events r"
  "rn_iteration (push_user s atts r) = rn_iteration r"
  "rn_stop_injections (push_user s atts r) = rn_stop_injections r"
  "rn_leak_recoveries (push_user s atts r) = rn_leak_recoveries r"
  "rn_emergency (push_user s atts r) = rn_emergency r" "rn_totals (push_user s atts r) = rn_totals r"
  "rn_entries (push_assistant s t cs r) = rn_entries r @ [assistant_turn s t cs]"
  "rn_requests (push_assistant s t cs r) = rn_requests r" "rn_events (push_assistant s t cs r) = rn_events r"
  "rn_iteration (push_assistant s t cs r) = rn_iteration r"
  "rn_stop_injections (push_assistant s t cs r) = rn_stop_injections r"
  "rn_leak_recoveries (push_assistant s t cs r) = rn_leak_recoveries r"
  "rn_emergency (push_assistant s t cs r) = rn_emergency r" "rn_totals (push_assistant s t cs r) = rn_totals r"
  "rn_entries (push_tool_results rs r) = rn_entries r @ [ToolResults rs]"
  "rn_requests (push_tool_results rs r) = rn_requests r" "rn_events (push_tool_results rs r) = rn_events r"
  "rn_iteration (push_tool_results rs r) = rn_iteration r"
  "rn_stop_injections (push_tool_results rs r) = rn_stop_injections r"
  "rn_leak_recoveries (push_tool_results rs r) = rn_leak_recoveries r"
  "rn_emergency (push_tool_results rs r) = rn_emergency r" "rn_totals (push_tool_results rs r) = rn_totals r"
  by (simp_all add: push_user_def push_assistant_def push_tool_results_def)

lemma usage_frame [simp, run_frame]:
  "rn_entries (record_request_usage u n r) = rn_entries r"
  "rn_requests (record_request_usage u n r) = rn_requests r"
  "rn_events (record_request_usage u n r) = rn_events r @ [UsageEvent u]"
  "rn_iteration (record_request_usage u n r) = rn_iteration r"
  "rn_stop_injections (record_request_usage u n r) = rn_stop_injections r"
  "rn_leak_recoveries (record_request_usage u n r) = rn_leak_recoveries r"
  "rn_emergency (record_request_usage u n r) = rn_emergency r"
  by (simp_all add: record_request_usage_def)

lemma feedback_frame [simp, run_frame]:
  "rn_entries (push_system_feedback c k s r) = rn_entries r @ [user_turn s []]"
  "rn_requests (push_system_feedback c k s r) = rn_requests r"
  "rn_events (push_system_feedback c k s r) = rn_events r"
  "rn_iteration (push_system_feedback c k s r) = rn_iteration r"
  "rn_stop_injections (push_system_feedback c k s r) = rn_stop_injections r"
  "rn_leak_recoveries (push_system_feedback c k s r) = rn_leak_recoveries r"
  "rn_emergency (push_system_feedback c k s r) = rn_emergency r"
  by (simp_all add: push_system_feedback_def)

lemma boundary_frame [simp, run_frame]:
  "rn_entries (append_compact_boundary c s a b r) = rn_entries r"
  "rn_requests (append_compact_boundary c s a b r) = rn_requests r"
  "rn_events (append_compact_boundary c s a b r) = rn_events r"
  "rn_iteration (append_compact_boundary c s a b r) = rn_iteration r"
  "rn_stop_injections (append_compact_boundary c s a b r) = rn_stop_injections r"
  "rn_leak_recoveries (append_compact_boundary c s a b r) = rn_leak_recoveries r"
  "rn_emergency (append_compact_boundary c s a b r) = rn_emergency r"
  by (simp_all add: append_compact_boundary_def)

lemma drain_frame [simp, run_frame]:
  "rn_requests (drain_pending_inputs c xs r) = rn_requests r"
  "rn_events (drain_pending_inputs c xs r) = rn_events r"
  "rn_iteration (drain_pending_inputs c xs r) = rn_iteration r"
  "rn_stop_injections (drain_pending_inputs c xs r) = rn_stop_injections r"
  "rn_leak_recoveries (drain_pending_inputs c xs r) = rn_leak_recoveries r"
  "rn_emergency (drain_pending_inputs c xs r) = rn_emergency r"
  "rn_entries (drain_pending_inputs c xs r) = rn_entries r @ map (\<lambda>(s, atts). user_turn s atts) xs"
  by (induction xs arbitrary: r) (auto simp: drain_pending_inputs_def)

lemma drain_saved:
  "rn_saved (drain_pending_inputs c xs r) =
    rn_saved r @ (if rc_persist c then map (\<lambda>(s, atts). SavedUser s atts None) xs else [])"
proof (induction xs arbitrary: r)
  case (Cons x xs)
  then show ?case
    by (cases x) (simp add: drain_pending_inputs_def persist_def push_user_def save_def)
qed (simp add: drain_pending_inputs_def)

lemma drain_Nil [simp]: "drain_pending_inputs c [] r = r"
  by (simp add: drain_pending_inputs_def)

lemma fold_emit_frame [simp, run_frame]:
  "rn_entries (fold emit es r) = rn_entries r" "rn_requests (fold emit es r) = rn_requests r"
  "rn_events (fold emit es r) = rn_events r @ es" "rn_iteration (fold emit es r) = rn_iteration r"
  "rn_stop_injections (fold emit es r) = rn_stop_injections r"
  "rn_leak_recoveries (fold emit es r) = rn_leak_recoveries r"
  "rn_emergency (fold emit es r) = rn_emergency r"
  by (induction es arbitrary: r) simp_all

lemma call_frame [simp, run_frame]:
  "rn_entries (begin_call c env r) = rn_entries r"
  "rn_requests (begin_call c env r) = rn_requests r @ [main_request c env r]"
  "rn_events (begin_call c env r) = rn_events r @ [TurnStarted (rn_turn r), StepStarted ModelStep (rn_model_steps r + 1)]"
  "rn_iteration (begin_call c env r) = rn_iteration r"
  "rn_stop_injections (begin_call c env r) = rn_stop_injections r"
  "rn_leak_recoveries (begin_call c env r) = rn_leak_recoveries r"
  "rn_emergency (begin_call c env r) = rn_emergency r"
  "rn_entries (end_call evs r) = rn_entries r" "rn_requests (end_call evs r) = rn_requests r"
  "rn_events (end_call evs r) = rn_events r @ evs @ [StepFinished ModelStep (rn_model_steps r)]"
  "rn_iteration (end_call evs r) = rn_iteration r"
  "rn_stop_injections (end_call evs r) = rn_stop_injections r"
  "rn_leak_recoveries (end_call evs r) = rn_leak_recoveries r"
  "rn_emergency (end_call evs r) = rn_emergency r"
  by (simp_all add: begin_call_def end_call_def Let_def main_request_def emit_def send_request_def)

lemma microcompact_step_frame [simp, run_frame]:
  "rn_requests (microcompact_step c r) = rn_requests r" "rn_events (microcompact_step c r) = rn_events r"
  "rn_iteration (microcompact_step c r) = rn_iteration r"
  "rn_stop_injections (microcompact_step c r) = rn_stop_injections r"
  "rn_leak_recoveries (microcompact_step c r) = rn_leak_recoveries r"
  "rn_emergency (microcompact_step c r) = rn_emergency r"
  by (simp_all add: microcompact_step_def split: prod.split)

lemma microcompact_step_well_paired: "well_paired (rn_entries r) \<Longrightarrow> well_paired (rn_entries (microcompact_step c r))"
  using well_paired_microcompact by (auto simp: microcompact_step_def split: prod.split) (metis fst_conv)

text \<open>A turn with calls, up to the batch.\<close>

lemma tools_step_shape:
  obtains r' evs where
    "tools_step cfg env t est s reasoning calls atts u r =
      (if \<exists>n. rc_max_iterations cfg = Some n \<and> n \<le> rn_iteration r
       then Break (emit (TurnFinished t MaxIterations) r')
              (Inl (OtherError (max_iterations_text @ dec (the (rc_max_iterations cfg)))))
       else run_tools cfg env t calls r')"
    "rn_entries r' = rn_entries r @ [assistant_turn s reasoning calls]" "rn_requests r' = rn_requests r"
    "rn_events r' = rn_events r @ evs" "set evs \<subseteq> {UsageEvent u, ReasoningText reasoning, DeltaText s}"
    "rn_iteration r' = rn_iteration r" "rn_stop_injections r' = rn_stop_injections r"
    "rn_leak_recoveries r' = rn_leak_recoveries r" "rn_emergency r' = rn_emergency r"
proof -
  let ?st = "used_stream_path cfg env"
  let ?a = "record_request_usage u est r"
  let ?b = "if \<not> ?st \<and> reasoning \<noteq> [] then emit (ReasoningText reasoning) ?a else ?a"
  let ?c = "if \<not> ?st \<and> s \<noteq> [] then emit (DeltaText s) ?b else ?b"
  let ?r = "push_assistant s reasoning calls (?c\<lparr>rn_attachments := rn_attachments ?c @ atts\<rparr>)"
  let ?evs = "[UsageEvent u] @ (if \<not> ?st \<and> reasoning \<noteq> [] then [ReasoningText reasoning] else []) @
      (if \<not> ?st \<and> s \<noteq> [] then [DeltaText s] else [])"
  show ?thesis
    by (rule that [of ?r ?evs]) (auto simp: tools_step_def Let_def split: option.split)
qed

section \<open>The answers of the world\<close>

text \<open>What the loop relies on: \<open>buffer_unordered\<close> polls every task it was given until it ends, so each call
  that was started is done once; the cancel flag is never taken back during a run, so a batch that was
  not started as a whole is followed by a turn that sees the flag; and what a remote compaction
  answers was read by the parser of the gateway.\<close>

definition all_tasks_end :: "nat \<Rightarrow> (nat \<times> (model_error + tool_output)) list \<Rightarrow> bool" where
  "all_tasks_end n done_calls \<longleftrightarrow> distinct (map fst done_calls) \<and> set (map fst done_calls) = {..<n}"

definition answers_ok :: "turn_env \<Rightarrow> bool \<Rightarrow> bool" where
  "answers_ok env cancelled_next \<longleftrightarrow>
     (\<forall>es. te_remote_compact env = Inr (Some es) \<longrightarrow> (\<exists>v. es = parse_remote_compacted_entries v)) \<and>
     (\<forall>k s t calls atts u. te_answers env k = Inr (ModelToolCalls s t calls atts u) \<longrightarrow>
       all_tasks_end (started_calls (te_calls_cancelled env) 0 calls) (te_calls_done env) \<and>
       (started_calls (te_calls_cancelled env) 0 calls = length calls \<or> cancelled_next))"

fun envs_ok :: "turn_env list \<Rightarrow> bool" where
  "envs_ok [] \<longleftrightarrow> True"
| "envs_ok (env # envs) \<longleftrightarrow> answers_ok env (envs = [] \<or> te_cancelled (hd envs)) \<and> envs_ok envs"

lemma sort_key_range:
  assumes "distinct (map fst xs)" "fst ` set xs = {..<n}"
  shows "map fst (sort_key fst xs) = [0..<n]"
proof (rule sorted_distinct_set_unique)
  show "sorted (map fst (sort_key fst xs))" by simp
  show "distinct (map fst (sort_key fst xs))"
    using assms(1) by (simp add: distinct_map)
  show "sorted [0..<n]" "distinct [0..<n]" by simp_all
  show "set (map fst (sort_key fst xs)) = set [0..<n]"
    using assms(2) by (simp add: atLeast0LessThan)
qed

lemma results_of_tasks:
  assumes "first_error (map (call_task calls) ds) = None"
  shows "map fst (results (map (call_task calls) ds)) = map fst ds \<and>
    (\<forall>(i, r) \<in> set (results (map (call_task calls) ds)). result_key r = (ce_id (calls ! i), ce_name (calls ! i)))"
  using assms by (induction ds) (auto simp: call_task_def split: sum.splits)

lemma run_calls_answers:
  assumes "all_tasks_end (length calls) ds" "run_calls calls ds = Inr rs"
  shows "answers calls rs"
proof -
  let ?os = "map (call_task calls) ds" let ?xs = "sort_key fst (results ?os)"
  have rs: "rs = map snd ?xs" and ok: "first_error ?os = None"
    using assms(2) by (auto simp: run_calls_def collect_outcomes_def split: option.splits)
  note r = results_of_tasks [OF ok]
  have "fst ` set (results ?os) = {..<length calls}"
    using r assms(1) by (metis all_tasks_end_def set_map)
  then have idx: "map fst ?xs = [0..<length calls]"
    using sort_key_range [of "results ?os"] r assms(1) by (simp add: all_tasks_end_def)
  have "map result_key rs = map (\<lambda>(i, r). (ce_id (calls ! i), ce_name (calls ! i))) ?xs"
    using r by (auto simp: rs)
  also have "\<dots> = map (\<lambda>i. (ce_id (calls ! i), ce_name (calls ! i))) (map fst ?xs)"
    by (simp add: split_beta)
  also have "\<dots> = map (\<lambda>c. (ce_id c, ce_name c)) calls"
    unfolding idx by (rule nth_equalityI) simp_all
  finally show ?thesis by (simp add: answers_def)
qed

lemma call_model_answer: "fst (call_model ans polls k) = Inr resp \<Longrightarrow> \<exists>j. ans j = Inr resp"
proof (induction ans polls k rule: call_model.induct)
  case (1 ans polls k)
  then show ?case
    by (subst (asm) (2) call_model.simps) (auto simp: Let_def split: sum.splits if_splits prod.splits)
qed

end
