(* ===== verification/Agent_Laws.thy ===== *)
theory Agent_Laws
  imports Agent_Frame
begin

text \<open>
  What holds over whole runs: every request obeys the protocol of the model interfaces, the surface
  learns the outcome, and a run with a limit ends.
\<close>

section \<open>Every request obeys the protocol\<close>

definition asked :: "run \<Rightarrow> bool" where
  "asked r \<longleftrightarrow> (\<forall>q \<in> set (rn_requests r). well_paired (rq_entries q))"

fun result_run :: "turn_result \<Rightarrow> run" where
  "result_run (Continue r) = r"
| "result_run (Break r res) = r"
| "result_run (Return r e) = r"

definition keeps_well_paired :: "turn_result \<Rightarrow> bool" where
  "keeps_well_paired res \<longleftrightarrow> asked (result_run res) \<and> (case res of Continue r \<Rightarrow> well_paired (rn_entries r) | _ \<Rightarrow> True)"

lemma asked_cong: "rn_requests r' = rn_requests r \<Longrightarrow> asked r' = asked r"
  by (simp add: asked_def)

lemma compaction_step_well_paired:
  assumes "well_paired (rn_entries r)" "asked r" "\<forall>es. te_remote_compact env = Inr (Some es) \<longrightarrow> well_paired es"
  shows "case compaction_step cfg env r of Inl r' \<Rightarrow> asked r' | Inr r' \<Rightarrow> asked r' \<and> well_paired (rn_entries r')"
  using assms well_paired_compaction_entries [OF assms(1)]
  by (auto simp: compaction_step_def build_compaction_request_def Let_def asked_def
      dest!: well_paired_compacted split: sum.split)

lemma emergency_step_well_paired:
  "well_paired (rn_entries r) \<Longrightarrow> asked r \<Longrightarrow> keeps_well_paired (emergency_step cfg t r)"
  by (simp add: emergency_step_def Let_def keeps_well_paired_def asked_def well_paired_reset)

lemma judge_step_well_paired:
  "well_paired (rn_entries r) \<Longrightarrow> asked r \<Longrightarrow> keeps_well_paired (judge_step cfg env atts out r)"
  by (auto simp: judge_step_def Let_def keeps_well_paired_def asked_def split: option.split goal_verdict.split)

lemma stop_hook_step_well_paired:
  "well_paired (rn_entries r) \<Longrightarrow> asked r \<Longrightarrow> keeps_well_paired (stop_hook_step cfg env atts out r)"
  unfolding stop_hook_step_def Let_def
  by (auto simp: keeps_well_paired_def [of "Continue _"] asked_def split: stop_outcome.split prod.split
      intro!: judge_step_well_paired)

lemma done_step_well_paired:
  assumes "well_paired (rn_entries r)" "asked r"
  shows "keeps_well_paired (done_step cfg env t est fin s reasoning atts u r)"
  using assms unfolding done_step_def Let_def
  by (auto simp: keeps_well_paired_def [of "Continue _"] asked_def
      intro!: stop_hook_step_well_paired)

lemma run_tools_well_paired:
  assumes "well_paired es" "rn_entries r = es @ [assistant_turn s t calls]" "asked r"
    and "started_calls (te_calls_cancelled env) 0 calls = length calls \<Longrightarrow>
      all_tasks_end (length calls) (te_calls_done env)"
  shows "asked (result_run (run_tools cfg env turn calls r)) \<and>
    (started_calls (te_calls_cancelled env) 0 calls = length calls \<longrightarrow>
      keeps_well_paired (run_tools cfg env turn calls r))"
proof (cases "run_calls calls (te_calls_done env)")
  case (Inl e)
  then show ?thesis using assms(3) by (simp add: run_tools_def Let_def keeps_well_paired_def asked_def)
next
  case (Inr rs)
  have answered: "well_paired (es @ assistant_turn s t calls # ToolResults rs # map (\<lambda>(x, atts). user_turn x atts) xs)"
    if "started_calls (te_calls_cancelled env) 0 calls = length calls" for xs
    using run_calls_answers [OF assms(4) [OF that] Inr] assms(1) by simp
  then have "well_paired (es @ [assistant_turn s t calls, ToolResults rs])"
    if "started_calls (te_calls_cancelled env) 0 calls = length calls"
    using that by (metis list.map(1))
  with answered show ?thesis
    using assms(2,3) Inr
    by (auto simp: run_tools_def Let_def keeps_well_paired_def asked_def split: option.split)
qed

lemma tools_step_well_paired:
  assumes "well_paired (rn_entries r)" "asked r"
    and "started_calls (te_calls_cancelled env) 0 calls = length calls \<Longrightarrow>
      all_tasks_end (length calls) (te_calls_done env)"
  shows "asked (result_run (tools_step cfg env t est s reasoning calls atts u r)) \<and>
    (started_calls (te_calls_cancelled env) 0 calls = length calls \<longrightarrow>
      keeps_well_paired (tools_step cfg env t est s reasoning calls atts u r))"
proof (rule tools_step_shape [of cfg env t est s reasoning calls atts u r])
  fix r' evs
  assume r': "tools_step cfg env t est s reasoning calls atts u r =
      (if \<exists>n. rc_max_iterations cfg = Some n \<and> n \<le> rn_iteration r
       then Break (emit (TurnFinished t MaxIterations) r')
              (Inl (OtherError (max_iterations_text @ dec (the (rc_max_iterations cfg)))))
       else run_tools cfg env t calls r')"
    "rn_entries r' = rn_entries r @ [assistant_turn s reasoning calls]" "rn_requests r' = rn_requests r"
  have "asked r'" using assms(2) asked_cong [OF r'(3)] by simp
  then show ?thesis
    using run_tools_well_paired [OF assms(1) r'(2) _ assms(3), of cfg t] unfolding r'(1)
    by (simp add: keeps_well_paired_def asked_def)
qed

lemma answer_step_well_paired:
  assumes "well_paired (rn_entries r)" "asked r" "answers_ok env nx" "\<And>resp. res = Inr resp \<Longrightarrow> \<exists>k. te_answers env k = Inr resp"
  shows "asked (result_run (answer_step cfg env t est res r)) \<and>
    (case answer_step cfg env t est res r of Continue r' \<Rightarrow> nx \<or> well_paired (rn_entries r') | _ \<Rightarrow> True)"
proof (cases res)
  case (Inl e)
  then show ?thesis
    using emergency_step_well_paired [OF assms(1,2), of cfg t] assms(2)
    by (auto simp: answer_step_def keeps_well_paired_def asked_def split: turn_result.split)
next
  case (Inr resp)
  show ?thesis
  proof (cases resp)
    case (ModelDone fin s reasoning atts u)
    then show ?thesis
      using done_step_well_paired [OF assms(1,2), of cfg env t est fin s reasoning atts u] Inr
      by (auto simp: answer_step_def keeps_well_paired_def split: turn_result.split)
  next
    case (ModelToolCalls s reasoning calls atts u)
    then obtain k where "te_answers env k = Inr (ModelToolCalls s reasoning calls atts u)"
      using assms(4) Inr by blast
    then have n: "all_tasks_end (started_calls (te_calls_cancelled env) 0 calls) (te_calls_done env)"
      "started_calls (te_calls_cancelled env) 0 calls = length calls \<or> nx"
      using assms(3) unfolding answers_ok_def by blast+
    have "all_tasks_end (length calls) (te_calls_done env)"
      if "started_calls (te_calls_cancelled env) 0 calls = length calls"
      using n(1) that by simp
    from tools_step_well_paired [OF assms(1,2) this, of cfg t est s reasoning atts u] n(2) show ?thesis
      using Inr ModelToolCalls by (auto simp: answer_step_def keeps_well_paired_def split: turn_result.split)
  qed
qed

lemma run_turn_well_paired:
  assumes "well_paired (rn_entries r)" "asked r" "answers_ok env nx"
  shows "asked (result_run (run_turn cfg env r)) \<and>
    (case run_turn cfg env r of Continue r' \<Rightarrow> nx \<or> well_paired (rn_entries r') | _ \<Rightarrow> True)"
proof (cases "te_cancelled env")
  case True
  then show ?thesis using assms(2) by (simp add: run_turn_def asked_def)
next
  case False
  define r1 where "r1 = microcompact_step cfg (drain_pending_inputs cfg (te_pending env) r)"
  have r1: "well_paired (rn_entries r1)" "asked r1"
    using assms(1,2) by (auto simp: r1_def asked_def intro!: microcompact_step_well_paired)
  have remote: "\<forall>es. te_remote_compact env = Inr (Some es) \<longrightarrow> well_paired es"
    using assms(3) well_paired_remote by (auto simp: answers_ok_def)
  show ?thesis
  proof (cases "compaction_step cfg env r1")
    case (Inl r2)
    then show ?thesis
      using compaction_step_well_paired [OF r1 remote, of cfg] False
      by (simp add: run_turn_def r1_def [symmetric])
  next
    case (Inr r2)
    then have r2: "well_paired (rn_entries r2)" "asked r2"
      using compaction_step_well_paired [OF r1 remote, of cfg] by simp_all
    obtain res retries where m: "call_model (te_answers env) (te_polls env) 0 = (res, retries)" by fastforce
    have "\<exists>k. te_answers env k = Inr resp" if "res = Inr resp" for resp
      using call_model_answer [of "te_answers env" "te_polls env" 0 resp] m that by simp
    moreover have "well_paired (rn_entries (end_call retries (begin_call cfg env r2)))"
      "asked (end_call retries (begin_call cfg env r2))"
      using r2 by (simp_all add: asked_def main_request_def)
    ultimately show ?thesis
      using answer_step_well_paired assms(3) False by (simp add: run_turn_def r1_def [symmetric] Inr m)
  qed
qed

fun final_run :: "run_result \<Rightarrow> run" where
  "final_run (Running r) = r"
| "final_run (Ended r res) = r"

lemma finish_run_requests [simp]: "rn_requests (finish_run cfg edits res r) = rn_requests r"
  by (auto simp: finish_run_def commit_run_edits_def report_outcome_def Let_def
      split: edits_outcome.split sum.split model_error.split option.split)

lemma run_turn_cancelled:
  "te_cancelled env \<Longrightarrow> run_turn cfg env r = Break (drain_pending_inputs cfg (te_pending env) r) (Inl CancelledError)"
  by (simp add: run_turn_def)

lemma run_loop_asked:
  "envs_ok envs \<Longrightarrow> asked r \<Longrightarrow> envs = [] \<or> te_cancelled (hd envs) \<or> well_paired (rn_entries r) \<Longrightarrow>
    asked (final_run (run_loop cfg edits envs r))"
proof (induction envs arbitrary: r)
  case (Cons env envs)
  show ?case
  proof (cases "te_cancelled env")
    case True
    then show ?thesis using Cons.prems(2) by (simp add: run_turn_cancelled asked_def)
  next
    case False
    then have "well_paired (rn_entries r)" using Cons.prems(3) by simp
    then have "asked (result_run (run_turn cfg env r)) \<and> (case run_turn cfg env r of
        Continue r' \<Rightarrow> (envs = [] \<or> te_cancelled (hd envs)) \<or> well_paired (rn_entries r') | _ \<Rightarrow> True)"
      using run_turn_well_paired [of r env "envs = [] \<or> te_cancelled (hd envs)" cfg] Cons.prems(1,2) by simp
    then show ?thesis
      using Cons.IH Cons.prems(1) by (cases "run_turn cfg env r") (auto simp: asked_def)
  qed
qed simp

text \<open>C3. Every request of a run obeys the protocol of the model interfaces: from the stored messages of the
  session on, through injected inputs, shadowed results, compaction, the emergency reset, feedback
  of hooks and judges and batches of tool calls that end in any order, each turn with calls is
  followed at once by the results of exactly these calls, in their order, and there are no other
  results, in every request that is sent, the ones for a summary included. What is relied on: every
  task that was started ends once, and a cancel flag that was seen stays set until the next turn.\<close>

theorem requests_keep_the_protocol:
  assumes "envs_ok envs"
    and "q \<in> set (rn_requests (final_run (run_agent cfg edits resume calib files (from_session cl history) envs)))"
  shows "well_paired (rq_entries q)"
proof -
  let ?r = "start_run resume calib files (from_session cl history)"
  have "asked ?r" by (simp add: asked_def start_run_def Let_def)
  moreover have "well_paired (rn_entries ?r)"
    using well_paired_of_paired from_session_well_formed [of cl history]
    by (simp add: start_run_def Let_def well_formed_def)
  ultimately have "asked (final_run (run_loop cfg edits envs ?r))" using run_loop_asked assms(1) by blast
  then show ?thesis using assms(2) by (simp add: asked_def run_agent_def)
qed

section \<open>A run with a limit ends\<close>

text \<open>What a run can still spend on further turns: rounds of tools, injections of the stop hook, recoveries
  from leaked tool calls, the emergency reset.\<close>

definition budget :: "nat \<Rightarrow> run \<Rightarrow> nat" where
  "budget n r =
     (n - rn_iteration r) + (MAX_STOP_INJECTIONS - rn_stop_injections r) +
     (MAX_TOOL_XML_LEAK_RECOVERIES - rn_leak_recoveries r) + (if rn_emergency r then 0 else 1)"

definition no_new_work :: "turn_env \<Rightarrow> bool" where
  "no_new_work env \<longleftrightarrow>
     te_pending_done env = [] \<and>
     (te_goal env = None \<or> (case te_verdict env of NotYet _ \<Rightarrow> False | _ \<Rightarrow> True))"

lemma compaction_step_frame:
  "compaction_step cfg env r = Inr r' \<Longrightarrow> budget n r' = budget n r \<and> rn_iteration r' = rn_iteration r"
  by (auto simp: compaction_step_def build_compaction_request_def Let_def budget_def
      split: if_splits sum.splits)

lemma judge_step_ends: "no_new_work env \<Longrightarrow> judge_step cfg env atts out r \<noteq> Continue r'"
  by (auto simp: judge_step_def no_new_work_def Let_def split: option.split goal_verdict.split)

lemma stop_hook_step_spends:
  "no_new_work env \<Longrightarrow> stop_hook_step cfg env atts out r = Continue r' \<Longrightarrow> budget n r' < budget n r"
  by (auto simp: stop_hook_step_def judge_step_ends Let_def budget_def split: if_splits stop_outcome.splits)

lemma done_step_spends:
  assumes "no_new_work env" "done_step cfg env t est fin s reasoning atts u r = Continue r'"
  shows "budget n r' < budget n r"
proof -
  have pend: "te_pending_done env = []" using assms(1) by (simp add: no_new_work_def)
  consider "r' = result_run (Continue r')" "cl_leak_start (rc_cleaning cfg) s \<noteq> None"
      "rn_leak_recoveries r < MAX_TOOL_XML_LEAK_RECOVERIES"
    | all q out where "stop_hook_step cfg env all out q = Continue r'" "budget n q = budget n r"
    using assms(2) pend unfolding done_step_def Let_def
    by (auto simp: budget_def split: if_splits)
  then show ?thesis
  proof cases
    case 1
    then have "budget n r' + 1 = budget n r"
      using assms(2) by (auto simp: done_step_def Let_def budget_def)
    then show ?thesis by simp
  next
    case 2
    then show ?thesis using stop_hook_step_spends [OF assms(1), of cfg all out q r' n] by simp
  qed
qed

lemma run_tools_spends:
  "run_tools cfg env t calls r = Continue r' \<Longrightarrow> rn_iteration r < n \<Longrightarrow> budget n r' < budget n r"
  by (auto simp: run_tools_def Let_def budget_def split: sum.splits option.splits)

lemma tools_step_spends:
  assumes "tools_step cfg env t est s reasoning calls atts u r = Continue r'" "rc_max_iterations cfg = Some n"
  shows "budget n r' < budget n r"
proof (rule tools_step_shape [of cfg env t est s reasoning calls atts u r])
  fix q evs
  assume q: "tools_step cfg env t est s reasoning calls atts u r =
      (if \<exists>n. rc_max_iterations cfg = Some n \<and> n \<le> rn_iteration r
       then Break (emit (TurnFinished t MaxIterations) q)
              (Inl (OtherError (max_iterations_text @ dec (the (rc_max_iterations cfg)))))
       else run_tools cfg env t calls q)"
    "rn_iteration q = rn_iteration r" "rn_stop_injections q = rn_stop_injections r"
    "rn_leak_recoveries q = rn_leak_recoveries r" "rn_emergency q = rn_emergency r"
  have "run_tools cfg env t calls q = Continue r'" "rn_iteration q < n"
    using assms unfolding q(1) by (auto simp: q(2) split: if_splits)
  then have "budget n r' < budget n q" by (rule run_tools_spends)
  then show ?thesis by (simp add: budget_def q)
qed

lemma emergency_step_spends:
  "emergency_step cfg t r = Continue r' \<Longrightarrow> \<not> rn_emergency r \<Longrightarrow> budget n r' < budget n r"
  by (auto simp: emergency_step_def Let_def budget_def)

lemma answer_step_spends:
  assumes "answer_step cfg env t est res r = Continue r'" "rc_max_iterations cfg = Some n" "no_new_work env"
  shows "budget n r' < budget n r"
  using assms done_step_spends [OF assms(3)] tools_step_spends emergency_step_spends
  unfolding answer_step_def by (auto split: sum.splits if_splits model_response.splits)

lemma run_turn_spends:
  assumes "run_turn cfg env r = Continue r'" "rc_max_iterations cfg = Some n" "no_new_work env"
  shows "budget n r' < budget n r"
proof -
  obtain q res retries where q: "compaction_step cfg env
        (microcompact_step cfg (drain_pending_inputs cfg (te_pending env) r)) = Inr q"
    "answer_step cfg env (rn_turn q) (estimate_transcript_tokens (rc_json cfg) (rc_system cfg) (rn_entries q)) res
       (end_call retries (begin_call cfg env q)) = Continue r'"
    using assms(1) by (auto simp: run_turn_def split: if_splits sum.splits prod.splits)
  let ?q = "end_call retries (begin_call cfg env q)"
  have "budget n ?q = budget n q" by (simp add: budget_def)
  moreover have "budget n (microcompact_step cfg (drain_pending_inputs cfg (te_pending env) r)) = budget n r"
    by (simp add: budget_def)
  moreover note compaction_step_frame [OF q(1), of n]
  moreover have "budget n r' < budget n ?q" using answer_step_spends [OF q(2) assms(2,3)] .
  ultimately show ?thesis by simp
qed

text \<open>C19. A run with a limit on its tool rounds ends: while no input is injected and no judge asks for more,
  whatever the model, the tools and the hooks answer, it is over after at most seven turns more
  than the limit. Each call of the model makes at most twenty retries.\<close>

theorem run_with_a_limit_ends:
  assumes "rc_max_iterations cfg = Some n" and "\<forall>env \<in> set envs. no_new_work env" and "n + 6 < length envs"
  shows "\<exists>r res. run_agent cfg edits resume calib files es envs = Ended r res"
proof -
  have "\<forall>env \<in> set envs. no_new_work env \<Longrightarrow> budget n r < length envs \<Longrightarrow>
      \<exists>r' res. run_loop cfg edits envs r = Ended r' res" for r
  proof (induction envs arbitrary: r)
    case (Cons env envs)
    show ?case
    proof (cases "run_turn cfg env r")
      case (Continue r')
      then have "budget n r' < budget n r" using run_turn_spends assms(1) Cons.prems(1) by simp
      then show ?thesis using Cons.IH [of r'] Cons.prems Continue by simp
    qed auto
  qed simp
  moreover have "budget n (start_run resume calib files es) \<le> n + 6"
    by (simp add: start_run_def budget_def Let_def)
  ultimately show ?thesis using assms(2,3) by (simp add: run_agent_def)
qed

section \<open>The surface learns the outcome\<close>

definition plain_event :: "run_event \<Rightarrow> bool" where
  "plain_event e \<longleftrightarrow>
     (case e of
        RunFinished _ \<Rightarrow> False | RunFailed _ \<Rightarrow> False | RunCancelled \<Rightarrow> False | RunSuspended \<Rightarrow> False
      | Notice (PendingContinue _ _) \<Rightarrow> False
      | _ \<Rightarrow> True)"

definition extends :: "run \<Rightarrow> run \<Rightarrow> bool" where
  "extends r r' \<longleftrightarrow> (\<exists>evs. rn_events r' = rn_events r @ evs \<and> list_all plain_event evs)"

lemma extendsI: "rn_events r' = rn_events r @ evs \<Longrightarrow> list_all plain_event evs \<Longrightarrow> extends r r'"
  by (auto simp: extends_def)

lemma extends_refl [simp]: "extends r r"
  by (rule extendsI [of _ _ "[]"]) simp_all

lemma extends_trans [trans]: "extends r r' \<Longrightarrow> extends r' r'' \<Longrightarrow> extends r r''"
  by (auto simp: extends_def)

lemma extends_same: "rn_events r' = rn_events r \<Longrightarrow> extends q r' = extends q r"
  by (simp add: extends_def)

lemma extends_emit: "plain_event e \<Longrightarrow> extends q r \<Longrightarrow> extends q (emit e r)"
  by (auto simp: extends_def)

text \<open>The model and the tools never answer that the run was suspended.\<close>

definition no_suspension :: "turn_env \<Rightarrow> bool" where
  "no_suspension env \<longleftrightarrow>
     (\<forall>k. te_answers env k \<noteq> Inl SuspendedError) \<and> Inl SuspendedError \<notin> snd ` set (te_calls_done env)"

text \<open>The user stops the run while it writes a summary.\<close>

definition stops_compaction :: "turn_env \<Rightarrow> bool" where
  "stops_compaction env \<longleftrightarrow> te_remote_compact env = Inl CancelledError \<or> te_summary env = Inl CancelledError"

text \<open>What a turn adds to the events: nothing that ends the run, unless it suspends it.\<close>

definition adds_plain :: "run \<Rightarrow> turn_result \<Rightarrow> bool" where
  "adds_plain r res \<longleftrightarrow>
     (case res of
        Continue r' \<Rightarrow> extends r r'
      | Return r' e \<Rightarrow> False
      | Break r' out \<Rightarrow>
          if out = Inl SuspendedError
          then (\<exists>evs t. rn_events r' = rn_events r @ evs @ [RunSuspended, TurnFinished t EndTurn] \<and>
                  list_all plain_event evs)
          else extends r r')"

lemma adds_plain_trans: "extends q r \<Longrightarrow> adds_plain r res \<Longrightarrow> adds_plain q res"
  by (cases res) (auto simp: adds_plain_def intro: extends_trans split: if_splits, auto simp: extends_def)

lemma compaction_step_plain:
  "case compaction_step cfg env r of Inl r' \<Rightarrow> extends r r' \<and> stops_compaction env | Inr r' \<Rightarrow> extends r r'"
  by (auto simp: compaction_step_def build_compaction_request_def compact_request_with_llm_progress_def
      stops_compaction_def Let_def extends_def plain_event_def split: sum.split option.split)

lemma emergency_step_plain: "adds_plain r (emergency_step cfg t r)"
  by (simp add: emergency_step_def Let_def adds_plain_def extends_def plain_event_def)

lemma judge_step_plain: "adds_plain r (judge_step cfg env atts out r)"
  by (auto simp: judge_step_def Let_def adds_plain_def extends_def plain_event_def
      split: option.split goal_verdict.split)

lemma stop_hook_step_plain: "adds_plain r (stop_hook_step cfg env atts out r)"
proof -
  have *: "adds_plain r (judge_step cfg env atts out r')" if "rn_events r' = rn_events r" for r'
    using adds_plain_trans [OF _ judge_step_plain] that by (simp add: extends_def)
  show ?thesis
    unfolding stop_hook_step_def Let_def
    by (auto simp: adds_plain_def [of _ "Continue _"] extends_def split: stop_outcome.split prod.split intro!: *)
qed

lemma done_step_plain: "adds_plain r (done_step cfg env t est fin s reasoning atts u r)"
proof -
  have *: "adds_plain r (stop_hook_step cfg env all out r')"
    if "rn_events r' = rn_events r @ evs" "list_all plain_event evs" for r' evs all out
    using adds_plain_trans [OF extendsI [OF that] stop_hook_step_plain] .
  show ?thesis
    unfolding done_step_def Let_def
    by (auto simp: adds_plain_def [of _ "Continue _"] extends_def plain_event_def intro!: *)
qed

lemma collect_error: "collect_outcomes os = Inl e \<Longrightarrow> Inl e \<in> set os"
proof -
  have "first_error os = Some e \<Longrightarrow> Inl e \<in> set os" by (induction os rule: first_error.induct) auto
  then show "collect_outcomes os = Inl e \<Longrightarrow> ?thesis" by (simp add: collect_outcomes_def split: option.splits)
qed

lemma run_tools_plain: "no_suspension env \<Longrightarrow> adds_plain r (run_tools cfg env t calls r)"
proof (cases "run_calls calls (te_calls_done env)")
  case (Inl e)
  assume "no_suspension env"
  then have "e \<noteq> SuspendedError"
    using collect_error [OF Inl [unfolded run_calls_def]]
    by (auto simp: no_suspension_def call_task_def split: sum.splits) force
  then show ?thesis using Inl by (simp add: run_tools_def Let_def adds_plain_def extends_def plain_event_def)
next
  case (Inr rs)
  show ?thesis
  proof (cases "te_phase env")
    case (Some ph)
    then have "\<exists>evs r'. run_tools cfg env t calls r = Break r' (Inl SuspendedError) \<and>
        rn_events r' = rn_events r @ evs @ [RunSuspended, TurnFinished t EndTurn] \<and> list_all plain_event evs"
      using Inr by (simp add: run_tools_def Let_def plain_event_def)
    then show ?thesis by (auto simp: adds_plain_def)
  qed (use Inr in \<open>simp add: run_tools_def Let_def adds_plain_def extends_def plain_event_def\<close>)
qed

lemma tools_step_plain:
  assumes "no_suspension env" shows "adds_plain r (tools_step cfg env t est s reasoning calls atts u r)"
proof (rule tools_step_shape [of cfg env t est s reasoning calls atts u r])
  fix q evs
  assume q: "tools_step cfg env t est s reasoning calls atts u r =
      (if \<exists>n. rc_max_iterations cfg = Some n \<and> n \<le> rn_iteration r
       then Break (emit (TurnFinished t MaxIterations) q)
              (Inl (OtherError (max_iterations_text @ dec (the (rc_max_iterations cfg)))))
       else run_tools cfg env t calls q)"
    "rn_events q = rn_events r @ evs" "set evs \<subseteq> {UsageEvent u, ReasoningText reasoning, DeltaText s}"
  have "list_all plain_event evs" using q(3) by (auto simp: list_all_iff plain_event_def)
  then have x: "extends r q" by (rule extendsI [OF q(2)])
  then have "adds_plain r (run_tools cfg env t calls q)"
    using adds_plain_trans run_tools_plain [OF assms] by blast
  moreover have "extends r (emit (TurnFinished t MaxIterations) q)"
    using x by (rule extends_emit [rotated]) (simp add: plain_event_def)
  ultimately show ?thesis unfolding q(1) by (simp add: adds_plain_def)
qed

lemma call_model_error:
  "fst (call_model ans polls k) = Inl e \<Longrightarrow> e = CancelledError \<or> (\<exists>j. ans j = Inl e)"
proof (induction ans polls k rule: call_model.induct)
  case (1 ans polls k)
  then show ?case
    by (subst (asm) (2) call_model.simps) (auto simp: Let_def split: sum.splits if_splits prod.splits)
qed

lemma call_model_events: "list_all plain_event (snd (call_model ans polls k))"
proof (induction ans polls k rule: call_model.induct)
  case (1 ans polls k)
  then show ?case
    by (subst call_model.simps)
      (auto simp: Let_def plain_event_def [of "ModelRetry _ _ _ _"] split: sum.splits prod.splits)
qed

lemma run_turn_plain:
  assumes "no_suspension env"
  obtains (plain) "adds_plain r (run_turn cfg env r)"
    | (stopped) q where "run_turn cfg env r = Return q CancelledError" "extends r q" "stops_compaction env"
proof (cases "te_cancelled env")
  case True
  show thesis by (rule plain) (simp add: True run_turn_def adds_plain_def extends_def)
next
  case False
  let ?r = "microcompact_step cfg (drain_pending_inputs cfg (te_pending env) r)"
  have start: "extends r ?r" by (simp add: extends_def)
  show thesis
  proof (cases "compaction_step cfg env ?r")
    case (Inl q)
    then have "extends r q" "stops_compaction env"
      using compaction_step_plain [of ?r env cfg] extends_trans [OF start] by simp_all
    then show thesis by (rule stopped [rotated]) (simp add: run_turn_def False Inl)
  next
  case q: (Inr q)
  then have q2: "extends ?r q" using compaction_step_plain [of ?r env cfg] by simp
  obtain res evs where m: "call_model (te_answers env) (te_polls env) 0 = (res, evs)" by fastforce
  let ?q = "end_call evs (begin_call cfg env q)"
  have "list_all plain_event evs" using call_model_events [of "te_answers env" "te_polls env" 0] m by simp
  then have "extends q ?q" by (auto simp: extends_def plain_event_def)
  then have x: "extends r ?q" using start q2 extends_trans by blast
  have "adds_plain ?q (answer_step cfg env t est res ?q)" for t est
  proof (cases res)
    case (Inl e)
    then have "e \<noteq> SuspendedError"
      using call_model_error [of "te_answers env" "te_polls env" 0 e] m assms by (auto simp: no_suspension_def)
    then show ?thesis
      using Inl emergency_step_plain by (auto simp: answer_step_def adds_plain_def extends_def plain_event_def)
  next
    case (Inr resp)
    then show ?thesis
      using done_step_plain tools_step_plain [OF assms] by (cases resp) (simp_all add: answer_step_def)
  qed
  then have "adds_plain r (run_turn cfg env r)"
    using adds_plain_trans [OF x] False by (simp add: run_turn_def q m)
  then show thesis by (rule plain)
  qed
qed

text \<open>The events of a run that is over.\<close>

definition ending :: "run_config \<Rightarrow> run \<Rightarrow> model_error + assistant_output \<Rightarrow> run_event list" where
  "ending cfg r res =
     (case res of
        Inr _ \<Rightarrow> [RunFinished (rn_totals r)]
      | Inl CancelledError \<Rightarrow> [RunCancelled]
      | Inl SuspendedError \<Rightarrow> []
      | Inl e \<Rightarrow> [RunFailed (error_text e)])"

lemma finish_run_events:
  assumes "res \<noteq> Inl SuspendedError"
  shows "\<exists>evs. list_all plain_event evs \<and> rn_totals (finish_run cfg edits res r) = rn_totals r \<and>
    rn_events (finish_run cfg edits res r) = rn_events r @ evs @ ending cfg r res @
      (case continue_for_outcome res (rn_last_finish r) of None \<Rightarrow> [] | Some (k, m) \<Rightarrow> [Notice (PendingContinue k m)])"
proof -
  define q where "q = commit_run_edits cfg edits (r\<lparr>rn_accepting := False\<rparr>)"
  obtain evs where q: "rn_events q = rn_events r @ evs" "list_all plain_event evs" "rn_totals q = rn_totals r"
    "rn_last_finish q = rn_last_finish r"
    by (rule that [of "if rc_nested cfg then [] else case edits of EditsNone \<Rightarrow> []
        | EditsCommitted \<Rightarrow> [RunEditsCommitted] | EditsFailed \<Rightarrow> [Notice SaveEditsFailed]"])
      (auto simp: q_def commit_run_edits_def plain_event_def split: edits_outcome.split)
  have rep: "rn_events (report_outcome cfg res q) = rn_events q @ ending cfg r res"
    "rn_totals (report_outcome cfg res q) = rn_totals q" "rn_last_finish (report_outcome cfg res q) = rn_last_finish q"
    using assms q(3) by (auto simp: report_outcome_def ending_def split: sum.split model_error.split)
  show ?thesis
  proof (cases "continue_for_outcome res (rn_last_finish r)")
    case None
    then have "finish_run cfg edits res r = on_disk cfg (SavedContinue None) (report_outcome cfg res q)"
      using assms rep q(4) by (simp add: finish_run_def q_def [symmetric] Let_def)
    then show ?thesis using q rep None by (intro exI [of _ evs]) simp
  next
    case (Some km)
    then have "finish_run cfg edits res r = on_disk cfg (SavedContinue (Some km))
        (emit (Notice (PendingContinue (fst km) (snd km))) (report_outcome cfg res q))"
      using assms rep q(4) by (simp add: finish_run_def q_def [symmetric] Let_def split_beta)
    then show ?thesis using q rep Some by (intro exI [of _ evs]) (simp add: split_beta)
  qed
qed

definition closing :: "run_config \<Rightarrow> turn_env list \<Rightarrow> run \<Rightarrow> model_error + assistant_output \<Rightarrow> run_event list \<Rightarrow> bool" where
  "closing cfg envs r res rest \<longleftrightarrow>
     rest = [] \<and> res = Inl CancelledError \<and> (\<exists>env \<in> set envs. stops_compaction env) \<or>
     (if res = Inl SuspendedError then \<exists>t. rest = [RunSuspended, TurnFinished t EndTurn]
      else \<exists>fin. rest = ending cfg r res @
        (case continue_for_outcome res fin of None \<Rightarrow> [] | Some (k, m) \<Rightarrow> [Notice (PendingContinue k m)]))"

definition ended_with :: "run_event list \<Rightarrow> run_config \<Rightarrow> turn_env list \<Rightarrow> run \<Rightarrow> model_error + assistant_output \<Rightarrow> bool" where
  "ended_with before cfg envs r res \<longleftrightarrow>
     (\<exists>evs rest. list_all plain_event evs \<and> rn_events r = before @ evs @ rest \<and> closing cfg envs r res rest)"

lemma ended_withI:
  "list_all plain_event evs \<Longrightarrow> rn_events r = before @ evs @ rest \<Longrightarrow> closing cfg envs r res rest \<Longrightarrow>
    ended_with before cfg envs r res"
  by (auto simp: ended_with_def)

lemma ended_with_before:
  assumes "ended_with (before @ e1) cfg envs r res" "list_all plain_event e1"
  shows "ended_with before cfg envs r res"
proof -
  obtain evs rest where e: "list_all plain_event evs" "rn_events r = (before @ e1) @ evs @ rest" "closing cfg envs r res rest"
    using assms(1) by (auto simp: ended_with_def)
  show ?thesis by (rule ended_withI [OF _ _ e(3), of "e1 @ evs"]) (simp_all add: e(1,2) assms(2))
qed

lemma closing_more: "closing cfg envs r res rest \<Longrightarrow> closing cfg (env # envs) r res rest"
  by (auto simp: closing_def)

lemma ended_with_more: "ended_with before cfg envs r res \<Longrightarrow> ended_with before cfg (env # envs) r res"
  unfolding ended_with_def using closing_more by blast

lemma run_loop_events:
  "run_loop cfg edits envs r = Ended r' res \<Longrightarrow> \<forall>env \<in> set envs. no_suspension env \<Longrightarrow>
    ended_with (rn_events r) cfg envs r' res"
proof (induction envs arbitrary: r)
  case (Cons env envs)
  have "no_suspension env" using Cons.prems(2) by simp
  then show ?case
  proof (cases rule: run_turn_plain [of env r cfg])
    case (stopped q)
    then have "rn_events r' = rn_events q" "res = Inl CancelledError" using Cons.prems(1) by auto
    then show ?thesis
      using stopped by (auto simp: extends_def closing_def intro!: ended_withI [where rest = "[]"])
  next
    case plain
    show ?thesis
    proof (cases "run_turn cfg env r")
      case (Continue q)
      then obtain e1 where e1: "rn_events q = rn_events r @ e1" "list_all plain_event e1"
        using plain by (auto simp: adds_plain_def extends_def)
      have "ended_with (rn_events q) cfg envs r' res"
        using Cons.IH [of q] Cons.prems Continue by simp
      then show ?thesis using e1 ended_with_before ended_with_more by metis
    next
      case (Break q out)
      then have q: "r' = finish_run cfg edits res q" "out = res" using Cons.prems(1) by auto
      show ?thesis
      proof (cases "res = Inl SuspendedError")
        case True
        then have "rn_events r' = rn_events q" by (simp add: q finish_run_def report_outcome_def Let_def)
        then show ?thesis
          using plain Break q True
          by (auto simp: adds_plain_def closing_def intro!: ended_withI [where rest = "[RunSuspended, TurnFinished t EndTurn]" for t])
      next
        case False
        then obtain e1 where e1: "rn_events q = rn_events r @ e1" "list_all plain_event e1"
          using plain Break q by (auto simp: adds_plain_def extends_def)
        let ?rest = "ending cfg q res @ (case continue_for_outcome res (rn_last_finish q) of
          None \<Rightarrow> [] | Some (k, m) \<Rightarrow> [Notice (PendingContinue k m)])"
        obtain e2 where e2: "list_all plain_event e2" "rn_totals r' = rn_totals q"
          "rn_events r' = rn_events q @ e2 @ ?rest"
          using finish_run_events [OF False] q(1) by blast
        have "ending cfg r' res = ending cfg q res" unfolding ending_def e2(2) ..
        then have "closing cfg (env # envs) r' res ?rest" using False by (auto simp: closing_def)
        then show ?thesis using e1 e2 by (intro ended_withI [of "e1 @ e2"]) simp_all
      qed
    next
      case (Return q e)
      then show ?thesis using plain by (simp add: adds_plain_def)
    qed
  qed
qed simp

lemma drive_plain: "list_all plain_event evs \<Longrightarrow> drive (evs @ es) = (fst (drive es), evs @ snd (drive es))"
proof (induction evs)
  case (Cons e evs)
  then show ?case by (cases e) (auto simp: plain_event_def split: prod.split)
qed simp

lemma start_run_events: "rn_events (start_run resume calib files es) = [case resume of None \<Rightarrow> RunStarted | Some _ \<Rightarrow> RunResumed]"
  by (simp add: start_run_def Let_def)

definition outcome_of :: "run \<Rightarrow> model_error + assistant_output \<Rightarrow> turn_outcome" where
  "outcome_of r res =
     (case res of
        Inr _ \<Rightarrow> OutcomeDone (rn_totals r)
      | Inl CancelledError \<Rightarrow> OutcomeCancelled
      | Inl SuspendedError \<Rightarrow> OutcomeSuspended
      | Inl e \<Rightarrow> OutcomeFailed (error_text e))"

lemma run_agent_events:
  assumes "run_agent cfg edits resume calib files es envs = Ended r res" "\<forall>env \<in> set envs. no_suspension env"
  shows "ended_with [] cfg envs r res"
proof (rule ended_with_before)
  show "ended_with ([] @ [case resume of None \<Rightarrow> RunStarted | Some _ \<Rightarrow> RunResumed]) cfg envs r res"
    using run_loop_events [OF assms(1) [unfolded run_agent_def] assms(2)] by (simp add: start_run_events)
qed (simp add: plain_event_def split: option.split)

lemma drive_run:
  assumes "run_agent cfg edits resume calib files es envs = Ended r res" "\<forall>env \<in> set envs. no_suspension env"
  shows "res \<noteq> Inl CancelledError \<Longrightarrow> fst (drive (rn_events r)) = outcome_of r res"
    and "res = Inl CancelledError \<Longrightarrow>
      (if RunCancelled \<in> set (rn_events r) then fst (drive (rn_events r)) = OutcomeCancelled
       else fst (drive (rn_events r)) = OutcomeFailed closed_text \<and> (\<exists>env \<in> set envs. stops_compaction env))"
    and "res = Inl e \<Longrightarrow> e \<noteq> CancelledError \<Longrightarrow> e \<noteq> SuspendedError \<Longrightarrow>
      \<exists>pre. list_all plain_event pre \<and> snd (drive (rn_events r)) = pre @ [RunFailed (error_text e)] \<and>
        rn_events r = pre @ [RunFailed (error_text e),
          Notice (PendingContinue NetworkError (not_ok_open @ error_text e @ not_ok_close))]"
proof -
  obtain evs rest where p: "list_all plain_event evs" and r: "rn_events r = evs @ rest"
      and c: "closing cfg envs r res rest"
    using run_agent_events [OF assms] by (auto simp: ended_with_def)
  have no: "RunCancelled \<notin> set evs" using p by (auto simp: list_all_iff plain_event_def)
  note d = drive_plain [OF p]
  show "fst (drive (rn_events r)) = outcome_of r res" if "res \<noteq> Inl CancelledError"
  proof (cases res)
    case (Inr out)
    then show ?thesis using c d r by (auto simp: closing_def ending_def outcome_of_def)
  next
    case (Inl x)
    then show ?thesis
      using c d r that by (cases x) (auto simp: closing_def ending_def outcome_of_def continue_for_outcome_def)
  qed
  show "if RunCancelled \<in> set (rn_events r) then fst (drive (rn_events r)) = OutcomeCancelled
      else fst (drive (rn_events r)) = OutcomeFailed closed_text \<and> (\<exists>env \<in> set envs. stops_compaction env)"
    if "res = Inl CancelledError"
    using c d r no that by (auto simp: closing_def ending_def continue_for_outcome_def)
  show "\<exists>pre. list_all plain_event pre \<and> snd (drive (rn_events r)) = pre @ [RunFailed (error_text e)] \<and>
      rn_events r = pre @ [RunFailed (error_text e),
        Notice (PendingContinue NetworkError (not_ok_open @ error_text e @ not_ok_close))]"
    if "res = Inl e" "e \<noteq> CancelledError" "e \<noteq> SuspendedError"
    using c d r p that
    by (cases e) (auto simp: closing_def ending_def continue_for_outcome_def intro!: exI [of _ evs])
qed

text \<open>C13. The surface learns how a run ended: whatever happened in it, the driver that follows its events
  returns finished with the tokens the run used, suspended, or failed with the text of its error. A
  cancelled run is returned as cancelled when it said so; the only one that does not is a run that was
  stopped while it wrote a summary, and that one is returned as a failure, of a closed channel. It is
  taken that the model and the tools never answer that the run was suspended.\<close>

theorem surface_learns_the_outcome:
  assumes "run_agent cfg edits resume calib files es envs = Ended r res" and "\<forall>env \<in> set envs. no_suspension env"
  shows "case res of
       Inr _ \<Rightarrow> fst (drive (rn_events r)) = OutcomeDone (rn_totals r)
     | Inl CancelledError \<Rightarrow>
         (if RunCancelled \<in> set (rn_events r) then fst (drive (rn_events r)) = OutcomeCancelled
          else fst (drive (rn_events r)) = OutcomeFailed closed_text \<and> (\<exists>env \<in> set envs. stops_compaction env))
     | Inl SuspendedError \<Rightarrow> fst (drive (rn_events r)) = OutcomeSuspended
     | Inl e \<Rightarrow> fst (drive (rn_events r)) = OutcomeFailed (error_text e)"
  using drive_run(1,2) [OF assms] by (auto simp: outcome_of_def split: sum.split model_error.split)

text \<open>A failed run never shows its offer to continue: the notice that makes the surface show the offer
  is sent after the event that ends the run, and after a failure the driver returns at that event.\<close>

theorem failed_run_hides_its_offer:
  assumes "run_agent cfg edits resume calib files es envs = Ended r (Inl e)" and "\<forall>env \<in> set envs. no_suspension env"
    and "e \<noteq> CancelledError" and "e \<noteq> SuspendedError"
  shows "(\<exists>k m. Notice (PendingContinue k m) \<in> set (rn_events r)) \<and>
    (\<forall>k m. Notice (PendingContinue k m) \<notin> set (snd (drive (rn_events r))))"
proof -
  obtain pre where "list_all plain_event pre" "snd (drive (rn_events r)) = pre @ [RunFailed (error_text e)]"
    "rn_events r = pre @ [RunFailed (error_text e),
       Notice (PendingContinue NetworkError (not_ok_open @ error_text e @ not_ok_close))]"
    using drive_run(3) [OF assms(1,2) refl assms(3,4)] by blast
  then show ?thesis by (auto simp: list_all_iff plain_event_def)
qed

text \<open>A compaction that is cancelled ends the run without a word: when the user stops the run while the
  summary is written, the loop returns at once, past the end of the run; nothing tells the surface
  that the run was cancelled, the driver reports a closed channel as a failure, and neither the open
  segment nor the interruption is saved.\<close>

theorem cancelled_compaction_looks_like_a_failure:
  assumes "\<not> te_cancelled env"
    and "compaction_step cfg env (microcompact_step cfg (drain_pending_inputs cfg (te_pending env)
      (start_run resume calib files es))) = Inl q"
  shows "\<exists>r. run_agent cfg edits resume calib files es (env # envs) = Ended r (Inl CancelledError) \<and>
    fst (drive (rn_events r)) = OutcomeFailed closed_text \<and> FinishInterrupted \<notin> set (rn_saved r) \<and>
    (\<forall>p. SavedContinue p \<notin> set (rn_saved r))"
proof -
  let ?r = "microcompact_step cfg (drain_pending_inputs cfg (te_pending env) (start_run resume calib files es))"
  obtain n where q: "rn_events q = rn_events ?r @ [CompactionStarted n]" "rn_saved q = rn_saved ?r"
    using assms(2) by (auto simp: compaction_step_def build_compaction_request_def Let_def send_request_def
        split: if_splits sum.splits)
  have "rn_saved ?r = rn_saved (drain_pending_inputs cfg (te_pending env) (start_run resume calib files es))"
    by (simp add: microcompact_step_def split: prod.split)
  also have "\<dots> = (if rc_persist cfg then map (\<lambda>(s, atts). SavedUser s atts None) (te_pending env) else [])"
    by (simp add: drain_saved) (simp add: start_run_def Let_def)
  finally have saved: "\<exists>u atts. s = SavedUser u atts None" if "s \<in> set (rn_saved q)" for s
    using that unfolding q(2) by (auto split: if_splits)
  have "fst (drive (rn_events q)) = OutcomeFailed closed_text"
    by (simp add: q(1) start_run_events split: option.split)
  moreover have "run_agent cfg edits resume calib files es (env # envs) = Ended q (Inl CancelledError)"
    using assms by (simp add: run_agent_def run_turn_def)
  moreover have "FinishInterrupted \<notin> set (rn_saved q)" using saved by blast
  moreover have "SavedContinue p \<notin> set (rn_saved q)" for p using saved by blast
  ultimately show ?thesis by blast
qed

section \<open>Retries\<close>

text \<open>An error that says the context is too long can be retried in vain: when the gateway reports it as
  its general kind of error and not as a status, the loop sends the same request twenty more times,
  waiting more than fifteen minutes altogether, before it resets the transcript; reported as a
  status the same error is not retried at all.\<close>

theorem long_context_is_retried_in_vain:
  assumes "\<forall>k. ans k = Inl (OtherError body)" and "\<forall>k i. \<not> polls k i" and "is_context_too_long (OtherError body)"
  shows "fst (call_model ans polls 0) = Inl (OtherError body) \<and> length (snd (call_model ans polls 0)) = 20 \<and>
    sum_list (map (\<lambda>e. case e of ModelRetry a m delay err \<Rightarrow> delay | _ \<Rightarrow> 0) (snd (call_model ans polls 0))) = 903000 \<and>
    (\<forall>status. \<not> (is_context_too_long (HttpError status body) \<and> is_retryable_model_error (HttpError status body)))"
proof -
  have b: "backoff_or_cancel delay (polls k) slept i" for delay k slept i
  proof (induction delay "polls k" slept i rule: backoff_or_cancel.induct)
    case (1 delay slept i)
    then show ?case using assms(2) by (subst backoff_or_cancel.simps) simp
  qed
  have step: "call_model ans polls k =
      (if k < MAX_MODEL_RETRIES
       then apsnd ((#) (ModelRetry (k + 1) MAX_MODEL_RETRIES (model_retry_delay (k + 1)) (OtherError body)))
              (call_model ans polls (k + 1))
       else (Inl (OtherError body), []))" for k
    using assms(1) b
    by (subst call_model.simps) (auto simp: Let_def is_retryable_model_error_def split: prod.split)
  have "call_model ans polls k = (Inl (OtherError body),
      map (\<lambda>j. ModelRetry j MAX_MODEL_RETRIES (model_retry_delay j) (OtherError body)) [k + 1..<21])"
    if "k \<le> 20" for k
    using that
  proof (induction "20 - k" arbitrary: k)
    case 0
    then show ?case by (subst step) simp
  next
    case (Suc n)
    then have "call_model ans polls (k + 1) = (Inl (OtherError body),
        map (\<lambda>j. ModelRetry j MAX_MODEL_RETRIES (model_retry_delay j) (OtherError body)) [k + 1 + 1..<21])"
      by (intro Suc.hyps(1)) simp_all
    then show ?case using Suc.hyps(2) by (subst step) (simp add: upt_conv_Cons)
  qed
  from this [of 0] have c: "call_model ans polls 0 = (Inl (OtherError body),
      map (\<lambda>j. ModelRetry j MAX_MODEL_RETRIES (model_retry_delay j) (OtherError body)) [1..<21])" by simp
  have "sum_list (map model_retry_delay [1..<21]) = 903000"
    by (simp add: upt_rec model_retry_delay_def min_def)
  then show ?thesis using assms(3) by (simp add: c comp_def is_retryable_model_error_def)
qed

text \<open>The end at the limit of tool rounds is offered as a failed request: the kind of offer for it is never
  made.\<close>

lemma limit_is_offered_as_network_error:
  "continue_for_outcome (Inl (OtherError (max_iterations_text @ dec n))) fin =
     Some (NetworkError, not_ok_open @ max_iterations_text @ dec n @ not_ok_close)"
  "continue_for_outcome res fin \<noteq> Some (MaxIterationsKind, m)"
  by (auto simp: continue_for_outcome_def error_text_def split: sum.split finish_reason.split model_error.split)

section \<open>Witnesses\<close>

definition ex_cfg :: "nat \<Rightarrow> run_config" where
  "ex_cfg tokens =
     \<lparr>rc_system = None, rc_system_prompt = (\<lambda>_. ''You are an agent.''), rc_rules = None,
      rc_policy = \<lparr>cp_token_budget = tokens, cp_keep_recent_turns = 8\<rparr>, rc_tools = [''Bash''],
      rc_stream = True, rc_streaming_tools = True, rc_hooks = True, rc_judge = True,
      rc_place = Some (''/d'', ''s''), rc_can_save = (\<lambda>_. True), rc_persist = True, rc_nested = False,
      rc_max_iterations = Some 1, rc_rx = ex_rx,
      rc_cleaning = \<lparr>cl_leak_start = (\<lambda>_. None), cl_json_parse = (\<lambda>_. None)\<rparr>, rc_json = (\<lambda>_. ''{}'')\<rparr>"

definition ex_usage :: usage where
  "ex_usage = \<lparr>us_input = 0, us_output = 5, us_cache_read = 0, us_cache_creation = 0\<rparr>"

definition ex_env :: "model_error + model_response \<Rightarrow> turn_env" where
  "ex_env ans =
     \<lparr>te_cancelled = False, te_pending = [], te_remote_compact = Inr None, te_summary = Inr ''so far'',
      te_plan_mode = False, te_answers = (\<lambda>_. ans), te_polls = (\<lambda>_ _. False), te_pending_done = [],
      te_stop_hook = StopPassed, te_goal = None, te_verdict = Achieved [], te_cancelled_judge = False,
      te_calls_cancelled = (\<lambda>_. False),
      te_calls_done = [(0, Inr \<lparr>to_content = ''ok'', to_artifact = None, to_attachments = []\<rparr>)], te_pending_tools = [], te_phase = None\<rparr>"

definition ex_failing :: turn_env where "ex_failing = ex_env (Inl (JsonError ''bad''))"

definition ex_stopped_compaction :: turn_env where
  "ex_stopped_compaction = ex_failing\<lparr>te_summary := Inl CancelledError\<rparr>"

definition ex_two_turns :: "turn_env list" where
  "ex_two_turns =
     [ex_env (Inr (ModelToolCalls ''I look'' [] [\<lparr>ce_id = ''c2'', ce_name = ''Bash'', ce_input = JObj []\<rparr>] [] ex_usage)),
      ex_env (Inr (ModelDone FinishStop ''Done.'' [] [] ex_usage))]"

definition ex_question :: message where
  "ex_question = \<lparr>ms_id = ''m'', ms_role = UserRole, ms_content = ''look'', ms_attachments = [],
     ms_tool_calls = [], ms_parts = [], ms_created_at = 0, ms_meta = None, ms_subagent_call_id = None,
     ms_run_duration_ms = None\<rparr>"

lemma ex_no_suspension: "no_suspension ex_failing"
  by (simp add: no_suspension_def ex_failing_def ex_env_def)

lemma ex_failed_run:
  "\<exists>r. run_agent (ex_cfg 80000) EditsNone None (0, 0) (\<lambda>_. None) [] [ex_failing] = Ended r (Inl (JsonError ''bad''))"
  by (simp add: run_agent_def run_turn_def ex_failing_def ex_env_def microcompact_step_def
      microcompact_with_pressure_def calibrated_transcript_tokens_def estimate_transcript_tokens_def
      start_run_def Let_def ex_cfg_def compaction_step_def needs_compaction_def
      default_microcompact_policy_def empty_report_def save_shadowed_def call_model.simps
      is_retryable_model_error_def answer_step_def is_context_too_long_def)

definition ex_history :: "message list" where
  "ex_history = [ex_question, ex_question\<lparr>ms_role := AssistantRole, ms_parts := [
     ToolPart \<lparr>tp_id = ''c1'', tp_name = ''Bash'', tp_input = JObj [], tp_arguments = [], tp_result = Some ''ok'',
       tp_duration_ms = None, tp_is_error = False\<rparr>]\<rparr>]"

definition ex_entries :: "transcript_entry list" where
  "ex_entries = [user_turn ''look'' [],
     assistant_turn [] [] [\<lparr>ce_id = ''c1'', ce_name = ''Bash'', ce_input = JObj []\<rparr>],
     ToolResults [plain_result ''c1'' ''Bash'' ''ok''], user_turn continue_text []]"

lemma ex_transcript: "from_session cl ex_history = ex_entries"
  by (simp add: from_session_def ex_history_def ex_question_def ex_entries_def boundary_entries_def
      push_message_def push_assistant_message_def push_assistant_parts_def empty_turn_def
      flush_assistant_turn_def normalize_tool_input_def user_turn_def assistant_turn_def)

definition ex_more :: "transcript_entry list" where
  "ex_more = ex_entries @
     [assistant_turn ''I look'' [] [\<lparr>ce_id = ''c2'', ce_name = ''Bash'', ce_input = JObj []\<rparr>],
      ToolResults [plain_result ''c2'' ''Bash'' ''ok'']]"

lemma ex_estimate:
  "estimate_transcript_tokens (\<lambda>_. ''{}'') None ex_entries \<le> 20000"
  "estimate_transcript_tokens (\<lambda>_. ''{}'') None ex_more \<le> 20000"
  by (simp_all add: ex_more_def ex_entries_def estimate_transcript_tokens_def user_turn_def assistant_turn_def
      plain_result_def estimate_tokens_def char_total_def is_continuation_def continue_text_def)

lemma ex_quiet:
  assumes "estimate_transcript_tokens (\<lambda>_. ''{}'') None (rn_entries r) \<le> 20000" "fst (rn_calib r) = 0"
  shows "microcompact_step (ex_cfg 80000) r = r" "compaction_step (ex_cfg 80000) env r = Inr r"
  using assms
  by (simp_all add: microcompact_step_def microcompact_with_pressure_def calibrated_transcript_tokens_def
      ex_cfg_def compaction_step_def needs_compaction_def default_microcompact_policy_def
      empty_report_def save_shadowed_def Let_def split: prod.split)

lemma ex_fields:
  "rc_max_iterations (ex_cfg n) = Some 1" "rc_stream (ex_cfg n)" "rc_streaming_tools (ex_cfg n)"
  "rc_system (ex_cfg n) = None" "rc_json (ex_cfg n) = (\<lambda>_. ''{}'')" "rc_hooks (ex_cfg n)" "rc_judge (ex_cfg n)"
  "cl_leak_start (rc_cleaning (ex_cfg n)) s = None" "rc_place (ex_cfg n) = Some (''/d'', ''s'')" "\<not> rc_nested (ex_cfg n)"
  by (simp_all add: ex_cfg_def)

lemma ex_tools_turn:
  assumes "rn_entries r = ex_entries" "fst (rn_calib r) = 0" "rn_iteration r = 0"
  shows "\<exists>r'. run_turn (ex_cfg 80000) (ex_two_turns ! 0) r = Continue r' \<and> rn_entries r' = ex_more \<and>
    fst (rn_calib r') = 0 \<and> map rq_entries (rn_requests r') = map rq_entries (rn_requests r) @ [ex_entries]"
  using assms ex_estimate
  by (simp add: run_turn_def ex_two_turns_def ex_env_def ex_quiet call_model.simps answer_step_def
      tools_step_def Let_def record_request_usage_def used_stream_path_def ex_fields run_tools_def run_calls_def
      call_task_def collect_outcomes_def ex_more_def plain_result_def main_request_def ex_usage_def
      emit_def begin_call_def end_call_def send_request_def push_assistant_def push_tool_results_def
      drain_pending_inputs_def)

lemma ex_done_turn:
  assumes "rn_entries r = ex_more" "fst (rn_calib r) = 0"
  shows "\<exists>r' res. run_turn (ex_cfg 80000) (ex_two_turns ! 1) r = Break r' res \<and>
    map rq_entries (rn_requests r') = map rq_entries (rn_requests r) @ [ex_more]"
  using assms ex_estimate
  by (simp add: run_turn_def ex_two_turns_def ex_env_def ex_quiet call_model.simps answer_step_def
      done_step_def stop_hook_step_def judge_step_def Let_def used_stream_path_def ex_fields main_request_def)

lemma ex_requests:
  "map rq_entries (rn_requests (final_run (run_agent (ex_cfg 80000) EditsNone None (0, 0) (\<lambda>_. None)
      (from_session (rc_cleaning (ex_cfg 80000)) ex_history) ex_two_turns))) = [ex_entries, ex_more]"
proof -
  let ?r = "start_run None (0, 0) (\<lambda>_. None) ex_entries"
  obtain r1 where 1: "run_turn (ex_cfg 80000) (ex_two_turns ! 0) ?r = Continue r1" "rn_entries r1 = ex_more"
      "fst (rn_calib r1) = 0" "map rq_entries (rn_requests r1) = [ex_entries]"
    using ex_tools_turn [of ?r] by (auto simp: start_run_def Let_def)
  obtain r2 res where 2: "run_turn (ex_cfg 80000) (ex_two_turns ! 1) r1 = Break r2 res"
      "map rq_entries (rn_requests r2) = [ex_entries, ex_more]"
    using ex_done_turn [OF 1(2,3)] 1(4) by auto
  have two: "ex_two_turns = [ex_two_turns ! 0, ex_two_turns ! 1]" by (simp add: ex_two_turns_def)
  have "run_loop (ex_cfg 80000) EditsNone [ex_two_turns ! 0, ex_two_turns ! 1] ?r =
      Ended (finish_run (ex_cfg 80000) EditsNone res r2) res"
    by (simp only: run_loop.simps 1(1) 2(1) turn_result.case)
  then have "run_loop (ex_cfg 80000) EditsNone ex_two_turns ?r = Ended (finish_run (ex_cfg 80000) EditsNone res r2) res"
    by (simp only: two [symmetric])
  then show ?thesis by (simp add: run_agent_def ex_transcript 2(2))
qed

lemma requests_keep_the_protocol_witness:
  "\<exists>p q. rn_requests (final_run (run_agent (ex_cfg 80000) EditsNone None (0, 0) (\<lambda>_. None)
      (from_session (rc_cleaning (ex_cfg 80000)) ex_history) ex_two_turns)) = [p, q] \<and>
    rq_entries p = ex_entries \<and> rq_entries q = ex_more \<and> well_paired (rq_entries q)"
proof -
  obtain p q where q: "rn_requests (final_run (run_agent (ex_cfg 80000) EditsNone None (0, 0) (\<lambda>_. None)
      (from_session (rc_cleaning (ex_cfg 80000)) ex_history) ex_two_turns)) = [p, q]"
      "rq_entries p = ex_entries" "rq_entries q = ex_more"
    using ex_requests by (auto simp: map_eq_Cons_conv)
  have "envs_ok ex_two_turns"
    by (auto simp: answers_ok_def ex_two_turns_def ex_env_def all_tasks_end_def)
  from requests_keep_the_protocol [OF this, of q] have "well_paired (rq_entries q)"
    using q(1) by (metis list.set_intros(1,2))
  with q show ?thesis by blast
qed

lemma run_with_a_limit_ends_witness:
  "\<exists>r res. run_agent (ex_cfg 80000) EditsNone None (0, 0) (\<lambda>_. None) [] (replicate 8 (ex_two_turns ! 0)) = Ended r res"
  using run_with_a_limit_ends [of "ex_cfg 80000" 1 "replicate 8 (ex_two_turns ! 0)"]
  by (simp add: no_new_work_def ex_cfg_def ex_two_turns_def ex_env_def)

lemma surface_learns_the_outcome_witness:
  "\<exists>r. run_agent (ex_cfg 80000) EditsNone None (0, 0) (\<lambda>_. None) [] [ex_failing] = Ended r (Inl (JsonError ''bad'')) \<and>
    fst (drive (rn_events r)) = OutcomeFailed (error_text (JsonError ''bad''))"
proof -
  obtain r where r: "run_agent (ex_cfg 80000) EditsNone None (0, 0) (\<lambda>_. None) [] [ex_failing] =
      Ended r (Inl (JsonError ''bad''))"
    using ex_failed_run by blast
  then show ?thesis using surface_learns_the_outcome [OF r] ex_no_suspension by simp
qed

lemma failed_run_hides_its_offer_witness:
  "\<exists>r. run_agent (ex_cfg 80000) EditsNone None (0, 0) (\<lambda>_. None) [] [ex_failing] = Ended r (Inl (JsonError ''bad'')) \<and>
    (\<exists>k m. Notice (PendingContinue k m) \<in> set (rn_events r)) \<and>
    (\<forall>k m. Notice (PendingContinue k m) \<notin> set (snd (drive (rn_events r))))"
proof -
  obtain r where r: "run_agent (ex_cfg 80000) EditsNone None (0, 0) (\<lambda>_. None) [] [ex_failing] =
      Ended r (Inl (JsonError ''bad''))"
    using ex_failed_run by blast
  then show ?thesis using failed_run_hides_its_offer [OF r] ex_no_suspension by simp
qed

lemma cancelled_compaction_looks_like_a_failure_witness:
  "\<exists>r. run_agent (ex_cfg 0) EditsNone None (0, 0) (\<lambda>_. None) [] [ex_stopped_compaction] =
      Ended r (Inl CancelledError) \<and> fst (drive (rn_events r)) = OutcomeFailed closed_text"
proof -
  let ?r = "microcompact_step (ex_cfg 0) (drain_pending_inputs (ex_cfg 0) (te_pending ex_stopped_compaction)
      (start_run None (0, 0) (\<lambda>_. None) []))"
  have "\<exists>q. compaction_step (ex_cfg 0) ex_stopped_compaction r = Inl q" if "rn_calib r = (0, 0)" for r
    using that by (simp add: compaction_step_def needs_compaction_def calibrated_transcript_tokens_def
        estimate_transcript_tokens_def Let_def ex_cfg_def ex_stopped_compaction_def ex_failing_def ex_env_def
        build_compaction_request_def compact_request_with_llm_progress_def)
  moreover have "rn_calib ?r = (0, 0)"
    by (simp add: microcompact_step_def ex_stopped_compaction_def ex_failing_def ex_env_def start_run_def
        Let_def split: prod.split)
  ultimately obtain q where "compaction_step (ex_cfg 0) ex_stopped_compaction ?r = Inl q" by blast
  moreover have "\<not> te_cancelled ex_stopped_compaction"
    by (simp add: ex_stopped_compaction_def ex_failing_def ex_env_def)
  ultimately show ?thesis using cancelled_compaction_looks_like_a_failure by blast
qed

lemma long_context_is_retried_in_vain_witness:
  "length (snd (call_model (\<lambda>_. Inl (OtherError ''maximum context length'')) (\<lambda>_ _. False) 0)) = 20"
proof -
  have "is_context_too_long (OtherError ''maximum context length'')" by code_simp
  then show ?thesis
    using long_context_is_retried_in_vain [of "\<lambda>_. Inl (OtherError ''maximum context length'')"
        "''maximum context length''" "\<lambda>_ _. False"] by simp
qed

end
