(* ===== verification/Session_Log.thy ===== *)
theory Session_Log
  imports Session_Model Run_Mode "HOL-Library.Word"
begin

text \<open>
  The session files (\<open>crates/agent-core/src/storage/sessions.rs\<close>): a file is a list of lines
  (meta, message, meta update, event), folded back into a session when it is read. The codec is
  \<open>serde_json\<close>: a line is the value it decodes to, \<open>None\<close> where it does not decode. Blank lines are
  not represented. The clock, fresh ids and the file system (does a write succeed) are arguments or
  part of the state.
\<close>

section \<open>Token totals\<close>

record token_stats =
  ts_input :: "64 word"
  ts_output :: "64 word"
  ts_cache_read :: "64 word"
  ts_cache_creation :: "64 word"
  ts_run_count :: "64 word"
  ts_last_input :: "64 word"
  ts_last_output :: "64 word"
  ts_last_cache_read :: "64 word"
  ts_last_cache_creation :: "64 word"
  ts_last_estimated :: "64 word"

definition no_tokens :: token_stats where
  "no_tokens = \<lparr>ts_input = 0, ts_output = 0, ts_cache_read = 0, ts_cache_creation = 0,
     ts_run_count = 0, ts_last_input = 0, ts_last_output = 0, ts_last_cache_read = 0,
     ts_last_cache_creation = 0, ts_last_estimated = 0\<rparr>"

text \<open>The additions are Rust's \<open>+=\<close> on \<open>u64\<close> of a release build: they wrap.\<close>

definition accumulate :: "token_stats \<Rightarrow> token_stats \<Rightarrow> token_stats" where
  "accumulate s d =
     \<lparr>ts_input = ts_input s + ts_input d, ts_output = ts_output s + ts_output d,
      ts_cache_read = ts_cache_read s + ts_cache_read d,
      ts_cache_creation = ts_cache_creation s + ts_cache_creation d,
      ts_run_count = ts_run_count s + ts_run_count d,
      ts_last_input = ts_input d, ts_last_output = ts_output d,
      ts_last_cache_read = ts_cache_read d, ts_last_cache_creation = ts_cache_creation d,
      ts_last_estimated = ts_last_estimated d\<rparr>"

section \<open>The parts of a session\<close>

record active_goal =
  ag_condition :: str
  ag_created_at :: int
  ag_iterations :: nat
  ag_last_reason :: "str option"
  ag_pending_set_marker :: bool

datatype saved_continue_kind =
  TruncatedKind | RefusedKind | FilteredKind | NetworkErrorKind | IterationsKind | UnknownKind

definition continue_kind_str :: "saved_continue_kind \<Rightarrow> str" where
  "continue_kind_str k =
     (case k of TruncatedKind \<Rightarrow> ''truncated'' | RefusedKind \<Rightarrow> ''refused''
      | FilteredKind \<Rightarrow> ''filtered'' | NetworkErrorKind \<Rightarrow> ''network_error''
      | IterationsKind \<Rightarrow> ''max_iterations'' | UnknownKind \<Rightarrow> ''other'')"

record pending_continue =
  pc_at :: int
  pc_kind :: saved_continue_kind
  pc_message :: str

datatype todo_status = TodoPending | TodoInProgress | TodoCompleted

record todo_item =
  td_id :: str
  td_content :: str
  td_active_form :: str
  td_status :: todo_status

record rule_file_state =
  rs_path :: str
  rs_enabled :: bool

record session =
  se_id :: str
  se_title :: str
  se_provider_id :: str
  se_model :: str
  se_system_prompt :: "str option"
  se_prompt_id :: "str option"
  se_stream :: bool
  se_messages :: "message list"
  se_workdir :: "str option"
  se_allowed_paths :: "str list option"
  se_runtime_allowed_paths :: "str list"
  se_pending_runtime_allowed_paths :: "str list"
  se_enabled_tools :: "str list option"
  se_skill_dirs :: "str list option"
  se_reasoning :: "reasoning_config option"
  se_token_stats :: "token_stats option"
  se_source :: "str option"
  se_project_id :: "str option"
  se_run_mode :: run_mode
  se_global_rules :: "str list option"
  se_rules_files :: "rule_file_state list option"
  se_todos :: "todo_item list"
  se_active_plan :: "str option"
  se_active_goal :: "active_goal option"
  se_pre_plan_mode :: "run_mode option"
  se_pending_continue :: "pending_continue option"
  se_created_at :: int
  se_updated_at :: int

section \<open>Lines of a session file\<close>

definition ROLLOUT_SCHEMA :: nat where
  "ROLLOUT_SCHEMA = 1"

definition DEFAULT_TITLE :: str where
  "DEFAULT_TITLE = [CHR 0xE6, CHR 0x96, CHR 0xB0, CHR 0xE5, CHR 0xAF, CHR 0xB9, CHR 0xE8, CHR 0xAF, CHR 0x9D]"

record rollout_meta =
  rm_schema :: nat
  rm_id :: str
  rm_source :: str
  rm_created_at :: int
  rm_forked_from :: "str option"
  rm_title :: str
  rm_provider_id :: str
  rm_model :: str
  rm_system_prompt :: "str option"
  rm_prompt_id :: "str option"
  rm_stream :: bool
  rm_workdir :: "str option"
  rm_allowed_paths :: "str list option"
  rm_runtime_allowed_paths :: "str list"
  rm_pending_runtime_allowed_paths :: "str list"
  rm_enabled_tools :: "str list option"
  rm_skill_dirs :: "str list option"
  rm_reasoning :: "reasoning_config option"
  rm_token_stats :: "token_stats option"
  rm_project_id :: "str option"
  rm_run_mode :: run_mode
  rm_global_rules :: "str list option"
  rm_rules_files :: "rule_file_state list option"
  rm_todos :: "todo_item list"
  rm_active_plan :: "str option"
  rm_active_goal :: "active_goal option"
  rm_pre_plan_mode :: "run_mode option"
  rm_pending_continue :: "pending_continue option"

record meta_update =
  mu_at :: int
  mu_title :: "str option"
  mu_provider_id :: "str option"
  mu_model :: "str option"
  mu_system_prompt :: "str option"
  mu_prompt_id :: "str option"
  mu_stream :: "bool option"
  mu_workdir :: "str option"
  mu_allowed_paths :: "str list option"
  mu_runtime_allowed_paths :: "str list option"
  mu_pending_runtime_allowed_paths :: "str list option"
  mu_enabled_tools :: "str list option"
  mu_skill_dirs :: "str list option"
  mu_reasoning :: "reasoning_config option"
  mu_token_stats :: "token_stats option"
  mu_project_id :: "str option"
  mu_run_mode :: "run_mode option"
  mu_global_rules :: "str list option"
  mu_rules_files :: "rule_file_state list option"
  mu_todos :: "todo_item list option"
  mu_active_plan :: "str option"
  mu_clear_active_plan :: bool
  mu_active_goal :: "active_goal option"
  mu_clear_active_goal :: bool
  mu_pre_plan_mode :: "run_mode option"
  mu_clear_pre_plan_mode :: bool
  mu_pending_continue :: "pending_continue option"
  mu_clear_pending_continue :: bool

text \<open>\<open>..Default::default()\<close>.\<close>

definition no_update :: "int \<Rightarrow> meta_update" where
  "no_update at = \<lparr>mu_at = at, mu_title = None, mu_provider_id = None, mu_model = None,
     mu_system_prompt = None, mu_prompt_id = None, mu_stream = None, mu_workdir = None,
     mu_allowed_paths = None, mu_runtime_allowed_paths = None,
     mu_pending_runtime_allowed_paths = None, mu_enabled_tools = None, mu_skill_dirs = None,
     mu_reasoning = None, mu_token_stats = None, mu_project_id = None, mu_run_mode = None,
     mu_global_rules = None, mu_rules_files = None, mu_todos = None, mu_active_plan = None,
     mu_clear_active_plan = False, mu_active_goal = None, mu_clear_active_goal = False,
     mu_pre_plan_mode = None, mu_clear_pre_plan_mode = False, mu_pending_continue = None,
     mu_clear_pending_continue = False\<rparr>"

datatype rollout_line =
  MetaLine rollout_meta
| MessageLine message
| MetaUpdateLine meta_update
| EventLine event_payload

section \<open>Folding lines into a session\<close>

definition meta_from_session :: "session \<Rightarrow> str \<Rightarrow> str option \<Rightarrow> rollout_meta" where
  "meta_from_session s source forked_from =
     \<lparr>rm_schema = ROLLOUT_SCHEMA, rm_id = se_id s,
      rm_source = (case se_source s of Some v \<Rightarrow> v | None \<Rightarrow> source),
      rm_created_at = se_created_at s, rm_forked_from = forked_from, rm_title = se_title s,
      rm_provider_id = se_provider_id s, rm_model = se_model s,
      rm_system_prompt = se_system_prompt s, rm_prompt_id = se_prompt_id s,
      rm_stream = se_stream s, rm_workdir = se_workdir s, rm_allowed_paths = se_allowed_paths s,
      rm_runtime_allowed_paths = se_runtime_allowed_paths s,
      rm_pending_runtime_allowed_paths = se_pending_runtime_allowed_paths s,
      rm_enabled_tools = se_enabled_tools s, rm_skill_dirs = se_skill_dirs s,
      rm_reasoning = se_reasoning s, rm_token_stats = se_token_stats s,
      rm_project_id = se_project_id s, rm_run_mode = se_run_mode s,
      rm_global_rules = se_global_rules s, rm_rules_files = se_rules_files s,
      rm_todos = se_todos s, rm_active_plan = se_active_plan s,
      rm_active_goal = se_active_goal s, rm_pre_plan_mode = se_pre_plan_mode s,
      rm_pending_continue = se_pending_continue s\<rparr>"

definition apply_meta :: "rollout_meta \<Rightarrow> session \<Rightarrow> session" where
  "apply_meta m s =
     \<lparr>se_id = rm_id m, se_title = rm_title m, se_provider_id = rm_provider_id m,
      se_model = rm_model m, se_system_prompt = rm_system_prompt m,
      se_prompt_id = rm_prompt_id m, se_stream = rm_stream m, se_messages = se_messages s,
      se_workdir = rm_workdir m, se_allowed_paths = rm_allowed_paths m,
      se_runtime_allowed_paths = rm_runtime_allowed_paths m,
      se_pending_runtime_allowed_paths = rm_pending_runtime_allowed_paths m,
      se_enabled_tools = rm_enabled_tools m, se_skill_dirs = rm_skill_dirs m,
      se_reasoning = rm_reasoning m, se_token_stats = rm_token_stats m,
      se_source = Some (rm_source m), se_project_id = rm_project_id m,
      se_run_mode = rm_run_mode m, se_global_rules = rm_global_rules m,
      se_rules_files = rm_rules_files m, se_todos = rm_todos m,
      se_active_plan = rm_active_plan m, se_active_goal = rm_active_goal m,
      se_pre_plan_mode = rm_pre_plan_mode m, se_pending_continue = rm_pending_continue m,
      se_created_at = rm_created_at m, se_updated_at = se_updated_at s\<rparr>"

text \<open>\<open>if let Some(v) = u.field { s.field = v; }\<close>, and the same for an optional field.\<close>

definition put :: "'a option \<Rightarrow> 'a \<Rightarrow> 'a" where
  "put u old = (case u of Some v \<Rightarrow> v | None \<Rightarrow> old)"

definition put_some :: "'a option \<Rightarrow> 'a option \<Rightarrow> 'a option" where
  "put_some u old = (case u of Some v \<Rightarrow> Some v | None \<Rightarrow> old)"

definition put_or_clear :: "bool \<Rightarrow> 'a option \<Rightarrow> 'a option \<Rightarrow> 'a option" where
  "put_or_clear clear u old = put_some u (if clear then None else old)"

definition apply_update :: "meta_update \<Rightarrow> session \<Rightarrow> session" where
  "apply_update u s =
     \<lparr>se_id = se_id s, se_title = put (mu_title u) (se_title s),
      se_provider_id = put (mu_provider_id u) (se_provider_id s),
      se_model = put (mu_model u) (se_model s),
      se_system_prompt = put_some (mu_system_prompt u) (se_system_prompt s),
      se_prompt_id = put_some (mu_prompt_id u) (se_prompt_id s),
      se_stream = put (mu_stream u) (se_stream s), se_messages = se_messages s,
      se_workdir = put_some (mu_workdir u) (se_workdir s),
      se_allowed_paths = put_some (mu_allowed_paths u) (se_allowed_paths s),
      se_runtime_allowed_paths = put (mu_runtime_allowed_paths u) (se_runtime_allowed_paths s),
      se_pending_runtime_allowed_paths =
        put (mu_pending_runtime_allowed_paths u) (se_pending_runtime_allowed_paths s),
      se_enabled_tools = put_some (mu_enabled_tools u) (se_enabled_tools s),
      se_skill_dirs = put_some (mu_skill_dirs u) (se_skill_dirs s),
      se_reasoning = put_some (mu_reasoning u) (se_reasoning s),
      se_token_stats = put_some (mu_token_stats u) (se_token_stats s),
      se_source = se_source s,
      se_project_id = put_some (mu_project_id u) (se_project_id s),
      se_run_mode = put (mu_run_mode u) (se_run_mode s),
      se_global_rules = put_some (mu_global_rules u) (se_global_rules s),
      se_rules_files = put_some (mu_rules_files u) (se_rules_files s),
      se_todos = put (mu_todos u) (se_todos s),
      se_active_plan =
        put_or_clear (mu_clear_active_plan u) (mu_active_plan u) (se_active_plan s),
      se_active_goal =
        put_or_clear (mu_clear_active_goal u) (mu_active_goal u) (se_active_goal s),
      se_pre_plan_mode =
        put_or_clear (mu_clear_pre_plan_mode u) (mu_pre_plan_mode u) (se_pre_plan_mode s),
      se_pending_continue =
        put_or_clear (mu_clear_pending_continue u) (mu_pending_continue u) (se_pending_continue s),
      se_created_at = se_created_at s, se_updated_at = se_updated_at s\<rparr>"

definition empty_session :: session where
  "empty_session = \<lparr>se_id = [], se_title = DEFAULT_TITLE, se_provider_id = [], se_model = [],
     se_system_prompt = None, se_prompt_id = None, se_stream = True, se_messages = [],
     se_workdir = None, se_allowed_paths = None, se_runtime_allowed_paths = [],
     se_pending_runtime_allowed_paths = [], se_enabled_tools = None, se_skill_dirs = None,
     se_reasoning = None, se_token_stats = None, se_source = None, se_project_id = None,
     se_run_mode = DefaultMode, se_global_rules = None, se_rules_files = None, se_todos = [],
     se_active_plan = None, se_active_goal = None, se_pre_plan_mode = None,
     se_pending_continue = None, se_created_at = 0, se_updated_at = 0\<rparr>"

datatype session_error =
  SessionNotFound str
| SchemaTooNew str nat
| MissingMeta
| WriteFailed
| LegacyUnreadable
| MessageNotFound str
| NotACompaction
| AlreadyContinued
| UpdateRefused str

text \<open>The state of the loop of \<open>read_jsonl\<close>: session, latest time, was there a meta line.\<close>

type_synonym fold_state = "session \<times> int \<times> bool"

fun fold_line :: "rollout_line \<Rightarrow> fold_state \<Rightarrow> session_error + fold_state" where
  "fold_line (MetaLine m) (s, ts, got) =
     (if rm_schema m > ROLLOUT_SCHEMA then Inl (SchemaTooNew (rm_id m) (rm_schema m))
      else Inr (apply_meta m s, max ts (rm_created_at m), True))"
| "fold_line (MessageLine m) (s, ts, got) =
     Inr (s\<lparr>se_messages := se_messages s @ [m]\<rparr>, max ts (ms_created_at m), got)"
| "fold_line (MetaUpdateLine u) (s, ts, got) = Inr (apply_update u s, max ts (mu_at u), got)"
| "fold_line (EventLine e) st = Inr st"

fun fold_lines :: "rollout_line option list \<Rightarrow> fold_state \<Rightarrow> session_error + fold_state" where
  "fold_lines [] st = Inr st"
| "fold_lines (None # ls) st = fold_lines ls st"
| "fold_lines (Some l # ls) st =
     (case fold_line l st of Inl e \<Rightarrow> Inl e | Inr st' \<Rightarrow> fold_lines ls st')"

definition fold_session :: "rollout_line option list \<Rightarrow> session_error + session" where
  "fold_session ls =
     (case fold_lines ls (empty_session, 0, False) of
        Inl e \<Rightarrow> Inl e
      | Inr (s, ts, got) \<Rightarrow>
          if \<not> got then Inl MissingMeta
          else Inr (s\<lparr>se_messages := sort_key ms_created_at (se_messages s),
                      se_updated_at := max ts (se_created_at s)\<rparr>))"

end
