(* ===== verification/Session_Files.thy ===== *)
theory Session_Files
  imports Session_Log
begin

text \<open>
  The operations on session files (\<open>crates/agent-core/src/storage/sessions.rs\<close>). A store holds, per
  session id, the file of the current layout, the file of an older layout and the v0 \<open>.json\<close>; a flag
  says whether writes succeed. An operation is a function from the store to a result and the store
  left behind.
\<close>

section \<open>The store\<close>

text \<open>
  A file is what was written line by line, with a flag for a last line that misses its line feed
  (\<open>append_line\<close> writes the line and the line feed in two calls); or one indented JSON object left by
  an old version, with a flag for a final line feed.
\<close>

datatype session_file = Lines "rollout_line option list" bool | WholeJson session bool

datatype json_file = Readable session | Garbled

record session_store =
  ss_new :: "str \<Rightarrow> session_file option"
  ss_old :: "str \<Rightarrow> session_file option"
  ss_json :: "str \<Rightarrow> json_file option"
  ss_source :: str
  ss_writes :: bool

type_synonym 'a op = "session_store \<Rightarrow> (session_error + 'a) \<times> session_store"

definition ret_op :: "'a \<Rightarrow> 'a op" where
  "ret_op x st = (Inr x, st)"

definition fail_op :: "session_error \<Rightarrow> 'a op" where
  "fail_op e st = (Inl e, st)"

text \<open>The \<open>?\<close> of Rust.\<close>

definition bind_op :: "'a op \<Rightarrow> ('a \<Rightarrow> 'b op) \<Rightarrow> 'b op" where
  "bind_op m f st = (case m st of (Inl e, st') \<Rightarrow> (Inl e, st') | (Inr x, st') \<Rightarrow> f x st')"

text \<open>\<open>.ok()\<close>.\<close>

definition attempt :: "'a op \<Rightarrow> 'a option op" where
  "attempt m st = (case m st of (Inl e, st') \<Rightarrow> (Inr None, st') | (Inr x, st') \<Rightarrow> (Inr (Some x), st'))"

section \<open>Reading and writing a file\<close>

definition full_lines :: "session \<Rightarrow> str \<Rightarrow> str option \<Rightarrow> rollout_line option list" where
  "full_lines s source forked =
     Some (MetaLine (meta_from_session s source forked)) # map (\<lambda>m. Some (MessageLine m)) (se_messages s)"

definition write_file :: "str \<Rightarrow> session_file \<Rightarrow> unit op" where
  "write_file sid f st =
     (if ss_writes st then (Inr (), st\<lparr>ss_new := (ss_new st)(sid \<mapsto> f)\<rparr>) else (Inl WriteFailed, st))"

definition write_jsonl_full :: "str \<Rightarrow> session \<Rightarrow> str \<Rightarrow> unit op" where
  "write_jsonl_full sid s source = write_file sid (Lines (full_lines s source None) False)"

text \<open>A line after a torn line is glued to it and decodes to nothing; a line after an indented object
  makes the whole file undecodable.\<close>

fun append_to_file :: "rollout_line \<Rightarrow> session_file \<Rightarrow> session_file" where
  "append_to_file l (Lines ls torn) =
     (if torn \<and> ls \<noteq> [] then Lines (butlast ls @ [None]) False else Lines (ls @ [Some l]) False)"
| "append_to_file l (WholeJson s ends_nl) = Lines (None # (if ends_nl then [Some l] else [])) False"

definition append_line :: "str \<Rightarrow> rollout_line \<Rightarrow> unit op" where
  "append_line sid l st =
     (case ss_new st sid of
        None \<Rightarrow> (Inl WriteFailed, st)
      | Some f \<Rightarrow> write_file sid (append_to_file l f) st)"

text \<open>The first of the two writes of \<open>append_line\<close>, before the process died.\<close>

definition append_cut_short :: "str \<Rightarrow> rollout_line \<Rightarrow> unit op" where
  "append_cut_short sid l st =
     (case ss_new st sid of
        None \<Rightarrow> (Inl WriteFailed, st)
      | Some f \<Rightarrow>
          write_file sid (case append_to_file l f of Lines ls _ \<Rightarrow> Lines ls True | g \<Rightarrow> g) st)"

definition read_jsonl :: "str \<Rightarrow> session op" where
  "read_jsonl sid st =
     (case ss_new st sid of
        None \<Rightarrow> (Inl (SessionNotFound sid), st)
      | Some (WholeJson s _) \<Rightarrow>
          (Inr s, snd (write_jsonl_full sid s (case se_source s of Some v \<Rightarrow> v | None \<Rightarrow> ss_source st) st))
      | Some (Lines ls _) \<Rightarrow> (fold_session ls, st))"

section \<open>Finding a file\<close>

definition find_jsonl :: "str \<Rightarrow> bool op" where
  "find_jsonl sid st =
     (case ss_new st sid of
        Some _ \<Rightarrow> (Inr True, st)
      | None \<Rightarrow>
          (case ss_old st sid of
             None \<Rightarrow> (Inr False, st)
           | Some f \<Rightarrow>
               if ss_writes st
               then (Inr True, st\<lparr>ss_new := (ss_new st)(sid \<mapsto> f), ss_old := (ss_old st)(sid := None)\<rparr>)
               else (Inl WriteFailed, st)))"

definition read_legacy_json :: "str \<Rightarrow> session op" where
  "read_legacy_json sid st =
     (case ss_json st sid of
        None \<Rightarrow> (Inl (SessionNotFound sid), st)
      | Some Garbled \<Rightarrow> (Inl LegacyUnreadable, st)
      | Some (Readable s) \<Rightarrow> (Inr s, st))"

definition load_session :: "str \<Rightarrow> session op" where
  "load_session sid = bind_op (find_jsonl sid) (\<lambda>found. if found then read_jsonl sid else read_legacy_json sid)"

definition preserve_source :: "str \<Rightarrow> str option op" where
  "preserve_source sid st =
     (case find_jsonl sid st of
        (Inr True, st') \<Rightarrow>
          (Inr (case ss_new st' sid of
                  Some (Lines (Some (MetaLine m) # _) _) \<Rightarrow> Some (rm_source m) | _ \<Rightarrow> None), st')
      | (_, st') \<Rightarrow> (Inr None, st'))"

definition archive_legacy_json :: "str \<Rightarrow> unit op" where
  "archive_legacy_json sid st =
     (Inr (), if ss_writes st then st\<lparr>ss_json := (ss_json st)(sid := None)\<rparr> else st)"

definition write_preserving :: "str \<Rightarrow> session \<Rightarrow> unit op" where
  "write_preserving sid s =
     bind_op (preserve_source sid) (\<lambda>src st.
       write_jsonl_full (se_id s) s (case src of Some v \<Rightarrow> v | None \<Rightarrow> ss_source st) st)"

text \<open>The file to append to: its id.\<close>

definition ensure_jsonl :: "str \<Rightarrow> str op" where
  "ensure_jsonl sid =
     bind_op (find_jsonl sid) (\<lambda>found.
       if found then ret_op sid
       else bind_op (load_session sid) (\<lambda>s.
            bind_op (write_preserving sid s) (\<lambda>_.
            bind_op (archive_legacy_json sid) (\<lambda>_. ret_op (se_id s)))))"

section \<open>Saving and appending\<close>

definition save_session :: "int \<Rightarrow> session \<Rightarrow> session op" where
  "save_session now s =
     (let s = s\<lparr>se_updated_at := now\<rparr> in
      bind_op (write_preserving (se_id s) s) (\<lambda>_.
      bind_op (archive_legacy_json (se_id s)) (\<lambda>_. ret_op s)))"

definition append_and_load :: "str \<Rightarrow> rollout_line \<Rightarrow> session op" where
  "append_and_load sid l =
     bind_op (ensure_jsonl sid) (\<lambda>target. bind_op (append_line target l) (\<lambda>_. load_session sid))"

definition append_message :: "str \<Rightarrow> message \<Rightarrow> session op" where
  "append_message sid m = append_and_load sid (MessageLine m)"

definition append_event :: "str \<Rightarrow> event_payload \<Rightarrow> unit op" where
  "append_event sid e = bind_op (ensure_jsonl sid) (\<lambda>target. append_line target (EventLine e))"

text \<open>The update written by \<open>update_meta\<close>: every field of the session it loaded.\<close>

definition snapshot :: "int \<Rightarrow> session \<Rightarrow> meta_update" where
  "snapshot now s = (no_update now)
     \<lparr>mu_title := Some (se_title s), mu_provider_id := Some (se_provider_id s),
      mu_model := Some (se_model s), mu_system_prompt := se_system_prompt s,
      mu_prompt_id := se_prompt_id s, mu_stream := Some (se_stream s),
      mu_workdir := se_workdir s, mu_allowed_paths := se_allowed_paths s,
      mu_runtime_allowed_paths := Some (se_runtime_allowed_paths s),
      mu_pending_runtime_allowed_paths := Some (se_pending_runtime_allowed_paths s),
      mu_enabled_tools := se_enabled_tools s, mu_skill_dirs := se_skill_dirs s,
      mu_reasoning := se_reasoning s, mu_token_stats := se_token_stats s,
      mu_project_id := se_project_id s, mu_run_mode := Some (se_run_mode s),
      mu_global_rules := se_global_rules s, mu_rules_files := se_rules_files s,
      mu_todos := Some (se_todos s), mu_active_plan := se_active_plan s,
      mu_active_goal := se_active_goal s, mu_pre_plan_mode := se_pre_plan_mode s,
      mu_pending_continue := se_pending_continue s\<rparr>"

text \<open>What \<open>update_meta\<close> does once it has loaded and changed the session.\<close>

definition write_update :: "int \<Rightarrow> str \<Rightarrow> session \<Rightarrow> session op" where
  "write_update now sid s = append_and_load sid (MetaUpdateLine (snapshot now s))"

definition update_meta :: "int \<Rightarrow> str \<Rightarrow> (session \<Rightarrow> session_error + session) \<Rightarrow> session op" where
  "update_meta now sid f =
     bind_op (load_session sid) (\<lambda>s. case f s of Inl e \<Rightarrow> fail_op e | Inr s' \<Rightarrow> write_update now sid s')"

definition bump_token_stats :: "int \<Rightarrow> str \<Rightarrow> token_stats \<Rightarrow> session_store \<Rightarrow> session_store" where
  "bump_token_stats now sid delta st =
     snd (update_meta now sid (\<lambda>s. Inr (s\<lparr>se_token_stats := Some (accumulate
       (case se_token_stats s of Some t \<Rightarrow> t | None \<Rightarrow> no_tokens) delta)\<rparr>)) st)"

definition delete_session :: "str \<Rightarrow> session_store \<Rightarrow> session_store" where
  "delete_session sid st = st\<lparr>ss_new := (ss_new st)(sid := None), ss_old := (ss_old st)(sid := None),
     ss_json := (ss_json st)(sid := None)\<rparr>"

section \<open>Creating\<close>

definition new_session ::
    "int \<Rightarrow> str \<Rightarrow> str \<Rightarrow> str \<Rightarrow> str option \<Rightarrow> str option \<Rightarrow> str \<Rightarrow> session" where
  "new_session now new_id provider model prompt prompt_id source = empty_session
     \<lparr>se_id := new_id, se_provider_id := provider, se_model := model, se_system_prompt := prompt,
      se_prompt_id := prompt_id, se_reasoning := default_reasoning_for_model model,
      se_source := Some source, se_created_at := now, se_updated_at := now\<rparr>"

definition create_with_source ::
    "int \<Rightarrow> str \<Rightarrow> str \<Rightarrow> str \<Rightarrow> str option \<Rightarrow> str option \<Rightarrow> str \<Rightarrow> session op" where
  "create_with_source now new_id provider model prompt prompt_id source =
     (let s = new_session now new_id provider model prompt prompt_id source in
      bind_op (write_jsonl_full new_id s source) (\<lambda>_. ret_op s))"

definition create_with_workspace ::
    "int \<Rightarrow> int \<Rightarrow> str \<Rightarrow> str \<Rightarrow> str \<Rightarrow> str option \<Rightarrow> str option \<Rightarrow> str \<Rightarrow> str option \<Rightarrow> str option \<Rightarrow>
     str list \<Rightarrow> session op" where
  "create_with_workspace now now' new_id provider model prompt prompt_id source project workdir allowed =
     bind_op (create_with_source now new_id provider model prompt prompt_id source) (\<lambda>s.
       save_session now' (s\<lparr>se_project_id := project, se_workdir := workdir,
         se_allowed_paths := (if allowed = [] then se_allowed_paths s else Some allowed)\<rparr>))"

fun up_to :: "str \<Rightarrow> message list \<Rightarrow> message list" where
  "up_to mid [] = []"
| "up_to mid (m # ms) = m # (if ms_id m = mid then [] else up_to mid ms)"

definition BRANCH_SUFFIX :: str where
  "BRANCH_SUFFIX = '' ('' @ [CHR 0xE5, CHR 0x88, CHR 0x86, CHR 0xE6, CHR 0x94, CHR 0xAF] @ '')''"

definition fork_session :: "int \<Rightarrow> str \<Rightarrow> str \<Rightarrow> str \<Rightarrow> session op" where
  "fork_session now new_id sid mid =
     bind_op (load_session sid) (\<lambda>src st.
       let s = src\<lparr>se_id := new_id, se_title := se_title src @ BRANCH_SUFFIX,
                   se_messages := up_to mid (se_messages src),
                   se_created_at := now, se_updated_at := now\<rparr>
       in bind_op (write_file new_id (Lines (full_lines s (ss_source st) (Some (se_id src))) False))
            (\<lambda>_. ret_op s) st)"

section \<open>Small updates\<close>

definition update_line :: "str \<Rightarrow> meta_update \<Rightarrow> session op" where
  "update_line sid u = append_and_load sid (MetaUpdateLine u)"

definition rename_session :: "int \<Rightarrow> str \<Rightarrow> str \<Rightarrow> session op" where
  "rename_session now sid title = update_line sid ((no_update now)\<lparr>mu_title := Some title\<rparr>)"

definition set_run_mode :: "int \<Rightarrow> str \<Rightarrow> run_mode \<Rightarrow> session op" where
  "set_run_mode now sid mode =
     bind_op (ensure_jsonl sid) (\<lambda>target.
     bind_op (attempt (load_session sid)) (\<lambda>prev.
     bind_op (append_line target (MetaUpdateLine ((no_update now)
       \<lparr>mu_run_mode := Some mode,
        mu_pre_plan_mode :=
          (case prev of
             Some s \<Rightarrow> if mode = PlanMode \<and> se_run_mode s \<noteq> PlanMode then Some (se_run_mode s) else None
           | None \<Rightarrow> None)\<rparr>))) (\<lambda>_. load_session sid)))"

definition set_todos :: "int \<Rightarrow> str \<Rightarrow> todo_item list \<Rightarrow> session op" where
  "set_todos now sid todos = update_line sid ((no_update now)\<lparr>mu_todos := Some todos\<rparr>)"

definition set_active_plan :: "int \<Rightarrow> str \<Rightarrow> str option \<Rightarrow> session op" where
  "set_active_plan now sid plan =
     update_line sid ((no_update now)\<lparr>mu_active_plan := plan, mu_clear_active_plan := (plan = None)\<rparr>)"

definition set_active_goal :: "int \<Rightarrow> str \<Rightarrow> active_goal option \<Rightarrow> session op" where
  "set_active_goal now sid goal =
     update_line sid ((no_update now)\<lparr>mu_active_goal := goal, mu_clear_active_goal := (goal = None)\<rparr>)"

definition set_pre_plan_mode :: "int \<Rightarrow> str \<Rightarrow> run_mode option \<Rightarrow> session op" where
  "set_pre_plan_mode now sid mode =
     update_line sid ((no_update now)\<lparr>mu_pre_plan_mode := mode, mu_clear_pre_plan_mode := (mode = None)\<rparr>)"

definition set_pending_continue :: "int \<Rightarrow> str \<Rightarrow> pending_continue option \<Rightarrow> session op" where
  "set_pending_continue now sid p =
     update_line sid ((no_update now)\<lparr>mu_pending_continue := p, mu_clear_pending_continue := (p = None)\<rparr>)"

section \<open>Markers\<close>

definition marker_message :: "str \<Rightarrow> int \<Rightarrow> message_meta \<Rightarrow> message" where
  "marker_message new_id now meta =
     \<lparr>ms_id = new_id, ms_role = MarkerRole, ms_content = [], ms_attachments = [], ms_tool_calls = [],
      ms_parts = [], ms_created_at = now, ms_meta = Some meta, ms_subagent_call_id = None,
      ms_run_duration_ms = None\<rparr>"

definition insert_switch_marker :: "int \<Rightarrow> str \<Rightarrow> str \<Rightarrow> message_meta \<Rightarrow> session op" where
  "insert_switch_marker now new_id sid meta = append_message sid (marker_message new_id now meta)"

definition insert_reasoning_switch_marker ::
    "int \<Rightarrow> str \<Rightarrow> str \<Rightarrow> reasoning_config option \<Rightarrow> reasoning_config option \<Rightarrow> session op" where
  "insert_reasoning_switch_marker now new_id sid old new =
     insert_switch_marker now new_id sid (ReasoningSwitchMeta old new)"

definition append_channel_forward_marker :: "int \<Rightarrow> str \<Rightarrow> str \<Rightarrow> str \<Rightarrow> forward_kind \<Rightarrow> str op" where
  "append_channel_forward_marker now new_id sid channel kind =
     bind_op (append_message sid (marker_message new_id now (ChannelForwardMeta channel kind PendingForward)))
       (\<lambda>_. ret_op new_id)"

section \<open>Rewriting\<close>

text \<open>The first message with an id, changed; was there a change?\<close>

fun change_first :: "str \<Rightarrow> (message \<Rightarrow> message option) \<Rightarrow> message list \<Rightarrow> message list \<times> bool" where
  "change_first mid f [] = ([], False)"
| "change_first mid f (m # ms) =
     (if ms_id m = mid then (case f m of Some m' \<Rightarrow> (m' # ms, True) | None \<Rightarrow> (m # ms, False))
      else (let (r, c) = change_first mid f ms in (m # r, c)))"

definition rewrite_message :: "int \<Rightarrow> str \<Rightarrow> str \<Rightarrow> (message \<Rightarrow> message option) \<Rightarrow> unit op" where
  "rewrite_message now sid mid f =
     bind_op (load_session sid) (\<lambda>s.
       let (ms, changed) = change_first mid f (se_messages s) in
       if changed then bind_op (save_session now (s\<lparr>se_messages := ms\<rparr>)) (\<lambda>_. ret_op ()) else ret_op ())"

definition resolve_channel_forward_marker :: "int \<Rightarrow> str \<Rightarrow> str \<Rightarrow> str \<Rightarrow> unit op" where
  "resolve_channel_forward_marker now sid mid outcome =
     rewrite_message now sid mid (\<lambda>m.
       case ms_meta m of
         Some (ChannelForwardMeta ch k _) \<Rightarrow>
           Some (m\<lparr>ms_meta := Some (ChannelForwardMeta ch k (ResolvedForward outcome))\<rparr>)
       | _ \<Rightarrow> None)"

definition set_message_run_duration :: "int \<Rightarrow> str \<Rightarrow> str \<Rightarrow> nat \<Rightarrow> unit op" where
  "set_message_run_duration now sid mid ms =
     rewrite_message now sid mid (\<lambda>m. Some (m\<lparr>ms_run_duration_ms := Some ms\<rparr>))"

fun message_position :: "str \<Rightarrow> message list \<Rightarrow> nat option" where
  "message_position mid [] = None"
| "message_position mid (m # ms) = (if ms_id m = mid then Some 0 else map_option Suc (message_position mid ms))"

definition truncate_after :: "int \<Rightarrow> str \<Rightarrow> str \<Rightarrow> session op" where
  "truncate_after now sid mid =
     bind_op (load_session sid) (\<lambda>s. save_session now (case message_position mid (se_messages s) of
       Some i \<Rightarrow> s\<lparr>se_messages := take (i + 1) (se_messages s)\<rparr> | None \<Rightarrow> s))"

definition truncate_inclusive :: "int \<Rightarrow> str \<Rightarrow> str \<Rightarrow> session op" where
  "truncate_inclusive now sid mid =
     bind_op (load_session sid) (\<lambda>s. save_session now (case message_position mid (se_messages s) of
       Some i \<Rightarrow> s\<lparr>se_messages := take i (se_messages s)\<rparr> | None \<Rightarrow> s))"

definition is_compact_marker :: "message \<Rightarrow> bool" where
  "is_compact_marker m = (case ms_meta m of Some (CompactBoundary _ _ _) \<Rightarrow> True | _ \<Rightarrow> False)"

definition undo_compaction :: "int \<Rightarrow> str \<Rightarrow> str \<Rightarrow> session op" where
  "undo_compaction now sid mid =
     bind_op (load_session sid) (\<lambda>s.
       case message_position mid (se_messages s) of
         None \<Rightarrow> fail_op (MessageNotFound mid)
       | Some i \<Rightarrow>
           if \<not> is_compact_marker (se_messages s ! i) then fail_op NotACompaction
           else if list_ex (\<lambda>m. ms_role m \<noteq> MarkerRole) (drop (i + 1) (se_messages s))
           then fail_op AlreadyContinued
           else save_session now (s\<lparr>se_messages := take i (se_messages s) @ drop (i + 1) (se_messages s)\<rparr>))"

end
