(* ===== verification/Session_Laws.thy ===== *)
theory Session_Laws
  imports Session_Files "HOL-Library.Multiset"
begin

text \<open>
  What the session files promise: an appended message appears where its time puts it, a saved
  session is read back, undoing a compaction is exact, and where the promises end: a torn append, a
  rewrite next to an append, an update next to another one, an old file that was not healed.
\<close>

section \<open>Sorting by time\<close>

lemma sort_key_snoc:
  "sort_key f (xs @ [x]) =
     filter (\<lambda>y. f y \<le> f x) (sort_key f xs) @ x # filter (\<lambda>y. f x < f y) (sort_key f xs)"
    (is "_ = ?r")
proof (rule properties_for_sort_key)
  show "mset ?r = mset (xs @ [x])"
    using multiset_partition [of "mset xs" "\<lambda>y. f y \<le> f x", symmetric] by (simp add: not_le)
  show "filter (\<lambda>y. f k = f y) ?r = filter (\<lambda>y. f k = f y) (xs @ [x])" for k
  proof -
    have "filter (\<lambda>y. f k = f y) (sort_key f xs) = filter (\<lambda>y. f k = f y) xs"
      using sort_key_stable [of f "f k" xs] by (simp add: eq_commute)
    moreover have "filter (\<lambda>y. f k = f y \<and> f y \<le> f x) ys =
        (if f k \<le> f x then filter (\<lambda>y. f k = f y) ys else [])"
      and "filter (\<lambda>y. f k = f y \<and> f x < f y) ys =
        (if f k \<le> f x then [] else filter (\<lambda>y. f k = f y) ys)" for ys
      by (auto simp: filter_empty_conv intro: filter_cong)
    ultimately show ?thesis by (auto simp: conj_commute)
  qed
  show "sorted (map f ?r)"
    by (auto simp: sorted_append sorted_filter sorted_sort_key)
qed

lemma sort_key_sorted_id: "sorted (map f xs) \<Longrightarrow> sort_key f xs = xs"
  by (rule properties_for_sort_key) auto

section \<open>Folding\<close>

lemma fold_lines_append:
  "fold_lines (xs @ ys) st =
     (case fold_lines xs st of Inl e \<Rightarrow> Inl e | Inr st' \<Rightarrow> fold_lines ys st')"
  by (induction xs st rule: fold_lines.induct) (auto split: sum.splits)

lemma fold_lines_messages:
  "fold_lines (map (\<lambda>m. Some (MessageLine m)) ms) (s, ts, got) =
     Inr (s\<lparr>se_messages := se_messages s @ ms\<rparr>, foldl max ts (map ms_created_at ms), got)"
  by (induction ms arbitrary: s ts) auto

text \<open>What reading returns, as a function of the state at the end of the loop.\<close>

definition close_session :: "fold_state \<Rightarrow> session_error + session" where
  "close_session = (\<lambda>(s, ts, got).
     if \<not> got then Inl MissingMeta
     else Inr (s\<lparr>se_messages := sort_key ms_created_at (se_messages s),
                 se_updated_at := max ts (se_created_at s)\<rparr>))"

lemma fold_session_close:
  "fold_session ls = (case fold_lines ls (empty_session, 0, False) of Inl e \<Rightarrow> Inl e | Inr t \<Rightarrow> close_session t)"
  by (auto simp: fold_session_def close_session_def split: sum.splits prod.splits)

lemma fold_session_Inr:
  assumes "fold_session ls = Inr s"
  obtains s0 ts where "fold_lines ls (empty_session, 0, False) = Inr (s0, ts, True)"
    and "s = s0\<lparr>se_messages := sort_key ms_created_at (se_messages s0), se_updated_at := max ts (se_created_at s0)\<rparr>"
  using assms by (auto simp: fold_session_def split: sum.splits if_splits)

lemma read_messages_sorted: "fold_session ls = Inr s \<Longrightarrow> sorted (map ms_created_at (se_messages s))"
  by (erule fold_session_Inr) simp

definition insert_by_time :: "message \<Rightarrow> message list \<Rightarrow> message list" where
  "insert_by_time m ms =
     filter (\<lambda>x. ms_created_at x \<le> ms_created_at m) ms @
     m # filter (\<lambda>x. ms_created_at m < ms_created_at x) ms"

lemma read_message_line:
  assumes "fold_session ls = Inr s"
  shows "fold_session (ls @ [Some (MessageLine m)]) =
     Inr (s\<lparr>se_messages := insert_by_time m (se_messages s),
            se_updated_at := max (se_updated_at s) (ms_created_at m)\<rparr>)"
  using assms
  by (elim fold_session_Inr)
     (auto simp: fold_session_def fold_lines_append sort_key_snoc insert_by_time_def)

lemma apply_update_frame [simp]:
  "se_messages (apply_update u s) = se_messages s"
  "se_created_at (apply_update u s) = se_created_at s"
  "se_id (apply_update u s) = se_id s"
  "se_source (apply_update u s) = se_source s"
  by (simp_all add: apply_update_def)

lemma apply_update_with:
  "apply_update u (s\<lparr>se_messages := ms, se_updated_at := t\<rparr>) =
     (apply_update u s)\<lparr>se_messages := ms, se_updated_at := t\<rparr>"
  by (simp add: apply_update_def)

lemma read_update_line:
  assumes "fold_session ls = Inr s"
  shows "fold_session (ls @ [Some (MetaUpdateLine u)]) =
     Inr ((apply_update u s)\<lparr>se_updated_at := max (se_updated_at s) (mu_at u)\<rparr>)"
  using assms
  by (elim fold_session_Inr)
     (auto simp: fold_session_def fold_lines_append apply_update_with)

lemma read_event_line: "fold_session (ls @ [Some (EventLine e)]) = fold_session ls"
  by (auto simp: fold_session_def fold_lines_append split: sum.splits)

lemma read_bad_line: "fold_session (ls @ [None]) = fold_session ls"
  by (auto simp: fold_session_def fold_lines_append split: sum.splits)

section \<open>Operations on a file of lines\<close>

lemmas file_ops = load_session_def bind_op_def find_jsonl_def read_jsonl_def ensure_jsonl_def ret_op_def

lemma find_jsonl_new: "ss_new st sid = Some f \<Longrightarrow> find_jsonl sid st = (Inr True, st)"
  by (simp add: find_jsonl_def)

lemma load_lines: "ss_new st sid = Some (Lines ls torn) \<Longrightarrow> load_session sid st = (fold_session ls, st)"
  by (simp add: load_session_def bind_op_def find_jsonl_def read_jsonl_def)

lemma ensure_lines: "ss_new st sid = Some f \<Longrightarrow> ensure_jsonl sid st = (Inr sid, st)"
  by (simp add: ensure_jsonl_def bind_op_def find_jsonl_def ret_op_def)

definition with_file :: "str \<Rightarrow> session_file \<Rightarrow> session_store \<Rightarrow> session_store" where
  "with_file sid f st = st\<lparr>ss_new := (ss_new st)(sid \<mapsto> f)\<rparr>"

lemma with_file_simps [simp]:
  "ss_new (with_file sid f st) = (ss_new st)(sid \<mapsto> f)"
  "ss_writes (with_file sid f st) = ss_writes st"
  "ss_source (with_file sid f st) = ss_source st"
  "with_file sid f (with_file sid g st) = with_file sid f st"
  by (simp_all add: with_file_def)

lemma append_line_file:
  "ss_new st sid = Some f \<Longrightarrow> ss_writes st \<Longrightarrow>
    append_line sid l st = (Inr (), with_file sid (append_to_file l f) st)"
  by (simp add: append_line_def write_file_def with_file_def)

lemma append_and_load_lines:
  "ss_new st sid = Some (Lines ls False) \<Longrightarrow> ss_writes st \<Longrightarrow>
    append_and_load sid l st =
      (fold_session (ls @ [Some l]), with_file sid (Lines (ls @ [Some l]) False) st)"
  by (simp add: append_and_load_def file_ops append_line_file)

text \<open>\<open>ready sid s st\<close>: the session is a file of lines that reads as \<open>s\<close>, and writes succeed.\<close>

definition ready :: "str \<Rightarrow> session \<Rightarrow> session_store \<Rightarrow> bool" where
  "ready sid s st \<longleftrightarrow>
     ss_writes st \<and> (\<exists>ls. ss_new st sid = Some (Lines ls False) \<and> fold_session ls = Inr s)"

lemma ready_load: "ready sid s st \<Longrightarrow> load_session sid st = (Inr s, st)"
  by (auto simp: ready_def file_ops)

lemma ready_message:
  assumes "ready sid s st"
  obtains st' where "append_message sid m st =
      (Inr (s\<lparr>se_messages := insert_by_time m (se_messages s),
              se_updated_at := max (se_updated_at s) (ms_created_at m)\<rparr>), st')"
    and "ready sid (s\<lparr>se_messages := insert_by_time m (se_messages s),
              se_updated_at := max (se_updated_at s) (ms_created_at m)\<rparr>) st'"
  using assms
  by (fastforce simp: ready_def append_message_def append_and_load_lines read_message_line)

lemma ready_update:
  assumes "ready sid s st"
  obtains st' where "update_line sid u st =
      (Inr ((apply_update u s)\<lparr>se_updated_at := max (se_updated_at s) (mu_at u)\<rparr>), st')"
    and "ready sid ((apply_update u s)\<lparr>se_updated_at := max (se_updated_at s) (mu_at u)\<rparr>) st'"
  using assms
  by (fastforce simp: ready_def update_line_def append_and_load_lines read_update_line)

section \<open>The log as an interface\<close>

text \<open>What a writer of messages needs of a log: an append adds the message and keeps the others.\<close>

locale message_log =
  fixes holds :: "message set \<Rightarrow> 'st \<Rightarrow> bool"
    and append :: "message \<Rightarrow> 'st \<Rightarrow> 'st"
  assumes append_holds: "holds M st \<Longrightarrow> holds (insert m M) (append m st)"
begin

lemma append_all_holds: "holds M st \<Longrightarrow> holds (M \<union> set ms) (fold append ms st)"
proof (induction ms arbitrary: M st)
  case (Cons m ms)
  then show ?case using append_holds [of M st m] by fastforce
qed simp

end

definition log_holds :: "str \<Rightarrow> message set \<Rightarrow> session_store \<Rightarrow> bool" where
  "log_holds sid M st \<longleftrightarrow> (\<exists>s. ready sid s st \<and> set (se_messages s) = M)"

lemma set_insert_by_time [simp]: "set (insert_by_time m ms) = insert m (set ms)"
  by (auto simp: insert_by_time_def)

lemma append_ready:
  assumes "ready sid s st"
  obtains r where "ready sid r (snd (append_message sid m st))" and "fst (append_message sid m st) = Inr r"
    and "set (se_messages r) = insert m (set (se_messages s))"
  by (rule ready_message [OF assms, of m]) (auto intro: that)

interpretation session_log: message_log "log_holds sid" "\<lambda>m st. snd (append_message sid m st)" for sid
  by unfold_locales (force simp: log_holds_def elim: append_ready)

section \<open>Rewriting a file\<close>

lemma read_full_lines:
  "fold_session (full_lines s source forked) =
     Inr (s\<lparr>se_messages := sort_key ms_created_at (se_messages s),
            se_source := Some (case se_source s of Some v \<Rightarrow> v | None \<Rightarrow> source),
            se_updated_at := max (foldl max (max 0 (se_created_at s)) (map ms_created_at (se_messages s)))
              (se_created_at s)\<rparr>)"
  by (cases s)
     (simp add: fold_session_def full_lines_def fold_lines_messages meta_from_session_def
       ROLLOUT_SCHEMA_def apply_meta_def empty_session_def)

lemma preserve_source_cases:
  obtains v st' where "preserve_source sid st = (Inr v, st')" and "ss_writes st' = ss_writes st"
    and "ss_source st' = ss_source st"
  by (cases "ss_new st sid"; cases "ss_old st sid"; cases "ss_writes st")
     (auto simp: preserve_source_def find_jsonl_def)

text \<open>The session a save leaves behind, as the next load sees it.\<close>

definition as_read_back :: "session \<Rightarrow> session" where
  "as_read_back s = s\<lparr>se_messages := sort_key ms_created_at (se_messages s),
     se_updated_at := max (foldl max (max 0 (se_created_at s)) (map ms_created_at (se_messages s)))
       (se_created_at s)\<rparr>"

lemma save_ready:
  assumes "ss_writes st" and "se_source s \<noteq> None"
  obtains st' where "save_session now s st = (Inr (s\<lparr>se_updated_at := now\<rparr>), st')"
    and "ready (se_id s) (as_read_back s) st'"
proof -
  obtain v st1 where p: "preserve_source (se_id s) st = (Inr v, st1)" "ss_writes st1 = ss_writes st"
    by (rule preserve_source_cases)
  have "fold_session (full_lines (s\<lparr>se_updated_at := now\<rparr>) src None) = Inr (as_read_back s)" for src
    using assms(2) by (auto simp: read_full_lines as_read_back_def)
  with p assms(1) that show thesis
    by (simp add: save_session_def Let_def write_preserving_def bind_op_def write_jsonl_full_def
        write_file_def archive_legacy_json_def ret_op_def ready_def)
qed

lemma as_read_back_messages [simp]:
  "se_messages (as_read_back s) = sort_key ms_created_at (se_messages s)"
  by (simp add: as_read_back_def)

lemma ready_sorted: "ready sid s st \<Longrightarrow> sorted (map ms_created_at (se_messages s))"
  by (auto simp: ready_def dest: read_messages_sorted)

lemma ready_writes: "ready sid s st \<Longrightarrow> ss_writes st"
  by (simp add: ready_def)

section \<open>Undoing a compaction\<close>

lemma message_position_append:
  "mid \<notin> ms_id ` set xs \<Longrightarrow> message_position mid (xs @ ys) = map_option ((+) (length xs)) (message_position mid ys)"
  by (cases "message_position mid ys"; induction xs) auto

lemma filter_split_sorted:
  fixes f :: "'a \<Rightarrow> int"
  shows "sorted (map f xs) \<Longrightarrow> filter (\<lambda>x. f x \<le> t) xs @ filter (\<lambda>x. t < f x) xs = xs"
proof (induction xs)
  case (Cons a xs)
  show ?case
  proof (cases "f a \<le> t")
    case False
    with Cons.prems have "\<forall>x \<in> set xs. t < f x" by fastforce
    with False show ?thesis by (simp add: filter_empty_conv not_le)
  qed (use Cons in simp)
qed simp

lemma insert_by_time_split:
  obtains as bs where "insert_by_time m ms = as @ m # bs"
    and "sorted (map ms_created_at ms) \<Longrightarrow> as @ bs = ms"
    and "as = filter (\<lambda>x. ms_created_at x \<le> ms_created_at m) ms"
    and "bs = filter (\<lambda>x. ms_created_at m < ms_created_at x) ms"
proof -
  have "sorted (map ms_created_at ms) \<Longrightarrow>
      filter (\<lambda>x. ms_created_at x \<le> ms_created_at m) ms @
      filter (\<lambda>x. ms_created_at m < ms_created_at x) ms = ms"
    by (rule filter_split_sorted)
  with that show thesis by (simp add: insert_by_time_def)
qed

text \<open>C18. Undoing the compaction that was just appended gives back exactly the messages from before
  it, as long as only markers are later than it.\<close>

theorem undo_compaction_restores_the_history:
  assumes "ready sid s st" and "se_id s = sid" and "se_source s \<noteq> None"
    and "ms_role b = MarkerRole" and "is_compact_marker b"
    and "ms_id b \<notin> ms_id ` set (se_messages s)"
    and "\<forall>x \<in> set (se_messages s). ms_created_at b < ms_created_at x \<longrightarrow> ms_role x = MarkerRole"
  shows "\<exists>r st'. undo_compaction now sid (ms_id b) (snd (append_message sid b st)) = (Inr r, st') \<and>
    se_messages r = se_messages s"
proof -
  obtain as bs where split: "insert_by_time b (se_messages s) = as @ b # bs"
    "as @ bs = se_messages s" "bs = filter (\<lambda>x. ms_created_at b < ms_created_at x) (se_messages s)"
    by (rule insert_by_time_split [of b "se_messages s"]) (use ready_sorted [OF assms(1)] in blast)
  define s1 where "s1 = s\<lparr>se_messages := as @ b # bs,
    se_updated_at := max (se_updated_at s) (ms_created_at b)\<rparr>"
  obtain st1 where app: "append_message sid b st = (Inr s1, st1)" and rdy: "ready sid s1 st1"
    by (rule ready_message [OF assms(1), of b]) (auto simp: s1_def split)
  have pos: "message_position (ms_id b) (as @ b # bs) = Some (length as)"
    using assms(6) by (subst message_position_append) (auto simp flip: split(2))
  have markers: "\<not> list_ex (\<lambda>m. ms_role m \<noteq> MarkerRole) bs"
    using assms(7) by (auto simp: list_ex_iff split(3))
  obtain st2 where "save_session now (s1\<lparr>se_messages := as @ bs\<rparr>) st1 =
      (Inr (s1\<lparr>se_messages := as @ bs, se_updated_at := now\<rparr>), st2)"
    by (rule save_ready [of st1 "s1\<lparr>se_messages := as @ bs\<rparr>" now])
       (use ready_writes [OF rdy] assms(3) in \<open>auto simp: s1_def\<close>)
  then show ?thesis
    using app pos markers assms(5) ready_load [OF rdy]
    by (simp add: undo_compaction_def bind_op_def s1_def split(2))
qed

section \<open>Appending\<close>

text \<open>An appended message is read back behind every message that is not later and before every
  later one, and nothing else of the session changes but the time of the last change.\<close>

theorem appended_message_is_inserted_by_time:
  assumes "ready sid s st"
  shows "fst (append_message sid m st) =
    Inr (s\<lparr>se_messages := filter (\<lambda>x. ms_created_at x \<le> ms_created_at m) (se_messages s) @
              m # filter (\<lambda>x. ms_created_at m < ms_created_at x) (se_messages s),
            se_updated_at := max (se_updated_at s) (ms_created_at m)\<rparr>)"
  by (rule ready_message [OF assms, of m]) (simp add: insert_by_time_def)

text \<open>C24. Saving and reading a session back normalises it and loses nothing else. In a store that can be
  written, a session with a recorded source comes back with its messages sorted by their times,
  those of one time in their old order, and with the time of its last change computed anew from its
  creation and its newest message, whatever time it had and whenever it was saved; every other
  field is as it was.\<close>

theorem saved_session_is_read_back:
  assumes "ss_writes st" and "se_source s \<noteq> None"
  shows "fst (load_session (se_id s) (snd (save_session now s st))) =
    Inr (s\<lparr>se_messages := sort_key ms_created_at (se_messages s),
            se_updated_at := max (foldl max (max 0 (se_created_at s)) (map ms_created_at (se_messages s)))
              (se_created_at s)\<rparr>)"
proof -
  obtain st' where "save_session now s st = (Inr (s\<lparr>se_updated_at := now\<rparr>), st')"
    and "ready (se_id s) (as_read_back s) st'"
    by (rule save_ready [OF assms])
  then show ?thesis by (simp add: ready_load as_read_back_def)
qed

text \<open>Small updates change the fields they name.\<close>

lemma ready_run_mode:
  assumes "ready sid s st"
  obtains r st' where "set_run_mode now sid mode st = (Inr r, st')" and "ready sid r st'"
    and "se_run_mode r = mode" and "se_source r = se_source s" and "se_messages r = se_messages s"
    and "se_id r = se_id s"
    and "se_pre_plan_mode r =
      (if mode = PlanMode \<and> se_run_mode s \<noteq> PlanMode then Some (se_run_mode s) else se_pre_plan_mode s)"
proof -
  define u where "u = (no_update now)\<lparr>mu_run_mode := Some mode, mu_pre_plan_mode :=
    (if mode = PlanMode \<and> se_run_mode s \<noteq> PlanMode then Some (se_run_mode s) else None)\<rparr>"
  obtain ls where ls: "ss_new st sid = Some (Lines ls False)" "fold_session ls = Inr s" "ss_writes st"
    using assms by (auto simp: ready_def)
  obtain st' where upd: "update_line sid u st =
      (Inr ((apply_update u s)\<lparr>se_updated_at := max (se_updated_at s) (mu_at u)\<rparr>), st')"
    and rdy: "ready sid ((apply_update u s)\<lparr>se_updated_at := max (se_updated_at s) (mu_at u)\<rparr>) st'"
    by (rule ready_update [OF assms, of u])
  have "set_run_mode now sid mode st = update_line sid u st"
    using ls by (simp add: set_run_mode_def attempt_def update_line_def append_and_load_def u_def file_ops)
  with upd show thesis
    by (intro that [OF _ rdy]) (auto simp: apply_update_def u_def no_update_def put_def put_some_def put_or_clear_def)
qed

text \<open>Entering plan mode a second time keeps the mode to return to: the one before the first time.\<close>

theorem plan_mode_entered_twice_keeps_the_way_back:
  assumes "ready sid s st" and "se_run_mode s \<noteq> PlanMode"
  shows "\<exists>r st'. set_run_mode t2 sid PlanMode (snd (set_run_mode t1 sid PlanMode st)) = (Inr r, st') \<and>
    se_run_mode r = PlanMode \<and> se_pre_plan_mode r = Some (se_run_mode s)"
proof -
  obtain s1 st1 where "set_run_mode t1 sid PlanMode st = (Inr s1, st1)" and "ready sid s1 st1"
    and "se_run_mode s1 = PlanMode" and "se_pre_plan_mode s1 = Some (se_run_mode s)"
    by (rule ready_run_mode [OF assms(1), of t1 PlanMode]) (use assms(2) in auto)
  moreover from this(2) obtain r st' where "set_run_mode t2 sid PlanMode st1 = (Inr r, st')"
    and "se_run_mode r = PlanMode" and "se_pre_plan_mode r = se_pre_plan_mode s1"
    by (rule ready_run_mode [of sid s1 st1 t2 PlanMode]) (use calculation(3) in auto)
  ultimately show ?thesis by auto
qed

section \<open>Where the promises end\<close>

text \<open>The update of the token totals writes every field it loaded: a change of the run mode by
  another process between its load and its append is undone.\<close>

theorem update_reverts_a_concurrent_run_mode:
  assumes "ready sid s st"
  shows "\<exists>r st'. write_update t2 sid (s\<lparr>se_token_stats := stats\<rparr>) (snd (set_run_mode t1 sid mode st)) =
    (Inr r, st') \<and> se_run_mode r = se_run_mode s"
proof -
  obtain s1 st1 where "set_run_mode t1 sid mode st = (Inr s1, st1)" and rdy: "ready sid s1 st1"
    by (rule ready_run_mode [OF assms, of t1 mode])
  moreover obtain st2 where "write_update t2 sid (s\<lparr>se_token_stats := stats\<rparr>) st1 =
      (Inr ((apply_update (snapshot t2 (s\<lparr>se_token_stats := stats\<rparr>)) s1)
        \<lparr>se_updated_at := max (se_updated_at s1) (mu_at (snapshot t2 (s\<lparr>se_token_stats := stats\<rparr>)))\<rparr>), st2)"
    by (rule ready_update [OF rdy]) (auto simp: write_update_def update_line_def)
  ultimately show ?thesis
    by (simp add: apply_update_def snapshot_def no_update_def put_def)
qed

theorem cleared_goal_comes_back:
  assumes "ready sid s st" and "se_active_goal s \<noteq> None"
  shows "\<exists>r st'. write_update t2 sid (s\<lparr>se_token_stats := stats\<rparr>) (snd (set_active_goal t1 sid None st)) =
    (Inr r, st') \<and> se_active_goal r = se_active_goal s"
proof -
  obtain s1 st1 where "set_active_goal t1 sid None st = (Inr s1, st1)" and rdy: "ready sid s1 st1"
    unfolding set_active_goal_def by (rule ready_update [OF assms(1)])
  moreover obtain st2 where "write_update t2 sid (s\<lparr>se_token_stats := stats\<rparr>) st1 =
      (Inr ((apply_update (snapshot t2 (s\<lparr>se_token_stats := stats\<rparr>)) s1)
        \<lparr>se_updated_at := max (se_updated_at s1) (mu_at (snapshot t2 (s\<lparr>se_token_stats := stats\<rparr>)))\<rparr>), st2)"
    by (rule ready_update [OF rdy]) (auto simp: write_update_def update_line_def)
  ultimately show ?thesis
    using assms(2) by (auto simp: apply_update_def snapshot_def no_update_def put_or_clear_def put_some_def)
qed

theorem rewrite_loses_a_concurrent_message:
  assumes "ready sid s st" and "se_id s' = sid" and "se_source s' \<noteq> None"
  shows "\<exists>r st'. load_session sid (snd (save_session now s' (snd (append_message sid m st)))) = (Inr r, st') \<and>
    set (se_messages r) = set (se_messages s')"
proof -
  obtain st1 where "ready sid (s\<lparr>se_messages := insert_by_time m (se_messages s),
      se_updated_at := max (se_updated_at s) (ms_created_at m)\<rparr>) st1"
    and app: "snd (append_message sid m st) = st1"
    by (rule ready_message [OF assms(1), of m]) auto
  then have "ss_writes st1" by (simp add: ready_def)
  then obtain st2 where "save_session now s' st1 = (Inr (s'\<lparr>se_updated_at := now\<rparr>), st2)"
    and "ready sid (as_read_back s') st2"
    by (rule save_ready [of st1 s' now]) (use assms(2,3) in auto)
  with app show ?thesis by (auto simp: ready_load)
qed

text \<open>When a process dies between the two writes of an append, the message and the next one
  appended by anyone are both lost.\<close>

theorem torn_append_loses_the_next_message:
  assumes "ready sid s st"
  shows "fst (append_message sid m' (snd (append_cut_short sid (MessageLine m) st))) = Inr s"
proof -
  obtain ls where "ss_new st sid = Some (Lines ls False)" "fold_session ls = Inr s" "ss_writes st"
    using assms by (auto simp: ready_def)
  then show ?thesis
    by (simp add: append_cut_short_def write_file_def append_message_def append_and_load_def file_ops
        append_line_def read_bad_line)
qed

theorem unhealed_file_is_destroyed_by_a_rename:
  assumes "ss_new st sid = Some (WholeJson s ends_nl)" and "ss_writes st"
  shows "fst (load_session sid st) = Inr s \<and> fst (rename_session now sid title st) = Inl MissingMeta"
  using assms
  by (simp add: rename_session_def update_line_def append_and_load_def file_ops append_line_def
      write_file_def fold_session_def empty_session_def)

section \<open>A concrete session\<close>

definition ex_session :: session where
  "ex_session = empty_session\<lparr>se_id := ''s1'', se_source := Some ''cli'', se_run_mode := Yolo,
     se_messages := [marker_message ''m1'' 5 InterruptedMeta], se_created_at := 3, se_updated_at := 5\<rparr>"

definition ex_sessions :: session_store where
  "ex_sessions = \<lparr>ss_new = [''s1'' \<mapsto> Lines (full_lines ex_session ''cli'' None) False], ss_old = Map.empty,
     ss_json = Map.empty, ss_source = ''desktop'', ss_writes = True\<rparr>"

lemma ex_ready: "ready ''s1'' ex_session ex_sessions"
  by (simp add: ready_def ex_sessions_def read_full_lines ex_session_def marker_message_def)

lemma ex_session_fields:
  "se_id ex_session = ''s1''" "se_source ex_session = Some ''cli''" "se_run_mode ex_session = Yolo"
  "se_messages ex_session = [marker_message ''m1'' 5 InterruptedMeta]" "ss_writes ex_sessions"
  by (simp_all add: ex_session_def ex_sessions_def)

definition ex_message :: message where
  "ex_message = (marker_message ''m2'' 4 (CompactBoundary ''sum'' 9 2))"

theorem appended_message_is_inserted_by_time_witness:
  "map_sum id (\<lambda>s. map ms_id (se_messages s)) (fst (append_message ''s1'' ex_message ex_sessions)) =
     Inr [''m2'', ''m1'']"
  using appended_message_is_inserted_by_time [OF ex_ready, of ex_message]
  by (simp add: ex_session_fields ex_message_def marker_message_def)

theorem saved_session_is_read_back_witness:
  "map_sum id se_updated_at (fst (load_session ''s1'' (snd (save_session 9 ex_session ex_sessions)))) = Inr 5"
  using saved_session_is_read_back [of ex_sessions ex_session 9]
  by (simp add: ex_session_def ex_sessions_def marker_message_def)

theorem undo_compaction_restores_the_history_witness:
  "\<exists>r st'. undo_compaction 9 ''s1'' ''m2'' (snd (append_message ''s1'' ex_message ex_sessions)) = (Inr r, st') \<and>
    se_messages r = [marker_message ''m1'' 5 InterruptedMeta]"
  using undo_compaction_restores_the_history [OF ex_ready, of ex_message 9]
  by (simp add: ex_session_fields ex_message_def marker_message_def is_compact_marker_def)

theorem plan_mode_entered_twice_keeps_the_way_back_witness:
  "\<exists>r st'. set_run_mode 8 ''s1'' PlanMode (snd (set_run_mode 7 ''s1'' PlanMode ex_sessions)) = (Inr r, st') \<and>
    se_run_mode r = PlanMode \<and> se_pre_plan_mode r = Some Yolo"
  using plan_mode_entered_twice_keeps_the_way_back [OF ex_ready, of 8 7] by (simp add: ex_session_fields)

theorem update_reverts_a_concurrent_run_mode_witness:
  "\<exists>r st'. write_update 8 ''s1'' (ex_session\<lparr>se_token_stats := Some no_tokens\<rparr>)
     (snd (set_run_mode 7 ''s1'' DefaultMode ex_sessions)) = (Inr r, st') \<and> se_run_mode r = Yolo"
  using update_reverts_a_concurrent_run_mode [OF ex_ready, of 8 "Some no_tokens" 7 DefaultMode]
  by (simp add: ex_session_fields)

theorem torn_append_loses_the_next_message_witness:
  "fst (append_message ''s1'' (ex_message\<lparr>ms_id := ''m3''\<rparr>)
     (snd (append_cut_short ''s1'' (MessageLine ex_message) ex_sessions))) = Inr ex_session"
  by (rule torn_append_loses_the_next_message [OF ex_ready])

theorem rewrite_loses_a_concurrent_message_witness:
  "\<exists>r st'. load_session ''s1'' (snd (save_session 9 ex_session (snd (append_message ''s1'' ex_message ex_sessions)))) =
    (Inr r, st') \<and> set (se_messages r) = {marker_message ''m1'' 5 InterruptedMeta}"
  using rewrite_loses_a_concurrent_message [OF ex_ready, of ex_session 9 ex_message]
  by (simp add: ex_session_fields)

theorem unhealed_file_is_destroyed_by_a_rename_witness:
  "fst (load_session ''s2'' (ex_sessions\<lparr>ss_new := [''s2'' \<mapsto> WholeJson ex_session False]\<rparr>)) = Inr ex_session \<and>
   fst (rename_session 9 ''s2'' ''t'' (ex_sessions\<lparr>ss_new := [''s2'' \<mapsto> WholeJson ex_session False]\<rparr>)) = Inl MissingMeta"
  by (rule unhealed_file_is_destroyed_by_a_rename [where ends_nl = False]) (simp_all add: ex_session_fields)

end
