(* ===== verification/Session_List.thy ===== *)
theory Session_List
  imports Session_Laws
begin

text \<open>
  The session list (\<open>list\<close>, \<open>read_jsonl_meta_only\<close>, \<open>top_level_i64_field\<close> of
  \<open>crates/agent-core/src/storage/sessions.rs\<close>): message lines are not decoded; their time and their role
  are read off the bytes. The decoder is an argument, a line is its trimmed text.
\<close>

section \<open>A number in a JSON object, without decoding it\<close>

text \<open>The bytes of a string up to its closing quote, and what follows.\<close>

fun take_string :: "bool \<Rightarrow> str \<Rightarrow> (str \<times> str) option" where
  "take_string esc [] = None"
| "take_string esc (c # s) =
     (if esc then map_option (\<lambda>(k, r). (c # k, r)) (take_string False s)
      else if c = bs then map_option (\<lambda>(k, r). (c # k, r)) (take_string True s)
      else if c = dq then Some ([], s)
      else map_option (\<lambda>(k, r). (c # k, r)) (take_string False s))"

lemma take_string_value: "take_string esc s = Some (k, r) \<Longrightarrow> s = k @ dq # r"
  by (induction esc s arbitrary: k r rule: take_string.induct) (auto split: if_splits)

lemma take_string_length: "take_string esc s = Some (k, r) \<Longrightarrow> length r < length s"
  by (drule take_string_value) simp

definition ascii_ws :: "char \<Rightarrow> bool" where
  "ascii_ws c \<longleftrightarrow> c = sp \<or> c = tab \<or> c = nl \<or> c = CHR 0x0C \<or> c = cr"

definition digit_value :: "char \<Rightarrow> int" where
  "digit_value c = of_char c - 48"

text \<open>\<open>parse::<i64>().ok()\<close> of an optional minus sign and digits.\<close>

definition read_i64 :: "str \<Rightarrow> int option" where
  "read_i64 s =
     (let neg = (s \<noteq> [] \<and> hd s = CHR ''-'');
          ds = takeWhile ascii_digit (if neg then tl s else s);
          v = foldl (\<lambda>a c. 10 * a + digit_value c) 0 ds;
          n = (if neg then - v else v)
      in if ds = [] then None else if - (2 ^ 63) \<le> n \<and> n < 2 ^ 63 then Some n else None)"

function scan_field :: "str \<Rightarrow> int \<Rightarrow> str \<Rightarrow> int option" where
  "scan_field field depth [] = None"
| "scan_field field depth (c # s) =
     (if c = CHR ''{'' \<or> c = CHR ''['' then scan_field field (depth + 1) s
      else if c = CHR ''}'' \<or> c = CHR '']'' then scan_field field (depth - 1) s
      else if c = dq then
        (case take_string False s of
           None \<Rightarrow> None
         | Some (key, r) \<Rightarrow>
             if depth = 1 then
               (let r1 = dropWhile ascii_ws r in
                if r1 = [] \<or> hd r1 \<noteq> CHR '':'' then scan_field field depth r1
                else if key \<noteq> field then scan_field field depth (tl r1)
                else read_i64 (dropWhile ascii_ws (tl r1)))
             else scan_field field depth r)
      else scan_field field depth s)"
  by pat_completeness auto

termination
proof (relation "measure (\<lambda>(field, depth, s). length s)", goal_cases)
  case (4 field depth c s x k r r1)
  then show ?case
    using take_string_length [of False s k r] length_dropWhile_le [of ascii_ws r] by simp
next
  case (5 field depth c s x k r r1)
  then show ?case
    using take_string_length [of False s k r] length_dropWhile_le [of ascii_ws r] by simp
next
  case (6 field depth c s x k r)
  then show ?case
    using take_string_length [of False s k r] by simp
qed simp_all

definition top_level_i64_field :: "str \<Rightarrow> str \<Rightarrow> int option" where
  "top_level_i64_field json field = scan_field field 0 json"

section \<open>Reading everything but the messages\<close>

definition MESSAGE_TAG :: str where
  "MESSAGE_TAG = [CHR ''{'', dq] @ ''type'' @ [dq, CHR '':'', dq] @ ''message''"

definition EVENT_TAG :: str where
  "EVENT_TAG = [CHR ''{'', dq] @ ''type'' @ [dq, CHR '':'', dq] @ ''event''"

definition MARKER_TAG :: str where
  "MARKER_TAG = [dq] @ ''role'' @ [dq, CHR '':'', dq] @ ''marker''"

definition looks_like_marker :: "str \<Rightarrow> bool" where
  "looks_like_marker l \<longleftrightarrow> length l < 200 \<and> contains_str l MARKER_TAG"

type_synonym decoder = "str \<Rightarrow> rollout_line option"

definition meta_line ::
    "decoder \<Rightarrow> str \<Rightarrow> fold_state \<times> nat \<Rightarrow> session_error + fold_state \<times> nat" where
  "meta_line decode l = (\<lambda>((s, ts, got), n).
     if starts_with l MESSAGE_TAG then
       Inr ((s, (case top_level_i64_field l ''created_at'' of Some t \<Rightarrow> max ts t | None \<Rightarrow> ts), got),
            if looks_like_marker l then n else n + 1)
     else if starts_with l EVENT_TAG then Inr ((s, ts, got), n)
     else (case decode l of
             None \<Rightarrow> Inr ((s, ts, got), n)
           | Some (MessageLine m) \<Rightarrow>
               Inr ((s, max ts (ms_created_at m), got), if ms_role m = MarkerRole then n else n + 1)
           | Some line \<Rightarrow>
               (case fold_line line (s, ts, got) of Inl e \<Rightarrow> Inl e | Inr st \<Rightarrow> Inr (st, n))))"

fun meta_lines ::
    "decoder \<Rightarrow> str list \<Rightarrow> fold_state \<times> nat \<Rightarrow> session_error + fold_state \<times> nat" where
  "meta_lines decode [] st = Inr st"
| "meta_lines decode (l # ls) st =
     (case meta_line decode l st of Inl e \<Rightarrow> Inl e | Inr st' \<Rightarrow> meta_lines decode ls st')"

definition read_meta_only :: "decoder \<Rightarrow> str list \<Rightarrow> session_error + session \<times> nat" where
  "read_meta_only decode ls =
     (case meta_lines decode ls ((empty_session, 0, False), 0) of
        Inl e \<Rightarrow> Inl e
      | Inr ((s, ts, got), n) \<Rightarrow>
          if \<not> got then Inl MissingMeta
          else Inr (s\<lparr>se_updated_at := max ts (se_created_at s)\<rparr>, n))"

definition read_text :: "decoder \<Rightarrow> str list \<Rightarrow> session_error + session" where
  "read_text decode ls = fold_session (map decode ls)"

definition load_token_stats :: "decoder \<Rightarrow> str list option \<Rightarrow> token_stats option" where
  "load_token_stats decode file =
     Option.bind file (\<lambda>ls. case read_meta_only decode ls of Inl _ \<Rightarrow> None | Inr (s, _) \<Rightarrow> se_token_stats s)"

section \<open>The list\<close>

record session_summary =
  sm_id :: str
  sm_title :: str
  sm_provider_id :: str
  sm_model :: str
  sm_created_at :: int
  sm_updated_at :: int
  sm_message_count :: nat
  sm_date :: str
  sm_source :: "str option"
  sm_project_id :: "str option"
  sm_workdir :: "str option"
  sm_path :: str

definition summary_of :: "(int \<Rightarrow> str) \<Rightarrow> str \<Rightarrow> session \<Rightarrow> nat \<Rightarrow> session_summary" where
  "summary_of date path s n =
     \<lparr>sm_id = se_id s, sm_title = se_title s, sm_provider_id = se_provider_id s, sm_model = se_model s,
      sm_created_at = se_created_at s, sm_updated_at = se_updated_at s, sm_message_count = n,
      sm_date = date (se_created_at s), sm_source = se_source s, sm_project_id = se_project_id s,
      sm_workdir = se_workdir s, sm_path = path\<rparr>"

text \<open>The files are those of \<open>all_session_files\<close>, in its order; an unreadable one is left out.\<close>

definition list_sessions ::
    "decoder \<Rightarrow> (int \<Rightarrow> str) \<Rightarrow> (str \<times> str list) list \<Rightarrow> session_summary list" where
  "list_sessions decode date files =
     sort_key (\<lambda>m. - sm_updated_at m)
       (List.map_filter (\<lambda>(path, ls).
          case read_meta_only decode ls of Inl _ \<Rightarrow> None | Inr (s, n) \<Rightarrow> Some (summary_of date path s n)) files)"

section \<open>Agreement with the full reading\<close>

text \<open>
  What the byte tests take for granted of a line: a message line starts with its tag and holds its
  time, an event line its tag; nothing else starts with these tags; markers are short and no other
  message contains the marker tag.
\<close>

definition faithful_line :: "decoder \<Rightarrow> str \<Rightarrow> bool" where
  "faithful_line decode l \<longleftrightarrow>
     (case decode l of
        Some (MessageLine m) \<Rightarrow>
          starts_with l MESSAGE_TAG \<and> top_level_i64_field l ''created_at'' = Some (ms_created_at m) \<and>
          (looks_like_marker l \<longleftrightarrow> ms_role m = MarkerRole)
      | Some (EventLine _) \<Rightarrow> \<not> starts_with l MESSAGE_TAG
      | Some _ \<Rightarrow> \<not> starts_with l MESSAGE_TAG \<and> \<not> starts_with l EVENT_TAG
      | None \<Rightarrow> \<not> starts_with l MESSAGE_TAG)"

definition spoken :: "message list \<Rightarrow> nat" where
  "spoken ms = length (filter (\<lambda>m. ms_role m \<noteq> MarkerRole) ms)"

text \<open>The state of the short reading that belongs to a state of the full one.\<close>

definition meta_state :: "fold_state \<Rightarrow> fold_state \<times> nat" where
  "meta_state = (\<lambda>(s, ts, got). ((s\<lparr>se_messages := []\<rparr>, ts, got), spoken (se_messages s)))"

lemma meta_line_agrees:
  assumes "faithful_line decode l"
  shows "meta_line decode l (meta_state st) =
    (case decode l of None \<Rightarrow> Inr (meta_state st)
     | Some line \<Rightarrow> (case fold_line line st of Inl e \<Rightarrow> Inl e | Inr st' \<Rightarrow> Inr (meta_state st')))"
proof -
  obtain s ts got where st: "st = (s, ts, got)" by (cases st)
  show ?thesis
  proof (cases "decode l")
    case (Some line)
    with assms show ?thesis
      by (cases line)
         (auto simp: st faithful_line_def meta_line_def meta_state_def spoken_def apply_meta_def apply_update_def)
  qed (use assms in \<open>auto simp: st faithful_line_def meta_line_def meta_state_def\<close>)
qed

lemma meta_lines_agree:
  "\<forall>l \<in> set ls. faithful_line decode l \<Longrightarrow>
    meta_lines decode ls (meta_state st) =
      (case fold_lines (map decode ls) st of Inl e \<Rightarrow> Inl e | Inr st' \<Rightarrow> Inr (meta_state st'))"
proof (induction ls arbitrary: st)
  case (Cons l ls)
  then have plain: "faithful_line decode l" and rest: "\<forall>l \<in> set ls. faithful_line decode l" by auto
  show ?case
  proof (cases "decode l")
    case (Some line)
    then show ?thesis
      by (cases "fold_line line st") (simp_all add: meta_line_agrees [OF plain] Cons.IH [OF rest])
  qed (simp add: meta_line_agrees [OF plain] Cons.IH [OF rest])
qed simp

lemma spoken_sort [simp]: "spoken (sort_key f ms) = spoken ms"
proof -
  have "spoken ms = size (filter_mset (\<lambda>m. ms_role m \<noteq> MarkerRole) (mset ms))" for ms
    by (simp add: spoken_def flip: mset_filter)
  then show ?thesis by simp
qed

text \<open>The reading behind the session list, which decodes no message, gives the same session, the
  same time of the last change and the number of messages that are no markers, on every file whose
  lines are as the byte tests take them to be.\<close>

theorem short_reading_agrees_with_the_full_one:
  assumes "\<forall>l \<in> set ls. faithful_line decode l"
  shows "read_meta_only decode ls =
    (case read_text decode ls of Inl e \<Rightarrow> Inl e
     | Inr s \<Rightarrow> Inr (s\<lparr>se_messages := []\<rparr>, spoken (se_messages s)))"
proof -
  have "meta_lines decode ls ((empty_session, 0, False), 0) =
      (case fold_lines (map decode ls) (empty_session, 0, False) of Inl e \<Rightarrow> Inl e | Inr st' \<Rightarrow> Inr (meta_state st'))"
    using meta_lines_agree [OF assms, of "(empty_session, 0, False)"]
    by (simp add: meta_state_def spoken_def empty_session_def)
  then show ?thesis
    by (auto simp: read_meta_only_def read_text_def fold_session_def meta_state_def split: sum.splits)
qed

section \<open>A concrete file\<close>

definition ex_spoken :: message where
  "ex_spoken = (marker_message ''m1'' 7 InterruptedMeta)\<lparr>ms_role := UserRole, ms_meta := None\<rparr>"

definition ex_line :: str where
  "ex_line = MESSAGE_TAG @ [dq, CHR '','', dq] @ ''created_at'' @ [dq] @ '':7}''"

definition ex_decode :: decoder where
  "ex_decode l = (if l = ''M'' then Some (MetaLine (meta_from_session ex_session ''cli'' None))
     else if l = ex_line then Some (MessageLine ex_spoken) else None)"

lemma ex_plain: "faithful_line ex_decode ''M''" "faithful_line ex_decode ex_line"
proof -
  have "\<not> prefix MESSAGE_TAG ''M''" "\<not> prefix EVENT_TAG ''M''" "prefix MESSAGE_TAG ex_line"
    "ex_line \<noteq> ''M''" "top_level_i64_field ex_line ''created_at'' = Some 7" "\<not> looks_like_marker ex_line"
    by code_simp+
  then show "faithful_line ex_decode ''M''" "faithful_line ex_decode ex_line"
    by (simp_all add: faithful_line_def ex_decode_def ex_spoken_def marker_message_def)
qed

theorem short_reading_agrees_with_the_full_one_witness:
  "map_sum id (\<lambda>(s, n). (se_title s, n)) (read_meta_only ex_decode [''M'', ex_line]) =
    Inr (DEFAULT_TITLE, 1)"
proof -
  have whole: "read_text ex_decode [''M'', ex_line] = fold_session (full_lines (ex_session\<lparr>se_messages := [ex_spoken]\<rparr>) ''cli'' None)"
    using ex_plain by (simp add: read_text_def full_lines_def ex_decode_def ex_line_def MESSAGE_TAG_def meta_from_session_def)
  show ?thesis
    using short_reading_agrees_with_the_full_one [of "[''M'', ex_line]" ex_decode] ex_plain
    by (simp add: whole read_full_lines spoken_def ex_spoken_def marker_message_def ex_session_def empty_session_def)
qed

end
