(* ===== verification/Session_Search.thy ===== *)
theory Session_Search
  imports Session_List Output_Laws
begin

text \<open>
  Searching the sessions (\<open>search\<close>, \<open>SearchMatcher\<close>, \<open>make_snippet_from_range\<close> of
  \<open>crates/agent-core/src/storage/sessions.rs\<close>). Unicode lower case and the regular expression engine are
  arguments; a slice that would panic is \<open>None\<close>.
\<close>

section \<open>Matching\<close>

type_synonym finder = "str \<Rightarrow> (nat \<times> nat) option"

datatype search_matcher = LiteralMatcher str bool | RegexMatcher finder

definition new_matcher ::
    "(str \<Rightarrow> str) \<Rightarrow> (str \<Rightarrow> bool \<Rightarrow> finder option) \<Rightarrow> str \<Rightarrow> bool \<Rightarrow> bool \<Rightarrow> search_matcher option" where
  "new_matcher lower compile query case_sensitive regex =
     (if regex then map_option RegexMatcher (compile query (\<not> case_sensitive))
      else Some (LiteralMatcher (if case_sensitive then query else lower query) case_sensitive))"

fun first_at :: "str \<Rightarrow> str \<Rightarrow> nat option" where
  "first_at n [] = (if n = [] then Some 0 else None)"
| "first_at n (c # s) = (if prefix n (c # s) then Some 0 else map_option Suc (first_at n s))"

fun match_in :: "(str \<Rightarrow> str) \<Rightarrow> search_matcher \<Rightarrow> str \<Rightarrow> (nat \<times> nat) option" where
  "match_in lower (LiteralMatcher needle case_sensitive) text =
     map_option (\<lambda>i. (i, i + length needle)) (first_at needle (if case_sensitive then text else lower text))"
| "match_in lower (RegexMatcher f) text = f text"

section \<open>Snippets\<close>

fun offsets :: "nat \<Rightarrow> str list \<Rightarrow> nat list" where
  "offsets n [] = []"
| "offsets n (c # cs) = n # offsets (n + length c) cs"

text \<open>The byte offsets of \<open>char_indices\<close>.\<close>

definition char_offsets :: "str \<Rightarrow> nat list" where
  "char_offsets s = offsets 0 (chars_of s)"

fun first_from :: "nat \<Rightarrow> nat list \<Rightarrow> nat option" where
  "first_from b [] = None"
| "first_from b (i # is) = (if b \<le> i then Some 0 else map_option Suc (first_from b is))"

definition ELLIPSIS :: str where
  "ELLIPSIS = [CHR 0xE2, CHR 0x80, CHR 0xA6]"

definition make_snippet_from_char_range :: "str \<Rightarrow> nat \<Rightarrow> nat \<Rightarrow> nat \<Rightarrow> str option" where
  "make_snippet_from_char_range content start_pos end_pos ctx =
     (let offs = char_offsets content;
          start_char = start_pos - ctx;
          end_char = min (end_pos + ctx) (length offs);
          start_byte = (if start_char < length offs then offs ! start_char else 0);
          end_byte = (if end_char < length offs then offs ! end_char else length content)
      in if start_byte \<le> end_byte \<and> is_char_boundary content start_byte \<and> is_char_boundary content end_byte
         then Some ((if 0 < start_byte then ELLIPSIS else []) @
                    take (end_byte - start_byte) (drop start_byte content) @
                    (if end_byte < length content then ELLIPSIS else []))
         else None)"

definition make_snippet_from_range :: "str \<Rightarrow> nat \<Rightarrow> nat \<Rightarrow> nat \<Rightarrow> str option" where
  "make_snippet_from_range content start end ctx =
     (let offs = char_offsets content in
      make_snippet_from_char_range content
        (case first_from start offs of Some i \<Rightarrow> i | None \<Rightarrow> 0)
        (case first_from end offs of Some i \<Rightarrow> i | None \<Rightarrow> length offs) ctx)"

section \<open>Searching\<close>

record search_hit =
  sh_meta :: session_summary
  sh_snippet :: "str option option"
  sh_matched_in :: str

text \<open>\<open>sh_snippet\<close>: no snippet, or the snippet, which is \<open>None\<close> where making it would panic.\<close>

fun first_content_match ::
    "(str \<Rightarrow> str) \<Rightarrow> search_matcher \<Rightarrow> message list \<Rightarrow> (str \<times> nat \<times> nat) option" where
  "first_content_match lower sm [] = None"
| "first_content_match lower sm (m # ms) =
     (if ms_role m = MarkerRole then first_content_match lower sm ms
      else case match_in lower sm (ms_content m) of
             Some (a, b) \<Rightarrow> Some (ms_content m, a, b)
           | None \<Rightarrow> first_content_match lower sm ms)"

definition hit_of ::
    "(str \<Rightarrow> str) \<Rightarrow> (int \<Rightarrow> str) \<Rightarrow> search_matcher \<Rightarrow> str \<Rightarrow> session \<Rightarrow> search_hit option" where
  "hit_of lower date sm path s =
     (let title_hit = (match_in lower sm (se_title s) \<noteq> None);
          content_hit = first_content_match lower sm (se_messages s)
      in if \<not> title_hit \<and> content_hit = None then None
         else Some \<lparr>sh_meta = summary_of date path s (spoken (se_messages s)),
                    sh_snippet = map_option (\<lambda>(t, a, b). make_snippet_from_range t a b 60) content_hit,
                    sh_matched_in = (if title_hit then ''title'' else ''content'')\<rparr>)"

definition search_sessions ::
    "decoder \<Rightarrow> (str \<Rightarrow> str) \<Rightarrow> (str \<Rightarrow> bool \<Rightarrow> finder option) \<Rightarrow> (int \<Rightarrow> str) \<Rightarrow> (str \<times> str list) list \<Rightarrow>
     str \<Rightarrow> bool \<Rightarrow> bool \<Rightarrow> search_hit list" where
  "search_sessions decode lower compile date files query case_sensitive regex =
     (let q = trim query in
      if q = [] then
        map (\<lambda>m. \<lparr>sh_meta = m, sh_snippet = None, sh_matched_in = []\<rparr>) (list_sessions decode date files)
      else case new_matcher lower compile q case_sensitive regex of
             None \<Rightarrow> []
           | Some sm \<Rightarrow>
               sort_key (\<lambda>h. - sm_updated_at (sh_meta h))
                 (List.map_filter (\<lambda>(path, ls).
                    case read_text decode ls of Inl _ \<Rightarrow> None | Inr s \<Rightarrow> hit_of lower date sm path s) files))"

section \<open>Snippets are whole characters\<close>

lemma offsets_nth: "k < length cs \<Longrightarrow> offsets n cs ! k = n + length (concat (take k cs))"
  by (induction cs arbitrary: n k) (auto simp: nth_Cons split: nat.split)

lemma length_offsets [simp]: "length (offsets n cs) = length cs"
  by (induction cs arbitrary: n) auto

lemma chars_of_nonempty: "c \<in> set (chars_of s) \<Longrightarrow> c \<noteq> []"
  by (induction s rule: chars_of.induct) auto

lemma chars_of_tail_starts: "c \<in> set (tl (chars_of s)) \<Longrightarrow> c \<noteq> [] \<and> \<not> is_continuation (hd c)"
proof (induction s rule: chars_of.induct)
  case (2 b s)
  show ?case
  proof (cases "dropWhile is_continuation s")
    case (Cons x xs)
    then have "\<not> is_continuation x" using hd_dropWhile [of is_continuation s] by simp
    with 2 Cons show ?thesis by auto
  next
    case Nil
    then show ?thesis using "2.prems" by (simp del: dropWhile_eq_Nil_conv)
  qed
qed simp

text \<open>The byte offset of the \<open>k\<close>-th character, the length of the text for the one past the last.\<close>

definition byte_at :: "str \<Rightarrow> nat \<Rightarrow> nat" where
  "byte_at s k = length (concat (take k (chars_of s)))"

lemma byte_at_mono: "j \<le> k \<Longrightarrow> byte_at s j \<le> byte_at s k"
  unfolding byte_at_def
  by (metis append_take_drop_id concat_append le_add1 length_append min.absorb1 take_take)

lemma byte_at_split: "s = concat (take k (chars_of s)) @ concat (drop k (chars_of s))"
  by (metis append_take_drop_id chars_of_concat concat_append)

lemma byte_at_end: "length (chars_of s) \<le> k \<Longrightarrow> byte_at s k = length s"
  by (simp add: byte_at_def)

lemma byte_at_boundary: "is_char_boundary s (byte_at s k)"
proof (cases "k < length (chars_of s)")
  case True
  show ?thesis
  proof (cases k)
    case (Suc j)
    from True have at: "drop k (chars_of s) = chars_of s ! k # drop (Suc k) (chars_of s)"
      by (simp add: Cons_nth_drop_Suc)
    have "chars_of s ! k \<in> set (tl (chars_of s))"
      using True Suc by (metis Suc_less_eq length_Suc_conv list.sel(3) nth_Cons_Suc nth_mem not_less0 length_0_conv neq_Nil_conv)
    then have "chars_of s ! k \<noteq> []" and "\<not> is_continuation (hd (chars_of s ! k))"
      using chars_of_tail_starts by auto
    then obtain c r where c: "chars_of s ! k = c # r" "\<not> is_continuation c" by (cases "chars_of s ! k") auto
    have "s = concat (take k (chars_of s)) @ c # r @ concat (drop (Suc k) (chars_of s))"
      using byte_at_split [of s k] at c by simp
    then have "byte_at s k < length s \<and> s ! byte_at s k = c"
      unfolding byte_at_def by (metis length_append length_Cons less_add_same_cancel1 nth_append_length zero_less_Suc)
    with c show ?thesis by (simp add: is_char_boundary_def)
  qed (simp add: byte_at_def is_char_boundary_def)
qed (simp add: byte_at_end is_char_boundary_def)

lemma slice_is_characters:
  "j \<le> k \<Longrightarrow> take (byte_at s k - byte_at s j) (drop (byte_at s j) s) =
    concat (take (k - j) (drop j (chars_of s)))"
proof -
  assume "j \<le> k"
  have d: "drop (byte_at s j) s = concat (drop j (chars_of s))"
    by (metis append_eq_conv_conj byte_at_def byte_at_split)
  have "concat (take k (chars_of s)) = concat (take j (chars_of s)) @ concat (take (k - j) (drop j (chars_of s)))"
    using \<open>j \<le> k\<close> by (metis concat_append le_add_diff_inverse take_add)
  then have l: "byte_at s k - byte_at s j = length (concat (take (k - j) (drop j (chars_of s))))"
    by (simp add: byte_at_def)
  show ?thesis unfolding d l
    by (metis append_eq_conv_conj append_take_drop_id concat_append)
qed

theorem snippet_is_a_run_of_characters:
  assumes "start_pos \<le> end_pos" and "start_pos = 0 \<or> start_pos < length (chars_of content)"
  shows "make_snippet_from_char_range content start_pos end_pos ctx =
    Some ((if 0 < byte_at content (start_pos - ctx) then ELLIPSIS else []) @
      concat (take (end_pos + ctx - (start_pos - ctx)) (drop (start_pos - ctx) (chars_of content))) @
      (if byte_at content (end_pos + ctx) < length content then ELLIPSIS else []))"
proof -
  let ?n = "length (chars_of content)" and ?offs = "char_offsets content"
  let ?sc = "start_pos - ctx" and ?ec = "min (end_pos + ctx) (length (char_offsets content))"
  have n: "length ?offs = ?n" by (simp add: char_offsets_def)
  have offs: "?offs ! k = byte_at content k" if "k < ?n" for k
    using that by (simp add: char_offsets_def offsets_nth byte_at_def)
  have sb: "(if ?sc < length ?offs then ?offs ! ?sc else 0) = byte_at content ?sc"
    using assms(2) by (auto simp: n offs byte_at_def)
  have eb: "(if ?ec < length ?offs then ?offs ! ?ec else length content) = byte_at content (end_pos + ctx)"
    by (cases "end_pos + ctx < ?n") (auto simp: n offs byte_at_end)
  have le: "?sc \<le> end_pos + ctx" using assms(1) by auto
  show ?thesis
    unfolding make_snippet_from_char_range_def Let_def sb eb
    using byte_at_mono [OF le, of content] byte_at_boundary slice_is_characters [OF le, of content]
    by simp
qed

lemma first_from_le: "a \<le> b \<Longrightarrow> first_from b is = Some j \<Longrightarrow> \<exists>i. first_from a is = Some i \<and> i \<le> j"
  by (induction "is" arbitrary: j) (fastforce split: if_splits)+

lemma first_from_less: "first_from b is = Some j \<Longrightarrow> j < length is"
  by (induction "is" arbitrary: j) (auto split: if_splits)

text \<open>A match, in whatever text it was found, never makes the snippet panic.\<close>

theorem snippet_never_panics:
  assumes "start \<le> end"
  shows "make_snippet_from_range content start end ctx \<noteq> None"
proof -
  let ?offs = "char_offsets content"
  have n: "length ?offs = length (chars_of content)" by (simp add: char_offsets_def)
  define p where "p = (case first_from start ?offs of Some i \<Rightarrow> i | None \<Rightarrow> 0)"
  define q where "q = (case first_from end ?offs of Some i \<Rightarrow> i | None \<Rightarrow> length ?offs)"
  have "p = 0 \<or> p < length (chars_of content)"
    by (auto simp: p_def first_from_less simp flip: n split: option.split)
  moreover have "p \<le> q"
  proof (cases "first_from end ?offs")
    case None
    then show ?thesis by (auto simp: p_def q_def dest: first_from_less split: option.split)
  next
    case (Some j)
    then show ?thesis using first_from_le [OF assms Some] by (auto simp: p_def q_def)
  qed
  ultimately show ?thesis
    using snippet_is_a_run_of_characters [of p q content ctx]
    by (simp add: make_snippet_from_range_def p_def q_def Let_def)
qed

end
