(* ===== verification/Partial_Log.thy ===== *)
theory Partial_Log
  imports Session_Files Turn_Accumulator Rust_Text
begin

text \<open>
  The side file of a running answer: fragments written as they stream in, and what is made of them
  after a crash or while the run goes on (\<open>crates/agent-core/src/storage/sessions_dir.rs\<close>,
  \<open>partial_to_message\<close> and the recovery of \<open>storage/sessions.rs\<close>, \<open>partial_fragment_of\<close> of
  \<open>run_persister.rs\<close>). The JSON printer and parser are arguments; a line that does not decode is
  \<open>None\<close>.
\<close>

section \<open>Fragments\<close>

datatype partial_fragment =
  TextFragment str
| ReasoningFragment str
| CallFragment nat "str option" "str option" str
| ResultFragment nat "str option" str nat

text \<open>\<open>*index as u32\<close>.\<close>

definition as_u32 :: "nat \<Rightarrow> nat" where
  "as_u32 n = n mod 2 ^ 32"

fun partial_fragment_of :: "(json \<Rightarrow> str) \<Rightarrow> event_payload \<Rightarrow> partial_fragment option" where
  "partial_fragment_of jt (TextDelta t) = Some (TextFragment t)"
| "partial_fragment_of jt (ReasoningEvent t) = Some (ReasoningFragment t)"
| "partial_fragment_of jt (ToolCallStarted i cid name input) =
     Some (CallFragment (as_u32 i) (Some cid) (Some name)
       (if jt input = ''null'' then [] else jt input))"
| "partial_fragment_of jt (ToolCallDelta i cid name d) =
     map_option (CallFragment (as_u32 i) cid name) d"
| "partial_fragment_of jt (ToolCallFinished i cid r ms e) = Some (ResultFragment (as_u32 i) (Some cid) r ms)"
| "partial_fragment_of jt _ = None"

section \<open>Reading the fragments back\<close>

datatype recovered_fragment = RecoveredText str | RecoveredReasoning str | RecoveredCall nat

type_synonym recovered_call = "str option \<times> str option \<times> str"

record recovered_partial =
  rp_msg_id :: str
  rp_text :: str
  rp_reasoning :: str
  rp_fragments :: "recovered_fragment list"
  rp_calls :: "(nat \<times> recovered_call) list"
  rp_results :: "nat \<Rightarrow> (str \<times> nat) option"
  rp_alive :: bool

text \<open>\<open>BTreeMap::entry(k).or_insert(d)\<close>, then a change: the keys stay in order.\<close>

fun tree_update :: "nat \<Rightarrow> 'v \<Rightarrow> ('v \<Rightarrow> 'v) \<Rightarrow> (nat \<times> 'v) list \<Rightarrow> (nat \<times> 'v) list" where
  "tree_update k d f [] = [(k, f d)]"
| "tree_update k d f ((j, v) # m) =
     (if k < j then (k, f d) # (j, v) # m
      else if k = j then (j, f v) # m
      else (j, v) # tree_update k d f m)"

definition push_recovered_text :: "str \<Rightarrow> recovered_fragment list \<Rightarrow> recovered_fragment list" where
  "push_recovered_text t fs =
     (if fs = [] then [RecoveredText t]
      else case last fs of RecoveredText p \<Rightarrow> butlast fs @ [RecoveredText (p @ t)]
           | _ \<Rightarrow> fs @ [RecoveredText t])"

definition push_recovered_reasoning :: "str \<Rightarrow> recovered_fragment list \<Rightarrow> recovered_fragment list" where
  "push_recovered_reasoning t fs =
     (if fs = [] then [RecoveredReasoning t]
      else case last fs of RecoveredReasoning p \<Rightarrow> butlast fs @ [RecoveredReasoning (p @ t)]
           | _ \<Rightarrow> fs @ [RecoveredReasoning t])"

definition push_recovered_call :: "nat \<Rightarrow> recovered_fragment list \<Rightarrow> recovered_fragment list" where
  "push_recovered_call i fs = (if fs \<noteq> [] \<and> last fs = RecoveredCall i then fs else fs @ [RecoveredCall i])"

definition keep_first :: "'a option \<Rightarrow> 'a option \<Rightarrow> 'a option" where
  "keep_first old new = (case old of Some v \<Rightarrow> Some v | None \<Rightarrow> new)"

fun recover_fragment :: "partial_fragment \<Rightarrow> recovered_partial \<Rightarrow> recovered_partial" where
  "recover_fragment (TextFragment t) rp =
     rp\<lparr>rp_text := rp_text rp @ t, rp_fragments := push_recovered_text t (rp_fragments rp)\<rparr>"
| "recover_fragment (ReasoningFragment t) rp =
     rp\<lparr>rp_reasoning := rp_reasoning rp @ t, rp_fragments := push_recovered_reasoning t (rp_fragments rp)\<rparr>"
| "recover_fragment (CallFragment i cid name chunk) rp =
     rp\<lparr>rp_calls := tree_update i (None, None, [])
          (\<lambda>(c, n, a). (keep_first c cid, keep_first n name, a @ chunk)) (rp_calls rp),
        rp_fragments := push_recovered_call i (rp_fragments rp)\<rparr>"
| "recover_fragment (ResultFragment i cid r ms) rp =
     rp\<lparr>rp_calls := (case cid of None \<Rightarrow> rp_calls rp
          | Some v \<Rightarrow> tree_update i (None, None, [])
              (\<lambda>(c, n, a). (keep_first c (Some v), n, a)) (rp_calls rp)),
        rp_results := (rp_results rp)(i \<mapsto> (r, ms))\<rparr>"

definition empty_partial :: "str \<Rightarrow> bool \<Rightarrow> recovered_partial" where
  "empty_partial mid alive = \<lparr>rp_msg_id = mid, rp_text = [], rp_reasoning = [], rp_fragments = [],
     rp_calls = [], rp_results = Map.empty, rp_alive = alive\<rparr>"

fun recover_lines :: "partial_fragment option list \<Rightarrow> recovered_partial \<Rightarrow> recovered_partial" where
  "recover_lines [] rp = rp"
| "recover_lines (None # fs) rp = recover_lines fs rp"
| "recover_lines (Some f # fs) rp = recover_lines fs (recover_fragment f rp)"

definition recover_partial :: "str \<Rightarrow> bool \<Rightarrow> partial_fragment option list \<Rightarrow> recovered_partial" where
  "recover_partial mid alive fs = recover_lines fs (empty_partial mid alive)"

section \<open>The message made of a partial\<close>

definition INTERRUPTED_TAIL_NOTICE :: str where
  "INTERRUPTED_TAIL_NOTICE = [CHR 0xE8, CHR 0xBE, CHR 0x93, CHR 0xE5, CHR 0x87, CHR 0xBA,
     CHR 0xE4, CHR 0xB8, CHR 0xAD, CHR 0xE6, CHR 0x96, CHR 0xAD]"

definition call_id_or :: "nat \<Rightarrow> str option \<Rightarrow> str" where
  "call_id_or i cid = (case cid of Some v \<Rightarrow> v | None \<Rightarrow> ''recovered-'' @ dec i)"

text \<open>The calls with a name: index, id, name, arguments.\<close>

definition named_calls :: "(nat \<times> recovered_call) list \<Rightarrow> (nat \<times> str \<times> str \<times> str) list" where
  "named_calls cs = List.map_filter (\<lambda>(i, c, n, a). map_option (\<lambda>n. (i, call_id_or i c, n, a)) n) cs"

type_synonym json_parser = "str \<Rightarrow> json option"

definition parsed_input :: "json_parser \<Rightarrow> str \<Rightarrow> json" where
  "parsed_input jparse args = (case jparse args of Some v \<Rightarrow> v | None \<Rightarrow> JObj [])"

definition build_tool_part ::
    "json_parser \<Rightarrow> (nat \<Rightarrow> (str \<times> nat) option) \<Rightarrow> nat \<Rightarrow> str \<Rightarrow> str \<Rightarrow> str \<Rightarrow> message_part" where
  "build_tool_part jparse results i cid name args =
     ToolPart \<lparr>tp_id = cid, tp_name = name, tp_input = parsed_input jparse args, tp_arguments = args,
       tp_result = map_option fst (results i), tp_duration_ms = map_option snd (results i),
       tp_is_error = False\<rparr>"

fun fragment_part :: "json_parser \<Rightarrow> recovered_partial \<Rightarrow> recovered_fragment \<Rightarrow> message_part option" where
  "fragment_part jparse rp (RecoveredText t) = (if t = [] then None else Some (TextPart t))"
| "fragment_part jparse rp (RecoveredReasoning t) = (if t = [] then None else Some (ReasoningPart t None))"
| "fragment_part jparse rp (RecoveredCall i) =
     (case map_of (rp_calls rp) i of
        Some (c, Some n, a) \<Rightarrow> Some (build_tool_part jparse (rp_results rp) i (call_id_or i c) n a)
      | _ \<Rightarrow> None)"

definition partial_parts :: "json_parser \<Rightarrow> recovered_partial \<Rightarrow> message_part list" where
  "partial_parts jparse rp =
     (if rp_fragments rp = [] then
        (if rp_reasoning rp = [] then [] else [ReasoningPart (rp_reasoning rp) None]) @
        (if rp_text rp = [] then [] else [TextPart (rp_text rp)]) @
        map (\<lambda>(i, c, n, a). build_tool_part jparse (rp_results rp) i c n a) (named_calls (rp_calls rp))
      else List.map_filter (fragment_part jparse rp) (rp_fragments rp))"

definition partial_to_message ::
    "json_parser \<Rightarrow> str \<Rightarrow> int \<Rightarrow> recovered_partial \<Rightarrow> bool \<Rightarrow> message option" where
  "partial_to_message jparse new_id now rp live =
     (let named = named_calls (rp_calls rp) in
      if rp_text rp = [] \<and> rp_reasoning rp = [] \<and> named = [] then None
      else Some
       \<lparr>ms_id = (if live then ''live-'' @ rp_msg_id rp else new_id), ms_role = AssistantRole,
        ms_content = (if live then rp_text rp
          else rp_text rp @ (if rp_text rp \<noteq> [] \<and> last (rp_text rp) \<noteq> nl then [nl] else []) @
               INTERRUPTED_TAIL_NOTICE),
        ms_attachments = [],
        ms_tool_calls = map (\<lambda>(i, c, n, a). \<lparr>mc_id = c, mc_name = n, mc_input = parsed_input jparse a,
          mc_result = map_option fst (rp_results rp i), mc_duration_ms = map_option snd (rp_results rp i),
          mc_is_error = False, mc_nested = []\<rparr>) named,
        ms_parts = partial_parts jparse rp @ (if live then [] else [TextPart INTERRUPTED_TAIL_NOTICE]),
        ms_created_at = now, ms_meta = None, ms_subagent_call_id = None, ms_run_duration_ms = None\<rparr>)"

section \<open>Recovery\<close>

record partial_file =
  pf_msg_id :: str
  pf_alive :: bool
  pf_lines :: "partial_fragment option list"

record session_dir =
  sd_store :: session_store
  sd_partials :: "partial_file list"

definition recovered_of :: "partial_file \<Rightarrow> recovered_partial" where
  "recovered_of p = recover_partial (pf_msg_id p) (pf_alive p) (pf_lines p)"

definition delete_partial :: "str \<Rightarrow> session_dir \<Rightarrow> session_dir" where
  "delete_partial mid d = d\<lparr>sd_partials := filter (\<lambda>p. pf_msg_id p \<noteq> mid) (sd_partials d)\<rparr>"

definition on_store :: "'a op \<Rightarrow> session_dir \<Rightarrow> (session_error + 'a) \<times> session_dir" where
  "on_store m d = (case m (sd_store d) of (r, st) \<Rightarrow> (r, d\<lparr>sd_store := st\<rparr>))"

text \<open>
  What a recovery draws from outside: does it get the lock of a partial, a fresh id and the time of
  the message and of the marker of the \<open>k\<close>-th partial.
\<close>

record recovery_env =
  re_grab :: "str \<Rightarrow> bool"
  re_id :: "nat \<Rightarrow> str"
  re_marker_id :: "nat \<Rightarrow> str"
  re_now :: "nat \<Rightarrow> int"
  re_parse :: json_parser

definition append_interrupted :: "recovery_env \<Rightarrow> nat \<Rightarrow> str \<Rightarrow> message \<Rightarrow> unit op" where
  "append_interrupted env k sid m =
     bind_op (append_line sid (MessageLine m)) (\<lambda>_.
       append_line sid (MessageLine (marker_message (re_marker_id env k) (re_now env k) InterruptedMeta)))"

fun recover_from ::
    "recovery_env \<Rightarrow> nat \<Rightarrow> str \<Rightarrow> partial_file list \<Rightarrow> session_dir \<Rightarrow> (session_error + nat) \<times> session_dir" where
  "recover_from env k sid [] d = (Inr 0, d)"
| "recover_from env k sid (p # ps) d =
     (if pf_alive p \<or> \<not> re_grab env (pf_msg_id p) \<or> pf_msg_id p \<notin> pf_msg_id ` set (sd_partials d)
      then recover_from env (k + 1) sid ps d
      else
        (case partial_to_message (re_parse env) (re_id env k) (re_now env k) (recovered_of p) False of
           None \<Rightarrow> recover_from env (k + 1) sid ps (delete_partial (pf_msg_id p) d)
         | Some m \<Rightarrow>
             (case on_store (append_interrupted env k sid m) d of
                (Inl e, d') \<Rightarrow> (Inl e, d')
              | (Inr _, d') \<Rightarrow>
                  (case recover_from env (k + 1) sid ps (delete_partial (pf_msg_id p) d') of
                     (Inl e, d'') \<Rightarrow> (Inl e, d'') | (Inr n, d'') \<Rightarrow> (Inr (n + 1), d'')))))"

definition recover_and_append_interrupted_partials ::
    "recovery_env \<Rightarrow> str \<Rightarrow> session_dir \<Rightarrow> (session_error + nat) \<times> session_dir" where
  "recover_and_append_interrupted_partials env sid d =
     (if sd_partials d = [] then (Inr 0, d)
      else (case on_store (find_jsonl sid) d of
              (Inl e, d') \<Rightarrow> (Inl e, d')
            | (Inr False, d') \<Rightarrow> (Inr 0, d')
            | (Inr True, d') \<Rightarrow> recover_from env 0 sid (sd_partials d) d'))"

definition append_live_partials :: "json_parser \<Rightarrow> int \<Rightarrow> session_dir \<Rightarrow> session \<Rightarrow> session" where
  "append_live_partials jparse now d s = s\<lparr>se_messages := se_messages s @
     List.map_filter (\<lambda>p. if pf_alive p then partial_to_message jparse [] now (recovered_of p) True else None)
       (sd_partials d)\<rparr>"

definition load_with_partial_recovery ::
    "recovery_env \<Rightarrow> int \<Rightarrow> str \<Rightarrow> session_dir \<Rightarrow> (session_error + session) \<times> session_dir" where
  "load_with_partial_recovery env now sid d =
     (let d1 = snd (recover_and_append_interrupted_partials env sid d) in
      case on_store (load_session sid) d1 of
        (Inl e, d2) \<Rightarrow> (Inl e, d2)
      | (Inr s, d2) \<Rightarrow> (Inr (append_live_partials (re_parse env) now d2 s), d2))"

end
