(* ===== verification/Run_Persister.thy ===== *)
theory Run_Persister
  imports Partial_Log
begin

text \<open>
  From the events of a run to the session file (\<open>crates/agent-core/src/run_persister.rs\<close>) and the
  process of a sub-agent below its call (\<open>storage/nested.rs\<close>). The events accumulate in memory; every
  fragment also goes to the queue of a writer task, which keeps the side file. A call that waits for
  the writer drains the queue; a crash forgets memory and queue.
\<close>

section \<open>The process of a sub-agent\<close>

type_synonym nested_parts = "(str \<times> message_part list) list"

definition nested_of :: "str \<Rightarrow> nested_parts \<Rightarrow> message_part list" where
  "nested_of cid na = (case map_of na cid of Some ps \<Rightarrow> ps | None \<Rightarrow> [])"

definition push_text :: "str \<Rightarrow> message_part list \<Rightarrow> message_part list" where
  "push_text t ps =
     (if ps = [] then [TextPart t]
      else case last ps of TextPart s \<Rightarrow> butlast ps @ [TextPart (s @ t)] | _ \<Rightarrow> ps @ [TextPart t])"

definition push_reasoning :: "str \<Rightarrow> message_part list \<Rightarrow> message_part list" where
  "push_reasoning t ps =
     (if ps = [] then [ReasoningPart t None]
      else case last ps of ReasoningPart s d \<Rightarrow> butlast ps @ [ReasoningPart (s @ t) d]
           | _ \<Rightarrow> ps @ [ReasoningPart t None])"

text \<open>The last part that waits for the result gets it; the list is given backwards.\<close>

fun finish_last :: "str \<Rightarrow> str \<Rightarrow> nat \<Rightarrow> bool \<Rightarrow> message_part list \<Rightarrow> message_part list" where
  "finish_last cid r ms e [] = []"
| "finish_last cid r ms e (p # ps) =
     (case p of
        ToolPart t \<Rightarrow>
          if tp_id t = cid \<and> tp_result t = None
          then ToolPart (t\<lparr>tp_result := Some r, tp_duration_ms := Some ms, tp_is_error := e\<rparr>) # ps
          else p # finish_last cid r ms e ps
      | _ \<Rightarrow> p # finish_last cid r ms e ps)"

fun nested_part :: "event_payload \<Rightarrow> message_part list \<Rightarrow> message_part list" where
  "nested_part (TextDelta t) ps = push_text t ps"
| "nested_part (ReasoningEvent t) ps = push_reasoning t ps"
| "nested_part (ToolCallStarted i cid name input) ps =
     ps @ [ToolPart \<lparr>tp_id = cid, tp_name = name, tp_input = input, tp_arguments = [], tp_result = None,
       tp_duration_ms = None, tp_is_error = False\<rparr>]"
| "nested_part (ToolCallFinished i cid r ms e) ps = rev (finish_last cid r ms e (rev ps))"
| "nested_part _ ps = ps"

definition record_nested :: "str \<Rightarrow> event_payload \<Rightarrow> nested_parts \<Rightarrow> nested_parts" where
  "record_nested cid p na = assoc_put cid (nested_part p (nested_of cid na)) na"

fun sync_call :: "str \<Rightarrow> message_part list \<Rightarrow> message_tool_call list \<Rightarrow> message_tool_call list" where
  "sync_call cid ps [] = []"
| "sync_call cid ps (c # cs) =
     (if mc_id c = cid then c\<lparr>mc_nested := ps\<rparr> # cs else c # sync_call cid ps cs)"

definition sync_into :: "nested_parts \<Rightarrow> message_tool_call list \<Rightarrow> message_tool_call list" where
  "sync_into na cs = fold (\<lambda>(cid, ps). sync_call cid ps) na cs"

section \<open>State\<close>

datatype partial_cmd = AppendCmd partial_fragment | ResetCmd | DeleteCmd

text \<open>
  \<open>pe_file\<close>: the side file, \<open>None\<close> when there is none; \<open>pe_store\<close> and \<open>pe_file\<close> survive a crash.
\<close>

record run_persister =
  pe_store :: session_store
  pe_file :: "partial_fragment option list option"
  pe_queue :: "partial_cmd list"
  pe_session :: str
  pe_msg_id :: str
  pe_seg :: accumulator
  pe_nested :: nested_parts
  pe_full :: accumulator
  pe_full_nested :: nested_parts
  pe_last_segment :: "str option"
  pe_last_message :: "message option"
  pe_emitted :: "message list"

definition new_persister :: "session_store \<Rightarrow> str \<Rightarrow> str \<Rightarrow> run_persister" where
  "new_persister st sid mid =
     \<lparr>pe_store = st, pe_file = None, pe_queue = [], pe_session = sid, pe_msg_id = mid,
      pe_seg = new_accumulator, pe_nested = [], pe_full = new_accumulator, pe_full_nested = [],
      pe_last_segment = None, pe_last_message = None, pe_emitted = []\<rparr>"

section \<open>The writer task\<close>

fun write_cmd ::
    "partial_cmd \<Rightarrow> partial_fragment option list option \<Rightarrow> partial_fragment option list option" where
  "write_cmd (AppendCmd f) file = Some ((case file of Some fs \<Rightarrow> fs | None \<Rightarrow> []) @ [Some f])"
| "write_cmd ResetCmd file = None"
| "write_cmd DeleteCmd file = None"

definition writer_step :: "run_persister \<Rightarrow> run_persister" where
  "writer_step p =
     (case pe_queue p of [] \<Rightarrow> p
      | c # cs \<Rightarrow> p\<lparr>pe_file := write_cmd c (pe_file p), pe_queue := cs\<rparr>)"

text \<open>Waiting for an acknowledgement: everything sent before has been processed.\<close>

definition drain :: "run_persister \<Rightarrow> run_persister" where
  "drain p = p\<lparr>pe_file := fold write_cmd (pe_queue p) (pe_file p), pe_queue := []\<rparr>"

definition send_cmd :: "partial_cmd \<Rightarrow> run_persister \<Rightarrow> run_persister" where
  "send_cmd c p = p\<lparr>pe_queue := pe_queue p @ [c]\<rparr>"

section \<open>Events\<close>

text \<open>An event: its time, the sub-agent call it belongs to, its payload.\<close>

type_synonym persist_event = "int \<times> str option \<times> event_payload"

definition observe :: "(json \<Rightarrow> str) \<Rightarrow> persist_event \<Rightarrow> run_persister \<Rightarrow> run_persister" where
  "observe jt e p =
     (case e of (now, sub, payload) \<Rightarrow>
        case sub of
          Some cid \<Rightarrow> p\<lparr>pe_nested := record_nested cid payload (pe_nested p),
                        pe_full_nested := record_nested cid payload (pe_full_nested p)\<rparr>
        | None \<Rightarrow>
            (let p = p\<lparr>pe_seg := on_event jt (now, payload) (pe_seg p),
                       pe_full := on_event jt (now, payload) (pe_full p)\<rparr>
             in case partial_fragment_of jt payload of
                  None \<Rightarrow> p | Some f \<Rightarrow> send_cmd (AppendCmd f) p))"

section \<open>Storing\<close>

definition run_op :: "'a op \<Rightarrow> run_persister \<Rightarrow> (session_error + 'a) \<times> run_persister" where
  "run_op m p = (case m (pe_store p) of (r, st) \<Rightarrow> (r, p\<lparr>pe_store := st\<rparr>))"

definition emit_appended :: "message \<Rightarrow> run_persister \<Rightarrow> run_persister" where
  "emit_appended m p = p\<lparr>pe_emitted := pe_emitted p @ [m]\<rparr>"

definition append_user ::
    "int \<Rightarrow> str \<Rightarrow> str \<Rightarrow> message_attachment list \<Rightarrow> message_meta option \<Rightarrow> run_persister \<Rightarrow> run_persister" where
  "append_user now new_id content attachments meta p =
     (let m = \<lparr>ms_id = new_id, ms_role = UserRole, ms_content = content, ms_attachments = attachments,
                ms_tool_calls = [], ms_parts = [], ms_created_at = now, ms_meta = meta,
                ms_subagent_call_id = None, ms_run_duration_ms = None\<rparr>
      in case run_op (append_message (pe_session p) m) p of
           (Inl e, p') \<Rightarrow> p' | (Inr _, p') \<Rightarrow> emit_appended m p')"

text \<open>\<open>PersistState::flush_locked\<close>: a failed append is logged and no more.\<close>

definition flush_locked :: "int \<Rightarrow> str \<Rightarrow> run_persister \<Rightarrow> message option \<times> run_persister" where
  "flush_locked now new_id p =
     (let seg = pe_seg p; nested = pe_nested p;
          p = p\<lparr>pe_seg := new_accumulator, pe_nested := []\<rparr>
      in case build new_id now seg of
           None \<Rightarrow> (None, send_cmd ResetCmd p)
         | Some m \<Rightarrow>
             (let m = m\<lparr>ms_tool_calls := sync_into nested (ms_tool_calls m)\<rparr>;
                  p = snd (run_op (append_message (pe_session p) m) p)
              in (Some m, send_cmd ResetCmd (p\<lparr>pe_last_segment := Some (ms_id m)\<rparr>))))"

definition flush_segment :: "int \<Rightarrow> str \<Rightarrow> run_persister \<Rightarrow> message option \<times> run_persister" where
  "flush_segment now new_id p =
     (case flush_locked now new_id p of
        (None, p) \<Rightarrow> (None, drain p)
      | (Some m, p) \<Rightarrow> (Some m, emit_appended m (drain p)))"

definition capture_full_message :: "int \<Rightarrow> str \<Rightarrow> nat option \<Rightarrow> run_persister \<Rightarrow> run_persister" where
  "capture_full_message now new_id duration p =
     (let full = pe_full p; nested = pe_full_nested p;
          p = p\<lparr>pe_full := new_accumulator, pe_full_nested := []\<rparr>
      in case build new_id now full of
           None \<Rightarrow> p
         | Some m \<Rightarrow> p\<lparr>pe_last_message := Some (m\<lparr>ms_tool_calls := sync_into nested (ms_tool_calls m),
             ms_run_duration_ms := duration\<rparr>)\<rparr>)"

text \<open>The ids and times of a \<open>finish\<close>: of the segment, of the rewrite, of the whole message.\<close>

definition persister_finish ::
    "int \<Rightarrow> str \<Rightarrow> int \<Rightarrow> int \<Rightarrow> str \<Rightarrow> nat \<Rightarrow> run_persister \<Rightarrow> message option \<times> run_persister" where
  "persister_finish now new_id now' now'' full_id duration p =
     (let (msg, p) = flush_locked now new_id p;
          p = (case msg of
                 Some m \<Rightarrow> snd (run_op (set_message_run_duration now' (pe_session p) (ms_id m) duration) p)
               | None \<Rightarrow>
                   (case pe_last_segment p of
                      Some seg_id \<Rightarrow> snd (run_op (set_message_run_duration now' (pe_session p) seg_id duration) p)
                    | None \<Rightarrow> p));
          p = drain (send_cmd DeleteCmd (capture_full_message now'' full_id (Some duration) p))
      in case map_option (\<lambda>m. m\<lparr>ms_run_duration_ms := Some duration\<rparr>) msg of
           None \<Rightarrow> (None, p)
         | Some m \<Rightarrow> (Some m, emit_appended m p))"

definition finish_interrupted :: "int \<Rightarrow> str \<Rightarrow> int \<Rightarrow> str \<Rightarrow> run_persister \<Rightarrow> run_persister" where
  "finish_interrupted now new_id now' marker_id p =
     (let p = snd (flush_locked now new_id p);
          p = snd (run_op (append_message (pe_session p) (marker_message marker_id now' InterruptedMeta)) p)
      in drain (send_cmd DeleteCmd p))"

section \<open>Crashes\<close>

text \<open>The process dies: what is left on disk, the side file without a living writer.\<close>

definition crash :: "run_persister \<Rightarrow> session_dir" where
  "crash p = \<lparr>sd_store = pe_store p,
     sd_partials = (case pe_file p of None \<Rightarrow> []
       | Some fs \<Rightarrow> [\<lparr>pf_msg_id = pe_msg_id p, pf_alive = False, pf_lines = fs\<rparr>])\<rparr>"

text \<open>What another process sees while the run goes on.\<close>

definition seen_alive :: "run_persister \<Rightarrow> session_dir" where
  "seen_alive p = \<lparr>sd_store = pe_store p,
     sd_partials = (case pe_file p of None \<Rightarrow> []
       | Some fs \<Rightarrow> [\<lparr>pf_msg_id = pe_msg_id p, pf_alive = True, pf_lines = fs\<rparr>])\<rparr>"

end
