(* ===== verification/Persister_Laws.thy ===== *)
theory Persister_Laws
  imports Run_Persister Turn_Laws Session_Laws
begin

text \<open>
  What reaches the disk of what a run streams. The saved segments and the open one are the stream, in
  order and once; after a crash the side file completes the log; and where this fails: the arguments
  of a recovered call, a frame that carries only a name, the gap between saving and clearing, a full
  disk.
\<close>

section \<open>The actions of a run\<close>

datatype run_action =
  ObserveA persist_event
| WriterA
| FlushA int str
| UserA int str str "message_attachment list" "message_meta option"

fun act :: "(json \<Rightarrow> str) \<Rightarrow> run_action \<Rightarrow> run_persister \<Rightarrow> run_persister" where
  "act jt (ObserveA e) p = observe jt e p"
| "act jt WriterA p = writer_step p"
| "act jt (FlushA now new_id) p = snd (flush_segment now new_id p)"
| "act jt (UserA now new_id content att meta) p = append_user now new_id content att meta p"

text \<open>The text of a run's own events, those of its sub-agents left out.\<close>

fun action_text :: "run_action \<Rightarrow> str" where
  "action_text (ObserveA (now, None, payload)) = delta_text payload"
| "action_text _ = []"

definition run_text :: "run_action list \<Rightarrow> str" where
  "run_text as = concat (map action_text as)"

text \<open>Whenever a segment is saved, the final text the run reported is what the segment ends with.\<close>

fun closed_properly :: "str \<Rightarrow> str \<Rightarrow> run_action list \<Rightarrow> bool" where
  "closed_properly t f [] = True"
| "closed_properly t f (ObserveA (now, None, TextDone x) # as) = closed_properly t x as"
| "closed_properly t f (ObserveA (now, sub, payload) # as) =
     closed_properly (t @ action_text (ObserveA (now, sub, payload))) f as"
| "closed_properly t f (FlushA now new_id # as) \<longleftrightarrow> ends_with t f \<and> closed_properly [] [] as"
| "closed_properly t f (a # as) = closed_properly t f as"

section \<open>Single actions\<close>

lemma final_text_update [simp]:
  "ac_final_text (update_tool pos f ac) = ac_final_text ac"
  "ac_final_text (bind_id v pos ac) = ac_final_text ac"
  by (auto simp: update_tool_def bind_id_def split: message_part.split)

lemma final_text_position: "tool_position i c n ac = (pos, ac') \<Longrightarrow> ac_final_text ac' = ac_final_text ac"
  by (auto simp: tool_position_def Let_def split: option.splits if_splits)

lemma final_text_on_event:
  "ac_final_text (on_event jt (now, payload) ac) =
     (case payload of TextDone x \<Rightarrow> x | _ \<Rightarrow> ac_final_text ac)"
  by (cases payload)
     (auto simp: on_event_def mark_started_def apply_tool_delta_def start_tool_def finish_tool_def Let_def
       dest!: final_text_position split: prod.splits option.splits)

section \<open>The text of a run\<close>

definition seg_text :: "run_persister \<Rightarrow> str" where
  "seg_text p = text_from_parts (ac_parts (pe_seg p))"

text \<open>What the saved segments say.\<close>

definition said :: "run_persister \<Rightarrow> str" where
  "said p = concat (map ms_content (filter (\<lambda>m. ms_role m = AssistantRole) (pe_emitted p)))"

lemma append_text_Nil [simp]: "append_text t ps = [] \<longleftrightarrow> t = [] \<and> ps = []"
  by (auto simp: append_text_def split: message_part.split)

lemma build_None_text: "build new_id now ac = None \<Longrightarrow> text_from_parts (ac_parts ac) = []"
  by (auto simp: build_def append_final_text_if_missing_def Let_def split: if_splits)

lemma build_Some_text:
  "build new_id now ac = Some m \<Longrightarrow> ends_with (text_from_parts (ac_parts ac)) (ac_final_text ac) \<Longrightarrow>
    ms_content m = text_from_parts (ac_parts ac)"
  by (auto simp: build_def append_final_text_if_missing_def Let_def split: if_splits)

lemma build_fields:
  "build new_id now ac = Some m \<Longrightarrow> ms_role m = AssistantRole \<and> ms_id m = new_id"
  by (auto simp: build_def Let_def split: if_splits)

lemma run_op_frame [simp]:
  "pe_seg (snd (run_op m p)) = pe_seg p" "pe_nested (snd (run_op m p)) = pe_nested p"
  "pe_emitted (snd (run_op m p)) = pe_emitted p" "pe_session (snd (run_op m p)) = pe_session p"
  "pe_queue (snd (run_op m p)) = pe_queue p" "pe_file (snd (run_op m p)) = pe_file p"
  "pe_msg_id (snd (run_op m p)) = pe_msg_id p" "pe_store (snd (run_op m p)) = snd (m (pe_store p))"
  "fst (run_op m p) = fst (m (pe_store p))"
  by (auto simp: run_op_def split: prod.split)

lemma queue_frame [simp]:
  "pe_seg (send_cmd c p) = pe_seg p" "pe_emitted (send_cmd c p) = pe_emitted p"
  "pe_store (send_cmd c p) = pe_store p" "pe_session (send_cmd c p) = pe_session p"
  "pe_file (send_cmd c p) = pe_file p" "pe_queue (send_cmd c p) = pe_queue p @ [c]"
  "pe_msg_id (send_cmd c p) = pe_msg_id p"
  "pe_seg (drain p) = pe_seg p" "pe_emitted (drain p) = pe_emitted p"
  "pe_store (drain p) = pe_store p" "pe_session (drain p) = pe_session p" "pe_queue (drain p) = []"
  "pe_msg_id (drain p) = pe_msg_id p" "pe_file (drain p) = fold write_cmd (pe_queue p) (pe_file p)"
  "pe_seg (emit_appended m p) = pe_seg p" "pe_emitted (emit_appended m p) = pe_emitted p @ [m]"
  "pe_store (emit_appended m p) = pe_store p" "pe_session (emit_appended m p) = pe_session p"
  "pe_queue (emit_appended m p) = pe_queue p" "pe_file (emit_appended m p) = pe_file p"
  "pe_msg_id (emit_appended m p) = pe_msg_id p"
  by (simp_all add: send_cmd_def drain_def emit_appended_def)

lemma observe_frame [simp]:
  "pe_emitted (observe jt e p) = pe_emitted p" "pe_store (observe jt e p) = pe_store p"
  "pe_session (observe jt e p) = pe_session p" "pe_msg_id (observe jt e p) = pe_msg_id p"
  by (auto simp: observe_def Let_def split: prod.split option.split)

lemma observe_seg:
  "pe_seg (observe jt (now, sub, payload) p) =
     (case sub of None \<Rightarrow> on_event jt (now, payload) (pe_seg p) | Some _ \<Rightarrow> pe_seg p)"
  by (auto simp: observe_def Let_def split: option.split)

lemma writer_frame [simp]:
  "pe_seg (writer_step p) = pe_seg p" "pe_emitted (writer_step p) = pe_emitted p"
  "pe_store (writer_step p) = pe_store p" "pe_session (writer_step p) = pe_session p"
  "pe_msg_id (writer_step p) = pe_msg_id p" "drain (writer_step p) = drain p"
  by (auto simp: writer_step_def drain_def split: list.split)

text \<open>A flush, as one value: the message it stores, if any, and what it leaves.\<close>

definition flushed :: "int \<Rightarrow> str \<Rightarrow> run_persister \<Rightarrow> message option" where
  "flushed now new_id p = map_option
     (\<lambda>m. m\<lparr>ms_tool_calls := sync_into (pe_nested p) (ms_tool_calls m)\<rparr>) (build new_id now (pe_seg p))"

lemma flush_segment_fields:
  shows "pe_seg (snd (flush_segment now new_id p)) = new_accumulator"
    and "pe_session (snd (flush_segment now new_id p)) = pe_session p"
    and "pe_msg_id (snd (flush_segment now new_id p)) = pe_msg_id p"
    and "pe_queue (snd (flush_segment now new_id p)) = []"
    and "pe_file (snd (flush_segment now new_id p)) = None"
    and "pe_emitted (snd (flush_segment now new_id p)) =
      pe_emitted p @ (case flushed now new_id p of None \<Rightarrow> [] | Some m \<Rightarrow> [m])"
    and "pe_store (snd (flush_segment now new_id p)) =
      (case flushed now new_id p of None \<Rightarrow> pe_store p
       | Some m \<Rightarrow> snd (append_message (pe_session p) m (pe_store p)))"
  by (auto simp: flush_segment_def flush_locked_def Let_def flushed_def split: option.split)

lemma append_user_fields:
  shows "pe_seg (append_user now new_id c a meta p) = pe_seg p"
    and "pe_session (append_user now new_id c a meta p) = pe_session p"
    and "pe_msg_id (append_user now new_id c a meta p) = pe_msg_id p"
    and "pe_queue (append_user now new_id c a meta p) = pe_queue p"
    and "pe_file (append_user now new_id c a meta p) = pe_file p"
    and "said (append_user now new_id c a meta p) = said p"
  by (auto simp: append_user_def Let_def run_op_def said_def split: prod.splits sum.splits)

lemma said_snoc: "pe_emitted q = pe_emitted p @ [m] \<Longrightarrow> ms_role m = AssistantRole \<Longrightarrow> said q = said p @ ms_content m"
  by (simp add: said_def)

lemma said_flush:
  assumes "ends_with (seg_text p) (ac_final_text (pe_seg p))"
  shows "said (snd (flush_segment now new_id p)) = said p @ seg_text p"
proof (cases "build new_id now (pe_seg p)")
  case None
  then show ?thesis
    by (simp add: said_def flush_segment_fields flushed_def seg_text_def build_None_text)
next
  case (Some m)
  then have "ms_content m = seg_text p" and "ms_role m = AssistantRole"
    using build_Some_text [OF Some] build_fields [OF Some] assms by (simp_all add: seg_text_def)
  with Some show ?thesis by (simp add: said_def flush_segment_fields flushed_def)
qed

lemma act_text:
  assumes "closed_properly (seg_text p) (ac_final_text (pe_seg p)) (a # as)"
  shows "said (act jt a p) @ seg_text (act jt a p) = said p @ seg_text p @ action_text a \<and>
    closed_properly (seg_text (act jt a p)) (ac_final_text (pe_seg (act jt a p))) as"
proof (cases a)
  case (ObserveA e)
  obtain now sub payload where e: "e = (now, sub, payload)" by (cases e)
  have same: "said (observe jt e p) = said p" by (simp add: said_def)
  show ?thesis
  proof (cases sub)
    case None
    then have "seg_text (observe jt e p) = seg_text p @ delta_text payload"
      by (simp add: e seg_text_def observe_seg text_on_event)
    with assms same None show ?thesis
      by (cases payload) (auto simp: ObserveA e observe_seg final_text_on_event)
  next
    case (Some c)
    then show ?thesis using assms same by (cases payload) (auto simp: ObserveA e seg_text_def observe_seg)
  qed
next
  case (FlushA now new_id)
  then show ?thesis
    using assms said_flush [of p now new_id]
    by (simp add: seg_text_def flush_segment_fields new_accumulator_def)
next
  case (UserA now new_id c at meta)
  then show ?thesis using assms by (simp add: seg_text_def append_user_fields)
next
  case WriterA
  then show ?thesis using assms by (simp add: seg_text_def said_def)
qed

lemma actions_text:
  "closed_properly (seg_text p) (ac_final_text (pe_seg p)) as \<Longrightarrow>
    said (fold (act jt) as p) @ seg_text (fold (act jt) as p) = said p @ seg_text p @ run_text as"
proof (induction as arbitrary: p)
  case (Cons a as)
  with act_text [OF Cons.prems, of jt] show ?case by (simp add: run_text_def)
qed (simp add: run_text_def)

section \<open>The log of a run\<close>

text \<open>What an action appends to the log.\<close>

definition user_message :: "int \<Rightarrow> str \<Rightarrow> str \<Rightarrow> message_attachment list \<Rightarrow> message_meta option \<Rightarrow> message" where
  "user_message now new_id content att meta =
     \<lparr>ms_id = new_id, ms_role = UserRole, ms_content = content, ms_attachments = att,
      ms_tool_calls = [], ms_parts = [], ms_created_at = now, ms_meta = meta,
      ms_subagent_call_id = None, ms_run_duration_ms = None\<rparr>"

fun writes :: "run_action \<Rightarrow> run_persister \<Rightarrow> message list" where
  "writes (FlushA now new_id) p = (case flushed now new_id p of None \<Rightarrow> [] | Some m \<Rightarrow> [m])"
| "writes (UserA now new_id content att meta) p = [user_message now new_id content att meta]"
| "writes _ p = []"

lemma act_store:
  "pe_store (act jt a p) = fold (\<lambda>m st. snd (append_message (pe_session p) m st)) (writes a p) (pe_store p)"
  by (cases a)
     (auto simp: flush_segment_fields append_user_def user_message_def Let_def run_op_def emit_appended_def
       split: option.split prod.split sum.split)

definition logged :: "str \<Rightarrow> message set \<Rightarrow> run_persister \<Rightarrow> bool" where
  "logged sid old p \<longleftrightarrow> pe_session p = sid \<and> log_holds sid (old \<union> set (pe_emitted p)) (pe_store p)"

lemma act_session: "pe_session (act jt a p) = pe_session p"
  by (cases a) (simp_all add: flush_segment_fields append_user_fields)

lemma act_emitted:
  assumes "log_holds (pe_session p) M (pe_store p)"
  shows "pe_emitted (act jt a p) = pe_emitted p @ writes a p"
proof (cases a)
  case (UserA now new_id c att meta)
  obtain s where "ready (pe_session p) s (pe_store p)"
    using assms by (auto simp: log_holds_def)
  then obtain r where "fst (append_message (pe_session p) (user_message now new_id c att meta) (pe_store p)) = Inr r"
    by (rule append_ready)
  then show ?thesis
    by (cases "append_message (pe_session p) (user_message now new_id c att meta) (pe_store p)")
       (simp add: UserA append_user_def run_op_def emit_appended_def flip: user_message_def)
qed (simp_all add: flush_segment_fields)

lemma act_logged:
  assumes "logged sid old p"
  shows "logged sid old (act jt a p)"
proof -
  have "log_holds sid (old \<union> set (pe_emitted p) \<union> set (writes a p)) (pe_store (act jt a p))"
    using assms by (simp add: act_store logged_def session_log.append_all_holds)
  then show ?thesis
    using assms by (auto simp: logged_def act_session act_emitted Un_assoc)
qed

lemma actions_logged: "logged sid old p \<Longrightarrow> logged sid old (fold (act jt) as p)"
  by (induction as arbitrary: p) (auto intro: act_logged)

lemma new_persister_fields [simp]:
  "pe_store (new_persister st sid mid) = st" "pe_session (new_persister st sid mid) = sid"
  "pe_seg (new_persister st sid mid) = new_accumulator" "pe_emitted (new_persister st sid mid) = []"
  "pe_queue (new_persister st sid mid) = []" "pe_file (new_persister st sid mid) = None"
  "pe_msg_id (new_persister st sid mid) = mid"
  by (simp_all add: new_persister_def)

lemma new_texts [simp]:
  "seg_text (new_persister st sid mid) = []" "said (new_persister st sid mid) = []"
  "ac_final_text new_accumulator = []"
  by (simp_all add: seg_text_def said_def new_accumulator_def)

lemma new_logged: "ready sid s st \<Longrightarrow> logged sid (set (se_messages s)) (new_persister st sid mid)"
  by (auto simp: logged_def log_holds_def)

text \<open>C5. On a session whose log can be written at every step, whatever order events, saved segments,
  inserted user messages and steps of the writer come in, as long as at each save the closing text
  the run reported last is the end of what was streamed for the segment: the saved segments followed by the open one are the text
  that was streamed, once and in order, and the log holds every message reported as stored and
  nothing else new.\<close>

theorem segments_are_the_stream:
  assumes "ready sid s st" and "closed_properly [] [] as"
    and "p = fold (act jt) as (new_persister st sid mid)"
  shows "\<exists>r. fst (load_session sid (pe_store p)) = Inr r \<and>
    set (se_messages r) = set (se_messages s) \<union> set (pe_emitted p) \<and> said p @ seg_text p = run_text as"
proof -
  have "said p @ seg_text p = run_text as"
    using actions_text [of "new_persister st sid mid" as jt] assms(2,3) by simp
  moreover have "logged sid (set (se_messages s)) p"
    using actions_logged [OF new_logged [OF assms(1)]] assms(3) by simp
  ultimately show ?thesis by (auto simp: logged_def log_holds_def ready_load)
qed

section \<open>The side file\<close>

fun fragment_text :: "partial_fragment \<Rightarrow> str" where
  "fragment_text (TextFragment t) = t"
| "fragment_text _ = []"

fun file_text :: "partial_fragment option list option \<Rightarrow> str" where
  "file_text None = []"
| "file_text (Some fs) = concat (map (\<lambda>f. case f of Some g \<Rightarrow> fragment_text g | None \<Rightarrow> []) fs)"

lemma file_text_write: "file_text (write_cmd (AppendCmd f) fl) = file_text fl @ fragment_text f"
  by (cases fl) auto

definition side_text :: "run_persister \<Rightarrow> str" where
  "side_text p = file_text (fold write_cmd (pe_queue p) (pe_file p))"

lemma delta_text_fragment:
  "delta_text payload = (case partial_fragment_of jt payload of Some f \<Rightarrow> fragment_text f | None \<Rightarrow> [])"
  by (cases payload) (auto split: option.split)

lemma act_side: "side_text p = seg_text p \<Longrightarrow> side_text (act jt a p) = seg_text (act jt a p)"
proof (cases a)
  case (ObserveA e)
  obtain now sub payload where e: "e = (now, sub, payload)" by (cases e)
  assume "side_text p = seg_text p"
  then show ?thesis
    by (cases sub; cases "partial_fragment_of jt payload")
       (auto simp: ObserveA e side_text_def seg_text_def observe_def text_on_event
         delta_text_fragment [of _ jt] file_text_write simp del: write_cmd.simps)
next
  case WriterA
  assume "side_text p = seg_text p"
  then show ?thesis
    by (auto simp: WriterA side_text_def seg_text_def writer_step_def split: list.split)
next
  case (FlushA now new_id)
  then show ?thesis
    by (simp add: side_text_def seg_text_def flush_segment_fields new_accumulator_def)
qed (simp add: side_text_def seg_text_def append_user_fields)

lemma actions_side: "side_text p = seg_text p \<Longrightarrow>
    side_text (fold (act jt) as p) = seg_text (fold (act jt) as p)"
  by (induction as arbitrary: p) (auto intro: act_side)

lemma recover_lines_text:
  "rp_text (recover_lines fs rp) = rp_text rp @ file_text (Some fs)"
proof (induction fs rp rule: recover_lines.induct)
  case (3 f fs rp)
  then show ?case by (cases f) auto
qed auto

lemma recovered_text: "rp_text (recover_partial mid alive fs) = file_text (Some fs)"
  by (simp add: recover_partial_def recover_lines_text empty_partial_def)

lemma side_file:
  assumes "side_text p \<noteq> []"
  obtains fs where "pe_file (drain p) = Some fs" and "file_text (Some fs) = side_text p"
  using assms by (cases "pe_file (drain p)") (auto simp: side_text_def)

lemma append_line_ready:
  assumes "ready sid s st"
  obtains r st' where "append_line sid (MessageLine m) st = (Inr (), st')" and "ready sid r st'"
    and "set (se_messages r) = insert m (set (se_messages s))"
proof -
  obtain ls where ls: "ss_new st sid = Some (Lines ls False)" "fold_session ls = Inr s" "ss_writes st"
    using assms by (auto simp: ready_def)
  have "append_line sid (MessageLine m) st =
      (Inr (), with_file sid (Lines (ls @ [Some (MessageLine m)]) False) st)"
    using ls by (simp add: append_line_file)
  moreover have "ready sid (s\<lparr>se_messages := insert_by_time m (se_messages s),
      se_updated_at := max (se_updated_at s) (ms_created_at m)\<rparr>)
      (with_file sid (Lines (ls @ [Some (MessageLine m)]) False) st)"
    using ls by (simp add: ready_def read_message_line)
  ultimately show thesis by (rule that) simp
qed

lemma interrupted_ready:
  assumes "ready sid s st"
  obtains r st' where "append_interrupted env k sid m st = (Inr (), st')" and "ready sid r st'"
    and "set (se_messages s) \<subseteq> set (se_messages r)" and "m \<in> set (se_messages r)"
proof -
  obtain r1 st1 where 1: "append_line sid (MessageLine m) st = (Inr (), st1)" "ready sid r1 st1"
      "set (se_messages r1) = insert m (set (se_messages s))"
    by (rule append_line_ready [OF assms])
  obtain r2 st2 where 2: "append_line sid (MessageLine (marker_message (re_marker_id env k) (re_now env k)
        InterruptedMeta)) st1 = (Inr (), st2)" "ready sid r2 st2"
      "set (se_messages r2) = insert (marker_message (re_marker_id env k) (re_now env k) InterruptedMeta)
        (set (se_messages r1))"
    by (rule append_line_ready [OF 1(2)])
  show thesis
    by (rule that [OF _ 2(2)]) (auto simp: append_interrupted_def bind_op_def 1 2)
qed

text \<open>A crashed run with a side file: what recovery does.\<close>

lemma recovery_ready:
  assumes "ready sid s (pe_store p)" and "pe_file p = Some fs" and "re_grab env (pe_msg_id p)"
    and "partial_to_message (re_parse env) (re_id env 0) (re_now env 0)
      (recover_partial (pe_msg_id p) False fs) False = Some m"
  obtains r where "ready sid r (sd_store (snd (recover_and_append_interrupted_partials env sid (crash p))))"
    and "set (se_messages s) \<subseteq> set (se_messages r)" and "m \<in> set (se_messages r)"
proof -
  obtain r st' where "append_interrupted env 0 sid m (pe_store p) = (Inr (), st')" and "ready sid r st'"
    and "set (se_messages s) \<subseteq> set (se_messages r)" and "m \<in> set (se_messages r)"
    by (rule interrupted_ready [OF assms(1)])
  moreover obtain ls where "ss_new (pe_store p) sid = Some ls"
    using assms(1) by (auto simp: ready_def)
  ultimately show thesis
    using assms(2-4)
    by (intro that [of r])
       (auto simp: recover_and_append_interrupted_partials_def crash_def on_store_def find_jsonl_def
         recovered_of_def delete_partial_def)
qed

lemma partial_with_text:
  assumes "rp_text rp \<noteq> []"
  obtains m where "partial_to_message jparse new_id now rp live = Some m" and "prefix (rp_text rp) (ms_content m)"
    and "live \<Longrightarrow> ms_content m = rp_text rp"
  using assms by (auto simp: partial_to_message_def Let_def)

text \<open>C7. A process that dies with an open segment, after the writer of its side file has caught up, loses
  none of the streamed text: the recovery keeps every message of the log and adds one whose text
  starts with the rest of the stream. As above, the log can be written and closing texts are the end of
  their segments; and the recovery gets hold of the side file. Of the calls of the open segment
  nothing is said.\<close>

theorem crash_recovery_completes_the_stream:
  assumes "ready sid s st" and "closed_properly [] [] as"
    and "p = fold (act jt) as (new_persister st sid mid)" and "seg_text p \<noteq> []" and "re_grab env mid"
  shows "\<exists>r m rest. fst (load_session sid (sd_store (snd
      (recover_and_append_interrupted_partials env sid (crash (drain p)))))) = Inr r \<and>
    set (se_messages s) \<union> set (pe_emitted p) \<union> {m} \<subseteq> set (se_messages r) \<and>
    prefix rest (ms_content m) \<and> said p @ rest = run_text as"
proof -
  have whole: "said p @ seg_text p = run_text as"
    using actions_text [of "new_persister st sid mid" as jt] assms(2,3) by simp
  have "logged sid (set (se_messages s)) p"
    using actions_logged [OF new_logged [OF assms(1)]] assms(3) by simp
  then obtain s1 where s1: "ready sid s1 (pe_store (drain p))"
      "set (se_messages s1) = set (se_messages s) \<union> set (pe_emitted p)"
    by (auto simp: logged_def log_holds_def)
  have side: "side_text p = seg_text p"
    unfolding assms(3) by (rule actions_side) (simp add: side_text_def seg_text_def new_accumulator_def)
  then obtain fs where fs: "pe_file (drain p) = Some fs" "file_text (Some fs) = seg_text p"
    using assms(4) side_file [of p] by auto
  have mid: "pe_msg_id q = mid \<Longrightarrow> pe_msg_id (fold (act jt) as q) = mid" for q
  proof (induction as arbitrary: q)
    case (Cons a as)
    have "pe_msg_id (act jt a q) = mid"
      using Cons.prems by (cases a) (simp_all add: flush_segment_fields append_user_fields)
    then show ?case using Cons.IH by simp
  qed simp
  have rp: "rp_text (recover_partial mid False fs) = seg_text p"
    using fs(2) by (simp add: recovered_text)
  obtain m where m: "partial_to_message (re_parse env) (re_id env 0) (re_now env 0)
      (recover_partial mid False fs) False = Some m" "prefix (seg_text p) (ms_content m)"
    by (rule partial_with_text [of "recover_partial mid False fs"]) (use rp assms(4) in auto)
  have "pe_msg_id (drain p) = mid" using mid [of "new_persister st sid mid"] assms(3) by simp
  then obtain r where "ready sid r (sd_store (snd (recover_and_append_interrupted_partials env sid (crash (drain p)))))"
    and "set (se_messages s1) \<subseteq> set (se_messages r)" and "m \<in> set (se_messages r)"
    using recovery_ready [OF s1(1) fs(1)] m(1) assms(5) by metis
  then show ?thesis
    using whole m(2) s1(2) by (intro exI [of _ r] exI [of _ m] exI [of _ "seg_text p"]) (auto simp: ready_load)
qed

text \<open>A reader who loads the session of a running answer sees the text that the next flush will
  store.\<close>

theorem live_view_shows_what_a_flush_would_store:
  assumes "p = fold (act jt) as (new_persister st sid mid)" and "seg_text p \<noteq> []"
    and "ends_with (seg_text p) (ac_final_text (pe_seg p))"
  shows "map ms_content (List.map_filter (\<lambda>f. partial_to_message jparse [] now (recovered_of f) True)
      (sd_partials (seen_alive (drain p)))) =
    map ms_content (case fst (flush_segment now' new_id p) of Some m \<Rightarrow> [m] | None \<Rightarrow> [])"
proof -
  have side: "side_text p = seg_text p"
    unfolding assms(1) by (rule actions_side) (simp add: side_text_def seg_text_def new_accumulator_def)
  then obtain fs where fs: "pe_file (drain p) = Some fs" "file_text (Some fs) = seg_text p"
    using assms(2) side_file [of p] by auto
  obtain m where "partial_to_message jparse [] now (recover_partial (pe_msg_id p) True fs) True = Some m"
    and "ms_content m = seg_text p"
    by (rule partial_with_text [of "recover_partial (pe_msg_id p) True fs" jparse "[]" now True])
       (use fs(2) assms(2) in \<open>auto simp: recovered_text\<close>)
  moreover have "\<exists>m'. fst (flush_segment now' new_id p) = Some m' \<and> ms_content m' = seg_text p"
    using build_None_text [of new_id now' "pe_seg p"] build_Some_text [of new_id now' "pe_seg p"] assms(2,3)
    by (cases "build new_id now' (pe_seg p)")
       (auto simp: flush_segment_def flush_locked_def Let_def seg_text_def)
  ultimately show ?thesis
    using fs(1) by (auto simp: seen_alive_def recovered_of_def List.map_filter_def)
qed

section \<open>The end of a run\<close>

lemma change_first_middle:
  "mid \<notin> ms_id ` set as \<Longrightarrow> ms_id m = mid \<Longrightarrow> f m = Some m' \<Longrightarrow>
    change_first mid f (as @ m # ys) = (as @ m' # ys, True)"
  by (induction as) auto

lemma stamped_ready:
  assumes "ready sid s st" and "se_id s = sid" and "se_source s \<noteq> None"
    and "se_messages s = as @ m # ys" and "ms_id m \<notin> ms_id ` set as"
  obtains r where "ready sid r (snd (set_message_run_duration now sid (ms_id m) d st))"
    and "set (se_messages r) = insert (m\<lparr>ms_run_duration_ms := Some d\<rparr>) (set (as @ ys))"
proof -
  let ?s = "s\<lparr>se_messages := as @ m\<lparr>ms_run_duration_ms := Some d\<rparr> # ys\<rparr>"
  have "change_first (ms_id m) (\<lambda>m. Some (m\<lparr>ms_run_duration_ms := Some d\<rparr>)) (se_messages s) =
      (as @ m\<lparr>ms_run_duration_ms := Some d\<rparr> # ys, True)"
    unfolding assms(4) by (rule change_first_middle) (use assms(5) in auto)
  then have "set_message_run_duration now sid (ms_id m) d st = (case save_session now ?s st of
      (Inl e, st') \<Rightarrow> (Inl e, st') | (Inr x, st') \<Rightarrow> (Inr (), st'))"
    using ready_load [OF assms(1)]
    by (simp add: set_message_run_duration_def rewrite_message_def bind_op_def ret_op_def split: prod.split sum.split)
  moreover obtain st' where "save_session now ?s st = (Inr (?s\<lparr>se_updated_at := now\<rparr>), st')"
    and "ready sid (as_read_back ?s) st'"
    by (rule save_ready [of st ?s now]) (use assms(2,3) ready_writes [OF assms(1)] in auto)
  ultimately show thesis by (intro that [of "as_read_back ?s"]) auto
qed

lemma finish_fields:
  "pe_store (snd (persister_finish now new_id now' now'' full_id d p)) =
    (case flushed now new_id p of
       Some m \<Rightarrow> snd (set_message_run_duration now' (pe_session p) (ms_id m) d
                    (snd (append_message (pe_session p) m (pe_store p))))
     | None \<Rightarrow> (case pe_last_segment p of
         Some seg \<Rightarrow> snd (set_message_run_duration now' (pe_session p) seg d (pe_store p))
       | None \<Rightarrow> pe_store p))"
  "pe_file (snd (persister_finish now new_id now' now'' full_id d p)) = None"
proof -
  have capture: "pe_store (capture_full_message t x dur q) = pe_store q"
    "pe_queue (capture_full_message t x dur q) = pe_queue q"
    "pe_file (capture_full_message t x dur q) = pe_file q" for t x dur q
    by (auto simp: capture_full_message_def Let_def split: option.split)
  show "pe_store (snd (persister_finish now new_id now' now'' full_id d p)) =
    (case flushed now new_id p of
       Some m \<Rightarrow> snd (set_message_run_duration now' (pe_session p) (ms_id m) d
                    (snd (append_message (pe_session p) m (pe_store p))))
     | None \<Rightarrow> (case pe_last_segment p of
         Some seg \<Rightarrow> snd (set_message_run_duration now' (pe_session p) seg d (pe_store p))
       | None \<Rightarrow> pe_store p))"
    by (cases "build new_id now (pe_seg p)"; cases "pe_last_segment p")
       (simp_all add: persister_finish_def flush_locked_def Let_def flushed_def capture send_cmd_def)
  show "pe_file (snd (persister_finish now new_id now' now'' full_id d p)) = None"
    by (cases "build new_id now (pe_seg p)"; cases "pe_last_segment p")
       (simp_all add: persister_finish_def flush_locked_def Let_def flushed_def capture)
qed

text \<open>The end of a run stores the last segment with the duration of the run and leaves every
  earlier message as it was.\<close>

theorem finish_stamps_the_last_segment:
  assumes "ready sid s (pe_store p)" and "pe_session p = sid" and "se_id s = sid" and "se_source s \<noteq> None"
    and "flushed now new_id p = Some m" and "new_id \<notin> ms_id ` set (se_messages s)"
  shows "\<exists>r. fst (load_session sid (pe_store (snd (persister_finish now new_id now' now'' full_id d p)))) = Inr r \<and>
    set (se_messages r) = insert (m\<lparr>ms_run_duration_ms := Some d\<rparr>) (set (se_messages s))"
proof -
  obtain st1 where app: "snd (append_message sid m (pe_store p)) = st1"
    and rdy: "ready sid (s\<lparr>se_messages := insert_by_time m (se_messages s),
      se_updated_at := max (se_updated_at s) (ms_created_at m)\<rparr>) st1"
    by (rule ready_message [OF assms(1), of m]) auto
  obtain as ys where split: "insert_by_time m (se_messages s) = as @ m # ys" "as @ ys = se_messages s"
    by (rule insert_by_time_split [of m "se_messages s"]) (use ready_sorted [OF assms(1)] in blast)
  have id: "ms_id m = new_id"
    using assms(5) build_fields by (fastforce simp: flushed_def)
  obtain r where "ready sid r (snd (set_message_run_duration now' sid (ms_id m) d st1))"
    and "set (se_messages r) = insert (m\<lparr>ms_run_duration_ms := Some d\<rparr>) (set (as @ ys))"
    by (rule stamped_ready [OF rdy, of as m ys now' d])
       (use assms(3,4,6) split(1) id in \<open>auto simp flip: split(2)\<close>)
  then show ?thesis
    using assms(2,5) app split(2) by (auto simp: finish_fields ready_load)
qed

section \<open>Where it fails\<close>

lemma calls_frame [simp]:
  "ac_tool_calls (update_tool pos f ac) = ac_tool_calls ac"
  "ac_tool_calls (bind_id v pos ac) = ac_tool_calls ac"
  "ac_tool_calls (mark_started now payload ac) = ac_tool_calls ac"
  by (auto simp: update_tool_def bind_id_def mark_started_def split: message_part.split)

lemma calls_position: "tool_position i c n ac = (pos, ac') \<Longrightarrow> ac_tool_calls ac' = ac_tool_calls ac"
  by (auto simp: tool_position_def Let_def split: option.splits if_splits)

lemma calls_delta [simp]: "ac_tool_calls (apply_tool_delta i c n d ac) = ac_tool_calls ac"
  by (auto simp: apply_tool_delta_def Let_def dest!: calls_position split: prod.split option.split)

lemma calls_start [simp]:
  "ac_tool_calls (start_tool jt i c n input ac) = upsert_tool_call i c n input (ac_tool_calls ac)"
  by (auto simp: start_tool_def Let_def dest!: calls_position split: prod.split)

lemma build_calls: "build x now ac = Some m \<Longrightarrow> ms_tool_calls m = ac_tool_calls ac"
  by (auto simp: build_def append_final_text_if_missing_def Let_def split: if_splits)

lemma build_with_calls: "ac_tool_calls ac \<noteq> [] \<Longrightarrow> build x now ac \<noteq> None"
  by (auto simp: build_def append_final_text_if_missing_def Let_def split: if_splits)

text \<open>The calls of a segment that no sub-agent worked for.\<close>

lemma flush_calls:
  assumes "ac_tool_calls (pe_seg p) \<noteq> []" and "pe_nested p = []"
  shows "map_option ms_tool_calls (fst (flush_segment now x p)) = Some (ac_tool_calls (pe_seg p))"
  using build_with_calls [OF assms(1), of x now] assms(2)
  by (auto simp: flush_segment_def flush_locked_def Let_def sync_into_def dest: build_calls)

lemma observe_own:
  "pe_nested (observe jt (now, None, payload) p) = pe_nested p"
  "pe_queue (observe jt (now, None, payload) p) = pe_queue p @
     (case partial_fragment_of jt payload of None \<Rightarrow> [] | Some f \<Rightarrow> [AppendCmd f])"
  "pe_file (observe jt (now, None, payload) p) = pe_file p"
  by (auto simp: observe_def Let_def send_cmd_def split: option.split)

lemma new_persister_nested [simp]: "pe_nested (new_persister st sid mid) = []"
  by (simp add: new_persister_def)

lemma new_accumulator_calls [simp]: "ac_tool_calls new_accumulator = []"
  by (simp add: new_accumulator_def)

text \<open>The arguments of a streamed call reach the side file twice, when they stream and when the
  call starts: where twice the text is no JSON, the recovered call has an empty input, whereas the
  stored one has its own.\<close>

theorem recovered_call_loses_its_input:
  assumes "p = fold (observe jt) [(t1, None, ToolCallDelta 0 (Some c) (Some n) (Some (jt input))),
      (t2, None, ToolCallStarted 0 c n input)] (new_persister st sid mid)"
    and "jt input \<noteq> ''null''" and "jparse (jt input @ jt input) = None"
  shows "map_option (\<lambda>m. map mc_input (ms_tool_calls m))
      (partial_to_message jparse x now (recover_partial mid False (the (pe_file (drain p)))) False) = Some [JObj []] \<and>
    map_option (\<lambda>m. map mc_input (ms_tool_calls m)) (fst (flush_segment now x p)) = Some [input]"
proof -
  have fl: "pe_file (drain p) = Some [Some (CallFragment 0 (Some c) (Some n) (jt input)),
      Some (CallFragment 0 (Some c) (Some n) (jt input))]"
    using assms(2) by (simp add: assms(1) observe_own as_u32_def)
  have "ac_tool_calls (pe_seg p) = [empty_tool_call\<lparr>mc_id := c, mc_name := n, mc_input := input\<rparr>]"
    by (simp add: assms(1) observe_seg on_event_def upsert_tool_call_def update_call_def resize_calls_def)
  moreover from this have "map_option ms_tool_calls (fst (flush_segment now x p)) = Some (ac_tool_calls (pe_seg p))"
    by (intro flush_calls) (simp_all add: assms(1) observe_own)
  ultimately have "map_option (\<lambda>m. map mc_input (ms_tool_calls m)) (fst (flush_segment now x p)) = Some [input]"
    by (cases "fst (flush_segment now x p)") auto
  with fl assms(3) show ?thesis
    by (simp add: recover_partial_def empty_partial_def keep_first_def partial_to_message_def Let_def
        named_calls_def List.map_filter_def parsed_input_def call_id_or_def)
qed

text \<open>A frame that only names a call is not written: the call is dropped by the recovery.\<close>

theorem named_call_is_dropped_by_the_recovery:
  assumes "p = fold (observe jt) [(t1, None, ToolCallDelta 0 (Some c) (Some n) None),
      (t2, None, ToolCallDelta 0 None None (Some args))] (new_persister st sid mid)"
  shows "partial_to_message jparse x now (recover_partial mid False (the (pe_file (drain p)))) False = None \<and>
    map_option (\<lambda>m. map mc_name (ms_tool_calls m)) (fst (flush_segment now x p)) = Some [n]"
proof -
  have fl: "pe_file (drain p) = Some [Some (CallFragment 0 None None args)]"
    by (simp add: assms(1) observe_own as_u32_def)
  have "ac_tool_calls (pe_seg p) = [empty_tool_call\<lparr>mc_id := c, mc_name := n\<rparr>]"
    by (simp add: assms(1) observe_seg on_event_def update_call_def resize_calls_def)
  moreover from this have "map_option ms_tool_calls (fst (flush_segment now x p)) = Some (ac_tool_calls (pe_seg p))"
    by (intro flush_calls) (simp_all add: assms(1) observe_own)
  ultimately have "map_option (\<lambda>m. map mc_name (ms_tool_calls m)) (fst (flush_segment now x p)) = Some [n]"
    by (cases "fst (flush_segment now x p)") auto
  with fl show ?thesis
    by (simp add: recover_partial_def empty_partial_def keep_first_def partial_to_message_def Let_def
        named_calls_def List.map_filter_def)
qed

text \<open>A segment that was saved while its side file still stood is recovered once more.\<close>

theorem crash_after_a_save_stores_the_text_twice:
  assumes "ready sid s (pe_store p)" and "pe_session p = sid" and "pe_queue p = []"
    and "side_text p = seg_text p" and "seg_text p \<noteq> []"
    and "ends_with (seg_text p) (ac_final_text (pe_seg p))"
    and "re_grab env (pe_msg_id p)" and "re_id env 0 \<noteq> new_id"
  shows "\<exists>r a b. fst (load_session sid (sd_store (snd (recover_and_append_interrupted_partials env sid
      (crash (snd (flush_locked now new_id p))))))) = Inr r \<and>
    {a, b} \<subseteq> set (se_messages r) \<and> ms_id a \<noteq> ms_id b \<and>
    prefix (seg_text p) (ms_content a) \<and> prefix (seg_text p) (ms_content b)"
proof -
  obtain a0 where a0: "build new_id now (pe_seg p) = Some a0" "ms_content a0 = seg_text p" "ms_id a0 = new_id"
    using build_None_text [of new_id now "pe_seg p"] build_Some_text [of new_id now "pe_seg p"]
      build_fields [of new_id now "pe_seg p"] assms(5,6)
    by (cases "build new_id now (pe_seg p)") (auto simp: seg_text_def)
  define a where "a = a0\<lparr>ms_tool_calls := sync_into (pe_nested p) (ms_tool_calls a0)\<rparr>"
  let ?q = "snd (flush_locked now new_id p)"
  have q: "pe_store ?q = snd (append_message sid a (pe_store p))" "pe_file ?q = pe_file p"
    "pe_msg_id ?q = pe_msg_id p"
    using a0(1) assms(2) by (simp_all add: flush_locked_def Let_def a_def send_cmd_def)
  obtain r1 where r1: "ready sid r1 (pe_store ?q)" "set (se_messages r1) = insert a (set (se_messages s))"
    unfolding q by (rule append_ready [OF assms(1)])
  obtain fs where fs: "pe_file p = Some fs" "file_text (Some fs) = seg_text p"
    using assms(3,4,5) by (cases "pe_file p") (auto simp: side_text_def)
  obtain b where b: "partial_to_message (re_parse env) (re_id env 0) (re_now env 0)
      (recover_partial (pe_msg_id p) False fs) False = Some b" "prefix (seg_text p) (ms_content b)"
    by (rule partial_with_text [of "recover_partial (pe_msg_id p) False fs"])
       (use fs(2) assms(5) in \<open>auto simp: recovered_text\<close>)
  have "ms_id b = re_id env 0"
    using b(1) by (auto simp: partial_to_message_def Let_def split: if_splits)
  moreover obtain r where "ready sid r (sd_store (snd (recover_and_append_interrupted_partials env sid (crash ?q))))"
    and "set (se_messages r1) \<subseteq> set (se_messages r)" and "b \<in> set (se_messages r)"
    using recovery_ready [OF r1(1), of fs env b] fs(1) assms(7) b(1) q by metis
  ultimately show ?thesis
    using r1(2) a0 assms(8) b(2)
    by (intro exI [of _ r] exI [of _ a] exI [of _ b]) (auto simp: ready_load a_def)
qed

text \<open>When the append of a segment fails, the segment is gone from memory and from the side file,
  and is reported as stored.\<close>

theorem failed_append_loses_the_segment:
  assumes "\<not> ss_writes (pe_store p)" and "ss_new (pe_store p) (pe_session p) = Some (Lines ls torn)"
    and "seg_text p \<noteq> []"
  shows "\<exists>m q. flush_segment now new_id p = (Some m, q) \<and> pe_store q = pe_store p \<and>
    pe_emitted q = pe_emitted p @ [m] \<and> seg_text q = [] \<and> sd_partials (crash q) = []"
proof -
  obtain m where m: "build new_id now (pe_seg p) = Some m"
    using build_None_text [of new_id now "pe_seg p"] assms(3) by (auto simp: seg_text_def)
  have "snd (append_message (pe_session p) m' (pe_store p)) = pe_store p" for m'
    using assms(1,2)
    by (simp add: append_message_def append_and_load_def bind_op_def ensure_lines append_line_def write_file_def)
  with m show ?thesis
    by (simp add: flush_segment_def flush_locked_def Let_def seg_text_def crash_def new_accumulator_def)
qed

section \<open>A concrete run\<close>

definition ex_actions :: "run_action list" where
  "ex_actions = [ObserveA (6, None, TextDelta ''a''), WriterA, ObserveA (6, None, TextDone ''a''),
     FlushA 7 ''n1'', UserA 7 ''u1'' ''go on'' [] None, ObserveA (8, Some ''t1'', TextDelta ''x''),
     ObserveA (8, None, TextDelta ''b'')]"

definition ex_persister :: run_persister where
  "ex_persister = fold (act (\<lambda>_. ''{}'')) ex_actions (new_persister ex_sessions ''s1'' ''p1'')"

definition ex_recovery :: recovery_env where
  "ex_recovery = \<lparr>re_grab = \<lambda>_. True, re_id = \<lambda>_. ''r1'', re_marker_id = \<lambda>_. ''r2'', re_now = \<lambda>_. 20,
     re_parse = \<lambda>_. None\<rparr>"

lemma ex_closed: "closed_properly [] [] ex_actions"
  by (simp add: ex_actions_def)

lemma ex_run_text: "run_text ex_actions = ''ab''"
  by (simp add: ex_actions_def run_text_def)

lemma ex_seg: "seg_text ex_persister = ''b''" "ac_final_text (pe_seg ex_persister) = []"
  by (simp_all add: ex_persister_def ex_actions_def seg_text_def append_user_fields observe_seg
      flush_segment_fields on_event_def mark_started_def new_accumulator_def append_text_def)

theorem segments_are_the_stream_witness:
  "\<exists>r. fst (load_session ''s1'' (pe_store ex_persister)) = Inr r \<and>
    set (se_messages r) = set (se_messages ex_session) \<union> set (pe_emitted ex_persister) \<and>
    said ex_persister @ ''b'' = ''ab''"
  using segments_are_the_stream [OF ex_ready ex_closed ex_persister_def] by (simp add: ex_seg ex_run_text)

theorem crash_recovery_completes_the_stream_witness:
  "\<exists>r m rest. fst (load_session ''s1'' (sd_store (snd
      (recover_and_append_interrupted_partials ex_recovery ''s1'' (crash (drain ex_persister)))))) = Inr r \<and>
    set (se_messages ex_session) \<union> set (pe_emitted ex_persister) \<union> {m} \<subseteq> set (se_messages r) \<and>
    prefix rest (ms_content m) \<and> said ex_persister @ rest = ''ab''"
  using crash_recovery_completes_the_stream [OF ex_ready ex_closed ex_persister_def, of ex_recovery]
  by (simp add: ex_seg ex_run_text ex_recovery_def)

theorem live_view_shows_what_a_flush_would_store_witness:
  "map ms_content (List.map_filter (\<lambda>f. partial_to_message (\<lambda>_. None) [] 9 (recovered_of f) True)
      (sd_partials (seen_alive (drain ex_persister)))) =
    map ms_content (case fst (flush_segment 9 ''n2'' ex_persister) of Some m \<Rightarrow> [m] | None \<Rightarrow> [])"
  by (rule live_view_shows_what_a_flush_would_store [OF ex_persister_def]) (simp_all add: ex_seg)

theorem recovered_call_loses_its_input_witness:
  "map_option (\<lambda>m. map mc_input (ms_tool_calls m))
      (partial_to_message (\<lambda>t. if t = ''{1}'' then Some (JNum 1) else None) ''x'' 9 (recover_partial ''p1'' False
        (the (pe_file (drain (fold (observe (\<lambda>_. ''{1}''))
          [(6, None, ToolCallDelta 0 (Some ''c'') (Some ''Bash'') (Some ''{1}'')),
           (7, None, ToolCallStarted 0 ''c'' ''Bash'' (JNum 1))] (new_persister ex_sessions ''s1'' ''p1'')))))) False) =
    Some [JObj []]"
  using recovered_call_loses_its_input [OF refl, of "\<lambda>_. ''{1}''" "JNum 1"
      "\<lambda>t. if t = ''{1}'' then Some (JNum 1) else None" "''x''" 9 "''p1''" 6 "''c''" "''Bash''" 7 ex_sessions "''s1''"]
  by simp

theorem failed_append_loses_the_segment_witness:
  "\<exists>m q. flush_segment 9 ''n2'' (ex_persister\<lparr>pe_store := ex_sessions\<lparr>ss_writes := False\<rparr>\<rparr>) = (Some m, q) \<and>
    pe_store q = ex_sessions\<lparr>ss_writes := False\<rparr> \<and> pe_emitted q = pe_emitted ex_persister @ [m] \<and>
    seg_text q = [] \<and> sd_partials (crash q) = []"
proof -
  have "pe_session ex_persister = ''s1''"
    by (simp add: ex_persister_def ex_actions_def append_user_fields flush_segment_fields)
  then show ?thesis
    using failed_append_loses_the_segment [of "ex_persister\<lparr>pe_store := ex_sessions\<lparr>ss_writes := False\<rparr>\<rparr>" _ False 9 "''n2''"]
      ex_seg(1) by (simp add: ex_sessions_def seg_text_def)
qed

theorem finish_stamps_the_last_segment_witness:
  "\<exists>r m. fst (load_session ''s1'' (pe_store (snd (persister_finish 9 ''n2'' 10 11 ''f1'' 1234
      (ex_persister\<lparr>pe_store := ex_sessions\<rparr>))))) = Inr r \<and>
    set (se_messages r) = insert (m\<lparr>ms_run_duration_ms := Some 1234\<rparr>) (set (se_messages ex_session))"
proof -
  have "pe_session ex_persister = ''s1''"
    by (simp add: ex_persister_def ex_actions_def append_user_fields flush_segment_fields)
  moreover obtain m where "flushed 9 ''n2'' (ex_persister\<lparr>pe_store := ex_sessions\<rparr>) = Some m"
    using build_None_text [of "''n2''" 9 "pe_seg ex_persister"] ex_seg(1)
    by (auto simp: flushed_def seg_text_def)
  ultimately show ?thesis
    using finish_stamps_the_last_segment [of "''s1''" ex_session "ex_persister\<lparr>pe_store := ex_sessions\<rparr>" 9 "''n2''" m 10 11 "''f1''" 1234]
      ex_ready by (auto simp: ex_session_fields marker_message_def)
qed

end
