(* ===== verification/Background_Shells.thy ===== *)
theory Background_Shells
  imports Tool_Output Workspace
begin

text \<open>
  Background shells (\<open>crates/agent-core/src/tools/background.rs\<close>) and the tools that read and kill them
  (\<open>tools/bash_output.rs\<close>, \<open>tools/kill_shell.rs\<close>, \<open>clean_ansi_progress\<close> of \<open>tools/bash.rs\<close>). A shell is
  an object known by its id to the registry of its session and to the tasks that feed it. Times are
  milliseconds, an argument of each operation; what the process does is the arguments of \<open>append\<close> and
  \<open>finish\<close>. Byte counts are natural numbers.
\<close>

section \<open>A shell\<close>

definition MAX_TAIL_BYTES :: nat where
  "MAX_TAIL_BYTES = 256 * 1024"

definition READ_CHUNK_BYTES :: nat where
  "READ_CHUNK_BYTES = 32 * 1024"

definition MAX_BACKGROUND_SHELLS :: nat where
  "MAX_BACKGROUND_SHELLS = 16"

datatype shell_state = ShellRunning | ShellExited "int option" | ShellKilled | ShellFailed str

definition is_terminal :: "shell_state \<Rightarrow> bool" where
  "is_terminal st \<longleftrightarrow> st \<noteq> ShellRunning"

fun state_label :: "shell_state \<Rightarrow> str" where
  "state_label ShellRunning = ''running''"
| "state_label (ShellExited _) = ''exited''"
| "state_label ShellKilled = ''killed''"
| "state_label (ShellFailed _) = ''failed''"

text \<open>\<open>kill_tx\<close> is there until somebody takes it; then the signal is under way. \<open>sh_log_text\<close> is what
  the readers wrote to the log file, \<open>sh_written\<close> what went to the input of a terminal session.\<close>

record bg_shell =
  sh_task_id :: str
  sh_command :: str
  sh_cwd :: str
  sh_started_at :: nat
  sh_is_background :: bool
  sh_state :: shell_state
  sh_total_bytes :: nat
  sh_tail :: str
  sh_read_cursor :: nat
  sh_finished_at :: "nat option"
  sh_kill_tx :: bool
  sh_log_path :: "str option"
  sh_log_text :: str
  sh_pty_writer :: bool
  sh_written :: str

definition new_shell ::
    "nat \<Rightarrow> str \<Rightarrow> str \<Rightarrow> str \<Rightarrow> bool \<Rightarrow> str option \<Rightarrow> bool \<Rightarrow> bg_shell" where
  "new_shell now tid command cwd background log_path writer =
     \<lparr>sh_task_id = tid, sh_command = command, sh_cwd = cwd, sh_started_at = now,
      sh_is_background = background, sh_state = ShellRunning, sh_total_bytes = 0, sh_tail = [],
      sh_read_cursor = 0, sh_finished_at = None, sh_kill_tx = True, sh_log_path = log_path,
      sh_log_text = [], sh_pty_writer = writer, sh_written = []\<rparr>"

text \<open>\<open>ShellInner::push\<close>: the oldest bytes beyond the bound are dropped.\<close>

definition push_bytes :: "str \<Rightarrow> bg_shell \<Rightarrow> bg_shell" where
  "push_bytes b sh =
     (let t = sh_tail sh @ b
      in sh\<lparr>sh_total_bytes := sh_total_bytes sh + length b,
            sh_tail := if MAX_TAIL_BYTES < length t then drop (length t - MAX_TAIL_BYTES) t else t\<rparr>)"

definition append_raw :: "str \<Rightarrow> bg_shell \<Rightarrow> bg_shell" where
  "append_raw b sh = push_bytes b sh"

definition append_output :: "str option \<Rightarrow> str \<Rightarrow> bg_shell \<Rightarrow> bg_shell" where
  "append_output pre b sh =
     (let sh = (case pre of Some p \<Rightarrow> push_bytes p sh | None \<Rightarrow> sh);
          sh = push_bytes b sh
      in if suffix [nl] b then sh else push_bytes [nl] sh)"

definition finish_shell :: "nat \<Rightarrow> shell_state \<Rightarrow> bg_shell \<Rightarrow> bg_shell" where
  "finish_shell now st sh =
     (if is_terminal (sh_state sh) then sh else sh\<lparr>sh_state := st, sh_finished_at := Some now\<rparr>)"

text \<open>The flag; the notification that goes with it is the step \<open>moved\<close> of \<open>wait_step\<close>.\<close>

definition promote_to_background :: "bg_shell \<Rightarrow> bg_shell" where
  "promote_to_background sh = sh\<lparr>sh_is_background := True\<rparr>"

text \<open>What \<open>write_input\<close> answers when there is no writer, or when the terminal refuses.\<close>

datatype input_error = NoWriter | PtyRefused

definition write_input :: "bool \<Rightarrow> str \<Rightarrow> bg_shell \<Rightarrow> input_error + bg_shell" where
  "write_input accepted b sh =
     (if \<not> sh_pty_writer sh then Inl NoWriter
      else if \<not> accepted then Inl PtyRefused
      else Inr (sh\<lparr>sh_written := sh_written sh @ b\<rparr>))"

section \<open>Reading\<close>

record read_output =
  ro_content :: str
  ro_state :: shell_state
  ro_bytes_dropped :: nat
  ro_total_bytes :: nat

definition nothing_new :: "bg_shell \<Rightarrow> read_output" where
  "nothing_new sh = \<lparr>ro_content = [], ro_state = sh_state sh, ro_bytes_dropped = 0,
     ro_total_bytes = sh_total_bytes sh\<rparr>"

definition tail_start :: "bg_shell \<Rightarrow> nat" where
  "tail_start sh = sh_total_bytes sh - length (sh_tail sh)"

definition read_at :: "nat \<Rightarrow> bg_shell \<Rightarrow> read_output" where
  "read_at cursor sh =
     (if sh_total_bytes sh \<le> cursor then nothing_new sh
      else (let skip = max cursor (tail_start sh) - tail_start sh
            in (nothing_new sh)\<lparr>ro_content := utf8_lossy (drop skip (sh_tail sh)),
                 ro_bytes_dropped := tail_start sh - cursor\<rparr>))"

definition mark_read_to_end :: "bg_shell \<Rightarrow> nat \<times> bg_shell" where
  "mark_read_to_end sh = (sh_total_bytes sh, sh\<lparr>sh_read_cursor := sh_total_bytes sh\<rparr>)"

text \<open>The bytes of \<open>read_incremental\<close>, the number of bytes dropped before them, the new cursor.\<close>

definition next_bytes :: "nat \<Rightarrow> bg_shell \<Rightarrow> str \<times> nat \<times> nat" where
  "next_bytes max_bytes sh =
     (let unread = sh_total_bytes sh - sh_read_cursor sh;
          start = max (sh_read_cursor sh) (tail_start sh);
          want = min unread max_bytes;
          skip = start - tail_start sh;
          n = min want (length (sh_tail sh) - skip)
      in (take n (drop skip (sh_tail sh)), tail_start sh - sh_read_cursor sh, start + n))"

definition read_incremental :: "nat \<Rightarrow> bg_shell \<Rightarrow> read_output \<times> bg_shell" where
  "read_incremental max_bytes sh =
     (if sh_total_bytes sh - sh_read_cursor sh = 0 then (nothing_new sh, sh)
      else (case next_bytes max_bytes sh of (bytes, dropped, cursor) \<Rightarrow>
        ((nothing_new sh)\<lparr>ro_content := utf8_lossy bytes, ro_bytes_dropped := dropped\<rparr>,
         sh\<lparr>sh_read_cursor := cursor\<rparr>)))"

section \<open>The tasks that feed a shell\<close>

text \<open>\<open>spawn_reader\<close>: a line of the pipe, without its line feed, goes to the shell and to the log.\<close>

definition read_pipe_line :: "str option \<Rightarrow> str \<Rightarrow> bg_shell \<Rightarrow> bg_shell" where
  "read_pipe_line pre line sh =
     (let trimmed = (case str_strip_suffix line [nl] of Some t \<Rightarrow> t | None \<Rightarrow> line);
          sh = append_output pre trimmed sh
      in case sh_log_path sh of
           None \<Rightarrow> sh
         | Some _ \<Rightarrow> sh\<lparr>sh_log_text := sh_log_text sh @
             (case pre of Some p \<Rightarrow> p | None \<Rightarrow> []) @ trimmed @ [nl]\<rparr>)"

definition read_pipe :: "str option \<Rightarrow> str \<Rightarrow> bg_shell \<Rightarrow> bg_shell" where
  "read_pipe pre stream sh = fold (read_pipe_line pre) (split_inclusive_nl stream) sh"

definition stderr_prefix :: str where
  "stderr_prefix = ''[stderr] ''"

text \<open>\<open>spawn_waiter\<close>: the process ends by itself, or the signal to kill it arrives. \<open>status\<close> is what
  \<open>child.wait()\<close> returns.\<close>

definition exit_state :: "str + int option \<Rightarrow> shell_state" where
  "exit_state status = (case status of Inl e \<Rightarrow> ShellFailed e | Inr code \<Rightarrow> ShellExited code)"

definition waiter_exit :: "nat \<Rightarrow> str + int option \<Rightarrow> bg_shell \<Rightarrow> bg_shell" where
  "waiter_exit now status sh = finish_shell now (exit_state status) sh"

definition waiter_kill :: "nat \<Rightarrow> bg_shell \<Rightarrow> bg_shell" where
  "waiter_kill now sh = (if sh_kill_tx sh then sh else finish_shell now ShellKilled sh)"

section \<open>Waiting for the end\<close>

text \<open>\<open>wait_terminal\<close> looks at the state, and when it is not an end, makes a future that a later
  \<open>notify_waiters\<close> completes. \<open>finish\<close> changes the state under the mutex and notifies afterwards;
  \<open>append\<close> notifies as well, as long as a reader has the pipe, and so does \<open>promote_to_background\<close>, which the
  surfaces call only for a command that runs.\<close>

datatype waiter_at = Looking | AboutToSleep | Asleep | Returned

record wait_world =
  wt_shell :: bg_shell
  wt_at :: waiter_at
  wt_to_notify :: bool
  wt_pipe_open :: bool

definition notify_waiters :: "wait_world \<Rightarrow> wait_world" where
  "notify_waiters w = (if wt_at w = Asleep then w\<lparr>wt_at := Looking\<rparr> else w)"

inductive wait_step :: "wait_world \<Rightarrow> wait_world \<Rightarrow> bool" where
  look_ended: "wt_at w = Looking \<Longrightarrow> is_terminal (sh_state (wt_shell w)) \<Longrightarrow>
    wait_step w (w\<lparr>wt_at := Returned\<rparr>)"
| look_running: "wt_at w = Looking \<Longrightarrow> \<not> is_terminal (sh_state (wt_shell w)) \<Longrightarrow>
    wait_step w (w\<lparr>wt_at := AboutToSleep\<rparr>)"
| sleep: "wt_at w = AboutToSleep \<Longrightarrow> wait_step w (w\<lparr>wt_at := Asleep\<rparr>)"
| shell_ends: "\<not> is_terminal (sh_state (wt_shell w)) \<Longrightarrow> is_terminal st \<Longrightarrow>
    wait_step w (w\<lparr>wt_shell := finish_shell now st (wt_shell w), wt_to_notify := True\<rparr>)"
| notify: "wt_to_notify w \<Longrightarrow> wait_step w ((notify_waiters w)\<lparr>wt_to_notify := False\<rparr>)"
| more_output: "wt_pipe_open w \<Longrightarrow>
    wait_step w (notify_waiters (w\<lparr>wt_shell := append_output pre b (wt_shell w)\<rparr>))"
| moved: "\<not> is_terminal (sh_state (wt_shell w)) \<Longrightarrow>
    wait_step w (notify_waiters (w\<lparr>wt_shell := promote_to_background (wt_shell w)\<rparr>))"
| pipe_closes: "wt_pipe_open w \<Longrightarrow> wait_step w (w\<lparr>wt_pipe_open := False\<rparr>)"

section \<open>The registry of a session\<close>

record subagent_task =
  su_task_id :: str
  su_started_at :: nat
  su_done :: bool
  su_success :: bool

definition new_subagent :: "nat \<Rightarrow> str \<Rightarrow> subagent_task" where
  "new_subagent now tid = \<lparr>su_task_id = tid, su_started_at = now, su_done = False, su_success = False\<rparr>"

definition finish_subagent :: "bool \<Rightarrow> subagent_task \<Rightarrow> subagent_task" where
  "finish_subagent success t = t\<lparr>su_success := success, su_done := True\<rparr>"

text \<open>\<open>bt_objects\<close> holds every shell ever made, \<open>bt_shells\<close> the ids the registry still lists, oldest
  first.\<close>

record bg_tasks =
  bt_objects :: "str \<Rightarrow> bg_shell option"
  bt_shells :: "str list"
  bt_subagents :: "str \<Rightarrow> subagent_task option"
  bt_counter :: nat

definition new_registry :: bg_tasks where
  "new_registry = \<lparr>bt_objects = Map.empty, bt_shells = [], bt_subagents = Map.empty, bt_counter = 0\<rparr>"

text \<open>\<open>{n:03}\<close>\<close>

definition pad3 :: "nat \<Rightarrow> str" where
  "pad3 n = replicate (3 - length (dec n)) (CHR ''0'') @ dec n"

definition bash_id :: "nat \<Rightarrow> str" where
  "bash_id n = ''bash_'' @ pad3 n"

definition next_id :: "bg_tasks \<Rightarrow> str \<times> bg_tasks" where
  "next_id bt = (bash_id (bt_counter bt + 1), bt\<lparr>bt_counter := bt_counter bt + 1\<rparr>)"

definition terminal_id :: "bg_tasks \<Rightarrow> str \<Rightarrow> bool" where
  "terminal_id bt tid =
     (case bt_objects bt tid of Some sh \<Rightarrow> is_terminal (sh_state sh) | None \<Rightarrow> False)"

fun remove_first :: "('a \<Rightarrow> bool) \<Rightarrow> 'a list \<Rightarrow> 'a list" where
  "remove_first P [] = []"
| "remove_first P (x # xs) = (if P x then xs else x # remove_first P xs)"

definition make_room :: "bg_tasks \<Rightarrow> str list" where
  "make_room bt =
     (if MAX_BACKGROUND_SHELLS \<le> length (bt_shells bt) then remove_first (terminal_id bt) (bt_shells bt)
      else bt_shells bt)"

definition enter_shell :: "bg_shell \<Rightarrow> bg_tasks \<Rightarrow> bg_tasks" where
  "enter_shell sh bt =
     bt\<lparr>bt_objects := (bt_objects bt)(sh_task_id sh \<mapsto> sh), bt_shells := make_room bt @ [sh_task_id sh]\<rparr>"

text \<open>The log file of a task, when there is a directory for it; \<open>opens\<close> says whether the directory
  can be made and the file opened.\<close>

definition log_file :: "(str \<Rightarrow> bool) \<Rightarrow> str option \<Rightarrow> str \<Rightarrow> str option" where
  "log_file opens log_dir tid =
     (case log_dir of
        None \<Rightarrow> None
      | Some d \<Rightarrow> (let p = path_join d (tid @ ''.log'') in if opens p then Some p else None))"

definition register_shell ::
    "(str \<Rightarrow> bool) \<Rightarrow> nat \<Rightarrow> str \<Rightarrow> str \<Rightarrow> bool \<Rightarrow> str option \<Rightarrow> bg_tasks \<Rightarrow> str \<times> bg_tasks" where
  "register_shell opens now command cwd background log_dir bt =
     (let (tid, bt) = next_id bt
      in (tid, enter_shell (new_shell now tid command cwd background (log_file opens log_dir tid) False) bt))"

definition register_pty_background ::
    "(str \<Rightarrow> bool) \<Rightarrow> nat \<Rightarrow> str \<Rightarrow> str \<Rightarrow> str option \<Rightarrow> bool \<Rightarrow> bg_tasks \<Rightarrow> str \<times> bg_tasks" where
  "register_pty_background opens now command cwd log_dir writer bt =
     (let (tid, bt) = next_id bt
      in (tid, enter_shell (new_shell now tid command cwd True (log_file opens log_dir tid) writer) bt))"

definition unregister :: "str \<Rightarrow> bg_tasks \<Rightarrow> bool \<times> bg_tasks" where
  "unregister tid bt =
     (if tid \<in> set (bt_shells bt) \<and> terminal_id bt tid
      then (True, bt\<lparr>bt_shells := remove_first (\<lambda>x. x = tid) (bt_shells bt)\<rparr>)
      else (False, bt))"

definition get_shell :: "str \<Rightarrow> bg_tasks \<Rightarrow> bg_shell option" where
  "get_shell tid bt = (if tid \<in> set (bt_shells bt) then bt_objects bt tid else None)"

definition list_shells :: "bg_tasks \<Rightarrow> bg_shell list" where
  "list_shells bt = rev (List.map_filter (bt_objects bt) (bt_shells bt))"

definition register_subagent :: "nat \<Rightarrow> str \<Rightarrow> bg_tasks \<Rightarrow> bg_tasks" where
  "register_subagent now tid bt =
     bt\<lparr>bt_subagents := (bt_subagents bt)(tid \<mapsto> new_subagent now tid)\<rparr>"

definition get_subagent :: "str \<Rightarrow> bg_tasks \<Rightarrow> subagent_task option" where
  "get_subagent tid bt = bt_subagents bt tid"

definition update_subagent :: "(subagent_task \<Rightarrow> subagent_task) \<Rightarrow> str \<Rightarrow> bg_tasks \<Rightarrow> bg_tasks" where
  "update_subagent f tid bt = bt\<lparr>bt_subagents := (bt_subagents bt)(tid := map_option f (bt_subagents bt tid))\<rparr>"

text \<open>Whoever holds the object may change it, listed or not.\<close>

definition update_shell :: "(bg_shell \<Rightarrow> bg_shell) \<Rightarrow> str \<Rightarrow> bg_tasks \<Rightarrow> bg_tasks" where
  "update_shell f tid bt = bt\<lparr>bt_objects := (bt_objects bt)(tid := map_option f (bt_objects bt tid))\<rparr>"

text \<open>\<open>BgTaskRegistry::kill\<close> takes the sender and waits for the end: \<open>later\<close> is what happens to the
  objects meanwhile.\<close>

definition send_kill :: "bg_shell \<Rightarrow> bg_shell" where
  "send_kill sh = sh\<lparr>sh_kill_tx := False\<rparr>"

definition kill_shell :: "(bg_tasks \<Rightarrow> bg_tasks) \<Rightarrow> str \<Rightarrow> bg_tasks \<Rightarrow> shell_state option \<times> bg_tasks" where
  "kill_shell later tid bt =
     (case get_shell tid bt of
        None \<Rightarrow> (None, bt)
      | Some sh \<Rightarrow>
          if is_terminal (sh_state sh) then (Some (sh_state sh), bt)
          else (let bt = later (update_shell send_kill tid bt)
                in (map_option sh_state (bt_objects bt tid), bt)))"

section \<open>Cleaning the output of a terminal\<close>

definition re_cursor :: str where
  "re_cursor =
     [CHR 0x1B, CHR 0x5C, CHR 0x5B, CHR 0x5C, CHR 0x64, CHR 0x2A, CHR 0x5B, CHR 0x41, CHR 0x42,
     CHR 0x43, CHR 0x44, CHR 0x45, CHR 0x46, CHR 0x47, CHR 0x48, CHR 0x4A, CHR 0x4B, CHR 0x53,
     CHR 0x54, CHR 0x66, CHR 0x68, CHR 0x6C, CHR 0x5D]"

definition re_dec :: str where
  "re_dec =
     [CHR 0x1B, CHR 0x5C, CHR 0x5B, CHR 0x5C, CHR 0x3F, CHR 0x5C, CHR 0x64, CHR 0x2B, CHR 0x5B,
     CHR 0x68, CHR 0x6C, CHR 0x5D]"

text \<open>\<open>line.rsplit('\r').next()\<close>\<close>

definition after_last_cr :: "str \<Rightarrow> str" where
  "after_last_cr line = rev (takeWhile (\<lambda>c. c \<noteq> cr) (rev line))"

definition clean_ansi_progress :: "regex_engine \<Rightarrow> str \<Rightarrow> str" where
  "clean_ansi_progress rx t =
     (let cleaned = regex_replace_all rx re_cursor [] t;
          cleaned = regex_replace_all rx re_dec [] cleaned;
          cleaned = str_replace [cr, nl] [nl] cleaned;
          cleaned = trim_end_matches {nl} cleaned
      in trim_end (concat (map (\<lambda>line. after_last_cr line @ [nl]) (split_nl cleaned))))"

section \<open>\<open>BashOutput\<close> and \<open>KillShell\<close>\<close>

datatype bash_error =
  MissingArgument str
| EmptyCommand
| SubagentId
| UnknownTask str
| NoInputPossible
| InputFailed input_error
| StartFailed
| WaitFailed

definition no_shells_text :: str where
  "no_shells_text =
     [CHR 0x28, CHR 0xE6, CHR 0x97, CHR 0xA0, CHR 0xE5, CHR 0x90, CHR 0x8E, CHR 0xE5, CHR 0x8F,
     CHR 0xB0, CHR 0x20, CHR 0x73, CHR 0x68, CHR 0x65, CHR 0x6C, CHR 0x6C, CHR 0x29]"

definition listing_heading :: str where
  "listing_heading =
     [CHR 0xE5, CHR 0x90, CHR 0x8E, CHR 0xE5, CHR 0x8F, CHR 0xB0, CHR 0x20, CHR 0x73, CHR 0x68,
     CHR 0x65, CHR 0x6C, CHR 0x6C, CHR 0x20, CHR 0xE5, CHR 0x88, CHR 0x97, CHR 0xE8, CHR 0xA1,
     CHR 0xA8, CHR 0xEF, CHR 0xBC, CHR 0x88, CHR 0xE6, CHR 0x9C, CHR 0x80, CHR 0xE8, CHR 0xBF,
     CHR 0x91, CHR 0xE5, CHR 0x9C, CHR 0xA8, CHR 0xE5, CHR 0x89, CHR 0x8D, CHR 0xEF, CHR 0xBC,
     CHR 0x89, CHR 0xEF, CHR 0xBC, CHR 0x9A, CHR 0x0A]"

definition warn_head :: str where
  "warn_head =
     [CHR 0x5B, CHR 0x77, CHR 0x61, CHR 0x72, CHR 0x6E, CHR 0x5D, CHR 0x20, CHR 0x62, CHR 0x75,
     CHR 0x66, CHR 0x66, CHR 0x65, CHR 0x72, CHR 0x20, CHR 0xE4, CHR 0xB8, CHR 0x8A, CHR 0xE9,
     CHR 0x99, CHR 0x90, CHR 0xE4, CHR 0xB8, CHR 0xA2, CHR 0xE5, CHR 0xA4, CHR 0xB1, CHR 0xE5,
     CHR 0xBC, CHR 0x80, CHR 0xE5, CHR 0xA4, CHR 0xB4, CHR 0x20]"

definition warn_tail :: str where
  "warn_tail =
     [CHR 0x20, CHR 0xE5, CHR 0xAD, CHR 0x97, CHR 0xE8, CHR 0x8A, CHR 0x82, CHR 0x0A]"

definition nothing_new_text :: str where
  "nothing_new_text =
     [CHR 0x28, CHR 0xE6, CHR 0x97, CHR 0xA0, CHR 0xE6, CHR 0x96, CHR 0xB0, CHR 0xE8, CHR 0xBE,
     CHR 0x93, CHR 0xE5, CHR 0x87, CHR 0xBA, CHR 0x29, CHR 0x0A]"

definition render_shell :: "nat \<Rightarrow> bg_shell \<Rightarrow> str" where
  "render_shell now sh =
     ''- '' @ sh_task_id sh @ '' ['' @ state_label (sh_state sh) @ ''] '' @
     dec ((now - sh_started_at sh) div 1000) @ ''s `'' @ sh_command sh @ ''`'' @
     (case sh_log_path sh of Some p \<Rightarrow> '' log='' @ p | None \<Rightarrow> []) @ [nl]"

definition render_listing :: "nat \<Rightarrow> bg_shell list \<Rightarrow> str" where
  "render_listing now shells =
     (if shells = [] then no_shells_text
      else listing_heading @ concat (map (render_shell now) shells))"

definition dec_int :: "int \<Rightarrow> str" where
  "dec_int i = (if i < 0 then ''-'' @ dec (nat (- i)) else dec (nat i))"

fun status_text :: "shell_state \<Rightarrow> str" where
  "status_text ShellRunning = ''running''"
| "status_text (ShellExited (Some c)) = ''exit '' @ dec_int c"
| "status_text (ShellExited None) = ''terminated''"
| "status_text ShellKilled = ''killed''"
| "status_text (ShellFailed e) = ''failed: '' @ e"

definition dropped_warning :: "read_output \<Rightarrow> str" where
  "dropped_warning ro =
     (if 0 < ro_bytes_dropped ro then warn_head @ dec (ro_bytes_dropped ro) @ warn_tail else [])"

definition with_newline :: "str \<Rightarrow> str" where
  "with_newline s = (if suffix [nl] s then s else s @ [nl])"

definition MAX_WAIT_MS :: nat where
  "MAX_WAIT_MS = 30000"

text \<open>\<open>waited ms\<close> is what happens to the objects during at most \<open>ms\<close> milliseconds.\<close>

definition wait_millis :: "json \<Rightarrow> nat" where
  "wait_millis input = min (case json_get_u64 input ''wait_ms'' of Some n \<Rightarrow> n | None \<Rightarrow> 0) MAX_WAIT_MS"

definition bash_output ::
    "regex_engine \<Rightarrow> nat \<Rightarrow> (nat \<Rightarrow> bg_tasks \<Rightarrow> bg_tasks) \<Rightarrow> json \<Rightarrow> bg_tasks \<Rightarrow>
     (bash_error + str) \<times> bg_tasks" where
  "bash_output rx now waited input bt =
     (case json_get_str input ''task_id'' of
        None \<Rightarrow> (Inr (render_listing now (list_shells bt)), bt)
      | Some tid \<Rightarrow>
          if prefix ''subagent-'' tid then (Inl SubagentId, bt)
          else (case get_shell tid bt of
                  None \<Rightarrow> (Inl (UnknownTask tid), bt)
                | Some sh \<Rightarrow>
                    (let ms = wait_millis input;
                         bt = (if 0 < ms \<and> \<not> is_terminal (sh_state sh) then waited ms bt else bt)
                     in case bt_objects bt tid of
                          None \<Rightarrow> (Inl (UnknownTask tid), bt)
                        | Some sh \<Rightarrow>
                            (let (ro, sh) = read_incremental READ_CHUNK_BYTES sh;
                                 head = ''['' @ tid @ '' '' @ status_text (ro_state ro) @ '']'' @ [nl] @
                                        dropped_warning ro
                             in (Inr (if ro_content ro \<noteq> []
                                      then with_newline (head @ clean_ansi_progress rx (ro_content ro))
                                      else if \<not> is_terminal (ro_state ro) then head @ nothing_new_text
                                      else head),
                                 update_shell (\<lambda>_. sh) tid bt)))))"

definition kill_shell_tool ::
    "(bg_tasks \<Rightarrow> bg_tasks) \<Rightarrow> json \<Rightarrow> bg_tasks \<Rightarrow> (bash_error + str) \<times> bg_tasks" where
  "kill_shell_tool later input bt =
     (case json_get_str input ''task_id'' of
        None \<Rightarrow> (Inl (MissingArgument ''task_id''), bt)
      | Some tid \<Rightarrow>
          if prefix ''subagent-'' tid then (Inl SubagentId, bt)
          else (case kill_shell later tid bt of
                  (None, bt) \<Rightarrow> (Inl (UnknownTask tid), bt)
                | (Some st, bt) \<Rightarrow> (Inr (''[task_id='' @ tid @ '' status='' @ state_label st @ '']''), bt)))"

end
