(* ===== verification/Wakeup.thy ===== *)
theory Wakeup
  imports Background_Shells Complex_Main
begin

text \<open>
  The wakeup scheduler (\<open>crates/agent-core/src/wakeup.rs\<close>): timers that resume a suspended run,
  watches on background tasks, sentinels that start the consolidation of memory when a session is
  idle; with \<open>storage/run_checkpoint.rs\<close>, \<open>tools/schedule_wakeup.rs\<close> and what the harness does to the
  sentinels. The background tasks of the code are the actions of \<open>wake\<close>; a scan of the watches takes
  a copy, looks at one watch after the other and writes the rest back, so it is several actions. The
  clock and the texts \<open>chrono\<close> prints are arguments.
\<close>

section \<open>Events\<close>

datatype wakeup_event =
  BgTaskFinished str str str "str option" "int option" nat
| CronFired str str int str

fun event_session :: "wakeup_event \<Rightarrow> str" where
  "event_session (BgTaskFinished sid _ _ _ _ _) = sid"
| "event_session (CronFired sid _ _ _) = sid"

fun event_run :: "wakeup_event \<Rightarrow> str" where
  "event_run (BgTaskFinished _ rid _ _ _ _) = rid"
| "event_run (CronFired _ rid _ _) = rid"

fun event_meta :: "wakeup_event \<Rightarrow> message_meta" where
  "event_meta (BgTaskFinished _ _ tid call _ _) =
     SystemNotificationMeta ''bg_task_finished'' (Some tid) call"
| "event_meta (CronFired _ _ _ _) = SystemNotificationMeta ''cron_fired'' None None"

definition SYSTEM_NOTIFICATION_HEADER :: str where
  "SYSTEM_NOTIFICATION_HEADER =
     [CHR 0x5B, CHR 0x53, CHR 0x59, CHR 0x53, CHR 0x54, CHR 0x45, CHR 0x4D, CHR 0x20, CHR 0x4E,
     CHR 0x4F, CHR 0x54, CHR 0x49, CHR 0x46, CHR 0x49, CHR 0x43, CHR 0x41, CHR 0x54, CHR 0x49,
     CHR 0x4F, CHR 0x4E, CHR 0x20, CHR 0x2D, CHR 0x20, CHR 0x4E, CHR 0x4F, CHR 0x54, CHR 0x20,
     CHR 0x55, CHR 0x53, CHR 0x45, CHR 0x52, CHR 0x20, CHR 0x49, CHR 0x4E, CHR 0x50, CHR 0x55,
     CHR 0x54, CHR 0x5D, CHR 0x0A, CHR 0x54, CHR 0x68, CHR 0x69, CHR 0x73, CHR 0x20, CHR 0x69,
     CHR 0x73, CHR 0x20, CHR 0x61, CHR 0x6E, CHR 0x20, CHR 0x61, CHR 0x75, CHR 0x74, CHR 0x6F,
     CHR 0x6D, CHR 0x61, CHR 0x74, CHR 0x65, CHR 0x64, CHR 0x20, CHR 0x62, CHR 0x61, CHR 0x63,
     CHR 0x6B, CHR 0x67, CHR 0x72, CHR 0x6F, CHR 0x75, CHR 0x6E, CHR 0x64, CHR 0x2D, CHR 0x74,
     CHR 0x61, CHR 0x73, CHR 0x6B, CHR 0x20, CHR 0x65, CHR 0x76, CHR 0x65, CHR 0x6E, CHR 0x74,
     CHR 0x2C, CHR 0x20, CHR 0x4E, CHR 0x4F, CHR 0x54, CHR 0x20, CHR 0x61, CHR 0x20, CHR 0x6D,
     CHR 0x65, CHR 0x73, CHR 0x73, CHR 0x61, CHR 0x67, CHR 0x65, CHR 0x20, CHR 0x66, CHR 0x72,
     CHR 0x6F, CHR 0x6D, CHR 0x20, CHR 0x74, CHR 0x68, CHR 0x65, CHR 0x20, CHR 0x75, CHR 0x73,
     CHR 0x65, CHR 0x72, CHR 0x2E, CHR 0x0A, CHR 0x44, CHR 0x6F, CHR 0x20, CHR 0x4E, CHR 0x4F,
     CHR 0x54, CHR 0x20, CHR 0x69, CHR 0x6E, CHR 0x74, CHR 0x65, CHR 0x72, CHR 0x70, CHR 0x72,
     CHR 0x65, CHR 0x74, CHR 0x20, CHR 0x74, CHR 0x68, CHR 0x69, CHR 0x73, CHR 0x20, CHR 0x61,
     CHR 0x73, CHR 0x20, CHR 0x75, CHR 0x73, CHR 0x65, CHR 0x72, CHR 0x20, CHR 0x61, CHR 0x63,
     CHR 0x6B, CHR 0x6E, CHR 0x6F, CHR 0x77, CHR 0x6C, CHR 0x65, CHR 0x64, CHR 0x67, CHR 0x65,
     CHR 0x6D, CHR 0x65, CHR 0x6E, CHR 0x74, CHR 0x2C, CHR 0x20, CHR 0x63, CHR 0x6F, CHR 0x6E,
     CHR 0x66, CHR 0x69, CHR 0x72, CHR 0x6D, CHR 0x61, CHR 0x74, CHR 0x69, CHR 0x6F, CHR 0x6E,
     CHR 0x2C, CHR 0x20, CHR 0x6F, CHR 0x72, CHR 0x20, CHR 0x72, CHR 0x65, CHR 0x73, CHR 0x70,
     CHR 0x6F, CHR 0x6E, CHR 0x73, CHR 0x65, CHR 0x20, CHR 0x74, CHR 0x6F, CHR 0x20, CHR 0x61,
     CHR 0x6E, CHR 0x79, CHR 0x20, CHR 0x70, CHR 0x65, CHR 0x6E, CHR 0x64, CHR 0x69, CHR 0x6E,
     CHR 0x67, CHR 0x20, CHR 0x71, CHR 0x75, CHR 0x65, CHR 0x73, CHR 0x74, CHR 0x69, CHR 0x6F,
     CHR 0x6E, CHR 0x2E, CHR 0x0A, CHR 0x0A]"

definition bg_done_text :: str where
  "bg_done_text =
     [CHR 0x0A, CHR 0xE5, CHR 0x90, CHR 0x8E, CHR 0xE5, CHR 0x8F, CHR 0xB0, CHR 0xE4, CHR 0xBB,
     CHR 0xBB, CHR 0xE5, CHR 0x8A, CHR 0xA1, CHR 0xE5, CHR 0xB7, CHR 0xB2, CHR 0xE5, CHR 0xAE,
     CHR 0x8C, CHR 0xE6, CHR 0x88, CHR 0x90, CHR 0xE3, CHR 0x80, CHR 0x82, CHR 0x0A, CHR 0x3C,
     CHR 0x2F, CHR 0x77, CHR 0x61, CHR 0x6B, CHR 0x65, CHR 0x75, CHR 0x70, CHR 0x3E]"

definition cron_done_text :: str where
  "cron_done_text =
     [CHR 0x0A, CHR 0xE5, CHR 0xAE, CHR 0x9A, CHR 0xE6, CHR 0x97, CHR 0xB6, CHR 0xE5, CHR 0xB7,
     CHR 0xB2, CHR 0xE5, CHR 0x88, CHR 0xB0, CHR 0xEF, CHR 0xBC, CHR 0x8C, CHR 0xE6, CHR 0x8C,
     CHR 0x89, CHR 0xE4, CHR 0xBD, CHR 0xA0, CHR 0xE4, CHR 0xB9, CHR 0x8B, CHR 0xE5, CHR 0x89,
     CHR 0x8D, CHR 0x20, CHR 0x53, CHR 0x63, CHR 0x68, CHR 0x65, CHR 0x64, CHR 0x75, CHR 0x6C,
     CHR 0x65, CHR 0x57, CHR 0x61, CHR 0x6B, CHR 0x65, CHR 0x75, CHR 0x70, CHR 0x20, CHR 0xE7,
     CHR 0x9A, CHR 0x84, CHR 0xE8, CHR 0xAE, CHR 0xBE, CHR 0xE5, CHR 0xAE, CHR 0x9A, CHR 0xE5,
     CHR 0x94, CHR 0xA4, CHR 0xE9, CHR 0x86, CHR 0x92, CHR 0xE3, CHR 0x80, CHR 0x82, CHR 0x0A,
     CHR 0x3C, CHR 0x2F, CHR 0x77, CHR 0x61, CHR 0x6B, CHR 0x65, CHR 0x75, CHR 0x70, CHR 0x3E]"

definition quoted :: "str \<Rightarrow> str" where
  "quoted s = [dq] @ s @ [dq]"

text \<open>\<open>rfc\<close>: the time as RFC 3339, when \<open>chrono\<close> can represent it.\<close>

fun wakeup_xml :: "(int \<Rightarrow> str option) \<Rightarrow> wakeup_event \<Rightarrow> str" where
  "wakeup_xml rfc (BgTaskFinished _ _ tid call code duration) =
     SYSTEM_NOTIFICATION_HEADER @
     ''<wakeup kind='' @ quoted ''bg_task_finished'' @ '' task_id='' @ quoted tid @
     (case call of Some c \<Rightarrow> '' tool_use_id='' @ quoted c | None \<Rightarrow> []) @
     '' exit_code='' @ quoted (case code of Some c \<Rightarrow> dec_int c | None \<Rightarrow> ''?'') @
     '' duration_ms='' @ quoted (dec duration) @ ''>'' @ bg_done_text"
| "wakeup_xml rfc (CronFired _ _ due reason) =
     SYSTEM_NOTIFICATION_HEADER @
     ''<wakeup kind='' @ quoted ''cron_fired'' @
     '' scheduled_for='' @ quoted (case rfc due of Some t \<Rightarrow> t | None \<Rightarrow> []) @
     '' original_reason='' @ quoted reason @ ''>'' @ cron_done_text"

section \<open>The tables\<close>

record cron =
  cr_fire_at_ms :: int
  cr_session_id :: str
  cr_run_id :: str
  cr_reason :: str

record idle_sentinel =
  is_fire_at_ms :: int
  is_armed_at_ms :: int
  is_session_id :: str
  is_last_msg_id :: "str option"

text \<open>\<open>idle_minutes\<close> is a float in the code.\<close>

record idle_elapsed =
  ie_session_id :: str
  ie_idle_minutes :: rat
  ie_last_msg_id :: "str option"

record bg_watch =
  bw_task_id :: str
  bw_session_id :: str
  bw_run_id :: str
  bw_tool_use_id :: "str option"

text \<open>A registry is shared: \<open>sc_session_shells\<close> holds its address. \<open>sc_queue\<close> is the channel to the
  dispatcher; what the handlers were called with, and the events that found no handler, are kept.\<close>

record scheduler =
  sc_crons :: "cron list"
  sc_bg_watches :: "bg_watch list"
  sc_handler :: bool
  sc_session_shells :: "str \<Rightarrow> nat option"
  sc_idle_sentinels :: "idle_sentinel list"
  sc_idle_handler :: bool
  sc_queue :: "wakeup_event list"
  sc_resumed :: "wakeup_event list"
  sc_unhandled :: "wakeup_event list"
  sc_slept :: "idle_elapsed list"

definition new_scheduler :: scheduler where
  "new_scheduler = \<lparr>sc_crons = [], sc_bg_watches = [], sc_handler = False,
     sc_session_shells = Map.empty, sc_idle_sentinels = [], sc_idle_handler = False, sc_queue = [],
     sc_resumed = [], sc_unhandled = [], sc_slept = []\<rparr>"

definition send_event :: "wakeup_event \<Rightarrow> scheduler \<Rightarrow> scheduler" where
  "send_event e s = s\<lparr>sc_queue := sc_queue s @ [e]\<rparr>"

definition arm_cron :: "str \<Rightarrow> str \<Rightarrow> int \<Rightarrow> str \<Rightarrow> scheduler \<Rightarrow> scheduler" where
  "arm_cron sid rid due reason s =
     s\<lparr>sc_crons := sc_crons s @
        [\<lparr>cr_fire_at_ms = due, cr_session_id = sid, cr_run_id = rid, cr_reason = reason\<rparr>]\<rparr>"

definition arm_bg_task :: "str \<Rightarrow> str \<Rightarrow> str \<Rightarrow> str option \<Rightarrow> scheduler \<Rightarrow> scheduler" where
  "arm_bg_task sid rid tid call s =
     s\<lparr>sc_bg_watches := sc_bg_watches s @
        [\<lparr>bw_task_id = tid, bw_session_id = sid, bw_run_id = rid, bw_tool_use_id = call\<rparr>]\<rparr>"

definition register_session_shells :: "str \<Rightarrow> nat \<Rightarrow> scheduler \<Rightarrow> scheduler" where
  "register_session_shells sid reg s = s\<lparr>sc_session_shells := (sc_session_shells s)(sid \<mapsto> reg)\<rparr>"

definition unregister_session_shells :: "str \<Rightarrow> scheduler \<Rightarrow> scheduler" where
  "unregister_session_shells sid s = s\<lparr>sc_session_shells := (sc_session_shells s)(sid := None)\<rparr>"

definition set_resume_handler :: "scheduler \<Rightarrow> scheduler" where
  "set_resume_handler s = s\<lparr>sc_handler := True\<rparr>"

definition set_idle_handler :: "scheduler \<Rightarrow> scheduler" where
  "set_idle_handler s = s\<lparr>sc_idle_handler := True\<rparr>"

definition cancel_idle :: "str \<Rightarrow> scheduler \<Rightarrow> scheduler" where
  "cancel_idle sid s =
     s\<lparr>sc_idle_sentinels := filter (\<lambda>x. is_session_id x \<noteq> sid) (sc_idle_sentinels s)\<rparr>"

definition arm_idle :: "int \<Rightarrow> str \<Rightarrow> str option \<Rightarrow> int \<Rightarrow> scheduler \<Rightarrow> scheduler" where
  "arm_idle now sid last_msg delay s =
     (let s = s\<lparr>sc_idle_sentinels := filter (\<lambda>x. is_session_id x \<noteq> sid) (sc_idle_sentinels s)\<rparr>
      in if delay \<le> 0 then s
         else s\<lparr>sc_idle_sentinels := sc_idle_sentinels s @
                [\<lparr>is_fire_at_ms = now + delay, is_armed_at_ms = now, is_session_id = sid,
                  is_last_msg_id = last_msg\<rparr>]\<rparr>)"

definition of_run :: "str \<Rightarrow> str \<Rightarrow> cron \<Rightarrow> bool" where
  "of_run sid rid c \<longleftrightarrow> cr_session_id c = sid \<and> cr_run_id c = rid"

definition discard_cron :: "str \<Rightarrow> str \<Rightarrow> scheduler \<Rightarrow> scheduler" where
  "discard_cron sid rid s = s\<lparr>sc_crons := filter (\<lambda>c. \<not> of_run sid rid c) (sc_crons s)\<rparr>"

definition discard_run :: "str \<Rightarrow> str \<Rightarrow> scheduler \<Rightarrow> scheduler" where
  "discard_run sid rid s =
     s\<lparr>sc_crons := filter (\<lambda>c. \<not> of_run sid rid c) (sc_crons s),
       sc_bg_watches :=
         filter (\<lambda>w. \<not> (bw_session_id w = sid \<and> bw_run_id w = rid)) (sc_bg_watches s)\<rparr>"

definition discard_bg_task :: "str \<Rightarrow> str \<Rightarrow> scheduler \<Rightarrow> scheduler" where
  "discard_bg_task sid tid s =
     s\<lparr>sc_bg_watches :=
         filter (\<lambda>w. \<not> (bw_session_id w = sid \<and> bw_task_id w = tid)) (sc_bg_watches s)\<rparr>"

section \<open>The scans\<close>

definition cron_event :: "cron \<Rightarrow> wakeup_event" where
  "cron_event c = CronFired (cr_session_id c) (cr_run_id c) (cr_fire_at_ms c) (cr_reason c)"

definition scan_cron :: "int \<Rightarrow> scheduler \<Rightarrow> scheduler" where
  "scan_cron now s =
     (let (fire, keep) = partition (\<lambda>c. cr_fire_at_ms c \<le> now) (sc_crons s)
      in fold (send_event \<circ> cron_event) fire (s\<lparr>sc_crons := keep\<rparr>))"

definition idle_event :: "int \<Rightarrow> idle_sentinel \<Rightarrow> idle_elapsed" where
  "idle_event now x = \<lparr>ie_session_id = is_session_id x,
     ie_idle_minutes = of_int (max (now - is_armed_at_ms x) 0) / 60000,
     ie_last_msg_id = is_last_msg_id x\<rparr>"

definition scan_idle :: "int \<Rightarrow> scheduler \<Rightarrow> scheduler" where
  "scan_idle now s =
     (let (fire, keep) = partition (\<lambda>x. is_fire_at_ms x \<le> now) (sc_idle_sentinels s);
          s = s\<lparr>sc_idle_sentinels := keep\<rparr>
      in if \<not> sc_idle_handler s then s
         else s\<lparr>sc_slept := sc_slept s @ map (idle_event now) fire\<rparr>)"

text \<open>What a scan finds out about one watch: done, killed, exit code, duration.\<close>

definition watch_status ::
    "(nat \<Rightarrow> bg_tasks) \<Rightarrow> (str \<Rightarrow> nat option) \<Rightarrow> nat \<Rightarrow> bg_watch \<Rightarrow> bool \<times> bool \<times> int option \<times> nat" where
  "watch_status regs shells now w =
     (case shells (bw_session_id w) of
        None \<Rightarrow> (True, False, None, 0)
      | Some r \<Rightarrow>
          if prefix ''subagent-'' (bw_task_id w)
          then (case get_subagent (bw_task_id w) (regs r) of
                  None \<Rightarrow> (True, False, None, 0)
                | Some t \<Rightarrow>
                    (su_done t, False,
                     if su_done t then Some (if su_success t then 0 else 1) else None,
                     now - su_started_at t))
          else (case get_shell (bw_task_id w) (regs r) of
                  None \<Rightarrow> (True, False, None, 0)
                | Some sh \<Rightarrow>
                    (is_terminal (sh_state sh), sh_state sh = ShellKilled,
                     case sh_state sh of ShellExited code \<Rightarrow> code | _ \<Rightarrow> None,
                     now - sh_started_at sh)))"

definition finished_event :: "bg_watch \<Rightarrow> int option \<Rightarrow> nat \<Rightarrow> wakeup_event" where
  "finished_event w code duration =
     BgTaskFinished (bw_session_id w) (bw_run_id w) (bw_task_id w) (bw_tool_use_id w) code duration"

text \<open>A scan under way: the copy of the registries, the watches to look at, those that stay.\<close>

record bg_scan =
  bs_shells :: "str \<Rightarrow> nat option"
  bs_todo :: "bg_watch list"
  bs_still :: "bg_watch list"

definition scan_begin :: "scheduler \<Rightarrow> bg_scan" where
  "scan_begin s = \<lparr>bs_shells = sc_session_shells s, bs_todo = sc_bg_watches s, bs_still = []\<rparr>"

definition scan_check ::
    "(nat \<Rightarrow> bg_tasks) \<Rightarrow> nat \<Rightarrow> bg_scan \<Rightarrow> scheduler \<Rightarrow> bg_scan \<times> scheduler" where
  "scan_check regs now sn s =
     (case bs_todo sn of
        [] \<Rightarrow> (sn, s)
      | w # ws \<Rightarrow>
          (case watch_status regs (bs_shells sn) now w of
             (done, killed, code, duration) \<Rightarrow>
               if done
               then (sn\<lparr>bs_todo := ws\<rparr>, if killed then s else send_event (finished_event w code duration) s)
               else (sn\<lparr>bs_todo := ws, bs_still := bs_still sn @ [w]\<rparr>, s)))"

definition scan_end :: "bg_scan \<Rightarrow> scheduler \<Rightarrow> scheduler" where
  "scan_end sn s = s\<lparr>sc_bg_watches := bs_still sn\<rparr>"

text \<open>The whole of \<open>scan_bg\<close>, when nothing else happens meanwhile.\<close>

fun scan_checks :: "(nat \<Rightarrow> bg_tasks) \<Rightarrow> nat \<Rightarrow> nat \<Rightarrow> bg_scan \<times> scheduler \<Rightarrow> bg_scan \<times> scheduler" where
  "scan_checks regs now 0 p = p"
| "scan_checks regs now (Suc n) p = scan_checks regs now n (scan_check regs now (fst p) (snd p))"

definition scan_bg :: "(nat \<Rightarrow> bg_tasks) \<Rightarrow> nat \<Rightarrow> scheduler \<Rightarrow> scheduler" where
  "scan_bg regs now s =
     (let (sn, s') = scan_checks regs now (length (sc_bg_watches s)) (scan_begin s, s)
      in scan_end sn s')"

text \<open>\<open>WakeupDispatcher\<close>\<close>

definition dispatch_event :: "scheduler \<Rightarrow> scheduler" where
  "dispatch_event s =
     (case sc_queue s of
        [] \<Rightarrow> s
      | e # es \<Rightarrow>
          if sc_handler s then s\<lparr>sc_queue := es, sc_resumed := sc_resumed s @ [e]\<rparr>
          else s\<lparr>sc_queue := es, sc_unhandled := sc_unhandled s @ [e]\<rparr>)"

section \<open>Checkpoints\<close>

datatype stored_phase = AwaitTask str "int option" | AwaitCron int str

record stored_checkpoint =
  ck_run_id :: str
  ck_session_id :: str
  ck_agent :: str
  ck_run_mode :: str
  ck_model_id :: "str option"
  ck_iteration :: nat
  ck_model_step_index :: nat
  ck_tool_step_index :: nat
  ck_tool_call_dispatch_offset :: nat
  ck_total_input_tokens :: nat
  ck_total_output_tokens :: nat
  ck_total_cache_read_tokens :: nat
  ck_total_cache_creation_tokens :: nat
  ck_phase :: stored_phase
  ck_suspended_at_ms :: int

text \<open>Per session directory, the checkpoint file; \<open>Inl ()\<close> is one that does not parse.\<close>

type_synonym checkpoint_dir = "str \<Rightarrow> (unit + stored_checkpoint) option"

definition save_checkpoint :: "stored_checkpoint \<Rightarrow> checkpoint_dir \<Rightarrow> checkpoint_dir" where
  "save_checkpoint ck d = d(ck_session_id ck \<mapsto> Inr ck)"

definition load_checkpoint :: "str \<Rightarrow> checkpoint_dir \<Rightarrow> unit + stored_checkpoint option" where
  "load_checkpoint sid d =
     (case d sid of None \<Rightarrow> Inr None | Some (Inl _) \<Rightarrow> Inl () | Some (Inr ck) \<Rightarrow> Inr (Some ck))"

definition delete_checkpoint :: "str \<Rightarrow> checkpoint_dir \<Rightarrow> checkpoint_dir" where
  "delete_checkpoint sid d = d(sid := None)"

text \<open>\<open>recover_pending_crons\<close> at a session directory, and over the directories that are listed.\<close>

definition recover_one :: "int \<Rightarrow> checkpoint_dir \<Rightarrow> str \<Rightarrow> scheduler \<Rightarrow> scheduler" where
  "recover_one now d dir s =
     (case load_checkpoint dir d of
        Inr (Some ck) \<Rightarrow>
          (case ck_phase ck of
             AwaitCron due reason \<Rightarrow>
               if due \<le> now then s
               else if list_ex (of_run (ck_session_id ck) (ck_run_id ck)) (sc_crons s) then s
               else arm_cron (ck_session_id ck) (ck_run_id ck) due reason s
           | AwaitTask _ _ \<Rightarrow> s)
      | _ \<Rightarrow> s)"

definition recover_pending_crons :: "int \<Rightarrow> checkpoint_dir \<Rightarrow> str list \<Rightarrow> scheduler \<Rightarrow> scheduler" where
  "recover_pending_crons now d dirs s = fold (recover_one now d) dirs s"

record pending_cron =
  pc_run_id :: str
  pc_fire_at_ms :: int
  pc_seconds_remaining :: nat
  pc_reason :: str

definition list_pending_crons :: "int \<Rightarrow> str \<Rightarrow> scheduler \<Rightarrow> pending_cron list" where
  "list_pending_crons now sid s =
     map (\<lambda>c. \<lparr>pc_run_id = cr_run_id c, pc_fire_at_ms = cr_fire_at_ms c,
          pc_seconds_remaining = nat (max (cr_fire_at_ms c - now) 0 div 1000),
          pc_reason = cr_reason c\<rparr>)
       (filter (\<lambda>c. cr_session_id c = sid) (sc_crons s))"

section \<open>\<open>ScheduleWakeup\<close>\<close>

definition MAX_DELAY_SECS :: nat where
  "MAX_DELAY_SECS = 604800"

datatype schedule_error =
  NoReason | EmptyReason | LongReason | BadTime | NotInFuture | TooFar | NoTime

definition set_head :: str where
  "set_head =
     [CHR 0x5B, CHR 0x53, CHR 0x63, CHR 0x68, CHR 0x65, CHR 0x64, CHR 0x75, CHR 0x6C, CHR 0x65,
     CHR 0x57, CHR 0x61, CHR 0x6B, CHR 0x65, CHR 0x75, CHR 0x70, CHR 0x5D, CHR 0x20, CHR 0xE5,
     CHR 0xB7, CHR 0xB2, CHR 0xE8, CHR 0xAE, CHR 0xBE, CHR 0xE7, CHR 0xBD, CHR 0xAE, CHR 0xE5,
     CHR 0x9C, CHR 0xA8, CHR 0x20]"

definition set_paren :: str where
  "set_paren =
     [CHR 0xEF, CHR 0xBC, CHR 0x88]"

definition set_after :: str where
  "set_after =
     [CHR 0x73, CHR 0x20, CHR 0xE5, CHR 0x90, CHR 0x8E, CHR 0xEF, CHR 0xBC, CHR 0x89, CHR 0xE5,
     CHR 0x94, CHR 0xA4, CHR 0xE9, CHR 0x86, CHR 0x92, CHR 0xEF, CHR 0xBC, CHR 0x88, CHR 0x72,
     CHR 0x65, CHR 0x61, CHR 0x73, CHR 0x6F, CHR 0x6E, CHR 0x3A, CHR 0x20]"

definition set_source :: str where
  "set_source =
     [CHR 0xEF, CHR 0xBC, CHR 0x8C, CHR 0xE6, CHR 0x9D, CHR 0xA5, CHR 0xE6, CHR 0xBA, CHR 0x90,
     CHR 0x3A, CHR 0x20]"

definition set_tail :: str where
  "set_tail =
     [CHR 0xEF, CHR 0xBC, CHR 0x89, CHR 0xE3, CHR 0x80, CHR 0x82, CHR 0xE6, CHR 0x9C, CHR 0xAC,
     CHR 0xE8, CHR 0xBD, CHR 0xAE, CHR 0x20, CHR 0x74, CHR 0x6F, CHR 0x6F, CHR 0x6C, CHR 0x5F,
     CHR 0x63, CHR 0x61, CHR 0x6C, CHR 0x6C, CHR 0x20, CHR 0xE7, CHR 0xBB, CHR 0x93, CHR 0xE6,
     CHR 0x9D, CHR 0x9F, CHR 0xE5, CHR 0x90, CHR 0x8E, CHR 0x20, CHR 0x52, CHR 0x75, CHR 0x6E,
     CHR 0x20, CHR 0xE6, CHR 0x9A, CHR 0x82, CHR 0xE5, CHR 0x81, CHR 0x9C, CHR 0xE3, CHR 0x80,
     CHR 0x82]"

text \<open>\<open>when_of\<close> parses RFC 3339 to milliseconds, \<open>rfc\<close> prints.\<close>

definition fire_time :: "(str \<Rightarrow> int option) \<Rightarrow> int \<Rightarrow> json \<Rightarrow> schedule_error + int \<times> str" where
  "fire_time when_of now input =
     (case json_get_str input ''fire_at'' of
        Some t \<Rightarrow>
          (case when_of t of
             None \<Rightarrow> Inl BadTime
           | Some due \<Rightarrow>
               if due \<le> now then Inl NotInFuture
               else if now + int MAX_DELAY_SECS * 1000 < due then Inl TooFar
               else Inr (due, ''fire_at''))
      | None \<Rightarrow>
          (case json_get_u64 input ''delay_secs'' of
             Some d \<Rightarrow> Inr (now + int (max (min d MAX_DELAY_SECS) 1) * 1000, ''delay_secs'')
           | None \<Rightarrow> Inl NoTime))"

definition schedule_wakeup ::
    "(str \<Rightarrow> int option) \<Rightarrow> (int \<Rightarrow> str option) \<Rightarrow> int \<Rightarrow> json \<Rightarrow> stored_phase option \<Rightarrow>
     (schedule_error + str) \<times> stored_phase option" where
  "schedule_wakeup when_of rfc now input phase =
     (case json_get_str input ''reason'' of
        None \<Rightarrow> (Inl NoReason, phase)
      | Some raw \<Rightarrow>
          (let reason = trim raw
           in if reason = [] then (Inl EmptyReason, phase)
              else if 200 < char_total reason then (Inl LongReason, phase)
              else (case fire_time when_of now input of
                      Inl e \<Rightarrow> (Inl e, phase)
                    | Inr (due, source) \<Rightarrow>
                        (Inr (set_head @ (case rfc due of Some t \<Rightarrow> t | None \<Rightarrow> []) @ set_paren @
                              dec (nat ((due - now) div 1000)) @ set_after @ reason @ set_source @
                              source @ set_tail),
                         Some (AwaitCron due reason)))))"

section \<open>Suspending and resuming\<close>

text \<open>What \<open>run_agent\<close> does when it suspends, and what the surface does when a checkpoint waits.\<close>

definition arm_phase :: "str option \<Rightarrow> str \<Rightarrow> stored_phase \<Rightarrow> scheduler \<Rightarrow> scheduler" where
  "arm_phase sid rid ph s =
     (let sid = (case sid of Some x \<Rightarrow> x | None \<Rightarrow> [])
      in case ph of
           AwaitTask tid _ \<Rightarrow> arm_bg_task sid rid tid None s
         | AwaitCron due reason \<Rightarrow> arm_cron sid rid due reason s)"

definition suspend_run :: "stored_checkpoint \<Rightarrow> checkpoint_dir \<times> scheduler \<Rightarrow> checkpoint_dir \<times> scheduler" where
  "suspend_run ck p =
     (save_checkpoint ck (fst p), arm_phase (Some (ck_session_id ck)) (ck_run_id ck) (ck_phase ck) (snd p))"

definition take_over :: "str \<Rightarrow> checkpoint_dir \<times> scheduler \<Rightarrow> stored_checkpoint option \<times> checkpoint_dir \<times> scheduler" where
  "take_over sid p =
     (case load_checkpoint sid (fst p) of
        Inr (Some ck) \<Rightarrow>
          (Some ck, delete_checkpoint sid (fst p),
           case ck_phase ck of
             AwaitCron _ _ \<Rightarrow> discard_cron sid (ck_run_id ck) (snd p)
           | AwaitTask tid _ \<Rightarrow> discard_bg_task sid tid (snd p))
      | _ \<Rightarrow> (None, p))"

text \<open>\<open>run_turn\<close> starts a run: the sentinel of its session is cancelled. After a run the memory is
  extracted in a task of its own, which ends with \<open>arm_idle_after_run\<close>.\<close>

definition run_starts :: "str \<Rightarrow> scheduler \<Rightarrow> scheduler" where
  "run_starts sid s = cancel_idle sid s"

definition arm_idle_after_run ::
    "bool \<Rightarrow> nat \<Rightarrow> int \<Rightarrow> str \<Rightarrow> str option \<Rightarrow> scheduler \<Rightarrow> scheduler" where
  "arm_idle_after_run memory_active t_min now sid cursor s =
     (if \<not> memory_active then s
      else if t_min = 0 then s
      else arm_idle now sid cursor (int t_min * 60000) (set_idle_handler s))"

section \<open>Interleavings\<close>

datatype wake_action =
  ArmCron str str int str
| ArmBgTask str str str "str option"
| DiscardCron str str
| DiscardBgTask str str
| DiscardRun str str
| RegisterShells str nat
| UnregisterShells str
| SetResumeHandler
| Tasks nat "bg_tasks \<Rightarrow> bg_tasks"
| RunStarts str
| ArmIdleAfterRun bool nat int str "str option"
| ScanCron int
| ScanIdle int
| ScanBegin
| ScanCheck nat
| ScanEnd
| DispatchEvent

record wake_world =
  ww_sched :: scheduler
  ww_regs :: "nat \<Rightarrow> bg_tasks"
  ww_scan :: "bg_scan option"

definition at_rest :: wake_world where
  "at_rest = \<lparr>ww_sched = new_scheduler, ww_regs = (\<lambda>_. new_registry), ww_scan = None\<rparr>"

abbreviation on_sched :: "(scheduler \<Rightarrow> scheduler) \<Rightarrow> wake_world \<Rightarrow> wake_world" where
  "on_sched f w \<equiv> w\<lparr>ww_sched := f (ww_sched w)\<rparr>"

fun wake :: "wake_action \<Rightarrow> wake_world \<Rightarrow> wake_world" where
  "wake (ArmCron sid rid due reason) w = on_sched (arm_cron sid rid due reason) w"
| "wake (ArmBgTask sid rid tid call) w = on_sched (arm_bg_task sid rid tid call) w"
| "wake (DiscardCron sid rid) w = on_sched (discard_cron sid rid) w"
| "wake (DiscardBgTask sid tid) w = on_sched (discard_bg_task sid tid) w"
| "wake (DiscardRun sid rid) w = on_sched (discard_run sid rid) w"
| "wake (RegisterShells sid reg) w = on_sched (register_session_shells sid reg) w"
| "wake (UnregisterShells sid) w = on_sched (unregister_session_shells sid) w"
| "wake SetResumeHandler w = on_sched set_resume_handler w"
| "wake (Tasks r f) w = w\<lparr>ww_regs := (ww_regs w)(r := f (ww_regs w r))\<rparr>"
| "wake (RunStarts sid) w = on_sched (run_starts sid) w"
| "wake (ArmIdleAfterRun act t now sid cur) w = on_sched (arm_idle_after_run act t now sid cur) w"
| "wake (ScanCron now) w = on_sched (scan_cron now) w"
| "wake (ScanIdle now) w = on_sched (scan_idle now) w"
| "wake ScanBegin w =
     (case ww_scan w of None \<Rightarrow> w\<lparr>ww_scan := Some (scan_begin (ww_sched w))\<rparr> | Some _ \<Rightarrow> w)"
| "wake (ScanCheck now) w =
     (case ww_scan w of
        None \<Rightarrow> w
      | Some sn \<Rightarrow>
          (let (sn, s) = scan_check (ww_regs w) now sn (ww_sched w)
           in w\<lparr>ww_scan := Some sn, ww_sched := s\<rparr>))"
| "wake ScanEnd w =
     (case ww_scan w of
        Some sn \<Rightarrow> if bs_todo sn = [] then w\<lparr>ww_scan := None, ww_sched := scan_end sn (ww_sched w)\<rparr> else w
      | None \<Rightarrow> w)"
| "wake DispatchEvent w = on_sched dispatch_event w"

end
