(* ===== verification/Bash_Tools.thy ===== *)
theory Bash_Tools
  imports Wakeup Edit_Tools
begin

text \<open>
  The tools that run a command (\<open>crates/agent-core/src/tools/bash.rs\<close>, \<open>tools/interactive_bash.rs\<close>,
  \<open>tools/bash_input.rs\<close>). A tool waits in a loop; an element of a list says what happened before the
  loop wakes and which timers are due then. The operating system (starting a process, the terminal),
  regular expressions and \<open>{:?}\<close> are arguments.
\<close>

section \<open>Arguments and texts\<close>

record tool_ctx =
  cx_session_id :: "str option"
  cx_run_id :: "str option"
  cx_call_id :: str

definition arm_auto_notification :: "tool_ctx \<Rightarrow> str \<Rightarrow> scheduler \<Rightarrow> scheduler" where
  "arm_auto_notification cx tid s =
     (case (cx_session_id cx, cx_run_id cx) of
        (Some sid, Some rid) \<Rightarrow>
          arm_bg_task sid rid tid (if cx_call_id cx = [] then None else Some (cx_call_id cx)) s
      | _ \<Rightarrow> s)"

definition DEFAULT_TIMEOUT_SECS :: nat where
  "DEFAULT_TIMEOUT_SECS = 60"

definition MAX_TIMEOUT_SECS :: nat where
  "MAX_TIMEOUT_SECS = 600"

definition MAX_INTERACTIVE_SECS :: nat where
  "MAX_INTERACTIVE_SECS = 60"

definition BASH_OUTPUT_BYTES :: nat where
  "BASH_OUTPUT_BYTES = 30000"

definition USIZE_MAX :: nat where
  "USIZE_MAX = 2 ^ 64 - 1"

definition cut_head :: str where
  "cut_head =
     [CHR 0x0A, CHR 0xE2, CHR 0x80, CHR 0xA6, CHR 0x5B, CHR 0xE5, CHR 0xB7, CHR 0xB2, CHR 0xE6,
     CHR 0x88, CHR 0xAA, CHR 0xE6, CHR 0x96, CHR 0xAD, CHR 0xEF, CHR 0xBC, CHR 0x8C, CHR 0xE5,
     CHR 0x85, CHR 0xB1, CHR 0x20]"

definition cut_tail :: str where
  "cut_tail =
     [CHR 0x20, CHR 0xE5, CHR 0xAD, CHR 0x97, CHR 0xE8, CHR 0x8A, CHR 0x82, CHR 0x5D]"

definition no_output_text :: str where
  "no_output_text =
     [CHR 0x28, CHR 0xE6, CHR 0x97, CHR 0xA0, CHR 0xE8, CHR 0xBE, CHR 0x93, CHR 0xE5, CHR 0x87,
     CHR 0xBA, CHR 0x29]"

definition started_text :: str where
  "started_text =
     [CHR 0x20, CHR 0xE5, CHR 0xB7, CHR 0xB2, CHR 0xE5, CHR 0x9C, CHR 0xA8, CHR 0xE5, CHR 0x90,
     CHR 0x8E, CHR 0xE5, CHR 0x8F, CHR 0xB0, CHR 0xE5, CHR 0x90, CHR 0xAF, CHR 0xE5, CHR 0x8A,
     CHR 0xA8]"

definition interrupted_text :: str where
  "interrupted_text =
     [CHR 0x5B, CHR 0xE5, CHR 0xB7, CHR 0xB2, CHR 0xE4, CHR 0xB8, CHR 0xAD, CHR 0xE6, CHR 0x96,
     CHR 0xAD, CHR 0x5D]"

definition moved_text :: str where
  "moved_text =
     [CHR 0x20, CHR 0xE5, CHR 0xB7, CHR 0xB2, CHR 0xE8, CHR 0xBD, CHR 0xAC, CHR 0xE5, CHR 0x90,
     CHR 0x8E, CHR 0xE5, CHR 0x8F, CHR 0xB0]"

definition not_done_text :: str where
  "not_done_text =
     [CHR 0x73, CHR 0x20, CHR 0xE5, CHR 0x86, CHR 0x85, CHR 0xE6, CHR 0x9C, CHR 0xAA, CHR 0xE7,
     CHR 0xBB, CHR 0x93, CHR 0xE6, CHR 0x9D, CHR 0x9F, CHR 0xEF, CHR 0xBC, CHR 0x8C, CHR 0xE5,
     CHR 0xB7, CHR 0xB2, CHR 0xE8, CHR 0xBD, CHR 0xAC, CHR 0xE5, CHR 0x90, CHR 0x8E, CHR 0xE5,
     CHR 0x8F, CHR 0xB0]"

definition so_far_text :: str where
  "so_far_text =
     [CHR 0x0A, CHR 0x2D, CHR 0x2D, CHR 0x2D, CHR 0x20, CHR 0xE5, CHR 0xB7, CHR 0xB2, CHR 0xE4,
     CHR 0xBA, CHR 0xA7, CHR 0xE5, CHR 0x87, CHR 0xBA, CHR 0x20, CHR 0x2D, CHR 0x2D, CHR 0x2D,
     CHR 0x0A]"

definition poll_hint :: str where
  "poll_hint =
     [CHR 0x0A, CHR 0x0A, CHR 0x5B, CHR 0x42, CHR 0x61, CHR 0x73, CHR 0x68, CHR 0x4F, CHR 0x75,
     CHR 0x74, CHR 0x70, CHR 0x75, CHR 0x74, CHR 0x20, CHR 0xE5, CHR 0xA2, CHR 0x9E, CHR 0xE9,
     CHR 0x87, CHR 0x8F, CHR 0xE8, CHR 0xAF, CHR 0xBB, CHR 0xE5, CHR 0x8F, CHR 0x96, CHR 0xEF,
     CHR 0xBC, CHR 0x8C, CHR 0xE4, CHR 0xBC, CHR 0xA0, CHR 0x20, CHR 0x77, CHR 0x61, CHR 0x69,
     CHR 0x74, CHR 0x5F, CHR 0x6D, CHR 0x73, CHR 0x20, CHR 0xE7, CHR 0xAD, CHR 0x89, CHR 0xE6,
     CHR 0x96, CHR 0xB0, CHR 0xE8, CHR 0xBE, CHR 0x93, CHR 0xE5, CHR 0x87, CHR 0xBA, CHR 0x5D]"

definition talk_hint :: str where
  "talk_hint =
     [CHR 0x0A, CHR 0x0A, CHR 0x5B, CHR 0x42, CHR 0x61, CHR 0x73, CHR 0x68, CHR 0x4F, CHR 0x75,
     CHR 0x74, CHR 0x70, CHR 0x75, CHR 0x74, CHR 0x20, CHR 0xE5, CHR 0xA2, CHR 0x9E, CHR 0xE9,
     CHR 0x87, CHR 0x8F, CHR 0xE8, CHR 0xAF, CHR 0xBB, CHR 0xE5, CHR 0x8F, CHR 0x96, CHR 0xE8,
     CHR 0xBE, CHR 0x93, CHR 0xE5, CHR 0x87, CHR 0xBA, CHR 0xEF, CHR 0xBC, CHR 0x8C, CHR 0x42,
     CHR 0x61, CHR 0x73, CHR 0x68, CHR 0x49, CHR 0x6E, CHR 0x70, CHR 0x75, CHR 0x74, CHR 0x20,
     CHR 0xE5, CHR 0x8F, CHR 0x91, CHR 0xE9, CHR 0x80, CHR 0x81, CHR 0xE8, CHR 0xBE, CHR 0x93,
     CHR 0xE5, CHR 0x85, CHR 0xA5, CHR 0xEF, CHR 0xBC, CHR 0x8C, CHR 0x4B, CHR 0x69, CHR 0x6C,
     CHR 0x6C, CHR 0x53, CHR 0x68, CHR 0x65, CHR 0x6C, CHR 0x6C, CHR 0x20, CHR 0xE7, CHR 0xBB,
     CHR 0x88, CHR 0xE6, CHR 0xAD, CHR 0xA2, CHR 0x5D]"

definition caught_text :: str where
  "caught_text =
     [CHR 0x20, CHR 0xE5, CHR 0xB7, CHR 0xB2, CHR 0xE6, CHR 0x8D, CHR 0x95, CHR 0xE8, CHR 0x8E,
     CHR 0xB7, CHR 0xE8, CHR 0xBE, CHR 0x93, CHR 0xE5, CHR 0x87, CHR 0xBA, CHR 0xEF, CHR 0xBC,
     CHR 0x8C, CHR 0xE8, CHR 0xBD, CHR 0xAC, CHR 0xE5, CHR 0x90, CHR 0x8E, CHR 0xE5, CHR 0x8F,
     CHR 0xB0]"

definition sent_text :: str where
  "sent_text =
     [CHR 0x5D, CHR 0x20, CHR 0xE5, CHR 0xB7, CHR 0xB2, CHR 0xE5, CHR 0x8F, CHR 0x91, CHR 0xE9,
     CHR 0x80, CHR 0x81, CHR 0xE8, CHR 0xBE, CHR 0x93, CHR 0xE5, CHR 0x85, CHR 0xA5, CHR 0x3A,
     CHR 0x20]"

definition ellipsis :: str where
  "ellipsis =
     [CHR 0xE2, CHR 0x80, CHR 0xA6]"

definition still_head :: str where
  "still_head =
     [CHR 0x5B, CHR 0xE4, CHR 0xBB, CHR 0x8D, CHR 0xE5, CHR 0x9C, CHR 0xA8, CHR 0xE8, CHR 0xBF,
     CHR 0x90, CHR 0xE8, CHR 0xA1, CHR 0x8C, CHR 0x5D, CHR 0x20, CHR 0xE5, CHR 0xB7, CHR 0xB2,
     CHR 0xE5, CHR 0x9B, CHR 0xA0, CHR 0x20]"

definition still_tail :: str where
  "still_tail =
     [CHR 0x6D, CHR 0x73, CHR 0x20, CHR 0xE6, CHR 0x97, CHR 0xA0, CHR 0xE6, CHR 0x96, CHR 0xB0,
     CHR 0xE8, CHR 0xBE, CHR 0x93, CHR 0xE5, CHR 0x87, CHR 0xBA, CHR 0xE6, CHR 0x9A, CHR 0x82,
     CHR 0xE6, CHR 0x97, CHR 0xB6, CHR 0xE8, CHR 0xBF, CHR 0x94, CHR 0xE5, CHR 0x9B, CHR 0x9E,
     CHR 0xEF, CHR 0xBC, CHR 0x9B, CHR 0xE5, CHR 0x8F, CHR 0xAF, CHR 0xE7, CHR 0xBB, CHR 0xA7,
     CHR 0xE7, CHR 0xBB, CHR 0xAD, CHR 0xE7, CHR 0x94, CHR 0xA8, CHR 0x20, CHR 0x42, CHR 0x61,
     CHR 0x73, CHR 0x68, CHR 0x49, CHR 0x6E, CHR 0x70, CHR 0x75, CHR 0x74, CHR 0x20, CHR 0xE5,
     CHR 0x8F, CHR 0x91, CHR 0xE9, CHR 0x80, CHR 0x81, CHR 0xE8, CHR 0xBE, CHR 0x93, CHR 0xE5,
     CHR 0x85, CHR 0xA5, CHR 0xEF, CHR 0xBC, CHR 0x8C, CHR 0xE6, CHR 0x88, CHR 0x96, CHR 0xE7,
     CHR 0x94, CHR 0xA8, CHR 0x20, CHR 0x42, CHR 0x61, CHR 0x73, CHR 0x68, CHR 0x4F, CHR 0x75,
     CHR 0x74, CHR 0x70, CHR 0x75, CHR 0x74, CHR 0x20, CHR 0xE8, CHR 0xAF, CHR 0xBB, CHR 0xE5,
     CHR 0x8F, CHR 0x96, CHR 0xE5, CHR 0x90, CHR 0x8E, CHR 0xE7, CHR 0xBB, CHR 0xAD, CHR 0xE8,
     CHR 0xBE, CHR 0x93, CHR 0xE5, CHR 0x87, CHR 0xBA, CHR 0xE3, CHR 0x80, CHR 0x82, CHR 0x0A]"

definition not_yet_text :: str where
  "not_yet_text =
     [CHR 0x28, CHR 0xE6, CHR 0x9A, CHR 0x82, CHR 0xE6, CHR 0x97, CHR 0xA0, CHR 0xE6, CHR 0x96,
     CHR 0xB0, CHR 0xE8, CHR 0xBE, CHR 0x93, CHR 0xE5, CHR 0x87, CHR 0xBA, CHR 0x29, CHR 0x0A]"

definition truncate_bytes :: "str \<Rightarrow> nat \<Rightarrow> str" where
  "truncate_bytes s limit =
     (if length s \<le> limit then s
      else take (floor_char_boundary s limit) s @ cut_head @ dec (length s) @ cut_tail)"

fun end_suffix :: "shell_state \<Rightarrow> str option" where
  "end_suffix (ShellExited (Some c)) = (if c = 0 then None else Some (''[exit '' @ dec_int c @ '']''))"
| "end_suffix (ShellExited None) = Some ''[terminated by signal]''"
| "end_suffix ShellKilled = Some ''[killed]''"
| "end_suffix (ShellFailed e) = Some (''[failed: '' @ e @ '']'')"
| "end_suffix ShellRunning = None"

definition break_line :: "str \<Rightarrow> str" where
  "break_line s = (if s = [] then [] else with_newline s)"

definition format_finished :: "str \<Rightarrow> shell_state \<Rightarrow> str" where
  "format_finished buffer st =
     (let t = (case end_suffix st of None \<Rightarrow> buffer | Some x \<Rightarrow> break_line buffer @ x)
      in if t = [] then no_output_text else t)"

definition format_early_exit :: "regex_engine \<Rightarrow> str \<Rightarrow> str \<Rightarrow> shell_state \<Rightarrow> str" where
  "format_early_exit rx tid buffer st =
     (let t = ''['' @ tid @ ''] '';
          t = (if buffer = [] then t else with_newline (t @ clean_ansi_progress rx buffer))
      in t @ (case end_suffix st of None \<Rightarrow> [] | Some x \<Rightarrow> x))"

definition bracketed :: "str \<Rightarrow> str" where
  "bracketed tid = ''['' @ tid @ '']''"

section \<open>Draining\<close>

text \<open>What a tool call gathers: its buffer, and the pieces it sent to the surface.\<close>

record gathered =
  ga_buffer :: str
  ga_chunks :: "str list"

definition nothing_gathered :: gathered where
  "nothing_gathered = \<lparr>ga_buffer = [], ga_chunks = []\<rparr>"

definition gather :: "str \<Rightarrow> gathered \<Rightarrow> gathered" where
  "gather content g =
     (if content = [] then g
      else \<lparr>ga_buffer = ga_buffer g @ content, ga_chunks = ga_chunks g @ [content]\<rparr>)"

definition drain_into :: "nat \<Rightarrow> bg_shell \<times> gathered \<Rightarrow> bg_shell \<times> gathered" where
  "drain_into max_bytes p =
     (let (ro, sh) = read_incremental max_bytes (fst p) in (sh, gather (ro_content ro) (snd p)))"

section \<open>\<open>Bash\<close> on pipes\<close>

text \<open>One wake of the loop: what the process, its readers and the surface did to the shell since the
  last one, whether the deadline has passed, whether the cancel flag is set. The branches are
  looked at in this order (\<open>biased\<close>): end, moved to the background, deadline, cancel, tick.\<close>

record bash_wake =
  wa_before :: "bg_shell \<Rightarrow> bg_shell"
  wa_deadline :: bool
  wa_cancel :: bool

datatype wait_end = ProcessEnded | MovedByUser | DeadlinePassed | CancelledByUser

definition bash_turn :: "bash_wake \<Rightarrow> bg_shell \<times> gathered \<Rightarrow> wait_end option \<times> bg_shell \<times> gathered" where
  "bash_turn k p =
     (let p = (wa_before k (fst p), snd p)
      in if is_terminal (sh_state (fst p)) then (Some ProcessEnded, drain_into USIZE_MAX p)
         else if sh_is_background (fst p) then (Some MovedByUser, drain_into READ_CHUNK_BYTES p)
         else if wa_deadline k then (Some DeadlinePassed, drain_into READ_CHUNK_BYTES p)
         else if wa_cancel k then (Some CancelledByUser, drain_into USIZE_MAX p)
         else (None, drain_into READ_CHUNK_BYTES p))"

text \<open>\<open>None\<close>: the list has ended and the loop still waits.\<close>

fun bash_wait :: "bash_wake list \<Rightarrow> bg_shell \<times> gathered \<Rightarrow> wait_end option \<times> bg_shell \<times> gathered" where
  "bash_wait [] p = (None, p)"
| "bash_wait (k # ks) p =
     (case bash_turn k p of (Some e, p) \<Rightarrow> (Some e, p) | (None, p) \<Rightarrow> bash_wait ks p)"

text \<open>Where the tools act: the registry of the session and the scheduler.\<close>

record bash_world =
  bw_tasks :: bg_tasks
  bw_sched :: scheduler

definition kill_in :: "(bg_tasks \<Rightarrow> bg_tasks) \<Rightarrow> str \<Rightarrow> bash_world \<Rightarrow> bash_world" where
  "kill_in later tid w = w\<lparr>bw_tasks := snd (kill_shell later tid (bw_tasks w))\<rparr>"

definition unregister_in :: "str \<Rightarrow> bash_world \<Rightarrow> bash_world" where
  "unregister_in tid w = w\<lparr>bw_tasks := snd (unregister tid (bw_tasks w))\<rparr>"

definition arm_in :: "tool_ctx \<Rightarrow> str \<Rightarrow> bash_world \<Rightarrow> bash_world" where
  "arm_in cx tid w = w\<lparr>bw_sched := arm_auto_notification cx tid (bw_sched w)\<rparr>"

definition put_shell :: "str \<Rightarrow> bg_shell \<Rightarrow> bash_world \<Rightarrow> bash_world" where
  "put_shell tid sh w = w\<lparr>bw_tasks := update_shell (\<lambda>_. sh) tid (bw_tasks w)\<rparr>"

definition timeout_of :: "nat \<Rightarrow> json \<Rightarrow> nat" where
  "timeout_of limit input =
     min (case json_get_u64 input ''timeout_secs'' of Some n \<Rightarrow> n | None \<Rightarrow> DEFAULT_TIMEOUT_SECS) limit"

definition so_far :: "str \<Rightarrow> str" where
  "so_far t = (if t = [] then [] else so_far_text @ t)"

text \<open>What comes after the loop, by the way it ended.\<close>

definition bash_result ::
    "(bg_tasks \<Rightarrow> bg_tasks) \<Rightarrow> tool_ctx \<Rightarrow> nat \<Rightarrow> str \<Rightarrow> wait_end \<Rightarrow> bg_shell \<Rightarrow> str \<Rightarrow> bash_world \<Rightarrow>
     (str \<times> bool) \<times> bash_world" where
  "bash_result later cx timeout tid e sh buffer w =
     (case e of
        CancelledByUser \<Rightarrow>
          ((truncate_bytes (break_line buffer @ interrupted_text) BASH_OUTPUT_BYTES, False),
           unregister_in tid (kill_in later tid w))
      | ProcessEnded \<Rightarrow>
          ((truncate_bytes (format_finished buffer (sh_state sh)) BASH_OUTPUT_BYTES,
            sh_state sh \<noteq> ShellExited (Some 0)),
           unregister_in tid w)
      | MovedByUser \<Rightarrow>
          ((truncate_bytes (bracketed tid @ moved_text @ so_far buffer) BASH_OUTPUT_BYTES, False),
           arm_in cx tid w)
      | DeadlinePassed \<Rightarrow>
          ((truncate_bytes (bracketed tid @ '' '' @ dec timeout @ not_done_text @ so_far buffer)
              BASH_OUTPUT_BYTES, False),
           arm_in cx tid (put_shell tid (promote_to_background sh) w)))"

text \<open>\<open>BashTool::run\<close> without a terminal, with the command and the directory it found. \<open>starts\<close> says
  whether the process can be started. The result is \<open>None\<close> while the loop still waits.\<close>

definition bash_run_pipe ::
    "(str \<Rightarrow> bool) \<Rightarrow> bool \<Rightarrow> nat \<Rightarrow> (bg_tasks \<Rightarrow> bg_tasks) \<Rightarrow> str \<Rightarrow> str \<Rightarrow> nat \<Rightarrow> bool \<Rightarrow> str option \<Rightarrow>
     tool_ctx \<Rightarrow> bash_wake list \<Rightarrow> bash_world \<Rightarrow> (bash_error + str \<times> bool) option \<times> bash_world" where
  "bash_run_pipe opens starts now later command cwd timeout background log_dir cx ks w =
     (if \<not> starts then (Some (Inl StartFailed), w)
      else (let (tid, bt) = register_shell opens now command cwd background
                  (if background then log_dir else None) (bw_tasks w);
                w = w\<lparr>bw_tasks := bt\<rparr>
            in if background
               then (Some (Inr (bracketed tid @ started_text, False)), arm_in cx tid w)
               else (case bt_objects bt tid of
                       None \<Rightarrow> (None, w)
                     | Some sh \<Rightarrow>
                         (case bash_wait ks (sh, nothing_gathered) of
                            (None, sh, g) \<Rightarrow> (None, put_shell tid sh w)
                          | (Some e, sh, g) \<Rightarrow>
                              (let (r, w) = bash_result later cx timeout tid e sh (ga_buffer g)
                                     (put_shell tid sh w)
                               in (Some (Inr r), w))))))"

section \<open>\<open>Bash\<close> on a terminal\<close>

text \<open>A chunk read from the terminal, its end with what \<open>wait\<close> answers (\<open>None\<close>: an error; otherwise
  whether it was a success), the cancel flag with the chunks still queued, the deadline.\<close>

datatype pty_wake =
  PtyChunk str
| PtyEof "bool option"
| PtyCancel "str list"
| PtyDeadline

datatype pty_end =
  PtyFinished str bool
| PtyWaitFailed
| PtyCancelled str
| PtyMoved str

fun pty_wait :: "regex_engine \<Rightarrow> pty_wake list \<Rightarrow> gathered \<Rightarrow> pty_end option \<times> gathered" where
  "pty_wait rx [] g = (None, g)"
| "pty_wait rx (PtyChunk b # ks) g =
     pty_wait rx ks \<lparr>ga_buffer = ga_buffer g @ utf8_lossy b, ga_chunks = ga_chunks g @ [utf8_lossy b]\<rparr>"
| "pty_wait rx (PtyEof status # ks) g =
     (case status of
        None \<Rightarrow> (Some PtyWaitFailed, g)
      | Some ok \<Rightarrow>
          (let suff = (if ok then [] else ''[exit non-zero]'');
               t = (if ga_buffer g = [] then (if suff = [] then no_output_text else suff)
                    else if suff = [] then ga_buffer g else ga_buffer g @ [nl] @ suff)
           in (Some (PtyFinished (truncate_bytes (clean_ansi_progress rx t) BASH_OUTPUT_BYTES) (\<not> ok)), g)))"
| "pty_wait rx (PtyCancel queued # ks) g =
     (let b = ga_buffer g @ concat (map utf8_lossy queued)
      in (Some (PtyCancelled (truncate_bytes
             (clean_ansi_progress rx (break_line b @ interrupted_text)) BASH_OUTPUT_BYTES)), g))"
| "pty_wait rx (PtyDeadline # ks) g = (Some (PtyMoved (ga_buffer g)), g)"

text \<open>The result of the call, and the registry and scheduler after it; a moved process is registered
  without a writer.\<close>

definition bash_run_pty ::
    "regex_engine \<Rightarrow> (str \<Rightarrow> bool) \<Rightarrow> bool \<Rightarrow> nat \<Rightarrow> str \<Rightarrow> str \<Rightarrow> nat \<Rightarrow> str option \<Rightarrow> tool_ctx \<Rightarrow>
     pty_wake list \<Rightarrow> bash_world \<Rightarrow> (bash_error + str \<times> bool) option \<times> bash_world" where
  "bash_run_pty rx opens starts now command cwd timeout log_dir cx ks w =
     (if \<not> starts then (Some (Inl StartFailed), w)
      else (case fst (pty_wait rx ks nothing_gathered) of
              None \<Rightarrow> (None, w)
            | Some PtyWaitFailed \<Rightarrow> (Some (Inl WaitFailed), w)
            | Some (PtyFinished t err) \<Rightarrow> (Some (Inr (t, err)), w)
            | Some (PtyCancelled t) \<Rightarrow> (Some (Inr (t, False)), w)
            | Some (PtyMoved buffer) \<Rightarrow>
                (let (tid, bt) = register_pty_background opens now command cwd log_dir False (bw_tasks w);
                     w = arm_in cx tid (w\<lparr>bw_tasks := bt\<rparr>);
                     t = bracketed tid @ '' '' @ dec timeout @ not_done_text @
                         (if buffer = [] then [] else so_far_text @ clean_ansi_progress rx buffer) @ poll_hint
                 in (Some (Inr (truncate_bytes t BASH_OUTPUT_BYTES, False)), w))))"

text \<open>\<open>BashTool::run\<close>: the terminal is the standard, unless the call asks for the background.\<close>

definition bash_run ::
    "regex_engine \<Rightarrow> (str \<Rightarrow> bool) \<Rightarrow> bool \<Rightarrow> nat \<Rightarrow> (bg_tasks \<Rightarrow> bg_tasks) \<Rightarrow> workspace \<Rightarrow> str option \<Rightarrow>
     tool_ctx \<Rightarrow> json \<Rightarrow> bash_wake list \<Rightarrow> pty_wake list \<Rightarrow> bash_world \<Rightarrow>
     (bash_error + str \<times> bool) option \<times> bash_world" where
  "bash_run rx opens starts now later ws log_dir cx input ks pks w =
     (case json_get_str input ''command'' of
        None \<Rightarrow> (Some (Inl (MissingArgument ''command'')), w)
      | Some command \<Rightarrow>
          if trim command = [] then (Some (Inl EmptyCommand), w)
          else (let cwd = resolve_cwd ws (json_get_str input ''cwd'');
                    timeout = timeout_of MAX_TIMEOUT_SECS input;
                    background = (json_get_bool input ''run_in_background'' = Some True);
                    use_pty = (json_get_bool input ''pty'' \<noteq> Some False)
                in if use_pty \<and> \<not> background
                   then bash_run_pty rx opens starts now command cwd timeout log_dir cx pks w
                   else bash_run_pipe opens starts now later command cwd timeout background log_dir cx ks w))"

text \<open>What goes on filling the shell of a moved process: each chunk, then the end.\<close>

definition pty_moved_chunk :: "str \<Rightarrow> bg_shell \<Rightarrow> bg_shell" where
  "pty_moved_chunk b sh = append_output None (utf8_lossy b) sh"

definition pty_moved_end :: "nat \<Rightarrow> str + bool \<Rightarrow> bg_shell \<Rightarrow> bg_shell" where
  "pty_moved_end now status sh =
     finish_shell now (case status of Inl e \<Rightarrow> ShellFailed e
       | Inr ok \<Rightarrow> ShellExited (if ok then Some 0 else None)) sh"

section \<open>\<open>InteractiveBash\<close>\<close>

text \<open>The branches in their order: end (the loop then sleeps, and \<open>wa_after\<close> happens), deadline, cancel,
  tick.\<close>

record talk_wake =
  ta_before :: "bg_shell \<Rightarrow> bg_shell"
  ta_after :: "bg_shell \<Rightarrow> bg_shell"
  ta_deadline :: bool
  ta_cancel :: bool

datatype talk_end = TalkEnded | TalkDeadline | TalkCancelled | TalkCaught

definition talk_turn :: "talk_wake \<Rightarrow> bg_shell \<times> gathered \<Rightarrow> talk_end option \<times> bg_shell \<times> gathered" where
  "talk_turn k p =
     (let p = (ta_before k (fst p), snd p)
      in if is_terminal (sh_state (fst p))
         then (Some TalkEnded, drain_into USIZE_MAX (ta_after k (fst p), snd p))
         else if ta_deadline k then (Some TalkDeadline, drain_into READ_CHUNK_BYTES p)
         else if ta_cancel k then (Some TalkCancelled, p)
         else (let p = drain_into READ_CHUNK_BYTES p
               in (if ga_buffer (snd p) = [] then None else Some TalkCaught, p)))"

fun talk_wait :: "talk_wake list \<Rightarrow> bg_shell \<times> gathered \<Rightarrow> talk_end option \<times> bg_shell \<times> gathered" where
  "talk_wait [] p = (None, p)"
| "talk_wait (k # ks) p =
     (case talk_turn k p of (Some e, p) \<Rightarrow> (Some e, p) | (None, p) \<Rightarrow> talk_wait ks p)"

definition talk_result ::
    "regex_engine \<Rightarrow> (bg_tasks \<Rightarrow> bg_tasks) \<Rightarrow> nat \<Rightarrow> str \<Rightarrow> talk_end \<Rightarrow> bg_shell \<Rightarrow> gathered \<Rightarrow> bash_world \<Rightarrow>
     (str \<times> bool) \<times> bash_world" where
  "talk_result rx later timeout tid e sh g w =
     (case e of
        TalkEnded \<Rightarrow>
          ((truncate_bytes (format_early_exit rx tid (ga_buffer g) (sh_state sh)) BASH_OUTPUT_BYTES,
            sh_state sh \<noteq> ShellExited (Some 0)),
           unregister_in tid w)
      | TalkDeadline \<Rightarrow>
          ((truncate_bytes (bracketed tid @ '' '' @ dec timeout @ not_done_text @
              (if ga_buffer g = [] then [] else so_far_text @ clean_ansi_progress rx (ga_buffer g)) @
              talk_hint) BASH_OUTPUT_BYTES, False), w)
      | TalkCancelled \<Rightarrow>
          (let w = kill_in later tid w
           in case bt_objects (bw_tasks w) tid of
                None \<Rightarrow> (([], False), w)
              | Some sh \<Rightarrow>
                  (let (sh, g) = drain_into USIZE_MAX (sh, g);
                       t = ''['' @ tid @ ''] '';
                       t = (if ga_buffer g = [] then t
                            else with_newline (t @ clean_ansi_progress rx (ga_buffer g)))
                   in ((truncate_bytes (t @ interrupted_text) BASH_OUTPUT_BYTES, False), put_shell tid sh w)))
      | TalkCaught \<Rightarrow>
          ((truncate_bytes (bracketed tid @ caught_text @ so_far_text @
              clean_ansi_progress rx (ga_buffer g) @ talk_hint) BASH_OUTPUT_BYTES, False), w))"

definition interactive_bash ::
    "regex_engine \<Rightarrow> (str \<Rightarrow> bool) \<Rightarrow> bool \<Rightarrow> nat \<Rightarrow> (bg_tasks \<Rightarrow> bg_tasks) \<Rightarrow> workspace \<Rightarrow> str option \<Rightarrow>
     tool_ctx \<Rightarrow> json \<Rightarrow> talk_wake list \<Rightarrow> bash_world \<Rightarrow> (bash_error + str \<times> bool) option \<times> bash_world" where
  "interactive_bash rx opens starts now later ws log_dir cx input ks w =
     (case json_get_str input ''command'' of
        None \<Rightarrow> (Some (Inl (MissingArgument ''command'')), w)
      | Some command \<Rightarrow>
          if trim command = [] then (Some (Inl EmptyCommand), w)
          else if \<not> starts then (Some (Inl StartFailed), w)
          else (let timeout = timeout_of MAX_INTERACTIVE_SECS input;
                    (tid, bt) = register_pty_background opens now command
                      (resolve_cwd ws (json_get_str input ''cwd'')) log_dir True (bw_tasks w);
                    w = arm_in cx tid (w\<lparr>bw_tasks := bt\<rparr>)
                in case bt_objects bt tid of
                     None \<Rightarrow> (None, w)
                   | Some sh \<Rightarrow>
                       (case talk_wait ks (sh, nothing_gathered) of
                          (None, sh, g) \<Rightarrow> (None, put_shell tid sh w)
                        | (Some e, sh, g) \<Rightarrow>
                            (let (r, w) = talk_result rx later timeout tid e sh g (put_shell tid sh w)
                             in (Some (Inr r), w)))))"

section \<open>\<open>BashInput\<close>\<close>

definition DEFAULT_INPUT_WAIT_MS :: nat where
  "DEFAULT_INPUT_WAIT_MS = 30000"

definition DEFAULT_IDLE_MS :: nat where
  "DEFAULT_IDLE_MS = 5000"

definition MAX_IDLE_MS :: nat where
  "MAX_IDLE_MS = 30000"

definition input_millis :: "json \<Rightarrow> str \<Rightarrow> nat \<Rightarrow> nat \<Rightarrow> nat" where
  "input_millis input key standard limit =
     min (case json_get_u64 input key of Some n \<Rightarrow> n | None \<Rightarrow> standard) limit"

definition input_data :: "str \<Rightarrow> bool \<Rightarrow> str" where
  "input_data t press_enter = (if press_enter \<and> \<not> suffix [nl] t then t @ [nl] else t)"

text \<open>\<open>&text[..50]\<close> panics unless byte 50 starts a character: \<open>None\<close>.\<close>

definition input_preview :: "str \<Rightarrow> str option" where
  "input_preview t =
     (if length t > 50 then (if is_char_boundary t 50 then Some (take 50 t @ ellipsis) else None)
      else Some t)"

definition input_report ::
    "regex_engine \<Rightarrow> (str \<Rightarrow> str) \<Rightarrow> str \<Rightarrow> nat \<Rightarrow> read_output \<Rightarrow> str \<Rightarrow> str" where
  "input_report rx dbg tid idle ro preview =
     (let t = ''['' @ tid @ '' '' @ status_text (ro_state ro) @ sent_text @ dbg preview @ [nl];
          t = t @ (if ro_state ro = ShellRunning then still_head @ dec idle @ still_tail else []);
          t = t @ dropped_warning ro
      in if ro_content ro = [] then t @ (if is_terminal (ro_state ro) then [] else not_yet_text)
         else with_newline (t @ clean_ansi_progress rx (ro_content ro)))"

text \<open>\<open>accepted\<close>: does the terminal take the input; \<open>waited\<close>: what happens until the output is quiet.
  The result is \<open>None\<close> when the call panics.\<close>

definition bash_input ::
    "regex_engine \<Rightarrow> (str \<Rightarrow> str) \<Rightarrow> bool \<Rightarrow> (nat \<Rightarrow> nat \<Rightarrow> nat \<Rightarrow> bg_shell \<Rightarrow> bg_shell) \<Rightarrow> json \<Rightarrow> bg_tasks \<Rightarrow>
     (bash_error + str) option \<times> bg_tasks" where
  "bash_input rx dbg accepted waited input bt =
     (case (json_get_str input ''task_id'', json_get_str input ''input'') of
        (None, _) \<Rightarrow> (Some (Inl (MissingArgument ''task_id'')), bt)
      | (Some _, None) \<Rightarrow> (Some (Inl (MissingArgument ''input'')), bt)
      | (Some tid, Some t) \<Rightarrow>
          if prefix ''subagent-'' tid then (Some (Inl SubagentId), bt)
          else (case get_shell tid bt of
                  None \<Rightarrow> (Some (Inl (UnknownTask tid)), bt)
                | Some sh \<Rightarrow>
                    if \<not> sh_pty_writer sh then (Some (Inl NoInputPossible), bt)
                    else (let wait = input_millis input ''wait_ms'' DEFAULT_INPUT_WAIT_MS MAX_WAIT_MS;
                              idle = input_millis input ''idle_ms'' DEFAULT_IDLE_MS MAX_IDLE_MS;
                              data = input_data t (json_get_bool input ''press_enter'' \<noteq> Some False);
                              (cursor, sh) = mark_read_to_end sh;
                              bt = update_shell (\<lambda>_. sh) tid bt
                          in case write_input accepted data sh of
                               Inl e \<Rightarrow> (Some (Inl (InputFailed e)), bt)
                             | Inr sh \<Rightarrow>
                                 (let (ro, sh) = read_incremental READ_CHUNK_BYTES (waited cursor wait idle sh);
                                      bt = update_shell (\<lambda>_. sh) tid bt
                                  in (map_option (\<lambda>p. Inr (input_report rx dbg tid idle ro p)) (input_preview t),
                                      bt)))))"

end
