(* ===== verification/Utf8_Facts.thy ===== *)
theory Utf8_Facts
  imports File_World
begin

text \<open>
  Decoding bytes piece by piece: a well-formed piece is decoded as it is, a character that is cut
  becomes replacement characters.
\<close>

lemma fst_if:
  "fst (if c then x' else y') \<Longrightarrow> (fst x' \<Longrightarrow> x = x') \<Longrightarrow> (fst y' \<Longrightarrow> y = y') \<Longrightarrow>
    (if c then x else y) = (if c then x' else y')"
  by (cases c) auto

lemma utf8_step_append:
  assumes "a \<noteq> []" and "fst (utf8_step a)"
  shows "utf8_step (a @ b) = utf8_step a"
proof -
  have n: "nth_in i x y (a @ b)" if "nth_in i x y a" for i x y
    using that by (simp add: nth_in_def nth_append)
  have hd: "hd (a @ b) = hd a" using assms(1) by simp
  let ?two = "\<lambda>s. if nth_in 1 128 191 s then (True, 2) else (False, 1)"
  let ?three = "\<lambda>s x y. if \<not> nth_in 1 x y s then (False, 1)
    else if \<not> nth_in 2 128 191 s then (False, 2) else (True, 3)"
  let ?four = "\<lambda>s x y. if \<not> nth_in 1 x y s then (False, 1)
    else if \<not> nth_in 2 128 191 s then (False, 2)
    else if \<not> nth_in 3 128 191 s then (False, 3) else (True, 4)"
  have two: "?two (a @ b) = ?two a" if "fst (?two a)"
    using that n by (simp split: if_split_asm)
  have three: "?three (a @ b) x y = ?three a x y" if "fst (?three a x y)" for x y
    using that n by (simp split: if_split_asm)
  have four: "?four (a @ b) x y = ?four a x y" if "fst (?four a x y)" for x y
    using that n by (simp split: if_split_asm)
  have "utf8_step s =
      (let c = hd s in
       if byte_in 0 127 c then (True, 1) else if byte_in 194 223 c then ?two s
       else if byte_in 224 224 c then ?three s 160 191 else if byte_in 237 237 c then ?three s 128 159
       else if byte_in 225 239 c then ?three s 128 191 else if byte_in 240 240 c then ?four s 144 191
       else if byte_in 241 243 c then ?four s 128 191 else if byte_in 244 244 c then ?four s 128 143
       else (False, 1))" for s
    by (simp only: utf8_step_def Let_def)
  note step = this [unfolded Let_def]
  show ?thesis
    using assms(2) unfolding step hd
    by - (rule refl | erule two | erule three | erule four | erule fst_if)+
qed

lemma utf8_step_length: "s \<noteq> [] \<Longrightarrow> fst (utf8_step s) \<Longrightarrow> snd (utf8_step s) \<le> length s"
  by (auto simp: utf8_step_def Let_def nth_in_def Suc_le_eq split: if_splits)

lemma utf8_lossy_append: "valid_utf8 a \<Longrightarrow> utf8_lossy (a @ b) = a @ utf8_lossy b"
proof (induction a rule: valid_utf8.induct)
  case (1 a)
  show ?case
  proof (cases "a = []")
    case False
    obtain n where n: "utf8_step a = (True, n)"
      using 1(2) False by (cases "utf8_step a") (auto simp: valid_utf8.simps [of a] split: if_splits)
    have len: "n \<le> length a" using utf8_step_length [OF False] n by simp
    have "valid_utf8 (drop n a)" using 1(2) False n by (simp add: valid_utf8.simps [of a])
    then have "utf8_lossy (drop n a @ b) = drop n a @ utf8_lossy b" using 1(1) False n by simp
    then show ?thesis
      using utf8_step_append [OF False, of b] len n
      by (subst utf8_lossy.simps) (simp add: False)
  qed simp
qed

definition replacement :: str where
  "replacement = [CHR 0xEF, CHR 0xBF, CHR 0xBD]"

lemma lossy_lead: "byte_in 194 223 c \<Longrightarrow> utf8_lossy [c] = replacement"
  by (subst utf8_lossy.simps)
    (auto simp: utf8_step_def nth_in_def byte_in_def replacement_def utf8_lossy.simps [of "[]"])

lemma lossy_continuation: "byte_in 128 191 c \<Longrightarrow> utf8_lossy (c # s) = replacement @ utf8_lossy s"
  by (subst utf8_lossy.simps) (auto simp: utf8_step_def byte_in_def replacement_def)

lemma ascii_valid: "\<forall>c \<in> set s. (of_char c :: nat) < 128 \<Longrightarrow> valid_utf8 s"
proof (induction s)
  case (Cons c s)
  then show ?case
    by (subst valid_utf8.simps) (simp add: utf8_step_def byte_in_def)
qed (simp add: valid_utf8.simps [of "[]"])

end
