(* ===== verification/Shells_Laws.thy ===== *)
theory Shells_Laws
  imports Bash_Tools Utf8_Facts
begin

text \<open>
  What the background shells promise: reads give the output in order, without repetition, and say how
  much is missing; ids are fresh; a command in the foreground returns its whole output. And where
  they fail: characters cut by a read, output that comes after the end, a wait that never returns.
\<close>

section \<open>A bounded buffer with a reader\<close>

text \<open>\<open>lies_in out k rs\<close>: the pieces with the number of bytes missing before each lie in this order
  in the output, from position \<open>k\<close> on.\<close>

fun lies_in :: "str \<Rightarrow> nat \<Rightarrow> (str \<times> nat) list \<Rightarrow> bool" where
  "lies_in out k [] \<longleftrightarrow> k \<le> length out"
| "lies_in out k ((b, d) # rs) \<longleftrightarrow> prefix b (drop (k + d) out) \<and> lies_in out (k + d + length b) rs"

datatype io = Feed str | Draw nat

definition fed :: "io list \<Rightarrow> str" where
  "fed ios = concat (List.map_filter (\<lambda>a. case a of Feed b \<Rightarrow> Some b | Draw _ \<Rightarrow> None) ios)"

lemma fed_simps [simp]: "fed [] = []" "fed (Feed b # ios) = b @ fed ios" "fed (Draw n # ios) = fed ios"
  by (simp_all add: fed_def map_filter_simps)

lemma lies_in_append: "lies_in out k rs \<Longrightarrow> lies_in (out @ b) k rs"
proof (induction rs arbitrary: k)
  case (Cons r rs)
  obtain c d where r: "r = (c, d)" by (cases r)
  have "prefix c (drop (k + d) out @ drop (k + d - length out) b)"
    using Cons.prems r by (auto intro: prefix_prefix)
  with Cons r show ?case by simp
qed simp

lemma lies_in_snoc:
  "lies_in out k (rs @ [(b, d)]) \<longleftrightarrow>
     lies_in out k rs \<and> prefix b (drop (k + (\<Sum>(x, y) \<leftarrow> rs. y + length x) + d) out) \<and>
     k + (\<Sum>(x, y) \<leftarrow> rs. y + length x) + d + length b \<le> length out"
proof (induction rs arbitrary: k)
  case Nil
  then show ?case by auto
next
  case (Cons r rs)
  then show ?case by (cases r) (simp add: ac_simps)
qed

locale output_buffer =
  fixes holds :: "str \<Rightarrow> nat \<Rightarrow> 's \<Rightarrow> bool"
    and feed :: "str \<Rightarrow> 's \<Rightarrow> 's"
    and draw :: "nat \<Rightarrow> 's \<Rightarrow> (str \<times> nat) \<times> 's"
  assumes feed_holds: "holds out k s \<Longrightarrow> holds (out @ b) k (feed b s)"
    and draw_holds: "holds out k s \<Longrightarrow> draw n s = ((b, d), s') \<Longrightarrow>
      prefix b (drop (k + d) out) \<and> k + d + length b \<le> length out \<and> holds out (k + d + length b) s'"
begin

fun transfer :: "io list \<Rightarrow> (str \<times> nat) list \<times> 's \<Rightarrow> (str \<times> nat) list \<times> 's" where
  "transfer [] p = p"
| "transfer (Feed b # ios) p = transfer ios (fst p, feed b (snd p))"
| "transfer (Draw n # ios) p = (case draw n (snd p) of (r, s) \<Rightarrow> transfer ios (fst p @ [r], s))"

lemma transfer_lies_in:
  assumes "holds out (\<Sum>(x, y) \<leftarrow> rs. y + length x) s" and "lies_in out 0 rs"
    and "transfer ios (rs, s) = (rs', s')"
  shows "lies_in (out @ fed ios) 0 rs' \<and>
    holds (out @ fed ios) (\<Sum>(x, y) \<leftarrow> rs'. y + length x) s'"
  using assms
proof (induction ios arbitrary: out rs s)
  case (Cons a ios)
  show ?case
  proof (cases a)
    case (Feed b)
    with Cons.IH [of "out @ b" rs "feed b s"] Cons.prems show ?thesis
      by (simp add: feed_holds lies_in_append)
  next
    case (Draw n)
    obtain b d s1 where d: "draw n s = ((b, d), s1)" by (metis prod.exhaust)
    have "lies_in out 0 (rs @ [(b, d)])"
      using draw_holds [OF Cons.prems(1) d] Cons.prems(2) by (simp add: lies_in_snoc)
    moreover have "holds out (\<Sum>(x, y) \<leftarrow> rs @ [(b, d)]. y + length x) s1"
      using draw_holds [OF Cons.prems(1) d] by (simp add: ac_simps)
    moreover have "transfer ios (rs @ [(b, d)], s1) = (rs', s')" using Cons.prems(3) Draw d by simp
    ultimately show ?thesis using Cons.IH [of out "rs @ [(b, d)]" s1] Draw by (simp del: sum_list_append)
  qed
qed simp

end

text \<open>The tail of a shell is such a buffer.\<close>

definition shell_holds :: "str \<Rightarrow> nat \<Rightarrow> bg_shell \<Rightarrow> bool" where
  "shell_holds out k sh \<longleftrightarrow>
     sh_total_bytes sh = length out \<and> sh_tail sh = drop (length out - MAX_TAIL_BYTES) out \<and>
     sh_read_cursor sh = k \<and> k \<le> length out"

definition draw_bytes :: "nat \<Rightarrow> bg_shell \<Rightarrow> (str \<times> nat) \<times> bg_shell" where
  "draw_bytes n sh =
     (case next_bytes n sh of (b, d, k) \<Rightarrow> ((b, d), sh\<lparr>sh_read_cursor := k\<rparr>))"

lemma push_holds: "shell_holds out k sh \<Longrightarrow> shell_holds (out @ b) k (push_bytes b sh)"
  by (cases "MAX_TAIL_BYTES \<le> length out") (auto simp: shell_holds_def push_bytes_def Let_def add.commute)

lemma draw_bytes_holds:
  assumes "shell_holds out k sh" and "draw_bytes n sh = ((b, d), sh')"
  shows "prefix b (drop (k + d) out) \<and> k + d + length b \<le> length out \<and>
    shell_holds out (k + d + length b) sh'"
proof -
  let ?s = "length out - MAX_TAIL_BYTES"
  have sh: "sh_total_bytes sh = length out" "sh_tail sh = drop ?s out" "sh_read_cursor sh = k"
    "k \<le> length out"
    using assms(1) by (auto simp: shell_holds_def)
  have ts: "tail_start sh = ?s" by (simp add: tail_start_def sh)
  have d: "d = ?s - k" and b: "b = take (min (min (length out - k) n) (length out - max k ?s)) (drop (max k ?s) out)"
    and k': "sh' = sh\<lparr>sh_read_cursor := max k ?s + length b\<rparr>"
    using assms(2) by (auto simp: draw_bytes_def next_bytes_def Let_def ts sh)
  have m: "k + d = max k ?s" using d by auto
  have "prefix b (drop (k + d) out)" unfolding m b by (rule take_is_prefix)
  moreover have "k + d + length b \<le> length out" unfolding m b using sh(4) by (auto simp: min_def max_def)
  moreover have "shell_holds out (k + d + length b) sh'"
    using calculation(2) sh by (simp add: shell_holds_def k' m)
  ultimately show ?thesis by simp
qed

interpretation tail_buffer: output_buffer shell_holds push_bytes draw_bytes
  by unfold_locales (rule push_holds, assumption, rule draw_bytes_holds)

lemma read_incremental_draws:
  assumes "shell_holds out k sh"
  shows "read_incremental n sh =
    (case draw_bytes n sh of ((b, d), sh') \<Rightarrow>
       ((nothing_new sh)\<lparr>ro_content := utf8_lossy b, ro_bytes_dropped := d\<rparr>, sh'))"
  using assms
  by (auto simp: read_incremental_def draw_bytes_def next_bytes_def Let_def shell_holds_def
      nothing_new_def tail_start_def utf8_lossy.simps [of "[]"])

section \<open>Reads\<close>

fun shell_io :: "io list \<Rightarrow> read_output list \<times> bg_shell \<Rightarrow> read_output list \<times> bg_shell" where
  "shell_io [] p = p"
| "shell_io (Feed b # ios) p = shell_io ios (fst p, push_bytes b (snd p))"
| "shell_io (Draw n # ios) p =
     (case read_incremental n (snd p) of (ro, sh) \<Rightarrow> shell_io ios (fst p @ [ro], sh))"

definition reads_as :: "read_output list \<Rightarrow> (str \<times> nat) list \<Rightarrow> bool" where
  "reads_as ros rs \<longleftrightarrow>
     map ro_content ros = map (utf8_lossy \<circ> fst) rs \<and> map ro_bytes_dropped ros = map snd rs"

lemma shell_io_transfer:
  assumes "shell_holds out k sh" and "reads_as ros rs"
  shows "reads_as (fst (shell_io ios (ros, sh))) (fst (tail_buffer.transfer ios (rs, sh)))"
  using assms
proof (induction ios arbitrary: out k ros rs sh)
  case (Cons a ios)
  show ?case
  proof (cases a)
    case (Feed b)
    with Cons.IH [OF push_holds [OF Cons.prems(1)] Cons.prems(2)] show ?thesis by simp
  next
    case (Draw n)
    obtain b d s1 where d: "draw_bytes n sh = ((b, d), s1)" by (metis prod.exhaust)
    have "reads_as (ros @ [(nothing_new sh)\<lparr>ro_content := utf8_lossy b, ro_bytes_dropped := d\<rparr>])
        (rs @ [(b, d)])"
      using Cons.prems(2) by (simp add: reads_as_def)
    moreover have "shell_holds out (k + d + length b) s1"
      using draw_bytes_holds [OF Cons.prems(1) d] by simp
    ultimately show ?thesis
      using Cons.IH read_incremental_draws [OF Cons.prems(1), of n] by (simp add: Draw d)
  qed
qed (simp add: reads_as_def)

lemma new_shell_holds: "shell_holds [] 0 (new_shell now tid command cwd bg lp wr)"
  by (simp add: shell_holds_def new_shell_def)

text \<open>What a reader of the whole output sees that keeps a position of its own: a read starts there, or
  where the last \<open>MAX_TAIL_BYTES\<close> bytes begin when these lie further on, and takes up to its limit.\<close>

fun stream_reads :: "io list \<Rightarrow> str \<Rightarrow> nat \<Rightarrow> (str \<times> nat) list" where
  "stream_reads [] out k = []"
| "stream_reads (Feed b # ios) out k = stream_reads ios (out @ b) k"
| "stream_reads (Draw n # ios) out k =
     (let start = max k (length out - MAX_TAIL_BYTES); b = take n (drop start out)
      in (b, start - k) # stream_reads ios out (start + length b))"

lemma draw_bytes_stream:
  assumes "shell_holds out k sh"
  shows "fst (draw_bytes n sh) =
    (let start = max k (length out - MAX_TAIL_BYTES) in (take n (drop start out), start - k))"
proof -
  let ?s = "length out - MAX_TAIL_BYTES"
  have sh: "sh_total_bytes sh = length out" "sh_tail sh = drop ?s out" "sh_read_cursor sh = k" "k \<le> length out"
    using assms by (auto simp: shell_holds_def)
  have "min (length out - k) n \<le> length out - max k ?s \<or> length out - max k ?s \<le> n" by (auto simp: min_def)
  then have "take (min (min (length out - k) n) (length out - max k ?s)) (drop (max k ?s) out) =
      take n (drop (max k ?s) out)"
    by (auto simp: min_def max_def)
  then show ?thesis
    by (auto simp: draw_bytes_def next_bytes_def Let_def tail_start_def sh max_def)
qed

lemma transfer_stream:
  assumes "shell_holds out k sh"
  shows "fst (tail_buffer.transfer ios (rs, sh)) = rs @ stream_reads ios out k"
  using assms
proof (induction ios arbitrary: out k rs sh)
  case (Cons a ios)
  show ?case
  proof (cases a)
    case (Feed b)
    then show ?thesis using Cons.IH [OF push_holds [OF Cons.prems]] by simp
  next
    case (Draw n)
    obtain b d s1 where d: "draw_bytes n sh = ((b, d), s1)" by (metis prod.exhaust)
    have bd: "b = take n (drop (max k (length out - MAX_TAIL_BYTES)) out)"
      "d = max k (length out - MAX_TAIL_BYTES) - k"
      using draw_bytes_stream [OF Cons.prems, of n] by (simp_all add: d Let_def)
    moreover have "k + d = max k (length out - MAX_TAIL_BYTES)" by (simp add: bd)
    ultimately show ?thesis
      using Cons.IH [of out "k + d + length b" s1 "rs @ [(b, d)]"] draw_bytes_holds [OF Cons.prems d]
      by (simp add: Draw d Let_def)
  qed
qed simp

text \<open>C16. Whatever a background process writes and whenever it is read, with whatever limits: the reads
  are those of \<open>stream_reads\<close>, each decoded by itself. A read starts where the last one ended, or at
  the beginning of the tail when that has moved on, and reports exactly the bytes between; so the
  pieces lie in the output in this order without overlap, and nothing that is still in the tail is
  left out.\<close>

theorem reads_are_the_output:
  "map (\<lambda>ro. (ro_content ro, ro_bytes_dropped ro)) (fst (shell_io ios ([], new_shell now tid command cwd bg lp wr))) =
     map (\<lambda>(b, d). (utf8_lossy b, d)) (stream_reads ios [] 0) \<and>
   lies_in (fed ios) 0 (stream_reads ios [] 0)"
proof -
  let ?s = "new_shell now tid command cwd bg lp wr"
  obtain rs s' where t: "tail_buffer.transfer ios ([], ?s) = (rs, s')" by (metis prod.exhaust)
  have rs: "rs = stream_reads ios [] 0" using transfer_stream [where ios = ios and rs = "[]" and sh = ?s, OF new_shell_holds] t by simp
  have "reads_as (fst (shell_io ios ([], ?s))) rs"
    using shell_io_transfer [OF new_shell_holds, of "[]" "[]" ios now tid command cwd bg lp wr] t
    by (simp add: reads_as_def)
  then have "map (\<lambda>ro. (ro_content ro, ro_bytes_dropped ro)) (fst (shell_io ios ([], ?s))) =
      map (\<lambda>(b, d). (utf8_lossy b, d)) rs"
    by (auto simp: reads_as_def list_eq_iff_nth_eq split_beta dest!: map_eq_imp_length_eq)
  moreover have "lies_in (fed ios) 0 rs"
    using tail_buffer.transfer_lies_in [of "[]" "[]" ?s, OF _ _ t] new_shell_holds by simp
  ultimately show ?thesis unfolding rs by blast
qed

section \<open>Decoding\<close>

text \<open>A read that stops inside a character loses it: when the first two-byte character of the
  unread output that does not fit begins at the last byte of the chunk, the first read ends with a
  replacement character and the second one begins with another, although the output is well formed.\<close>

theorem read_cuts_a_character:
  assumes "sh_tail sh = a @ c # d # b" and "sh_total_bytes sh = length (sh_tail sh)"
    and "sh_read_cursor sh = 0" and "length a + 1 = READ_CHUNK_BYTES" and "valid_utf8 a"
    and "byte_in 194 223 c" and "byte_in 128 191 d"
    and "read_incremental READ_CHUNK_BYTES sh = (ro1, sh1)"
    and "read_incremental READ_CHUNK_BYTES sh1 = (ro2, sh2)"
  shows "ro_content ro1 = a @ replacement \<and> prefix replacement (ro_content ro2)"
proof -
  have 1: "ro_content ro1 = utf8_lossy (a @ [c])" "sh1 = sh\<lparr>sh_read_cursor := READ_CHUNK_BYTES\<rparr>"
    using assms(8) unfolding assms(4) [symmetric]
    by (auto simp: read_incremental_def next_bytes_def Let_def tail_start_def assms(1-3) min_def)
  have "\<exists>n. ro_content ro2 = utf8_lossy (d # take n b)"
    using assms(9) unfolding 1(2) assms(4) [symmetric]
    by (auto intro: exI [of _ "length b"] simp: read_incremental_def next_bytes_def Let_def tail_start_def assms(1-3)
        READ_CHUNK_BYTES_def min_def take_Cons' split: if_splits)
  then obtain n where "ro_content ro2 = utf8_lossy (d # take n b)" by blast
  then show ?thesis
    using 1(1) assms(5-7) by (simp add: utf8_lossy_append lossy_lead lossy_continuation)
qed

section \<open>The registry\<close>

lemma make_room_counter [simp]: "make_room (bt\<lparr>bt_counter := n\<rparr>) = make_room bt"
  by (simp add: make_room_def terminal_id_def [abs_def])

lemma register_shell_eq:
  "register_shell opens now command cwd bg ld bt =
     (bash_id (bt_counter bt + 1),
      bt\<lparr>bt_counter := bt_counter bt + 1,
         bt_objects := (bt_objects bt)(bash_id (bt_counter bt + 1) \<mapsto>
           new_shell now (bash_id (bt_counter bt + 1)) command cwd bg
             (log_file opens ld (bash_id (bt_counter bt + 1))) False),
         bt_shells := make_room bt @ [bash_id (bt_counter bt + 1)]\<rparr>)"
  by (simp add: register_shell_def next_id_def enter_shell_def) (simp add: new_shell_def)

lemma register_pty_eq:
  "register_pty_background opens now command cwd ld wr bt =
     (bash_id (bt_counter bt + 1),
      bt\<lparr>bt_counter := bt_counter bt + 1,
         bt_objects := (bt_objects bt)(bash_id (bt_counter bt + 1) \<mapsto>
           new_shell now (bash_id (bt_counter bt + 1)) command cwd True
             (log_file opens ld (bash_id (bt_counter bt + 1))) wr),
         bt_shells := make_room bt @ [bash_id (bt_counter bt + 1)]\<rparr>)"
  by (simp add: register_pty_background_def next_id_def enter_shell_def) (simp add: new_shell_def)

lemma set_remove_first: "set (remove_first P xs) \<subseteq> set xs"
  by (induction xs) auto

lemma kept_by_remove_first: "x \<in> set xs \<Longrightarrow> \<not> P x \<Longrightarrow> x \<in> set (remove_first P xs)"
  by (induction xs) auto

lemma length_remove_first:
  "length (remove_first P xs) = (if \<exists>x \<in> set xs. P x then length xs - 1 else length xs)"
proof (induction xs)
  case (Cons x xs)
  then show ?case by (cases xs) auto
qed simp

lemma distinct_remove_first: "distinct xs \<Longrightarrow> distinct (remove_first P xs)"
  using set_remove_first by (induction xs) fastforce+

lemma remove_first_id: "distinct xs \<Longrightarrow> x \<notin> set (remove_first (\<lambda>y. y = x) xs)"
  by (induction xs) auto

lemma remove_first_last: "x \<notin> set xs \<Longrightarrow> remove_first (\<lambda>y. y = x) (xs @ [x]) = xs"
  by (induction xs) auto

lemma set_make_room: "set (make_room bt) \<subseteq> set (bt_shells bt)"
  using set_remove_first [of "terminal_id bt" "bt_shells bt"] by (simp add: make_room_def)

lemma bash_id_inject [simp]: "bash_id m = bash_id n \<longleftrightarrow> m = n"
proof
  have z: "num_of (replicate k (CHR ''0'') @ s) = num_of s" for k s
    by (induction k) (simp_all add: num_of_def digit_val_def)
  assume "bash_id m = bash_id n"
  then have "pad3 m = pad3 n" by (simp add: bash_id_def)
  then have "num_of (pad3 m) = num_of (pad3 n)" by simp
  then show "m = n" by (simp add: pad3_def z)
qed simp

text \<open>The ids are those given out, the list names objects, without repetition.\<close>

definition registry_ok :: "bg_tasks \<Rightarrow> bool" where
  "registry_ok bt \<longleftrightarrow> distinct (bt_shells bt) \<and> set (bt_shells bt) \<subseteq> dom (bt_objects bt) \<and>
     dom (bt_objects bt) = bash_id ` {1..bt_counter bt}"

lemma registry_new: "registry_ok new_registry"
  by (simp add: registry_ok_def new_registry_def)

lemma fresh_id: "registry_ok bt \<Longrightarrow> bash_id (bt_counter bt + 1) \<notin> set (bt_shells bt)"
proof
  assume "registry_ok bt" and "bash_id (bt_counter bt + 1) \<in> set (bt_shells bt)"
  then have "bash_id (bt_counter bt + 1) \<in> bash_id ` {1..bt_counter bt}"
    unfolding registry_ok_def by (metis subsetD)
  then show False by auto
qed

lemma registry_next:
  assumes "registry_ok bt"
  shows "registry_ok (bt\<lparr>bt_counter := bt_counter bt + 1,
     bt_objects := (bt_objects bt)(bash_id (bt_counter bt + 1) \<mapsto> sh),
     bt_shells := make_room bt @ [bash_id (bt_counter bt + 1)]\<rparr>)"
proof -
  let ?t = "bash_id (bt_counter bt + 1)"
  have ok: "distinct (bt_shells bt)" "set (bt_shells bt) \<subseteq> dom (bt_objects bt)"
    "dom (bt_objects bt) = bash_id ` {1..bt_counter bt}"
    using assms by (auto simp: registry_ok_def)
  have new: "?t \<notin> dom (bt_objects bt)" by (auto simp: ok(3))
  have room: "set (make_room bt) \<subseteq> dom (bt_objects bt)" using set_make_room ok(2) by blast
  have "distinct (make_room bt)" using ok(1) by (simp add: make_room_def distinct_remove_first)
  moreover have "?t \<notin> set (make_room bt)" using new room by blast
  moreover have "insert ?t (dom (bt_objects bt)) = bash_id ` {1..bt_counter bt + 1}"
    by (simp add: ok(3) atLeastAtMostSuc_conv)
  ultimately show ?thesis
    unfolding registry_ok_def using subset_insertI2 [OF room, of ?t]
    by (simp del: One_nat_def add_Suc_right)
qed

text \<open>C17. A registered command gets an id no task of the session ever had, and the list stays well
  formed; only a task that has ended leaves the list for it, and only when the list is full.\<close>

theorem registering_keeps_what_runs:
  assumes "registry_ok bt" and "register_shell opens now command cwd bg ld bt = (tid, bt')"
  shows "registry_ok bt' \<and> bt_objects bt tid = None \<and>
    get_shell tid bt' = Some (new_shell now tid command cwd bg (log_file opens ld tid) False) \<and>
    {x \<in> set (bt_shells bt). length (bt_shells bt) < MAX_BACKGROUND_SHELLS \<or> \<not> terminal_id bt x}
      \<subseteq> set (bt_shells bt') \<and>
    length (bt_shells bt') =
      (if MAX_BACKGROUND_SHELLS \<le> length (bt_shells bt) \<and> (\<exists>x \<in> set (bt_shells bt). terminal_id bt x)
       then length (bt_shells bt) else length (bt_shells bt) + 1)"
proof -
  have tid: "tid = bash_id (bt_counter bt + 1)"
    and bt': "bt' = bt\<lparr>bt_counter := bt_counter bt + 1,
      bt_objects := (bt_objects bt)(tid \<mapsto> new_shell now tid command cwd bg (log_file opens ld tid) False),
      bt_shells := make_room bt @ [tid]\<rparr>"
    using assms(2) by (auto simp: register_shell_eq)
  have "registry_ok bt'" using registry_next [OF assms(1)] by (simp add: bt' tid)
  moreover have "tid \<notin> dom (bt_objects bt)" using assms(1) by (auto simp: registry_ok_def tid)
  moreover have "{x \<in> set (bt_shells bt). length (bt_shells bt) < MAX_BACKGROUND_SHELLS \<or>
      \<not> terminal_id bt x} \<subseteq> set (make_room bt)"
    by (auto simp: make_room_def kept_by_remove_first)
  moreover have "length (make_room bt) =
      (if MAX_BACKGROUND_SHELLS \<le> length (bt_shells bt) \<and> (\<exists>x \<in> set (bt_shells bt). terminal_id bt x)
       then length (bt_shells bt) - 1 else length (bt_shells bt))"
    by (simp add: make_room_def length_remove_first)
  ultimately show ?thesis
    by (auto simp: bt' get_shell_def MAX_BACKGROUND_SHELLS_def domIff)
qed

section \<open>A command in the foreground\<close>

text \<open>What can happen to the shell of a command between two looks of the loop.\<close>

datatype happening = Said str | Ended nat shell_state | Moved

fun happens_to :: "happening \<Rightarrow> bg_shell \<Rightarrow> bg_shell" where
  "happens_to (Said b) sh = push_bytes b sh"
| "happens_to (Ended now st) sh = finish_shell now st sh"
| "happens_to Moved sh = promote_to_background sh"

definition wake_of :: "happening list \<times> bool \<times> bool \<Rightarrow> bash_wake" where
  "wake_of k = (case k of (hs, d, c) \<Rightarrow> \<lparr>wa_before = fold happens_to hs, wa_deadline = d, wa_cancel = c\<rparr>)"

text \<open>What was gathered so far is the output up to the cursor, unless the tail lost bytes.\<close>

definition gathers :: "str \<Rightarrow> str list \<Rightarrow> bg_shell \<times> gathered \<Rightarrow> bool" where
  "gathers out cs p \<longleftrightarrow> shell_holds out (sh_read_cursor (fst p)) (fst p) \<and>
     ga_buffer (snd p) = concat (map utf8_lossy cs) \<and>
     concat (ga_chunks (snd p)) = ga_buffer (snd p) \<and>
     (length out \<le> MAX_TAIL_BYTES \<longrightarrow> concat cs = take (sh_read_cursor (fst p)) out)"

lemma happens_gathers: "gathers out cs (sh, g) \<Longrightarrow> \<exists>b. gathers (out @ b) cs (happens_to h sh, g)"
proof (cases h)
  case (Said b)
  assume g: "gathers out cs (sh, g)"
  then have "shell_holds (out @ b) (sh_read_cursor sh) (push_bytes b sh)"
    by (simp add: gathers_def push_holds)
  then show ?thesis
    using g Said by (intro exI [of _ b]) (auto simp: gathers_def shell_holds_def)
qed (intro exI [of _ "[]"], simp add: gathers_def shell_holds_def finish_shell_def promote_to_background_def)+

lemma happened_gathers: "gathers out cs (sh, g) \<Longrightarrow> \<exists>b. gathers (out @ b) cs (fold happens_to hs sh, g)"
proof (induction hs arbitrary: out sh)
  case Nil
  then show ?case by (intro exI [of _ "[]"]) simp
next
  case (Cons h hs)
  obtain b where "gathers (out @ b) cs (happens_to h sh, g)" using happens_gathers [OF Cons.prems] by blast
  from Cons.IH [OF this] show ?case by auto
qed

lemma drain_gathers:
  assumes "gathers out cs p"
  obtains b where "gathers out (cs @ [b]) (drain_into n p)"
    and "n = USIZE_MAX \<Longrightarrow> length out \<le> MAX_TAIL_BYTES \<Longrightarrow>
      sh_read_cursor (fst (drain_into n p)) = length out"
proof -
  obtain b d s1 where d: "draw_bytes n (fst p) = ((b, d), s1)" by (metis prod.exhaust)
  have h: "shell_holds out (sh_read_cursor (fst p)) (fst p)" using assms by (simp add: gathers_def)
  note dd = draw_bytes_holds [OF h d]
  have c: "sh_read_cursor s1 = sh_read_cursor (fst p) + d + length b"
    using dd by (simp add: shell_holds_def)
  have dr: "drain_into n p = (s1, gather (utf8_lossy b) (snd p))"
    by (simp add: drain_into_def read_incremental_draws [OF h] d)
  have short: "d = 0" if "length out \<le> MAX_TAIL_BYTES"
    using that h d by (auto simp: draw_bytes_def next_bytes_def Let_def shell_holds_def tail_start_def)
  have "gathers out (cs @ [b]) (drain_into n p)"
    using assms dd short by (auto simp: gathers_def dr c gather_def take_add elim!: prefixE)
  moreover have "sh_read_cursor (fst (drain_into n p)) = length out"
    if n: "n = USIZE_MAX" and s: "length out \<le> MAX_TAIL_BYTES"
  proof -
    have "length out \<le> n" using s unfolding n by (simp add: MAX_TAIL_BYTES_def USIZE_MAX_def)
    then have "length b = length out - sh_read_cursor (fst p)"
      using s h d by (auto simp: draw_bytes_def next_bytes_def Let_def shell_holds_def tail_start_def)
    then show ?thesis using short [OF s] h by (simp add: dr c shell_holds_def)
  qed
  ultimately show thesis by (rule that)
qed

lemma bash_turn_gathers:
  assumes "gathers out cs p" and "bash_turn (wake_of k) p = (e, p')"
  obtains out' cs' where "gathers out' cs' p'"
    and "e = Some ProcessEnded \<Longrightarrow> length out' \<le> MAX_TAIL_BYTES \<Longrightarrow>
      sh_read_cursor (fst p') = length out'"
proof -
  obtain hs d c where k: "k = (hs, d, c)" by (cases k)
  let ?q = "(fold happens_to hs (fst p), snd p)"
  obtain b where "gathers (out @ b) cs ?q"
    using happened_gathers [of out cs "fst p" "snd p" hs] assms(1) by auto
  note g = drain_gathers [OF this]
  have "\<exists>n. p' = drain_into n ?q \<and> (e = Some ProcessEnded \<longrightarrow> n = USIZE_MAX)"
    using assms(2) by (auto simp: bash_turn_def wake_of_def k Let_def split: if_splits)
  then obtain n where n: "p' = drain_into n ?q" "e = Some ProcessEnded \<Longrightarrow> n = USIZE_MAX" by blast
  show thesis by (rule g [of n]) (rule that [unfolded n(1)], use n(2) in auto)
qed

lemma bash_wait_gathers:
  assumes "gathers out cs p" and "bash_wait (map wake_of ks) p = (Some ProcessEnded, p')"
  shows "\<exists>out' cs'. gathers out' cs' p' \<and>
    (length out' \<le> MAX_TAIL_BYTES \<longrightarrow> sh_read_cursor (fst p') = length out')"
  using assms
proof (induction ks arbitrary: out cs p)
  case (Cons k ks)
  obtain e q where t: "bash_turn (wake_of k) p = (e, q)" by (cases "bash_turn (wake_of k) p")
  obtain out' cs' where g: "gathers out' cs' q"
    "e = Some ProcessEnded \<Longrightarrow> length out' \<le> MAX_TAIL_BYTES \<Longrightarrow> sh_read_cursor (fst q) = length out'"
    by (rule bash_turn_gathers [OF Cons.prems(1) t]) blast
  show ?case
  proof (cases e)
    case None
    with Cons.IH [OF g(1)] Cons.prems(2) t show ?thesis by simp
  next
    case (Some x)
    with g Cons.prems(2) t show ?thesis by auto
  qed
qed simp

text \<open>When a command over pipes has ended in the foreground, the call has gathered its whole output as far
  as it had been read by then, in the pieces the surface was sent, as long as it fits the tail of the
  shell; \<open>bash_result\<close> then cuts it to the limit of a result.\<close>

theorem foreground_output_is_complete:
  assumes "bash_wait (map wake_of ks) (new_shell now tid command cwd False lp False, nothing_gathered) =
      (Some ProcessEnded, sh, g)"
    and "sh_total_bytes sh \<le> MAX_TAIL_BYTES"
  shows "\<exists>cs. concat cs = sh_tail sh \<and> length (sh_tail sh) = sh_total_bytes sh \<and>
    ga_buffer g = concat (map utf8_lossy cs) \<and> concat (ga_chunks g) = ga_buffer g"
proof -
  have "gathers [] [] (new_shell now tid command cwd False lp False, nothing_gathered)"
    by (simp add: gathers_def new_shell_holds nothing_gathered_def) (simp add: new_shell_def shell_holds_def)
  from bash_wait_gathers [OF this assms(1)] obtain out cs where
    "gathers out cs (sh, g)" "length out \<le> MAX_TAIL_BYTES \<longrightarrow> sh_read_cursor sh = length out"
    by auto
  then show ?thesis using assms(2) by (auto simp: gathers_def shell_holds_def intro!: exI [of _ cs])
qed

text \<open>What a process wrote but its reader had not yet read when the end was seen is lost: the result
  says that there was no output, and the registry no longer knows the command, whatever arrives.\<close>

theorem output_read_after_the_end_is_lost:
  assumes "ks = [\<lparr>wa_before = waiter_exit t (Inr (Some 0)), wa_deadline = d, wa_cancel = c\<rparr>]"
    and "bash_run_pipe opens True now later command cwd timeout False log_dir cx ks w = (r, w')"
    and "tid = bash_id (bt_counter (bw_tasks w) + 1)" and "tid \<notin> set (bt_shells (bw_tasks w))"
  shows "r = Some (Inr (no_output_text, False)) \<and>
    get_shell tid (update_shell (read_pipe None stream) tid (bw_tasks w')) = None"
proof -
  have short: "truncate_bytes no_output_text BASH_OUTPUT_BYTES = no_output_text"
    by (simp add: truncate_bytes_def no_output_text_def BASH_OUTPUT_BYTES_def)
  let ?new = "new_shell now tid command cwd False None False"
  let ?ended = "finish_shell t (ShellExited (Some 0)) ?new"
  define bt where "bt = snd (register_shell opens now command cwd False None (bw_tasks w))"
  let ?xs = "make_room (bw_tasks w)"
  have reg: "register_shell opens now command cwd False None (bw_tasks w) = (tid, bt)"
    by (simp add: bt_def register_shell_eq assms(3))
  have bt: "bt_objects bt tid = Some ?new" "bt_shells bt = ?xs @ [tid]"
    by (simp_all add: bt_def register_shell_eq assms(3) log_file_def)
  have fresh: "tid \<notin> set ?xs" using assms(4) set_make_room by blast
  have wait: "bash_wait ks (?new, nothing_gathered) = (Some ProcessEnded, ?ended, nothing_gathered)"
    by (simp add: assms(1) bash_turn_def waiter_exit_def exit_state_def finish_shell_def new_shell_def
        is_terminal_def drain_into_def read_incremental_def nothing_new_def gather_def nothing_gathered_def)
  let ?w = "put_shell tid ?ended (w\<lparr>bw_tasks := bt\<rparr>)"
  have st: "sh_state ?ended = ShellExited (Some 0)"
    by (simp add: finish_shell_def new_shell_def is_terminal_def)
  have "(r, w') = (Some (Inr (no_output_text, False)), unregister_in tid ?w)"
    using assms(2) bt(1) short wait
    by (simp add: bash_run_pipe_def reg bash_result_def st format_finished_def nothing_gathered_def)
  moreover have "unregister tid (bw_tasks ?w) = (True, (bw_tasks ?w)\<lparr>bt_shells := remove_first (\<lambda>x. x = tid) (?xs @ [tid])\<rparr>)"
    using bt st by (simp add: unregister_def put_shell_def update_shell_def terminal_id_def is_terminal_def)
  moreover have "tid \<notin> set (remove_first (\<lambda>x. x = tid) (?xs @ [tid]))"
    using fresh by (simp add: remove_first_last)
  ultimately show ?thesis
    by (simp add: get_shell_def update_shell_def unregister_in_def eq_commute [of _ tid])
qed

section \<open>The terminal\<close>

text \<open>Moving a command to the background inserts line feeds: every piece read from the terminal that
  does not end a line is followed by one, wherever the read stopped.\<close>

theorem moved_output_is_broken_into_lines:
  assumes "\<not> suffix [nl] (utf8_lossy b)" and "shell_holds out k sh"
  shows "shell_holds (out @ utf8_lossy b @ [nl]) k (pty_moved_chunk b sh)"
  using push_holds [OF push_holds [OF assms(2)], of "utf8_lossy b" "[nl]"] assms(1)
  by (simp add: pty_moved_chunk_def append_output_def Let_def)

text \<open>\<open>BashInput\<close> panics after it has sent the input: when the input is longer than 50 bytes and
  byte 50 lies inside a character, the preview cannot be cut, and the answer of the process is lost
  with the call, while the process has received every byte.\<close>

theorem long_input_panics_after_it_was_sent:
  assumes "json_get_str input ''task_id'' = Some tid" and "json_get_str input ''input'' = Some t"
    and "\<not> prefix ''subagent-'' tid" and "get_shell tid bt = Some sh" and "sh_pty_writer sh"
    and "50 < length t" and "is_continuation (t ! 50)"
    and "bash_input rx dbg True waited input bt = (r, bt')"
    and "\<And>c m i s. sh_written (waited c m i s) = sh_written s"
  shows "r = None \<and> (\<exists>sh'. get_shell tid bt' = Some sh' \<and> prefix (sh_written sh @ t) (sh_written sh'))"
proof -
  have pv: "input_preview t = None" using assms(6,7) by (simp add: input_preview_def is_char_boundary_def)
  have lst: "tid \<in> set (bt_shells bt)" "bt_objects bt tid = Some sh"
    using assms(4) by (auto simp: get_shell_def split: if_splits)
  define wait where "wait = input_millis input ''wait_ms'' DEFAULT_INPUT_WAIT_MS MAX_WAIT_MS"
  define quiet where "quiet = input_millis input ''idle_ms'' DEFAULT_IDLE_MS MAX_IDLE_MS"
  define b where "b = input_data t (json_get_bool input ''press_enter'' \<noteq> Some False)"
  define sh1 where "sh1 = sh\<lparr>sh_read_cursor := sh_total_bytes sh\<rparr>"
  define sh2 where "sh2 = waited (sh_total_bytes sh) wait quiet (sh1\<lparr>sh_written := sh_written sh1 @ b\<rparr>)"
  obtain ro sh3 where rd: "read_incremental READ_CHUNK_BYTES sh2 = (ro, sh3)" by (metis prod.exhaust)
  have "sh_written sh3 = sh_written sh2"
    using rd by (auto simp: read_incremental_def split: if_splits prod.splits)
  then have "sh_written sh3 = sh_written sh @ b" by (simp add: sh2_def assms(9) sh1_def)
  then have "prefix (sh_written sh @ t) (sh_written sh3)" by (simp add: b_def input_data_def)
  moreover have "(r, bt') = (None, update_shell (\<lambda>_. sh3) tid (update_shell (\<lambda>_. sh1) tid bt))"
    using assms(8)
    by (simp add: bash_input_def assms(1-5) pv mark_read_to_end_def write_input_def sh1_def [symmetric]
        wait_def [symmetric] quiet_def [symmetric] b_def [symmetric] sh2_def [symmetric] rd)
      (simp add: sh1_def assms(5) sh2_def [unfolded sh1_def, simplified, symmetric] rd pv)
  ultimately show ?thesis using lst by (auto simp: get_shell_def update_shell_def)
qed

section \<open>Waiting\<close>

inductive_cases wait_stepE: "wait_step w w'"

lemma sh_state_append [simp]: "sh_state (append_output pre b sh) = sh_state sh"
  by (simp add: append_output_def push_bytes_def Let_def split: option.split)

lemma notify_waiters_fields [simp]:
  "wt_shell (notify_waiters w) = wt_shell w" "wt_pipe_open (notify_waiters w) = wt_pipe_open w"
  "wt_at (notify_waiters w) = Returned \<longleftrightarrow> wt_at w = Returned"
  by (simp_all add: notify_waiters_def)

lemma wait_step_returned:
  assumes "wait_step w w'" and "wt_at w = Returned \<longrightarrow> is_terminal (sh_state (wt_shell w))"
  shows "wt_at w' = Returned \<longrightarrow> is_terminal (sh_state (wt_shell w'))"
  using assms(1)
  by (cases rule: wait_step.cases) (use assms(2) in \<open>simp_all add: finish_shell_def\<close>)

lemma wait_returns_at_the_end:
  assumes "wait_step\<^sup>*\<^sup>* w w'" and "wt_at w \<noteq> Returned" and "wt_at w' = Returned"
  shows "is_terminal (sh_state (wt_shell w'))"
proof -
  have "wt_at w' = Returned \<longrightarrow> is_terminal (sh_state (wt_shell w'))"
    using assms(1,2) by (induction rule: rtranclp_induct) (auto intro: wait_step_returned [rule_format])
  with assms(3) show ?thesis by simp
qed

text \<open>C40. A call that waits for the end of a command may wait for ever: when the command ends between
  the look at its state and the registration with the notifier, nobody is woken, and afterwards no
  step is left, although the state is final.\<close>

theorem wait_for_the_end_may_never_return:
  assumes "wt_at w = Looking" and "\<not> is_terminal (sh_state (wt_shell w))" and "is_terminal st"
    and "wt_pipe_open w"
  shows "\<exists>w'. wait_step\<^sup>*\<^sup>* w w' \<and> sh_state (wt_shell w') = st \<and> wt_at w' = Asleep \<and>
    (\<forall>w''. \<not> wait_step w' w'')"
proof -
  let ?a = "w\<lparr>wt_at := AboutToSleep\<rparr>"
  let ?b = "?a\<lparr>wt_shell := finish_shell 0 st (wt_shell ?a), wt_to_notify := True\<rparr>"
  let ?c = "?b\<lparr>wt_to_notify := False\<rparr>"
  let ?d = "?c\<lparr>wt_pipe_open := False\<rparr>"
  let ?e = "?d\<lparr>wt_at := Asleep\<rparr>"
  have "wait_step w ?a" using assms by (intro look_running)
  moreover have "wait_step ?a ?b" using assms by (intro shell_ends) simp_all
  moreover have "wait_step ?b ?c" using notify [of ?b] by (simp add: notify_waiters_def)
  moreover have "wait_step ?c ?d" using assms(4) by (intro pipe_closes) simp
  moreover have "wait_step ?d ?e" by (intro sleep) simp
  ultimately have "wait_step\<^sup>*\<^sup>* w ?e" by (blast intro: converse_rtranclp_into_rtranclp)
  moreover have "\<not> wait_step ?e w''" for w''
    using assms(2,3) by (auto elim!: wait_stepE simp: finish_shell_def)
  moreover have "sh_state (wt_shell ?e) = st" using assms(2) by (simp add: finish_shell_def)
  ultimately show ?thesis by (intro exI [of _ ?e]) simp
qed

section \<open>Concrete runs\<close>

definition ex_shell :: bg_shell where
  "ex_shell = new_shell 0 ''bash_001'' ''cat'' ''/w'' True None True"

lemma read_cuts_a_character_witness:
  "let a = replicate (READ_CHUNK_BYTES - 1) (CHR ''x'');
       sh = ex_shell\<lparr>sh_tail := a @ [CHR 0xC3, CHR 0xA9], sh_total_bytes := READ_CHUNK_BYTES + 1\<rparr>;
       p = read_incremental READ_CHUNK_BYTES sh
   in ro_content (fst p) = a @ replacement \<and>
      prefix replacement (ro_content (fst (read_incremental READ_CHUNK_BYTES (snd p))))"
  unfolding Let_def
  by (rule read_cuts_a_character [where c = "CHR 0xC3" and d = "CHR 0xA9" and b = "[]" and
        ?sh1.0 = "snd (read_incremental READ_CHUNK_BYTES (ex_shell\<lparr>sh_tail := replicate
          (READ_CHUNK_BYTES - 1) (CHR ''x'') @ [CHR 0xC3, CHR 0xA9], sh_total_bytes := READ_CHUNK_BYTES + 1\<rparr>))" and
        ?sh2.0 = "snd (read_incremental READ_CHUNK_BYTES (snd (read_incremental READ_CHUNK_BYTES
          (ex_shell\<lparr>sh_tail := replicate (READ_CHUNK_BYTES - 1) (CHR ''x'') @ [CHR 0xC3, CHR 0xA9],
            sh_total_bytes := READ_CHUNK_BYTES + 1\<rparr>))))"])
    (auto simp: ex_shell_def new_shell_def READ_CHUNK_BYTES_def byte_in_def intro: ascii_valid)

definition ex_registry :: bg_tasks where
  "ex_registry = snd (register_shell (\<lambda>_. True) 0 ''make'' ''/w'' True None new_registry)"

lemma ex_registry_ok: "registry_ok ex_registry"
  using registering_keeps_what_runs [OF registry_new, of "\<lambda>_. True" 0 "''make''" "''/w''" True None]
  by (simp add: ex_registry_def register_shell_eq)

lemma registering_keeps_what_runs_witness:
  "registry_ok (snd (register_shell (\<lambda>_. True) 5 ''ls'' ''/w'' False None ex_registry)) \<and>
   length (bt_shells (snd (register_shell (\<lambda>_. True) 5 ''ls'' ''/w'' False None ex_registry))) = 2"
proof -
  have "length (bt_shells ex_registry) = 1"
    by (simp add: ex_registry_def register_shell_eq new_registry_def make_room_def MAX_BACKGROUND_SHELLS_def)
  then show ?thesis
    using registering_keeps_what_runs [OF ex_registry_ok, of "\<lambda>_. True" 5 "''ls''" "''/w''" False None]
    by (simp add: register_shell_eq MAX_BACKGROUND_SHELLS_def)
qed

lemma foreground_output_is_complete_witness:
  "\<exists>cs. concat cs = ''hi'' \<and>
     ga_buffer (snd (snd (bash_wait (map wake_of [([Said ''h''], False, False),
       ([Said ''i'', Ended 9 (ShellExited (Some 0))], False, False)])
       (new_shell 0 ''bash_001'' ''echo hi'' ''/w'' False None False, nothing_gathered)))) =
     concat (map utf8_lossy cs)"
proof -
  let ?r = "bash_wait (map wake_of [([Said ''h''], False, False),
      ([Said ''i'', Ended 9 (ShellExited (Some 0))], False, False)])
    (new_shell 0 ''bash_001'' ''echo hi'' ''/w'' False None False, nothing_gathered)"
  have r: "fst ?r = Some ProcessEnded" "sh_tail (fst (snd ?r)) = ''hi''" "sh_total_bytes (fst (snd ?r)) = 2"
    by (simp_all add: bash_turn_def wake_of_def drain_into_def read_incremental_def next_bytes_def
        push_bytes_def new_shell_def finish_shell_def is_terminal_def tail_start_def Let_def
        MAX_TAIL_BYTES_def READ_CHUNK_BYTES_def USIZE_MAX_def nothing_new_def)
  obtain sh g where sg: "?r = (Some ProcessEnded, sh, g)" using r(1) by (metis prod.collapse)
  have "sh_total_bytes sh \<le> MAX_TAIL_BYTES" using r(3) by (simp only: sg snd_conv fst_conv MAX_TAIL_BYTES_def)
  from foreground_output_is_complete [OF sg this] show ?thesis
    using r(2) by (simp only: sg snd_conv fst_conv) blast
qed

lemma output_read_after_the_end_is_lost_witness:
  "fst (bash_run_pipe (\<lambda>_. True) True 0 id ''echo hi'' ''/w'' 60 False None
      \<lparr>cx_session_id = None, cx_run_id = None, cx_call_id = []\<rparr>
      [\<lparr>wa_before = waiter_exit 9 (Inr (Some 0)), wa_deadline = False, wa_cancel = False\<rparr>]
      \<lparr>bw_tasks = ex_registry, bw_sched = new_scheduler\<rparr>) = Some (Inr (no_output_text, False))"
  using output_read_after_the_end_is_lost [OF refl surjective_pairing refl,
      of "\<lparr>bw_tasks = ex_registry, bw_sched = new_scheduler\<rparr>" "\<lambda>_. True" 0 id "''echo hi''" "''/w''" 60 None
        "\<lparr>cx_session_id = None, cx_run_id = None, cx_call_id = []\<rparr>" 9 False False]
    fresh_id [OF ex_registry_ok]
  by simp

lemma moved_output_is_broken_into_lines_witness:
  "sh_tail (pty_moved_chunk ''b'' (pty_moved_chunk ''a'' ex_shell)) = [CHR ''a'', nl, CHR ''b'', nl]"
proof -
  have 1: "shell_holds [] 0 ex_shell" by (simp add: ex_shell_def new_shell_holds)
  have ns: "\<not> suffix [nl] [c]" if "c \<noteq> nl" for c using that by (auto simp: suffix_def Cons_eq_append_conv)
  have u: "utf8_lossy [c] = [c]" if "(of_char c :: nat) < 128" for c
    using that ascii_valid [of "[c]"] by (simp add: utf8_lossy_valid)
  have 2: "shell_holds [CHR ''a'', nl] 0 (pty_moved_chunk ''a'' ex_shell)"
    using moved_output_is_broken_into_lines [OF _ 1, of "''a''"] u [of "CHR ''a''"] ns [of "CHR ''a''"] by simp
  have "shell_holds [CHR ''a'', nl, CHR ''b'', nl] 0 (pty_moved_chunk ''b'' (pty_moved_chunk ''a'' ex_shell))"
    using moved_output_is_broken_into_lines [OF _ 2, of "''b''"] u [of "CHR ''b''"] ns [of "CHR ''b''"] by simp
  then show ?thesis by (simp add: shell_holds_def MAX_TAIL_BYTES_def)
qed

definition ex_answer :: str where
  "ex_answer = replicate 49 (CHR ''y'') @ [CHR 0xC3, CHR 0xA9]"

lemma long_input_panics_after_it_was_sent_witness:
  "fst (bash_input (\<lambda>_ _. []) id True (\<lambda>_ _ _ s. s)
     (JObj [(''task_id'', JStr ''bash_001''), (''input'', JStr ex_answer)])
     (new_registry\<lparr>bt_objects := [''bash_001'' \<mapsto> ex_shell], bt_shells := [''bash_001'']\<rparr>)) = None"
  using long_input_panics_after_it_was_sent [of "JObj [(''task_id'', JStr ''bash_001''), (''input'', JStr ex_answer)]"
      "''bash_001''" ex_answer "new_registry\<lparr>bt_objects := [''bash_001'' \<mapsto> ex_shell], bt_shells := [''bash_001'']\<rparr>"
      ex_shell "\<lambda>_ _. []" id "\<lambda>_ _ _ s. s", OF _ _ _ _ _ _ _ surjective_pairing]
  by (simp add: json_get_str_def get_shell_def ex_shell_def new_shell_def ex_answer_def is_continuation_def
      nth_append)

lemma wait_for_the_end_may_never_return_witness:
  "\<exists>w'. wait_step\<^sup>*\<^sup>* \<lparr>wt_shell = ex_shell, wt_at = Looking, wt_to_notify = False, wt_pipe_open = True\<rparr> w' \<and>
    sh_state (wt_shell w') = ShellKilled \<and> wt_at w' = Asleep \<and> \<not> (\<exists>w''. wait_step w' w'')"
  using wait_for_the_end_may_never_return [of "\<lparr>wt_shell = ex_shell, wt_at = Looking, wt_to_notify = False,
      wt_pipe_open = True\<rparr>" ShellKilled]
  by (simp add: ex_shell_def new_shell_def is_terminal_def)

end
