(* ===== verification/Wakeup_Laws.thy ===== *)
theory Wakeup_Laws
  imports Shells_Laws "HOL-Library.Multiset"
begin

text \<open>
  What the wakeup scheduler promises: every timer fires once and not before its time, every watch on a
  task is accounted for, a session has one sentinel, recovery and resumption leave no duplicate. And
  where it fails: a watch armed while a scan is under way, a sentinel armed behind a new run, a task
  that left the list before the scan.
\<close>

section \<open>A scan that is not disturbed\<close>

definition report_of :: "(nat \<Rightarrow> bg_tasks) \<Rightarrow> (str \<Rightarrow> nat option) \<Rightarrow> nat \<Rightarrow> bg_watch \<Rightarrow> wakeup_event option" where
  "report_of regs shells now w =
     (case watch_status regs shells now w of
        (done, killed, code, duration) \<Rightarrow>
          if done \<and> \<not> killed then Some (finished_event w code duration) else None)"

definition is_done :: "(nat \<Rightarrow> bg_tasks) \<Rightarrow> (str \<Rightarrow> nat option) \<Rightarrow> nat \<Rightarrow> bg_watch \<Rightarrow> bool" where
  "is_done regs shells now w = fst (watch_status regs shells now w)"

lemma scan_check_Cons:
  assumes "bs_todo sn = w # ws"
  shows "scan_check regs now sn s =
    (sn\<lparr>bs_todo := ws,
       bs_still := bs_still sn @ (if is_done regs (bs_shells sn) now w then [] else [w])\<rparr>,
     s\<lparr>sc_queue := sc_queue s @
       (case report_of regs (bs_shells sn) now w of Some e \<Rightarrow> [e] | None \<Rightarrow> [])\<rparr>)"
  using assms
  by (auto simp: scan_check_def report_of_def is_done_def send_event_def split: prod.split)

lemma scan_checks_all:
  "length (bs_todo sn) = n \<Longrightarrow> scan_checks regs now n (sn, s) =
    (sn\<lparr>bs_todo := [], bs_still := bs_still sn @ filter (\<lambda>w. \<not> is_done regs (bs_shells sn) now w) (bs_todo sn)\<rparr>,
     s\<lparr>sc_queue := sc_queue s @ List.map_filter (report_of regs (bs_shells sn) now) (bs_todo sn)\<rparr>)"
proof (induction n arbitrary: sn s)
  case (Suc n)
  then obtain w ws where t: "bs_todo sn = w # ws" by (cases "bs_todo sn") auto
  with Suc show ?case
    by (auto simp: scan_check_Cons [OF t] map_filter_simps split: option.split)
qed (simp add: map_filter_simps)

text \<open>A scan during which nothing else happens reports each watched task that has ended and was not
  killed, in the order of the table and once, forgets those that have ended and keeps the others.\<close>

theorem scan_reports_each_finished_task_once:
  "scan_bg regs now s =
     s\<lparr>sc_queue := sc_queue s @ List.map_filter (report_of regs (sc_session_shells s) now) (sc_bg_watches s),
       sc_bg_watches := filter (\<lambda>w. \<not> is_done regs (sc_session_shells s) now w) (sc_bg_watches s)\<rparr>"
  by (simp add: scan_bg_def scan_begin_def scan_checks_all scan_end_def)

section \<open>Watches in every interleaving\<close>

fun armed_watch :: "wake_action \<Rightarrow> bg_watch option" where
  "armed_watch (ArmBgTask sid rid tid call) =
     Some \<lparr>bw_task_id = tid, bw_session_id = sid, bw_run_id = rid, bw_tool_use_id = call\<rparr>"
| "armed_watch _ = None"

fun reported_watch :: "wakeup_event \<Rightarrow> bg_watch option" where
  "reported_watch (BgTaskFinished sid rid tid call _ _) =
     Some \<lparr>bw_task_id = tid, bw_session_id = sid, bw_run_id = rid, bw_tool_use_id = call\<rparr>"
| "reported_watch (CronFired _ _ _ _) = None"

definition all_events :: "scheduler \<Rightarrow> wakeup_event list" where
  "all_events s = sc_resumed s @ sc_unhandled s @ sc_queue s"

definition collect :: "('a \<Rightarrow> 'b option) \<Rightarrow> 'a list \<Rightarrow> 'b multiset" where
  "collect f xs = mset (List.map_filter f xs)"

lemma collect_simps [simp]:
  "collect f [] = {#}" "collect f (x # xs) = (case f x of Some y \<Rightarrow> {#y#} | None \<Rightarrow> {#}) + collect f xs"
  "collect f (xs @ ys) = collect f xs + collect f ys"
proof -
  show "collect f (xs @ ys) = collect f xs + collect f ys" for xs ys
    by (simp add: collect_def map_filter_def)
qed (simp_all add: collect_def map_filter_simps split: option.split)

text \<open>The watches that are waiting, in the table or in the scan; those an action takes away without a
  report: discarded, or killed.\<close>

definition watched :: "wake_world \<Rightarrow> bg_watch multiset" where
  "watched w = (case ww_scan w of
     None \<Rightarrow> mset (sc_bg_watches (ww_sched w)) | Some sn \<Rightarrow> mset (bs_todo sn @ bs_still sn))"

definition silenced :: "(nat \<Rightarrow> bg_tasks) \<Rightarrow> nat \<Rightarrow> bg_scan \<Rightarrow> bg_watch multiset" where
  "silenced regs now sn = (case bs_todo sn of
     x # _ \<Rightarrow> if is_done regs (bs_shells sn) now x \<and> report_of regs (bs_shells sn) now x = None
            then {#x#} else {#}
   | [] \<Rightarrow> {#})"

fun forgotten :: "wake_action \<Rightarrow> wake_world \<Rightarrow> bg_watch multiset" where
  "forgotten (DiscardBgTask sid tid) w =
     {#x \<in># mset (sc_bg_watches (ww_sched w)). bw_session_id x = sid \<and> bw_task_id x = tid#}"
| "forgotten (DiscardRun sid rid) w =
     {#x \<in># mset (sc_bg_watches (ww_sched w)). bw_session_id x = sid \<and> bw_run_id x = rid#}"
| "forgotten (ScanCheck now) w =
     (case ww_scan w of None \<Rightarrow> {#} | Some sn \<Rightarrow> silenced (ww_regs w) now sn)"
| "forgotten _ w = {#}"

fun all_forgotten :: "wake_action list \<Rightarrow> wake_world \<Rightarrow> bg_watch multiset" where
  "all_forgotten [] w = {#}"
| "all_forgotten (a # as) w = forgotten a w + all_forgotten as (wake a w)"

fun changes_watches :: "wake_action \<Rightarrow> bool" where
  "changes_watches (ArmBgTask _ _ _ _) = True"
| "changes_watches (DiscardBgTask _ _) = True"
| "changes_watches (DiscardRun _ _) = True"
| "changes_watches _ = False"

fun undisturbed :: "wake_action list \<Rightarrow> wake_world \<Rightarrow> bool" where
  "undisturbed [] w = True"
| "undisturbed (a # as) w =
     ((ww_scan w = None \<or> \<not> changes_watches a) \<and> undisturbed as (wake a w))"

lemma mset_filter_split: "mset (filter (\<lambda>x. \<not> P x) xs) + {#x \<in># mset xs. P x#} = mset xs"
  by (induction xs) auto

lemma collect_crons: "collect reported_watch (map cron_event cs) = {#}"
  by (induction cs) (simp_all add: cron_event_def)

lemma fold_send: "fold (send_event \<circ> cron_event) cs s = s\<lparr>sc_queue := sc_queue s @ map cron_event cs\<rparr>"
  by (induction cs arbitrary: s) (simp_all add: send_event_def)

lemma scan_cron_eq:
  "scan_cron now s = s\<lparr>sc_crons := filter (\<lambda>c. \<not> cr_fire_at_ms c \<le> now) (sc_crons s),
     sc_queue := sc_queue s @ map cron_event (filter (\<lambda>c. cr_fire_at_ms c \<le> now) (sc_crons s))\<rparr>"
  by (simp add: scan_cron_def fold_send [unfolded o_def] o_def)

lemmas table_defs = arm_cron_def arm_bg_task_def discard_cron_def discard_bg_task_def discard_run_def
  register_session_shells_def unregister_session_shells_def set_resume_handler_def set_idle_handler_def
  run_starts_def cancel_idle_def arm_idle_after_run_def arm_idle_def scan_cron_eq scan_idle_def
  scan_begin_def scan_end_def

lemma step_watches:
  assumes "ww_scan w = None \<or> \<not> changes_watches a"
  shows "watched (wake a w) + collect reported_watch (all_events (ww_sched (wake a w))) + forgotten a w =
    watched w + collect reported_watch (all_events (ww_sched w)) + collect armed_watch [a]"
proof (cases a)
  case (ScanCheck now)
  show ?thesis
  proof (cases "ww_scan w")
    case (Some sn)
    show ?thesis
    proof (cases "bs_todo sn")
      case Nil
      then show ?thesis by (simp add: ScanCheck Some scan_check_def silenced_def watched_def)
    next
      case (Cons x xs)
      have "reported_watch e = Some x" if "report_of regs shells n x = Some e" for regs shells n e
        using that by (auto simp: report_of_def finished_event_def split: prod.splits if_splits)
      moreover have "report_of regs shells n x = Some e \<Longrightarrow> is_done regs shells n x" for regs shells n e
        by (auto simp: report_of_def is_done_def split: prod.splits if_splits)
      ultimately show ?thesis
        by (auto simp: ScanCheck Some scan_check_Cons [OF Cons] silenced_def watched_def Cons all_events_def
            split: option.split)
    qed
  qed (simp add: ScanCheck watched_def)
next
  case (ScanIdle now)
  then show ?thesis by (simp add: watched_def all_events_def scan_idle_def Let_def split: option.split)
next
  case DispatchEvent
  then show ?thesis
    by (simp add: watched_def all_events_def dispatch_event_def split: list.split option.split)
next
  case (DiscardBgTask sid tid)
  with assms show ?thesis
    using mset_filter_split [of "\<lambda>x. bw_session_id x = sid \<and> bw_task_id x = tid" "sc_bg_watches (ww_sched w)"]
    by (simp add: watched_def all_events_def table_defs split: option.split)
next
  case (DiscardRun sid rid)
  with assms show ?thesis
    using mset_filter_split [of "\<lambda>x. bw_session_id x = sid \<and> bw_run_id x = rid" "sc_bg_watches (ww_sched w)"]
    by (simp add: watched_def all_events_def table_defs split: option.split)
next
  case (ScanCron now)
  then show ?thesis by (simp add: watched_def all_events_def scan_cron_eq collect_crons split: option.split)
next
  case ScanEnd
  then show ?thesis by (auto simp: watched_def all_events_def scan_end_def split: option.split)
qed (use assms in \<open>simp_all add: watched_def all_events_def table_defs Let_def split: option.split\<close>)

lemma steps_watches:
  "undisturbed as w \<Longrightarrow>
    watched (fold wake as w) + collect reported_watch (all_events (ww_sched (fold wake as w))) +
      all_forgotten as w =
    watched w + collect reported_watch (all_events (ww_sched w)) + collect armed_watch as"
proof (induction as arbitrary: w)
  case (Cons a as)
  have "watched (fold wake as (wake a w)) +
      collect reported_watch (all_events (ww_sched (fold wake as (wake a w)))) + all_forgotten as (wake a w) =
    watched (wake a w) + collect reported_watch (all_events (ww_sched (wake a w))) + collect armed_watch as"
    using Cons by simp
  with step_watches [of w a] Cons.prems show ?case by (simp add: ac_simps)
qed simp

text \<open>C14. Every watch is accounted for: as long as no watch is armed or discarded while a scan is under
  way, each armed watch is still waiting, was reported in exactly one event, or was discarded or
  silently dropped because its task had been killed.\<close>

theorem every_watch_is_accounted_for:
  assumes "undisturbed as at_rest"
  shows "watched (fold wake as at_rest) +
    collect reported_watch (all_events (ww_sched (fold wake as at_rest))) + all_forgotten as at_rest =
    collect armed_watch as"
  using steps_watches [OF assms]
  by (simp add: at_rest_def watched_def all_events_def new_scheduler_def)

section \<open>Watches that change during a scan\<close>

definition change_watches :: "(bg_watch list \<Rightarrow> bg_watch list) \<Rightarrow> wake_world \<Rightarrow> wake_world" where
  "change_watches f w = on_sched (\<lambda>s. s\<lparr>sc_bg_watches := f (sc_bg_watches s)\<rparr>) w"

fun new_watches :: "wake_action \<Rightarrow> bg_watch list \<Rightarrow> bg_watch list" where
  "new_watches (ArmBgTask sid rid tid call) ws =
     ws @ [\<lparr>bw_task_id = tid, bw_session_id = sid, bw_run_id = rid, bw_tool_use_id = call\<rparr>]"
| "new_watches (DiscardBgTask sid tid) ws =
     filter (\<lambda>x. \<not> (bw_session_id x = sid \<and> bw_task_id x = tid)) ws"
| "new_watches _ ws = ws"

fun only_watches :: "wake_action \<Rightarrow> bool" where
  "only_watches (ArmBgTask _ _ _ _) = True"
| "only_watches (DiscardBgTask _ _) = True"
| "only_watches _ = False"

lemma wake_only_watches: "only_watches a \<Longrightarrow> wake a w = change_watches (new_watches a) w"
  by (cases a) (simp_all add: change_watches_def table_defs)

lemma check_change_watches:
  "wake (ScanCheck now) (change_watches f w) = change_watches f (wake (ScanCheck now) w)"
proof (cases "ww_scan w")
  case (Some sn)
  show ?thesis
    by (cases "bs_todo sn")
      (simp_all add: change_watches_def Some scan_check_Cons, simp_all add: scan_check_def)
qed (simp add: change_watches_def)

lemma checks_change_watches:
  "fold wake (map ScanCheck ts) (change_watches f w) = change_watches f (fold wake (map ScanCheck ts) w)"
  by (induction ts arbitrary: w) (simp_all del: wake.simps add: check_change_watches)

definition scan_left :: "nat \<Rightarrow> wake_world \<Rightarrow> bool" where
  "scan_left n w \<longleftrightarrow> (\<exists>sn. ww_scan w = Some sn \<and> length (bs_todo sn) \<le> n)"

lemma checks_left:
  "scan_left n w \<Longrightarrow> scan_left (n - length ts) (fold wake (map ScanCheck ts) w)"
proof (induction ts arbitrary: n w)
  case (Cons t ts)
  then obtain sn where sn: "ww_scan w = Some sn" "length (bs_todo sn) \<le> n" by (auto simp: scan_left_def)
  have "scan_left (n - 1) (wake (ScanCheck t) w)"
    using sn by (cases "bs_todo sn") (auto simp: scan_left_def scan_check_Cons, auto simp: scan_check_def)
  from Cons.IH [OF this] show ?case by simp
qed simp

lemma end_forgets: "scan_left 0 w \<Longrightarrow> wake ScanEnd (change_watches f w) = wake ScanEnd w"
  by (auto simp: scan_left_def change_watches_def scan_end_def)

text \<open>C39. What happens to the table of watches while a scan is under way is lost: a task armed between
  the copy and the write-back is never reported, a watch discarded there is back afterwards. The
  whole scan, looking at as many watches as the table had, ends as if nothing had happened.\<close>

theorem changes_during_a_scan_vanish:
  assumes "only_watches a" and "ww_scan w = None"
    and "length (sc_bg_watches (ww_sched w)) \<le> length ts + length ts'"
  shows "fold wake (ScanBegin # map ScanCheck ts @ a # map ScanCheck ts' @ [ScanEnd]) w =
    fold wake (ScanBegin # map ScanCheck ts @ map ScanCheck ts' @ [ScanEnd]) w"
proof -
  let ?v = "wake ScanBegin w"
  have "scan_left (length ts + length ts') ?v" using assms(2,3) by (simp add: scan_left_def scan_begin_def)
  then have "scan_left (length ts') (fold wake (map ScanCheck ts) ?v)"
    using checks_left [of "length ts + length ts'" ?v ts] by simp
  then have "scan_left 0 (fold wake (map ScanCheck ts') (fold wake (map ScanCheck ts) ?v))"
    using checks_left [of "length ts'" _ ts'] by simp
  from end_forgets [OF this] show ?thesis
    by (simp add: wake_only_watches [OF assms(1)] checks_change_watches)
qed

section \<open>Timers\<close>

fun armed_cron :: "wake_action \<Rightarrow> cron option" where
  "armed_cron (ArmCron sid rid t reason) =
     Some \<lparr>cr_fire_at_ms = t, cr_session_id = sid, cr_run_id = rid, cr_reason = reason\<rparr>"
| "armed_cron _ = None"

fun fired_cron :: "wakeup_event \<Rightarrow> cron option" where
  "fired_cron (CronFired sid rid t reason) =
     Some \<lparr>cr_fire_at_ms = t, cr_session_id = sid, cr_run_id = rid, cr_reason = reason\<rparr>"
| "fired_cron (BgTaskFinished _ _ _ _ _ _) = None"

fun cancelled :: "wake_action \<Rightarrow> wake_world \<Rightarrow> cron multiset" where
  "cancelled (DiscardCron sid rid) w = {#c \<in># mset (sc_crons (ww_sched w)). of_run sid rid c#}"
| "cancelled (DiscardRun sid rid) w = {#c \<in># mset (sc_crons (ww_sched w)). of_run sid rid c#}"
| "cancelled _ w = {#}"

fun all_cancelled :: "wake_action list \<Rightarrow> wake_world \<Rightarrow> cron multiset" where
  "all_cancelled [] w = {#}"
| "all_cancelled (a # as) w = cancelled a w + all_cancelled as (wake a w)"

definition fired :: "wake_world \<Rightarrow> cron multiset" where
  "fired w = collect fired_cron (all_events (ww_sched w))"

lemma collect_fired: "collect fired_cron (map cron_event cs) = mset cs"
  by (induction cs) (simp_all add: cron_event_def)

lemma report_no_cron: "report_of regs shells now x = Some e \<Longrightarrow> fired_cron e = None"
  by (auto simp: report_of_def finished_event_def split: prod.splits if_splits)

lemma scan_check_crons:
  "sc_crons (snd (scan_check regs now sn s)) = sc_crons s \<and>
   collect fired_cron (all_events (snd (scan_check regs now sn s))) = collect fired_cron (all_events s)"
proof (cases "bs_todo sn")
  case (Cons x xs)
  show ?thesis by (simp add: scan_check_Cons [OF Cons] all_events_def report_no_cron split: option.split)
qed (simp add: scan_check_def)

lemma step_crons:
  "mset (sc_crons (ww_sched (wake a w))) + fired (wake a w) + cancelled a w =
    mset (sc_crons (ww_sched w)) + fired w + collect armed_cron [a]"
proof (cases a)
  case (ScanCheck now)
  then show ?thesis
    using scan_check_crons by (auto simp: fired_def split: option.split prod.split) (metis snd_conv)+
next
  case (ScanIdle now)
  then show ?thesis by (simp add: fired_def all_events_def scan_idle_def Let_def)
next
  case DispatchEvent
  then show ?thesis by (simp add: fired_def all_events_def dispatch_event_def split: list.split)
next
  case (DiscardCron sid rid)
  then show ?thesis
    using mset_filter_split [of "of_run sid rid" "sc_crons (ww_sched w)"]
    by (simp add: fired_def all_events_def table_defs)
next
  case (DiscardRun sid rid)
  then show ?thesis
    using mset_filter_split [of "of_run sid rid" "sc_crons (ww_sched w)"]
    by (simp add: fired_def all_events_def table_defs)
next
  case (ScanCron now)
  then show ?thesis
    using mset_filter_split [of "\<lambda>c. cr_fire_at_ms c \<le> now" "sc_crons (ww_sched w)"]
    by (simp add: fired_def all_events_def scan_cron_eq collect_fired)
qed (simp_all add: fired_def all_events_def table_defs Let_def split: option.split)

lemma steps_crons:
  "mset (sc_crons (ww_sched (fold wake as w))) + fired (fold wake as w) + all_cancelled as w =
    mset (sc_crons (ww_sched w)) + fired w + collect armed_cron as"
proof (induction as arbitrary: w)
  case (Cons a as)
  from Cons.IH [of "wake a w"] step_crons [of a w] show ?case by (simp add: ac_simps)
qed simp

definition due_at :: "wake_action list \<Rightarrow> cron set" where
  "due_at as = {c. \<exists>now. ScanCron now \<in> set as \<and> cr_fire_at_ms c \<le> now}"

lemma step_fired: "set_mset (fired (wake a w)) \<subseteq> set_mset (fired w) \<union> due_at [a]"
proof (cases a)
  case (ScanCheck now)
  have "fired (wake (ScanCheck now) w) = fired w"
    using scan_check_crons by (auto simp: fired_def split: option.split prod.split) (metis snd_conv)+
  then show ?thesis by (simp add: ScanCheck)
next
  case (ScanCron now)
  then show ?thesis by (auto simp: fired_def all_events_def scan_cron_eq collect_fired due_at_def)
next
  case (ScanIdle now)
  then show ?thesis by (auto simp: fired_def all_events_def scan_idle_def Let_def)
next
  case DispatchEvent
  then show ?thesis by (auto simp: fired_def all_events_def dispatch_event_def split: list.split)
qed (auto simp: fired_def all_events_def table_defs Let_def split: option.split)

lemma steps_fired: "set_mset (fired (fold wake as w)) \<subseteq> set_mset (fired w) \<union> due_at as"
proof (induction as arbitrary: w)
  case (Cons a as)
  have "due_at [a] \<union> due_at as \<subseteq> due_at (a # as)" by (auto simp: due_at_def)
  with Cons.IH [of "wake a w"] step_fired [of a w]
  have "set_mset (fired (fold wake as (wake a w))) \<subseteq> set_mset (fired w) \<union> due_at (a # as)" by blast
  then show ?case by simp
qed simp

text \<open>C15. In every interleaving each timer that was armed is waiting, has fired once or was discarded,
  and one that has fired was due at a scan.\<close>

theorem timers_fire_once_and_not_early:
  "mset (sc_crons (ww_sched (fold wake as at_rest))) + fired (fold wake as at_rest) +
      all_cancelled as at_rest = collect armed_cron as \<and>
    set_mset (fired (fold wake as at_rest)) \<subseteq> {c. \<exists>now. ScanCron now \<in> set as \<and> cr_fire_at_ms c \<le> now}"
  unfolding due_at_def [symmetric]
  using steps_crons [of as at_rest] steps_fired [of as at_rest]
  by (simp add: at_rest_def fired_def all_events_def new_scheduler_def)

section \<open>Sentinels\<close>

lemma distinct_filter_map: "distinct (map f xs) \<Longrightarrow> distinct (map f (filter P xs))"
  by (induction xs) auto

lemma scan_check_sentinels: "sc_idle_sentinels (snd (scan_check regs now sn s)) = sc_idle_sentinels s"
  by (cases "bs_todo sn") (simp_all add: scan_check_Cons, simp add: scan_check_def)

lemma step_sentinels:
  assumes "distinct (map is_session_id (sc_idle_sentinels (ww_sched w)))"
  shows "distinct (map is_session_id (sc_idle_sentinels (ww_sched (wake a w))))"
proof (cases a)
  case (ScanCheck now)
  then show ?thesis
    using assms scan_check_sentinels by (auto split: option.split prod.split) (metis snd_conv)
next
  case (ScanIdle now)
  then show ?thesis using assms by (simp add: scan_idle_def Let_def distinct_filter_map)
next
  case DispatchEvent
  then show ?thesis using assms by (simp add: dispatch_event_def split: list.split)
qed (use assms in \<open>auto simp: table_defs Let_def distinct_filter_map split: option.split\<close>)

text \<open>A session never has two sentinels, whatever is armed, cancelled and scanned in whatever
  order.\<close>

theorem one_sentinel_per_session:
  "distinct (map is_session_id (sc_idle_sentinels (ww_sched (fold wake as at_rest))))"
proof -
  have "distinct (map is_session_id (sc_idle_sentinels (ww_sched (fold wake as w))))"
    if "distinct (map is_session_id (sc_idle_sentinels (ww_sched w)))" for w
    using that by (induction as arbitrary: w) (simp_all del: wake.simps add: step_sentinels)
  then show ?thesis by (simp add: at_rest_def new_scheduler_def)
qed

text \<open>The sentinel of a finished run may fire while the session is at work: the next run cancels
  sentinels when it starts, but the extraction of memory that follows the former run arms one when it
  ends, and nothing cancels it during the new run.\<close>

theorem sentinel_fires_during_a_run:
  assumes "0 < t" and "now + int t * 60000 \<le> later"
  shows "\<exists>e. e \<in> set (sc_slept (ww_sched
      (fold wake [RunStarts sid, ArmIdleAfterRun True t now sid cur, ScanIdle later] w))) \<and>
    ie_session_id e = sid \<and> of_nat t \<le> ie_idle_minutes e"
proof -
  let ?x = "\<lparr>is_fire_at_ms = now + int t * 60000, is_armed_at_ms = now, is_session_id = sid,
    is_last_msg_id = cur\<rparr>"
  have "(of_int (int t * 60000) :: rat) \<le> of_int (max (later - now) 0)"
    unfolding of_int_le_iff using assms(2) by linarith
  then have "of_nat t \<le> ie_idle_minutes (idle_event later ?x)"
    by (simp add: idle_event_def pos_le_divide_eq)
  moreover have "idle_event later ?x \<in> set (sc_slept (ww_sched
      (fold wake [RunStarts sid, ArmIdleAfterRun True t now sid cur, ScanIdle later] w)))"
    using assms by (simp add: table_defs Let_def)
  ultimately show ?thesis by (intro exI [of _ "idle_event later ?x"]) (simp add: idle_event_def)
qed

section \<open>Suspending and recovering\<close>

text \<open>Taking over a suspended run gives back its checkpoint, removes the file and leaves the
  tables as if the run had not been suspended: its own timer is gone, and of a run that waits for a
  task only the watch on that task, while all other watches and timers stay.\<close>

theorem taking_over_undoes_suspending:
  "take_over (ck_session_id ck) (suspend_run ck (d, s)) =
    (Some ck, d(ck_session_id ck := None),
     case ck_phase ck of
       AwaitCron _ _ \<Rightarrow> discard_cron (ck_session_id ck) (ck_run_id ck) s
     | AwaitTask tid _ \<Rightarrow> discard_bg_task (ck_session_id ck) tid s)"
  by (simp add: take_over_def suspend_run_def load_checkpoint_def save_checkpoint_def delete_checkpoint_def
      arm_phase_def table_defs of_run_def Let_def split: stored_phase.split)

definition settled :: "int \<Rightarrow> checkpoint_dir \<Rightarrow> str \<Rightarrow> scheduler \<Rightarrow> bool" where
  "settled now d dir s \<longleftrightarrow> recover_one now d dir s = s"

lemma settled_iff:
  "settled now d dir s \<longleftrightarrow>
     (\<forall>ck due reason. load_checkpoint dir d = Inr (Some ck) \<longrightarrow> ck_phase ck = AwaitCron due reason \<longrightarrow>
        due \<le> now \<or> list_ex (of_run (ck_session_id ck) (ck_run_id ck)) (sc_crons s))"
proof -
  have "arm_cron sid rid t r s \<noteq> s" for sid rid t r
    by (auto simp: arm_cron_def dest: arg_cong [where f = sc_crons])
  then show ?thesis
    by (auto simp: settled_def recover_one_def split: sum.split option.split stored_phase.split)
qed

lemma recover_one_settles: "settled now d dir (recover_one now d dir s)"
  by (auto simp: settled_iff recover_one_def arm_cron_def of_run_def split: sum.splits option.splits)

lemma recover_one_keeps: "settled now d dir s \<Longrightarrow> settled now d dir (recover_one now' d dir' s)"
  unfolding settled_iff
  by (auto simp: recover_one_def arm_cron_def split: sum.split option.split stored_phase.split)

lemma recovered_settled:
  "settled now d dir s \<or> dir \<in> set dirs \<Longrightarrow> settled now d dir (recover_pending_crons now d dirs s)"
proof (induction dirs arbitrary: s)
  case (Cons x dirs)
  then have "settled now d dir (recover_one now d x s) \<or> dir \<in> set dirs"
    using recover_one_keeps recover_one_settles by auto
  with Cons.IH show ?case by (simp add: recover_pending_crons_def)
qed (simp add: recover_pending_crons_def)

lemma recover_settled:
  "(\<And>dir. dir \<in> set dirs \<Longrightarrow> settled now d dir s) \<Longrightarrow> recover_pending_crons now d dirs s = s"
  by (induction dirs) (auto simp: recover_pending_crons_def settled_def)

lemma settled_later: "settled now d dir s \<Longrightarrow> now \<le> now' \<Longrightarrow> settled now' d dir s"
  unfolding settled_iff by fastforce

text \<open>C33. Recovering timers twice, then or later and in whatever order the directories are listed, is
  recovering them once: no start of the program piles up timers.\<close>

theorem recovery_is_idempotent:
  assumes "now \<le> now'" and "set dirs' \<subseteq> set dirs"
  shows "recover_pending_crons now' d dirs' (recover_pending_crons now d dirs s) =
    recover_pending_crons now d dirs s"
  by (rule recover_settled, rule settled_later [OF recovered_settled assms(1)]) (use assms(2) in auto)

text \<open>A call of \<open>ScheduleWakeup\<close> that succeeds arms a timer that lies in the future and at most a
  week ahead, with a reason of 1 to 200 characters; one that fails leaves the phase alone.\<close>

theorem wakeup_is_within_a_week:
  "case schedule_wakeup when_of rfc now input phase of
     (Inl _, phase') \<Rightarrow> phase' = phase
   | (Inr _, phase') \<Rightarrow> (\<exists>due reason. phase' = Some (AwaitCron due reason) \<and>
       now < due \<and> due \<le> now + 604800000 \<and> 0 < length reason \<and> char_total reason \<le> 200)"
proof -
  have "Inr (due, src) = fire_time when_of now input \<Longrightarrow> now < due \<and> due \<le> now + 604800000" for due src
    by (auto simp: fire_time_def MAX_DELAY_SECS_def split: option.splits if_splits)
  then show ?thesis
    by (auto simp: schedule_wakeup_def Let_def split: option.split sum.split)
qed

section \<open>Tasks that left the list\<close>

text \<open>The silence about a killed task is lost with its entry: when the list is full and the killed
  task is the first that has ended, the next command takes its place, and the scan reports the
  killed task as finished, without an exit code.\<close>

theorem killed_task_is_reported_after_eviction:
  assumes "sc_session_shells s (bw_session_id x) = Some r" and "\<not> prefix ''subagent-'' (bw_task_id x)"
    and "get_shell (bw_task_id x) (regs r) = Some sh" and "sh_state sh = ShellKilled"
    and "registry_ok (regs r)" and "MAX_BACKGROUND_SHELLS \<le> length (bt_shells (regs r))"
    and "bt_shells (regs r) = bw_task_id x # rest" and "sc_bg_watches s = [x]"
    and "regs' = regs(r := snd (register_shell opens t command cwd bg ld (regs r)))"
  shows "sc_queue (scan_bg regs now s) = sc_queue s \<and>
    sc_queue (scan_bg regs' now s) = sc_queue s @ [finished_event x None 0]"
proof -
  have ended: "terminal_id (regs r) (bw_task_id x)"
    using assms(3,4) by (auto simp: get_shell_def terminal_id_def is_terminal_def split: if_splits)
  have "bw_task_id x \<notin> set rest" using assms(5,7) by (simp add: registry_ok_def)
  moreover have "bw_task_id x \<noteq> bash_id (bt_counter (regs r) + 1)"
    using fresh_id [OF assms(5)] assms(7) by auto
  ultimately have "get_shell (bw_task_id x) (regs' r) = None"
    using assms(6,7) ended by (simp add: assms(9) register_shell_eq get_shell_def make_room_def)
  then have "report_of regs' (sc_session_shells s) now x = Some (finished_event x None 0)"
    using assms(1,2) by (simp add: report_of_def watch_status_def)
  moreover have "report_of regs (sc_session_shells s) now x = None"
    using assms(1-4) by (simp add: report_of_def watch_status_def)
  ultimately show ?thesis
    by (simp add: scan_reports_each_finished_task_once assms(8) map_filter_simps)
qed

text \<open>An interactive command that ends at once is reported twice: its output and exit code are
  the result of the call, and the watch that was armed before, of a task that is no longer listed,
  makes the next scan report it again, without an exit code.\<close>

theorem early_exit_is_reported_again:
  assumes "json_get_str input ''command'' = Some command" and "trim command \<noteq> []"
    and "cx_session_id cx = Some sid" and "cx_run_id cx = Some rid"
    and "\<And>sh. is_terminal (sh_state (ta_before k sh))" and "\<And>sh. is_terminal (sh_state (ta_after k sh))"
    and "interactive_bash rx opens True now later ws ld cx input (k # ks) w = (r, w')"
    and "registry_ok (bw_tasks w)" and "tid = bash_id (bt_counter (bw_tasks w) + 1)"
    and "sc_session_shells (bw_sched w) sid = Some reg" and "regs reg = bw_tasks w'"
  shows "\<exists>call. finished_event \<lparr>bw_task_id = tid, bw_session_id = sid, bw_run_id = rid, bw_tool_use_id = call\<rparr>
      None 0 \<in> set (sc_queue (scan_bg regs t (bw_sched w')))"
proof -
  let ?cwd = "resolve_cwd ws (json_get_str input ''cwd'')"
  let ?new = "new_shell now tid command ?cwd True (log_file opens ld tid) True"
  define bt where "bt = snd (register_pty_background opens now command ?cwd ld True (bw_tasks w))"
  let ?xs = "make_room (bw_tasks w)"
  have reg: "register_pty_background opens now command ?cwd ld True (bw_tasks w) = (tid, bt)"
    by (simp add: bt_def register_pty_eq assms(9))
  have bt: "bt_objects bt tid = Some ?new" "bt_shells bt = ?xs @ [tid]"
    by (simp_all add: bt_def register_pty_eq assms(9))
  have fresh: "tid \<notin> set ?xs" using fresh_id [OF assms(8)] set_make_room by (auto simp: assms(9))
  obtain sh g where d: "drain_into USIZE_MAX (ta_after k (ta_before k ?new), nothing_gathered) = (sh, g)"
    by (metis prod.exhaust)
  have "sh_state sh = sh_state (ta_after k (ta_before k ?new))"
    using d by (auto simp: drain_into_def read_incremental_def split: if_splits prod.splits)
  then have ended: "is_terminal (sh_state sh)" using assms(6) by simp
  let ?w = "put_shell tid sh (arm_in cx tid (w\<lparr>bw_tasks := bt\<rparr>))"
  have wait: "talk_wait (k # ks) (?new, nothing_gathered) = (Some TalkEnded, sh, g)"
    using d assms(5) by (simp add: talk_turn_def)
  have w': "w' = unregister_in tid ?w"
    using assms(7) bt(1) wait
    by (simp add: interactive_bash_def assms(1,2) reg talk_result_def Let_def del: talk_wait.simps)
  have "bt_shells (bw_tasks w') = ?xs"
    using bt ended fresh
    by (simp add: w' unregister_in_def unregister_def put_shell_def arm_in_def update_shell_def terminal_id_def
        remove_first_last)
  then have gone: "get_shell tid (regs reg) = None" using fresh by (simp add: assms(11) get_shell_def)
  obtain call where sched: "bw_sched w' = arm_bg_task sid rid tid call (bw_sched w)"
    by (simp add: w' unregister_in_def put_shell_def arm_in_def arm_auto_notification_def assms(3,4))
  have "\<not> prefix ''subagent-'' tid" by (simp add: assms(9) bash_id_def)
  with gone have "report_of regs (sc_session_shells (bw_sched w)) t
      \<lparr>bw_task_id = tid, bw_session_id = sid, bw_run_id = rid, bw_tool_use_id = call\<rparr> =
    Some (finished_event \<lparr>bw_task_id = tid, bw_session_id = sid, bw_run_id = rid, bw_tool_use_id = call\<rparr> None 0)"
    by (simp add: report_of_def watch_status_def assms(10))
  then show ?thesis
    by (intro exI [of _ call])
      (simp add: scan_reports_each_finished_task_once sched arm_bg_task_def map_filter_def)
qed

section \<open>Concrete runs\<close>

definition ex_watch :: bg_watch where
  "ex_watch = \<lparr>bw_task_id = ''bash_001'', bw_session_id = ''s'', bw_run_id = ''r'', bw_tool_use_id = None\<rparr>"

lemma every_watch_is_accounted_for_witness:
  "watched (fold wake [ArmBgTask ''s'' ''r'' ''bash_001'' None, ScanBegin, ScanCheck 5] at_rest) +
   collect reported_watch (all_events (ww_sched
     (fold wake [ArmBgTask ''s'' ''r'' ''bash_001'' None, ScanBegin, ScanCheck 5] at_rest))) +
   all_forgotten [ArmBgTask ''s'' ''r'' ''bash_001'' None, ScanBegin, ScanCheck 5] at_rest = {#ex_watch#}"
  by (subst every_watch_is_accounted_for) (simp_all add: at_rest_def ex_watch_def)

lemma changes_during_a_scan_vanish_witness:
  "fold wake [ScanBegin, ArmBgTask ''s'' ''r'' ''bash_001'' None, ScanEnd] at_rest =
   fold wake [ScanBegin, ScanEnd] at_rest"
  using changes_during_a_scan_vanish [of "ArmBgTask ''s'' ''r'' ''bash_001'' None" at_rest "[]" "[]"]
  by (simp add: at_rest_def new_scheduler_def)

lemma sentinel_fires_during_a_run_witness:
  "\<exists>e. e \<in> set (sc_slept (ww_sched
      (fold wake [RunStarts ''s'', ArmIdleAfterRun True 10 0 ''s'' None, ScanIdle 600000] at_rest))) \<and>
    ie_session_id e = ''s'' \<and> 10 \<le> ie_idle_minutes e"
  using sentinel_fires_during_a_run [of 10 0 600000 "''s''" None at_rest] by simp

definition ex_checkpoint :: stored_checkpoint where
  "ex_checkpoint = \<lparr>ck_run_id = ''r'', ck_session_id = ''s'', ck_agent = ''main'', ck_run_mode = ''Default'',
     ck_model_id = None, ck_iteration = 1, ck_model_step_index = 1, ck_tool_step_index = 1,
     ck_tool_call_dispatch_offset = 0, ck_total_input_tokens = 0, ck_total_output_tokens = 0,
     ck_total_cache_read_tokens = 0, ck_total_cache_creation_tokens = 0,
     ck_phase = AwaitCron 900 ''look at the build'', ck_suspended_at_ms = 0\<rparr>"

lemma recovery_is_idempotent_witness:
  "recover_pending_crons 200 [''s'' \<mapsto> Inr ex_checkpoint] [''s'', ''s'']
     (recover_pending_crons 100 [''s'' \<mapsto> Inr ex_checkpoint] [''s''] new_scheduler) =
   recover_pending_crons 100 [''s'' \<mapsto> Inr ex_checkpoint] [''s''] new_scheduler"
  using recovery_is_idempotent [of 100 200 "[''s'', ''s'']" "[''s'']"] by simp

text \<open>A full list of which the first task was killed.\<close>

definition ex_killed :: bg_shell where
  "ex_killed = (new_shell 0 (bash_id 1) ''sleep 9'' ''/w'' True None False)\<lparr>sh_state := ShellKilled\<rparr>"

definition ex_full :: bg_tasks where
  "ex_full = new_registry\<lparr>bt_counter := 16, bt_shells := map bash_id [1..<17],
     bt_objects := (\<lambda>x. if x \<in> bash_id ` {1..16} then Some ex_killed else None)\<rparr>"

lemma ex_full_ok: "registry_ok ex_full"
proof -
  have "distinct (map bash_id [1..<17])" by (simp add: distinct_map inj_on_def)
  then show ?thesis
    by (auto simp: registry_ok_def ex_full_def new_registry_def dom_def)
qed

lemma killed_task_is_reported_after_eviction_witness:
  "sc_queue (scan_bg ((\<lambda>_. ex_full)(0 := snd (register_shell (\<lambda>_. True) 9 ''ls'' ''/w'' False None ex_full))) 9
     (new_scheduler\<lparr>sc_session_shells := [''s'' \<mapsto> 0],
        sc_bg_watches := [ex_watch\<lparr>bw_task_id := bash_id 1\<rparr>]\<rparr>)) =
   [finished_event (ex_watch\<lparr>bw_task_id := bash_id 1\<rparr>) None 0]"
proof -
  let ?x = "ex_watch\<lparr>bw_task_id := bash_id 1\<rparr>"
  let ?s = "new_scheduler\<lparr>sc_session_shells := [''s'' \<mapsto> 0], sc_bg_watches := [?x]\<rparr>"
  have l: "bt_shells ex_full = bash_id 1 # map bash_id [2..<17]"
    by (simp add: ex_full_def new_registry_def upt_rec)
  have "get_shell (bash_id 1) ex_full = Some ex_killed"
    by (simp add: get_shell_def l) (simp add: ex_full_def new_registry_def)
  moreover have "\<not> prefix ''subagent-'' (bash_id 1)" by (simp add: bash_id_def)
  moreover have "MAX_BACKGROUND_SHELLS \<le> length (bt_shells ex_full)"
    by (simp add: MAX_BACKGROUND_SHELLS_def ex_full_def new_registry_def)
  ultimately show ?thesis
    using killed_task_is_reported_after_eviction [of ?s ?x 0 "\<lambda>_. ex_full" ex_killed "map bash_id [2..<17]" _
        "\<lambda>_. True" 9 "''ls''" "''/w''" False None 9, OF _ _ _ _ _ _ _ _ refl] ex_full_ok l
    by (simp add: ex_watch_def ex_killed_def new_scheduler_def)
qed

abbreviation (input) "ex_ctx \<equiv> \<lparr>cx_session_id = Some ''s'', cx_run_id = Some ''r'', cx_call_id = []\<rparr>"

definition ex_exit :: talk_wake where
  "ex_exit = \<lparr>ta_before = (\<lambda>sh. sh\<lparr>sh_state := ShellExited (Some 0)\<rparr>),
     ta_after = (\<lambda>sh. sh\<lparr>sh_state := ShellExited (Some 0)\<rparr>), ta_deadline = False, ta_cancel = False\<rparr>"

definition ex_after_exit :: bash_world where
  "ex_after_exit = snd (interactive_bash (\<lambda>_ _. []) (\<lambda>_. True) True 0 id ex_workspace None ex_ctx
     (JObj [(''command'', JStr ''true'')]) [ex_exit]
     \<lparr>bw_tasks = new_registry, bw_sched = new_scheduler\<lparr>sc_session_shells := [''s'' \<mapsto> 0]\<rparr>\<rparr>)"

lemma early_exit_is_reported_again_witness:
  "\<exists>call. finished_event \<lparr>bw_task_id = bash_id 1, bw_session_id = ''s'', bw_run_id = ''r'', bw_tool_use_id = call\<rparr>
      None 0 \<in> set (sc_queue (scan_bg (\<lambda>_. bw_tasks ex_after_exit) 9 (bw_sched ex_after_exit)))"
proof -
  let ?w = "\<lparr>bw_tasks = new_registry, bw_sched = new_scheduler\<lparr>sc_session_shells := [''s'' \<mapsto> 0]\<rparr>\<rparr>"
  let ?input = "JObj [(''command'', JStr ''true'')]"
  obtain r where run: "interactive_bash (\<lambda>_ _. []) (\<lambda>_. True) True 0 id ex_workspace None ex_ctx ?input [ex_exit] ?w =
      (r, ex_after_exit)"
    unfolding ex_after_exit_def by (metis prod.collapse)
  have "trim ''true'' \<noteq> []" by code_simp
  with early_exit_is_reported_again [OF _ _ _ _ _ _ run, of "''true''" "''s''" "''r''" "bash_id 1" 0
      "\<lambda>_. bw_tasks ex_after_exit" 9]
  show ?thesis
    by (simp add: json_get_str_def ex_exit_def is_terminal_def registry_new) (simp add: new_registry_def)
qed

end
