(* ===== verification/Frame_Laws.thy ===== *)
theory Frame_Laws
  imports Openai_Stream Utf8_Facts
begin

text \<open>
  Sending and framing: how often a request is sent, and that it makes no difference to a client where
  the network cuts an answer, unless it cuts a character.
\<close>

section \<open>Retries\<close>

text \<open>A request is sent at most five times, whatever fails in whatever order, and five answers of the
  network are enough for the call to return; only a success, the flag or an error that is not
  transient ends it before.\<close>

lemma retry_request_count:
  "n \<le> 5 \<Longrightarrow> retry_request transient n ks = (r, m) \<Longrightarrow> n \<le> 4 \<or> ks = [] \<Longrightarrow> m \<le> 5"
proof (induction ks arbitrary: n)
  case (Cons k ks)
  then have n: "n \<le> 4" by simp
  have "m \<le> 5" if "retry_request transient (n + 1) ks = (r, m)" "n \<noteq> 4"
    using Cons.IH [OF _ that(1)] that(2) n by simp
  then show ?case
    using Cons.prems(2) n
    by (cases "n = 4") (auto simp: DEFAULT_MAX_RETRIES_def split: if_splits option.splits sum.splits)
qed simp

lemma retry_request_returns:
  "5 \<le> n + length ks \<Longrightarrow> n \<le> 4 \<Longrightarrow> fst (retry_request transient n ks) \<noteq> None"
proof (induction ks arbitrary: n)
  case (Cons k ks)
  have "fst (retry_request transient (n + 1) ks) \<noteq> None" if "n \<noteq> 4"
    using Cons that by simp
  then show ?case
    using Cons.prems by (cases "n = 4") (auto simp: DEFAULT_MAX_RETRIES_def split: option.splits sum.splits)
qed simp

lemma five_attempts_are_enough:
  assumes "5 \<le> length ks"
  shows "\<exists>r n. retry_request transient 0 ks = (Some r, n) \<and> n \<le> 5"
  using retry_request_count [of 0 transient ks] retry_request_returns [of 0 ks transient] assms
  by (cases "retry_request transient 0 ks") auto

text \<open>The pauses grow to eight seconds and a quarter of that.\<close>

lemma retry_pause_bounded:
  assumes "jitter \<le> max (retry_base_ms attempt div 4) 1"
  shows "500 \<le> retry_delay attempt jitter \<and> retry_delay attempt jitter \<le> 10000"
proof -
  have "500 \<le> retry_base_ms attempt" by (simp add: retry_base_ms_def)
  moreover have "retry_base_ms attempt \<le> 8000" by (simp add: retry_base_ms_def)
  ultimately show ?thesis using assms by (simp add: retry_delay_def)
qed

section \<open>Frames of a buffer that grows\<close>

lemma split_once_str_grows:
  "split_once_str p a = Some (x, y) \<Longrightarrow> split_once_str p (a @ b) = Some (x, y @ b)"
proof (induction a arbitrary: x)
  case (Cons c a)
  show ?case
  proof (cases "prefix p (c # a)")
    case True
    then have xy: "c # a = p @ y" "x = []" using Cons.prems by (auto simp: prefix_def)
    then have e: "c # a @ b = p @ y @ b" by (metis append_Cons append_assoc)
    then have "prefix p (c # a @ b)" by (rule prefixI)
    then have "split_once_str p (c # a @ b) = Some ([], drop (length p) (c # a @ b))" by simp
    then show ?thesis using e xy by (metis append_Cons append_eq_conv_conj)
  next
    case False
    then obtain x' where x': "split_once_str p a = Some (x', y)" "x = c # x'"
      using Cons.prems by auto
    then have "length p \<le> length a" using split_once_str_split by fastforce
    then have "\<not> prefix p (c # a @ b)"
      using False by (metis append_Cons le_SucI length_Cons prefix_length_prefix prefixI)
    then show ?thesis using Cons.IH [OF x'(1)] x'(2) by simp
  qed
qed simp

text \<open>A text without carriage returns has frames that end with two line feeds.\<close>

lemma no_crlf_frame: "cr \<notin> set s \<Longrightarrow> split_once_str [cr, nl, cr, nl] s = None"
  by (cases "split_once_str [cr, nl, cr, nl] s") (auto dest: split_once_str_split)

lemma take_sse_frame_lf: "cr \<notin> set s \<Longrightarrow> take_sse_frame s = split_once_str [nl, nl] s"
  by (simp add: take_sse_frame_def first_of_def no_crlf_frame split: option.split)

lemma take_sse_frame_grows:
  "cr \<notin> set (a @ b) \<Longrightarrow> take_sse_frame a = Some (x, y) \<Longrightarrow> take_sse_frame (a @ b) = Some (x, y @ b)"
  by (simp add: take_sse_frame_lf split_once_str_grows del: split_once_str.simps)

lemma take_sse_frame_clean:
  "take_sse_frame s = Some (x, y) \<Longrightarrow> set x \<subseteq> set s \<and> set y \<subseteq> set s"
  by (auto simp: take_sse_frame_def first_of_def dest!: split_once_str_split split: option.splits)

lemma sse_frames_None: "take_sse_frame s = None \<Longrightarrow> sse_frames s = ([], s)"
  by (simp add: sse_frames.simps [of s])

lemma sse_frames_Some:
  "take_sse_frame s = Some (f, rest) \<Longrightarrow> sse_frames s = (f # fst (sse_frames rest), snd (sse_frames rest))"
  by (simp add: sse_frames.simps [of s] split: prod.split)

lemma sse_frames_grow:
  "cr \<notin> set (a @ b) \<Longrightarrow>
    sse_frames (a @ b) = (fst (sse_frames a) @ fst (sse_frames (snd (sse_frames a) @ b)),
      snd (sse_frames (snd (sse_frames a) @ b)))"
proof (induction a rule: sse_frames.induct)
  case (1 a)
  show ?case
  proof (cases "take_sse_frame a")
    case None
    then show ?thesis by (simp add: sse_frames_None)
  next
    case (Some p)
    then obtain f rest where p: "take_sse_frame a = Some (f, rest)" by (cases p) auto
    have "cr \<notin> set (rest @ b)" using 1(2) take_sse_frame_clean [OF p] by auto
    then show ?thesis
      using 1(1) [OF p refl] sse_frames_Some [OF take_sse_frame_grows [OF 1(2) p]]
        sse_frames_Some [OF p]
      by (simp add: p)
  qed
qed

lemma sse_frames_rest: "take_sse_frame (snd (sse_frames s)) = None"
proof (induction s rule: sse_frames.induct)
  case (1 s)
  show ?case
  proof (cases "take_sse_frame s")
    case None
    then show ?thesis by (simp add: sse_frames_None)
  next
    case (Some p)
    then obtain f rest where q: "take_sse_frame s = Some (f, rest)" by (cases p) auto
    then show ?thesis using 1 [OF q refl] by (simp add: sse_frames_Some)
  qed
qed

lemma sse_frames_clean: "cr \<notin> set s \<Longrightarrow> cr \<notin> set (snd (sse_frames s))"
proof (induction s rule: sse_frames.induct)
  case (1 s)
  show ?case
  proof (cases "take_sse_frame s")
    case None
    then show ?thesis using 1(2) by (simp add: sse_frames_None)
  next
    case (Some p)
    then obtain f rest where p: "take_sse_frame s = Some (f, rest)" by (cases p) auto
    then show ?thesis
      using 1(1) [OF p refl] 1(2) take_sse_frame_clean [OF p] by (auto simp: sse_frames_Some)
  qed
qed

lemma run_steps_append:
  "run_steps f (xs @ ys) s =
     (case run_steps f xs s of (Some e, s) \<Rightarrow> (Some e, s) | (None, s) \<Rightarrow> run_steps f ys s)"
  by (induction xs arbitrary: s) (auto split: prod.split option.split)

text \<open>The client meets the frames of the whole text, each at the time of some piece.\<close>

lemma read_chunks_timed:
  assumes "take_sse_frame buf = None" and "cr \<notin> set (buf @ concat (map snd ps))"
    and "list_all valid_utf8 (map snd ps)"
  shows "\<exists>us. length us = length (fst (sse_frames (buf @ concat (map snd ps)))) \<and> set us \<subseteq> fst ` set ps \<and>
    read_chunks f (map (\<lambda>(t, p). Chunk t p) ps) buf s =
      run_steps (\<lambda>(t, frame). f t frame) (zip us (fst (sse_frames (buf @ concat (map snd ps))))) s"
  using assms
proof (induction ps arbitrary: buf s)
  case Nil
  then show ?case by (simp add: sse_frames_None)
next
  case (Cons tp ps)
  obtain t p where tp: "tp = (t, p)" by fastforce
  let ?fs = "fst (sse_frames (buf @ p))" let ?rest = "snd (sse_frames (buf @ p))"
  let ?g = "\<lambda>(t, frame). f t frame" let ?gs = "fst (sse_frames (?rest @ concat (map snd ps)))"
  have step: "run_steps ?g (zip (replicate (length fs) t) fs) s = run_steps (f t) fs s" for fs s
    by (induction fs arbitrary: s) (simp_all split: prod.split option.split)
  have "cr \<notin> set (?rest @ concat (map snd ps))"
    using Cons.prems(2) sse_frames_clean [of "buf @ p"] by (auto simp: tp)
  then obtain us where us: "length us = length ?gs" "set us \<subseteq> fst ` set ps"
      "read_chunks f (map (\<lambda>(t, p). Chunk t p) ps) ?rest (snd (run_steps (f t) ?fs s)) =
        run_steps ?g (zip us ?gs) (snd (run_steps (f t) ?fs s))"
    using Cons.IH [OF sse_frames_rest, of "buf @ p" "snd (run_steps (f t) ?fs s)"] Cons.prems(3)
    by (auto simp: tp)
  have all: "fst (sse_frames (buf @ concat (map snd (tp # ps)))) = ?fs @ ?gs"
    using sse_frames_grow [of "buf @ p" "concat (map snd ps)"] Cons.prems(2) by (simp add: tp)
  have "utf8_lossy p = p" using Cons.prems(3) by (simp add: utf8_lossy_valid tp)
  then have "read_chunks f (map (\<lambda>(t, p). Chunk t p) (tp # ps)) buf s =
      run_steps ?g (zip (replicate (length ?fs) t @ us) (?fs @ ?gs)) s"
    using us(3) step [of ?fs s]
    by (cases "sse_frames (buf @ p)") (auto simp: tp run_steps_append split: prod.split option.split)
  then show ?case
    using us(1,2) unfolding all
    by (intro exI [of _ "replicate (length ?fs) t @ us"]) (auto simp: tp)
qed

lemma run_steps_same_time:
  assumes "set us \<subseteq> {t}" and "length us = length fs"
  shows "run_steps (\<lambda>(t, frame). f t frame) (zip us fs) s = run_steps (f t) fs s"
  using assms(2,1)
proof (induction us fs arbitrary: s rule: list_induct2)
  case (Cons u us x fs)
  then show ?case by (auto split: prod.split option.split)
qed simp

lemma read_chunks_frames:
  assumes "cr \<notin> set (concat ps)" and "list_all valid_utf8 ps"
  shows "read_chunks f (map (Chunk now) ps) [] s = run_steps (f now) (fst (sse_frames (concat ps))) s"
proof -
  have ps: "map snd (map (Pair now) ps) = ps" "map (\<lambda>(t, p). Chunk t p) (map (Pair now) ps) = map (Chunk now) ps"
    by (simp_all add: comp_def)
  have none: "take_sse_frame [] = None" by (simp add: take_sse_frame_def)
  obtain us where us: "length us = length (fst (sse_frames (concat ps)))"
      "set us \<subseteq> fst ` set (map (Pair now) ps)"
      "read_chunks f (map (Chunk now) ps) [] s =
        run_steps (\<lambda>(t, frame). f t frame) (zip us (fst (sse_frames (concat ps)))) s"
    using read_chunks_timed [OF none, of "map (Pair now) ps" f s] assms unfolding ps by auto
  then have "set us \<subseteq> {now}" by auto
  then show ?thesis using run_steps_same_time [OF _ us(1)] us(3) by simp
qed

text \<open>Where the network cuts an answer makes no difference: a client of an answer with line feeds, cut
  into any pieces that are well-formed text, does what it does with the answer in one piece.\<close>

theorem chunks_make_no_difference:
  assumes "list_all valid_utf8 ps" and "cr \<notin> set (concat ps)" and "valid_utf8 (concat ps)"
  shows "read_chunks f (map (Chunk now) ps) [] s = read_chunks f [Chunk now (concat ps)] [] s"
  using read_chunks_frames [of ps f now s] read_chunks_frames [of "[concat ps]" f now s] assms by simp

text \<open>C38. A character that is cut is lost: when a piece ends with the first byte of a character of two bytes,
  every client sees an answer with two replacement characters in its place, although the answer is
  well-formed text.\<close>

theorem cut_character_is_garbled:
  assumes "valid_utf8 a" and "byte_in 194 223 c" and "byte_in 128 191 d"
  shows "read_chunks f (Chunk t (a @ [c]) # Chunk u (d # b) # ns) buf s =
    read_chunks f (Chunk t (a @ replacement) # Chunk u (replacement @ b) # ns) buf s"
proof -
  have r: "valid_utf8 replacement" by code_simp
  have "utf8_lossy (a @ [c]) = a @ replacement" "utf8_lossy (d # b) = replacement @ utf8_lossy b"
    using utf8_lossy_append [OF assms(1)] lossy_lead [OF assms(2)] lossy_continuation [OF assms(3)] by simp_all
  moreover have "utf8_lossy (a @ replacement) = a @ replacement" "utf8_lossy (replacement @ b) = replacement @ utf8_lossy b"
    using utf8_lossy_append [OF assms(1)] utf8_lossy_valid [OF r] utf8_lossy_append [OF r] by simp_all
  ultimately show ?thesis by (simp only: read_chunks.simps)
qed

lemma cut_character_is_garbled_witness:
  "read_chunks (\<lambda>t frame s. (None :: stream_stop option, s @ [frame]))
      [Chunk 0 (''H'' @ [CHR 0xC3]), Chunk 1 (CHR 0xA9 # [nl, nl])] [] ([] :: str list) =
    read_chunks (\<lambda>t frame s. (None :: stream_stop option, s @ [frame]))
      [Chunk 0 (''H'' @ replacement), Chunk 1 (replacement @ [nl, nl])] [] ([] :: str list)"
proof (rule cut_character_is_garbled)
  show "valid_utf8 ''H''" by code_simp
  show "byte_in 194 223 CHR 0xC3" by code_simp
  show "byte_in 128 191 CHR 0xA9" by code_simp
qed

lemma chunks_make_no_difference_witness:
  "read_chunks (\<lambda>t frame s. (None :: stream_stop option, s @ [frame]))
      (map (Chunk 0) [''a'', [nl, nl]]) [] ([] :: str list) =
    read_chunks (\<lambda>t frame s. (None :: stream_stop option, s @ [frame]))
      [Chunk 0 (concat [''a'', [nl, nl]])] [] ([] :: str list)"
proof (rule chunks_make_no_difference)
  show "list_all valid_utf8 [''a'', [nl, nl]]" by code_simp
  show "cr \<notin> set (concat [''a'', [nl, nl]])" by simp
  show "valid_utf8 (concat [''a'', [nl, nl]])" by code_simp
qed

end
