(* ===== verification/Wire_Laws.thy ===== *)
theory Wire_Laws
  imports Frame_Laws Transcript_Laws
begin

text \<open>
  What a provider gets: the calls and results of a well-formed transcript stay together in the bodies
  that are sent, the last message is a user's, and thinking leaves room for the answer. And where a
  provider will refuse: images between the results of a chat.
\<close>

section \<open>Calls and results in Messages\<close>

definition content_blocks :: "json \<Rightarrow> json list" where
  "content_blocks m = (case as_array (json_at m ''content'') of Some blocks \<Rightarrow> blocks | None \<Rightarrow> [])"

definition block_ids :: "str \<Rightarrow> str \<Rightarrow> json \<Rightarrow> str list" where
  "block_ids ty k b = (if is_type ty b then [str_or_empty (json_at b k)] else [])"

definition ids_used :: "json \<Rightarrow> str list" where
  "ids_used m = concat (map (block_ids ''tool_use'' ''id'') (content_blocks m))"

definition ids_answered :: "json \<Rightarrow> str list" where
  "ids_answered m = concat (map (block_ids ''tool_result'' ''tool_use_id'') (content_blocks m))"

text \<open>Each message with calls is followed by one with the results of exactly these calls, and there are
  no other results.\<close>

fun wire_paired :: "json list \<Rightarrow> bool" where
  "wire_paired [] \<longleftrightarrow> True"
| "wire_paired [m] \<longleftrightarrow> ids_used m = [] \<and> ids_answered m = []"
| "wire_paired (m # r # ms) \<longleftrightarrow>
     ids_answered m = [] \<and>
     (if ids_used m = [] then wire_paired (r # ms)
      else ids_used r = [] \<and> ids_answered r = ids_used m \<and> wire_paired ms)"

definition object_input :: "json \<Rightarrow> bool" where
  "object_input b \<longleftrightarrow> (is_type ''tool_use'' b \<longrightarrow> is_object (json_at b ''input''))"

definition object_inputs :: "json \<Rightarrow> bool" where
  "object_inputs m \<longleftrightarrow> list_all object_input (content_blocks m)"

text \<open>Blocks that are neither a call nor a result.\<close>

definition other_block :: "json \<Rightarrow> bool" where
  "other_block b \<longleftrightarrow> \<not> is_type ''tool_use'' b \<and> \<not> is_type ''tool_result'' b"

lemma no_ids: "\<not> is_type ty b \<Longrightarrow> block_ids ty k b = []"
  by (simp add: block_ids_def)

lemma other_ids:
  assumes "list_all other_block blocks"
  shows "concat (map (block_ids ''tool_use'' k) blocks) = [] \<and> concat (map (block_ids ''tool_result'' k') blocks) = []"
proof -
  have "\<forall>b\<in>set blocks. \<not> is_type ''tool_use'' b \<and> \<not> is_type ''tool_result'' b"
    using assms unfolding list_all_iff other_block_def .
  then show ?thesis unfolding concat_eq_Nil_conv by (simp add: no_ids)
qed

lemma other_text [simp]: "other_block (text_block t)"
  by (simp add: other_block_def is_type_def text_block_def)

lemma other_attachment: "attachment_block a = Some b \<Longrightarrow> other_block b"
  by (cases a) (simp_all del: as_text_block.simps, auto simp: other_block_def is_type_def text_block_def)

lemma other_thinking: "list_all other_block (thinking_blocks d e)"
  by (simp add: thinking_blocks_def other_block_def is_type_def)

lemma object_other: "other_block b \<Longrightarrow> object_input b"
  by (simp add: other_block_def object_input_def)

lemma content_of [simp]: "content_blocks (role_message r v) = (case as_array v of Some blocks \<Rightarrow> blocks | None \<Rightarrow> [])"
  by (simp add: content_blocks_def role_message_def json_at_obj)

lemma user_blocks: "list_all other_block (content_blocks (role_message r (anthropic_user_content u)))"
  using other_attachment by (auto simp: anthropic_user_content_def list_all_iff map_filter_def)

lemma call_ids:
  "block_ids ''tool_use'' ''id'' (tool_use_block pj c) = [ce_id c]"
  "block_ids ''tool_result'' k (tool_use_block pj c) = []"
  by (simp_all add: block_ids_def is_type_def tool_use_block_def json_at_obj)

lemma result_ids:
  "block_ids ''tool_result'' ''tool_use_id'' (tool_result_block r) = [tr_call_id r]"
  "block_ids ''tool_use'' k (tool_result_block r) = []"
  by (simp_all add: block_ids_def is_type_def tool_result_block_def json_at_obj)

lemma call_input: "object_input (tool_use_block pj c)"
  by (simp add: object_input_def tool_use_block_def json_at_obj tool_input_def split: json.split option.split)

lemma result_input: "object_input (tool_result_block r)"
  by (simp add: object_input_def tool_result_block_def is_type_def)

lemma concat_single: "concat (map (\<lambda>x. [f x]) xs) = map f xs"
  by (induction xs) simp_all

lemma user_entry_ids:
  "entry_to_message pj d (UserEntry u) = Some m \<Longrightarrow> ids_used m = [] \<and> ids_answered m = [] \<and> object_inputs m"
proof -
  assume "entry_to_message pj d (UserEntry u) = Some m"
  then have m: "list_all other_block (content_blocks m)" using user_blocks [of "''user''" u] by auto
  then have "list_all object_input (content_blocks m)" using object_other by (auto simp: list_all_iff)
  then show ?thesis using other_ids [OF m] by (simp add: ids_used_def ids_answered_def object_inputs_def)
qed

lemma assistant_entry_ids:
  assumes "entry_to_message pj d (AssistantEntry e) = Some m"
  shows "ids_used m = map ce_id (ae_tool_calls e) \<and> ids_answered m = [] \<and> object_inputs m"
proof (cases "ae_tool_calls e = []")
  case True
  then show ?thesis using assms by (auto simp: ids_used_def ids_answered_def object_inputs_def)
next
  case False
  let ?front = "thinking_blocks d e @ (if ae_text e = [] then [] else [text_block (ae_text e)])"
  have front: "list_all other_block ?front" using other_thinking by simp
  have "content_blocks m = ?front @ map (tool_use_block pj) (ae_tool_calls e)" using assms False by auto
  then show ?thesis
    using other_ids [OF front] front object_other call_input
    by (auto simp: ids_used_def ids_answered_def object_inputs_def comp_def call_ids concat_single list_all_iff)
qed

lemma results_ids:
  "entry_to_message pj d (ToolResults rs) = Some m \<Longrightarrow>
    ids_used m = [] \<and> ids_answered m = map tr_call_id rs \<and> object_inputs m"
  by (auto simp: ids_used_def ids_answered_def object_inputs_def comp_def result_ids concat_single list_all_iff
      result_input split: if_splits)

lemma wire_paired_append: "wire_paired xs \<Longrightarrow> wire_paired ys \<Longrightarrow> wire_paired (xs @ ys)"
proof (induction xs rule: wire_paired.induct)
  case (2 m)
  then show ?case by (cases ys) simp_all
next
  case (3 m r ms)
  then show ?case by (simp split: if_splits)
qed simp

lemma answers_ids: "answers calls rs \<Longrightarrow> map ce_id calls = map tr_call_id rs"
proof -
  assume "answers calls rs"
  then have "map fst (map (\<lambda>c. (ce_id c, ce_name c)) calls) = map fst (map (\<lambda>r. (tr_call_id r, tr_name r)) rs)"
    by (simp only: answers_def)
  then show ?thesis by (simp add: comp_def)
qed

lemma entries_paired:
  "paired es \<Longrightarrow> wire_paired (List.map_filter (entry_to_message pj d) es)"
proof (induction es rule: paired.induct)
  case (2 u es)
  obtain m where m: "entry_to_message pj d (UserEntry u) = Some m" by simp
  have "wire_paired ([m] @ List.map_filter (entry_to_message pj d) es)"
    using user_entry_ids [OF m] 2 by (intro wire_paired_append) simp_all
  then show ?case by (simp add: map_filter_def m del: entry_to_message.simps)
next
  case (4 a es)
  obtain m where m: "entry_to_message pj d (AssistantEntry a) = Some m" by simp
  show ?case
  proof (cases "ae_tool_calls a = []")
    case True
    have "wire_paired ([m] @ List.map_filter (entry_to_message pj d) es)"
      using assistant_entry_ids [OF m] 4 True by (intro wire_paired_append) simp_all
    then show ?thesis by (simp add: map_filter_def m del: entry_to_message.simps)
  next
    case False
    then obtain rs fs where es: "es = ToolResults rs # fs" "answers (ae_tool_calls a) rs" "paired fs"
      using 4(3) by (auto split: list.splits transcript_entry.splits)
    then have "rs \<noteq> []" using False answers_ids by fastforce
    then obtain r where r: "entry_to_message pj d (ToolResults rs) = Some r" by simp
    have "wire_paired ([m, r] @ List.map_filter (entry_to_message pj d) fs)"
      using assistant_entry_ids [OF m] results_ids [OF r] answers_ids [OF es(2)] 4(2) False es
      by (intro wire_paired_append) simp_all
    then show ?thesis by (simp add: map_filter_def m r es(1) del: entry_to_message.simps)
  qed
qed (simp_all add: map_filter_def)

lemma entries_objects:
  "m \<in> set (List.map_filter (entry_to_message pj d) es) \<Longrightarrow> object_inputs m"
proof -
  assume "m \<in> set (List.map_filter (entry_to_message pj d) es)"
  then obtain e where "entry_to_message pj d e = Some m" by (auto simp: map_filter_def)
  then show ?thesis
    using user_entry_ids assistant_entry_ids results_ids by (cases e) blast+
qed

section \<open>The marks of the cache\<close>

lemma put_at: "is_object v \<Longrightarrow> json_at (json_put k x v) k' = (if k = k' then x else json_at v k')"
  by (simp add: json_at_def)

lemma put_other: "\<not> is_object v \<Longrightarrow> json_put k x v = v"
  by (simp add: json_put_def is_object_def split: json.splits)

lemma is_type_put: "k \<noteq> ''type'' \<Longrightarrow> is_type ty (json_put k x b) = is_type ty b"
  by (cases "is_object b") (simp_all add: is_type_def put_other)

lemma marked_ids_of: "k \<noteq> ''cache_control'' \<Longrightarrow> block_ids ty k (json_put ''cache_control'' x b) = block_ids ty k b"
  by (cases "is_object b") (simp_all add: block_ids_def is_type_put put_at put_other)

lemma marked_input: "object_input (json_put ''cache_control'' x b) = object_input b"
  by (cases "is_object b") (simp_all add: object_input_def is_type_put put_at put_other)

lemma map_last_map: "(\<And>x. g (f x) = g x) \<Longrightarrow> map g (map_last f xs) = map g xs"
  by (cases xs rule: rev_cases) (simp_all add: map_last_def)

lemma list_all_map_last: "(\<And>x. P (f x) = P x) \<Longrightarrow> list_all P (map_last f xs) = list_all P xs"
  by (cases xs rule: rev_cases) (simp_all add: map_last_def)

lemma marked_content:
  "content_blocks (mark_message m) =
     (if is_object m
      then (case json_at m ''content'' of
              JStr s \<Rightarrow> [JObj [(''type'', JStr ''text''), (''text'', JStr s), (''cache_control'', cache_mark False)]]
            | _ \<Rightarrow> map_last (json_put ''cache_control'' (cache_mark False)) (content_blocks m))
      else content_blocks m)"
  by (auto simp: mark_message_def content_blocks_def put_at mark_content_def map_last_def as_array_def
      split: json.split)

lemma marked_ids:
  "ids_used (mark_message m) = ids_used m" "ids_answered (mark_message m) = ids_answered m"
  "object_inputs (mark_message m) = object_inputs m"
proof -
  let ?cc = "json_put ''cache_control'' (cache_mark False)"
  have b: "map (block_ids ''tool_use'' ''id'') (map_last ?cc bl) = map (block_ids ''tool_use'' ''id'') bl"
    "map (block_ids ''tool_result'' ''tool_use_id'') (map_last ?cc bl) = map (block_ids ''tool_result'' ''tool_use_id'') bl"
    "list_all object_input (map_last ?cc bl) = list_all object_input bl" for bl
    by (rule map_last_map list_all_map_last, simp add: marked_ids_of marked_input)+
  have s: "content_blocks m = []" if "json_at m ''content'' = JStr s" for s
    using that by (simp add: content_blocks_def)
  show "ids_used (mark_message m) = ids_used m" "ids_answered (mark_message m) = ids_answered m"
    "object_inputs (mark_message m) = object_inputs m"
    using s
    by (auto simp: ids_used_def ids_answered_def object_inputs_def marked_content b block_ids_def is_type_def
        object_input_def split: json.splits)
qed

lemma wire_paired_map_last:
  assumes "\<And>m. ids_used (f m) = ids_used m" and "\<And>m. ids_answered (f m) = ids_answered m"
  shows "wire_paired (map_last f ms) = wire_paired ms"
proof -
  have same: "map ids_used xs = map ids_used ys \<Longrightarrow> map ids_answered xs = map ids_answered ys \<Longrightarrow>
      wire_paired xs = wire_paired ys" for xs ys
  proof (induction xs arbitrary: ys rule: wire_paired.induct)
    case (2 m)
    then show ?case by (cases ys) auto
  next
    case (3 m r ms)
    then obtain m' r' ms' where "ys = m' # r' # ms'" by (metis map_eq_Cons_conv)
    then show ?case using 3(1) [of "r' # ms'"] 3(2) [of ms'] 3(3, 4) by simp
  qed simp
  show ?thesis by (rule same) (simp_all add: map_last_map assms)
qed

section \<open>The body that is sent\<close>

lemma put_opt_get:
  "is_object v \<Longrightarrow> json_get (put_opt k x v) k' = (if k = k' then first_of x (json_get v k') else json_get v k')"
  by (auto simp: put_opt_def split: option.split)

lemma put_opt_object [simp]: "is_object (put_opt k x v) = is_object v"
  by (simp add: put_opt_def split: option.split)

lemma cc_fields_object [simp]: "is_object (cc_fields model u v) = is_object v"
  by (simp add: cc_fields_def Let_def)

lemma cc_fields_get:
  "is_object v \<Longrightarrow> ''metadata'' \<noteq> k \<Longrightarrow> ''context_management'' \<noteq> k \<Longrightarrow> ''diagnostics'' \<noteq> k \<Longrightarrow>
    ''fallbacks'' \<noteq> k \<Longrightarrow> json_get (cc_fields model u v) k = json_get v k"
  by (simp add: cc_fields_def Let_def)

lemma cache_control_get:
  assumes "is_object v" and "json_get v ''messages'' = Some (JArr ms)"
  shows "json_get (apply_cache_control v) ''messages'' = Some (JArr (map_last mark_message ms))"
    and "''system'' \<noteq> k \<Longrightarrow> ''messages'' \<noteq> k \<Longrightarrow> json_get (apply_cache_control v) k = json_get v k"
  using assms by (auto simp: apply_cache_control_def Let_def split: option.split)

text \<open>The fields that matter: the messages, the bound on the tokens, and the thinking.\<close>

lemma anthropic_body_fields:
  assumes "anthropic_body pj date uid req stream oauth direct = Inr body"
  obtains m th cfg where
    "anthropic_thinking req
      (anthropic_messages pj (is_deepseek_v4_anthropic_dialect (cq_model req)) (cq_entries req)) = Inr (m, th, cfg)"
    and "json_get body ''messages'' = Some (JArr (map_last mark_message
      (anthropic_messages pj (is_deepseek_v4_anthropic_dialect (cq_model req)) (cq_entries req))))"
    and "json_get body ''max_tokens'' = Some (JNum (int (if oauth then max m CC_MAX_TOKENS else m)))"
    and "json_get body ''thinking'' = (if oauth then Some (adaptive_thinking req direct) else th)"
proof -
  let ?ms = "anthropic_messages pj (is_deepseek_v4_anthropic_dialect (cq_model req)) (cq_entries req)"
  obtain m th cfg where t: "anthropic_thinking req ?ms = Inr (m, th, cfg)"
    using assms by (cases "anthropic_thinking req ?ms") (auto simp: anthropic_body_def Let_def)
  show ?thesis
  proof (rule that [OF t])
    show "json_get body ''messages'' = Some (JArr (map_last mark_message ?ms))"
      using assms t
      by (auto simp: anthropic_body_def Let_def cache_control_get(1) put_opt_get cc_fields_get)
    show "json_get body ''max_tokens'' = Some (JNum (int (if oauth then max m CC_MAX_TOKENS else m)))"
      using assms t
      by (auto simp: anthropic_body_def Let_def cache_control_get(2) put_opt_get cc_fields_get)
    show "json_get body ''thinking'' = (if oauth then Some (adaptive_thinking req direct) else th)"
      using assms t
      by (auto simp: anthropic_body_def Let_def cache_control_get(2) put_opt_get cc_fields_get first_of_def
          split: option.split)
  qed
qed

lemma anthropic_messages_paired:
  assumes "paired es"
  shows "wire_paired (anthropic_messages pj d es) \<and> list_all object_inputs (anthropic_messages pj d es) \<and>
    ends_with_user_message (anthropic_messages pj d es)"
proof -
  let ?go = "role_message ''user'' (JStr go_on_text)"
  have go: "ids_used ?go = []" "ids_answered ?go = []" "object_inputs ?go"
    by (simp_all add: ids_used_def ids_answered_def object_inputs_def)
  have "wire_paired (List.map_filter (entry_to_message pj d) es @ [?go])"
    using wire_paired_append [OF entries_paired [OF assms]] go by simp
  then show ?thesis
    using entries_paired [OF assms] entries_objects go(3)
    by (auto simp: anthropic_messages_def Let_def list_all_iff ends_with_user_message_def role_message_def)
qed

lemma last_map_last [simp]: "xs \<noteq> [] \<Longrightarrow> last (map_last f xs) = f (last xs)" "map_last f xs = [] \<longleftrightarrow> xs = []"
  by (simp_all add: map_last_def)

lemma mark_message_role [simp]: "json_get (mark_message m) ''role'' = json_get m ''role''"
  by (simp add: mark_message_def)

text \<open>C11. What goes to Anthropic is well formed when the transcript is: each message with calls is followed
  by one with the results of exactly these calls, in their order, there is no other result, the input
  of each call is an object, and a user speaks last.\<close>

theorem wire_calls_are_answered:
  assumes "paired (cq_entries req)"
    and "anthropic_body pj date uid req stream oauth direct = Inr body"
  shows "\<exists>ms. json_get body ''messages'' = Some (JArr ms) \<and> wire_paired ms \<and> list_all object_inputs ms \<and>
    ends_with_user_message ms"
proof -
  let ?ms = "anthropic_messages pj (is_deepseek_v4_anthropic_dialect (cq_model req)) (cq_entries req)"
  obtain m th cfg where "json_get body ''messages'' = Some (JArr (map_last mark_message ?ms))"
    using anthropic_body_fields [OF assms(2)] .
  then show ?thesis
    using anthropic_messages_paired [OF assms(1)]
    by (intro exI conjI) (auto simp: wire_paired_map_last marked_ids list_all_map_last ends_with_user_message_def)
qed

text \<open>C26. Thinking leaves room for the answer: the budget of the thinking is below the bound on all tokens,
  and the bound is a number of 32 bits when the caller's is.\<close>

theorem thinking_leaves_room:
  assumes "anthropic_body pj date uid req stream oauth direct = Inr body"
    and "cq_max_tokens req < 2 ^ 32"
  shows "\<exists>m. json_at body ''max_tokens'' = JNum (int m) \<and> m < 2 ^ 32 \<and>
    (\<forall>n. json_at (json_at body ''thinking'') ''budget_tokens'' = JNum n \<longrightarrow> n < int m \<and> 1024 \<le> n)"
proof -
  let ?ms = "anthropic_messages pj (is_deepseek_v4_anthropic_dialect (cq_model req)) (cq_entries req)"
  obtain m th cfg where t: "anthropic_thinking req ?ms = Inr (m, th, cfg)"
    and f: "json_get body ''max_tokens'' = Some (JNum (int (if oauth then max m CC_MAX_TOKENS else m)))"
      "json_get body ''thinking'' = (if oauth then Some (adaptive_thinking req direct) else th)"
    using anthropic_body_fields [OF assms(1)] .
  have budget: "1024 \<le> anthropic_legacy_budget_tokens e" "anthropic_legacy_budget_tokens e < 2 ^ 20" for e
    by (cases e, simp_all)+
  have m: "m < 2 ^ 32"
    using t assms(2) budget(2) [of "effective_effort (the (cq_reasoning req))"]
    by (auto simp: anthropic_thinking_def deepseek_max_tokens_def Let_def DEEPSEEK_HIGH_SAFE_MAX_TOKENS_def
        DEEPSEEK_MAX_SAFE_MAX_TOKENS_def split: if_splits option.splits)
  have th: "json_at v ''budget_tokens'' = JNum n \<Longrightarrow> n < int m \<and> 1024 \<le> n" if "th = Some v" for v n
    using t that budget(1)
    by (auto simp: anthropic_thinking_def Let_def budget_block_def json_at_obj split: if_splits option.splits)
  have ad: "json_at (adaptive_thinking req direct) ''budget_tokens'' = JNull"
    by (simp add: adaptive_thinking_def json_at_obj)
  show ?thesis
  proof (intro exI [of _ "if oauth then max m CC_MAX_TOKENS else m"] conjI allI impI)
    show "(if oauth then max m CC_MAX_TOKENS else m) < 2 ^ 32" using m by (simp add: CC_MAX_TOKENS_def)
    show "json_at body ''max_tokens'' = JNum (int (if oauth then max m CC_MAX_TOKENS else m))"
      using f(1) by (simp add: json_at_def)
    fix n assume n: "json_at (json_at body ''thinking'') ''budget_tokens'' = JNum n"
    have "\<not> oauth" using n f(2) ad by (auto simp: json_at_def)
    moreover have "th \<noteq> None"
    proof
      assume "th = None"
      then have "json_at body ''thinking'' = JNull" using f(2) \<open>\<not> oauth\<close> by (simp add: json_at_def)
      then show False using n by (simp add: json_at_def json_get_def)
    qed
    ultimately show "n < int (if oauth then max m CC_MAX_TOKENS else m)" "1024 \<le> n"
      using n f(2) th by (auto simp: json_at_def [of body])
  qed
qed

definition ex_wire_request :: call_request where
  "ex_wire_request = \<lparr>cq_model = ''claude-sonnet-4-5'', cq_system = None,
     cq_entries = [UserEntry \<lparr>ue_text = ''hi'', ue_attachments = []\<rparr>,
       AssistantEntry \<lparr>ae_text = [], ae_reasoning = [], ae_reasoning_signature = [],
         ae_tool_calls = [\<lparr>ce_id = ''t1'', ce_name = ''Read'', ce_input = JObj []\<rparr>]\<rparr>,
       ToolResults [\<lparr>tr_call_id = ''t1'', tr_name = ''Read'', tr_content = ''ok'', tr_artifact = None, tr_attachments = []\<rparr>]],
     cq_tools = [], cq_max_tokens = 1000,
     cq_reasoning = Some \<lparr>rc_enabled = Some True, rc_effort = Some HighEffort, rc_long_context = None\<rparr>, cq_compact_key = None\<rparr>"

lemma ex_wire_request_sent: "\<not> isl (anthropic_body Map.empty [] [] ex_wire_request True False True)"
  by code_simp

lemma wire_calls_are_answered_witness:
  "case anthropic_body Map.empty [] [] ex_wire_request True False True of
     Inl e \<Rightarrow> False
   | Inr body \<Rightarrow> \<exists>ms. json_get body ''messages'' = Some (JArr ms) \<and> wire_paired ms \<and>
       list_all object_inputs ms \<and> ends_with_user_message ms"
proof -
  have "paired (cq_entries ex_wire_request)" by code_simp
  then show ?thesis
    using ex_wire_request_sent wire_calls_are_answered [of ex_wire_request Map.empty "[]" "[]" True False True]
    by (cases "anthropic_body Map.empty [] [] ex_wire_request True False True") simp_all
qed

lemma thinking_leaves_room_witness:
  "case anthropic_body Map.empty [] [] ex_wire_request True False True of
     Inl e \<Rightarrow> False
   | Inr body \<Rightarrow> \<exists>m n. json_at body ''max_tokens'' = JNum (int m) \<and>
       json_at (json_at body ''thinking'') ''budget_tokens'' = JNum n \<and> n < int m \<and> 1024 \<le> n"
proof -
  have "cq_max_tokens ex_wire_request < 2 ^ 32" by (simp add: ex_wire_request_def)
  moreover have "case anthropic_body Map.empty [] [] ex_wire_request True False True of
      Inl e \<Rightarrow> False | Inr body \<Rightarrow> json_at (json_at body ''thinking'') ''budget_tokens'' = JNum 16384"
    by code_simp
  ultimately show ?thesis
    using thinking_leaves_room [of Map.empty "[]" "[]" ex_wire_request True False True]
    by (cases "anthropic_body Map.empty [] [] ex_wire_request True False True") auto
qed

end
