(* ===== verification/Claude_Laws.thy ===== *)
theory Claude_Laws
  imports Frame_Laws
begin

text \<open>
  A streamed answer of Anthropic is the answer that would have come in one piece. What the server
  sends for a message is a specification: its blocks in any number of pieces, between a beginning
  that counts the tokens read and an end that counts the tokens written.
\<close>

section \<open>What the server sends\<close>

datatype served_block = ServedText "str list" | ServedThinking "str list" str | ServedCall str str "str list"

definition num_json :: "nat \<Rightarrow> json" where
  "num_json n = JNum (int n)"

fun block_opening :: "served_block \<Rightarrow> json" where
  "block_opening (ServedText ps) = JObj [(''type'', JStr ''text''), (''text'', JStr [])]"
| "block_opening (ServedThinking ps g) = JObj [(''type'', JStr ''thinking''), (''thinking'', JStr [])]"
| "block_opening (ServedCall cid name ps) =
     JObj [(''type'', JStr ''tool_use''), (''id'', JStr cid), (''name'', JStr name), (''input'', JObj [])]"

definition delta_event :: "nat \<Rightarrow> str \<Rightarrow> str \<Rightarrow> str \<Rightarrow> str \<times> json" where
  "delta_event i ty k p =
     (''content_block_delta'',
      JObj [(''index'', num_json i), (''delta'', JObj [(''type'', JStr ty), (k, JStr p)])])"

fun block_deltas :: "nat \<Rightarrow> served_block \<Rightarrow> (str \<times> json) list" where
  "block_deltas i (ServedText ps) = map (delta_event i ''text_delta'' ''text'') ps"
| "block_deltas i (ServedThinking ps g) =
     map (delta_event i ''thinking_delta'' ''thinking'') ps @ [delta_event i ''signature_delta'' ''signature'' g]"
| "block_deltas i (ServedCall cid name ps) = map (delta_event i ''input_json_delta'' ''partial_json'') ps"

definition block_events :: "nat \<Rightarrow> served_block \<Rightarrow> (str \<times> json) list" where
  "block_events i b =
     (''content_block_start'', JObj [(''index'', num_json i), (''content_block'', block_opening b)]) #
     block_deltas i b @ [(''content_block_stop'', JObj [(''index'', num_json i)])]"

fun blocks_events :: "nat \<Rightarrow> served_block list \<Rightarrow> (str \<times> json) list" where
  "blocks_events i [] = []"
| "blocks_events i (b # blocks) = block_events i b @ blocks_events (i + 1) blocks"

text \<open>The tokens: read afresh, read from the cache, written to the cache, generated.\<close>

definition usage_json :: "nat \<Rightarrow> nat \<Rightarrow> nat \<Rightarrow> nat \<Rightarrow> json" where
  "usage_json fresh hit made out =
     JObj [(''input_tokens'', num_json fresh), (''cache_read_input_tokens'', num_json hit),
       (''cache_creation_input_tokens'', num_json made), (''output_tokens'', num_json out)]"

definition message_events ::
    "served_block list \<Rightarrow> str \<Rightarrow> nat \<Rightarrow> nat \<Rightarrow> nat \<Rightarrow> nat \<Rightarrow> (str \<times> json) list" where
  "message_events blocks stop fresh hit made out =
     (''message_start'', JObj [(''message'', JObj [(''usage'', usage_json fresh hit made 1)])]) #
     blocks_events 0 blocks @
     [(''message_delta'', JObj [(''delta'', JObj [(''stop_reason'', JStr stop)]),
         (''usage'', JObj [(''output_tokens'', num_json out)])]),
      (''message_stop'', JObj [])]"

text \<open>The same message in one piece. The input of a call is the value of its pieces; \<open>d\<close> says what stands
  where the pieces are no JSON text, as the pieces of a call without parameters, of which there are
  none. The service writes the empty object there.\<close>

fun block_value :: "(str \<Rightarrow> json option) \<Rightarrow> (str \<Rightarrow> json) \<Rightarrow> served_block \<Rightarrow> json" where
  "block_value pj d (ServedText ps) = JObj [(''type'', JStr ''text''), (''text'', JStr (concat ps))]"
| "block_value pj d (ServedThinking ps g) =
     JObj [(''type'', JStr ''thinking''), (''thinking'', JStr (concat ps)), (''signature'', JStr g)]"
| "block_value pj d (ServedCall cid name ps) =
     JObj [(''type'', JStr ''tool_use''), (''id'', JStr cid), (''name'', JStr name),
       (''input'', case pj (concat ps) of Some v \<Rightarrow> v | None \<Rightarrow> d (concat ps))]"

definition message_value ::
    "(str \<Rightarrow> json option) \<Rightarrow> (str \<Rightarrow> json) \<Rightarrow> served_block list \<Rightarrow> str \<Rightarrow> nat \<Rightarrow> nat \<Rightarrow> nat \<Rightarrow> nat \<Rightarrow> json" where
  "message_value pj d blocks stop fresh hit made out =
     JObj [(''content'', JArr (map (block_value pj d) blocks)), (''stop_reason'', JStr stop),
       (''usage'', usage_json fresh hit made out)]"

fun block_parses :: "(str \<Rightarrow> json option) \<Rightarrow> served_block \<Rightarrow> bool" where
  "block_parses pj (ServedCall cid name ps) \<longleftrightarrow> pj (concat ps) \<noteq> None"
| "block_parses pj _ \<longleftrightarrow> True"

text \<open>What stands for unreadable inputs shows in the calls only.\<close>

lemma read_values_calls:
  "let x = fold read_block (map (block_value pj d) blocks) a; y = fold read_block (map (block_value pj d') blocks) a' in
    an_text a = an_text a' \<longrightarrow> an_reasoning a = an_reasoning a' \<longrightarrow> an_signature a = an_signature a' \<longrightarrow>
    length (an_calls a) = length (an_calls a') \<longrightarrow>
    an_text x = an_text y \<and> an_reasoning x = an_reasoning y \<and> an_signature x = an_signature y \<and>
    length (an_calls x) = length (an_calls y) \<and>
    (an_calls x = an_calls y \<longleftrightarrow> an_calls a = an_calls a' \<and>
      (\<forall>cid name ps. ServedCall cid name ps \<in> set blocks \<longrightarrow> pj (concat ps) = None \<longrightarrow> d (concat ps) = d' (concat ps)))"
proof (induction blocks arbitrary: a a')
  case (Cons b blocks)
  let ?a = "read_block (block_value pj d b) a" and ?a' = "read_block (block_value pj d' b) a'"
  have "an_text a = an_text a' \<longrightarrow> an_text ?a = an_text ?a'"
    "an_reasoning a = an_reasoning a' \<longrightarrow> an_reasoning ?a = an_reasoning ?a'"
    "an_signature a = an_signature a' \<longrightarrow> an_signature ?a = an_signature ?a'"
    "length (an_calls a) = length (an_calls a') \<longrightarrow> length (an_calls ?a) = length (an_calls ?a')"
    by (cases b; simp add: read_block_def read_thinking_def json_at_obj Let_def)+
  moreover have "length (an_calls a) = length (an_calls a') \<longrightarrow>
      (an_calls ?a = an_calls ?a' \<longleftrightarrow> an_calls a = an_calls a' \<and>
        (\<forall>cid name ps. b = ServedCall cid name ps \<longrightarrow> pj (concat ps) = None \<longrightarrow> d (concat ps) = d' (concat ps)))"
    by (cases b) (auto simp: read_block_def read_thinking_def json_at_obj Let_def split: option.split)
  ultimately show ?case using Cons.IH [of ?a ?a'] by (auto simp: Let_def)
qed simp

lemma response_of_value:
  "anthropic_response (message_value pj d blocks stop fresh hit made out) =
    finish_answer stop (anthropic_usage (JObj [(''content'', JNull), (''usage'', usage_json fresh hit made out)]))
      (fold read_block (map (block_value pj d) blocks) no_answer)"
  by (simp add: anthropic_response_def message_value_def json_at_obj anthropic_usage_def usage_count_def)

lemma no_parameters_differ:
  "anthropic_response (message_value pj JStr blocks stop fresh hit made out) =
      anthropic_response (message_value pj (\<lambda>_. JObj []) blocks stop fresh hit made out) \<longleftrightarrow>
    stop \<noteq> ''tool_use'' \<or> list_all (block_parses pj) blocks"
proof -
  let ?x = "fold read_block (map (block_value pj JStr) blocks) no_answer"
  let ?y = "fold read_block (map (block_value pj (\<lambda>_. JObj [])) blocks) no_answer"
  have "block_parses pj b \<longleftrightarrow> (\<forall>cid name ps. b = ServedCall cid name ps \<longrightarrow> pj (concat ps) \<noteq> None)" for b
    by (cases b) auto
  then have p: "list_all (block_parses pj) blocks \<longleftrightarrow>
      (\<forall>cid name ps. ServedCall cid name ps \<in> set blocks \<longrightarrow> pj (concat ps) \<noteq> None)"
    unfolding list_all_iff by metis
  have "an_text ?x = an_text ?y \<and> an_reasoning ?x = an_reasoning ?y \<and> an_signature ?x = an_signature ?y \<and>
      length (an_calls ?x) = length (an_calls ?y) \<and> (an_calls ?x = an_calls ?y \<longleftrightarrow> list_all (block_parses pj) blocks)"
    using read_values_calls [of pj JStr blocks no_answer "\<lambda>_. JObj []" no_answer] unfolding p by (simp add: Let_def)
  then show ?thesis by (auto simp: response_of_value finish_answer_def)
qed

section \<open>Sorted maps\<close>

lemma bt_put_end: "\<forall>j \<in> fst ` set m. j < k \<Longrightarrow> bt_put k x m = m @ [(k, x)]"
  by (induction m) auto

lemma bt_put_last: "\<forall>j \<in> fst ` set m. j < k \<Longrightarrow> bt_put k x (m @ [(k, y)]) = m @ [(k, x)]"
  by (induction m) auto

lemma map_of_last: "\<forall>j \<in> fst ` set m. j < (k::nat) \<Longrightarrow> map_of (m @ [(k, y)]) k = Some y"
  by (induction m) auto

section \<open>One block\<close>

definition claude_json :: "int \<Rightarrow> str \<times> json \<Rightarrow> claude_state \<Rightarrow> claude_state" where
  "claude_json now e s =
     (case parse_claude_event (fst e) (snd e) of Some ev \<Rightarrow> claude_event_step now ev s | None \<Rightarrow> s)"

definition claude_jsons :: "(int \<times> str \<times> json) list \<Rightarrow> claude_state \<Rightarrow> claude_state" where
  "claude_jsons es s = fold (\<lambda>(t, e). claude_json t e) es s"

lemma claude_jsons_simps [simp]:
  "claude_jsons [] s = s"
  "claude_jsons ((t, e) # es) s = claude_jsons es (claude_json t e s)"
  "claude_jsons (es @ fs) s = claude_jsons fs (claude_jsons es s)"
  by (simp_all add: claude_jsons_def)

text \<open>What the answer is made of.\<close>

definition core :: "claude_state \<Rightarrow> str \<times> str \<times> str \<times> (nat \<times> tool_accum) list \<times> str option \<times> usage" where
  "core s = (cs_text s, cs_reasoning s, cs_signature s, cs_tools s, cs_stop s, cs_usage s)"

lemma as_u64_num: "n < 2 ^ 64 \<Longrightarrow> as_u64 (num_json n) = Some n"
  by (simp add: as_u64_def num_json_def)

lemmas read_json = json_at_obj json_at_def as_u64_num on_stream_def core_def parse_claude_event_def
  claude_json_def claude_block_start_def claude_block_delta_def delta_event_def

lemma text_delta:
  "i < 2 ^ 64 \<Longrightarrow> core (claude_json t (delta_event i ''text_delta'' ''text'' p) s) =
    (cs_text s @ p, cs_reasoning s, cs_signature s, cs_tools s, cs_stop s, cs_usage s)"
  by (simp add: read_json)

lemma thinking_delta:
  "i < 2 ^ 64 \<Longrightarrow> core (claude_json t (delta_event i ''thinking_delta'' ''thinking'' p) s) =
    (cs_text s, cs_reasoning s @ p, cs_signature s, cs_tools s, cs_stop s, cs_usage s)"
  by (simp add: read_json)

lemma signature_delta:
  "i < 2 ^ 64 \<Longrightarrow> core (claude_json t (delta_event i ''signature_delta'' ''signature'' g) s) =
    (cs_text s, cs_reasoning s, g, cs_tools s, cs_stop s, cs_usage s)"
  by (simp add: read_json)

lemma args_delta:
  "i < 2 ^ 64 \<Longrightarrow> \<forall>j \<in> fst ` set m. j < i \<Longrightarrow> cs_tools s = m @ [(i, a)] \<Longrightarrow>
    core (claude_json t (delta_event i ''input_json_delta'' ''partial_json'' p) s) =
      (cs_text s, cs_reasoning s, cs_signature s, m @ [(i, a\<lparr>tm_args := tm_args a @ p\<rparr>)], cs_stop s, cs_usage s)"
  by (simp add: read_json add_claude_args_def Let_def map_of_last bt_put_last del: map_of_append
      split: option.split)

definition timed :: "int list \<Rightarrow> (str \<times> json) list \<Rightarrow> (int \<times> str \<times> json) list" where
  "timed = zip"

lemma text_deltas:
  "i < 2 ^ 64 \<Longrightarrow> length us = length ps \<Longrightarrow>
    core (claude_jsons (timed us (map (delta_event i ''text_delta'' ''text'') ps)) s) =
      (cs_text s @ concat ps, cs_reasoning s, cs_signature s, cs_tools s, cs_stop s, cs_usage s)"
proof (induction ps arbitrary: us s)
  case (Cons p ps)
  then obtain u us' where "us = u # us'" by (cases us) auto
  then show ?case
    using Cons text_delta [of i u p s]
    by (simp add: timed_def) (simp add: core_def)
qed (simp add: timed_def core_def)

lemma thinking_deltas:
  "i < 2 ^ 64 \<Longrightarrow> length us = length ps \<Longrightarrow>
    core (claude_jsons (timed us (map (delta_event i ''thinking_delta'' ''thinking'') ps)) s) =
      (cs_text s, cs_reasoning s @ concat ps, cs_signature s, cs_tools s, cs_stop s, cs_usage s)"
proof (induction ps arbitrary: us s)
  case (Cons p ps)
  then obtain u us' where "us = u # us'" by (cases us) auto
  then show ?case
    using Cons thinking_delta [of i u p s]
    by (simp add: timed_def) (simp add: core_def)
qed (simp add: timed_def core_def)

lemma args_deltas:
  "i < 2 ^ 64 \<Longrightarrow> length us = length ps \<Longrightarrow> \<forall>j \<in> fst ` set m. j < i \<Longrightarrow> cs_tools s = m @ [(i, a)] \<Longrightarrow>
    core (claude_jsons (timed us (map (delta_event i ''input_json_delta'' ''partial_json'') ps)) s) =
      (cs_text s, cs_reasoning s, cs_signature s, m @ [(i, a\<lparr>tm_args := tm_args a @ concat ps\<rparr>)],
       cs_stop s, cs_usage s)"
proof (induction ps arbitrary: us s a)
  case (Cons p ps)
  then obtain u us' where us: "us = u # us'" by (cases us) auto
  let ?s = "claude_json u (delta_event i ''input_json_delta'' ''partial_json'' p) s"
  have c: "core ?s = (cs_text s, cs_reasoning s, cs_signature s, m @ [(i, a\<lparr>tm_args := tm_args a @ p\<rparr>)],
      cs_stop s, cs_usage s)"
    by (rule args_delta [OF Cons.prems(1,3,4)])
  then show ?case
    using Cons.IH [of us' ?s "a\<lparr>tm_args := tm_args a @ p\<rparr>"] Cons.prems us
    by (simp add: timed_def) (simp add: core_def)
qed (simp add: timed_def core_def)

text \<open>What was read so far, as the parser of a whole answer reads it.\<close>

definition read_so_far :: "(str \<Rightarrow> json option) \<Rightarrow> claude_state \<Rightarrow> wire_answer" where
  "read_so_far pj s =
     \<lparr>an_text = cs_text s, an_reasoning = cs_reasoning s, an_signature = cs_signature s,
      an_calls = map (claude_call pj \<circ> snd) (cs_tools s)\<rparr>"

definition before_block :: "nat \<Rightarrow> claude_state \<Rightarrow> bool" where
  "before_block i s \<longleftrightarrow> (\<forall>j \<in> fst ` set (cs_tools s). j < i)"

lemma before_core: "core s = core s' \<Longrightarrow> before_block i s = before_block i s'"
  by (simp add: core_def before_block_def)

lemma read_core: "core s = core s' \<Longrightarrow> read_so_far pj s = read_so_far pj s'"
  by (simp add: core_def read_so_far_def)

lemma block_stop_core:
  "i < 2 ^ 64 \<Longrightarrow> core (claude_json t (''content_block_stop'', JObj [(''index'', num_json i)]) s) = core s"
  by (simp add: read_json split: option.split)

lemma opening_core:
  "i < 2 ^ 64 \<Longrightarrow>
    core (claude_json t (''content_block_start'',
        JObj [(''index'', num_json i), (''content_block'', block_opening (ServedText ps))]) s) = core s"
  "i < 2 ^ 64 \<Longrightarrow>
    core (claude_json t (''content_block_start'',
        JObj [(''index'', num_json i), (''content_block'', block_opening (ServedThinking ps g))]) s) = core s"
  "i < 2 ^ 64 \<Longrightarrow> before_block i s \<Longrightarrow>
    core (claude_json t (''content_block_start'',
        JObj [(''index'', num_json i), (''content_block'', block_opening (ServedCall cid name ps))]) s) =
      (cs_text s, cs_reasoning s, cs_signature s,
       cs_tools s @ [(i, \<lparr>tm_id = cid, tm_name = name, tm_args = []\<rparr>)], cs_stop s, cs_usage s)"
  by (simp_all add: read_json before_block_def start_claude_tool_def Let_def bt_put_end)

lemma claude_block:
  assumes "i < 2 ^ 64" and "length us = length (block_events i b)" and "before_block i s"
  shows "read_so_far pj (claude_jsons (timed us (block_events i b)) s) =
      read_block (block_value pj JStr b) (read_so_far pj s) \<and>
    before_block (i + 1) (claude_jsons (timed us (block_events i b)) s) \<and>
    cs_stop (claude_jsons (timed us (block_events i b)) s) = cs_stop s \<and>
    cs_usage (claude_jsons (timed us (block_events i b)) s) = cs_usage s"
proof -
  obtain u vs w where us: "us = u # vs @ [w]" and vs: "length vs = length (block_deltas i b)"
  proof -
    obtain u vs' where "us = u # vs'" "length vs' = length (block_deltas i b) + 1"
      using assms(2) by (cases us) (auto simp: block_events_def)
    then show ?thesis using that by (cases vs' rule: rev_cases) auto
  qed
  define s1 where "s1 = claude_json u (''content_block_start'',
    JObj [(''index'', num_json i), (''content_block'', block_opening b)]) s"
  define s2 where "s2 = claude_jsons (timed vs (block_deltas i b)) s1"
  have all: "core (claude_jsons (timed us (block_events i b)) s) = core s2"
    using vs block_stop_core [OF assms(1)]
    by (simp add: us block_events_def timed_def s1_def s2_def)
  have start: "core s1 = core s" if "\<nexists>cid name ps. b = ServedCall cid name ps"
    using that opening_core(1,2) [OF assms(1)] by (cases b) (simp_all add: s1_def)
  have "read_so_far pj s2 = read_block (block_value pj JStr b) (read_so_far pj s) \<and> before_block (i + 1) s2 \<and>
      cs_stop s2 = cs_stop s \<and> cs_usage s2 = cs_usage s"
  proof (cases b)
    case (ServedText ps)
    then have "core s2 = (cs_text s @ concat ps, cs_reasoning s, cs_signature s, cs_tools s, cs_stop s, cs_usage s)"
      using text_deltas [OF assms(1), of vs ps s1] vs start by (simp add: s2_def core_def)
    then show ?thesis
      using assms(3) ServedText
      by (auto simp: core_def read_so_far_def read_block_def json_at_obj before_block_def)
  next
    case (ServedThinking ps g)
    obtain v vs' where v: "vs = vs' @ [v]" "length vs' = length ps"
      using vs ServedThinking by (cases vs rule: rev_cases) auto
    have "core s2 = (cs_text s, cs_reasoning s @ concat ps, g, cs_tools s, cs_stop s, cs_usage s)"
      using thinking_deltas [OF assms(1) v(2), of s1] v start ServedThinking
        signature_delta [OF assms(1), of v g]
      by (simp add: s2_def timed_def) (simp add: core_def)
    then show ?thesis
      using assms(3) ServedThinking
      by (auto simp: core_def read_so_far_def read_block_def read_thinking_def json_at_obj before_block_def)
  next
    case (ServedCall cid name ps)
    let ?a = "\<lparr>tm_id = cid, tm_name = name, tm_args = []\<rparr>"
    have c: "core s1 = (cs_text s, cs_reasoning s, cs_signature s, cs_tools s @ [(i, ?a)], cs_stop s, cs_usage s)"
      using opening_core(3) [OF assms(1,3)] by (simp add: s1_def ServedCall)
    have "core s2 = (cs_text s, cs_reasoning s, cs_signature s,
        cs_tools s @ [(i, ?a\<lparr>tm_args := concat ps\<rparr>)], cs_stop s, cs_usage s)"
      using args_deltas [OF assms(1), of vs ps "cs_tools s" s1 ?a] vs c assms(3) ServedCall
      by (simp add: s2_def core_def before_block_def)
    then show ?thesis
      using assms(3) ServedCall
      by (auto simp: core_def read_so_far_def read_block_def json_at_obj before_block_def claude_call_def
          split: option.split)
  qed
  then show ?thesis
    using read_core [OF all, of pj] before_core [OF all] all by (simp add: core_def)
qed

lemma claude_blocks:
  assumes "i + length blocks \<le> 2 ^ 64" and "length us = length (blocks_events i blocks)"
    and "before_block i s"
  shows "read_so_far pj (claude_jsons (timed us (blocks_events i blocks)) s) =
      fold read_block (map (block_value pj JStr) blocks) (read_so_far pj s) \<and>
    cs_stop (claude_jsons (timed us (blocks_events i blocks)) s) = cs_stop s \<and>
    cs_usage (claude_jsons (timed us (blocks_events i blocks)) s) = cs_usage s"
  using assms
proof (induction blocks arbitrary: i us s)
  case (Cons b blocks)
  let ?n = "length (block_events i b)"
  let ?s = "claude_jsons (timed (take ?n us) (block_events i b)) s"
  have split: "timed us (blocks_events i (b # blocks)) =
      timed (take ?n us) (block_events i b) @ timed (drop ?n us) (blocks_events (i + 1) blocks)"
    using Cons.prems(2) by (metis append_take_drop_id blocks_events.simps(2) length_append
        length_take min_absorb2 le_add1 timed_def zip_append)
  have b: "read_so_far pj ?s = read_block (block_value pj JStr b) (read_so_far pj s) \<and> before_block (i + 1) ?s \<and>
      cs_stop ?s = cs_stop s \<and> cs_usage ?s = cs_usage s"
    using Cons.prems by (intro claude_block) auto
  then have "read_so_far pj (claude_jsons (timed (drop ?n us) (blocks_events (i + 1) blocks)) ?s) =
      fold read_block (map (block_value pj JStr) blocks) (read_so_far pj ?s) \<and>
    cs_stop (claude_jsons (timed (drop ?n us) (blocks_events (i + 1) blocks)) ?s) = cs_stop ?s \<and>
    cs_usage (claude_jsons (timed (drop ?n us) (blocks_events (i + 1) blocks)) ?s) = cs_usage ?s"
    using Cons.prems by (intro Cons.IH) auto
  then show ?case using b unfolding split by simp
qed (simp add: timed_def)

section \<open>The whole message\<close>

lemma message_start_event:
  "core (claude_json t (''message_start'', JObj [(''message'', JObj [(''usage'', v)])]) s) =
    (cs_text s, cs_reasoning s, cs_signature s, cs_tools s, cs_stop s, anthropic_usage (JObj [(''usage'', v)]))"
  by (simp add: read_json)

lemma message_delta_event:
  "out < 2 ^ 64 \<Longrightarrow> 0 < out \<Longrightarrow>
    core (claude_json t (''message_delta'', JObj [(''delta'', JObj [(''stop_reason'', JStr stop)]),
        (''usage'', JObj [(''output_tokens'', num_json out)])]) s) =
    (cs_text s, cs_reasoning s, cs_signature s, cs_tools s, Some stop, (cs_usage s)\<lparr>us_output := out\<rparr>)"
  by (simp add: read_json merge_usage_def anthropic_usage_def usage_count_def Let_def first_of_def)

lemma message_stop_event: "claude_json t (''message_stop'', v) s = s"
  by (simp add: read_json)

lemma usage_of_json:
  "fresh < 2 ^ 64 \<Longrightarrow> hit < 2 ^ 64 \<Longrightarrow> made < 2 ^ 64 \<Longrightarrow> out < 2 ^ 64 \<Longrightarrow>
    map_of kvs ''usage'' = Some (usage_json fresh hit made out) \<Longrightarrow>
    anthropic_usage (JObj kvs) =
      \<lparr>us_input = fresh + hit + made, us_output = out, us_cache_read = hit, us_cache_creation = made\<rparr>"
  by (simp add: anthropic_usage_def usage_count_def json_at_obj usage_json_def as_u64_num Let_def)

lemma claude_message:
  assumes "length blocks \<le> 2 ^ 64" and "length us = length (message_events blocks stop fresh hit made out)"
    and "fresh < 2 ^ 64" "hit < 2 ^ 64" "made < 2 ^ 64" "out < 2 ^ 64" "0 < out"
  shows "claude_answer pj (claude_jsons (timed us (message_events blocks stop fresh hit made out)) claude_begin) =
    anthropic_response (message_value pj JStr blocks stop fresh hit made out)"
proof -
  obtain u vs w x where us: "us = u # vs @ [w, x]" and vs: "length vs = length (blocks_events 0 blocks)"
  proof -
    obtain u vs' where "us = u # vs'" "length vs' = length (blocks_events 0 blocks) + 2"
      using assms(2) by (cases us) (auto simp: message_events_def)
    moreover from this obtain vs1 x where "vs' = vs1 @ [x]" by (cases vs' rule: rev_cases) auto
    moreover from calculation obtain vs w where "vs1 = vs @ [w]" by (cases vs1 rule: rev_cases) auto
    ultimately show ?thesis using that [of u vs w x] by simp
  qed
  define s1 where "s1 = claude_json u
    (''message_start'', JObj [(''message'', JObj [(''usage'', usage_json fresh hit made 1)])]) claude_begin"
  define s2 where "s2 = claude_jsons (timed vs (blocks_events 0 blocks)) s1"
  define s3 where "s3 = claude_json w (''message_delta'', JObj [(''delta'', JObj [(''stop_reason'', JStr stop)]),
    (''usage'', JObj [(''output_tokens'', num_json out)])]) s2"
  have s1: "core s1 = ([], [], [], [], None, \<lparr>us_input = fresh + hit + made, us_output = 1,
      us_cache_read = hit, us_cache_creation = made\<rparr>)"
    using message_start_event [of u "usage_json fresh hit made 1" claude_begin] assms(3-5)
    by (simp add: s1_def claude_begin_def usage_of_json)
  have "read_so_far pj s2 = fold read_block (map (block_value pj JStr) blocks) (read_so_far pj s1) \<and>
      cs_stop s2 = cs_stop s1 \<and> cs_usage s2 = cs_usage s1"
    unfolding s2_def using assms(1) vs s1 by (intro claude_blocks) (simp_all add: before_block_def core_def)
  moreover have "read_so_far pj s1 = no_answer"
    using s1 by (simp add: core_def read_so_far_def no_answer_def)
  moreover have "core s3 = (cs_text s2, cs_reasoning s2, cs_signature s2, cs_tools s2, Some stop,
      (cs_usage s2)\<lparr>us_output := out\<rparr>)"
    unfolding s3_def by (rule message_delta_event [OF assms(6,7)])
  moreover have "claude_jsons (timed us (message_events blocks stop fresh hit made out)) claude_begin = s3"
    using vs by (simp add: us message_events_def timed_def s1_def s2_def s3_def message_stop_event)
  ultimately show ?thesis
    using s1 assms(3-6)
    by (simp add: claude_answer_def anthropic_response_def message_value_def json_at_obj read_so_far_def
        core_def usage_of_json)
qed

section \<open>The text of the stream\<close>

definition sse_frame_of :: "(json \<Rightarrow> str) \<Rightarrow> str \<times> json \<Rightarrow> str" where
  "sse_frame_of js e = ''event: '' @ fst e @ [nl] @ ''data: '' @ js (snd e)"

definition sse_text :: "(json \<Rightarrow> str) \<Rightarrow> (str \<times> json) list \<Rightarrow> str" where
  "sse_text js es = concat (map (\<lambda>e. sse_frame_of js e @ [nl, nl]) es)"

text \<open>What JSON text on a line is: it parses, has no line break in it and no blanks around it.\<close>

definition one_line :: "(str \<Rightarrow> json option) \<Rightarrow> (json \<Rightarrow> str) \<Rightarrow> json \<Rightarrow> bool" where
  "one_line pj js v \<longleftrightarrow> pj (js v) = Some v \<and> js v \<noteq> [] \<and> trimmed (js v) \<and> nl \<notin> set (js v) \<and> cr \<notin> set (js v)"

definition event_name :: "str \<Rightarrow> bool" where
  "event_name ty \<longleftrightarrow> ty \<noteq> [] \<and> ty \<noteq> ''error'' \<and> trimmed ty \<and> nl \<notin> set ty \<and> cr \<notin> set ty"

lemma split_once_skip:
  "nl \<notin> set a \<Longrightarrow> split_once_str [nl, nl] (a @ s) =
    map_option (\<lambda>(x, y). (a @ x, y)) (split_once_str [nl, nl] s)"
  by (induction a) (auto simp: option.map_comp comp_def split_def option.map_ident)

lemma split_once_frame:
  assumes "nl \<notin> set a" and "nl \<notin> set b" and "b \<noteq> []"
  shows "split_once_str [nl, nl] (a @ nl # b @ nl # nl # rest) = Some (a @ nl # b, rest)"
proof -
  obtain c b' where b: "b = c # b'" "c \<noteq> nl" using assms(2,3) by (cases b) auto
  have "split_once_str [nl, nl] (b @ nl # nl # rest) = Some (b, rest)"
    using split_once_skip [OF assms(2), of "nl # nl # rest"] by simp
  then have "split_once_str [nl, nl] (nl # b @ nl # nl # rest) = Some (nl # b, rest)"
    using b by simp
  then show ?thesis by (simp add: split_once_skip [OF assms(1)])
qed

lemma sse_frames_text:
  assumes "\<forall>e \<in> set es. event_name (fst e) \<and> one_line pj js (snd e)"
  shows "sse_frames (sse_text js es) = (map (sse_frame_of js) es, [])"
  using assms
proof (induction es)
  case (Cons e es)
  have clean: "cr \<notin> set (sse_text js (e # es))"
    using Cons.prems by (auto simp: sse_text_def sse_frame_of_def event_name_def one_line_def)
  have t: "sse_text js (e # es) = (''event: '' @ fst e) @ nl # (''data: '' @ js (snd e)) @ nl # nl # sse_text js es"
    by (simp add: sse_text_def sse_frame_of_def)
  have "split_once_str [nl, nl] (sse_text js (e # es)) = Some (sse_frame_of js e, sse_text js es)"
    unfolding t using Cons.prems
    by (subst split_once_frame) (auto simp: event_name_def one_line_def sse_frame_of_def)
  then have "take_sse_frame (sse_text js (e # es)) = Some (sse_frame_of js e, sse_text js es)"
    using take_sse_frame_lf [OF clean] by simp
  then show ?case using Cons by (simp add: sse_frames_Some)
qed (simp add: sse_text_def sse_frames_None take_sse_frame_def)

lemma trim_end_cr: "cr \<notin> set s \<Longrightarrow> trim_end_matches {cr} s = s"
  by (cases s rule: rev_cases) (auto simp: trim_end_matches_def)

lemma strip_eol_plain: "nl \<notin> set l \<Longrightarrow> strip_eol l = l"
  by (cases l rule: rev_cases) (auto simp: strip_eol_def str_strip_suffix_def)

lemma sse_lines_of:
  assumes "event_name (fst e)" and "one_line pj js (snd e)"
  shows "sse_lines (sse_frame_of js e) = [''event: '' @ fst e, ''data: '' @ js (snd e)]"
proof -
  have n: "nl \<notin> set (''event: '' @ fst e)" "nl \<notin> set (''data: '' @ js (snd e))"
    "cr \<notin> set (''event: '' @ fst e)" "cr \<notin> set (''data: '' @ js (snd e))"
    using assms by (auto simp: event_name_def one_line_def)
  have "split_inclusive_nl (sse_frame_of js e) = [(''event: '' @ fst e) @ [nl], ''data: '' @ js (snd e)]"
    using split_inclusive_nl_line [OF n(1), of "''data: '' @ js (snd e)"] lines_acc_rest [OF n(2), of "[]"]
    by (simp add: sse_frame_of_def split_inclusive_nl_def)
  moreover have "strip_eol ((''event: '' @ fst e) @ [nl]) = ''event: '' @ fst e"
    using n(3) by (subst strip_eol_line) (metis last_in_set)
  ultimately show ?thesis
    using n strip_eol_plain [OF n(2)] by (simp add: sse_lines_def str_lines_def trim_end_cr)
qed

lemma trim_space:
  assumes "trimmed s" shows "trim (CHR '' '' # s) = s"
proof -
  have "ascii_white CHR '' ''" by code_simp
  then have "white_len (CHR '' '' # s) = 1" by (simp add: white_len.simps)
  then have "trim (CHR '' '' # s) = trim s" by (simp add: trim_def trim_start.simps [of "CHR '' '' # s"])
  then show ?thesis using assms by simp
qed

lemma claude_json_event: "claude_json t e (s\<lparr>cs_event := x\<rparr>) = (claude_json t e s)\<lparr>cs_event := x\<rparr>"
proof -
  have "claude_event_step t ev (s\<lparr>cs_event := x\<rparr>) = (claude_event_step t ev s)\<lparr>cs_event := x\<rparr>" for ev
    by (cases ev) (simp_all add: on_stream_def start_claude_tool_def add_claude_args_def Let_def
        split: option.split)
  then show ?thesis by (simp add: claude_json_def split: option.split)
qed

lemma claude_frame_of:
  assumes "event_name (fst e)" and "one_line pj js (snd e)"
  shows "claude_frame pj t (sse_frame_of js e) s = (None, (claude_json t e s)\<lparr>cs_event := fst e\<rparr>)"
proof -
  have a: "str_strip_prefix (''event: '' @ fst e) ''event:'' = Some (CHR '' '' # fst e)"
    "str_strip_prefix (''data: '' @ js (snd e)) ''event:'' = None"
    "str_strip_prefix (''data: '' @ js (snd e)) ''data:'' = Some (CHR '' '' # js (snd e))"
    by (simp_all add: str_strip_prefix_def)
  have "claude_line pj t (''data: '' @ js (snd e)) (s\<lparr>cs_event := fst e\<rparr>) =
      (None, (claude_json t e s)\<lparr>cs_event := fst e\<rparr>)"
    unfolding claude_line_def a option.case
    using assms claude_json_event [of t e "fst e"]
    by (simp add: trim_space one_line_def event_name_def parse_stream_event_def claude_json_def)
  moreover have "claude_line pj t (''event: '' @ fst e) s = (None, s\<lparr>cs_event := fst e\<rparr>)"
    unfolding claude_line_def a option.case using assms(1) by (simp add: trim_space event_name_def)
  ultimately show ?thesis by (simp add: claude_frame_def sse_lines_of [OF assms])
qed

lemma claude_frames_of:
  assumes "\<forall>e \<in> set es. event_name (fst e) \<and> one_line pj js (snd e)" and "length us = length es"
  shows "\<exists>x. run_steps (\<lambda>(t, frame). claude_frame pj t frame) (zip us (map (sse_frame_of js) es)) s =
    (None, (claude_jsons (timed us es) s)\<lparr>cs_event := x\<rparr>)"
  using assms(2,1)
proof (induction us es arbitrary: s rule: list_induct2)
  case Nil
  show ?case by (intro exI [of _ "cs_event s"]) (simp add: timed_def)
next
  case (Cons u us e es)
  then obtain x where x: "run_steps (\<lambda>(t, frame). claude_frame pj t frame) (zip us (map (sse_frame_of js) es))
      ((claude_json u e s)\<lparr>cs_event := fst e\<rparr>) =
      (None, (claude_jsons (timed us es) ((claude_json u e s)\<lparr>cs_event := fst e\<rparr>))\<lparr>cs_event := x\<rparr>)"
    by force
  have "claude_jsons es' (s'\<lparr>cs_event := y\<rparr>) = (claude_jsons es' s')\<lparr>cs_event := y\<rparr>" for es' s' y
    by (induction es' arbitrary: s') (auto simp: claude_json_event)
  then show ?case
    using Cons.prems x by (auto simp: claude_frame_of timed_def)
qed

lemma blocks_events_named: "e \<in> set (blocks_events i blocks) \<Longrightarrow> event_name (fst e)"
proof (induction blocks arbitrary: i)
  case (Cons b blocks)
  have "event_name ''content_block_start''" "event_name ''content_block_delta''" "event_name ''content_block_stop''"
    by code_simp+
  then have "\<forall>e \<in> set (block_events i b). event_name (fst e)"
    by (cases b) (auto simp: block_events_def delta_event_def)
  then show ?case using Cons by auto
qed simp

lemma message_events_named:
  "\<forall>e \<in> set (message_events blocks stop fresh hit made out). event_name (fst e)"
proof -
  have "event_name ''message_start''" "event_name ''message_delta''" "event_name ''message_stop''"
    by code_simp+
  then show ?thesis using blocks_events_named by (auto simp: message_events_def)
qed

text \<open>C6. A streamed answer is the answer in one piece: when the server sends a message block by block, each
  block in any pieces, and the network cuts the bytes anywhere between characters at any times, the
  client returns what it reads out of the same message sent whole: text, thinking, signature, calls
  with their inputs, usage and the reason it ended. A call without parameters, which has no pieces,
  gets the empty string as its input, and so the two are the same exactly when the pieces of every
  call are JSON text or the message did not end for its calls. The events are those of
  \<open>message_events\<close>, each printed on one line, and at least one token is made.\<close>

theorem streamed_answer_is_the_whole_one:
  assumes "send req = Inr (map (\<lambda>(t, p). Chunk t p) ps)" and "list_all valid_utf8 (map snd ps)"
    and "concat (map snd ps) = sse_text js (message_events blocks stop fresh hit made out)"
    and "\<forall>e \<in> set (message_events blocks stop fresh hit made out). one_line pj js (snd e)"
    and "length blocks \<le> 2 ^ 64"
    and "fresh < 2 ^ 64" "hit < 2 ^ 64" "made < 2 ^ 64" "out < 2 ^ 64" "0 < out"
    and "\<not> has_image_generation_tool (cq_tools req)"
  shows "fst (claude_stream pj send req) =
      Inr (anthropic_response (message_value pj JStr blocks stop fresh hit made out)) \<and>
    (fst (claude_stream pj send req) =
        Inr (anthropic_response (message_value pj (\<lambda>_. JObj []) blocks stop fresh hit made out)) \<longleftrightarrow>
      stop \<noteq> ''tool_use'' \<or> list_all (block_parses pj) blocks)"
proof -
  let ?es = "message_events blocks stop fresh hit made out"
  have ok: "\<forall>e \<in> set ?es. event_name (fst e) \<and> one_line pj js (snd e)"
    using assms(4) message_events_named by blast
  then have "cr \<notin> set (concat (map snd ps))"
    unfolding assms(3) by (auto simp: sse_text_def sse_frame_of_def event_name_def one_line_def)
  moreover have frames: "fst (sse_frames (concat (map snd ps))) = map (sse_frame_of js) ?es"
    unfolding assms(3) by (simp add: sse_frames_text [OF ok])
  moreover have "take_sse_frame [] = None" by (simp add: take_sse_frame_def)
  ultimately obtain us where us: "length us = length ?es"
      "read_chunks (claude_frame pj) (map (\<lambda>(t, p). Chunk t p) ps) [] claude_begin =
        run_steps (\<lambda>(t, frame). claude_frame pj t frame) (zip us (map (sse_frame_of js) ?es)) claude_begin"
    using read_chunks_timed [of "[]" ps "claude_frame pj" claude_begin] assms(2) by auto
  obtain x where x: "run_steps (\<lambda>(t, frame). claude_frame pj t frame) (zip us (map (sse_frame_of js) ?es)) claude_begin =
      (None, (claude_jsons (timed us ?es) claude_begin)\<lparr>cs_event := x\<rparr>)"
    using claude_frames_of [OF ok us(1)] by blast
  have "claude_answer pj (s\<lparr>cs_event := x\<rparr>) = claude_answer pj s" for s by (simp add: claude_answer_def)
  then have "fst (claude_stream pj send req) =
      Inr (anthropic_response (message_value pj JStr blocks stop fresh hit made out))"
    using x us(2) assms(1,11) claude_message [OF assms(5) us(1) assms(6-10)]
    by (simp add: claude_stream_def)
  then show ?thesis by (simp add: no_parameters_differ)
qed

text \<open>A printer and a parser of the values of an answer, and an answer with a call.\<close>

fun ex_print :: "json \<Rightarrow> str" where
  "ex_print (JStr s) = [CHR 0x22] @ s @ [CHR 0x22]"
| "ex_print (JNum n) = dec (nat n)"
| "ex_print (JBool b) = (if b then ''true'' else ''false'')"
| "ex_print JNull = ''null''"
| "ex_print (JArr xs) = ''['' @ concat (map (\<lambda>v. ex_print v @ '','') xs) @ '']''"
| "ex_print (JObj kvs) =
     ''{'' @ concat (map (\<lambda>kv. [CHR 0x22] @ fst kv @ [CHR 0x22] @ '':'' @ ex_print (snd kv) @ '','') kvs) @ ''}''"

definition ex_blocks :: "served_block list" where
  "ex_blocks = [ServedCall ''t1'' ''Read'' [''{'', ''}'']]"

definition ex_sse_events :: "(str \<times> json) list" where
  "ex_sse_events = message_events ex_blocks ''tool_use'' 5 0 0 7"

definition ex_parse :: "str \<Rightarrow> json option" where
  "ex_parse s =
     (if s = ''{}'' then Some (JObj []) else map_of (map (\<lambda>e. (ex_print (snd e), snd e)) ex_sse_events) s)"

definition ex_sse_request :: call_request where
  "ex_sse_request = \<lparr>cq_model = ''claude'', cq_system = None, cq_entries = [], cq_tools = [], cq_max_tokens = 1000,
     cq_reasoning = None, cq_compact_key = None\<rparr>"

lemma seven_bits_valid: "list_all (\<lambda>c. \<not> digit7 c) s \<Longrightarrow> valid_utf8 s"
proof (rule ascii_valid)
  have "(of_char c :: nat) < 128" if "\<not> digit7 c" for c
    using that by (cases c) (auto simp: of_char_Char split: if_splits)
  then show "\<forall>c \<in> set s. (of_char c :: nat) < 128" if "list_all (\<lambda>c. \<not> digit7 c) s"
    using that by (simp add: list_all_iff)
qed

lemma ex_lines: "\<forall>e \<in> set ex_sse_events. one_line ex_parse ex_print (snd e)"
  by code_simp

lemma ex_bits: "list_all (\<lambda>c. \<not> digit7 c) (sse_text ex_print ex_sse_events)"
  by code_simp

lemma streamed_answer_is_the_whole_one_witness:
  "fst (claude_stream ex_parse (\<lambda>req. Inr (map (\<lambda>(t, p). Chunk t p)
      [(0, take 100 (sse_text ex_print ex_sse_events)), (3, drop 100 (sse_text ex_print ex_sse_events))])) ex_sse_request) =
    Inr (anthropic_response (message_value ex_parse (\<lambda>_. JObj []) ex_blocks ''tool_use'' 5 0 0 7))"
proof -
  let ?ps = "[(0, take 100 (sse_text ex_print ex_sse_events)), (3, drop 100 (sse_text ex_print ex_sse_events))]"
  have "list_all (\<lambda>c. \<not> digit7 c) (take 100 (sse_text ex_print ex_sse_events))"
    "list_all (\<lambda>c. \<not> digit7 c) (drop 100 (sse_text ex_print ex_sse_events))"
    using ex_bits by (auto simp: list_all_iff dest: in_set_takeD in_set_dropD)
  then have 1: "list_all valid_utf8 (map snd ?ps)" by (simp add: seven_bits_valid)
  have 2: "concat (map snd ?ps) = sse_text ex_print (message_events ex_blocks ''tool_use'' 5 0 0 7)"
    by (simp add: ex_sse_events_def)
  have 3: "\<forall>e \<in> set (message_events ex_blocks ''tool_use'' 5 0 0 7). one_line ex_parse ex_print (snd e)"
    using ex_lines by (simp only: ex_sse_events_def)
  have 4: "length ex_blocks \<le> 2 ^ 64" "\<not> has_image_generation_tool (cq_tools ex_sse_request)"
    "list_all (block_parses ex_parse) ex_blocks"
    by (simp add: ex_blocks_def, code_simp, code_simp)
  show ?thesis
    using conjunct2 [OF streamed_answer_is_the_whole_one [where js = ex_print, OF refl 1 2 3 4(1) _ _ _ _ _ 4(2)]] 4(3)
    by simp
qed

end
