(* ===== verification/Claude_Calls.thy ===== *)
theory Claude_Calls
  imports Claude_Laws Turn_Laws
begin

text \<open>
  The calls of a streamed answer and the tool parts that its events leave in the accumulator of the
  run: the events the client hands on as it reads are folded by \<open>turn_accumulator.rs\<close> into the parts
  the surface shows and the session stores; the answer it returns is what the loop executes.
\<close>

section \<open>Events and the accumulator\<close>

lemma map_of_bt_put: "map_of (bt_put k x m) = (map_of m)(k \<mapsto> x)"
  by (induction m) (auto simp: fun_eq_iff)

lemma set_bt_put: "fst ` set (bt_put k x m) = insert k (fst ` set m)"
  by (simp add: dom_map_of_conv_image_fst [symmetric] map_of_bt_put)

lemma distinct_bt_put: "sorted_wrt (<) (map fst m) \<Longrightarrow> sorted_wrt (<) (map fst (bt_put k x m))"
proof (induction m)
  case (Cons p m)
  obtain j y where p: "p = (j, y)" by fastforce
  have "\<forall>i \<in> fst ` set (bt_put k x m). j < i" if "j < k" using Cons.prems p that by (auto simp: set_bt_put)
  then show ?case using Cons p by auto
qed simp

lemma length_bt_put: "map_of m k = None \<Longrightarrow> length (bt_put k x m) = length m + 1"
  by (induction m) (auto split: if_splits)

text \<open>Parts and indexes after an event.\<close>

definition shape :: "accumulator \<Rightarrow> message_part list \<times> (nat \<Rightarrow> nat option) \<times> (str \<Rightarrow> nat option)" where
  "shape ac = (ac_parts ac, ac_by_index ac, ac_by_id ac)"

lemma shape_marked: "shape (mark_started t p ac) = shape ac"
  by (simp add: shape_def mark_started_def)

lemma shape_tool: "shape (record_tool p ac) = shape ac"
  by (cases p) (simp_all add: shape_def)

lemma shape_text: "shape (on_event jt (t, TextDelta d) ac) = (append_text d (ac_parts ac), ac_by_index ac, ac_by_id ac)"
  using shape_marked [of t "TextDelta d" ac] by (simp add: on_event_def shape_def)

lemma shape_reasoning:
  "shape (on_event jt (t, ReasoningEvent d) ac) = (append_reasoning d (ac_parts ac), ac_by_index ac, ac_by_id ac)"
  using shape_marked [of t "ReasoningEvent d" ac] by (simp add: on_event_def shape_def)

lemma shape_duration:
  "shape (on_event jt (t, ReasoningDuration ms) ac) =
    (set_reasoning_duration ms (ac_parts ac), ac_by_index ac, ac_by_id ac)"
  using shape_marked [of t "ReasoningDuration ms" ac] by (simp add: on_event_def shape_def)

lemma shape_new_call:
  assumes "ac_by_id ac cid = None" and "ac_by_index ac i = None" and "identified cid" and "identified name"
  shows "shape (on_event jt (t, ToolCallDelta i (Some cid) (Some name) None) ac) =
    (ac_parts ac @ [ToolPart (new_tool_part (Some cid) (Some name))],
     (ac_by_index ac)(i \<mapsto> length (ac_parts ac)), (ac_by_id ac)(cid \<mapsto> length (ac_parts ac)))"
proof -
  let ?a = "mark_started t (ToolCallDelta i (Some cid) (Some name) None) ac"
  have a: "ac_parts ?a = ac_parts ac" "ac_by_index ?a = ac_by_index ac" "ac_by_id ?a = ac_by_id ac"
    using shape_marked [of t "ToolCallDelta i (Some cid) (Some name) None" ac] by (simp_all add: shape_def)
  have n: "nonblank (Some cid) = Some cid" "nonblank (Some name) = Some name"
    using assms(3,4) by (simp_all add: nonblank_def identified_def)
  have "new_tool_part (Some cid) (Some name)\<lparr>tp_id := cid\<rparr> = new_tool_part (Some cid) (Some name)"
    "new_tool_part (Some cid) (Some name)\<lparr>tp_name := name\<rparr> = new_tool_part (Some cid) (Some name)"
    by (simp_all add: new_tool_part_def n)
  then have "shape (apply_tool_delta i (Some cid) (Some name) None ?a) =
    (ac_parts ac @ [ToolPart (new_tool_part (Some cid) (Some name))],
     (ac_by_index ac)(i \<mapsto> length (ac_parts ac)), (ac_by_id ac)(cid \<mapsto> length (ac_parts ac)))"
    using assms(1,2) a n
    by (simp add: apply_tool_delta_def tool_position_def update_tool_def bind_id_def shape_def Let_def)
  then show ?thesis using shape_tool by (simp add: on_event_def del: record_tool.simps)
qed

lemma shape_args:
  assumes "ac_by_index ac i = Some pos" and "tool_at (ac_parts ac) pos u"
  shows "shape (on_event jt (t, ToolCallDelta i None None (Some d)) ac) =
    ((ac_parts ac)[pos := ToolPart (u\<lparr>tp_arguments := tp_arguments u @ d\<rparr>)], ac_by_index ac, ac_by_id ac)"
proof -
  let ?a = "mark_started t (ToolCallDelta i None None (Some d)) ac"
  have a: "ac_parts (mark_started t p ac) = ac_parts ac" "ac_by_index (mark_started t p ac) = ac_by_index ac"
    "ac_by_id (mark_started t p ac) = ac_by_id ac" for p
    using shape_marked [of t p ac] by (simp_all add: shape_def)
  have u: "pos < length (ac_parts ac)" "ac_parts ac ! pos = ToolPart u" using assms(2) by (simp_all add: tool_at_def)
  have "(ac_parts ac)[pos := ToolPart u] = ac_parts ac" using u by (metis list_update_id)
  then have "shape (apply_tool_delta i None None (Some d) ?a) =
      ((ac_parts ac)[pos := ToolPart (u\<lparr>tp_arguments := tp_arguments u @ d\<rparr>)], ac_by_index ac, ac_by_id ac)"
    using assms(1) a u
    by (simp add: apply_tool_delta_def tool_position_def nonblank_def collides_def update_tool_def shape_def)
  then show ?thesis using shape_tool by (simp add: on_event_def del: record_tool.simps)
qed

section \<open>The calls and their parts\<close>

text \<open>The calls collected so far have tool parts of their own, with the id, the name and the arguments as
  they were streamed; the numbers above theirs are free.\<close>

definition part_of :: "nat \<Rightarrow> claude_state \<Rightarrow> accumulator \<Rightarrow> nat \<Rightarrow> tool_accum \<Rightarrow> nat \<Rightarrow> tool_part \<Rightarrow> bool" where
  "part_of off s ac i t pos u \<longleftrightarrow>
     (\<exists>n. map_of (cs_ordinals s) i = Some n \<and> n < length (cs_ordinals s) \<and> ac_by_index ac (off + n) = Some pos) \<and>
     tool_at (ac_parts ac) pos u \<and> tp_id u = tm_id t \<and> tp_name u = tm_name t \<and> tp_arguments u = tm_args t"

definition tracks :: "nat \<Rightarrow> claude_state \<Rightarrow> accumulator \<Rightarrow> bool" where
  "tracks off s ac \<longleftrightarrow>
     (\<forall>i t. map_of (cs_tools s) i = Some t \<longrightarrow> (\<exists>pos u. part_of off s ac i t pos u)) \<and>
     (\<forall>i j t u. map_of (cs_tools s) i = Some t \<longrightarrow> map_of (cs_tools s) j = Some u \<longrightarrow> tm_id t = tm_id u \<longrightarrow> i = j) \<and>
     (\<forall>i. map_of (cs_tools s) i = None \<longleftrightarrow> map_of (cs_ordinals s) i = None) \<and>
     (\<forall>n. length (cs_ordinals s) \<le> n \<longrightarrow> ac_by_index ac (off + n) = None) \<and>
     sorted_wrt (<) (map fst (cs_tools s))"

fun new_call :: "claude_event \<Rightarrow> (nat \<times> str \<times> str) option" where
  "new_call (ClaudeToolStart i cid name) = Some (i, cid, name)"
| "new_call _ = None"

definition new_calls :: "claude_event list \<Rightarrow> (nat \<times> str \<times> str) list" where
  "new_calls evs = List.map_filter new_call evs"

text \<open>The calls still to come: their blocks and ids are new, ids and names are not blank.\<close>

definition fresh_call :: "claude_state \<Rightarrow> accumulator \<Rightarrow> nat \<times> str \<times> str \<Rightarrow> bool" where
  "fresh_call s ac c \<longleftrightarrow>
     map_of (cs_tools s) (fst c) = None \<and> ac_by_id ac (fst (snd c)) = None \<and>
     (\<forall>i t. map_of (cs_tools s) i = Some t \<longrightarrow> tm_id t \<noteq> fst (snd c)) \<and>
     identified (fst (snd c)) \<and> identified (snd (snd c))"

definition sent_payloads :: "nat \<Rightarrow> stream_event list \<Rightarrow> event_payload list" where
  "sent_payloads off es = List.map_filter (stream_payload off) es"

lemma tracks_same:
  assumes "tracks off s ac" and "same_tools (ac_parts ac) (ac_parts ac')" and "ac_by_index ac' = ac_by_index ac"
    and "cs_tools s' = cs_tools s" and "cs_ordinals s' = cs_ordinals s"
  shows "tracks off s' ac'"
  using assms by (simp add: tracks_def part_of_def same_tools_def fun_eq_iff)

lemma fresh_same:
  "fresh_call s ac c \<Longrightarrow> cs_tools s' = cs_tools s \<Longrightarrow> ac_by_id ac' = ac_by_id ac \<Longrightarrow> fresh_call s' ac' c"
  by (simp add: fresh_call_def)

lemma tracks_part: "tracks off s ac \<Longrightarrow> map_of (cs_tools s) i = Some t \<Longrightarrow> \<exists>pos u. part_of off s ac i t pos u"
  unfolding tracks_def by blast

text \<open>One event: what it sends keeps the parts in step with the calls.\<close>

lemma claude_step_tracks:
  assumes "tracks off s ac" and "\<forall>c. new_call ev = Some c \<longrightarrow> fresh_call s ac c"
  shows "\<exists>xs. cs_sent (claude_event_step now ev s) = cs_sent s @ xs \<and>
    (\<forall>es. map snd es = sent_payloads off xs \<longrightarrow>
      tracks off (claude_event_step now ev s) (fold (on_event jt) es ac) \<and>
      (\<forall>c. (\<forall>d. new_call ev = Some d \<longrightarrow> fst c \<noteq> fst d \<and> fst (snd c) \<noteq> fst (snd d)) \<longrightarrow>
        fresh_call s ac c \<longrightarrow> fresh_call (claude_event_step now ev s) (fold (on_event jt) es ac) c))"
proof -
  have quiet: ?thesis
    if "cs_sent (claude_event_step now ev s) = cs_sent s" "cs_tools (claude_event_step now ev s) = cs_tools s"
      "cs_ordinals (claude_event_step now ev s) = cs_ordinals s"
    using that assms(1) tracks_same [OF assms(1) same_tools_refl refl] fresh_same
    by (intro exI [of _ "[]"]) (auto simp: sent_payloads_def map_filter_def)
  have same: ?thesis
    if "cs_sent (claude_event_step now ev s) = cs_sent s @ [x]" "stream_payload off x = p"
      "cs_tools (claude_event_step now ev s) = cs_tools s" "cs_ordinals (claude_event_step now ev s) = cs_ordinals s"
      "\<And>t q. p = Some q \<Longrightarrow> same_tools (ac_parts ac) (ac_parts (on_event jt (t, q) ac)) \<and>
        ac_by_index (on_event jt (t, q) ac) = ac_by_index ac \<and> ac_by_id (on_event jt (t, q) ac) = ac_by_id ac"
    for x p
  proof (intro exI [of _ "[x]"] conjI allI impI that(1))
    fix es :: "(int \<times> event_payload) list" assume es: "map snd es = sent_payloads off [x]"
    let ?ac = "fold (on_event jt) es ac"
    have "same_tools (ac_parts ac) (ac_parts ?ac) \<and> ac_by_index ?ac = ac_by_index ac \<and> ac_by_id ?ac = ac_by_id ac"
      using es that(2,5) by (cases p) (auto simp: sent_payloads_def map_filter_def same_tools_refl)
    then show "tracks off (claude_event_step now ev s) ?ac"
      "\<And>c. fresh_call s ac c \<Longrightarrow> fresh_call (claude_event_step now ev s) ?ac c"
      using tracks_same [OF assms(1) _ _ that(3,4)] fresh_same [OF _ that(3)] by blast+
  qed
  show ?thesis
  proof (cases ev)
    case (ClaudeText i d)
    then show ?thesis
      using same [of "StreamText d" "Some (TextDelta d)"] shape_text [of jt _ d ac]
      by (simp add: on_stream_def shape_def same_tools_text)
  next
    case (ClaudeThinking i d)
    then show ?thesis
      using same [of "StreamReasoning d" "Some (ReasoningEvent d)"] shape_reasoning [of jt _ d ac]
      by (simp add: on_stream_def shape_def same_tools_reasoning)
  next
    case (ClaudeSignature i g)
    then show ?thesis using same [of "StreamSignature g" None] by (simp add: on_stream_def)
  next
    case (ClaudeBlockStop i)
    show ?thesis
    proof (cases "map_of (cs_thinking_at s) i")
      case (Some t)
      then show ?thesis
        using ClaudeBlockStop same [of "StreamDuration (nat (now - t))" "Some (ReasoningDuration (nat (now - t)))"]
          shape_duration [of jt _ "nat (now - t)" ac]
        by (simp add: on_stream_def shape_def same_tools_duration)
    qed (use quiet ClaudeBlockStop in simp)
  next
    case (ClaudeToolStart i cid name)
    then have f: "fresh_call s ac (i, cid, name)" using assms(2) by simp
    let ?n = "length (cs_ordinals s)" let ?s = "claude_event_step now ev s"
    have free: "ac_by_index ac (off + ?n) = None" using assms(1) by (simp add: tracks_def)
    have new: "map_of (cs_ordinals s) i = None" using assms(1) f by (simp add: tracks_def fresh_call_def)
    show ?thesis
    proof (intro exI [of _ "[StreamCall ?n (Some cid) (Some name) None]"] conjI allI impI)
      show "cs_sent ?s = cs_sent s @ [StreamCall ?n (Some cid) (Some name) None]"
        by (simp add: ClaudeToolStart start_claude_tool_def on_stream_def Let_def)
      fix es :: "(int \<times> event_payload) list" assume "map snd es = sent_payloads off [StreamCall ?n (Some cid) (Some name) None]"
      then obtain t where es: "es = [(t, ToolCallDelta (off + ?n) (Some cid) (Some name) None)]"
        by (auto simp: sent_payloads_def map_filter_def)
      let ?ac = "fold (on_event jt) es ac"
      have shape: "ac_parts ?ac = ac_parts ac @ [ToolPart (new_tool_part (Some cid) (Some name))]"
        "ac_by_index ?ac = (ac_by_index ac)(off + ?n \<mapsto> length (ac_parts ac))"
        "ac_by_id ?ac = (ac_by_id ac)(cid \<mapsto> length (ac_parts ac))"
        using shape_new_call [OF _ free, of cid name jt t] f by (simp_all add: es shape_def fresh_call_def)
      have tools: "map_of (cs_tools ?s) = (map_of (cs_tools s))(i \<mapsto> \<lparr>tm_id = cid, tm_name = name, tm_args = []\<rparr>)"
        "map_of (cs_ordinals ?s) = (map_of (cs_ordinals s))(i \<mapsto> ?n)" "length (cs_ordinals ?s) = ?n + 1"
        "cs_tools ?s = bt_put i \<lparr>tm_id = cid, tm_name = name, tm_args = []\<rparr> (cs_tools s)"
        using length_bt_put [OF new]
        by (simp_all add: ClaudeToolStart start_claude_tool_def on_stream_def Let_def map_of_bt_put)
      have old: "\<exists>pos u. part_of off ?s ?ac j t pos u" if old_call: "map_of (cs_tools s) j = Some t" for j t
      proof -
        obtain pos u where p: "part_of off s ac j t pos u" using tracks_part [OF assms(1) old_call] by blast
        moreover from this obtain n where "map_of (cs_ordinals s) j = Some n" "n < ?n"
          "ac_by_index ac (off + n) = Some pos" by (auto simp: part_of_def)
        moreover have "j \<noteq> i" using old_call f by (auto simp: fresh_call_def)
        ultimately show ?thesis
          unfolding part_of_def
          by (intro exI [of _ pos] exI [of _ u] conjI exI [of _ n]) (auto simp: shape tools tool_at_snoc)
      qed
      have self: "\<exists>pos u. part_of off ?s ?ac i \<lparr>tm_id = cid, tm_name = name, tm_args = []\<rparr> pos u"
        using f
        by (intro exI [of _ "length (ac_parts ac)"] exI [of _ "new_tool_part (Some cid) (Some name)"])
          (simp add: part_of_def shape tools tool_at_snoc new_tool_part_def fresh_call_def nonblank_def identified_def)
      show "tracks off ?s ?ac"
        unfolding tracks_def
      proof (intro conjI allI impI)
        fix j t assume "map_of (cs_tools ?s) j = Some t"
        then show "\<exists>pos u. part_of off ?s ?ac j t pos u"
          using old self by (auto simp: tools(1) split: if_splits)
      next
        fix j k t u
        assume "map_of (cs_tools ?s) j = Some t" "map_of (cs_tools ?s) k = Some u" "tm_id t = tm_id u"
        moreover have "tm_id w \<noteq> cid" if "map_of (cs_tools s) l = Some w" for l w
          using f that by (auto simp: fresh_call_def)
        moreover have "l = m" if "map_of (cs_tools s) l = Some w" "map_of (cs_tools s) m = Some x" "tm_id w = tm_id x"
          for l m w x using assms(1) that unfolding tracks_def by blast
        ultimately show "j = k" unfolding tools(1) by (auto split: if_splits) (metis)+
      next
        show "(map_of (cs_tools ?s) j = None) = (map_of (cs_ordinals ?s) j = None)" for j
          using assms(1) by (simp add: tools(1,2) tracks_def)
        show "ac_by_index ?ac (off + n) = None" if "length (cs_ordinals ?s) \<le> n" for n
          using assms(1) that by (simp add: tools(3) shape tracks_def)
        show "sorted_wrt (<) (map fst (cs_tools ?s))"
          using assms(1) by (simp add: tools(4) tracks_def distinct_bt_put)
      qed
      fix c assume "\<forall>d. new_call ev = Some d \<longrightarrow> fst c \<noteq> fst d \<and> fst (snd c) \<noteq> fst (snd d)" "fresh_call s ac c"
      then show "fresh_call ?s ?ac c"
        by (auto simp: ClaudeToolStart fresh_call_def shape start_claude_tool_def on_stream_def Let_def map_of_bt_put
            split: if_splits)
    qed
  next
    case (ClaudeToolArgs i d)
    let ?s = "claude_event_step now ev s"
    show ?thesis
    proof (cases "map_of (cs_tools s) i")
      case None
      then have "map_of (cs_ordinals s) i = None" using assms(1) by (simp add: tracks_def)
      then show ?thesis using None quiet by (simp add: ClaudeToolArgs add_claude_args_def)
    next
      case (Some t)
      then obtain pos u where p: "part_of off s ac i t pos u" using tracks_part [OF assms(1)] by blast
      then obtain n where n: "map_of (cs_ordinals s) i = Some n" "ac_by_index ac (off + n) = Some pos"
        and u: "tool_at (ac_parts ac) pos u" by (auto simp: part_of_def)
      show ?thesis
      proof (intro exI [of _ "[StreamCall n None None (Some d)]"] conjI allI impI)
        show "cs_sent ?s = cs_sent s @ [StreamCall n None None (Some d)]"
          using Some n by (simp add: ClaudeToolArgs add_claude_args_def on_stream_def)
        fix es :: "(int \<times> event_payload) list" assume "map snd es = sent_payloads off [StreamCall n None None (Some d)]"
        then obtain tm where es: "es = [(tm, ToolCallDelta (off + n) None None (Some d))]"
          by (auto simp: sent_payloads_def map_filter_def)
        let ?ac = "fold (on_event jt) es ac" let ?u = "u\<lparr>tp_arguments := tp_arguments u @ d\<rparr>"
        have shape: "ac_parts ?ac = (ac_parts ac)[pos := ToolPart ?u]" "ac_by_index ?ac = ac_by_index ac"
          "ac_by_id ?ac = ac_by_id ac"
          using shape_args [OF n(2) u, of jt tm d] by (simp_all add: es shape_def)
        have tools: "map_of (cs_tools ?s) = (map_of (cs_tools s))(i \<mapsto> t\<lparr>tm_args := tm_args t @ d\<rparr>)"
          "cs_ordinals ?s = cs_ordinals s" "cs_tools ?s = bt_put i (t\<lparr>tm_args := tm_args t @ d\<rparr>) (cs_tools s)"
          using Some n by (simp_all add: ClaudeToolArgs add_claude_args_def on_stream_def map_of_bt_put)
        have old: "\<exists>pos v. part_of off ?s ?ac j w pos v" if w: "map_of (cs_tools s) j = Some w" "j \<noteq> i" for j w
        proof -
          obtain q v where q: "part_of off s ac j w q v" using tracks_part [OF assms(1) w(1)] by blast
          have "q \<noteq> pos"
          proof
            assume "q = pos"
            then have "v = u" using q u by (auto simp: part_of_def intro: tool_at_fun)
            then have "tm_id w = tm_id t" using p q \<open>q = pos\<close> u by (auto simp: part_of_def dest: tool_at_fun)
            then show False using assms(1) w Some unfolding tracks_def by blast
          qed
          then show ?thesis
            using q tool_at_update [OF u] by (intro exI [of _ q] exI [of _ v]) (auto simp: part_of_def shape tools(2))
        qed
        have self: "\<exists>pos v. part_of off ?s ?ac i (t\<lparr>tm_args := tm_args t @ d\<rparr>) pos v"
          using p tool_at_update [OF u] tool_at_fun [OF u]
          by (intro exI [of _ pos] exI [of _ ?u]) (auto simp: part_of_def shape tools(2))
        show "tracks off ?s ?ac"
          unfolding tracks_def
        proof (intro conjI allI impI)
          fix j w assume "map_of (cs_tools ?s) j = Some w"
          then show "\<exists>pos u. part_of off ?s ?ac j w pos u"
            using old self by (auto simp: tools(1) split: if_splits)
        next
          fix j k w v
          assume "map_of (cs_tools ?s) j = Some w" "map_of (cs_tools ?s) k = Some v" "tm_id w = tm_id v"
          then show "j = k"
            using Some assms(1) unfolding tools(1) tracks_def
            by (auto split: if_splits)
        next
          show "(map_of (cs_tools ?s) j = None) = (map_of (cs_ordinals ?s) j = None)" for j
            using assms(1) n(1) by (simp add: tools(1,2) tracks_def)
          show "ac_by_index ?ac (off + n) = None" if "length (cs_ordinals ?s) \<le> n" for n
            using assms(1) that by (simp add: tools(2) shape tracks_def)
          show "sorted_wrt (<) (map fst (cs_tools ?s))"
            using assms(1) by (simp add: tools(3) tracks_def distinct_bt_put)
        qed
        fix c assume "fresh_call s ac c"
        then show "fresh_call ?s ?ac c"
          using Some by (auto simp: fresh_call_def tools(1) shape split: if_splits)
      qed
    qed
  qed (use quiet in simp_all)
qed

text \<open>All events of an answer.\<close>

lemma claude_steps_track:
  assumes "tracks off s ac" and "list_all (fresh_call s ac) (new_calls evs)"
    and "distinct (map fst (new_calls evs))" and "distinct (map (fst \<circ> snd) (new_calls evs))"
    and "length ts = length evs"
  shows "\<exists>xs. cs_sent (fold (\<lambda>(t, ev). claude_event_step t ev) (zip ts evs) s) = cs_sent s @ xs \<and>
    (\<forall>es. map snd es = sent_payloads off xs \<longrightarrow>
      tracks off (fold (\<lambda>(t, ev). claude_event_step t ev) (zip ts evs) s) (fold (on_event jt) es ac))"
  using assms(5,1-4)
proof (induction ts evs arbitrary: s ac rule: list_induct2)
  case Nil
  then show ?case by (intro exI [of _ "[]"]) (auto simp: sent_payloads_def map_filter_def)
next
  case (Cons t ts ev evs)
  let ?s = "claude_event_step t ev s"
  have calls: "new_calls (ev # evs) = (case new_call ev of Some c \<Rightarrow> [c] | None \<Rightarrow> []) @ new_calls evs"
    by (simp add: new_calls_def map_filter_def split: option.split)
  have now: "\<forall>c. new_call ev = Some c \<longrightarrow> fresh_call s ac c" using Cons.prems(2) by (auto simp: calls)
  obtain xs where xs: "cs_sent ?s = cs_sent s @ xs"
      "\<And>es. map snd es = sent_payloads off xs \<Longrightarrow> tracks off ?s (fold (on_event jt) es ac) \<and>
        (\<forall>c. (\<forall>d. new_call ev = Some d \<longrightarrow> fst c \<noteq> fst d \<and> fst (snd c) \<noteq> fst (snd d)) \<longrightarrow>
          fresh_call s ac c \<longrightarrow> fresh_call ?s (fold (on_event jt) es ac) c)"
    using claude_step_tracks [OF Cons.prems(1) now, of t jt] by blast
  have later: "list_all (fresh_call ?s (fold (on_event jt) es ac)) (new_calls evs)"
    if "map snd es = sent_payloads off xs" for es
    unfolding list_all_iff
  proof
    fix c assume c: "c \<in> set (new_calls evs)"
    have "fst c \<noteq> fst d \<and> fst (snd c) \<noteq> fst (snd d)" if "new_call ev = Some d" for d
    proof -
      have "fst d \<notin> fst ` set (new_calls evs)" "(fst \<circ> snd) d \<notin> (fst \<circ> snd) ` set (new_calls evs)"
        using Cons.prems(3,4) that by (simp_all add: calls)
      then show ?thesis using c by (metis comp_apply imageI)
    qed
    moreover have "fresh_call s ac c" using Cons.prems(2) c by (simp add: calls list_all_iff)
    ultimately show "fresh_call ?s (fold (on_event jt) es ac) c" using xs(2) [OF that] by blast
  qed
  have dist: "distinct (map fst (new_calls evs))" "distinct (map (fst \<circ> snd) (new_calls evs))"
    using Cons.prems(3,4) unfolding calls by (simp_all only: map_append distinct_append)
  let ?e = "map (Pair 0) (sent_payloads off xs)"
  have "map snd ?e = sent_payloads off xs" by (simp add: comp_def)
  note step = xs(2) [OF this, THEN conjunct1] later [OF this]
  obtain ys where ys: "cs_sent (fold (\<lambda>(t, ev). claude_event_step t ev) (zip ts evs) ?s) = cs_sent ?s @ ys"
    using Cons.IH [OF step dist] by blast
  show ?case
  proof (intro exI [of _ "xs @ ys"] conjI allI impI)
    show "cs_sent (fold (\<lambda>(t, ev). claude_event_step t ev) (zip (t # ts) (ev # evs)) s) = cs_sent s @ xs @ ys"
      using xs(1) ys by simp
    fix es :: "(int \<times> event_payload) list" assume es: "map snd es = sent_payloads off (xs @ ys)"
    let ?n = "length (sent_payloads off xs)"
    have split: "map snd (take ?n es) = sent_payloads off xs" "map snd (drop ?n es) = sent_payloads off ys"
      using es by (simp_all add: take_map [symmetric] drop_map [symmetric] sent_payloads_def map_filter_def)
    obtain zs where zs: "cs_sent (fold (\<lambda>(t, ev). claude_event_step t ev) (zip ts evs) ?s) = cs_sent ?s @ zs"
        "\<And>es'. map snd es' = sent_payloads off zs \<Longrightarrow>
          tracks off (fold (\<lambda>(t, ev). claude_event_step t ev) (zip ts evs) ?s)
            (fold (on_event jt) es' (fold (on_event jt) (take ?n es) ac))"
      using Cons.IH [OF xs(2) [OF split(1), THEN conjunct1] later [OF split(1)] dist] by blast
    then have "zs = ys" using ys by simp
    then have "tracks off (fold (\<lambda>(t, ev). claude_event_step t ev) (zip ts evs) ?s)
        (fold (on_event jt) (take ?n es @ drop ?n es) ac)"
      using zs(2) [of "drop ?n es"] split(2) by (simp only: fold_append comp_apply)
    then show "tracks off (fold (\<lambda>(t, ev). claude_event_step t ev) (zip (t # ts) (ev # evs)) s)
        (fold (on_event jt) es ac)"
      by simp
  qed
qed

text \<open>C12. The surface sees the calls that are executed: when the events the client hands on while it reads an
  answer are folded into the accumulator of the run, at whatever offset and behind whatever came
  before, each call of the answer has a tool part of its own with its id, its name and, as text, its
  arguments.\<close>

theorem streamed_calls_are_shown:
  assumes "length ts = length evs"
    and "s = fold (\<lambda>(t, ev). claude_event_step t ev) (zip ts evs) claude_begin"
    and "map snd es = sent_payloads off (cs_sent s)"
    and "distinct (map fst (new_calls evs))" and "distinct (map (fst \<circ> snd) (new_calls evs))"
    and "\<forall>c \<in> set (new_calls evs). identified (fst (snd c)) \<and> identified (snd (snd c)) \<and>
      ac_by_id ac (fst (snd c)) = None"
    and "\<forall>n. off \<le> n \<longrightarrow> ac_by_index ac n = None"
  shows "\<forall>c \<in> set (map (claude_call pj \<circ> snd) (cs_tools s)). \<exists>pos u.
    tool_at (ac_parts (fold (on_event jt) es ac)) pos u \<and> tp_id u = ce_id c \<and> tp_name u = ce_name c \<and>
    ce_input c = (case pj (tp_arguments u) of Some v \<Rightarrow> v | None \<Rightarrow> JStr (tp_arguments u))"
proof
  fix c assume "c \<in> set (map (claude_call pj \<circ> snd) (cs_tools s))"
  then obtain i t where t: "(i, t) \<in> set (cs_tools s)" "c = claude_call pj t" by auto
  have "tracks off claude_begin ac" using assms(7) by (simp add: tracks_def claude_begin_def)
  moreover have "list_all (fresh_call claude_begin ac) (new_calls evs)"
    using assms(6) by (simp add: list_all_iff fresh_call_def claude_begin_def)
  ultimately obtain xs where "cs_sent s = cs_sent claude_begin @ xs"
      "map snd es = sent_payloads off xs \<Longrightarrow> tracks off s (fold (on_event jt) es ac)"
    using claude_steps_track [OF _ _ assms(4,5,1), of off claude_begin ac jt] assms(2) by blast
  then have tr: "tracks off s (fold (on_event jt) es ac)" using assms(3) by (simp add: claude_begin_def)
  then have "distinct (map fst (cs_tools s))"
    using strict_sorted_iff [of "map fst (cs_tools s)"] by (simp add: tracks_def)
  then have "map_of (cs_tools s) i = Some t" using t(1) by (simp add: map_of_is_SomeI)
  then obtain pos u where "part_of off s (fold (on_event jt) es ac) i t pos u" using tracks_part [OF tr] by blast
  then show "\<exists>pos u. tool_at (ac_parts (fold (on_event jt) es ac)) pos u \<and> tp_id u = ce_id c \<and>
      tp_name u = ce_name c \<and> ce_input c = (case pj (tp_arguments u) of Some v \<Rightarrow> v | None \<Rightarrow> JStr (tp_arguments u))"
    using t(2) by (intro exI [of _ pos] exI [of _ u]) (auto simp: part_of_def claude_call_def split: option.split)
qed

lemma streamed_calls_are_shown_witness:
  "\<exists>pos u. tool_at (ac_parts (fold (on_event (\<lambda>j. [])) [(0, ToolCallDelta 2 (Some ''t1'') (Some ''Read'') None),
      (5, ToolCallDelta 2 None None (Some ''x''))] new_accumulator)) pos u \<and>
    tp_id u = ''t1'' \<and> tp_name u = ''Read'' \<and> tp_arguments u = ''x''"
proof -
  let ?evs = "[ClaudeToolStart 1 ''t1'' ''Read'', ClaudeToolArgs 1 ''x'']"
  let ?s = "fold (\<lambda>(t, ev). claude_event_step t ev) (zip [0, 5] ?evs) claude_begin"
  have s: "cs_tools ?s = [(1, \<lparr>tm_id = ''t1'', tm_name = ''Read'', tm_args = ''x''\<rparr>)]" by code_simp
  have id: "identified ''t1''" "identified ''Read''" by code_simp+
  have "\<forall>c \<in> set (map (claude_call Map.empty \<circ> snd) (cs_tools ?s)). \<exists>pos u.
      tool_at (ac_parts (fold (on_event (\<lambda>j. [])) [(0, ToolCallDelta 2 (Some ''t1'') (Some ''Read'') None),
        (5, ToolCallDelta 2 None None (Some ''x''))] new_accumulator)) pos u \<and> tp_id u = ce_id c \<and>
      tp_name u = ce_name c \<and>
      ce_input c = (case Map.empty (tp_arguments u) of Some v \<Rightarrow> v | None \<Rightarrow> JStr (tp_arguments u))"
  proof (rule streamed_calls_are_shown [where evs = ?evs and ts = "[0, 5]" and off = 2, OF _ refl])
    show "map snd [(0 :: int, ToolCallDelta 2 (Some ''t1'') (Some ''Read'') None),
        (5, ToolCallDelta 2 None None (Some ''x''))] = sent_payloads 2 (cs_sent ?s)"
      by code_simp
  qed (simp_all add: new_calls_def map_filter_def id new_accumulator_def)
  then show ?thesis unfolding s by (simp add: claude_call_def eq_commute [of "''x''"])
qed

end
