(* ===== verification/Chat_Laws.thy ===== *)
theory Chat_Laws
  imports Wire_Laws Claude_Calls
begin

text \<open>
  What OpenAI gets and what a broken answer of a provider becomes: calls and results in the messages of
  a chat, the arguments of calls put together from deltas, answers that end too early, and the parts
  of a response.
\<close>

section \<open>Calls and results in a chat\<close>

definition chat_called :: "json \<Rightarrow> str list" where
  "chat_called m =
     (case as_array (json_at m ''tool_calls'') of
        Some cs \<Rightarrow> map (\<lambda>c. str_or_empty (json_at c ''id'')) cs | None \<Rightarrow> [])"

definition has_role :: "str \<Rightarrow> json \<Rightarrow> bool" where
  "has_role r m \<longleftrightarrow> as_str (json_at m ''role'') = Some r"

text \<open>What the interface asks for: after a message with calls come the results of these calls, in their
  order, before any other message.\<close>

fun chat_paired :: "str list \<Rightarrow> json list \<Rightarrow> bool" where
  "chat_paired waiting [] \<longleftrightarrow> waiting = []"
| "chat_paired waiting (m # ms) \<longleftrightarrow>
     (if has_role ''tool'' m
      then waiting \<noteq> [] \<and> str_or_empty (json_at m ''tool_call_id'') = hd waiting \<and> chat_paired (tl waiting) ms
      else waiting = [] \<and> chat_paired (chat_called m) ms)"

definition no_images :: "tool_result \<Rightarrow> bool" where
  "no_images r \<longleftrightarrow> List.map_filter image_data_url (tr_attachments r) = []"

text \<open>Only the last result of a batch has images.\<close>

definition images_come_last :: "transcript_entry \<Rightarrow> bool" where
  "images_come_last e \<longleftrightarrow> (case e of ToolResults rs \<Rightarrow> list_all no_images (butlast rs) | _ \<Rightarrow> True)"

lemma chat_paired_user: "chat_paired w (chat_message ''user'' v # ms) \<longleftrightarrow> w = [] \<and> chat_paired [] ms"
  by (simp add: chat_message_def has_role_def chat_called_def json_at_obj)

lemma chat_paired_system: "chat_paired [] (chat_message ''system'' v # ms) \<longleftrightarrow> chat_paired [] ms"
  by (simp add: chat_message_def has_role_def chat_called_def json_at_obj)

lemma chat_assistant_fields:
  "json_at (chat_assistant js e) ''role'' = JStr ''assistant''"
  "chat_called (chat_assistant js e) = map ce_id (ae_tool_calls e)"
  by (simp_all add: chat_assistant_def chat_called_def chat_message_def Let_def json_at_obj json_at_def comp_def
      chat_call_def)

lemma chat_paired_assistant:
  "chat_paired [] (chat_assistant js e # ms) \<longleftrightarrow> chat_paired (map ce_id (ae_tool_calls e)) ms"
  by (simp add: has_role_def chat_assistant_fields)

lemma chat_paired_tool:
  "chat_paired w (chat_tool_message r # ms) \<longleftrightarrow> w \<noteq> [] \<and> tr_call_id r = hd w \<and> chat_paired (tl w) ms"
  by (simp add: chat_tool_message_def has_role_def json_at_obj)

lemma chat_paired_results:
  "chat_paired (map tr_call_id rs) (concat (map chat_result rs) @ ms) \<longleftrightarrow>
    list_all no_images (butlast rs) \<and> chat_paired [] ms"
proof (induction rs)
  case (Cons r rs)
  then show ?case
    by (auto simp: chat_result_def Let_def chat_paired_tool chat_paired_user no_images_def
        simp del: chat_paired.simps(2))
qed simp

lemma chat_entries_paired:
  "paired es \<Longrightarrow> chat_paired [] (concat (map (chat_entry js) es)) \<longleftrightarrow> list_all images_come_last es"
proof (induction es rule: paired.induct)
  case (4 a es)
  show ?case
  proof (cases "ae_tool_calls a = []")
    case True
    then show ?thesis using 4 by (simp add: chat_paired_assistant images_come_last_def del: chat_paired.simps(2))
  next
    case False
    then obtain rs fs where es: "es = ToolResults rs # fs" "answers (ae_tool_calls a) rs" "paired fs"
      using 4(3) by (auto split: list.splits transcript_entry.splits)
    show ?thesis
      using 4(2) False es answers_ids [OF es(2)]
      by (simp add: chat_paired_assistant chat_paired_results images_come_last_def del: chat_paired.simps(2))
  qed
qed (simp_all add: chat_paired_user images_come_last_def del: chat_paired.simps(2))

text \<open>The dialect of DeepSeek changes neither roles nor ids.\<close>

lemma chat_paired_map:
  assumes "\<And>m k. k \<in> {''role'', ''tool_calls'', ''tool_call_id''} \<Longrightarrow> json_at (f m) k = json_at m k"
  shows "chat_paired w (map f ms) = chat_paired w ms"
  by (induction ms arbitrary: w) (simp_all add: has_role_def chat_called_def assms)

lemma deepseek_message_at:
  "k \<in> {''role'', ''tool_calls'', ''tool_call_id''} \<Longrightarrow> json_at (deepseek_message m) k = json_at m k"
  by (cases "is_object m") (auto simp: deepseek_message_def Let_def put_at put_other)

lemma removed_at: "k' \<noteq> k \<Longrightarrow> json_at (json_remove k m) k' = json_at m k'"
  by (simp add: json_at_def)

lemma deepseek_compat_messages:
  assumes "is_object body" and "json_get body ''messages'' = Some (JArr ms)"
  shows "\<exists>ms'. json_get (apply_deepseek_compat lower req body) ''messages'' = Some (JArr ms') \<and>
    chat_paired [] ms' = chat_paired [] ms"
proof -
  have f: "chat_paired [] (map deepseek_message ms) = chat_paired [] ms"
    "chat_paired [] (map (json_remove ''reasoning_content'') ms) = chat_paired [] ms"
    by (rule chat_paired_map, simp add: deepseek_message_at) (rule chat_paired_map, auto simp: removed_at)
  show ?thesis
    using assms by (simp add: apply_deepseek_compat_def map_messages_def f)
qed

text \<open>C35. The messages of a chat keep calls and results together exactly when no result before the last of a
  batch has an image: the images of a result go into a message of the user right behind it, so that the
  results behind it are cut off from their calls.\<close>

theorem images_cut_results_from_calls:
  assumes "paired (cq_entries req)"
  shows "\<exists>ms. json_get (chat_body js lower req stream) ''messages'' = Some (JArr ms) \<and>
    chat_paired [] ms = list_all images_come_last (cq_entries req)"
proof -
  define ms where "ms = JArr (chat_messages js (cq_system req) (cq_entries req))"
  define good where "good b \<longleftrightarrow> is_object b \<and> json_get b ''messages'' = Some ms" for b
  have put: "good (if c then json_put k v b else b)" "good (if c then b else json_put k v b)"
    "good (case opt of Some e \<Rightarrow> json_put k (g e) b | None \<Rightarrow> b)"
    if "good b" "k \<noteq> ''messages''" for c k v b g and opt :: "str option"
    using that by (auto simp: good_def split: option.split)
  let ?basic = "JObj [(''model'', JStr (cq_model req)),
    (''messages'', ms), (''stream'', JBool stream)]"
  let ?streamed = "if stream then json_put ''stream_options'' (JObj [(''include_usage'', JBool True)]) ?basic else ?basic"
  let ?tooled = "if cq_tools req = [] then ?streamed else json_put ''tools'' (JArr (openai_tool_defs (cq_tools req))) ?streamed"
  let ?body = "case openai_effort_of req of Some e \<Rightarrow> json_put ''reasoning_effort'' (JStr e) ?tooled | None \<Rightarrow> ?tooled"
  have "chat_paired [] (chat_messages js (cq_system req) (cq_entries req)) = list_all images_come_last (cq_entries req)"
    using chat_entries_paired [OF assms]
    by (auto simp: chat_messages_def chat_paired_system simp del: chat_paired.simps(2) split: option.split)
  moreover have "good ?basic" by (simp add: good_def)
  then have "good ?streamed" by (rule put(1)) simp
  then have "good ?tooled" by (rule put(2)) simp
  then have "good ?body" by (rule put(3)) simp
  moreover have "chat_body js lower req stream = apply_deepseek_compat lower req ?body"
    by (simp only: chat_body_def Let_def ms_def)
  ultimately have body: "good ?body" "chat_body js lower req stream = apply_deepseek_compat lower req ?body"
    "chat_paired [] (chat_messages js (cq_system req) (cq_entries req)) = list_all images_come_last (cq_entries req)"
    by blast+
  show ?thesis
    using deepseek_compat_messages [of ?body _ lower req] body(1,3) unfolding body(2) good_def ms_def by fastforce
qed

section \<open>Answers that end too early\<close>

lemma stop_kept:
  assumes "fst e \<noteq> ''message_delta''" shows "cs_stop (claude_json t e s) = cs_stop s"
proof -
  have "cs_stop (claude_event_step t ev s) = cs_stop s" if "\<nexists>sr u. ev = ClaudeMessageDelta sr u" for ev
    using that by (cases ev) (auto simp: on_stream_def start_claude_tool_def add_claude_args_def Let_def
        split: option.split)
  moreover have "\<nexists>sr u. ev = ClaudeMessageDelta sr u" if "parse_claude_event (fst e) (snd e) = Some ev" for ev
    using that assms
    by (auto simp: parse_claude_event_def claude_block_start_def claude_block_delta_def Let_def
        split: if_splits option.splits)
  ultimately show ?thesis by (auto simp: claude_json_def split: option.split)
qed

lemma stops_kept:
  "\<forall>e \<in> set es. fst e \<noteq> ''message_delta'' \<Longrightarrow> length us = length es \<Longrightarrow>
    cs_stop (claude_jsons (timed us es) s) = cs_stop s"
proof (induction es arbitrary: us s)
  case (Cons e es)
  then obtain u us' where "us = u # us'" by (cases us) auto
  then show ?case using Cons by (simp add: timed_def stop_kept)
qed (simp add: timed_def)

text \<open>C36. An answer that breaks off counts as finished: when the connection ends before the server said why
  the message ends, whatever it sent by then, the client returns an answer that ended by itself. The
  calls in it are dropped, and the text looks complete.\<close>

theorem broken_answer_counts_as_finished:
  assumes "send req = Inr (map (\<lambda>(t, p). Chunk t p) ps)" and "list_all valid_utf8 (map snd ps)"
    and "concat (map snd ps) = sse_text js es"
    and "\<forall>e \<in> set es. event_name (fst e) \<and> one_line pj js (snd e)"
    and "''message_delta'' \<notin> fst ` set es"
    and "\<not> has_image_generation_tool (cq_tools req)"
  shows "\<exists>g t r u. fst (claude_stream pj send req) = Inr (g, ModelDone FinishStop t r [] u)"
proof -
  have "cr \<notin> set (concat (map snd ps))"
    using assms(4) unfolding assms(3) by (auto simp: sse_text_def sse_frame_of_def event_name_def one_line_def)
  moreover have "fst (sse_frames (concat (map snd ps))) = map (sse_frame_of js) es"
    unfolding assms(3) by (simp add: sse_frames_text [OF assms(4)])
  moreover have "take_sse_frame [] = None" by (simp add: take_sse_frame_def)
  ultimately obtain us where us: "length us = length es"
      "read_chunks (claude_frame pj) (map (\<lambda>(t, p). Chunk t p) ps) [] claude_begin =
        run_steps (\<lambda>(t, frame). claude_frame pj t frame) (zip us (map (sse_frame_of js) es)) claude_begin"
    using read_chunks_timed [of "[]" ps "claude_frame pj" claude_begin] assms(2) by auto
  obtain x where x: "run_steps (\<lambda>(t, frame). claude_frame pj t frame) (zip us (map (sse_frame_of js) es)) claude_begin =
      (None, (claude_jsons (timed us es) claude_begin)\<lparr>cs_event := x\<rparr>)"
    using claude_frames_of [OF assms(4) us(1)] by blast
  have "cs_stop (claude_jsons (timed us es) claude_begin) = None"
    using stops_kept [OF _ us(1)] assms(5) by (force simp: claude_begin_def)
  then show ?thesis
    using x us(2) assms(1,6)
    by (simp add: claude_stream_def claude_answer_def finish_answer_def map_anthropic_finish_def)
qed

section \<open>A streamed chat\<close>

text \<open>What the deltas with one index make together: the last id and the last name that are not blank, and
  the arguments one behind the other.\<close>

definition last_some :: "('a \<Rightarrow> 'b option) \<Rightarrow> 'a list \<Rightarrow> 'b option" where
  "last_some f xs = (case List.map_filter f xs of [] \<Rightarrow> None | ys \<Rightarrow> Some (last ys))"

definition call_of_deltas :: "chat_delta list \<Rightarrow> partial_call" where
  "call_of_deltas ds =
     \<lparr>pl_id = last_some (nonblank \<circ> cd_id) ds, pl_name = last_some (nonblank \<circ> cd_name) ds,
      pl_arguments = concat (List.map_filter cd_arguments ds)\<rparr>"

definition calls_of_deltas :: "chat_delta list \<Rightarrow> partial_call list" where
  "calls_of_deltas ds =
     map (\<lambda>i. call_of_deltas (filter (\<lambda>d. cd_index d = i) ds)) [0..<fold (\<lambda>d. max (Suc (cd_index d))) ds 0]"

definition all_text :: "('a \<Rightarrow> str option) \<Rightarrow> 'a list \<Rightarrow> str" where
  "all_text f xs = concat (List.map_filter f xs)"

lemma map_filter_snoc: "List.map_filter f (xs @ [x]) = List.map_filter f xs @ (case f x of Some y \<Rightarrow> [y] | None \<Rightarrow> [])"
  by (simp add: map_filter_def split: option.split)

lemma last_some_snoc: "last_some f (xs @ [x]) = first_of (f x) (last_some f xs)"
  by (cases "f x"; cases "List.map_filter f xs") (simp_all add: last_some_def map_filter_snoc)

lemma all_text_snoc: "all_text f (xs @ [x]) = all_text f xs @ (case f x of Some y \<Rightarrow> y | None \<Rightarrow> [])"
  by (simp add: all_text_def map_filter_snoc split: option.split)

lemma call_of_deltas_snoc: "call_of_deltas (ds @ [d]) = merge_call_delta d (call_of_deltas ds)"
  using all_text_snoc [of cd_arguments ds d]
  by (simp add: call_of_deltas_def merge_call_delta_def last_some_snoc all_text_def)

lemma call_of_no_deltas: "call_of_deltas [] = no_call"
  by (simp add: call_of_deltas_def no_call_def last_some_def map_filter_def)

lemma index_bound: "d \<in> set ds \<Longrightarrow> cd_index d < fold (\<lambda>d. max (Suc (cd_index d))) ds 0"
  by (induction ds rule: rev_induct) auto

lemma calls_of_deltas_snoc: "calls_of_deltas (ds @ [d]) = apply_tool_call_delta d (calls_of_deltas ds)"
proof -
  let ?n = "fold (\<lambda>d. max (Suc (cd_index d))) ds 0" let ?i = "cd_index d"
  let ?of = "\<lambda>ds j. call_of_deltas (filter (\<lambda>d. cd_index d = j) ds)"
  have none: "?of ds j = no_call" if "?n \<le> j" for j
  proof -
    have "filter (\<lambda>d. cd_index d = j) ds = []" using index_bound [of _ ds] that by (fastforce simp: filter_empty_conv)
    then show ?thesis by (simp add: call_of_no_deltas)
  qed
  have wide: "map (?of ds) [0..<?n] @ replicate (Suc ?i - ?n) no_call = map (?of ds) [0..<max (Suc ?i) ?n]"
    using none by (intro nth_equalityI) (auto simp: nth_append)
  have there: "map (?of ds) [0..<max (Suc ?i) ?n] ! ?i = ?of ds ?i"
    by (subst nth_map) (simp, subst nth_upt, simp_all)
  have "apply_tool_call_delta d (calls_of_deltas ds) =
      (map (?of ds) [0..<max (Suc ?i) ?n])[?i := merge_call_delta d (?of ds ?i)]"
    unfolding apply_tool_call_delta_def calls_of_deltas_def Let_def by (simp add: wide there del: nth_map)
  also have "\<dots> = map (?of (ds @ [d])) [0..<max (Suc ?i) ?n]"
    by (intro nth_equalityI) (auto simp: nth_list_update call_of_deltas_snoc)
  finally show ?thesis by (simp add: calls_of_deltas_def)
qed

lemma chat_deltas:
  "ch_parts s = calls_of_deltas ds \<Longrightarrow> ch_parts (fold chat_delta_step es s) = calls_of_deltas (ds @ es)"
proof (induction es arbitrary: ds s)
  case (Cons e es)
  then show ?case
    using Cons.IH [of "chat_delta_step e s" "ds @ [e]"] by (simp add: chat_delta_step_def calls_of_deltas_snoc)
qed simp

lemma delta_step_fields:
  "ch_text (fold chat_delta_step es s) = ch_text s" "ch_reasoning (fold chat_delta_step es s) = ch_reasoning s"
  "ch_usage (fold chat_delta_step es s) = ch_usage s" "ch_finish (fold chat_delta_step es s) = ch_finish s"
  by (induction es arbitrary: s) (simp_all add: chat_delta_step_def)

lemma chat_frames:
  "ch_text (fold chat_frame_step fs chat_begin) = all_text cf_text fs \<and>
   ch_reasoning (fold chat_frame_step fs chat_begin) = all_text cf_reasoning fs \<and>
   ch_parts (fold chat_frame_step fs chat_begin) = calls_of_deltas (concat (map cf_calls fs)) \<and>
   ch_finish (fold chat_frame_step fs chat_begin) = last_some cf_finish fs \<and>
   ch_usage (fold chat_frame_step fs chat_begin) =
     (case last_some cf_usage fs of Some u \<Rightarrow> u | None \<Rightarrow> no_usage)"
proof (induction fs rule: rev_induct)
  case Nil
  show ?case by (simp add: chat_begin_def all_text_def last_some_def calls_of_deltas_def map_filter_def)
next
  case (snoc f fs)
  define s where "s = fold chat_frame_step fs chat_begin"
  define a where "a = add_text (cf_text f) (add_reasoning (cf_reasoning f) s)"
  have "ch_parts a = calls_of_deltas (concat (map cf_calls fs))"
    "ch_text a = all_text cf_text (fs @ [f])" "ch_reasoning a = all_text cf_reasoning (fs @ [f])"
    "ch_finish a = last_some cf_finish fs"
    "ch_usage a = (case last_some cf_usage fs of Some u \<Rightarrow> u | None \<Rightarrow> no_usage)"
    using snoc by (simp_all add: a_def s_def [symmetric] add_text_def add_reasoning_def all_text_snoc split: option.split)
  moreover have "fold chat_frame_step (fs @ [f]) chat_begin = chat_frame_step f s" by (simp add: s_def)
  moreover have "chat_frame_step f s = (fold chat_delta_step (cf_calls f) a)
      \<lparr>ch_usage := (case cf_usage f of Some u \<Rightarrow> u | None \<Rightarrow> ch_usage a),
       ch_finish := first_of (cf_finish f) (ch_finish a)\<rparr>"
    by (cases "cf_usage f") (simp_all add: chat_frame_step_def Let_def a_def [symmetric] delta_step_fields)
  ultimately show ?case
    using chat_deltas [of a "concat (map cf_calls fs)" "cf_calls f"]
    by (simp add: delta_step_fields last_some_snoc first_of_def split: option.split)
qed

text \<open>C21. The answer of a streamed chat is what its frames say together: text and thinking one behind the
  other, for each index the call its deltas make, in whatever order the deltas of different calls come,
  and the last usage and reason to end.\<close>

theorem streamed_chat_is_put_together:
  "chat_answer pj (fold chat_frame_step fs chat_begin) =
    (let calls = List.map_filter (finish_call pj) (calls_of_deltas (concat (map cf_calls fs)));
         usage = (case last_some cf_usage fs of Some u \<Rightarrow> u | None \<Rightarrow> no_usage)
     in ([], if calls = []
             then ModelDone (map_openai_finish (case last_some cf_finish fs of Some f \<Rightarrow> f | None \<Rightarrow> []))
                    (all_text cf_text fs) (all_text cf_reasoning fs) [] usage
             else ModelToolCalls (all_text cf_text fs) (all_text cf_reasoning fs) calls [] usage))"
  by (simp add: chat_answer_def finish_tool_calls_def Let_def chat_frames)

section \<open>The parts of a response\<close>

lemma clean_plain: "trim v = v \<Longrightarrow> v \<noteq> [] \<Longrightarrow> clean_optional (Some v) = Some v"
  by (simp add: clean_optional_def nonempty_opt_def)

lemma shape_colliding:
  assumes "ac_by_id ac iid = None" and "ac_by_index ac i = Some pos" and "tool_at (ac_parts ac) pos u"
    and "identified (tp_id u)" and "tp_id u \<noteq> iid" and "identified iid"
  shows "shape (on_event jt (t, ToolCallDelta i (Some iid) None (Some d)) ac) =
    (ac_parts ac @ [ToolPart ((new_tool_part (Some iid) None)\<lparr>tp_arguments := d\<rparr>)],
     (ac_by_index ac)(i \<mapsto> length (ac_parts ac)), (ac_by_id ac)(iid \<mapsto> length (ac_parts ac)))"
proof -
  let ?a = "mark_started t (ToolCallDelta i (Some iid) None (Some d)) ac"
  have a: "ac_parts (mark_started t p ac) = ac_parts ac" "ac_by_index (mark_started t p ac) = ac_by_index ac"
    "ac_by_id (mark_started t p ac) = ac_by_id ac" for p
    using shape_marked [of t p ac] by (simp_all add: shape_def)
  have n: "nonblank (Some iid) = Some iid" "nonblank None = None"
    using assms(6) by (simp_all add: nonblank_def identified_def)
  have u: "ac_parts ac ! pos = ToolPart u" "pos < length (ac_parts ac)" using assms(3) by (simp_all add: tool_at_def)
  have c: "collides (ToolPart u) (Some iid)" using assms(4,5) by (simp add: collides_def identified_def)
  have p: "(new_tool_part (Some iid) None)\<lparr>tp_id := iid\<rparr> = new_tool_part (Some iid) None"
    "tp_arguments (new_tool_part (Some iid) None) = []"
    by (simp_all add: new_tool_part_def)
  have "shape (apply_tool_delta i (Some iid) None (Some d) ?a) =
    (ac_parts ac @ [ToolPart ((new_tool_part (Some iid) None)\<lparr>tp_arguments := d\<rparr>)],
     (ac_by_index ac)(i \<mapsto> length (ac_parts ac)), (ac_by_id ac)(iid \<mapsto> length (ac_parts ac)))"
    using assms(1,2) a n u c p
    by (simp add: apply_tool_delta_def tool_position_def update_tool_def bind_id_def shape_def Let_def)
  then show ?thesis using shape_tool by (simp add: on_event_def del: record_tool.simps)
qed

text \<open>C37. A call of a streamed response leaves two parts: the item that begins it is announced with the id of
  the call, the arguments with the id of the item, and the accumulator takes the second id for another
  call. The part with the id of the call, under which it is executed, has no arguments; the other part
  has them.\<close>

theorem response_call_leaves_two_parts:
  assumes "as_str (json_at item ''type'') = Some ''function_call''"
    and "json_at item ''call_id'' = JStr cid" and "json_at item ''name'' = JStr name"
    and "trim cid = cid" "trim name = name" "trim iid = iid" "cid \<noteq> []" "name \<noteq> []" "iid \<noteq> []" "cid \<noteq> iid" "d \<noteq> []"
    and "s = responses_step (RespArgs (Some i) (Some iid) d) (responses_step (RespItem (Some i) item) responses_begin)"
    and "map snd es = sent_payloads off (rs_sent s)"
    and "ac_by_id ac cid = None" "ac_by_id ac iid = None" "ac_by_index ac (off + i) = None"
  shows "\<exists>u v. ac_parts (fold (on_event jt) es ac) = ac_parts ac @ [ToolPart u, ToolPart v] \<and>
    tp_id u = cid \<and> tp_name u = name \<and> tp_arguments u = [] \<and> tp_id v = iid \<and> tp_arguments v = d"
proof -
  have "rs_sent s = [StreamCall i (Some cid) (Some name) None, StreamCall i (Some iid) None (Some d)]"
    using assms(1-3,11,12) clean_plain [of cid] clean_plain [of name] clean_plain [of iid] assms(4-9)
    by (simp add: emit_all_def responses_tool_call_item_def tool_call_delta_def response_tool_index_def
        responses_begin_def nonempty_opt_def clean_optional_def)
  then obtain t t' where es: "es = [(t, ToolCallDelta (off + i) (Some cid) (Some name) None),
      (t', ToolCallDelta (off + i) (Some iid) None (Some d))]"
    using assms(13) by (auto simp: sent_payloads_def map_filter_def)
  have ok: "identified cid" "identified iid" "identified name" using assms(4-9) by (simp_all add: identified_def)
  let ?u = "new_tool_part (Some cid) (Some name)"
  let ?a = "on_event jt (t, ToolCallDelta (off + i) (Some cid) (Some name) None) ac"
  have one: "ac_parts ?a = ac_parts ac @ [ToolPart ?u]" "ac_by_index ?a (off + i) = Some (length (ac_parts ac))"
    "ac_by_id ?a iid = None"
    using shape_new_call [OF assms(14,16) ok(1,3), of jt t] assms(10,15) by (simp_all add: shape_def)
  have u: "tp_id ?u = cid" "tp_name ?u = name" "tp_arguments ?u = []"
    using ok by (simp_all add: new_tool_part_def nonblank_def identified_def)
  have "ac_parts (on_event jt (t', ToolCallDelta (off + i) (Some iid) None (Some d)) ?a) =
      ac_parts ?a @ [ToolPart ((new_tool_part (Some iid) None)\<lparr>tp_arguments := d\<rparr>)]"
    using shape_colliding [OF one(3,2), of ?u jt t' d] one(1) u ok assms(10)
    by (simp add: tool_at_snoc shape_def)
  then show ?thesis
    using u by (intro exI [of _ ?u] exI [of _ "(new_tool_part (Some iid) None)\<lparr>tp_arguments := d\<rparr>"])
      (simp add: es one(1) new_tool_part_def)
qed

definition ex_two_results :: call_request where
  "ex_two_results = \<lparr>cq_model = ''gpt-4'', cq_system = None,
     cq_entries = [AssistantEntry \<lparr>ae_text = [], ae_reasoning = [], ae_reasoning_signature = [],
         ae_tool_calls = [\<lparr>ce_id = ''a'', ce_name = ''Read'', ce_input = JObj []\<rparr>,
           \<lparr>ce_id = ''b'', ce_name = ''Read'', ce_input = JObj []\<rparr>]\<rparr>,
       ToolResults [
         \<lparr>tr_call_id = ''a'', tr_name = ''Read'', tr_content = ''ok'',
          tr_artifact = None, tr_attachments = [Image ''p.png'' ''image/png'' ''AA'']\<rparr>,
         \<lparr>tr_call_id = ''b'', tr_name = ''Read'', tr_content = ''ok'', tr_artifact = None, tr_attachments = []\<rparr>]],
     cq_tools = [], cq_max_tokens = 1000, cq_reasoning = None, cq_compact_key = None\<rparr>"

lemma images_cut_results_from_calls_witness:
  "\<exists>ms. json_get (chat_body (\<lambda>v. ''{}'') (\<lambda>s. s) ex_two_results True) ''messages'' = Some (JArr ms) \<and>
    \<not> chat_paired [] ms"
proof -
  have "paired (cq_entries ex_two_results)" "\<not> list_all images_come_last (cq_entries ex_two_results)" by code_simp+
  then show ?thesis
    using images_cut_results_from_calls [of ex_two_results "\<lambda>v. ''{}''" "\<lambda>s. s" True] by auto
qed

text \<open>The answer breaks off behind the call.\<close>

lemma ex_named: "\<forall>e \<in> set ex_sse_events. event_name (fst e)"
  unfolding ex_sse_events_def by (rule message_events_named)

lemma broken_answer_counts_as_finished_witness:
  "\<exists>g t r u. fst (claude_stream ex_parse (\<lambda>req. Inr (map (\<lambda>(t, p). Chunk t p)
      [(0, sse_text ex_print (take 4 ex_sse_events))])) ex_sse_request) = Inr (g, ModelDone FinishStop t r [] u)"
proof (rule broken_answer_counts_as_finished [where js = ex_print and es = "take 4 ex_sse_events", OF refl])
  have "list_all (\<lambda>c. \<not> digit7 c) (sse_text ex_print (take 4 ex_sse_events))"
    using ex_bits by (auto simp: list_all_iff sse_text_def dest!: in_set_takeD)
  then show "list_all valid_utf8 (map snd [(0, sse_text ex_print (take 4 ex_sse_events))])"
    by (simp add: seven_bits_valid)
  show "\<forall>e \<in> set (take 4 ex_sse_events). event_name (fst e) \<and> one_line ex_parse ex_print (snd e)"
    using ex_lines ex_named by (auto dest: in_set_takeD)
  show "''message_delta'' \<notin> fst ` set (take 4 ex_sse_events)" by code_simp
  show "\<not> has_image_generation_tool (cq_tools ex_sse_request)" by code_simp
qed simp

lemma response_call_leaves_two_parts_witness:
  "\<exists>u v. ac_parts (fold (on_event (\<lambda>j. [])) [(0, ToolCallDelta 0 (Some ''call_1'') (Some ''Read'') None),
      (1, ToolCallDelta 0 (Some ''fc_1'') None (Some ''{}''))] new_accumulator) =
      ac_parts new_accumulator @ [ToolPart u, ToolPart v] \<and>
    tp_id u = ''call_1'' \<and> tp_name u = ''Read'' \<and> tp_arguments u = [] \<and> tp_id v = ''fc_1'' \<and> tp_arguments v = ''{}''"
proof (rule response_call_leaves_two_parts [where off = 0 and i = 0 and
      item = "JObj [(''type'', JStr ''function_call''), (''id'', JStr ''fc_1''), (''call_id'', JStr ''call_1''),
        (''name'', JStr ''Read'')]", OF _ _ _ _ _ _ _ _ _ _ _ refl])
  show "trim ''call_1'' = ''call_1''" "trim ''Read'' = ''Read''" "trim ''fc_1'' = ''fc_1''" by code_simp+
  show "map snd [(0 :: int, ToolCallDelta 0 (Some ''call_1'') (Some ''Read'') None),
      (1, ToolCallDelta 0 (Some ''fc_1'') None (Some ''{}''))] =
    sent_payloads 0 (rs_sent (responses_step (RespArgs (Some 0) (Some ''fc_1'') ''{}'')
      (responses_step (RespItem (Some 0) (JObj [(''type'', JStr ''function_call''), (''id'', JStr ''fc_1''),
        (''call_id'', JStr ''call_1''), (''name'', JStr ''Read'')])) responses_begin)))"
    by code_simp
qed (simp_all add: json_at_obj new_accumulator_def)

end
