(* ===== verification/Gemini.thy ===== *)
theory Gemini
  imports Anthropic_Stream
begin

text \<open>
  Gemini: \<open>crates/model-gateway/src/protocols/gemini.rs\<close> with the body of a request and the parsers of
  its answers, and the client of \<open>providers/gemini.rs\<close>.
\<close>

section \<open>The body\<close>

definition gemini_text :: "str \<Rightarrow> json" where
  "gemini_text t = JObj [(''text'', JStr t)]"

definition inline_data :: "str \<Rightarrow> str \<Rightarrow> json" where
  "inline_data media dat =
     JObj [(''inlineData'', JObj [(''mimeType'', JStr media), (''data'', JStr dat)])]"

fun image_part :: "message_attachment \<Rightarrow> json option" where
  "image_part (Image _ media dat) = Some (inline_data media dat)"
| "image_part (TextFile _ _ _) = None"

definition user_part :: "message_attachment \<Rightarrow> json option" where
  "user_part a =
     (case a of
        TextFile _ _ _ \<Rightarrow> map_option gemini_text (as_text_block a)
      | Image _ media dat \<Rightarrow> Some (inline_data media dat))"

definition user_parts :: "user_entry \<Rightarrow> json list" where
  "user_parts u =
     (let parts = (if trim (ue_text u) = [] then [] else [gemini_text (ue_text u)]) @
                  List.map_filter user_part (ue_attachments u)
      in if parts = [] then [gemini_text []] else parts)"

definition function_call_part :: "call_entry \<Rightarrow> json" where
  "function_call_part c =
     JObj [(''functionCall'', JObj [(''name'', JStr (ce_name c)), (''args'', ce_input c)])]"

definition function_response_parts :: "tool_result \<Rightarrow> json list" where
  "function_response_parts r =
     JObj [(''functionResponse'', JObj [(''name'', JStr (tr_name r)),
        (''response'', JObj [(''result'', JStr (tr_content r))])])] #
     List.map_filter image_part (tr_attachments r)"

definition gemini_content :: "str \<Rightarrow> json list \<Rightarrow> json" where
  "gemini_content r parts = JObj [(''role'', JStr r), (''parts'', JArr parts)]"

fun entry_to_content :: "transcript_entry \<Rightarrow> json option" where
  "entry_to_content (UserEntry u) = Some (gemini_content ''user'' (user_parts u))"
| "entry_to_content (AssistantEntry e) =
     Some (gemini_content ''model''
       (if ae_tool_calls e = [] then [gemini_text (ae_text e)]
        else map function_call_part (ae_tool_calls e)))"
| "entry_to_content (ToolResults rs) =
     (if rs = [] then None else Some (gemini_content ''user'' (concat (map function_response_parts rs))))"

definition gemini_tool :: "tool_definition \<Rightarrow> json" where
  "gemini_tool t =
     JObj [(''name'', JStr (td_name t)), (''description'', JStr (td_description t)),
       (''parameters'', td_parameters t)]"

definition gemini_tool_defs :: "tool_definition list \<Rightarrow> json list" where
  "gemini_tool_defs ts = map gemini_tool (filter (\<lambda>t. td_name t \<noteq> IMAGE_GENERATION_TOOL_NAME) ts)"

definition gemini_body :: "call_request \<Rightarrow> json" where
  "gemini_body req =
     (let body = JObj [(''contents'', JArr (List.map_filter entry_to_content (cq_entries req)))];
          body = (case cq_system req of
                    Some s \<Rightarrow>
                      if trim s = [] then body
                      else json_put ''systemInstruction'' (JObj [(''parts'', JArr [gemini_text s])]) body
                  | None \<Rightarrow> body);
          defs = gemini_tool_defs (cq_tools req)
      in if defs = [] then body
         else json_put ''tools'' (JArr [JObj [(''functionDeclarations'', JArr defs)]]) body)"

section \<open>Answers\<close>

definition map_gemini_finish :: "str \<Rightarrow> finish_reason" where
  "map_gemini_finish s =
     (if s = ''STOP'' \<or> s = [] then FinishStop
      else if s = ''MAX_TOKENS'' then FinishLength
      else if s \<in> {''SAFETY'', ''RECITATION'', ''BLOCKLIST'', ''PROHIBITED_CONTENT''} then FinishContentFilter
      else FinishOther s)"

definition gemini_usage :: "json \<Rightarrow> usage" where
  "gemini_usage v =
     (let n = (\<lambda>k. case as_u64 (json_at (json_at v ''usageMetadata'') k) of Some n \<Rightarrow> n | None \<Rightarrow> 0)
      in \<lparr>us_input = n ''promptTokenCount'', us_output = n ''candidatesTokenCount'',
          us_cache_read = n ''cachedContentTokenCount'', us_cache_creation = 0\<rparr>)"

definition gemini_candidate :: "json \<Rightarrow> json" where
  "gemini_candidate v = json_first (json_at v ''candidates'')"

definition gemini_parts :: "json \<Rightarrow> json list option" where
  "gemini_parts v = as_array (json_at (json_at (gemini_candidate v) ''content'') ''parts'')"

definition gemini_call :: "json \<Rightarrow> call_entry option" where
  "gemini_call p =
     map_option (\<lambda>fc. \<lparr>ce_id = str_or_empty (json_at fc ''name''), ce_name = str_or_empty (json_at fc ''name''),
       ce_input = json_at fc ''args''\<rparr>) (json_get p ''functionCall'')"

definition gemini_response :: "json \<Rightarrow> model_response" where
  "gemini_response v =
     (let finish = map_gemini_finish (str_or_empty (json_at (gemini_candidate v) ''finishReason''))
      in case gemini_parts v of
           None \<Rightarrow> ModelDone finish [] [] [] (gemini_usage v)
         | Some parts \<Rightarrow>
             if list_ex (\<lambda>p. json_get p ''functionCall'' \<noteq> None) parts
             then ModelToolCalls [] [] (List.map_filter gemini_call parts) [] (gemini_usage v)
             else ModelDone finish (concat (List.map_filter (\<lambda>p. as_str (json_at p ''text'')) parts)) [] []
                    (gemini_usage v))"

definition parse_stream_delta :: "(str \<Rightarrow> json option) \<Rightarrow> str \<Rightarrow> str option" where
  "parse_stream_delta pj dat =
     (case pj dat of
        None \<Rightarrow> None
      | Some v \<Rightarrow>
          let t = (case gemini_parts v of
                     Some parts \<Rightarrow> concat (map (\<lambda>p. str_or_empty (json_at p ''text'')) parts) | None \<Rightarrow> [])
          in if t = [] then None else Some t)"

definition parse_stream_usage :: "(str \<Rightarrow> json option) \<Rightarrow> str \<Rightarrow> usage option" where
  "parse_stream_usage pj dat =
     (case pj dat of
        None \<Rightarrow> None
      | Some v \<Rightarrow> if json_get v ''usageMetadata'' = None then None else Some (gemini_usage v))"

section \<open>The client\<close>

definition gemini_url :: "bool \<Rightarrow> str \<Rightarrow> str \<Rightarrow> str \<Rightarrow> bool \<Rightarrow> str" where
  "gemini_url oauth base_url key model stream =
     (let endpoint = (if stream then ''streamGenerateContent'' else ''generateContent'');
          head = trim_end_matches {CHR ''/''} base_url @ ''/v1beta/models/'' @ model @ '':'' @ endpoint
      in if oauth then head @ (if stream then ''?alt=sse'' else [])
         else head @ ''?'' @ (if stream then ''alt=sse&'' else []) @ ''key='' @ key)"

definition gemini_complete ::
    "(str \<Rightarrow> json option) \<Rightarrow> str \<Rightarrow> (json \<Rightarrow> model_error + str) \<Rightarrow> call_request \<Rightarrow> model_error + model_response" where
  "gemini_complete pj json_error send req =
     (if has_image_generation_tool (cq_tools req) then Inl (OtherError image_refused_text)
      else case send (gemini_body req) of
             Inl e \<Rightarrow> Inl e
           | Inr body \<Rightarrow> (case pj body of None \<Rightarrow> Inl (JsonError json_error) | Some v \<Rightarrow> Inr (gemini_response v)))"

record gemini_state =
  gs_text :: str
  gs_usage :: usage
  gs_sent :: "stream_event list"

definition gemini_begin :: gemini_state where
  "gemini_begin = \<lparr>gs_text = [], gs_usage = no_usage, gs_sent = []\<rparr>"

definition gemini_data :: "(str \<Rightarrow> json option) \<Rightarrow> str \<Rightarrow> gemini_state \<Rightarrow> gemini_state" where
  "gemini_data pj d s =
     (let s = (case parse_stream_delta pj d of
                 Some t \<Rightarrow> s\<lparr>gs_text := gs_text s @ t, gs_sent := gs_sent s @ [StreamText t]\<rparr>
               | None \<Rightarrow> s)
      in case parse_stream_usage pj d of Some u \<Rightarrow> s\<lparr>gs_usage := u\<rparr> | None \<Rightarrow> s)"

definition gemini_line ::
    "(str \<Rightarrow> json option) \<Rightarrow> str \<Rightarrow> gemini_state \<Rightarrow> stream_stop option \<times> gemini_state" where
  "gemini_line pj line s =
     (None, case str_strip_prefix line ''data:'' of
              None \<Rightarrow> s
            | Some d \<Rightarrow> if trim d = [] then s else gemini_data pj (trim d) s)"

definition gemini_frame ::
    "(str \<Rightarrow> json option) \<Rightarrow> int \<Rightarrow> str \<Rightarrow> gemini_state \<Rightarrow> stream_stop option \<times> gemini_state" where
  "gemini_frame pj now frame s = run_steps (gemini_line pj) (sse_lines frame) s"

definition gemini_stream ::
    "(str \<Rightarrow> json option) \<Rightarrow> (json \<Rightarrow> model_error + net_read list) \<Rightarrow> call_request \<Rightarrow>
     (stream_stop + model_response) \<times> stream_event list" where
  "gemini_stream pj send req =
     (if has_image_generation_tool (cq_tools req) then (Inl (StreamError (OtherError image_refused_text)), [])
      else case send (gemini_body req) of
             Inl e \<Rightarrow> (Inl (StreamError e), [])
           | Inr chunks \<Rightarrow>
               (case read_chunks (gemini_frame pj) chunks [] gemini_begin of
                  (Some e, s) \<Rightarrow> (Inl e, gs_sent s)
                | (None, s) \<Rightarrow> (Inr (ModelDone FinishStop (gs_text s) [] [] (gs_usage s)), gs_sent s)))"

end
