(* ===== verification/Gemini_Laws.thy ===== *)
theory Gemini_Laws
  imports Gemini Claude_Calls
begin

text \<open>
  What the answers of Gemini become: a call has no id of its own, so the code gives it the name of its
  tool, and two calls of one tool are one call for the accumulator of the run.
\<close>

section \<open>Ids\<close>

lemma gemini_ids: "gemini_response v = ModelToolCalls t r cs atts u \<Longrightarrow> map ce_id cs = map ce_name cs"
  by (auto simp: gemini_response_def Let_def gemini_call_def map_filter_def split: option.splits if_splits)

section \<open>Parts of calls that are executed\<close>

definition started_part :: "(json \<Rightarrow> str) \<Rightarrow> str \<Rightarrow> str \<Rightarrow> json \<Rightarrow> tool_part \<Rightarrow> tool_part" where
  "started_part jt cid name input u =
     u\<lparr>tp_id := cid, tp_name := name, tp_input := input,
       tp_arguments := (if tp_arguments u = [] then jt input else tp_arguments u)\<rparr>"

definition finished_part :: "str \<Rightarrow> str \<Rightarrow> nat \<Rightarrow> bool \<Rightarrow> tool_part \<Rightarrow> tool_part" where
  "finished_part cid result ms e u =
     u\<lparr>tp_id := cid, tp_result := Some result, tp_duration_ms := Some ms, tp_is_error := e\<rparr>"

lemma marked_fields:
  "ac_parts (mark_started t p ac) = ac_parts ac" "ac_by_index (mark_started t p ac) = ac_by_index ac"
  "ac_by_id (mark_started t p ac) = ac_by_id ac"
  using shape_marked [of t p ac] by (simp_all add: shape_def)

lemma started_new:
  assumes "ac_by_id ac cid = None" and "ac_by_index ac i = None" and "identified cid"
  shows "ac_parts (on_event jt (t, ToolCallStarted i cid name input) ac) =
      ac_parts ac @ [ToolPart (started_part jt cid name input (new_tool_part (Some cid) (Some name)))] \<and>
    ac_by_id (on_event jt (t, ToolCallStarted i cid name input) ac) cid = Some (length (ac_parts ac))"
  using assms
  by (simp add: on_event_def start_tool_def tool_position_def update_tool_def bind_id_def marked_fields
      nonblank_def identified_def started_part_def Let_def)

lemma started_bound:
  assumes "ac_by_id ac cid = Some pos" and "tool_at (ac_parts ac) pos u" and "identified cid"
  shows "ac_parts (on_event jt (t, ToolCallStarted i cid name input) ac) =
      (ac_parts ac)[pos := ToolPart (started_part jt cid name input u)] \<and>
    ac_by_id (on_event jt (t, ToolCallStarted i cid name input) ac) cid = Some pos"
  using assms
  by (simp add: on_event_def start_tool_def tool_position_def update_tool_def bind_id_def marked_fields
      nonblank_def identified_def started_part_def Let_def tool_at_def)

lemma finished_bound:
  assumes "ac_by_id ac cid = Some pos" and "tool_at (ac_parts ac) pos u" and "identified cid"
  shows "ac_parts (on_event jt (t, ToolCallFinished i cid result ms e) ac) =
      (ac_parts ac)[pos := ToolPart (finished_part cid result ms e u)] \<and>
    ac_by_id (on_event jt (t, ToolCallFinished i cid result ms e) ac) cid = Some pos"
  using assms
  by (simp add: on_event_def finish_tool_def tool_position_def update_tool_def bind_id_def marked_fields
      nonblank_def identified_def finished_part_def Let_def tool_at_def)

text \<open>When an answer of Gemini calls one tool twice, the run keeps one part for both: the second call
  takes the part of the first, and of the two results only the one that comes last is stored.\<close>

theorem second_gemini_call_replaces_the_first:
  assumes "gemini_response v = ModelToolCalls t r [c, c'] atts us" and "ce_name c = ce_name c'"
    and "identified (ce_name c)" and "ac_by_id ac (ce_name c) = None" and "ac_by_index ac i = None"
  shows "\<exists>u. ac_parts (fold (on_event jt)
      [(t1, ToolCallStarted i (ce_id c) (ce_name c) (ce_input c)),
       (t2, ToolCallStarted j (ce_id c') (ce_name c') (ce_input c')),
       (t3, ToolCallFinished i (ce_id c) result ms e),
       (t4, ToolCallFinished j (ce_id c') result' ms' e')] ac) = ac_parts ac @ [ToolPart u] \<and>
    tp_input u = ce_input c' \<and> tp_result u = Some result'"
proof -
  let ?n = "ce_name c" let ?pos = "length (ac_parts ac)"
  have ids: "ce_id c = ?n" "ce_id c' = ?n" "ce_name c' = ?n" using gemini_ids [OF assms(1)] assms(2) by simp_all
  let ?a = "on_event jt (t1, ToolCallStarted i ?n ?n (ce_input c)) ac"
  let ?u = "started_part jt ?n ?n (ce_input c) (new_tool_part (Some ?n) (Some ?n))"
  have a: "ac_parts ?a = ac_parts ac @ [ToolPart ?u]" "ac_by_id ?a ?n = Some ?pos"
    using started_new [OF assms(4,5,3)] by blast+
  let ?b = "on_event jt (t2, ToolCallStarted j ?n ?n (ce_input c')) ?a" let ?v = "started_part jt ?n ?n (ce_input c') ?u"
  have b: "ac_parts ?b = ac_parts ac @ [ToolPart ?v]" "ac_by_id ?b ?n = Some ?pos"
    using started_bound [OF a(2) _ assms(3), of ?u jt t2 j ?n "ce_input c'"] by (simp_all add: a(1) tool_at_def)
  let ?c = "on_event jt (t3, ToolCallFinished i ?n result ms e) ?b" let ?w = "finished_part ?n result ms e ?v"
  have c: "ac_parts ?c = ac_parts ac @ [ToolPart ?w]" "ac_by_id ?c ?n = Some ?pos"
    using finished_bound [OF b(2) _ assms(3), of ?v jt t3 i result ms e] by (simp_all add: b(1) tool_at_def)
  have "ac_parts (on_event jt (t4, ToolCallFinished j ?n result' ms' e') ?c) =
      ac_parts ac @ [ToolPart (finished_part ?n result' ms' e' ?w)]"
    using finished_bound [OF c(2) _ assms(3), of ?w jt t4 j result' ms' e'] by (simp add: c(1) tool_at_def)
  then show ?thesis
    unfolding ids by (intro exI [of _ "finished_part ?n result' ms' e' ?w"]) (simp add: finished_part_def started_part_def)
qed

definition ex_gemini_call :: "str \<Rightarrow> json" where
  "ex_gemini_call path =
     JObj [(''functionCall'', JObj [(''name'', JStr ''Read''), (''args'', JObj [(''path'', JStr path)])])]"

definition ex_gemini_answer :: json where
  "ex_gemini_answer =
     JObj [(''candidates'', JArr [JObj [(''content'',
       JObj [(''parts'', JArr [ex_gemini_call ''a'', ex_gemini_call ''b''])])]])]"

lemma second_gemini_call_replaces_the_first_witness:
  "\<exists>u. ac_parts (fold (on_event (\<lambda>v. []))
      [(0, ToolCallStarted 0 ''Read'' ''Read'' (JObj [(''path'', JStr ''a'')])),
       (1, ToolCallStarted 1 ''Read'' ''Read'' (JObj [(''path'', JStr ''b'')])),
       (2, ToolCallFinished 0 ''Read'' ''first'' 1 False),
       (3, ToolCallFinished 1 ''Read'' ''second'' 1 False)] new_accumulator) = [ToolPart u] \<and>
    tp_input u = JObj [(''path'', JStr ''b'')] \<and> tp_result u = Some ''second''"
proof -
  let ?c = "\<lambda>p. \<lparr>ce_id = ''Read'', ce_name = ''Read'', ce_input = JObj [(''path'', JStr p)]\<rparr>"
  have v: "gemini_response ex_gemini_answer =
      ModelToolCalls [] [] [?c ''a'', ?c ''b''] [] \<lparr>us_input = 0, us_output = 0, us_cache_read = 0, us_cache_creation = 0\<rparr>"
    by (simp add: gemini_response_def gemini_parts_def gemini_candidate_def ex_gemini_answer_def ex_gemini_call_def
        json_at_obj json_first_def gemini_usage_def json_at_def gemini_call_def map_filter_def as_u64_def json_get_def)
  have "identified ''Read''" by code_simp
  then show ?thesis
    using second_gemini_call_replaces_the_first [OF v, of new_accumulator 0 "\<lambda>v. []" 0 1 1 2 "''first''" 1 False 3 "''second''" 1 False]
    by (simp add: new_accumulator_def)
qed

section \<open>Streams\<close>










end
