(* ===== verification/Spec2Isabelle.thy ===== *)
theory Spec2Isabelle
  imports Effects_Laws Store_Laws Hitl_Memory Workspace Run_Mode Dispatch_Laws Edit_Laws
    Transcript_Laws Context_Laws Agent_Laws Session_Search Persister_Laws
    Shells_Laws Wakeup_Laws Chat_Laws Gemini_Laws
begin

text \<open>
  Verification of the core of hebbian, an agent that runs a language model with tools on the user's
  machine. The code is the crate \<open>crates/agent-core\<close> and the clients of Anthropic, OpenAI and Gemini of
  the crate \<open>crates/model-gateway\<close>, with types of \<open>crates/protocol\<close> and \<open>crates/common\<close>.

  The parts and how they meet. A surface starts a run (\<open>harness.rs\<close>, \<open>agent_loop.rs\<close>). The transcript is
  rebuilt from the stored session (\<open>context/transcript.rs\<close>), kept below the token budget
  (\<open>context/budget.rs\<close>, \<open>microcompact.rs\<close>, \<open>compaction.rs\<close>) and sent to the model: the gateway makes
  the body of a request out of it (\<open>protocols/anthropic.rs\<close>, \<open>protocols/openai.rs\<close>,
  \<open>protocols/gemini.rs\<close>), sends it with retries and reads the streamed answer, whose events go to the
  surface while it comes (\<open>providers/mod.rs\<close>, \<open>providers/anthropic.rs\<close>, \<open>providers/openai.rs\<close>,
  \<open>providers/gemini.rs\<close>). Each tool call of an answer goes to the dispatcher (\<open>dispatch.rs\<close>), which
  computes what the call would do (\<open>effects.rs\<close>, for a shell command from \<open>tools/shell_parse.rs\<close> and \<open>tools/safe_commands.rs\<close>), checks the
  paths against the workspace (\<open>workspace.rs\<close>) and asks the gate (\<open>tools/hitl.rs\<close>), which knows the
  rules of the user (\<open>permissions/mod.rs\<close>, \<open>storage/permissions.rs\<close>) and the mode of the run
  (\<open>run_mode.rs\<close>). The output of a tool is cleaned and cut (\<open>context/tool_output.rs\<close>,
  \<open>storage/tool_results.rs\<close>) and pushed into the transcript; the events of the run are folded into the
  message that is stored (\<open>turn_accumulator.rs\<close>), by the persister of the run (\<open>run_persister.rs\<close>,
  \<open>storage/nested.rs\<close>), which keeps a side file of fragments for a crash (\<open>storage/sessions_dir.rs\<close>) and
  appends to the session file (\<open>storage/sessions.rs\<close>). The file tools (\<open>tools/edit.rs\<close>, \<open>edit_hashline.rs\<close>,
  \<open>read.rs\<close>, \<open>read_hashline.rs\<close>, \<open>edits/hashline\<close>) share the tracker of read files (\<open>read_state.rs\<close>).
  The shell tools (\<open>tools/bash.rs\<close>, \<open>interactive_bash.rs\<close>, \<open>bash_input.rs\<close>, \<open>bash_output.rs\<close>,
  \<open>kill_shell.rs\<close>) keep their commands in the registry of the session (\<open>tools/background.rs\<close>); the
  scheduler (\<open>wakeup.rs\<close>) watches those in the background, keeps the timers of \<open>tools/schedule_wakeup.rs\<close>
  and wakes runs that were suspended with a checkpoint (\<open>storage/run_checkpoint.rs\<close>).

  Theories and code.
  \<^item> \<open>Prelude\<close>, \<open>Rust_Str\<close>, \<open>Rust_Text\<close>, \<open>Rust_Path\<close>: lists and maps, byte strings with Rust's string
    operations, numbers and UTF-8 boundaries, paths compared by components.
  \<^item> \<open>Shell_Command\<close>, \<open>Safe_Commands\<close>, \<open>Shell_Lex\<close>, \<open>Shell_Parse\<close>: \<open>shell_parse.rs\<close> and
    \<open>safe_commands.rs\<close>; the scanners, the fallback and the walk of the syntax tree. The grammar and
    \<open>shlex\<close> are the parameter \<open>ext\<close>. \<open>Effects\<close>: \<open>effects.rs\<close>.
  \<^item> \<open>Permission_Pattern\<close>, \<open>Rules_File\<close>, \<open>Permission_Store\<close>, \<open>Store_Ops\<close>: rules, their files with
    modification times, the cached store and its operations.
  \<^item> \<open>Run_Mode\<close>, \<open>Hitl\<close>, \<open>Workspace\<close>, \<open>Dispatch\<close>: modes, the approval gate with its pending table and
    memory, the scope of a session, and the permission part of the dispatcher as a step function of
    one call among interleaved ones.
  \<^item> \<open>Hashline\<close>, \<open>File_World\<close>, \<open>Edit_Tools\<close>, \<open>Read_Tools\<close>: the patch language, a disk with a clock and
    the tracker, the four file tools with refusals and panics as results.
  \<^item> \<open>Session_Model\<close>, \<open>Turn_Accumulator\<close>, \<open>Transcript\<close>: stored messages, the fold of the events, the
    rebuilt transcript.
  \<^item> \<open>Reasoning\<close>, \<open>Session_Log\<close>, \<open>Session_Files\<close>: \<open>reasoning.rs\<close>; a session file as the list of its
    decoded lines, the fold that reads it back, and every operation on the files as a state
    transformer of a store with a write flag. \<open>Session_List\<close>, \<open>Session_Search\<close>: the list of sessions
    read without decoding messages, the search with its snippets.
  \<^item> \<open>Partial_Log\<close>, \<open>Run_Persister\<close>: the fragments of an answer and what recovery makes of them; the
    persister with its accumulators, the queue to the writer of the side file, and a crash.
  \<^item> \<open>Tool_Output\<close>, \<open>Context_Window\<close>: results of tools and their files; estimates, shadowing,
    compaction, emergency reset.
  \<^item> \<open>Background_Shells\<close>, \<open>Bash_Tools\<close>: the tail buffer and the registry of commands; the shell tools
    as functions of what the process and the terminal do while they wait. \<open>wait_step\<close> is the wait for
    the end split where other threads get in.
  \<^item> \<open>Wakeup\<close>: the scheduler's tables, its three scans, of which the one of tasks is split into a
    beginning, one check per task and an end, checkpoints with their recovery, \<open>ScheduleWakeup\<close>.
  \<^item> \<open>Gateway_Json\<close>, \<open>Anthropic_Wire\<close>, \<open>Openai_Wire\<close>, \<open>Openai_Answer\<close>: JSON values as the code reads and
    changes them, a request of the gateway, the bodies of Messages, chat completions and Responses
    with the dialects of DeepSeek, Claude Code and Codex, and the parsers of whole answers.
  \<^item> \<open>Sse_Stream\<close>, \<open>Anthropic_Stream\<close>, \<open>Openai_Stream\<close>: retries and the renewal of a token, the frames of
    a growing buffer, and the two clients as functions of the chunks the network delivers: the state
    each keeps between frames, the events it hands on, the answer it returns; remote compaction.
    \<open>Gemini\<close>: the same for the third provider, whose stream is read line by line.
  \<^item> \<open>Agent_Loop\<close>: one turn of \<open>run_agent\<close> as a function of the state of the run and of what the
    world answers in that turn (\<open>turn_env\<close>: among other things which calls of a batch end with what,
    in the order in which they end), \<open>run_calls\<close>, the loop over a list of such answers, the end of a run,
    and \<open>drive\<close> of the harness.

  What the lemmas show.
  \<^item> Shell and effects (\<open>Parse_Laws\<close>, \<open>Shell_Laws\<close>, \<open>Effects_Laws\<close>): the parser's depth is bounded by
    the line, a line is cut at its bare separators and nowhere else, what counts as read-only, which
    forms hide a write.
  \<^item> Rules (\<open>Store_Cache\<close>, \<open>Store_Facts\<close>, \<open>Store_Laws\<close>): the cached store refines the files in every
    reachable state, the verdict on segments and paths, persistence. The locale \<open>rules_storage\<close> is what
    the cache needs of the files, \<open>rule_lookup\<close> what a lookup promises the gate and the dispatcher.
  \<^item> Gate and dispatcher (\<open>Hitl_Facts\<close>, \<open>Hitl_Laws\<close>, \<open>Hitl_Memory\<close>, \<open>Dispatch_Laws\<close>): each request is
    answered once, dangerous calls are always asked for, what a reply may remember, and in every
    interleaving a call that executes was authorised.
  \<^item> Files (\<open>Hashline_Laws\<close>, \<open>Edit_Guard\<close>, \<open>Edit_Laws\<close>): hunks act at once, printing and parsing,
    no update is lost, one occurrence is replaced, pages are bounded. The locale \<open>file_tool\<close> is what
    all four tools keep.
  \<^item> Sessions (\<open>Turn_Laws\<close>, \<open>Transcript_Laws\<close>): what was streamed is stored and reaches the model; every
    rebuilt transcript obeys the protocol.
  \<^item> Session files (\<open>Session_Laws\<close>, \<open>Session_List\<close>, \<open>Session_Search\<close>): an appended message appears
    where its time puts it, saving is read back, undoing a compaction is exact, the short reading
    agrees with the full one, snippets never panic; torn appends and updates that race lose data.
    The locale \<open>message_log\<close> is what the persister needs of the files.
  \<^item> Persistence of a run (\<open>Persister_Laws\<close>): the saved segments and the open one are the stream, in
    order and once, in every sequence of actions while the log can be written; a crash loses none of
    the text the writer had caught up with.
  \<^item> Shells and wakeups (\<open>Shells_Laws\<close>, \<open>Wakeup_Laws\<close>): reads are those of a reader of the whole output
    with a cursor of its own (\<open>stream_reads\<close>), running commands stay registered, each watch and timer is reported once; what a scan, a wait or a cut
    character loses. The locale \<open>output_buffer\<close> is what the tools need of a buffer with a cursor.
  \<^item> Context (\<open>Output_Laws\<close>, \<open>Context_Laws\<close>): cleaning is bounded, shadowing keeps the protocol and is
    idempotent, what a reset keeps.
  \<^item> Runs (\<open>Agent_Frame\<close>, \<open>Agent_Laws\<close>): every request obeys the protocol, a run with a limit ends, the
    surface learns the outcome.
  \<^item> Gateway (\<open>Utf8_Facts\<close>, \<open>Frame_Laws\<close>, \<open>Claude_Laws\<close>, \<open>Claude_Calls\<close>, \<open>Wire_Laws\<close>, \<open>Chat_Laws\<close>,
    \<open>Gemini_Laws\<close>): five
    attempts are enough, where the network cuts makes no difference unless it cuts a character, a
    streamed answer is the whole one but for calls without parameters, its calls have the parts the
    surface shows, calls and results
    stay together in what is sent, thinking leaves room; what an answer that breaks off, an image in
    a result, a streamed response or a streamed call of Gemini does. The server of \<open>Claude_Laws\<close> is a specification: it says
    which events a message is sent as, with JSON text that fits on a line.
  \<^item> This theory: properties from the text of a command to the decision.
  Several theorems state what the code does although it hardly means to; they name the place.

  Bounds and fuel. Byte strings are lists of characters of one byte; lengths are bytes where the code
  counts bytes. \<open>parse\<close> recurses into command substitutions with a fuel of the length of the line plus
  one; \<open>parse_fuel_parse\<close> shows that more changes nothing, so \<open>None\<close> is a recursion that does not end.
  \<open>run_loop\<close> consumes one list element per turn; \<open>run_with_a_limit_ends\<close> says how many suffice.
  The page of a read wraps at 64 bits. An attempt of \<open>retry_request\<close> is one list element, and
  \<open>five_attempts_are_enough\<close>. Sums of tokens are natural numbers, and the floating-point
  ratios of the budget are rationals.

  What is taken from outside. The clock moves on with every write and no two writes share a
  millisecond (\<open>File_World\<close>); a call of a file tool runs to its end; rules files are written
  atomically; hashes, regular expressions, URLs, the text of JSON values and the operating system are
  parameters, and so are the date and the user id of a request and \<open>str::to_lowercase\<close> of the
  gateway;
  a line of a session file is the value \<open>serde_json\<close> decodes it to, ids and times are arguments, and
  one operation on the files runs to its end before the next unless a theorem splits it.
  In \<open>Agent_Laws\<close> each call that was started ends once, which is what \<open>buffer_unordered\<close> promises, in
  any order and with any outcome, and a cancel flag that stopped a batch is still set at the next
  turn (\<open>envs_ok\<close>); no model and no tool answers that the run was suspended (\<open>no_suspension\<close>).

  Not modelled: the actor and registry of the harness, sub-agents, the prompts and the parsing of
  the judges, branches, memory, hooks, MCP, plugins, the HTTP layer and the sign-in of the providers,
  the web protocol of DeepSeek, the web tools, the channels and the applications: processes, network
  and file formats around the modelled core.
\<close>

section \<open>From the command line to the decision\<close>

lemma prepare_simple_bash:
  assumes name: "tc_name call = ''Bash''" and cmd: "json_get_str (tc_input call) ''command'' = Some raw"
    and cwd: "json_get_str (tc_input call) ''cwd'' = None" and ne: "trim raw \<noteq> []"
    and p: "parse ext (trim raw) = Some (Inr p)" and ro: "classify_readonly p"
    and paths: "\<forall>c \<in> set (ps_commands p). command_paths c = []"
    and wd: "is_absolute (ws_workdir (dp_workspace d))"
      "allows h (dp_workspace d) (ws_workdir (dp_workspace d))"
      "\<not> is_git_meta_path (ws_workdir (dp_workspace d))"
    and ok: "''Bash'' \<notin> set (lr_auto_denied_tools (gt_learned (dp_gate d)))"
  shows "\<exists>pr d'. prepare h ext prid trid call d = Some (pr, d')
    \<and> pr_path pr = None \<and> pr_permission pr = Approved"
proof -
  let ?w = "dp_workspace d" let ?e = "shell_effects [] (trim raw) (Inr p)"
  let ?eff = "?e\<lparr>ef_paths := [ws_workdir ?w]\<rparr>"
  have kinds: "ps_dangerous_kinds p = []" "ps_commands p \<noteq> []" "list_all is_safe (ps_commands p)"
    using ro by (simp_all add: classify_readonly_def)
  have none: "concat (map command_paths (ps_commands p)) = []" using paths by simp
  have e: "ef_paths ?e = []" "ef_dangerous_kinds ?e = []" "ef_class ?e = ReadOnly"
    using ro kinds by (simp_all add: shell_effects_def Let_def dedup_preserve_order_def none)
  have "nonempty_str (Some (trim raw)) = Some (trim raw)"
    using ne by (simp add: nonempty_str_def split: list.split)
  then have "analyze_effects ext ''Bash'' (tc_input call) = Some ?e"
    by (simp add: analyze_effects_def analyze_shell_def cmd cwd p file_path_paths_def nonempty_str_def)
  moreover have "resolve_shell_paths ?w (tc_input call) ?e = ?eff"
    by (simp add: resolve_shell_paths_def e bash_cwd_def resolve_cwd_def cwd wd Let_def)
  ultimately have eff: "call_effects h ext ?w call = Some ?eff"
    by (simp add: call_effects_def name is_shell_def exempt_cd_git_def e)
  have scope: "out_of_scope h d ?eff [ws_workdir ?w] st = ([], st)" for st
    using wd by simp
  have "\<not> bash_safe_write_allowed ''Bash'' ?eff True"
    using kinds(3) is_safe_tables(2)
    by (auto simp: bash_safe_write_allowed_def shell_effects_segments segment_of_def list_all_iff
        list_ex_iff)
  then have "fst (tool_gate trid call ?eff True (d\<lparr>dp_gate := (dp_gate d)\<lparr>gt_store := st\<rparr>\<rparr>))
      = Some Approved" for st
    using wd(3) ok check_approves_spec [of trid "''Bash''" ?eff "(dp_gate d)\<lparr>gt_store := st\<rparr>"]
    by (auto simp: tool_gate_def Let_def yolo_decision_def has_dangerous_pattern_def e name
        edit_auto_allowed_def)
  then obtain g3 where "tool_gate trid call ?eff True
      (d\<lparr>dp_gate := (dp_gate d)\<lparr>gt_store := gt_store (dp_gate d)\<rparr>\<rparr>) = (Some Approved, g3)"
    by (metis prod.collapse)
  then show ?thesis
    by (simp add: prepare_def eff scope Let_def del: out_of_scope.simps)
qed

text \<open>A program in any language runs unasked: \<open>python\<close>, \<open>perl\<close>, \<open>node\<close> and others are in the table
  of read-only commands for their version queries, but the table looks at the first word only.
  In every mode, under every policy and whatever deny rules there are, a \<open>Bash\<close> call that is one
  interpreter command, with any arguments in which the analysis sees no target, is let through
  without a request.\<close>

theorem interpreter_calls_run_unasked:
  assumes "tc_name call = ''Bash''" and "json_get_str (tc_input call) ''command'' = Some raw"
    and "json_get_str (tc_input call) ''cwd'' = None" and "trim raw \<noteq> []"
    and "parse ext (trim raw) = Some (Inr p)" and "ps_commands p = [c]"
    and "pc_root c \<in> {''python'', ''python3'', ''perl'', ''ruby'', ''node'', ''go'', ''java'', ''env''}"
    and "pc_write_targets c = []" and "delete_targets c = []" and "\<not> pc_has_heredoc c"
    and "ps_dangerous_kinds p = []" and "\<not> ps_dangerous p"
    and "is_absolute (ws_workdir (dp_workspace d))"
    and "allows h (dp_workspace d) (ws_workdir (dp_workspace d))"
    and "\<not> is_git_meta_path (ws_workdir (dp_workspace d))"
    and "''Bash'' \<notin> set (lr_auto_denied_tools (gt_learned (dp_gate d)))"
  shows "\<exists>pr d'. prepare h ext prid trid call d = Some (pr, d')
    \<and> pr_path pr = None \<and> pr_permission pr = Approved"
proof (rule prepare_simple_bash)
  have "pc_root c \<in> set SAFE_ROOTS"
    using assms(7) by (auto simp: SAFE_ROOTS_def)
  then show "classify_readonly p"
    using assms by (simp add: classify_readonly_def is_safe_def)
  show "\<forall>c \<in> set (ps_commands p). command_paths c = []"
    using assms by (simp add: command_paths_def)
qed (fact assms)+

text \<open>A redirection without a command truncates a file unseen: \<open>> f\<close> alone has no body in the syntax
  tree and no words in the fallback, so that the walk drops it with its target; beside a read-only
  command the whole line is read-only.\<close>

lemma bare_redirection_is_dropped:
  assumes "tn_kind r = ''redirected_statement''" and "child_by_field ''body'' r = None"
    and "tn_named r" and "tn_kind tree = ''program''"
    and "collect_ast_commands (parse_fuel ext (length line)) line
        (TsNode ''program'' nm fld st en (before @ after)) co = Some res"
    and "tree = TsNode ''program'' nm fld st en (before @ r # after)"
  shows "collect_ast_commands (parse_fuel ext (length line)) line tree co = Some res"
proof -
  have skip: "collect_ast_commands P src r co = Some co" for P src co
    using assms(1,2) by (simp add: collect_ast_commands.simps [of _ _ r])
  have "fold_opt g (before @ r # after) co = fold_opt g (before @ after) co"
    if "\<And>s. g r s = Some s" for g :: "ts_node \<Rightarrow> collected \<Rightarrow> collected option" and co
    using that by (induction before arbitrary: co) (simp_all add: that split: Option.bind_splits)
  then show ?thesis
    using assms(3,5,6) skip
    by (simp add: collect_ast_commands.simps [of _ _ "TsNode _ _ _ _ _ _"] enter_node_def Let_def)
qed

lemma interpreter_calls_run_unasked_witness:
  "\<exists>pr d'. prepare ex_host ex_ext ''p'' ''t'' (ex_bash ''perl x.pl'') (ex_dispatcher DefaultMode)
     = Some (pr, d') \<and> pr_permission pr = Approved"
proof -
  let ?c = "\<lparr>pc_root = ''perl'', pc_argv = [''perl'', ''x.pl''], pc_env_prefix = [],
    pc_write_targets = [], pc_has_heredoc = False\<rparr>"
  let ?p = "\<lparr>ps_commands = [?c], ps_dangerous = False, ps_danger_reason = None,
    ps_dangerous_kinds = []\<rparr>"
  have "parse ex_ext (trim ''perl x.pl'') = Some (Inr ?p)" "trim ''perl x.pl'' \<noteq> []"
    "delete_targets ?c = []"
    "allows ex_host (dp_workspace (ex_dispatcher DefaultMode))
       (ws_workdir (dp_workspace (ex_dispatcher DefaultMode)))"
    "\<not> is_git_meta_path (ws_workdir (dp_workspace (ex_dispatcher DefaultMode)))"
    "is_absolute (ws_workdir (dp_workspace (ex_dispatcher DefaultMode)))"
    "''Bash'' \<notin> set (lr_auto_denied_tools (gt_learned (dp_gate (ex_dispatcher DefaultMode))))"
    by code_simp+
  then show ?thesis
    using interpreter_calls_run_unasked [of "ex_bash ''perl x.pl''" "''perl x.pl''" ex_ext ?p ?c
        "ex_dispatcher DefaultMode" ex_host "''p''" "''t''"]
    by (fastforce simp: ex_bash_def json_get_str_def)
qed

end
